(* ===== verification/Prelude.thy ===== *)
theory Prelude
  imports Main "HOL-Library.Word"
begin

unbundle bit_operations_syntax

text \<open>
  The vocabulary every component shares: bytes and buffers, the JavaScript error values and the
  result type that carries them, the 32-bit bitwise operators of JavaScript on integer numbers,
  and the little-endian layouts that Node's \<open>Buffer\<close> reads and writes.

  A JavaScript number that the source uses as an integer is an \<open>int\<close>. The bitwise operators
  convert their operands to 32 bits first, so they are defined through \<open>32 word\<close> and give back
  the signed (or, for \<open>>>>\<close>, unsigned) reading of the result, exactly as the language does.
\<close>

section \<open>Bytes, errors, results\<close>

type_synonym byte = "8 word"
type_synonym bytes = "byte list"

text \<open>
  What a JavaScript call can end with instead of a value. \<open>Diverges\<close> is not an exception of the
  language: it marks a loop that never ends, so that every model is total and says so.
\<close>

datatype jserror =
    RangeError
  | TypeError
  | JsError string
  | Diverges

type_synonym 'a result = "jserror + 'a"

definition rbind :: "'a result \<Rightarrow> ('a \<Rightarrow> 'b result) \<Rightarrow> 'b result" where
  "rbind x f = (case x of Inl e \<Rightarrow> Inl e | Inr a \<Rightarrow> f a)"

definition rmap :: "('a \<Rightarrow> 'b) \<Rightarrow> 'a result \<Rightarrow> 'b result" where
  "rmap f x = (case x of Inl e \<Rightarrow> Inl e | Inr a \<Rightarrow> Inr (f a))"

definition is_ok :: "'a result \<Rightarrow> bool" where
  "is_ok x = (case x of Inl _ \<Rightarrow> False | Inr _ \<Rightarrow> True)"

lemma rbind_simps [simp]:
  "rbind (Inl e) f = Inl e"
  "rbind (Inr a) f = f a"
  by (simp_all add: rbind_def)

lemma rmap_simps [simp]:
  "rmap f (Inl e) = Inl e"
  "rmap f (Inr a) = Inr (f a)"
  by (simp_all add: rmap_def)

lemma is_ok_simps [simp]:
  "\<not> is_ok (Inl e)"
  "is_ok (Inr a)"
  by (simp_all add: is_ok_def)

lemma rbind_Inr_iff: "rbind x f = Inr b \<longleftrightarrow> (\<exists>a. x = Inr a \<and> f a = Inr b)"
  by (cases x) simp_all

lemma rbind_InrE:
  assumes "rbind x f = Inr b"
  obtains a where "x = Inr a" "f a = Inr b"
  using assms by (auto simp: rbind_Inr_iff)

lemma rbind_Inl_iff:
  "rbind x f = Inl e \<longleftrightarrow> x = Inl e \<or> (\<exists>a. x = Inr a \<and> f a = Inl e)"
  by (cases x) simp_all

lemma rmap_Inr_iff: "rmap f x = Inr b \<longleftrightarrow> (\<exists>a. x = Inr a \<and> b = f a)"
  by (cases x) auto

section \<open>Integer numbers and the 32-bit operators\<close>

definition to_i32 :: "int \<Rightarrow> 32 word" where
  "to_i32 x = word_of_int x"

definition js_and :: "int \<Rightarrow> int \<Rightarrow> int" where
  "js_and a b = sint (to_i32 a AND to_i32 b)"

definition js_or :: "int \<Rightarrow> int \<Rightarrow> int" where
  "js_or a b = sint (to_i32 a OR to_i32 b)"

definition js_xor :: "int \<Rightarrow> int \<Rightarrow> int" where
  "js_xor a b = sint (to_i32 a XOR to_i32 b)"

definition js_not :: "int \<Rightarrow> int" where
  "js_not a = sint (NOT (to_i32 a))"

text \<open>\<open>a << n\<close>, \<open>a >> n\<close> and \<open>a >>> n\<close>: the shift count is taken modulo 32.\<close>

definition js_shl :: "int \<Rightarrow> int \<Rightarrow> int" where
  "js_shl a n = sint (push_bit (nat (n mod 32)) (to_i32 a))"

definition js_shr :: "int \<Rightarrow> int \<Rightarrow> int" where
  "js_shr a n = sint (signed_drop_bit (nat (n mod 32)) (to_i32 a))"

definition js_ushr :: "int \<Rightarrow> int \<Rightarrow> int" where
  "js_ushr a n = uint (drop_bit (nat (n mod 32)) (to_i32 a))"

definition js_imul :: "int \<Rightarrow> int \<Rightarrow> int" where
  "js_imul a b = sint (to_i32 a * to_i32 b)"

text \<open>Storing a number into an element of a \<open>Buffer\<close> keeps its low eight bits.\<close>

definition byte_of :: "int \<Rightarrow> byte" where
  "byte_of x = word_of_int x"

lemma to_i32_sint [simp]: "to_i32 (sint (w :: 32 word)) = w"
  by (simp add: to_i32_def)

lemma to_i32_uint [simp]: "to_i32 (uint (w :: 32 word)) = w"
  by (simp add: to_i32_def)

lemma to_i32_js_ops [simp]:
  "to_i32 (js_and a b) = to_i32 a AND to_i32 b"
  "to_i32 (js_or a b) = to_i32 a OR to_i32 b"
  "to_i32 (js_xor a b) = to_i32 a XOR to_i32 b"
  "to_i32 (js_not a) = NOT (to_i32 a)"
  "to_i32 (js_shl a n) = push_bit (nat (n mod 32)) (to_i32 a)"
  "to_i32 (js_ushr a n) = drop_bit (nat (n mod 32)) (to_i32 a)"
  "to_i32 (js_imul a b) = to_i32 a * to_i32 b"
  by (simp_all add: js_and_def js_or_def js_xor_def js_not_def js_shl_def js_ushr_def js_imul_def)

lemma js_ushr_0: "js_ushr a 0 = a mod 2 ^ 32"
  by (simp add: js_ushr_def to_i32_def uint_word_of_int)

lemma js_ushr_0_range: "0 \<le> js_ushr a 0 \<and> js_ushr a 0 < 2 ^ 32"
  by (simp add: js_ushr_0)

lemma js_ushr_0_id: "0 \<le> a \<Longrightarrow> a < 2 ^ 32 \<Longrightarrow> js_ushr a 0 = a"
  by (simp add: js_ushr_0)

end
