(* ===== verification/JsNumber.thy ===== *)
theory JsNumber
  imports Prelude Complex_Main "HOL-Library.Log_Nat"
begin

text \<open>
  JavaScript's numbers where they are not integers: binary64 values as rationals. \<open>fl\<close> rounds the exact
  result of an operation to 53 significant bits, ties to even, as the language requires; the sum,
  product and quotient of two numbers are \<open>fl\<close> of the exact one. Not represented are the sign of zero
  and the limits of the exponent; infinities and NaN are the other constructors of \<open>jsnum\<close>.
\<close>

section \<open>Rounding to 53 bits\<close>

definition ilog2 :: "rat \<Rightarrow> int" where
  "ilog2 x = (if x \<ge> 1 then int (floorlog 2 (nat \<lfloor>x\<rfloor>)) - 1
              else - int (floorlog 2 (nat (\<lceil>1 / x\<rceil> - 1))))"

definition round_even :: "rat \<Rightarrow> int" where
  "round_even q =
     (let f = \<lfloor>q\<rfloor>; r = q - of_int f
      in if r < 1 / 2 then f else if r > 1 / 2 then f + 1 else if even f then f else f + 1)"

definition pow2 :: "int \<Rightarrow> rat" where
  "pow2 e = (if e \<ge> 0 then 2 ^ nat e else 1 / 2 ^ nat (- e))"

definition fl_pos :: "rat \<Rightarrow> rat" where
  "fl_pos x = (let u = pow2 (ilog2 x - 52) in of_int (round_even (x / u)) * u)"

definition fl :: "rat \<Rightarrow> rat" where
  "fl x = (if x = 0 then 0 else if x > 0 then fl_pos x else - fl_pos (- x))"

subsection \<open>The exponent\<close>

lemma pow2_powi: "pow2 e = 2 powi e"
  by (auto simp: pow2_def power_int_def power_one_over inverse_eq_divide)

lemma pow2_pos [simp]: "0 < pow2 e"
  by (simp add: pow2_def)

lemma pow2_Suc: "pow2 (e + 1) = 2 * pow2 e"
  by (simp add: pow2_powi power_int_add_1')

lemma pow2_mono: "a \<le> b \<Longrightarrow> pow2 a \<le> pow2 b"
  by (simp add: pow2_powi power_int_increasing)

lemma pow2_add: "pow2 (a + b) = pow2 a * pow2 b"
  by (simp add: pow2_powi power_int_add)

lemma pow2_minus: "pow2 (- a) = 1 / pow2 a"
  by (simp add: pow2_powi power_int_minus_divide)

lemma pow2_nat: "pow2 (int n) = 2 ^ n"
  by (simp add: pow2_def)

lemma of_nat_pow_bounds:
  "2 ^ k \<le> n \<Longrightarrow> (2 :: rat) ^ k \<le> of_nat n"
  "n < 2 ^ Suc k \<Longrightarrow> of_nat n + 1 \<le> (2 :: rat) ^ Suc k"
proof -
  assume "2 ^ k \<le> n"
  then have "of_nat (2 ^ k) \<le> (of_nat n :: rat)" by (simp only: of_nat_le_iff)
  then show "(2 :: rat) ^ k \<le> of_nat n" by (simp only: of_nat_power of_nat_numeral)
next
  assume "n < 2 ^ Suc k"
  then have "of_nat (Suc n) \<le> (of_nat (2 ^ Suc k) :: rat)" by (simp only: of_nat_le_iff Suc_le_eq)
  then show "of_nat n + 1 \<le> (2 :: rat) ^ Suc k"
    by (simp only: of_nat_power of_nat_numeral of_nat_Suc add.commute)
qed

lemma ilog2_bounds:
  assumes "0 < x"
  shows "pow2 (ilog2 x) \<le> x" "x < pow2 (ilog2 x + 1)"
proof -
  have "pow2 (ilog2 x) \<le> x \<and> x < pow2 (ilog2 x + 1)"
  proof (cases "x \<ge> 1")
    case True
    define n where "n = nat \<lfloor>x\<rfloor>"
    have n: "0 < n" "of_nat n \<le> x" "x < of_nat n + 1"
      using True unfolding n_def by (linarith, simp, linarith?)
    obtain k where k: "floorlog 2 n = Suc k" using n floorlog_eq_zero_iff [of 2 n] by (cases "floorlog 2 n") auto
    have "2 ^ k \<le> n" "n < 2 ^ Suc k" using floorlog_bounds [of n 2] n k by auto
    then have b: "(2 :: rat) ^ k \<le> of_nat n" "of_nat n + 1 \<le> (2 :: rat) ^ Suc k"
      using of_nat_pow_bounds by blast+
    have il: "ilog2 x = int k" using True k by (simp add: ilog2_def n_def)
    have "pow2 (int k + 1) = 2 ^ Suc k" using pow2_nat [of "Suc k"] by (simp add: add.commute)
    then show ?thesis using n b unfolding il pow2_nat by linarith
  next
    case False
    define m where "m = nat (\<lceil>1 / x\<rceil> - 1)"
    have ge: "1 < 1 / x" using assms False by simp
    then have m: "of_nat m < 1 / x" "1 / x \<le> of_nat m + 1" "0 < m"
      unfolding m_def by linarith+
    obtain k where k: "floorlog 2 m = Suc k" using m floorlog_eq_zero_iff [of 2 m] by (cases "floorlog 2 m") auto
    have "2 ^ k \<le> m" "m < 2 ^ Suc k" using floorlog_bounds [of m 2] m k by auto
    then have b: "(2 :: rat) ^ k \<le> of_nat m" "of_nat m + 1 \<le> (2 :: rat) ^ Suc k"
      using of_nat_pow_bounds by blast+
    have il: "ilog2 x = - int (Suc k)" using False k by (simp add: ilog2_def m_def)
    have p1: "pow2 (ilog2 x) = 1 / 2 ^ Suc k" unfolding il pow2_minus pow2_nat by (rule refl)
    have p2: "pow2 (ilog2 x + 1) = 1 / 2 ^ k" using pow2_minus [of "int k"] by (simp add: il pow2_nat)
    have "1 / x \<le> 2 ^ Suc k" "2 ^ k < 1 / x" using m b by linarith+
    then show ?thesis using assms unfolding p1 p2 by (simp add: field_simps)
  qed
  then show "pow2 (ilog2 x) \<le> x" "x < pow2 (ilog2 x + 1)" by auto
qed

lemma ilog2_mono: "0 < x \<Longrightarrow> x \<le> y \<Longrightarrow> ilog2 x \<le> ilog2 y"
proof (rule ccontr)
  assume a: "0 < x" "x \<le> y" "\<not> ilog2 x \<le> ilog2 y"
  then have "pow2 (ilog2 y + 1) \<le> pow2 (ilog2 x)" by (intro pow2_mono) simp
  with a ilog2_bounds [of x] ilog2_bounds [of y] show False by linarith
qed

lemma ilog2_unique:
  assumes "pow2 e \<le> x" "x < pow2 (e + 1)"
  shows "ilog2 x = e"
proof -
  have pos: "0 < x" using assms(1) pow2_pos [of e] by linarith
  have "\<not> ilog2 x + 1 \<le> e" "\<not> e + 1 \<le> ilog2 x"
    using pow2_mono [of "ilog2 x + 1" e] pow2_mono [of "e + 1" "ilog2 x"] ilog2_bounds [OF pos] assms
    by linarith+
  then show ?thesis by simp
qed

subsection \<open>Rounding to an integer\<close>

lemma round_even_err: "\<bar>of_int (round_even q) - q\<bar> \<le> 1 / 2"
proof -
  let ?f = "\<lfloor>q\<rfloor>"
  have "0 \<le> q - of_int ?f" "q - of_int ?f < 1" by linarith+
  moreover have "round_even q = ?f \<and> q - of_int ?f \<le> 1 / 2
      \<or> round_even q = ?f + 1 \<and> q - of_int ?f \<ge> 1 / 2"
    by (auto simp: round_even_def Let_def)
  ultimately show ?thesis by (elim disjE conjE) (simp_all add: abs_le_iff)
qed

lemma round_even_int [simp]: "round_even (of_int n) = n"
  by (simp add: round_even_def)

lemma round_even_mono:
  assumes "p \<le> q"
  shows "round_even p \<le> round_even q"
proof (cases "\<lfloor>p\<rfloor> = \<lfloor>q\<rfloor>")
  case True
  then show ?thesis using assms by (auto simp: round_even_def Let_def)
next
  case False
  then have "\<lfloor>p\<rfloor> + 1 \<le> \<lfloor>q\<rfloor>" using floor_mono [OF assms] by simp
  moreover have "round_even p \<le> \<lfloor>p\<rfloor> + 1" "\<lfloor>q\<rfloor> \<le> round_even q"
    by (auto simp: round_even_def Let_def)
  ultimately show ?thesis by simp
qed

subsection \<open>Rounding to a binary64\<close>

definition ulp :: "rat \<Rightarrow> rat" where "ulp x = pow2 (ilog2 x - 52)"

lemma ulp_pos [simp]: "0 < ulp x"
  by (simp add: ulp_def)

lemma fl_pos_eq: "fl_pos x = of_int (round_even (x / ulp x)) * ulp x"
  by (simp add: fl_pos_def ulp_def Let_def)

lemma pow2_ulp: "pow2 (ilog2 x) = 2 ^ 52 * ulp x" "pow2 (ilog2 x + 1) = 2 ^ 53 * ulp x"
  using pow2_add [of 52 "ilog2 x - 52"] pow2_add [of 53 "ilog2 x - 52"] pow2_nat [of 52] pow2_nat [of 53]
  by (simp_all add: ulp_def add.commute)

lemma ulp_bounds:
  assumes "0 < x"
  shows "2 ^ 52 * ulp x \<le> x" "x < 2 ^ 53 * ulp x"
  using ilog2_bounds [OF assms] unfolding pow2_ulp .

lemma fl_pos_err: "\<bar>fl_pos x - x\<bar> \<le> ulp x / 2"
proof -
  have "fl_pos x - x = (of_int (round_even (x / ulp x)) - x / ulp x) * ulp x"
    using ulp_pos [of x] by (simp add: fl_pos_eq left_diff_distrib less_imp_neq [THEN not_sym])
  then have "\<bar>fl_pos x - x\<bar> = \<bar>of_int (round_even (x / ulp x)) - x / ulp x\<bar> * ulp x"
    using ulp_pos [of x] by (simp add: abs_mult abs_of_pos)
  also have "\<dots> \<le> 1 / 2 * ulp x" by (rule mult_right_mono [OF round_even_err]) (simp add: less_imp_le)
  finally show ?thesis by simp
qed

lemma fl_pos_range:
  assumes "0 < x"
  shows "pow2 (ilog2 x) \<le> fl_pos x" "fl_pos x \<le> pow2 (ilog2 x + 1)"
proof -
  have r: "2 ^ 52 \<le> x / ulp x" "x / ulp x \<le> 2 ^ 53"
    using ulp_bounds [OF assms] by (simp_all add: field_simps)
  have "round_even (of_int (2 ^ 52)) \<le> round_even (x / ulp x)"
    "round_even (x / ulp x) \<le> round_even (of_int (2 ^ 53))"
    using r by (intro round_even_mono; simp)+
  then have "2 ^ 52 \<le> round_even (x / ulp x)" "round_even (x / ulp x) \<le> 2 ^ 53"
    unfolding round_even_int .
  then have i: "of_int (2 ^ 52) \<le> (of_int (round_even (x / ulp x)) :: rat)"
    "of_int (round_even (x / ulp x)) \<le> (of_int (2 ^ 53) :: rat)"
    by (simp_all only: of_int_le_iff)
  show "pow2 (ilog2 x) \<le> fl_pos x" "fl_pos x \<le> pow2 (ilog2 x + 1)"
    using i unfolding pow2_ulp fl_pos_eq
    by (intro mult_right_mono; simp add: less_imp_le)+
qed

lemma fl_pos_mono:
  assumes "0 < x" "x \<le> y"
  shows "fl_pos x \<le> fl_pos y"
proof (cases "ilog2 x = ilog2 y")
  case True
  then have u: "ulp x = ulp y" by (simp add: ulp_def)
  have "x / ulp y \<le> y / ulp y" using assms by (intro divide_right_mono) (simp_all add: less_imp_le)
  from round_even_mono [OF this] show ?thesis
    unfolding fl_pos_eq u by (intro mult_right_mono) (simp_all add: less_imp_le)
next
  case False
  with ilog2_mono [OF assms] have "ilog2 x + 1 \<le> ilog2 y" by simp
  from pow2_mono [OF this] fl_pos_range [OF assms(1)] fl_pos_range [of y] assms
  show ?thesis by linarith
qed

lemma fl_0 [simp]: "fl 0 = 0"
  by (simp add: fl_def)

lemma fl_minus: "fl (- x) = - fl x"
  by (simp add: fl_def)

lemma fl_pos_nonneg: "0 < x \<Longrightarrow> 0 < fl_pos x"
  using fl_pos_range(1) [of x] pow2_pos [of "ilog2 x"] by linarith

lemma fl_nonneg: "0 \<le> x \<Longrightarrow> 0 \<le> fl x"
  using fl_pos_nonneg [of x] by (auto simp: fl_def)

lemma fl_pos_iff [simp]: "0 < fl x \<longleftrightarrow> 0 < x"
  using fl_pos_nonneg [of x] fl_pos_nonneg [of "- x"] by (auto simp: fl_def)

lemma fl_eq_0_iff [simp]: "fl x = 0 \<longleftrightarrow> x = 0"
  using fl_pos_nonneg [of x] fl_pos_nonneg [of "- x"] by (auto simp: fl_def)

lemma fl_mono: "x \<le> y \<Longrightarrow> fl x \<le> fl y"
proof -
  assume le: "x \<le> y"
  consider "x \<le> 0" "0 \<le> y" | "0 < x" "0 < y" | "x < 0" "y < 0" using le by linarith
  then show ?thesis
  proof cases
    case 1
    then show ?thesis
      using fl_nonneg [of y] fl_nonneg [of "- x"] by (simp add: fl_minus)
  next
    case 2
    then show ?thesis using fl_pos_mono le by (simp add: fl_def)
  next
    case 3
    then show ?thesis using fl_pos_mono [of "- y" "- x"] le by (simp add: fl_def)
  qed
qed

text \<open>The relative error of one operation is at most \<open>2 ^ -53\<close>.\<close>

lemma fl_err: "\<bar>fl x - x\<bar> \<le> \<bar>x\<bar> / 2 ^ 53"
proof -
  have pos: "\<bar>fl_pos y - y\<bar> \<le> y / 2 ^ 53" if "0 < y" for y
    using fl_pos_err [of y] ulp_bounds(1) [OF that] by simp
  show ?thesis
  proof (cases x "0 :: rat" rule: linorder_cases)
    case less
    have "\<bar>fl x - x\<bar> = \<bar>fl_pos (- x) - (- x)\<bar>" using less by (simp add: fl_def abs_if)
    with pos [of "- x"] less show ?thesis by simp
  qed (use pos [of x] in \<open>simp_all add: fl_def\<close>)
qed

lemma fl_le: "0 \<le> x \<Longrightarrow> fl x \<le> x * (1 + 1 / 2 ^ 53)"
  using fl_err [of x] unfolding abs_le_iff by (simp add: field_simps)

lemma fl_ge: "0 \<le> x \<Longrightarrow> x * (1 - 1 / 2 ^ 53) \<le> fl x"
  using fl_err [of x] unfolding abs_le_iff by (simp add: field_simps)

text \<open>Integers up to \<open>2 ^ 53\<close> are exact.\<close>

lemma fl_int_pos:
  assumes "0 < n" "n \<le> 2 ^ 53"
  shows "fl_pos (of_int n) = of_int n"
proof -
  define k where "k = 52 - ilog2 (of_int n)"
  have n: "(0 :: rat) < of_int n" using assms by simp
  have lo: "0 \<le> ilog2 (of_int n)"
  proof (rule ccontr)
    assume "\<not> 0 \<le> ilog2 (of_int n)"
    then have "pow2 (ilog2 (of_int n) + 1) \<le> pow2 0" by (intro pow2_mono) simp
    with ilog2_bounds(2) [OF n] assms show False by (simp add: pow2_def)
  qed
  show ?thesis
  proof (cases "ilog2 (of_int n) \<le> 52")
    case True
    define m where "m = nat (52 - ilog2 (of_int n))"
    have u: "ulp (of_int n) = 1 / 2 ^ m"
    proof -
      have "ilog2 (of_int n) - 52 = - int m" using True by (simp add: m_def)
      then show ?thesis by (simp add: ulp_def pow2_minus pow2_nat)
    qed
    have "of_int n / ulp (of_int n) = of_int (n * 2 ^ m)" by (simp add: u)
    then show ?thesis unfolding fl_pos_eq round_even_int by (simp only: round_even_int) (simp add: u)
  next
    case False
    have "pow2 53 \<le> pow2 (ilog2 (of_int n))" using False by (intro pow2_mono) simp
    with ilog2_bounds(1) [OF n] have "(2 :: rat) ^ 53 \<le> of_int n" using pow2_nat [of 53] by simp
    then have "of_int (2 ^ 53) \<le> (of_int n :: rat)" by simp
    then have n53: "n = 2 ^ 53" using assms by (simp only: of_int_le_iff)
    have il: "ilog2 (of_int n) = 53"
      using pow2_nat [of 53] pow2_nat [of 54] by (intro ilog2_unique) (simp_all add: n53)
    have u: "ulp (of_int n) = 2" using pow2_nat [of 1] by (simp add: ulp_def il)
    have "of_int n / ulp (of_int n) = of_int (2 ^ 52)" using u by (simp add: n53)
    then have "round_even (of_int n / ulp (of_int n)) = 2 ^ 52" by (simp only: round_even_int)
    then show ?thesis using u by (simp add: fl_pos_eq n53)
  qed
qed

lemma fl_int [simp]:
  assumes "\<bar>n\<bar> \<le> 2 ^ 53"
  shows "fl (of_int n) = of_int n"
proof (cases n "0 :: int" rule: linorder_cases)
  case less
  then show ?thesis using fl_int_pos [of "- n"] assms by (simp add: fl_def)
next
  case greater
  then show ?thesis using fl_int_pos [of n] assms by (simp add: fl_def)
qed simp

text \<open>Scaling by a power of two is exact, and an integer stays an integer.\<close>

lemma fl_pos_pow2: "0 < x \<Longrightarrow> fl_pos (pow2 e * x) = pow2 e * fl_pos x"
proof -
  assume x: "0 < x"
  have "ilog2 (pow2 e * x) = e + ilog2 x"
    using ilog2_bounds [OF x] by (intro ilog2_unique) (simp_all add: pow2_add add.assoc)
  then have u: "ulp (pow2 e * x) = pow2 e * ulp x"
    by (simp add: ulp_def add_diff_eq [symmetric] pow2_add)
  have "pow2 e \<noteq> 0" using pow2_pos [of e] by linarith
  then show ?thesis by (simp add: fl_pos_eq u)
qed

lemma fl_pow2: "fl (pow2 e * x) = pow2 e * fl x"
proof -
  have "\<not> pow2 e < 0" "pow2 e \<noteq> 0" using pow2_pos [of e] by linarith+
  then show ?thesis
    using fl_pos_pow2 [of x e] fl_pos_pow2 [of "- x" e] by (auto simp: fl_def zero_less_mult_iff)
qed

lemma fl_int_Ints: "0 \<le> n \<Longrightarrow> \<exists>k. fl (of_int n) = of_int k"
proof (cases "n \<le> 2 ^ 53")
  case False
  let ?x = "of_int n :: rat"
  have "(of_int (2 ^ 53) :: rat) < ?x" unfolding of_int_less_iff using False by simp
  then have x: "pow2 53 \<le> ?x" using pow2_nat [of 53] by simp
  then have "ilog2 (pow2 53) \<le> ilog2 ?x" by (intro ilog2_mono) simp_all
  moreover have "ilog2 (pow2 53) = 53"
    using pow2_Suc [of 53] pow2_pos [of 53] by (intro ilog2_unique) simp_all
  ultimately have "ulp ?x = of_int (2 ^ nat (ilog2 ?x - 52))"
    by (simp add: ulp_def pow2_def)
  then have "fl_pos ?x = of_int (round_even (?x / ulp ?x) * 2 ^ nat (ilog2 ?x - 52))"
    by (simp only: fl_pos_eq of_int_mult)
  moreover have "0 < ?x" using x pow2_pos [of 53] by linarith
  ultimately show ?thesis by (metis fl_def less_irrefl)
next
  case True
  assume "0 \<le> n"
  with True have "\<bar>n\<bar> \<le> 2 ^ 53" by simp
  then show ?thesis by (metis fl_int)
qed

section \<open>Numbers with their exceptional values\<close>

datatype jsnum = Num rat | PosInf | NegInf | NaN

definition isFinite :: "jsnum \<Rightarrow> bool" where
  "isFinite x = (case x of Num _ \<Rightarrow> True | _ \<Rightarrow> False)"

text \<open>Comparisons with NaN are false.\<close>

definition js_lt :: "jsnum \<Rightarrow> jsnum \<Rightarrow> bool" where
  "js_lt x y = (case (x, y) of
      (Num a, Num b) \<Rightarrow> a < b
    | (NegInf, Num _) \<Rightarrow> True | (NegInf, PosInf) \<Rightarrow> True | (Num _, PosInf) \<Rightarrow> True
    | _ \<Rightarrow> False)"

definition js_le :: "jsnum \<Rightarrow> jsnum \<Rightarrow> bool" where
  "js_le x y \<longleftrightarrow> js_lt x y \<or> (x = y \<and> x \<noteq> NaN)"

text \<open>\<open>Math.floor\<close>, \<open>Math.trunc\<close> and \<open>Math.round\<close> of a finite number.\<close>

definition js_trunc :: "rat \<Rightarrow> int" where
  "js_trunc x = (if x \<ge> 0 then \<lfloor>x\<rfloor> else \<lceil>x\<rceil>)"

definition js_round :: "rat \<Rightarrow> int" where
  "js_round x = \<lfloor>x + 1 / 2\<rfloor>"

lemma js_round_mono: "x \<le> y \<Longrightarrow> js_round x \<le> js_round y"
  by (simp add: js_round_def floor_mono)

end
