(* ===== verification/Utf8.thy ===== *)
theory Utf8
  imports Prelude
begin

text \<open>
  UTF-8 as Node's \<open>Buffer.from(s, 'utf8')\<close> and \<open>buf.toString('utf8')\<close> compute it.

  A JavaScript string is modelled as its list of code points (a surrogate without its partner is
  a code point of its own). Encoding writes U+FFFD for such a surrogate. Decoding is the WHATWG
  decoder: it never fails, and replaces every maximal ill-formed part by U+FFFD.
\<close>

type_synonym jsstr = "nat list"

text \<open>A string literal of the source.\<close>

definition jstr :: "string \<Rightarrow> jsstr" where
  "jstr s = map of_char s"

definition scalar :: "nat \<Rightarrow> bool" where
  "scalar c \<longleftrightarrow> c < 0xD800 \<or> 0xE000 \<le> c \<and> c < 0x110000"

definition utf8_char :: "nat \<Rightarrow> nat list" where
  "utf8_char c =
     (if c < 0x80 then [c]
      else if c < 0x800 then [0xC0 + c div 64, 0x80 + c mod 64]
      else if \<not> scalar c then [0xEF, 0xBF, 0xBD]
      else if c < 0x10000 then [0xE0 + c div 4096, 0x80 + c div 64 mod 64, 0x80 + c mod 64]
      else [0xF0 + c div 262144, 0x80 + c div 4096 mod 64, 0x80 + c div 64 mod 64, 0x80 + c mod 64])"

definition utf8_encode :: "jsstr \<Rightarrow> bytes" where
  "utf8_encode s = map word_of_nat (concat (map utf8_char s))"

text \<open>
  The decoder's state: how many continuation bytes are still needed, the code point so far, and
  the range the next continuation byte must lie in. A byte outside the range ends the ill-formed
  part and is read again as a first byte.
\<close>

function utf8_dec :: "nat \<Rightarrow> nat \<Rightarrow> nat \<Rightarrow> nat \<Rightarrow> nat list \<Rightarrow> jsstr" where
  "utf8_dec needed cp lo hi [] = (if needed = 0 then [] else [0xFFFD])"
| "utf8_dec 0 cp lo hi (b # bs) =
     (if b < 0x80 then b # utf8_dec 0 0 0x80 0xBF bs
      else if 0xC2 \<le> b \<and> b \<le> 0xDF then utf8_dec 1 (b - 0xC0) 0x80 0xBF bs
      else if 0xE0 \<le> b \<and> b \<le> 0xEF then
        utf8_dec 2 (b - 0xE0) (if b = 0xE0 then 0xA0 else 0x80) (if b = 0xED then 0x9F else 0xBF) bs
      else if 0xF0 \<le> b \<and> b \<le> 0xF4 then
        utf8_dec 3 (b - 0xF0) (if b = 0xF0 then 0x90 else 0x80) (if b = 0xF4 then 0x8F else 0xBF) bs
      else 0xFFFD # utf8_dec 0 0 0x80 0xBF bs)"
| "utf8_dec (Suc n) cp lo hi (b # bs) =
     (if lo \<le> b \<and> b \<le> hi then
        (if n = 0 then (cp * 64 + (b - 0x80)) # utf8_dec 0 0 0x80 0xBF bs
         else utf8_dec n (cp * 64 + (b - 0x80)) 0x80 0xBF bs)
      else 0xFFFD # utf8_dec 0 0 0x80 0xBF (b # bs))"
  by pat_completeness auto
termination
  by (relation "measures [\<lambda>(n, cp, lo, hi, bs). length bs, \<lambda>(n, cp, lo, hi, bs). n]") auto

definition utf8_decode :: "bytes \<Rightarrow> jsstr" where
  "utf8_decode bs = utf8_dec 0 0 0x80 0xBF (map unat bs)"

lemma utf8_char_bytes: "c < 0x110000 \<Longrightarrow> list_all (\<lambda>b. b < 256) (utf8_char c)"
  by (auto simp: utf8_char_def)

lemma scalar_bound: "scalar c \<Longrightarrow> c < 0x110000"
  by (auto simp: scalar_def)

lemma div_mod_64: "c div 64 * 64 + c mod 64 = (c :: nat)"
  by simp

text \<open>One well-formed character is decoded to its code point, whatever follows it.\<close>

lemma utf8_dec_1:
  assumes "c < 0x80"
  shows "utf8_dec 0 0 0x80 0xBF (utf8_char c @ bs) = c # utf8_dec 0 0 0x80 0xBF bs"
  using assms by (simp add: utf8_char_def)

lemma utf8_dec_2:
  assumes "0x80 \<le> c" "c < 0x800"
  shows "utf8_dec 0 0 0x80 0xBF (utf8_char c @ bs) = c # utf8_dec 0 0 0x80 0xBF bs"
proof -
  have "2 \<le> c div 64" "c div 64 < 32" using assms by auto
  moreover have "c mod 64 < 64" by simp
  ultimately show ?thesis
    using assms by (simp add: utf8_char_def numeral_2_eq_2)
qed

lemma utf8_dec_3:
  assumes "0x800 \<le> c" "c < 0x10000" "scalar c"
  shows "utf8_dec 0 0 0x80 0xBF (utf8_char c @ bs) = c # utf8_dec 0 0 0x80 0xBF bs"
proof -
  define a b where "a = c div 4096" and "b = c div 64 mod 64"
  have a: "a < 16" using assms by (simp add: a_def)
  have b: "b < 64" by (simp add: b_def)
  have "c div 64 = a * 64 + b"
    by (simp add: a_def b_def div_mult2_eq [of c 64 64, simplified])
  then have c: "c = (a * 64 + b) * 64 + c mod 64"
    by (metis div_mod_64)
  have lo: "a = 0 \<longrightarrow> 32 \<le> b" using assms(1) c by auto
  have hi: "b \<le> 31" if "a = 13"
  proof -
    from that c have e: "c = 53248 + b * 64 + c mod 64" by simp
    with b have "c < 57344" using mod_less_divisor [of 64 c] by linarith
    with assms(3) have "c < 55296" by (auto simp: scalar_def)
    with e show ?thesis by linarith
  qed
  have "c mod 64 < 64" "c mod 64 \<le> 63" using mod_less_divisor [of 64 c] by linarith+
  with a b lo hi assms c show ?thesis
    by (simp add: utf8_char_def numeral_2_eq_2 flip: a_def b_def)
qed

lemma utf8_dec_4:
  assumes "0x10000 \<le> c" "c < 0x110000"
  shows "utf8_dec 0 0 0x80 0xBF (utf8_char c @ bs) = c # utf8_dec 0 0 0x80 0xBF bs"
proof -
  define a b d where "a = c div 262144" and "b = c div 4096 mod 64" and "d = c div 64 mod 64"
  have a: "a < 5" using assms by (simp add: a_def)
  have bd: "b < 64" "d < 64" by (simp_all add: b_def d_def)
  have "c div 4096 = a * 64 + b"
    by (simp add: a_def b_def div_mult2_eq [of c 4096 64, simplified])
  then have "c div 64 = (a * 64 + b) * 64 + d"
    by (metis d_def div_mod_64 div_mult2_eq [of c 64 64, simplified])
  then have c: "c = ((a * 64 + b) * 64 + d) * 64 + c mod 64"
    by (metis div_mod_64)
  have lo: "a = 0 \<longrightarrow> 16 \<le> b" using assms(1) c bd by auto
  have hi: "a = 4 \<longrightarrow> b \<le> 15" using assms(2) c by auto
  have "c mod 64 < 64" "c mod 64 \<le> 63" using mod_less_divisor [of 64 c] by linarith+
  with a bd lo hi assms c show ?thesis
    by (simp add: utf8_char_def scalar_def numeral_3_eq_3 flip: a_def b_def d_def)
qed

lemma utf8_dec_char:
  "scalar c \<Longrightarrow> utf8_dec 0 0 0x80 0xBF (utf8_char c @ bs) = c # utf8_dec 0 0 0x80 0xBF bs"
  using utf8_dec_1 utf8_dec_2 utf8_dec_3 utf8_dec_4 scalar_bound
  by (metis not_less)

lemma unat_utf8_bytes:
  "list_all (\<lambda>b. b < 256) bs \<Longrightarrow> map unat (map (word_of_nat :: nat \<Rightarrow> byte) bs) = bs"
  by (induction bs) (simp_all add: unat_of_nat)

lemma utf8_roundtrip:
  assumes "list_all scalar s"
  shows "utf8_decode (utf8_encode s) = s"
proof -
  have 1: "utf8_dec 0 0 0x80 0xBF (concat (map utf8_char s)) = s"
    using assms by (induction s) (simp_all add: utf8_dec_char)
  have 2: "list_all (\<lambda>b. b < 256) (concat (map utf8_char s))"
    using assms scalar_bound utf8_char_bytes
    by (induction s) (auto simp: list_all_iff)
  show ?thesis
    unfolding utf8_decode_def utf8_encode_def unat_utf8_bytes [OF 2] by (rule 1)
qed

lemma length_utf8_ascii: "list_all (\<lambda>c. c < 0x80) s \<Longrightarrow> length (utf8_encode s) = length s"
  by (induction s) (simp_all add: utf8_encode_def utf8_char_def)

text \<open>Literals of the source are ASCII: they are encoded byte by byte and decoded back.\<close>

lemma scalar_ascii: "c < 0x80 \<Longrightarrow> scalar c"
  by (simp add: scalar_def)

end
