(* ===== verification/BinaryCodec.thy ===== *)
theory BinaryCodec
  imports Utf8
begin

text \<open>
  \<open>src/models/sv2/sv2-binary-codec.ts\<close>: the sequential reader and the growing writer that all
  SV2 and DATUM messages are built on.

  A \<open>Buffer\<close> is a list of bytes. The reader is the buffer with an offset and every read is a
  function of the reader (a read that throws is \<open>Inl RangeError\<close>). The writer is the backing
  buffer with its offset; a write may first grow the backing buffer. The contract between the
  two (a written field is read back, and a truncated one is rejected) is the locale
  \<open>wire_field\<close>, and \<open>message_codec\<close> is the same contract for whole messages.
\<close>

section \<open>Little-endian integers in a buffer\<close>

text \<open>\<open>Buffer.readUIntLE\<close> and \<open>Buffer.writeUIntLE\<close> of Node, for any width.\<close>

fun le_nat :: "bytes \<Rightarrow> nat" where
  "le_nat [] = 0"
| "le_nat (b # bs) = unat b + 256 * le_nat bs"

fun le_bytes :: "nat \<Rightarrow> nat \<Rightarrow> bytes" where
  "le_bytes 0 v = []"
| "le_bytes (Suc k) v = word_of_nat v # le_bytes k (v div 256)"

lemma le_bytes_eval:
  "le_bytes (numeral k) v = word_of_nat v # le_bytes (pred_numeral k) (v div 256)"
  by (simp only: numeral_eq_Suc [of k] le_bytes.simps)

lemma length_le_bytes [simp]: "length (le_bytes k v) = k"
  by (induction k arbitrary: v) simp_all

lemma unat_byte_less [simp]: "unat (b :: byte) < 256"
  using unsigned_less [of b, where 'a = nat] by simp

lemma le_nat_le_bytes: "le_nat (le_bytes k v) = v mod 256 ^ k"
proof (induction k arbitrary: v)
  case (Suc k)
  have "unat (word_of_nat v :: byte) = v mod 256"
    by (simp add: unat_of_nat)
  with Suc show ?case
    by (simp add: mod_mult2_eq)
qed simp

lemma le_nat_le_bytes_id: "v < 256 ^ k \<Longrightarrow> le_nat (le_bytes k v) = v"
  by (simp add: le_nat_le_bytes)

lemma le_nat_less: "le_nat bs < 256 ^ length bs"
proof (induction bs)
  case (Cons b bs)
  have "unat b + 256 * le_nat bs < 256 + 256 * le_nat bs"
    by simp
  also have "\<dots> = 256 * Suc (le_nat bs)" by simp
  also have "\<dots> \<le> 256 * 256 ^ length bs"
    using Cons by (intro mult_le_mono2) simp
  finally show ?case by simp
qed simp

lemma le_bytes_le_nat: "le_bytes (length bs) (le_nat bs) = bs"
proof (induction bs)
  case (Cons b bs)
  have 1: "(unat b + 256 * le_nat bs) div 256 = le_nat bs"
    by (simp add: div_add1_eq)
  have "(word_of_nat (unat b + 256 * le_nat bs) :: byte) = b + 256 * word_of_nat (le_nat bs)"
    by simp
  moreover have "(256 :: byte) = 0"
    by simp
  ultimately have 2: "(word_of_nat (unat b + 256 * le_nat bs) :: byte) = b"
    by (simp only: mult_zero_left add_0_right)
  show ?case by (simp add: Cons 1 2 del: of_nat_add of_nat_mult)
qed simp

lemma le_nat_inject: "length a = length b \<Longrightarrow> le_nat a = le_nat b \<Longrightarrow> a = b"
  by (metis le_bytes_le_nat)

lemma le_nat_append: "le_nat (a @ b) = le_nat a + 256 ^ length a * le_nat b"
  by (induction a) (simp_all add: algebra_simps)

section \<open>BufferReader\<close>

record reader =
  rbuf :: bytes
  roff :: nat

type_synonym 'a reading = "reader \<Rightarrow> ('a \<times> reader) result"

definition newReader :: "bytes \<Rightarrow> reader" where
  "newReader b = \<lparr>rbuf = b, roff = 0\<rparr>"

text \<open>Sequencing of reads: the next read continues from where the previous one stopped.\<close>

definition rd_bind :: "'a reading \<Rightarrow> ('a \<Rightarrow> 'b reading) \<Rightarrow> 'b reading" where
  "rd_bind p q = (\<lambda>r. rbind (p r) (\<lambda>(a, r'). q a r'))"

definition rd_ret :: "'a \<Rightarrow> 'a reading" where
  "rd_ret a = (\<lambda>r. Inr (a, r))"

definition rd_fail :: "jserror \<Rightarrow> 'a reading" where
  "rd_fail e = (\<lambda>r. Inl e)"

definition rd_remaining :: "reader \<Rightarrow> nat" where
  "rd_remaining r = length (rbuf r) - roff r"

definition ensure :: "nat \<Rightarrow> unit reading" where
  "ensure n = (\<lambda>r. if roff r + n > length (rbuf r) then Inl RangeError else Inr ((), r))"

text \<open>The bytes \<open>[offset, offset + n)\<close>, and the advance of the offset past them.\<close>

definition rd_slice :: "nat \<Rightarrow> bytes reading" where
  "rd_slice n = (\<lambda>r. Inr (take n (drop (roff r) (rbuf r)), r\<lparr>roff := roff r + n\<rparr>))"

definition readBool :: "bool reading" where
  "readBool = rd_bind (ensure 1) (\<lambda>_. rd_bind (rd_slice 1) (\<lambda>b. rd_ret (hd b \<noteq> 0)))"

definition readU8 :: "int reading" where
  "readU8 = rd_bind (ensure 1) (\<lambda>_. rd_bind (rd_slice 1) (\<lambda>b. rd_ret (uint (hd b))))"

definition readU16 :: "int reading" where
  "readU16 = rd_bind (ensure 2) (\<lambda>_. rd_bind (rd_slice 2) (\<lambda>b. rd_ret (int (le_nat b))))"

definition readU24 :: "int reading" where
  "readU24 = rd_bind (ensure 3) (\<lambda>_. rd_bind (rd_slice 3) (\<lambda>b.
     rd_ret (js_or (js_or (uint (b ! 0)) (js_shl (uint (b ! 1)) 8)) (js_shl (uint (b ! 2)) 16))))"

definition readU32 :: "int reading" where
  "readU32 = rd_bind (ensure 4) (\<lambda>_. rd_bind (rd_slice 4) (\<lambda>b. rd_ret (int (le_nat b))))"

definition readOptionU32 :: "int option reading" where
  "readOptionU32 = rd_bind (ensure 1) (\<lambda>_. rd_bind (rd_slice 1) (\<lambda>flag.
     if hd flag = 0 then rd_ret None
     else rd_bind (ensure 4) (\<lambda>_. rd_bind (rd_slice 4) (\<lambda>b. rd_ret (Some (int (le_nat b)))))))"

definition readU64 :: "int reading" where
  "readU64 = rd_bind (ensure 8) (\<lambda>_. rd_bind (rd_slice 8) (\<lambda>b. rd_ret (int (le_nat b))))"

definition readU256 :: "bytes reading" where
  "readU256 = rd_bind (ensure 32) (\<lambda>_. rd_slice 32)"

text \<open>
  A single-precision number is kept as its 32-bit pattern, which \<open>readFloatLE\<close> and
  \<open>writeFloatLE\<close> map one to one to numbers except for the many patterns of NaN.
\<close>

definition readF32 :: "32 word reading" where
  "readF32 = rd_bind (ensure 4) (\<lambda>_. rd_bind (rd_slice 4) (\<lambda>b. rd_ret (word_of_nat (le_nat b))))"

definition readBytes :: "int \<Rightarrow> bytes reading" where
  "readBytes n = rd_bind (ensure (nat n)) (\<lambda>_. rd_slice (nat n))"

definition readStr0_255 :: "jsstr reading" where
  "readStr0_255 = rd_bind readU8 (\<lambda>len. rd_bind (readBytes len) (\<lambda>b. rd_ret (utf8_decode b)))"

definition readB0_32 :: "bytes reading" where
  "readB0_32 = rd_bind readU8 (\<lambda>len. if len > 32 then rd_fail RangeError else readBytes len)"

definition readB0_255 :: "bytes reading" where
  "readB0_255 = rd_bind readU8 readBytes"

definition readB0_64K :: "bytes reading" where
  "readB0_64K = rd_bind readU16 readBytes"

definition readB0_16M :: "bytes reading" where
  "readB0_16M = rd_bind readU24 readBytes"

text \<open>The \<open>for\<close> loop of the sequence readers: \<open>count\<close> reads of one element.\<close>

fun readN :: "nat \<Rightarrow> 'a reading \<Rightarrow> 'a list reading" where
  "readN 0 readFn = rd_ret []"
| "readN (Suc k) readFn = rd_bind readFn (\<lambda>x. rd_bind (readN k readFn) (\<lambda>xs. rd_ret (x # xs)))"

definition readSeq0_255 :: "'a reading \<Rightarrow> 'a list reading" where
  "readSeq0_255 readFn = rd_bind readU8 (\<lambda>count. readN (nat count) readFn)"

definition readSeq0_64K :: "'a reading \<Rightarrow> 'a list reading" where
  "readSeq0_64K readFn = rd_bind readU16 (\<lambda>count. readN (nat count) readFn)"

section \<open>BufferWriter\<close>

record writer =
  wbuf :: bytes
  woff :: nat

type_synonym writing = "writer \<Rightarrow> writer result"

text \<open>\<open>Buffer.allocUnsafe(256)\<close>: the content is never read before it is written; zeros here.\<close>

definition newWriter :: writer where
  "newWriter = \<lparr>wbuf = replicate 256 0, woff = 0\<rparr>"

text \<open>
  The doubling loop of \<open>ensureCapacity\<close>. From capacity 0 it never ends, so it is a partial
  function and \<open>None\<close> says that it does not return.
\<close>

partial_function (option) grow :: "nat \<Rightarrow> nat \<Rightarrow> nat option" where
  "grow newSize need = (if newSize < need then grow (newSize * 2) need else Some newSize)"

definition ensureCapacity :: "nat \<Rightarrow> writing" where
  "ensureCapacity n w =
     (if woff w + n > length (wbuf w) then
        (case grow (length (wbuf w) * 2) (woff w + n) of
           None \<Rightarrow> Inl Diverges
         | Some newSize \<Rightarrow>
             Inr (w\<lparr>wbuf := take (woff w) (wbuf w) @ replicate (newSize - woff w) 0\<rparr>))
      else Inr w)"

text \<open>Copy \<open>v\<close> into the backing buffer at the offset and advance the offset.\<close>

definition w_store :: "bytes \<Rightarrow> writer \<Rightarrow> writer" where
  "w_store v w =
     w\<lparr>wbuf := take (woff w) (wbuf w) @ v @ drop (woff w + length v) (wbuf w),
       woff := woff w + length v\<rparr>"

definition w_put :: "bytes \<Rightarrow> writing" where
  "w_put v w = rbind (ensureCapacity (length v) w) (\<lambda>w'. Inr (w_store v w'))"

definition w_throw :: "jserror \<Rightarrow> writing" where
  "w_throw e w = Inl e"

text \<open>A sequence of writes on one writer, in the order of the source's statements.\<close>

fun wseq :: "writing list \<Rightarrow> writing" where
  "wseq [] w = Inr w"
| "wseq (f # fs) w = rbind (f w) (wseq fs)"

declare wseq.simps [simp del]

definition writeBool :: "bool \<Rightarrow> writing" where
  "writeBool v = w_put [if v then 1 else 0]"

definition writeU8 :: "int \<Rightarrow> writing" where
  "writeU8 v = w_put [byte_of (js_and v 0xff)]"

text \<open>\<open>Buffer.writeUInt16LE\<close> throws for a value outside 0..65535; there is no mask before it.\<close>

definition writeU16 :: "int \<Rightarrow> writing" where
  "writeU16 v w = rbind (ensureCapacity 2 w) (\<lambda>w'.
     if 0 \<le> v \<and> v < 2 ^ 16 then Inr (w_store (le_bytes 2 (nat v)) w') else Inl RangeError)"

definition writeU24 :: "int \<Rightarrow> writing" where
  "writeU24 v = w_put [byte_of (js_and v 0xff), byte_of (js_and (js_shr v 8) 0xff),
     byte_of (js_and (js_shr v 16) 0xff)]"

definition writeU32 :: "int \<Rightarrow> writing" where
  "writeU32 v = w_put (le_bytes 4 (nat (js_ushr v 0)))"

definition writeOptionU32 :: "int option \<Rightarrow> writing" where
  "writeOptionU32 v = (case v of None \<Rightarrow> writeU8 0 | Some x \<Rightarrow> wseq [writeU8 1, writeU32 x])"

text \<open>\<open>Buffer.writeBigUInt64LE\<close> throws for a bigint outside \<open>0 .. 2 ^ 64 - 1\<close>.\<close>

definition writeU64 :: "int \<Rightarrow> writing" where
  "writeU64 v w = rbind (ensureCapacity 8 w) (\<lambda>w'.
     if 0 \<le> v \<and> v < 2 ^ 64 then Inr (w_store (le_bytes 8 (nat v)) w') else Inl RangeError)"

definition writeU256 :: "bytes \<Rightarrow> writing" where
  "writeU256 v = (if length v \<noteq> 32 then w_throw RangeError else w_put v)"

definition writeF32 :: "32 word \<Rightarrow> writing" where
  "writeF32 v = w_put (le_bytes 4 (unat v))"

definition writeBytes :: "bytes \<Rightarrow> writing" where
  "writeBytes v = w_put v"

definition writeStr0_255 :: "jsstr \<Rightarrow> writing" where
  "writeStr0_255 v = (let payload = utf8_encode v in
     if length payload > 255 then w_throw RangeError
     else wseq [writeU8 (int (length payload)), writeBytes payload])"

definition writeB0_32 :: "bytes \<Rightarrow> writing" where
  "writeB0_32 v = (if length v > 32 then w_throw RangeError
     else wseq [writeU8 (int (length v)), writeBytes v])"

definition writeB0_255 :: "bytes \<Rightarrow> writing" where
  "writeB0_255 v = (if length v > 255 then w_throw RangeError
     else wseq [writeU8 (int (length v)), writeBytes v])"

definition writeB0_64K :: "bytes \<Rightarrow> writing" where
  "writeB0_64K v = (if length v > 65535 then w_throw RangeError
     else wseq [writeU16 (int (length v)), writeBytes v])"

definition writeB0_16M :: "bytes \<Rightarrow> writing" where
  "writeB0_16M v = (if length v > 16777215 then w_throw RangeError
     else wseq [writeU24 (int (length v)), writeBytes v])"

definition writeSeq0_255 :: "'a list \<Rightarrow> ('a \<Rightarrow> writing) \<Rightarrow> writing" where
  "writeSeq0_255 items writeFn = (if length items > 255 then w_throw RangeError
     else wseq (writeU8 (int (length items)) # map writeFn items))"

definition writeSeq0_64K :: "'a list \<Rightarrow> ('a \<Rightarrow> writing) \<Rightarrow> writing" where
  "writeSeq0_64K items writeFn = (if length items > 65535 then w_throw RangeError
     else wseq (writeU16 (int (length items)) # map writeFn items))"

definition toBuffer :: "writer \<Rightarrow> bytes" where
  "toBuffer w = take (woff w) (wbuf w)"

text \<open>The shape of every serializer: a fresh writer, a sequence of writes, the written bytes.\<close>

definition w_build :: "writing list \<Rightarrow> bytes result" where
  "w_build ops = rmap toBuffer (wseq ops newWriter)"

end
