(* ===== verification/JsArith.thy ===== *)
theory JsArith
  imports JsNumber Utf8 BinaryCodec
begin

text \<open>
  Arithmetic on all numbers of the language (overflow to infinity, NaN), and the conversions between
  numbers, hexadecimal text and buffers that the pool uses: \<open>parseInt\<close>, \<open>toString(16)\<close>,
  \<open>Buffer.from(s, 'hex')\<close>, \<open>buffer.toString('hex')\<close>. The sign of a zero and the subnormal numbers are
  not represented.
\<close>

section \<open>Operations\<close>

definition rnd :: "rat \<Rightarrow> jsnum" where
  "rnd x = (if \<bar>fl x\<bar> < 2 ^ 1024 then Num (fl x) else if x > 0 then PosInf else NegInf)"

fun js_neg :: "jsnum \<Rightarrow> jsnum" where
  "js_neg (Num a) = Num (- a)"
| "js_neg PosInf = NegInf"
| "js_neg NegInf = PosInf"
| "js_neg NaN = NaN"

fun js_add :: "jsnum \<Rightarrow> jsnum \<Rightarrow> jsnum" where
  "js_add (Num a) (Num b) = rnd (a + b)"
| "js_add NaN _ = NaN"
| "js_add _ NaN = NaN"
| "js_add PosInf NegInf = NaN"
| "js_add NegInf PosInf = NaN"
| "js_add PosInf _ = PosInf"
| "js_add NegInf _ = NegInf"
| "js_add _ x = x"

definition js_sub :: "jsnum \<Rightarrow> jsnum \<Rightarrow> jsnum" where
  "js_sub x y = js_add x (js_neg y)"

definition inf_of :: "bool \<Rightarrow> jsnum" where
  "inf_of pos = (if pos then PosInf else NegInf)"

fun js_mul :: "jsnum \<Rightarrow> jsnum \<Rightarrow> jsnum" where
  "js_mul (Num a) (Num b) = rnd (a * b)"
| "js_mul NaN _ = NaN"
| "js_mul _ NaN = NaN"
| "js_mul (Num a) y = (if a = 0 then NaN else inf_of (a > 0 \<longleftrightarrow> y = PosInf))"
| "js_mul x (Num b) = (if b = 0 then NaN else inf_of (b > 0 \<longleftrightarrow> x = PosInf))"
| "js_mul x y = inf_of (x = y)"

fun js_div :: "jsnum \<Rightarrow> jsnum \<Rightarrow> jsnum" where
  "js_div (Num a) (Num b) =
     (if b = 0 then (if a = 0 then NaN else inf_of (a > 0)) else rnd (a / b))"
| "js_div NaN _ = NaN"
| "js_div _ NaN = NaN"
| "js_div (Num a) y = Num 0"
| "js_div x (Num b) = inf_of (b \<ge> 0 \<longleftrightarrow> x = PosInf)"
| "js_div x y = NaN"

definition js_max :: "jsnum \<Rightarrow> jsnum \<Rightarrow> jsnum" where
  "js_max x y = (if x = NaN \<or> y = NaN then NaN else if js_lt x y then y else x)"

fun js_floor :: "jsnum \<Rightarrow> jsnum" where
  "js_floor (Num a) = Num (of_int \<lfloor>a\<rfloor>)"
| "js_floor x = x"

text \<open>The operand of a bitwise operator: what is not finite counts as zero.\<close>

definition js_int :: "jsnum \<Rightarrow> int" where
  "js_int x = (case x of Num r \<Rightarrow> js_trunc r | _ \<Rightarrow> 0)"

lemma rnd_small: "\<bar>fl x\<bar> < 2 ^ 1024 \<Longrightarrow> rnd x = Num (fl x)"
  by (simp add: rnd_def)

lemma rnd_int: "\<bar>n\<bar> \<le> 2 ^ 53 \<Longrightarrow> rnd (of_int n) = Num (of_int n)"
proof -
  assume a: "\<bar>n\<bar> \<le> 2 ^ 53"
  then have "\<bar>n\<bar> < 2 ^ 1024" by (rule le_less_trans) simp
  then have "\<bar>of_int n\<bar> < (2 ^ 1024 :: rat)"
    by (metis of_int_abs of_int_less_iff of_int_numeral of_int_power)
  with a show ?thesis by (simp add: rnd_def)
qed

section \<open>Hexadecimal text\<close>

definition hexval :: "nat \<Rightarrow> nat option" where
  "hexval c = (if 48 \<le> c \<and> c \<le> 57 then Some (c - 48)
     else if 97 \<le> c \<and> c \<le> 102 then Some (c - 87)
     else if 65 \<le> c \<and> c \<le> 70 then Some (c - 55) else None)"

definition hexdigit :: "nat \<Rightarrow> nat" where
  "hexdigit v = (if v < 10 then 48 + v else 87 + v)"

definition is_hex :: "nat \<Rightarrow> bool" where
  "is_hex c \<longleftrightarrow> hexval c \<noteq> None"

text \<open>\<open>Buffer.from(s, 'hex')\<close> stops at the first pair that is not hexadecimal.\<close>

fun hexDecode :: "jsstr \<Rightarrow> bytes" where
  "hexDecode (a # b # s) = (case (hexval a, hexval b) of
      (Some x, Some y) \<Rightarrow> word_of_nat (16 * x + y) # hexDecode s
    | _ \<Rightarrow> [])"
| "hexDecode _ = []"

fun hexEncode :: "bytes \<Rightarrow> jsstr" where
  "hexEncode [] = []"
| "hexEncode (b # bs) = hexdigit (unat b div 16) # hexdigit (unat b mod 16) # hexEncode bs"

lemma hexval_hexdigit [simp]: "v < 16 \<Longrightarrow> hexval (hexdigit v) = Some v"
  by (auto simp: hexval_def hexdigit_def)

lemma is_hex_hexdigit [simp]: "v < 16 \<Longrightarrow> is_hex (hexdigit v)"
  by (simp add: is_hex_def)

lemma hexDecode_hexEncode_append: "hexDecode (hexEncode bs @ s) = bs @ hexDecode s"
proof (induction bs)
  case (Cons b bs)
  have "unat b div 16 < 16" using unat_byte_less [of b] by linarith
  with Cons show ?case by simp
qed simp

lemma hexDecode_hexEncode [simp]: "hexDecode (hexEncode bs) = bs"
  using hexDecode_hexEncode_append [of bs "[]"] by simp

lemma length_hexEncode [simp]: "length (hexEncode bs) = 2 * length bs"
  by (induction bs) simp_all

lemma hexEncode_append: "hexEncode (a @ b) = hexEncode a @ hexEncode b"
  by (induction a) simp_all

lemma length_hexDecode:
  "even (length s) \<Longrightarrow> list_all is_hex s \<Longrightarrow> length (hexDecode s) = length s div 2"
  by (induction s rule: hexDecode.induct) (auto simp: is_hex_def)

lemma hexDecode_append:
  "even (length s) \<Longrightarrow> list_all is_hex s \<Longrightarrow> hexDecode (s @ t) = hexDecode s @ hexDecode t"
  by (induction s rule: hexDecode.induct) (auto simp: is_hex_def)

lemma hexEncode_is_hex: "list_all is_hex (hexEncode bs)"
proof (induction bs)
  case (Cons b bs)
  have "unat b div 16 < 16" using unat_byte_less [of b] by linarith
  with Cons show ?case by simp
qed simp

lemma hexEncode_inject [simp]: "hexEncode a = hexEncode b \<longleftrightarrow> a = b"
  by (metis hexDecode_hexEncode)

section \<open>Numbers as text\<close>

text \<open>\<open>n.toString(16)\<close> of a natural number.\<close>

fun toString16 :: "nat \<Rightarrow> jsstr" where
  "toString16 n = (if n < 16 then [hexdigit n] else toString16 (n div 16) @ [hexdigit (n mod 16)])"

declare toString16.simps [simp del]

fun hexnat :: "nat \<Rightarrow> jsstr \<Rightarrow> nat" where
  "hexnat v [] = v"
| "hexnat v (c # s) = hexnat (16 * v + the (hexval c)) s"

lemma hexnat_append: "hexnat v (s @ t) = hexnat (hexnat v s) t"
  by (induction s arbitrary: v) simp_all

lemma hexnat_toString16: "hexnat 0 (toString16 n) = n"
proof (induction n rule: toString16.induct)
  case (1 n)
  then show ?case
    by (subst toString16.simps) (simp add: hexnat_append)
qed

lemma toString16_inject [simp]: "toString16 m = toString16 n \<longleftrightarrow> m = n"
  by (metis hexnat_toString16)

lemma toString16_hex: "list_all is_hex (toString16 n)"
proof (induction n rule: toString16.induct)
  case (1 n)
  then show ?case by (subst toString16.simps) simp
qed

text \<open>\<open>n.toString(16)\<close> of an integer.\<close>

definition intToString16 :: "int \<Rightarrow> jsstr" where
  "intToString16 n = (if n < 0 then jstr ''-'' @ toString16 (nat (- n)) else toString16 (nat n))"

text \<open>The decimal text of an integer, \<open>`${n}`\<close>, and lower case of ASCII text.\<close>

fun toString10 :: "nat \<Rightarrow> jsstr" where
  "toString10 n = (if n < 10 then [48 + n] else toString10 (n div 10) @ [48 + n mod 10])"

declare toString10.simps [simp del]

definition intToString10 :: "int \<Rightarrow> jsstr" where
  "intToString10 n = (if n < 0 then jstr ''-'' @ toString10 (nat (- n)) else toString10 (nat n))"

definition asciiLower :: "jsstr \<Rightarrow> jsstr" where
  "asciiLower s = map (\<lambda>c. if 65 \<le> c \<and> c \<le> 90 then c + 32 else c) s"

text \<open>\<open>parseInt(s, 16)\<close>, and \<open>parseInt(s)\<close> with the radix it chooses itself (\<open>0\<close>).\<close>

definition js_ws :: "nat \<Rightarrow> bool" where
  "js_ws c \<longleftrightarrow> c \<in> {9, 10, 11, 12, 13, 32, 0xA0, 0xFEFF, 0x1680, 0x2028, 0x2029, 0x202F, 0x205F, 0x3000}
     \<or> 0x2000 \<le> c \<and> c \<le> 0x200A"

definition digit_in :: "nat \<Rightarrow> nat \<Rightarrow> bool" where
  "digit_in r c = (case hexval c of None \<Rightarrow> False | Some v \<Rightarrow> v < r)"

definition parseInt :: "nat \<Rightarrow> jsstr \<Rightarrow> jsnum" where
  "parseInt radix s =
     (let s = dropWhile js_ws s;
          neg = (s \<noteq> [] \<and> hd s = 45);
          s = (if s \<noteq> [] \<and> hd s \<in> {43, 45} then tl s else s);
          hexPrefix = (radix \<in> {0, 16} \<and> (take 2 s = jstr ''0x'' \<or> take 2 s = jstr ''0X''));
          r = (if hexPrefix then 16 else if radix = 0 then 10 else radix);
          s = (if hexPrefix then drop 2 s else s);
          digits = takeWhile (digit_in r) s;
          v = of_nat (foldl (\<lambda>v c. r * v + the (hexval c)) 0 digits)
      in if digits = [] then NaN else rnd (if neg then - v else v))"

end
