(* ===== verification/StratumMessages.thy ===== *)
theory StratumMessages
  imports JsArith
begin

text \<open>
  \<open>src/models/stratum-messages/\<close>: the requests of Stratum V1 as JSON values, the transformations that
  \<open>class-transformer\<close> runs on them, the constraints that \<open>class-validator\<close> checks, and the replies.

  A request ends in one of three ways: a transformation throws, the message fails validation (with the
  properties that fail and their values), or it is accepted. Replies are values; their JSON text is not
  rendered. \<open>isAddress\<close> stands for \<open>validate\<close> of the package \<open>bitcoin-address-validation\<close>.
\<close>

section \<open>JSON values\<close>

datatype json =
    JUndef
  | JNull
  | JBool bool
  | JNum jsnum
  | JStr jsstr
  | JArr "json list"
  | JObj "(jsstr \<times> json) list"

definition isNullish :: "json \<Rightarrow> bool" where
  "isNullish v \<longleftrightarrow> v = JNull \<or> v = JUndef"

text \<open>\<open>v.key\<close> and \<open>v[i]\<close>; both throw on \<open>null\<close> and \<open>undefined\<close>.\<close>

definition lookup_or_undef :: "(jsstr \<times> json) list \<Rightarrow> jsstr \<Rightarrow> json" where
  "lookup_or_undef kvs k = (case map_of kvs k of None \<Rightarrow> JUndef | Some v \<Rightarrow> v)"

fun member :: "json \<Rightarrow> jsstr \<Rightarrow> json result" where
  "member JUndef k = Inl TypeError"
| "member JNull k = Inl TypeError"
| "member (JObj kvs) k = Inr (lookup_or_undef kvs k)"
| "member _ k = Inr JUndef"

fun item_at :: "json \<Rightarrow> nat \<Rightarrow> json result" where
  "item_at JUndef i = Inl TypeError"
| "item_at JNull i = Inl TypeError"
| "item_at (JArr vs) i = Inr (if i < length vs then vs ! i else JUndef)"
| "item_at (JStr s) i = Inr (if i < length s then JStr [s ! i] else JUndef)"
| "item_at (JObj kvs) i = Inr (lookup_or_undef kvs [48 + i])"
| "item_at _ i = Inr JUndef"

text \<open>\<open>v.split(c)\<close> and \<open>s.includes(t)\<close>; anything but a string has no \<open>split\<close>.\<close>

definition splitOn :: "nat \<Rightarrow> jsstr \<Rightarrow> jsstr list" where
  "splitOn c s = foldr (\<lambda>x acc. if x = c then [] # acc else (x # hd acc) # tl acc) s [[]]"

fun asString :: "json \<Rightarrow> jsstr result" where
  "asString (JStr s) = Inr s"
| "asString _ = Inl TypeError"

fun includesAt :: "jsstr \<Rightarrow> jsstr \<Rightarrow> bool" where
  "includesAt [] t = (t = [])"
| "includesAt (c # s) t = (take (length t) (c # s) = t \<or> includesAt s t)"

text \<open>What follows the first occurrence of a text, up to the next one: \<open>s.split(t)[1]\<close>.\<close>

fun upTo :: "jsstr \<Rightarrow> jsstr \<Rightarrow> jsstr" where
  "upTo t [] = []"
| "upTo t (c # s) = (if take (length t) (c # s) = t then [] else c # upTo t s)"

fun secondPart :: "jsstr \<Rightarrow> jsstr \<Rightarrow> jsstr" where
  "secondPart t [] = []"
| "secondPart t (c # s) =
     (if take (length t) (c # s) = t then upTo t (drop (length t) (c # s)) else secondPart t s)"

section \<open>Constraints\<close>

type_synonym failures = "(jsstr \<times> json) list"

definition require :: "string \<Rightarrow> json \<Rightarrow> bool \<Rightarrow> failures" where
  "require name v ok = (if ok then [] else [(jstr name, v)])"

fun isString :: "json \<Rightarrow> bool" where
  "isString (JStr _) = True"
| "isString _ = False"

fun isArray :: "json \<Rightarrow> bool" where
  "isArray (JArr _) = True"
| "isArray _ = False"

fun isNumber :: "json \<Rightarrow> bool" where
  "isNumber (JNum x) = isFinite x"
| "isNumber _ = False"

fun arraySize :: "nat \<Rightarrow> nat \<Rightarrow> json \<Rightarrow> bool" where
  "arraySize lo hi (JArr vs) = (lo \<le> length vs \<and> length vs \<le> hi)"
| "arraySize lo hi _ = False"

fun eachIs :: "(json \<Rightarrow> bool) \<Rightarrow> json \<Rightarrow> bool" where
  "eachIs P (JArr vs) = list_all P vs"
| "eachIs P _ = False"

fun lengthIn :: "nat \<Rightarrow> nat \<Rightarrow> json \<Rightarrow> bool" where
  "lengthIn lo hi (JStr s) = (lo \<le> length s \<and> length s \<le> hi)"
| "lengthIn lo hi _ = False"

fun addressOk :: "(jsstr \<Rightarrow> bool) \<Rightarrow> json \<Rightarrow> bool" where
  "addressOk isAddress (JStr s) = isAddress s"
| "addressOk isAddress _ = False"

fun text_of :: "json \<Rightarrow> jsstr" where
  "text_of (JStr s) = s"
| "text_of _ = []"

fun number_of :: "json \<Rightarrow> jsnum" where
  "number_of (JNum x) = x"
| "number_of _ = NaN"

text \<open>\<open>StratumBaseMessage\<close>: an id that is neither \<open>null\<close> nor absent.\<close>

definition baseFailures :: "json \<Rightarrow> failures" where
  "baseFailures ident = require ''id'' ident (\<not> isNullish ident)"

section \<open>Messages\<close>

datatype 'm validated = Rejected json failures | Accepted 'm

text \<open>An instance whose request has no id keeps the initial \<open>null\<close>.\<close>

definition validated :: "json \<Rightarrow> failures \<Rightarrow> 'm \<Rightarrow> 'm validated" where
  "validated ident fs m =
     (if fs = [] then Accepted m else Rejected (if ident = JUndef then JNull else ident) fs)"

record SubscriptionMessage =
  sub_id :: json
  sub_userAgent :: jsstr

definition refineUserAgent :: "jsstr \<Rightarrow> jsstr" where
  "refineUserAgent userAgent =
     (let ua = hd (splitOn 45 (hd (splitOn 86 (hd (splitOn 47 (hd (splitOn 32 userAgent)))))))
      in if includesAt ua (jstr ''bosminer'') \<or> includesAt ua (jstr ''bOS'') then jstr ''Braiins OS''
         else if includesAt ua (jstr ''cpuminer'') then jstr ''cpuminer'' else ua)"

definition parseSubscription :: "json \<Rightarrow> SubscriptionMessage validated result" where
  "parseSubscription obj =
     rbind (member obj (jstr ''id'')) (\<lambda>ident.
     rbind (member obj (jstr ''params'')) (\<lambda>params.
     (let first = (if isNullish params then JUndef else (case item_at params 0 of Inr v \<Rightarrow> v | Inl _ \<Rightarrow> JUndef))
      in rbind (if isNullish first then Inr (jstr ''unknown'') else rmap refineUserAgent (asString first)) (\<lambda>ua.
         Inr (validated ident
           (baseFailures ident @ require ''params'' params (isArray params)
            @ require ''userAgent'' (JStr ua) (length ua \<le> 128))
           \<lparr>sub_id = ident, sub_userAgent = ua\<rparr>)))))"

record ConfigurationMessage =
  conf_id :: json

definition parseConfiguration :: "json \<Rightarrow> ConfigurationMessage validated result" where
  "parseConfiguration obj =
     rbind (member obj (jstr ''id'')) (\<lambda>ident.
     rbind (member obj (jstr ''params'')) (\<lambda>params.
       Inr (validated ident (baseFailures ident @ require ''params'' params (isArray params)) \<lparr>conf_id = ident\<rparr>)))"

record AuthorizationMessage =
  auth_id :: json
  auth_address :: jsstr
  auth_worker :: jsstr
  auth_startingDiff :: "jsnum option"
  auth_password :: "jsstr option"

text \<open>\<open>password?.includes('d=')\<close> also exists for arrays, whose \<open>split\<close> then throws.\<close>

fun startingDiffOf :: "json \<Rightarrow> jsnum option result" where
  "startingDiffOf JNull = Inr None"
| "startingDiffOf JUndef = Inr None"
| "startingDiffOf (JStr p) =
     Inr (if includesAt p (jstr ''d='') then Some (parseInt 0 (secondPart (jstr ''d='') p)) else None)"
| "startingDiffOf (JArr vs) = (if JStr (jstr ''d='') \<in> set vs then Inl TypeError else Inr None)"
| "startingDiffOf _ = Inl TypeError"

definition parseAuthorization :: "(jsstr \<Rightarrow> bool) \<Rightarrow> json \<Rightarrow> AuthorizationMessage validated result" where
  "parseAuthorization isAddress obj =
     rbind (member obj (jstr ''id'')) (\<lambda>ident.
     rbind (member obj (jstr ''params'')) (\<lambda>params.
     rbind (item_at params 0) (\<lambda>first.
     rbind (asString first) (\<lambda>user.
     rbind (item_at params 1) (\<lambda>password.
     rbind (startingDiffOf password) (\<lambda>diff.
     (let parts = splitOn 46 user;
          address = hd parts;
          worker = (if length parts < 2 then jstr ''worker'' else parts ! 1)
      in Inr (validated ident
           (baseFailures ident @ require ''params'' params (arraySize 1 2 params)
            @ require ''address'' (JStr address) (isAddress address)
            @ require ''worker'' (JStr worker) (length worker \<le> 64)
            @ (case diff of None \<Rightarrow> [] | Some d \<Rightarrow> require ''startingDiff'' (JNum d) (isFinite d))
            @ require ''password'' password (isNullish password \<or> lengthIn 0 64 password))
           \<lparr>auth_id = ident, auth_address = address, auth_worker = worker, auth_startingDiff = diff,
            auth_password = (if isNullish password then None else Some (text_of password))\<rparr>))))))))"

record SuggestDifficulty =
  sd_id :: json
  suggestedDifficulty :: jsnum

text \<open>\<open>Number(v)\<close> of a value that is not a number only shows up in the failures; it is the argument \<open>toNumber\<close>.\<close>

definition parseSuggestDifficulty :: "(json \<Rightarrow> jsnum) \<Rightarrow> json \<Rightarrow> SuggestDifficulty validated result" where
  "parseSuggestDifficulty toNumber obj =
     rbind (member obj (jstr ''id'')) (\<lambda>ident.
     rbind (member obj (jstr ''params'')) (\<lambda>params.
     rbind (item_at params 0) (\<lambda>first.
     (let d = (case first of JNum x \<Rightarrow> x | v \<Rightarrow> toNumber v)
      in Inr (validated ident
           (baseFailures ident @ require ''params'' params (arraySize 1 1 params \<and> eachIs isNumber params)
            @ require ''suggestedDifficulty'' (JNum d) (isFinite d))
           \<lparr>sd_id = ident, suggestedDifficulty = d\<rparr>)))))"

record MiningSubmitMessage =
  ms_id :: json
  ms_userId :: jsstr
  ms_jobId :: jsstr
  ms_extraNonce2 :: jsstr
  ms_ntime :: jsstr
  ms_nonce :: jsstr
  ms_versionMask :: jsstr

definition EXTRANONCE2_SIZE_BYTES :: nat where "EXTRANONCE2_SIZE_BYTES = 8"

definition parseMiningSubmit :: "json \<Rightarrow> MiningSubmitMessage validated result" where
  "parseMiningSubmit obj =
     rbind (member obj (jstr ''id'')) (\<lambda>ident.
     rbind (member obj (jstr ''params'')) (\<lambda>params.
     rbind (item_at params 0) (\<lambda>userId.
     rbind (item_at params 1) (\<lambda>jobId.
     rbind (item_at params 2) (\<lambda>extraNonce2.
     rbind (item_at params 3) (\<lambda>ntime.
     rbind (item_at params 4) (\<lambda>nonce.
     rbind (item_at params 5) (\<lambda>sixth.
     (let versionMask = (if isNullish sixth then JStr (jstr ''0'') else sixth)
      in Inr (validated ident
           (baseFailures ident @ require ''params'' params (arraySize 5 6 params)
            @ require ''userId'' userId (isString userId)
            @ require ''jobId'' jobId (isString jobId)
            @ require ''extraNonce2'' extraNonce2
                (lengthIn (EXTRANONCE2_SIZE_BYTES * 2) (EXTRANONCE2_SIZE_BYTES * 2) extraNonce2)
            @ require ''ntime'' ntime (isString ntime)
            @ require ''nonce'' nonce (isString nonce)
            @ require ''versionMask'' versionMask (isString versionMask))
           \<lparr>ms_id = ident, ms_userId = text_of userId, ms_jobId = text_of jobId,
            ms_extraNonce2 = text_of extraNonce2, ms_ntime = text_of ntime, ms_nonce = text_of nonce,
            ms_versionMask = text_of versionMask\<rparr>))))))))))"

record SetPayoutMessage =
  sp_id :: json
  sp_address :: jsstr
  sp_worker :: "jsstr option"

definition parseSetPayout :: "(jsstr \<Rightarrow> bool) \<Rightarrow> json \<Rightarrow> SetPayoutMessage validated result" where
  "parseSetPayout isAddress obj =
     rbind (member obj (jstr ''id'')) (\<lambda>ident.
     rbind (member obj (jstr ''params'')) (\<lambda>params.
     rbind (if isNullish params then Inr JUndef else item_at params 0) (\<lambda>address.
     rbind (if isNullish params then Inr JUndef else item_at params 1) (\<lambda>second.
     (let worker = (if second = JStr [] then JUndef else second)
      in Inr (validated ident
           (baseFailures ident @ require ''params'' params (arraySize 1 2 params \<and> eachIs isString params)
            @ require ''address'' address (addressOk isAddress address)
            @ require ''worker'' worker (isNullish worker \<or> lengthIn 0 64 worker))
           \<lparr>sp_id = ident, sp_address = text_of address,
            sp_worker = (if isNullish worker then None else Some (text_of worker))\<rparr>))))))"

section \<open>Replies and error codes\<close>

datatype eStratumErrorCode =
  OtherUnknown | JobNotFound | DuplicateShare | LowDifficultyShare | UnauthorizedWorker | NotSubscribed

fun errorNumber :: "eStratumErrorCode \<Rightarrow> nat" where
  "errorNumber OtherUnknown = 20"
| "errorNumber JobNotFound = 21"
| "errorNumber DuplicateShare = 22"
| "errorNumber LowDifficultyShare = 23"
| "errorNumber UnauthorizedWorker = 24"
| "errorNumber NotSubscribed = 25"

section \<open>What an accepted message satisfies\<close>

lemma splitOn_nonempty: "splitOn c s \<noteq> []"
  by (induction s) (auto simp: splitOn_def)

lemma splitOn_no_sep: "w \<in> set (splitOn c s) \<Longrightarrow> c \<notin> set w"
proof (induction s arbitrary: w)
  case (Cons x s)
  have ne: "splitOn c s \<noteq> []" by (rule splitOn_nonempty)
  have "splitOn c (x # s) = (if x = c then [] # splitOn c s else (x # hd (splitOn c s)) # tl (splitOn c s))"
    by (simp add: splitOn_def)
  with Cons ne show ?case
    by (auto split: if_splits dest: list.set_sel(2) [rotated] hd_in_set)
qed (simp add: splitOn_def)

lemma validated_Accepted [simp]: "validated i fs m = Accepted m' \<longleftrightarrow> fs = [] \<and> m' = m"
  by (auto simp: validated_def)

lemma require_Nil [simp]: "require n v ok = [] \<longleftrightarrow> ok"
  by (simp add: require_def)

lemma submit_accepted:
  assumes "parseMiningSubmit obj = Inr (Accepted m)"
  shows "length (ms_extraNonce2 m) = 16 \<and> \<not> isNullish (ms_id m)"
proof -
  have "length (text_of v) = 16" if "lengthIn (EXTRANONCE2_SIZE_BYTES * 2) (EXTRANONCE2_SIZE_BYTES * 2) v" for v
    using that by (cases v) (auto simp: EXTRANONCE2_SIZE_BYTES_def)
  with assms show ?thesis
    by (auto simp: parseMiningSubmit_def rbind_Inr_iff Let_def baseFailures_def)
qed

lemma suggest_accepted:
  assumes "parseSuggestDifficulty toNumber obj = Inr (Accepted m)"
  shows "\<exists>d. suggestedDifficulty m = Num d"
proof -
  have "isFinite (suggestedDifficulty m)"
    using assms by (auto simp: parseSuggestDifficulty_def rbind_Inr_iff Let_def)
  then show ?thesis by (cases "suggestedDifficulty m") (simp_all add: isFinite_def)
qed

lemma authorization_accepted:
  assumes "parseAuthorization isAddress obj = Inr (Accepted m)"
  shows "isAddress (auth_address m)" "length (auth_worker m) \<le> 64"
    "auth_startingDiff m = Some d \<Longrightarrow> isFinite d"
  using assms by (auto simp: parseAuthorization_def rbind_Inr_iff Let_def)

lemma set_payout_accepted:
  assumes "parseSetPayout isAddress obj = Inr (Accepted m)"
  shows "isAddress (sp_address m)" "sp_worker m \<noteq> Some []"
proof -
  have a: "isAddress (text_of v)" if "addressOk isAddress v" for v
    using that by (cases v) auto
  have w: "text_of v \<noteq> []" if "isNullish v \<or> lengthIn 0 64 v" "\<not> isNullish v" "v \<noteq> JStr []" for v
    using that by (cases v) auto
  show "isAddress (sp_address m)" using assms a by (auto simp: parseSetPayout_def rbind_Inr_iff Let_def)
  show "sp_worker m \<noteq> Some []"
    using assms w by (fastforce simp: parseSetPayout_def rbind_Inr_iff Let_def isNullish_def split: if_splits)
qed

end
