(* ===== verification/StateError.thy ===== *)
theory StateError
  imports Prelude
begin

text \<open>
  Handlers of connections: computations on a state that can throw. An exception keeps the state as it was
  when it was thrown, as in the language; \<open>tryCatch\<close> goes on from there. The locale \<open>step_relation\<close>
  is the interface for everything that every statement of a handler respects: a relation between the
  states before and after that composes, such as the preservation of an invariant.
\<close>

section \<open>Computations\<close>

type_synonym ('s, 'a) sm = "'s \<Rightarrow> 'a result \<times> 's"

definition ret :: "'a \<Rightarrow> ('s, 'a) sm" where
  "ret a s = (Inr a, s)"

definition throw :: "jserror \<Rightarrow> ('s, 'a) sm" where
  "throw e s = (Inl e, s)"

definition andThen :: "('s, 'a) sm \<Rightarrow> ('a \<Rightarrow> ('s, 'b) sm) \<Rightarrow> ('s, 'b) sm" where
  "andThen m f s = (case m s of (Inl e, s') \<Rightarrow> (Inl e, s') | (Inr a, s') \<Rightarrow> f a s')"

definition readState :: "('s \<Rightarrow> 'a) \<Rightarrow> ('s, 'a) sm" where
  "readState f s = (Inr (f s), s)"

definition modify :: "('s \<Rightarrow> 's) \<Rightarrow> ('s, unit) sm" where
  "modify f s = (Inr (), f s)"

definition lift :: "'a result \<Rightarrow> ('s, 'a) sm" where
  "lift r s = (r, s)"

definition tryCatch :: "('s, 'a) sm \<Rightarrow> (jserror \<Rightarrow> ('s, 'a) sm) \<Rightarrow> ('s, 'a) sm" where
  "tryCatch m h s = (case m s of (Inl e, s') \<Rightarrow> h e s' | (Inr a, s') \<Rightarrow> (Inr a, s'))"

fun forEach :: "'a list \<Rightarrow> ('a \<Rightarrow> ('s, unit) sm) \<Rightarrow> ('s, unit) sm" where
  "forEach [] f = ret ()"
| "forEach (x # xs) f = andThen (f x) (\<lambda>_. forEach xs f)"

lemma sm_simps [simp]:
  "ret a s = (Inr a, s)"
  "throw e s = (Inl e, s)"
  "readState f s = (Inr (f s), s)"
  "modify g s = (Inr (), g s)"
  "lift r s = (r, s)"
  by (simp_all add: ret_def throw_def readState_def modify_def lift_def)

lemma andThen_simps [simp]:
  "andThen (ret a) f = f a"
  "andThen (throw e) f = throw e"
  "m s = (Inr a, s') \<Longrightarrow> andThen m f s = f a s'"
  "m s = (Inl e, s') \<Longrightarrow> andThen m f s = (Inl e, s')"
  by (simp_all add: andThen_def ret_def throw_def fun_eq_iff)

lemma andThen_prims [simp]:
  "andThen (readState g) f s = f (g s) s"
  "andThen (modify h) k s = k () (h s)"
  "andThen (lift (Inr a)) f s = f a s"
  "andThen (lift (Inl e)) f s = (Inl e, s)"
  by (simp_all add: andThen_def)

lemma andThen_assoc: "andThen (andThen m f) g = andThen m (\<lambda>a. andThen (f a) g)"
  by (simp add: fun_eq_iff andThen_def split: prod.split sum.split)

lemma andThen_InrE:
  assumes "andThen m f s = (Inr b, s')"
  obtains a s1 where "m s = (Inr a, s1)" "f a s1 = (Inr b, s')"
  using assms by (auto simp: andThen_def split: prod.splits sum.splits)

lemma tryCatch_simps [simp]:
  "m s = (Inr a, s') \<Longrightarrow> tryCatch m h s = (Inr a, s')"
  "m s = (Inl e, s') \<Longrightarrow> tryCatch m h s = h e s'"
  by (simp_all add: tryCatch_def)

section \<open>What every step respects\<close>

locale step_relation =
  fixes R :: "'s \<Rightarrow> 's \<Rightarrow> bool"
  assumes R_refl: "R s s"
    and R_trans: "R s t \<Longrightarrow> R t u \<Longrightarrow> R s u"
begin

definition keeps :: "('s, 'a) sm \<Rightarrow> bool" where
  "keeps m \<longleftrightarrow> (\<forall>s. R s (snd (m s)))"

lemma keepsD: "keeps m \<Longrightarrow> m s = (r, s') \<Longrightarrow> R s s'"
  by (metis keeps_def snd_conv)

lemma keeps_prims: "keeps (ret a)" "keeps (throw e)" "keeps (readState f)" "keeps (lift r)"
  by (simp_all add: keeps_def R_refl)

lemma keeps_modify: "(\<And>s. R s (f s)) \<Longrightarrow> keeps (modify f)"
  by (simp add: keeps_def)

lemma R_andThen: "R s (snd (m s)) \<Longrightarrow> (\<And>a. keeps (f a)) \<Longrightarrow> R s (snd (andThen m f s))"
proof -
  assume m: "R s (snd (m s))" and f: "\<And>a. keeps (f a)"
  show ?thesis
  proof (cases "m s")
    case (Pair r t)
    moreover have "R t (snd (f a t))" for a using f by (simp add: keeps_def)
    ultimately show ?thesis using m by (cases r) (auto intro: R_trans)
  qed
qed

lemma keeps_andThen: "keeps m \<Longrightarrow> (\<And>a. keeps (f a)) \<Longrightarrow> keeps (andThen m f)"
  unfolding keeps_def [of m] keeps_def [of "andThen m f"] using R_andThen by blast

lemma keeps_tryCatch: "keeps m \<Longrightarrow> (\<And>e. keeps (h e)) \<Longrightarrow> keeps (tryCatch m h)"
proof -
  assume m: "keeps m" and f: "\<And>e. keeps (h e)"
  have "R s (snd (tryCatch m h s))" for s
  proof (cases "m s")
    case (Pair r t)
    then have "R s t" using m by (rule keepsD [rotated])
    moreover have "R t (snd (h e t))" for e using f by (simp add: keeps_def)
    ultimately show ?thesis using Pair by (cases r) (auto intro: R_trans)
  qed
  then show ?thesis by (simp add: keeps_def)
qed

lemma keeps_if: "(b \<Longrightarrow> keeps m) \<Longrightarrow> (\<not> b \<Longrightarrow> keeps n) \<Longrightarrow> keeps (if b then m else n)"
  by simp

lemma keeps_option: "(x = None \<Longrightarrow> keeps m) \<Longrightarrow> (\<And>a. x = Some a \<Longrightarrow> keeps (f a)) \<Longrightarrow> keeps (case_option m f x)"
  by (cases x) simp_all

lemma keeps_sum: "(\<And>e. x = Inl e \<Longrightarrow> keeps (f e)) \<Longrightarrow> (\<And>a. x = Inr a \<Longrightarrow> keeps (g a)) \<Longrightarrow> keeps (case_sum f g x)"
  by (cases x) simp_all

lemma keeps_pair: "(\<And>a b. x = (a, b) \<Longrightarrow> keeps (f a b)) \<Longrightarrow> keeps (case_prod f x)"
  by (cases x) simp_all

lemma keeps_Let: "keeps (f x) \<Longrightarrow> keeps (Let x f)"
  by simp

lemma keeps_forEach: "(\<And>x. x \<in> set xs \<Longrightarrow> keeps (f x)) \<Longrightarrow> keeps (forEach xs f)"
  by (induction xs) (simp_all add: keeps_prims keeps_andThen)

lemmas keeps_intros = keeps_prims keeps_andThen keeps_tryCatch keeps_if keeps_option keeps_sum keeps_pair
  keeps_Let keeps_forEach

end

section \<open>What holds when a handler returns and when it throws\<close>

text \<open>
  \<open>Good\<close> is what holds between events, \<open>Broken\<close> what still holds where an exception leaves a handler
  in the middle of an update.
\<close>

locale guarded =
  fixes Good Broken :: "'s \<Rightarrow> bool"
  assumes Good_Broken: "Good s \<Longrightarrow> Broken s"
begin

definition after :: "'a result \<times> 's \<Rightarrow> bool" where
  "after p \<longleftrightarrow> (case p of (Inl _, s) \<Rightarrow> Broken s | (Inr _, s) \<Rightarrow> Good s)"

definition safe :: "('s, 'a) sm \<Rightarrow> bool" where
  "safe m \<longleftrightarrow> (\<forall>s. Good s \<longrightarrow> after (m s))"

lemma after_simps [simp]: "after (Inr a, s) = Good s" "after (Inl e, s) = Broken s"
  by (simp_all add: after_def)

lemma after_snd: "after p \<Longrightarrow> Broken (snd p)"
  using Good_Broken by (cases p; cases "fst p") auto

lemma safeD: "safe m \<Longrightarrow> Good s \<Longrightarrow> after (m s)"
  by (simp add: safe_def)

lemma safe_prims: "safe (ret a)" "safe (throw e)" "safe (readState f)" "safe (lift r)"
  using Good_Broken by (auto simp: safe_def after_def split: sum.split)

lemma safe_modify: "(\<And>s. Good s \<Longrightarrow> Good (f s)) \<Longrightarrow> safe (modify f)"
  by (simp add: safe_def)

lemma after_andThen: "after (m s) \<Longrightarrow> (\<And>a. safe (f a)) \<Longrightarrow> after (andThen m f s)"
proof -
  assume m: "after (m s)" and f: "\<And>a. safe (f a)"
  show ?thesis
  proof (cases "m s")
    case (Pair r t)
    then show ?thesis using m safeD [OF f] by (cases r) simp_all
  qed
qed

lemma safe_andThen: "safe m \<Longrightarrow> (\<And>a. safe (f a)) \<Longrightarrow> safe (andThen m f)"
  by (simp add: safe_def after_andThen [unfolded safe_def])

lemma safe_tryCatch:
  assumes "safe m" and "\<And>e s. Broken s \<Longrightarrow> after (h e s)"
  shows "safe (tryCatch m h)"
proof -
  have "after (tryCatch m h s)" if "Good s" for s
  proof (cases "m s")
    case (Pair r t)
    then show ?thesis using safeD [OF assms(1) that] assms(2) by (cases r) simp_all
  qed
  then show ?thesis by (simp add: safe_def)
qed

lemma safe_if: "(b \<Longrightarrow> safe m) \<Longrightarrow> (\<not> b \<Longrightarrow> safe n) \<Longrightarrow> safe (if b then m else n)"
  by simp

lemma safe_option: "(x = None \<Longrightarrow> safe m) \<Longrightarrow> (\<And>a. x = Some a \<Longrightarrow> safe (f a)) \<Longrightarrow> safe (case_option m f x)"
  by (cases x) simp_all

lemma safe_lift: "(\<And>a. r = Inr a \<Longrightarrow> safe (f a)) \<Longrightarrow> safe (andThen (lift r) f)"
  using Good_Broken by (cases r) (simp_all add: safe_def)

lemma safe_read: "(\<And>s. Good s \<Longrightarrow> after (f (g s) s)) \<Longrightarrow> safe (andThen (readState g) f)"
  by (simp add: safe_def)

lemmas safe_intros = safe_prims safe_andThen safe_if safe_option

end

end
