(* ===== verification/Difficulty.thy ===== *)
theory Difficulty
  imports JsArith
begin

text \<open>
  \<open>src/utils/difficulty.utils.ts\<close>, \<open>src/utils/hash.utils.ts\<close> and \<open>src/utils/coinbase-prefix.utils.ts\<close>:
  difficulties as binary64 numbers, targets as 256-bit little-endian buffers, and how they compare.
  SHA-256 of Node's \<open>crypto\<close> is the parameter \<open>sha256\<close>; a JavaScript \<open>bigint\<close> is an \<open>int\<close>.
\<close>

section \<open>Definitions\<close>

definition hash256 :: "(bytes \<Rightarrow> bytes) \<Rightarrow> bytes \<Rightarrow> bytes" where
  "hash256 sha256 data = (let first = sha256 data in sha256 first)"

definition TRUE_DIFF_ONE_BIGINT :: int where
  "TRUE_DIFF_ONE_BIGINT = 26959535291011309493156476344723991336010898738574164086137773096960"

definition TRUE_DIFF_ONE_NUMBER :: rat where
  "TRUE_DIFF_ONE_NUMBER = fl (2695953529101131 * 10 ^ 52)"

definition TWO_TO_256 :: int where
  "TWO_TO_256 = 2 ^ 256"

definition allOnes :: bytes where
  "allOnes = replicate 32 0xff"

text \<open>The loop runs from the last byte to the first, over the whole buffer.\<close>

definition le256ToDouble :: "bytes \<Rightarrow> jsnum" where
  "le256ToDouble target = foldr (\<lambda>b value. js_add (js_mul value (Num 256)) (Num (of_nat (unat b)))) target (Num 0)"

text \<open>From index \<open>i - 1\<close> down; reading outside a buffer gives \<open>undefined\<close>, the difference is NaN.\<close>

fun compareFrom :: "nat \<Rightarrow> bytes \<Rightarrow> bytes \<Rightarrow> jsnum" where
  "compareFrom 0 left right = Num 0"
| "compareFrom (Suc i) left right =
     (if i < length left \<and> i < length right
      then (let diff = uint (left ! i) - uint (right ! i)
            in if diff \<noteq> 0 then Num (of_int diff) else compareFrom i left right)
      else NaN)"

definition compareLe256 :: "bytes \<Rightarrow> bytes \<Rightarrow> jsnum" where
  "compareLe256 left right = compareFrom 32 left right"

definition isZeroTarget :: "bytes \<Rightarrow> bool" where
  "isZeroTarget target = list_all (\<lambda>b. b = 0) target"

fun bigIntBytes :: "nat \<Rightarrow> int \<Rightarrow> bytes" where
  "bigIntBytes 0 remaining = []"
| "bigIntBytes (Suc k) remaining = word_of_int (remaining mod 256) # bigIntBytes k (remaining div 256)"

definition bigIntToLe256 :: "int \<Rightarrow> bytes" where
  "bigIntToLe256 value = bigIntBytes 32 value"

definition meetsTarget :: "bytes \<Rightarrow> bytes \<Rightarrow> bool" where
  "meetsTarget hashBuffer target = js_le (compareLe256 hashBuffer target) (Num 0)"

text \<open>\<open>BigInt\<close> of an infinite product throws.\<close>

definition difficultyToTarget :: "jsnum \<Rightarrow> bytes result" where
  "difficultyToTarget difficulty =
     (if \<not> isFinite difficulty \<or> js_le difficulty (Num 0) then Inr allOnes
      else (case js_mul difficulty (Num 1000000) of
          Num p \<Rightarrow>
            (let diffScaled = js_round p
             in if diffScaled = 0 then Inr allOnes
                else Inr (bigIntToLe256 ((TRUE_DIFF_ONE_BIGINT * 1000000) div diffScaled)))
        | _ \<Rightarrow> Inl RangeError))"

definition doubleToDifficulty :: "jsnum \<Rightarrow> jsnum" where
  "doubleToDifficulty target = (if target = Num 0 then PosInf else js_div (Num TRUE_DIFF_ONE_NUMBER) target)"

definition targetToDifficulty :: "bytes \<Rightarrow> jsnum result" where
  "targetToDifficulty target =
     (if length target \<noteq> 32 then Inl (JsError ''Target must be 32 bytes'')
      else Inr (doubleToDifficulty (le256ToDouble target)))"

record ShareDifficulty =
  submissionDifficulty :: jsnum
  submissionHash :: jsstr
  hashBuffer :: bytes

definition calculateDifficulty :: "(bytes \<Rightarrow> bytes) \<Rightarrow> bytes \<Rightarrow> ShareDifficulty" where
  "calculateDifficulty sha256 header =
     (let hashResult = hash256 sha256 header
      in \<lparr>submissionDifficulty = doubleToDifficulty (le256ToDouble hashResult),
          submissionHash = hexEncode hashResult, hashBuffer = hashResult\<rparr>)"

definition hashRateToTarget :: "jsnum \<Rightarrow> jsnum \<Rightarrow> bytes result" where
  "hashRateToTarget hashRate sharesPerMinute =
     (if \<not> isFinite hashRate \<or> js_le hashRate (Num 0)
       \<or> \<not> isFinite sharesPerMinute \<or> js_le sharesPerMinute (Num 0) then Inr allOnes
      else (case js_mul hashRate (js_div (Num 60) sharesPerMinute) of
          Num p \<Rightarrow>
            (let hashesPerShare = js_round p
             in if hashesPerShare = 0 then Inr allOnes
                else (let n = TWO_TO_256 - hashesPerShare; d = hashesPerShare + 1;
                          target = (if n < 0 then - ((- n) div d) else n div d)
                      in Inr (bigIntToLe256 target)))
        | _ \<Rightarrow> Inl RangeError))"

definition hashRateToDifficulty :: "jsnum \<Rightarrow> jsnum \<Rightarrow> jsnum result" where
  "hashRateToDifficulty hashRate sharesPerMinute =
     rbind (hashRateToTarget hashRate sharesPerMinute) targetToDifficulty"

definition clampDifficultyToMaxTarget :: "jsnum \<Rightarrow> bytes \<Rightarrow> jsnum result" where
  "clampDifficultyToMaxTarget difficulty maxTarget =
     (if length maxTarget \<noteq> 32 \<or> isZeroTarget maxTarget then Inr difficulty
      else rbind (difficultyToTarget difficulty) (\<lambda>target.
        if js_lt (Num 0) (compareLe256 target maxTarget)
        then rbind (targetToDifficulty maxTarget) (\<lambda>clamped.
          Inr (if isFinite clamped \<and> js_lt (Num 0) clamped then clamped else difficulty))
        else Inr difficulty))"

text \<open>\<open>patchCoinbasePrefixVarint\<close>: the length byte of the input script of a coinbase prefix.\<close>

definition TOTAL_EXTRANONCE_SIZE_BYTES :: nat where
  "TOTAL_EXTRANONCE_SIZE_BYTES = 12"

definition patchCoinbasePrefixVarint :: "bytes \<Rightarrow> nat \<Rightarrow> bytes" where
  "patchCoinbasePrefixVarint prefix totalExtranonceSize =
     (if totalExtranonceSize = TOTAL_EXTRANONCE_SIZE_BYTES \<or> length prefix < 42 then prefix
      else (let nextLength = int (unat (prefix ! 41))
                  + (int totalExtranonceSize - int TOTAL_EXTRANONCE_SIZE_BYTES)
            in if nextLength < 0 \<or> nextLength > 0xfc then prefix
               else prefix[41 := byte_of nextLength]))"

section \<open>Comparing buffers as numbers\<close>

lemma compareFrom_spec:
  assumes "i \<le> length l" "i \<le> length r"
  shows "\<exists>d. compareFrom i l r = Num d
     \<and> (d < 0 \<longleftrightarrow> le_nat (take i l) < le_nat (take i r))
     \<and> (d = 0 \<longleftrightarrow> le_nat (take i l) = le_nat (take i r))"
  using assms
proof (induction i)
  case (Suc i)
  let ?l = "unat (l ! i)" and ?r = "unat (r ! i)"
  define dd where "dd = uint (l ! i) - uint (r ! i)"
  have c: "compareFrom (Suc i) l r = (if dd \<noteq> 0 then Num (of_int dd) else compareFrom i l r)"
    using Suc.prems by (simp add: dd_def Let_def)
  have "(uint (l ! i) < uint (r ! i)) = (?l < ?r)" "(uint (l ! i) = uint (r ! i)) = (?l = ?r)"
    by (simp_all add: word_less_def [symmetric] word_less_nat_alt word_unat_eq_iff [symmetric] word_uint_eq_iff [symmetric])
  then have u: "dd < 0 \<longleftrightarrow> ?l < ?r" "dd = 0 \<longleftrightarrow> ?l = ?r" unfolding dd_def by linarith+
  have t: "le_nat (take (Suc i) l) = le_nat (take i l) + 256 ^ i * ?l"
    "le_nat (take (Suc i) r) = le_nat (take i r) + 256 ^ i * ?r"
    using Suc.prems by (simp_all add: take_Suc_conv_app_nth le_nat_append)
  have b: "le_nat (take i l) < 256 ^ i" "le_nat (take i r) < 256 ^ i"
    using le_nat_less [of "take i l"] le_nat_less [of "take i r"] Suc.prems by simp_all
  consider "?l = ?r" | "?l < ?r" | "?r < ?l" by linarith
  then show ?case
  proof cases
    case 1
    with Suc t u show ?thesis unfolding c by simp
  next
    case 2
    then have "256 ^ i * (?l + 1) \<le> (256 :: nat) ^ i * ?r" by (intro mult_left_mono) simp_all
    with t b have "le_nat (take (Suc i) l) < le_nat (take (Suc i) r)" by simp
    with 2 u show ?thesis unfolding c by simp
  next
    case 3
    then have "256 ^ i * (?r + 1) \<le> (256 :: nat) ^ i * ?l" by (intro mult_left_mono) simp_all
    with t b have "le_nat (take (Suc i) r) < le_nat (take (Suc i) l)" by simp
    with 3 u show ?thesis unfolding c by simp
  qed
qed simp

lemma compareLe256_spec:
  assumes "length l = 32" "length r = 32"
  obtains d where "compareLe256 l r = Num d" "d < 0 \<longleftrightarrow> le_nat l < le_nat r" "d = 0 \<longleftrightarrow> l = r"
  using compareFrom_spec [of 32 l r] assms le_nat_inject [of l r] by (auto simp: compareLe256_def)

lemma meetsTarget_le_nat:
  assumes "length hash = 32" "length target = 32"
  shows "meetsTarget hash target \<longleftrightarrow> le_nat hash \<le> le_nat target"
proof -
  from compareLe256_spec [OF assms] obtain d where
    d: "compareLe256 hash target = Num d" "d < 0 \<longleftrightarrow> le_nat hash < le_nat target" "d = 0 \<longleftrightarrow> hash = target" .
  have "meetsTarget hash target \<longleftrightarrow> d < 0 \<or> d = 0" by (auto simp: meetsTarget_def js_le_def js_lt_def d(1))
  also have "\<dots> \<longleftrightarrow> le_nat hash \<le> le_nat target"
    using d le_nat_inject [of hash target] assms by (auto simp: order_le_less)
  finally show ?thesis .
qed

lemma bigIntBytes_le_bytes: "0 \<le> v \<Longrightarrow> bigIntBytes k v = le_bytes k (nat v)"
proof (induction k arbitrary: v)
  case (Suc k)
  have "(word_of_int (v mod 256) :: byte) = word_of_nat (nat v)"
    using Suc.prems by (simp add: word_of_int_eq_iff flip: word_of_int_nat)
      (simp add: take_bit_eq_mod)
  with Suc show ?case by (simp add: nat_div_distrib)
qed simp

lemma le_nat_bigIntToLe256: "0 \<le> v \<Longrightarrow> v < 2 ^ 256 \<Longrightarrow> int (le_nat (bigIntToLe256 v)) = v"
proof -
  assume v: "0 \<le> v" "v < 2 ^ 256"
  then have "nat v < 256 ^ 32" by (simp add: nat_less_iff)
  with v show ?thesis by (simp add: bigIntToLe256_def bigIntBytes_le_bytes le_nat_le_bytes_id)
qed

lemma length_bigIntToLe256 [simp]: "length (bigIntToLe256 v) = 32"
proof -
  have "length (bigIntBytes k v) = k" for k v by (induction k arbitrary: v) simp_all
  then show ?thesis by (simp add: bigIntToLe256_def)
qed

section \<open>The target of a difficulty\<close>

lemma le_nat_allOnes: "le_nat allOnes = 256 ^ 32 - 1"
proof -
  have "le_nat (replicate k 0xff) + 1 = 256 ^ k" for k by (induction k) simp_all
  from this [of 32] show ?thesis by (simp add: allOnes_def)
qed

lemma le_nat_le_allOnes: "length h = 32 \<Longrightarrow> le_nat h \<le> le_nat allOnes"
  using le_nat_less [of h] by (simp add: le_nat_allOnes)

lemma length_allOnes [simp]: "length allOnes = 32"
  by (simp add: allOnes_def)

definition scaledDifficulty :: "rat \<Rightarrow> int" where
  "scaledDifficulty d = js_round (fl (d * 1000000))"

definition diffOneScaled :: int where
  "diffOneScaled = TRUE_DIFF_ONE_BIGINT * 1000000"

lemma diffOneScaled_range: "0 < diffOneScaled" "diffOneScaled < 2 ^ 256"
  by (simp_all add: diffOneScaled_def TRUE_DIFF_ONE_BIGINT_def)

lemma scaledDifficulty_nonneg: "0 < d \<Longrightarrow> 0 \<le> scaledDifficulty d"
  using fl_nonneg [of "d * 1000000"] by (simp add: scaledDifficulty_def js_round_def)

lemma scaledDifficulty_mono: "d \<le> d' \<Longrightarrow> scaledDifficulty d \<le> scaledDifficulty d'"
  unfolding scaledDifficulty_def by (intro js_round_mono fl_mono) simp

text \<open>The cases of the function on a positive number, with what the buffer says as a number.\<close>

definition targetOf :: "rat \<Rightarrow> bytes" where
  "targetOf d = (if scaledDifficulty d = 0 then allOnes
     else bigIntToLe256 (diffOneScaled div scaledDifficulty d))"

lemma difficultyToTarget_pos:
  assumes "0 < d"
  shows "difficultyToTarget (Num d) =
    (if fl (d * 1000000) < 2 ^ 1024 then Inr (targetOf d) else Inl RangeError)"
proof -
  have "\<bar>fl (d * 1000000)\<bar> = fl (d * 1000000)" using fl_nonneg [of "d * 1000000"] assms by simp
  with assms show ?thesis
    by (auto simp: difficultyToTarget_def isFinite_def js_le_def js_lt_def rnd_def Let_def targetOf_def
        scaledDifficulty_def diffOneScaled_def)
qed

lemma length_targetOf [simp]: "length (targetOf d) = 32"
  by (simp add: targetOf_def)

lemma le_nat_targetOf:
  assumes "0 < d" "scaledDifficulty d \<noteq> 0"
  shows "int (le_nat (targetOf d)) = diffOneScaled div scaledDifficulty d"
proof -
  have n: "0 < scaledDifficulty d" using scaledDifficulty_nonneg [OF assms(1)] assms(2) by simp
  have "0 \<le> diffOneScaled div scaledDifficulty d"
    using n diffOneScaled_range(1) by (simp add: pos_imp_zdiv_nonneg_iff)
  moreover have "diffOneScaled div scaledDifficulty d \<le> diffOneScaled"
    using n diffOneScaled_range(1) zdiv_mono2 [of diffOneScaled 1 "scaledDifficulty d"] by simp
  ultimately show ?thesis
    using diffOneScaled_range(2) assms(2) by (simp add: targetOf_def le_nat_bigIntToLe256)
qed

lemma targetOf_antimono:
  assumes "0 < d" "d \<le> d'"
  shows "le_nat (targetOf d') \<le> le_nat (targetOf d)"
proof (cases "scaledDifficulty d = 0")
  case True
  then have "targetOf d = allOnes" by (simp add: targetOf_def)
  then show ?thesis using le_nat_le_allOnes [of "targetOf d'"] by simp
next
  case False
  have n: "0 < scaledDifficulty d" using scaledDifficulty_nonneg [OF assms(1)] False by simp
  have m: "scaledDifficulty d \<le> scaledDifficulty d'" by (rule scaledDifficulty_mono) (rule assms(2))
  have "diffOneScaled div scaledDifficulty d' \<le> diffOneScaled div scaledDifficulty d"
    using m n diffOneScaled_range(1) by (intro zdiv_mono2) simp_all
  moreover have "int (le_nat (targetOf d')) = diffOneScaled div scaledDifficulty d'"
    using assms m n by (intro le_nat_targetOf) simp_all
  moreover have "int (le_nat (targetOf d)) = diffOneScaled div scaledDifficulty d"
    using assms False by (intro le_nat_targetOf) simp_all
  ultimately show ?thesis by simp
qed

text \<open>The rounding of the scaled difficulty costs at most one part in a thousand.\<close>

lemma scaledDifficulty_close:
  assumes "1 / 1000 \<le> d"
  shows "d * 1000000 * (1 - 1 / 1000) \<le> of_int (scaledDifficulty d)"
    "of_int (scaledDifficulty d) \<le> d * 1000000 * (1 + 1 / 1000)"
proof -
  let ?x = "d * 1000000"
  have x: "1000 \<le> ?x" using assms by simp
  have f: "\<bar>fl ?x - ?x\<bar> \<le> ?x / 2 ^ 53" using fl_err [of ?x] x by simp
  have "?x / 2 ^ 53 \<le> ?x / 2000" using x by simp
  moreover have "(1 / 2 :: rat) \<le> ?x / 2000" using x by simp
  moreover have "\<bar>of_int (scaledDifficulty d) - fl ?x\<bar> \<le> 1 / 2"
    unfolding scaledDifficulty_def js_round_def by linarith
  ultimately have "\<bar>of_int (scaledDifficulty d) - ?x\<bar> \<le> ?x / 2000 + ?x / 2000"
    using f by linarith
  then show "d * 1000000 * (1 - 1 / 1000) \<le> of_int (scaledDifficulty d)"
    "of_int (scaledDifficulty d) \<le> d * 1000000 * (1 + 1 / 1000)"
    by (simp_all add: abs_le_iff)
qed

section \<open>Properties\<close>

text \<open>
  C37. The byte loop of \<open>meetsTarget\<close> is the comparison of the numbers that the two buffers hold in
  little-endian order: a hash meets a target exactly when, as a 256-bit number, it is at most the target.
\<close>

theorem meetsTarget_numeric:
  assumes "length hash = 32" "length target = 32"
  shows "meetsTarget hash target \<longleftrightarrow> le_nat hash \<le> le_nat target"
  using assms by (rule meetsTarget_le_nat)

lemma meetsTarget_numeric_witness:
  "meetsTarget (replicate 31 0 @ [1]) (replicate 31 0xff @ [1])
   \<and> \<not> meetsTarget (replicate 31 0 @ [2]) (replicate 31 0xff @ [1])"
proof -
  have r: "le_nat (replicate k 0) = 0" "le_nat (replicate k 0xff) + 1 = 256 ^ k" for k
    by (induction k) simp_all
  show ?thesis
    using r(2) [of 31]
    by (simp add: meetsTarget_numeric le_nat_append r(1))
qed

text \<open>
  A harder difficulty never has an easier target: when the target of a difficulty can be computed, so
  can that of every lower positive one, and each hash that meets the first meets the second, in spite of
  the rounding of the product and of the quotient.
\<close>

theorem difficultyToTarget_antitone:
  assumes "0 < d" "d \<le> d'" "difficultyToTarget (Num d') = Inr t'"
  shows "\<exists>t. difficultyToTarget (Num d) = Inr t
    \<and> (\<forall>hash. length hash = 32 \<longrightarrow> meetsTarget hash t' \<longrightarrow> meetsTarget hash t)"
proof -
  have t': "fl (d' * 1000000) < 2 ^ 1024" "t' = targetOf d'"
    using assms by (auto simp: difficultyToTarget_pos split: if_splits)
  have "fl (d * 1000000) \<le> fl (d' * 1000000)" using assms(2) by (intro fl_mono) simp
  with t' assms(1) have "difficultyToTarget (Num d) = Inr (targetOf d)"
    by (simp add: difficultyToTarget_pos)
  then show ?thesis
    using t'(2) targetOf_antimono [OF assms(1,2)] by (force simp: meetsTarget_le_nat)
qed

lemma fl_million_multiples: "fl (n * 1000000) = n * 1000000" if "n = of_int k" "\<bar>k\<bar> \<le> 1000000" for n k
proof -
  have "\<bar>k * 1000000\<bar> \<le> 2 ^ 53" using that(2) by (simp add: abs_mult)
  from fl_int [OF this] that(1) show ?thesis by simp
qed

lemma difficultyToTarget_antitone_witness:
  "\<exists>t. difficultyToTarget (Num 16) = Inr t
    \<and> (\<forall>hash. length hash = 32 \<longrightarrow> meetsTarget hash (targetOf 1024) \<longrightarrow> meetsTarget hash t)"
proof -
  have "fl (1024 * 1000000) = 1024 * 1000000" by (rule fl_million_multiples [of _ 1024]) simp_all
  then have "difficultyToTarget (Num 1024) = Inr (targetOf 1024)"
    by (simp add: difficultyToTarget_pos)
  from difficultyToTarget_antitone [of 16 1024, OF _ _ this] show ?thesis by simp
qed

text \<open>
  C25. The target of a difficulty the pool hands out (at least its default minimum, one thousandth) fits in
  256 bits without truncation and is \<open>TRUE_DIFF_ONE / d\<close> up to one part in five hundred and one unit of
  the last place.
\<close>

theorem difficultyToTarget_accurate:
  assumes "1 / 1000 \<le> d" "d < 2 ^ 1000"
  shows "\<exists>t. difficultyToTarget (Num d) = Inr t \<and> length t = 32
    \<and> of_nat (le_nat t) \<le> of_int TRUE_DIFF_ONE_BIGINT / d * (1 + 1 / 500)
    \<and> of_int TRUE_DIFF_ONE_BIGINT / d * (1 - 1 / 500) - 1 \<le> of_nat (le_nat t)"
proof -
  have d: "0 < d" using assms(1) by (rule less_le_trans [rotated]) simp
  have "fl (d * 1000000) \<le> d * 1000000 * (1 + 1 / 2 ^ 53)" by (rule fl_le) (use d in simp)
  also have "\<dots> < 2 ^ 1000 * 1000000 * 2" using assms(2) d by simp
  also have "\<dots> < 2 ^ 1024" by simp
  finally have t: "difficultyToTarget (Num d) = Inr (targetOf d)" using d by (simp add: difficultyToTarget_pos)
  let ?n = "scaledDifficulty d" and ?r = "of_int TRUE_DIFF_ONE_BIGINT :: rat"
  note n = scaledDifficulty_close [OF assms(1)]
  have "0 < d * 1000000 * (1 - 1 / 1000)" using d by simp
  then have n0: "0 < (of_int ?n :: rat)" using n(1) by (rule less_le_trans)
  then have "?n \<noteq> 0" "0 < ?n" by simp_all
  have v: "int (le_nat (targetOf d)) = diffOneScaled div ?n" using d \<open>?n \<noteq> 0\<close> by (rule le_nat_targetOf)
  have "of_nat (le_nat (targetOf d)) = (of_int (diffOneScaled div ?n) :: rat)" by (simp flip: v)
  also have "\<dots> = of_int \<lfloor>?r * 1000000 / of_int ?n\<rfloor>"
    using floor_divide_of_int_eq [of diffOneScaled ?n, where 'a = rat] by (simp add: diffOneScaled_def)
  finally have q: "of_nat (le_nat (targetOf d)) = (of_int \<lfloor>?r * 1000000 / of_int ?n\<rfloor> :: rat)" .
  have r: "0 < ?r" by (simp add: TRUE_DIFF_ONE_BIGINT_def)
  have "?r * 1000000 / of_int ?n \<le> ?r * 1000000 / (d * 1000000 * (1 - 1 / 1000))"
    using n(1) d r by (intro divide_left_mono) simp_all
  also have "\<dots> \<le> ?r / d * (1 + 1 / 500)" using d r by (simp add: field_simps)
  finally have up: "?r * 1000000 / of_int ?n \<le> ?r / d * (1 + 1 / 500)" .
  have "?r / d * (1 - 1 / 500) \<le> ?r * 1000000 / (d * 1000000 * (1 + 1 / 1000))"
    using d r by (simp add: field_simps)
  also have "\<dots> \<le> ?r * 1000000 / of_int ?n"
    using n(2) n0 d r by (intro divide_left_mono) simp_all
  finally have lo: "?r / d * (1 - 1 / 500) \<le> ?r * 1000000 / of_int ?n" .
  have "of_nat (le_nat (targetOf d)) \<le> ?r / d * (1 + 1 / 500)" unfolding q using up by linarith
  moreover have "?r / d * (1 - 1 / 500) - 1 \<le> of_nat (le_nat (targetOf d))" unfolding q using lo by linarith
  ultimately show ?thesis using t by simp
qed

lemma difficultyToTarget_accurate_witness:
  "\<exists>t. difficultyToTarget (Num 100000) = Inr t \<and> length t = 32
    \<and> of_nat (le_nat t) \<le> of_int TRUE_DIFF_ONE_BIGINT / (100000 :: rat) * (1 + 1 / 500)"
proof -
  have "(100000 :: rat) < 2 ^ 1000" by simp
  from difficultyToTarget_accurate [OF _ this] show ?thesis by auto
qed

end
