(* ===== verification/JsList.thy ===== *)
theory JsList
  imports Prelude "HOL-Library.AList" "HOL-Library.Multiset"
begin

text \<open>
  Collections as the components use them: a \<open>Map\<close> is an association list in insertion order
  (\<open>AList.update\<close> keeps the place of a key that is there and appends one that is not, as \<open>Map.set\<close>
  does); \<open>Array.prototype.sort\<close> with a comparator is a stable sort.
\<close>

section \<open>Sorting\<close>

fun js_insort :: "('a \<Rightarrow> 'a \<Rightarrow> bool) \<Rightarrow> 'a \<Rightarrow> 'a list \<Rightarrow> 'a list" where
  "js_insort before x [] = [x]"
| "js_insort before x (y # ys) = (if before y x then y # js_insort before x ys else x # y # ys)"

text \<open>\<open>before a b\<close>: the comparator is negative, \<open>a\<close> comes strictly before \<open>b\<close>.\<close>

definition js_sort :: "('a \<Rightarrow> 'a \<Rightarrow> bool) \<Rightarrow> 'a list \<Rightarrow> 'a list" where
  "js_sort before xs = foldr (js_insort before) xs []"

lemma mset_js_insort [simp]: "mset (js_insort b x xs) = add_mset x (mset xs)"
  by (induction xs) auto

lemma mset_js_sort [simp]: "mset (js_sort b xs) = mset xs"
  by (induction xs) (simp_all add: js_sort_def)

lemma set_js_sort [simp]: "set (js_sort b xs) = set xs"
  by (metis mset_js_sort set_mset_mset)

lemma length_js_sort [simp]: "length (js_sort b xs) = length xs"
  by (metis mset_js_sort size_mset)

lemma sum_list_js_sort:
  fixes f :: "'a \<Rightarrow> 'b :: comm_monoid_add"
  shows "sum_list (map f (js_sort b xs)) = sum_list (map f xs)"
  by (metis mset_js_sort mset_map sum_mset_sum_list)

section \<open>Updates of the rows of a table\<close>

lemma sum_list_map_if:
  fixes f g :: "'a \<Rightarrow> 'b :: comm_monoid_add"
  shows "sum_list (map (\<lambda>x. if P x then f x else g x) xs)
     = sum_list (map f (filter P xs)) + sum_list (map g (filter (\<lambda>x. \<not> P x) xs))"
  by (induction xs) (auto simp: ac_simps)

lemma sum_list_filter_split:
  fixes f :: "'a \<Rightarrow> 'b :: comm_monoid_add"
  shows "sum_list (map f xs) = sum_list (map f (filter P xs)) + sum_list (map f (filter (\<lambda>x. \<not> P x) xs))"
  using sum_list_map_if [of P f f xs] by simp

lemma sum_list_filter_le:
  fixes f :: "'a \<Rightarrow> int"
  assumes "\<And>x. x \<in> set xs \<Longrightarrow> 0 \<le> f x"
  shows "sum_list (map f (filter P xs)) \<le> sum_list (map f xs)"
  using assms by (induction xs) (auto intro: add_increasing)

lemma distinct_map_of_zip:
  "distinct (map fst al) \<Longrightarrow> map (\<lambda>k. the (map_of al k)) (map fst al) = map snd al"
  by (induction al) (force intro!: map_cong)+

end
