(* ===== verification/PayoutDistribution.thy ===== *)
theory PayoutDistribution
  imports JsList JsNumber
begin

text \<open>
  \<open>src/ORM/payout-snapshot/payout-distribution.ts\<close>: how a coinbase is split among the addresses of a
  payout window.

  Amounts of satoshis are integers (the source keeps them integral with \<open>Math.floor\<close> and
  \<open>Math.trunc\<close>, and they stay below \<open>2 ^ 53\<close>); difficulties, percentages and weights are binary64
  values with the rounding of every operation. The address parser \<open>getAddressInfo\<close> of the package
  \<open>bitcoin-address-validation\<close> is the parameter \<open>addressType\<close> (\<open>None\<close> when it throws), the collation
  \<open>localeCompare\<close> the parameter \<open>lc\<close>.
\<close>

section \<open>Input and output\<close>

record PayoutAddressWork =
  paw_address :: string
  paw_creditedDifficulty :: jsnum
  paw_acceptedShareCount :: int

record PayoutBalanceInput =
  pbi_address :: string
  pbi_balanceSats :: jsnum

record PayoutDistributionEntry =
  pde_address :: string
  pde_creditedDifficulty :: rat
  pde_acceptedShareCount :: int
  pde_payoutWeight :: rat
  pde_grossPayoutSats :: int
  pde_payoutSats :: int
  pde_balanceBeforeSats :: int
  pde_balanceAfterSats :: int
  pde_includedInCoinbase :: bool
  pde_rank :: nat

record PayoutDistributionResult =
  entries :: "PayoutDistributionEntry list"
  payoutOutputs :: "PayoutDistributionEntry list"
  consideredAddressCount :: nat
  distributedSats :: int
  unallocatedRemainderSats :: int
  pdr_feeSats :: int

record PayoutDistributionInput =
  addressWork :: "PayoutAddressWork list"
  balances :: "PayoutBalanceInput list"
  in_coinbaseValueSats :: rat
  in_feeAddress :: "string option"
  in_feePercent :: jsnum
  in_minOutputSats :: rat
  in_coinbaseWeightBudget :: rat

datatype AddressType = p2wpkh | p2sh | p2pkh | p2wsh | p2tr | otherType

definition DEFAULT_COINBASE_WEIGHT_BUDGET :: rat where "DEFAULT_COINBASE_WEIGHT_BUDGET = 50000"
definition DUST_LIMIT_SATS :: int where "DUST_LIMIT_SATS = 546"
definition COINBASE_BASE_WEIGHT :: int where "COINBASE_BASE_WEIGHT = 328"
definition COINBASE_WITNESS_COMMITMENT_WEIGHT :: int where "COINBASE_WITNESS_COMMITMENT_WEIGHT = 188"
definition COINBASE_OUTPUT_WEIGHT :: int where "COINBASE_OUTPUT_WEIGHT = 172"
definition BUDGET_SAFETY_MARGIN_WEIGHT :: rat where "BUDGET_SAFETY_MARGIN_WEIGHT = 200"

fun OUTPUT_WEIGHT_BY_TYPE :: "AddressType \<Rightarrow> int option" where
  "OUTPUT_WEIGHT_BY_TYPE p2wpkh = Some 124"
| "OUTPUT_WEIGHT_BY_TYPE p2sh = Some 128"
| "OUTPUT_WEIGHT_BY_TYPE p2pkh = Some 136"
| "OUTPUT_WEIGHT_BY_TYPE p2wsh = Some 172"
| "OUTPUT_WEIGHT_BY_TYPE p2tr = Some 172"
| "OUTPUT_WEIGHT_BY_TYPE otherType = None"

text \<open>The cache of the source only saves calls of the parser.\<close>

definition outputWeightForAddress :: "(string \<Rightarrow> AddressType option) \<Rightarrow> string \<Rightarrow> int" where
  "outputWeightForAddress addressType address =
     (if address = [] then COINBASE_OUTPUT_WEIGHT
      else (case addressType address of
          None \<Rightarrow> COINBASE_OUTPUT_WEIGHT
        | Some t \<Rightarrow> (case OUTPUT_WEIGHT_BY_TYPE t of None \<Rightarrow> COINBASE_OUTPUT_WEIGHT | Some w \<Rightarrow> w)))"

section \<open>Allocating integers by weight\<close>

record AllocationTarget =
  item :: string
  weight :: rat

record AllocationFraction =
  fr_item :: string
  fr_weight :: rat
  fr_fraction :: rat

definition exactShare :: "rat \<Rightarrow> int \<Rightarrow> rat \<Rightarrow> rat" where
  "exactShare w amountSats totalWeight = fl (fl (w * of_int amountSats) / totalWeight)"

definition fractionBefore :: "(string \<Rightarrow> string \<Rightarrow> int) \<Rightarrow> AllocationFraction \<Rightarrow> AllocationFraction \<Rightarrow> bool" where
  "fractionBefore lc a b \<longleftrightarrow>
     (if fr_fraction a \<noteq> fr_fraction b then fr_fraction b < fr_fraction a
      else if fr_weight a \<noteq> fr_weight b then fr_weight b < fr_weight a
      else lc (fr_item a) (fr_item b) < 0)"

text \<open>The loop that hands out the residual, one satoshi each.\<close>

fun giveResidual :: "int \<Rightarrow> AllocationFraction list \<Rightarrow> (string \<times> int) list \<Rightarrow> (string \<times> int) list" where
  "giveResidual residual [] result = result"
| "giveResidual residual (t # ts) result =
     (if residual \<le> 0 then result
      else giveResidual (residual - 1) ts
        (AList.update (fr_item t)
          ((case map_of result (fr_item t) of None \<Rightarrow> 0 | Some v \<Rightarrow> v) + 1) result))"

definition allocateIntegerSats ::
    "(string \<Rightarrow> string \<Rightarrow> int) \<Rightarrow> AllocationTarget list \<Rightarrow> int \<Rightarrow> rat \<Rightarrow> (string \<times> int) list" where
  "allocateIntegerSats lc targets amountSats totalWeight =
     (if amountSats \<le> 0 \<or> totalWeight \<le> 0 then []
      else (let positive = filter (\<lambda>t. weight t > 0) targets;
                whole = (\<lambda>t. \<lfloor>exactShare (weight t) amountSats totalWeight\<rfloor>);
                result = fold (\<lambda>t. AList.update (item t) (whole t)) positive [];
                assigned = sum_list (map whole positive);
                fractions = js_sort (fractionBefore lc)
                  (map (\<lambda>t. \<lparr>fr_item = item t, fr_weight = weight t,
                     fr_fraction = fl (exactShare (weight t) amountSats totalWeight - of_int (whole t))\<rparr>)
                   positive)
            in giveResidual (amountSats - assigned) fractions result))"

text \<open>\<open>reduce\<close> of a sum of binary64 values, from the left.\<close>

definition fsum :: "rat list \<Rightarrow> rat" where
  "fsum ws = foldl (\<lambda>s w. fl (s + w)) 0 ws"

section \<open>The distribution\<close>

record ComputedAddress =
  ca_address :: string
  ca_creditedDifficulty :: rat
  ca_acceptedShareCount :: int
  ca_payoutWeight :: rat
  ca_rawFairSats :: int
  ca_balanceBeforeSats :: int
  ca_targetSats :: int
  ca_payoutSats :: int
  ca_balanceAfterSats :: int
  ca_includedInCoinbase :: bool

definition satsOf :: "(string \<times> int) list \<Rightarrow> string \<Rightarrow> int" where
  "satsOf al a = (case map_of al a of None \<Rightarrow> 0 | Some v \<Rightarrow> v)"

definition byDifficulty :: "ComputedAddress list \<Rightarrow> AllocationTarget list" where
  "byDifficulty rows = map (\<lambda>r. \<lparr>item = ca_address r, weight = ca_creditedDifficulty r\<rparr>) rows"

text \<open>
  The table \<open>computations\<close> is the list of its rows in insertion order; a loop that assigns to the
  rows it has selected is a \<open>map\<close> with the selecting condition.
\<close>

definition pay :: "(ComputedAddress \<Rightarrow> int) \<Rightarrow> ComputedAddress \<Rightarrow> ComputedAddress" where
  "pay sats row = row\<lparr>ca_payoutSats := sats row, ca_balanceAfterSats := ca_targetSats row - sats row\<rparr>"

definition addPay :: "int \<Rightarrow> ComputedAddress \<Rightarrow> ComputedAddress" where
  "addPay extra row = row\<lparr>ca_payoutSats := ca_payoutSats row + extra,
     ca_balanceAfterSats := ca_balanceAfterSats row - extra\<rparr>"

definition allocatePayoutTargets ::
    "(string \<Rightarrow> string \<Rightarrow> int) \<Rightarrow> ComputedAddress list \<Rightarrow> int \<Rightarrow> rat \<Rightarrow> ComputedAddress list" where
  "allocatePayoutTargets lc rows minerRewardSats totalCreditedDifficulty =
     (let positive = (\<lambda>r. ca_targetSats r > 0);
          positiveTargets = filter positive rows;
          totalPositiveTarget = sum_list (map ca_targetSats positiveTargets)
      in if totalPositiveTarget \<le> 0 then
           (let active = (\<lambda>r. ca_creditedDifficulty r > 0);
                al = allocateIntegerSats lc (byDifficulty (filter active rows)) minerRewardSats
                  totalCreditedDifficulty
            in map (\<lambda>r. if active r then pay (\<lambda>r. satsOf al (ca_address r)) r else r) rows)
         else if totalPositiveTarget \<le> minerRewardSats then
           (let rows1 = map (\<lambda>r. if positive r
                  then r\<lparr>ca_payoutSats := ca_targetSats r, ca_balanceAfterSats := 0\<rparr> else r) rows;
                surplus = minerRewardSats - totalPositiveTarget
            in if surplus \<le> 0 then rows1
               else (let active = (\<lambda>r. positive r \<and> ca_creditedDifficulty r > 0);
                         activeRows = filter active rows1;
                         al = allocateIntegerSats lc (byDifficulty activeRows) surplus
                           (fsum (map ca_creditedDifficulty activeRows))
                     in map (\<lambda>r. if active r then addPay (satsOf al (ca_address r)) r else r) rows1))
         else
           (let al = allocateIntegerSats lc
                  (map (\<lambda>r. \<lparr>item = ca_address r, weight = of_int (ca_targetSats r)\<rparr>) positiveTargets)
                  minerRewardSats (of_int totalPositiveTarget)
            in map (\<lambda>r. if positive r then pay (\<lambda>r. satsOf al (ca_address r)) r else r) rows))"

definition redistributeUnfitMinerPayouts ::
    "(string \<Rightarrow> string \<Rightarrow> int) \<Rightarrow> ComputedAddress list \<Rightarrow> int \<Rightarrow> ComputedAddress list" where
  "redistributeUnfitMinerPayouts lc rows minerRewardSats =
     (let distributedToMiners = sum_list (map ca_payoutSats (filter ca_includedInCoinbase rows));
          remainder = minerRewardSats - distributedToMiners;
          kept = (\<lambda>r. ca_includedInCoinbase r \<and> ca_creditedDifficulty r > 0);
          keptActive = filter kept rows;
          keptDifficulty = fsum (map ca_creditedDifficulty keptActive)
      in if remainder \<le> 0 \<or> keptDifficulty \<le> 0 then rows
         else (let al = allocateIntegerSats lc (byDifficulty keptActive) remainder keptDifficulty
               in map (\<lambda>r. if kept r then addPay (satsOf al (ca_address r)) r else r) rows))"

definition payoutBefore :: "(string \<Rightarrow> string \<Rightarrow> int) \<Rightarrow> ComputedAddress \<Rightarrow> ComputedAddress \<Rightarrow> bool" where
  "payoutBefore lc a b \<longleftrightarrow>
     (if ca_payoutSats a \<noteq> ca_payoutSats b then ca_payoutSats b < ca_payoutSats a
      else if ca_targetSats a \<noteq> ca_targetSats b then ca_targetSats b < ca_targetSats a
      else lc (ca_address a) (ca_address b) < 0)"

definition entryBefore :: "(string \<Rightarrow> string \<Rightarrow> int) \<Rightarrow> ComputedAddress \<Rightarrow> ComputedAddress \<Rightarrow> bool" where
  "entryBefore lc a b \<longleftrightarrow>
     (if ca_includedInCoinbase a \<noteq> ca_includedInCoinbase b then ca_includedInCoinbase a
      else payoutBefore lc a b)"

text \<open>The loop over the eligible rows, with the weight used so far: the addresses that fit.\<close>

fun fitOutputs :: "(string \<Rightarrow> int) \<Rightarrow> rat \<Rightarrow> int \<Rightarrow> ComputedAddress list \<Rightarrow> string list" where
  "fitOutputs ow effectiveBudget usedWeight [] = []"
| "fitOutputs ow effectiveBudget usedWeight (row # rows) =
     (if of_int (usedWeight + ow (ca_address row)) > effectiveBudget
      then fitOutputs ow effectiveBudget usedWeight rows
      else ca_address row # fitOutputs ow effectiveBudget (usedWeight + ow (ca_address row)) rows)"

definition entryOfRow :: "ComputedAddress \<Rightarrow> PayoutDistributionEntry" where
  "entryOfRow row = \<lparr>pde_address = ca_address row, pde_creditedDifficulty = ca_creditedDifficulty row,
     pde_acceptedShareCount = ca_acceptedShareCount row, pde_payoutWeight = ca_payoutWeight row,
     pde_grossPayoutSats = ca_rawFairSats row, pde_payoutSats = ca_payoutSats row,
     pde_balanceBeforeSats = ca_balanceBeforeSats row, pde_balanceAfterSats = ca_balanceAfterSats row,
     pde_includedInCoinbase = ca_includedInCoinbase row, pde_rank = 0\<rparr>"

text \<open>\<open>find\<close> gives the first entry with the fee address; the entry is updated in place.\<close>

fun addToFirst :: "PayoutDistributionEntry \<Rightarrow> PayoutDistributionEntry list \<Rightarrow> PayoutDistributionEntry list" where
  "addToFirst fee [] = []"
| "addToFirst fee (e # es) =
     (if pde_address e = pde_address fee \<and> pde_includedInCoinbase e
      then e\<lparr>pde_payoutSats := pde_payoutSats e + pde_payoutSats fee,
             pde_grossPayoutSats := pde_grossPayoutSats e + pde_grossPayoutSats fee\<rparr> # es
      else e # addToFirst fee es)"

definition mergeFeeEntry ::
    "PayoutDistributionEntry \<Rightarrow> PayoutDistributionEntry list \<Rightarrow> PayoutDistributionEntry list" where
  "mergeFeeEntry fee minerEntries =
     (if \<exists>e \<in> set minerEntries. pde_address e = pde_address fee \<and> pde_includedInCoinbase e
      then addToFirst fee minerEntries else fee # minerEntries)"

definition js_space :: "char \<Rightarrow> bool" where
  "js_space c \<longleftrightarrow> c \<in> {CHR 0x09, CHR 0x0A, CHR 0x0B, CHR 0x0C, CHR 0x0D, CHR '' '', CHR 0xA0}"

definition js_trim :: "string \<Rightarrow> string" where
  "js_trim s = rev (dropWhile js_space (rev (dropWhile js_space s)))"

definition collectWork :: "PayoutAddressWork list \<Rightarrow> (string \<times> rat \<times> int) list" where
  "collectWork ws = fold (\<lambda>w m.
     (case paw_creditedDifficulty w of
        Num d \<Rightarrow>
          if paw_address w = [] \<or> d \<le> 0 then m
          else (let (d0, n0) = (case map_of m (paw_address w) of None \<Rightarrow> (0, 0) | Some e \<Rightarrow> e)
                in AList.update (paw_address w) (fl (d0 + d), n0 + paw_acceptedShareCount w) m)
      | _ \<Rightarrow> m)) ws []"

definition collectBalances :: "PayoutBalanceInput list \<Rightarrow> (string \<times> int) list" where
  "collectBalances bs = fold (\<lambda>b m.
     (case pbi_balanceSats b of
        Num v \<Rightarrow> if pbi_address b \<noteq> [] \<and> v \<noteq> 0 then AList.update (pbi_address b) (js_trunc v) m else m
      | _ \<Rightarrow> m)) bs []"

definition computeRow ::
    "(string \<times> rat \<times> int) list \<Rightarrow> (string \<times> int) list \<Rightarrow> (string \<times> int) list \<Rightarrow> rat \<Rightarrow> string
     \<Rightarrow> ComputedAddress" where
  "computeRow workByAddress balanceByAddress fairShareSats totalCredited address =
     (let (credited, count) = (case map_of workByAddress address of None \<Rightarrow> (0, 0) | Some e \<Rightarrow> e);
          raw = satsOf fairShareSats address;
          before = satsOf balanceByAddress address
      in \<lparr>ca_address = address, ca_creditedDifficulty = credited, ca_acceptedShareCount = count,
          ca_payoutWeight = (if credited > 0 then fl (credited / totalCredited) else 0),
          ca_rawFairSats = raw, ca_balanceBeforeSats = before, ca_targetSats = raw + before,
          ca_payoutSats = 0, ca_balanceAfterSats = raw + before, ca_includedInCoinbase = False\<rparr>)"

text \<open>The eligible rows, in the order of the sort, that fit the budget are included; the others get
  nothing and keep their target as balance.\<close>

definition includeOutputs ::
    "(string \<Rightarrow> AddressType option) \<Rightarrow> (string \<Rightarrow> string \<Rightarrow> int) \<Rightarrow> int \<Rightarrow> rat \<Rightarrow> int
     \<Rightarrow> ComputedAddress list \<Rightarrow> ComputedAddress list" where
  "includeOutputs addressType lc minOutputSats effectiveBudget usedWeight rows =
     (let eligible = js_sort (payoutBefore lc)
            (filter (\<lambda>r. ca_payoutSats r > 0 \<and> (ca_creditedDifficulty r > 0 \<or> ca_payoutSats r \<ge> minOutputSats)) rows);
          fit = fitOutputs (outputWeightForAddress addressType) effectiveBudget usedWeight eligible
      in map (\<lambda>r.
           if ca_address r \<in> set fit
           then r\<lparr>ca_includedInCoinbase := True, ca_balanceAfterSats := ca_targetSats r - ca_payoutSats r\<rparr>
           else if ca_payoutSats r > 0
           then r\<lparr>ca_payoutSats := 0, ca_balanceAfterSats := ca_targetSats r\<rparr>
           else r) rows)"

definition feeEntryFor :: "string \<Rightarrow> int \<Rightarrow> PayoutDistributionEntry" where
  "feeEntryFor feeAddress feeSats = \<lparr>pde_address = feeAddress, pde_creditedDifficulty = 0,
     pde_acceptedShareCount = 0, pde_payoutWeight = 0, pde_grossPayoutSats = feeSats,
     pde_payoutSats = feeSats, pde_balanceBeforeSats = 0, pde_balanceAfterSats = 0,
     pde_includedInCoinbase = True, pde_rank = 1\<rparr>"

definition feeSatsFor :: "PayoutDistributionInput \<Rightarrow> int" where
  "feeSatsFor input =
     (let coinbaseValueSats = max 0 \<lfloor>in_coinbaseValueSats input\<rfloor>;
          minOutputSats = max DUST_LIMIT_SATS \<lfloor>in_minOutputSats input\<rfloor>;
          feePercent = (case in_feePercent input of Num p \<Rightarrow> if p > 0 then p else 0 | _ \<Rightarrow> 0);
          feeAddress = (case in_feeAddress input of None \<Rightarrow> [] | Some a \<Rightarrow> js_trim a);
          wantedFeeSats = \<lfloor>fl (fl (feePercent / 100) * of_int coinbaseValueSats)\<rfloor>
      in if length feeAddress > 0 \<and> wantedFeeSats \<ge> minOutputSats then wantedFeeSats else 0)"

text \<open>The rows when the loops are done, before they become entries.\<close>

definition minerRows ::
    "(string \<Rightarrow> AddressType option) \<Rightarrow> (string \<Rightarrow> string \<Rightarrow> int) \<Rightarrow> PayoutDistributionInput
     \<Rightarrow> ComputedAddress list" where
  "minerRows addressType lc input =
     (let coinbaseValueSats = max 0 \<lfloor>in_coinbaseValueSats input\<rfloor>;
          minOutputSats = max DUST_LIMIT_SATS \<lfloor>in_minOutputSats input\<rfloor>;
          coinbaseWeightBudget = (if in_coinbaseWeightBudget input > 0 then in_coinbaseWeightBudget input
            else DEFAULT_COINBASE_WEIGHT_BUDGET);
          feeAddress = (case in_feeAddress input of None \<Rightarrow> [] | Some a \<Rightarrow> js_trim a);
          feeSats = feeSatsFor input;
          minerRewardSats = coinbaseValueSats - feeSats;
          workByAddress = collectWork (addressWork input);
          balanceByAddress = collectBalances (balances input);
          total = fsum (map (fst \<circ> snd) workByAddress);
          fairShareSats = allocateIntegerSats lc
            (map (\<lambda>(a, d, _). \<lparr>item = a, weight = d\<rparr>) workByAddress) minerRewardSats total;
          considered = map fst workByAddress
            @ filter (\<lambda>a. a \<notin> set (map fst workByAddress)) (map fst balanceByAddress);
          computations = map (computeRow workByAddress balanceByAddress fairShareSats total) considered;
          feeWeight = (if feeSats > 0 then outputWeightForAddress addressType feeAddress else 0);
          usedWeight = COINBASE_BASE_WEIGHT + COINBASE_WITNESS_COMMITMENT_WEIGHT + feeWeight;
          effectiveBudget = fl (coinbaseWeightBudget - BUDGET_SAFETY_MARGIN_WEIGHT);
          rows = allocatePayoutTargets lc computations minerRewardSats total;
          rows = includeOutputs addressType lc minOutputSats effectiveBudget usedWeight rows
      in redistributeUnfitMinerPayouts lc rows minerRewardSats)"

definition buildPayoutDistribution ::
    "(string \<Rightarrow> AddressType option) \<Rightarrow> (string \<Rightarrow> string \<Rightarrow> int) \<Rightarrow> PayoutDistributionInput
     \<Rightarrow> PayoutDistributionResult" where
  "buildPayoutDistribution addressType lc input =
     (let coinbaseValueSats = max 0 \<lfloor>in_coinbaseValueSats input\<rfloor>;
          feeAddress = (case in_feeAddress input of None \<Rightarrow> [] | Some a \<Rightarrow> js_trim a);
          feeSats = feeSatsFor input;
          total = fsum (map (fst \<circ> snd) (collectWork (addressWork input)))
      in if coinbaseValueSats \<le> 0 \<or> total \<le> 0 then
           \<lparr>entries = [], payoutOutputs = [], consideredAddressCount = 0, distributedSats = 0,
            unallocatedRemainderSats = coinbaseValueSats, pdr_feeSats = feeSats\<rparr>
         else
           (let rows = minerRows addressType lc input;
                minerEntries = map entryOfRow (js_sort (entryBefore lc)
                  (filter (\<lambda>r. ca_includedInCoinbase r \<or> ca_balanceBeforeSats r \<noteq> ca_balanceAfterSats r
                     \<or> ca_balanceAfterSats r \<noteq> 0) rows));
                merged = (if feeSats > 0 then mergeFeeEntry (feeEntryFor feeAddress feeSats) minerEntries
                  else minerEntries);
                es = map (\<lambda>(i, e). e\<lparr>pde_rank := i + 1\<rparr>) (enumerate 0 merged);
                outputs = filter pde_includedInCoinbase es;
                distributed = sum_list (map pde_payoutSats outputs)
            in \<lparr>entries = es, payoutOutputs = outputs, consideredAddressCount = length rows,
                distributedSats = distributed,
                unallocatedRemainderSats = coinbaseValueSats - distributed, pdr_feeSats = feeSats\<rparr>))"

end
