(* ===== verification/MiningJob.thy ===== *)
theory MiningJob
  imports Difficulty PayoutDistribution
begin

text \<open>
  \<open>src/models/MiningJob.ts\<close>: the coinbase of a job, its two halves around the extranonce, the header of a
  submitted share and the block that is sent to the node when a share solves it.

  The packages \<open>bitcoinjs-lib\<close> and \<open>bitcoin-address-validation\<close> are the parameter \<open>lib\<close>; what the source
  does with the data of a transaction or block is on records with the fields it reads and writes.
  Amounts are integers of satoshis.
\<close>

section \<open>Data\<close>

record TxInput =
  in_hash :: bytes
  in_index :: nat
  in_script :: bytes
  in_sequence :: nat
  in_witness :: "bytes list"

record TxOutput =
  out_script :: bytes
  out_value :: int

record Transaction =
  tx_version :: nat
  tx_ins :: "TxInput list"
  tx_outs :: "TxOutput list"

record Block =
  blk_version :: int
  blk_prevHash :: bytes
  blk_merkleRoot :: bytes
  blk_timestamp :: jsnum
  blk_bits :: jsnum
  blk_nonce :: jsnum
  blk_witnessCommit :: bytes
  blk_transactions :: "Transaction list"

record AddressObject =
  ao_address :: jsstr
  ao_percent :: "rat option"
  ao_amountSats :: "int option"

record IBlockTemplateTx =
  bt_data :: jsstr
  bt_txid :: "jsstr option"
  bt_hash :: "jsstr option"
  bt_fee :: "int option"
  bt_sigops :: "int option"
  bt_weight :: "int option"

record IJobTemplate =
  jt_block :: Block
  jt_merkle_branch :: "jsstr list"
  jt_id :: jsstr
  jt_creation :: int
  jt_coinbasevalue :: int
  jt_networkDifficulty :: jsnum
  jt_height :: int
  jt_clearJobs :: bool
  jt_payoutSnapshotId :: "jsstr option"
  jt_payoutOutputs :: "AddressObject list option"
  jt_transactions :: "IBlockTemplateTx list option"
  jt_sigoplimit :: "int option"
  jt_sizelimit :: "int option"
  jt_weightlimit :: "int option"

record MiningJob =
  coinbaseTransaction :: Transaction
  coinbasePart1 :: jsstr
  coinbasePart2 :: jsstr
  coinbasePart1Buffer :: bytes
  coinbasePart2Buffer :: bytes
  merkleBranchBuffers :: "bytes list"
  job_jobTemplateId :: jsstr
  job_creation :: int
  payoutAddress :: "jsstr option"
  payoutWorker :: "jsstr option"
  job_jobId :: jsstr

text \<open>
  What is used of the packages: \<open>__toBuffer()\<close> and \<open>toBuffer()\<close> of a transaction (without and with
  witness), \<open>Transaction.fromBuffer\<close>, \<open>getHash(false)\<close>, \<open>script.number.encode\<close>,
  \<open>script.compile([OP_RETURN, data])\<close>, \<open>getAddressInfo\<close> (\<open>None\<close> when it throws) and the \<open>output\<close> of a
  payment of some type (\<open>None\<close> when it throws).
\<close>

record bitcoin_lib =
  lib_toBuffer :: "Transaction \<Rightarrow> bytes"
  lib_toBufferWitness :: "Transaction \<Rightarrow> bytes"
  lib_fromBuffer :: "bytes \<Rightarrow> Transaction"
  lib_getHash :: "Transaction \<Rightarrow> bytes"
  lib_encodeNumber :: "int \<Rightarrow> bytes"
  lib_compileReturn :: "bytes \<Rightarrow> bytes"
  lib_getAddressInfo :: "jsstr \<Rightarrow> AddressType option"
  lib_paymentOutput :: "AddressType \<Rightarrow> jsstr \<Rightarrow> bytes option"

section \<open>Writing numbers into buffers\<close>

definition put_at :: "nat \<Rightarrow> bytes \<Rightarrow> bytes \<Rightarrow> bytes" where
  "put_at off src buf = take (length buf) (take off buf @ src @ drop (off + length src) buf)"

text \<open>NaN passes the range check of Node and is stored as zero.\<close>

definition encodeUInt32LE :: "jsnum \<Rightarrow> bytes result" where
  "encodeUInt32LE value = (case value of
      Num r \<Rightarrow> if r > 4294967295 \<or> r < 0 then Inl RangeError else Inr (le_bytes 4 (nat \<lfloor>r\<rfloor>))
    | NaN \<Rightarrow> Inr (le_bytes 4 0)
    | _ \<Rightarrow> Inl RangeError)"

definition encodeInt32LE :: "int \<Rightarrow> bytes result" where
  "encodeInt32LE value =
     (if value > 2147483647 \<or> value < - 2147483648 then Inl RangeError
      else Inr (le_bytes 4 (unat (to_i32 value))))"

section \<open>The coinbase transaction\<close>

definition getPaymentScript :: "bitcoin_lib \<Rightarrow> jsstr \<Rightarrow> bytes result" where
  "getPaymentScript lib address = (case lib_getAddressInfo lib address of
      None \<Rightarrow> Inl (JsError ''address'')
    | Some otherType \<Rightarrow> Inr []
    | Some t \<Rightarrow> (case lib_paymentOutput lib t address of
          None \<Rightarrow> Inl (JsError ''address'')
        | Some script \<Rightarrow> Inr script))"

definition outputAmount :: "int \<Rightarrow> AddressObject \<Rightarrow> int" where
  "outputAmount reward recipient = (case ao_amountSats recipient of
      None \<Rightarrow> \<lfloor>fl (fl ((case ao_percent recipient of None \<Rightarrow> 0 | Some p \<Rightarrow> p) / 100) * of_int reward)\<rfloor>
    | Some a \<Rightarrow> a)"

fun addOutputs ::
    "bitcoin_lib \<Rightarrow> int \<Rightarrow> AddressObject list \<Rightarrow> int \<Rightarrow> TxOutput list \<Rightarrow> (int \<times> TxOutput list) result" where
  "addOutputs lib reward [] rewardBalance outs = Inr (rewardBalance, outs)"
| "addOutputs lib reward (recipient # rest) rewardBalance outs =
     (let amount = outputAmount reward recipient
      in rbind (getPaymentScript lib (ao_address recipient)) (\<lambda>script.
           addOutputs lib reward rest (rewardBalance - amount)
             (outs @ [\<lparr>out_script = script, out_value = amount\<rparr>])))"

text \<open>Without an output, \<open>outs[0].value\<close> throws.\<close>

definition createCoinbaseTransaction ::
    "bitcoin_lib \<Rightarrow> AddressObject list \<Rightarrow> int \<Rightarrow> Transaction result" where
  "createCoinbaseTransaction lib addresses reward =
     rbind (addOutputs lib reward addresses reward []) (\<lambda>(rewardBalance, outs).
       case outs of
         [] \<Rightarrow> Inl TypeError
       | first # others \<Rightarrow>
           Inr \<lparr>tx_version = 2,
                tx_ins = [\<lparr>in_hash = replicate 32 0, in_index = 0xffffffff, in_script = [],
                  in_sequence = 0xffffffff, in_witness = [replicate 32 0]\<rparr>],
                tx_outs = first\<lparr>out_value := out_value first + rewardBalance\<rparr> # others\<rparr>)"

text \<open>\<open>s.indexOf(pat)\<close>: the first place where \<open>pat\<close> starts, \<open>-1\<close> when there is none.\<close>

fun findFrom :: "int \<Rightarrow> jsstr \<Rightarrow> jsstr \<Rightarrow> int" where
  "findFrom i pat s = (if take (length pat) s = pat then i
     else (case s of [] \<Rightarrow> - 1 | _ # r \<Rightarrow> findFrom (i + 1) pat r))"

declare findFrom.simps [simp del]

definition indexOf :: "jsstr \<Rightarrow> jsstr \<Rightarrow> int" where
  "indexOf s pat = findFrom 0 pat s"

definition poolTag :: bytes where
  "poolTag = map of_char ''pool.powermining.io''"

definition segwitMagicBits :: bytes where
  "segwitMagicBits = hexDecode (jstr ''aa21a9ed'')"

definition inputScript :: "bytes \<Rightarrow> bytes" where
  "inputScript blockHeightEncoded =
     of_nat (length blockHeightEncoded) # blockHeightEncoded @ poolTag
     @ replicate (nat (int TOTAL_EXTRANONCE_SIZE_BYTES + (3 - int (length blockHeightEncoded)))) 0"

text \<open>
  The constructor. A height whose encoding leaves no room for the padding makes \<open>Buffer.alloc\<close> throw.
  The slices are taken at non-negative places, since the script is longer than the extranonce.
\<close>

definition newMiningJob ::
    "bitcoin_lib \<Rightarrow> int \<Rightarrow> jsstr \<Rightarrow> AddressObject list \<Rightarrow> IJobTemplate \<Rightarrow> jsstr option \<Rightarrow> MiningJob result" where
  "newMiningJob lib now jobId payoutInformation jobTemplate worker =
     rbind (createCoinbaseTransaction lib payoutInformation (jt_coinbasevalue jobTemplate)) (\<lambda>tx0.
     (let blockHeightEncoded = lib_encodeNumber lib (jt_height jobTemplate)
      in if int TOTAL_EXTRANONCE_SIZE_BYTES + (3 - int (length blockHeightEncoded)) < 0 then Inl RangeError
         else
          (let script = inputScript blockHeightEncoded;
               tx = tx0\<lparr>tx_ins := map (\<lambda>i. i\<lparr>in_script := script\<rparr>) (tx_ins tx0),
                        tx_outs := tx_outs tx0 @
                          [\<lparr>out_script = lib_compileReturn lib
                               (segwitMagicBits @ blk_witnessCommit (jt_block jobTemplate)), out_value = 0\<rparr>]\<rparr>;
               serializedCoinbaseTx = hexEncode (lib_toBuffer lib tx);
               scriptHex = hexEncode script;
               partOneIndex = indexOf serializedCoinbaseTx scriptHex + int (length scriptHex);
               part1 = take (nat (partOneIndex - int (TOTAL_EXTRANONCE_SIZE_BYTES * 2))) serializedCoinbaseTx;
               part2 = drop (nat partOneIndex) serializedCoinbaseTx
           in Inr \<lparr>coinbaseTransaction = tx, coinbasePart1 = part1, coinbasePart2 = part2,
                   coinbasePart1Buffer = hexDecode part1, coinbasePart2Buffer = hexDecode part2,
                   merkleBranchBuffers = map hexDecode (jt_merkle_branch jobTemplate),
                   job_jobTemplateId = jt_id jobTemplate, job_creation = now,
                   payoutAddress = (if payoutInformation = [] then None
                     else Some (ao_address (last payoutInformation))),
                   payoutWorker = worker, job_jobId = jobId\<rparr>)))"

definition cloneCoinbaseTransaction :: "bitcoin_lib \<Rightarrow> MiningJob \<Rightarrow> Transaction" where
  "cloneCoinbaseTransaction lib job = lib_fromBuffer lib (lib_toBufferWitness lib (coinbaseTransaction job))"

definition getCoinbasePrefixBuffer :: "MiningJob \<Rightarrow> bytes" where
  "getCoinbasePrefixBuffer job = coinbasePart1Buffer job"

definition getCoinbaseSuffixBuffer :: "MiningJob \<Rightarrow> bytes" where
  "getCoinbaseSuffixBuffer job = coinbasePart2Buffer job"

section \<open>Header and block of a share\<close>

text \<open>\<open>bothMerkles.set\<close> throws when the branch does not fit behind the hash.\<close>

fun merkleLoop :: "(bytes \<Rightarrow> bytes) \<Rightarrow> bytes \<Rightarrow> bytes list \<Rightarrow> bytes result" where
  "merkleLoop sha256 bothMerkles [] = Inr (take 32 bothMerkles)"
| "merkleLoop sha256 bothMerkles (branch # rest) =
     (if length branch > 32 then Inl RangeError
      else (let both = put_at 32 branch bothMerkles;
                newRoot = hash256 sha256 both
            in if length newRoot > 64 then Inl RangeError
               else merkleLoop sha256 (put_at 0 newRoot both) rest))"

definition calculateMerkleRootHash :: "(bytes \<Rightarrow> bytes) \<Rightarrow> bytes \<Rightarrow> bytes list \<Rightarrow> bytes result" where
  "calculateMerkleRootHash sha256 newRoot merkleBranches =
     (if length newRoot > 64 then Inl RangeError
      else merkleLoop sha256 (put_at 0 newRoot (replicate 64 0)) merkleBranches)"

definition rolledVersion :: "int \<Rightarrow> jsnum \<Rightarrow> int" where
  "rolledVersion version versionMask =
     (if versionMask \<noteq> Num 0 then js_xor version (js_int versionMask) else version)"

definition buildHeaderBuffer ::
    "(bytes \<Rightarrow> bytes) \<Rightarrow> MiningJob \<Rightarrow> IJobTemplate \<Rightarrow> jsnum \<Rightarrow> jsnum \<Rightarrow> jsstr \<Rightarrow> jsstr \<Rightarrow> jsnum \<Rightarrow> bytes result" where
  "buildHeaderBuffer sha256 job jobTemplate versionMask nonce extraNonce extraNonce2 timestamp =
     (let coinbaseBuffer = coinbasePart1Buffer job @ hexDecode (extraNonce @ extraNonce2) @ coinbasePart2Buffer job;
          coinbaseHash = hash256 sha256 coinbaseBuffer
      in rbind (calculateMerkleRootHash sha256 coinbaseHash (merkleBranchBuffers job)) (\<lambda>merkleRoot.
         rbind (encodeInt32LE (rolledVersion (blk_version (jt_block jobTemplate)) versionMask)) (\<lambda>version.
         (let header = put_at 0 version (replicate 80 0);
              header = put_at 4 (blk_prevHash (jt_block jobTemplate)) header;
              header = put_at 36 merkleRoot header
          in rbind (encodeUInt32LE timestamp) (\<lambda>ts.
             rbind (encodeUInt32LE (blk_bits (jt_block jobTemplate))) (\<lambda>bits.
             rbind (encodeUInt32LE nonce) (\<lambda>n.
               Inr (put_at 76 n (put_at 72 bits (put_at 68 ts header))))))))))"

definition copyAndUpdateBlock ::
    "bitcoin_lib \<Rightarrow> (bytes \<Rightarrow> bytes) \<Rightarrow> MiningJob \<Rightarrow> IJobTemplate \<Rightarrow> jsnum \<Rightarrow> jsnum \<Rightarrow> jsstr \<Rightarrow> jsstr \<Rightarrow> jsnum
     \<Rightarrow> Block result" where
  "copyAndUpdateBlock lib sha256 job jobTemplate versionMask nonce extraNonce extraNonce2 timestamp =
     (let testBlock = jt_block jobTemplate;
          coinbase = cloneCoinbaseTransaction lib job
      in case tx_ins coinbase of
           [] \<Rightarrow> Inl TypeError
         | input # others \<Rightarrow>
            (let nonceScript = hexEncode (in_script input);
                 script = hexDecode (take (length nonceScript - TOTAL_EXTRANONCE_SIZE_BYTES * 2) nonceScript
                   @ extraNonce @ extraNonce2);
                 coinbase = coinbase\<lparr>tx_ins := input\<lparr>in_script := script\<rparr> # others\<rparr>
             in rbind (calculateMerkleRootHash sha256 (lib_getHash lib coinbase) (merkleBranchBuffers job)) (\<lambda>root.
                  Inr (testBlock\<lparr>blk_transactions := coinbase # tl (blk_transactions testBlock),
                     blk_nonce := nonce,
                     blk_version := rolledVersion (blk_version testBlock) versionMask,
                     blk_merkleRoot := root, blk_timestamp := timestamp\<rparr>))))"

text \<open>\<open>swapEndianWords\<close> and the fields of \<open>mining.notify\<close>; out of range, \<open>buffer[i]\<close> is stored as zero.\<close>

definition byteAt :: "bytes \<Rightarrow> nat \<Rightarrow> byte" where
  "byteAt buffer i = (if i < length buffer then buffer ! i else 0)"

definition swapEndianWords :: "bytes \<Rightarrow> bytes" where
  "swapEndianWords buffer =
     map (\<lambda>i. byteAt buffer (4 * (i div 4) + (3 - i mod 4))) [0..<length buffer]"

record IMiningNotify =
  mn_jobId :: jsstr
  mn_prevHash :: jsstr
  mn_coinbase1 :: jsstr
  mn_coinbase2 :: jsstr
  mn_merkleBranch :: "jsstr list"
  mn_version :: jsstr
  mn_bits :: jsstr
  mn_timestamp :: jsstr
  mn_cleanJobs :: bool

definition jobResponse :: "MiningJob \<Rightarrow> IJobTemplate \<Rightarrow> IMiningNotify" where
  "jobResponse job jobTemplate =
     \<lparr>mn_jobId = job_jobId job,
      mn_prevHash = hexEncode (swapEndianWords (blk_prevHash (jt_block jobTemplate))),
      mn_coinbase1 = coinbasePart1 job, mn_coinbase2 = coinbasePart2 job,
      mn_merkleBranch = jt_merkle_branch jobTemplate,
      mn_version = intToString16 (blk_version (jt_block jobTemplate)),
      mn_bits = intToString16 (js_int (blk_bits (jt_block jobTemplate))),
      mn_timestamp = intToString16 (js_int (blk_timestamp (jt_block jobTemplate))),
      mn_cleanJobs = jt_clearJobs jobTemplate\<rparr>"

section \<open>The halves of the coinbase\<close>

text \<open>
  The wire format of a transaction with one input and a short script, and the identity of a transaction,
  as Bitcoin defines them.
\<close>

definition wireFormat :: "bitcoin_lib \<Rightarrow> (bytes \<Rightarrow> bytes) \<Rightarrow> bool" where
  "wireFormat lib sha256 \<longleftrightarrow>
     (\<exists>serOuts. \<forall>tx i. tx_ins tx = [i] \<longrightarrow> length (in_script i) < 253 \<longrightarrow>
        lib_toBuffer lib tx = le_bytes 4 (tx_version tx) @ [1] @ in_hash i @ le_bytes 4 (in_index i)
          @ [of_nat (length (in_script i))] @ in_script i @ le_bytes 4 (in_sequence i) @ serOuts (tx_outs tx))
     \<and> (\<forall>tx. lib_getHash lib tx = hash256 sha256 (lib_toBuffer lib tx))"

text \<open>The 80 bytes of a block header, as Bitcoin defines them.\<close>

definition blockHeader :: "Block \<Rightarrow> bytes result" where
  "blockHeader b =
     rbind (encodeInt32LE (blk_version b)) (\<lambda>version.
     rbind (encodeUInt32LE (blk_timestamp b)) (\<lambda>timestamp.
     rbind (encodeUInt32LE (blk_bits b)) (\<lambda>bits.
     rbind (encodeUInt32LE (blk_nonce b)) (\<lambda>nonce.
       Inr (version @ blk_prevHash b @ blk_merkleRoot b @ timestamp @ bits @ nonce)))))"

lemma findFrom_first:
  assumes "take (length pat) (drop n s) = pat"
    and "\<And>i. i < n \<Longrightarrow> take (length pat) (drop i s) \<noteq> pat" and "n \<le> length s"
  shows "findFrom k pat s = k + int n"
  using assms
proof (induction n arbitrary: k s)
  case 0
  then show ?case by (subst findFrom.simps) simp
next
  case (Suc n)
  from Suc.prems(3) obtain c r where s: "s = c # r" by (cases s) simp_all
  have "findFrom (k + 1) pat r = (k + 1) + int n"
  proof (rule Suc.IH)
    show "take (length pat) (drop n r) = pat" "n \<le> length r" using Suc.prems s by simp_all
    show "take (length pat) (drop i r) \<noteq> pat" if "i < n" for i
      using Suc.prems(2) [of "Suc i"] that s by simp
  qed
  moreover have "take (length pat) s \<noteq> pat" using Suc.prems(2) [of 0] by simp
  ultimately show ?case using s by (subst findFrom.simps) simp
qed

lemma poolTag_hex:
  "hexEncode poolTag = map of_char ''706f6f6c2e706f7765726d696e696e672e696f''"
  by (simp add: poolTag_def hexdigit_def)

lemma length_poolTag [simp]: "length poolTag = 19"
  by (simp add: poolTag_def)

definition tagHex :: jsstr where
  "tagHex = map of_char ''706f6f6c2e706f7765726d696e696e672e696f''"

text \<open>The tag has no period up to 32, and its first character does not occur before it.\<close>

lemma tagHex_no_period:
  assumes "1 \<le> d" "d \<le> 32"
  shows "drop d tagHex \<noteq> take (38 - d) tagHex"
proof -
  have "list_all (\<lambda>d. drop d tagHex \<noteq> take (38 - d) tagHex)
    [1,2,3,4,5,6,7,8,9,10,11,12,13,14,15,16,17,18,19,20,21,22,23,24,25,26,27,28,29,30,31,32]"
    by (simp add: tagHex_def)
  moreover have "d \<in> set [1,2,3,4,5,6,7,8,9,10,11,12,13,14,15,16,17,18,19,20,21,22,23,24,25,26,27,28,29,30,31,32]"
    using assms by simp presburger
  ultimately show ?thesis unfolding list_all_iff by blast
qed

definition coinbaseStart :: bytes where
  "coinbaseStart = le_bytes 4 2 @ [1] @ replicate 32 0 @ le_bytes 4 0xffffffff @ [35]"

lemma length_coinbaseStart [simp]: "length coinbaseStart = 42"
  by (simp add: coinbaseStart_def)

lemma set_hexEncode: "set (hexEncode bs) = (\<Union>b \<in> set bs. {hexdigit (unat b div 16), hexdigit (unat b mod 16)})"
  by (induction bs) auto

lemma coinbaseStart_no_7: "55 \<notin> set (hexEncode coinbaseStart)"
proof -
  have "le_bytes 4 2 = [2, 0, 0, 0]" "le_bytes 4 0xffffffff = [0xff, 0xff, 0xff, 0xff]"
    by (simp_all add: le_bytes_eval)
  then have "set coinbaseStart = {0, 1, 2, 35, 0xff}" by (auto simp: coinbaseStart_def)
  then show ?thesis by (simp add: set_hexEncode hexdigit_def)
qed

lemma length_inputScript: "length h \<le> 15 \<Longrightarrow> length (inputScript h) = 35"
  by (simp add: inputScript_def TOTAL_EXTRANONCE_SIZE_BYTES_def)

lemma script_found_once:
  assumes "length h \<le> 15" "script = inputScript h"
  shows "indexOf (hexEncode (coinbaseStart @ script @ rest)) (hexEncode script) = 84"
proof -
  define k where "k = 2 + 2 * length h"
  let ?P = "hexEncode coinbaseStart" and ?Q = "hexEncode script" and ?T = "hexEncode rest"
  have k: "k \<le> 32" using assms(1) by (simp add: k_def)
  have P: "length ?P = 84" and Q: "length ?Q = 70"
    using assms by (simp_all add: length_inputScript)
  obtain X Z where XZ: "?Q = X @ tagHex @ Z" "length X = k"
    using assms(2) by (simp add: inputScript_def hexEncode_append poolTag_hex [folded tagHex_def] k_def)
      (metis append_Cons length_Cons length_hexEncode add_2_eq_Suc)
  have tag: "length tagHex = 38" "tagHex \<noteq> []" "hd tagHex = 55" by (simp_all add: tagHex_def)
  have at_k: "take 38 (drop k ?Q) = tagHex" using XZ tag by simp
  have no: "take 70 (drop i (?P @ ?Q @ ?T)) \<noteq> ?Q" if i: "i < 84" for i
  proof
    assume e: "take 70 (drop i (?P @ ?Q @ ?T)) = ?Q"
    define d where "d = 84 - i"
    have d: "1 \<le> d" "length (drop i ?P) = d" using i P by (simp_all add: d_def)
    show False
    proof (cases "k < d")
      case True
      have "?Q ! k = 55" using XZ tag by (simp add: nth_append hd_conv_nth)
      moreover have "take 70 (drop i (?P @ ?Q @ ?T)) ! k = drop i ?P ! k"
        using True d P k i by (simp add: nth_append d_def)
      moreover have "drop i ?P ! k \<in> set ?P"
        using True d(2) by (metis in_set_dropD nth_mem)
      ultimately show False using coinbaseStart_no_7 e by simp
    next
      case False
      have room: "38 \<le> 70 - k" using k by simp
      have "tagHex = take 38 (drop k (take 70 (drop i (?P @ ?Q @ ?T))))" using at_k e by simp
      also have "drop i (?P @ ?Q @ ?T) = drop i ?P @ ?Q @ ?T" using i P by simp
      also have "take 70 (drop i ?P @ ?Q @ ?T) = drop i ?P @ take (70 - d) ?Q"
        using False d k Q by simp
      also have "drop k (drop i ?P @ take (70 - d) ?Q) = drop (k - d) (take (70 - d) ?Q)"
        using False d by simp
      also have "\<dots> = take (70 - k) (drop (k - d) ?Q)" using False by (simp add: drop_take)
      also have "take 38 (take (70 - k) (drop (k - d) ?Q)) = take 38 (drop (k - d) ?Q)"
        using room by (simp add: min_absorb1)
      finally have shifted: "tagHex = take 38 (drop (k - d) ?Q)" .
      have "drop d tagHex = drop d (take 38 (drop (k - d) ?Q))" using shifted by simp
      also have "\<dots> = take (38 - d) (drop k ?Q)" using False by (simp add: drop_take)
      also have "\<dots> = take (38 - d) (take 38 (drop k ?Q))" by simp
      finally have "drop d tagHex = take (38 - d) tagHex" by (simp only: at_k)
      then show False using tagHex_no_period [OF d(1)] False k by simp
    qed
  qed
  have "findFrom 0 ?Q (?P @ ?Q @ ?T) = 0 + int 84"
    using no P Q by (intro findFrom_first) simp_all
  then show ?thesis by (simp add: indexOf_def hexEncode_append)
qed

lemma createCoinbase_shape:
  assumes "createCoinbaseTransaction lib addresses reward = Inr tx"
  shows "tx_version tx = 2"
    "tx_ins tx = [\<lparr>in_hash = replicate 32 0, in_index = 0xffffffff, in_script = [],
       in_sequence = 0xffffffff, in_witness = [replicate 32 0]\<rparr>]"
proof -
  obtain b outs where o: "addOutputs lib reward addresses reward [] = Inr (b, outs)"
    using assms by (auto simp: createCoinbaseTransaction_def rbind_Inr_iff)
  then obtain first others where "outs = first # others"
    using assms by (cases outs) (auto simp: createCoinbaseTransaction_def)
  with o assms show "tx_version tx = 2"
    "tx_ins tx = [\<lparr>in_hash = replicate 32 0, in_index = 0xffffffff, in_script = [],
       in_sequence = 0xffffffff, in_witness = [replicate 32 0]\<rparr>]"
    by (auto simp: createCoinbaseTransaction_def)
qed

text \<open>What the constructor builds, over the wire format.\<close>

lemma newMiningJob_halves:
  assumes "wireFormat lib sha256" "newMiningJob lib now jobId payout jt worker = Inr job"
  obtains script input after where
    "length script = 35" "tx_ins (coinbaseTransaction job) = [input]" "in_script input = script"
    "coinbasePart1Buffer job = coinbaseStart @ take 23 script" "coinbasePart2Buffer job = after"
    "\<And>s. length s = 35 \<Longrightarrow>
       lib_toBuffer lib (coinbaseTransaction job\<lparr>tx_ins := [input\<lparr>in_script := s\<rparr>]\<rparr>) = coinbaseStart @ s @ after"
    "merkleBranchBuffers job = map hexDecode (jt_merkle_branch jt)"
proof -
  from assms(2) obtain tx0 where tx0: "createCoinbaseTransaction lib payout (jt_coinbasevalue jt) = Inr tx0"
    by (auto simp: newMiningJob_def rbind_Inr_iff)
  note shape = createCoinbase_shape [OF tx0]
  let ?h = "lib_encodeNumber lib (jt_height jt)" and ?script = "inputScript (lib_encodeNumber lib (jt_height jt))"
  have h: "length ?h \<le> 15"
  proof (rule ccontr)
    assume "\<not> length ?h \<le> 15"
    then have "int TOTAL_EXTRANONCE_SIZE_BYTES + (3 - int (length ?h)) < 0"
      by (simp add: TOTAL_EXTRANONCE_SIZE_BYTES_def)
    with assms(2) show False by (simp only: newMiningJob_def tx0 rbind_simps Let_def if_True) simp
  qed
  have ls: "length ?script = 35" using h by (rule length_inputScript)
  define input where "input = \<lparr>in_hash = replicate 32 0, in_index = 0xffffffff, in_script = ?script,
       in_sequence = 0xffffffff, in_witness = [replicate 32 0 :: bytes]\<rparr>"
  define outs where "outs = tx_outs tx0 @ [\<lparr>out_script = lib_compileReturn lib
      (segwitMagicBits @ blk_witnessCommit (jt_block jt)), out_value = 0\<rparr>]"
  define tx where "tx = tx0\<lparr>tx_ins := [input], tx_outs := outs\<rparr>"
  have txeq: "tx0\<lparr>tx_ins := map (\<lambda>i. i\<lparr>in_script := ?script\<rparr>) (tx_ins tx0), tx_outs := outs\<rparr> = tx"
    by (simp add: tx_def shape input_def)
  from assms(1) obtain serOuts where wf: "\<And>tx i. tx_ins tx = [i] \<Longrightarrow> length (in_script i) < 253 \<Longrightarrow>
        lib_toBuffer lib tx = le_bytes 4 (tx_version tx) @ [1] @ in_hash i @ le_bytes 4 (in_index i)
          @ [of_nat (length (in_script i))] @ in_script i @ le_bytes 4 (in_sequence i) @ serOuts (tx_outs tx)"
    by (auto simp: wireFormat_def)
  define after where "after = le_bytes 4 0xffffffff @ serOuts outs"
  have ser: "lib_toBuffer lib (tx\<lparr>tx_ins := [input\<lparr>in_script := s\<rparr>]\<rparr>) = coinbaseStart @ s @ after"
    if "length s = 35" for s
  proof -
    have "lib_toBuffer lib (tx\<lparr>tx_ins := [input\<lparr>in_script := s\<rparr>]\<rparr>)
       = le_bytes 4 2 @ [1] @ replicate 32 0 @ le_bytes 4 0xffffffff @ [of_nat (length s)] @ s @ after"
      by (subst wf [of _ "input\<lparr>in_script := s\<rparr>"]) (simp_all add: that tx_def shape input_def after_def outs_def)
    then show ?thesis by (simp add: coinbaseStart_def that)
  qed
  have same: "tx\<lparr>tx_ins := [input\<lparr>in_script := ?script\<rparr>]\<rparr> = tx"
    by (rule Transaction.equality) (simp_all add: tx_def input_def)
  have txser: "lib_toBuffer lib tx = coinbaseStart @ ?script @ after"
    using ser [OF ls] unfolding same .
  have idx: "indexOf (hexEncode (lib_toBuffer lib tx)) (hexEncode ?script) = 84"
    unfolding txser using h by (rule script_found_once) simp
  have job: "coinbaseTransaction job = tx"
    "coinbasePart1Buffer job = hexDecode (take 130 (hexEncode (lib_toBuffer lib tx)))"
    "coinbasePart2Buffer job = hexDecode (drop 154 (hexEncode (lib_toBuffer lib tx)))"
    "merkleBranchBuffers job = map hexDecode (jt_merkle_branch jt)"
    using assms(2) h idx ls
    by (auto simp: newMiningJob_def tx0 Let_def TOTAL_EXTRANONCE_SIZE_BYTES_def txeq outs_def [symmetric]
        nat_add_distrib split: if_splits)
  have sp: "coinbaseStart @ ?script @ after = (coinbaseStart @ take 23 ?script) @ drop 23 ?script @ after"
    by (metis append_assoc append_take_drop_id)
  have "take 130 (hexEncode (lib_toBuffer lib tx)) = hexEncode (coinbaseStart @ take 23 ?script)"
    unfolding txser sp hexEncode_append [of "coinbaseStart @ take 23 ?script"] using ls by simp
  moreover have sp2: "coinbaseStart @ ?script @ after = (coinbaseStart @ ?script) @ after" by simp
  have "drop 154 (hexEncode (lib_toBuffer lib tx)) = hexEncode after"
    unfolding txser sp2 hexEncode_append [of "coinbaseStart @ ?script"] using ls by simp
  ultimately have "coinbasePart1Buffer job = coinbaseStart @ take 23 ?script" "coinbasePart2Buffer job = after"
    by (simp_all add: job)
  then show thesis using that [of ?script input after] ls ser job by (simp add: tx_def input_def)
qed

section \<open>Headers\<close>

lemma put_at_append:
  "length a = off \<Longrightarrow> length b = length src \<Longrightarrow> put_at off src (a @ b @ c) = a @ src @ c"
  by (simp add: put_at_def)

lemma length_put_at [simp]: "off + length src \<le> length buf \<Longrightarrow> length (put_at off src buf) = length buf"
  by (simp add: put_at_def)

lemma length_encoded:
  "encodeInt32LE v = Inr b \<Longrightarrow> length b = 4" "encodeUInt32LE w = Inr b \<Longrightarrow> length b = 4"
  by (auto simp: encodeInt32LE_def encodeUInt32LE_def split: if_splits jsnum.splits)

lemma length_merkleLoop:
  "merkleLoop sha256 both branches = Inr mroot \<Longrightarrow> length both = 64 \<Longrightarrow> length mroot = 32"
  by (induction branches arbitrary: both) (auto simp: Let_def split: if_splits)

lemma length_merkleRoot: "calculateMerkleRootHash sha256 h branches = Inr mroot \<Longrightarrow> length mroot = 32"
  by (auto simp: calculateMerkleRootHash_def length_merkleLoop split: if_splits)

lemma replicate_split: "replicate 80 (0 :: byte)
   = replicate 4 0 @ replicate 32 0 @ replicate 32 0 @ replicate 4 0 @ replicate 4 0 @ replicate 4 0"
  by (simp add: replicate_add [symmetric])

lemma header_layout:
  assumes "length v = 4" "length p = 32" "length r = 32" "length t = 4" "length b = 4" "length n = 4"
  shows "put_at 76 n (put_at 72 b (put_at 68 t (put_at 36 r (put_at 4 p (put_at 0 v (replicate 80 0))))))
    = v @ p @ r @ t @ b @ n"
proof -
  let ?z4 = "replicate 4 (0 :: byte)" and ?z32 = "replicate 32 (0 :: byte)"
  have 0: "put_at 0 v (replicate 80 0) = v @ ?z32 @ ?z32 @ ?z4 @ ?z4 @ ?z4"
    using put_at_append [of "[]" 0 ?z4 v] assms by (simp only: replicate_split append_Nil) simp
  have 1: "put_at 4 p (v @ ?z32 @ ?z32 @ ?z4 @ ?z4 @ ?z4) = v @ p @ ?z32 @ ?z4 @ ?z4 @ ?z4"
    using assms by (intro put_at_append) simp_all
  have 2: "put_at 36 r (v @ p @ ?z32 @ ?z4 @ ?z4 @ ?z4) = v @ p @ r @ ?z4 @ ?z4 @ ?z4"
    using put_at_append [of "v @ p" 36 ?z32 r] assms by simp
  have 3: "put_at 68 t (v @ p @ r @ ?z4 @ ?z4 @ ?z4) = v @ p @ r @ t @ ?z4 @ ?z4"
    using put_at_append [of "v @ p @ r" 68 ?z4 t] assms by simp
  have 4: "put_at 72 b (v @ p @ r @ t @ ?z4 @ ?z4) = v @ p @ r @ t @ b @ ?z4"
    using put_at_append [of "v @ p @ r @ t" 72 ?z4 b] assms by simp
  have 5: "put_at 76 n (v @ p @ r @ t @ b @ ?z4) = v @ p @ r @ t @ b @ n"
    using put_at_append [of "v @ p @ r @ t @ b" 76 ?z4 n "[]"] assms by simp
  show ?thesis unfolding 0 1 2 3 4 5 ..
qed

section \<open>Properties\<close>

text \<open>
  C10. What is checked is what is submitted: for extranonces of the sizes the pool hands out, in
  hexadecimal, the header that a share is judged by is the header of the block that is sent to the node,
  with the coinbase of the job carrying those extranonces, for every version vmask, nonce and time, the
  errors for values that do not fit included.
\<close>

theorem submitted_block_has_checked_header:
  assumes "wireFormat lib sha256" "newMiningJob lib now jobId payout jt worker = Inr job"
    and "lib_fromBuffer lib (lib_toBufferWitness lib (coinbaseTransaction job)) = coinbaseTransaction job"
    and "length (blk_prevHash (jt_block jt)) = 32"
    and "length en1 = 8" "list_all is_hex en1" "length en2 = 16" "list_all is_hex en2"
  shows "rbind (copyAndUpdateBlock lib sha256 job jt vmask nonce en1 en2 ts) blockHeader
     = buildHeaderBuffer sha256 job jt vmask nonce en1 en2 ts"
proof -
  from newMiningJob_halves [OF assms(1,2)] obtain script input after where
    j: "length script = 35" "tx_ins (coinbaseTransaction job) = [input]" "in_script input = script"
    "coinbasePart1Buffer job = coinbaseStart @ take 23 script" "coinbasePart2Buffer job = after"
    and ser: "\<And>s. length s = 35 \<Longrightarrow>
       lib_toBuffer lib (coinbaseTransaction job\<lparr>tx_ins := [input\<lparr>in_script := s\<rparr>]\<rparr>) = coinbaseStart @ s @ after"
    by metis
  let ?en = "hexDecode (en1 @ en2)"
  let ?tx = "coinbaseTransaction job\<lparr>tx_ins := [input\<lparr>in_script := take 23 script @ ?en\<rparr>]\<rparr>"
  have en: "length ?en = 12" using assms(5-8) by (simp add: hexDecode_append length_hexDecode)
  have sc: "hexEncode script = hexEncode (take 23 script) @ hexEncode (drop 23 script)"
    by (simp flip: hexEncode_append)
  have "take 46 (hexEncode script) = hexEncode (take 23 script)" unfolding sc using j(1) by simp
  then have scr: "hexDecode (take (length (hexEncode script) - TOTAL_EXTRANONCE_SIZE_BYTES * 2) (hexEncode script)
      @ en1 @ en2) = take 23 script @ ?en"
    using j(1) by (simp add: TOTAL_EXTRANONCE_SIZE_BYTES_def hexDecode_hexEncode_append)
  have hash: "lib_getHash lib ?tx
      = hash256 sha256 (coinbasePart1Buffer job @ ?en @ coinbasePart2Buffer job)"
    using assms(1) ser [of "take 23 script @ ?en"] en j by (simp add: wireFormat_def)
  have copy: "copyAndUpdateBlock lib sha256 job jt vmask nonce en1 en2 ts
    = rbind (calculateMerkleRootHash sha256 (lib_getHash lib ?tx) (merkleBranchBuffers job)) (\<lambda>mroot.
        Inr ((jt_block jt)\<lparr>blk_transactions := ?tx # tl (blk_transactions (jt_block jt)), blk_nonce := nonce,
          blk_version := rolledVersion (blk_version (jt_block jt)) vmask, blk_merkleRoot := mroot,
          blk_timestamp := ts\<rparr>))"
    using scr j by (simp add: copyAndUpdateBlock_def cloneCoinbaseTransaction_def assms(3) Let_def)
  show ?thesis
  proof (cases "calculateMerkleRootHash sha256 (lib_getHash lib ?tx) (merkleBranchBuffers job)")
    case (Inl e)
    then show ?thesis by (simp add: copy buildHeaderBuffer_def Let_def hash)
  next
    case (Inr mroot)
    have r: "length mroot = 32" using Inr by (rule length_merkleRoot)
    have lay: "encodeInt32LE (rolledVersion (blk_version (jt_block jt)) vmask) = Inr v \<Longrightarrow>
       encodeUInt32LE ts = Inr t \<Longrightarrow> encodeUInt32LE (blk_bits (jt_block jt)) = Inr b \<Longrightarrow>
       encodeUInt32LE nonce = Inr n \<Longrightarrow>
       put_at 76 n (put_at 72 b (put_at 68 t (put_at 36 mroot (put_at 4 (blk_prevHash (jt_block jt))
         (put_at 0 v (replicate 80 0)))))) = v @ blk_prevHash (jt_block jt) @ mroot @ t @ b @ n" for v t b n
      using r assms(4) length_encoded by (intro header_layout) blast+
    have cong: "rbind x f = rbind x g" if "\<And>a. x = Inr a \<Longrightarrow> f a = g a" for x :: "bytes result" and f g :: "bytes \<Rightarrow> bytes result"
      using that by (cases x) simp_all
    show ?thesis
      unfolding copy buildHeaderBuffer_def Let_def hash [symmetric] Inr rbind_simps blockHeader_def
      by (simp del: append_assoc) (intro cong, simp add: lay)
  qed
qed

definition sampleLib :: "Transaction \<Rightarrow> bitcoin_lib" where
  "sampleLib tx =
     (let ser = (\<lambda>tx. case tx_ins tx of [i] \<Rightarrow> le_bytes 4 (tx_version tx) @ [1] @ in_hash i @ le_bytes 4 (in_index i)
          @ [of_nat (length (in_script i))] @ in_script i @ le_bytes 4 (in_sequence i) @ [] | _ \<Rightarrow> [])
      in \<lparr>lib_toBuffer = ser, lib_toBufferWitness = (\<lambda>_. []), lib_fromBuffer = (\<lambda>_. tx),
          lib_getHash = (\<lambda>tx. hash256 (replicate 32 \<circ> hd) (ser tx)), lib_encodeNumber = (\<lambda>_. [100]),
          lib_compileReturn = (\<lambda>b. 0x6a # of_nat (length b) # b),
          lib_getAddressInfo = (\<lambda>_. Some otherType), lib_paymentOutput = (\<lambda>_ _. None)\<rparr>)"

definition sampleTemplate :: IJobTemplate where
  "sampleTemplate = \<lparr>jt_block = \<lparr>blk_version = 536870912, blk_prevHash = replicate 32 1,
       blk_merkleRoot = replicate 32 0, blk_timestamp = Num 1700000000, blk_bits = Num 486604799,
       blk_nonce = Num 0, blk_witnessCommit = replicate 32 2, blk_transactions = []\<rparr>,
     jt_merkle_branch = [], jt_id = jstr ''1'', jt_creation = 0, jt_coinbasevalue = 312500000,
     jt_networkDifficulty = Num 1, jt_height = 100, jt_clearJobs = True, jt_payoutSnapshotId = None,
     jt_payoutOutputs = None, jt_transactions = None, jt_sigoplimit = None, jt_sizelimit = None, jt_weightlimit = None\<rparr>"

definition samplePayout :: "AddressObject list" where
  "samplePayout = [\<lparr>ao_address = jstr ''a'', ao_percent = Some 100, ao_amountSats = None\<rparr>]"

lemma wireFormat_sampleLib: "wireFormat (sampleLib tx) (replicate 32 \<circ> hd)"
  unfolding wireFormat_def sampleLib_def Let_def by (intro conjI exI [of _ "\<lambda>_. []"]) simp_all

lemma newMiningJob_sampleLib:
  "newMiningJob (sampleLib tx) now jobId payout jt worker = newMiningJob (sampleLib tx') now jobId payout jt worker"
proof -
  have "getPaymentScript (sampleLib tx) = getPaymentScript (sampleLib tx')"
    by (simp add: fun_eq_iff getPaymentScript_def sampleLib_def Let_def)
  then have "addOutputs (sampleLib tx) r rs b os = addOutputs (sampleLib tx') r rs b os" for r rs b os
    by (induction rs arbitrary: b os) (simp_all add: Let_def)
  then have "createCoinbaseTransaction (sampleLib tx) = createCoinbaseTransaction (sampleLib tx')"
    by (simp add: fun_eq_iff createCoinbaseTransaction_def)
  then show ?thesis by (simp add: newMiningJob_def) (simp add: sampleLib_def Let_def)
qed

lemma sampleJob:
  obtains job where "newMiningJob (sampleLib (coinbaseTransaction job)) now jobId samplePayout sampleTemplate worker = Inr job"
proof -
  let ?t = "undefined :: Transaction"
  have "\<exists>tx. createCoinbaseTransaction (sampleLib ?t) samplePayout (jt_coinbasevalue sampleTemplate) = Inr tx"
    by (simp add: createCoinbaseTransaction_def samplePayout_def getPaymentScript_def sampleLib_def Let_def)
  then obtain tx where "createCoinbaseTransaction (sampleLib ?t) samplePayout (jt_coinbasevalue sampleTemplate) = Inr tx"
    by blast
  moreover have "lib_encodeNumber (sampleLib ?t) h = [100]" for h by (simp add: sampleLib_def Let_def)
  ultimately have "\<exists>job. newMiningJob (sampleLib ?t) now jobId samplePayout sampleTemplate worker = Inr job"
    by (simp add: newMiningJob_def TOTAL_EXTRANONCE_SIZE_BYTES_def Let_def)
  then obtain job where "newMiningJob (sampleLib ?t) now jobId samplePayout sampleTemplate worker = Inr job" by blast
  then have "newMiningJob (sampleLib (coinbaseTransaction job)) now jobId samplePayout sampleTemplate worker = Inr job"
    by (metis newMiningJob_sampleLib)
  then show thesis by (rule that)
qed

lemma submitted_block_has_checked_header_witness:
  "\<exists>lib job. newMiningJob lib 0 (jstr ''1'') samplePayout sampleTemplate None = Inr job
    \<and> rbind (copyAndUpdateBlock lib (replicate 32 \<circ> hd) job sampleTemplate (Num 0) (Num 7) (jstr ''00000001'')
         (jstr ''00000000000000ff'') (Num 1700000001)) blockHeader
      = buildHeaderBuffer (replicate 32 \<circ> hd) job sampleTemplate (Num 0) (Num 7) (jstr ''00000001'')
         (jstr ''00000000000000ff'') (Num 1700000001)"
proof -
  obtain job where j: "newMiningJob (sampleLib (coinbaseTransaction job)) 0 (jstr ''1'') samplePayout sampleTemplate None = Inr job"
    by (rule sampleJob)
  have c: "lib_fromBuffer (sampleLib t) b = t" for t b by (simp add: sampleLib_def Let_def)
  have p: "length (blk_prevHash (jt_block sampleTemplate)) = 32" by (simp add: sampleTemplate_def)
  have e: "length (jstr ''00000001'') = 8" "list_all is_hex (jstr ''00000001'')"
    "length (jstr ''00000000000000ff'') = 16" "list_all is_hex (jstr ''00000000000000ff'')"
    by (simp_all add: jstr_def is_hex_def hexval_def)
  show ?thesis
    using submitted_block_has_checked_header [OF wireFormat_sampleLib j c p e] j by blast
qed

lemma addOutputs_sum:
  "addOutputs lib reward rs bal outs = Inr (bal', outs') \<Longrightarrow>
     bal' + sum_list (map out_value outs') = bal + sum_list (map out_value outs)"
  by (induction rs arbitrary: bal outs) (auto simp: rbind_Inr_iff Let_def)

lemma createCoinbase_sum:
  assumes "createCoinbaseTransaction lib addresses reward = Inr tx"
  shows "sum_list (map out_value (tx_outs tx)) = reward"
proof -
  obtain b outs where o: "addOutputs lib reward addresses reward [] = Inr (b, outs)"
    using assms by (auto simp: createCoinbaseTransaction_def rbind_Inr_iff)
  then obtain first others where f: "outs = first # others"
    using assms by (cases outs) (auto simp: createCoinbaseTransaction_def)
  have "b + sum_list (map out_value outs) = reward" using addOutputs_sum [OF o] by simp
  with o f assms show ?thesis by (auto simp: createCoinbaseTransaction_def)
qed

lemma newMiningJob_pays:
  assumes "newMiningJob lib now jobId payout jt worker = Inr job"
  shows "sum_list (map out_value (tx_outs (coinbaseTransaction job))) = jt_coinbasevalue jt" "payout \<noteq> []"
    "payoutAddress job = Some (ao_address (last payout))" "job_jobId job = jobId" "job_jobTemplateId job = jt_id jt"
proof -
  from assms obtain tx where tx: "createCoinbaseTransaction lib payout (jt_coinbasevalue jt) = Inr tx"
    by (auto simp: newMiningJob_def rbind_Inr_iff)
  have p: "payout \<noteq> []" using tx by (auto simp: createCoinbaseTransaction_def)
  show "sum_list (map out_value (tx_outs (coinbaseTransaction job))) = jt_coinbasevalue jt"
    "payoutAddress job = Some (ao_address (last payout))" "job_jobId job = jobId" "job_jobTemplateId job = jt_id jt"
    using assms tx p createCoinbase_sum [OF tx] by (auto simp: newMiningJob_def Let_def split: if_splits)
  show "payout \<noteq> []" by (rule p)
qed

text \<open>
  C40. A coinbase pays out its whole reward: whatever the percentages and amounts of the recipients are and
  however they round, the outputs of the transaction of a job add up to the value of the template's
  coinbase, and the address a share of the job is attributed to is that of the last recipient.
\<close>

theorem coinbase_pays_reward:
  assumes "newMiningJob lib now jobId payout jt worker = Inr job"
  shows "sum_list (map out_value (tx_outs (coinbaseTransaction job))) = jt_coinbasevalue jt
    \<and> payout \<noteq> [] \<and> payoutAddress job = Some (ao_address (last payout))"
  using newMiningJob_pays [OF assms] by blast

lemma coinbase_pays_reward_witness:
  "\<exists>lib job. newMiningJob lib 0 (jstr ''1'') samplePayout sampleTemplate None = Inr job
     \<and> sum_list (map out_value (tx_outs (coinbaseTransaction job))) = 312500000"
proof -
  obtain job where j: "newMiningJob (sampleLib (coinbaseTransaction job)) 0 (jstr ''1'') samplePayout sampleTemplate None = Inr job"
    by (rule sampleJob)
  then show ?thesis using coinbase_pays_reward [OF j] by (auto simp: sampleTemplate_def)
qed

lemma word_place_involution:
  fixes i :: nat
  shows "4 * ((4 * (i div 4) + (3 - i mod 4)) div 4) + (3 - (4 * (i div 4) + (3 - i mod 4)) mod 4) = i"
proof -
  have r: "i mod 4 < 4" by simp
  then have "(4 * (i div 4) + (3 - i mod 4)) mod 4 = 3 - i mod 4" by (subst mod_mult_self4) (rule mod_less, linarith)
  moreover have "(4 * (i div 4) + (3 - i mod 4)) div 4 = i div 4" by (rule div_mult_self4 [THEN trans]) simp_all
  moreover have "3 - (3 - i mod 4) = i mod 4" using r by (intro diff_diff_cancel) linarith
  ultimately show ?thesis using mult_div_mod_eq [of 4 i] by (simp only:)
qed

lemma swapEndianWords_nth:
  assumes "4 dvd length b" "i < length b"
  shows "swapEndianWords b ! i = b ! (4 * (i div 4) + (3 - i mod 4))"
    "4 * (i div 4) + (3 - i mod 4) < length b"
proof -
  obtain k where "length b = 4 * k" using assms(1) by blast
  then show "4 * (i div 4) + (3 - i mod 4) < length b" using assms(2) by presburger
  with assms(2) show "swapEndianWords b ! i = b ! (4 * (i div 4) + (3 - i mod 4))"
    by (simp add: swapEndianWords_def byteAt_def)
qed

text \<open>
  The previous block's hash reaches the miner word by word reversed and loses nothing: on buffers of
  whole words, the swap undoes itself.
\<close>

theorem swapEndianWords_involution:
  assumes "4 dvd length buffer"
  shows "swapEndianWords (swapEndianWords buffer) = buffer"
proof (rule nth_equalityI)
  have l: "length (swapEndianWords b) = length b" for b by (simp add: swapEndianWords_def)
  show "length (swapEndianWords (swapEndianWords buffer)) = length buffer" by (simp add: l)
  fix i assume "i < length (swapEndianWords (swapEndianWords buffer))"
  then have i: "i < length buffer" by (simp add: l)
  let ?j = "4 * (i div 4) + (3 - i mod 4)"
  note n = swapEndianWords_nth [OF assms]
  have "swapEndianWords (swapEndianWords buffer) ! i = swapEndianWords buffer ! ?j"
    using swapEndianWords_nth(1) [of "swapEndianWords buffer" i] assms i by (simp add: l)
  also have "\<dots> = buffer ! (4 * (?j div 4) + (3 - ?j mod 4))" by (rule n(1)) (rule n(2) [OF i])
  also have "4 * (?j div 4) + (3 - ?j mod 4) = i" by (rule word_place_involution)
  finally show "swapEndianWords (swapEndianWords buffer) ! i = buffer ! i" .
qed

lemma swapEndianWords_involution_witness:
  "swapEndianWords (swapEndianWords [1, 2, 3, 4, 5, 6, 7, 8]) = [1, 2, 3, 4, 5, 6, 7, 8]"
  by (rule swapEndianWords_involution, rule dvdI [of _ _ 2]) simp

end
