(* ===== verification/StratumJobs.thy ===== *)
theory StratumJobs
  imports MiningJob
begin

text \<open>
  \<open>src/services/stratum-v1-jobs.service.ts\<close>: templates and jobs shared by all connections, their identifiers,
  and the pipeline that turns a block template of the node into a job template. The clock and the height
  of the chain (\<open>miningInfo.blocks\<close>) are arguments; \<open>bitcoinjs-lib\<close> and \<open>merkle-lib\<close> are the parameter
  \<open>lib\<close>, the decimal text of a number the parameter \<open>numStr\<close>. A dictionary is an association list.
\<close>

section \<open>Data\<close>

record IBlockTemplate =
  bt_version :: int
  bt_previousblockhash :: jsstr
  bt_bits :: jsstr
  bt_mintime :: int
  bt_height :: int
  bt_coinbasevalue :: int
  bt_payoutSnapshotId :: "jsstr option"
  bt_payoutOutputs :: "AddressObject list option"
  bt_transactions :: "IBlockTemplateTx list"
  bt_sigoplimit :: "int option"
  bt_sizelimit :: "int option"
  bt_weightlimit :: "int option"

text \<open>
  \<open>Transaction.fromHex\<close>, \<open>getHash(false)\<close>, \<open>merkleProof\<close> of the \<open>merkle\<close> tree without its gaps, and
  \<open>Block.calculateMerkleRoot(transactions, true)\<close>.
\<close>

record template_lib =
  tl_fromHex :: "jsstr \<Rightarrow> Transaction option"
  tl_getHash :: "Transaction \<Rightarrow> bytes"
  tl_merkleProof :: "bytes list \<Rightarrow> bytes \<Rightarrow> bytes list"
  tl_witnessRoot :: "Transaction list \<Rightarrow> bytes"

record JobsService =
  latestJobId :: nat
  latestJobTemplateId :: nat
  jobs :: "(jsstr \<times> MiningJob) list"
  blocks :: "(jsstr \<times> IJobTemplate) list"
  lastBlockHeight :: int
  lastWorkSignature :: "jsstr option"

definition newJobsService :: JobsService where
  "newJobsService = \<lparr>latestJobId = 1, latestJobTemplateId = 1, jobs = [], blocks = [],
     lastBlockHeight = 0, lastWorkSignature = None\<rparr>"

section \<open>Identifiers and lookups\<close>

definition getNextId :: "JobsService \<Rightarrow> jsstr" where
  "getNextId s = toString16 (latestJobId s)"

definition getNextTemplateId :: "JobsService \<Rightarrow> jsstr" where
  "getNextTemplateId s = toString16 (latestJobTemplateId s)"

definition addJob :: "MiningJob \<Rightarrow> JobsService \<Rightarrow> JobsService" where
  "addJob job s = s\<lparr>jobs := AList.update (job_jobId job) job (jobs s), latestJobId := latestJobId s + 1\<rparr>"

definition getJobById :: "JobsService \<Rightarrow> jsstr \<Rightarrow> MiningJob option" where
  "getJobById s jobId = map_of (jobs s) jobId"

definition getJobTemplateById :: "JobsService \<Rightarrow> jsstr \<Rightarrow> IJobTemplate option" where
  "getJobTemplateById s jobTemplateId = map_of (blocks s) jobTemplateId"

section \<open>The pipeline\<close>

definition calculateNetworkDifficulty :: "int \<Rightarrow> jsnum" where
  "calculateNetworkDifficulty nBits =
     (let mantissa = js_and nBits 0x007fffff;
          exponent = js_and (js_shr nBits 24) 0xff;
          target = js_mul (Num (of_int mantissa)) (rnd (pow2 (8 * (exponent - 3))));
          maxTarget = js_mul (rnd (pow2 208)) (Num 65535)
      in js_div maxTarget target)"

definition convertToLittleEndian :: "jsstr \<Rightarrow> bytes" where
  "convertToLittleEndian hash = rev (hexDecode hash)"

fun joinWith :: "jsstr \<Rightarrow> jsstr list \<Rightarrow> jsstr" where
  "joinWith sep [] = []"
| "joinWith sep [s] = s"
| "joinWith sep (s # t # rest) = s @ sep @ joinWith sep (t # rest)"

definition orEmpty :: "('a \<Rightarrow> jsstr) \<Rightarrow> 'a option \<Rightarrow> jsstr" where
  "orEmpty f x = (case x of None \<Rightarrow> [] | Some a \<Rightarrow> f a)"

definition workSignature :: "(rat \<Rightarrow> jsstr) \<Rightarrow> IBlockTemplate \<Rightarrow> int \<Rightarrow> jsstr" where
  "workSignature numStr bt timestamp =
     joinWith (jstr ''|'')
       ([bt_previousblockhash bt, numStr (of_int (bt_version bt)), bt_bits bt, numStr (of_int timestamp),
         numStr (of_int (bt_height bt)), numStr (of_int (bt_coinbasevalue bt)),
         orEmpty (\<lambda>i. i) (bt_payoutSnapshotId bt)]
        @ map (\<lambda>out. joinWith (jstr '':'')
             [ao_address out, orEmpty (\<lambda>a. numStr (of_int a)) (ao_amountSats out),
              orEmpty numStr (ao_percent out)])
           (case bt_payoutOutputs bt of None \<Rightarrow> [] | Some os \<Rightarrow> os)
        @ map (\<lambda>tx. case bt_hash tx of Some h \<Rightarrow> h | None \<Rightarrow> (case bt_txid tx of Some t \<Rightarrow> t | None \<Rightarrow> bt_data tx))
           (bt_transactions bt))"

text \<open>The first \<open>map\<close> and the \<open>filter\<close>: whether the template is new work, and with what timestamp.\<close>

definition noticeTemplate ::
    "(rat \<Rightarrow> jsstr) \<Rightarrow> int \<Rightarrow> int \<Rightarrow> IBlockTemplate \<Rightarrow> JobsService \<Rightarrow> (int \<times> bool) option \<times> JobsService" where
  "noticeTemplate numStr nowMs currentBlockHeight bt s =
     (let clearJobs = (lastBlockHeight s = 0 \<or> lastBlockHeight s \<noteq> currentBlockHeight);
          s = (if clearJobs then s\<lparr>lastBlockHeight := currentBlockHeight\<rparr> else s);
          currentTime = nowMs div 1000;
          timestamp = (if bt_mintime bt > currentTime then bt_mintime bt else currentTime);
          signature = workSignature numStr bt timestamp
      in if \<not> clearJobs \<and> lastWorkSignature s = Some signature then (None, s)
         else (Some (timestamp, clearJobs), s\<lparr>lastWorkSignature := Some signature\<rparr>))"

text \<open>The second \<open>map\<close>: the block with an empty coinbase, the branch of the coinbase, a fresh identifier.\<close>

definition emptyCoinbase :: Transaction where
  "emptyCoinbase = \<lparr>tx_version = 2,
     tx_ins = [\<lparr>in_hash = replicate 32 0, in_index = 0xffffffff, in_script = [], in_sequence = 0xffffffff,
       in_witness = [replicate 32 0]\<rparr>], tx_outs = []\<rparr>"

fun readTransactions :: "template_lib \<Rightarrow> IBlockTemplateTx list \<Rightarrow> Transaction list result" where
  "readTransactions lib [] = Inr []"
| "readTransactions lib (t # ts) = (case tl_fromHex lib (bt_data t) of
      None \<Rightarrow> Inl (JsError ''transaction'')
    | Some tx \<Rightarrow> rmap (\<lambda>txs. tx # txs) (readTransactions lib ts))"

definition buildJobTemplate ::
    "template_lib \<Rightarrow> int \<Rightarrow> IBlockTemplate \<Rightarrow> int \<Rightarrow> bool \<Rightarrow> Transaction list \<Rightarrow> JobsService
     \<Rightarrow> IJobTemplate \<times> JobsService" where
  "buildJobTemplate lib nowMs bt timestamp clearJobs txs s =
     (let transactions = emptyCoinbase # txs;
          hashes = map (tl_getHash lib) transactions;
          merkleBranches = tl_merkleProof lib hashes (hd hashes);
          bits = parseInt 16 (bt_bits bt);
          block = \<lparr>blk_version = bt_version bt, blk_prevHash = convertToLittleEndian (bt_previousblockhash bt),
            blk_merkleRoot = (if merkleBranches = [] then [] else last merkleBranches),
            blk_timestamp = Num (of_int timestamp), blk_bits = bits, blk_nonce = Num 0,
            blk_witnessCommit = tl_witnessRoot lib transactions, blk_transactions = transactions\<rparr>
      in (\<lparr>jt_block = block, jt_merkle_branch = map hexEncode (drop 1 (butlast merkleBranches)),
           jt_id = getNextTemplateId s, jt_creation = nowMs, jt_coinbasevalue = bt_coinbasevalue bt,
           jt_networkDifficulty = calculateNetworkDifficulty (js_int bits), jt_height = bt_height bt,
           jt_clearJobs = clearJobs, jt_payoutSnapshotId = bt_payoutSnapshotId bt,
           jt_payoutOutputs = bt_payoutOutputs bt,
           jt_transactions = Some (bt_transactions bt), jt_sigoplimit = bt_sigoplimit bt,
           jt_sizelimit = bt_sizelimit bt, jt_weightlimit = bt_weightlimit bt\<rparr>,
          s\<lparr>latestJobTemplateId := latestJobTemplateId s + 1\<rparr>))"

text \<open>The \<open>tap\<close>: what is kept.\<close>

definition keepTemplate :: "int \<Rightarrow> IJobTemplate \<Rightarrow> JobsService \<Rightarrow> JobsService" where
  "keepTemplate now data s =
     (let s = (if jt_clearJobs data then s\<lparr>blocks := [], jobs := []\<rparr>
               else s\<lparr>blocks := filter (\<lambda>(_, b). \<not> now - jt_creation b > 1000 * 60 * 5) (blocks s),
                      jobs := filter (\<lambda>(_, j). \<not> now - job_creation j > 1000 * 60 * 5) (jobs s)\<rparr>)
      in s\<lparr>blocks := AList.update (jt_id data) data (blocks s)\<rparr>)"

text \<open>A template runs through the pipeline; a transaction that cannot be read ends the stream.\<close>

definition onBlockTemplate ::
    "(rat \<Rightarrow> jsstr) \<Rightarrow> template_lib \<Rightarrow> int \<Rightarrow> int \<Rightarrow> IBlockTemplate \<Rightarrow> JobsService
     \<Rightarrow> IJobTemplate option result \<times> JobsService" where
  "onBlockTemplate numStr lib nowMs currentBlockHeight bt s =
     (case noticeTemplate numStr nowMs currentBlockHeight bt s of
        (None, s) \<Rightarrow> (Inr None, s)
      | (Some (timestamp, clearJobs), s) \<Rightarrow>
          (case readTransactions lib (bt_transactions bt) of
             Inl e \<Rightarrow> (Inl e, s)
           | Inr txs \<Rightarrow>
               (let (data, s) = buildJobTemplate lib nowMs bt timestamp clearJobs txs s
                in (Inr (Some data), keepTemplate nowMs data s))))"

section \<open>The store of jobs as its clients see it\<close>

text \<open>
  A connection asks for the next identifier, builds a job under it and adds it, in one step; later it
  looks a job up by the identifier a miner sends. What it relies on is that the lookup gives the job
  that was issued under that identifier, or none.
\<close>

locale job_issuer =
  fixes inv :: "'s \<Rightarrow> 'j list \<Rightarrow> bool"
    and ident :: "'j \<Rightarrow> 'i"
    and next_id :: "'s \<Rightarrow> 'i"
    and add :: "'j \<Rightarrow> 's \<Rightarrow> 's"
    and find :: "'s \<Rightarrow> 'i \<Rightarrow> 'j option"
  assumes next_fresh: "inv s issued \<Longrightarrow> next_id s \<notin> ident ` set issued"
    and add_keeps: "inv s issued \<Longrightarrow> ident j = next_id s \<Longrightarrow> inv (add j s) (j # issued)"
    and add_find: "inv s issued \<Longrightarrow> ident j = next_id s \<Longrightarrow> find (add j s) (ident j) = Some j"
    and find_issued: "inv s issued \<Longrightarrow> find s i = Some j \<Longrightarrow> j \<in> set issued \<and> ident j = i"
begin

text \<open>Jobs issued one after the other, by the functions that build them from the identifier.\<close>

fun issue :: "('i \<Rightarrow> 'j) list \<Rightarrow> 's \<Rightarrow> 'j list \<Rightarrow> 's \<times> 'j list" where
  "issue [] s issued = (s, issued)"
| "issue (mk # mks) s issued = issue mks (add (mk (next_id s)) s) (mk (next_id s) # issued)"

lemma issue_inv:
  assumes "inv s issued" "\<And>mk i. mk \<in> set mks \<Longrightarrow> ident (mk i) = i" "issue mks s issued = (s', issued')"
  shows "inv s' issued'"
  using assms
proof (induction mks arbitrary: s issued)
  case (Cons mk mks)
  have "inv (add (mk (next_id s)) s) (mk (next_id s) # issued)"
    using Cons.prems by (intro add_keeps) simp_all
  then show ?case using Cons.IH Cons.prems by simp
qed simp

lemma issued_distinct:
  assumes "inv s issued" "distinct (map ident issued)"
    and "\<And>mk i. mk \<in> set mks \<Longrightarrow> ident (mk i) = i" "issue mks s issued = (s', issued')"
  shows "distinct (map ident issued')"
  using assms
proof (induction mks arbitrary: s issued)
  case (Cons mk mks)
  have i: "ident (mk (next_id s)) = next_id s" using Cons.prems by simp
  have "inv (add (mk (next_id s)) s) (mk (next_id s) # issued)"
    using Cons.prems i by (intro add_keeps) simp_all
  moreover have "distinct (map ident (mk (next_id s) # issued))"
    using next_fresh [OF Cons.prems(1)] Cons.prems(2) i by simp
  ultimately show ?case using Cons.IH Cons.prems by simp
qed simp

lemma found_unique:
  assumes "inv s issued" "distinct (map ident issued)" "j \<in> set issued" "find s (ident j) = Some j'"
  shows "j' = j"
  using find_issued [OF assms(1,4)] assms(2,3) by (auto simp: distinct_map dest: inj_onD)

end

section \<open>The invariant of the service\<close>

text \<open>
  \<open>issued\<close> is the history of added jobs. Every kept job and template is filed under its own identifier, every
  issued identifier is below the counter, and what is kept was issued.
\<close>

definition jobs_inv :: "JobsService \<Rightarrow> MiningJob list \<Rightarrow> bool" where
  "jobs_inv s issued \<longleftrightarrow>
     (\<forall>j \<in> set issued. \<exists>n < latestJobId s. job_jobId j = toString16 n)
     \<and> (\<forall>(k, j) \<in> set (jobs s). j \<in> set issued \<and> job_jobId j = k)
     \<and> (\<forall>(k, b) \<in> set (blocks s). jt_id b = k \<and> (\<exists>n < latestJobTemplateId s. k = toString16 n))"

lemma set_update_sub: "(k, v) \<in> set (AList.update a b al) \<Longrightarrow> (k, v) \<in> set al \<or> (k = a \<and> v = b)"
  by (induction al) (auto split: if_splits)

lemma jobs_inv_add:
  assumes "jobs_inv s issued" "job_jobId j = getNextId s"
  shows "jobs_inv (addJob j s) (j # issued)"
proof -
  have "\<exists>n < Suc (latestJobId s). job_jobId i = toString16 n" if "i \<in> set (j # issued)" for i
    using that assms by (auto simp: jobs_inv_def getNextId_def intro: less_SucI)
  moreover have "i \<in> set (j # issued) \<and> job_jobId i = k" if "(k, i) \<in> set (jobs (addJob j s))" for k i
    using that assms by (auto simp: addJob_def jobs_inv_def dest!: set_update_sub)
  ultimately show ?thesis using assms(1) by (auto simp: jobs_inv_def addJob_def)
qed

interpretation v1_jobs: job_issuer jobs_inv job_jobId getNextId addJob getJobById
proof unfold_locales
  fix s issued and j j' :: MiningJob and i
  assume inv: "jobs_inv s issued"
  show "getNextId s \<notin> job_jobId ` set issued"
    using inv by (auto simp: jobs_inv_def getNextId_def)
  show "getJobById s i = Some j \<Longrightarrow> j \<in> set issued \<and> job_jobId j = i"
    using inv by (auto simp: jobs_inv_def getJobById_def dest!: map_of_SomeD)
  assume "job_jobId j = getNextId s"
  with inv show "jobs_inv (addJob j s) (j # issued)" by (rule jobs_inv_add)
  show "getJobById (addJob j s) (job_jobId j) = Some j"
    by (simp add: getJobById_def addJob_def update_conv')
qed

lemma jobs_inv_notice:
  "jobs_inv s issued \<Longrightarrow> noticeTemplate numStr now h bt s = (r, s') \<Longrightarrow> jobs_inv s' issued"
  by (auto simp: noticeTemplate_def Let_def jobs_inv_def split: if_splits)

lemma jobs_inv_template:
  assumes "jobs_inv s issued" "buildJobTemplate lib now bt ts clr txs s = (data, s')"
  shows "jobs_inv (keepTemplate now' data s') issued"
proof -
  have s': "s' = s\<lparr>latestJobTemplateId := Suc (latestJobTemplateId s)\<rparr>" "jt_id data = toString16 (latestJobTemplateId s)"
    using assms(2) by (auto simp: buildJobTemplate_def Let_def getNextTemplateId_def)
  let ?k = "keepTemplate now' data s'"
  have "(k, j) \<in> set (jobs s)" if "(k, j) \<in> set (jobs ?k)" for k j
    using that by (auto simp: keepTemplate_def Let_def s' split: if_splits)
  moreover have "(k, b) \<in> set (blocks s) \<or> (k = toString16 (latestJobTemplateId s) \<and> b = data)"
    if "(k, b) \<in> set (blocks ?k)" for k b
    using that by (auto simp: keepTemplate_def Let_def s' split: if_splits dest!: set_update_sub)
  moreover have "latestJobId ?k = latestJobId s" "latestJobTemplateId ?k = Suc (latestJobTemplateId s)"
    by (simp_all add: keepTemplate_def Let_def s')
  ultimately show ?thesis
    using assms(1) s'(2) unfolding jobs_inv_def by (fastforce intro: less_SucI)
qed

lemma jobs_inv_onBlockTemplate:
  assumes "jobs_inv s issued" "onBlockTemplate numStr lib now h bt s = (r, s')"
  shows "jobs_inv s' issued"
proof -
  obtain n s1 where n: "noticeTemplate numStr now h bt s = (n, s1)" by fastforce
  have i: "jobs_inv s1 issued" using assms(1) n by (rule jobs_inv_notice)
  show ?thesis
  proof (cases n)
    case None
    with assms(2) n i show ?thesis by (simp add: onBlockTemplate_def)
  next
    case (Some p)
    obtain ts clr where p: "p = (ts, clr)" by (cases p)
    show ?thesis
    proof (cases "readTransactions lib (bt_transactions bt)")
      case (Inl e)
      with assms(2) n i Some p show ?thesis by (simp add: onBlockTemplate_def)
    next
      case (Inr txs)
      obtain data s2 where d: "buildJobTemplate lib now bt ts clr txs s1 = (data, s2)" by fastforce
      then have "s' = keepTemplate now data s2"
        using assms(2) n Some p Inr by (simp add: onBlockTemplate_def)
      with jobs_inv_template [OF i d] show ?thesis by simp
    qed
  qed
qed

section \<open>Runs of the service\<close>

text \<open>What happens to it: a template of the node, or a connection that adds a job under the next identifier.\<close>

datatype jobs_event =
    NodeTemplate int int IBlockTemplate
  | IssueJob "jsstr \<Rightarrow> MiningJob"

inductive jobs_reach ::
    "(rat \<Rightarrow> jsstr) \<Rightarrow> template_lib \<Rightarrow> JobsService \<Rightarrow> MiningJob list \<Rightarrow> bool" for numStr lib where
  start: "jobs_reach numStr lib newJobsService []"
| template: "jobs_reach numStr lib s issued \<Longrightarrow> onBlockTemplate numStr lib now h bt s = (r, s')
     \<Longrightarrow> jobs_reach numStr lib s' issued"
| issue: "jobs_reach numStr lib s issued \<Longrightarrow> job_jobId j = getNextId s
     \<Longrightarrow> jobs_reach numStr lib (addJob j s) (j # issued)"

lemma jobs_reach_inv:
  "jobs_reach numStr lib s issued \<Longrightarrow> jobs_inv s issued \<and> distinct (map job_jobId issued)"
proof (induction rule: jobs_reach.induct)
  case start
  then show ?case by (simp add: jobs_inv_def newJobsService_def)
next
  case (template s issued now h bt r s')
  then show ?case using jobs_inv_onBlockTemplate by blast
next
  case (issue s issued j)
  then show ?case using jobs_inv_add v1_jobs.next_fresh [of s issued] by auto
qed

section \<open>Properties\<close>

text \<open>
  C27. A share is only ever judged by the work it names: after any interleaving of new templates, expiries
  and jobs of all connections, a job found under an identifier is the one and only job that was ever
  issued under it, and it names a template that is either gone or the one filed under its identifier.
\<close>

theorem job_lookup_unique:
  assumes "jobs_reach numStr lib s issued" "getJobById s i = Some j"
  shows "j \<in> set issued \<and> job_jobId j = i \<and> (\<forall>j' \<in> set issued. job_jobId j' = i \<longrightarrow> j' = j)
    \<and> (\<forall>b. getJobTemplateById s (job_jobTemplateId j) = Some b \<longrightarrow> jt_id b = job_jobTemplateId j)"
proof -
  note inv = jobs_reach_inv [OF assms(1)]
  have f: "j \<in> set issued" "job_jobId j = i"
    using v1_jobs.find_issued [OF _ assms(2)] inv by blast+
  moreover have "j' = j" if "j' \<in> set issued" "job_jobId j' = i" for j'
    using inv f that by (auto simp: distinct_map dest: inj_onD)
  moreover have "jt_id b = job_jobTemplateId j" if "getJobTemplateById s (job_jobTemplateId j) = Some b" for b
    using that inv by (auto simp: getJobTemplateById_def jobs_inv_def dest!: map_of_SomeD)
  ultimately show ?thesis by blast
qed

definition sampleJobRecord :: MiningJob where
  "sampleJobRecord = \<lparr>coinbaseTransaction = emptyCoinbase, coinbasePart1 = [], coinbasePart2 = [],
     coinbasePart1Buffer = [], coinbasePart2Buffer = [], merkleBranchBuffers = [],
     job_jobTemplateId = jstr ''1'', job_creation = 0, payoutAddress = None, payoutWorker = None,
     job_jobId = jstr ''1''\<rparr>"

lemma job_lookup_unique_witness:
  "sampleJobRecord \<in> set [sampleJobRecord]
   \<and> getJobById (addJob sampleJobRecord newJobsService) (jstr ''1'') = Some sampleJobRecord
   \<and> job_jobId sampleJobRecord = jstr ''1''"
proof -
  have "job_jobId sampleJobRecord = getNextId newJobsService"
    by (simp add: sampleJobRecord_def getNextId_def newJobsService_def toString16.simps hexdigit_def jstr_def)
  then have r: "jobs_reach (\<lambda>_. []) undefined (addJob sampleJobRecord newJobsService) [sampleJobRecord]"
    by (intro jobs_reach.issue jobs_reach.start)
  have f: "getJobById (addJob sampleJobRecord newJobsService) (jstr ''1'') = Some sampleJobRecord"
    by (simp add: getJobById_def addJob_def newJobsService_def sampleJobRecord_def)
  show ?thesis using job_lookup_unique [OF r f] f by blast
qed

text \<open>
  A new block makes all older work stale at once: when the chain has grown since the last template and
  the new one can be read, no job is found any more and the only template left is the new one, which
  tells the miners to drop their work.
\<close>

theorem new_block_clears_jobs:
  assumes "currentBlockHeight \<noteq> lastBlockHeight s"
    and "readTransactions lib (bt_transactions bt) = Inr txs"
    and "onBlockTemplate numStr lib nowMs currentBlockHeight bt s = (r, s')"
  shows "\<exists>data. r = Inr (Some data) \<and> jt_clearJobs data \<and> (\<forall>i. getJobById s' i = None)
    \<and> (\<forall>i. getJobTemplateById s' i = (if i = jt_id data then Some data else None))
    \<and> lastBlockHeight s' = currentBlockHeight"
proof -
  obtain ts s1 where n: "noticeTemplate numStr nowMs currentBlockHeight bt s = (Some (ts, True), s1)"
    and h1: "lastBlockHeight s1 = currentBlockHeight"
    using assms(1) by (auto simp: noticeTemplate_def Let_def)
  obtain data s2 where d: "buildJobTemplate lib nowMs bt ts True txs s1 = (data, s2)" by fastforce
  then have c: "jt_clearJobs data" "lastBlockHeight s2 = currentBlockHeight"
    using h1 by (auto simp: buildJobTemplate_def Let_def)
  have "r = Inr (Some data)" "s' = keepTemplate nowMs data s2"
    using assms(2,3) by (simp_all add: onBlockTemplate_def n d)
  with c show ?thesis by (simp add: keepTemplate_def getJobById_def getJobTemplateById_def)
qed

definition sampleNodeTemplate :: IBlockTemplate where
  "sampleNodeTemplate = \<lparr>bt_version = 536870912, bt_previousblockhash = jstr ''00'', bt_bits = jstr ''1d00ffff'',
     bt_mintime = 0, bt_height = 101, bt_coinbasevalue = 312500000, bt_payoutSnapshotId = None,
     bt_payoutOutputs = None, bt_transactions = [], bt_sigoplimit = None, bt_sizelimit = None,
     bt_weightlimit = None\<rparr>"

lemma new_block_clears_jobs_witness:
  "\<forall>i. getJobById (snd (onBlockTemplate (\<lambda>_. []) \<lparr>tl_fromHex = (\<lambda>_. None), tl_getHash = (\<lambda>_. []),
      tl_merkleProof = (\<lambda>h _. h), tl_witnessRoot = (\<lambda>_. [])\<rparr> 1000 100 sampleNodeTemplate
      (addJob sampleJobRecord newJobsService))) i = None"
proof -
  let ?lib = "\<lparr>tl_fromHex = (\<lambda>_. None), tl_getHash = (\<lambda>_. []), tl_merkleProof = (\<lambda>h _. h), tl_witnessRoot = (\<lambda>_. [])\<rparr>"
  let ?s = "addJob sampleJobRecord newJobsService"
  have h: "100 \<noteq> lastBlockHeight ?s" by (simp add: addJob_def newJobsService_def)
  have t: "readTransactions ?lib (bt_transactions sampleNodeTemplate) = Inr []" by (simp add: sampleNodeTemplate_def)
  show ?thesis using new_block_clears_jobs [OF h t surjective_pairing] by blast
qed

text \<open>
  Work ages out: after a template that does not start a new block, every kept job and every other
  kept template is at most five minutes old, and none is lost before.
\<close>

theorem old_work_expires:
  assumes "buildJobTemplate lib nowMs bt timestamp False txs s = (data, s')"
  shows "(\<forall>i j. map_of (jobs (keepTemplate nowMs data s')) i = Some j \<longrightarrow> nowMs - job_creation j \<le> 300000)
    \<and> (\<forall>i j. (i, j) \<in> set (jobs s) \<longrightarrow> nowMs - job_creation j \<le> 300000
         \<longrightarrow> (i, j) \<in> set (jobs (keepTemplate nowMs data s')))
    \<and> (\<forall>i b. map_of (blocks (keepTemplate nowMs data s')) i = Some b \<longrightarrow> nowMs - jt_creation b \<le> 300000)"
proof -
  have c: "\<not> jt_clearJobs data" "jt_creation data = nowMs" "jobs s' = jobs s" "blocks s' = blocks s"
    using assms by (auto simp: buildJobTemplate_def Let_def)
  show ?thesis
    using c by (auto simp: keepTemplate_def Let_def update_conv' split: if_splits dest!: map_of_SomeD)
qed

lemma old_work_expires_witness:
  "\<not> (\<exists>j. map_of (jobs (keepTemplate 300001
      (fst (buildJobTemplate \<lparr>tl_fromHex = (\<lambda>_. None), tl_getHash = (\<lambda>_. []), tl_merkleProof = (\<lambda>h _. h),
         tl_witnessRoot = (\<lambda>_. [])\<rparr> 300001 sampleNodeTemplate 300 False [] (addJob sampleJobRecord newJobsService)))
      (snd (buildJobTemplate \<lparr>tl_fromHex = (\<lambda>_. None), tl_getHash = (\<lambda>_. []), tl_merkleProof = (\<lambda>h _. h),
         tl_witnessRoot = (\<lambda>_. [])\<rparr> 300001 sampleNodeTemplate 300 False [] (addJob sampleJobRecord newJobsService)))))
      (jstr ''1'') = Some j \<and> job_creation j = 0)"
  using old_work_expires [OF surjective_pairing] by fastforce

end
