(* ===== verification/ClientStatistics.thy ===== *)
theory ClientStatistics
  imports JsArith
begin

text \<open>
  \<open>src/models/StratumV1ClientStatistics.ts\<close>: the cache of accepted shares of one connection, its hash
  rate and the variable difficulty. Times are milliseconds, as \<open>Date.getTime\<close> gives them; the clock is
  an argument. Bitwise operators work on the low 32 bits of their operands.
\<close>

section \<open>Definitions\<close>

definition CACHE_SIZE :: nat where "CACHE_SIZE = 30"

record CachedSubmission =
  cs_time :: int
  cs_difficulty :: jsnum

record ClientStatistics =
  targetSubmitShareEveryNSeconds :: jsnum
  st_hashRate :: jsnum
  submissionCacheStart :: int
  submissionCache :: "CachedSubmission list"
  submissionCacheDifficultySum :: jsnum
  minDifficulty :: jsnum

definition newStatistics :: "int \<Rightarrow> jsnum \<Rightarrow> ClientStatistics" where
  "newStatistics now minDiff = \<lparr>targetSubmitShareEveryNSeconds = Num 30, st_hashRate = Num 0,
     submissionCacheStart = now, submissionCache = [], submissionCacheDifficultySum = Num 0,
     minDifficulty = minDiff\<rparr>"

text \<open>The clock is read twice: for the entry and for the elapsed time.\<close>

definition addShares :: "int \<Rightarrow> int \<Rightarrow> jsnum \<Rightarrow> ClientStatistics \<Rightarrow> ClientStatistics" where
  "addShares date now targetDifficulty st =
     (let st = (if length (submissionCache st) > CACHE_SIZE
                then st\<lparr>submissionCacheDifficultySum :=
                          js_sub (submissionCacheDifficultySum st) (cs_difficulty (hd (submissionCache st))),
                        submissionCache := tl (submissionCache st)\<rparr>
                else st);
          st = st\<lparr>submissionCache := submissionCache st @ [\<lparr>cs_time = date, cs_difficulty = targetDifficulty\<rparr>],
                  submissionCacheDifficultySum := js_add (submissionCacheDifficultySum st) targetDifficulty\<rparr>;
          time = now - cs_time (hd (submissionCache st))
      in if time > 60000 \<and> length (submissionCache st) > 2
         then st\<lparr>st_hashRate := js_div (js_mul (submissionCacheDifficultySum st) (Num 4294967296))
                                   (js_div (Num (of_int time)) (Num 1000))\<rparr>
         else st)"

definition smear :: "int \<Rightarrow> int" where
  "smear val =
     (let x = js_or val (js_shr val 1);
          x = js_or x (js_shr x 2);
          x = js_or x (js_shr x 4);
          x = js_or x (js_shr x 8);
          x = js_or x (js_shr x 16);
          x = js_or x (js_shr x 32)
      in x)"

text \<open>
  \<open>nearestPowerOfTwo\<close>; \<open>Some None\<close> is \<open>null\<close>, the outer \<open>None\<close> is a recursion that never ends (and
  overflows the stack). A \<open>null\<close> from the inner call counts as zero in the division.
\<close>

partial_function (option) nearestPowerOfTwo :: "jsnum \<Rightarrow> jsnum \<Rightarrow> jsnum option option" where
  "nearestPowerOfTwo minDiff val =
     (if val = Num 0 then Some None
      else if js_lt val minDiff then Some (Some minDiff)
      else (let x = smear (js_int val); res = x - js_shr x 1
            in if res = 0 \<and> js_lt (js_mul val (Num 100)) minDiff then Some (Some minDiff)
               else if res = 0
               then Option.bind (nearestPowerOfTwo minDiff (js_mul val (Num 100))) (\<lambda>r.
                      Some (Some (js_div (case r of None \<Rightarrow> Num 0 | Some y \<Rightarrow> y) (Num 100))))
               else Some (Some (Num (of_int res)))))"

declare nearestPowerOfTwo.simps [code]

definition getSuggestedDifficulty :: "int \<Rightarrow> jsnum \<Rightarrow> ClientStatistics \<Rightarrow> jsnum option option" where
  "getSuggestedDifficulty now clientDifficulty st =
     (let cache = submissionCache st
      in if length cache < 5 then
           (if js_lt (Num 60) (js_div (Num (of_int (now - submissionCacheStart st))) (Num 5000))
            then nearestPowerOfTwo (minDifficulty st) (js_div clientDifficulty (Num 6))
            else Some None)
         else
           (let total = foldl (\<lambda>pre cur. js_add pre (cs_difficulty cur)) (Num 0) cache;
                diffSeconds = js_div (Num (of_int (cs_time (last cache) - cs_time (hd cache)))) (Num 1000);
                difficultyPerSecond = js_div total diffSeconds;
                targetDifficulty = js_mul difficultyPerSecond (targetSubmitShareEveryNSeconds st)
            in if js_lt (js_mul clientDifficulty (Num 2)) targetDifficulty
                 \<or> js_lt targetDifficulty (js_div clientDifficulty (Num 2))
               then nearestPowerOfTwo (minDifficulty st) targetDifficulty
               else Some None))"

section \<open>Smearing the highest bit\<close>

lemma bit_signed_drop_bit_32:
  "bit (signed_drop_bit s (x :: 32 word)) i = bit x (if 32 - s \<le> i \<and> i < 32 then 31 else s + i)"
proof -
  have len: "LENGTH(32) = 32" "(32 :: nat) - 1 = 31" by simp_all
  show ?thesis using bit_signed_drop_bit_iff [of s x i] unfolding len .
qed

lemma smear_step:
  fixes w x :: "32 word"
  assumes "\<And>i. bit x i \<longleftrightarrow> (\<exists>j < s. bit w (i + j))" and "\<not> bit w 31" and "0 < s" "s < 32"
  shows "bit (x OR signed_drop_bit s x) i \<longleftrightarrow> (\<exists>j<2 * s. bit w (i + j))"
proof -
  have hi: "\<not> bit w n" if "31 \<le> n" for n
    using that assms(2) by (cases "n = 31") (auto dest: bit_imp_le_length)
  then have x31: "\<not> bit x 31" using assms(1) by simp
  have "bit (signed_drop_bit s x) i \<longleftrightarrow> bit x (i + s)"
  proof (cases "32 - s \<le> i")
    case True
    then have "\<not> bit x (i + s)" using assms(1) hi by simp
    moreover have "bit (signed_drop_bit s x) i \<longleftrightarrow> i < 32 \<and> bit x 31"
      using True by (auto simp: bit_signed_drop_bit_32 dest: bit_imp_le_length)
    ultimately show ?thesis using x31 by simp
  next
    case False
    then show ?thesis by (simp add: bit_signed_drop_bit_32 add.commute)
  qed
  then have "bit (x OR signed_drop_bit s x) i \<longleftrightarrow> (\<exists>j < s. bit w (i + j)) \<or> (\<exists>j < s. bit w (i + s + j))"
    by (simp add: bit_or_iff assms(1))
  also have "\<dots> \<longleftrightarrow> (\<exists>j<2 * s. bit w (i + j))"
  proof
    assume "(\<exists>j < s. bit w (i + j)) \<or> (\<exists>j < s. bit w (i + s + j))"
    then show "\<exists>j<2 * s. bit w (i + j)"
    proof
      assume "\<exists>j < s. bit w (i + s + j)"
      then obtain j where "j < s" "bit w (i + (s + j))" by (auto simp: add.assoc)
      then show ?thesis by (intro exI [of _ "s + j"]) simp
    next
      assume "\<exists>j < s. bit w (i + j)"
      then obtain j where "j < s" "bit w (i + j)" by auto
      then show ?thesis by (intro exI [of _ j]) simp
    qed
  next
    assume "\<exists>j<2 * s. bit w (i + j)"
    then obtain j where j: "j < 2 * s" "bit w (i + j)" by auto
    show "(\<exists>j < s. bit w (i + j)) \<or> (\<exists>j < s. bit w (i + s + j))"
    proof (cases "j < s")
      case False
      then show ?thesis using j by (intro disjI2 exI [of _ "j - s"]) simp
    qed (use j in auto)
  qed
  finally show ?thesis .
qed

lemma to_i32_js_shr: "to_i32 (js_shr a n) = signed_drop_bit (nat (n mod 32)) (to_i32 a)"
  by (simp add: js_shr_def)

lemma smear_bits:
  assumes "\<not> bit (to_i32 v) 31"
  shows "bit (to_i32 (smear v)) i \<longleftrightarrow> (\<exists>j<32. bit (to_i32 v) (i + j))"
proof -
  let ?w = "to_i32 v"
  note st = smear_step [OF _ assms]
  define x1 where "x1 = ?w OR signed_drop_bit 1 ?w"
  define x2 where "x2 = x1 OR signed_drop_bit 2 x1"
  define x4 where "x4 = x2 OR signed_drop_bit 4 x2"
  define x8 where "x8 = x4 OR signed_drop_bit 8 x4"
  define x16 where "x16 = x8 OR signed_drop_bit 16 x8"
  have e: "to_i32 (smear v) = x16"
    by (simp add: smear_def Let_def to_i32_js_shr x1_def x2_def x4_def x8_def x16_def)
  have b1: "bit x1 i \<longleftrightarrow> (\<exists>j<2. bit ?w (i + j))" for i
    using st [of ?w 1 i] by (simp add: x1_def)
  have b2: "bit x2 i \<longleftrightarrow> (\<exists>j<4. bit ?w (i + j))" for i
    using st [OF b1, of i] by (simp add: x2_def)
  have b4: "bit x4 i \<longleftrightarrow> (\<exists>j<8. bit ?w (i + j))" for i
    using st [OF b2, of i] by (simp add: x4_def)
  have b8: "bit x8 i \<longleftrightarrow> (\<exists>j<16. bit ?w (i + j))" for i
    using st [OF b4, of i] by (simp add: x8_def)
  show ?thesis using st [OF b8, of i] by (simp add: e x16_def)
qed

lemma smear_power:
  assumes "2 ^ k \<le> v" "v < 2 ^ Suc k" "k < 31"
  shows "smear v = 2 ^ Suc k - 1"
proof -
  let ?w = "to_i32 v"
  have "(2 :: int) ^ Suc k \<le> 2 ^ 31" using assms(3) by (intro power_increasing) simp_all
  then have v: "0 \<le> v" "v < 2 ^ 31" using assms by (auto intro: order_trans [rotated] zero_le_power)
  have bw: "bit ?w n \<longleftrightarrow> n < 32 \<and> bit v n" for n
    by (simp add: to_i32_def bit_word_of_int_iff)
  have vb: "bit v n \<longleftrightarrow> odd (v div 2 ^ n)" for n by (simp add: bit_iff_odd)
  have hi: "\<not> bit v n" if "k < n" for n
  proof -
    have "(2 :: int) ^ Suc k \<le> 2 ^ n" using that by (intro power_increasing) simp_all
    then show ?thesis using v assms(2) by (simp add: vb div_pos_pos_trivial)
  qed
  have top: "bit v k"
  proof -
    have "v div 2 ^ k = 1"
      using assms(1,2) by (intro int_div_pos_eq [of _ _ _ "v - 2 ^ k"]) simp_all
    then show ?thesis by (simp add: vb)
  qed
  have "to_i32 (smear v) = mask (Suc k)"
  proof (rule bit_word_eqI)
    fix n :: nat assume n: "n < LENGTH(32)"
    have "bit (to_i32 (smear v)) n \<longleftrightarrow> (\<exists>j<32. bit ?w (n + j))"
      using hi [of 31] assms(3) by (intro smear_bits) (simp add: bw)
    also have "\<dots> \<longleftrightarrow> n \<le> k"
    proof
      assume "\<exists>j<32. bit ?w (n + j)"
      then obtain j where "bit v (n + j)" by (auto simp: bw)
      with hi show "n \<le> k" by (metis le_add1 le_trans not_le_imp_less)
    next
      assume "n \<le> k"
      then show "\<exists>j<32. bit ?w (n + j)"
        using top assms(3) by (intro exI [of _ "k - n"]) (simp add: bw)
    qed
    finally show "bit (to_i32 (smear v)) n \<longleftrightarrow> bit (mask (Suc k) :: 32 word) n"
      using n by (auto simp: bit_mask_iff)
  qed
  moreover have "smear v = sint (to_i32 (smear v))"
    by (simp add: smear_def Let_def js_or_def)
  moreover have "sint (mask (Suc k) :: 32 word) = 2 ^ Suc k - 1"
  proof -
    have "(mask (Suc k) :: 32 word) = word_of_int (2 ^ Suc k - 1)"
      by (simp add: mask_eq_exp_minus_1)
    moreover have "signed_take_bit 31 (2 ^ Suc k - 1 :: int) = 2 ^ Suc k - 1"
    proof (rule signed_take_bit_int_eq_self)
      have "(2 :: int) ^ Suc k \<le> 2 ^ 31" using assms(3) by (intro power_increasing) simp_all
      then show "2 ^ Suc k - 1 < (2 :: int) ^ 31" by simp
      have "0 < (2 :: int) ^ Suc k" by simp
      moreover have "- (2 ^ 31) \<le> (0 :: int)" by simp
      ultimately show "- (2 ^ 31) \<le> (2 :: int) ^ Suc k - 1" by linarith
    qed
    moreover have "LENGTH(32) - 1 = 31" by simp
    ultimately show ?thesis by (metis sint_sbintrunc')
  qed
  ultimately show ?thesis by simp
qed

section \<open>Where the recursion ends\<close>

lemma to_i32_small: "0 \<le> v \<Longrightarrow> v < 2 ^ 31 \<Longrightarrow> sint (to_i32 v) = v"
proof -
  assume v: "0 \<le> v" "v < 2 ^ 31"
  moreover have "LENGTH(32) - 1 = 31" by simp
  ultimately have "sint (word_of_int v :: 32 word) = signed_take_bit 31 v" by (metis sint_sbintrunc')
  also have "\<dots> = v" using v by (intro signed_take_bit_int_eq_self) simp_all
  finally show ?thesis by (simp add: to_i32_def)
qed

lemma js_shr_1: "0 \<le> v \<Longrightarrow> v < 2 ^ 31 \<Longrightarrow> js_shr v 1 = v div 2"
  using to_i32_small [of v] by (simp add: js_shr_def sint_signed_drop_bit_eq drop_bit_eq_div)

lemma smear_0: "smear 0 = 0"
  by (simp add: smear_def js_or_def js_shr_def to_i32_def)

lemma smear_result:
  assumes "2 ^ k \<le> v" "v < 2 ^ Suc k" "k < 31"
  shows "smear v - js_shr (smear v) 1 = 2 ^ k"
proof -
  have "(2 :: int) ^ Suc k \<le> 2 ^ 31" using assms(3) by (intro power_increasing) simp_all
  moreover have "1 \<le> (2 :: int) ^ k" by simp
  ultimately have "0 \<le> (2 :: int) ^ Suc k - 1" "(2 :: int) ^ Suc k - 1 < 2 ^ 31" by simp_all
  from js_shr_1 [OF this] show ?thesis by (simp add: smear_power [OF assms])
qed

lemma nearestPowerOfTwo_ge1:
  assumes "1 \<le> v" "v < 2 ^ 31" "m \<le> v"
  shows "\<exists>k. nearestPowerOfTwo (Num m) (Num v) = Some (Some (Num (2 ^ k))) \<and> 2 ^ k \<le> v \<and> v < 2 ^ Suc k"
proof -
  let ?n = "nat \<lfloor>v\<rfloor>"
  have n: "1 \<le> ?n" "int ?n = \<lfloor>v\<rfloor>" using assms(1) by linarith+
  from ex_power_ivl1 [of 2, OF _ n(1)] obtain k where k: "2 ^ k \<le> ?n" "?n < 2 ^ (k + 1)" by auto
  have "\<lfloor>v\<rfloor> < 2 ^ 31" using assms(2) by (simp add: floor_less_iff)
  then have "int ?n < 2 ^ 31" using n(2) by simp
  then have "int (2 ^ k) < int (2 ^ 31)" using k(1) by (metis le_less_trans of_nat_le_iff of_nat_numeral of_nat_power)
  then have k31: "k < 31" by (simp only: of_nat_less_iff power_strict_increasing_iff)
  have ki: "2 ^ k \<le> \<lfloor>v\<rfloor>" "\<lfloor>v\<rfloor> < 2 ^ Suc k"
    using k n(2) by (metis Suc_eq_plus1 of_nat_le_iff of_nat_less_iff of_nat_numeral of_nat_power)+
  have kv: "2 ^ k \<le> v" "v < 2 ^ Suc k"
    using ki(1) ki(2) by (simp_all add: le_floor_iff floor_less_iff)
  have i: "js_int (Num v) = \<lfloor>v\<rfloor>" using assms(1) by (simp add: js_int_def js_trunc_def)
  have r: "smear \<lfloor>v\<rfloor> - js_shr (smear \<lfloor>v\<rfloor>) 1 = 2 ^ k" by (rule smear_result [OF ki k31])
  have "nearestPowerOfTwo (Num m) (Num v) = Some (Some (Num (2 ^ k)))"
    using assms by (subst nearestPowerOfTwo.simps, simp only: Let_def i r) (simp add: js_lt_def)
  with kv show ?thesis by blast
qed

lemma js_mul_hundred: "0 \<le> v \<Longrightarrow> v < 2 ^ 1000 \<Longrightarrow> js_mul (Num v) (Num 100) = Num (fl (v * 100))"
proof -
  assume v: "0 \<le> v" "v < 2 ^ 1000"
  have "fl (v * 100) \<le> v * 100 * (1 + 1 / 2 ^ 53)" by (rule fl_le) (use v in simp)
  also have "\<dots> < 2 ^ 1000 * 100 * 2" using v by simp
  also have "\<dots> < 2 ^ 1024" by simp
  finally have "\<bar>fl (v * 100)\<bar> < 2 ^ 1024" using fl_nonneg [of "v * 100"] v by simp
  then show ?thesis by (simp only: js_mul.simps rnd_small)
qed

lemma nearestPowerOfTwo_small:
  assumes "0 \<le> v" "v < 1" "0 < m" "1 \<le> v * 50 ^ n \<or> v = 0"
  shows "\<exists>r. nearestPowerOfTwo (Num m) (Num v) = Some r \<and> (r = None \<longleftrightarrow> v = 0)"
  using assms
proof (induction n arbitrary: v)
  case 0
  then show ?case by (subst nearestPowerOfTwo.simps) simp
next
  case (Suc n)
  show ?case
  proof (cases "v = 0 \<or> v < m")
    case True
    then show ?thesis by (subst nearestPowerOfTwo.simps) (auto simp: js_lt_def)
  next
    case False
    then have v: "0 < v" "\<not> v < m" using Suc.prems by auto
    have "\<lfloor>v\<rfloor> = 0" using Suc.prems by (simp add: floor_eq_iff)
    then have i: "smear (js_int (Num v)) = 0" using Suc.prems by (simp add: js_int_def js_trunc_def smear_0)
    have z: "js_shr 0 1 = 0" using js_shr_1 [of 0] by simp
    let ?w = "fl (v * 100)"
    have "v < 2 ^ 1000" using Suc.prems(2) by (rule less_trans) simp
    then have w: "js_mul (Num v) (Num 100) = Num ?w" using v by (intro js_mul_hundred) simp_all
    have "v * 100 * (1 - 1 / 2 ^ 53) \<le> ?w" using v by (intro fl_ge) simp
    then have ge: "v * 50 \<le> ?w" using v by simp
    have "?w \<le> v * 100 * (1 + 1 / 2 ^ 53)" using v by (intro fl_le) simp
    then have lt: "?w < 2 ^ 31" using Suc.prems(2) v by simp
    have "\<exists>r. nearestPowerOfTwo (Num m) (Num ?w) = Some r"
    proof (cases "?w < 1")
      case True
      have "1 \<le> v * 50 * 50 ^ n" using Suc.prems(4) v by (simp add: mult.assoc)
      also have "\<dots> \<le> ?w * 50 ^ n" using ge by (intro mult_right_mono) simp_all
      finally show ?thesis using Suc.IH [of ?w] True Suc.prems(3) fl_nonneg [of "v * 100"] v by auto
    next
      case False
      then show ?thesis using nearestPowerOfTwo_ge1 [of ?w m] lt v ge by force
    qed
    then show ?thesis
      using v by (subst nearestPowerOfTwo.simps, simp only: Let_def i z w) (auto simp: js_lt_def)
  qed
qed

text \<open>Multiples of \<open>2 ^ 32\<close>, infinity and NaN all have zero low bits, and times hundred they stay so.\<close>

definition stuck :: "jsnum \<Rightarrow> bool" where
  "stuck x \<longleftrightarrow> (case x of Num r \<Rightarrow> (\<exists>q > 0. r = of_int (2 ^ 32 * q)) | NegInf \<Rightarrow> False | _ \<Rightarrow> True)"

lemma stuck_zero: "stuck x \<Longrightarrow> smear (js_int x) = 0"
proof -
  assume "stuck x"
  then have "to_i32 (js_int x) = 0"
  proof (cases x)
    case (Num r)
    with \<open>stuck x\<close> obtain q where "r = of_int (2 ^ 32 * q)" "0 < q" by (auto simp: stuck_def)
    then have i: "js_int x = 2 ^ 32 * q" unfolding Num by (simp only: js_int_def jsnum.case js_trunc_def floor_of_int) simp
    have "(2 ^ 32 :: 32 word) = 0" by simp
    then show ?thesis unfolding i to_i32_def by (simp only: of_int_mult of_int_power of_int_numeral) simp
  qed (simp_all add: js_int_def to_i32_def)
  then show ?thesis by (simp add: smear_def js_or_def js_shr_def to_i32_def)
qed

lemma stuck_hundred: "stuck x \<Longrightarrow> stuck (js_mul x (Num 100))"
proof (cases x)
  case (Num r)
  assume "stuck x"
  with Num obtain q where q: "r = of_int (2 ^ 32 * q)" "0 < q" by (auto simp: stuck_def)
  have "fl (pow2 32 * of_int (q * 100)) = pow2 32 * fl (of_int (q * 100))" by (rule fl_pow2)
  moreover have p: "pow2 32 = 2 ^ 32" using pow2_nat [of 32] by simp
  moreover have "pow2 32 * of_int (q * 100) = r * 100" unfolding p using q(1) by simp
  moreover have "\<exists>k. fl (of_int (q * 100)) = of_int k" using q(2) by (intro fl_int_Ints) simp
  then obtain k where k: "fl (of_int (q * 100)) = of_int k" by blast
  ultimately have f: "fl (r * 100) = of_int (2 ^ 32 * k)"
    by (simp only: of_int_mult of_int_power of_int_numeral)
  have "0 < fl (of_int (q * 100) :: rat)" using q(2) by simp
  then have "0 < k" unfolding k by simp
  moreover have "0 < r * 100" using q by simp
  ultimately show ?thesis unfolding Num js_mul.simps rnd_def stuck_def using f by auto
qed (auto simp: stuck_def inf_of_def)

lemma stuck_diverges:
  assumes "stuck x" "m \<le> 1"
  shows "nearestPowerOfTwo (Num m) x = None"
proof (rule ccontr)
  assume "nearestPowerOfTwo (Num m) x \<noteq> None"
  then obtain y where y: "nearestPowerOfTwo (Num m) x = Some y" by blast
  have big: "\<not> js_lt x (Num m) \<and> x \<noteq> Num 0" if "stuck x" for x
  proof (cases x)
    case (Num r)
    with that obtain q where q: "r = of_int (2 ^ 32 * q)" "0 < q" by (auto simp: stuck_def)
    then have "1 \<le> r" by simp
    with assms(2) Num show ?thesis by (auto simp: js_lt_def)
  qed (use that in \<open>auto simp: js_lt_def stuck_def\<close>)
  have "min' = Num m \<longrightarrow> \<not> stuck x" if "nearestPowerOfTwo min' x = Some y" for min' x y
  proof (rule nearestPowerOfTwo.raw_induct [OF _ that])
    fix f min' x y
    assume ih: "\<And>min' x y. f min' x = Some y \<Longrightarrow> min' = Num m \<longrightarrow> \<not> stuck x"
      and e: "(if x = Num 0 then Some None else if js_lt x min' then Some (Some min')
        else (let u = smear (js_int x); res = u - js_shr u 1
              in if res = 0 \<and> js_lt (js_mul x (Num 100)) min' then Some (Some min')
                 else if res = 0 then Option.bind (f min' (js_mul x (Num 100)))
                    (\<lambda>r. Some (Some (js_div (case r of None \<Rightarrow> Num 0 | Some y \<Rightarrow> y) (Num 100))))
                 else Some (Some (Num (of_int res))))) = Some y"
    show "min' = Num m \<longrightarrow> \<not> stuck x"
    proof (intro impI notI)
      assume m: "min' = Num m" and s: "stuck x"
      have z: "js_shr 0 1 = 0" using js_shr_1 [of 0] by simp
      from e have "\<exists>r. f min' (js_mul x (Num 100)) = Some r"
        using big [OF s] big [OF stuck_hundred [OF s]]
        by (auto simp: m stuck_zero [OF s] z Let_def bind_eq_Some_conv split: if_splits)
      then show False using ih m stuck_hundred [OF s] by blast
    qed
  qed
  from this [OF y] show False using assms(1) by blast
qed

section \<open>The cache\<close>

definition cache_ok :: "ClientStatistics \<Rightarrow> bool" where
  "cache_ok st \<longleftrightarrow> length (submissionCache st) \<le> CACHE_SIZE + 1
     \<and> sorted (map cs_time (submissionCache st))"

definition last_time :: "ClientStatistics \<Rightarrow> int" where
  "last_time st = (if submissionCache st = [] then submissionCacheStart st else cs_time (last (submissionCache st)))"

lemma addShares_cache:
  "submissionCache (addShares date now d st) =
     (if length (submissionCache st) > CACHE_SIZE then tl (submissionCache st) else submissionCache st)
     @ [\<lparr>cs_time = date, cs_difficulty = d\<rparr>]"
  by (simp add: addShares_def Let_def)

lemma in_tl: "x \<in> set (tl xs) \<Longrightarrow> x \<in> set xs"
  by (cases xs) simp_all

lemma addShares_keeps_cache_ok:
  assumes "cache_ok st" "\<forall>e \<in> set (submissionCache st). cs_time e \<le> date"
  shows "cache_ok (addShares date now d st)"
proof -
  have t: "\<forall>e \<in> set (tl (submissionCache st)). cs_time e \<le> date"
    using assms(2) by (auto dest: in_tl)
  have l: "length (tl (submissionCache st)) \<le> CACHE_SIZE" using assms(1) unfolding cache_ok_def length_tl by linarith
  have so: "sorted (map cs_time (tl (submissionCache st)))"
    using assms(1) by (simp add: cache_ok_def map_tl sorted_tl)
  show ?thesis using assms t l so by (auto simp: cache_ok_def addShares_cache sorted_append)
qed

text \<open>A run of submissions at the given times.\<close>

fun addAll :: "(int \<times> int \<times> jsnum) list \<Rightarrow> ClientStatistics \<Rightarrow> ClientStatistics" where
  "addAll [] st = st"
| "addAll ((date, now, d) # rest) st = addAll rest (addShares date now d st)"

lemma addAll_cache:
  assumes "cache_ok st" "sorted (map fst subs)"
    and "\<forall>e \<in> set (submissionCache st). \<forall>s \<in> set subs. cs_time e \<le> fst s"
  shows "cache_ok (addAll subs st)"
  using assms
proof (induction subs arbitrary: st)
  case (Cons s subs)
  obtain date now d where s: "s = (date, now, d)" by (cases s)
  have "cache_ok (addShares date now d st)"
    using Cons.prems s by (intro addShares_keeps_cache_ok) simp_all
  moreover have "\<forall>e \<in> set (submissionCache (addShares date now d st)). \<forall>s \<in> set subs. cs_time e \<le> fst s"
  proof (intro ballI)
    fix e t assume e: "e \<in> set (submissionCache (addShares date now d st))" and t: "t \<in> set subs"
    have "e \<in> set (submissionCache st) \<or> cs_time e = date"
      using e by (auto simp: addShares_cache split: if_splits dest: in_tl)
    then show "cs_time e \<le> fst t" using Cons.prems(2,3) s t by auto
  qed
  ultimately show ?case using Cons.IH Cons.prems(2) s by simp
qed simp

section \<open>Properties\<close>



text \<open>
  C39. The variable difficulty does not come back from a burst: when at least five shares are cached and
  the first and the last were stored in the same millisecond, the rate is infinite and the rounding
  recurses without end.
\<close>

theorem getSuggestedDifficulty_burst:
  assumes "5 \<le> length (submissionCache st)"
    and "cs_time (last (submissionCache st)) = cs_time (hd (submissionCache st))"
    and "foldl (\<lambda>pre cur. js_add pre (cs_difficulty cur)) (Num 0) (submissionCache st) = Num credit" "0 < credit"
    and "js_lt (Num 0) (targetSubmitShareEveryNSeconds st)" "minDifficulty st = Num m" "m \<le> 1"
    and "\<bar>fl (c * 2)\<bar> < 2 ^ 1024"
  shows "getSuggestedDifficulty now (Num c) st = None"
proof -
  have "js_lt (js_mul (Num c) (Num 2)) PosInf" unfolding js_mul.simps rnd_small [OF assms(8)] by (simp add: js_lt_def)
  moreover have "nearestPowerOfTwo (Num m) PosInf = None"
    using assms(7) by (intro stuck_diverges) (simp_all add: stuck_def)
  moreover have "js_mul PosInf (targetSubmitShareEveryNSeconds st) = PosInf"
    using assms(5) by (cases "targetSubmitShareEveryNSeconds st") (simp_all add: js_lt_def inf_of_def)
  ultimately show ?thesis
    using assms(1-4,6) by (simp add: getSuggestedDifficulty_def Let_def inf_of_def rnd_def del: js_mul.simps)
qed

lemma getSuggestedDifficulty_burst_witness:
  "getSuggestedDifficulty 70000 (Num 16)
     ((newStatistics 0 (Num (1 / 1000)))\<lparr>submissionCache := replicate 5 \<lparr>cs_time = 60000, cs_difficulty = Num 16\<rparr>\<rparr>)
   = None"
proof (rule getSuggestedDifficulty_burst [where credit = 80 and m = "1 / 1000"])
  have r: "replicate 5 x = [x, x, x, x, x]" for x :: "'a" by (simp add: numeral_eq_Suc)
  have n: "rnd (numeral k) = Num (numeral k)" if "(numeral k :: int) \<le> 2 ^ 53" for k
    using rnd_int [of "numeral k"] that by simp
  show "foldl (\<lambda>pre cur. js_add pre (cs_difficulty cur)) (Num 0)
     (submissionCache (newStatistics 0 (Num (1 / 1000))\<lparr>submissionCache := replicate 5 \<lparr>cs_time = 60000, cs_difficulty = Num 16\<rparr>\<rparr>))
     = Num 80"
    by (simp add: r n)
  show "\<bar>fl (16 * 2)\<bar> < (2 :: rat) ^ 1024" using fl_int [of 32] by simp
qed (simp_all add: newStatistics_def numeral_eq_Suc js_lt_def)

text \<open>
  The cache of shares is bounded and in the order of time, whatever is submitted: after any run of
  submissions at times that do not go back it holds at most \<open>CACHE_SIZE + 1\<close> entries.
\<close>

theorem submissionCache_bounded:
  assumes "sorted (map fst subs)"
  shows "length (submissionCache (addAll subs (newStatistics start m))) \<le> CACHE_SIZE + 1
    \<and> sorted (map cs_time (submissionCache (addAll subs (newStatistics start m))))"
  using addAll_cache [of "newStatistics start m" subs] assms by (simp add: cache_ok_def newStatistics_def)

lemma submissionCache_bounded_witness:
  "length (submissionCache (addAll (replicate 100 (7, 7, Num 1)) (newStatistics 0 (Num 1)))) \<le> 31"
  using submissionCache_bounded [of "replicate 100 (7, 7, Num 1)" 0 "Num 1"] by (simp add: CACHE_SIZE_def)

end
