(* ===== verification/StratumV1Client.thy ===== *)
theory StratumV1Client
  imports StratumMessages StateError StratumJobs ClientStatistics
begin

text \<open>
  \<open>src/models/StratumV1Client.ts\<close>: one Stratum V1 connection, from the bytes of its socket to the shares
  and blocks it records. Every handler is a computation on the state of the connection that can throw;
  what it does to the outside (replies, RPC, database, notifications) is appended to the field \<open>outbox\<close>.

  A handler runs to its end before the next event. The clock, randomness, configuration, the outcome of
  every outside call, the node's answer, and the packages are in the record \<open>v1_env\<close>; it may differ from
  event to event. The jobs service is shared between connections and is the field \<open>jobsService\<close>.
  Console output and its rate limits are left out.
\<close>

section \<open>Data\<close>

datatype PayoutMode = solo | pplns

datatype AccountingProtocol = sv1 | sv1_tls

record ClientEntity =
  ce_id :: jsstr
  ce_sessionId :: jsstr
  ce_address :: jsstr
  ce_clientName :: jsstr
  ce_userAgent :: jsstr
  ce_payoutMode :: PayoutMode
  ce_bestDifficulty :: jsnum
  ce_startTime :: int
  ce_updatedAt :: int
  ce_hashRate :: jsnum

record AcceptedShare =
  as_protocol :: AccountingProtocol
  as_payoutMode :: PayoutMode
  as_address :: jsstr
  as_clientName :: jsstr
  as_sessionId :: jsstr
  as_clientId :: jsstr
  as_jobId :: jsstr
  as_jobTemplateId :: jsstr
  as_blockHeight :: int
  as_creditedDifficulty :: jsnum
  as_submissionDifficulty :: jsnum
  as_networkDifficulty :: jsnum
  as_nonce :: jsstr
  as_ntime :: jsstr
  as_version :: jsstr
  as_extraNonce2 :: jsstr
  as_isBlockCandidate :: bool
  as_blockSubmissionResult :: "jsstr option"

record FoundBlock =
  fb_height :: int
  fb_minerAddress :: jsstr
  fb_worker :: jsstr
  fb_sessionId :: jsstr
  fb_block :: Block
  fb_blockSubmissionResult :: "jsstr option"
  fb_payoutSnapshotId :: "jsstr option"
  fb_payoutMode :: PayoutMode

datatype reply =
    Result json
  | Subscribed json jsstr
  | Configured json
  | Failed json eStratumErrorCode jsstr "json list"
  | SetDifficulty jsnum
  | Notify IMiningNotify

datatype v1_effect =
    Write reply
  | EndSocket
  | DestroySocket
  | SubmitBlock Block
  | SaveBlock FoundBlock
  | FinalizeSnapshot "jsstr option" int "jsstr option"
  | NotifyBlockFound jsstr int "jsstr option"
  | ResetBestDifficulty
  | RecordShare AcceptedShare
  | UpdateHashRate jsstr jsnum int
  | UpdateBestDifficulty jsstr jsnum
  | UpdateAddressBest jsstr jsnum jsstr
  | InsertClient ClientEntity
  | Heartbeat jsstr
  | DeleteClient jsstr

record v1_env =
  env_now :: int
  env_random :: jsstr
  env_config :: "jsstr \<Rightarrow> jsstr option"
  env_processMinDifficulty :: "jsstr option"
  env_parseFloat :: "jsstr \<Rightarrow> jsnum"
  env_number :: "jsstr \<Rightarrow> jsnum"
  env_toNumber :: "json \<Rightarrow> jsnum"
  env_toLowerCase :: "jsstr \<Rightarrow> jsstr"
  env_jsonParse :: "jsstr \<Rightarrow> json option"
  env_isAddress :: "jsstr \<Rightarrow> bool"
  env_insertId :: "nat \<Rightarrow> jsstr option"
  env_fails :: "v1_effect \<Rightarrow> bool"
  env_template :: "IJobTemplate option"
  env_submitResult :: "Block \<Rightarrow> jsstr option"
  env_lib :: bitcoin_lib
  env_sha256 :: "bytes \<Rightarrow> bytes"

record V1Client =
  payoutMode :: PayoutMode
  accountingProtocol :: AccountingProtocol
  clientSubscription :: "SubscriptionMessage option"
  clientConfiguration :: "ConfigurationMessage option"
  clientAuthorization :: "AuthorizationMessage option"
  currentPayoutAddress :: "jsstr option"
  currentPayoutWorker :: "jsstr option"
  clientSuggestedDifficulty :: "SuggestDifficulty option"
  stratumSubscription :: bool
  backgroundWork :: nat
  destroyed :: bool
  clientStatistics :: "ClientStatistics option"
  stratumInitialized :: bool
  usedSuggestedDifficulty :: bool
  sessionDifficulty :: jsnum
  sessionDifficultyTarget :: bytes
  clientEntity :: "ClientEntity option"
  creatingFailed :: bool
  virtualWorkerEntities :: "((jsstr \<times> jsstr) \<times> ClientEntity) list"
  extraNonceAndSessionId :: jsstr
  sessionStart :: "int option"
  buffer :: jsstr
  connectionClosed :: bool
  lastSentMiningJobTimestamp :: "jsnum option"
  lastHashRatePersistedAt :: int
  miningSubmissionHashes :: "jsstr set"
  socketDestroyed :: bool
  socketEnded :: bool
  jobsService :: JobsService
  outbox :: "v1_effect list"

definition newV1Client :: "PayoutMode \<Rightarrow> AccountingProtocol \<Rightarrow> JobsService \<Rightarrow> V1Client" where
  "newV1Client mode protocol svc = \<lparr>payoutMode = mode, accountingProtocol = protocol,
     clientSubscription = None, clientConfiguration = None, clientAuthorization = None,
     currentPayoutAddress = None, currentPayoutWorker = None, clientSuggestedDifficulty = None,
     stratumSubscription = False, backgroundWork = 0, destroyed = False, clientStatistics = None,
     stratumInitialized = False, usedSuggestedDifficulty = False, sessionDifficulty = Num 100000,
     sessionDifficultyTarget = (case difficultyToTarget (Num 100000) of Inr t \<Rightarrow> t | Inl _ \<Rightarrow> []),
     clientEntity = None, creatingFailed = False, virtualWorkerEntities = [], extraNonceAndSessionId = [],
     sessionStart = None, buffer = [], connectionClosed = False, lastSentMiningJobTimestamp = None,
     lastHashRatePersistedAt = 0, miningSubmissionHashes = {}, socketDestroyed = False,
     socketEnded = False, jobsService = svc, outbox = []\<rparr>"

type_synonym 'a v1 = "(V1Client, 'a) sm"

section \<open>The socket and the end of a connection\<close>

definition emit :: "v1_effect \<Rightarrow> unit v1" where
  "emit e = modify (\<lambda>c. c\<lparr>outbox := outbox c @ [e]\<rparr>)"

text \<open>An outside call that is awaited: it is made, and then it may throw.\<close>

definition perform :: "v1_env \<Rightarrow> v1_effect \<Rightarrow> unit v1" where
  "perform env e = andThen (emit e) (\<lambda>_. if env_fails env e then throw (JsError ''outside'') else ret ())"

definition endSocket :: "unit v1" where
  "endSocket = andThen (emit EndSocket) (\<lambda>_. modify (\<lambda>c. c\<lparr>socketEnded := True\<rparr>))"

definition destroySocket :: "unit v1" where
  "destroySocket = andThen (emit DestroySocket) (\<lambda>_. modify (\<lambda>c. c\<lparr>socketDestroyed := True\<rparr>))"

text \<open>\<open>destroy\<close> with its promise: the second call does nothing. The rows of the connection are deleted.\<close>

definition destroyInternal :: "unit v1" where
  "destroyInternal =
     andThen (modify (\<lambda>c. c\<lparr>connectionClosed := True, buffer := [], stratumSubscription := False,
        backgroundWork := 0, miningSubmissionHashes := {}\<rparr>)) (\<lambda>_.
     andThen (readState (\<lambda>c. (case clientEntity c of None \<Rightarrow> [] | Some e \<Rightarrow> [ce_id e])
        @ map (ce_id \<circ> snd) (virtualWorkerEntities c))) (\<lambda>rowIds.
     andThen (modify (\<lambda>c. c\<lparr>virtualWorkerEntities := []\<rparr>)) (\<lambda>_.
       forEach rowIds (\<lambda>i. emit (DeleteClient i)))))"

definition destroyClient :: "unit v1" where
  "destroyClient = andThen (readState destroyed) (\<lambda>d.
     if d then ret () else andThen (modify (\<lambda>c. c\<lparr>destroyed := True\<rparr>)) (\<lambda>_. destroyInternal))"

definition closeSocket :: "unit v1" where
  "closeSocket = andThen (modify (\<lambda>c. c\<lparr>connectionClosed := True\<rparr>)) (\<lambda>_.
     andThen (readState socketDestroyed) (\<lambda>d. if d then ret () else destroySocket))"

definition writeReply :: "v1_env \<Rightarrow> reply \<Rightarrow> bool v1" where
  "writeReply env message =
     andThen (readState (\<lambda>c. (socketDestroyed c, socketEnded c))) (\<lambda>(isDestroyed, isEnded).
       if \<not> isDestroyed \<and> \<not> isEnded then
         tryCatch (andThen (perform env (Write message)) (\<lambda>_. ret True)) (\<lambda>_.
           andThen destroyClient (\<lambda>_. andThen endSocket (\<lambda>_. ret False)))
       else
         andThen destroyClient (\<lambda>_.
         andThen (if isDestroyed then ret () else destroySocket) (\<lambda>_. ret False)))"

definition writeFailure :: "v1_env \<Rightarrow> json \<Rightarrow> eStratumErrorCode \<Rightarrow> string \<Rightarrow> failures \<Rightarrow> bool v1" where
  "writeFailure env ident code text fs = writeReply env (Failed ident code (jstr text) (map snd fs))"

section \<open>Configuration\<close>

definition firstSetting :: "v1_env \<Rightarrow> string list \<Rightarrow> jsstr" where
  "firstSetting env names =
     (case filter (\<lambda>v. v \<noteq> None \<and> v \<noteq> Some []) (map (\<lambda>n. env_config env (jstr n)) names) of
        [] \<Rightarrow> [] | v # _ \<Rightarrow> the v)"

definition trimmed :: "jsstr \<Rightarrow> jsstr" where
  "trimmed s = rev (dropWhile js_ws (rev (dropWhile js_ws s)))"

definition isBlockedUserAgent :: "v1_env \<Rightarrow> jsstr \<Rightarrow> bool" where
  "isBlockedUserAgent env userAgent =
     (let blocked = firstSetting env [''NON_COMPLIANT_USER_AGENTS'', ''BLOCKED_USER_AGENTS'', ''COMPLIANT_HEADERS'']
      in if trimmed blocked = [] then False
         else (let blockedList = map (\<lambda>ua. env_toLowerCase env (trimmed ua)) (splitOn 44 blocked);
                   userAgentLower = env_toLowerCase env userAgent
               in list_ex (\<lambda>b. length b > 0 \<and> includesAt userAgentLower b) blockedList))"

definition getConfiguredMinimumDifficulty :: "v1_env \<Rightarrow> jsnum option" where
  "getConfiguredMinimumDifficulty env =
     (let text = (case env_config env (jstr ''STRATUM_MIN_DIFFICULTY'') of
            Some s \<Rightarrow> s
          | None \<Rightarrow> (case env_processMinDifficulty env of Some s \<Rightarrow> s | None \<Rightarrow> []));
          configured = env_parseFloat env text
      in if isFinite configured \<and> js_lt (Num 0) configured then Some configured else None)"

definition getMinimumDifficulty :: "v1_env \<Rightarrow> jsnum" where
  "getMinimumDifficulty env =
     (case getConfiguredMinimumDifficulty env of None \<Rightarrow> Num (fl (1 / 1000)) | Some d \<Rightarrow> d)"

definition clampDifficulty :: "v1_env \<Rightarrow> jsnum option \<Rightarrow> jsnum option" where
  "clampDifficulty env difficulty = (case difficulty of
      None \<Rightarrow> None
    | Some d \<Rightarrow> if \<not> isFinite d then None
        else (case getConfiguredMinimumDifficulty env of None \<Rightarrow> Some d | Some m \<Rightarrow> Some (js_max d m)))"

definition getHashRatePersistIntervalMs :: "v1_env \<Rightarrow> jsnum" where
  "getHashRatePersistIntervalMs env =
     (let configured = (case env_config env (jstr ''CLIENT_HASHRATE_PERSIST_INTERVAL_MS'') of
            None \<Rightarrow> NaN | Some s \<Rightarrow> env_number env s)
      in if isFinite configured \<and> js_le (Num 0) configured then configured else Num 60000)"

definition isSuccessfulBlockSubmission :: "jsstr option \<Rightarrow> bool" where
  "isSuccessfulBlockSubmission result \<longleftrightarrow> result = None \<or> result = Some (jstr ''SUCCESS!'')"

section \<open>Rows of the client table\<close>

definition insertCount :: "v1_effect list \<Rightarrow> nat" where
  "insertCount es = length (filter (\<lambda>e. case e of InsertClient _ \<Rightarrow> True | _ \<Rightarrow> False) es)"

text \<open>\<open>clientService.insert\<close>: the row comes back with the identifier the database gives it, or it throws.\<close>

definition insertClient :: "v1_env \<Rightarrow> ClientEntity \<Rightarrow> ClientEntity v1" where
  "insertClient env e = andThen (readState (insertCount \<circ> outbox)) (\<lambda>n.
     andThen (emit (InsertClient e)) (\<lambda>_.
       case env_insertId env n of
         None \<Rightarrow> throw (JsError ''insert'')
       | Some i \<Rightarrow> ret (e\<lparr>ce_id := i\<rparr>)))"

definition newEntity :: "v1_env \<Rightarrow> jsstr \<Rightarrow> jsstr \<Rightarrow> jsstr \<Rightarrow> jsstr \<Rightarrow> PayoutMode \<Rightarrow> ClientEntity" where
  "newEntity env sessionId address name userAgent mode =
     \<lparr>ce_id = [], ce_sessionId = sessionId, ce_address = address, ce_clientName = name,
      ce_userAgent = userAgent, ce_payoutMode = mode, ce_bestDifficulty = Num 0,
      ce_startTime = env_now env, ce_updatedAt = env_now env, ce_hashRate = Num 0\<rparr>"

definition need :: "'a option \<Rightarrow> 'a v1" where
  "need x = (case x of None \<Rightarrow> throw TypeError | Some a \<Rightarrow> ret a)"

text \<open>A rejected insert stays in \<open>creatingEntity\<close>, so that every later call rejects too.\<close>

definition ensureClientEntity :: "v1_env \<Rightarrow> unit v1" where
  "ensureClientEntity env =
     andThen (readState (\<lambda>c. (clientEntity c, creatingFailed c))) (\<lambda>(entity, failed).
       if entity \<noteq> None then ret ()
       else if failed then throw (JsError ''insert'')
       else
         andThen (readState id) (\<lambda>c.
         tryCatch
           (andThen (need (clientAuthorization c)) (\<lambda>auth.
            andThen (need (clientSubscription c)) (\<lambda>sub.
            andThen (insertClient env (newEntity env (extraNonceAndSessionId c) (auth_address auth)
               (auth_worker auth) (sub_userAgent sub) (payoutMode c))) (\<lambda>row.
              modify (\<lambda>c. c\<lparr>clientEntity := Some row\<rparr>)))))
           (\<lambda>e. andThen (modify (\<lambda>c. c\<lparr>creatingFailed := True\<rparr>)) (\<lambda>_. throw e))))"

text \<open>The part of \<open>ensurePayoutPresence\<close> that runs at once and the rest, whose failures are only logged.\<close>

definition ensurePayoutPresence :: "v1_env \<Rightarrow> unit v1" where
  "ensurePayoutPresence env =
     andThen (readState id) (\<lambda>c.
     andThen (need (clientAuthorization c)) (\<lambda>auth.
     andThen (need (clientSubscription c)) (\<lambda>sub.
     (let address = (case currentPayoutAddress c of None \<Rightarrow> [] | Some a \<Rightarrow> a);
          worker = (case currentPayoutWorker c of None \<Rightarrow> auth_worker auth | Some w \<Rightarrow> w);
          key = (address, worker)
      in if currentPayoutAddress c = Some (auth_address auth) \<and> worker = auth_worker auth then ret ()
         else (case map_of (virtualWorkerEntities c) key of
             None \<Rightarrow>
               tryCatch
                 (andThen (insertClient env (newEntity env (env_random env) address worker
                    (sub_userAgent sub) (payoutMode c))) (\<lambda>row.
                   modify (\<lambda>c. c\<lparr>virtualWorkerEntities := AList.update key row (virtualWorkerEntities c)\<rparr>)))
                 (\<lambda>_. ret ())
           | Some row \<Rightarrow> tryCatch (perform env (Heartbeat (ce_id row))) (\<lambda>_. ret ()))))))"

definition virtualWorkerEntity :: "V1Client \<Rightarrow> AuthorizationMessage \<Rightarrow> jsstr \<Rightarrow> jsstr \<Rightarrow> ClientEntity option" where
  "virtualWorkerEntity c auth address worker =
     (if address = auth_address auth \<and> worker = auth_worker auth then None
      else map_of (virtualWorkerEntities c) (address, worker))"

section \<open>Sending work\<close>

definition getPayoutInformation :: "V1Client \<Rightarrow> IJobTemplate \<Rightarrow> jsstr \<Rightarrow> AddressObject list" where
  "getPayoutInformation c jobTemplate fallbackAddress =
     (case jt_payoutOutputs jobTemplate of
        Some (out # outs) \<Rightarrow>
          if payoutMode c = pplns then out # outs
          else [\<lparr>ao_address = fallbackAddress, ao_percent = Some 100, ao_amountSats = None\<rparr>]
      | _ \<Rightarrow> [\<lparr>ao_address = fallbackAddress, ao_percent = Some 100, ao_amountSats = None\<rparr>])"

definition knownNetwork :: "v1_env \<Rightarrow> bool" where
  "knownNetwork env \<longleftrightarrow> env_config env (jstr ''NETWORK'')
     \<in> {Some (jstr ''mainnet''), Some (jstr ''testnet''), Some (jstr ''regtest'')}"

definition sendNewMiningJob :: "v1_env \<Rightarrow> IJobTemplate \<Rightarrow> unit v1" where
  "sendNewMiningJob env jobTemplate =
     andThen (ensureClientEntity env) (\<lambda>_.
     andThen (readState id) (\<lambda>c.
     andThen (need (clientAuthorization c)) (\<lambda>auth.
     (let payoutInformation = getPayoutInformation c jobTemplate
            (case currentPayoutAddress c of None \<Rightarrow> auth_address auth | Some a \<Rightarrow> a)
      in if \<not> knownNetwork env then throw (JsError ''Invalid network configuration'')
         else
           andThen (lift (newMiningJob (env_lib env) (env_now env) (getNextId (jobsService c)) payoutInformation
              jobTemplate (Some (case currentPayoutWorker c of None \<Rightarrow> auth_worker auth | Some w \<Rightarrow> w)))) (\<lambda>job.
           andThen (modify (\<lambda>c. c\<lparr>jobsService := addJob job (jobsService c)\<rparr>)) (\<lambda>_.
           andThen (writeReply env (Notify (jobResponse job jobTemplate))) (\<lambda>success.
             if \<not> success then ret ()
             else modify (\<lambda>c. c\<lparr>lastSentMiningJobTimestamp := Some (blk_timestamp (jt_block jobTemplate))\<rparr>))))))))"

text \<open>The same work with a later time and the order to drop older jobs. Without a template, the handler waits.\<close>

definition refreshedTemplate :: "v1_env \<Rightarrow> V1Client \<Rightarrow> IJobTemplate \<Rightarrow> IJobTemplate" where
  "refreshedTemplate env c jobTemplate =
     (let nextTimestamp = js_max (js_max (blk_timestamp (jt_block jobTemplate)) (Num (of_int (env_now env div 1000))))
            (js_add (case lastSentMiningJobTimestamp c of None \<Rightarrow> Num 0 | Some t \<Rightarrow> t) (Num 1))
      in jobTemplate\<lparr>jt_block := (jt_block jobTemplate)\<lparr>blk_timestamp := nextTimestamp\<rparr>, jt_clearJobs := True\<rparr>)"

definition sendRefreshedJob :: "v1_env \<Rightarrow> unit v1" where
  "sendRefreshedJob env = (case env_template env of
      None \<Rightarrow> ret ()
    | Some jobTemplate \<Rightarrow> andThen (readState id) (\<lambda>c. sendNewMiningJob env (refreshedTemplate env c jobTemplate)))"

text \<open>The subscriber of \<open>newMiningJob$\<close>.\<close>

definition onNewMiningJob :: "v1_env \<Rightarrow> IJobTemplate \<Rightarrow> unit v1" where
  "onNewMiningJob env jobTemplate =
     tryCatch
       (andThen (if jt_clearJobs jobTemplate then modify (\<lambda>c. c\<lparr>miningSubmissionHashes := {}\<rparr>) else ret ())
          (\<lambda>_. sendNewMiningJob env jobTemplate))
       (\<lambda>_. endSocket)"

definition initStratum :: "v1_env \<Rightarrow> unit v1" where
  "initStratum env =
     andThen (modify (\<lambda>c. c\<lparr>stratumInitialized := True\<rparr>)) (\<lambda>_.
     andThen (readState id) (\<lambda>c.
     andThen (need (clientSubscription c)) (\<lambda>sub.
       if isBlockedUserAgent env (sub_userAgent sub) then closeSocket
       else
         andThen (if clientSuggestedDifficulty c = None
             then writeReply env (SetDifficulty (sessionDifficulty c)) else ret True) (\<lambda>success.
           if \<not> success then ret ()
           else
             andThen (modify (\<lambda>c. c\<lparr>stratumSubscription := True\<rparr>)) (\<lambda>_.
             andThen (case env_template env of None \<Rightarrow> ret () | Some t \<Rightarrow> onNewMiningJob env t) (\<lambda>_.
               modify (\<lambda>c. c\<lparr>backgroundWork := backgroundWork c + 1\<rparr>)))))))"

section \<open>Submissions\<close>

definition submissionKey :: "MiningSubmitMessage \<Rightarrow> jsstr" where
  "submissionKey m = joinWith (jstr '':'')
     [ms_jobId m, ms_extraNonce2 m, ms_ntime m, ms_nonce m, ms_versionMask m]"

definition submissionHeader ::
    "v1_env \<Rightarrow> V1Client \<Rightarrow> MiningJob \<Rightarrow> IJobTemplate \<Rightarrow> MiningSubmitMessage \<Rightarrow> bytes result" where
  "submissionHeader env c job jobTemplate m =
     buildHeaderBuffer (env_sha256 env) job jobTemplate (parseInt 16 (ms_versionMask m)) (parseInt 16 (ms_nonce m))
       (extraNonceAndSessionId c) (ms_extraNonce2 m) (parseInt 16 (ms_ntime m))"

definition shareVersion :: "IJobTemplate \<Rightarrow> jsnum \<Rightarrow> jsstr" where
  "shareVersion jobTemplate versionMask =
     (if isFinite versionMask
      then intToString16 (js_xor (blk_version (jt_block jobTemplate)) (js_int versionMask))
      else intToString16 (blk_version (jt_block jobTemplate)))"

text \<open>A share that solves a block: build it, hand it to the node, record it, tell the subscribers.\<close>

definition submitCandidate ::
    "v1_env \<Rightarrow> MiningJob \<Rightarrow> IJobTemplate \<Rightarrow> MiningSubmitMessage \<Rightarrow> jsstr \<Rightarrow> jsstr \<Rightarrow> jsstr option v1" where
  "submitCandidate env job jobTemplate m minerAddress minerWorker =
     andThen (readState id) (\<lambda>c.
     andThen (lift (copyAndUpdateBlock (env_lib env) (env_sha256 env) job jobTemplate
        (parseInt 16 (ms_versionMask m)) (parseInt 16 (ms_nonce m)) (extraNonceAndSessionId c)
        (ms_extraNonce2 m) (parseInt 16 (ms_ntime m)))) (\<lambda>block.
     andThen (perform env (SubmitBlock block)) (\<lambda>_.
     (let blockSubmissionResult = env_submitResult env block
      in andThen (perform env (SaveBlock \<lparr>fb_height = jt_height jobTemplate, fb_minerAddress = minerAddress,
             fb_worker = minerWorker, fb_sessionId = extraNonceAndSessionId c, fb_block = block,
             fb_blockSubmissionResult = blockSubmissionResult,
             fb_payoutSnapshotId = (if payoutMode c = pplns then jt_payoutSnapshotId jobTemplate else None),
             fb_payoutMode = payoutMode c\<rparr>)) (\<lambda>_.
         andThen (if payoutMode c = pplns
             then perform env (FinalizeSnapshot (jt_payoutSnapshotId jobTemplate) (jt_height jobTemplate) blockSubmissionResult)
             else ret ()) (\<lambda>_.
         andThen (perform env (NotifyBlockFound minerAddress (jt_height jobTemplate) blockSubmissionResult)) (\<lambda>_.
         andThen (if isSuccessfulBlockSubmission blockSubmissionResult
             then perform env ResetBestDifficulty else ret ()) (\<lambda>_.
           ret blockSubmissionResult))))))))"

definition persistClientHashRate :: "v1_env \<Rightarrow> unit v1" where
  "persistClientHashRate env =
     andThen (readState id) (\<lambda>c.
       case clientEntity c of
         None \<Rightarrow> ret ()
       | Some entity \<Rightarrow>
          (let hashRate = (case clientStatistics c of None \<Rightarrow> Num 0 | Some st \<Rightarrow> st_hashRate st);
               nowMs = env_now env
           in if \<not> isFinite hashRate \<or> js_le hashRate (Num 0) then ret ()
              else if lastHashRatePersistedAt c > 0
                 \<and> js_lt (Num (of_int (nowMs - lastHashRatePersistedAt c))) (getHashRatePersistIntervalMs env) then ret ()
              else
                andThen (modify (\<lambda>c. c\<lparr>lastHashRatePersistedAt := nowMs\<rparr>)) (\<lambda>_.
                  tryCatch (perform env (UpdateHashRate (ce_id entity) hashRate nowMs)) (\<lambda>_. ret ()))))"

text \<open>The statistics of an accepted share; what throws is logged and the handler goes on.\<close>

definition recordShare :: "v1_env \<Rightarrow> AcceptedShare \<Rightarrow> unit v1" where
  "recordShare env share =
     tryCatch
       (andThen (perform env (RecordShare share)) (\<lambda>_.
        andThen (readState id) (\<lambda>c.
        andThen (need (clientStatistics c)) (\<lambda>st.
        (let st = addShares (env_now env) (env_now env) (sessionDifficulty c) st
         in andThen (modify (\<lambda>c. c\<lparr>clientStatistics := Some st,
                clientEntity := map_option (\<lambda>e. e\<lparr>ce_updatedAt := env_now env, ce_hashRate := st_hashRate st\<rparr>)
                  (clientEntity c)\<rparr>)) (\<lambda>_.
              persistClientHashRate env))))))
       (\<lambda>_. ret ())"

text \<open>The three best-difficulty ratchets, each on its own row.\<close>

definition ratchetBest :: "v1_env \<Rightarrow> jsstr \<Rightarrow> jsstr \<Rightarrow> bool \<Rightarrow> jsnum \<Rightarrow> unit v1" where
  "ratchetBest env minerAddress minerWorker virtual difficulty =
     andThen (readState id) (\<lambda>c.
     andThen (need (clientEntity c)) (\<lambda>entity.
     (let key = (minerAddress, minerWorker);
          virtualEntity = (if virtual then map_of (virtualWorkerEntities c) key else None);
          identityBestBefore = ce_bestDifficulty (case virtualEntity of None \<Rightarrow> entity | Some v \<Rightarrow> v)
      in
        andThen (if js_lt (ce_bestDifficulty entity) difficulty
            then andThen (perform env (UpdateBestDifficulty (ce_id entity) difficulty)) (\<lambda>_.
              modify (\<lambda>c. c\<lparr>clientEntity := Some (entity\<lparr>ce_bestDifficulty := difficulty\<rparr>)\<rparr>))
            else ret ()) (\<lambda>_.
        andThen (case virtualEntity of
            None \<Rightarrow> ret ()
          | Some v \<Rightarrow>
              if js_lt (ce_bestDifficulty v) difficulty
              then andThen (perform env (UpdateBestDifficulty (ce_id v) difficulty)) (\<lambda>_.
                modify (\<lambda>c. c\<lparr>virtualWorkerEntities :=
                  AList.update key (v\<lparr>ce_bestDifficulty := difficulty\<rparr>) (virtualWorkerEntities c)\<rparr>))
              else ret ()) (\<lambda>_.
          if js_lt identityBestBefore difficulty
          then perform env (UpdateAddressBest minerAddress difficulty (ce_userAgent entity))
          else ret ())))))"

text \<open>What follows when the hash meets the target of the session.\<close>

definition acceptShare ::
    "v1_env \<Rightarrow> MiningJob \<Rightarrow> IJobTemplate \<Rightarrow> MiningSubmitMessage \<Rightarrow> ShareDifficulty \<Rightarrow> unit v1" where
  "acceptShare env job jobTemplate m judged =
     andThen (readState id) (\<lambda>c.
     andThen (need (clientAuthorization c)) (\<lambda>auth.
     (let minerAddress = (case payoutAddress job of None \<Rightarrow> auth_address auth | Some a \<Rightarrow> a);
          minerWorker = (case payoutWorker job of None \<Rightarrow> auth_worker auth | Some w \<Rightarrow> w)
      in
        andThen (lift (difficultyToTarget (jt_networkDifficulty jobTemplate))) (\<lambda>networkTarget.
        (let isBlockCandidate = meetsTarget (hashBuffer judged) networkTarget
         in
          andThen (if isBlockCandidate then submitCandidate env job jobTemplate m minerAddress minerWorker
              else ret None) (\<lambda>blockSubmissionResult.
          andThen (ensureClientEntity env) (\<lambda>_.
          andThen (readState id) (\<lambda>c.
          andThen (need (clientEntity c)) (\<lambda>entity.
          (let virtualEntity = virtualWorkerEntity c auth minerAddress minerWorker
           in
            andThen (recordShare env
              \<lparr>as_protocol = accountingProtocol c, as_payoutMode = payoutMode c, as_address = minerAddress,
               as_clientName = minerWorker, as_sessionId = extraNonceAndSessionId c,
               as_clientId = ce_id (case virtualEntity of None \<Rightarrow> entity | Some v \<Rightarrow> v),
               as_jobId = job_jobId job, as_jobTemplateId = job_jobTemplateId job,
               as_blockHeight = jt_height jobTemplate, as_creditedDifficulty = sessionDifficulty c,
               as_submissionDifficulty = submissionDifficulty judged,
               as_networkDifficulty = jt_networkDifficulty jobTemplate, as_nonce = ms_nonce m,
               as_ntime = ms_ntime m, as_version = shareVersion jobTemplate (parseInt 16 (ms_versionMask m)),
               as_extraNonce2 = ms_extraNonce2 m, as_isBlockCandidate = isBlockCandidate,
               as_blockSubmissionResult = blockSubmissionResult\<rparr>) (\<lambda>_.
            ratchetBest env minerAddress minerWorker (virtualEntity \<noteq> None) (submissionDifficulty judged))))))))))))"

text \<open>\<open>handleMiningSubmission\<close> always returns false: it sends its own answers.\<close>

definition handleMiningSubmission :: "v1_env \<Rightarrow> MiningSubmitMessage \<Rightarrow> bool v1" where
  "handleMiningSubmission env m =
     andThen (readState id) (\<lambda>c.
       case getJobById (jobsService c) (ms_jobId m) of
         None \<Rightarrow> andThen (writeFailure env (ms_id m) JobNotFound ''Job not found'' []) (\<lambda>_. ret False)
       | Some job \<Rightarrow>
         (case getJobTemplateById (jobsService c) (job_jobTemplateId job) of
            None \<Rightarrow> andThen (writeFailure env (ms_id m) JobNotFound ''Job Template not found'' []) (\<lambda>_. ret False)
          | Some jobTemplate \<Rightarrow>
             if submissionKey m \<in> miningSubmissionHashes c
             then andThen (writeFailure env (ms_id m) DuplicateShare ''Duplicate share'' []) (\<lambda>_. ret False)
             else
               andThen (modify (\<lambda>c. c\<lparr>miningSubmissionHashes := insert (submissionKey m) (miningSubmissionHashes c)\<rparr>)) (\<lambda>_.
               andThen (lift (submissionHeader env c job jobTemplate m)) (\<lambda>header.
               (let judged = calculateDifficulty (env_sha256 env) header
                in if meetsTarget (hashBuffer judged) (sessionDifficultyTarget c)
                   then
                     andThen (writeReply env (Result (ms_id m))) (\<lambda>success.
                       if \<not> success then ret False
                       else andThen (acceptShare env job jobTemplate m judged) (\<lambda>_. ret False))
                   else
                     andThen (writeFailure env (ms_id m) LowDifficultyShare ''Difficulty too low'' []) (\<lambda>_. ret False))))))"

section \<open>Variable difficulty\<close>

text \<open>\<open>DifficultyUtils.difficultyToTarget\<close> after the assignment of the session difficulty: if it throws, the
  old target stays.\<close>

definition setSessionDifficulty :: "jsnum \<Rightarrow> unit v1" where
  "setSessionDifficulty difficulty =
     andThen (modify (\<lambda>c. c\<lparr>sessionDifficulty := difficulty\<rparr>)) (\<lambda>_.
     andThen (lift (difficultyToTarget difficulty)) (\<lambda>target.
       modify (\<lambda>c. c\<lparr>sessionDifficultyTarget := target\<rparr>)))"

text \<open>The client's own suggestion is a floor. The reply goes straight to the socket.\<close>

definition checkDifficulty :: "v1_env \<Rightarrow> unit v1" where
  "checkDifficulty env =
     andThen (readState id) (\<lambda>c.
     andThen (need (clientStatistics c)) (\<lambda>st.
       case getSuggestedDifficulty (env_now env) (sessionDifficulty c) st of
         None \<Rightarrow> throw Diverges
       | Some suggestion \<Rightarrow>
          (case clampDifficulty env suggestion of
             None \<Rightarrow> ret ()
           | Some clamped \<Rightarrow>
              (let targetDiff = (case clientSuggestedDifficulty c of
                     None \<Rightarrow> clamped | Some s \<Rightarrow> js_max clamped (suggestedDifficulty s))
               in if targetDiff = sessionDifficulty c then ret ()
                  else
                    andThen (setSessionDifficulty targetDiff) (\<lambda>_.
                    andThen (if socketDestroyed c \<or> socketEnded c then ret ()
                       else emit (Write (SetDifficulty targetDiff))) (\<lambda>_.
                      sendRefreshedJob env))))))"

section \<open>Requests\<close>

datatype eRequestMethod = SUBSCRIBE | CONFIGURE | AUTHORIZE | SUGGEST_DIFFICULTY | SUBMIT | SET_PAYOUT

definition methodOf :: "json \<Rightarrow> eRequestMethod option" where
  "methodOf v =
     (if v = JStr (jstr ''mining.subscribe'') then Some SUBSCRIBE
      else if v = JStr (jstr ''mining.configure'') then Some CONFIGURE
      else if v = JStr (jstr ''mining.authorize'') then Some AUTHORIZE
      else if v = JStr (jstr ''mining.suggest_difficulty'') then Some SUGGEST_DIFFICULTY
      else if v = JStr (jstr ''mining.submit'') then Some SUBMIT
      else if v = JStr (jstr ''mining.set_payout'') then Some SET_PAYOUT
      else None)"

text \<open>A branch of the \<open>switch\<close> gives true when it breaks and false when the handler returns there.\<close>

definition handleSubscribe :: "v1_env \<Rightarrow> json \<Rightarrow> bool v1" where
  "handleSubscribe env msg =
     andThen (lift (parseSubscription msg)) (\<lambda>v. case v of
       Accepted sub \<Rightarrow>
         if isBlockedUserAgent env (sub_userAgent sub) then andThen closeSocket (\<lambda>_. ret False)
         else
           andThen (modify (\<lambda>c. if sessionStart c \<noteq> None then c
              else c\<lparr>sessionStart := Some (env_now env),
                     clientStatistics := Some (newStatistics (env_now env) (getMinimumDifficulty env)),
                     extraNonceAndSessionId := env_random env\<rparr>)) (\<lambda>_.
           andThen (modify (\<lambda>c. c\<lparr>clientSubscription := Some sub\<rparr>)) (\<lambda>_.
           andThen (readState extraNonceAndSessionId) (\<lambda>en.
             writeReply env (Subscribed (sub_id sub) en))))
     | Rejected ident fs \<Rightarrow> writeFailure env ident OtherUnknown ''Subscription validation error'' fs)"

definition handleConfigure :: "v1_env \<Rightarrow> json \<Rightarrow> bool v1" where
  "handleConfigure env msg =
     andThen (lift (parseConfiguration msg)) (\<lambda>v. case v of
       Accepted conf \<Rightarrow>
         andThen (modify (\<lambda>c. c\<lparr>clientConfiguration := Some conf\<rparr>)) (\<lambda>_.
           writeReply env (Configured (conf_id conf)))
     | Rejected ident fs \<Rightarrow> writeFailure env ident OtherUnknown ''Configuration validation error'' fs)"

definition handleAuthorize :: "v1_env \<Rightarrow> json \<Rightarrow> bool v1" where
  "handleAuthorize env msg =
     andThen (lift (parseAuthorization (env_isAddress env) msg)) (\<lambda>v. case v of
       Accepted auth \<Rightarrow>
         andThen (modify (\<lambda>c. c\<lparr>clientAuthorization := Some auth, currentPayoutAddress := Some (auth_address auth),
            currentPayoutWorker := Some (auth_worker auth)\<rparr>)) (\<lambda>_.
         andThen (readState id) (\<lambda>c.
         andThen (case auth_startingDiff auth of
             None \<Rightarrow> ret ()
           | Some d \<Rightarrow> if clientSuggestedDifficulty c = None \<and> js_lt (sessionDifficulty c) d
               then setSessionDifficulty d else ret ()) (\<lambda>_.
           writeReply env (Result (auth_id auth)))))
     | Rejected ident fs \<Rightarrow> writeFailure env ident OtherUnknown ''Authorization validation error'' fs)"

text \<open>\<open>clampDifficulty\<close> is never \<open>null\<close> here: the suggestion is a finite number.\<close>

definition handleSuggestDifficulty :: "v1_env \<Rightarrow> json \<Rightarrow> bool v1" where
  "handleSuggestDifficulty env msg =
     andThen (readState usedSuggestedDifficulty) (\<lambda>used.
       if used then ret False
       else
         andThen (lift (parseSuggestDifficulty (env_toNumber env) msg)) (\<lambda>v. case v of
           Accepted sd \<Rightarrow>
             andThen (modify (\<lambda>c. c\<lparr>clientSuggestedDifficulty := Some sd\<rparr>)) (\<lambda>_.
             andThen (setSessionDifficulty (case clampDifficulty env (Some (suggestedDifficulty sd)) of
                None \<Rightarrow> NaN | Some d \<Rightarrow> d)) (\<lambda>_.
             andThen (readState sessionDifficulty) (\<lambda>d.
             andThen (writeReply env (SetDifficulty d)) (\<lambda>success.
               if \<not> success then ret False
               else andThen (modify (\<lambda>c. c\<lparr>usedSuggestedDifficulty := True\<rparr>)) (\<lambda>_. ret True)))))
         | Rejected ident fs \<Rightarrow> writeFailure env ident OtherUnknown ''Suggest difficulty validation error'' fs))"

definition handleSubmit :: "v1_env \<Rightarrow> json \<Rightarrow> bool v1" where
  "handleSubmit env msg =
     andThen (readState stratumInitialized) (\<lambda>ready.
       if \<not> ready then andThen endSocket (\<lambda>_. ret False)
       else
         andThen (lift (parseMiningSubmit msg)) (\<lambda>v. case v of
           Accepted m \<Rightarrow>
             andThen (handleMiningSubmission env m) (\<lambda>result.
               if result then writeReply env (Result (ms_id m)) else ret True)
         | Rejected ident fs \<Rightarrow>
             andThen (writeFailure env ident OtherUnknown ''Mining Submit validation error'' fs) (\<lambda>success.
               if \<not> success then ret False else andThen closeSocket (\<lambda>_. ret False))))"

definition handleSetPayout :: "v1_env \<Rightarrow> json \<Rightarrow> bool v1" where
  "handleSetPayout env msg =
     andThen (lift (parseSetPayout (env_isAddress env) msg)) (\<lambda>v. case v of
       Accepted sp \<Rightarrow>
         andThen (modify (\<lambda>c. c\<lparr>currentPayoutAddress := Some (sp_address sp),
            currentPayoutWorker := (case sp_worker sp of
                Some w \<Rightarrow> Some w | None \<Rightarrow> map_option auth_worker (clientAuthorization c))\<rparr>)) (\<lambda>_.
         andThen (writeReply env (Result (sp_id sp))) (\<lambda>success.
           if \<not> success then ret False
           else
             andThen (readState stratumInitialized) (\<lambda>ready.
               if ready
               then andThen (ensurePayoutPresence env) (\<lambda>_. andThen (sendRefreshedJob env) (\<lambda>_. ret True))
               else ret True)))
     | Rejected ident fs \<Rightarrow> writeFailure env ident OtherUnknown ''Set payout validation error'' fs)"

definition handleMessage :: "v1_env \<Rightarrow> jsstr \<Rightarrow> unit v1" where
  "handleMessage env message =
     (case env_jsonParse env message of
        None \<Rightarrow> endSocket
      | Some parsedMessage \<Rightarrow>
          andThen (lift (member parsedMessage (jstr ''method''))) (\<lambda>method.
          andThen (case methodOf method of
              None \<Rightarrow> ret True
            | Some SUBSCRIBE \<Rightarrow> handleSubscribe env parsedMessage
            | Some CONFIGURE \<Rightarrow> handleConfigure env parsedMessage
            | Some AUTHORIZE \<Rightarrow> handleAuthorize env parsedMessage
            | Some SUGGEST_DIFFICULTY \<Rightarrow> handleSuggestDifficulty env parsedMessage
            | Some SUBMIT \<Rightarrow> handleSubmit env parsedMessage
            | Some SET_PAYOUT \<Rightarrow> handleSetPayout env parsedMessage) (\<lambda>broke.
            if \<not> broke then ret ()
            else andThen (readState id) (\<lambda>c.
              if clientSubscription c \<noteq> None \<and> clientAuthorization c \<noteq> None \<and> \<not> stratumInitialized c
              then tryCatch (initStratum env) (\<lambda>_. ret ()) else ret ()))))"

definition isClosed :: "V1Client \<Rightarrow> bool" where
  "isClosed c \<longleftrightarrow> connectionClosed c \<or> socketDestroyed c \<or> socketEnded c"

fun handleLines :: "v1_env \<Rightarrow> jsstr list \<Rightarrow> unit v1" where
  "handleLines env [] = ret ()"
| "handleLines env (m # ms) =
     andThen (readState isClosed) (\<lambda>closed.
       if closed then ret ()
       else andThen (tryCatch (handleMessage env m) (\<lambda>_. endSocket)) (\<lambda>_. handleLines env ms))"

definition handleSocketData :: "v1_env \<Rightarrow> bytes \<Rightarrow> unit v1" where
  "handleSocketData env data =
     andThen (readState isClosed) (\<lambda>closed.
       if closed then ret ()
       else
         andThen (readState (\<lambda>c. splitOn 10 (buffer c @ utf8_decode data))) (\<lambda>lines.
         andThen (modify (\<lambda>c. c\<lparr>buffer := last lines\<rparr>)) (\<lambda>_.
           handleLines env (filter (\<lambda>l. length l > 0) (butlast lines)))))"

section \<open>Events\<close>

text \<open>
  What can happen to a connection. The interval only runs while it is registered, the subscriber only while
  it is subscribed; \<open>Services\<close> is anything that the rest of the pool does to the jobs service. An exception
  out of an event handler leaves the state as it is.
\<close>

datatype v1_event =
    SocketData bytes
  | NewTemplate IJobTemplate
  | Interval
  | Closed
  | Services JobsService

definition handleEvent :: "v1_env \<Rightarrow> v1_event \<Rightarrow> V1Client \<Rightarrow> V1Client" where
  "handleEvent env ev c = (case ev of
      SocketData data \<Rightarrow> snd (handleSocketData env data c)
    | NewTemplate t \<Rightarrow> if stratumSubscription c then snd (onNewMiningJob env t c) else c
    | Interval \<Rightarrow> if backgroundWork c > 0 then snd (checkDifficulty env c) else c
    | Closed \<Rightarrow> snd (destroyClient (c\<lparr>socketDestroyed := True\<rparr>))
    | Services svc \<Rightarrow> c\<lparr>jobsService := svc\<rparr>)"

end
