(* ===== verification/StratumV1Correctness.thy ===== *)
theory StratumV1Correctness
  imports StratumV1Client
begin

text \<open>
  What a Stratum V1 connection guarantees: which shares it credits and which blocks it submits, that a
  submission is not credited twice, that the difficulty a share is credited with is the one it was judged
  by, and that the framing of the byte stream does not matter.
\<close>

section \<open>Effects of the statements of a submission\<close>

definition core :: "V1Client \<Rightarrow> _" where
  "core c = (payoutMode c, accountingProtocol c, clientAuthorization c, extraNonceAndSessionId c,
     sessionDifficulty c, sessionDifficultyTarget c, jobsService c, stratumInitialized c)"

text \<open>From states with the given core: the core stays, and all new effects satisfy \<open>A\<close>.\<close>

definition confines :: "_ \<Rightarrow> (v1_effect \<Rightarrow> bool) \<Rightarrow> V1Client \<Rightarrow> V1Client \<Rightarrow> bool" where
  "confines k A c c' \<longleftrightarrow> (core c = k \<longrightarrow> core c' = k \<and> (\<exists>es. outbox c' = outbox c @ es \<and> (\<forall>e \<in> set es. A e)))"

interpretation acc: step_relation "confines k A" for k A
proof
  show "confines k A s s" for s by (simp add: confines_def)
  show "confines k A s u" if "confines k A s t" "confines k A t u" for s t u
    using that unfolding confines_def by (metis append_assoc set_append Un_iff)
qed

definition harmless :: "v1_effect \<Rightarrow> bool" where
  "harmless e \<longleftrightarrow> (case e of RecordShare _ \<Rightarrow> False | SubmitBlock _ \<Rightarrow> False | _ \<Rightarrow> True)"

lemma harmless_simps [simp]:
  "harmless (Write r)" "harmless EndSocket" "harmless DestroySocket" "harmless (SaveBlock fb)"
  "harmless (FinalizeSnapshot snap h r')" "harmless (NotifyBlockFound a h r')" "harmless ResetBestDifficulty"
  "harmless (UpdateHashRate i x n)" "harmless (UpdateBestDifficulty i x)" "harmless (UpdateAddressBest i x a)"
  "harmless (InsertClient e)" "harmless (Heartbeat i)" "harmless (DeleteClient i)"
  "\<not> harmless (RecordShare sh)" "\<not> harmless (SubmitBlock b)"
  by (simp_all add: harmless_def)

lemma acc_modify:
  "(\<And>c. core (f c) = core c \<and> outbox (f c) = outbox c) \<Longrightarrow> acc.keeps k A (modify f)"
  by (intro acc.keeps_modify) (simp add: confines_def)

lemma acc_emit: "A e \<Longrightarrow> acc.keeps k A (emit e)"
  unfolding emit_def by (intro acc.keeps_modify) (simp add: confines_def core_def)

lemma acc_perform: "A e \<Longrightarrow> acc.keeps k A (perform env e)"
  unfolding perform_def by (intro acc.keeps_intros acc_emit) auto

lemma acc_read:
  assumes "\<And>c. core c = k \<Longrightarrow> acc.keeps k A (f (g c))"
  shows "acc.keeps k A (andThen (readState g) f)"
  using assms unfolding acc.keeps_def by (simp add: confines_def)

lemma acc_need: "acc.keeps k A (need x)"
  by (cases x) (simp_all add: need_def acc.keeps_prims)

lemma acc_destroyInternal: "(\<And>e. harmless e \<Longrightarrow> A e) \<Longrightarrow> acc.keeps k A destroyInternal"
  unfolding destroyInternal_def by (intro acc.keeps_intros acc_modify acc_emit) (simp_all add: core_def)

lemma acc_destroyClient: "(\<And>e. harmless e \<Longrightarrow> A e) \<Longrightarrow> acc.keeps k A destroyClient"
  unfolding destroyClient_def
  by (intro acc.keeps_intros acc_modify acc_destroyInternal) (simp_all add: core_def)

lemma acc_endSocket: "(\<And>e. harmless e \<Longrightarrow> A e) \<Longrightarrow> acc.keeps k A endSocket"
  unfolding endSocket_def by (intro acc.keeps_intros acc_modify acc_emit) (simp_all add: core_def)

lemma acc_destroySocket: "(\<And>e. harmless e \<Longrightarrow> A e) \<Longrightarrow> acc.keeps k A destroySocket"
  unfolding destroySocket_def by (intro acc.keeps_intros acc_modify acc_emit) (simp_all add: core_def)

lemma acc_writeReply: "(\<And>e. harmless e \<Longrightarrow> A e) \<Longrightarrow> acc.keeps k A (writeReply env r)"
  unfolding writeReply_def
  by (intro acc.keeps_intros acc_perform acc_destroyClient acc_endSocket acc_destroySocket) auto

lemma acc_writeFailure: "(\<And>e. harmless e \<Longrightarrow> A e) \<Longrightarrow> acc.keeps k A (writeFailure env i code why fs)"
  unfolding writeFailure_def by (rule acc_writeReply)

lemma acc_insertClient: "(\<And>e. harmless e \<Longrightarrow> A e) \<Longrightarrow> acc.keeps k A (insertClient env row)"
  unfolding insertClient_def by (intro acc.keeps_intros acc_emit) auto

lemma acc_ensureClientEntity: "(\<And>e. harmless e \<Longrightarrow> A e) \<Longrightarrow> acc.keeps k A (ensureClientEntity env)"
  unfolding ensureClientEntity_def
  by (intro acc.keeps_intros acc_need acc_insertClient acc_modify) (simp_all add: core_def)

lemma acc_persistClientHashRate: "(\<And>e. harmless e \<Longrightarrow> A e) \<Longrightarrow> acc.keeps k A (persistClientHashRate env)"
  unfolding persistClientHashRate_def
  by (intro acc.keeps_intros acc_perform acc_modify) (simp_all add: core_def)

lemma acc_ratchetBest: "(\<And>e. harmless e \<Longrightarrow> A e) \<Longrightarrow> acc.keeps k A (ratchetBest env a w v d)"
  unfolding ratchetBest_def
  by (intro acc.keeps_intros acc_perform acc_modify acc_need) (simp_all add: core_def)

lemma acc_recordShare:
  "(\<And>e. harmless e \<Longrightarrow> A e) \<Longrightarrow> A (RecordShare sh) \<Longrightarrow> acc.keeps k A (recordShare env sh)"
  unfolding recordShare_def
  by (intro acc.keeps_intros acc_perform acc_modify acc_need acc_persistClientHashRate) (simp_all add: core_def)

lemma acc_need_then: "(\<And>a. x = Some a \<Longrightarrow> acc.keeps k A (f a)) \<Longrightarrow> acc.keeps k A (andThen (need x) f)"
  by (cases x) (simp_all add: need_def acc.keeps_prims)

lemma acc_lift_then: "(\<And>a. r = Inr a \<Longrightarrow> acc.keeps k A (f a)) \<Longrightarrow> acc.keeps k A (andThen (lift r) f)"
  by (cases r) (simp_all add: acc.keeps_def confines_def)

section \<open>What an accepted share may do\<close>

definition minerAddressOf :: "V1Client \<Rightarrow> MiningJob \<Rightarrow> jsstr option" where
  "minerAddressOf c job = (case payoutAddress job of
      Some a \<Rightarrow> Some a | None \<Rightarrow> map_option auth_address (clientAuthorization c))"

definition meetsNetwork :: "IJobTemplate \<Rightarrow> bytes \<Rightarrow> bool" where
  "meetsNetwork jt hash \<longleftrightarrow> (\<exists>t. difficultyToTarget (jt_networkDifficulty jt) = Inr t \<and> meetsTarget hash t)"

definition blockOf :: "v1_env \<Rightarrow> V1Client \<Rightarrow> MiningJob \<Rightarrow> IJobTemplate \<Rightarrow> MiningSubmitMessage \<Rightarrow> Block result" where
  "blockOf env c job jt m = copyAndUpdateBlock (env_lib env) (env_sha256 env) job jt
     (parseInt 16 (ms_versionMask m)) (parseInt 16 (ms_nonce m)) (extraNonceAndSessionId c)
     (ms_extraNonce2 m) (parseInt 16 (ms_ntime m))"

definition honest ::
    "v1_env \<Rightarrow> V1Client \<Rightarrow> MiningJob \<Rightarrow> IJobTemplate \<Rightarrow> MiningSubmitMessage \<Rightarrow> ShareDifficulty \<Rightarrow> v1_effect \<Rightarrow> bool" where
  "honest env c job jt m judged e = (case e of
      RecordShare sh \<Rightarrow>
        as_creditedDifficulty sh = sessionDifficulty c \<and> minerAddressOf c job = Some (as_address sh)
        \<and> as_jobId sh = job_jobId job \<and> as_jobTemplateId sh = job_jobTemplateId job
        \<and> as_sessionId sh = extraNonceAndSessionId c \<and> as_extraNonce2 sh = ms_extraNonce2 m
        \<and> as_nonce sh = ms_nonce m \<and> as_ntime sh = ms_ntime m
        \<and> as_version sh = shareVersion jt (parseInt 16 (ms_versionMask m))
        \<and> as_submissionDifficulty sh = submissionDifficulty judged
        \<and> as_isBlockCandidate sh = meetsNetwork jt (hashBuffer judged)
    | SubmitBlock b \<Rightarrow> blockOf env c job jt m = Inr b \<and> meetsNetwork jt (hashBuffer judged)
    | _ \<Rightarrow> True)"

lemma harmless_honest: "harmless e \<Longrightarrow> honest env c job jt m judged e"
  by (cases e) (simp_all add: honest_def)

lemma honest_RecordShare:
  "honest env c job jt m judged (RecordShare sh) \<longleftrightarrow>
     as_creditedDifficulty sh = sessionDifficulty c \<and> minerAddressOf c job = Some (as_address sh)
     \<and> as_jobId sh = job_jobId job \<and> as_jobTemplateId sh = job_jobTemplateId job
     \<and> as_sessionId sh = extraNonceAndSessionId c \<and> as_extraNonce2 sh = ms_extraNonce2 m
     \<and> as_nonce sh = ms_nonce m \<and> as_ntime sh = ms_ntime m
     \<and> as_version sh = shareVersion jt (parseInt 16 (ms_versionMask m))
     \<and> as_submissionDifficulty sh = submissionDifficulty judged
     \<and> as_isBlockCandidate sh = meetsNetwork jt (hashBuffer judged)"
  by (simp add: honest_def)

lemma acc_submitCandidate:
  assumes "\<And>e. harmless e \<Longrightarrow> A e"
    and "\<And>c b. core c = k \<Longrightarrow> blockOf env c job jt m = Inr b \<Longrightarrow> A (SubmitBlock b)"
  shows "acc.keeps k A (submitCandidate env job jt m a w)"
  unfolding submitCandidate_def
  by (rule acc_read, rule acc_lift_then, rule acc.keeps_andThen)
    (use assms in \<open>auto simp: blockOf_def intro!: acc_perform acc.keeps_intros\<close>)

lemma acc_acceptShare:
  "acc.keeps (core c0) (honest env c0 job jt m judged) (acceptShare env job jt m judged)"
proof -
  let ?k = "core c0" and ?A = "honest env c0 job jt m judged"
  have core_eq: "sessionDifficulty c = sessionDifficulty c0" "clientAuthorization c = clientAuthorization c0"
    "extraNonceAndSessionId c = extraNonceAndSessionId c0" if "core c = ?k" for c
    using that by (simp_all add: core_def)
  have cand: "acc.keeps ?k ?A (submitCandidate env job jt m a w)" if "meetsNetwork jt (hashBuffer judged)" for a w
  proof (rule acc_submitCandidate)
    fix c b assume "core c = ?k" "blockOf env c job jt m = Inr b"
    then show "?A (SubmitBlock b)" using that core_eq(3) [of c] by (simp add: honest_def blockOf_def)
  qed (rule harmless_honest)
  show ?thesis
    unfolding acceptShare_def
  proof (rule acc_read, rule acc_need_then, (rule acc.keeps_Let)+, rule acc_lift_then, rule acc.keeps_Let)
    fix c auth nt
    assume c: "core c = ?k" and auth: "clientAuthorization (id c) = Some auth"
      and nt: "difficultyToTarget (jt_networkDifficulty jt) = Inr nt"
    let ?a = "case payoutAddress job of None \<Rightarrow> auth_address auth | Some a \<Rightarrow> a"
    let ?w = "case payoutWorker job of None \<Rightarrow> auth_worker auth | Some w \<Rightarrow> w"
    let ?cand = "meetsTarget (hashBuffer judged) nt"
    have net: "meetsNetwork jt (hashBuffer judged) = ?cand" using nt by (simp add: meetsNetwork_def)
    have addr: "minerAddressOf c0 job = Some ?a"
      using auth core_eq(2) [OF c] by (simp add: minerAddressOf_def split: option.split)
    show "acc.keeps ?k ?A
       (andThen (if ?cand then submitCandidate env job jt m ?a ?w else ret None) (\<lambda>res.
        andThen (ensureClientEntity env) (\<lambda>_.
        andThen (readState id) (\<lambda>c.
        andThen (need (clientEntity c)) (\<lambda>entity.
        let virtualEntity = virtualWorkerEntity c auth ?a ?w
        in andThen (recordShare env
              \<lparr>as_protocol = accountingProtocol c, as_payoutMode = payoutMode c, as_address = ?a,
               as_clientName = ?w, as_sessionId = extraNonceAndSessionId c,
               as_clientId = ce_id (case virtualEntity of None \<Rightarrow> entity | Some v \<Rightarrow> v),
               as_jobId = job_jobId job, as_jobTemplateId = job_jobTemplateId job,
               as_blockHeight = jt_height jt, as_creditedDifficulty = sessionDifficulty c,
               as_submissionDifficulty = submissionDifficulty judged,
               as_networkDifficulty = jt_networkDifficulty jt, as_nonce = ms_nonce m,
               as_ntime = ms_ntime m, as_version = shareVersion jt (parseInt 16 (ms_versionMask m)),
               as_extraNonce2 = ms_extraNonce2 m, as_isBlockCandidate = ?cand,
               as_blockSubmissionResult = res\<rparr>) (\<lambda>_.
            ratchetBest env ?a ?w (virtualEntity \<noteq> None) (submissionDifficulty judged)))))))"
    proof (rule acc.keeps_andThen)
      show "acc.keeps ?k ?A (if ?cand then submitCandidate env job jt m ?a ?w else ret None)"
        using cand net by (simp add: acc.keeps_prims)
    next
      fix res
      show "acc.keeps ?k ?A (andThen (ensureClientEntity env) (\<lambda>_.
        andThen (readState id) (\<lambda>c.
        andThen (need (clientEntity c)) (\<lambda>entity.
        let virtualEntity = virtualWorkerEntity c auth ?a ?w
        in andThen (recordShare env
              \<lparr>as_protocol = accountingProtocol c, as_payoutMode = payoutMode c, as_address = ?a,
               as_clientName = ?w, as_sessionId = extraNonceAndSessionId c,
               as_clientId = ce_id (case virtualEntity of None \<Rightarrow> entity | Some v \<Rightarrow> v),
               as_jobId = job_jobId job, as_jobTemplateId = job_jobTemplateId job,
               as_blockHeight = jt_height jt, as_creditedDifficulty = sessionDifficulty c,
               as_submissionDifficulty = submissionDifficulty judged,
               as_networkDifficulty = jt_networkDifficulty jt, as_nonce = ms_nonce m,
               as_ntime = ms_ntime m, as_version = shareVersion jt (parseInt 16 (ms_versionMask m)),
               as_extraNonce2 = ms_extraNonce2 m, as_isBlockCandidate = ?cand,
               as_blockSubmissionResult = res\<rparr>) (\<lambda>_.
            ratchetBest env ?a ?w (virtualEntity \<noteq> None) (submissionDifficulty judged))))))"
      proof -
        show ?thesis
        proof (rule acc.keeps_andThen [OF acc_ensureClientEntity [OF harmless_honest]], assumption,
            rule acc_read, rule acc_need_then, rule acc.keeps_Let, rule acc.keeps_andThen,
            rule acc_recordShare [OF harmless_honest], assumption)
          fix c1 assume "core c1 = ?k"
          then have "sessionDifficulty (id c1) = sessionDifficulty c0"
            "extraNonceAndSessionId (id c1) = extraNonceAndSessionId c0"
            using core_eq(1,3) [of c1] by simp_all
          then show "?A (RecordShare \<lparr>as_protocol = accountingProtocol (id c1), as_payoutMode = payoutMode (id c1),
               as_address = ?a, as_clientName = ?w, as_sessionId = extraNonceAndSessionId (id c1),
               as_clientId = i, as_jobId = job_jobId job, as_jobTemplateId = job_jobTemplateId job,
               as_blockHeight = jt_height jt, as_creditedDifficulty = sessionDifficulty (id c1),
               as_submissionDifficulty = submissionDifficulty judged,
               as_networkDifficulty = jt_networkDifficulty jt, as_nonce = ms_nonce m,
               as_ntime = ms_ntime m, as_version = shareVersion jt (parseInt 16 (ms_versionMask m)),
               as_extraNonce2 = ms_extraNonce2 m, as_isBlockCandidate = ?cand,
               as_blockSubmissionResult = res\<rparr>)" for i
            using net addr by (simp add: honest_RecordShare)
        qed (rule acc_ratchetBest, rule harmless_honest)
      qed
    qed
  qed
qed

section \<open>Submissions\<close>

text \<open>The case of a submission that is judged: what it names, that it is new, its header and its hash.\<close>

definition judgedBy ::
    "v1_env \<Rightarrow> V1Client \<Rightarrow> MiningSubmitMessage \<Rightarrow> MiningJob \<Rightarrow> IJobTemplate \<Rightarrow> bytes \<Rightarrow> bool" where
  "judgedBy env c m job jt header \<longleftrightarrow>
     getJobById (jobsService c) (ms_jobId m) = Some job
     \<and> getJobTemplateById (jobsService c) (job_jobTemplateId job) = Some jt
     \<and> submissionKey m \<notin> miningSubmissionHashes c
     \<and> submissionHeader env c job jt m = Inr header
     \<and> meetsTarget (hash256 (env_sha256 env) header) (sessionDifficultyTarget c)"

lemma hashBuffer_calculateDifficulty [simp]:
  "hashBuffer (calculateDifficulty sha256 header) = hash256 sha256 header"
  by (simp add: calculateDifficulty_def Let_def)

lemma keeps_effects:
  assumes "acc.keeps (core c) A m" "m c = (r, c')"
  obtains es where "outbox c' = outbox c @ es" "\<forall>e \<in> set es. A e" "core c' = core c"
  using acc.keepsD [OF assms] by (auto simp: confines_def)

lemma keeps_effects_ex:
  "acc.keeps (core c) A m \<Longrightarrow> m c = (r, c') \<Longrightarrow>
     \<exists>es. outbox c' = outbox c @ es \<and> (\<forall>e \<in> set es. A e) \<and> core c' = core c"
  using keeps_effects by metis

lemma submission_effects:
  assumes "handleMiningSubmission env m c = (r, c')"
  obtains es where "outbox c' = outbox c @ es" "core c' = core c"
    "\<And>e. e \<in> set es \<Longrightarrow> \<not> harmless e \<Longrightarrow> \<exists>job jt header. judgedBy env c m job jt header
        \<and> honest env c job jt m (calculateDifficulty (env_sha256 env) header) e"
proof -
  let ?A = "\<lambda>e. \<not> harmless e \<longrightarrow> (\<exists>job jt header. judgedBy env c m job jt header
        \<and> honest env c job jt m (calculateDifficulty (env_sha256 env) header) e)"
  have fail: "acc.keeps (core c) ?A (andThen (writeFailure env i code why fs) (\<lambda>_. ret False))" for i code why fs
    by (intro acc.keeps_andThen acc_writeFailure acc.keeps_prims) simp
  have "\<exists>es. outbox c' = outbox c @ es \<and> (\<forall>e \<in> set es. ?A e) \<and> core c' = core c"
  proof (cases "getJobById (jobsService c) (ms_jobId m)")
    case None
    then have "andThen (writeFailure env (ms_id m) JobNotFound ''Job not found'' []) (\<lambda>_. ret False) c = (r, c')"
      using assms by (simp add: handleMiningSubmission_def)
    then show ?thesis by (rule keeps_effects_ex [OF fail])
  next
    case job: (Some job)
    show ?thesis
    proof (cases "getJobTemplateById (jobsService c) (job_jobTemplateId job)")
      case None
      then have "andThen (writeFailure env (ms_id m) JobNotFound ''Job Template not found'' []) (\<lambda>_. ret False) c = (r, c')"
        using assms job by (simp add: handleMiningSubmission_def)
      then show ?thesis by (rule keeps_effects_ex [OF fail])
    next
      case jt: (Some jt)
      show ?thesis
      proof (cases "submissionKey m \<in> miningSubmissionHashes c")
        case True
        then have "andThen (writeFailure env (ms_id m) DuplicateShare ''Duplicate share'' []) (\<lambda>_. ret False) c = (r, c')"
          using assms job jt by (simp add: handleMiningSubmission_def)
        then show ?thesis by (rule keeps_effects_ex [OF fail])
      next
        case new: False
        let ?ins = "modify (\<lambda>c. c\<lparr>miningSubmissionHashes := insert (submissionKey m) (miningSubmissionHashes c)\<rparr>) :: unit v1"
        let ?judge = "\<lambda>header. let judged = calculateDifficulty (env_sha256 env) header
                in if meetsTarget (hashBuffer judged) (sessionDifficultyTarget c)
                   then
                     andThen (writeReply env (Result (ms_id m))) (\<lambda>success.
                       if \<not> success then ret False
                       else andThen (acceptShare env job jt m judged) (\<lambda>_. ret False))
                   else
                     andThen (writeFailure env (ms_id m) LowDifficultyShare ''Difficulty too low'' []) (\<lambda>_. ret False)"
        have run: "andThen ?ins (\<lambda>_. andThen (lift (submissionHeader env c job jt m)) ?judge) c = (r, c')"
          using assms job jt new by (simp add: handleMiningSubmission_def)
        have "acc.keeps (core c) ?A (andThen ?ins (\<lambda>_. andThen (lift (submissionHeader env c job jt m)) ?judge))"
        proof (rule acc.keeps_andThen, rule acc_modify, simp add: core_def, rule acc_lift_then)
          fix header assume h: "submissionHeader env c job jt m = Inr header"
          let ?judged = "calculateDifficulty (env_sha256 env) header"
          show "acc.keeps (core c) ?A (?judge header)"
          proof (cases "meetsTarget (hashBuffer ?judged) (sessionDifficultyTarget c)")
            case True
            then have j: "judgedBy env c m job jt header"
              using job jt new h by (simp add: judgedBy_def)
            have "acc.keeps (core c) ?A (acceptShare env job jt m ?judged)"
              using acc_acceptShare [of c env job jt m ?judged] j
              unfolding acc.keeps_def confines_def by blast
            with True show ?thesis
              unfolding Let_def by (simp, intro acc.keeps_andThen acc_writeReply acc.keeps_if acc.keeps_prims) auto
          next
            case False
            then show ?thesis unfolding Let_def using fail by simp
          qed
        qed
        from this run show ?thesis by (rule keeps_effects_ex)
      qed
    qed
  qed
  then show thesis using that by blast
qed

section \<open>What most statements leave alone\<close>

definition minKept :: "ClientStatistics option \<Rightarrow> ClientStatistics option \<Rightarrow> bool" where
  "minKept a b \<longleftrightarrow> map_option minDifficulty a = map_option minDifficulty b"

definition frame :: "V1Client \<Rightarrow> V1Client \<Rightarrow> bool" where
  "frame c c' \<longleftrightarrow> (isClosed c \<longrightarrow> isClosed c') \<and> sessionDifficulty c' = sessionDifficulty c
     \<and> sessionDifficultyTarget c' = sessionDifficultyTarget c
     \<and> clientSuggestedDifficulty c' = clientSuggestedDifficulty c
     \<and> minKept (clientStatistics c) (clientStatistics c')
     \<and> clientSubscription c' = clientSubscription c \<and> clientAuthorization c' = clientAuthorization c
     \<and> extraNonceAndSessionId c' = extraNonceAndSessionId c \<and> sessionStart c' = sessionStart c
     \<and> stratumInitialized c' = stratumInitialized c"

interpretation fr: step_relation frame
  by unfold_locales (auto simp: frame_def minKept_def)

lemma fr_modify: "(\<And>c. frame c (f c)) \<Longrightarrow> fr.keeps (modify f)"
  by (rule fr.keeps_modify)

lemma fr_emit: "fr.keeps (emit e)"
  unfolding emit_def by (rule fr_modify) (simp add: frame_def isClosed_def minKept_def)

lemma fr_need: "fr.keeps (need x)"
  by (cases x) (simp_all add: need_def fr.keeps_prims)

lemmas fr_intros = fr.keeps_intros fr_emit fr_need fr_modify

lemma frameI:
  assumes "isClosed c \<Longrightarrow> isClosed c'" "sessionDifficulty c' = sessionDifficulty c"
    "sessionDifficultyTarget c' = sessionDifficultyTarget c"
    "clientSuggestedDifficulty c' = clientSuggestedDifficulty c"
    "minKept (clientStatistics c) (clientStatistics c')"
    "clientSubscription c' = clientSubscription c" "clientAuthorization c' = clientAuthorization c"
    "extraNonceAndSessionId c' = extraNonceAndSessionId c" "sessionStart c' = sessionStart c"
    "stratumInitialized c' = stratumInitialized c"
  shows "frame c c'"
  using assms by (simp add: frame_def)

lemma minKept_refl [simp]: "minKept a a"
  by (simp add: minKept_def)

lemma fr_perform: "fr.keeps (perform env e)"
  unfolding perform_def by (intro fr_intros)

lemma fr_endSocket: "fr.keeps endSocket"
  unfolding endSocket_def by (intro fr_intros frameI) (simp_all add: isClosed_def)

lemma fr_destroySocket: "fr.keeps destroySocket"
  unfolding destroySocket_def by (intro fr_intros frameI) (simp_all add: isClosed_def)

lemma fr_destroyClient: "fr.keeps destroyClient"
  unfolding destroyClient_def destroyInternal_def by (intro fr_intros frameI) (simp_all add: isClosed_def)

lemma fr_closeSocket: "fr.keeps closeSocket"
  unfolding closeSocket_def by (intro fr_intros frameI fr_destroySocket) (simp_all add: isClosed_def)

lemma fr_writeReply: "fr.keeps (writeReply env r)"
  unfolding writeReply_def by (intro fr_intros fr_perform fr_destroyClient fr_endSocket fr_destroySocket)

lemma fr_writeFailure: "fr.keeps (writeFailure env i code why fs)"
  unfolding writeFailure_def by (rule fr_writeReply)

lemma fr_insertClient: "fr.keeps (insertClient env row)"
  unfolding insertClient_def by (intro fr_intros)

lemma fr_ensureClientEntity: "fr.keeps (ensureClientEntity env)"
  unfolding ensureClientEntity_def by (intro fr_intros fr_insertClient frameI) (simp_all add: isClosed_def)

lemma fr_ensurePayoutPresence: "fr.keeps (ensurePayoutPresence env)"
  unfolding ensurePayoutPresence_def
  by (intro fr_intros fr_insertClient fr_perform frameI) (simp_all add: isClosed_def)

lemma fr_sendNewMiningJob: "fr.keeps (sendNewMiningJob env t)"
  unfolding sendNewMiningJob_def
  by (intro fr_intros fr_ensureClientEntity fr_writeReply frameI) (simp_all add: isClosed_def)

lemma fr_sendRefreshedJob: "fr.keeps (sendRefreshedJob env)"
  unfolding sendRefreshedJob_def by (intro fr_intros fr_sendNewMiningJob)

lemma fr_onNewMiningJob: "fr.keeps (onNewMiningJob env t)"
  unfolding onNewMiningJob_def
  by (intro fr_intros fr_sendNewMiningJob fr_endSocket frameI) (simp_all add: isClosed_def)

text \<open>All of \<open>initStratum\<close> but its first assignment.\<close>

definition afterInit :: "v1_env \<Rightarrow> unit v1" where
  "afterInit env =
     andThen (readState id) (\<lambda>c.
     andThen (need (clientSubscription c)) (\<lambda>sub.
       if isBlockedUserAgent env (sub_userAgent sub) then closeSocket
       else
         andThen (if clientSuggestedDifficulty c = None
             then writeReply env (SetDifficulty (sessionDifficulty c)) else ret True) (\<lambda>success.
           if \<not> success then ret ()
           else
             andThen (modify (\<lambda>c. c\<lparr>stratumSubscription := True\<rparr>)) (\<lambda>_.
             andThen (case env_template env of None \<Rightarrow> ret () | Some t \<Rightarrow> onNewMiningJob env t) (\<lambda>_.
               modify (\<lambda>c. c\<lparr>backgroundWork := backgroundWork c + 1\<rparr>))))))"

lemma initStratum_afterInit: "initStratum env c = afterInit env (c\<lparr>stratumInitialized := True\<rparr>)"
  unfolding initStratum_def afterInit_def by simp

lemma fr_afterInit: "fr.keeps (afterInit env)"
  unfolding afterInit_def
  by (intro fr_intros fr_closeSocket fr_writeReply fr_onNewMiningJob frameI) (simp_all add: isClosed_def)

lemma minDifficulty_addShares [simp]: "minDifficulty (addShares d n x st) = minDifficulty st"
  by (simp add: addShares_def Let_def)

lemma fr_persistClientHashRate: "fr.keeps (persistClientHashRate env)"
  unfolding persistClientHashRate_def by (intro fr_intros fr_perform frameI) (simp_all add: isClosed_def)

lemma fr_submitCandidate: "fr.keeps (submitCandidate env job jt m a w)"
  unfolding submitCandidate_def by (intro fr_intros fr_perform)

lemma fr_ratchetBest: "fr.keeps (ratchetBest env a w v d)"
  unfolding ratchetBest_def by (intro fr_intros fr_perform frameI) (simp_all add: isClosed_def)

text \<open>The statistics are replaced by what they were plus a share.\<close>

lemma fr_recordShare: "fr.keeps (recordShare env sh)"
proof -
  have upd: "fr.keeps (andThen (readState id) (\<lambda>c. andThen (need (clientStatistics c)) (\<lambda>st.
        let st = addShares (env_now env) (env_now env) (sessionDifficulty c) st
        in andThen (modify (\<lambda>c. c\<lparr>clientStatistics := Some st,
              clientEntity := map_option (\<lambda>e. e\<lparr>ce_updatedAt := env_now env, ce_hashRate := st_hashRate st\<rparr>)
                (clientEntity c)\<rparr>)) (\<lambda>_. persistClientHashRate env))))" (is "fr.keeps ?m")
  proof -
    have "frame s (snd (?m s))" for s
    proof (cases "clientStatistics s")
      case None
      then show ?thesis by (simp add: need_def fr.R_refl)
    next
      case (Some st)
      let ?st = "addShares (env_now env) (env_now env) (sessionDifficulty s) st"
      let ?s = "s\<lparr>clientStatistics := Some ?st,
              clientEntity := map_option (\<lambda>e. e\<lparr>ce_updatedAt := env_now env, ce_hashRate := st_hashRate ?st\<rparr>)
                (clientEntity s)\<rparr>"
      have "frame s ?s" using Some by (intro frameI) (simp_all add: isClosed_def minKept_def)
      moreover have "frame ?s (snd (persistClientHashRate env ?s))"
        using fr_persistClientHashRate unfolding fr.keeps_def by blast
      ultimately have "frame s (snd (persistClientHashRate env ?s))" by (rule fr.R_trans)
      with Some show ?thesis by (simp add: need_def Let_def)
    qed
    then show ?thesis by (simp add: fr.keeps_def)
  qed
  show ?thesis
    unfolding recordShare_def
    by (rule fr.keeps_tryCatch, rule fr.keeps_andThen, rule fr_perform, rule upd, rule fr.keeps_prims)
qed

lemma fr_acceptShare: "fr.keeps (acceptShare env job jt m judged)"
  unfolding acceptShare_def
  by (intro fr_intros fr_submitCandidate fr_ensureClientEntity fr_recordShare fr_ratchetBest)

lemma fr_handleMiningSubmission: "fr.keeps (handleMiningSubmission env m)"
  unfolding handleMiningSubmission_def
  by (intro fr_intros fr_writeFailure fr_writeReply fr_acceptShare frameI) (simp_all add: isClosed_def)

end
