(* ===== verification/StratumV1Session.thy ===== *)
theory StratumV1Session
  imports StratumV1Correctness
begin

text \<open>
  The states a Stratum V1 connection can reach, under any sequence of socket data, templates, timer ticks,
  closings and actions of other connections, and what holds in all of them: the target in force is the
  target of the session difficulty, which is not below the floors that the operator and the miner set.
\<close>

section \<open>Runs\<close>

text \<open>What is the same at every event: the configured minimum, the hash function and the Bitcoin library.\<close>

definition env_ok :: "jsnum option \<Rightarrow> (bytes \<Rightarrow> bytes) \<Rightarrow> bitcoin_lib \<Rightarrow> v1_env \<Rightarrow> bool" where
  "env_ok cfg sha lib env \<longleftrightarrow> getConfiguredMinimumDifficulty env = cfg \<and> env_sha256 env = sha \<and> env_lib env = lib
     \<and> list_all is_hex (env_random env) \<and> length (env_random env) = 8"

text \<open>An operator's minimum beyond \<open>2 ^ 900\<close> has no target: the conversion overflows.\<close>

definition cfg_ok :: "jsnum option \<Rightarrow> bool" where
  "cfg_ok cfg \<longleftrightarrow> (case cfg of None \<Rightarrow> True | Some d \<Rightarrow> (case d of Num m \<Rightarrow> 0 < m \<and> m \<le> 2 ^ 900 | _ \<Rightarrow> False))"

inductive v1_reach :: "PayoutMode \<Rightarrow> AccountingProtocol \<Rightarrow> jsnum option \<Rightarrow> (bytes \<Rightarrow> bytes) \<Rightarrow> bitcoin_lib \<Rightarrow> V1Client \<Rightarrow> bool"
  for mode protocol cfg sha lib where
  start: "v1_reach mode protocol cfg sha lib (newV1Client mode protocol svc)"
| step: "v1_reach mode protocol cfg sha lib (handleEvent env ev c)"
    if "v1_reach mode protocol cfg sha lib c" "env_ok cfg sha lib env"

definition lowest :: "jsnum option \<Rightarrow> jsnum" where
  "lowest cfg = (case cfg of None \<Rightarrow> Num (fl (1 / 1000)) | Some d \<Rightarrow> d)"

section \<open>Difficulties that have a target\<close>

definition hasTarget :: "jsnum \<Rightarrow> bool" where
  "hasTarget d \<longleftrightarrow> (\<exists>q t. d = Num q \<and> difficultyToTarget d = Inr t)"

lemma difficultyToTarget_Inr:
  "(\<exists>t. difficultyToTarget (Num q) = Inr t) \<longleftrightarrow> q \<le> 0 \<or> \<bar>fl (q * 1000000)\<bar> < 2 ^ 1024"
  by (auto simp: difficultyToTarget_def isFinite_def js_le_def js_lt_def rnd_def Let_def)

lemma hasTarget_mono: "q \<le> q' \<Longrightarrow> hasTarget (Num q') \<Longrightarrow> hasTarget (Num q)"
proof -
  assume le: "q \<le> q'" and h: "hasTarget (Num q')"
  from h have "\<exists>t. difficultyToTarget (Num q') = Inr t" by (auto simp: hasTarget_def)
  then have q': "q' \<le> 0 \<or> \<bar>fl (q' * 1000000)\<bar> < 2 ^ 1024" by (simp only: difficultyToTarget_Inr)
  have "q \<le> 0 \<or> \<bar>fl (q * 1000000)\<bar> < 2 ^ 1024"
  proof (cases "q \<le> 0")
    case False
    then have "0 < q'" using le by linarith
    with q' have "fl (q' * 1000000) < 2 ^ 1024" by simp
    moreover have "fl (q * 1000000) \<le> fl (q' * 1000000)" using le by (intro fl_mono) simp
    moreover have "0 \<le> fl (q * 1000000)" using False by (intro fl_nonneg) simp
    ultimately show ?thesis by simp
  qed simp
  then show ?thesis using difficultyToTarget_Inr [of q] by (auto simp: hasTarget_def)
qed

lemma hasTarget_small: "q \<le> 2 ^ 900 \<Longrightarrow> hasTarget (Num q)"
proof -
  assume "q \<le> 2 ^ 900"
  moreover have "hasTarget (Num (2 ^ 900))"
  proof -
    have "fl (2 ^ 900 * 1000000) \<le> (2 ^ 900 * 1000000) * (1 + 1 / 2 ^ 53)" by (rule fl_le) simp
    also have "\<dots> < 2 ^ 1024" by simp
    finally have "\<bar>fl (2 ^ 900 * 1000000)\<bar> < (2 :: rat) ^ 1024"
      using fl_nonneg [of "2 ^ 900 * 1000000"] by simp
    then show ?thesis using difficultyToTarget_Inr [of "2 ^ 900"] by (auto simp: hasTarget_def)
  qed
  ultimately show ?thesis by (rule hasTarget_mono)
qed

lemma js_max_Num: "js_max (Num a) (Num b) = Num (max a b)"
  by (simp add: js_max_def js_lt_def max_def)

lemma hasTarget_max: "hasTarget (js_max (Num a) (Num b)) \<longleftrightarrow> hasTarget (Num a) \<and> hasTarget (Num b)"
  unfolding js_max_Num max_def using hasTarget_mono [of a b] hasTarget_mono [of b a] by auto

section \<open>The suggestion of the statistics\<close>

lemma smear_bounded: "\<bar>smear v - js_shr (smear v) 1\<bar> \<le> 2 ^ 33"
proof -
  have b: "- (2 ^ 31) \<le> sint (w :: 32 word) \<and> sint w < 2 ^ 31" for w
    using sint_range_size [of w] by (simp add: word_size)
  obtain u w :: "32 word" where "smear v = sint u" "js_shr (smear v) 1 = sint w"
    by (simp add: smear_def Let_def js_or_def js_shr_def)
  then show ?thesis using b [of u] b [of w] by auto
qed

lemma div_100_bounded:
  assumes "\<bar>q\<bar> \<le> B" "B < 2 ^ 1000"
  shows "\<exists>r. js_div (Num q) (Num 100) = Num r \<and> \<bar>r\<bar> \<le> B"
proof -
  have abs_fl: "\<bar>fl x\<bar> = fl \<bar>x\<bar>" for x
    using fl_minus [of x] fl_nonneg [of x] fl_nonneg [of "- x"] by (cases "0 \<le> x") auto
  have "fl \<bar>q / 100\<bar> \<le> \<bar>q / 100\<bar> * (1 + 1 / 2 ^ 53)" by (rule fl_le) simp
  also have "\<dots> \<le> B" using assms(1) by simp
  finally have f: "\<bar>fl (q / 100)\<bar> \<le> B" by (simp only: abs_fl)
  also have "B < 2 ^ 1024" using assms(2) by (rule less_trans) simp
  finally show ?thesis using f by (simp add: rnd_def)
qed

lemma nearestPowerOfTwo_bounded:
  assumes "nearestPowerOfTwo (Num m) x = Some (Some y)" "\<bar>m\<bar> \<le> 2 ^ 900"
  shows "\<exists>q. y = Num q \<and> \<bar>q\<bar> \<le> 2 ^ 900"
proof -
  have "min' = Num m \<longrightarrow> (\<forall>z. y = Some z \<longrightarrow> (\<exists>q. z = Num q \<and> \<bar>q\<bar> \<le> 2 ^ 900))"
    if "nearestPowerOfTwo min' x = Some y" for min' x y
  proof (rule nearestPowerOfTwo.raw_induct [OF _ that])
    fix f min' x y
    assume ih: "\<And>min' x y. f min' x = Some y \<Longrightarrow>
          min' = Num m \<longrightarrow> (\<forall>z. y = Some z \<longrightarrow> (\<exists>q. z = Num q \<and> \<bar>q\<bar> \<le> 2 ^ 900))"
      and e: "(if x = Num 0 then Some None else if js_lt x min' then Some (Some min')
        else (let u = smear (js_int x); res = u - js_shr u 1
              in if res = 0 \<and> js_lt (js_mul x (Num 100)) min' then Some (Some min')
                 else if res = 0 then Option.bind (f min' (js_mul x (Num 100)))
                    (\<lambda>r. Some (Some (js_div (case r of None \<Rightarrow> Num 0 | Some y \<Rightarrow> y) (Num 100))))
                 else Some (Some (Num (of_int res))))) = Some y"
    let ?res = "smear (js_int x) - js_shr (smear (js_int x)) 1"
    show "min' = Num m \<longrightarrow> (\<forall>z. y = Some z \<longrightarrow> (\<exists>q. z = Num q \<and> \<bar>q\<bar> \<le> 2 ^ 900))"
    proof (intro impI allI)
      fix z assume m: "min' = Num m" and z: "y = Some z"
      have "\<bar>?res\<bar> \<le> 2 ^ 33" by (rule smear_bounded)
      also have "(2 :: int) ^ 33 \<le> 2 ^ 900" by simp
      finally have r: "\<bar>of_int ?res\<bar> \<le> (2 ^ 900 :: rat)"
        by (metis of_int_abs of_int_le_iff of_int_numeral of_int_power)
      from e z consider "z = Num m" | "z = Num (of_int ?res)"
        | r' where "f min' (js_mul x (Num 100)) = Some r'" "z = js_div (case r' of None \<Rightarrow> Num 0 | Some y \<Rightarrow> y) (Num 100)"
        by (auto simp: m Let_def bind_eq_Some_conv split: if_splits)
      then show "\<exists>q. z = Num q \<and> \<bar>q\<bar> \<le> 2 ^ 900"
      proof cases
        case 1
        then show ?thesis using assms(2) by blast
      next
        case 2
        then show ?thesis using r by blast
      next
        case (3 r')
        have "\<exists>q. (case r' of None \<Rightarrow> Num 0 | Some y \<Rightarrow> y) = Num q \<and> \<bar>q\<bar> \<le> 2 ^ 900"
          using ih [OF 3(1)] m by (cases r') auto
        then obtain q where q: "(case r' of None \<Rightarrow> Num 0 | Some y \<Rightarrow> y) = Num q" "\<bar>q\<bar> \<le> 2 ^ 900" by blast
        have "(2 :: rat) ^ 900 < 2 ^ 1000" by simp
        from div_100_bounded [OF q(2) this] show ?thesis by (simp only: 3(2) q(1))
      qed
    qed
  qed
  from this [OF assms(1)] show ?thesis by simp
qed

lemma getSuggestedDifficulty_bounded:
  assumes "getSuggestedDifficulty now d st = Some (Some y)" "minDifficulty st = Num m" "\<bar>m\<bar> \<le> 2 ^ 900"
  shows "\<exists>q. y = Num q \<and> \<bar>q\<bar> \<le> 2 ^ 900"
proof -
  from assms(1,2) obtain x where "nearestPowerOfTwo (Num m) x = Some (Some y)"
    by (auto simp: getSuggestedDifficulty_def Let_def split: if_splits)
  then show ?thesis using assms(3) by (rule nearestPowerOfTwo_bounded)
qed

section \<open>The invariant\<close>

definition base :: "jsnum option \<Rightarrow> V1Client \<Rightarrow> bool" where
  "base cfg c \<longleftrightarrow>
     (\<forall>st. clientStatistics c = Some st \<longrightarrow> minDifficulty st = lowest cfg)
     \<and> (sessionStart c \<noteq> None \<longrightarrow> clientStatistics c \<noteq> None
          \<and> list_all is_hex (extraNonceAndSessionId c) \<and> length (extraNonceAndSessionId c) = 8)
     \<and> (clientSubscription c \<noteq> None \<longrightarrow> sessionStart c \<noteq> None)
     \<and> (stratumInitialized c \<longrightarrow> clientSubscription c \<noteq> None \<and> clientAuthorization c \<noteq> None)"

text \<open>A difficulty that respects the operator's minimum (the start is 100000) and the suggestion.\<close>

definition aboveFloors :: "jsnum option \<Rightarrow> V1Client \<Rightarrow> jsnum \<Rightarrow> bool" where
  "aboveFloors cfg c d \<longleftrightarrow>
     (\<exists>q. d = Num q \<and> (\<forall>m. cfg = Some (Num m) \<longrightarrow> min m 100000 \<le> q)
        \<and> (\<forall>s. clientSuggestedDifficulty c = Some s \<longrightarrow> (\<exists>r. suggestedDifficulty s = Num r \<and> r \<le> q)))"

definition tuned :: "jsnum option \<Rightarrow> V1Client \<Rightarrow> bool" where
  "tuned cfg c \<longleftrightarrow> difficultyToTarget (sessionDifficulty c) = Inr (sessionDifficultyTarget c)
     \<and> aboveFloors cfg c (sessionDifficulty c)"

definition good :: "jsnum option \<Rightarrow> V1Client \<Rightarrow> bool" where
  "good cfg c \<longleftrightarrow> base cfg c \<and> (isClosed c \<or> tuned cfg c)"

interpretation gd: guarded "good cfg" "base cfg" for cfg
  by unfold_locales (simp add: good_def)

lemma frame_base: "frame c c' \<Longrightarrow> base cfg c \<Longrightarrow> base cfg c'"
  unfolding frame_def base_def minKept_def
  by (cases "clientStatistics c"; cases "clientStatistics c'") auto

lemma frame_good: "frame c c' \<Longrightarrow> good cfg c \<Longrightarrow> good cfg c'"
  using frame_base [of c c' cfg] unfolding good_def
  by (auto simp: frame_def tuned_def aboveFloors_def)

lemma gd_frame: "fr.keeps m \<Longrightarrow> gd.safe cfg m"
proof -
  assume m: "fr.keeps m"
  have "gd.after cfg (m s)" if "good cfg s" for s
  proof (cases "m s")
    case (Pair r t)
    then have "good cfg t" using frame_good [OF fr.keepsD [OF m Pair] that] by simp
    with Pair show ?thesis by (cases r) (simp_all add: good_def)
  qed
  then show ?thesis by (simp add: gd.safe_def)
qed

lemma base_closed_good: "base cfg c \<Longrightarrow> isClosed c \<Longrightarrow> good cfg c"
  by (simp add: good_def)

lemma endSocket_closes: "base cfg c \<Longrightarrow> gd.after cfg (endSocket c)"
  by (simp add: endSocket_def emit_def good_def base_def isClosed_def)

text \<open>Setting the difficulty: either the target follows, or there is none and it throws.\<close>

lemma after_setSessionDifficulty:
  assumes "base cfg c" "isClosed c \<or> aboveFloors cfg c d"
  shows "gd.after cfg (setSessionDifficulty d c)"
proof (cases "difficultyToTarget d")
  case (Inl e)
  then show ?thesis using assms(1) by (simp add: setSessionDifficulty_def base_def)
next
  case (Inr t)
  then show ?thesis using assms
    by (simp add: setSessionDifficulty_def good_def base_def tuned_def aboveFloors_def isClosed_def)
qed

lemma aboveFloors_mono:
  "aboveFloors cfg c (Num q) \<Longrightarrow> q \<le> q' \<Longrightarrow> aboveFloors cfg c (Num q')"
  by (fastforce simp: aboveFloors_def)

section \<open>The handlers of requests\<close>

lemma gd_handleSubscribe:
  assumes "env_ok cfg sha lib env"
  shows "gd.safe cfg (handleSubscribe env msg)"
proof -
  have min: "getMinimumDifficulty env = lowest cfg"
    using assms by (simp add: getMinimumDifficulty_def lowest_def env_ok_def)
  have acc: "gd.after cfg ((andThen (modify (\<lambda>c. if sessionStart c \<noteq> None then c
              else c\<lparr>sessionStart := Some (env_now env),
                     clientStatistics := Some (newStatistics (env_now env) (getMinimumDifficulty env)),
                     extraNonceAndSessionId := env_random env\<rparr>)) (\<lambda>_.
           andThen (modify (\<lambda>c. c\<lparr>clientSubscription := Some sub\<rparr>)) (\<lambda>_.
           andThen (readState extraNonceAndSessionId) (\<lambda>en.
             writeReply env (Subscribed (sub_id sub) en))))) c)" if "good cfg c" for c sub
  proof -
    let ?c1 = "if sessionStart c \<noteq> None then c
              else c\<lparr>sessionStart := Some (env_now env),
                     clientStatistics := Some (newStatistics (env_now env) (getMinimumDifficulty env)),
                     extraNonceAndSessionId := env_random env\<rparr>"
    let ?c2 = "?c1\<lparr>clientSubscription := Some sub\<rparr>"
    have "good cfg ?c2"
      using that assms min
      by (auto simp: good_def base_def isClosed_def tuned_def aboveFloors_def newStatistics_def env_ok_def)
    then show ?thesis using gd.safeD [OF gd_frame [OF fr_writeReply]] by simp
  qed
  show ?thesis
    unfolding handleSubscribe_def
  proof (rule gd.safe_andThen, rule gd.safe_prims)
    fix v show "gd.safe cfg (case v of
       Accepted sub \<Rightarrow>
         if isBlockedUserAgent env (sub_userAgent sub) then andThen closeSocket (\<lambda>_. ret False)
         else
           andThen (modify (\<lambda>c. if sessionStart c \<noteq> None then c
              else c\<lparr>sessionStart := Some (env_now env),
                     clientStatistics := Some (newStatistics (env_now env) (getMinimumDifficulty env)),
                     extraNonceAndSessionId := env_random env\<rparr>)) (\<lambda>_.
           andThen (modify (\<lambda>c. c\<lparr>clientSubscription := Some sub\<rparr>)) (\<lambda>_.
           andThen (readState extraNonceAndSessionId) (\<lambda>en.
             writeReply env (Subscribed (sub_id sub) en))))
     | Rejected ident fs \<Rightarrow> writeFailure env ident OtherUnknown ''Subscription validation error'' fs)"
    proof (cases v)
      case (Accepted sub)
      then show ?thesis
        using acc [of _ sub] gd.safe_andThen [OF gd_frame [OF fr_closeSocket] gd.safe_prims(1), of cfg "\<lambda>_. False"]
        by (simp add: gd.safe_def)
    qed (simp add: gd_frame fr_writeFailure)
  qed
qed

lemma gd_handleConfigure: "gd.safe cfg (handleConfigure env msg)"
proof -
  have "fr.keeps (modify (\<lambda>c. c\<lparr>clientConfiguration := Some conf\<rparr>))" for conf
    by (intro fr_modify frameI) (simp_all add: isClosed_def)
  then have "fr.keeps (handleConfigure env msg)"
    unfolding handleConfigure_def
    by (intro fr.keeps_andThen fr.keeps_prims)
      (auto intro!: fr.keeps_andThen fr_writeReply fr_writeFailure split: validated.split)
  then show ?thesis by (rule gd_frame)
qed

lemma gd_handleAuthorize: "gd.safe cfg (handleAuthorize env msg)"
  unfolding handleAuthorize_def
proof (rule gd.safe_lift)
  fix v assume v: "parseAuthorization (env_isAddress env) msg = Inr v"
  show "gd.safe cfg (case v of
       Accepted auth \<Rightarrow>
         andThen (modify (\<lambda>c. c\<lparr>clientAuthorization := Some auth, currentPayoutAddress := Some (auth_address auth),
            currentPayoutWorker := Some (auth_worker auth)\<rparr>)) (\<lambda>_.
         andThen (readState id) (\<lambda>c.
         andThen (case auth_startingDiff auth of
             None \<Rightarrow> ret ()
           | Some d \<Rightarrow> if clientSuggestedDifficulty c = None \<and> js_lt (sessionDifficulty c) d
               then setSessionDifficulty d else ret ()) (\<lambda>_.
           writeReply env (Result (auth_id auth)))))
     | Rejected ident fs \<Rightarrow> writeFailure env ident OtherUnknown ''Authorization validation error'' fs)"
  proof (cases v)
    case (Accepted auth)
    have fin: "isFinite d" if "auth_startingDiff auth = Some d" for d
      using v that unfolding Accepted by (rule authorization_accepted(3))
    have adj: "gd.after cfg (andThen (case auth_startingDiff auth of
             None \<Rightarrow> ret ()
           | Some d \<Rightarrow> if clientSuggestedDifficulty c = None \<and> js_lt (sessionDifficulty c) d
               then setSessionDifficulty d else ret ()) (\<lambda>_.
           writeReply env (Result (auth_id auth))) c)" if c: "good cfg c" for c
    proof (rule gd.after_andThen)
      show "gd.after cfg ((case auth_startingDiff auth of
             None \<Rightarrow> ret ()
           | Some d \<Rightarrow> if clientSuggestedDifficulty c = None \<and> js_lt (sessionDifficulty c) d
               then setSessionDifficulty d else ret ()) c)"
      proof (cases "auth_startingDiff auth")
        case None
        then show ?thesis using c by simp
      next
        case (Some d)
        obtain r where r: "d = Num r" using fin [OF Some] by (cases d) (simp_all add: isFinite_def)
        have "isClosed c \<or> aboveFloors cfg c d" if lt: "js_lt (sessionDifficulty c) d"
        proof (cases "isClosed c")
          case False
          then obtain q where q: "sessionDifficulty c = Num q" "aboveFloors cfg c (Num q)"
            using c by (auto simp: good_def tuned_def aboveFloors_def)
          moreover have "q \<le> r" using lt q(1) r by (simp add: js_lt_def)
          ultimately show ?thesis using r aboveFloors_mono by blast
        qed simp
        with Some c show ?thesis
          using after_setSessionDifficulty [of cfg c d] by (auto simp: good_def)
      qed
    qed (rule gd_frame [OF fr_writeReply])
    have upd: "good cfg (c\<lparr>clientAuthorization := Some auth, currentPayoutAddress := Some (auth_address auth),
            currentPayoutWorker := Some (auth_worker auth)\<rparr>)" if "good cfg c" for c
      using that by (auto simp: good_def base_def isClosed_def tuned_def aboveFloors_def)
    show ?thesis
      unfolding Accepted validated.case gd.safe_def
      by (intro allI impI) (simp only: andThen_prims id_apply, rule adj [OF upd])
  qed (simp add: gd_frame fr_writeFailure)
qed

lemma clampDifficulty_floor:
  assumes "env_ok cfg sha lib env" "cfg_ok cfg" "clampDifficulty env (Some (Num q)) = Some d"
  shows "\<exists>r. d = Num r \<and> q \<le> r \<and> (\<forall>m. cfg = Some (Num m) \<longrightarrow> m \<le> r)"
  using assms by (auto simp: clampDifficulty_def isFinite_def env_ok_def cfg_ok_def js_max_Num
      split: option.splits jsnum.splits)

lemma clampDifficulty_Num: "\<exists>d. clampDifficulty env (Some (Num q)) = Some d"
  by (simp add: clampDifficulty_def isFinite_def split: option.split)

lemma gd_handleSuggestDifficulty:
  assumes env: "env_ok cfg sha lib env" "cfg_ok cfg"
  shows "gd.safe cfg (handleSuggestDifficulty env msg)"
  unfolding handleSuggestDifficulty_def
proof (rule gd.safe_andThen, rule gd.safe_prims, rule gd.safe_if, rule gd.safe_prims, rule gd.safe_lift)
  fix v assume v: "parseSuggestDifficulty (env_toNumber env) msg = Inr v"
  show "gd.safe cfg (case v of
           Accepted sd \<Rightarrow>
             andThen (modify (\<lambda>c. c\<lparr>clientSuggestedDifficulty := Some sd\<rparr>)) (\<lambda>_.
             andThen (setSessionDifficulty (case clampDifficulty env (Some (suggestedDifficulty sd)) of
                None \<Rightarrow> NaN | Some d \<Rightarrow> d)) (\<lambda>_.
             andThen (readState sessionDifficulty) (\<lambda>d.
             andThen (writeReply env (SetDifficulty d)) (\<lambda>success.
               if \<not> success then ret False
               else andThen (modify (\<lambda>c. c\<lparr>usedSuggestedDifficulty := True\<rparr>)) (\<lambda>_. ret True)))))
         | Rejected ident fs \<Rightarrow> writeFailure env ident OtherUnknown ''Suggest difficulty validation error'' fs)"
  proof (cases v)
    case (Accepted sd)
    obtain q where q: "suggestedDifficulty sd = Num q"
      using suggest_accepted v unfolding Accepted by blast
    obtain d where d: "clampDifficulty env (Some (suggestedDifficulty sd)) = Some d"
      unfolding q using clampDifficulty_Num by blast
    obtain r where r: "d = Num r" "q \<le> r" "\<forall>m. cfg = Some (Num m) \<longrightarrow> m \<le> r"
      using clampDifficulty_floor [OF env d [unfolded q]] by blast
    have used: "gd.safe cfg (modify (\<lambda>c. c\<lparr>usedSuggestedDifficulty := True\<rparr>))"
      by (intro gd_frame fr_modify frameI) (simp_all add: isClosed_def)
    have "gd.after cfg (andThen (setSessionDifficulty d) (\<lambda>_.
             andThen (readState sessionDifficulty) (\<lambda>d.
             andThen (writeReply env (SetDifficulty d)) (\<lambda>success.
               if \<not> success then ret False
               else andThen (modify (\<lambda>c. c\<lparr>usedSuggestedDifficulty := True\<rparr>)) (\<lambda>_. ret True))))
           (c\<lparr>clientSuggestedDifficulty := Some sd\<rparr>))" if c: "good cfg c" for c
    proof (rule gd.after_andThen)
      have "aboveFloors cfg (c\<lparr>clientSuggestedDifficulty := Some sd\<rparr>) d"
        using r q by (auto simp: aboveFloors_def)
      then show "gd.after cfg (setSessionDifficulty d (c\<lparr>clientSuggestedDifficulty := Some sd\<rparr>))"
        using c by (intro after_setSessionDifficulty) (simp_all add: good_def base_def)
    qed (intro gd.safe_intros gd_frame [OF fr_writeReply] used)
    then show ?thesis using Accepted d by (simp add: gd.safe_def)
  qed (simp add: gd_frame fr_writeFailure)
qed

lemma gd_handleSubmit: "gd.safe cfg (handleSubmit env msg)"
proof -
  have "fr.keeps (handleSubmit env msg)"
    unfolding handleSubmit_def
    by (rule fr.keeps_andThen, rule fr.keeps_prims, rule fr.keeps_if, rule fr.keeps_andThen, rule fr_endSocket,
        rule fr.keeps_prims, rule fr.keeps_andThen, rule fr.keeps_prims)
      (auto intro!: fr.keeps_andThen fr.keeps_prims fr_writeReply fr_writeFailure fr_handleMiningSubmission
        fr_closeSocket split: validated.split)
  then show ?thesis by (rule gd_frame)
qed

lemma gd_handleSetPayout: "gd.safe cfg (handleSetPayout env msg)"
proof -
  have m: "fr.keeps (modify (\<lambda>c. c\<lparr>currentPayoutAddress := Some (sp_address sp),
            currentPayoutWorker := (case sp_worker sp of
                Some w \<Rightarrow> Some w | None \<Rightarrow> map_option auth_worker (clientAuthorization c))\<rparr>))" for sp
    by (intro fr_modify frameI) (simp_all add: isClosed_def)
  have "fr.keeps (handleSetPayout env msg)"
    unfolding handleSetPayout_def
    by (rule fr.keeps_andThen, rule fr.keeps_prims)
      (auto intro!: fr.keeps_andThen fr.keeps_prims fr_writeReply fr_writeFailure m fr_ensurePayoutPresence
        fr_sendRefreshedJob split: validated.split)
  then show ?thesis by (rule gd_frame)
qed

section \<open>Messages, lines and events\<close>

text \<open>Starting the stratum keeps the invariant because it is guarded by both requests.\<close>

lemma after_initStratum:
  assumes "good cfg c" "clientSubscription c \<noteq> None" "clientAuthorization c \<noteq> None"
  shows "gd.after cfg (initStratum env c)"
proof -
  have "good cfg (c\<lparr>stratumInitialized := True\<rparr>)"
    using assms by (simp add: good_def base_def isClosed_def tuned_def aboveFloors_def)
  then show ?thesis
    unfolding initStratum_afterInit by (rule gd.safeD [OF gd_frame [OF fr_afterInit]])
qed

lemma gd_handleMessage:
  assumes env: "env_ok cfg sha lib env" "cfg_ok cfg"
  shows "gd.safe cfg (handleMessage env message)"
proof -
  note handlers = gd_handleSubscribe [OF env(1)] gd_handleConfigure gd_handleAuthorize
    gd_handleSuggestDifficulty [OF env] gd_handleSubmit gd_handleSetPayout
  have start: "gd.after cfg ((if clientSubscription c \<noteq> None \<and> clientAuthorization c \<noteq> None
      \<and> \<not> stratumInitialized c then tryCatch (initStratum env) (\<lambda>_. ret ()) else ret ()) c)"
    if c: "good cfg c" for c
  proof (cases "clientSubscription c \<noteq> None \<and> clientAuthorization c \<noteq> None \<and> \<not> stratumInitialized c")
    case True
    have fr: "good cfg (snd (initStratum env c))"
    proof -
      have "good cfg (c\<lparr>stratumInitialized := True\<rparr>)"
        using c True by (simp add: good_def base_def isClosed_def tuned_def aboveFloors_def)
      then show ?thesis
        unfolding initStratum_afterInit using frame_good fr_afterInit unfolding fr.keeps_def by blast
    qed
    then have "gd.after cfg (tryCatch (initStratum env) (\<lambda>_. ret ()) c)"
      by (cases "initStratum env c"; cases "fst (initStratum env c)") simp_all
    then show ?thesis using True by (subst if_P) blast+
  qed (use c in auto)
  show ?thesis
  proof (cases "env_jsonParse env message")
    case None
    then show ?thesis by (simp add: handleMessage_def gd_frame fr_endSocket)
  next
    case (Some parsedMessage)
    show ?thesis
      unfolding handleMessage_def Some option.case
      by (intro gd.safe_andThen gd.safe_prims gd.safe_option gd.safe_if gd.safe_read)
        (auto intro: handlers simp: start [simplified] split: eRequestMethod.split)
  qed
qed

lemma gd_handleLines:
  assumes "env_ok cfg sha lib env" "cfg_ok cfg"
  shows "gd.safe cfg (handleLines env ls)"
proof (induction ls)
  case (Cons m ms)
  have "gd.safe cfg (tryCatch (handleMessage env m) (\<lambda>_. endSocket))"
    by (rule gd.safe_tryCatch, rule gd_handleMessage [OF assms], rule endSocket_closes)
  with Cons show ?case unfolding handleLines.simps by (intro gd.safe_intros) auto
next
  case Nil
  show ?case unfolding handleLines.simps by (rule gd.safe_prims)
qed

lemma gd_handleSocketData:
  assumes "env_ok cfg sha lib env" "cfg_ok cfg"
  shows "gd.safe cfg (handleSocketData env data)"
proof -
  have "gd.safe cfg (modify (\<lambda>c. c\<lparr>buffer := b\<rparr>))" for b
    by (intro gd_frame fr_modify frameI) (simp_all add: isClosed_def)
  then show ?thesis
    unfolding handleSocketData_def by (intro gd.safe_intros gd_handleLines [OF assms]) auto
qed

text \<open>The new difficulty of a retarget has a target and respects both floors.\<close>

lemma retarget_sound:
  assumes c: "good cfg c" "\<not> isClosed c" and env: "env_ok cfg sha lib env" "cfg_ok cfg"
    and st: "clientStatistics c = Some st" "getSuggestedDifficulty (env_now env) (sessionDifficulty c) st = Some suggestion"
    and d: "clampDifficulty env suggestion = Some clamped"
  shows "\<exists>q. (case clientSuggestedDifficulty c of None \<Rightarrow> clamped | Some s \<Rightarrow> js_max clamped (suggestedDifficulty s)) = Num q
    \<and> (\<forall>m. cfg = Some (Num m) \<longrightarrow> m \<le> q) \<and> hasTarget (Num q)
    \<and> (\<forall>s. clientSuggestedDifficulty c = Some s \<longrightarrow> (\<exists>r. suggestedDifficulty s = Num r \<and> r \<le> q))"
proof -
  have low: "\<exists>m. lowest cfg = Num m \<and> \<bar>m\<bar> \<le> 2 ^ 900"
  proof (cases cfg)
    case None
    have "fl (1 / 1000) \<le> (1 / 1000) * (1 + 1 / 2 ^ 53)" by (rule fl_le) simp
    also have "\<dots> \<le> 2 ^ 900" by simp
    finally show ?thesis using None fl_nonneg [of "1 / 1000"] by (simp add: lowest_def)
  next
    case (Some d)
    then show ?thesis using env(2) by (auto simp: lowest_def cfg_ok_def split: jsnum.splits)
  qed
  moreover have "minDifficulty st = lowest cfg" using c(1) st(1) by (simp add: good_def base_def)
  ultimately obtain m where m: "minDifficulty st = Num m" "\<bar>m\<bar> \<le> 2 ^ 900" by auto
  obtain y where y: "suggestion = Some y" "isFinite y"
    using d by (auto simp: clampDifficulty_def split: option.splits if_splits)
  obtain q where q: "y = Num q" "\<bar>q\<bar> \<le> 2 ^ 900"
    using getSuggestedDifficulty_bounded [OF st(2) [unfolded y(1)] m] by blast
  obtain r where r: "clamped = Num r" "\<forall>m. cfg = Some (Num m) \<longrightarrow> m \<le> r"
    using clampDifficulty_floor [OF env d [unfolded y(1) q(1)]] by blast
  have hq: "hasTarget (Num q)" using q(2) by (intro hasTarget_small) simp
  have hr: "hasTarget (Num r)"
  proof (cases cfg)
    case None
    then have "r = q" using d env(1) r(1) by (simp add: y(1) q(1) clampDifficulty_def isFinite_def env_ok_def)
    then show ?thesis using hq by simp
  next
    case (Some x)
    then obtain k where k: "x = Num k" "k \<le> 2 ^ 900" using env(2) by (auto simp: cfg_ok_def split: jsnum.splits)
    then have "Num r = js_max (Num q) (Num k)"
      using d env(1) r(1) Some by (simp add: y(1) q(1) clampDifficulty_def isFinite_def env_ok_def)
    then show ?thesis using hq hasTarget_small [OF k(2)] by (simp only: hasTarget_max)
  qed
  show ?thesis
  proof (cases "clientSuggestedDifficulty c")
    case None
    then show ?thesis using r hr by simp
  next
    case (Some s)
    obtain x p where x: "suggestedDifficulty s = Num x" "sessionDifficulty c = Num p" "x \<le> p"
      using c Some by (auto simp: good_def tuned_def aboveFloors_def)
    have "hasTarget (Num p)" using c x(2) by (auto simp: good_def tuned_def hasTarget_def)
    then have "hasTarget (Num x)" by (rule hasTarget_mono [OF x(3)])
    then have "hasTarget (js_max (Num r) (Num x))" using hr by (simp only: hasTarget_max)
    then show ?thesis using r Some x(1) by (auto simp: js_max_Num le_max_iff_disj)
  qed
qed

lemma good_checkDifficulty:
  assumes c: "good cfg c" and env: "env_ok cfg sha lib env" "cfg_ok cfg"
  shows "good cfg (snd (checkDifficulty env c))"
proof (cases "clientStatistics c")
  case None
  then show ?thesis using c by (simp add: checkDifficulty_def need_def)
next
  case st: (Some st)
  show ?thesis
  proof (cases "getSuggestedDifficulty (env_now env) (sessionDifficulty c) st")
    case None
    then show ?thesis using c st by (simp add: checkDifficulty_def need_def)
  next
    case sg: (Some suggestion)
    show ?thesis
    proof (cases "clampDifficulty env suggestion")
      case None
      then show ?thesis using c st sg by (simp add: checkDifficulty_def need_def)
    next
      case cl: (Some clamped)
      define d where
        "d = (case clientSuggestedDifficulty c of None \<Rightarrow> clamped | Some s \<Rightarrow> js_max clamped (suggestedDifficulty s))"
      define rest where "rest = andThen (if socketDestroyed c \<or> socketEnded c then ret ()
          else emit (Write (SetDifficulty d))) (\<lambda>_. sendRefreshedJob env)"
      have rest: "fr.keeps rest" unfolding rest_def by (intro fr_intros fr_sendRefreshedJob)
      have sound: "aboveFloors cfg c d \<and> hasTarget d" if "\<not> isClosed c"
        using retarget_sound [OF c that env st sg cl] unfolding d_def [symmetric] aboveFloors_def by fastforce
      have "good cfg (snd (andThen (setSessionDifficulty d) (\<lambda>_. rest) c))"
      proof (cases "difficultyToTarget d")
        case (Inl e)
        then have "isClosed c" using sound by (auto simp: hasTarget_def)
        with Inl c show ?thesis
          by (simp add: setSessionDifficulty_def andThen_def [of "modify _"] good_def base_def isClosed_def)
      next
        case (Inr t)
        let ?s = "c\<lparr>sessionDifficulty := d, sessionDifficultyTarget := t\<rparr>"
        have "good cfg ?s"
          using c sound Inr by (auto simp: good_def base_def tuned_def aboveFloors_def isClosed_def)
        moreover have "setSessionDifficulty d c = (Inr (), ?s)"
          using Inr by (simp add: setSessionDifficulty_def)
        ultimately show ?thesis
          using frame_good rest unfolding fr.keeps_def by auto
      qed
      moreover have "checkDifficulty env c =
          (if d = sessionDifficulty c then ret () else andThen (setSessionDifficulty d) (\<lambda>_. rest)) c"
        unfolding checkDifficulty_def rest_def
        by (simp only: andThen_prims andThen_simps(1) id_apply st need_def option.case sg cl Let_def d_def [symmetric])
      ultimately show ?thesis using c by (cases "d = sessionDifficulty c") simp_all
    qed
  qed
qed

text \<open>Nothing escapes from the loop over the lines.\<close>

lemma handleLines_returns: "\<exists>c'. handleLines env ls c = (Inr (), c')"
proof (induction ls arbitrary: c)
  case (Cons m ms)
  have "\<exists>c'. tryCatch (handleMessage env m) (\<lambda>_. endSocket) c = (Inr (), c')"
    by (cases "handleMessage env m c"; cases "fst (handleMessage env m c)")
      (simp_all add: endSocket_def emit_def)
  then show ?case using Cons.IH by auto
qed simp

lemma handleSocketData_returns: "\<exists>c'. handleSocketData env data c = (Inr (), c')"
  unfolding handleSocketData_def using handleLines_returns by auto

lemma good_handleEvent:
  assumes c: "good cfg c" and env: "env_ok cfg sha lib env" "cfg_ok cfg"
  shows "good cfg (handleEvent env ev c)"
proof (cases ev)
  case (SocketData data)
  obtain c' where c': "handleSocketData env data c = (Inr (), c')" using handleSocketData_returns by blast
  have "gd.after cfg (handleSocketData env data c)" by (rule gd.safeD [OF gd_handleSocketData [OF env] c])
  then show ?thesis using SocketData c' by (simp add: handleEvent_def)
next
  case (NewTemplate t)
  then show ?thesis
    using c frame_good [of c "snd (onNewMiningJob env t c)"] fr_onNewMiningJob
    by (simp add: handleEvent_def fr.keeps_def)
next
  case Interval
  then show ?thesis using c good_checkDifficulty [OF assms] by (simp add: handleEvent_def)
next
  case Closed
  have "good cfg (c\<lparr>socketDestroyed := True\<rparr>)"
    using c by (simp add: good_def base_def isClosed_def)
  then show ?thesis
    using Closed frame_good fr_destroyClient unfolding fr.keeps_def by (simp add: handleEvent_def) blast
next
  case (Services svc)
  then show ?thesis
    using c by (simp add: handleEvent_def good_def base_def tuned_def aboveFloors_def isClosed_def)
qed

lemma good_new: "cfg_ok cfg \<Longrightarrow> good cfg (newV1Client mode protocol svc)"
proof -
  have "hasTarget (Num 100000)" by (rule hasTarget_small) simp
  then obtain t where "difficultyToTarget (Num 100000) = Inr t" by (auto simp: hasTarget_def)
  then show ?thesis by (simp add: good_def base_def newV1Client_def isClosed_def tuned_def aboveFloors_def)
qed

lemma v1_reach_good: "v1_reach mode protocol cfg sha lib c \<Longrightarrow> cfg_ok cfg \<Longrightarrow> good cfg c"
proof (induction rule: v1_reach.induct)
  case (start svc)
  then show ?case by (rule good_new)
next
  case (step c env ev)
  then show ?case by (intro good_handleEvent) auto
qed

end
