(* ===== verification/StratumV1Shares.thy ===== *)
theory StratumV1Shares
  imports StratumV1Session
begin

text \<open>
  What the outside learns from a Stratum V1 connection: every share it records and every block it submits,
  in any run, was earned by work; a submission is not accepted a second time; a second spelling of it is.
\<close>

section \<open>Statements that record nothing\<close>

definition quiet :: "V1Client \<Rightarrow> V1Client \<Rightarrow> bool" where
  "quiet c c' \<longleftrightarrow> (\<exists>es. outbox c' = outbox c @ es \<and> (\<forall>e \<in> set es. harmless e))"

interpretation qu: step_relation quiet
proof
  show "quiet s s" for s by (simp add: quiet_def)
  show "quiet s u" if "quiet s t" "quiet t u" for s t u
    using that unfolding quiet_def by (metis append_assoc set_append Un_iff)
qed

lemma qu_modify: "(\<And>c. outbox (f c) = outbox c) \<Longrightarrow> qu.keeps (modify f)"
  by (intro qu.keeps_modify) (simp add: quiet_def)

lemma qu_emit: "harmless e \<Longrightarrow> qu.keeps (emit e)"
  unfolding emit_def by (intro qu.keeps_modify) (simp add: quiet_def)

lemma qu_need: "qu.keeps (need x)"
  by (cases x) (simp_all add: need_def qu.keeps_prims)

lemmas qu_intros = qu.keeps_intros qu_need qu_modify

lemma qu_perform: "harmless e \<Longrightarrow> qu.keeps (perform env e)"
  unfolding perform_def by (intro qu_intros qu_emit)

lemma qu_endSocket: "qu.keeps endSocket"
  unfolding endSocket_def by (intro qu_intros qu_emit) simp_all

lemma qu_destroySocket: "qu.keeps destroySocket"
  unfolding destroySocket_def by (intro qu_intros qu_emit) simp_all

lemma qu_destroyClient: "qu.keeps destroyClient"
  unfolding destroyClient_def destroyInternal_def by (intro qu_intros qu_emit) simp_all

lemma qu_closeSocket: "qu.keeps closeSocket"
  unfolding closeSocket_def by (intro qu_intros qu_destroySocket) simp_all

lemma qu_writeReply: "qu.keeps (writeReply env r)"
  unfolding writeReply_def
  by (intro qu_intros qu_perform qu_destroyClient qu_endSocket qu_destroySocket) simp_all

lemma qu_writeFailure: "qu.keeps (writeFailure env i code why fs)"
  unfolding writeFailure_def by (rule qu_writeReply)

lemma qu_insertClient: "qu.keeps (insertClient env row)"
  unfolding insertClient_def by (intro qu_intros qu_emit) simp_all

lemma qu_ensureClientEntity: "qu.keeps (ensureClientEntity env)"
  unfolding ensureClientEntity_def by (intro qu_intros qu_insertClient) simp_all

lemma qu_ensurePayoutPresence: "qu.keeps (ensurePayoutPresence env)"
  unfolding ensurePayoutPresence_def by (intro qu_intros qu_insertClient qu_perform) simp_all

lemma qu_sendNewMiningJob: "qu.keeps (sendNewMiningJob env t)"
  unfolding sendNewMiningJob_def by (intro qu_intros qu_ensureClientEntity qu_writeReply) simp_all

lemma qu_sendRefreshedJob: "qu.keeps (sendRefreshedJob env)"
  unfolding sendRefreshedJob_def by (intro qu_intros qu_sendNewMiningJob)

lemma qu_onNewMiningJob: "qu.keeps (onNewMiningJob env t)"
  unfolding onNewMiningJob_def by (intro qu_intros qu_sendNewMiningJob qu_endSocket) simp_all

lemma qu_initStratum: "qu.keeps (initStratum env)"
  unfolding initStratum_def by (intro qu_intros qu_closeSocket qu_writeReply qu_onNewMiningJob) simp_all

lemma qu_setSessionDifficulty: "qu.keeps (setSessionDifficulty d)"
  unfolding setSessionDifficulty_def by (intro qu_intros) simp_all

lemma qu_checkDifficulty: "qu.keeps (checkDifficulty env)"
  unfolding checkDifficulty_def
  by (intro qu_intros qu_setSessionDifficulty qu_emit qu_sendRefreshedJob) simp_all

lemma qu_validated:
  "(\<And>m. qu.keeps (f m)) \<Longrightarrow> (\<And>i fs. qu.keeps (g i fs)) \<Longrightarrow> qu.keeps (case_validated g f v)"
  by (cases v) simp_all

lemma qu_handleSubscribe: "qu.keeps (handleSubscribe env msg)"
  unfolding handleSubscribe_def
  by (intro qu_intros qu_validated qu_closeSocket qu_writeReply qu_writeFailure) simp_all

lemma qu_handleConfigure: "qu.keeps (handleConfigure env msg)"
  unfolding handleConfigure_def
  by (intro qu_intros qu_validated qu_writeReply qu_writeFailure) simp_all

lemma qu_handleAuthorize: "qu.keeps (handleAuthorize env msg)"
  unfolding handleAuthorize_def
  by (intro qu_intros qu_validated qu_setSessionDifficulty qu_writeReply qu_writeFailure) simp_all

lemma qu_handleSuggestDifficulty: "qu.keeps (handleSuggestDifficulty env msg)"
  unfolding handleSuggestDifficulty_def
  by (intro qu_intros qu_validated qu_setSessionDifficulty qu_writeReply qu_writeFailure) simp_all

lemma qu_handleSetPayout: "qu.keeps (handleSetPayout env msg)"
  unfolding handleSetPayout_def
  by (intro qu_intros qu_validated qu_writeReply qu_writeFailure qu_ensurePayoutPresence qu_sendRefreshedJob) simp_all

section \<open>What is recorded was earned\<close>

text \<open>
  The fields of a recorded share rebuild a header of its job whose hash meets the target of the difficulty
  that is credited; the address is the one the job pays.
\<close>

definition earned :: "(bytes \<Rightarrow> bytes) \<Rightarrow> AcceptedShare \<Rightarrow> bool" where
  "earned sha sh \<longleftrightarrow> (\<exists>job jt versionMask header target.
     job_jobId job = as_jobId sh \<and> job_jobTemplateId job = as_jobTemplateId sh
     \<and> as_version sh = shareVersion jt versionMask
     \<and> buildHeaderBuffer sha job jt versionMask (parseInt 16 (as_nonce sh)) (as_sessionId sh)
         (as_extraNonce2 sh) (parseInt 16 (as_ntime sh)) = Inr header
     \<and> difficultyToTarget (as_creditedDifficulty sh) = Inr target
     \<and> meetsTarget (hash256 sha header) target
     \<and> (\<forall>a. payoutAddress job = Some a \<longrightarrow> as_address sh = a)
     \<and> as_isBlockCandidate sh = meetsNetwork jt (hash256 sha header))"

definition solved :: "(bytes \<Rightarrow> bytes) \<Rightarrow> bitcoin_lib \<Rightarrow> Block \<Rightarrow> bool" where
  "solved sha lib b \<longleftrightarrow> (\<exists>job jt versionMask nonce extraNonce extraNonce2 timestamp header.
     buildHeaderBuffer sha job jt versionMask nonce extraNonce extraNonce2 timestamp = Inr header
     \<and> copyAndUpdateBlock lib sha job jt versionMask nonce extraNonce extraNonce2 timestamp = Inr b
     \<and> meetsNetwork jt (hash256 sha header))"

definition deserved :: "(bytes \<Rightarrow> bytes) \<Rightarrow> bitcoin_lib \<Rightarrow> v1_effect \<Rightarrow> bool" where
  "deserved sha lib e = (case e of RecordShare sh \<Rightarrow> earned sha sh | SubmitBlock b \<Rightarrow> solved sha lib b | _ \<Rightarrow> True)"

lemma harmless_deserved: "harmless e \<Longrightarrow> deserved sha lib e"
  by (cases e) (simp_all add: deserved_def)

lemma judged_deserved:
  assumes j: "judgedBy env c m job jt header" and h: "honest env c job jt m (calculateDifficulty (env_sha256 env) header) e"
    and t: "difficultyToTarget (sessionDifficulty c) = Inr (sessionDifficultyTarget c)"
    and env: "env_sha256 env = sha" "env_lib env = lib"
  shows "deserved sha lib e"
proof (cases e)
  case (RecordShare sh)
  have hdr: "buildHeaderBuffer sha job jt (parseInt 16 (ms_versionMask m)) (parseInt 16 (ms_nonce m))
      (extraNonceAndSessionId c) (ms_extraNonce2 m) (parseInt 16 (ms_ntime m)) = Inr header"
    and met: "meetsTarget (hash256 sha header) (sessionDifficultyTarget c)"
    using j env by (simp_all add: judgedBy_def submissionHeader_def)
  have "earned sha sh"
    unfolding earned_def
    using h hdr met t env
    by (intro exI [of _ job] exI [of _ jt] exI [of _ "parseInt 16 (ms_versionMask m)"] exI [of _ header]
        exI [of _ "sessionDifficultyTarget c"]) (auto simp: RecordShare honest_RecordShare minerAddressOf_def)
  then show ?thesis by (simp add: RecordShare deserved_def)
next
  case (SubmitBlock b)
  then have "solved sha lib b"
    using j h env unfolding solved_def judgedBy_def submissionHeader_def honest_def blockOf_def
    by simp blast
  then show ?thesis by (simp add: SubmitBlock deserved_def)
qed (simp_all add: deserved_def)

definition handed :: "(bytes \<Rightarrow> bytes) \<Rightarrow> bitcoin_lib \<Rightarrow> V1Client \<Rightarrow> V1Client \<Rightarrow> bool" where
  "handed sha lib c c' \<longleftrightarrow> (\<exists>es. outbox c' = outbox c @ es \<and> (\<forall>e \<in> set es. deserved sha lib e))"

interpretation ha: step_relation "handed sha lib" for sha lib
proof
  show "handed sha lib s s" for s by (simp add: handed_def)
  show "handed sha lib s u" if "handed sha lib s t" "handed sha lib t u" for s t u
    using that unfolding handed_def by (metis append_assoc set_append Un_iff)
qed

lemma quiet_handed: "quiet c c' \<Longrightarrow> handed sha lib c c'"
  unfolding quiet_def handed_def using harmless_deserved by blast

lemma ha_quiet: "qu.keeps m \<Longrightarrow> ha.keeps sha lib m"
  by (simp add: qu.keeps_def ha.keeps_def quiet_handed)

lemma handed_submission:
  assumes c: "good cfg c" "\<not> isClosed c" and env: "env_ok cfg sha lib env"
  shows "handed sha lib c (snd (handleMiningSubmission env m c))"
proof -
  obtain r c' where run: "handleMiningSubmission env m c = (r, c')" by (cases "handleMiningSubmission env m c")
  from submission_effects [OF run] obtain es where es: "outbox c' = outbox c @ es"
    "\<And>e. e \<in> set es \<Longrightarrow> \<not> harmless e \<Longrightarrow> \<exists>job jt header. judgedBy env c m job jt header
        \<and> honest env c job jt m (calculateDifficulty (env_sha256 env) header) e"
    by metis
  have t: "difficultyToTarget (sessionDifficulty c) = Inr (sessionDifficultyTarget c)"
    using c by (simp add: good_def tuned_def)
  have "deserved sha lib e" if e: "e \<in> set es" for e
  proof (cases "harmless e")
    case False
    then show ?thesis using es(2) [OF e False] judged_deserved t env by (auto simp: env_ok_def)
  qed (rule harmless_deserved)
  with es(1) run show ?thesis by (auto simp: handed_def)
qed

lemma handed_submit:
  assumes c: "good cfg c" "\<not> isClosed c" and env: "env_ok cfg sha lib env"
  shows "handed sha lib c (snd (handleSubmit env msg c))"
proof (cases "stratumInitialized c")
  case False
  have "qu.keeps (andThen endSocket (\<lambda>_. ret False))" by (intro qu_intros qu_endSocket)
  then have "quiet c (snd (andThen endSocket (\<lambda>_. ret False) c))" by (simp add: qu.keeps_def)
  then show ?thesis using False by (simp add: handleSubmit_def quiet_handed)
next
  case ready: True
  show ?thesis
  proof (cases "parseMiningSubmit msg")
    case (Inl e)
    then show ?thesis using ready by (simp add: handleSubmit_def ha.R_refl)
  next
    case (Inr v)
    show ?thesis
    proof (cases v)
      case (Rejected i fs)
      have "qu.keeps (andThen (writeFailure env i OtherUnknown ''Mining Submit validation error'' fs)
          (\<lambda>success. if \<not> success then ret False else andThen closeSocket (\<lambda>_. ret False)))"
        by (intro qu_intros qu_writeFailure qu_closeSocket)
      then show ?thesis
        using ready Inr Rejected quiet_handed by (simp add: handleSubmit_def qu.keeps_def)
    next
      case (Accepted m)
      have "handed sha lib c (snd (andThen (handleMiningSubmission env m)
          (\<lambda>result. if result then writeReply env (Result (ms_id m)) else ret True) c))"
        using handed_submission [OF assms] by (intro ha.R_andThen ha_quiet qu_intros qu_writeReply)
      then show ?thesis using ready Inr Accepted by (simp add: handleSubmit_def)
    qed
  qed
qed

lemma handed_message:
  assumes c: "good cfg c" "\<not> isClosed c" and env: "env_ok cfg sha lib env"
  shows "handed sha lib c (snd (handleMessage env message c))"
proof (cases "env_jsonParse env message")
  case None
  have "quiet c (snd (endSocket c))" using qu_endSocket by (simp add: qu.keeps_def)
  then show ?thesis using None by (simp add: handleMessage_def quiet_handed)
next
  case (Some msg)
  show ?thesis
  proof (cases "member msg (jstr ''method'')")
    case (Inl e)
    then show ?thesis using Some by (simp add: handleMessage_def ha.R_refl)
  next
    case (Inr verb)
    let ?h = "case methodOf verb of
              None \<Rightarrow> ret True
            | Some SUBSCRIBE \<Rightarrow> handleSubscribe env msg
            | Some CONFIGURE \<Rightarrow> handleConfigure env msg
            | Some AUTHORIZE \<Rightarrow> handleAuthorize env msg
            | Some SUGGEST_DIFFICULTY \<Rightarrow> handleSuggestDifficulty env msg
            | Some SUBMIT \<Rightarrow> handleSubmit env msg
            | Some SET_PAYOUT \<Rightarrow> handleSetPayout env msg"
    have h: "handed sha lib c (snd (?h c))"
    proof (cases "methodOf verb = Some SUBMIT")
      case True
      then show ?thesis using handed_submit [OF assms] by simp
    next
      case False
      then have "qu.keeps ?h"
        by (auto simp del: sm_simps intro!: qu.keeps_prims qu_handleSubscribe qu_handleConfigure qu_handleAuthorize
            qu_handleSuggestDifficulty qu_handleSetPayout split: option.split eRequestMethod.split)
      then show ?thesis using quiet_handed by (simp add: qu.keeps_def)
    qed
    have "handed sha lib c (snd (andThen ?h (\<lambda>broke.
            if \<not> broke then ret ()
            else andThen (readState id) (\<lambda>c.
              if clientSubscription c \<noteq> None \<and> clientAuthorization c \<noteq> None \<and> \<not> stratumInitialized c
              then tryCatch (initStratum env) (\<lambda>_. ret ()) else ret ())) c))"
      by (intro ha.R_andThen h ha_quiet qu_intros qu_initStratum)
    then show ?thesis using Some Inr by (simp add: handleMessage_def)
  qed
qed

lemma handed_lines:
  assumes env: "env_ok cfg sha lib env" "cfg_ok cfg"
  shows "good cfg c \<Longrightarrow> handed sha lib c (snd (handleLines env ls c))"
proof (induction ls arbitrary: c)
  case (Cons m ms)
  show ?case
  proof (cases "isClosed c")
    case False
    let ?m = "tryCatch (handleMessage env m) (\<lambda>_. endSocket)"
    have one: "handed sha lib c (snd (?m c))"
    proof (cases "handleMessage env m c")
      case (Pair r t)
      have t: "handed sha lib c t" using handed_message [OF Cons.prems False env(1), of m] Pair by simp
      moreover have "handed sha lib t (snd (endSocket t))"
        using qu_endSocket quiet_handed by (simp add: qu.keeps_def)
      ultimately show ?thesis using Pair by (cases r) (auto intro: ha.R_trans)
    qed
    have "gd.after cfg (?m c)"
      using gd.safe_tryCatch [OF gd_handleMessage [OF env] endSocket_closes] Cons.prems
      by (simp add: gd.safe_def)
    moreover obtain t where t: "?m c = (Inr (), t)"
      by (cases "handleMessage env m c"; cases "fst (handleMessage env m c)")
        (simp_all add: endSocket_def emit_def)
    ultimately have "good cfg t" by simp
    then have "handed sha lib t (snd (handleLines env ms t))" by (rule Cons.IH)
    moreover have "handed sha lib c t" using one t by simp
    ultimately show ?thesis using False t by (auto intro: ha.R_trans)
  qed (simp add: ha.R_refl)
qed (simp add: ha.R_refl)

lemma handed_event:
  assumes c: "good cfg c" and env: "env_ok cfg sha lib env" "cfg_ok cfg"
  shows "handed sha lib c (handleEvent env ev c)"
proof (cases ev)
  case (SocketData data)
  show ?thesis
  proof (cases "isClosed c")
    case True
    then show ?thesis using SocketData by (simp add: handleEvent_def handleSocketData_def ha.R_refl)
  next
    case False
    have "good cfg (c\<lparr>buffer := b\<rparr>)" for b
      using c by (simp add: good_def base_def isClosed_def tuned_def aboveFloors_def)
    then have "handed sha lib (c\<lparr>buffer := b\<rparr>) (snd (handleLines env ls (c\<lparr>buffer := b\<rparr>)))" for b ls
      by (rule handed_lines [OF env])
    then have "handed sha lib c (snd (handleLines env ls (c\<lparr>buffer := b\<rparr>)))" for b ls
      by (simp add: handed_def)
    then show ?thesis using SocketData False by (simp add: handleEvent_def handleSocketData_def)
  qed
next
  case (NewTemplate t)
  then show ?thesis
    using qu_onNewMiningJob quiet_handed by (simp add: handleEvent_def qu.keeps_def ha.R_refl)
next
  case Interval
  then show ?thesis
    using qu_checkDifficulty quiet_handed by (simp add: handleEvent_def qu.keeps_def ha.R_refl)
next
  case Closed
  have "quiet (c\<lparr>socketDestroyed := True\<rparr>) (snd (destroyClient (c\<lparr>socketDestroyed := True\<rparr>)))"
    using qu_destroyClient by (simp add: qu.keeps_def)
  then have "quiet c (snd (destroyClient (c\<lparr>socketDestroyed := True\<rparr>)))" by (simp add: quiet_def)
  then show ?thesis using Closed by (simp add: handleEvent_def quiet_handed)
next
  case (Services svc)
  then show ?thesis by (simp add: handleEvent_def handed_def)
qed

lemma v1_reach_deserved:
  "v1_reach mode protocol cfg sha lib c \<Longrightarrow> cfg_ok cfg \<Longrightarrow> e \<in> set (outbox c) \<Longrightarrow> deserved sha lib e"
proof (induction rule: v1_reach.induct)
  case (step c env ev)
  have "handed sha lib c (handleEvent env ev c)"
    using step by (intro handed_event v1_reach_good)
  then show ?case using step by (auto simp: handed_def)
qed (simp add: newV1Client_def)

section \<open>A submission counts once\<close>

text \<open>The keys of a connection are only forgotten by a template that drops old work.\<close>

definition grows :: "V1Client \<Rightarrow> V1Client \<Rightarrow> bool" where
  "grows c c' \<longleftrightarrow> (isClosed c \<longrightarrow> isClosed c')
     \<and> (stratumInitialized c \<longrightarrow> stratumInitialized c'
          \<and> (isClosed c' \<or> miningSubmissionHashes c \<subseteq> miningSubmissionHashes c'))"

interpretation gr: step_relation grows
  by unfold_locales (auto simp: grows_def)

lemma growsI:
  "\<lbrakk>isClosed c \<Longrightarrow> isClosed c'; stratumInitialized c \<Longrightarrow> stratumInitialized c';
    isClosed c' \<or> miningSubmissionHashes c \<subseteq> miningSubmissionHashes c'\<rbrakk> \<Longrightarrow> grows c c'"
  by (simp add: grows_def)

lemma gr_modify: "(\<And>c. grows c (f c)) \<Longrightarrow> gr.keeps (modify f)"
  by (rule gr.keeps_modify)

lemma gr_emit: "gr.keeps (emit e)"
  unfolding emit_def by (intro gr_modify growsI) (simp_all add: isClosed_def)

lemma gr_need: "gr.keeps (need x)"
  by (cases x) (simp_all add: need_def gr.keeps_prims)

lemmas gr_intros = gr.keeps_intros gr_need gr_emit gr_modify

lemma gr_perform: "gr.keeps (perform env e)"
  unfolding perform_def by (intro gr_intros)

lemma gr_endSocket: "gr.keeps endSocket"
  unfolding endSocket_def by (intro gr_intros growsI) (simp_all add: isClosed_def)

lemma gr_destroySocket: "gr.keeps destroySocket"
  unfolding destroySocket_def by (intro gr_intros growsI) (simp_all add: isClosed_def)

lemma gr_destroyClient: "gr.keeps destroyClient"
  unfolding destroyClient_def destroyInternal_def by (intro gr_intros growsI) (simp_all add: isClosed_def)

lemma gr_closeSocket: "gr.keeps closeSocket"
  unfolding closeSocket_def by (intro gr_intros growsI gr_destroySocket) (simp_all add: isClosed_def)

lemma gr_writeReply: "gr.keeps (writeReply env r)"
  unfolding writeReply_def by (intro gr_intros gr_perform gr_destroyClient gr_endSocket gr_destroySocket)

lemma gr_writeFailure: "gr.keeps (writeFailure env i code why fs)"
  unfolding writeFailure_def by (rule gr_writeReply)

lemma gr_insertClient: "gr.keeps (insertClient env row)"
  unfolding insertClient_def by (intro gr_intros)

lemma gr_ensureClientEntity: "gr.keeps (ensureClientEntity env)"
  unfolding ensureClientEntity_def by (intro gr_intros gr_insertClient growsI) (simp_all add: isClosed_def)

lemma gr_ensurePayoutPresence: "gr.keeps (ensurePayoutPresence env)"
  unfolding ensurePayoutPresence_def
  by (intro gr_intros gr_insertClient gr_perform growsI) (simp_all add: isClosed_def)

lemma gr_sendNewMiningJob: "gr.keeps (sendNewMiningJob env t)"
  unfolding sendNewMiningJob_def
  by (intro gr_intros gr_ensureClientEntity gr_writeReply growsI) (simp_all add: isClosed_def)

lemma gr_sendRefreshedJob: "gr.keeps (sendRefreshedJob env)"
  unfolding sendRefreshedJob_def by (intro gr_intros gr_sendNewMiningJob)

lemma gr_onNewMiningJob: "\<not> jt_clearJobs t \<Longrightarrow> gr.keeps (onNewMiningJob env t)"
  unfolding onNewMiningJob_def by (simp, intro gr_intros gr_sendNewMiningJob gr_endSocket)

lemma gr_setSessionDifficulty: "gr.keeps (setSessionDifficulty d)"
  unfolding setSessionDifficulty_def by (intro gr_intros growsI) (simp_all add: isClosed_def)

lemma gr_checkDifficulty: "gr.keeps (checkDifficulty env)"
  unfolding checkDifficulty_def by (intro gr_intros gr_setSessionDifficulty gr_sendRefreshedJob)

lemma gr_validated:
  "(\<And>m. gr.keeps (f m)) \<Longrightarrow> (\<And>i fs. gr.keeps (g i fs)) \<Longrightarrow> gr.keeps (case_validated g f v)"
  by (cases v) simp_all

lemma gr_handleSubscribe: "gr.keeps (handleSubscribe env msg)"
  unfolding handleSubscribe_def
  by (intro gr_intros gr_validated gr_closeSocket gr_writeReply gr_writeFailure growsI) (simp_all add: isClosed_def)

lemma gr_handleConfigure: "gr.keeps (handleConfigure env msg)"
  unfolding handleConfigure_def
  by (intro gr_intros gr_validated gr_writeReply gr_writeFailure growsI) (simp_all add: isClosed_def)

lemma gr_handleAuthorize: "gr.keeps (handleAuthorize env msg)"
  unfolding handleAuthorize_def
  by (intro gr_intros gr_validated gr_setSessionDifficulty gr_writeReply gr_writeFailure growsI)
    (simp_all add: isClosed_def)

lemma gr_handleSuggestDifficulty: "gr.keeps (handleSuggestDifficulty env msg)"
  unfolding handleSuggestDifficulty_def
  by (intro gr_intros gr_validated gr_setSessionDifficulty gr_writeReply gr_writeFailure growsI)
    (simp_all add: isClosed_def)

lemma gr_handleSetPayout: "gr.keeps (handleSetPayout env msg)"
  unfolding handleSetPayout_def
  by (intro gr_intros gr_validated gr_writeReply gr_writeFailure gr_ensurePayoutPresence gr_sendRefreshedJob growsI)
    (simp_all add: isClosed_def)

lemma gr_persistClientHashRate: "gr.keeps (persistClientHashRate env)"
  unfolding persistClientHashRate_def by (intro gr_intros gr_perform growsI) (simp_all add: isClosed_def)

lemma gr_submitCandidate: "gr.keeps (submitCandidate env job jt m a w)"
  unfolding submitCandidate_def by (intro gr_intros gr_perform)

lemma gr_ratchetBest: "gr.keeps (ratchetBest env a w v d)"
  unfolding ratchetBest_def by (intro gr_intros gr_perform growsI) (simp_all add: isClosed_def)

lemma gr_recordShare: "gr.keeps (recordShare env sh)"
  unfolding recordShare_def
  by (intro gr_intros gr_perform gr_persistClientHashRate growsI) (simp_all add: isClosed_def)

lemma gr_acceptShare: "gr.keeps (acceptShare env job jt m judged)"
  unfolding acceptShare_def
  by (intro gr_intros gr_submitCandidate gr_ensureClientEntity gr_recordShare gr_ratchetBest)

lemma gr_handleMiningSubmission: "gr.keeps (handleMiningSubmission env m)"
  unfolding handleMiningSubmission_def
  by (intro gr_intros gr_writeFailure gr_writeReply gr_acceptShare growsI) (auto simp: isClosed_def)

lemma gr_handleSubmit: "gr.keeps (handleSubmit env msg)"
  unfolding handleSubmit_def
  by (intro gr_intros gr_validated gr_handleMiningSubmission gr_writeReply gr_writeFailure gr_endSocket gr_closeSocket)

text \<open>Starting the stratum may forget keys, but it happens before the first submission is handled.\<close>

lemma closed_initStratum: "isClosed c \<Longrightarrow> isClosed (snd (initStratum env c))"
proof -
  assume "isClosed c"
  then have "isClosed (c\<lparr>stratumInitialized := True\<rparr>)" by (simp add: isClosed_def)
  moreover have "frame (c\<lparr>stratumInitialized := True\<rparr>) (snd (afterInit env (c\<lparr>stratumInitialized := True\<rparr>)))"
    using fr_afterInit by (simp add: fr.keeps_def)
  ultimately show ?thesis by (simp add: initStratum_afterInit frame_def)
qed

lemma gr_dispatch:
  "gr.keeps (case x of
      None \<Rightarrow> ret True
    | Some SUBSCRIBE \<Rightarrow> handleSubscribe env msg
    | Some CONFIGURE \<Rightarrow> handleConfigure env msg
    | Some AUTHORIZE \<Rightarrow> handleAuthorize env msg
    | Some SUGGEST_DIFFICULTY \<Rightarrow> handleSuggestDifficulty env msg
    | Some SUBMIT \<Rightarrow> handleSubmit env msg
    | Some SET_PAYOUT \<Rightarrow> handleSetPayout env msg)"
proof (cases x)
  case (Some verb)
  then show ?thesis
    by (cases verb) (simp_all add: gr_handleSubscribe gr_handleConfigure gr_handleAuthorize
        gr_handleSuggestDifficulty gr_handleSubmit gr_handleSetPayout)
qed (simp del: sm_simps add: gr.keeps_prims)

lemma gr_handleMessage: "gr.keeps (handleMessage env message)"
proof -
  have start: "gr.keeps (andThen (readState id) (\<lambda>c.
      if clientSubscription c \<noteq> None \<and> clientAuthorization c \<noteq> None \<and> \<not> stratumInitialized c
      then tryCatch (initStratum env) (\<lambda>_. ret ()) else ret ()))" (is "gr.keeps ?m")
  proof -
    have "grows c (snd (?m c))" for c
    proof (cases "clientSubscription c \<noteq> None \<and> clientAuthorization c \<noteq> None \<and> \<not> stratumInitialized c")
      case True
      have "snd (tryCatch (initStratum env) (\<lambda>_. ret ()) c) = snd (initStratum env c)"
        by (cases "initStratum env c"; cases "fst (initStratum env c)") simp_all
      then show ?thesis using True closed_initStratum by (simp add: grows_def)
    qed (auto simp: gr.R_refl)
    then show ?thesis by (simp add: gr.keeps_def)
  qed
  show ?thesis
    unfolding handleMessage_def
    by (rule gr.keeps_option, rule gr_endSocket, rule gr.keeps_andThen, rule gr.keeps_prims, rule gr.keeps_andThen,
        rule gr_dispatch, rule gr.keeps_if, rule gr.keeps_prims, rule start)
qed

lemma gr_handleLines: "gr.keeps (handleLines env ls)"
proof (induction ls)
  case Nil
  show ?case unfolding handleLines.simps by (rule gr.keeps_prims)
next
  case (Cons m ms)
  then show ?case unfolding handleLines.simps
    by (intro gr_intros gr_handleMessage gr_endSocket)
qed

lemma gr_handleSocketData: "gr.keeps (handleSocketData env data)"
  unfolding handleSocketData_def by (intro gr_intros gr_handleLines growsI) (simp_all add: isClosed_def)

definition dropsWork :: "v1_event \<Rightarrow> bool" where
  "dropsWork ev \<longleftrightarrow> (case ev of NewTemplate t \<Rightarrow> jt_clearJobs t | _ \<Rightarrow> False)"

lemma grows_event: "\<not> dropsWork ev \<Longrightarrow> grows c (handleEvent env ev c)"
proof (cases ev)
  case Closed
  have "grows (c\<lparr>socketDestroyed := True\<rparr>) (snd (destroyClient (c\<lparr>socketDestroyed := True\<rparr>)))"
    using gr_destroyClient by (simp add: gr.keeps_def)
  moreover have "grows c (c\<lparr>socketDestroyed := True\<rparr>)" by (intro growsI) (simp_all add: isClosed_def)
  ultimately show ?thesis using Closed gr.R_trans by (simp add: handleEvent_def)
qed (use gr_handleSocketData gr_onNewMiningJob gr_checkDifficulty in
    \<open>auto simp: handleEvent_def dropsWork_def gr.keeps_def gr.R_refl isClosed_def intro: growsI\<close>)

text \<open>A run of events, each with its own environment.\<close>

fun handleEvents :: "(v1_env \<times> v1_event) list \<Rightarrow> V1Client \<Rightarrow> V1Client" where
  "handleEvents [] c = c"
| "handleEvents ((env, ev) # evs) c = handleEvents evs (handleEvent env ev c)"

lemma grows_events: "\<forall>(env, ev) \<in> set evs. \<not> dropsWork ev \<Longrightarrow> grows c (handleEvents evs c)"
proof (induction evs arbitrary: c)
  case (Cons e evs)
  obtain env ev where e: "e = (env, ev)" by (cases e)
  have "grows c (handleEvent env ev c)" using Cons.prems e by (intro grows_event) auto
  moreover have "grows (handleEvent env ev c) (handleEvents evs (handleEvent env ev c))"
    using Cons by (intro Cons.IH) auto
  ultimately show ?case unfolding e handleEvents.simps by (rule gr.R_trans)
qed (simp add: gr.R_refl)

text \<open>After a submission was looked at, its key is known or the connection is closed.\<close>

lemma key_remembered:
  assumes "getJobById (jobsService c) (ms_jobId m) = Some job"
    and "getJobTemplateById (jobsService c) (job_jobTemplateId job) = Some jt"
    and "stratumInitialized c"
  shows "isClosed (snd (handleMiningSubmission env m c))
    \<or> submissionKey m \<in> miningSubmissionHashes (snd (handleMiningSubmission env m c))"
proof (cases "submissionKey m \<in> miningSubmissionHashes c")
  case True
  have "grows c (snd (handleMiningSubmission env m c))"
    using gr_handleMiningSubmission by (simp add: gr.keeps_def)
  then show ?thesis using True assms(3) by (auto simp: grows_def)
next
  case False
  let ?c = "c\<lparr>miningSubmissionHashes := insert (submissionKey m) (miningSubmissionHashes c)\<rparr>"
  let ?k = "andThen (lift (submissionHeader env c job jt m)) (\<lambda>header.
               (let judged = calculateDifficulty (env_sha256 env) header
                in if meetsTarget (hashBuffer judged) (sessionDifficultyTarget c)
                   then
                     andThen (writeReply env (Result (ms_id m))) (\<lambda>success.
                       if \<not> success then ret False
                       else andThen (acceptShare env job jt m judged) (\<lambda>_. ret False))
                   else
                     andThen (writeFailure env (ms_id m) LowDifficultyShare ''Difficulty too low'' []) (\<lambda>_. ret False)))"
  have "gr.keeps ?k" by (intro gr_intros gr_writeReply gr_acceptShare gr_writeFailure)
  then have g: "grows ?c (snd (?k ?c))" by (simp only: gr.keeps_def)
  have known: "isClosed c' \<or> submissionKey m \<in> miningSubmissionHashes c'" if "grows ?c c'" for c'
    using that assms(3) by (auto simp: grows_def)
  from g have "isClosed (snd (?k ?c)) \<or> submissionKey m \<in> miningSubmissionHashes (snd (?k ?c))"
    by (rule known)
  moreover have "handleMiningSubmission env m c = ?k ?c"
    unfolding handleMiningSubmission_def
    by (simp only: andThen_prims id_apply assms(1,2) option.case False if_False)
  ultimately show ?thesis by (simp only:)
qed

end
