(* ===== verification/StratumV1Credit.thy ===== *)
theory StratumV1Credit
  imports StratumV1Shares
begin

text \<open>
  The properties of a Stratum V1 connection, with a concrete run of one: a miner subscribes, authorizes
  and submits a share that is recorded.
\<close>

section \<open>A valid share is recorded\<close>

text \<open>When the outside calls succeed, the statements on the way to the record return.\<close>

definition extends :: "V1Client \<Rightarrow> V1Client \<Rightarrow> bool" where
  "extends c c' \<longleftrightarrow> (\<exists>es. c' = c\<lparr>outbox := outbox c @ es\<rparr>)"

lemma extendsI: "extends c (c\<lparr>outbox := outbox c @ es\<rparr>)"
  by (auto simp: extends_def)

definition works :: "v1_env \<Rightarrow> bool" where
  "works env \<longleftrightarrow> (\<forall>e. \<not> env_fails env e) \<and> (\<forall>n. env_insertId env n \<noteq> None)"

lemma perform_works: "works env \<Longrightarrow> perform env e c = (Inr (), c\<lparr>outbox := outbox c @ [e]\<rparr>)"
  by (simp add: works_def perform_def emit_def)

lemma writeReply_works:
  "works env \<Longrightarrow> \<not> socketDestroyed c \<Longrightarrow> \<not> socketEnded c \<Longrightarrow>
     writeReply env r c = (Inr True, c\<lparr>outbox := outbox c @ [Write r]\<rparr>)"
  by (simp add: writeReply_def perform_works)

lemma submitCandidate_works:
  assumes "works env" "blockOf env c job jt m = Inr b"
  shows "\<exists>c'. submitCandidate env job jt m a w c = (Inr (env_submitResult env b), c') \<and> extends c c'"
  using assms by (simp add: submitCandidate_def blockOf_def perform_works Let_def extendsI)

lemma ensureClientEntity_works:
  assumes "works env" "clientAuthorization c = Some auth" "clientSubscription c = Some sub" "\<not> creatingFailed c"
  obtains c' row where "ensureClientEntity env c = (Inr (), c')" "clientEntity c' = Some row"
proof (cases "clientEntity c")
  case None
  let ?e = "newEntity env (extraNonceAndSessionId c) (auth_address auth) (auth_worker auth) (sub_userAgent sub) (payoutMode c)"
  obtain i where "env_insertId env (insertCount (outbox c)) = Some i"
    using assms(1) by (auto simp: works_def)
  then have "ensureClientEntity env c = (Inr (), c\<lparr>outbox := outbox c @ [InsertClient ?e], clientEntity := Some (?e\<lparr>ce_id := i\<rparr>)\<rparr>)"
    using None assms by (simp add: ensureClientEntity_def need_def insertClient_def emit_def)
  then show ?thesis by (rule that) simp
next
  case (Some row)
  then have "ensureClientEntity env c = (Inr (), c)" by (simp add: ensureClientEntity_def)
  then show ?thesis using Some by (rule that)
qed

lemma outbox_extended:
  assumes "acc.keeps (core c) (\<lambda>_. True) m"
  obtains es where "outbox (snd (m c)) = outbox c @ es"
  using assms by (auto simp: acc.keeps_def confines_def)

text \<open>What \<open>acceptShare\<close> does after it has recorded the share leaves the record where it is.\<close>

lemma acc_any: "acc.keeps k (\<lambda>_. True) (ratchetBest env a w v d)"
  by (rule acc_ratchetBest) simp

lemma recordShare_records:
  assumes "works env"
  shows "\<exists>es. outbox (snd (recordShare env sh c)) = outbox c @ RecordShare sh # es"
proof -
  let ?rest = "andThen (readState id) (\<lambda>c.
        andThen (need (clientStatistics c)) (\<lambda>st.
        (let st = addShares (env_now env) (env_now env) (sessionDifficulty c) st
         in andThen (modify (\<lambda>c. c\<lparr>clientStatistics := Some st,
                clientEntity := map_option (\<lambda>e. e\<lparr>ce_updatedAt := env_now env, ce_hashRate := st_hashRate st\<rparr>)
                  (clientEntity c)\<rparr>)) (\<lambda>_.
              persistClientHashRate env))))"
  let ?c = "c\<lparr>outbox := outbox c @ [RecordShare sh]\<rparr>"
  have "acc.keeps (core ?c) (\<lambda>_. True) ?rest"
    by (intro acc.keeps_intros acc_modify acc_need acc_persistClientHashRate) (simp_all add: core_def)
  then obtain es where "outbox (snd (?rest ?c)) = outbox ?c @ es" by (rule outbox_extended)
  moreover have "recordShare env sh c = tryCatch ?rest (\<lambda>_. ret ()) ?c"
    using perform_works [OF assms, of "RecordShare sh" c] by (simp add: recordShare_def tryCatch_def)
  ultimately show ?thesis
    by (cases "?rest ?c"; cases "fst (?rest ?c)") simp_all
qed

lemma acceptShare_records:
  assumes env: "works env" and auth: "clientAuthorization c = Some auth" "clientSubscription c = Some sub"
    and "\<not> creatingFailed c" and net: "difficultyToTarget (jt_networkDifficulty jt) = Inr nt"
    and block: "meetsTarget (hashBuffer judged) nt \<Longrightarrow> \<exists>b. blockOf env c job jt m = Inr b"
  shows "\<exists>sh es. outbox (snd (acceptShare env job jt m judged c)) = outbox c @ es \<and> RecordShare sh \<in> set es"
proof -
  let ?a = "case payoutAddress job of None \<Rightarrow> auth_address auth | Some a \<Rightarrow> a"
  let ?w = "case payoutWorker job of None \<Rightarrow> auth_worker auth | Some w \<Rightarrow> w"
  let ?cand = "if meetsTarget (hashBuffer judged) nt then submitCandidate env job jt m ?a ?w else ret None"
  have "\<exists>res c1. ?cand c
      = (Inr res, c1) \<and> extends c c1"
  proof (cases "meetsTarget (hashBuffer judged) nt")
    case True
    then obtain b where "blockOf env c job jt m = Inr b" using block by blast
    then show ?thesis using submitCandidate_works [OF env, of c job jt m b ?a ?w] True by simp blast
  next
    case False
    then show ?thesis using extendsI [of c "[]"] by simp
  qed
  then obtain res c1 where c1: "?cand c = (Inr res, c1)" and "extends c c1" by blast
  then have f: "clientAuthorization c1 = Some auth" "clientSubscription c1 = Some sub" "\<not> creatingFailed c1"
    using assms by (auto simp: extends_def)
  obtain c2 row where c2: "ensureClientEntity env c1 = (Inr (), c2)" "clientEntity c2 = Some row"
    by (rule ensureClientEntity_works [OF env f])
  let ?v = "virtualWorkerEntity c2 auth ?a ?w"
  let ?sh = "\<lparr>as_protocol = accountingProtocol c2, as_payoutMode = payoutMode c2, as_address = ?a,
               as_clientName = ?w, as_sessionId = extraNonceAndSessionId c2,
               as_clientId = ce_id (case ?v of None \<Rightarrow> row | Some v \<Rightarrow> v),
               as_jobId = job_jobId job, as_jobTemplateId = job_jobTemplateId job,
               as_blockHeight = jt_height jt, as_creditedDifficulty = sessionDifficulty c2,
               as_submissionDifficulty = submissionDifficulty judged,
               as_networkDifficulty = jt_networkDifficulty jt, as_nonce = ms_nonce m,
               as_ntime = ms_ntime m, as_version = shareVersion jt (parseInt 16 (ms_versionMask m)),
               as_extraNonce2 = ms_extraNonce2 m, as_isBlockCandidate = meetsTarget (hashBuffer judged) nt,
               as_blockSubmissionResult = res\<rparr>"
  let ?fin = "ratchetBest env ?a ?w (?v \<noteq> None) (submissionDifficulty judged)"
  have "acceptShare env job jt m judged c = andThen (recordShare env ?sh) (\<lambda>_. ?fin) c2"
    unfolding acceptShare_def
    by (simp only: andThen_prims id_apply auth need_def option.case andThen_simps(1) Let_def net
        andThen_simps(3) [where m = ?cand and s = c and a = res and s' = c1, OF c1]
        andThen_simps(3) [where m = "ensureClientEntity env" and s = c1 and a = "()" and s' = c2, OF c2(1)] c2(2))
  moreover have "\<exists>es. outbox (snd (andThen (recordShare env ?sh) (\<lambda>_. ?fin) c2)) = outbox c2 @ RecordShare ?sh # es"
  proof (cases "recordShare env ?sh c2")
    case (Pair r c3)
    then obtain es where es: "outbox c3 = outbox c2 @ RecordShare ?sh # es"
      using recordShare_records [OF env, of ?sh c2] by auto
    obtain es' where "outbox (snd (?fin c3)) = outbox c3 @ es'" by (rule outbox_extended [OF acc_any])
    then show ?thesis using Pair es by (cases r) simp_all
  qed
  moreover obtain es1 where "outbox c1 = outbox c @ es1" using \<open>extends c c1\<close> by (auto simp: extends_def)
  moreover obtain es2 where "outbox c2 = outbox c1 @ es2"
    using outbox_extended [where m = "ensureClientEntity env" and c = c1, OF acc_ensureClientEntity] c2(1) by auto
  ultimately show ?thesis by (auto intro!: exI [of _ ?sh])
qed

section \<open>The extranonce\<close>

definition same :: "V1Client \<Rightarrow> V1Client \<Rightarrow> bool" where
  "same c c' \<longleftrightarrow> (sessionStart c \<noteq> None \<longrightarrow>
     sessionStart c' = sessionStart c \<and> extraNonceAndSessionId c' = extraNonceAndSessionId c)"

interpretation sa: step_relation same
  by unfold_locales (auto simp: same_def)

lemma sa_frame: "fr.keeps m \<Longrightarrow> sa.keeps m"
  by (simp add: fr.keeps_def sa.keeps_def frame_def same_def)

lemma sa_modify: "(\<And>c. same c (f c)) \<Longrightarrow> sa.keeps (modify f)"
  by (rule sa.keeps_modify)

lemmas sa_statements = sa_frame [OF fr_writeReply] sa_frame [OF fr_writeFailure] sa_frame [OF fr_closeSocket]
  sa_frame [OF fr_endSocket] sa_frame [OF fr_emit] sa_frame [OF fr_need] sa_frame [OF fr_sendRefreshedJob]
  sa_frame [OF fr_ensurePayoutPresence] sa_frame [OF fr_handleMiningSubmission]

lemma sa_setSessionDifficulty: "sa.keeps (setSessionDifficulty d)"
  unfolding setSessionDifficulty_def by (intro sa.keeps_intros sa_modify) (simp_all add: same_def)

lemma sa_validated:
  "(\<And>m. sa.keeps (f m)) \<Longrightarrow> (\<And>i fs. sa.keeps (g i fs)) \<Longrightarrow> sa.keeps (case_validated g f v)"
  by (cases v) simp_all

lemma sa_initStratum: "sa.keeps (initStratum env)"
proof -
  have "sa.keeps (andThen (modify (\<lambda>c. c\<lparr>stratumInitialized := True\<rparr>)) (\<lambda>_. afterInit env))"
    by (intro sa.keeps_intros sa_modify sa_frame [OF fr_afterInit]) (simp add: same_def)
  then show ?thesis by (simp add: sa.keeps_def initStratum_afterInit)
qed

lemma sa_handlers:
  "sa.keeps (handleSubscribe env msg)" "sa.keeps (handleConfigure env msg)" "sa.keeps (handleAuthorize env msg)"
  "sa.keeps (handleSuggestDifficulty env msg)" "sa.keeps (handleSubmit env msg)" "sa.keeps (handleSetPayout env msg)"
  unfolding handleSubscribe_def handleConfigure_def handleAuthorize_def handleSuggestDifficulty_def
    handleSubmit_def handleSetPayout_def
  by (intro sa.keeps_intros sa_validated sa_statements sa_setSessionDifficulty sa_modify; simp add: same_def)+

lemma sa_checkDifficulty: "sa.keeps (checkDifficulty env)"
  unfolding checkDifficulty_def by (intro sa.keeps_intros sa_statements sa_setSessionDifficulty)

lemma sa_dispatch:
  "sa.keeps (case x of
      None \<Rightarrow> ret True
    | Some SUBSCRIBE \<Rightarrow> handleSubscribe env msg
    | Some CONFIGURE \<Rightarrow> handleConfigure env msg
    | Some AUTHORIZE \<Rightarrow> handleAuthorize env msg
    | Some SUGGEST_DIFFICULTY \<Rightarrow> handleSuggestDifficulty env msg
    | Some SUBMIT \<Rightarrow> handleSubmit env msg
    | Some SET_PAYOUT \<Rightarrow> handleSetPayout env msg)"
proof (cases x)
  case (Some verb)
  then show ?thesis by (cases verb) (simp_all add: sa_handlers)
qed (simp del: sm_simps add: sa.keeps_prims)

lemma sa_handleMessage: "sa.keeps (handleMessage env message)"
  unfolding handleMessage_def
  by (intro sa.keeps_option sa_statements sa.keeps_andThen sa.keeps_prims sa_dispatch sa.keeps_if
      sa.keeps_tryCatch sa_initStratum)

lemma sa_handleSocketData: "sa.keeps (handleSocketData env data)"
proof -
  have "sa.keeps (handleLines env ls)" for ls
  proof (induction ls)
    case Nil
    show ?case unfolding handleLines.simps by (rule sa.keeps_prims)
  next
    case (Cons m ms)
    then show ?case unfolding handleLines.simps
      by (intro sa.keeps_intros sa_handleMessage sa_statements)
  qed
  then show ?thesis unfolding handleSocketData_def
    by (intro sa.keeps_intros sa_modify) (simp_all add: same_def)
qed

lemma same_event: "same c (handleEvent env ev c)"
proof (cases ev)
  case Closed
  have "same (c\<lparr>socketDestroyed := True\<rparr>) (snd (destroyClient (c\<lparr>socketDestroyed := True\<rparr>)))"
    using sa_frame [OF fr_destroyClient] by (simp add: sa.keeps_def)
  then show ?thesis using Closed by (simp add: handleEvent_def same_def)
qed (use sa_handleSocketData sa_frame [OF fr_onNewMiningJob] sa_checkDifficulty in
    \<open>auto simp: handleEvent_def sa.keeps_def sa.R_refl\<close>, simp add: same_def)

lemma same_events: "same c (handleEvents evs c)"
proof (induction evs arbitrary: c)
  case (Cons e evs)
  obtain env ev where e: "e = (env, ev)" by (cases e)
  show ?case unfolding e handleEvents.simps using same_event Cons.IH by (rule sa.R_trans)
qed (simp add: sa.R_refl)

section \<open>A known submission\<close>

lemma duplicate_quiet:
  assumes "submissionKey m \<in> miningSubmissionHashes c"
  shows "quiet c (snd (handleMiningSubmission env m c))"
proof -
  have q: "quiet c (snd (andThen (writeFailure env i code why fs) (\<lambda>_. ret False) c))" for i code why fs
    using qu.keeps_andThen [OF qu_writeFailure qu.keeps_prims(1), of env i code why fs "\<lambda>_. False"]
    by (simp add: qu.keeps_def)
  show ?thesis
    unfolding handleMiningSubmission_def andThen_prims id_apply
    using assms by (auto simp: q split: option.split)
qed

lemma parseInt_zero:
  assumes "s \<noteq> []" "list_all is_hex s"
  shows "parseInt 16 (48 # s) = parseInt 16 s"
proof -
  obtain x r where s: "s = x # r" using assms(1) by (cases s) auto
  have x: "is_hex x" using assms(2) s by simp
  have nx: "\<not> is_hex 120" "\<not> is_hex 88" "\<not> is_hex 43" "\<not> is_hex 45" "\<not> js_ws 48"
    by (simp_all add: is_hex_def hexval_def js_ws_def)
  have ws: "\<not> js_ws c" if "is_hex c" for c
    using that by (auto simp: js_ws_def is_hex_def hexval_def split: if_splits)
  have p: "take 2 s \<noteq> jstr ''0x''" "take 2 s \<noteq> jstr ''0X''" "take 2 (48 # s) \<noteq> jstr ''0x''"
    "take 2 (48 # s) \<noteq> jstr ''0X''"
    using assms(2) nx by (auto simp: s jstr_def; cases r; auto)+
  have d: "digit_in 16 48" by (simp add: digit_in_def hexval_def)
  have h: "digit_in 16 x" using x by (auto simp: is_hex_def digit_in_def hexval_def split: if_splits)
  have z: "hexval 48 = Some 0" by (simp add: hexval_def)
  have nd: "x \<noteq> 43" "x \<noteq> 45" using x nx by auto
  show ?thesis
    using p d h z nd ws [OF x] nx(5) by (simp add: parseInt_def Let_def s)
qed

section \<open>A run\<close>

definition requestJson :: "string \<Rightarrow> json list \<Rightarrow> json" where
  "requestJson method params = JObj [(jstr ''id'', JNum (Num 1)), (jstr ''method'', JStr (jstr method)),
     (jstr ''params'', JArr params)]"

text \<open>The lines \<open>s\<close>, \<open>a\<close> and everything else stand for the three requests of the miner.\<close>

definition runJson :: "jsstr \<Rightarrow> json option" where
  "runJson line = Some (
     if line = [115] then requestJson ''mining.subscribe'' []
     else if line = [97] then requestJson ''mining.authorize'' [JStr (jstr ''addr.rig''), JStr (jstr ''x'')]
     else requestJson ''mining.submit'' [JStr (jstr ''addr''), JStr (jstr ''1''),
       JStr (jstr ''0000000000000001''), JStr (jstr ''65000000''), JStr (jstr ''00000007'')])"

definition runTransaction :: Transaction where
  "runTransaction = emptyCoinbase"

definition runJob :: MiningJob where
  "runJob = \<lparr>coinbaseTransaction = runTransaction, coinbasePart1 = [], coinbasePart2 = [],
     coinbasePart1Buffer = [], coinbasePart2Buffer = [], merkleBranchBuffers = [],
     job_jobTemplateId = jstr ''1'', job_creation = 0, payoutAddress = Some (jstr ''addr''),
     payoutWorker = None, job_jobId = jstr ''1''\<rparr>"

definition runServices :: JobsService where
  "runServices = newJobsService\<lparr>latestJobId := 2, jobs := [(jstr ''1'', runJob)],
     blocks := [(jstr ''1'', sampleTemplate)]\<rparr>"

definition runEnv :: v1_env where
  "runEnv = \<lparr>env_now = 1700000000000, env_random = jstr ''0a0b0c0d'', env_config = (\<lambda>_. None),
     env_processMinDifficulty = None, env_parseFloat = (\<lambda>_. NaN), env_number = (\<lambda>_. NaN),
     env_toNumber = (\<lambda>_. NaN), env_toLowerCase = (\<lambda>s. s), env_jsonParse = runJson,
     env_isAddress = (\<lambda>a. a = jstr ''addr''), env_insertId = (\<lambda>_. Some (jstr ''row'')),
     env_fails = (\<lambda>_. False), env_template = None, env_submitResult = (\<lambda>_. None),
     env_lib = sampleLib runTransaction, env_sha256 = (\<lambda>_. replicate 32 0)\<rparr>"

definition runStart :: V1Client where
  "runStart = newV1Client solo sv1 newJobsService"

definition runReady :: V1Client where
  "runReady = handleEvent runEnv (Services runServices) (handleEvent runEnv (SocketData [115, 10, 97, 10]) runStart)"

definition runEnd :: V1Client where
  "runEnd = handleEvent runEnv (SocketData [109, 10]) runReady"

lemma splits: "splitOn 10 [115, 10, 97, 10] = [[115], [97], []]" "splitOn 10 [109, 10] = [[109], []]"
  by (simp_all add: splitOn_def)

lemma utf8s: "utf8_decode [115, 10, 97, 10] = [115, 10, 97, 10]" "utf8_decode [109, 10] = [109, 10]"
  by (simp_all add: utf8_decode_def)

lemma runEnv_simps [simp]:
  "env_now runEnv = 1700000000000" "env_random runEnv = jstr ''0a0b0c0d''" "env_config runEnv n = None"
  "env_processMinDifficulty runEnv = None" "env_parseFloat runEnv x = NaN" "env_jsonParse runEnv = runJson"
  "env_isAddress runEnv a \<longleftrightarrow> a = jstr ''addr''" "env_template runEnv = None"
  "env_lib runEnv = sampleLib runTransaction" "env_sha256 runEnv bs = replicate 32 0"
  by (simp_all add: runEnv_def)

lemma works_runEnv: "works runEnv"
  by (simp add: works_def runEnv_def)

lemma runEnv_agent: "isBlockedUserAgent runEnv ua = False"
  by (simp add: isBlockedUserAgent_def firstSetting_def trimmed_def)

lemma run_subscribe_parsed:
  "parseSubscription (requestJson ''mining.subscribe'' []) =
     Inr (Accepted \<lparr>sub_id = JNum (Num 1), sub_userAgent = jstr ''unknown''\<rparr>)"
  by (simp add: parseSubscription_def requestJson_def lookup_or_undef_def isNullish_def baseFailures_def
      require_def validated_def jstr_def Let_def)

lemma run_authorize_parsed:
  "parseAuthorization (env_isAddress runEnv) (requestJson ''mining.authorize'' [JStr (jstr ''addr.rig''), JStr (jstr ''x'')]) =
     Inr (Accepted \<lparr>auth_id = JNum (Num 1), auth_address = jstr ''addr'', auth_worker = jstr ''rig'',
       auth_startingDiff = None, auth_password = Some (jstr ''x'')\<rparr>)"
  by (simp add: parseAuthorization_def requestJson_def lookup_or_undef_def isNullish_def baseFailures_def
      require_def validated_def jstr_def Let_def splitOn_def)

definition runSubmit :: MiningSubmitMessage where
  "runSubmit = \<lparr>ms_id = JNum (Num 1), ms_userId = jstr ''addr'', ms_jobId = jstr ''1'',
     ms_extraNonce2 = jstr ''0000000000000001'', ms_ntime = jstr ''65000000'', ms_nonce = jstr ''00000007'',
     ms_versionMask = jstr ''0''\<rparr>"

lemma run_submit_parsed:
  "parseMiningSubmit (requestJson ''mining.submit'' [JStr (jstr ''addr''), JStr (jstr ''1''),
       JStr (jstr ''0000000000000001''), JStr (jstr ''65000000''), JStr (jstr ''00000007'')]) = Inr (Accepted runSubmit)"
  by (simp add: parseMiningSubmit_def requestJson_def lookup_or_undef_def isNullish_def baseFailures_def
      require_def validated_def jstr_def Let_def runSubmit_def EXTRANONCE2_SIZE_BYTES_def)

lemma requestJson_member: "member (requestJson method params) (jstr ''method'') = Inr (JStr (jstr method))"
  by (simp add: requestJson_def lookup_or_undef_def jstr_def)

lemma run_methods:
  "methodOf (JStr (jstr ''mining.subscribe'')) = Some SUBSCRIBE"
  "methodOf (JStr (jstr ''mining.authorize'')) = Some AUTHORIZE"
  "methodOf (JStr (jstr ''mining.submit'')) = Some SUBMIT"
  by (simp_all add: methodOf_def jstr_def)

lemma run_s:
  assumes "\<not> socketDestroyed c" "\<not> socketEnded c" "sessionStart c = None" "clientAuthorization c = None"
  shows "\<exists>es. handleMessage runEnv [115] c = (Inr (), c\<lparr>sessionStart := Some 1700000000000,
     clientStatistics := Some (newStatistics 1700000000000 (Num (fl (1 / 1000)))),
     extraNonceAndSessionId := jstr ''0a0b0c0d'',
     clientSubscription := Some \<lparr>sub_id = JNum (Num 1), sub_userAgent = jstr ''unknown''\<rparr>, outbox := outbox c @ es\<rparr>)"
proof -
  have "runJson [115] = Some (requestJson ''mining.subscribe'' [])" by (simp add: runJson_def)
  then show ?thesis using assms
    by (simp add: handleMessage_def requestJson_member run_methods handleSubscribe_def run_subscribe_parsed runEnv_agent
        getMinimumDifficulty_def getConfiguredMinimumDifficulty_def isFinite_def writeReply_works works_runEnv)
      (rule exI, rule refl)
qed

lemma run_a:
  assumes "\<not> socketDestroyed c" "\<not> socketEnded c" "clientSubscription c = Some sub" "\<not> stratumInitialized c"
    "clientSuggestedDifficulty c = None"
  shows "\<exists>es. handleMessage runEnv [97] c = (Inr (), c\<lparr>
     clientAuthorization := Some \<lparr>auth_id = JNum (Num 1), auth_address = jstr ''addr'', auth_worker = jstr ''rig'',
       auth_startingDiff = None, auth_password = Some (jstr ''x'')\<rparr>,
     currentPayoutAddress := Some (jstr ''addr''), currentPayoutWorker := Some (jstr ''rig''),
     stratumInitialized := True, stratumSubscription := True, backgroundWork := backgroundWork c + 1,
     outbox := outbox c @ es\<rparr>)"
proof -
  have "runJson [97] = Some (requestJson ''mining.authorize'' [JStr (jstr ''addr.rig''), JStr (jstr ''x'')])"
    by (simp add: runJson_def)
  then show ?thesis using assms
    by (intro exI [of _ "[Write (Result (JNum (Num 1))), Write (SetDifficulty (sessionDifficulty c))]"])
      (simp add: handleMessage_def requestJson_member run_methods handleAuthorize_def
        run_authorize_parsed [simplified] writeReply_works works_runEnv initStratum_def need_def runEnv_agent)
qed

lemma runReady_shape:
  "\<exists>es. runReady = runStart\<lparr>clientSubscription := Some \<lparr>sub_id = JNum (Num 1), sub_userAgent = jstr ''unknown''\<rparr>,
     clientAuthorization := Some \<lparr>auth_id = JNum (Num 1), auth_address = jstr ''addr'', auth_worker = jstr ''rig'',
       auth_startingDiff = None, auth_password = Some (jstr ''x'')\<rparr>,
     currentPayoutAddress := Some (jstr ''addr''), currentPayoutWorker := Some (jstr ''rig''),
     stratumSubscription := True, backgroundWork := 1,
     clientStatistics := Some (newStatistics 1700000000000 (Num (fl (1 / 1000)))), stratumInitialized := True,
     extraNonceAndSessionId := jstr ''0a0b0c0d'', sessionStart := Some 1700000000000,
     jobsService := runServices, outbox := es\<rparr>"
proof -
  let ?c = "runStart"
  have s0: "\<not> socketDestroyed ?c" "\<not> socketEnded ?c" "\<not> connectionClosed ?c" "sessionStart ?c = None"
    "clientAuthorization ?c = None" "\<not> stratumInitialized ?c" "clientSuggestedDifficulty ?c = None" "backgroundWork ?c = 0"
    "outbox ?c = []" "buffer ?c = []"
    by (simp_all add: runStart_def newV1Client_def)
  have b0: "?c\<lparr>buffer := []\<rparr> = ?c" by (simp add: runStart_def newV1Client_def)
  obtain es where 1: "handleMessage runEnv [115] ?c = (Inr (), ?c\<lparr>sessionStart := Some 1700000000000,
     clientStatistics := Some (newStatistics 1700000000000 (Num (fl (1 / 1000)))),
     extraNonceAndSessionId := jstr ''0a0b0c0d'',
     clientSubscription := Some \<lparr>sub_id = JNum (Num 1), sub_userAgent = jstr ''unknown''\<rparr>, outbox := outbox ?c @ es\<rparr>)"
    (is "_ = (Inr (), ?d)") using run_s [of ?c] s0 by blast
  obtain es' where 2: "handleMessage runEnv [97] ?d = (Inr (), ?d\<lparr>
     clientAuthorization := Some \<lparr>auth_id = JNum (Num 1), auth_address = jstr ''addr'', auth_worker = jstr ''rig'',
       auth_startingDiff = None, auth_password = Some (jstr ''x'')\<rparr>,
     currentPayoutAddress := Some (jstr ''addr''), currentPayoutWorker := Some (jstr ''rig''),
     stratumInitialized := True, stratumSubscription := True, backgroundWork := backgroundWork ?d + 1,
     outbox := outbox ?d @ es'\<rparr>)"
    using run_a [of ?d] s0 by simp blast
  have "handleSocketData runEnv [115, 10, 97, 10] ?c = handleLines runEnv [[115], [97]] (?c\<lparr>buffer := []\<rparr>)"
    using s0 by (simp add: handleSocketData_def isClosed_def utf8s splits)
  also have "\<dots> = handleLines runEnv [[115], [97]] ?c" by (simp only: b0)
  also have "\<dots> = (Inr (), ?d\<lparr>
     clientAuthorization := Some \<lparr>auth_id = JNum (Num 1), auth_address = jstr ''addr'', auth_worker = jstr ''rig'',
       auth_startingDiff = None, auth_password = Some (jstr ''x'')\<rparr>,
     currentPayoutAddress := Some (jstr ''addr''), currentPayoutWorker := Some (jstr ''rig''),
     stratumInitialized := True, stratumSubscription := True, backgroundWork := backgroundWork ?d + 1,
     outbox := outbox ?d @ es'\<rparr>)"
    using s0 1 2 by (simp add: isClosed_def)
  finally show ?thesis
    using s0 by (intro exI [of _ "es @ es'"]) (simp add: runReady_def handleEvent_def)
qed

lemma runReady_fields:
  "\<not> socketDestroyed runReady" "\<not> socketEnded runReady" "\<not> connectionClosed runReady"
  "\<not> creatingFailed runReady" "stratumInitialized runReady"
  "clientAuthorization runReady \<noteq> None" "clientSubscription runReady \<noteq> None"
  "extraNonceAndSessionId runReady = jstr ''0a0b0c0d''" "sessionStart runReady = Some 1700000000000"
  "jobsService runReady = runServices" "miningSubmissionHashes runReady = {}" "buffer runReady = []"
  "sessionDifficultyTarget runReady = sessionDifficultyTarget runStart" "payoutMode runReady = solo"
  "clientEntity runReady = None" "currentPayoutAddress runReady = Some (jstr ''addr'')"
proof -
  obtain es where r: "runReady = runStart\<lparr>clientSubscription := Some \<lparr>sub_id = JNum (Num 1), sub_userAgent = jstr ''unknown''\<rparr>,
     clientAuthorization := Some \<lparr>auth_id = JNum (Num 1), auth_address = jstr ''addr'', auth_worker = jstr ''rig'',
       auth_startingDiff = None, auth_password = Some (jstr ''x'')\<rparr>,
     currentPayoutAddress := Some (jstr ''addr''), currentPayoutWorker := Some (jstr ''rig''),
     stratumSubscription := True, backgroundWork := 1,
     clientStatistics := Some (newStatistics 1700000000000 (Num (fl (1 / 1000)))), stratumInitialized := True,
     extraNonceAndSessionId := jstr ''0a0b0c0d'', sessionStart := Some 1700000000000,
     jobsService := runServices, outbox := es\<rparr>"
    using runReady_shape by blast
  show "\<not> socketDestroyed runReady" "\<not> socketEnded runReady" "\<not> connectionClosed runReady"
  "\<not> creatingFailed runReady" "stratumInitialized runReady"
  "clientAuthorization runReady \<noteq> None" "clientSubscription runReady \<noteq> None"
  "extraNonceAndSessionId runReady = jstr ''0a0b0c0d''" "sessionStart runReady = Some 1700000000000"
  "jobsService runReady = runServices" "miningSubmissionHashes runReady = {}" "buffer runReady = []"
  "sessionDifficultyTarget runReady = sessionDifficultyTarget runStart" "payoutMode runReady = solo"
  "clientEntity runReady = None" "currentPayoutAddress runReady = Some (jstr ''addr'')"
    unfolding r by (simp_all add: runStart_def newV1Client_def)
qed

lemma runEnv_ok: "env_ok None (\<lambda>_. replicate 32 0) (sampleLib runTransaction) runEnv"
  by (simp add: env_ok_def getConfiguredMinimumDifficulty_def isFinite_def fun_eq_iff jstr_def is_hex_def hexval_def)

lemma runReady_reached: "v1_reach solo sv1 None (\<lambda>_. replicate 32 0) (sampleLib runTransaction) runReady"
  unfolding runReady_def runStart_def by (intro v1_reach.start v1_reach.step runEnv_ok)

lemma zero_meets: "length t = 32 \<Longrightarrow> meetsTarget (replicate 32 0) t"
proof -
  assume t: "length t = 32"
  have "le_nat (replicate n (0 :: byte)) = 0" for n by (induction n) simp_all
  then show ?thesis using t by (simp add: meetsTarget_le_nat)
qed

lemma length_target: "difficultyToTarget d = Inr t \<Longrightarrow> length t = 32"
  by (auto simp: difficultyToTarget_def Let_def split: if_splits jsnum.splits)

lemma run_header:
  "\<exists>header. buildHeaderBuffer (\<lambda>_. replicate 32 0) runJob sampleTemplate (Num 0) (Num 7) en1 en2 (Num 1694498816) = Inr header"
  by (simp add: buildHeaderBuffer_def Let_def calculateMerkleRootHash_def runJob_def hash256_def rolledVersion_def
      sampleTemplate_def encodeInt32LE_def encodeUInt32LE_def)

lemma run_judged: "\<exists>header. judgedBy runEnv runReady runSubmit runJob sampleTemplate header"
proof -
  have sha: "env_sha256 runEnv = (\<lambda>_. replicate 32 0)" by (simp add: fun_eq_iff)
  have n: "parseInt 16 (jstr ''0'') = Num 0" "parseInt 16 (jstr ''00000007'') = Num 7"
    "parseInt 16 (jstr ''65000000'') = Num 1694498816"
    using rnd_int [of 0] rnd_int [of 7] rnd_int [of 1694498816]
    by (simp_all add: parseInt_def jstr_def js_ws_def digit_in_def hexval_def Let_def)
  have start: "miningSubmissionHashes runStart = {}" "length (sessionDifficultyTarget runStart) = 32"
    using hasTarget_small [of 100000] length_target
    by (auto simp: runStart_def newV1Client_def hasTarget_def)
  have job: "getJobById runServices (ms_jobId runSubmit) = Some runJob"
    "getJobTemplateById runServices (job_jobTemplateId runJob) = Some sampleTemplate"
    by (simp_all add: getJobById_def getJobTemplateById_def runServices_def runSubmit_def runJob_def newJobsService_def)
  obtain header where "buildHeaderBuffer (\<lambda>_. replicate 32 0) runJob sampleTemplate (Num 0) (Num 7)
      (jstr ''0a0b0c0d'') (ms_extraNonce2 runSubmit) (Num 1694498816) = Inr header" using run_header by blast
  then have "submissionHeader runEnv runReady runJob sampleTemplate runSubmit = Inr header"
    by (simp add: submissionHeader_def sha runReady_fields runSubmit_def n)
  then show ?thesis
    using job start zero_meets by (auto simp: judgedBy_def runReady_fields hash256_def)
qed

text \<open>A judged share is recorded when the calls to the outside succeed.\<close>

lemma judged_recorded:
  assumes j: "judgedBy env c m job jt header" and env: "works env"
    and open_socket: "\<not> socketDestroyed c" "\<not> socketEnded c" and "\<not> creatingFailed c"
    and auth: "clientAuthorization c = Some auth" "clientSubscription c = Some sub"
    and net: "difficultyToTarget (jt_networkDifficulty jt) = Inr nt"
    and block: "meetsTarget (hash256 (env_sha256 env) header) nt \<Longrightarrow> \<exists>b. blockOf env c job jt m = Inr b"
  shows "\<exists>sh es. outbox (snd (handleMiningSubmission env m c)) = outbox c @ Write (Result (ms_id m)) # es
    \<and> RecordShare sh \<in> set es"
proof -
  let ?c = "c\<lparr>miningSubmissionHashes := insert (submissionKey m) (miningSubmissionHashes c),
     outbox := outbox c @ [Write (Result (ms_id m))]\<rparr>"
  let ?judged = "calculateDifficulty (env_sha256 env) header"
  have "\<exists>b. blockOf env ?c job jt m = Inr b" if "meetsTarget (hashBuffer ?judged) nt"
    using block that by (simp add: blockOf_def)
  then obtain sh es where sh: "outbox (snd (acceptShare env job jt m ?judged ?c)) = outbox ?c @ es"
    "RecordShare sh \<in> set es"
    using acceptShare_records [OF env, of ?c auth sub jt nt ?judged job m] auth net assms(5) by auto
  have "handleMiningSubmission env m c = andThen (acceptShare env job jt m ?judged) (\<lambda>_. ret False) ?c"
    using j open_socket by (simp add: handleMiningSubmission_def judgedBy_def writeReply_works [OF env] Let_def)
  moreover have "snd (andThen (acceptShare env job jt m ?judged) (\<lambda>_. ret False) ?c)
      = snd (acceptShare env job jt m ?judged ?c)"
    by (cases "acceptShare env job jt m ?judged ?c"; cases "fst (acceptShare env job jt m ?judged ?c)") simp_all
  ultimately show ?thesis using sh by auto
qed

lemma run_network: "\<exists>nt. difficultyToTarget (jt_networkDifficulty sampleTemplate) = Inr nt"
  using hasTarget_small [of 1] by (auto simp: hasTarget_def sampleTemplate_def)

lemma run_block: "\<exists>b. blockOf runEnv runReady runJob sampleTemplate runSubmit = Inr b"
  by (simp add: blockOf_def copyAndUpdateBlock_def cloneCoinbaseTransaction_def sampleLib_def runTransaction_def
      emptyCoinbase_def Let_def calculateMerkleRootHash_def hash256_def runJob_def)

lemma run_recorded:
  "\<exists>sh es. outbox (snd (handleMiningSubmission runEnv runSubmit runReady))
     = outbox runReady @ Write (Result (JNum (Num 1))) # es \<and> RecordShare sh \<in> set es"
proof -
  obtain header where j: "judgedBy runEnv runReady runSubmit runJob sampleTemplate header" using run_judged by blast
  have "ms_id runSubmit = JNum (Num 1)" by (simp add: runSubmit_def)
  then show ?thesis
    using judged_recorded [OF j works_runEnv] run_network run_block runReady_fields by (metis not_None_eq)
qed

lemma runEnd_records: "\<exists>sh. RecordShare sh \<in> set (outbox runEnd)"
proof -
  have b: "runReady\<lparr>buffer := []\<rparr> = runReady" using runReady_fields(12) by (cases runReady) simp
  have msg: "runJson [109] = Some (requestJson ''mining.submit'' [JStr (jstr ''addr''), JStr (jstr ''1''),
       JStr (jstr ''0000000000000001''), JStr (jstr ''65000000''), JStr (jstr ''00000007'')])"
    by (simp add: runJson_def)
  obtain r c' where rc: "handleMiningSubmission runEnv runSubmit runReady = (r, c')"
    by (cases "handleMiningSubmission runEnv runSubmit runReady")
  have "snd (handleMessage runEnv [109] runReady) = c' \<or> (\<exists>e. quiet c' (snd (handleMessage runEnv [109] runReady)))"
  proof -
    let ?after = "\<lambda>broke. if \<not> broke then ret ()
            else andThen (readState id) (\<lambda>c.
              if clientSubscription c \<noteq> None \<and> clientAuthorization c \<noteq> None \<and> \<not> stratumInitialized c
              then tryCatch (initStratum runEnv) (\<lambda>_. ret ()) else ret ())"
    let ?reply = "\<lambda>result. if result then writeReply runEnv (Result (ms_id runSubmit)) else ret True"
    let ?msg = "requestJson ''mining.submit'' [JStr (jstr ''addr''), JStr (jstr ''1''),
       JStr (jstr ''0000000000000001''), JStr (jstr ''65000000''), JStr (jstr ''00000007'')]"
    have "handleMessage runEnv [109] runReady = andThen (handleSubmit runEnv ?msg) ?after runReady"
      by (simp add: handleMessage_def msg requestJson_member run_methods)
    also have "\<dots> = andThen (andThen (handleMiningSubmission runEnv runSubmit) ?reply) ?after runReady"
      unfolding andThen_def [of "handleSubmit runEnv ?msg"] andThen_def [of "andThen (handleMiningSubmission runEnv runSubmit) ?reply"]
      by (simp add: handleSubmit_def runReady_fields(5) run_submit_parsed [simplified])
    also have "\<dots> = andThen (handleMiningSubmission runEnv runSubmit) (\<lambda>a. andThen (?reply a) ?after) runReady"
      by (simp only: andThen_assoc)
    finally have e: "handleMessage runEnv [109] runReady
        = andThen (handleMiningSubmission runEnv runSubmit) (\<lambda>a. andThen (?reply a) ?after) runReady" .
    have q: "qu.keeps (andThen (?reply a) ?after)" for a
      by (intro qu_intros qu_writeReply qu_initStratum)
    show ?thesis
      using e rc q by (cases r) (auto simp: qu.keeps_def)
  qed
  then have "\<exists>es. outbox (snd (handleMessage runEnv [109] runReady)) = outbox c' @ es"
    by (auto simp: quiet_def intro: exI [of _ "[]"])
  moreover have "\<exists>sh. RecordShare sh \<in> set (outbox c')" using run_recorded rc by auto
  moreover have "\<exists>es. outbox runEnd = outbox (snd (handleMessage runEnv [109] runReady)) @ es"
  proof (cases "handleMessage runEnv [109] runReady")
    case (Pair r' t)
    then show ?thesis
      by (cases r') (simp_all add: runEnd_def handleEvent_def handleSocketData_def isClosed_def runReady_fields
        utf8s splits b tryCatch_def andThen_def endSocket_def emit_def)
  qed
  ultimately show ?thesis by auto
qed

lemma sendNewMiningJob_works:
  assumes env: "works env" "knownNetwork env" and auth: "clientAuthorization c = Some auth" "clientSubscription c = Some sub"
    and c: "\<not> creatingFailed c" "clientEntity c = None" "payoutMode c = solo" "\<not> socketDestroyed c" "\<not> socketEnded c"
    and job: "newMiningJob (env_lib env) (env_now env) (getNextId (jobsService c))
      [\<lparr>ao_address = (case currentPayoutAddress c of None \<Rightarrow> auth_address auth | Some a \<Rightarrow> a), ao_percent = Some 100,
        ao_amountSats = None\<rparr>] t (Some (case currentPayoutWorker c of None \<Rightarrow> auth_worker auth | Some w \<Rightarrow> w)) = Inr job"
  shows "\<exists>c'. sendNewMiningJob env t c = (Inr (), c')"
proof -
  let ?e = "newEntity env (extraNonceAndSessionId c) (auth_address auth) (auth_worker auth) (sub_userAgent sub) (payoutMode c)"
  obtain i where i: "env_insertId env (insertCount (outbox c)) = Some i" using env(1) by (auto simp: works_def)
  let ?c = "c\<lparr>outbox := outbox c @ [InsertClient ?e], clientEntity := Some (?e\<lparr>ce_id := i\<rparr>)\<rparr>"
  have e: "ensureClientEntity env c = (Inr (), ?c)"
    using i c auth by (simp add: ensureClientEntity_def need_def insertClient_def emit_def)
  have k: "clientAuthorization ?c = Some auth" "payoutMode ?c = solo" "jobsService ?c = jobsService c"
    "currentPayoutAddress ?c = currentPayoutAddress c" "currentPayoutWorker ?c = currentPayoutWorker c"
    using auth c by simp_all
  have info: "getPayoutInformation ?c t a = [\<lparr>ao_address = a, ao_percent = Some 100, ao_amountSats = None\<rparr>]" for a
    using k(2) unfolding getPayoutInformation_def by (simp split: option.split list.split)
  let ?rest = "\<lambda>job. andThen (modify (\<lambda>c. c\<lparr>jobsService := addJob job (jobsService c)\<rparr>)) (\<lambda>_.
           andThen (writeReply env (Notify (jobResponse job t))) (\<lambda>success.
             if \<not> success then ret ()
             else modify (\<lambda>c. c\<lparr>lastSentMiningJobTimestamp := Some (blk_timestamp (jt_block t))\<rparr>)))"
  have "sendNewMiningJob env t c = ?rest job ?c"
    unfolding sendNewMiningJob_def
    by (simp only: andThen_simps(3) [where m = "ensureClientEntity env" and s = c and a = "()" and s' = ?c, OF e]
        andThen_prims id_apply k need_def option.case andThen_simps(1) Let_def info env(2) not_True_eq_False if_False job)
  moreover have "\<exists>c'. ?rest job ?c = (Inr (), c')"
    using c by (simp add: writeReply_works [OF env(1)])
  ultimately show ?thesis by simp
qed

section \<open>Properties\<close>





text \<open>
  C18. A share that is judged good is recorded: when the socket is open, the requests that start a session
  have been handled and the calls to the outside succeed, the submission is answered with a result and
  then recorded, whether or not it solves a block.
\<close>

theorem good_share_is_recorded:
  assumes "judgedBy env c m job jt header" "works env"
    and "\<not> socketDestroyed c" "\<not> socketEnded c" "\<not> creatingFailed c"
    and "clientAuthorization c = Some auth" "clientSubscription c = Some sub"
    and "difficultyToTarget (jt_networkDifficulty jt) = Inr nt"
    and "meetsTarget (hash256 (env_sha256 env) header) nt \<longrightarrow> (\<exists>b. blockOf env c job jt m = Inr b)"
  shows "\<exists>sh es. outbox (snd (handleMiningSubmission env m c)) = outbox c @ Write (Result (ms_id m)) # es
    \<and> RecordShare sh \<in> set es"
  using judged_recorded [OF assms(1-8)] assms(9) by blast

lemma good_share_is_recorded_witness:
  "\<exists>sh es. outbox (snd (handleMiningSubmission runEnv runSubmit runReady))
     = outbox runReady @ Write (Result (JNum (Num 1))) # es \<and> RecordShare sh \<in> set es"
proof -
  obtain header where j: "judgedBy runEnv runReady runSubmit runJob sampleTemplate header" using run_judged by blast
  obtain nt where net: "difficultyToTarget (jt_networkDifficulty sampleTemplate) = Inr nt" using run_network by blast
  obtain auth sub where a: "clientAuthorization runReady = Some auth" "clientSubscription runReady = Some sub"
    using runReady_fields(6,7) by blast
  have "\<exists>sh es. outbox (snd (handleMiningSubmission runEnv runSubmit runReady))
     = outbox runReady @ Write (Result (ms_id runSubmit)) # es \<and> RecordShare sh \<in> set es"
    using run_block
    by (intro good_share_is_recorded [OF j works_runEnv runReady_fields(1,2,4) a net] impI)
  then show ?thesis by (simp add: runSubmit_def)
qed

text \<open>
  C9. A submission is credited once: after it was looked at, and as long as no template that drops old
  work arrives, a submission with the same job, extranonce, time, nonce and version is refused without any
  record, whatever happens in between, or the connection is closed.
\<close>

theorem resubmission_records_nothing:
  assumes "getJobById (jobsService c) (ms_jobId m) = Some job"
    and "getJobTemplateById (jobsService c) (job_jobTemplateId job) = Some jt" "stratumInitialized c"
    and "\<forall>(env', ev) \<in> set evs. \<not> dropsWork ev" "submissionKey m' = submissionKey m"
    and "c' = handleEvents evs (snd (handleMiningSubmission env m c))"
  shows "isClosed c'
    \<or> (\<exists>es. outbox (snd (handleMiningSubmission env' m' c')) = outbox c' @ es \<and> list_all harmless es)"
proof (cases "isClosed c'")
  case False
  have g0: "grows c (snd (handleMiningSubmission env m c))"
    using gr_handleMiningSubmission by (simp add: gr.keeps_def)
  have g1: "grows (snd (handleMiningSubmission env m c)) c'"
    unfolding assms(6) by (rule grows_events [OF assms(4)])
  have "submissionKey m' \<in> miningSubmissionHashes c'"
    using key_remembered [OF assms(1-3), of env] g0 g1 assms(3,5) False by (auto simp: grows_def)
  then have "quiet c' (snd (handleMiningSubmission env' m' c'))"
    by (rule duplicate_quiet)
  then show ?thesis by (auto simp: quiet_def list_all_iff)
qed simp

lemma resubmission_records_nothing_witness:
  "let c' = handleEvents [(runEnv, Interval), (runEnv, SocketData [109])]
      (snd (handleMiningSubmission runEnv runSubmit runReady))
   in isClosed c' \<or> (\<exists>es. outbox (snd (handleMiningSubmission runEnv runSubmit c')) = outbox c' @ es \<and> list_all harmless es)"
proof -
  have job: "getJobById (jobsService runReady) (ms_jobId runSubmit) = Some runJob"
    "getJobTemplateById (jobsService runReady) (job_jobTemplateId runJob) = Some sampleTemplate"
    using run_judged by (auto simp: judgedBy_def)
  show ?thesis
    unfolding Let_def
    by (rule resubmission_records_nothing [OF job runReady_fields(5) _ refl refl]) (simp add: dropsWork_def)
qed

text \<open>
  But what identifies a submission is its text: with a zero put before the hexadecimal digits of the
  nonce, the same share has another key and is judged good again, in every later state that has the same
  jobs, session and target and does not know the new spelling yet.
\<close>

theorem respelled_share_is_judged_again:
  assumes "judgedBy env c m job jt header" "ms_nonce m \<noteq> []" "list_all is_hex (ms_nonce m)"
    and "m' = m\<lparr>ms_nonce := 48 # ms_nonce m\<rparr>" "core c' = core c"
    and "miningSubmissionHashes c' = insert (submissionKey m) (miningSubmissionHashes c)"
    and "submissionKey m' \<notin> miningSubmissionHashes c"
  shows "judgedBy env c' m' job jt header \<and> submissionKey m' \<noteq> submissionKey m"
proof -
  have "length (submissionKey m') = length (submissionKey m) + 1"
    by (simp add: assms(4) submissionKey_def)
  then have ne: "submissionKey m' \<noteq> submissionKey m" by auto
  moreover have "submissionHeader env c' job jt m' = submissionHeader env c job jt m"
    using assms(4,5) parseInt_zero [OF assms(2,3)] by (simp add: submissionHeader_def core_def)
  ultimately show ?thesis
    using assms by (auto simp: judgedBy_def core_def)
qed

lemma respelled_share_is_judged_again_witness:
  "\<exists>header. judgedBy runEnv runReady runSubmit runJob sampleTemplate header
     \<and> judgedBy runEnv (runReady\<lparr>miningSubmissionHashes := {submissionKey runSubmit}\<rparr>)
         (runSubmit\<lparr>ms_nonce := jstr ''000000007''\<rparr>) runJob sampleTemplate header"
proof -
  obtain header where j: "judgedBy runEnv runReady runSubmit runJob sampleTemplate header" using run_judged by blast
  have n: "ms_nonce runSubmit \<noteq> []" "list_all is_hex (ms_nonce runSubmit)"
    "48 # ms_nonce runSubmit = jstr ''000000007''"
    by (simp_all add: runSubmit_def jstr_def is_hex_def hexval_def)
  have c: "core (runReady\<lparr>miningSubmissionHashes := {submissionKey runSubmit}\<rparr>) = core runReady"
    by (simp add: core_def)
  have "judgedBy runEnv (runReady\<lparr>miningSubmissionHashes := {submissionKey runSubmit}\<rparr>)
      (runSubmit\<lparr>ms_nonce := 48 # ms_nonce runSubmit\<rparr>) runJob sampleTemplate header"
    using respelled_share_is_judged_again [OF j n(1,2) refl c] by (simp add: runReady_fields(11))
  then show ?thesis using j unfolding n(3) by blast
qed

text \<open>
  C33. The extranonce that a connection was given with its first subscription stays what it is, through any
  events: further subscriptions, a change of the payout address, retargets and the end of the connection.
\<close>

theorem extranonce_stays:
  assumes "sessionStart c \<noteq> None"
  shows "extraNonceAndSessionId (handleEvents evs c) = extraNonceAndSessionId c
    \<and> sessionStart (handleEvents evs c) = sessionStart c"
  using same_events [of c evs] assms by (simp add: same_def)

lemma extranonce_stays_witness:
  "extraNonceAndSessionId (handleEvents [(runEnv, SocketData [115, 10, 97, 10]), (runEnv, Closed)] runReady)
     = jstr ''0a0b0c0d''"
  using extranonce_stays [of runReady "[(runEnv, SocketData [115, 10, 97, 10]), (runEnv, Closed)]"]
  by (simp add: runReady_fields)

lemma ensureClientEntity_effect:
  assumes "ensureClientEntity env c = (Inr (), c')"
  shows "core c' = core c \<and> currentPayoutAddress c' = currentPayoutAddress c
    \<and> currentPayoutWorker c' = currentPayoutWorker c"
proof (cases "clientEntity c")
  case None
  have "\<not> creatingFailed c" using assms None by (auto simp: ensureClientEntity_def)
  then show ?thesis
    using assms None
    by (auto simp: ensureClientEntity_def tryCatch_def andThen_def need_def insertClient_def emit_def core_def
        split: option.splits prod.splits sum.splits)
next
  case (Some row)
  then show ?thesis using assms by (auto simp: ensureClientEntity_def)
qed

text \<open>
  C29. New work pays the address that is in force: when a job was sent in solo mode, the jobs service finds
  it under the identifier that was next, its coinbase pays the whole reward and the last address of
  \<open>mining.set_payout\<close>, or of the authorization before that, is the one its shares are attributed to.
\<close>

theorem new_work_pays_current_address:
  assumes "sendNewMiningJob env t c = (Inr (), c')" "payoutMode c = solo"
    and "clientAuthorization c = Some auth"
  shows "\<exists>job. getJobById (jobsService c') (getNextId (jobsService c)) = Some job
    \<and> payoutAddress job = Some (case currentPayoutAddress c of None \<Rightarrow> auth_address auth | Some a \<Rightarrow> a)
    \<and> job_jobTemplateId job = jt_id t
    \<and> sum_list (map out_value (tx_outs (coinbaseTransaction job))) = jt_coinbasevalue t"
proof -
  let ?a = "case currentPayoutAddress c of None \<Rightarrow> auth_address auth | Some a \<Rightarrow> a"
  obtain c1 where c1: "ensureClientEntity env c = (Inr (), c1)"
    using assms(1) by (auto simp: sendNewMiningJob_def elim!: andThen_InrE)
  have k: "clientAuthorization c1 = Some auth" "payoutMode c1 = solo" "jobsService c1 = jobsService c"
    "currentPayoutAddress c1 = currentPayoutAddress c"
    using ensureClientEntity_effect [OF c1] assms(2,3) by (simp_all add: core_def)
  have info: "getPayoutInformation c1 t ?a = [\<lparr>ao_address = ?a, ao_percent = Some 100, ao_amountSats = None\<rparr>]"
    using k(2) by (simp add: getPayoutInformation_def split: option.split list.split)
  let ?w = "case currentPayoutWorker c1 of None \<Rightarrow> auth_worker auth | Some w \<Rightarrow> w"
  let ?new = "newMiningJob (env_lib env) (env_now env) (getNextId (jobsService c))
    [\<lparr>ao_address = ?a, ao_percent = Some 100, ao_amountSats = None\<rparr>] t (Some ?w)"
  let ?rest = "\<lambda>job. andThen (modify (\<lambda>c. c\<lparr>jobsService := addJob job (jobsService c)\<rparr>)) (\<lambda>_.
           andThen (writeReply env (Notify (jobResponse job t))) (\<lambda>success.
             if \<not> success then ret ()
             else modify (\<lambda>c. c\<lparr>lastSentMiningJobTimestamp := Some (blk_timestamp (jt_block t))\<rparr>)))"
  have run: "(if \<not> knownNetwork env then throw (JsError ''Invalid network configuration'')
      else andThen (lift ?new) ?rest) c1 = (Inr (), c')"
    using assms(1) unfolding sendNewMiningJob_def
    by (simp only: andThen_simps(3) [where m = "ensureClientEntity env" and s = c and a = "()" and s' = c1, OF c1]
        andThen_prims id_apply k need_def option.case andThen_simps(1) Let_def info)
  then obtain job where job: "?new = Inr job" and r: "?rest job c1 = (Inr (), c')"
    by (cases "?new") (auto split: if_splits)
  let ?c = "c1\<lparr>jobsService := addJob job (jobsService c1)\<rparr>"
  let ?tail = "andThen (writeReply env (Notify (jobResponse job t))) (\<lambda>success.
             if \<not> success then ret ()
             else modify (\<lambda>c. c\<lparr>lastSentMiningJobTimestamp := Some (blk_timestamp (jt_block t))\<rparr>))"
  have "acc.keeps (core ?c) (\<lambda>_. True) ?tail"
    by (intro acc.keeps_intros acc_writeReply acc_modify) (simp_all add: core_def)
  moreover have "?tail ?c = (Inr (), c')" using r by simp
  ultimately have "core c' = core ?c" by (auto dest!: acc.keepsD simp: confines_def)
  then have "jobsService c' = addJob job (jobsService c)" by (simp add: core_def k)
  then have "getJobById (jobsService c') (getNextId (jobsService c)) = Some job"
    using newMiningJob_pays(4) [OF job] by (simp add: getJobById_def addJob_def update_conv')
  with newMiningJob_pays [OF job] show ?thesis by simp
qed

lemma new_work_pays_current_address_witness:
  "\<exists>c' job. sendNewMiningJob (runEnv\<lparr>env_config := (\<lambda>_. Some (jstr ''mainnet''))\<rparr>) sampleTemplate runReady = (Inr (), c')
     \<and> getJobById (jobsService c') (jstr ''2'') = Some job \<and> payoutAddress job = Some (jstr ''addr'')"
proof -
  let ?env = "runEnv\<lparr>env_config := (\<lambda>_. Some (jstr ''mainnet''))\<rparr>"
  let ?pay = "[\<lparr>ao_address = jstr ''addr'', ao_percent = Some 100, ao_amountSats = None\<rparr>]"
  have env: "works ?env" "knownNetwork ?env" by (simp_all add: works_def runEnv_def knownNetwork_def)
  obtain auth sub where a: "clientAuthorization runReady = Some auth" "clientSubscription runReady = Some sub"
    using runReady_fields(6,7) by blast
  have next_id: "getNextId runServices = jstr ''2''"
    by (simp add: getNextId_def runServices_def jstr_def hexdigit_def toString16.simps)
  have "\<exists>job. newMiningJob (sampleLib runTransaction) now i ?pay sampleTemplate w = Inr job" for now i w
    by (simp add: newMiningJob_def createCoinbaseTransaction_def getPaymentScript_def sampleLib_def
        TOTAL_EXTRANONCE_SIZE_BYTES_def Let_def)
  then obtain job where job: "newMiningJob (sampleLib runTransaction) 1700000000000 (jstr ''2'') ?pay sampleTemplate
      (Some (case currentPayoutWorker runReady of None \<Rightarrow> auth_worker auth | Some w \<Rightarrow> w)) = Inr job" by blast
  have "\<exists>c'. sendNewMiningJob ?env sampleTemplate runReady = (Inr (), c')"
    using sendNewMiningJob_works [OF env a runReady_fields(4,15,14,1,2), of sampleTemplate job] job
    by (simp add: runReady_fields next_id)
  then obtain c' where c': "sendNewMiningJob ?env sampleTemplate runReady = (Inr (), c')" by blast
  from new_work_pays_current_address [OF c' runReady_fields(14) a(1)] show ?thesis
    using c' by (auto simp: runReady_fields next_id)
qed

end
