(* ===== verification/WireContract.thy ===== *)
theory WireContract
  imports BinaryCodec
begin

text \<open>
  The contract between \<open>BufferWriter\<close> and \<open>BufferReader\<close>, and its closure under sequencing.

  \<open>emits f bs\<close>: on every writer in a legal state the write \<open>f\<close> succeeds and appends exactly \<open>bs\<close>.
  \<open>rejects f\<close>: on every such writer it throws a \<open>RangeError\<close>.
  \<open>parses p bs v\<close>: wherever \<open>bs\<close> stands in a buffer, the read \<open>p\<close> consumes exactly \<open>bs\<close> and gives
  \<open>v\<close>; and where the buffer ends inside \<open>bs\<close>, it throws a \<open>RangeError\<close>.
  The locale \<open>wire_field\<close> states both for a pair of a write and a read, \<open>message_codec\<close> for a
  serializer and a deserializer.
\<close>

named_theorems wire_emits \<open>what each write appends\<close>
named_theorems wire_parses \<open>what each read consumes\<close>

section \<open>The writer\<close>

definition writer_inv :: "writer \<Rightarrow> bool" where
  "writer_inv w \<longleftrightarrow> 0 < length (wbuf w) \<and> woff w \<le> length (wbuf w)"

lemma writer_inv_new [simp]: "writer_inv newWriter"
  by (simp add: writer_inv_def newWriter_def)

lemma toBuffer_new [simp]: "toBuffer newWriter = []"
  by (simp add: toBuffer_def newWriter_def)

text \<open>From a positive capacity the doubling loop returns, and with enough room.\<close>

lemma grow_returns: "0 < size0 \<Longrightarrow> \<exists>s. grow size0 need = Some s \<and> need \<le> s \<and> size0 \<le> s"
proof (induction "need - size0" arbitrary: size0 rule: less_induct)
  case less
  show ?case
  proof (cases "size0 < need")
    case True
    with less.prems have "need - size0 * 2 < need - size0" by simp
    from less.hyps [OF this] less.prems
    obtain s where "grow (size0 * 2) need = Some s" "need \<le> s" "size0 * 2 \<le> s" by auto
    with True show ?thesis by (subst grow.simps) auto
  next
    case False
    then show ?thesis by (subst grow.simps) auto
  qed
qed

lemma ensureCapacity_ok:
  assumes "writer_inv w"
  shows "\<exists>w'. ensureCapacity n w = Inr w' \<and> writer_inv w' \<and> toBuffer w' = toBuffer w
     \<and> woff w' = woff w \<and> woff w' + n \<le> length (wbuf w')"
proof (cases "woff w + n > length (wbuf w)")
  case True
  from assms have "0 < length (wbuf w) * 2" by (simp add: writer_inv_def)
  from grow_returns [OF this, of "woff w + n"] obtain s
    where "grow (length (wbuf w) * 2) (woff w + n) = Some s" "woff w + n \<le> s"
      "length (wbuf w) * 2 \<le> s" by blast
  with True assms show ?thesis
    by (auto simp: ensureCapacity_def writer_inv_def toBuffer_def)
next
  case False
  with assms show ?thesis by (simp add: ensureCapacity_def)
qed

lemma w_store_ok:
  assumes "writer_inv w" "woff w + length v \<le> length (wbuf w)"
  shows "writer_inv (w_store v w)" "toBuffer (w_store v w) = toBuffer w @ v"
  using assms by (auto simp: writer_inv_def w_store_def toBuffer_def)

section \<open>Emission\<close>

definition emits :: "writing \<Rightarrow> bytes \<Rightarrow> bool" where
  "emits f bs \<longleftrightarrow>
     (\<forall>w. writer_inv w \<longrightarrow> (\<exists>w'. f w = Inr w' \<and> writer_inv w' \<and> toBuffer w' = toBuffer w @ bs))"

definition rejects :: "writing \<Rightarrow> bool" where
  "rejects f \<longleftrightarrow> (\<forall>w. writer_inv w \<longrightarrow> f w = Inl RangeError)"

lemma emits_w_put [wire_emits]: "emits (w_put v) v"
  unfolding emits_def w_put_def
proof (intro allI impI)
  fix w assume "writer_inv w"
  from ensureCapacity_ok [OF this, of "length v"] obtain w'
    where "ensureCapacity (length v) w = Inr w'" "writer_inv w'" "toBuffer w' = toBuffer w"
      "woff w' + length v \<le> length (wbuf w')" by blast
  with w_store_ok [of w' v]
  show "\<exists>w'. rbind (ensureCapacity (length v) w) (\<lambda>w'. Inr (w_store v w')) = Inr w' \<and>
     writer_inv w' \<and> toBuffer w' = toBuffer w @ v"
    by simp
qed

text \<open>A checked store of a fixed number of bytes, as \<open>writeU16\<close> and \<open>writeU64\<close> do.\<close>

lemma emits_checked:
  assumes "c" "length bs = n"
  shows "emits (\<lambda>w. rbind (ensureCapacity n w) (\<lambda>w'. if c then Inr (w_store bs w') else Inl e)) bs"
  using emits_w_put [of bs] assms by (simp add: emits_def w_put_def)

lemma rejects_checked:
  "\<not> c \<Longrightarrow> rejects (\<lambda>w. rbind (ensureCapacity n w) (\<lambda>w'. if c then f w' else Inl RangeError))"
  unfolding rejects_def
proof (intro allI impI)
  fix w assume "\<not> c" "writer_inv w"
  from ensureCapacity_ok [OF this(2), of n] \<open>\<not> c\<close>
  show "rbind (ensureCapacity n w) (\<lambda>w'. if c then f w' else Inl RangeError) = Inl RangeError"
    by auto
qed

lemma emits_wseq_Nil [wire_emits]: "emits (wseq []) []"
  by (auto simp: emits_def wseq.simps)

lemma emits_wseq_Cons:
  assumes "emits f a" "emits (wseq fs) b"
  shows "emits (wseq (f # fs)) (a @ b)"
  unfolding emits_def
proof (intro allI impI)
  fix w assume "writer_inv w"
  with assms(1) obtain w1 where w1: "f w = Inr w1" "writer_inv w1" "toBuffer w1 = toBuffer w @ a"
    unfolding emits_def by blast
  with assms(2) obtain w2 where "wseq fs w1 = Inr w2" "writer_inv w2"
      "toBuffer w2 = toBuffer w1 @ b"
    unfolding emits_def by blast
  with w1 show "\<exists>w'. wseq (f # fs) w = Inr w' \<and> writer_inv w' \<and> toBuffer w' = toBuffer w @ a @ b"
    by (simp add: wseq.simps)
qed

lemma emits_wseq_map:
  assumes "\<And>x. x \<in> set xs \<Longrightarrow> emits (f x) (enc x)"
  shows "emits (wseq (map f xs)) (concat (map enc xs))"
  using assms
proof (induction xs)
  case Nil
  then show ?case by (simp add: wire_emits)
next
  case (Cons x xs)
  then show ?case by (simp add: emits_wseq_Cons)
qed

lemma rejects_wseq_first: "rejects f \<Longrightarrow> rejects (wseq (f # fs))"
  by (simp add: rejects_def wseq.simps)

lemma rejects_wseq_later:
  assumes "emits f a" "rejects (wseq fs)"
  shows "rejects (wseq (f # fs))"
  unfolding rejects_def
proof (intro allI impI)
  fix w assume "writer_inv w"
  with assms(1) obtain w1 where "f w = Inr w1" "writer_inv w1"
    unfolding emits_def by blast
  with assms(2) show "wseq (f # fs) w = Inl RangeError"
    by (simp add: rejects_def wseq.simps)
qed

lemma rejects_throw [simp]: "rejects (w_throw RangeError)"
  by (simp add: rejects_def w_throw_def)

lemma w_build_emits: "emits (wseq fs) bs \<Longrightarrow> w_build fs = Inr bs"
  unfolding emits_def w_build_def using writer_inv_new by fastforce

lemma w_build_rejects: "rejects (wseq fs) \<Longrightarrow> w_build fs = Inl RangeError"
  by (simp add: rejects_def w_build_def)

section \<open>Parsing\<close>

definition parses :: "'a reading \<Rightarrow> bytes \<Rightarrow> 'a \<Rightarrow> bool" where
  "parses p bs v \<longleftrightarrow>
     (\<forall>pre rest. p \<lparr>rbuf = pre @ bs @ rest, roff = length pre\<rparr>
        = Inr (v, \<lparr>rbuf = pre @ bs @ rest, roff = length pre + length bs\<rparr>)) \<and>
     (\<forall>pre k. k < length bs \<longrightarrow>
        p \<lparr>rbuf = pre @ take k bs, roff = length pre\<rparr> = Inl RangeError)"

lemma parsesI:
  assumes "\<And>pre rest. p \<lparr>rbuf = pre @ bs @ rest, roff = length pre\<rparr>
        = Inr (v, \<lparr>rbuf = pre @ bs @ rest, roff = length pre + length bs\<rparr>)"
    and "\<And>pre k. k < length bs \<Longrightarrow>
        p \<lparr>rbuf = pre @ take k bs, roff = length pre\<rparr> = Inl RangeError"
  shows "parses p bs v"
  using assms by (simp add: parses_def)

lemma parses_full:
  "parses p bs v \<Longrightarrow> p \<lparr>rbuf = pre @ bs @ rest, roff = length pre\<rparr>
     = Inr (v, \<lparr>rbuf = pre @ bs @ rest, roff = length pre + length bs\<rparr>)"
  by (simp add: parses_def)

lemma parses_short:
  "parses p bs v \<Longrightarrow> k < length bs \<Longrightarrow>
     p \<lparr>rbuf = pre @ take k bs, roff = length pre\<rparr> = Inl RangeError"
  by (simp add: parses_def)

lemma parses_ret [wire_parses]: "v = w \<Longrightarrow> parses (rd_ret v) [] w"
  by (auto simp: parses_def rd_ret_def)

lemma parses_bind:
  assumes p: "parses p a v" and q: "parses (q v) b w"
  shows "parses (rd_bind p q) (a @ b) w"
proof (rule parsesI)
  fix pre rest
  show "rd_bind p q \<lparr>rbuf = pre @ (a @ b) @ rest, roff = length pre\<rparr> =
    Inr (w, \<lparr>rbuf = pre @ (a @ b) @ rest, roff = length pre + length (a @ b)\<rparr>)"
    using parses_full [OF p, of pre "b @ rest"] parses_full [OF q, of "pre @ a" rest]
    by (simp add: rd_bind_def)
next
  fix pre k assume k: "k < length (a @ b)"
  show "rd_bind p q \<lparr>rbuf = pre @ take k (a @ b), roff = length pre\<rparr> = Inl RangeError"
  proof (cases "k < length a")
    case True
    with parses_short [OF p, of k pre] show ?thesis
      by (simp add: rd_bind_def)
  next
    case False
    with k have "k - length a < length b" by auto
    with parses_short [OF q, of "k - length a" "pre @ a"]
      parses_full [OF p, of pre "take (k - length a) b"] False
    show ?thesis by (simp add: rd_bind_def)
  qed
qed

text \<open>The fixed-width reads: \<open>ensure n\<close>, a slice of \<open>n\<close> bytes, and a conversion of the slice.\<close>

lemma parses_fixed:
  assumes "length bs = n" "parses (q bs) [] v"
  shows "parses (rd_bind (ensure n) (\<lambda>_. rd_bind (rd_slice n) q)) bs v"
proof (rule parsesI)
  fix pre rest
  show "rd_bind (ensure n) (\<lambda>_. rd_bind (rd_slice n) q) \<lparr>rbuf = pre @ bs @ rest, roff = length pre\<rparr> =
    Inr (v, \<lparr>rbuf = pre @ bs @ rest, roff = length pre + length bs\<rparr>)"
    using assms parses_full [OF assms(2), of "pre @ bs" rest]
    by (simp add: rd_bind_def ensure_def rd_slice_def)
next
  fix pre k assume "k < length bs"
  with assms show "rd_bind (ensure n) (\<lambda>_. rd_bind (rd_slice n) q)
      \<lparr>rbuf = pre @ take k bs, roff = length pre\<rparr> = Inl RangeError"
    by (simp add: rd_bind_def ensure_def)
qed

lemma parses_slice:
  assumes "length bs = n"
  shows "parses (rd_bind (ensure n) (\<lambda>_. rd_slice n)) bs bs"
proof -
  have "parses (rd_bind (ensure n) (\<lambda>_. rd_bind (rd_slice n) rd_ret)) bs bs"
    using assms by (intro parses_fixed) (simp_all add: wire_parses)
  moreover have "rd_bind (rd_slice n) rd_ret = (rd_slice n :: bytes reading)"
    by (auto simp: rd_bind_def rd_ret_def rd_slice_def)
  ultimately show ?thesis by simp
qed

lemma parses_readN:
  assumes "\<And>x. x \<in> set xs \<Longrightarrow> parses p (enc x) x"
  shows "parses (readN (length xs) p) (concat (map enc xs)) xs"
  using assms
proof (induction xs)
  case Nil
  then show ?case by (simp add: wire_parses)
next
  case (Cons x xs)
  have "parses (rd_bind p (\<lambda>x. rd_bind (readN (length xs) p) (\<lambda>xs. rd_ret (x # xs))))
      (enc x @ (concat (map enc xs) @ [])) (x # xs)"
    using Cons by (intro parses_bind parses_ret) auto
  then show ?case by simp
qed

section \<open>The interfaces\<close>

locale wire_field =
  fixes wr :: "'a \<Rightarrow> writing"
    and rd :: "'a reading"
    and ok :: "'a \<Rightarrow> bool"
    and enc :: "'a \<Rightarrow> bytes"
  assumes wr_emits: "ok v \<Longrightarrow> emits (wr v) (enc v)"
    and rd_parses: "ok v \<Longrightarrow> parses rd (enc v) v"
begin

lemma enc_inject:
  assumes "ok v" "ok v'" "enc v = enc v'"
  shows "v = v'"
  using parses_full [OF rd_parses [OF assms(1)], of "[]" "[]"]
    parses_full [OF rd_parses [OF assms(2)], of "[]" "[]"] assms(3)
  by simp

lemma emits_seq:
  "list_all ok vs \<Longrightarrow> emits (wseq (map wr vs)) (concat (map enc vs))"
  by (rule emits_wseq_map) (auto simp: list_all_iff wr_emits)

lemma parses_seq:
  "list_all ok vs \<Longrightarrow> parses (readN (length vs) rd) (concat (map enc vs)) vs"
  by (rule parses_readN) (auto simp: list_all_iff rd_parses)

end

text \<open>
  A message: its serializer, its deserializer and the values that fit the wire format. The four
  consequences are what every protocol handler relies on.
\<close>

locale message_codec =
  fixes ser :: "'m \<Rightarrow> bytes result"
    and deser :: "'m reading"
    and fits :: "'m \<Rightarrow> bool"
  assumes codec: "fits m \<Longrightarrow> \<exists>bs. ser m = Inr bs \<and> parses deser bs m"
begin

lemma roundtrip:
  assumes "fits m"
  shows "\<exists>bs. ser m = Inr bs \<and>
     deser (newReader (bs @ rest)) = Inr (m, \<lparr>rbuf = bs @ rest, roff = length bs\<rparr>)"
proof -
  from codec [OF assms] obtain bs where "ser m = Inr bs" "parses deser bs m" by blast
  with parses_full [of deser bs m "[]" rest] show ?thesis
    by (simp add: newReader_def)
qed

lemma truncation:
  assumes "fits m" "ser m = Inr bs" "k < length bs"
  shows "deser (newReader (take k bs)) = Inl RangeError"
proof -
  from codec [OF assms(1)] assms(2) have "parses deser bs m" by auto
  from parses_short [OF this assms(3), of "[]"] show ?thesis
    by (simp add: newReader_def)
qed

lemma ser_inject:
  assumes "fits m" "fits m'" "ser m = ser m'"
  shows "m = m'"
proof -
  from codec [OF assms(1)] obtain bs where "ser m = Inr bs" "parses deser bs m" by blast
  moreover from codec [OF assms(2)] obtain bs' where "ser m' = Inr bs'" "parses deser bs' m'"
    by blast
  ultimately show ?thesis
    using assms(3) parses_full [of deser bs m "[]" "[]"] parses_full [of deser bs' m' "[]" "[]"]
    by simp
qed

lemma prefix_free:
  assumes "fits m" "fits m'" "ser m = Inr bs" "ser m' = Inr (bs @ ext)"
  shows "m' = m \<and> ext = []"
proof -
  from codec [OF assms(1)] assms(3) have 1: "parses deser bs m" by auto
  from codec [OF assms(2)] assms(4) have 2: "parses deser (bs @ ext) m'" by auto
  from parses_full [OF 1, of "[]" ext] parses_full [OF 2, of "[]" "[]"]
  show ?thesis by simp
qed

lemma total: "fits m \<Longrightarrow> is_ok (ser m)"
  using codec by force

end

text \<open>
  How a message is shown to satisfy its contract: the serializer is a sequence of writes, the
  writes emit \<open>bs\<close>, and the reads parse \<open>bs\<close>.
\<close>

lemma message_codecI:
  assumes "\<And>m. ser m = w_build (ops m)"
    and "\<And>m. fits m \<Longrightarrow> emits (wseq (ops m)) (bs m)"
    and "\<And>m. fits m \<Longrightarrow> parses deser (bs m) m"
  shows "message_codec ser deser fits"
proof
  fix m assume "fits m"
  with assms show "\<exists>bs. ser m = Inr bs \<and> parses deser bs m"
    using w_build_emits by metis
qed

end
