(* ===== verification/WireFields.thy ===== *)
theory WireFields
  imports WireContract
begin

text \<open>
  Every primitive of \<open>sv2-binary-codec.ts\<close> satisfies the wire contract on the values that fit
  its width, and the writes that check their argument reject the others.
\<close>

section \<open>Values that fit\<close>

definition u8_ok :: "int \<Rightarrow> bool" where "u8_ok v \<longleftrightarrow> 0 \<le> v \<and> v < 2 ^ 8"
definition u16_ok :: "int \<Rightarrow> bool" where "u16_ok v \<longleftrightarrow> 0 \<le> v \<and> v < 2 ^ 16"
definition u24_ok :: "int \<Rightarrow> bool" where "u24_ok v \<longleftrightarrow> 0 \<le> v \<and> v < 2 ^ 24"
definition u32_ok :: "int \<Rightarrow> bool" where "u32_ok v \<longleftrightarrow> 0 \<le> v \<and> v < 2 ^ 32"
definition u64_ok :: "int \<Rightarrow> bool" where "u64_ok v \<longleftrightarrow> 0 \<le> v \<and> v < 2 ^ 64"
definition optu32_ok :: "int option \<Rightarrow> bool" where
  "optu32_ok v = (case v of None \<Rightarrow> True | Some x \<Rightarrow> u32_ok x)"
definition len_ok :: "nat \<Rightarrow> bytes \<Rightarrow> bool" where "len_ok n v \<longleftrightarrow> length v \<le> n"
definition u256_ok :: "bytes \<Rightarrow> bool" where "u256_ok v \<longleftrightarrow> length v = 32"
definition str_ok :: "jsstr \<Rightarrow> bool" where
  "str_ok s \<longleftrightarrow> list_all scalar s \<and> length (utf8_encode s) \<le> 255"
definition seq_ok :: "nat \<Rightarrow> ('a \<Rightarrow> bool) \<Rightarrow> 'a list \<Rightarrow> bool" where
  "seq_ok n ok vs \<longleftrightarrow> length vs \<le> n \<and> list_all ok vs"

lemmas wire_ok_defs = u8_ok_def u16_ok_def u24_ok_def u32_ok_def u64_ok_def optu32_ok_def
  len_ok_def u256_ok_def str_ok_def seq_ok_def

section \<open>Byte-level facts\<close>

lemma byte_of_mod: "unat (byte_of v) = nat (v mod 256)"
  by (simp add: byte_of_def unat_eq_nat_uint uint_word_of_int)

lemma uint_byte_of: "uint (byte_of v) = v mod 256"
  by (simp add: byte_of_def uint_word_of_int)

lemma bit_byte_of: "bit (byte_of v) n \<longleftrightarrow> n < 8 \<and> bit v n"
  by (auto simp: byte_of_def bit_word_of_int_iff)

lemma byte_of_sint: "byte_of (sint (w :: 32 word)) = ucast w"
  by (rule bit_word_eqI) (auto simp: bit_byte_of bit_sint_iff bit_ucast_iff)

lemma byte_of_js_and_255: "byte_of (js_and v 0xff) = byte_of v"
proof -
  have "to_i32 v AND to_i32 0xff = take_bit 8 (to_i32 v)"
    by (simp add: to_i32_def take_bit_eq_mask mask_numeral)
  then have "byte_of (js_and v 0xff) = ucast (take_bit 8 (to_i32 v))"
    by (simp only: js_and_def byte_of_sint)
  also have "\<dots> = byte_of v"
    by (rule bit_word_eqI)
      (auto simp: bit_ucast_iff bit_take_bit_iff bit_byte_of to_i32_def bit_word_of_int_iff)
  finally show ?thesis .
qed

lemma byte_of_js_shr:
  assumes "0 \<le> v" "v < 2 ^ 31" "0 \<le> k" "k < 32"
  shows "byte_of (js_and (js_shr v k) 0xff) = byte_of (v div 2 ^ nat k)"
proof -
  have s: "sint (to_i32 v) = v"
    using assms by (simp add: to_i32_def signed_of_int signed_take_bit_int_eq_self)
  have "js_shr v k = v div 2 ^ nat k"
    using assms s by (simp add: js_shr_def sint_signed_drop_bit_eq drop_bit_eq_div)
  then show ?thesis by (simp only: byte_of_js_and_255)
qed

section \<open>Fixed-width fields\<close>

lemma emits_writeU8 [wire_emits]: "emits (writeU8 v) [byte_of v]"
  by (simp add: writeU8_def byte_of_js_and_255 wire_emits)

lemma parses_readU8: "u8_ok v \<Longrightarrow> parses readU8 [byte_of v] v"
  unfolding readU8_def
  by (intro parses_fixed parses_ret) (simp_all add: uint_byte_of u8_ok_def)

interpretation fU8: wire_field writeU8 readU8 u8_ok "\<lambda>v. [byte_of v]"
  by unfold_locales (auto intro: emits_writeU8 parses_readU8)

lemma emits_writeBool: "emits (writeBool v) [if v then 1 else 0]"
  by (simp only: writeBool_def emits_w_put)

lemma parses_readBool: "parses readBool [if v then 1 else 0] v"
  unfolding readBool_def by (intro parses_fixed parses_ret) simp_all

interpretation fBool: wire_field writeBool readBool "\<lambda>_. True" "\<lambda>v. [if v then 1 else 0]"
  by unfold_locales (rule emits_writeBool parses_readBool)+

lemma parses_le:
  "0 \<le> v \<Longrightarrow> nat v < 256 ^ k \<Longrightarrow>
   parses (rd_bind (ensure k) (\<lambda>_. rd_bind (rd_slice k) (\<lambda>b. rd_ret (int (le_nat b)))))
     (le_bytes k (nat v)) v"
  by (intro parses_fixed parses_ret) (simp_all add: le_nat_le_bytes_id)

interpretation fU16: wire_field writeU16 readU16 u16_ok "\<lambda>v. le_bytes 2 (nat v)"
proof unfold_locales
  fix v assume "u16_ok v"
  then show "emits (writeU16 v) (le_bytes 2 (nat v))"
    unfolding writeU16_def u16_ok_def by (rule emits_checked) simp
  from \<open>u16_ok v\<close> show "parses readU16 (le_bytes 2 (nat v)) v"
    unfolding readU16_def u16_ok_def by (intro parses_le) auto
qed

lemma rejects_writeU16: "\<not> u16_ok v \<Longrightarrow> rejects (writeU16 v)"
  unfolding writeU16_def u16_ok_def by (rule rejects_checked)

lemma emits_writeU32 [wire_emits]: "emits (writeU32 v) (le_bytes 4 (nat (v mod 2 ^ 32)))"
  by (simp only: writeU32_def js_ushr_0 emits_w_put)

interpretation fU32: wire_field writeU32 readU32 u32_ok "\<lambda>v. le_bytes 4 (nat v)"
proof unfold_locales
  fix v assume "u32_ok v"
  then show "emits (writeU32 v) (le_bytes 4 (nat v))" "parses readU32 (le_bytes 4 (nat v)) v"
    using emits_writeU32 [of v]
    by (auto simp: readU32_def u32_ok_def intro!: parses_le)
qed

interpretation fU64: wire_field writeU64 readU64 u64_ok "\<lambda>v. le_bytes 8 (nat v)"
proof unfold_locales
  fix v assume "u64_ok v"
  then show "emits (writeU64 v) (le_bytes 8 (nat v))"
    unfolding writeU64_def u64_ok_def by (rule emits_checked) simp
  from \<open>u64_ok v\<close> show "parses readU64 (le_bytes 8 (nat v)) v"
    unfolding readU64_def u64_ok_def by (intro parses_le) auto
qed

lemma rejects_writeU64: "\<not> u64_ok v \<Longrightarrow> rejects (writeU64 v)"
  unfolding writeU64_def u64_ok_def by (rule rejects_checked)

interpretation fF32: wire_field writeF32 readF32 "\<lambda>_. True" "\<lambda>v. le_bytes 4 (unat v)"
proof unfold_locales
  fix v :: "32 word"
  show "emits (writeF32 v) (le_bytes 4 (unat v))"
    by (simp only: writeF32_def emits_w_put)
  have "unat v < 256 ^ 4"
    using unsigned_less [of v, where 'a = nat] by simp
  then show "parses readF32 (le_bytes 4 (unat v)) v"
    unfolding readF32_def
    by (intro parses_fixed parses_ret) (simp_all add: le_nat_le_bytes_id)
qed

interpretation fU256: wire_field writeU256 readU256 u256_ok "\<lambda>v. v"
  by unfold_locales
    (auto simp: writeU256_def readU256_def u256_ok_def intro: emits_w_put parses_slice)

lemma rejects_writeU256: "\<not> u256_ok v \<Longrightarrow> rejects (writeU256 v)"
  by (simp add: writeU256_def u256_ok_def)

interpretation fOptU32: wire_field writeOptionU32 readOptionU32 optu32_ok
  "\<lambda>v. (case v of None \<Rightarrow> [byte_of 0] | Some x \<Rightarrow> [byte_of 1] @ le_bytes 4 (nat x) @ [])"
proof unfold_locales
  fix v assume v: "optu32_ok v"
  then show "emits (writeOptionU32 v)
      (case v of None \<Rightarrow> [byte_of 0] | Some x \<Rightarrow> [byte_of 1] @ le_bytes 4 (nat x) @ [])"
    using emits_wseq_Cons [OF emits_writeU8 emits_wseq_Cons [OF fU32.wr_emits emits_wseq_Nil]]
    by (cases v) (auto simp: writeOptionU32_def optu32_ok_def emits_writeU8)
  show "parses readOptionU32
      (case v of None \<Rightarrow> [byte_of 0] | Some x \<Rightarrow> [byte_of 1] @ le_bytes 4 (nat x) @ []) v"
  proof (cases v)
    case None
    then show ?thesis
      unfolding readOptionU32_def by (auto intro!: parses_fixed parses_ret simp: byte_of_def)
  next
    case (Some x)
    with v have x: "0 \<le> x" "nat x < 256 ^ 4" by (auto simp: optu32_ok_def u32_ok_def)
    let ?p = "rd_bind (ensure 1) (\<lambda>_. rd_slice 1)"
    let ?q = "\<lambda>flag. if hd flag = 0 then rd_ret None
       else rd_bind (ensure 4) (\<lambda>_. rd_bind (rd_slice 4) (\<lambda>b. rd_ret (Some (int (le_nat b)))))"
    have split: "readOptionU32 = rd_bind ?p ?q"
      by (auto simp: readOptionU32_def rd_bind_def ensure_def rd_slice_def)
    have q: "parses (?q [byte_of 1]) (le_bytes 4 (nat x)) (Some x)"
      using x by (auto simp: byte_of_def le_nat_le_bytes_id intro!: parses_fixed parses_ret)
    have "parses (rd_bind ?p ?q) ([byte_of 1] @ le_bytes 4 (nat x)) (Some x)"
    proof (rule parses_bind)
      show "parses ?p [byte_of 1] [byte_of 1]" by (rule parses_slice) simp
      show "parses (?q [byte_of 1]) (le_bytes 4 (nat x)) (Some x)" by (rule q)
    qed
    with Some split show ?thesis by simp
  qed
qed

section \<open>24-bit fields\<close>

lemma readU24_bits:
  fixes a b c :: byte
  shows "js_or (js_or (uint a) (js_shl (uint b) 8)) (js_shl (uint c) 16)
     = uint a + 256 * uint b + 65536 * uint c"
proof -
  let ?w = "(ucast a OR push_bit 8 (ucast b)) OR push_bit 16 (ucast c) :: 32 word"
  have lt: "uint a < 256" "uint b < 256" "uint c < 256"
    using uint_lt2p [of a] uint_lt2p [of b] uint_lt2p [of c] by simp_all
  have "to_i32 (uint x) = ucast x" for x :: byte
    by (rule bit_word_eqI) (simp add: to_i32_def bit_ucast_iff bit_word_of_int_iff bit_uint_iff)
  then have js: "js_or (js_or (uint a) (js_shl (uint b) 8)) (js_shl (uint c) 16) = sint ?w"
    by (simp add: js_or_def js_shl_def)
  have w: "?w = word_of_int (uint a + 256 * uint b + 65536 * uint c)"
  proof -
    have d1: "ucast a AND push_bit 8 (ucast b) = (0 :: 32 word)"
      by (rule bit_word_eqI)
        (auto simp: bit_and_iff bit_ucast_iff bit_push_bit_iff dest: bit_imp_le_length)
    have d2: "(ucast a OR push_bit 8 (ucast b)) AND push_bit 16 (ucast c) = (0 :: 32 word)"
      by (rule bit_word_eqI)
        (auto simp: bit_and_iff bit_or_iff bit_ucast_iff bit_push_bit_iff dest: bit_imp_le_length)
    have "?w = ucast a + push_bit 8 (ucast b) + push_bit 16 (ucast c)"
      using d1 d2 by (simp only: disjunctive_add_eq_or)
    also have "\<dots> = word_of_int (uint a + 256 * uint b + 65536 * uint c)"
      by (simp only: push_bit_eq_mult ucast_eq) (simp add: mult.commute)
    finally show ?thesis .
  qed
  have "- 2147483648 \<le> uint a + 256 * uint b + 65536 * uint c"
    "uint a + 256 * uint b + 65536 * uint c < 2147483648"
    using lt uint_ge_0 [of a] uint_ge_0 [of b] uint_ge_0 [of c] by linarith+
  then show ?thesis
    unfolding js w by (simp only: signed_of_int) (simp add: signed_take_bit_int_eq_self)
qed

lemma u24_top: "u24_ok v \<Longrightarrow> v div 65536 mod 256 = v div 65536"
  by (auto simp: u24_ok_def)

lemma u24_split:
  assumes "u24_ok v"
  shows "v mod 256 + 256 * (v div 256 mod 256) + 65536 * (v div 65536 mod 256) = v"
proof -
  have "v div 65536 < 256" "0 \<le> v div 65536" using assms by (auto simp: u24_ok_def)
  then have 1: "v div 65536 mod 256 = v div 65536" by simp
  have "v div 256 div 256 = v div 65536"
    by (simp add: zdiv_zmult2_eq [of 256 v 256, simplified])
  then have "v div 256 = 256 * (v div 65536) + v div 256 mod 256"
    by (metis mult_div_mod_eq)
  moreover have "v = 256 * (v div 256) + v mod 256" by simp
  ultimately show ?thesis unfolding 1 by linarith
qed

interpretation fU24: wire_field writeU24 readU24 u24_ok
  "\<lambda>v. [byte_of v, byte_of (v div 2 ^ 8), byte_of (v div 2 ^ 16)]"
proof unfold_locales
  fix v assume v: "u24_ok v"
  then have "0 \<le> v" "v < 2 ^ 31" by (auto simp: u24_ok_def)
  then have "[byte_of (js_and v 0xff), byte_of (js_and (js_shr v 8) 0xff),
      byte_of (js_and (js_shr v 16) 0xff)] = [byte_of v, byte_of (v div 2 ^ 8), byte_of (v div 2 ^ 16)]"
    using byte_of_js_and_255 [of v] byte_of_js_shr [of v 8] byte_of_js_shr [of v 16] by simp
  then show "emits (writeU24 v) [byte_of v, byte_of (v div 2 ^ 8), byte_of (v div 2 ^ 16)]"
    unfolding writeU24_def by (metis emits_w_put)
  show "parses readU24 [byte_of v, byte_of (v div 2 ^ 8), byte_of (v div 2 ^ 16)] v"
    unfolding readU24_def readU24_bits
    using u24_split [OF v] by (intro parses_fixed parses_ret) (simp_all add: uint_byte_of u24_top v)
qed

section \<open>Length-prefixed fields\<close>

lemma parses_readBytes: "n = int (length v) \<Longrightarrow> parses (readBytes n) v v"
  by (simp add: readBytes_def parses_slice)

text \<open>A payload after its length: the writes and the reads of every bounded field.\<close>

lemma emits_prefixed:
  assumes "emits f a"
  shows "emits (wseq [f, writeBytes v]) (a @ v)"
  using emits_wseq_Cons [OF assms emits_wseq_Cons [OF emits_w_put emits_wseq_Nil], of v]
  by (simp add: writeBytes_def)

lemma parses_prefixed:
  assumes "parses p a (int (length v))"
  shows "parses (rd_bind p readBytes) (a @ v) v"
  by (rule parses_bind [OF assms]) (simp add: parses_readBytes)

interpretation fB0_32: wire_field writeB0_32 readB0_32 "len_ok 32"
  "\<lambda>v. [byte_of (int (length v))] @ v"
proof unfold_locales
  fix v :: bytes assume v: "len_ok 32 v"
  then show "emits (writeB0_32 v) ([byte_of (int (length v))] @ v)"
    using emits_prefixed [OF emits_writeU8] by (simp add: writeB0_32_def len_ok_def)
  have "parses readU8 [byte_of (int (length v))] (int (length v))"
    using v by (intro parses_readU8) (simp add: len_ok_def u8_ok_def)
  then show "parses readB0_32 ([byte_of (int (length v))] @ v) v"
    unfolding readB0_32_def
    by (rule parses_bind) (use v in \<open>simp add: len_ok_def parses_readBytes\<close>)
qed

interpretation fB0_255: wire_field writeB0_255 readB0_255 "len_ok 255"
  "\<lambda>v. [byte_of (int (length v))] @ v"
proof unfold_locales
  fix v :: bytes assume v: "len_ok 255 v"
  then show "emits (writeB0_255 v) ([byte_of (int (length v))] @ v)"
    using emits_prefixed [OF emits_writeU8] by (simp add: writeB0_255_def len_ok_def)
  show "parses readB0_255 ([byte_of (int (length v))] @ v) v"
    unfolding readB0_255_def
    by (rule parses_prefixed, rule parses_readU8) (use v in \<open>simp add: len_ok_def u8_ok_def\<close>)
qed

interpretation fB0_64K: wire_field writeB0_64K readB0_64K "len_ok 65535"
  "\<lambda>v. le_bytes 2 (nat (int (length v))) @ v"
proof unfold_locales
  fix v :: bytes assume v: "len_ok 65535 v"
  then have n: "u16_ok (int (length v))" by (simp add: len_ok_def u16_ok_def)
  show "emits (writeB0_64K v) (le_bytes 2 (nat (int (length v))) @ v)"
    using emits_prefixed [OF fU16.wr_emits [OF n]] v by (simp add: writeB0_64K_def len_ok_def)
  show "parses readB0_64K (le_bytes 2 (nat (int (length v))) @ v) v"
    unfolding readB0_64K_def by (rule parses_prefixed [OF fU16.rd_parses [OF n]])
qed

interpretation fB0_16M: wire_field writeB0_16M readB0_16M "len_ok 16777215"
  "\<lambda>v. [byte_of (int (length v)), byte_of (int (length v) div 2 ^ 8),
       byte_of (int (length v) div 2 ^ 16)] @ v"
proof unfold_locales
  fix v :: bytes assume v: "len_ok 16777215 v"
  then have n: "u24_ok (int (length v))" by (simp add: len_ok_def u24_ok_def)
  let ?a = "[byte_of (int (length v)), byte_of (int (length v) div 2 ^ 8),
       byte_of (int (length v) div 2 ^ 16)]"
  show "emits (writeB0_16M v) (?a @ v)"
    using emits_prefixed [OF fU24.wr_emits [OF n]] v by (simp add: writeB0_16M_def len_ok_def)
  show "parses readB0_16M (?a @ v) v"
    unfolding readB0_16M_def by (rule parses_prefixed [OF fU24.rd_parses [OF n]])
qed

interpretation fStr: wire_field writeStr0_255 readStr0_255 str_ok
  "\<lambda>s. [byte_of (int (length (utf8_encode s)))] @ utf8_encode s @ []"
proof unfold_locales
  fix s assume s: "str_ok s"
  then show "emits (writeStr0_255 s) ([byte_of (int (length (utf8_encode s)))] @ utf8_encode s @ [])"
    using emits_prefixed [OF emits_writeU8]
    by (simp add: writeStr0_255_def str_ok_def Let_def)
  show "parses readStr0_255 ([byte_of (int (length (utf8_encode s)))] @ utf8_encode s @ []) s"
    unfolding readStr0_255_def using s
    by (intro parses_bind [OF parses_readU8] parses_bind [OF parses_readBytes] parses_ret)
      (auto simp: str_ok_def u8_ok_def utf8_roundtrip)
qed

text \<open>The writes that check a bound reject what exceeds it.\<close>

lemma rejects_bounded:
  "\<not> len_ok 32 v \<Longrightarrow> rejects (writeB0_32 v)"
  "\<not> len_ok 255 v \<Longrightarrow> rejects (writeB0_255 v)"
  "\<not> len_ok 65535 v \<Longrightarrow> rejects (writeB0_64K v)"
  "\<not> len_ok 16777215 v \<Longrightarrow> rejects (writeB0_16M v)"
  "length (utf8_encode s) > 255 \<Longrightarrow> rejects (writeStr0_255 s)"
  by (simp_all add: len_ok_def writeB0_32_def writeB0_255_def writeB0_64K_def writeB0_16M_def
      writeStr0_255_def Let_def)

section \<open>Sequences\<close>

context wire_field begin

lemma emits_Seq0_255:
  assumes "seq_ok 255 ok vs"
  shows "emits (writeSeq0_255 vs wr) ([byte_of (int (length vs))] @ concat (map enc vs))"
  using emits_wseq_Cons [OF emits_writeU8 emits_seq] assms
  by (simp add: writeSeq0_255_def seq_ok_def)

lemma parses_Seq0_255:
  assumes "seq_ok 255 ok vs"
  shows "parses (readSeq0_255 rd) ([byte_of (int (length vs))] @ concat (map enc vs)) vs"
  unfolding readSeq0_255_def
  by (rule parses_bind, rule parses_readU8)
    (use assms parses_seq in \<open>auto simp: seq_ok_def u8_ok_def\<close>)

lemma emits_Seq0_64K:
  assumes "seq_ok 65535 ok vs"
  shows "emits (writeSeq0_64K vs wr) (le_bytes 2 (nat (int (length vs))) @ concat (map enc vs))"
proof -
  have "u16_ok (int (length vs))" using assms by (simp add: seq_ok_def u16_ok_def)
  from emits_wseq_Cons [OF fU16.wr_emits [OF this] emits_seq] assms show ?thesis
    by (simp add: writeSeq0_64K_def seq_ok_def)
qed

lemma parses_Seq0_64K:
  assumes "seq_ok 65535 ok vs"
  shows "parses (readSeq0_64K rd) (le_bytes 2 (nat (int (length vs))) @ concat (map enc vs)) vs"
  unfolding readSeq0_64K_def
  by (rule parses_bind, rule fU16.rd_parses)
    (use assms parses_seq in \<open>auto simp: seq_ok_def u16_ok_def\<close>)

end

section \<open>The rule bundles the message proofs use\<close>

lemmas field_emits = emits_wseq_Cons emits_wseq_Nil emits_writeBool fU8.wr_emits fU16.wr_emits
  fU24.wr_emits fU32.wr_emits fU64.wr_emits fF32.wr_emits fU256.wr_emits fOptU32.wr_emits
  fB0_32.wr_emits fB0_255.wr_emits fB0_64K.wr_emits fB0_16M.wr_emits fStr.wr_emits
  fU256.emits_Seq0_255 fU256.emits_Seq0_64K fU16.emits_Seq0_64K fU32.emits_Seq0_64K
  fB0_16M.emits_Seq0_64K

lemmas field_parses = parses_bind parses_ret parses_readBool fU8.rd_parses fU16.rd_parses
  fU24.rd_parses fU32.rd_parses fU64.rd_parses fF32.rd_parses fU256.rd_parses fOptU32.rd_parses
  fB0_32.rd_parses fB0_255.rd_parses fB0_64K.rd_parses fB0_16M.rd_parses fStr.rd_parses
  fU256.parses_Seq0_255 fU256.parses_Seq0_64K fU16.parses_Seq0_64K fU32.parses_Seq0_64K
  fB0_16M.parses_Seq0_64K

end
