(* ===== verification/Sv2Frame.thy ===== *)
theory Sv2Frame
  imports WireFields
begin

text \<open>
  \<open>src/models/sv2/sv2-frame.ts\<close>: frame headers, the sizes of encrypted payloads, the frame
  reader that reassembles frames from TCP segments, and the frame writer.

  The reader's \<open>DecryptFn\<close> and the writer's \<open>EncryptFn\<close> are closures over a Noise session that
  counts nonces, so here they are functions of an explicit cipher state which the reader and the
  writer carry. An exception of either is \<open>Inl\<close>; the connection handlers close the socket on it.
\<close>

section \<open>Constants (\<open>sv2-constants.ts\<close>)\<close>

definition SV2_HEADER_SIZE :: nat where "SV2_HEADER_SIZE = 6"
definition SV2_MAC_SIZE :: nat where "SV2_MAC_SIZE = 16"
definition SV2_ENCRYPTED_HEADER_SIZE :: nat where
  "SV2_ENCRYPTED_HEADER_SIZE = SV2_HEADER_SIZE + SV2_MAC_SIZE"
definition SV2_MAX_PLAINTEXT_CHUNK :: nat where "SV2_MAX_PLAINTEXT_CHUNK = 65519"
definition SV2_CHANNEL_MSG_FLAG :: int where "SV2_CHANNEL_MSG_FLAG = 0x8000"

lemmas frame_sizes = SV2_HEADER_SIZE_def SV2_MAC_SIZE_def SV2_ENCRYPTED_HEADER_SIZE_def
  SV2_MAX_PLAINTEXT_CHUNK_def

section \<open>Frame headers\<close>

record Sv2FrameHeader =
  extensionType :: int
  msgType :: int
  msgLength :: int

definition encodeFrameHeader :: "Sv2FrameHeader \<Rightarrow> bytes result" where
  "encodeFrameHeader header =
     (if 0 \<le> extensionType header \<and> extensionType header < 2 ^ 16 then
        Inr (le_bytes 2 (nat (extensionType header)) @
          [byte_of (js_and (msgType header) 0xff),
           byte_of (js_and (msgLength header) 0xff),
           byte_of (js_and (js_shr (msgLength header) 8) 0xff),
           byte_of (js_and (js_shr (msgLength header) 16) 0xff)])
      else Inl RangeError)"

definition decodeFrameHeader :: "bytes \<Rightarrow> Sv2FrameHeader result" where
  "decodeFrameHeader buf =
     (if length buf < SV2_HEADER_SIZE then Inl RangeError
      else Inr \<lparr>extensionType = int (le_nat (take 2 buf)), msgType = uint (buf ! 2),
        msgLength = js_or (js_or (uint (buf ! 3)) (js_shl (uint (buf ! 4)) 8))
          (js_shl (uint (buf ! 5)) 16)\<rparr>)"

definition isChannelMessage :: "Sv2FrameHeader \<Rightarrow> bool" where
  "isChannelMessage header \<longleftrightarrow> js_and (extensionType header) SV2_CHANNEL_MSG_FLAG \<noteq> 0"

definition header_ok :: "Sv2FrameHeader \<Rightarrow> bool" where
  "header_ok h \<longleftrightarrow> u16_ok (extensionType h) \<and> u8_ok (msgType h) \<and> u24_ok (msgLength h)"

lemma encodeFrameHeader_length: "encodeFrameHeader h = Inr bs \<Longrightarrow> length bs = 6"
  by (auto simp: encodeFrameHeader_def split: if_splits)

lemma encodeFrameHeader_ok:
  assumes "header_ok h"
  shows "encodeFrameHeader h = Inr (le_bytes 2 (nat (extensionType h)) @ [byte_of (msgType h),
     byte_of (msgLength h), byte_of (msgLength h div 2 ^ 8), byte_of (msgLength h div 2 ^ 16)])"
  using assms byte_of_js_and_255 [of "msgLength h"] byte_of_js_and_255 [of "msgType h"]
    byte_of_js_shr [of "msgLength h" 8] byte_of_js_shr [of "msgLength h" 16]
  by (simp add: encodeFrameHeader_def header_ok_def u16_ok_def u24_ok_def)

lemma header_roundtrip:
  assumes "header_ok h" "encodeFrameHeader h = Inr bs"
  shows "decodeFrameHeader bs = Inr h"
proof -
  let ?e = "le_bytes 2 (nat (extensionType h))"
  have bs: "bs = ?e @ [byte_of (msgType h), byte_of (msgLength h),
      byte_of (msgLength h div 2 ^ 8), byte_of (msgLength h div 2 ^ 16)]"
    using assms encodeFrameHeader_ok by simp
  have nth: "bs ! 2 = byte_of (msgType h)" "bs ! 3 = byte_of (msgLength h)"
    "bs ! 4 = byte_of (msgLength h div 2 ^ 8)" "bs ! 5 = byte_of (msgLength h div 2 ^ 16)"
    unfolding bs by (simp_all add: nth_append)
  have len: "u24_ok (msgLength h)" and ty: "u8_ok (msgType h)" and ex: "u16_ok (extensionType h)"
    using assms(1) by (simp_all add: header_ok_def)
  have "take 2 bs = ?e" unfolding bs by simp
  moreover have "le_nat ?e = nat (extensionType h)"
    using ex by (intro le_nat_le_bytes_id) (auto simp: u16_ok_def)
  ultimately have e: "int (le_nat (take 2 bs)) = extensionType h"
    using ex by (simp add: u16_ok_def)
  have t: "uint (bs ! 2) = msgType h"
    using ty by (simp add: nth uint_byte_of u8_ok_def)
  have l: "uint (bs ! 3) + 256 * uint (bs ! 4) + 65536 * uint (bs ! 5) = msgLength h"
    unfolding nth using u24_split [OF len] u24_top [OF len] by (simp add: uint_byte_of)
  have "length bs = 6" unfolding bs by simp
  then have "decodeFrameHeader bs = Inr \<lparr>extensionType = extensionType h, msgType = msgType h,
      msgLength = msgLength h\<rparr>"
    unfolding decodeFrameHeader_def readU24_bits e t l by (simp add: frame_sizes)
  then show ?thesis by simp
qed

lemma decodeFrameHeader_range:
  assumes "decodeFrameHeader bs = Inr h"
  shows "header_ok h"
proof -
  let ?l = "uint (bs ! 3) + 256 * uint (bs ! 4) + 65536 * uint (bs ! 5)"
  have lt: "uint (bs ! 3) < 256" "uint (bs ! 4) < 256" "uint (bs ! 5) < 256" "uint (bs ! 2) < 256"
    using uint_lt2p [of "bs ! 3"] uint_lt2p [of "bs ! 4"] uint_lt2p [of "bs ! 5"]
      uint_lt2p [of "bs ! 2"] by simp_all
  have "0 \<le> ?l" "?l < 2 ^ 24"
    using lt uint_ge_0 [of "bs ! 3"] uint_ge_0 [of "bs ! 4"] uint_ge_0 [of "bs ! 5"] by simp_all
  moreover have "2 \<le> length bs" and h: "h = \<lparr>extensionType = int (le_nat (take 2 bs)),
      msgType = uint (bs ! 2), msgLength = ?l\<rparr>"
    using assms by (auto simp: decodeFrameHeader_def readU24_bits frame_sizes split: if_splits)
  then have "le_nat (take 2 bs) < 2 ^ 16"
    using le_nat_less [of "take 2 bs"] by simp
  ultimately show ?thesis
    using lt by (simp add: h header_ok_def u8_ok_def u16_ok_def u24_ok_def)
qed

section \<open>Sizes of encrypted payloads\<close>

definition plaintextToCiphertextLength :: "nat \<Rightarrow> nat" where
  "plaintextToCiphertextLength plaintextLen =
     (if plaintextLen = 0 then 0
      else (let fullChunks = plaintextLen div SV2_MAX_PLAINTEXT_CHUNK;
                remainder = plaintextLen mod SV2_MAX_PLAINTEXT_CHUNK;
                len = fullChunks * (SV2_MAX_PLAINTEXT_CHUNK + SV2_MAC_SIZE)
            in if remainder > 0 then len + (remainder + SV2_MAC_SIZE) else len))"

definition ciphertextToPlaintextLength :: "nat \<Rightarrow> nat result" where
  "ciphertextToPlaintextLength ciphertextLen =
     (if ciphertextLen = 0 then Inr 0
      else (let chunkSize = SV2_MAX_PLAINTEXT_CHUNK + SV2_MAC_SIZE;
                fullChunks = ciphertextLen div chunkSize;
                remainder = ciphertextLen mod chunkSize;
                len = fullChunks * SV2_MAX_PLAINTEXT_CHUNK
            in if remainder > 0 then
                 (if remainder \<le> SV2_MAC_SIZE then Inl RangeError
                  else Inr (len + (remainder - SV2_MAC_SIZE)))
               else Inr len))"

section \<open>The frame reader\<close>

record ParsedFrame =
  header :: Sv2FrameHeader
  payload :: bytes

datatype ReaderState = READING_HEADER | READING_PAYLOAD

type_synonym 'c cipherFn = "'c \<Rightarrow> bytes \<Rightarrow> (bytes \<times> 'c) result"

record 'c frameReader =
  decryptFn :: "'c cipherFn option"
  fr_cipher :: 'c
  fr_buf :: bytes
  fr_state :: ReaderState
  currentHeader :: "Sv2FrameHeader option"

definition newFrameReader :: "'c cipherFn option \<Rightarrow> 'c \<Rightarrow> 'c frameReader" where
  "newFrameReader fn c = \<lparr>decryptFn = fn, fr_cipher = c, fr_buf = [], fr_state = READING_HEADER,
     currentHeader = None\<rparr>"

definition setDecryptFn :: "'c cipherFn \<Rightarrow> 'c \<Rightarrow> 'c frameReader \<Rightarrow> 'c frameReader" where
  "setDecryptFn fn c r = r\<lparr>decryptFn := Some fn, fr_cipher := c\<rparr>"

definition headerSize :: "'c frameReader \<Rightarrow> nat" where
  "headerSize r = (case decryptFn r of None \<Rightarrow> SV2_HEADER_SIZE | Some _ \<Rightarrow> SV2_ENCRYPTED_HEADER_SIZE)"

text \<open>The chunk loop of \<open>decryptPayloadChunks\<close>: up to 65535 bytes at a time.\<close>

function decryptPayloadChunks :: "'c cipherFn \<Rightarrow> 'c \<Rightarrow> bytes \<Rightarrow> (bytes \<times> 'c) result" where
  "decryptPayloadChunks dec c ciphertext =
     (if ciphertext = [] then Inr ([], c)
      else rbind (dec c (take (SV2_MAX_PLAINTEXT_CHUNK + SV2_MAC_SIZE) ciphertext)) (\<lambda>(part, c1).
           rbind (decryptPayloadChunks dec c1
             (drop (SV2_MAX_PLAINTEXT_CHUNK + SV2_MAC_SIZE) ciphertext)) (\<lambda>(parts, c2).
           Inr (part @ parts, c2))))"
  by pat_completeness auto
termination
  by (relation "measure (\<lambda>(dec, c, ciphertext). length ciphertext)") (auto simp: frame_sizes)

declare decryptPayloadChunks.simps [simp del]

text \<open>
  One pass of the \<open>while\<close> loop of \<open>feed\<close> is a header phase and a payload phase. A phase that
  breaks out of the loop gives \<open>Inr None\<close>.
\<close>

definition headerPhase :: "'c frameReader \<Rightarrow> 'c frameReader option result" where
  "headerPhase r =
     (case fr_state r of
        READING_PAYLOAD \<Rightarrow> Inr (Some r)
      | READING_HEADER \<Rightarrow>
          if length (fr_buf r) < headerSize r then Inr None
          else rbind (case decryptFn r of
                 Some dec \<Rightarrow> dec (fr_cipher r) (take SV2_ENCRYPTED_HEADER_SIZE (fr_buf r))
               | None \<Rightarrow> Inr (take SV2_HEADER_SIZE (fr_buf r), fr_cipher r)) (\<lambda>(headerBytes, c).
               rbind (decodeFrameHeader headerBytes) (\<lambda>h.
               Inr (Some (r\<lparr>fr_cipher := c, currentHeader := Some h,
                 fr_buf := drop (headerSize r) (fr_buf r), fr_state := READING_PAYLOAD\<rparr>)))))"

definition payloadWireLen :: "'c frameReader \<Rightarrow> Sv2FrameHeader \<Rightarrow> nat" where
  "payloadWireLen r h =
     (case decryptFn r of
        Some _ \<Rightarrow> plaintextToCiphertextLength (nat (msgLength h))
      | None \<Rightarrow> nat (msgLength h))"

text \<open>\<open>this.currentHeader!\<close> is null only in the header state, where this phase is not reached.\<close>

definition payloadPhase :: "'c frameReader \<Rightarrow> (ParsedFrame \<times> 'c frameReader) option result" where
  "payloadPhase r =
     (case currentHeader r of
        None \<Rightarrow> Inl TypeError
      | Some h \<Rightarrow>
          let n = payloadWireLen r h in
          if length (fr_buf r) < n then Inr None
          else rbind (case decryptFn r of
                 Some dec \<Rightarrow> if n > 0 then decryptPayloadChunks dec (fr_cipher r) (take n (fr_buf r))
                             else Inr ([], fr_cipher r)
               | None \<Rightarrow> Inr (take n (fr_buf r), fr_cipher r)) (\<lambda>(p, c).
               Inr (Some (\<lparr>header = h, payload = p\<rparr>, r\<lparr>fr_cipher := c,
                 fr_buf := drop n (fr_buf r), currentHeader := None, fr_state := READING_HEADER\<rparr>))))"

lemma headerPhase_shrinks:
  assumes "headerPhase r = Inr (Some r1)"
  shows "fr_state r1 = READING_PAYLOAD \<and> decryptFn r1 = decryptFn r
     \<and> (fr_state r = READING_HEADER \<longrightarrow> length (fr_buf r1) + 6 \<le> length (fr_buf r))
     \<and> (fr_state r = READING_PAYLOAD \<longrightarrow> r1 = r)"
  using assms
  by (auto simp: headerPhase_def headerSize_def frame_sizes rbind_Inr_iff
      split: ReaderState.splits if_splits option.splits)

lemma payloadPhase_shrinks:
  assumes "payloadPhase r = Inr (Some (f, r2))"
  shows "fr_state r2 = READING_HEADER \<and> decryptFn r2 = decryptFn r \<and> currentHeader r2 = None
     \<and> length (fr_buf r2) \<le> length (fr_buf r)"
  using assms
  by (auto simp: payloadPhase_def Let_def rbind_Inr_iff split: option.splits if_splits)

function feedLoop :: "'c frameReader \<Rightarrow> ParsedFrame list \<Rightarrow> ('c frameReader \<times> ParsedFrame list) result" where
  "feedLoop r frames =
     (case headerPhase r of
        Inl e \<Rightarrow> Inl e
      | Inr None \<Rightarrow> Inr (r, frames)
      | Inr (Some r1) \<Rightarrow>
          (case payloadPhase r1 of
             Inl e \<Rightarrow> Inl e
           | Inr None \<Rightarrow> Inr (r1, frames)
           | Inr (Some (frame, r2)) \<Rightarrow> feedLoop r2 (frames @ [frame])))"
  by pat_completeness auto
termination
proof (relation "measure (\<lambda>(r, frames). 2 * length (fr_buf r)
    + (case fr_state r of READING_HEADER \<Rightarrow> 0 | READING_PAYLOAD \<Rightarrow> 1))")
  fix r :: "'c frameReader" and frames hp r1 pp pair frame r2
  assume "headerPhase r = Inr hp" "hp = Some r1" "payloadPhase r1 = Inr pp" "pp = Some pair"
    "(frame, r2) = pair"
  then have h: "headerPhase r = Inr (Some r1)" and p: "payloadPhase r1 = Inr (Some (frame, r2))"
    by simp_all
  from headerPhase_shrinks [OF h] payloadPhase_shrinks [OF p]
  show "((r2, frames @ [frame]), r, frames) \<in> measure (\<lambda>(r, frames). 2 * length (fr_buf r)
      + (case fr_state r of READING_HEADER \<Rightarrow> 0 | READING_PAYLOAD \<Rightarrow> 1))"
    by (cases "fr_state r") auto
qed simp

declare feedLoop.simps [simp del]

definition feed :: "bytes \<Rightarrow> 'c frameReader \<Rightarrow> ('c frameReader \<times> ParsedFrame list) result" where
  "feed data r = feedLoop (r\<lparr>fr_buf := fr_buf r @ data\<rparr>) []"

section \<open>The frame writer\<close>

function encryptChunks :: "'c cipherFn \<Rightarrow> 'c \<Rightarrow> bytes \<Rightarrow> (bytes \<times> 'c) result" where
  "encryptChunks enc c plain =
     (if plain = [] then Inr ([], c)
      else rbind (enc c (take SV2_MAX_PLAINTEXT_CHUNK plain)) (\<lambda>(part, c1).
           rbind (encryptChunks enc c1 (drop SV2_MAX_PLAINTEXT_CHUNK plain)) (\<lambda>(parts, c2).
           Inr (part @ parts, c2))))"
  by pat_completeness auto
termination
  by (relation "measure (\<lambda>(enc, c, plain). length plain)") (auto simp: frame_sizes)

declare encryptChunks.simps [simp del]

record 'c frameWriter =
  encryptFn :: "'c cipherFn option"
  fw_cipher :: 'c

definition setEncryptFn :: "'c cipherFn \<Rightarrow> 'c \<Rightarrow> 'c frameWriter \<Rightarrow> 'c frameWriter" where
  "setEncryptFn fn c w = w\<lparr>encryptFn := Some fn, fw_cipher := c\<rparr>"

definition writeFrame ::
    "Sv2FrameHeader \<Rightarrow> bytes \<Rightarrow> 'c frameWriter \<Rightarrow> (bytes \<times> 'c frameWriter) result" where
  "writeFrame h p w =
     rbind (encodeFrameHeader h) (\<lambda>headerBuf.
       case encryptFn w of
         None \<Rightarrow> Inr (headerBuf @ p, w)
       | Some enc \<Rightarrow>
           rbind (enc (fw_cipher w) headerBuf) (\<lambda>(encHeader, c1).
           rbind (encryptChunks enc c1 p) (\<lambda>(parts, c2).
           Inr (encHeader @ parts, w\<lparr>fw_cipher := c2\<rparr>))))"

section \<open>Sizes: the two conversions are inverse\<close>

lemma ciphertext_of_plaintext_length:
  "ciphertextToPlaintextLength (plaintextToCiphertextLength n) = Inr n"
proof -
  let ?q = "n div 65519" and ?m = "n mod 65519"
  have n: "n = ?q * 65519 + ?m" by simp
  have m: "?m < 65519" by simp
  have "(?q * 65535 + (?m + 16)) div 65535 = ?q \<and> (?q * 65535 + (?m + 16)) mod 65535 = ?m + 16"
    if "0 < ?m" using m by (simp add: div_nat_eqI mod_nat_eqI)
  then show ?thesis
    using n by (auto simp: plaintextToCiphertextLength_def ciphertextToPlaintextLength_def
        frame_sizes Let_def)
qed

lemma plaintextToCiphertextLength_chunk:
  assumes "0 < n"
  shows "plaintextToCiphertextLength n
     = min n SV2_MAX_PLAINTEXT_CHUNK + SV2_MAC_SIZE
       + plaintextToCiphertextLength (n - SV2_MAX_PLAINTEXT_CHUNK)"
proof (cases "n < 65519")
  case True
  with assms show ?thesis by (simp add: plaintextToCiphertextLength_def frame_sizes)
next
  case False
  then obtain k where k: "n = 65519 + k" using le_Suc_ex [of 65519 n] by auto
  have "(65519 + k) div 65519 = Suc (k div 65519)" "(65519 + k) mod 65519 = k mod 65519"
    using div_add_self1 [of 65519 k] by simp_all
  then show ?thesis
    by (simp add: k plaintextToCiphertextLength_def frame_sizes Let_def)
qed

lemma plaintextToCiphertextLength_mono_bound:
  assumes "n < 2 ^ 24"
  shows "plaintextToCiphertextLength n \<le> 16781327"
proof -
  let ?q = "n div 65519" and ?m = "n mod 65519"
  have n: "n = ?q * 65519 + ?m" by simp
  have "?q \<le> 256" using assms by simp
  then have "?q * 16 \<le> 4096" by simp
  moreover have "plaintextToCiphertextLength n \<le> n + ?q * 16 + 16"
    using n by (auto simp: plaintextToCiphertextLength_def frame_sizes Let_def)
  moreover have "n \<le> 16777215" using assms by simp
  ultimately show ?thesis by simp
qed

section \<open>Segments\<close>

definition append_input :: "bytes \<Rightarrow> 'c frameReader \<Rightarrow> 'c frameReader" where
  "append_input b r = r\<lparr>fr_buf := fr_buf r @ b\<rparr>"

lemma append_input_sel [simp]:
  "fr_buf (append_input b r) = fr_buf r @ b"
  "fr_state (append_input b r) = fr_state r"
  "decryptFn (append_input b r) = decryptFn r"
  "fr_cipher (append_input b r) = fr_cipher r"
  "currentHeader (append_input b r) = currentHeader r"
  "headerSize (append_input b r) = headerSize r"
  "payloadWireLen (append_input b r) h = payloadWireLen r h"
  by (simp_all add: append_input_def headerSize_def payloadWireLen_def)

lemma payloadWireLen_buf [simp]: "payloadWireLen (r\<lparr>fr_buf := x\<rparr>) h = payloadWireLen r h"
  by (simp add: payloadWireLen_def)

lemma append_input_append: "append_input (a @ b) r = append_input b (append_input a r)"
  by (simp add: append_input_def)

lemma headerPhase_more:
  assumes "headerPhase r \<noteq> Inr None"
  shows "headerPhase (append_input b r)
     = rmap (map_option (append_input b)) (headerPhase r)"
proof (cases "fr_state r")
  case READING_PAYLOAD
  then show ?thesis by (simp add: headerPhase_def)
next
  case READING_HEADER
  with assms have "headerSize r \<le> length (fr_buf r)"
    by (auto simp: headerPhase_def split: if_splits)
  then show ?thesis
    using READING_HEADER
    by (auto simp: headerPhase_def headerSize_def append_input_def rbind_def rmap_def frame_sizes
        split: option.splits sum.splits)
qed

lemma payloadPhase_more:
  assumes "payloadPhase r \<noteq> Inr None"
  shows "payloadPhase (append_input b r)
     = rmap (map_option (map_prod id (append_input b))) (payloadPhase r)"
proof (cases "currentHeader r")
  case None
  then show ?thesis by (simp add: payloadPhase_def)
next
  case (Some h)
  with assms have "payloadWireLen r h \<le> length (fr_buf r)"
    by (auto simp: payloadPhase_def Let_def split: if_splits)
  then show ?thesis
    using Some
    by (auto simp: payloadPhase_def Let_def append_input_def rbind_def rmap_def
        split: option.splits sum.splits)
qed

text \<open>Resuming the loop after a segment is the same as having had the later bytes all along.\<close>

lemma feedLoop_more:
  "feedLoop (append_input b r) frames
     = rbind (feedLoop r frames) (\<lambda>(r1, fs). feedLoop (append_input b r1) fs)"
proof (induction r frames rule: feedLoop.induct)
  case (1 r frames)
  show ?case
  proof (cases "headerPhase r")
    case (Inl e)
    with headerPhase_more [of r b] have "headerPhase (append_input b r) = Inl e" by simp
    with Inl show ?thesis by (simp add: feedLoop.simps [of r] feedLoop.simps [of "append_input b r"])
  next
    case (Inr hp)
    show ?thesis
    proof (cases hp)
      case None
      with Inr show ?thesis by (simp add: feedLoop.simps [of r])
    next
      case (Some r1)
      with Inr have h: "headerPhase r = Inr (Some r1)" by simp
      with headerPhase_more [of r b]
      have hb: "headerPhase (append_input b r) = Inr (Some (append_input b r1))" by simp
      have stay: "headerPhase (append_input b r1) = Inr (Some (append_input b r1))"
        using headerPhase_shrinks [OF h] by (simp add: headerPhase_def)
      show ?thesis
      proof (cases "payloadPhase r1")
        case (Inl e)
        with payloadPhase_more [of r1 b] have "payloadPhase (append_input b r1) = Inl e" by simp
        with Inl h hb show ?thesis
          by (simp add: feedLoop.simps [of r] feedLoop.simps [of "append_input b r"])
      next
        case (Inr pp)
        show ?thesis
        proof (cases pp)
          case None
          with Inr h hb stay show ?thesis
            by (simp add: feedLoop.simps [of r] feedLoop.simps [of "append_input b r"]
                feedLoop.simps [of "append_input b r1"])
        next
          case (Some fr)
          obtain f r2 where fr: "fr = (f, r2)" by (cases fr)
          with Inr Some have p: "payloadPhase r1 = Inr (Some (f, r2))" by simp
          with payloadPhase_more [of r1 b]
          have pb: "payloadPhase (append_input b r1) = Inr (Some (f, append_input b r2))" by simp
          from 1 [OF h refl p refl refl] h hb p pb show ?thesis
            by (simp add: feedLoop.simps [of r] feedLoop.simps [of "append_input b r"])
        qed
      qed
    qed
  qed
qed

lemma feedLoop_acc:
  "feedLoop r (gs @ frames) = rmap (map_prod id ((@) gs)) (feedLoop r frames)"
proof (induction r frames rule: feedLoop.induct)
  case (1 r frames)
  show ?case
  proof (cases "\<exists>r1 f r2. headerPhase r = Inr (Some r1) \<and> payloadPhase r1 = Inr (Some (f, r2))")
    case True
    then obtain r1 f r2 where h: "headerPhase r = Inr (Some r1)"
      and p: "payloadPhase r1 = Inr (Some (f, r2))" by blast
    from 1 [OF h refl p refl refl] h p show ?thesis
      by (simp add: feedLoop.simps [of r])
  next
    case False
    then show ?thesis
      by (auto simp: feedLoop.simps [of r] split: sum.splits option.splits)
  qed
qed

lemma feed_append_input: "feed data r = feedLoop (append_input data r) []"
  by (simp add: feed_def append_input_def)

lemma feed_append:
  "feed (a @ b) r
     = rbind (feed a r) (\<lambda>(r1, fs1). rbind (feed b r1) (\<lambda>(r2, fs2). Inr (r2, fs1 @ fs2)))"
proof -
  have acc: "feedLoop r1 fs1 = rbind (feedLoop r1 []) (\<lambda>(r2, fs2). Inr (r2, fs1 @ fs2))"
    for r1 :: "'a frameReader" and fs1
    using feedLoop_acc [of r1 fs1 "[]"] by (cases "feedLoop r1 []") (auto simp: map_prod_def split_def)
  show ?thesis
    unfolding feed_append_input append_input_append feedLoop_more [of b "append_input a r"]
    by (cases "feedLoop (append_input a r) []") (auto intro: acc)
qed

text \<open>A connection's data handler over the segments of a TCP stream.\<close>

primrec feedSegments :: "bytes list \<Rightarrow> 'c frameReader \<Rightarrow> ('c frameReader \<times> ParsedFrame list) result" where
  "feedSegments [] r = Inr (r, [])"
| "feedSegments (seg # segs) r =
     rbind (feed seg r) (\<lambda>(r1, fs1). rbind (feedSegments segs r1) (\<lambda>(r2, fs2). Inr (r2, fs1 @ fs2)))"

lemma feedSegments_append:
  "feedSegments (xs @ ys) r
     = rbind (feedSegments xs r) (\<lambda>(r1, fs1). rbind (feedSegments ys r1) (\<lambda>(r2, fs2). Inr (r2, fs1 @ fs2)))"
proof (induction xs arbitrary: r)
  case Nil
  then show ?case by (cases "feedSegments ys r") auto
next
  case (Cons x xs)
  then show ?case by (cases "feed x r") (auto simp: rbind_def split: sum.splits)
qed

text \<open>\<open>feed\<close> of nothing on a reader that has stopped changes nothing.\<close>

definition idle :: "'c frameReader \<Rightarrow> bool" where
  "idle r \<longleftrightarrow> feedLoop r [] = Inr (r, [])"

lemma feedLoop_idle: "feedLoop r frames = Inr (r1, fs) \<Longrightarrow> idle r1"
proof (induction r frames rule: feedLoop.induct)
  case (1 r frames)
  show ?case
  proof (cases "\<exists>r1 f r2. headerPhase r = Inr (Some r1) \<and> payloadPhase r1 = Inr (Some (f, r2))")
    case True
    then obtain r2 f r3 where h: "headerPhase r = Inr (Some r2)"
      and p: "payloadPhase r2 = Inr (Some (f, r3))" by blast
    from "1.IH" [OF h refl p refl refl] "1.prems" h p show ?thesis
      by (simp add: feedLoop.simps [of r])
  next
    case False
    show ?thesis
    proof (cases "headerPhase r = Inr None")
      case True
      with "1.prems" have "r1 = r" by (simp add: feedLoop.simps [of r])
      with True show ?thesis by (simp add: feedLoop.simps [of r "[]"] idle_def)
    next
      case nn: False
      with False "1.prems" have h: "headerPhase r = Inr (Some r1)" and p: "payloadPhase r1 = Inr None"
        by (auto simp: feedLoop.simps [of r] split: sum.splits option.splits)
      have "headerPhase r1 = Inr (Some r1)"
        using headerPhase_shrinks [OF h] by (simp add: headerPhase_def)
      with p show ?thesis by (simp add: feedLoop.simps [of r1] idle_def)
    qed
  qed
qed

lemma feedSegments_concat:
  assumes "idle r"
  shows "feedSegments segs r = feed (concat segs) r"
  using assms
proof (induction segs arbitrary: r)
  case Nil
  then show ?case by (simp add: feed_def idle_def)
next
  case (Cons seg segs)
  have "feedSegments segs r1 = feed (concat segs) r1" if "feed seg r = Inr (r1, fs)" for r1 fs
    using that feedLoop_idle by (intro Cons.IH) (auto simp: feed_def)
  then show ?case
    by (cases "feed seg r") (auto simp: feed_append [of seg "concat segs" r])
qed

lemma idle_newFrameReader: "idle (newFrameReader fn c)"
  by (cases fn) (simp_all add: idle_def newFrameReader_def feedLoop.simps headerPhase_def
      headerSize_def frame_sizes)

lemma headerPhase_header_ok:
  assumes "headerPhase r = Inr (Some r1)" "currentHeader r1 = Some h"
    and "\<And>h. currentHeader r = Some h \<Longrightarrow> header_ok h"
  shows "header_ok h"
  using assms decodeFrameHeader_range
  by (auto simp: headerPhase_def rbind_Inr_iff split: ReaderState.splits if_splits option.splits)

lemma feedLoop_retains:
  assumes "feedLoop r frames = Inr (r1, fs)" and "\<And>h. currentHeader r = Some h \<Longrightarrow> header_ok h"
  shows "length (fr_buf r1) \<le> 16781327"
  using assms
proof (induction r frames rule: feedLoop.induct)
  case (1 r frames)
  show ?case
  proof (cases "\<exists>r1 f r2. headerPhase r = Inr (Some r1) \<and> payloadPhase r1 = Inr (Some (f, r2))")
    case True
    then obtain r2 f r3 where h: "headerPhase r = Inr (Some r2)"
      and p: "payloadPhase r2 = Inr (Some (f, r3))" by blast
    from "1.IH" [OF h refl p refl refl] "1.prems" h p payloadPhase_shrinks [OF p] show ?thesis
      by (simp add: feedLoop.simps [of r])
  next
    case False
    show ?thesis
    proof (cases "headerPhase r = Inr None")
      case True
      with "1.prems" have "r1 = r" by (auto simp: feedLoop.simps [of r])
      moreover have "length (fr_buf r) < 22"
        using True by (auto simp: headerPhase_def headerSize_def frame_sizes rbind_Inr_iff
            split: ReaderState.splits if_splits option.splits)
      ultimately show ?thesis by simp
    next
      case nn: False
      with False "1.prems" have h: "headerPhase r = Inr (Some r1)" and p: "payloadPhase r1 = Inr None"
        by (auto simp: feedLoop.simps [of r] split: sum.splits option.splits)
      from p obtain hh where hh: "currentHeader r1 = Some hh" "length (fr_buf r1) < payloadWireLen r1 hh"
        by (auto simp: payloadPhase_def Let_def rbind_Inr_iff split: option.splits if_splits)
      have "header_ok hh" by (rule headerPhase_header_ok [OF h hh(1) "1.prems"(2)])
      then have n: "nat (msgLength hh) < 2 ^ 24" by (auto simp: header_ok_def u24_ok_def)
      with plaintextToCiphertextLength_mono_bound [OF n]
      have "payloadWireLen r1 hh \<le> 16781327"
        by (auto simp: payloadWireLen_def split: option.splits)
      with hh show ?thesis by simp
    qed
  qed
qed

lemma feed_retains:
  assumes "feed data r = Inr (r1, fs)" and "\<And>h. currentHeader r = Some h \<Longrightarrow> header_ok h"
  shows "length (fr_buf r1) \<le> 16781327"
  using feedLoop_retains [of "append_input data r" "[]"] assms by (simp add: feed_append_input)

section \<open>Delivery\<close>

text \<open>
  What the frame layer relies on of its cipher: a ciphertext is 16 bytes longer than its plaintext,
  and the two ends, each advancing its own state by one operation, stay in step.
\<close>

definition aead_pair :: "'c cipherFn \<Rightarrow> 'd cipherFn \<Rightarrow> ('c \<Rightarrow> 'd \<Rightarrow> bool) \<Rightarrow> bool" where
  "aead_pair enc dec sync \<longleftrightarrow>
     (\<forall>c d p. sync c d \<longrightarrow> (\<exists>ct c' d'. enc c p = Inr (ct, c') \<and> length ct = length p + SV2_MAC_SIZE
        \<and> dec d ct = Inr (p, d') \<and> sync c' d'))"

lemma aead_pairE:
  assumes "aead_pair enc dec sync" "sync c d"
  obtains ct c' d' where "enc c p = Inr (ct, c')" "length ct = length p + 16"
    "dec d ct = Inr (p, d')" "sync c' d'"
  using assms unfolding aead_pair_def SV2_MAC_SIZE_def by blast

lemma chunks_delivered:
  assumes pair: "aead_pair enc dec sync" and "sync c d"
  shows "\<exists>ct c' d'. encryptChunks enc c p = Inr (ct, c')
     \<and> length ct = plaintextToCiphertextLength (length p)
     \<and> decryptPayloadChunks dec d ct = Inr (p, d') \<and> sync c' d'"
  using assms(2)
proof (induction "length p" arbitrary: p c d rule: less_induct)
  case less
  show ?case
  proof (cases "p = []")
    case True
    with less.prems show ?thesis
      by (simp add: encryptChunks.simps decryptPayloadChunks.simps plaintextToCiphertextLength_def)
  next
    case False
    let ?a = "take 65519 p" and ?b = "drop 65519 p"
    obtain ca c1 d1 where a: "enc c ?a = Inr (ca, c1)" "length ca = length ?a + 16"
      "dec d ca = Inr (?a, d1)" "sync c1 d1"
      by (rule aead_pairE [OF pair less.prems])
    have "length ?b < length p" using False by (cases p) auto
    from less.hyps [OF this a(4)] obtain cb c2 d2 where b: "encryptChunks enc c1 ?b = Inr (cb, c2)"
      "length cb = plaintextToCiphertextLength (length ?b)"
      "decryptPayloadChunks dec d1 cb = Inr (?b, d2)" "sync c2 d2"
      by blast
    have e: "encryptChunks enc c p = Inr (ca @ cb, c2)"
      using False a b by (simp add: encryptChunks.simps [of enc c p] frame_sizes)
    have l: "length (ca @ cb) = plaintextToCiphertextLength (length p)"
      using False plaintextToCiphertextLength_chunk [of "length p"] a(2) b(2)
      by (simp add: frame_sizes min_def)
    have "take (65519 + 16) (ca @ cb) = ca \<and> drop (65519 + 16) (ca @ cb) = cb"
    proof (cases "length p < 65519")
      case True
      then have "cb = []" using b(2) by (simp add: plaintextToCiphertextLength_def)
      with True a(2) show ?thesis by simp
    next
      case False
      then show ?thesis using a(2) by simp
    qed
    then have tk: "take (65519 + 16) (ca @ cb) = ca" "drop (65519 + 16) (ca @ cb) = cb" by auto
    have "ca \<noteq> []" using a(2) by auto
    with a(3) b(3) have "decryptPayloadChunks dec d (ca @ cb) = Inr (p, d2)"
      unfolding decryptPayloadChunks.simps [of dec d "ca @ cb"] frame_sizes tk by simp
    with e l b(4) show ?thesis by blast
  qed
qed

definition frame_fits :: "ParsedFrame \<Rightarrow> bool" where
  "frame_fits f \<longleftrightarrow> header_ok (header f) \<and> int (length (payload f)) = msgLength (header f)"

text \<open>A writer and a reader whose ciphers are in step, the reader between two frames.\<close>

definition linked :: "('c \<Rightarrow> 'd \<Rightarrow> bool) \<Rightarrow> 'c frameWriter \<Rightarrow> 'd frameReader \<Rightarrow> bool" where
  "linked sync w r \<longleftrightarrow> fr_buf r = [] \<and> fr_state r = READING_HEADER
     \<and> (case (encryptFn w, decryptFn r) of
          (None, None) \<Rightarrow> True
        | (Some enc, Some dec) \<Rightarrow> aead_pair enc dec sync \<and> sync (fw_cipher w) (fr_cipher r)
        | _ \<Rightarrow> False)"

primrec writeFrames :: "ParsedFrame list \<Rightarrow> 'c frameWriter \<Rightarrow> (bytes \<times> 'c frameWriter) result" where
  "writeFrames [] w = Inr ([], w)"
| "writeFrames (f # fs) w =
     rbind (writeFrame (header f) (payload f) w) (\<lambda>(wire, w1).
     rbind (writeFrames fs w1) (\<lambda>(wires, w2). Inr (wire @ wires, w2)))"


lemma encodeFrameHeader_total: "header_ok h \<Longrightarrow> \<exists>bs. encodeFrameHeader h = Inr bs"
  using encodeFrameHeader_ok by blast

lemma writeFrame_delivered:
  assumes link: "linked sync w r" and fits: "frame_fits f"
  shows "\<exists>wire w1 r1. writeFrame (header f) (payload f) w = Inr (wire, w1)
     \<and> feed wire r = Inr (r1, [f]) \<and> linked sync w1 r1"
proof -
  obtain h p where f: "f = \<lparr>header = h, payload = p\<rparr>" by (cases f)
  have ok: "header_ok h" and n: "nat (msgLength h) = length p"
    using fits by (auto simp: f frame_fits_def)
  obtain hb where hb: "encodeFrameHeader h = Inr hb" using encodeFrameHeader_total [OF ok] by blast
  have hl: "length hb = 6" by (rule encodeFrameHeader_length [OF hb])
  have dh: "decodeFrameHeader hb = Inr h" by (rule header_roundtrip [OF ok hb])
  have r: "fr_buf r = []" "fr_state r = READING_HEADER" using link by (auto simp: linked_def)
  have stop: "feedLoop r1 fs = Inr (r1, fs)"
    if "fr_buf r1 = []" "fr_state r1 = READING_HEADER" for r1 :: "'b frameReader" and fs
    using that by (subst feedLoop.simps)
      (simp add: headerPhase_def headerSize_def frame_sizes split: option.splits)
  show ?thesis
  proof (cases "decryptFn r")
    case None
    with link have enc: "encryptFn w = None" by (auto simp: linked_def split: option.splits)
    let ?r1 = "r\<lparr>currentHeader := Some h, fr_buf := p, fr_state := READING_PAYLOAD\<rparr>"
    let ?r2 = "r\<lparr>currentHeader := None, fr_buf := [], fr_state := READING_HEADER\<rparr>"
    have w: "writeFrame h p w = Inr (hb @ p, w)" by (simp add: writeFrame_def hb enc)
    have "headerPhase (append_input (hb @ p) r) = Inr (Some ?r1)"
      using r None by (simp add: headerPhase_def headerSize_def frame_sizes hl dh append_input_def)
    moreover have "payloadPhase ?r1 = Inr (Some (f, ?r2))"
      using r None by (simp add: payloadPhase_def payloadWireLen_def n f)
    ultimately have "feed (hb @ p) r = Inr (?r2, [f])"
      unfolding feed_append_input by (subst feedLoop.simps) (simp add: stop)
    moreover have "linked sync w ?r2" using link enc by (simp add: linked_def None)
    ultimately show ?thesis using w by (auto simp: f)
  next
    case (Some dec)
    with link obtain enc where enc: "encryptFn w = Some enc" and pair: "aead_pair enc dec sync"
      and sync: "sync (fw_cipher w) (fr_cipher r)"
      by (auto simp: linked_def split: option.splits)
    obtain ch c1 d1 where a: "enc (fw_cipher w) hb = Inr (ch, c1)" "length ch = length hb + 16"
      "dec (fr_cipher r) ch = Inr (hb, d1)" "sync c1 d1"
      by (rule aead_pairE [OF pair sync])
    obtain cp c2 d2 where b: "encryptChunks enc c1 p = Inr (cp, c2)"
      "length cp = plaintextToCiphertextLength (length p)"
      "decryptPayloadChunks dec d1 cp = Inr (p, d2)" "sync c2 d2"
      using chunks_delivered [OF pair a(4)] by blast
    let ?w1 = "w\<lparr>fw_cipher := c2\<rparr>"
    let ?r1 = "r\<lparr>fr_cipher := d1, currentHeader := Some h, fr_buf := cp, fr_state := READING_PAYLOAD\<rparr>"
    let ?r2 = "r\<lparr>fr_cipher := d2, currentHeader := None, fr_buf := [], fr_state := READING_HEADER\<rparr>"
    have w: "writeFrame h p w = Inr (ch @ cp, ?w1)" by (simp add: writeFrame_def hb enc a b)
    have "headerPhase (append_input (ch @ cp) r) = Inr (Some ?r1)"
      using r Some a hl by (simp add: headerPhase_def headerSize_def frame_sizes dh append_input_def)
    moreover have "p = [] \<and> d2 = d1" if "cp = []"
      using b(3) that by (simp add: decryptPayloadChunks.simps)
    then have "payloadPhase ?r1 = Inr (Some (f, ?r2))"
      using r Some b by (auto simp: payloadPhase_def payloadWireLen_def n f Let_def)
    ultimately have "feed (ch @ cp) r = Inr (?r2, [f])"
      unfolding feed_append_input by (subst feedLoop.simps) (simp add: stop)
    moreover have "linked sync ?w1 ?r2"
      using link Some enc pair b(4) by (simp add: linked_def)
    ultimately show ?thesis using w by (auto simp: f)
  qed
qed

lemma frames_delivered:
  assumes "linked sync w r" "list_all frame_fits fs"
  shows "\<exists>wire w1 r1. writeFrames fs w = Inr (wire, w1) \<and> feed wire r = Inr (r1, fs)
     \<and> linked sync w1 r1"
  using assms
proof (induction fs arbitrary: w r)
  case Nil
  have "feed [] r = Inr (r, [])"
    using Nil(1) unfolding feed_def linked_def
    by (subst feedLoop.simps) (simp add: headerPhase_def headerSize_def frame_sizes split: option.splits)
  with Nil show ?case by simp
next
  case (Cons f fs)
  then obtain wire w1 r1 where 1: "writeFrame (header f) (payload f) w = Inr (wire, w1)"
    "feed wire r = Inr (r1, [f])" "linked sync w1 r1"
    using writeFrame_delivered [of sync w r f] by auto
  with Cons.IH [of w1 r1] Cons.prems obtain wires w2 r2 where 2: "writeFrames fs w1 = Inr (wires, w2)"
    "feed wires r1 = Inr (r2, fs)" "linked sync w2 r2" by auto
  with 1 have "feed (wire @ wires) r = Inr (r2, f # fs)" by (simp add: feed_append)
  with 1 2 show ?case by auto
qed

lemma linked_idle: "linked sync w r \<Longrightarrow> idle r"
  unfolding idle_def linked_def
  by (subst feedLoop.simps) (simp add: headerPhase_def headerSize_def frame_sizes split: option.splits)

section \<open>Properties\<close>

text \<open>
  C24. Segmentation of the TCP stream does not matter to the frame reader, in any state and with any
  cipher: feeding two segments one after the other gives the frames, the reader state and the
  exception that feeding them joined gives.
\<close>

theorem feed_segmentation:
  "feed (a @ b) r
     = rbind (feed a r) (\<lambda>(r1, fs1). rbind (feed b r1) (\<lambda>(r2, fs2). Inr (r2, fs1 @ fs2)))"
  by (rule feed_append)

text \<open>
  C35. The reader's buffer is bounded: whatever a peer sends, in whatever segments, what is kept after
  the data handler has returned is less than one encrypted frame of the largest length the 24-bit
  header field can name.
\<close>

theorem feed_buffer_bounded:
  assumes "feedSegments segs (newFrameReader fn c) = Inr (r, fs)"
  shows "length (fr_buf r) \<le> 16781327"
  using assms feed_retains [of "concat segs" "newFrameReader fn c" r fs]
    feedSegments_concat [OF idle_newFrameReader, of segs fn c]
  by (simp add: newFrameReader_def)

lemma feed_buffer_bounded_witness:
  "\<exists>r :: nat frameReader. feedSegments [[1], [0, 0x1a, 9]] (newFrameReader None 0) = Inr (r, [])
     \<and> fr_buf r = [1, 0, 0x1a, 9] \<and> length (fr_buf r) \<le> 16781327"
proof -
  let ?r = "(newFrameReader None 0 :: nat frameReader)\<lparr>fr_buf := [1, 0, 0x1a, 9]\<rparr>"
  have "feedSegments [[1], [0, 0x1a, 9]] (newFrameReader None 0) = Inr (?r, [])"
    by (simp add: feed_def feedLoop.simps headerPhase_def headerSize_def newFrameReader_def frame_sizes)
  from this feed_buffer_bounded [OF this] show ?thesis by (intro exI [of _ ?r]) simp
qed

text \<open>
  The size a sender computes for the encrypted form of a payload is the size its chunked
  encryption has, and the receiver's conversion inverts it: the ciphertext of any payload under any
  pair of matching ciphers has \<open>plaintextToCiphertextLength\<close> bytes, decrypts to the payload, and
  \<open>ciphertextToPlaintextLength\<close> of its length is the payload's length.
\<close>

theorem payload_chunks_sizes:
  assumes "aead_pair enc dec sync" "sync c d"
  shows "\<exists>ct c' d'. encryptChunks enc c p = Inr (ct, c')
     \<and> length ct = plaintextToCiphertextLength (length p)
     \<and> ciphertextToPlaintextLength (length ct) = Inr (length p)
     \<and> decryptPayloadChunks dec d ct = Inr (p, d') \<and> sync c' d'"
  using chunks_delivered [OF assms, of p] ciphertext_of_plaintext_length [of "length p"] by auto

text \<open>A cipher for the witnesses: it appends its nonce sixteen times and checks it.\<close>

definition tag_enc :: "nat cipherFn" where
  "tag_enc n p = Inr (p @ replicate 16 (word_of_nat n), Suc n)"
definition tag_dec :: "nat cipherFn" where
  "tag_dec n ct =
     (if length ct < 16 \<or> drop (length ct - 16) ct \<noteq> replicate 16 (word_of_nat n)
      then Inl TypeError else Inr (take (length ct - 16) ct, Suc n))"

lemma tag_pair: "aead_pair tag_enc tag_dec (=)"
  by (simp add: aead_pair_def tag_enc_def tag_dec_def frame_sizes)

lemma payload_chunks_sizes_witness:
  "\<exists>ct. encryptChunks tag_enc 0 (replicate 65520 7) = Inr (ct, 2) \<and> length ct = 65552
     \<and> decryptPayloadChunks tag_dec 0 ct = Inr (replicate 65520 7, 2)"
proof -
  have p: "encryptChunks tag_enc 0 (replicate 65520 7)
      = Inr ((replicate 65519 7 @ replicate 16 0) @ [7] @ replicate 16 1, 2)"
    by (simp add: encryptChunks.simps tag_enc_def frame_sizes numeral_2_eq_2)
  have "65520 div 65519 = (1 :: nat)" "65520 mod 65519 = (1 :: nat)" by simp_all
  then have "plaintextToCiphertextLength 65520 = 65552"
    by (simp add: plaintextToCiphertextLength_def frame_sizes)
  with payload_chunks_sizes [OF tag_pair refl, of 0 "replicate 65520 7"] p
  show ?thesis by auto
qed

end
