(* ===== verification/Sv2Messages.thy ===== *)
theory Sv2Messages
  imports WireFields
begin

text \<open>
  \<open>src/models/sv2/sv2-messages.ts\<close>: the messages of the SV2 mining protocol for standard channels.
  Every message is a record; its serializer is the sequence of writes of the source and its
  deserializer the sequence of reads, in the source's order. \<open>fits_M\<close> says that every field of the
  message fits its width, and the interpretation of \<open>message_codec\<close> proves the contract for it.
\<close>

section \<open>SetupConnection\<close>

record Sv2SetupConnection =
  setupConnection_protocol :: "int"
  setupConnection_minVersion :: "int"
  setupConnection_maxVersion :: "int"
  setupConnection_flags :: "int"
  setupConnection_endpoint_host :: "jsstr"
  setupConnection_endpoint_port :: "int"
  setupConnection_vendor :: "jsstr"
  setupConnection_hardwareVersion :: "jsstr"
  setupConnection_firmwareVersion :: "jsstr"
  setupConnection_deviceId :: "jsstr"

definition serializeSetupConnection :: "Sv2SetupConnection \<Rightarrow> bytes result" where
  "serializeSetupConnection msg = w_build [
     writeU8 (setupConnection_protocol msg),
     writeU16 (setupConnection_minVersion msg),
     writeU16 (setupConnection_maxVersion msg),
     writeU32 (setupConnection_flags msg),
     writeStr0_255 (setupConnection_endpoint_host msg),
     writeU16 (setupConnection_endpoint_port msg),
     writeStr0_255 (setupConnection_vendor msg),
     writeStr0_255 (setupConnection_hardwareVersion msg),
     writeStr0_255 (setupConnection_firmwareVersion msg),
     writeStr0_255 (setupConnection_deviceId msg)]"

definition deserializeSetupConnection :: "Sv2SetupConnection reading" where
  "deserializeSetupConnection =
     rd_bind readU8 (\<lambda>protocol.
     rd_bind readU16 (\<lambda>minVersion.
     rd_bind readU16 (\<lambda>maxVersion.
     rd_bind readU32 (\<lambda>flags.
     rd_bind readStr0_255 (\<lambda>endpoint_host.
     rd_bind readU16 (\<lambda>endpoint_port.
     rd_bind readStr0_255 (\<lambda>vendor.
     rd_bind readStr0_255 (\<lambda>hardwareVersion.
     rd_bind readStr0_255 (\<lambda>firmwareVersion.
     rd_bind readStr0_255 (\<lambda>deviceId.
     rd_ret \<lparr>setupConnection_protocol = protocol,
       setupConnection_minVersion = minVersion,
       setupConnection_maxVersion = maxVersion,
       setupConnection_flags = flags,
       setupConnection_endpoint_host = endpoint_host,
       setupConnection_endpoint_port = endpoint_port,
       setupConnection_vendor = vendor,
       setupConnection_hardwareVersion = hardwareVersion,
       setupConnection_firmwareVersion = firmwareVersion,
       setupConnection_deviceId = deviceId\<rparr>))))))))))"

definition fits_SetupConnection :: "Sv2SetupConnection \<Rightarrow> bool" where
  "fits_SetupConnection msg \<longleftrightarrow>
     u8_ok (setupConnection_protocol msg)
     \<and> u16_ok (setupConnection_minVersion msg)
     \<and> u16_ok (setupConnection_maxVersion msg)
     \<and> u32_ok (setupConnection_flags msg)
     \<and> str_ok (setupConnection_endpoint_host msg)
     \<and> u16_ok (setupConnection_endpoint_port msg)
     \<and> str_ok (setupConnection_vendor msg)
     \<and> str_ok (setupConnection_hardwareVersion msg)
     \<and> str_ok (setupConnection_firmwareVersion msg)
     \<and> str_ok (setupConnection_deviceId msg)"

interpretation SetupConnection: message_codec serializeSetupConnection deserializeSetupConnection fits_SetupConnection
  unfolding fits_SetupConnection_def deserializeSetupConnection_def
  by (rule message_codecI, rule serializeSetupConnection_def)
    ((elim conjE)?, (rule field_emits field_parses | assumption | simp)+)+

section \<open>SetupConnectionSuccess\<close>

record Sv2SetupConnectionSuccess =
  setupConnectionSuccess_usedVersion :: "int"
  setupConnectionSuccess_flags :: "int"

definition serializeSetupConnectionSuccess :: "Sv2SetupConnectionSuccess \<Rightarrow> bytes result" where
  "serializeSetupConnectionSuccess msg = w_build [
     writeU16 (setupConnectionSuccess_usedVersion msg),
     writeU32 (setupConnectionSuccess_flags msg)]"

definition deserializeSetupConnectionSuccess :: "Sv2SetupConnectionSuccess reading" where
  "deserializeSetupConnectionSuccess =
     rd_bind readU16 (\<lambda>usedVersion.
     rd_bind readU32 (\<lambda>flags.
     rd_ret \<lparr>setupConnectionSuccess_usedVersion = usedVersion,
       setupConnectionSuccess_flags = flags\<rparr>))"

definition fits_SetupConnectionSuccess :: "Sv2SetupConnectionSuccess \<Rightarrow> bool" where
  "fits_SetupConnectionSuccess msg \<longleftrightarrow>
     u16_ok (setupConnectionSuccess_usedVersion msg)
     \<and> u32_ok (setupConnectionSuccess_flags msg)"

interpretation SetupConnectionSuccess: message_codec serializeSetupConnectionSuccess deserializeSetupConnectionSuccess fits_SetupConnectionSuccess
  unfolding fits_SetupConnectionSuccess_def deserializeSetupConnectionSuccess_def
  by (rule message_codecI, rule serializeSetupConnectionSuccess_def)
    ((elim conjE)?, (rule field_emits field_parses | assumption | simp)+)+

section \<open>SetupConnectionError\<close>

record Sv2SetupConnectionError =
  setupConnectionError_flags :: "int"
  setupConnectionError_errorCode :: "jsstr"

definition serializeSetupConnectionError :: "Sv2SetupConnectionError \<Rightarrow> bytes result" where
  "serializeSetupConnectionError msg = w_build [
     writeU32 (setupConnectionError_flags msg),
     writeStr0_255 (setupConnectionError_errorCode msg)]"

definition deserializeSetupConnectionError :: "Sv2SetupConnectionError reading" where
  "deserializeSetupConnectionError =
     rd_bind readU32 (\<lambda>flags.
     rd_bind readStr0_255 (\<lambda>errorCode.
     rd_ret \<lparr>setupConnectionError_flags = flags,
       setupConnectionError_errorCode = errorCode\<rparr>))"

definition fits_SetupConnectionError :: "Sv2SetupConnectionError \<Rightarrow> bool" where
  "fits_SetupConnectionError msg \<longleftrightarrow>
     u32_ok (setupConnectionError_flags msg)
     \<and> str_ok (setupConnectionError_errorCode msg)"

interpretation SetupConnectionError: message_codec serializeSetupConnectionError deserializeSetupConnectionError fits_SetupConnectionError
  unfolding fits_SetupConnectionError_def deserializeSetupConnectionError_def
  by (rule message_codecI, rule serializeSetupConnectionError_def)
    ((elim conjE)?, (rule field_emits field_parses | assumption | simp)+)+

section \<open>ChannelEndpointChanged\<close>

record Sv2ChannelEndpointChanged =
  channelEndpointChanged_channelId :: "int"

definition serializeChannelEndpointChanged :: "Sv2ChannelEndpointChanged \<Rightarrow> bytes result" where
  "serializeChannelEndpointChanged msg = w_build [
     writeU32 (channelEndpointChanged_channelId msg)]"

definition deserializeChannelEndpointChanged :: "Sv2ChannelEndpointChanged reading" where
  "deserializeChannelEndpointChanged =
     rd_bind readU32 (\<lambda>channelId.
     rd_ret \<lparr>channelEndpointChanged_channelId = channelId\<rparr>)"

definition fits_ChannelEndpointChanged :: "Sv2ChannelEndpointChanged \<Rightarrow> bool" where
  "fits_ChannelEndpointChanged msg \<longleftrightarrow>
     u32_ok (channelEndpointChanged_channelId msg)"

interpretation ChannelEndpointChanged: message_codec serializeChannelEndpointChanged deserializeChannelEndpointChanged fits_ChannelEndpointChanged
  unfolding fits_ChannelEndpointChanged_def deserializeChannelEndpointChanged_def
  by (rule message_codecI, rule serializeChannelEndpointChanged_def)
    ((elim conjE)?, (rule field_emits field_parses | assumption | simp)+)+

section \<open>OpenStandardMiningChannel\<close>

record Sv2OpenStandardMiningChannel =
  openStandardMiningChannel_requestId :: "int"
  openStandardMiningChannel_user_identity :: "jsstr"
  openStandardMiningChannel_nominalHashRate :: "32 word"
  openStandardMiningChannel_maxTarget :: "bytes"

definition serializeOpenStandardMiningChannel :: "Sv2OpenStandardMiningChannel \<Rightarrow> bytes result" where
  "serializeOpenStandardMiningChannel msg = w_build [
     writeU32 (openStandardMiningChannel_requestId msg),
     writeStr0_255 (openStandardMiningChannel_user_identity msg),
     writeF32 (openStandardMiningChannel_nominalHashRate msg),
     writeU256 (openStandardMiningChannel_maxTarget msg)]"

definition deserializeOpenStandardMiningChannel :: "Sv2OpenStandardMiningChannel reading" where
  "deserializeOpenStandardMiningChannel =
     rd_bind readU32 (\<lambda>requestId.
     rd_bind readStr0_255 (\<lambda>user_identity.
     rd_bind readF32 (\<lambda>nominalHashRate.
     rd_bind readU256 (\<lambda>maxTarget.
     rd_ret \<lparr>openStandardMiningChannel_requestId = requestId,
       openStandardMiningChannel_user_identity = user_identity,
       openStandardMiningChannel_nominalHashRate = nominalHashRate,
       openStandardMiningChannel_maxTarget = maxTarget\<rparr>))))"

definition fits_OpenStandardMiningChannel :: "Sv2OpenStandardMiningChannel \<Rightarrow> bool" where
  "fits_OpenStandardMiningChannel msg \<longleftrightarrow>
     u32_ok (openStandardMiningChannel_requestId msg)
     \<and> str_ok (openStandardMiningChannel_user_identity msg)
     \<and> u256_ok (openStandardMiningChannel_maxTarget msg)"

interpretation OpenStandardMiningChannel: message_codec serializeOpenStandardMiningChannel deserializeOpenStandardMiningChannel fits_OpenStandardMiningChannel
  unfolding fits_OpenStandardMiningChannel_def deserializeOpenStandardMiningChannel_def
  by (rule message_codecI, rule serializeOpenStandardMiningChannel_def)
    ((elim conjE)?, (rule field_emits field_parses | assumption | simp)+)+

section \<open>OpenStandardMiningChannelSuccess\<close>

record Sv2OpenStandardMiningChannelSuccess =
  openStandardMiningChannelSuccess_requestId :: "int"
  openStandardMiningChannelSuccess_channelId :: "int"
  openStandardMiningChannelSuccess_target :: "bytes"
  openStandardMiningChannelSuccess_extranonce_prefix :: "bytes"
  openStandardMiningChannelSuccess_groupChannelId :: "int"

definition serializeOpenStandardMiningChannelSuccess :: "Sv2OpenStandardMiningChannelSuccess \<Rightarrow> bytes result" where
  "serializeOpenStandardMiningChannelSuccess msg = w_build [
     writeU32 (openStandardMiningChannelSuccess_requestId msg),
     writeU32 (openStandardMiningChannelSuccess_channelId msg),
     writeU256 (openStandardMiningChannelSuccess_target msg),
     writeB0_32 (openStandardMiningChannelSuccess_extranonce_prefix msg),
     writeU32 (openStandardMiningChannelSuccess_groupChannelId msg)]"

definition deserializeOpenStandardMiningChannelSuccess :: "Sv2OpenStandardMiningChannelSuccess reading" where
  "deserializeOpenStandardMiningChannelSuccess =
     rd_bind readU32 (\<lambda>requestId.
     rd_bind readU32 (\<lambda>channelId.
     rd_bind readU256 (\<lambda>target.
     rd_bind readB0_32 (\<lambda>extranonce_prefix.
     rd_bind readU32 (\<lambda>groupChannelId.
     rd_ret \<lparr>openStandardMiningChannelSuccess_requestId = requestId,
       openStandardMiningChannelSuccess_channelId = channelId,
       openStandardMiningChannelSuccess_target = target,
       openStandardMiningChannelSuccess_extranonce_prefix = extranonce_prefix,
       openStandardMiningChannelSuccess_groupChannelId = groupChannelId\<rparr>)))))"

definition fits_OpenStandardMiningChannelSuccess :: "Sv2OpenStandardMiningChannelSuccess \<Rightarrow> bool" where
  "fits_OpenStandardMiningChannelSuccess msg \<longleftrightarrow>
     u32_ok (openStandardMiningChannelSuccess_requestId msg)
     \<and> u32_ok (openStandardMiningChannelSuccess_channelId msg)
     \<and> u256_ok (openStandardMiningChannelSuccess_target msg)
     \<and> len_ok 32 (openStandardMiningChannelSuccess_extranonce_prefix msg)
     \<and> u32_ok (openStandardMiningChannelSuccess_groupChannelId msg)"

interpretation OpenStandardMiningChannelSuccess: message_codec serializeOpenStandardMiningChannelSuccess deserializeOpenStandardMiningChannelSuccess fits_OpenStandardMiningChannelSuccess
  unfolding fits_OpenStandardMiningChannelSuccess_def deserializeOpenStandardMiningChannelSuccess_def
  by (rule message_codecI, rule serializeOpenStandardMiningChannelSuccess_def)
    ((elim conjE)?, (rule field_emits field_parses | assumption | simp)+)+

section \<open>OpenMiningChannelError\<close>

record Sv2OpenMiningChannelError =
  openMiningChannelError_requestId :: "int"
  openMiningChannelError_errorCode :: "jsstr"

definition serializeOpenMiningChannelError :: "Sv2OpenMiningChannelError \<Rightarrow> bytes result" where
  "serializeOpenMiningChannelError msg = w_build [
     writeU32 (openMiningChannelError_requestId msg),
     writeStr0_255 (openMiningChannelError_errorCode msg)]"

definition deserializeOpenMiningChannelError :: "Sv2OpenMiningChannelError reading" where
  "deserializeOpenMiningChannelError =
     rd_bind readU32 (\<lambda>requestId.
     rd_bind readStr0_255 (\<lambda>errorCode.
     rd_ret \<lparr>openMiningChannelError_requestId = requestId,
       openMiningChannelError_errorCode = errorCode\<rparr>))"

definition fits_OpenMiningChannelError :: "Sv2OpenMiningChannelError \<Rightarrow> bool" where
  "fits_OpenMiningChannelError msg \<longleftrightarrow>
     u32_ok (openMiningChannelError_requestId msg)
     \<and> str_ok (openMiningChannelError_errorCode msg)"

interpretation OpenMiningChannelError: message_codec serializeOpenMiningChannelError deserializeOpenMiningChannelError fits_OpenMiningChannelError
  unfolding fits_OpenMiningChannelError_def deserializeOpenMiningChannelError_def
  by (rule message_codecI, rule serializeOpenMiningChannelError_def)
    ((elim conjE)?, (rule field_emits field_parses | assumption | simp)+)+

section \<open>NewMiningJob\<close>

record Sv2NewMiningJob =
  newMiningJob_channelId :: "int"
  newMiningJob_jobId :: "int"
  newMiningJob_minNtime :: "int option"
  newMiningJob_version :: "int"
  newMiningJob_merkleRoot :: "bytes"

definition serializeNewMiningJob :: "Sv2NewMiningJob \<Rightarrow> bytes result" where
  "serializeNewMiningJob msg = w_build [
     writeU32 (newMiningJob_channelId msg),
     writeU32 (newMiningJob_jobId msg),
     writeOptionU32 (newMiningJob_minNtime msg),
     writeU32 (newMiningJob_version msg),
     writeU256 (newMiningJob_merkleRoot msg)]"

definition deserializeNewMiningJob :: "Sv2NewMiningJob reading" where
  "deserializeNewMiningJob =
     rd_bind readU32 (\<lambda>channelId.
     rd_bind readU32 (\<lambda>jobId.
     rd_bind readOptionU32 (\<lambda>minNtime.
     rd_bind readU32 (\<lambda>version.
     rd_bind readU256 (\<lambda>merkleRoot.
     rd_ret \<lparr>newMiningJob_channelId = channelId,
       newMiningJob_jobId = jobId,
       newMiningJob_minNtime = minNtime,
       newMiningJob_version = version,
       newMiningJob_merkleRoot = merkleRoot\<rparr>)))))"

definition fits_NewMiningJob :: "Sv2NewMiningJob \<Rightarrow> bool" where
  "fits_NewMiningJob msg \<longleftrightarrow>
     u32_ok (newMiningJob_channelId msg)
     \<and> u32_ok (newMiningJob_jobId msg)
     \<and> optu32_ok (newMiningJob_minNtime msg)
     \<and> u32_ok (newMiningJob_version msg)
     \<and> u256_ok (newMiningJob_merkleRoot msg)"

interpretation NewMiningJob: message_codec serializeNewMiningJob deserializeNewMiningJob fits_NewMiningJob
  unfolding fits_NewMiningJob_def deserializeNewMiningJob_def
  by (rule message_codecI, rule serializeNewMiningJob_def)
    ((elim conjE)?, (rule field_emits field_parses | assumption | simp)+)+

section \<open>SetNewPrevHash\<close>

record Sv2SetNewPrevHash =
  setNewPrevHash_channelId :: "int"
  setNewPrevHash_jobId :: "int"
  setNewPrevHash_prevHash :: "bytes"
  setNewPrevHash_minNtime :: "int"
  setNewPrevHash_nBits :: "int"

definition serializeSetNewPrevHash :: "Sv2SetNewPrevHash \<Rightarrow> bytes result" where
  "serializeSetNewPrevHash msg = w_build [
     writeU32 (setNewPrevHash_channelId msg),
     writeU32 (setNewPrevHash_jobId msg),
     writeU256 (setNewPrevHash_prevHash msg),
     writeU32 (setNewPrevHash_minNtime msg),
     writeU32 (setNewPrevHash_nBits msg)]"

definition deserializeSetNewPrevHash :: "Sv2SetNewPrevHash reading" where
  "deserializeSetNewPrevHash =
     rd_bind readU32 (\<lambda>channelId.
     rd_bind readU32 (\<lambda>jobId.
     rd_bind readU256 (\<lambda>prevHash.
     rd_bind readU32 (\<lambda>minNtime.
     rd_bind readU32 (\<lambda>nBits.
     rd_ret \<lparr>setNewPrevHash_channelId = channelId,
       setNewPrevHash_jobId = jobId,
       setNewPrevHash_prevHash = prevHash,
       setNewPrevHash_minNtime = minNtime,
       setNewPrevHash_nBits = nBits\<rparr>)))))"

definition fits_SetNewPrevHash :: "Sv2SetNewPrevHash \<Rightarrow> bool" where
  "fits_SetNewPrevHash msg \<longleftrightarrow>
     u32_ok (setNewPrevHash_channelId msg)
     \<and> u32_ok (setNewPrevHash_jobId msg)
     \<and> u256_ok (setNewPrevHash_prevHash msg)
     \<and> u32_ok (setNewPrevHash_minNtime msg)
     \<and> u32_ok (setNewPrevHash_nBits msg)"

interpretation SetNewPrevHash: message_codec serializeSetNewPrevHash deserializeSetNewPrevHash fits_SetNewPrevHash
  unfolding fits_SetNewPrevHash_def deserializeSetNewPrevHash_def
  by (rule message_codecI, rule serializeSetNewPrevHash_def)
    ((elim conjE)?, (rule field_emits field_parses | assumption | simp)+)+

section \<open>SetTarget\<close>

record Sv2SetTarget =
  setTarget_channelId :: "int"
  setTarget_maxTarget :: "bytes"

definition serializeSetTarget :: "Sv2SetTarget \<Rightarrow> bytes result" where
  "serializeSetTarget msg = w_build [
     writeU32 (setTarget_channelId msg),
     writeU256 (setTarget_maxTarget msg)]"

definition deserializeSetTarget :: "Sv2SetTarget reading" where
  "deserializeSetTarget =
     rd_bind readU32 (\<lambda>channelId.
     rd_bind readU256 (\<lambda>maxTarget.
     rd_ret \<lparr>setTarget_channelId = channelId,
       setTarget_maxTarget = maxTarget\<rparr>))"

definition fits_SetTarget :: "Sv2SetTarget \<Rightarrow> bool" where
  "fits_SetTarget msg \<longleftrightarrow>
     u32_ok (setTarget_channelId msg)
     \<and> u256_ok (setTarget_maxTarget msg)"

interpretation SetTarget: message_codec serializeSetTarget deserializeSetTarget fits_SetTarget
  unfolding fits_SetTarget_def deserializeSetTarget_def
  by (rule message_codecI, rule serializeSetTarget_def)
    ((elim conjE)?, (rule field_emits field_parses | assumption | simp)+)+

section \<open>SubmitSharesStandard\<close>

record Sv2SubmitSharesStandard =
  submitSharesStandard_channelId :: "int"
  submitSharesStandard_sequenceNumber :: "int"
  submitSharesStandard_jobId :: "int"
  submitSharesStandard_nonce :: "int"
  submitSharesStandard_ntime :: "int"
  submitSharesStandard_version :: "int"

definition serializeSubmitSharesStandard :: "Sv2SubmitSharesStandard \<Rightarrow> bytes result" where
  "serializeSubmitSharesStandard msg = w_build [
     writeU32 (submitSharesStandard_channelId msg),
     writeU32 (submitSharesStandard_sequenceNumber msg),
     writeU32 (submitSharesStandard_jobId msg),
     writeU32 (submitSharesStandard_nonce msg),
     writeU32 (submitSharesStandard_ntime msg),
     writeU32 (submitSharesStandard_version msg)]"

definition deserializeSubmitSharesStandard :: "Sv2SubmitSharesStandard reading" where
  "deserializeSubmitSharesStandard =
     rd_bind readU32 (\<lambda>channelId.
     rd_bind readU32 (\<lambda>sequenceNumber.
     rd_bind readU32 (\<lambda>jobId.
     rd_bind readU32 (\<lambda>nonce.
     rd_bind readU32 (\<lambda>ntime.
     rd_bind readU32 (\<lambda>version.
     rd_ret \<lparr>submitSharesStandard_channelId = channelId,
       submitSharesStandard_sequenceNumber = sequenceNumber,
       submitSharesStandard_jobId = jobId,
       submitSharesStandard_nonce = nonce,
       submitSharesStandard_ntime = ntime,
       submitSharesStandard_version = version\<rparr>))))))"

definition fits_SubmitSharesStandard :: "Sv2SubmitSharesStandard \<Rightarrow> bool" where
  "fits_SubmitSharesStandard msg \<longleftrightarrow>
     u32_ok (submitSharesStandard_channelId msg)
     \<and> u32_ok (submitSharesStandard_sequenceNumber msg)
     \<and> u32_ok (submitSharesStandard_jobId msg)
     \<and> u32_ok (submitSharesStandard_nonce msg)
     \<and> u32_ok (submitSharesStandard_ntime msg)
     \<and> u32_ok (submitSharesStandard_version msg)"

interpretation SubmitSharesStandard: message_codec serializeSubmitSharesStandard deserializeSubmitSharesStandard fits_SubmitSharesStandard
  unfolding fits_SubmitSharesStandard_def deserializeSubmitSharesStandard_def
  by (rule message_codecI, rule serializeSubmitSharesStandard_def)
    ((elim conjE)?, (rule field_emits field_parses | assumption | simp)+)+

section \<open>SubmitSharesSuccess\<close>

record Sv2SubmitSharesSuccess =
  submitSharesSuccess_channelId :: "int"
  submitSharesSuccess_lastSequenceNumber :: "int"
  submitSharesSuccess_newSubmitsAcceptedCount :: "int"
  submitSharesSuccess_newSharesSum :: "int"

definition serializeSubmitSharesSuccess :: "Sv2SubmitSharesSuccess \<Rightarrow> bytes result" where
  "serializeSubmitSharesSuccess msg = w_build [
     writeU32 (submitSharesSuccess_channelId msg),
     writeU32 (submitSharesSuccess_lastSequenceNumber msg),
     writeU32 (submitSharesSuccess_newSubmitsAcceptedCount msg),
     writeU64 (submitSharesSuccess_newSharesSum msg)]"

definition deserializeSubmitSharesSuccess :: "Sv2SubmitSharesSuccess reading" where
  "deserializeSubmitSharesSuccess =
     rd_bind readU32 (\<lambda>channelId.
     rd_bind readU32 (\<lambda>lastSequenceNumber.
     rd_bind readU32 (\<lambda>newSubmitsAcceptedCount.
     rd_bind readU64 (\<lambda>newSharesSum.
     rd_ret \<lparr>submitSharesSuccess_channelId = channelId,
       submitSharesSuccess_lastSequenceNumber = lastSequenceNumber,
       submitSharesSuccess_newSubmitsAcceptedCount = newSubmitsAcceptedCount,
       submitSharesSuccess_newSharesSum = newSharesSum\<rparr>))))"

definition fits_SubmitSharesSuccess :: "Sv2SubmitSharesSuccess \<Rightarrow> bool" where
  "fits_SubmitSharesSuccess msg \<longleftrightarrow>
     u32_ok (submitSharesSuccess_channelId msg)
     \<and> u32_ok (submitSharesSuccess_lastSequenceNumber msg)
     \<and> u32_ok (submitSharesSuccess_newSubmitsAcceptedCount msg)
     \<and> u64_ok (submitSharesSuccess_newSharesSum msg)"

interpretation SubmitSharesSuccess: message_codec serializeSubmitSharesSuccess deserializeSubmitSharesSuccess fits_SubmitSharesSuccess
  unfolding fits_SubmitSharesSuccess_def deserializeSubmitSharesSuccess_def
  by (rule message_codecI, rule serializeSubmitSharesSuccess_def)
    ((elim conjE)?, (rule field_emits field_parses | assumption | simp)+)+

section \<open>SubmitSharesError\<close>

record Sv2SubmitSharesError =
  submitSharesError_channelId :: "int"
  submitSharesError_sequenceNumber :: "int"
  submitSharesError_errorCode :: "jsstr"

definition serializeSubmitSharesError :: "Sv2SubmitSharesError \<Rightarrow> bytes result" where
  "serializeSubmitSharesError msg = w_build [
     writeU32 (submitSharesError_channelId msg),
     writeU32 (submitSharesError_sequenceNumber msg),
     writeStr0_255 (submitSharesError_errorCode msg)]"

definition deserializeSubmitSharesError :: "Sv2SubmitSharesError reading" where
  "deserializeSubmitSharesError =
     rd_bind readU32 (\<lambda>channelId.
     rd_bind readU32 (\<lambda>sequenceNumber.
     rd_bind readStr0_255 (\<lambda>errorCode.
     rd_ret \<lparr>submitSharesError_channelId = channelId,
       submitSharesError_sequenceNumber = sequenceNumber,
       submitSharesError_errorCode = errorCode\<rparr>)))"

definition fits_SubmitSharesError :: "Sv2SubmitSharesError \<Rightarrow> bool" where
  "fits_SubmitSharesError msg \<longleftrightarrow>
     u32_ok (submitSharesError_channelId msg)
     \<and> u32_ok (submitSharesError_sequenceNumber msg)
     \<and> str_ok (submitSharesError_errorCode msg)"

interpretation SubmitSharesError: message_codec serializeSubmitSharesError deserializeSubmitSharesError fits_SubmitSharesError
  unfolding fits_SubmitSharesError_def deserializeSubmitSharesError_def
  by (rule message_codecI, rule serializeSubmitSharesError_def)
    ((elim conjE)?, (rule field_emits field_parses | assumption | simp)+)+

section \<open>CloseChannel\<close>

record Sv2CloseChannel =
  closeChannel_channelId :: "int"
  closeChannel_reasonCode :: "jsstr"

definition serializeCloseChannel :: "Sv2CloseChannel \<Rightarrow> bytes result" where
  "serializeCloseChannel msg = w_build [
     writeU32 (closeChannel_channelId msg),
     writeStr0_255 (closeChannel_reasonCode msg)]"

definition deserializeCloseChannel :: "Sv2CloseChannel reading" where
  "deserializeCloseChannel =
     rd_bind readU32 (\<lambda>channelId.
     rd_bind readStr0_255 (\<lambda>reasonCode.
     rd_ret \<lparr>closeChannel_channelId = channelId,
       closeChannel_reasonCode = reasonCode\<rparr>))"

definition fits_CloseChannel :: "Sv2CloseChannel \<Rightarrow> bool" where
  "fits_CloseChannel msg \<longleftrightarrow>
     u32_ok (closeChannel_channelId msg)
     \<and> str_ok (closeChannel_reasonCode msg)"

interpretation CloseChannel: message_codec serializeCloseChannel deserializeCloseChannel fits_CloseChannel
  unfolding fits_CloseChannel_def deserializeCloseChannel_def
  by (rule message_codecI, rule serializeCloseChannel_def)
    ((elim conjE)?, (rule field_emits field_parses | assumption | simp)+)+

section \<open>UpdateChannel\<close>

record Sv2UpdateChannel =
  updateChannel_channelId :: "int"
  updateChannel_nominalHashRate :: "32 word"
  updateChannel_maximumTarget :: "bytes"

definition serializeUpdateChannel :: "Sv2UpdateChannel \<Rightarrow> bytes result" where
  "serializeUpdateChannel msg = w_build [
     writeU32 (updateChannel_channelId msg),
     writeF32 (updateChannel_nominalHashRate msg),
     writeU256 (updateChannel_maximumTarget msg)]"

definition deserializeUpdateChannel :: "Sv2UpdateChannel reading" where
  "deserializeUpdateChannel =
     rd_bind readU32 (\<lambda>channelId.
     rd_bind readF32 (\<lambda>nominalHashRate.
     rd_bind readU256 (\<lambda>maximumTarget.
     rd_ret \<lparr>updateChannel_channelId = channelId,
       updateChannel_nominalHashRate = nominalHashRate,
       updateChannel_maximumTarget = maximumTarget\<rparr>)))"

definition fits_UpdateChannel :: "Sv2UpdateChannel \<Rightarrow> bool" where
  "fits_UpdateChannel msg \<longleftrightarrow>
     u32_ok (updateChannel_channelId msg)
     \<and> u256_ok (updateChannel_maximumTarget msg)"

interpretation UpdateChannel: message_codec serializeUpdateChannel deserializeUpdateChannel fits_UpdateChannel
  unfolding fits_UpdateChannel_def deserializeUpdateChannel_def
  by (rule message_codecI, rule serializeUpdateChannel_def)
    ((elim conjE)?, (rule field_emits field_parses | assumption | simp)+)+

section \<open>UpdateChannelError\<close>

record Sv2UpdateChannelError =
  updateChannelError_channelId :: "int"
  updateChannelError_errorCode :: "jsstr"

definition serializeUpdateChannelError :: "Sv2UpdateChannelError \<Rightarrow> bytes result" where
  "serializeUpdateChannelError msg = w_build [
     writeU32 (updateChannelError_channelId msg),
     writeStr0_255 (updateChannelError_errorCode msg)]"

definition deserializeUpdateChannelError :: "Sv2UpdateChannelError reading" where
  "deserializeUpdateChannelError =
     rd_bind readU32 (\<lambda>channelId.
     rd_bind readStr0_255 (\<lambda>errorCode.
     rd_ret \<lparr>updateChannelError_channelId = channelId,
       updateChannelError_errorCode = errorCode\<rparr>))"

definition fits_UpdateChannelError :: "Sv2UpdateChannelError \<Rightarrow> bool" where
  "fits_UpdateChannelError msg \<longleftrightarrow>
     u32_ok (updateChannelError_channelId msg)
     \<and> str_ok (updateChannelError_errorCode msg)"

interpretation UpdateChannelError: message_codec serializeUpdateChannelError deserializeUpdateChannelError fits_UpdateChannelError
  unfolding fits_UpdateChannelError_def deserializeUpdateChannelError_def
  by (rule message_codecI, rule serializeUpdateChannelError_def)
    ((elim conjE)?, (rule field_emits field_parses | assumption | simp)+)+

section \<open>RequestExtensions\<close>

record Sv2RequestExtensions =
  requestExtensions_requestId :: "int"
  requestExtensions_requestedExtensions :: "int list"

definition deserializeRequestExtensions :: "Sv2RequestExtensions reading" where
  "deserializeRequestExtensions =
     rd_bind readU16 (\<lambda>requestId.
     rd_bind (readSeq0_64K readU16) (\<lambda>requestedExtensions.
     rd_ret \<lparr>requestExtensions_requestId = requestId,
       requestExtensions_requestedExtensions = requestedExtensions\<rparr>))"

section \<open>RequestExtensionsSuccess\<close>

record Sv2RequestExtensionsSuccess =
  requestExtensionsSuccess_requestId :: "int"
  requestExtensionsSuccess_supportedExtensions :: "int list"

definition serializeRequestExtensionsSuccess :: "Sv2RequestExtensionsSuccess \<Rightarrow> bytes result" where
  "serializeRequestExtensionsSuccess msg = w_build [
     writeU16 (requestExtensionsSuccess_requestId msg),
     writeSeq0_64K (requestExtensionsSuccess_supportedExtensions msg) writeU16]"

section \<open>Reconnect\<close>

record Sv2Reconnect =
  reconnect_newHost :: "jsstr"
  reconnect_newPort :: "int"

definition serializeReconnect :: "Sv2Reconnect \<Rightarrow> bytes result" where
  "serializeReconnect msg = w_build [
     writeStr0_255 (reconnect_newHost msg),
     writeU16 (reconnect_newPort msg)]"

definition deserializeReconnect :: "Sv2Reconnect reading" where
  "deserializeReconnect =
     rd_bind readStr0_255 (\<lambda>newHost.
     rd_bind readU16 (\<lambda>newPort.
     rd_ret \<lparr>reconnect_newHost = newHost,
       reconnect_newPort = newPort\<rparr>))"

definition fits_Reconnect :: "Sv2Reconnect \<Rightarrow> bool" where
  "fits_Reconnect msg \<longleftrightarrow>
     str_ok (reconnect_newHost msg)
     \<and> u16_ok (reconnect_newPort msg)"

interpretation Reconnect: message_codec serializeReconnect deserializeReconnect fits_Reconnect
  unfolding fits_Reconnect_def deserializeReconnect_def
  by (rule message_codecI, rule serializeReconnect_def)
    ((elim conjE)?, (rule field_emits field_parses | assumption | simp)+)+

end
