(* ===== verification/Sv2ExtendedMessages.thy ===== *)
theory Sv2ExtendedMessages
  imports WireFields
begin

text \<open>
  \<open>src/models/sv2/sv2-extended-messages.ts\<close>: the messages of extended mining channels.
  Every message is a record; its serializer is the sequence of writes of the source and its
  deserializer the sequence of reads, in the source's order. \<open>fits_M\<close> says that every field of the
  message fits its width, and the interpretation of \<open>message_codec\<close> proves the contract for it.
\<close>

section \<open>OpenExtendedMiningChannel\<close>

record Sv2OpenExtendedMiningChannel =
  openExtendedMiningChannel_requestId :: "int"
  openExtendedMiningChannel_userIdentity :: "jsstr"
  openExtendedMiningChannel_nominalHashRate :: "32 word"
  openExtendedMiningChannel_maxTarget :: "bytes"
  openExtendedMiningChannel_minExtranonceSize :: "int"

definition serializeOpenExtendedMiningChannel :: "Sv2OpenExtendedMiningChannel \<Rightarrow> bytes result" where
  "serializeOpenExtendedMiningChannel msg = w_build [
     writeU32 (openExtendedMiningChannel_requestId msg),
     writeStr0_255 (openExtendedMiningChannel_userIdentity msg),
     writeF32 (openExtendedMiningChannel_nominalHashRate msg),
     writeU256 (openExtendedMiningChannel_maxTarget msg),
     writeU16 (openExtendedMiningChannel_minExtranonceSize msg)]"

definition deserializeOpenExtendedMiningChannel :: "Sv2OpenExtendedMiningChannel reading" where
  "deserializeOpenExtendedMiningChannel =
     rd_bind readU32 (\<lambda>requestId.
     rd_bind readStr0_255 (\<lambda>userIdentity.
     rd_bind readF32 (\<lambda>nominalHashRate.
     rd_bind readU256 (\<lambda>maxTarget.
     rd_bind readU16 (\<lambda>minExtranonceSize.
     rd_ret \<lparr>openExtendedMiningChannel_requestId = requestId,
       openExtendedMiningChannel_userIdentity = userIdentity,
       openExtendedMiningChannel_nominalHashRate = nominalHashRate,
       openExtendedMiningChannel_maxTarget = maxTarget,
       openExtendedMiningChannel_minExtranonceSize = minExtranonceSize\<rparr>)))))"

definition fits_OpenExtendedMiningChannel :: "Sv2OpenExtendedMiningChannel \<Rightarrow> bool" where
  "fits_OpenExtendedMiningChannel msg \<longleftrightarrow>
     u32_ok (openExtendedMiningChannel_requestId msg)
     \<and> str_ok (openExtendedMiningChannel_userIdentity msg)
     \<and> u256_ok (openExtendedMiningChannel_maxTarget msg)
     \<and> u16_ok (openExtendedMiningChannel_minExtranonceSize msg)"

interpretation OpenExtendedMiningChannel: message_codec serializeOpenExtendedMiningChannel deserializeOpenExtendedMiningChannel fits_OpenExtendedMiningChannel
  unfolding fits_OpenExtendedMiningChannel_def deserializeOpenExtendedMiningChannel_def
  by (rule message_codecI, rule serializeOpenExtendedMiningChannel_def)
    ((elim conjE)?, (rule field_emits field_parses | assumption | simp)+)+

section \<open>OpenExtendedMiningChannelSuccess\<close>

record Sv2OpenExtendedMiningChannelSuccess =
  openExtendedMiningChannelSuccess_requestId :: "int"
  openExtendedMiningChannelSuccess_channelId :: "int"
  openExtendedMiningChannelSuccess_target :: "bytes"
  openExtendedMiningChannelSuccess_extranonceSize :: "int"
  openExtendedMiningChannelSuccess_extranoncePrefix :: "bytes"
  openExtendedMiningChannelSuccess_groupChannelId :: "int"

definition serializeOpenExtendedMiningChannelSuccess :: "Sv2OpenExtendedMiningChannelSuccess \<Rightarrow> bytes result" where
  "serializeOpenExtendedMiningChannelSuccess msg = w_build [
     writeU32 (openExtendedMiningChannelSuccess_requestId msg),
     writeU32 (openExtendedMiningChannelSuccess_channelId msg),
     writeU256 (openExtendedMiningChannelSuccess_target msg),
     writeU16 (openExtendedMiningChannelSuccess_extranonceSize msg),
     writeB0_32 (openExtendedMiningChannelSuccess_extranoncePrefix msg),
     writeU32 (openExtendedMiningChannelSuccess_groupChannelId msg)]"

definition deserializeOpenExtendedMiningChannelSuccess :: "Sv2OpenExtendedMiningChannelSuccess reading" where
  "deserializeOpenExtendedMiningChannelSuccess =
     rd_bind readU32 (\<lambda>requestId.
     rd_bind readU32 (\<lambda>channelId.
     rd_bind readU256 (\<lambda>target.
     rd_bind readU16 (\<lambda>extranonceSize.
     rd_bind readB0_32 (\<lambda>extranoncePrefix.
     rd_bind readU32 (\<lambda>groupChannelId.
     rd_ret \<lparr>openExtendedMiningChannelSuccess_requestId = requestId,
       openExtendedMiningChannelSuccess_channelId = channelId,
       openExtendedMiningChannelSuccess_target = target,
       openExtendedMiningChannelSuccess_extranonceSize = extranonceSize,
       openExtendedMiningChannelSuccess_extranoncePrefix = extranoncePrefix,
       openExtendedMiningChannelSuccess_groupChannelId = groupChannelId\<rparr>))))))"

definition fits_OpenExtendedMiningChannelSuccess :: "Sv2OpenExtendedMiningChannelSuccess \<Rightarrow> bool" where
  "fits_OpenExtendedMiningChannelSuccess msg \<longleftrightarrow>
     u32_ok (openExtendedMiningChannelSuccess_requestId msg)
     \<and> u32_ok (openExtendedMiningChannelSuccess_channelId msg)
     \<and> u256_ok (openExtendedMiningChannelSuccess_target msg)
     \<and> u16_ok (openExtendedMiningChannelSuccess_extranonceSize msg)
     \<and> len_ok 32 (openExtendedMiningChannelSuccess_extranoncePrefix msg)
     \<and> u32_ok (openExtendedMiningChannelSuccess_groupChannelId msg)"

interpretation OpenExtendedMiningChannelSuccess: message_codec serializeOpenExtendedMiningChannelSuccess deserializeOpenExtendedMiningChannelSuccess fits_OpenExtendedMiningChannelSuccess
  unfolding fits_OpenExtendedMiningChannelSuccess_def deserializeOpenExtendedMiningChannelSuccess_def
  by (rule message_codecI, rule serializeOpenExtendedMiningChannelSuccess_def)
    ((elim conjE)?, (rule field_emits field_parses | assumption | simp)+)+

section \<open>NewExtendedMiningJob\<close>

record Sv2NewExtendedMiningJob =
  newExtendedMiningJob_channelId :: "int"
  newExtendedMiningJob_jobId :: "int"
  newExtendedMiningJob_minNtime :: "int option"
  newExtendedMiningJob_version :: "int"
  newExtendedMiningJob_versionRollingAllowed :: "bool"
  newExtendedMiningJob_merklePath :: "bytes list"
  newExtendedMiningJob_coinbasePrefix :: "bytes"
  newExtendedMiningJob_coinbaseSuffix :: "bytes"

definition serializeNewExtendedMiningJob :: "Sv2NewExtendedMiningJob \<Rightarrow> bytes result" where
  "serializeNewExtendedMiningJob msg = w_build [
     writeU32 (newExtendedMiningJob_channelId msg),
     writeU32 (newExtendedMiningJob_jobId msg),
     writeOptionU32 (newExtendedMiningJob_minNtime msg),
     writeU32 (newExtendedMiningJob_version msg),
     writeBool (newExtendedMiningJob_versionRollingAllowed msg),
     writeSeq0_255 (newExtendedMiningJob_merklePath msg) writeU256,
     writeB0_64K (newExtendedMiningJob_coinbasePrefix msg),
     writeB0_64K (newExtendedMiningJob_coinbaseSuffix msg)]"

definition deserializeNewExtendedMiningJob :: "Sv2NewExtendedMiningJob reading" where
  "deserializeNewExtendedMiningJob =
     rd_bind readU32 (\<lambda>channelId.
     rd_bind readU32 (\<lambda>jobId.
     rd_bind readOptionU32 (\<lambda>minNtime.
     rd_bind readU32 (\<lambda>version.
     rd_bind readBool (\<lambda>versionRollingAllowed.
     rd_bind (readSeq0_255 readU256) (\<lambda>merklePath.
     rd_bind readB0_64K (\<lambda>coinbasePrefix.
     rd_bind readB0_64K (\<lambda>coinbaseSuffix.
     rd_ret \<lparr>newExtendedMiningJob_channelId = channelId,
       newExtendedMiningJob_jobId = jobId,
       newExtendedMiningJob_minNtime = minNtime,
       newExtendedMiningJob_version = version,
       newExtendedMiningJob_versionRollingAllowed = versionRollingAllowed,
       newExtendedMiningJob_merklePath = merklePath,
       newExtendedMiningJob_coinbasePrefix = coinbasePrefix,
       newExtendedMiningJob_coinbaseSuffix = coinbaseSuffix\<rparr>))))))))"

definition fits_NewExtendedMiningJob :: "Sv2NewExtendedMiningJob \<Rightarrow> bool" where
  "fits_NewExtendedMiningJob msg \<longleftrightarrow>
     u32_ok (newExtendedMiningJob_channelId msg)
     \<and> u32_ok (newExtendedMiningJob_jobId msg)
     \<and> optu32_ok (newExtendedMiningJob_minNtime msg)
     \<and> u32_ok (newExtendedMiningJob_version msg)
     \<and> seq_ok 255 u256_ok (newExtendedMiningJob_merklePath msg)
     \<and> len_ok 65535 (newExtendedMiningJob_coinbasePrefix msg)
     \<and> len_ok 65535 (newExtendedMiningJob_coinbaseSuffix msg)"

interpretation NewExtendedMiningJob: message_codec serializeNewExtendedMiningJob deserializeNewExtendedMiningJob fits_NewExtendedMiningJob
  unfolding fits_NewExtendedMiningJob_def deserializeNewExtendedMiningJob_def
  by (rule message_codecI, rule serializeNewExtendedMiningJob_def)
    ((elim conjE)?, (rule field_emits field_parses | assumption | simp)+)+

section \<open>SubmitSharesExtended\<close>

record Sv2SubmitSharesExtended =
  submitSharesExtended_channelId :: "int"
  submitSharesExtended_sequenceNumber :: "int"
  submitSharesExtended_jobId :: "int"
  submitSharesExtended_nonce :: "int"
  submitSharesExtended_ntime :: "int"
  submitSharesExtended_version :: "int"
  submitSharesExtended_extranonce :: "bytes"

definition serializeSubmitSharesExtended :: "Sv2SubmitSharesExtended \<Rightarrow> bytes result" where
  "serializeSubmitSharesExtended msg = w_build [
     writeU32 (submitSharesExtended_channelId msg),
     writeU32 (submitSharesExtended_sequenceNumber msg),
     writeU32 (submitSharesExtended_jobId msg),
     writeU32 (submitSharesExtended_nonce msg),
     writeU32 (submitSharesExtended_ntime msg),
     writeU32 (submitSharesExtended_version msg),
     writeB0_32 (submitSharesExtended_extranonce msg)]"

definition deserializeSubmitSharesExtended :: "Sv2SubmitSharesExtended reading" where
  "deserializeSubmitSharesExtended =
     rd_bind readU32 (\<lambda>channelId.
     rd_bind readU32 (\<lambda>sequenceNumber.
     rd_bind readU32 (\<lambda>jobId.
     rd_bind readU32 (\<lambda>nonce.
     rd_bind readU32 (\<lambda>ntime.
     rd_bind readU32 (\<lambda>version.
     rd_bind readB0_32 (\<lambda>extranonce.
     rd_ret \<lparr>submitSharesExtended_channelId = channelId,
       submitSharesExtended_sequenceNumber = sequenceNumber,
       submitSharesExtended_jobId = jobId,
       submitSharesExtended_nonce = nonce,
       submitSharesExtended_ntime = ntime,
       submitSharesExtended_version = version,
       submitSharesExtended_extranonce = extranonce\<rparr>)))))))"

definition fits_SubmitSharesExtended :: "Sv2SubmitSharesExtended \<Rightarrow> bool" where
  "fits_SubmitSharesExtended msg \<longleftrightarrow>
     u32_ok (submitSharesExtended_channelId msg)
     \<and> u32_ok (submitSharesExtended_sequenceNumber msg)
     \<and> u32_ok (submitSharesExtended_jobId msg)
     \<and> u32_ok (submitSharesExtended_nonce msg)
     \<and> u32_ok (submitSharesExtended_ntime msg)
     \<and> u32_ok (submitSharesExtended_version msg)
     \<and> len_ok 32 (submitSharesExtended_extranonce msg)"

interpretation SubmitSharesExtended: message_codec serializeSubmitSharesExtended deserializeSubmitSharesExtended fits_SubmitSharesExtended
  unfolding fits_SubmitSharesExtended_def deserializeSubmitSharesExtended_def
  by (rule message_codecI, rule serializeSubmitSharesExtended_def)
    ((elim conjE)?, (rule field_emits field_parses | assumption | simp)+)+

section \<open>SetExtranoncePrefix\<close>

record Sv2SetExtranoncePrefix =
  setExtranoncePrefix_channelId :: "int"
  setExtranoncePrefix_extranoncePrefix :: "bytes"

definition serializeSetExtranoncePrefix :: "Sv2SetExtranoncePrefix \<Rightarrow> bytes result" where
  "serializeSetExtranoncePrefix msg = w_build [
     writeU32 (setExtranoncePrefix_channelId msg),
     writeB0_32 (setExtranoncePrefix_extranoncePrefix msg)]"

definition deserializeSetExtranoncePrefix :: "Sv2SetExtranoncePrefix reading" where
  "deserializeSetExtranoncePrefix =
     rd_bind readU32 (\<lambda>channelId.
     rd_bind readB0_32 (\<lambda>extranoncePrefix.
     rd_ret \<lparr>setExtranoncePrefix_channelId = channelId,
       setExtranoncePrefix_extranoncePrefix = extranoncePrefix\<rparr>))"

definition fits_SetExtranoncePrefix :: "Sv2SetExtranoncePrefix \<Rightarrow> bool" where
  "fits_SetExtranoncePrefix msg \<longleftrightarrow>
     u32_ok (setExtranoncePrefix_channelId msg)
     \<and> len_ok 32 (setExtranoncePrefix_extranoncePrefix msg)"

interpretation SetExtranoncePrefix: message_codec serializeSetExtranoncePrefix deserializeSetExtranoncePrefix fits_SetExtranoncePrefix
  unfolding fits_SetExtranoncePrefix_def deserializeSetExtranoncePrefix_def
  by (rule message_codecI, rule serializeSetExtranoncePrefix_def)
    ((elim conjE)?, (rule field_emits field_parses | assumption | simp)+)+

section \<open>SetGroupChannel\<close>

record Sv2SetGroupChannel =
  setGroupChannel_groupChannelId :: "int"
  setGroupChannel_channelIds :: "int list"

definition serializeSetGroupChannel :: "Sv2SetGroupChannel \<Rightarrow> bytes result" where
  "serializeSetGroupChannel msg = w_build [
     writeU32 (setGroupChannel_groupChannelId msg),
     writeSeq0_64K (setGroupChannel_channelIds msg) writeU32]"

definition deserializeSetGroupChannel :: "Sv2SetGroupChannel reading" where
  "deserializeSetGroupChannel =
     rd_bind readU32 (\<lambda>groupChannelId.
     rd_bind (readSeq0_64K readU32) (\<lambda>channelIds.
     rd_ret \<lparr>setGroupChannel_groupChannelId = groupChannelId,
       setGroupChannel_channelIds = channelIds\<rparr>))"

definition fits_SetGroupChannel :: "Sv2SetGroupChannel \<Rightarrow> bool" where
  "fits_SetGroupChannel msg \<longleftrightarrow>
     u32_ok (setGroupChannel_groupChannelId msg)
     \<and> seq_ok 65535 u32_ok (setGroupChannel_channelIds msg)"

interpretation SetGroupChannel: message_codec serializeSetGroupChannel deserializeSetGroupChannel fits_SetGroupChannel
  unfolding fits_SetGroupChannel_def deserializeSetGroupChannel_def
  by (rule message_codecI, rule serializeSetGroupChannel_def)
    ((elim conjE)?, (rule field_emits field_parses | assumption | simp)+)+

end
