(* ===== verification/Sv2JdpMessages.thy ===== *)
theory Sv2JdpMessages
  imports WireFields
begin

text \<open>
  \<open>src/models/sv2/sv2-jdp-messages.ts\<close>: the job declaration protocol and the custom job bridge.
  Every message is a record; its serializer is the sequence of writes of the source and its
  deserializer the sequence of reads, in the source's order. \<open>fits_M\<close> says that every field of the
  message fits its width, and the interpretation of \<open>message_codec\<close> proves the contract for it.
\<close>

section \<open>AllocateMiningJobToken\<close>

record Sv2AllocateMiningJobToken =
  allocateMiningJobToken_userIdentifier :: "jsstr"
  allocateMiningJobToken_requestId :: "int"

definition serializeAllocateMiningJobToken :: "Sv2AllocateMiningJobToken \<Rightarrow> bytes result" where
  "serializeAllocateMiningJobToken msg = w_build [
     writeStr0_255 (allocateMiningJobToken_userIdentifier msg),
     writeU32 (allocateMiningJobToken_requestId msg)]"

definition deserializeAllocateMiningJobToken :: "Sv2AllocateMiningJobToken reading" where
  "deserializeAllocateMiningJobToken =
     rd_bind readStr0_255 (\<lambda>userIdentifier.
     rd_bind readU32 (\<lambda>requestId.
     rd_ret \<lparr>allocateMiningJobToken_userIdentifier = userIdentifier,
       allocateMiningJobToken_requestId = requestId\<rparr>))"

definition fits_AllocateMiningJobToken :: "Sv2AllocateMiningJobToken \<Rightarrow> bool" where
  "fits_AllocateMiningJobToken msg \<longleftrightarrow>
     str_ok (allocateMiningJobToken_userIdentifier msg)
     \<and> u32_ok (allocateMiningJobToken_requestId msg)"

interpretation AllocateMiningJobToken: message_codec serializeAllocateMiningJobToken deserializeAllocateMiningJobToken fits_AllocateMiningJobToken
  unfolding fits_AllocateMiningJobToken_def deserializeAllocateMiningJobToken_def
  by (rule message_codecI, rule serializeAllocateMiningJobToken_def)
    ((elim conjE)?, (rule field_emits field_parses | assumption | simp)+)+

section \<open>AllocateMiningJobTokenSuccess\<close>

record Sv2AllocateMiningJobTokenSuccess =
  allocateMiningJobTokenSuccess_requestId :: "int"
  allocateMiningJobTokenSuccess_miningJobToken :: "bytes"
  allocateMiningJobTokenSuccess_coinbaseOutputs :: "bytes"

definition serializeAllocateMiningJobTokenSuccess :: "Sv2AllocateMiningJobTokenSuccess \<Rightarrow> bytes result" where
  "serializeAllocateMiningJobTokenSuccess msg = w_build [
     writeU32 (allocateMiningJobTokenSuccess_requestId msg),
     writeB0_255 (allocateMiningJobTokenSuccess_miningJobToken msg),
     writeB0_64K (allocateMiningJobTokenSuccess_coinbaseOutputs msg)]"

definition deserializeAllocateMiningJobTokenSuccess :: "Sv2AllocateMiningJobTokenSuccess reading" where
  "deserializeAllocateMiningJobTokenSuccess =
     rd_bind readU32 (\<lambda>requestId.
     rd_bind readB0_255 (\<lambda>miningJobToken.
     rd_bind readB0_64K (\<lambda>coinbaseOutputs.
     rd_ret \<lparr>allocateMiningJobTokenSuccess_requestId = requestId,
       allocateMiningJobTokenSuccess_miningJobToken = miningJobToken,
       allocateMiningJobTokenSuccess_coinbaseOutputs = coinbaseOutputs\<rparr>)))"

definition fits_AllocateMiningJobTokenSuccess :: "Sv2AllocateMiningJobTokenSuccess \<Rightarrow> bool" where
  "fits_AllocateMiningJobTokenSuccess msg \<longleftrightarrow>
     u32_ok (allocateMiningJobTokenSuccess_requestId msg)
     \<and> len_ok 255 (allocateMiningJobTokenSuccess_miningJobToken msg)
     \<and> len_ok 65535 (allocateMiningJobTokenSuccess_coinbaseOutputs msg)"

interpretation AllocateMiningJobTokenSuccess: message_codec serializeAllocateMiningJobTokenSuccess deserializeAllocateMiningJobTokenSuccess fits_AllocateMiningJobTokenSuccess
  unfolding fits_AllocateMiningJobTokenSuccess_def deserializeAllocateMiningJobTokenSuccess_def
  by (rule message_codecI, rule serializeAllocateMiningJobTokenSuccess_def)
    ((elim conjE)?, (rule field_emits field_parses | assumption | simp)+)+

section \<open>DeclareMiningJob\<close>

record Sv2DeclareMiningJob =
  declareMiningJob_requestId :: "int"
  declareMiningJob_miningJobToken :: "bytes"
  declareMiningJob_version :: "int"
  declareMiningJob_coinbaseTxPrefix :: "bytes"
  declareMiningJob_coinbaseTxSuffix :: "bytes"
  declareMiningJob_wtxidList :: "bytes list"
  declareMiningJob_excessData :: "bytes"

definition serializeDeclareMiningJob :: "Sv2DeclareMiningJob \<Rightarrow> bytes result" where
  "serializeDeclareMiningJob msg = w_build [
     writeU32 (declareMiningJob_requestId msg),
     writeB0_255 (declareMiningJob_miningJobToken msg),
     writeU32 (declareMiningJob_version msg),
     writeB0_64K (declareMiningJob_coinbaseTxPrefix msg),
     writeB0_64K (declareMiningJob_coinbaseTxSuffix msg),
     writeSeq0_64K (declareMiningJob_wtxidList msg) writeU256,
     writeB0_64K (declareMiningJob_excessData msg)]"

definition deserializeDeclareMiningJob :: "Sv2DeclareMiningJob reading" where
  "deserializeDeclareMiningJob =
     rd_bind readU32 (\<lambda>requestId.
     rd_bind readB0_255 (\<lambda>miningJobToken.
     rd_bind readU32 (\<lambda>version.
     rd_bind readB0_64K (\<lambda>coinbaseTxPrefix.
     rd_bind readB0_64K (\<lambda>coinbaseTxSuffix.
     rd_bind (readSeq0_64K readU256) (\<lambda>wtxidList.
     rd_bind readB0_64K (\<lambda>excessData.
     rd_ret \<lparr>declareMiningJob_requestId = requestId,
       declareMiningJob_miningJobToken = miningJobToken,
       declareMiningJob_version = version,
       declareMiningJob_coinbaseTxPrefix = coinbaseTxPrefix,
       declareMiningJob_coinbaseTxSuffix = coinbaseTxSuffix,
       declareMiningJob_wtxidList = wtxidList,
       declareMiningJob_excessData = excessData\<rparr>)))))))"

definition fits_DeclareMiningJob :: "Sv2DeclareMiningJob \<Rightarrow> bool" where
  "fits_DeclareMiningJob msg \<longleftrightarrow>
     u32_ok (declareMiningJob_requestId msg)
     \<and> len_ok 255 (declareMiningJob_miningJobToken msg)
     \<and> u32_ok (declareMiningJob_version msg)
     \<and> len_ok 65535 (declareMiningJob_coinbaseTxPrefix msg)
     \<and> len_ok 65535 (declareMiningJob_coinbaseTxSuffix msg)
     \<and> seq_ok 65535 u256_ok (declareMiningJob_wtxidList msg)
     \<and> len_ok 65535 (declareMiningJob_excessData msg)"

interpretation DeclareMiningJob: message_codec serializeDeclareMiningJob deserializeDeclareMiningJob fits_DeclareMiningJob
  unfolding fits_DeclareMiningJob_def deserializeDeclareMiningJob_def
  by (rule message_codecI, rule serializeDeclareMiningJob_def)
    ((elim conjE)?, (rule field_emits field_parses | assumption | simp)+)+

section \<open>DeclareMiningJobSuccess\<close>

record Sv2DeclareMiningJobSuccess =
  declareMiningJobSuccess_requestId :: "int"
  declareMiningJobSuccess_newMiningJobToken :: "bytes"

definition serializeDeclareMiningJobSuccess :: "Sv2DeclareMiningJobSuccess \<Rightarrow> bytes result" where
  "serializeDeclareMiningJobSuccess msg = w_build [
     writeU32 (declareMiningJobSuccess_requestId msg),
     writeB0_255 (declareMiningJobSuccess_newMiningJobToken msg)]"

definition deserializeDeclareMiningJobSuccess :: "Sv2DeclareMiningJobSuccess reading" where
  "deserializeDeclareMiningJobSuccess =
     rd_bind readU32 (\<lambda>requestId.
     rd_bind readB0_255 (\<lambda>newMiningJobToken.
     rd_ret \<lparr>declareMiningJobSuccess_requestId = requestId,
       declareMiningJobSuccess_newMiningJobToken = newMiningJobToken\<rparr>))"

definition fits_DeclareMiningJobSuccess :: "Sv2DeclareMiningJobSuccess \<Rightarrow> bool" where
  "fits_DeclareMiningJobSuccess msg \<longleftrightarrow>
     u32_ok (declareMiningJobSuccess_requestId msg)
     \<and> len_ok 255 (declareMiningJobSuccess_newMiningJobToken msg)"

interpretation DeclareMiningJobSuccess: message_codec serializeDeclareMiningJobSuccess deserializeDeclareMiningJobSuccess fits_DeclareMiningJobSuccess
  unfolding fits_DeclareMiningJobSuccess_def deserializeDeclareMiningJobSuccess_def
  by (rule message_codecI, rule serializeDeclareMiningJobSuccess_def)
    ((elim conjE)?, (rule field_emits field_parses | assumption | simp)+)+

section \<open>DeclareMiningJobError\<close>

record Sv2DeclareMiningJobError =
  declareMiningJobError_requestId :: "int"
  declareMiningJobError_errorCode :: "jsstr"
  declareMiningJobError_errorDetails :: "bytes"

definition serializeDeclareMiningJobError :: "Sv2DeclareMiningJobError \<Rightarrow> bytes result" where
  "serializeDeclareMiningJobError msg = w_build [
     writeU32 (declareMiningJobError_requestId msg),
     writeStr0_255 (declareMiningJobError_errorCode msg),
     writeB0_64K (declareMiningJobError_errorDetails msg)]"

definition deserializeDeclareMiningJobError :: "Sv2DeclareMiningJobError reading" where
  "deserializeDeclareMiningJobError =
     rd_bind readU32 (\<lambda>requestId.
     rd_bind readStr0_255 (\<lambda>errorCode.
     rd_bind readB0_64K (\<lambda>errorDetails.
     rd_ret \<lparr>declareMiningJobError_requestId = requestId,
       declareMiningJobError_errorCode = errorCode,
       declareMiningJobError_errorDetails = errorDetails\<rparr>)))"

definition fits_DeclareMiningJobError :: "Sv2DeclareMiningJobError \<Rightarrow> bool" where
  "fits_DeclareMiningJobError msg \<longleftrightarrow>
     u32_ok (declareMiningJobError_requestId msg)
     \<and> str_ok (declareMiningJobError_errorCode msg)
     \<and> len_ok 65535 (declareMiningJobError_errorDetails msg)"

interpretation DeclareMiningJobError: message_codec serializeDeclareMiningJobError deserializeDeclareMiningJobError fits_DeclareMiningJobError
  unfolding fits_DeclareMiningJobError_def deserializeDeclareMiningJobError_def
  by (rule message_codecI, rule serializeDeclareMiningJobError_def)
    ((elim conjE)?, (rule field_emits field_parses | assumption | simp)+)+

section \<open>ProvideMissingTransactions\<close>

record Sv2ProvideMissingTransactions =
  provideMissingTransactions_requestId :: "int"
  provideMissingTransactions_unknownTxPositionList :: "int list"

definition serializeProvideMissingTransactions :: "Sv2ProvideMissingTransactions \<Rightarrow> bytes result" where
  "serializeProvideMissingTransactions msg = w_build [
     writeU32 (provideMissingTransactions_requestId msg),
     writeSeq0_64K (provideMissingTransactions_unknownTxPositionList msg) writeU16]"

definition deserializeProvideMissingTransactions :: "Sv2ProvideMissingTransactions reading" where
  "deserializeProvideMissingTransactions =
     rd_bind readU32 (\<lambda>requestId.
     rd_bind (readSeq0_64K readU16) (\<lambda>unknownTxPositionList.
     rd_ret \<lparr>provideMissingTransactions_requestId = requestId,
       provideMissingTransactions_unknownTxPositionList = unknownTxPositionList\<rparr>))"

definition fits_ProvideMissingTransactions :: "Sv2ProvideMissingTransactions \<Rightarrow> bool" where
  "fits_ProvideMissingTransactions msg \<longleftrightarrow>
     u32_ok (provideMissingTransactions_requestId msg)
     \<and> seq_ok 65535 u16_ok (provideMissingTransactions_unknownTxPositionList msg)"

interpretation ProvideMissingTransactions: message_codec serializeProvideMissingTransactions deserializeProvideMissingTransactions fits_ProvideMissingTransactions
  unfolding fits_ProvideMissingTransactions_def deserializeProvideMissingTransactions_def
  by (rule message_codecI, rule serializeProvideMissingTransactions_def)
    ((elim conjE)?, (rule field_emits field_parses | assumption | simp)+)+

section \<open>ProvideMissingTransactionsSuccess\<close>

record Sv2ProvideMissingTransactionsSuccess =
  provideMissingTransactionsSuccess_requestId :: "int"
  provideMissingTransactionsSuccess_transactionList :: "bytes list"

definition serializeProvideMissingTransactionsSuccess :: "Sv2ProvideMissingTransactionsSuccess \<Rightarrow> bytes result" where
  "serializeProvideMissingTransactionsSuccess msg = w_build [
     writeU32 (provideMissingTransactionsSuccess_requestId msg),
     writeSeq0_64K (provideMissingTransactionsSuccess_transactionList msg) writeB0_16M]"

definition deserializeProvideMissingTransactionsSuccess :: "Sv2ProvideMissingTransactionsSuccess reading" where
  "deserializeProvideMissingTransactionsSuccess =
     rd_bind readU32 (\<lambda>requestId.
     rd_bind (readSeq0_64K readB0_16M) (\<lambda>transactionList.
     rd_ret \<lparr>provideMissingTransactionsSuccess_requestId = requestId,
       provideMissingTransactionsSuccess_transactionList = transactionList\<rparr>))"

definition fits_ProvideMissingTransactionsSuccess :: "Sv2ProvideMissingTransactionsSuccess \<Rightarrow> bool" where
  "fits_ProvideMissingTransactionsSuccess msg \<longleftrightarrow>
     u32_ok (provideMissingTransactionsSuccess_requestId msg)
     \<and> seq_ok 65535 (len_ok 16777215) (provideMissingTransactionsSuccess_transactionList msg)"

interpretation ProvideMissingTransactionsSuccess: message_codec serializeProvideMissingTransactionsSuccess deserializeProvideMissingTransactionsSuccess fits_ProvideMissingTransactionsSuccess
  unfolding fits_ProvideMissingTransactionsSuccess_def deserializeProvideMissingTransactionsSuccess_def
  by (rule message_codecI, rule serializeProvideMissingTransactionsSuccess_def)
    ((elim conjE)?, (rule field_emits field_parses | assumption | simp)+)+

section \<open>PushSolution\<close>

record Sv2PushSolution =
  pushSolution_extranonce :: "bytes"
  pushSolution_prevHash :: "bytes"
  pushSolution_nonce :: "int"
  pushSolution_ntime :: "int"
  pushSolution_nBits :: "int"
  pushSolution_version :: "int"

definition serializePushSolution :: "Sv2PushSolution \<Rightarrow> bytes result" where
  "serializePushSolution msg = w_build [
     writeB0_32 (pushSolution_extranonce msg),
     writeU256 (pushSolution_prevHash msg),
     writeU32 (pushSolution_nonce msg),
     writeU32 (pushSolution_ntime msg),
     writeU32 (pushSolution_nBits msg),
     writeU32 (pushSolution_version msg)]"

definition deserializePushSolution :: "Sv2PushSolution reading" where
  "deserializePushSolution =
     rd_bind readB0_32 (\<lambda>extranonce.
     rd_bind readU256 (\<lambda>prevHash.
     rd_bind readU32 (\<lambda>nonce.
     rd_bind readU32 (\<lambda>ntime.
     rd_bind readU32 (\<lambda>nBits.
     rd_bind readU32 (\<lambda>version.
     rd_ret \<lparr>pushSolution_extranonce = extranonce,
       pushSolution_prevHash = prevHash,
       pushSolution_nonce = nonce,
       pushSolution_ntime = ntime,
       pushSolution_nBits = nBits,
       pushSolution_version = version\<rparr>))))))"

definition fits_PushSolution :: "Sv2PushSolution \<Rightarrow> bool" where
  "fits_PushSolution msg \<longleftrightarrow>
     len_ok 32 (pushSolution_extranonce msg)
     \<and> u256_ok (pushSolution_prevHash msg)
     \<and> u32_ok (pushSolution_nonce msg)
     \<and> u32_ok (pushSolution_ntime msg)
     \<and> u32_ok (pushSolution_nBits msg)
     \<and> u32_ok (pushSolution_version msg)"

interpretation PushSolution: message_codec serializePushSolution deserializePushSolution fits_PushSolution
  unfolding fits_PushSolution_def deserializePushSolution_def
  by (rule message_codecI, rule serializePushSolution_def)
    ((elim conjE)?, (rule field_emits field_parses | assumption | simp)+)+

section \<open>SetCustomMiningJob\<close>

record Sv2SetCustomMiningJob =
  setCustomMiningJob_channelId :: "int"
  setCustomMiningJob_requestId :: "int"
  setCustomMiningJob_token :: "bytes"
  setCustomMiningJob_version :: "int"
  setCustomMiningJob_prevHash :: "bytes"
  setCustomMiningJob_minNtime :: "int"
  setCustomMiningJob_nBits :: "int"
  setCustomMiningJob_coinbaseTxVersion :: "int"
  setCustomMiningJob_coinbasePrefix :: "bytes"
  setCustomMiningJob_coinbaseTxInputNSequence :: "int"
  setCustomMiningJob_coinbaseTxOutputs :: "bytes"
  setCustomMiningJob_coinbaseTxLocktime :: "int"
  setCustomMiningJob_merklePath :: "bytes list"

definition serializeSetCustomMiningJob :: "Sv2SetCustomMiningJob \<Rightarrow> bytes result" where
  "serializeSetCustomMiningJob msg = w_build [
     writeU32 (setCustomMiningJob_channelId msg),
     writeU32 (setCustomMiningJob_requestId msg),
     writeB0_255 (setCustomMiningJob_token msg),
     writeU32 (setCustomMiningJob_version msg),
     writeU256 (setCustomMiningJob_prevHash msg),
     writeU32 (setCustomMiningJob_minNtime msg),
     writeU32 (setCustomMiningJob_nBits msg),
     writeU32 (setCustomMiningJob_coinbaseTxVersion msg),
     writeB0_255 (setCustomMiningJob_coinbasePrefix msg),
     writeU32 (setCustomMiningJob_coinbaseTxInputNSequence msg),
     writeB0_64K (setCustomMiningJob_coinbaseTxOutputs msg),
     writeU32 (setCustomMiningJob_coinbaseTxLocktime msg),
     writeSeq0_255 (setCustomMiningJob_merklePath msg) writeU256]"

definition deserializeSetCustomMiningJob :: "Sv2SetCustomMiningJob reading" where
  "deserializeSetCustomMiningJob =
     rd_bind readU32 (\<lambda>channelId.
     rd_bind readU32 (\<lambda>requestId.
     rd_bind readB0_255 (\<lambda>token.
     rd_bind readU32 (\<lambda>version.
     rd_bind readU256 (\<lambda>prevHash.
     rd_bind readU32 (\<lambda>minNtime.
     rd_bind readU32 (\<lambda>nBits.
     rd_bind readU32 (\<lambda>coinbaseTxVersion.
     rd_bind readB0_255 (\<lambda>coinbasePrefix.
     rd_bind readU32 (\<lambda>coinbaseTxInputNSequence.
     rd_bind readB0_64K (\<lambda>coinbaseTxOutputs.
     rd_bind readU32 (\<lambda>coinbaseTxLocktime.
     rd_bind (readSeq0_255 readU256) (\<lambda>merklePath.
     rd_ret \<lparr>setCustomMiningJob_channelId = channelId,
       setCustomMiningJob_requestId = requestId,
       setCustomMiningJob_token = token,
       setCustomMiningJob_version = version,
       setCustomMiningJob_prevHash = prevHash,
       setCustomMiningJob_minNtime = minNtime,
       setCustomMiningJob_nBits = nBits,
       setCustomMiningJob_coinbaseTxVersion = coinbaseTxVersion,
       setCustomMiningJob_coinbasePrefix = coinbasePrefix,
       setCustomMiningJob_coinbaseTxInputNSequence = coinbaseTxInputNSequence,
       setCustomMiningJob_coinbaseTxOutputs = coinbaseTxOutputs,
       setCustomMiningJob_coinbaseTxLocktime = coinbaseTxLocktime,
       setCustomMiningJob_merklePath = merklePath\<rparr>)))))))))))))"

definition fits_SetCustomMiningJob :: "Sv2SetCustomMiningJob \<Rightarrow> bool" where
  "fits_SetCustomMiningJob msg \<longleftrightarrow>
     u32_ok (setCustomMiningJob_channelId msg)
     \<and> u32_ok (setCustomMiningJob_requestId msg)
     \<and> len_ok 255 (setCustomMiningJob_token msg)
     \<and> u32_ok (setCustomMiningJob_version msg)
     \<and> u256_ok (setCustomMiningJob_prevHash msg)
     \<and> u32_ok (setCustomMiningJob_minNtime msg)
     \<and> u32_ok (setCustomMiningJob_nBits msg)
     \<and> u32_ok (setCustomMiningJob_coinbaseTxVersion msg)
     \<and> len_ok 255 (setCustomMiningJob_coinbasePrefix msg)
     \<and> u32_ok (setCustomMiningJob_coinbaseTxInputNSequence msg)
     \<and> len_ok 65535 (setCustomMiningJob_coinbaseTxOutputs msg)
     \<and> u32_ok (setCustomMiningJob_coinbaseTxLocktime msg)
     \<and> seq_ok 255 u256_ok (setCustomMiningJob_merklePath msg)"

interpretation SetCustomMiningJob: message_codec serializeSetCustomMiningJob deserializeSetCustomMiningJob fits_SetCustomMiningJob
  unfolding fits_SetCustomMiningJob_def deserializeSetCustomMiningJob_def
  by (rule message_codecI, rule serializeSetCustomMiningJob_def)
    ((elim conjE)?, (rule field_emits field_parses | assumption | simp)+)+

section \<open>SetCustomMiningJobSuccess\<close>

record Sv2SetCustomMiningJobSuccess =
  setCustomMiningJobSuccess_channelId :: "int"
  setCustomMiningJobSuccess_requestId :: "int"
  setCustomMiningJobSuccess_jobId :: "int"

definition serializeSetCustomMiningJobSuccess :: "Sv2SetCustomMiningJobSuccess \<Rightarrow> bytes result" where
  "serializeSetCustomMiningJobSuccess msg = w_build [
     writeU32 (setCustomMiningJobSuccess_channelId msg),
     writeU32 (setCustomMiningJobSuccess_requestId msg),
     writeU32 (setCustomMiningJobSuccess_jobId msg)]"

definition deserializeSetCustomMiningJobSuccess :: "Sv2SetCustomMiningJobSuccess reading" where
  "deserializeSetCustomMiningJobSuccess =
     rd_bind readU32 (\<lambda>channelId.
     rd_bind readU32 (\<lambda>requestId.
     rd_bind readU32 (\<lambda>jobId.
     rd_ret \<lparr>setCustomMiningJobSuccess_channelId = channelId,
       setCustomMiningJobSuccess_requestId = requestId,
       setCustomMiningJobSuccess_jobId = jobId\<rparr>)))"

definition fits_SetCustomMiningJobSuccess :: "Sv2SetCustomMiningJobSuccess \<Rightarrow> bool" where
  "fits_SetCustomMiningJobSuccess msg \<longleftrightarrow>
     u32_ok (setCustomMiningJobSuccess_channelId msg)
     \<and> u32_ok (setCustomMiningJobSuccess_requestId msg)
     \<and> u32_ok (setCustomMiningJobSuccess_jobId msg)"

interpretation SetCustomMiningJobSuccess: message_codec serializeSetCustomMiningJobSuccess deserializeSetCustomMiningJobSuccess fits_SetCustomMiningJobSuccess
  unfolding fits_SetCustomMiningJobSuccess_def deserializeSetCustomMiningJobSuccess_def
  by (rule message_codecI, rule serializeSetCustomMiningJobSuccess_def)
    ((elim conjE)?, (rule field_emits field_parses | assumption | simp)+)+

section \<open>SetCustomMiningJobError\<close>

record Sv2SetCustomMiningJobError =
  setCustomMiningJobError_channelId :: "int"
  setCustomMiningJobError_requestId :: "int"
  setCustomMiningJobError_errorCode :: "jsstr"

definition serializeSetCustomMiningJobError :: "Sv2SetCustomMiningJobError \<Rightarrow> bytes result" where
  "serializeSetCustomMiningJobError msg = w_build [
     writeU32 (setCustomMiningJobError_channelId msg),
     writeU32 (setCustomMiningJobError_requestId msg),
     writeStr0_255 (setCustomMiningJobError_errorCode msg)]"

definition deserializeSetCustomMiningJobError :: "Sv2SetCustomMiningJobError reading" where
  "deserializeSetCustomMiningJobError =
     rd_bind readU32 (\<lambda>channelId.
     rd_bind readU32 (\<lambda>requestId.
     rd_bind readStr0_255 (\<lambda>errorCode.
     rd_ret \<lparr>setCustomMiningJobError_channelId = channelId,
       setCustomMiningJobError_requestId = requestId,
       setCustomMiningJobError_errorCode = errorCode\<rparr>)))"

definition fits_SetCustomMiningJobError :: "Sv2SetCustomMiningJobError \<Rightarrow> bool" where
  "fits_SetCustomMiningJobError msg \<longleftrightarrow>
     u32_ok (setCustomMiningJobError_channelId msg)
     \<and> u32_ok (setCustomMiningJobError_requestId msg)
     \<and> str_ok (setCustomMiningJobError_errorCode msg)"

interpretation SetCustomMiningJobError: message_codec serializeSetCustomMiningJobError deserializeSetCustomMiningJobError fits_SetCustomMiningJobError
  unfolding fits_SetCustomMiningJobError_def deserializeSetCustomMiningJobError_def
  by (rule message_codecI, rule serializeSetCustomMiningJobError_def)
    ((elim conjE)?, (rule field_emits field_parses | assumption | simp)+)+

end
