(* ===== verification/Sv2TdpMessages.thy ===== *)
theory Sv2TdpMessages
  imports WireFields
begin

text \<open>
  \<open>src/models/sv2/sv2-tdp-messages.ts\<close>: the template distribution protocol.
  Every message is a record; its serializer is the sequence of writes of the source and its
  deserializer the sequence of reads, in the source's order. \<open>fits_M\<close> says that every field of the
  message fits its width, and the interpretation of \<open>message_codec\<close> proves the contract for it.
\<close>

section \<open>TdpCoinbaseOutputConstraints\<close>

record Sv2TdpCoinbaseOutputConstraints =
  tdpCoinbaseOutputConstraints_coinbaseOutputMaxAdditionalSize :: "int"
  tdpCoinbaseOutputConstraints_coinbaseOutputMaxAdditionalSigops :: "int"

definition serializeTdpCoinbaseOutputConstraints :: "Sv2TdpCoinbaseOutputConstraints \<Rightarrow> bytes result" where
  "serializeTdpCoinbaseOutputConstraints msg = w_build [
     writeU32 (tdpCoinbaseOutputConstraints_coinbaseOutputMaxAdditionalSize msg),
     writeU16 (tdpCoinbaseOutputConstraints_coinbaseOutputMaxAdditionalSigops msg)]"

definition deserializeTdpCoinbaseOutputConstraints :: "Sv2TdpCoinbaseOutputConstraints reading" where
  "deserializeTdpCoinbaseOutputConstraints =
     rd_bind readU32 (\<lambda>coinbaseOutputMaxAdditionalSize.
     rd_bind readU16 (\<lambda>coinbaseOutputMaxAdditionalSigops.
     rd_ret \<lparr>tdpCoinbaseOutputConstraints_coinbaseOutputMaxAdditionalSize = coinbaseOutputMaxAdditionalSize,
       tdpCoinbaseOutputConstraints_coinbaseOutputMaxAdditionalSigops = coinbaseOutputMaxAdditionalSigops\<rparr>))"

definition fits_TdpCoinbaseOutputConstraints :: "Sv2TdpCoinbaseOutputConstraints \<Rightarrow> bool" where
  "fits_TdpCoinbaseOutputConstraints msg \<longleftrightarrow>
     u32_ok (tdpCoinbaseOutputConstraints_coinbaseOutputMaxAdditionalSize msg)
     \<and> u16_ok (tdpCoinbaseOutputConstraints_coinbaseOutputMaxAdditionalSigops msg)"

interpretation TdpCoinbaseOutputConstraints: message_codec serializeTdpCoinbaseOutputConstraints deserializeTdpCoinbaseOutputConstraints fits_TdpCoinbaseOutputConstraints
  unfolding fits_TdpCoinbaseOutputConstraints_def deserializeTdpCoinbaseOutputConstraints_def
  by (rule message_codecI, rule serializeTdpCoinbaseOutputConstraints_def)
    ((elim conjE)?, (rule field_emits field_parses | assumption | simp)+)+

section \<open>TdpNewTemplate\<close>

record Sv2TdpNewTemplate =
  tdpNewTemplate_templateId :: "int"
  tdpNewTemplate_futureTemplate :: "bool"
  tdpNewTemplate_version :: "int"
  tdpNewTemplate_coinbaseTxVersion :: "int"
  tdpNewTemplate_coinbasePrefix :: "bytes"
  tdpNewTemplate_coinbaseTxInputSequence :: "int"
  tdpNewTemplate_coinbaseTxValueRemaining :: "int"
  tdpNewTemplate_coinbaseTxOutputsCount :: "int"
  tdpNewTemplate_coinbaseTxOutputs :: "bytes"
  tdpNewTemplate_coinbaseTxLocktime :: "int"
  tdpNewTemplate_merklePath :: "bytes list"

definition serializeTdpNewTemplate :: "Sv2TdpNewTemplate \<Rightarrow> bytes result" where
  "serializeTdpNewTemplate msg = w_build [
     writeU64 (tdpNewTemplate_templateId msg),
     writeBool (tdpNewTemplate_futureTemplate msg),
     writeU32 (tdpNewTemplate_version msg),
     writeU32 (tdpNewTemplate_coinbaseTxVersion msg),
     writeB0_255 (tdpNewTemplate_coinbasePrefix msg),
     writeU32 (tdpNewTemplate_coinbaseTxInputSequence msg),
     writeU64 (tdpNewTemplate_coinbaseTxValueRemaining msg),
     writeU32 (tdpNewTemplate_coinbaseTxOutputsCount msg),
     writeB0_64K (tdpNewTemplate_coinbaseTxOutputs msg),
     writeU32 (tdpNewTemplate_coinbaseTxLocktime msg),
     writeSeq0_255 (tdpNewTemplate_merklePath msg) writeU256]"

definition deserializeTdpNewTemplate :: "Sv2TdpNewTemplate reading" where
  "deserializeTdpNewTemplate =
     rd_bind readU64 (\<lambda>templateId.
     rd_bind readBool (\<lambda>futureTemplate.
     rd_bind readU32 (\<lambda>version.
     rd_bind readU32 (\<lambda>coinbaseTxVersion.
     rd_bind readB0_255 (\<lambda>coinbasePrefix.
     rd_bind readU32 (\<lambda>coinbaseTxInputSequence.
     rd_bind readU64 (\<lambda>coinbaseTxValueRemaining.
     rd_bind readU32 (\<lambda>coinbaseTxOutputsCount.
     rd_bind readB0_64K (\<lambda>coinbaseTxOutputs.
     rd_bind readU32 (\<lambda>coinbaseTxLocktime.
     rd_bind (readSeq0_255 readU256) (\<lambda>merklePath.
     rd_ret \<lparr>tdpNewTemplate_templateId = templateId,
       tdpNewTemplate_futureTemplate = futureTemplate,
       tdpNewTemplate_version = version,
       tdpNewTemplate_coinbaseTxVersion = coinbaseTxVersion,
       tdpNewTemplate_coinbasePrefix = coinbasePrefix,
       tdpNewTemplate_coinbaseTxInputSequence = coinbaseTxInputSequence,
       tdpNewTemplate_coinbaseTxValueRemaining = coinbaseTxValueRemaining,
       tdpNewTemplate_coinbaseTxOutputsCount = coinbaseTxOutputsCount,
       tdpNewTemplate_coinbaseTxOutputs = coinbaseTxOutputs,
       tdpNewTemplate_coinbaseTxLocktime = coinbaseTxLocktime,
       tdpNewTemplate_merklePath = merklePath\<rparr>)))))))))))"

definition fits_TdpNewTemplate :: "Sv2TdpNewTemplate \<Rightarrow> bool" where
  "fits_TdpNewTemplate msg \<longleftrightarrow>
     u64_ok (tdpNewTemplate_templateId msg)
     \<and> u32_ok (tdpNewTemplate_version msg)
     \<and> u32_ok (tdpNewTemplate_coinbaseTxVersion msg)
     \<and> len_ok 255 (tdpNewTemplate_coinbasePrefix msg)
     \<and> u32_ok (tdpNewTemplate_coinbaseTxInputSequence msg)
     \<and> u64_ok (tdpNewTemplate_coinbaseTxValueRemaining msg)
     \<and> u32_ok (tdpNewTemplate_coinbaseTxOutputsCount msg)
     \<and> len_ok 65535 (tdpNewTemplate_coinbaseTxOutputs msg)
     \<and> u32_ok (tdpNewTemplate_coinbaseTxLocktime msg)
     \<and> seq_ok 255 u256_ok (tdpNewTemplate_merklePath msg)"

interpretation TdpNewTemplate: message_codec serializeTdpNewTemplate deserializeTdpNewTemplate fits_TdpNewTemplate
  unfolding fits_TdpNewTemplate_def deserializeTdpNewTemplate_def
  by (rule message_codecI, rule serializeTdpNewTemplate_def)
    ((elim conjE)?, (rule field_emits field_parses | assumption | simp)+)+

section \<open>TdpSetNewPrevHash\<close>

record Sv2TdpSetNewPrevHash =
  tdpSetNewPrevHash_templateId :: "int"
  tdpSetNewPrevHash_prevHash :: "bytes"
  tdpSetNewPrevHash_headerTimestamp :: "int"
  tdpSetNewPrevHash_nBits :: "int"
  tdpSetNewPrevHash_target :: "bytes"

definition serializeTdpSetNewPrevHash :: "Sv2TdpSetNewPrevHash \<Rightarrow> bytes result" where
  "serializeTdpSetNewPrevHash msg = w_build [
     writeU64 (tdpSetNewPrevHash_templateId msg),
     writeU256 (tdpSetNewPrevHash_prevHash msg),
     writeU32 (tdpSetNewPrevHash_headerTimestamp msg),
     writeU32 (tdpSetNewPrevHash_nBits msg),
     writeU256 (tdpSetNewPrevHash_target msg)]"

definition deserializeTdpSetNewPrevHash :: "Sv2TdpSetNewPrevHash reading" where
  "deserializeTdpSetNewPrevHash =
     rd_bind readU64 (\<lambda>templateId.
     rd_bind readU256 (\<lambda>prevHash.
     rd_bind readU32 (\<lambda>headerTimestamp.
     rd_bind readU32 (\<lambda>nBits.
     rd_bind readU256 (\<lambda>target.
     rd_ret \<lparr>tdpSetNewPrevHash_templateId = templateId,
       tdpSetNewPrevHash_prevHash = prevHash,
       tdpSetNewPrevHash_headerTimestamp = headerTimestamp,
       tdpSetNewPrevHash_nBits = nBits,
       tdpSetNewPrevHash_target = target\<rparr>)))))"

definition fits_TdpSetNewPrevHash :: "Sv2TdpSetNewPrevHash \<Rightarrow> bool" where
  "fits_TdpSetNewPrevHash msg \<longleftrightarrow>
     u64_ok (tdpSetNewPrevHash_templateId msg)
     \<and> u256_ok (tdpSetNewPrevHash_prevHash msg)
     \<and> u32_ok (tdpSetNewPrevHash_headerTimestamp msg)
     \<and> u32_ok (tdpSetNewPrevHash_nBits msg)
     \<and> u256_ok (tdpSetNewPrevHash_target msg)"

interpretation TdpSetNewPrevHash: message_codec serializeTdpSetNewPrevHash deserializeTdpSetNewPrevHash fits_TdpSetNewPrevHash
  unfolding fits_TdpSetNewPrevHash_def deserializeTdpSetNewPrevHash_def
  by (rule message_codecI, rule serializeTdpSetNewPrevHash_def)
    ((elim conjE)?, (rule field_emits field_parses | assumption | simp)+)+

section \<open>TdpRequestTransactionData\<close>

record Sv2TdpRequestTransactionData =
  tdpRequestTransactionData_templateId :: "int"

definition serializeTdpRequestTransactionData :: "Sv2TdpRequestTransactionData \<Rightarrow> bytes result" where
  "serializeTdpRequestTransactionData msg = w_build [
     writeU64 (tdpRequestTransactionData_templateId msg)]"

definition deserializeTdpRequestTransactionData :: "Sv2TdpRequestTransactionData reading" where
  "deserializeTdpRequestTransactionData =
     rd_bind readU64 (\<lambda>templateId.
     rd_ret \<lparr>tdpRequestTransactionData_templateId = templateId\<rparr>)"

definition fits_TdpRequestTransactionData :: "Sv2TdpRequestTransactionData \<Rightarrow> bool" where
  "fits_TdpRequestTransactionData msg \<longleftrightarrow>
     u64_ok (tdpRequestTransactionData_templateId msg)"

interpretation TdpRequestTransactionData: message_codec serializeTdpRequestTransactionData deserializeTdpRequestTransactionData fits_TdpRequestTransactionData
  unfolding fits_TdpRequestTransactionData_def deserializeTdpRequestTransactionData_def
  by (rule message_codecI, rule serializeTdpRequestTransactionData_def)
    ((elim conjE)?, (rule field_emits field_parses | assumption | simp)+)+

section \<open>TdpRequestTransactionDataSuccess\<close>

record Sv2TdpRequestTransactionDataSuccess =
  tdpRequestTransactionDataSuccess_templateId :: "int"
  tdpRequestTransactionDataSuccess_excessData :: "bytes"
  tdpRequestTransactionDataSuccess_transactionList :: "bytes list"

definition serializeTdpRequestTransactionDataSuccess :: "Sv2TdpRequestTransactionDataSuccess \<Rightarrow> bytes result" where
  "serializeTdpRequestTransactionDataSuccess msg = w_build [
     writeU64 (tdpRequestTransactionDataSuccess_templateId msg),
     writeB0_64K (tdpRequestTransactionDataSuccess_excessData msg),
     writeSeq0_64K (tdpRequestTransactionDataSuccess_transactionList msg) writeB0_16M]"

definition deserializeTdpRequestTransactionDataSuccess :: "Sv2TdpRequestTransactionDataSuccess reading" where
  "deserializeTdpRequestTransactionDataSuccess =
     rd_bind readU64 (\<lambda>templateId.
     rd_bind readB0_64K (\<lambda>excessData.
     rd_bind (readSeq0_64K readB0_16M) (\<lambda>transactionList.
     rd_ret \<lparr>tdpRequestTransactionDataSuccess_templateId = templateId,
       tdpRequestTransactionDataSuccess_excessData = excessData,
       tdpRequestTransactionDataSuccess_transactionList = transactionList\<rparr>)))"

definition fits_TdpRequestTransactionDataSuccess :: "Sv2TdpRequestTransactionDataSuccess \<Rightarrow> bool" where
  "fits_TdpRequestTransactionDataSuccess msg \<longleftrightarrow>
     u64_ok (tdpRequestTransactionDataSuccess_templateId msg)
     \<and> len_ok 65535 (tdpRequestTransactionDataSuccess_excessData msg)
     \<and> seq_ok 65535 (len_ok 16777215) (tdpRequestTransactionDataSuccess_transactionList msg)"

interpretation TdpRequestTransactionDataSuccess: message_codec serializeTdpRequestTransactionDataSuccess deserializeTdpRequestTransactionDataSuccess fits_TdpRequestTransactionDataSuccess
  unfolding fits_TdpRequestTransactionDataSuccess_def deserializeTdpRequestTransactionDataSuccess_def
  by (rule message_codecI, rule serializeTdpRequestTransactionDataSuccess_def)
    ((elim conjE)?, (rule field_emits field_parses | assumption | simp)+)+

section \<open>TdpRequestTransactionDataError\<close>

record Sv2TdpRequestTransactionDataError =
  tdpRequestTransactionDataError_templateId :: "int"
  tdpRequestTransactionDataError_errorCode :: "jsstr"

definition serializeTdpRequestTransactionDataError :: "Sv2TdpRequestTransactionDataError \<Rightarrow> bytes result" where
  "serializeTdpRequestTransactionDataError msg = w_build [
     writeU64 (tdpRequestTransactionDataError_templateId msg),
     writeStr0_255 (tdpRequestTransactionDataError_errorCode msg)]"

definition deserializeTdpRequestTransactionDataError :: "Sv2TdpRequestTransactionDataError reading" where
  "deserializeTdpRequestTransactionDataError =
     rd_bind readU64 (\<lambda>templateId.
     rd_bind readStr0_255 (\<lambda>errorCode.
     rd_ret \<lparr>tdpRequestTransactionDataError_templateId = templateId,
       tdpRequestTransactionDataError_errorCode = errorCode\<rparr>))"

definition fits_TdpRequestTransactionDataError :: "Sv2TdpRequestTransactionDataError \<Rightarrow> bool" where
  "fits_TdpRequestTransactionDataError msg \<longleftrightarrow>
     u64_ok (tdpRequestTransactionDataError_templateId msg)
     \<and> str_ok (tdpRequestTransactionDataError_errorCode msg)"

interpretation TdpRequestTransactionDataError: message_codec serializeTdpRequestTransactionDataError deserializeTdpRequestTransactionDataError fits_TdpRequestTransactionDataError
  unfolding fits_TdpRequestTransactionDataError_def deserializeTdpRequestTransactionDataError_def
  by (rule message_codecI, rule serializeTdpRequestTransactionDataError_def)
    ((elim conjE)?, (rule field_emits field_parses | assumption | simp)+)+

section \<open>TdpSubmitSolution\<close>

record Sv2TdpSubmitSolution =
  tdpSubmitSolution_templateId :: "int"
  tdpSubmitSolution_version :: "int"
  tdpSubmitSolution_headerTimestamp :: "int"
  tdpSubmitSolution_headerNonce :: "int"
  tdpSubmitSolution_coinbaseTx :: "bytes"

definition serializeTdpSubmitSolution :: "Sv2TdpSubmitSolution \<Rightarrow> bytes result" where
  "serializeTdpSubmitSolution msg = w_build [
     writeU64 (tdpSubmitSolution_templateId msg),
     writeU32 (tdpSubmitSolution_version msg),
     writeU32 (tdpSubmitSolution_headerTimestamp msg),
     writeU32 (tdpSubmitSolution_headerNonce msg),
     writeB0_64K (tdpSubmitSolution_coinbaseTx msg)]"

definition deserializeTdpSubmitSolution :: "Sv2TdpSubmitSolution reading" where
  "deserializeTdpSubmitSolution =
     rd_bind readU64 (\<lambda>templateId.
     rd_bind readU32 (\<lambda>version.
     rd_bind readU32 (\<lambda>headerTimestamp.
     rd_bind readU32 (\<lambda>headerNonce.
     rd_bind readB0_64K (\<lambda>coinbaseTx.
     rd_ret \<lparr>tdpSubmitSolution_templateId = templateId,
       tdpSubmitSolution_version = version,
       tdpSubmitSolution_headerTimestamp = headerTimestamp,
       tdpSubmitSolution_headerNonce = headerNonce,
       tdpSubmitSolution_coinbaseTx = coinbaseTx\<rparr>)))))"

definition fits_TdpSubmitSolution :: "Sv2TdpSubmitSolution \<Rightarrow> bool" where
  "fits_TdpSubmitSolution msg \<longleftrightarrow>
     u64_ok (tdpSubmitSolution_templateId msg)
     \<and> u32_ok (tdpSubmitSolution_version msg)
     \<and> u32_ok (tdpSubmitSolution_headerTimestamp msg)
     \<and> u32_ok (tdpSubmitSolution_headerNonce msg)
     \<and> len_ok 65535 (tdpSubmitSolution_coinbaseTx msg)"

interpretation TdpSubmitSolution: message_codec serializeTdpSubmitSolution deserializeTdpSubmitSolution fits_TdpSubmitSolution
  unfolding fits_TdpSubmitSolution_def deserializeTdpSubmitSolution_def
  by (rule message_codecI, rule serializeTdpSubmitSolution_def)
    ((elim conjE)?, (rule field_emits field_parses | assumption | simp)+)+

end
