(* ===== verification/Sv2Wire.thy ===== *)
theory Sv2Wire
  imports "HOL-Library.Sublist" Sv2Frame Sv2Messages Sv2ExtendedMessages Sv2JdpMessages Sv2TdpMessages
begin

text \<open>
  The whole wire layer in one view: the messages of the four SV2 protocols as one sum, the message
  type of each (\<open>Sv2MsgType\<close> of \<open>sv2-constants.ts\<close>), the \<open>sendFrame\<close> the three servers share, and
  delivery from the sender's serializer to the receiver's deserializer over any segmentation.
\<close>

datatype sv2_message =
    M_SetupConnection Sv2SetupConnection
  | M_SetupConnectionSuccess Sv2SetupConnectionSuccess
  | M_SetupConnectionError Sv2SetupConnectionError
  | M_ChannelEndpointChanged Sv2ChannelEndpointChanged
  | M_Reconnect Sv2Reconnect
  | M_OpenStandardMiningChannel Sv2OpenStandardMiningChannel
  | M_OpenStandardMiningChannelSuccess Sv2OpenStandardMiningChannelSuccess
  | M_OpenMiningChannelError Sv2OpenMiningChannelError
  | M_OpenExtendedMiningChannel Sv2OpenExtendedMiningChannel
  | M_OpenExtendedMiningChannelSuccess Sv2OpenExtendedMiningChannelSuccess
  | M_NewMiningJob Sv2NewMiningJob
  | M_UpdateChannel Sv2UpdateChannel
  | M_UpdateChannelError Sv2UpdateChannelError
  | M_CloseChannel Sv2CloseChannel
  | M_SetExtranoncePrefix Sv2SetExtranoncePrefix
  | M_SubmitSharesStandard Sv2SubmitSharesStandard
  | M_SubmitSharesExtended Sv2SubmitSharesExtended
  | M_SubmitSharesSuccess Sv2SubmitSharesSuccess
  | M_SubmitSharesError Sv2SubmitSharesError
  | M_NewExtendedMiningJob Sv2NewExtendedMiningJob
  | M_SetNewPrevHash Sv2SetNewPrevHash
  | M_SetTarget Sv2SetTarget
  | M_SetCustomMiningJob Sv2SetCustomMiningJob
  | M_SetCustomMiningJobSuccess Sv2SetCustomMiningJobSuccess
  | M_SetCustomMiningJobError Sv2SetCustomMiningJobError
  | M_SetGroupChannel Sv2SetGroupChannel
  | M_AllocateMiningJobToken Sv2AllocateMiningJobToken
  | M_AllocateMiningJobTokenSuccess Sv2AllocateMiningJobTokenSuccess
  | M_ProvideMissingTransactions Sv2ProvideMissingTransactions
  | M_ProvideMissingTransactionsSuccess Sv2ProvideMissingTransactionsSuccess
  | M_DeclareMiningJob Sv2DeclareMiningJob
  | M_DeclareMiningJobSuccess Sv2DeclareMiningJobSuccess
  | M_DeclareMiningJobError Sv2DeclareMiningJobError
  | M_PushSolution Sv2PushSolution
  | M_TdpCoinbaseOutputConstraints Sv2TdpCoinbaseOutputConstraints
  | M_TdpNewTemplate Sv2TdpNewTemplate
  | M_TdpSetNewPrevHash Sv2TdpSetNewPrevHash
  | M_TdpRequestTransactionData Sv2TdpRequestTransactionData
  | M_TdpRequestTransactionDataSuccess Sv2TdpRequestTransactionDataSuccess
  | M_TdpRequestTransactionDataError Sv2TdpRequestTransactionDataError
  | M_TdpSubmitSolution Sv2TdpSubmitSolution

primrec msg_code :: "sv2_message \<Rightarrow> int" where
  "msg_code (M_SetupConnection m) = 0x00"
| "msg_code (M_SetupConnectionSuccess m) = 0x01"
| "msg_code (M_SetupConnectionError m) = 0x02"
| "msg_code (M_ChannelEndpointChanged m) = 0x03"
| "msg_code (M_Reconnect m) = 0x04"
| "msg_code (M_OpenStandardMiningChannel m) = 0x10"
| "msg_code (M_OpenStandardMiningChannelSuccess m) = 0x11"
| "msg_code (M_OpenMiningChannelError m) = 0x12"
| "msg_code (M_OpenExtendedMiningChannel m) = 0x13"
| "msg_code (M_OpenExtendedMiningChannelSuccess m) = 0x14"
| "msg_code (M_NewMiningJob m) = 0x15"
| "msg_code (M_UpdateChannel m) = 0x16"
| "msg_code (M_UpdateChannelError m) = 0x17"
| "msg_code (M_CloseChannel m) = 0x18"
| "msg_code (M_SetExtranoncePrefix m) = 0x19"
| "msg_code (M_SubmitSharesStandard m) = 0x1a"
| "msg_code (M_SubmitSharesExtended m) = 0x1b"
| "msg_code (M_SubmitSharesSuccess m) = 0x1c"
| "msg_code (M_SubmitSharesError m) = 0x1d"
| "msg_code (M_NewExtendedMiningJob m) = 0x1f"
| "msg_code (M_SetNewPrevHash m) = 0x20"
| "msg_code (M_SetTarget m) = 0x21"
| "msg_code (M_SetCustomMiningJob m) = 0x22"
| "msg_code (M_SetCustomMiningJobSuccess m) = 0x23"
| "msg_code (M_SetCustomMiningJobError m) = 0x24"
| "msg_code (M_SetGroupChannel m) = 0x25"
| "msg_code (M_AllocateMiningJobToken m) = 0x50"
| "msg_code (M_AllocateMiningJobTokenSuccess m) = 0x51"
| "msg_code (M_ProvideMissingTransactions m) = 0x55"
| "msg_code (M_ProvideMissingTransactionsSuccess m) = 0x56"
| "msg_code (M_DeclareMiningJob m) = 0x57"
| "msg_code (M_DeclareMiningJobSuccess m) = 0x58"
| "msg_code (M_DeclareMiningJobError m) = 0x59"
| "msg_code (M_PushSolution m) = 0x60"
| "msg_code (M_TdpCoinbaseOutputConstraints m) = 0x70"
| "msg_code (M_TdpNewTemplate m) = 0x71"
| "msg_code (M_TdpSetNewPrevHash m) = 0x72"
| "msg_code (M_TdpRequestTransactionData m) = 0x73"
| "msg_code (M_TdpRequestTransactionDataSuccess m) = 0x74"
| "msg_code (M_TdpRequestTransactionDataError m) = 0x75"
| "msg_code (M_TdpSubmitSolution m) = 0x76"

primrec ser_msg :: "sv2_message \<Rightarrow> bytes result" where
  "ser_msg (M_SetupConnection m) = serializeSetupConnection m"
| "ser_msg (M_SetupConnectionSuccess m) = serializeSetupConnectionSuccess m"
| "ser_msg (M_SetupConnectionError m) = serializeSetupConnectionError m"
| "ser_msg (M_ChannelEndpointChanged m) = serializeChannelEndpointChanged m"
| "ser_msg (M_Reconnect m) = serializeReconnect m"
| "ser_msg (M_OpenStandardMiningChannel m) = serializeOpenStandardMiningChannel m"
| "ser_msg (M_OpenStandardMiningChannelSuccess m) = serializeOpenStandardMiningChannelSuccess m"
| "ser_msg (M_OpenMiningChannelError m) = serializeOpenMiningChannelError m"
| "ser_msg (M_OpenExtendedMiningChannel m) = serializeOpenExtendedMiningChannel m"
| "ser_msg (M_OpenExtendedMiningChannelSuccess m) = serializeOpenExtendedMiningChannelSuccess m"
| "ser_msg (M_NewMiningJob m) = serializeNewMiningJob m"
| "ser_msg (M_UpdateChannel m) = serializeUpdateChannel m"
| "ser_msg (M_UpdateChannelError m) = serializeUpdateChannelError m"
| "ser_msg (M_CloseChannel m) = serializeCloseChannel m"
| "ser_msg (M_SetExtranoncePrefix m) = serializeSetExtranoncePrefix m"
| "ser_msg (M_SubmitSharesStandard m) = serializeSubmitSharesStandard m"
| "ser_msg (M_SubmitSharesExtended m) = serializeSubmitSharesExtended m"
| "ser_msg (M_SubmitSharesSuccess m) = serializeSubmitSharesSuccess m"
| "ser_msg (M_SubmitSharesError m) = serializeSubmitSharesError m"
| "ser_msg (M_NewExtendedMiningJob m) = serializeNewExtendedMiningJob m"
| "ser_msg (M_SetNewPrevHash m) = serializeSetNewPrevHash m"
| "ser_msg (M_SetTarget m) = serializeSetTarget m"
| "ser_msg (M_SetCustomMiningJob m) = serializeSetCustomMiningJob m"
| "ser_msg (M_SetCustomMiningJobSuccess m) = serializeSetCustomMiningJobSuccess m"
| "ser_msg (M_SetCustomMiningJobError m) = serializeSetCustomMiningJobError m"
| "ser_msg (M_SetGroupChannel m) = serializeSetGroupChannel m"
| "ser_msg (M_AllocateMiningJobToken m) = serializeAllocateMiningJobToken m"
| "ser_msg (M_AllocateMiningJobTokenSuccess m) = serializeAllocateMiningJobTokenSuccess m"
| "ser_msg (M_ProvideMissingTransactions m) = serializeProvideMissingTransactions m"
| "ser_msg (M_ProvideMissingTransactionsSuccess m) = serializeProvideMissingTransactionsSuccess m"
| "ser_msg (M_DeclareMiningJob m) = serializeDeclareMiningJob m"
| "ser_msg (M_DeclareMiningJobSuccess m) = serializeDeclareMiningJobSuccess m"
| "ser_msg (M_DeclareMiningJobError m) = serializeDeclareMiningJobError m"
| "ser_msg (M_PushSolution m) = serializePushSolution m"
| "ser_msg (M_TdpCoinbaseOutputConstraints m) = serializeTdpCoinbaseOutputConstraints m"
| "ser_msg (M_TdpNewTemplate m) = serializeTdpNewTemplate m"
| "ser_msg (M_TdpSetNewPrevHash m) = serializeTdpSetNewPrevHash m"
| "ser_msg (M_TdpRequestTransactionData m) = serializeTdpRequestTransactionData m"
| "ser_msg (M_TdpRequestTransactionDataSuccess m) = serializeTdpRequestTransactionDataSuccess m"
| "ser_msg (M_TdpRequestTransactionDataError m) = serializeTdpRequestTransactionDataError m"
| "ser_msg (M_TdpSubmitSolution m) = serializeTdpSubmitSolution m"

primrec fits_msg :: "sv2_message \<Rightarrow> bool" where
  "fits_msg (M_SetupConnection m) = fits_SetupConnection m"
| "fits_msg (M_SetupConnectionSuccess m) = fits_SetupConnectionSuccess m"
| "fits_msg (M_SetupConnectionError m) = fits_SetupConnectionError m"
| "fits_msg (M_ChannelEndpointChanged m) = fits_ChannelEndpointChanged m"
| "fits_msg (M_Reconnect m) = fits_Reconnect m"
| "fits_msg (M_OpenStandardMiningChannel m) = fits_OpenStandardMiningChannel m"
| "fits_msg (M_OpenStandardMiningChannelSuccess m) = fits_OpenStandardMiningChannelSuccess m"
| "fits_msg (M_OpenMiningChannelError m) = fits_OpenMiningChannelError m"
| "fits_msg (M_OpenExtendedMiningChannel m) = fits_OpenExtendedMiningChannel m"
| "fits_msg (M_OpenExtendedMiningChannelSuccess m) = fits_OpenExtendedMiningChannelSuccess m"
| "fits_msg (M_NewMiningJob m) = fits_NewMiningJob m"
| "fits_msg (M_UpdateChannel m) = fits_UpdateChannel m"
| "fits_msg (M_UpdateChannelError m) = fits_UpdateChannelError m"
| "fits_msg (M_CloseChannel m) = fits_CloseChannel m"
| "fits_msg (M_SetExtranoncePrefix m) = fits_SetExtranoncePrefix m"
| "fits_msg (M_SubmitSharesStandard m) = fits_SubmitSharesStandard m"
| "fits_msg (M_SubmitSharesExtended m) = fits_SubmitSharesExtended m"
| "fits_msg (M_SubmitSharesSuccess m) = fits_SubmitSharesSuccess m"
| "fits_msg (M_SubmitSharesError m) = fits_SubmitSharesError m"
| "fits_msg (M_NewExtendedMiningJob m) = fits_NewExtendedMiningJob m"
| "fits_msg (M_SetNewPrevHash m) = fits_SetNewPrevHash m"
| "fits_msg (M_SetTarget m) = fits_SetTarget m"
| "fits_msg (M_SetCustomMiningJob m) = fits_SetCustomMiningJob m"
| "fits_msg (M_SetCustomMiningJobSuccess m) = fits_SetCustomMiningJobSuccess m"
| "fits_msg (M_SetCustomMiningJobError m) = fits_SetCustomMiningJobError m"
| "fits_msg (M_SetGroupChannel m) = fits_SetGroupChannel m"
| "fits_msg (M_AllocateMiningJobToken m) = fits_AllocateMiningJobToken m"
| "fits_msg (M_AllocateMiningJobTokenSuccess m) = fits_AllocateMiningJobTokenSuccess m"
| "fits_msg (M_ProvideMissingTransactions m) = fits_ProvideMissingTransactions m"
| "fits_msg (M_ProvideMissingTransactionsSuccess m) = fits_ProvideMissingTransactionsSuccess m"
| "fits_msg (M_DeclareMiningJob m) = fits_DeclareMiningJob m"
| "fits_msg (M_DeclareMiningJobSuccess m) = fits_DeclareMiningJobSuccess m"
| "fits_msg (M_DeclareMiningJobError m) = fits_DeclareMiningJobError m"
| "fits_msg (M_PushSolution m) = fits_PushSolution m"
| "fits_msg (M_TdpCoinbaseOutputConstraints m) = fits_TdpCoinbaseOutputConstraints m"
| "fits_msg (M_TdpNewTemplate m) = fits_TdpNewTemplate m"
| "fits_msg (M_TdpSetNewPrevHash m) = fits_TdpSetNewPrevHash m"
| "fits_msg (M_TdpRequestTransactionData m) = fits_TdpRequestTransactionData m"
| "fits_msg (M_TdpRequestTransactionDataSuccess m) = fits_TdpRequestTransactionDataSuccess m"
| "fits_msg (M_TdpRequestTransactionDataError m) = fits_TdpRequestTransactionDataError m"
| "fits_msg (M_TdpSubmitSolution m) = fits_TdpSubmitSolution m"

definition deser_msg :: "int \<Rightarrow> sv2_message option reading" where
  "deser_msg t =
    (
     if t = 0x00 then rd_bind deserializeSetupConnection (\<lambda>m. rd_ret (Some (M_SetupConnection m))) else
     if t = 0x01 then rd_bind deserializeSetupConnectionSuccess (\<lambda>m. rd_ret (Some (M_SetupConnectionSuccess m))) else
     if t = 0x02 then rd_bind deserializeSetupConnectionError (\<lambda>m. rd_ret (Some (M_SetupConnectionError m))) else
     if t = 0x03 then rd_bind deserializeChannelEndpointChanged (\<lambda>m. rd_ret (Some (M_ChannelEndpointChanged m))) else
     if t = 0x04 then rd_bind deserializeReconnect (\<lambda>m. rd_ret (Some (M_Reconnect m))) else
     if t = 0x10 then rd_bind deserializeOpenStandardMiningChannel (\<lambda>m. rd_ret (Some (M_OpenStandardMiningChannel m))) else
     if t = 0x11 then rd_bind deserializeOpenStandardMiningChannelSuccess (\<lambda>m. rd_ret (Some (M_OpenStandardMiningChannelSuccess m))) else
     if t = 0x12 then rd_bind deserializeOpenMiningChannelError (\<lambda>m. rd_ret (Some (M_OpenMiningChannelError m))) else
     if t = 0x13 then rd_bind deserializeOpenExtendedMiningChannel (\<lambda>m. rd_ret (Some (M_OpenExtendedMiningChannel m))) else
     if t = 0x14 then rd_bind deserializeOpenExtendedMiningChannelSuccess (\<lambda>m. rd_ret (Some (M_OpenExtendedMiningChannelSuccess m))) else
     if t = 0x15 then rd_bind deserializeNewMiningJob (\<lambda>m. rd_ret (Some (M_NewMiningJob m))) else
     if t = 0x16 then rd_bind deserializeUpdateChannel (\<lambda>m. rd_ret (Some (M_UpdateChannel m))) else
     if t = 0x17 then rd_bind deserializeUpdateChannelError (\<lambda>m. rd_ret (Some (M_UpdateChannelError m))) else
     if t = 0x18 then rd_bind deserializeCloseChannel (\<lambda>m. rd_ret (Some (M_CloseChannel m))) else
     if t = 0x19 then rd_bind deserializeSetExtranoncePrefix (\<lambda>m. rd_ret (Some (M_SetExtranoncePrefix m))) else
     if t = 0x1a then rd_bind deserializeSubmitSharesStandard (\<lambda>m. rd_ret (Some (M_SubmitSharesStandard m))) else
     if t = 0x1b then rd_bind deserializeSubmitSharesExtended (\<lambda>m. rd_ret (Some (M_SubmitSharesExtended m))) else
     if t = 0x1c then rd_bind deserializeSubmitSharesSuccess (\<lambda>m. rd_ret (Some (M_SubmitSharesSuccess m))) else
     if t = 0x1d then rd_bind deserializeSubmitSharesError (\<lambda>m. rd_ret (Some (M_SubmitSharesError m))) else
     if t = 0x1f then rd_bind deserializeNewExtendedMiningJob (\<lambda>m. rd_ret (Some (M_NewExtendedMiningJob m))) else
     if t = 0x20 then rd_bind deserializeSetNewPrevHash (\<lambda>m. rd_ret (Some (M_SetNewPrevHash m))) else
     if t = 0x21 then rd_bind deserializeSetTarget (\<lambda>m. rd_ret (Some (M_SetTarget m))) else
     if t = 0x22 then rd_bind deserializeSetCustomMiningJob (\<lambda>m. rd_ret (Some (M_SetCustomMiningJob m))) else
     if t = 0x23 then rd_bind deserializeSetCustomMiningJobSuccess (\<lambda>m. rd_ret (Some (M_SetCustomMiningJobSuccess m))) else
     if t = 0x24 then rd_bind deserializeSetCustomMiningJobError (\<lambda>m. rd_ret (Some (M_SetCustomMiningJobError m))) else
     if t = 0x25 then rd_bind deserializeSetGroupChannel (\<lambda>m. rd_ret (Some (M_SetGroupChannel m))) else
     if t = 0x50 then rd_bind deserializeAllocateMiningJobToken (\<lambda>m. rd_ret (Some (M_AllocateMiningJobToken m))) else
     if t = 0x51 then rd_bind deserializeAllocateMiningJobTokenSuccess (\<lambda>m. rd_ret (Some (M_AllocateMiningJobTokenSuccess m))) else
     if t = 0x55 then rd_bind deserializeProvideMissingTransactions (\<lambda>m. rd_ret (Some (M_ProvideMissingTransactions m))) else
     if t = 0x56 then rd_bind deserializeProvideMissingTransactionsSuccess (\<lambda>m. rd_ret (Some (M_ProvideMissingTransactionsSuccess m))) else
     if t = 0x57 then rd_bind deserializeDeclareMiningJob (\<lambda>m. rd_ret (Some (M_DeclareMiningJob m))) else
     if t = 0x58 then rd_bind deserializeDeclareMiningJobSuccess (\<lambda>m. rd_ret (Some (M_DeclareMiningJobSuccess m))) else
     if t = 0x59 then rd_bind deserializeDeclareMiningJobError (\<lambda>m. rd_ret (Some (M_DeclareMiningJobError m))) else
     if t = 0x60 then rd_bind deserializePushSolution (\<lambda>m. rd_ret (Some (M_PushSolution m))) else
     if t = 0x70 then rd_bind deserializeTdpCoinbaseOutputConstraints (\<lambda>m. rd_ret (Some (M_TdpCoinbaseOutputConstraints m))) else
     if t = 0x71 then rd_bind deserializeTdpNewTemplate (\<lambda>m. rd_ret (Some (M_TdpNewTemplate m))) else
     if t = 0x72 then rd_bind deserializeTdpSetNewPrevHash (\<lambda>m. rd_ret (Some (M_TdpSetNewPrevHash m))) else
     if t = 0x73 then rd_bind deserializeTdpRequestTransactionData (\<lambda>m. rd_ret (Some (M_TdpRequestTransactionData m))) else
     if t = 0x74 then rd_bind deserializeTdpRequestTransactionDataSuccess (\<lambda>m. rd_ret (Some (M_TdpRequestTransactionDataSuccess m))) else
     if t = 0x75 then rd_bind deserializeTdpRequestTransactionDataError (\<lambda>m. rd_ret (Some (M_TdpRequestTransactionDataError m))) else
     if t = 0x76 then rd_bind deserializeTdpSubmitSolution (\<lambda>m. rd_ret (Some (M_TdpSubmitSolution m))) else
     rd_ret None)"

lemma parses_tagged:
  assumes "message_codec ser deser fits" "fits m"
  shows "\<exists>bs. ser m = Inr bs \<and> parses (rd_bind deser (\<lambda>m. rd_ret (Some (f m)))) bs (Some (f m))"
proof -
  from message_codec.codec [OF assms] obtain bs where "ser m = Inr bs" "parses deser bs m" by blast
  moreover from this(2) have "parses (rd_bind deser (\<lambda>m. rd_ret (Some (f m)))) (bs @ []) (Some (f m))"
    by (intro parses_bind parses_ret) auto
  ultimately show ?thesis by simp
qed

lemmas codecs =
  SetupConnection.message_codec_axioms
  SetupConnectionSuccess.message_codec_axioms
  SetupConnectionError.message_codec_axioms
  ChannelEndpointChanged.message_codec_axioms
  Reconnect.message_codec_axioms
  OpenStandardMiningChannel.message_codec_axioms
  OpenStandardMiningChannelSuccess.message_codec_axioms
  OpenMiningChannelError.message_codec_axioms
  OpenExtendedMiningChannel.message_codec_axioms
  OpenExtendedMiningChannelSuccess.message_codec_axioms
  NewMiningJob.message_codec_axioms
  UpdateChannel.message_codec_axioms
  UpdateChannelError.message_codec_axioms
  CloseChannel.message_codec_axioms
  SetExtranoncePrefix.message_codec_axioms
  SubmitSharesStandard.message_codec_axioms
  SubmitSharesExtended.message_codec_axioms
  SubmitSharesSuccess.message_codec_axioms
  SubmitSharesError.message_codec_axioms
  NewExtendedMiningJob.message_codec_axioms
  SetNewPrevHash.message_codec_axioms
  SetTarget.message_codec_axioms
  SetCustomMiningJob.message_codec_axioms
  SetCustomMiningJobSuccess.message_codec_axioms
  SetCustomMiningJobError.message_codec_axioms
  SetGroupChannel.message_codec_axioms
  AllocateMiningJobToken.message_codec_axioms
  AllocateMiningJobTokenSuccess.message_codec_axioms
  ProvideMissingTransactions.message_codec_axioms
  ProvideMissingTransactionsSuccess.message_codec_axioms
  DeclareMiningJob.message_codec_axioms
  DeclareMiningJobSuccess.message_codec_axioms
  DeclareMiningJobError.message_codec_axioms
  PushSolution.message_codec_axioms
  TdpCoinbaseOutputConstraints.message_codec_axioms
  TdpNewTemplate.message_codec_axioms
  TdpSetNewPrevHash.message_codec_axioms
  TdpRequestTransactionData.message_codec_axioms
  TdpRequestTransactionDataSuccess.message_codec_axioms
  TdpRequestTransactionDataError.message_codec_axioms
  TdpSubmitSolution.message_codec_axioms

text \<open>The type of a message selects its own deserializer.\<close>

lemma msg_codec:
  assumes "fits_msg m"
  shows "\<exists>bs. ser_msg m = Inr bs \<and> parses (deser_msg (msg_code m)) bs (Some m)"
  using assms
  by (cases m) (simp_all add: deser_msg_def codecs [THEN parses_tagged])


lemma msg_code_u8: "u8_ok (msg_code m)"
  by (cases m) (simp_all add: u8_ok_def)

section \<open>Sending\<close>

text \<open>\<open>sendFrame\<close> of \<open>StratumV2Client.ts\<close> and of the two services; they pass the serialized message.\<close>

definition sendFrame :: "int \<Rightarrow> bytes \<Rightarrow> int \<Rightarrow> 'c frameWriter \<Rightarrow> (bytes \<times> 'c frameWriter) result" where
  "sendFrame ty data extType w =
     writeFrame \<lparr>extensionType = extType, msgType = ty, msgLength = int (length data)\<rparr> data w"

definition sendMessage :: "int \<times> sv2_message \<Rightarrow> 'c frameWriter \<Rightarrow> (bytes \<times> 'c frameWriter) result" where
  "sendMessage em w = rbind (ser_msg (snd em)) (\<lambda>data. sendFrame (msg_code (snd em)) data (fst em) w)"

primrec sendMessages ::
    "(int \<times> sv2_message) list \<Rightarrow> 'c frameWriter \<Rightarrow> (bytes \<times> 'c frameWriter) result" where
  "sendMessages [] w = Inr ([], w)"
| "sendMessages (em # ems) w =
     rbind (sendMessage em w) (\<lambda>(wire, w1).
     rbind (sendMessages ems w1) (\<lambda>(wires, w2). Inr (wire @ wires, w2)))"

definition decodeFrame :: "ParsedFrame \<Rightarrow> sv2_message option result" where
  "decodeFrame f = rmap fst (deser_msg (msgType (header f)) (newReader (payload f)))"

definition sendable :: "int \<times> sv2_message \<Rightarrow> bool" where
  "sendable em \<longleftrightarrow> u16_ok (fst em) \<and> fits_msg (snd em)
     \<and> (case ser_msg (snd em) of Inl _ \<Rightarrow> False | Inr data \<Rightarrow> length data < 2 ^ 24)"

lemma sendMessage_frame:
  assumes "sendable em"
  shows "\<exists>f. (\<forall>w :: 'c frameWriter. sendMessage em w = writeFrame (header f) (payload f) w)
     \<and> frame_fits f \<and> extensionType (header f) = fst em \<and> decodeFrame f = Inr (Some (snd em))"
proof -
  obtain e m where em: "em = (e, m)" by (cases em)
  from assms have fits: "fits_msg m" and e: "u16_ok e" by (simp_all add: sendable_def em)
  from msg_codec [OF fits] obtain bs where bs: "ser_msg m = Inr bs"
    and p: "parses (deser_msg (msg_code m)) bs (Some m)" by blast
  from assms bs have len: "length bs < 2 ^ 24" by (simp add: sendable_def em)
  let ?f = "\<lparr>header = \<lparr>extensionType = e, msgType = msg_code m, msgLength = int (length bs)\<rparr>,
     payload = bs\<rparr>"
  have "frame_fits ?f"
    using e len msg_code_u8 [of m] by (simp add: frame_fits_def header_ok_def u24_ok_def)
  moreover have "decodeFrame ?f = Inr (Some m)"
    using parses_full [OF p, of "[]" "[]"] by (simp add: decodeFrame_def newReader_def)
  moreover have "sendMessage em w = writeFrame (header ?f) (payload ?f) w" for w :: "'c frameWriter"
    by (simp add: sendMessage_def sendFrame_def em bs)
  ultimately show ?thesis by (intro exI [of _ ?f]) (simp add: em)
qed

lemma sendMessages_frames:
  assumes "list_all sendable ems"
  shows "\<exists>fs. (\<forall>w :: 'c frameWriter. sendMessages ems w = writeFrames fs w) \<and> list_all frame_fits fs
     \<and> map (extensionType \<circ> header) fs = map fst ems
     \<and> map decodeFrame fs = map (Inr \<circ> Some \<circ> snd) ems"
  using assms
proof (induction ems)
  case Nil
  then show ?case by simp
next
  case (Cons em ems)
  then have e: "sendable em" and es: "list_all sendable ems" by simp_all
  from Cons.IH [OF es] obtain fs where fs: "\<And>w :: 'c frameWriter. sendMessages ems w = writeFrames fs w"
    "list_all frame_fits fs" "map (extensionType \<circ> header) fs = map fst ems"
    "map decodeFrame fs = map (Inr \<circ> Some \<circ> snd) ems" by blast
  from sendMessage_frame [OF e, where 'c = 'c] obtain f
    where f: "\<And>w :: 'c frameWriter. sendMessage em w = writeFrame (header f) (payload f) w"
      "frame_fits f" "extensionType (header f) = fst em" "decodeFrame f = Inr (Some (snd em))"
    by blast
  from fs f show ?case by (intro exI [of _ "f # fs"]) (simp add: comp_def)
qed

section \<open>Properties\<close>

lemma send_and_deliver:
  assumes "linked sync w r" "list_all sendable ems"
  shows "\<exists>wire w1 r1 fs. sendMessages ems w = Inr (wire, w1) \<and> linked sync w1 r1
     \<and> (\<forall>segs. concat segs = wire \<longrightarrow> feedSegments segs r = Inr (r1, fs))
     \<and> map (extensionType \<circ> header) fs = map fst ems
     \<and> map decodeFrame fs = map (Inr \<circ> Some \<circ> snd) ems"
proof -
  obtain fs where fs: "\<And>w :: 'a frameWriter. sendMessages ems w = writeFrames fs w"
    "list_all frame_fits fs" "map (extensionType \<circ> header) fs = map fst ems"
    "map decodeFrame fs = map (Inr \<circ> Some \<circ> snd) ems"
    using sendMessages_frames [OF assms(2), where 'c = 'a] by blast
  from frames_delivered [OF assms(1) fs(2)]
  obtain wire w1 r1 where d: "writeFrames fs w = Inr (wire, w1)" "feed wire r = Inr (r1, fs)"
    "linked sync w1 r1" by blast
  have "feedSegments segs r = Inr (r1, fs)" if "concat segs = wire" for segs
    using feedSegments_concat [OF linked_idle [OF assms(1)], of segs] d(2) that by simp
  then show ?thesis
    using fs(3,4) d(1,3) by (intro exI [of _ wire] exI [of _ w1] exI [of _ r1] exI [of _ fs])
      (simp add: fs(1) del: o_apply map_map)
qed

definition sample_share :: Sv2SubmitSharesExtended where
  "sample_share = \<lparr>submitSharesExtended_channelId = 7, submitSharesExtended_sequenceNumber = 1,
     submitSharesExtended_jobId = 3, submitSharesExtended_nonce = 0x12345678,
     submitSharesExtended_ntime = 0x65000000, submitSharesExtended_version = 0x20000000,
     submitSharesExtended_extranonce = [1, 2, 3, 4]\<rparr>"

definition sample_bytes :: bytes where
  "sample_bytes = [7, 0, 0, 0, 1, 0, 0, 0, 3, 0, 0, 0, 0x78, 0x56, 0x34, 0x12, 0, 0, 0, 0x65,
     0, 0, 0, 0x20, 4, 1, 2, 3, 4]"

abbreviation "sample_msg \<equiv> M_SubmitSharesExtended sample_share"
abbreviation "other_msg \<equiv> M_SubmitSharesExtended (sample_share
     \<lparr>submitSharesExtended_extranonce := [1, 2, 3]\<rparr>)"

lemma sample_fits: "fits_msg sample_msg" "fits_msg other_msg"
  by (simp_all add: fits_SubmitSharesExtended_def sample_share_def wire_ok_defs)

lemma serialize_sample:
  assumes "length x < 5"
  shows "serializeSubmitSharesExtended (sample_share\<lparr>submitSharesExtended_extranonce := x\<rparr>)
     = Inr (take 24 sample_bytes @ byte_of (int (length x)) # x)"
  unfolding serializeSubmitSharesExtended_def using assms
  by (rule_tac w_build_emits, rule_tac back_subst [where P = "emits _"])
    ((rule field_emits | simp add: sample_share_def wire_ok_defs)+,
      simp add: sample_share_def sample_bytes_def le_bytes_eval)

lemma sample_share_facts:
  "ser_msg sample_msg = Inr sample_bytes"
  "ser_msg other_msg = Inr (take 24 sample_bytes @ [3, 1, 2, 3])"
  using serialize_sample [of "[1, 2, 3, 4]"] serialize_sample [of "[1, 2, 3]"]
  by (simp_all add: byte_of_def) (simp add: sample_share_def sample_bytes_def)

lemma sample_share_sendable: "sendable (0x8000, sample_msg)"
  by (simp add: sendable_def sample_fits [simplified] sample_share_facts [simplified]
      u16_ok_def sample_bytes_def)

text \<open>
  C8. What a server sends is what its peer decodes. Whenever a writer and a reader are linked (both in
  the clear, or with ciphers in step), sending any list of messages of the four SV2 protocols that
  fit their wire widths succeeds, and however TCP cuts the bytes into segments, the reader returns
  exactly one frame per message, in order, with its extension type, and the deserializer of the
  frame's message type gives back the message; the two ends stay linked.
\<close>

theorem sv2_stream_delivery:
  assumes "linked sync w r" "list_all sendable ems"
  shows "\<exists>wire w1 r1 fs. sendMessages ems w = Inr (wire, w1) \<and> linked sync w1 r1
     \<and> (\<forall>segs. concat segs = wire \<longrightarrow> feedSegments segs r = Inr (r1, fs))
     \<and> map (extensionType \<circ> header) fs = map fst ems
     \<and> map decodeFrame fs = map (Inr \<circ> Some \<circ> snd) ems"
  by (rule send_and_deliver [OF assms])

lemma sv2_stream_delivery_witness:
  "\<exists>wire w1 r1 fs. sendMessages [(0x8000, M_SubmitSharesExtended sample_share)]
       \<lparr>encryptFn = Some tag_enc, fw_cipher = 5\<rparr> = Inr (wire, w1)
     \<and> feedSegments [take 3 wire, [], drop 3 wire] (newFrameReader (Some tag_dec) 5) = Inr (r1, fs)
     \<and> map decodeFrame fs = [Inr (Some (M_SubmitSharesExtended sample_share))]"
proof -
  have "linked (=) \<lparr>encryptFn = Some tag_enc, fw_cipher = 5\<rparr> (newFrameReader (Some tag_dec) 5)"
    by (simp add: linked_def newFrameReader_def tag_pair)
  from sv2_stream_delivery [OF this, of "[(0x8000, sample_msg)]"] sample_share_sendable
  obtain wire w1 r1 fs where
    "sendMessages [(0x8000, sample_msg)] \<lparr>encryptFn = Some tag_enc, fw_cipher = 5\<rparr> = Inr (wire, w1)"
    "\<And>segs. concat segs = wire \<Longrightarrow> feedSegments segs (newFrameReader (Some tag_dec) 5) = Inr (r1, fs)"
    "map decodeFrame fs = [Inr (Some sample_msg)]"
    by (auto simp del: sendMessages.simps feedSegments.simps)
  moreover from this(2) [of "[take 3 wire, [], drop 3 wire]"]
  have "feedSegments [take 3 wire, [], drop 3 wire] (newFrameReader (Some tag_dec) 5) = Inr (r1, fs)"
    by (simp del: feedSegments.simps)
  ultimately show ?thesis by (intro exI conjI)
qed



text \<open>
  Messages of one type never run into each other: the bytes of one message are not a prefix of
  the bytes of a different message of the same type. In particular the serializers are injective.
\<close>

theorem sv2_messages_prefix_free:
  assumes "fits_msg m" "fits_msg m'" "msg_code m = msg_code m'" "m \<noteq> m'"
    and "ser_msg m = Inr bs" "ser_msg m' = Inr bs'"
  shows "\<not> prefix bs bs'"
proof
  assume "prefix bs bs'"
  then obtain ext where ext: "bs' = bs @ ext" by (auto simp: prefix_def)
  from msg_codec [OF assms(1)] assms(5) have 1: "parses (deser_msg (msg_code m)) bs (Some m)" by auto
  from msg_codec [OF assms(2)] assms(3,6) ext
  have 2: "parses (deser_msg (msg_code m)) (bs @ ext) (Some m')" by auto
  from parses_full [OF 1, of "[]" ext] parses_full [OF 2, of "[]" "[]"] assms(4)
  show False by simp
qed

lemma sv2_messages_prefix_free_witness:
  "\<not> prefix sample_bytes (take 24 sample_bytes @ [3, 1, 2, 3])"
  using sv2_messages_prefix_free [OF sample_fits _ _ sample_share_facts]
  by (simp add: sample_share_def)

end
