(* ===== verification/Extranonce.thy ===== *)
theory Extranonce
  imports WireFields "HOL-Library.AList"
begin

text \<open>
  \<open>src/models/sv2/sv2-extranonce-manager.ts\<close>: the prefixes of extended mining channels.

  The two \<open>Map\<close>s of the class are an association list and a set. The contract its clients rely on,
  that no two channels hold one prefix, is the locale \<open>unique_allocator\<close>; the manager interprets it.
  The numbers are exact for the prefix sizes considered (at most five bytes), where JavaScript's
  32-bit operators do not drop bits either.
\<close>

section \<open>The contract\<close>

locale unique_allocator =
  fixes inv :: "'s \<Rightarrow> bool"
    and held :: "'s \<Rightarrow> 'k \<Rightarrow> 'p option"
    and alloc :: "'k \<Rightarrow> 's \<Rightarrow> ('p \<times> 's) result"
    and free :: "'k \<Rightarrow> 's \<Rightarrow> 's"
  assumes alloc_step: "inv s \<Longrightarrow> alloc k s = Inr (p, s') \<Longrightarrow> inv s' \<and> held s' = (held s)(k \<mapsto> p)"
    and free_step: "inv s \<Longrightarrow> inv (free k s) \<and> held (free k s) = (held s)(k := None)"
    and exclusive: "inv s \<Longrightarrow> held s k = Some p \<Longrightarrow> held s k' = Some p \<Longrightarrow> k' = k"
begin

text \<open>A history of requests; a failing request leaves the state as it was.\<close>

definition serve :: "'k + 'k \<Rightarrow> 's \<Rightarrow> 's" where
  "serve req s = (case req of
      Inl k \<Rightarrow> (case alloc k s of Inl _ \<Rightarrow> s | Inr (_, s') \<Rightarrow> s')
    | Inr k \<Rightarrow> free k s)"

lemma serve_inv: "inv s \<Longrightarrow> inv (serve req s)"
  using alloc_step free_step by (auto simp: serve_def split: sum.splits)

lemma history_inv: "inv s \<Longrightarrow> inv (fold serve reqs s)"
  by (induction reqs arbitrary: s) (simp_all add: serve_inv)

lemma history_exclusive:
  assumes "inv s" "held (fold serve reqs s) k = Some p" "held (fold serve reqs s) k' = Some p"
  shows "k' = k"
  using exclusive [OF history_inv [OF assms(1)] assms(2,3)] .

lemma fresh:
  assumes "inv s" "alloc k s = Inr (p, s')" "k' \<noteq> k"
  shows "held s k' \<noteq> Some p"
proof
  assume h: "held s k' = Some p"
  from alloc_step [OF assms(1,2)] have i: "inv s'" and g: "held s' = (held s)(k \<mapsto> p)" by auto
  from g h assms(3) have "held s' k' = Some p" "held s' k = Some p" by auto
  from exclusive [OF i this] assms(3) show False by simp
qed

end

section \<open>The manager\<close>

record Sv2ExtranonceManager =
  nextPrefix :: nat
  workerOffset :: nat
  maxPrefix :: nat
  allocatedPrefixes :: "(int \<times> nat) list"
  usedPrefixes :: "nat set"
  prefixSize :: nat
  totalExtranonceSize :: nat

definition SV2_EXTENDED_TOTAL_EXTRANONCE_SIZE_BYTES :: nat where
  "SV2_EXTENDED_TOTAL_EXTRANONCE_SIZE_BYTES = 14"

definition newExtranonceManager :: "nat \<Rightarrow> nat \<Rightarrow> Sv2ExtranonceManager" where
  "newExtranonceManager psize totalSize =
     (let workerId = 0; bitsPerWorker = (psize - 1) * 8
      in \<lparr>nextPrefix = 1, workerOffset = workerId * 2 ^ bitsPerWorker,
          maxPrefix = 2 ^ bitsPerWorker - 1, allocatedPrefixes = [], usedPrefixes = {},
          prefixSize = psize, totalExtranonceSize = totalSize\<rparr>)"

definition minerExtranonceSize :: "Sv2ExtranonceManager \<Rightarrow> int" where
  "minerExtranonceSize m = int (totalExtranonceSize m) - int (prefixSize m)"

text \<open>The generic branch writes \<open>val & 0xff\<close> from the last byte to the first.\<close>

fun prefixBytes :: "nat \<Rightarrow> int \<Rightarrow> bytes" where
  "prefixBytes 0 val = []"
| "prefixBytes (Suc i) val = prefixBytes i (js_ushr val 8) @ [byte_of (js_and val 0xff)]"

definition prefixToBuffer :: "nat \<Rightarrow> nat \<Rightarrow> bytes result" where
  "prefixToBuffer psize prefix =
     (if psize = 4 then
        (if prefix < 2 ^ 32 then Inr (rev (le_bytes 4 prefix)) else Inl RangeError)
      else if psize = 2 then
        (if prefix < 2 ^ 16 then Inr (rev (le_bytes 2 prefix)) else Inl RangeError)
      else Inr (prefixBytes psize (int prefix)))"

text \<open>The search loop of \<open>allocate\<close>, with its local prefix and its count of attempts.\<close>

definition bump :: "nat \<Rightarrow> nat \<Rightarrow> nat" where
  "bump mx p = (if p + 1 > mx then 1 else p + 1)"

function searchPrefix :: "Sv2ExtranonceManager \<Rightarrow> nat \<Rightarrow> nat \<Rightarrow> nat" where
  "searchPrefix m localPrefix attempts =
     (if workerOffset m + localPrefix \<in> usedPrefixes m \<and> attempts \<le> maxPrefix m
      then searchPrefix m (bump (maxPrefix m) localPrefix) (attempts + 1)
      else localPrefix)"
  by pat_completeness auto
termination
  by (relation "measure (\<lambda>(m, localPrefix, attempts). Suc (maxPrefix m) - attempts)") auto

declare searchPrefix.simps [simp del]

definition allocate :: "int \<Rightarrow> Sv2ExtranonceManager \<Rightarrow> (bytes \<times> Sv2ExtranonceManager) result" where
  "allocate channelId m =
     (case map_of (allocatedPrefixes m) channelId of
        Some existing \<Rightarrow> rmap (\<lambda>b. (b, m)) (prefixToBuffer (prefixSize m) existing)
      | None \<Rightarrow>
          (let localPrefix = searchPrefix m (nextPrefix m) 0;
               prefix = workerOffset m + localPrefix
           in if prefix \<in> usedPrefixes m then Inl (JsError ''Extranonce prefix space exhausted'')
              else rmap (\<lambda>b. (b, m\<lparr>allocatedPrefixes := AList.update channelId prefix (allocatedPrefixes m),
                  usedPrefixes := insert prefix (usedPrefixes m),
                  nextPrefix := bump (maxPrefix m) localPrefix\<rparr>))
                (prefixToBuffer (prefixSize m) prefix)))"

definition release :: "int \<Rightarrow> Sv2ExtranonceManager \<Rightarrow> Sv2ExtranonceManager" where
  "release channelId m =
     (case map_of (allocatedPrefixes m) channelId of
        None \<Rightarrow> m
      | Some prefix \<Rightarrow> m\<lparr>allocatedPrefixes := AList.delete channelId (allocatedPrefixes m),
          usedPrefixes := usedPrefixes m - {prefix}\<rparr>)"

definition getPrefix :: "int \<Rightarrow> Sv2ExtranonceManager \<Rightarrow> bytes result option" where
  "getPrefix channelId m =
     map_option (prefixToBuffer (prefixSize m)) (map_of (allocatedPrefixes m) channelId)"

definition allocatedCount :: "Sv2ExtranonceManager \<Rightarrow> nat" where
  "allocatedCount m = length (allocatedPrefixes m)"

section \<open>The invariant\<close>

text \<open>
  \<open>prefixToBuffer\<close> can only fail after \<open>allocate\<close> has updated the two maps if the prefix is too large,
  which the invariant excludes, so that the order of the two does not matter.
\<close>

definition manager_inv :: "Sv2ExtranonceManager \<Rightarrow> bool" where
  "manager_inv m \<longleftrightarrow> 2 \<le> prefixSize m \<and> prefixSize m \<le> 5
     \<and> maxPrefix m = 2 ^ ((prefixSize m - 1) * 8) - 1 \<and> workerOffset m = 0
     \<and> 1 \<le> nextPrefix m \<and> nextPrefix m \<le> maxPrefix m
     \<and> distinct (map fst (allocatedPrefixes m)) \<and> distinct (map snd (allocatedPrefixes m))
     \<and> usedPrefixes m = snd ` set (allocatedPrefixes m)
     \<and> usedPrefixes m \<subseteq> {1..maxPrefix m}"

lemma manager_invD:
  assumes "manager_inv m"
  shows "usedPrefixes m \<subseteq> {1..maxPrefix m}" "1 \<le> nextPrefix m" "nextPrefix m \<le> maxPrefix m"
    "workerOffset m = 0" "2 \<le> prefixSize m" "prefixSize m \<le> 5"
    "maxPrefix m = 2 ^ ((prefixSize m - 1) * 8) - 1"
    "distinct (map fst (allocatedPrefixes m))" "distinct (map snd (allocatedPrefixes m))"
    "usedPrefixes m = snd ` set (allocatedPrefixes m)"
  using assms unfolding manager_inv_def by blast+

lemma maxPrefix_pos: "2 \<le> s \<Longrightarrow> 1 \<le> (2 :: nat) ^ ((s - 1) * 8) - 1"
proof -
  assume "2 \<le> s"
  then have "(2 :: nat) ^ 1 \<le> 2 ^ ((s - 1) * 8)" by (intro power_increasing) auto
  then show ?thesis by simp
qed

lemma newExtranonceManager_inv:
  assumes "2 \<le> psize" "psize \<le> 5"
  shows "manager_inv (newExtranonceManager psize totalSize)"
  using assms maxPrefix_pos [OF assms(1)] by (simp add: manager_inv_def newExtranonceManager_def)

lemma bump_range: "1 \<le> mx \<Longrightarrow> p \<le> mx \<Longrightarrow> 1 \<le> bump mx p \<and> bump mx p \<le> mx"
  by (simp add: bump_def)

lemma searchPrefix_range:
  "1 \<le> maxPrefix m \<Longrightarrow> 1 \<le> p \<Longrightarrow> p \<le> maxPrefix m
     \<Longrightarrow> 1 \<le> searchPrefix m p n \<and> searchPrefix m p n \<le> maxPrefix m"
proof (induction m p n rule: searchPrefix.induct)
  case (1 m p n)
  then show ?case
    using bump_range [of "maxPrefix m" p] by (subst (1 2) searchPrefix.simps) auto
qed

text \<open>The search gives a used prefix only after it has seen the whole cycle.\<close>

lemma bump_cycle:
  assumes "1 \<le> p" "p \<le> mx"
  shows "(bump mx ^^ i) p = 1 + (p - 1 + i) mod mx"
proof (induction i)
  case 0
  have "(p - 1) mod mx = p - 1" using assms by (intro mod_less) auto
  with assms show ?case by simp
next
  case (Suc i)
  let ?r = "(p - 1 + i) mod mx"
  have "?r < mx" using assms by simp
  moreover have "(p - 1 + Suc i) mod mx = (?r + 1) mod mx"
    by (metis Suc_eq_plus1 add_Suc_right mod_add_left_eq)
  moreover have "bump mx (1 + ?r) = 1 + (?r + 1) mod mx"
  proof (cases "?r + 1 = mx")
    case False
    with \<open>?r < mx\<close> have "?r + 1 < mx" by simp
    then show ?thesis by (simp add: bump_def)
  qed (simp add: bump_def)
  ultimately show ?case using Suc by simp
qed

lemma bump_covers:
  assumes "1 \<le> p" "p \<le> mx" "1 \<le> q" "q \<le> mx"
  shows "\<exists>i < mx. (bump mx ^^ i) p = q"
proof -
  let ?i = "(q + mx - p) mod mx"
  have "(p - 1 + ?i) mod mx = (p - 1 + (q + mx - p)) mod mx" by (simp add: mod_simps)
  also have "p - 1 + (q + mx - p) = (q - 1) + mx" using assms by simp
  also have "((q - 1) + mx) mod mx = q - 1"
    using assms unfolding mod_add_self2 by (intro mod_less) simp
  finally have "(bump mx ^^ ?i) p = q" using assms by (simp add: bump_cycle)
  moreover have "?i < mx" using assms by simp
  ultimately show ?thesis by blast
qed

lemma searchPrefix_used:
  "workerOffset m + searchPrefix m p n \<in> usedPrefixes m \<Longrightarrow> n \<le> maxPrefix m
     \<Longrightarrow> i + n \<le> maxPrefix m
     \<Longrightarrow> workerOffset m + (bump (maxPrefix m) ^^ i) p \<in> usedPrefixes m"
proof (induction m p n arbitrary: i rule: searchPrefix.induct)
  case (1 m p n)
  have u: "workerOffset m + p \<in> usedPrefixes m"
    using "1.prems"(1) by (subst (asm) searchPrefix.simps) (auto split: if_splits)
  show ?case
  proof (cases i)
    case 0
    with u show ?thesis by simp
  next
    case (Suc j)
    have "searchPrefix m p n = searchPrefix m (bump (maxPrefix m) p) (n + 1)"
      using u "1.prems"(2) by (subst searchPrefix.simps) simp
    with "1.IH" [of j] u "1.prems" Suc show ?thesis by (simp add: funpow_swap1)
  qed
qed

lemma search_exhausted:
  assumes inv: "manager_inv m" and used: "workerOffset m + searchPrefix m (nextPrefix m) 0 \<in> usedPrefixes m"
  shows "usedPrefixes m = {1..maxPrefix m}"
proof
  show "usedPrefixes m \<subseteq> {1..maxPrefix m}" by (rule manager_invD [OF inv])
  show "{1..maxPrefix m} \<subseteq> usedPrefixes m"
  proof
    fix q assume "q \<in> {1..maxPrefix m}"
    then obtain i where "i < maxPrefix m" "(bump (maxPrefix m) ^^ i) (nextPrefix m) = q"
      using bump_covers [of "nextPrefix m" "maxPrefix m" q] inv
      unfolding manager_inv_def atLeastAtMost_iff by blast
    with searchPrefix_used [OF used, of i] inv show "q \<in> usedPrefixes m"
      unfolding manager_inv_def by simp
  qed
qed

section \<open>The bytes of a prefix\<close>

lemma prefixBytes_le: "v < 2 ^ 32 \<Longrightarrow> prefixBytes n (int v) = rev (le_bytes n v)"
proof (induction n arbitrary: v)
  case (Suc n)
  have "js_ushr (int v) 8 = int (v div 256)"
    using Suc.prems
    by (simp add: js_ushr_def to_i32_def drop_bit_eq_div uint_div_distrib zdiv_int unsigned_of_nat
        take_bit_nat_eq_self)
  moreover have "byte_of (js_and (int v) 0xff) = word_of_nat v"
    unfolding byte_of_js_and_255 by (simp add: byte_of_def)
  ultimately show ?case using Suc by simp
qed simp

lemma maxPrefix_small:
  assumes "manager_inv m" "p \<le> maxPrefix m"
  shows "p < 2 ^ 32" "p < 256 ^ (prefixSize m)" "prefixSize m = 2 \<Longrightarrow> p < 2 ^ 16"
proof -
  have le: "p \<le> 2 ^ ((prefixSize m - 1) * 8) - 1" and s: "2 \<le> prefixSize m" "prefixSize m \<le> 5"
    using assms manager_invD by auto
  have "(2 :: nat) ^ ((prefixSize m - 1) * 8) \<le> 2 ^ 32"
    using s by (intro power_increasing) auto
  moreover have "(2 :: nat) ^ ((prefixSize m - 1) * 8) \<le> 2 ^ (8 * prefixSize m)"
    using s by (intro power_increasing) auto
  moreover have "0 < (2 :: nat) ^ ((prefixSize m - 1) * 8)" by simp
  ultimately have "p < 2 ^ 32 \<and> p < 2 ^ (8 * prefixSize m)" using le by linarith
  then show "p < 2 ^ 32" "p < 256 ^ (prefixSize m)" by (simp_all add: power_mult)
  show "prefixSize m = 2 \<Longrightarrow> p < 2 ^ 16" using le by simp
qed

lemma prefixToBuffer_eq:
  assumes "manager_inv m" "p \<le> maxPrefix m"
  shows "prefixToBuffer (prefixSize m) p = Inr (rev (le_bytes (prefixSize m) p))"
  using maxPrefix_small [OF assms] by (auto simp: prefixToBuffer_def prefixBytes_le)

lemma prefixToBuffer_inject:
  assumes "manager_inv m" "p \<le> maxPrefix m" "q \<le> maxPrefix m"
    and eq: "prefixToBuffer (prefixSize m) p = prefixToBuffer (prefixSize m) q"
  shows "p = q"
proof -
  have "le_bytes (prefixSize m) p = le_bytes (prefixSize m) q"
    using eq prefixToBuffer_eq [OF assms(1,2)] prefixToBuffer_eq [OF assms(1,3)] by simp
  then have "le_nat (le_bytes (prefixSize m) p) = le_nat (le_bytes (prefixSize m) q)" by simp
  then show ?thesis
    using maxPrefix_small(2) [OF assms(1,2)] maxPrefix_small(2) [OF assms(1,3)]
    by (simp add: le_nat_le_bytes_id)
qed

section \<open>The operations keep the invariant\<close>

definition heldPrefix :: "Sv2ExtranonceManager \<Rightarrow> int \<Rightarrow> bytes option" where
  "heldPrefix m c = (case getPrefix c m of Some (Inr b) \<Rightarrow> Some b | _ \<Rightarrow> None)"

lemma allocated_used:
  "manager_inv m \<Longrightarrow> map_of (allocatedPrefixes m) c = Some p \<Longrightarrow> p \<in> usedPrefixes m \<and> p \<le> maxPrefix m"
proof -
  assume inv: "manager_inv m" and "map_of (allocatedPrefixes m) c = Some p"
  then have "(c, p) \<in> set (allocatedPrefixes m)" by (intro map_of_SomeD)
  then have "p \<in> snd ` set (allocatedPrefixes m)" by (intro image_eqI [of _ snd "(c, p)"]) simp_all
  then have "p \<in> usedPrefixes m" using manager_invD(10) [OF inv] by simp
  with manager_invD(1) [OF inv] show ?thesis by auto
qed

lemma heldPrefix_eq:
  "manager_inv m \<Longrightarrow> heldPrefix m c
     = map_option (\<lambda>p. rev (le_bytes (prefixSize m) p)) (map_of (allocatedPrefixes m) c)"
  using allocated_used [of m c] prefixToBuffer_eq [of m]
  by (auto simp: heldPrefix_def getPrefix_def split: option.splits)

lemma update_new: "k \<notin> fst ` set al \<Longrightarrow> AList.update k v al = al @ [(k, v)]"
  by (induction al) auto

lemma allocate_ok:
  assumes inv: "manager_inv m" and a: "allocate c m = Inr (b, m')"
  shows "manager_inv m' \<and> heldPrefix m' = (heldPrefix m)(c \<mapsto> b)"
proof (cases "map_of (allocatedPrefixes m) c")
  case (Some p)
  with a have m': "m' = m" and b: "prefixToBuffer (prefixSize m) p = Inr b"
    by (auto simp: allocate_def rmap_Inr_iff)
  have "heldPrefix m c = Some b" using Some b by (simp add: heldPrefix_def getPrefix_def)
  with inv m' show ?thesis by (auto simp: fun_upd_idem)
next
  case None
  let ?p = "searchPrefix m (nextPrefix m) 0"
  let ?m = "m\<lparr>allocatedPrefixes := allocatedPrefixes m @ [(c, ?p)],
     usedPrefixes := insert ?p (usedPrefixes m), nextPrefix := bump (maxPrefix m) ?p\<rparr>"
  note i = manager_invD [OF inv]
  have c: "c \<notin> fst ` set (allocatedPrefixes m)" using None by (simp add: map_of_eq_None_iff)
  from a None i(4) have free: "?p \<notin> usedPrefixes m" and m': "m' = ?m"
    and b: "prefixToBuffer (prefixSize m) ?p = Inr b"
    by (auto simp: allocate_def Let_def rmap_Inr_iff update_new [OF c] split: if_splits)
  have r: "1 \<le> ?p" "?p \<le> maxPrefix m" using searchPrefix_range [of m "nextPrefix m" 0] i(2,3) by auto
  have "manager_inv ?m"
    unfolding manager_inv_def
    using i bump_range [of "maxPrefix m" ?p] r c free by auto
  moreover from this inv have "heldPrefix ?m = (heldPrefix m)(c \<mapsto> rev (le_bytes (prefixSize m) ?p))"
    using None by (auto simp: heldPrefix_eq map_add_def fun_eq_iff split: option.splits)
  moreover have "b = rev (le_bytes (prefixSize m) ?p)"
    using b prefixToBuffer_eq [OF inv r(2)] by simp
  ultimately show ?thesis using m' by simp
qed

lemma release_ok:
  assumes inv: "manager_inv m"
  shows "manager_inv (release c m) \<and> heldPrefix (release c m) = (heldPrefix m)(c := None)"
proof (cases "map_of (allocatedPrefixes m) c")
  case None
  then have "release c m = m" "heldPrefix m c = None" by (simp_all add: release_def heldPrefix_eq inv)
  then show ?thesis using inv by auto
next
  case (Some p)
  let ?al = "allocatedPrefixes m" and ?m = "release c m"
  note i = manager_invD [OF inv]
  have eq: "?m = m\<lparr>allocatedPrefixes := AList.delete c ?al, usedPrefixes := usedPrefixes m - {p}\<rparr>"
    using Some by (simp add: release_def)
  have cp: "(c, p) \<in> set ?al" using Some by (rule map_of_SomeD)
  have del: "set (AList.delete c ?al) = set ?al - {(c, p)}"
    using i(8) cp unfolding AList.delete_eq
    by (force simp: distinct_map inj_on_def)
  have "snd ` (set ?al - {(c, p)}) = snd ` set ?al - {p}"
    using inj_on_image_set_diff [of snd "set ?al" "set ?al" "{(c, p)}"] i(9) cp
    by (simp add: distinct_map)
  moreover have "distinct (map fst (AList.delete c ?al))" "distinct (map snd (AList.delete c ?al))"
    using i(8,9) by (auto simp: AList.delete_eq distinct_map intro: inj_on_subset)
  ultimately have m: "manager_inv ?m"
    unfolding manager_inv_def eq using i del by auto
  then have "heldPrefix ?m = (heldPrefix m)(c := None)"
    using inv by (auto simp: heldPrefix_eq eq fun_eq_iff delete_conv')
  with m show ?thesis by simp
qed

lemma held_exclusive:
  assumes inv: "manager_inv m" and "heldPrefix m c = Some b" "heldPrefix m c' = Some b"
  shows "c' = c"
proof -
  from assms obtain p p' where p: "map_of (allocatedPrefixes m) c = Some p"
    "map_of (allocatedPrefixes m) c' = Some p'"
    "rev (le_bytes (prefixSize m) p) = b" "rev (le_bytes (prefixSize m) p') = b"
    by (auto simp: heldPrefix_eq)
  have "p = p'"
    using prefixToBuffer_inject [OF inv, of p p'] allocated_used [OF inv p(1)]
      allocated_used [OF inv p(2)] prefixToBuffer_eq [OF inv] p by simp
  moreover have "(c, p) \<in> set (allocatedPrefixes m)" "(c', p') \<in> set (allocatedPrefixes m)"
    using p map_of_SomeD by fast+
  moreover have "inj_on snd (set (allocatedPrefixes m))"
    using manager_invD(9) [OF inv] by (simp add: distinct_map)
  ultimately show ?thesis by (metis inj_onD prod.inject snd_conv)
qed

interpretation extranonces: unique_allocator manager_inv heldPrefix allocate release
  using allocate_ok release_ok held_exclusive by unfold_locales blast+

lemma allocate_fails_iff:
  assumes inv: "manager_inv m"
  shows "(\<exists>e. allocate c m = Inl e)
     \<longleftrightarrow> map_of (allocatedPrefixes m) c = None \<and> usedPrefixes m = {1..maxPrefix m}"
proof
  assume "\<exists>e. allocate c m = Inl e"
  then obtain e where e: "allocate c m = Inl e" by blast
  note i = manager_invD [OF inv]
  have r: "searchPrefix m (nextPrefix m) 0 \<le> maxPrefix m"
    using searchPrefix_range [of m "nextPrefix m" 0] i(2,3) by auto
  show "map_of (allocatedPrefixes m) c = None \<and> usedPrefixes m = {1..maxPrefix m}"
  proof (cases "map_of (allocatedPrefixes m) c")
    case (Some p)
    with e prefixToBuffer_eq [OF inv] allocated_used [OF inv Some] show ?thesis
      by (simp add: allocate_def)
  next
    case None
    with e r prefixToBuffer_eq [OF inv] i(4)
    have "workerOffset m + searchPrefix m (nextPrefix m) 0 \<in> usedPrefixes m"
      by (auto simp: allocate_def Let_def split: if_splits)
    from search_exhausted [OF inv this] None show ?thesis by simp
  qed
next
  assume a: "map_of (allocatedPrefixes m) c = None \<and> usedPrefixes m = {1..maxPrefix m}"
  note i = manager_invD [OF inv]
  have "searchPrefix m (nextPrefix m) 0 \<in> {1..maxPrefix m}"
    using searchPrefix_range [of m "nextPrefix m" 0] i(2,3) by auto
  with a i(4) show "\<exists>e. allocate c m = Inl e"
    by (auto simp: allocate_def Let_def)
qed

lemma serve_prefixSize: "prefixSize (extranonces.serve req m) = prefixSize m"
  by (auto simp: extranonces.serve_def allocate_def release_def Let_def rmap_def
      split: sum.splits option.splits if_splits)

lemma history_prefixSize: "prefixSize (fold extranonces.serve reqs m) = prefixSize m"
  by (induction reqs arbitrary: m) (simp_all add: serve_prefixSize)

lemma heldPrefix_length: "manager_inv m \<Longrightarrow> heldPrefix m c = Some b \<Longrightarrow> length b = prefixSize m"
  by (auto simp: heldPrefix_eq)

section \<open>Properties\<close>

text \<open>
  C17. No two extended channels ever hold the same extranonce prefix: after any history of allocations
  and releases (with any channel ids, in any order, failing ones included) from a new manager with
  prefixes of two to five bytes, the bytes of the prefixes held by two channels differ.
\<close>

theorem extranonce_prefixes_unique:
  assumes "2 \<le> psize" "psize \<le> 5"
    and "m = fold extranonces.serve reqs (newExtranonceManager psize totalSize)"
    and "heldPrefix m c = Some b" "heldPrefix m c' = Some b"
  shows "c' = c"
  using extranonces.history_exclusive [OF newExtranonceManager_inv [OF assms(1,2)]] assms(3-5)
  by simp

definition sample_history :: Sv2ExtranonceManager where
  "sample_history = fold extranonces.serve [Inl 7, Inl 9, Inr 7, Inl 7]
     (newExtranonceManager 4 SV2_EXTENDED_TOTAL_EXTRANONCE_SIZE_BYTES)"

lemma sample_history_eq:
  "sample_history = (newExtranonceManager 4 14)
     \<lparr>nextPrefix := 4, allocatedPrefixes := [(9, 2), (7, 3)], usedPrefixes := {2, 3}\<rparr>"
  by (simp add: sample_history_def extranonces.serve_def newExtranonceManager_def allocate_def
      release_def Let_def searchPrefix.simps bump_def prefixToBuffer_def le_bytes_eval
      SV2_EXTENDED_TOTAL_EXTRANONCE_SIZE_BYTES_def insert_commute)
    (simp add: eval_nat_numeral)

lemma extranonce_prefixes_unique_witness:
  "heldPrefix sample_history 7 = Some [0, 0, 0, 3] \<and> heldPrefix sample_history 9 \<noteq> Some [0, 0, 0, 3]"
proof
  show h: "heldPrefix sample_history 7 = Some [0, 0, 0, 3]"
    by (simp add: sample_history_eq newExtranonceManager_def heldPrefix_def getPrefix_def
        prefixToBuffer_def le_bytes_eval)
  show "heldPrefix sample_history 9 \<noteq> Some [0, 0, 0, 3]"
    using extranonce_prefixes_unique [OF _ _ sample_history_def h, of 9] by auto
qed

text \<open>
  What \<open>allocate\<close> promises after any history: either it returns a prefix of \<open>prefixSize\<close> bytes
  that no other channel holds, and records it for this channel alone, or it throws, and then the
  channel had no prefix and every one of the \<open>2 ^ (8 * (prefixSize - 1)) - 1\<close> prefixes of the
  partition is held: the search never gives up early.
\<close>

theorem extranonce_allocate_spec:
  assumes "2 \<le> psize" "psize \<le> 5"
    and "m = fold extranonces.serve reqs (newExtranonceManager psize totalSize)"
  shows "case allocate c m of
      Inr (b, m') \<Rightarrow> length b = psize \<and> heldPrefix m' = (heldPrefix m)(c \<mapsto> b)
        \<and> (\<forall>c'. c' \<noteq> c \<longrightarrow> heldPrefix m c' \<noteq> Some b)
    | Inl e \<Rightarrow> heldPrefix m c = None \<and> usedPrefixes m = {1..2 ^ ((psize - 1) * 8) - 1}
        \<and> allocatedCount m = 2 ^ ((psize - 1) * 8) - 1"
proof -
  have inv: "manager_inv m"
    using extranonces.history_inv [OF newExtranonceManager_inv [OF assms(1,2)]] assms(3) by simp
  have ps: "prefixSize m = psize"
    using assms(3) history_prefixSize [of reqs] by (simp add: newExtranonceManager_def)
  show ?thesis
  proof (cases "allocate c m")
    case (Inl e)
    then have a: "map_of (allocatedPrefixes m) c = None" "usedPrefixes m = {1..maxPrefix m}"
      using allocate_fails_iff [OF inv, of c] by auto
    have "allocatedCount m = card (usedPrefixes m)"
      using distinct_card [OF manager_invD(9) [OF inv]] manager_invD(10) [OF inv]
      by (simp add: allocatedCount_def)
    with a Inl manager_invD(7) [OF inv] ps show ?thesis
      by (simp add: heldPrefix_def getPrefix_def)
  next
    case (Inr r)
    obtain b m' where r: "allocate c m = Inr (b, m')" using Inr by (cases r) auto
    from allocate_ok [OF inv r] have i: "manager_inv m'" "heldPrefix m' = (heldPrefix m)(c \<mapsto> b)"
      by auto
    have "prefixSize m' = psize" using serve_prefixSize [of "Inl c" m] r ps
      by (simp add: extranonces.serve_def)
    with i heldPrefix_length [OF i(1), of c b] extranonces.fresh [OF inv r] show ?thesis
      by (auto simp: r)
  qed
qed

lemma extranonce_allocate_spec_witness:
  "\<exists>m'. allocate 8 sample_history = Inr ([0, 0, 0, 4], m')
     \<and> heldPrefix m' = (heldPrefix sample_history)(8 \<mapsto> [0, 0, 0, 4])"
proof -
  obtain m' where a: "allocate 8 sample_history = Inr ([0, 0, 0, 4], m')"
    by (simp add: sample_history_eq allocate_def newExtranonceManager_def Let_def
        searchPrefix.simps prefixToBuffer_def le_bytes_eval)
  with extranonce_allocate_spec [OF _ _ sample_history_def, of 8] show ?thesis by auto
qed

end
