(* ===== verification/SipHash.thy ===== *)
theory SipHash
  imports WireFields
begin

text \<open>
  \<open>src/models/sv2/sv2-siphash.ts\<close>: SipHash-2-4 on pairs of 32-bit halves, against SipHash on 64-bit
  words as the paper defines it.
\<close>

section \<open>The code\<close>

type_synonym half_pair = "int \<times> int"

definition add64 :: "half_pair \<Rightarrow> half_pair \<Rightarrow> half_pair" where
  "add64 a b =
     (let lo = js_ushr (snd a + snd b) 0;
          hi = js_ushr (fst a + fst b) 0 + (if lo < snd a then 1 else 0)
      in (js_ushr hi 0, lo))"

definition rotl64 :: "half_pair \<Rightarrow> int \<Rightarrow> half_pair" where
  "rotl64 v n =
     (if n = 0 then v
      else if n = 32 then (snd v, fst v)
      else if n < 32 then
        (js_ushr (js_or (js_shl (fst v) n) (js_ushr (snd v) (32 - n))) 0,
         js_ushr (js_or (js_shl (snd v) n) (js_ushr (fst v) (32 - n))) 0)
      else (let s = n - 32 in
        (js_ushr (js_or (js_shl (snd v) s) (js_ushr (fst v) (32 - s))) 0,
         js_ushr (js_or (js_shl (fst v) s) (js_ushr (snd v) (32 - s))) 0)))"

definition xor64 :: "half_pair \<Rightarrow> half_pair \<Rightarrow> half_pair" where
  "xor64 a b = (js_ushr (js_xor (fst a) (fst b)) 0, js_ushr (js_xor (snd a) (snd b)) 0)"

type_synonym 'a four = "'a \<times> 'a \<times> 'a \<times> 'a"

definition sipRound :: "half_pair four \<Rightarrow> half_pair four" where
  "sipRound = (\<lambda>(v0, v1, v2, v3).
     let v0 = add64 v0 v1; v1 = rotl64 v1 13; v1 = xor64 v1 v0; v0 = rotl64 v0 32;
         v2 = add64 v2 v3; v3 = rotl64 v3 16; v3 = xor64 v3 v2;
         v2 = add64 v2 v1; v1 = rotl64 v1 17; v1 = xor64 v1 v2; v2 = rotl64 v2 32;
         v0 = add64 v0 v3; v3 = rotl64 v3 21; v3 = xor64 v3 v0
     in (v0, v1, v2, v3))"

definition readU64LE :: "bytes \<Rightarrow> nat \<Rightarrow> half_pair" where
  "readU64LE buf offset =
     (let lo = int (le_nat (take 4 (drop offset buf)));
          hi = int (le_nat (take 4 (drop (offset + 4) buf)))
      in (hi, lo))"

text \<open>One 8-byte block: \<open>v3 ^= m\<close>, two rounds, \<open>v0 ^= m\<close>.\<close>

definition sipBlock :: "half_pair \<Rightarrow> half_pair four \<Rightarrow> half_pair four" where
  "sipBlock m = (\<lambda>(v0, v1, v2, v3).
     let v3 = xor64 v3 m;
         (v0, v1, v2, v3) = sipRound (sipRound (v0, v1, v2, v3));
         v0 = xor64 v0 m
     in (v0, v1, v2, v3))"

text \<open>The last block: the remaining bytes and the length in the high byte.\<close>

definition sipLast :: "bytes \<Rightarrow> half_pair" where
  "sipLast data =
     (let len = length data; blocks = len div 8; remaining = len - blocks * 8; offset = blocks * 8;
          b = (\<lambda>i. uint (data ! (offset + i)));
          h = js_ushr (js_shl (js_and (int len) 0xff) 24) 0;
          h = (if remaining \<ge> 7 then js_or h (js_ushr (js_shl (b 6) 16) 0) else h);
          h = (if remaining \<ge> 6 then js_or h (js_ushr (js_shl (b 5) 8) 0) else h);
          h = (if remaining \<ge> 5 then js_or h (b 4) else h);
          l = 0;
          l = (if remaining \<ge> 4 then js_ushr (js_or l (js_ushr (js_shl (b 3) 24) 0)) 0 else l);
          l = (if remaining \<ge> 3 then js_ushr (js_or l (js_ushr (js_shl (b 2) 16) 0)) 0 else l);
          l = (if remaining \<ge> 2 then js_ushr (js_or l (js_ushr (js_shl (b 1) 8) 0)) 0 else l);
          l = (if remaining \<ge> 1 then js_ushr (js_or l (b 0)) 0 else l)
      in (h, l))"

definition sipHash24 :: "bytes \<Rightarrow> bytes \<Rightarrow> bytes result" where
  "sipHash24 key data =
     (if length key \<noteq> 16 then Inl (JsError ''SipHash key must be 16 bytes'')
      else (let k0 = readU64LE key 0; k1 = readU64LE key 8;
        v = (xor64 k0 (0x736f6d65, 0x70736575), xor64 k1 (0x646f7261, 0x6e646f6d),
             xor64 k0 (0x6c796765, 0x6e657261), xor64 k1 (0x74656462, 0x79746573));
        v = fold (\<lambda>i. sipBlock (readU64LE data (i * 8))) [0..<length data div 8] v;
        (v0, v1, v2, v3) = sipBlock (sipLast data) v;
        v2 = xor64 v2 (0, 0xff);
        (v0, v1, v2, v3) = sipRound (sipRound (sipRound (sipRound (v0, v1, v2, v3))));
        r = xor64 (xor64 v0 v1) (xor64 v2 v3)
      in Inr (le_bytes 4 (nat (snd r)) @ le_bytes 4 (nat (fst r)))))"

definition shortTxId :: "bytes \<Rightarrow> bytes \<Rightarrow> bytes result" where
  "shortTxId key txHash = rmap (take 6) (sipHash24 key txHash)"

definition sipHashKeyFromNonce :: "int \<Rightarrow> bytes result" where
  "sipHashKeyFromNonce nonce =
     (if 0 \<le> nonce \<and> nonce < 2 ^ 64 then Inr (le_bytes 8 (nat nonce) @ replicate 8 0)
      else Inl RangeError)"

section \<open>SipHash-2-4 on 64-bit words\<close>

definition sip_round :: "64 word four \<Rightarrow> 64 word four" where
  "sip_round = (\<lambda>(v0, v1, v2, v3).
     let v0 = v0 + v1; v2 = v2 + v3; v1 = word_rotl 13 v1; v3 = word_rotl 16 v3;
         v1 = v1 XOR v0; v3 = v3 XOR v2; v0 = word_rotl 32 v0;
         v2 = v2 + v1; v0 = v0 + v3; v1 = word_rotl 17 v1; v3 = word_rotl 21 v3;
         v1 = v1 XOR v2; v3 = v3 XOR v0; v2 = word_rotl 32 v2
     in (v0, v1, v2, v3))"

definition sip_compress :: "64 word \<Rightarrow> 64 word four \<Rightarrow> 64 word four" where
  "sip_compress m = (\<lambda>(v0, v1, v2, v3).
     (case (sip_round ^^ 2) (v0, v1, v2, v3 XOR m) of (v0, v1, v2, v3) \<Rightarrow> (v0 XOR m, v1, v2, v3)))"

definition word64_le :: "bytes \<Rightarrow> 64 word" where
  "word64_le bs = word_of_nat (le_nat bs)"

text \<open>The message as words: its full blocks, then the rest padded with zeros and the length byte.\<close>

definition sip_words :: "bytes \<Rightarrow> 64 word list" where
  "sip_words data =
     map (\<lambda>i. word64_le (take 8 (drop (i * 8) data))) [0..<length data div 8]
     @ [word64_le (drop (length data div 8 * 8) data @ replicate (7 - length data mod 8) 0
          @ [word_of_nat (length data)])]"

definition siphash_2_4 :: "bytes \<Rightarrow> bytes \<Rightarrow> 64 word" where
  "siphash_2_4 key data =
     (let k0 = word64_le (take 8 key); k1 = word64_le (drop 8 key);
          v = (k0 XOR 0x736f6d6570736575, k1 XOR 0x646f72616e646f6d,
               k0 XOR 0x6c7967656e657261, k1 XOR 0x7465646279746573);
          (v0, v1, v2, v3) = fold sip_compress (sip_words data) v;
          (v0, v1, v2, v3) = (sip_round ^^ 4) (v0, v1, v2 XOR 0xff, v3)
      in v0 XOR v1 XOR v2 XOR v3)"

section \<open>Halves of a word\<close>

definition hi32 :: "64 word \<Rightarrow> 32 word" where "hi32 w = ucast (drop_bit 32 w)"
definition lo32 :: "64 word \<Rightarrow> 32 word" where "lo32 w = ucast w"
definition halves :: "64 word \<Rightarrow> half_pair" where "halves w = (uint (hi32 w), uint (lo32 w))"

text \<open>A pair whose halves are only right modulo \<open>2 ^ 32\<close>, as \<open>|=\<close> leaves them.\<close>

definition denotes :: "half_pair \<Rightarrow> 64 word \<Rightarrow> bool" where
  "denotes p w \<longleftrightarrow> to_i32 (fst p) = hi32 w \<and> to_i32 (snd p) = lo32 w"

lemma denotes_halves [simp]: "denotes (halves w) w"
  by (simp add: denotes_def halves_def)

lemma js_ushr_eq: "js_ushr x 0 = uint (to_i32 x)"
  by (simp add: js_ushr_def)

lemma bit_hi32: "bit (hi32 w) n \<longleftrightarrow> n < 32 \<and> bit w (n + 32)"
  by (auto simp: hi32_def bit_ucast_iff bit_drop_bit_eq add.commute)

lemma bit_lo32: "bit (lo32 w) n \<longleftrightarrow> n < 32 \<and> bit w n"
  by (auto simp: lo32_def bit_ucast_iff)

lemma hi_lo_xor: "hi32 (a XOR b) = hi32 a XOR hi32 b" "lo32 (a XOR b) = lo32 a XOR lo32 b"
  by (auto intro!: bit_word_eqI simp: bit_xor_iff bit_hi32 bit_lo32)

lemma xor64_denotes:
  "denotes p a \<Longrightarrow> denotes q b \<Longrightarrow> xor64 p q = halves (a XOR b)"
  unfolding denotes_def xor64_def halves_def js_ushr_eq
  by (simp add: hi_lo_xor)

lemma div_lt_square: "(x :: int) < k * k \<Longrightarrow> 0 < k \<Longrightarrow> x div k < k"
proof (rule ccontr)
  assume a: "x < k * k" "0 < k" "\<not> x div k < k"
  then have "k * k \<le> k * (x div k)" by (intro mult_left_mono) simp_all
  also have "\<dots> \<le> x" using a(2) mult_div_mod_eq [of k x] pos_mod_sign [of k x] by linarith
  finally show False using a(1) by simp
qed

lemma mod_once:
  assumes "0 \<le> (x :: int)" "x < 2 * M"
  shows "x mod M = x - (if x \<ge> M then 1 else 0) * M"
proof (cases "x \<ge> M")
  case True
  then have "x mod M = (x - M) mod M" by simp
  also have "\<dots> = x - M" using True assms by (intro mod_pos_pos_trivial) simp_all
  finally show ?thesis using True by simp
qed (use assms in simp)

lemma hi_lo_split: "uint w = uint (hi32 w) * 2 ^ 32 + uint (lo32 w)"
proof -
  have "uint w div 2 ^ 32 < 2 ^ 32"
    using uint_lt2p [of w] by (intro div_lt_square) simp_all
  then have "uint (hi32 w) = uint w div 2 ^ 32"
    by (simp add: hi32_def unsigned_ucast_eq take_bit_eq_mod drop_bit_eq_div uint_div_distrib
        mod_pos_pos_trivial pos_imp_zdiv_nonneg_iff)
  moreover have "uint (lo32 w) = uint w mod 2 ^ 32"
    by (simp add: lo32_def unsigned_ucast_eq take_bit_eq_mod)
  ultimately show ?thesis by simp
qed

lemma halvesI:
  assumes "uint w = h * 2 ^ 32 + l" "0 \<le> l" "l < 2 ^ 32"
  shows "halves w = (h, l)"
proof -
  have l: "uint (lo32 w) = uint w mod 2 ^ 32"
    by (simp add: lo32_def unsigned_ucast_eq take_bit_eq_mod)
  with assms have 1: "uint (lo32 w) = l" by simp
  with hi_lo_split [of w] assms have "uint (hi32 w) = h" by simp
  with 1 show ?thesis by (simp add: halves_def)
qed

lemma add64_halves: "add64 (halves a) (halves b) = halves (a + b)"
proof -
  let ?ah = "uint (hi32 a)" and ?al = "uint (lo32 a)" and ?bh = "uint (hi32 b)" and ?bl = "uint (lo32 b)"
  let ?M = "2 ^ 32 :: int"
  have r: "0 \<le> ?ah" "?ah < ?M" "0 \<le> ?al" "?al < ?M" "0 \<le> ?bh" "?bh < ?M" "0 \<le> ?bl" "?bl < ?M"
    using uint_lt2p [of "hi32 a"] uint_lt2p [of "lo32 a"] uint_lt2p [of "hi32 b"] uint_lt2p [of "lo32 b"]
    by simp_all
  define c :: int where "c = (if ?al + ?bl \<ge> ?M then 1 else 0)"
  define d :: int where "d = (if ?ah + ?bh \<ge> ?M then 1 else 0)"
  have lo: "(?al + ?bl) mod ?M = ?al + ?bl - c * ?M"
    unfolding c_def using r by (intro mod_once) simp_all
  have carry: "(if ?al + ?bl - c * ?M < ?al then 1 else 0) = c" using r by (auto simp: c_def)
  have hi: "(?ah + ?bh) mod ?M = ?ah + ?bh - d * ?M"
    unfolding d_def using r by (intro mod_once) simp_all
  define e :: int where "e = (if ?ah + ?bh - d * ?M + c \<ge> ?M then 1 else 0)"
  have hc: "(?ah + ?bh - d * ?M + c) mod ?M = ?ah + ?bh - d * ?M + c - e * ?M"
    unfolding e_def using r by (intro mod_once) (auto simp: c_def d_def)
  have "add64 (halves a) (halves b)
      = (((?ah + ?bh) mod ?M + (if (?al + ?bl) mod ?M < ?al then 1 else 0)) mod ?M, (?al + ?bl) mod ?M)"
    unfolding add64_def halves_def js_ushr_0 Let_def fst_conv snd_conv by (rule refl)
  then have add: "add64 (halves a) (halves b)
      = (?ah + ?bh - d * ?M + c - e * ?M, ?al + ?bl - c * ?M)"
    unfolding lo hi carry hc .
  have "uint (a + b) = (uint a + uint b) mod 2 ^ 64" by (simp add: uint_word_ariths)
  also have "uint a + uint b = (?ah + ?bh) * ?M + (?al + ?bl)"
    using hi_lo_split [of a] hi_lo_split [of b] by simp
  also have "\<dots> = ((?ah + ?bh - d * ?M + c - e * ?M) * ?M + (?al + ?bl - c * ?M)) + (d + e) * 2 ^ 64"
    by (simp add: algebra_simps)
  also have "\<dots> mod 2 ^ 64 = ((?ah + ?bh - d * ?M + c - e * ?M) * ?M + (?al + ?bl - c * ?M)) mod 2 ^ 64"
    by (rule mod_mult_self1)
  also have "\<dots> = (?ah + ?bh - d * ?M + c - e * ?M) * ?M + (?al + ?bl - c * ?M)"
  proof (rule mod_pos_pos_trivial)
    have "0 \<le> ?ah + ?bh - d * ?M + c - e * ?M" "?ah + ?bh - d * ?M + c - e * ?M < ?M"
      "0 \<le> ?al + ?bl - c * ?M" "?al + ?bl - c * ?M < ?M"
      using r by (auto simp: c_def d_def e_def)
    then show "0 \<le> (?ah + ?bh - d * ?M + c - e * ?M) * ?M + (?al + ?bl - c * ?M)"
      "(?ah + ?bh - d * ?M + c - e * ?M) * ?M + (?al + ?bl - c * ?M) < 2 ^ 64" by simp_all
  qed
  finally have "halves (a + b) = (?ah + ?bh - d * ?M + c - e * ?M, ?al + ?bl - c * ?M)"
    by (rule halvesI) (use r in \<open>auto simp: c_def\<close>)
  with add show ?thesis by simp
qed

lemma rotl_index:
  "k < 64 \<Longrightarrow> 0 < n \<Longrightarrow> n < 64 \<Longrightarrow> (k + (64 - n)) mod 64 = (if n \<le> k then k - n else k + (64 - n :: nat))"
  by (simp add: mod_if)

lemma rotl_hi:
  assumes "0 < n" "n < 32"
  shows "hi32 (word_rotl n w) = push_bit n (hi32 w) OR drop_bit (32 - n) (lo32 w)"
proof (rule bit_word_eqI)
  fix k assume k: "k < LENGTH(32)"
  show "bit (hi32 (word_rotl n w)) k = bit (push_bit n (hi32 w) OR drop_bit (32 - n) (lo32 w)) k"
  proof (cases "n \<le> k")
    case True
    then obtain j where "k = n + j" by (auto simp: le_iff_add)
    with assms k rotl_index [of "k + 32" n] show ?thesis
      by (simp add: bit_hi32 bit_lo32 bit_word_rotl_iff bit_or_iff bit_push_bit_iff bit_drop_bit_eq)
  next
    case False
    then obtain j where "n = k + j" "0 < j" by (metis le_iff_add nat_le_linear add_0_right neq0_conv)
    with assms k rotl_index [of "k + 32" n] show ?thesis
      by (simp add: bit_hi32 bit_lo32 bit_word_rotl_iff bit_or_iff bit_push_bit_iff bit_drop_bit_eq)
  qed
qed

lemma rotl_lo:
  assumes "0 < n" "n < 32"
  shows "lo32 (word_rotl n w) = push_bit n (lo32 w) OR drop_bit (32 - n) (hi32 w)"
proof (rule bit_word_eqI)
  fix k assume k: "k < LENGTH(32)"
  show "bit (lo32 (word_rotl n w)) k = bit (push_bit n (lo32 w) OR drop_bit (32 - n) (hi32 w)) k"
  proof (cases "n \<le> k")
    case True
    then obtain j where "k = n + j" by (auto simp: le_iff_add)
    with assms k rotl_index [of "k" n] show ?thesis
      by (simp add: bit_hi32 bit_lo32 bit_word_rotl_iff bit_or_iff bit_push_bit_iff bit_drop_bit_eq)
  next
    case False
    then obtain j where "n = k + j" "0 < j" by (metis le_iff_add nat_le_linear add_0_right neq0_conv)
    with assms k rotl_index [of "k" n] show ?thesis
      by (simp add: bit_hi32 bit_lo32 bit_word_rotl_iff bit_or_iff bit_push_bit_iff bit_drop_bit_eq)
  qed
qed

lemma rotl_32: "hi32 (word_rotl 32 w) = lo32 w" "lo32 (word_rotl 32 w) = hi32 w"
  by (intro bit_word_eqI; auto simp: bit_hi32 bit_lo32 bit_word_rotl_iff mod_if)+

lemma rotl64_halves:
  assumes "0 < n" "n \<le> 32"
  shows "rotl64 (halves w) (int n) = halves (word_rotl n w)"
proof (cases "n = 32")
  case True
  then show ?thesis by (simp add: rotl64_def halves_def rotl_32)
next
  case False
  with assms have n: "0 < n" "n < 32" by simp_all
  then have m: "(32 - int n) mod 32 = 32 - int n" "int n mod 32 = int n"
    by - (rule mod_pos_pos_trivial; simp)+
  have "nat (32 - int n) = 32 - n" by simp
  with n show ?thesis
    unfolding rotl64_def halves_def js_ushr_eq rotl_hi [OF n] rotl_lo [OF n] to_i32_js_ops m
    by simp
qed

section \<open>The equivalence\<close>

fun halves4 :: "64 word four \<Rightarrow> half_pair four" where
  "halves4 (a, b, c, d) = (halves a, halves b, halves c, halves d)"

lemma xor64_halves: "xor64 (halves a) (halves b) = halves (a XOR b)"
  by (rule xor64_denotes) simp_all

lemma rotl64_consts:
  "rotl64 (halves w) 13 = halves (word_rotl 13 w)" "rotl64 (halves w) 16 = halves (word_rotl 16 w)"
  "rotl64 (halves w) 17 = halves (word_rotl 17 w)" "rotl64 (halves w) 21 = halves (word_rotl 21 w)"
  "rotl64 (halves w) 32 = halves (word_rotl 32 w)"
  using rotl64_halves [of 13] rotl64_halves [of 16] rotl64_halves [of 17] rotl64_halves [of 21]
    rotl64_halves [of 32] by simp_all

lemma sipRound_halves: "sipRound (halves4 v) = halves4 (sip_round v)"
  by (cases v rule: halves4.cases)
    (simp only: sipRound_def sip_round_def halves4.simps Let_def prod.case add64_halves xor64_halves
      rotl64_consts)

lemma sipBlock_halves:
  assumes "denotes p m"
  shows "sipBlock p (halves4 v) = halves4 (sip_compress m v)"
proof -
  obtain v0 v1 v2 v3 where v: "v = (v0, v1, v2, v3)" by (cases v rule: halves4.cases)
  obtain w0 w1 w2 w3 where w: "sip_round (sip_round (v0, v1, v2, v3 XOR m)) = (w0, w1, w2, w3)"
    by (cases "sip_round (sip_round (v0, v1, v2, v3 XOR m))" rule: halves4.cases)
  have x: "xor64 (halves a) p = halves (a XOR m)" for a by (rule xor64_denotes) (simp_all add: assms)
  have "sipRound (sipRound (halves v0, halves v1, halves v2, halves (v3 XOR m)))
      = halves4 (w0, w1, w2, w3)"
    using sipRound_halves [of "(v0, v1, v2, v3 XOR m)"]
      sipRound_halves [of "sip_round (v0, v1, v2, v3 XOR m)"] w by simp
  then show ?thesis
    by (simp add: v sipBlock_def sip_compress_def x w numeral_2_eq_2)
qed

subsection \<open>Words from bytes\<close>

lemma halves_le:
  assumes "length a = 4" "length b = 4"
  shows "hi32 (word64_le (a @ b)) = word_of_nat (le_nat b)" "lo32 (word64_le (a @ b)) = word_of_nat (le_nat a)"
proof -
  have r: "le_nat a < 2 ^ 32" "le_nat b < 2 ^ 32"
    using le_nat_less [of a] le_nat_less [of b] assms by simp_all
  then have "le_nat a + 2 ^ 32 * le_nat b < 2 ^ 64" by simp
  then have "uint (word64_le (a @ b)) = int (le_nat b) * 2 ^ 32 + int (le_nat a)"
    unfolding word64_le_def le_nat_append assms
    by (simp only: unsigned_of_nat) (simp add: take_bit_nat_eq_self)
  then have "halves (word64_le (a @ b)) = (int (le_nat b), int (le_nat a))"
    using r by (intro halvesI) simp_all
  then have "uint (hi32 (word64_le (a @ b))) = int (le_nat b)" "uint (lo32 (word64_le (a @ b))) = int (le_nat a)"
    by (simp_all add: halves_def)
  then show "hi32 (word64_le (a @ b)) = word_of_nat (le_nat b)" "lo32 (word64_le (a @ b)) = word_of_nat (le_nat a)"
    using r by (simp_all add: word_uint_eq_iff unsigned_of_nat take_bit_nat_eq_self)
qed

lemma readU64LE_denotes:
  assumes "off + 8 \<le> length buf"
  shows "readU64LE buf off = halves (word64_le (take 8 (drop off buf)))"
proof -
  let ?a = "take 4 (drop off buf)" and ?b = "take 4 (drop (off + 4) buf)"
  have ab: "take 8 (drop off buf) = ?a @ ?b"
    using take_add [of 4 4 "drop off buf"] by (simp add: add.commute)
  have l: "length ?a = 4" "length ?b = 4" using assms by simp_all
  then have "le_nat ?a < 2 ^ 32" "le_nat ?b < 2 ^ 32"
    using le_nat_less [of ?a] le_nat_less [of ?b] by (simp_all del: length_take length_drop)
  then show ?thesis
    unfolding ab by (simp add: readU64LE_def halves_def halves_le [OF l] unsigned_of_nat take_bit_nat_eq_self)
qed

lemma or4:
  fixes b0 b1 b2 b3 :: byte
  shows "((push_bit 24 (ucast b3) OR push_bit 16 (ucast b2)) OR push_bit 8 (ucast b1)) OR ucast b0
     = (word_of_nat (le_nat [b0, b1, b2, b3]) :: 32 word)" (is "?l = ?r")
proof -
  have top: "uint b3 < 256" using uint_lt2p [of b3] by simp
  have d: "push_bit 24 (ucast b3 :: 32 word) AND (push_bit 16 (ucast b2) OR push_bit 8 (ucast b1) OR ucast b0) = 0"
    "push_bit 16 (ucast b2 :: 32 word) AND (push_bit 8 (ucast b1) OR ucast b0) = 0"
    "push_bit 8 (ucast b1 :: 32 word) AND ucast b0 = 0"
    by (rule bit_word_eqI; auto simp: bit_and_iff bit_or_iff bit_push_bit_iff bit_ucast_iff
        dest!: bit_imp_le_length)+
  have "?l = push_bit 24 (ucast b3) + (push_bit 16 (ucast b2) + (push_bit 8 (ucast b1) + ucast b0))"
    using d by (simp add: disjunctive_add_eq_or or.assoc)
  also have "\<dots> = ?r"
    by (simp add: push_bit_eq_mult unsigned_ucast_eq)
  finally show ?thesis .
qed

lemma halves8:
  "hi32 (word64_le [b0, b1, b2, b3, b4, b5, b6, b7])
     = ((push_bit 24 (ucast b7) OR push_bit 16 (ucast b6)) OR push_bit 8 (ucast b5)) OR ucast b4"
  "lo32 (word64_le [b0, b1, b2, b3, b4, b5, b6, b7])
     = ((push_bit 24 (ucast b3) OR push_bit 16 (ucast b2)) OR push_bit 8 (ucast b1)) OR ucast b0"
  using halves_le [of "[b0, b1, b2, b3]" "[b4, b5, b6, b7]"] by (simp_all only: or4) simp_all

lemma to_i32_byte: "to_i32 (uint (b :: byte)) = ucast b"
  by (simp add: to_i32_def)

lemma to_i32_ushr_0: "to_i32 (js_ushr x 0) = to_i32 x"
  by (simp add: js_ushr_eq)

lemma len_byte: "to_i32 (int len) AND to_i32 0xff = ucast (word_of_nat len :: byte)"
proof -
  have "to_i32 (int len) AND to_i32 0xff = take_bit 8 (to_i32 (int len))"
    by (simp add: to_i32_def take_bit_eq_mask mask_numeral)
  also have "\<dots> = ucast (word_of_nat len :: byte)"
    by (rule bit_word_eqI) (auto simp: bit_take_bit_iff bit_ucast_iff to_i32_def bit_simps)
  finally show ?thesis .
qed

lemma less_8_list:
  assumes "length (xs :: 'a list) < 8"
  obtains "xs = []" | a where "xs = [a]" | a b where "xs = [a, b]" | a b c where "xs = [a, b, c]"
    | a b c d where "xs = [a, b, c, d]" | a b c d e where "xs = [a, b, c, d, e]"
    | a b c d e f where "xs = [a, b, c, d, e, f]" | a b c d e f g where "xs = [a, b, c, d, e, f, g]"
proof -
  have "length xs = 0 \<or> length xs = 1 \<or> length xs = 2 \<or> length xs = 3 \<or> length xs = 4
      \<or> length xs = 5 \<or> length xs = 6 \<or> length xs = 7"
    using assms by linarith
  then show ?thesis
    using that by (auto simp: length_Suc_conv eval_nat_numeral)
qed

lemma sipLast_denotes:
  "denotes (sipLast data)
     (word64_le (drop (length data div 8 * 8) data @ replicate (7 - length data mod 8) 0
        @ [word_of_nat (length data)]))"
proof -
  define off where "off = length data div 8 * 8"
  define tl where "tl = drop off data"
  have nth: "data ! (off + i) = tl ! i" for i
    unfolding tl_def by (simp add: off_def nth_drop)
  have rem: "length data - off = length tl" "length data mod 8 = length tl" "length tl < 8"
    unfolding tl_def off_def by (simp_all add: minus_div_mult_eq_mod)
  let ?w = "tl @ replicate (7 - length tl) 0 @ [word_of_nat (length data) :: byte]"
  have zeros: "replicate 7 (0 :: byte) = [0, 0, 0, 0, 0, 0, 0]" "replicate 6 (0 :: byte) = [0, 0, 0, 0, 0, 0]"
    "replicate 5 (0 :: byte) = [0, 0, 0, 0, 0]" "replicate 4 (0 :: byte) = [0, 0, 0, 0]"
    "replicate 3 (0 :: byte) = [0, 0, 0]" "replicate 2 (0 :: byte) = [0, 0]"
    by (simp_all add: numeral_eq_Suc)
  have code: "sipLast data =
     (let b = (\<lambda>i. uint (tl ! i)); remaining = length tl;
          h = js_ushr (js_shl (js_and (int (length data)) 0xff) 24) 0;
          h = (if remaining \<ge> 7 then js_or h (js_ushr (js_shl (b 6) 16) 0) else h);
          h = (if remaining \<ge> 6 then js_or h (js_ushr (js_shl (b 5) 8) 0) else h);
          h = (if remaining \<ge> 5 then js_or h (b 4) else h);
          l = 0;
          l = (if remaining \<ge> 4 then js_ushr (js_or l (js_ushr (js_shl (b 3) 24) 0)) 0 else l);
          l = (if remaining \<ge> 3 then js_ushr (js_or l (js_ushr (js_shl (b 2) 16) 0)) 0 else l);
          l = (if remaining \<ge> 2 then js_ushr (js_or l (js_ushr (js_shl (b 1) 8) 0)) 0 else l);
          l = (if remaining \<ge> 1 then js_ushr (js_or l (b 0)) 0 else l)
      in (h, l))"
    unfolding sipLast_def Let_def off_def [symmetric] nth rem by (rule refl)
  have "denotes (sipLast data) (word64_le ?w)"
    using rem(3)
    by (cases tl rule: less_8_list)
      (simp_all add: code denotes_def halves8 zeros to_i32_ushr_0 to_i32_byte len_byte Let_def,
        simp_all add: to_i32_def)
  then show ?thesis by (simp only: rem(2) off_def [symmetric] tl_def [symmetric])
qed

lemma fold_halves:
  assumes "\<And>i. i \<in> set js \<Longrightarrow> denotes (f i) (g i)"
  shows "fold (\<lambda>i. sipBlock (f i)) js (halves4 v) = halves4 (fold sip_compress (map g js) v)"
  using assms
proof (induction js arbitrary: v)
  case (Cons i js)
  then have "denotes (f i) (g i)" by simp
  from sipBlock_halves [OF this] Cons show ?case by simp
qed simp

lemma le_bytes_8: "le_bytes 8 (unat (w :: 64 word)) = le_bytes 4 (nat (snd (halves w))) @ le_bytes 4 (nat (fst (halves w)))"
  (is "?l = ?a @ ?b")
proof -
  have r: "nat (uint (hi32 w)) < 256 ^ 4" "nat (uint (lo32 w)) < 256 ^ 4"
    using unsigned_less [of "hi32 w", where 'a = nat] unsigned_less [of "lo32 w", where 'a = nat]
    by simp_all
  have "le_nat (?a @ ?b) = nat (uint (lo32 w)) + 256 ^ 4 * nat (uint (hi32 w))"
    unfolding halves_def fst_conv snd_conv le_nat_append length_le_bytes
      le_nat_le_bytes_id [OF r(1)] le_nat_le_bytes_id [OF r(2)] by (rule refl)
  also have "\<dots> = nat (uint (hi32 w) * 2 ^ 32 + uint (lo32 w))"
    by (simp add: nat_add_distrib nat_mult_distrib)
  also have "\<dots> = unat w"
    unfolding hi_lo_split [of w, symmetric] by simp
  finally have "le_nat (?a @ ?b) = unat w" .
  then have "?l = le_bytes (length (?a @ ?b)) (le_nat (?a @ ?b))" by simp
  also have "\<dots> = ?a @ ?b" by (rule le_bytes_le_nat)
  finally show ?thesis .
qed

lemma sipHash24_eq:
  assumes "length key = 16"
  shows "sipHash24 key data = Inr (le_bytes 8 (unat (siphash_2_4 key data)))"
proof -
  let ?k0 = "word64_le (take 8 key)" and ?k1 = "word64_le (drop 8 key)"
  let ?v = "(?k0 XOR 0x736f6d6570736575, ?k1 XOR 0x646f72616e646f6d,
      ?k0 XOR 0x6c7967656e657261, ?k1 XOR 0x7465646279746573)"
  have k: "readU64LE key 0 = halves ?k0" "readU64LE key 8 = halves ?k1"
    using assms by (simp_all add: readU64LE_denotes)
  have c: "denotes (0x736f6d65, 0x70736575) 0x736f6d6570736575"
    "denotes (0x646f7261, 0x6e646f6d) 0x646f72616e646f6d"
    "denotes (0x6c796765, 0x6e657261) 0x6c7967656e657261"
    "denotes (0x74656462, 0x79746573) 0x7465646279746573" "denotes (0, 0xff) 0xff"
    by (simp_all add: denotes_def hi32_def lo32_def to_i32_def)
  note x = c [THEN xor64_denotes [OF denotes_halves]]
  have fh: "fold (\<lambda>i. sipBlock (readU64LE data (i * 8))) [0..<length data div 8] (halves4 ?v)
      = halves4 (fold sip_compress (map (\<lambda>i. word64_le (take 8 (drop (i * 8) data))) [0..<length data div 8]) ?v)"
    by (rule fold_halves, subst readU64LE_denotes) auto
  have f: "sipBlock (sipLast data)
      (fold (\<lambda>i. sipBlock (readU64LE data (i * 8))) [0..<length data div 8] (halves4 ?v))
    = halves4 (fold sip_compress (sip_words data) ?v)"
    unfolding fh sipBlock_halves [OF sipLast_denotes] by (simp add: sip_words_def)
  obtain w0 w1 w2 w3 where w: "fold sip_compress (sip_words data) ?v = (w0, w1, w2, w3)"
    by (cases "fold sip_compress (sip_words data) ?v" rule: halves4.cases)
  obtain z0 z1 z2 z3 where z: "(sip_round ^^ 4) (w0, w1, w2 XOR 0xff, w3) = (z0, z1, z2, z3)"
    by (cases "(sip_round ^^ 4) (w0, w1, w2 XOR 0xff, w3)" rule: halves4.cases)
  have zz: "sipRound (sipRound (sipRound (sipRound (halves w0, halves w1, halves (w2 XOR 0xff), halves w3))))
      = (halves z0, halves z1, halves z2, halves z3)"
    using sipRound_halves z by (simp add: numeral_eq_Suc flip: halves4.simps)
  have "sipHash24 key data = Inr (le_bytes 4 (nat (snd (halves (z0 XOR z1 XOR (z2 XOR z3)))))
      @ le_bytes 4 (nat (fst (halves (z0 XOR z1 XOR (z2 XOR z3))))))"
    using f unfolding sipHash24_def Let_def k x
    by (simp add: assms w x zz xor64_halves xor.assoc)
  moreover have "siphash_2_4 key data = z0 XOR z1 XOR z2 XOR z3"
    unfolding siphash_2_4_def Let_def w prod.case z by simp
  ultimately show ?thesis by (simp only: le_bytes_8 xor.assoc)
qed

section \<open>Properties\<close>

text \<open>
  C23. The implementation on pairs of 32-bit halves computes SipHash-2-4: for every key of 16 bytes and
  every message it returns the eight little-endian bytes of the 64-bit hash of the paper, and it
  throws for every other key length.
\<close>

theorem sipHash24_implements_siphash:
  "sipHash24 key data =
     (if length key = 16 then Inr (le_bytes 8 (unat (siphash_2_4 key data)))
      else Inl (JsError ''SipHash key must be 16 bytes''))"
  using sipHash24_eq by (simp add: sipHash24_def)

text \<open>
  A short transaction id under a nonce is well defined: for every 64-bit nonce the key is built,
  and the id of any transaction hash is the six low bytes of its SipHash under that key.
\<close>

theorem shortTxId_from_nonce:
  assumes "0 \<le> nonce" "nonce < 2 ^ 64"
  shows "\<exists>key. sipHashKeyFromNonce nonce = Inr key \<and> length key = 16
     \<and> shortTxId key txHash = Inr (le_bytes 6 (unat (siphash_2_4 key txHash)))"
proof -
  let ?key = "le_bytes 8 (nat nonce) @ replicate 8 0"
  have "sipHashKeyFromNonce nonce = Inr ?key" using assms by (simp add: sipHashKeyFromNonce_def)
  moreover have "take 6 (le_bytes 8 v) = le_bytes 6 v" for v by (simp add: le_bytes_eval)
  ultimately show ?thesis
    using sipHash24_eq [of ?key txHash] by (simp add: shortTxId_def)
qed

lemma shortTxId_from_nonce_witness:
  "\<exists>key. sipHashKeyFromNonce 7 = Inr key
     \<and> shortTxId key [1, 2, 3] = Inr (le_bytes 6 (unat (siphash_2_4 key [1, 2, 3])))"
  using shortTxId_from_nonce [of 7 "[1, 2, 3]"] by auto

end
