(* ===== verification/PayoutCorrectness.thy ===== *)
theory PayoutCorrectness
  imports PayoutDistribution
begin

text \<open>
  The split of a coinbase neither creates nor loses satoshis although every share is computed in
  binary64: the rounding of the shares is bounded, so that the floors and the residual loop add up to
  the amount exactly; the rest follows the rows through the phases of \<open>buildPayoutDistribution\<close>.
\<close>

section \<open>Rounding errors of sums and shares\<close>

definition eps :: rat where "eps = 1 / 2 ^ 53"

lemma eps_range: "0 < eps" "eps < 1"
  by (simp_all add: eps_def)

lemma fl_bounds: "0 \<le> x \<Longrightarrow> x * (1 - eps) \<le> fl x \<and> fl x \<le> x * (1 + eps)"
  using fl_le [of x] fl_ge [of x] by (simp add: eps_def)

lemma foldl_fl_bounds:
  assumes "list_all (\<lambda>w. 0 \<le> w) ws" "0 \<le> s"
  shows "(s + sum_list ws) * (1 - eps) ^ length ws \<le> foldl (\<lambda>s w. fl (s + w)) s ws
     \<and> foldl (\<lambda>s w. fl (s + w)) s ws \<le> (s + sum_list ws) * (1 + eps) ^ length ws"
  using assms
proof (induction ws arbitrary: s)
  case (Cons w ws)
  let ?n = "length ws" and ?t = "sum_list ws"
  have nn: "0 \<le> s + w" "0 \<le> ?t" "0 \<le> fl (s + w)"
    using Cons.prems by (auto simp: list_all_iff intro!: sum_list_nonneg fl_nonneg)
  note b = fl_bounds [OF nn(1)]
  have p: "0 \<le> (1 - eps) ^ ?n" "0 \<le> (1 + eps) ^ ?n" using eps_range by simp_all
  have "(s + w + ?t) * (1 - eps) \<le> fl (s + w) + ?t"
    using b mult_nonneg_nonneg [OF nn(2), of eps] eps_range by (simp add: algebra_simps)
  then have lo: "(s + w + ?t) * (1 - eps) * (1 - eps) ^ ?n \<le> (fl (s + w) + ?t) * (1 - eps) ^ ?n"
    using p(1) by (rule mult_right_mono)
  have "fl (s + w) + ?t \<le> (s + w + ?t) * (1 + eps)"
    using b mult_nonneg_nonneg [OF nn(2), of eps] eps_range by (simp add: algebra_simps)
  then have hi: "(fl (s + w) + ?t) * (1 + eps) ^ ?n \<le> (s + w + ?t) * (1 + eps) * (1 + eps) ^ ?n"
    using p by (intro mult_right_mono)
  from Cons.IH [of "fl (s + w)"] Cons.prems nn lo hi show ?case
    by (simp add: mult.assoc add.assoc)
qed simp

text \<open>\<open>sumsTo T ws\<close>: \<open>T\<close> is the sum of \<open>ws\<close> up to the rounding of that many additions.\<close>

definition sumsTo :: "rat \<Rightarrow> rat list \<Rightarrow> bool" where
  "sumsTo T ws \<longleftrightarrow> sum_list ws * (1 - eps) ^ length ws \<le> T \<and> T \<le> sum_list ws * (1 + eps) ^ length ws"

lemma sumsTo_fsum: "list_all (\<lambda>w. 0 \<le> w) ws \<Longrightarrow> sumsTo (fsum ws) ws"
  using foldl_fl_bounds [of ws 0] by (simp add: sumsTo_def fsum_def)

lemma power_eps:
  "(1 - eps) ^ n \<le> 1" "1 \<le> (1 + eps) ^ n" "1 - of_nat n * eps \<le> (1 - eps) ^ n"
  "(1 + eps) ^ n * (1 - of_nat n * eps) \<le> 1"
proof -
  show 1: "(1 - eps) ^ n \<le> 1" "1 \<le> (1 + eps) ^ n"
    using eps_range by (auto intro: power_le_one one_le_power)
  show 2: "1 - of_nat n * eps \<le> (1 - eps) ^ n"
  proof (induction n)
    case (Suc n)
    have "1 - of_nat (Suc n) * eps = (1 - of_nat n * eps) - eps" by (simp add: algebra_simps)
    also have "\<dots> \<le> (1 - eps) ^ n - eps * (1 - eps) ^ n"
    proof (rule diff_mono [OF Suc])
      show "eps * (1 - eps) ^ n \<le> eps"
        using eps_range power_le_one [of "1 - eps" n] by (intro mult_left_le) simp_all
    qed
    also have "\<dots> = (1 - eps) ^ Suc n" by (simp add: algebra_simps)
    finally show ?case .
  qed simp
  have "(1 + eps) ^ n * (1 - of_nat n * eps) \<le> (1 + eps) ^ n * (1 - eps) ^ n"
    using 2 eps_range by (intro mult_left_mono) simp_all
  also have "\<dots> = (1 - eps * eps) ^ n" by (simp add: power_mult_distrib [symmetric] algebra_simps)
  also have "\<dots> \<le> 1" using eps_range mult_le_one [of eps eps] by (intro power_le_one) simp_all
  finally show "(1 + eps) ^ n * (1 - of_nat n * eps) \<le> 1" .
qed

lemma sumsTo_exact: "list_all (\<lambda>w. 0 \<le> w) ws \<Longrightarrow> sumsTo (sum_list ws) ws"
  using power_eps(1,2) [of "length ws"] sum_list_nonneg [of ws]
  by (auto simp: sumsTo_def list_all_iff mult_left_le mult_le_cancel_left1 intro: mult_right_le_one_le)

text \<open>How many addresses may share an amount before rounding could be seen.\<close>

definition splittable :: "int \<Rightarrow> nat \<Rightarrow> bool" where
  "splittable a n \<longleftrightarrow> (a + 1) * (int n + 3) < 2 ^ 53"

lemma splittableD: "splittable a n \<Longrightarrow> (of_int a + 1) * (of_nat n + 3) * eps < 1"
proof -
  assume "splittable a n"
  then have "of_int ((a + 1) * (int n + 3)) < (of_int (2 ^ 53) :: rat)"
    unfolding splittable_def by (simp only: of_int_less_iff)
  then show ?thesis by (simp add: eps_def field_simps)
qed

lemma exactShare_bounds:
  assumes "0 < w" "0 < a" "0 < T"
  shows "w * of_int a / T * (1 - eps)\<^sup>2 \<le> exactShare w a T" "exactShare w a T \<le> w * of_int a / T * (1 + eps)\<^sup>2"
proof -
  let ?x = "w * of_int a" and ?y = "fl (w * of_int a)"
  have x: "0 \<le> ?x" using assms by simp
  note b = fl_bounds [OF x]
  have y: "0 \<le> ?y / T" using assms fl_nonneg [OF x] by simp
  note c = fl_bounds [OF y]
  have "?x * (1 - eps) / T \<le> ?y / T" "?y / T \<le> ?x * (1 + eps) / T"
    using b assms(3) by (simp_all only: divide_right_mono less_imp_le)
  then have "?x / T * (1 - eps) \<le> ?y / T" "?y / T \<le> ?x / T * (1 + eps)"
    by simp_all
  then have "?x / T * (1 - eps) * (1 - eps) \<le> ?y / T * (1 - eps)"
    "?y / T * (1 + eps) \<le> ?x / T * (1 + eps) * (1 + eps)"
    using eps_range by (intro mult_right_mono; simp)+
  with c show "?x / T * (1 - eps)\<^sup>2 \<le> exactShare w a T" "exactShare w a T \<le> ?x / T * (1 + eps)\<^sup>2"
    unfolding exactShare_def power2_eq_square by (simp_all add: mult.assoc)
qed

lemma sum_exactShare:
  assumes ws: "list_all (\<lambda>w. 0 < w) ws" "ws \<noteq> []" and a: "0 < a" and T: "sumsTo T ws" "0 < T"
    and sp: "splittable a (length ws)"
  shows "sum_list (map (\<lambda>w. exactShare w a T) ws) < of_int a + 1"
    "of_int a - 1 < sum_list (map (\<lambda>w. exactShare w a T) ws)"
proof -
  let ?S = "sum_list ws" and ?n = "length ws" and ?A = "of_int a :: rat"
  have A: "1 \<le> ?A" using a by simp
  have S: "0 < ?S"
  proof -
    obtain v vs where v: "ws = v # vs" using ws(2) by (cases ws) auto
    have "0 \<le> sum_list vs" using ws(1) unfolding v by (intro sum_list_nonneg) (auto simp: list_all_iff less_imp_le)
    then show ?thesis using ws(1) by (simp add: v)
  qed
  have ne: "of_nat ?n * eps < 1" and le: "(?A + 1) * (of_nat ?n + 3) * eps < 1"
  proof -
    show l: "(?A + 1) * (of_nat ?n + 3) * eps < 1" by (rule splittableD [OF sp])
    have "of_nat ?n * eps \<le> (?A + 1) * (of_nat ?n + 3) * eps"
      using A eps_range by (intro mult_right_mono) (simp_all add: algebra_simps add_increasing2 add_increasing)
    with l show "of_nat ?n * eps < 1" by simp
  qed
  have sm: "sum_list (map (\<lambda>w. w * ?A / T * c) ws) = ?S * ?A / T * c" for c
    by (induction ws) (simp_all add: algebra_simps add_divide_distrib)
  have up: "sum_list (map (\<lambda>w. exactShare w a T) ws) \<le> ?S * ?A / T * (1 + eps)\<^sup>2"
    unfolding sm [symmetric] using ws a T(2)
    by (intro sum_list_mono exactShare_bounds) (auto simp: list_all_iff)
  have dn: "?S * ?A / T * (1 - eps)\<^sup>2 \<le> sum_list (map (\<lambda>w. exactShare w a T) ws)"
    unfolding sm [symmetric] using ws a T(2)
    by (intro sum_list_mono exactShare_bounds) (auto simp: list_all_iff)
  have sq: "(1 + eps)\<^sup>2 \<le> 1 + 3 * eps" "1 - 2 * eps \<le> (1 - eps)\<^sup>2"
    using eps_range mult_left_mono [of eps 1 eps] by (simp_all add: power2_eq_square algebra_simps)
  \<comment> \<open>the quotient of the sum by \<open>T\<close>\<close>
  have q1: "?S / T * (1 - of_nat ?n * eps) \<le> 1"
  proof -
    have "?S * (1 - of_nat ?n * eps) \<le> ?S * (1 - eps) ^ ?n"
      using power_eps(3) S by (intro mult_left_mono) simp_all
    also have "\<dots> \<le> T" using T by (simp add: sumsTo_def)
    finally show ?thesis using T by (simp add: field_simps)
  qed
  have q2: "1 - of_nat ?n * eps \<le> ?S / T"
  proof -
    have "T * (1 - of_nat ?n * eps) \<le> ?S * (1 + eps) ^ ?n * (1 - of_nat ?n * eps)"
      using T ne by (intro mult_right_mono) (simp_all add: sumsTo_def)
    also have "\<dots> \<le> ?S * 1"
      using power_eps(4) S unfolding mult.assoc by (intro mult_left_mono) simp_all
    finally show ?thesis using T by (simp add: field_simps)
  qed
  let ?X = "?S / T" and ?ne = "of_nat ?n * eps"
  have X: "0 < ?X" using S T by simp
  have gap: "?A * (1 + 3 * eps) < (?A + 1) * (1 - ?ne)"
    using le A eps_range by (simp add: algebra_simps)
  have "?S * ?A / T * (1 + eps)\<^sup>2 = ?X * (?A * (1 + eps)\<^sup>2)" by simp
  also have "\<dots> \<le> ?X * (?A * (1 + 3 * eps))"
    using X A sq by (intro mult_left_mono) simp_all
  also have "\<dots> < ?X * ((?A + 1) * (1 - ?ne))"
    using X gap by (intro mult_strict_left_mono)
  also have "\<dots> = (?A + 1) * (?X * (1 - ?ne))" by simp
  also have "\<dots> \<le> (?A + 1) * 1" using q1 A by (intro mult_left_mono) simp_all
  finally show "sum_list (map (\<lambda>w. exactShare w a T) ws) < ?A + 1" using up by simp
  have "?A - 1 < ?A * (1 - of_nat ?n * eps - 2 * eps)"
  proof -
    have "(?A + 1) * (of_nat ?n + 3) * eps
        = ?A * (of_nat ?n * eps + 2 * eps) + (?A * eps + of_nat ?n * eps + 3 * eps)"
      by (simp add: algebra_simps)
    moreover have "0 \<le> ?A * eps + of_nat ?n * eps + 3 * eps"
      using A eps_range by (intro add_nonneg_nonneg mult_nonneg_nonneg) simp_all
    ultimately have "?A * (of_nat ?n * eps + 2 * eps) < 1" using le by linarith
    then show ?thesis by (simp add: algebra_simps)
  qed
  also have "\<dots> \<le> ?A * ((1 - ?ne) * (1 - 2 * eps))"
    using A eps_range mult_nonneg_nonneg [of "of_nat ?n" eps]
    by (intro mult_left_mono) (simp_all add: algebra_simps)
  also have "\<dots> \<le> ?A * (?X * (1 - eps)\<^sup>2)"
    using A q2 sq(2) ne eps_range X by (intro mult_left_mono mult_mono) (simp_all add: eps_def)
  also have "\<dots> = ?S * ?A / T * (1 - eps)\<^sup>2" by simp
  finally show "?A - 1 < sum_list (map (\<lambda>w. exactShare w a T) ws)" using dn by simp
qed

section \<open>The residual loop\<close>

lemma sum_update_present:
  assumes "distinct (map fst al)" "map_of al k = Some v"
  shows "sum_list (map snd (AList.update k (v' :: int) al)) = sum_list (map snd al) - v + v'"
  using assms
proof (induction al)
  case (Cons p al)
  obtain k0 v0 where p: "p = (k0, v0)" by (cases p)
  show ?case
  proof (cases "k0 = k")
    case True
    with Cons.prems p show ?thesis by simp
  next
    case False
    with Cons p show ?thesis by auto
  qed
qed simp

lemma map_fst_update_present: "map_of al k = Some v \<Longrightarrow> map fst (AList.update k v' al) = map fst al"
proof (induction al)
  case (Cons p al)
  then show ?case by (cases p) (auto split: if_splits)
qed simp

lemma giveResidual_spec:
  assumes "distinct (map fst al)" "distinct (map fr_item fs)" "fr_item ` set fs \<subseteq> fst ` set al"
    and "0 \<le> r"
  shows "map fst (giveResidual r fs al) = map fst al
    \<and> sum_list (map snd (giveResidual r fs al)) = sum_list (map snd al) + min r (int (length fs))
    \<and> (\<forall>k v. map_of al k = Some v \<longrightarrow>
         (\<exists>v'. map_of (giveResidual r fs al) k = Some v' \<and> v \<le> v' \<and> v' \<le> v + 1
            \<and> (k \<notin> fr_item ` set fs \<longrightarrow> v' = v)))"
  using assms
proof (induction r fs al rule: giveResidual.induct)
  case (1 r al)
  then show ?case by auto
next
  case (2 r t ts al)
  show ?case
  proof (cases "r \<le> 0")
    case True
    with 2 show ?thesis by auto
  next
    case False
    from 2 obtain v0 where v0: "map_of al (fr_item t) = Some v0"
      by (cases "map_of al (fr_item t)") (auto simp: map_of_eq_None_iff)
    let ?al = "AList.update (fr_item t) (v0 + 1) al"
    have keys: "map fst ?al = map fst al" by (rule map_fst_update_present [OF v0])
    have sum: "sum_list (map snd ?al) = sum_list (map snd al) + 1"
      using sum_update_present [OF 2(2) v0] by simp
    have g: "giveResidual r (t # ts) al = giveResidual (r - 1) ts ?al" using False v0 by simp
    have "fst ` set ?al = fst ` set al" using keys by (metis list.set_map)
    with 2(1) [OF False] v0 2 keys False
    have ih: "map fst (giveResidual (r - 1) ts ?al) = map fst al"
      "sum_list (map snd (giveResidual (r - 1) ts ?al)) = sum_list (map snd al) + 1 + min (r - 1) (int (length ts))"
      "\<And>k v. map_of ?al k = Some v \<Longrightarrow>
         (\<exists>v'. map_of (giveResidual (r - 1) ts ?al) k = Some v' \<and> v \<le> v' \<and> v' \<le> v + 1
            \<and> (k \<notin> fr_item ` set ts \<longrightarrow> v' = v))"
      using sum by auto
    have "\<exists>v'. map_of (giveResidual (r - 1) ts ?al) k = Some v' \<and> v \<le> v' \<and> v' \<le> v + 1
          \<and> (k \<notin> fr_item ` set (t # ts) \<longrightarrow> v' = v)" if "map_of al k = Some v" for k v
    proof (cases "k = fr_item t")
      case True
      then have "map_of ?al k = Some (v0 + 1)" "v = v0" using that v0 by (simp_all add: update_conv')
      moreover have "k \<notin> fr_item ` set ts" using 2(3) True by auto
      ultimately show ?thesis using ih(3) [of k "v0 + 1"] True by auto
    next
      case False
      then have "map_of ?al k = Some v" using that by (simp add: update_conv')
      from ih(3) [OF this] False show ?thesis by auto
    qed
    then show ?thesis unfolding g using ih False by auto
  qed
qed

section \<open>Allocation adds up\<close>

lemma fold_update_distinct:
  assumes "distinct (map item ts)" "item ` set ts \<inter> fst ` set al = {}"
  shows "fold (\<lambda>t. AList.update (item t) (f t)) ts al = al @ map (\<lambda>t. (item t, f t)) ts"
  using assms
proof (induction ts arbitrary: al)
  case (Cons t ts)
  have "AList.update (item t) (f t) al = al @ [(item t, f t)]" if "item t \<notin> fst ` set al" for al
    using that by (induction al) auto
  with Cons show ?case by auto
qed simp

lemma floor_nonneg_share: "0 < w \<Longrightarrow> 0 < a \<Longrightarrow> 0 < T \<Longrightarrow> 0 \<le> \<lfloor>exactShare w a T\<rfloor>"
  unfolding exactShare_def by (intro zero_le_floor [THEN iffD2] fl_nonneg divide_nonneg_pos) simp_all

lemma floor_sum_bounds:
  fixes f :: "'a \<Rightarrow> rat"
  assumes "xs \<noteq> []"
  shows "of_int (sum_list (map (\<lambda>x. \<lfloor>f x\<rfloor>) xs)) \<le> sum_list (map f xs)"
    "sum_list (map f xs) - of_nat (length xs) < of_int (sum_list (map (\<lambda>x. \<lfloor>f x\<rfloor>) xs))"
proof -
  show "of_int (sum_list (map (\<lambda>x. \<lfloor>f x\<rfloor>) xs)) \<le> sum_list (map f xs)"
    by (induction xs) (simp_all add: add_mono)
  show "sum_list (map f xs) - of_nat (length xs) < of_int (sum_list (map (\<lambda>x. \<lfloor>f x\<rfloor>) xs))"
    using assms
  proof (induction xs)
    case (Cons x xs)
    have "f x - 1 < of_int \<lfloor>f x\<rfloor>" by linarith
    with Cons show ?case by (cases xs) auto
  qed simp
qed

lemma allocateIntegerSats_spec:
  fixes lc :: "string \<Rightarrow> string \<Rightarrow> int"
  assumes dist: "distinct (map item ts)" and pos: "list_all (\<lambda>t. 0 < weight t) ts" "ts \<noteq> []"
    and a: "0 < a" and T: "sumsTo T (map weight ts)" "0 < T" and sp: "splittable a (length ts)"
  defines "al \<equiv> allocateIntegerSats lc ts a T"
  shows "map fst al = map item ts" "sum_list (map snd al) = a" "\<And>k. 0 \<le> satsOf al k"
proof -
  let ?w = "\<lambda>t. \<lfloor>exactShare (weight t) a T\<rfloor>"
  let ?fs = "js_sort (fractionBefore lc) (map (\<lambda>t. \<lparr>fr_item = item t, fr_weight = weight t,
     fr_fraction = fl (exactShare (weight t) a T - of_int (?w t))\<rparr>) ts)"
  let ?r = "map (\<lambda>t. (item t, ?w t)) ts" and ?A = "sum_list (map ?w ts)"
  have filt: "filter (\<lambda>t. 0 < weight t) ts = ts" using pos by (simp add: list_all_iff filter_id_conv)
  have fold: "fold (\<lambda>t. AList.update (item t) (?w t)) ts [] = ?r"
    using fold_update_distinct [OF dist, of "[]"] by simp
  have al: "al = giveResidual (a - ?A) ?fs ?r"
    unfolding al_def allocateIntegerSats_def filt Let_def fold using a T by simp
  have wp: "list_all (\<lambda>w. 0 < w) (map weight ts)" using pos by (simp add: list_all_iff)
  have ex: "sum_list (map (\<lambda>t. exactShare (weight t) a T) ts) < of_int a + 1"
    "of_int a - 1 < sum_list (map (\<lambda>t. exactShare (weight t) a T) ts)"
    using sum_exactShare [OF wp _ a T] pos sp by (simp_all add: comp_def)
  have "of_int ?A < (of_int (a + 1) :: rat)" "(of_int (a - 1 - int (length ts)) :: rat) < of_int ?A"
    using floor_sum_bounds [OF pos(2), of "\<lambda>t. exactShare (weight t) a T"] ex by auto
  then have A: "?A \<le> a" "a - int (length ts) \<le> ?A" unfolding of_int_less_iff by linarith+
  have d: "distinct (map fst ?r)" using dist by (simp add: comp_def)
  have items: "mset (map fr_item ?fs) = mset (map item ts)"
    unfolding mset_map mset_js_sort multiset.map_comp by (rule image_mset_cong) simp
  have "distinct (map fr_item ?fs)" unfolding mset_eq_imp_distinct_iff [OF items] by (rule dist)
  moreover have "fr_item ` set ?fs \<subseteq> fst ` set ?r" by (auto simp: image_image)
  moreover have "0 \<le> a - ?A" using A by simp
  ultimately have sp3: "map fst al = map fst ?r
    \<and> sum_list (map snd al) = sum_list (map snd ?r) + min (a - ?A) (int (length ?fs))
    \<and> (\<forall>k v. map_of ?r k = Some v \<longrightarrow> (\<exists>v'. map_of al k = Some v' \<and> v \<le> v' \<and> v' \<le> v + 1
            \<and> (k \<notin> fr_item ` set ?fs \<longrightarrow> v' = v)))"
    unfolding al by (rule giveResidual_spec [OF d])
  note g = sp3 [THEN conjunct1] sp3 [THEN conjunct2, THEN conjunct1]
  have g3: "\<exists>v'. map_of al k = Some v' \<and> v \<le> v'" if "map_of ?r k = Some v" for k v
    using sp3 that by blast
  show keys: "map fst al = map item ts" using g(1) by (simp add: comp_def)
  show "sum_list (map snd al) = a" using g(2) A by (simp add: comp_def)
  show "0 \<le> satsOf al k" for k
  proof (cases "map_of ?r k")
    case None
    then have "k \<notin> fst ` set ?r" by (simp add: map_of_eq_None_iff)
    then have "k \<notin> fst ` set al" using g(1) by (metis list.set_map)
    then show ?thesis by (simp add: satsOf_def map_of_eq_None_iff [THEN iffD2])
  next
    case (Some v)
    then obtain t where "t \<in> set ts" "v = ?w t" using map_of_SomeD [OF Some] by auto
    then have "0 \<le> v" using floor_nonneg_share a T(2) pos by (auto simp: list_all_iff)
    with g3 [OF Some] show ?thesis by (auto simp: satsOf_def)
  qed
qed

section \<open>The table of rows\<close>

definition row_ok :: "ComputedAddress \<Rightarrow> bool" where
  "row_ok r \<longleftrightarrow> ca_targetSats r = ca_rawFairSats r + ca_balanceBeforeSats r
     \<and> ca_balanceAfterSats r = ca_targetSats r - ca_payoutSats r
     \<and> 0 \<le> ca_payoutSats r \<and> 0 \<le> ca_creditedDifficulty r"

definition table_ok :: "ComputedAddress list \<Rightarrow> bool" where
  "table_ok rows \<longleftrightarrow> distinct (map ca_address rows) \<and> list_all row_ok rows"

definition paid :: "ComputedAddress list \<Rightarrow> int" where
  "paid rows = sum_list (map ca_payoutSats rows)"

text \<open>What no phase changes.\<close>

definition fixed :: "ComputedAddress \<Rightarrow> string \<times> rat \<times> int \<times> rat \<times> int \<times> int \<times> int" where
  "fixed r = (ca_address r, ca_creditedDifficulty r, ca_acceptedShareCount r, ca_payoutWeight r,
     ca_rawFairSats r, ca_balanceBeforeSats r, ca_targetSats r)"

lemma fixed_address: "map fixed rows = map fixed rows' \<Longrightarrow> map ca_address rows = map ca_address rows'"
proof -
  assume "map fixed rows = map fixed rows'"
  then have "map fst (map fixed rows) = map fst (map fixed rows')" by (rule arg_cong)
  then show ?thesis by (simp add: fixed_def comp_def)
qed

lemma satsOf_sum:
  assumes "distinct (map ca_address rs)" "map fst al = map ca_address rs"
  shows "sum_list (map (\<lambda>r. satsOf al (ca_address r)) rs) = sum_list (map snd al)"
proof -
  have d: "distinct (map fst al)" using assms by simp
  have "map (\<lambda>r. satsOf al (ca_address r)) rs = map (\<lambda>k. the (map_of al k)) (map fst al)"
    unfolding assms(2) map_map
  proof (rule map_cong [OF refl])
    fix r assume "r \<in> set rs"
    then have "ca_address r \<in> fst ` set al" using assms(2) by (metis image_eqI list.set_map)
    then obtain v where "map_of al (ca_address r) = Some v"
      by (metis map_of_eq_None_iff not_Some_eq)
    then show "satsOf al (ca_address r) = ((\<lambda>k. the (map_of al k)) \<circ> ca_address) r"
      by (simp add: satsOf_def)
  qed
  then show ?thesis unfolding distinct_map_of_zip [OF d] by (rule arg_cong)
qed

lemma sumsTo_pos:
  assumes "list_all (\<lambda>w. 0 < w) ws" "sumsTo T ws"
  shows "0 < T \<longleftrightarrow> ws \<noteq> []"
proof (cases ws)
  case (Cons v vs)
  have "0 \<le> sum_list vs" using assms(1) unfolding Cons
    by (intro sum_list_nonneg) (auto simp: list_all_iff less_imp_le)
  then have "0 < sum_list ws * (1 - eps) ^ length ws"
    using assms(1) eps_range by (simp add: Cons)
  then show ?thesis using assms(2) Cons by (simp add: sumsTo_def)
qed (use assms in \<open>simp add: sumsTo_def\<close>)

text \<open>Allocating \<open>a\<close> to the rows \<open>rs\<close> by positive weights gives all of \<open>a\<close>, if there is a row.\<close>

lemma allocate_to_rows:
  fixes lc :: "string \<Rightarrow> string \<Rightarrow> int"
  assumes "distinct (map ca_address rs)" "list_all (\<lambda>r. 0 < f r) rs"
    and "sumsTo T (map f rs)" "splittable a (length rs)"
  defines "al \<equiv> allocateIntegerSats lc (map (\<lambda>r. \<lparr>item = ca_address r, weight = f r\<rparr>) rs) a T"
  shows "sum_list (map (\<lambda>r. satsOf al (ca_address r)) rs) = (if rs = [] then 0 else max 0 a)"
    "0 \<le> satsOf al k"
proof -
  let ?ts = "map (\<lambda>r. \<lparr>item = ca_address r, weight = f r\<rparr>) rs"
  have w: "map item ?ts = map ca_address rs" "map weight ?ts = map f rs" by simp_all
  have "list_all (\<lambda>w. 0 < w) (map f rs)" using assms(2) by (simp add: list_all_iff)
  from sumsTo_pos [OF this assms(3)] have T: "0 < T \<longleftrightarrow> rs \<noteq> []" by simp
  have "sum_list (map (\<lambda>r. satsOf al (ca_address r)) rs) = (if rs = [] then 0 else max 0 a) \<and> 0 \<le> satsOf al k"
  proof (cases "rs = [] \<or> a \<le> 0")
    case True
    then have "al = []" using T by (auto simp: al_def allocateIntegerSats_def)
    then show ?thesis using True by (auto simp: satsOf_def)
  next
    case False
    have ne: "?ts \<noteq> []" and pos: "list_all (\<lambda>t. 0 < weight t) ?ts"
      using False assms(2) by (auto simp: list_all_iff)
    have d: "distinct (map item ?ts)" unfolding w by (rule assms(1))
    have sm: "sumsTo T (map weight ?ts)" unfolding w by (rule assms(3))
    have sp: "splittable a (length ?ts)" using assms(4) by simp
    have a: "0 < a" and T0: "0 < T" using False T by auto
    note spec = allocateIntegerSats_spec [OF d pos ne a sm T0 sp, of lc, folded al_def]
    from spec(1) have "map fst al = map ca_address rs" unfolding w .
    from satsOf_sum [OF assms(1) this] spec(2,3) False show ?thesis by simp
  qed
  then show "sum_list (map (\<lambda>r. satsOf al (ca_address r)) rs) = (if rs = [] then 0 else max 0 a)"
    "0 \<le> satsOf al k" by blast+
qed

lemma splittable_mono: "splittable a n \<Longrightarrow> 0 \<le> b \<Longrightarrow> b \<le> a \<Longrightarrow> m \<le> n \<Longrightarrow> splittable b m"
proof -
  assume a: "splittable a n" "0 \<le> b" "b \<le> a" "m \<le> n"
  have "(b + 1) * (int m + 3) \<le> (a + 1) * (int n + 3)" using a by (intro mult_mono) auto
  with a(1) show ?thesis by (simp add: splittable_def)
qed

lemma distinct_address_filter:
  "distinct (map ca_address rows) \<Longrightarrow> distinct (map ca_address (filter P rows))"
  by (rule distinct_map_filter)

subsection \<open>One allocation, applied to the selected rows\<close>

lemma paid_map_if:
  "paid (map (\<lambda>r. if P r then f r else r) rows)
     = sum_list (map (\<lambda>r. ca_payoutSats (f r)) (filter P rows))
       + sum_list (map ca_payoutSats (filter (\<lambda>r. \<not> P r) rows))"
  unfolding paid_def by (induction rows) auto

lemma sum_zero: "(\<And>x. x \<in> set xs \<Longrightarrow> f x = (0 :: int)) \<Longrightarrow> sum_list (map f xs) = 0"
  by (induction xs) auto

lemma table_map_ok:
  assumes "table_ok rows" "\<And>r. row_ok r \<Longrightarrow> row_ok (g r)" "\<And>r. fixed (g r) = fixed r"
  shows "table_ok (map g rows)" "map fixed (map g rows) = map fixed rows"
proof -
  show f: "map fixed (map g rows) = map fixed rows" using assms(3) by simp
  have "distinct (map ca_address (map g rows))"
    using assms(1) fixed_address [OF f] by (simp only: table_ok_def)
  then show "table_ok (map g rows)" using assms(1,2) by (auto simp: table_ok_def list_all_iff)
qed

lemma splittable_filter: "splittable a (length rows) \<Longrightarrow> 0 \<le> b \<Longrightarrow> b \<le> a \<Longrightarrow> splittable b (length (filter P rows))"
  by (erule splittable_mono) simp_all

lemma addPay_phase:
  fixes lc :: "string \<Rightarrow> string \<Rightarrow> int"
  assumes tab: "table_ok rows" and act: "\<And>r. P r \<Longrightarrow> 0 < ca_creditedDifficulty r"
    and sp: "splittable a (length (filter P rows))" and a: "0 \<le> a"
  defines "al \<equiv> allocateIntegerSats lc (byDifficulty (filter P rows)) a
      (fsum (map ca_creditedDifficulty (filter P rows)))"
  defines "rows' \<equiv> map (\<lambda>r. if P r then addPay (satsOf al (ca_address r)) r else r) rows"
  shows "table_ok rows'" "paid rows' = paid rows + (if filter P rows = [] then 0 else a)"
    "map fixed rows' = map fixed rows"
    "map ca_includedInCoinbase rows' = map ca_includedInCoinbase rows"
proof -
  have d: "distinct (map ca_address (filter P rows))"
    using tab by (simp add: table_ok_def distinct_address_filter)
  have w: "list_all (\<lambda>r. 0 < ca_creditedDifficulty r) (filter P rows)"
    using act by (simp add: list_all_iff)
  then have "list_all (\<lambda>w. 0 \<le> w) (map ca_creditedDifficulty (filter P rows))"
    by (simp add: list_all_iff less_imp_le)
  note al = allocate_to_rows [OF d w sumsTo_fsum [OF this] sp, of lc, folded byDifficulty_def al_def]
  have "row_ok (if P r then addPay (satsOf al (ca_address r)) r else r)" if "row_ok r" for r
    using that al(2) [of "ca_address r"] by (simp add: row_ok_def addPay_def)
  from table_map_ok [OF tab this] show "table_ok rows'" "map fixed rows' = map fixed rows"
    by (simp_all add: rows'_def addPay_def fixed_def)
  show "map ca_includedInCoinbase rows' = map ca_includedInCoinbase rows"
    by (simp add: rows'_def addPay_def)
  have "sum_list (map (\<lambda>r. ca_payoutSats (addPay (satsOf al (ca_address r)) r)) (filter P rows))
      = sum_list (map ca_payoutSats (filter P rows)) + (if filter P rows = [] then 0 else a)"
    using al(1) a by (simp add: addPay_def sum_list_addf)
  then show "paid rows' = paid rows + (if filter P rows = [] then 0 else a)"
    unfolding rows'_def paid_map_if using sum_list_filter_split [of ca_payoutSats rows P]
    by (simp add: paid_def)
qed

lemma pay_phase:
  fixes lc :: "string \<Rightarrow> string \<Rightarrow> int"
  assumes tab: "table_ok rows" and zero: "\<forall>r \<in> set rows. ca_payoutSats r = 0"
    and pos: "\<And>r. P r \<Longrightarrow> 0 < f r" and T: "sumsTo T (map f (filter P rows))"
    and sp: "splittable a (length (filter P rows))" and a: "0 \<le> a"
  defines "al \<equiv> allocateIntegerSats lc (map (\<lambda>r. \<lparr>item = ca_address r, weight = f r\<rparr>) (filter P rows)) a T"
  defines "rows' \<equiv> map (\<lambda>r. if P r then pay (\<lambda>r. satsOf al (ca_address r)) r else r) rows"
  shows "table_ok rows'" "paid rows' = (if filter P rows = [] then 0 else a)"
    "map fixed rows' = map fixed rows"
    "map ca_includedInCoinbase rows' = map ca_includedInCoinbase rows"
proof -
  have d: "distinct (map ca_address (filter P rows))"
    using tab by (simp add: table_ok_def distinct_address_filter)
  have w: "list_all (\<lambda>r. 0 < f r) (filter P rows)" using pos by (simp add: list_all_iff)
  note al = allocate_to_rows [OF d w T sp, of lc, folded al_def]
  have "row_ok (if P r then pay (\<lambda>r. satsOf al (ca_address r)) r else r)" if "row_ok r" for r
    using that al(2) [of "ca_address r"] by (simp add: row_ok_def pay_def)
  from table_map_ok [OF tab this] show "table_ok rows'" "map fixed rows' = map fixed rows"
    by (simp_all add: rows'_def pay_def fixed_def)
  show "map ca_includedInCoinbase rows' = map ca_includedInCoinbase rows"
    by (simp add: rows'_def pay_def)
  have "sum_list (map ca_payoutSats (filter (\<lambda>r. \<not> P r) rows)) = 0"
    using zero by (intro sum_zero) auto
  then show "paid rows' = (if filter P rows = [] then 0 else a)"
    unfolding rows'_def paid_map_if using al(1) a by (simp add: pay_def)
qed

subsection \<open>The first phase: targets\<close>

lemma sum_targets_pos:
  "0 < sum_list (map ca_targetSats (filter (\<lambda>r. 0 < ca_targetSats r) rows))
     \<longleftrightarrow> filter (\<lambda>r. 0 < ca_targetSats r) rows \<noteq> []"
proof (induction rows)
  case (Cons r rows)
  have "0 \<le> sum_list (map ca_targetSats (filter (\<lambda>r. 0 < ca_targetSats r) rows))"
    by (intro sum_list_nonneg) auto
  with Cons show ?case by auto
qed simp

lemma allocatePayoutTargets_ok:
  fixes lc :: "string \<Rightarrow> string \<Rightarrow> int"
  assumes tab: "table_ok rows" and zero: "\<forall>r \<in> set rows. ca_payoutSats r = 0"
    and rew: "0 \<le> reward" and sp: "splittable reward (length rows)"
    and T: "sumsTo T (map ca_creditedDifficulty (filter (\<lambda>r. 0 < ca_creditedDifficulty r) rows))"
  defines "rows' \<equiv> allocatePayoutTargets lc rows reward T"
  shows "table_ok rows' \<and> paid rows' \<le> reward \<and> map fixed rows' = map fixed rows
    \<and> map ca_includedInCoinbase rows' = map ca_includedInCoinbase rows"
proof -
  let ?pos = "\<lambda>r. 0 < ca_targetSats r" and ?act = "\<lambda>r. 0 < ca_creditedDifficulty r"
  let ?tot = "sum_list (map ca_targetSats (filter ?pos rows))"
  note spl = splittable_filter [OF sp]
  consider (none) "?tot \<le> 0" | (all) "0 < ?tot" "?tot \<le> reward" | (capped) "0 < ?tot" "reward < ?tot"
    by linarith
  then show ?thesis
  proof cases
    case none
    from pay_phase [OF tab zero _ T spl [OF rew order.refl] rew, of lc] none rew show ?thesis
      unfolding rows'_def allocatePayoutTargets_def Let_def byDifficulty_def
      by (auto split: if_splits)
  next
    case all
    let ?rows1 = "map (\<lambda>r. if ?pos r then r\<lparr>ca_payoutSats := ca_targetSats r, ca_balanceAfterSats := 0\<rparr> else r) rows"
    let ?both = "\<lambda>r. ?pos r \<and> ?act r"
    have "row_ok (if ?pos r then r\<lparr>ca_payoutSats := ca_targetSats r, ca_balanceAfterSats := 0\<rparr> else r)"
      if "row_ok r" for r using that by (simp add: row_ok_def)
    from table_map_ok [OF tab this] have 1: "table_ok ?rows1" "map fixed ?rows1 = map fixed rows"
      by (simp_all add: fixed_def)
    have inc: "map ca_includedInCoinbase ?rows1 = map ca_includedInCoinbase rows" by simp
    have paid1: "paid ?rows1 = ?tot"
      unfolding paid_map_if using zero sum_zero [of "filter (\<lambda>r. \<not> ?pos r) rows" ca_payoutSats] by simp
    show ?thesis
    proof (cases "reward - ?tot \<le> 0")
      case True
      then have "rows' = ?rows1" using all by (simp add: rows'_def allocatePayoutTargets_def Let_def)
      then show ?thesis using 1 inc paid1 all by simp
    next
      case False
      let ?al = "allocateIntegerSats lc (byDifficulty (filter ?both ?rows1)) (reward - ?tot)
          (fsum (map ca_creditedDifficulty (filter ?both ?rows1)))"
      have r': "rows' = map (\<lambda>r. if ?both r then addPay (satsOf ?al (ca_address r)) r else r) ?rows1"
        using all False unfolding rows'_def allocatePayoutTargets_def Let_def by simp
      have "splittable reward (length ?rows1)" using sp by simp
      then have "splittable (reward - ?tot) (length (filter ?both ?rows1))"
        by (rule splittable_filter) (use False all in simp_all)
      from addPay_phase [OF 1(1) _ this, of lc] False 1(2) inc paid1 all show ?thesis
        unfolding r' by (auto split: if_splits)
    qed
  next
    case capped
    have w: "list_all (\<lambda>w. 0 \<le> w) (map (\<lambda>r. of_int (ca_targetSats r) :: rat) (filter ?pos rows))"
      by (simp add: list_all_iff)
    have "sum_list (map (\<lambda>r. of_int (ca_targetSats r) :: rat) (filter ?pos rows)) = of_int ?tot"
      by (induction rows) auto
    with sumsTo_exact [OF w]
    have "sumsTo (of_int ?tot) (map (\<lambda>r. of_int (ca_targetSats r)) (filter ?pos rows))" by simp
    from pay_phase [OF tab zero _ this spl [OF rew order.refl] rew, of lc] capped rew show ?thesis
      unfolding rows'_def allocatePayoutTargets_def Let_def by (auto split: if_splits)
  qed
qed

subsection \<open>The second phase: the outputs that fit\<close>

lemma fitOutputs_subset: "set (fitOutputs ow b u rows) \<subseteq> ca_address ` set rows"
  by (induction rows arbitrary: u) auto

lemma fitOutputs_weight:
  "of_int u \<le> b \<Longrightarrow> of_int (u + sum_list (map ow (fitOutputs ow b u rows))) \<le> (b :: rat)"
proof (induction rows arbitrary: u)
  case (Cons r rows)
  then show ?case
    using Cons.IH [of u] Cons.IH [of "u + ow (ca_address r)"] by (auto simp: add.assoc)
qed simp

lemma fitOutputs_distinct:
  "distinct (map ca_address rows) \<Longrightarrow> distinct (fitOutputs ow b u rows)"
proof (induction rows arbitrary: u)
  case (Cons r rows)
  then show ?case using fitOutputs_subset [of ow b _ rows] by auto
qed simp

text \<open>After the second phase a row has a payout only if it is an output of the coinbase.\<close>

definition outputs_only :: "ComputedAddress list \<Rightarrow> bool" where
  "outputs_only rows \<longleftrightarrow> list_all (\<lambda>r. ca_includedInCoinbase r \<or> ca_payoutSats r = 0) rows"

lemma includeOutputs_ok:
  fixes lc :: "string \<Rightarrow> string \<Rightarrow> int" and addressType :: "string \<Rightarrow> AddressType option"
    and minOut used :: int and budget :: rat
  assumes tab: "table_ok rows" and no: "\<forall>r \<in> set rows. \<not> ca_includedInCoinbase r"
  defines "rows' \<equiv> includeOutputs addressType lc minOut budget used rows"
  shows "table_ok rows'" "map fixed rows' = map fixed rows" "outputs_only rows'" "paid rows' \<le> paid rows"
proof -
  let ?el = "js_sort (payoutBefore lc) (filter (\<lambda>r. ca_payoutSats r > 0
      \<and> (ca_creditedDifficulty r > 0 \<or> ca_payoutSats r \<ge> minOut)) rows)"
  let ?fit = "fitOutputs (outputWeightForAddress addressType) budget used ?el"
  let ?g = "\<lambda>r. if ca_address r \<in> set ?fit
       then r\<lparr>ca_includedInCoinbase := True, ca_balanceAfterSats := ca_targetSats r - ca_payoutSats r\<rparr>
       else if ca_payoutSats r > 0 then r\<lparr>ca_payoutSats := 0, ca_balanceAfterSats := ca_targetSats r\<rparr>
       else r"
  have r': "rows' = map ?g rows" by (simp add: rows'_def includeOutputs_def Let_def)
  show "table_ok rows'" "map fixed rows' = map fixed rows"
    unfolding r' by (rule table_map_ok [OF tab]; simp add: row_ok_def fixed_def)+
  have nn: "0 \<le> ca_payoutSats r" if "r \<in> set rows" for r
    using tab that by (simp add: table_ok_def list_all_iff row_ok_def)
  show "outputs_only rows'"
    unfolding r' outputs_only_def list_all_iff by (auto dest!: nn)
  show "paid rows' \<le> paid rows"
    using tab unfolding r' paid_def map_map
    by (intro sum_list_mono) (auto simp: table_ok_def list_all_iff row_ok_def)
qed

lemma paid_outputs:
  "outputs_only rows \<Longrightarrow> sum_list (map ca_payoutSats (filter ca_includedInCoinbase rows)) = paid rows"
  unfolding paid_def outputs_only_def by (induction rows) auto

subsection \<open>The third phase: what is left over\<close>

lemma redistribute_ok:
  fixes lc :: "string \<Rightarrow> string \<Rightarrow> int"
  assumes tab: "table_ok rows" and out: "outputs_only rows" and le: "paid rows \<le> reward"
    and sp: "splittable reward (length rows)" and rew: "0 \<le> reward"
  defines "rows' \<equiv> redistributeUnfitMinerPayouts lc rows reward"
  shows "table_ok rows' \<and> outputs_only rows' \<and> map fixed rows' = map fixed rows
    \<and> map ca_includedInCoinbase rows' = map ca_includedInCoinbase rows \<and> paid rows' \<le> reward
    \<and> ((\<exists>r \<in> set rows. ca_includedInCoinbase r \<and> 0 < ca_creditedDifficulty r) \<longrightarrow> paid rows' = reward)"
proof -
  let ?kept = "\<lambda>r. ca_includedInCoinbase r \<and> 0 < ca_creditedDifficulty r"
  let ?T = "fsum (map ca_creditedDifficulty (filter ?kept rows))" and ?rem = "reward - paid rows"
  have pos: "list_all (\<lambda>w. 0 < w) (map ca_creditedDifficulty (filter ?kept rows))"
    by (simp add: list_all_iff)
  then have "sumsTo ?T (map ca_creditedDifficulty (filter ?kept rows))"
    by (intro sumsTo_fsum) (auto simp: list_all_iff)
  from sumsTo_pos [OF pos this] have T: "0 < ?T \<longleftrightarrow> filter ?kept rows \<noteq> []" by simp
  show ?thesis
  proof (cases "?rem \<le> 0 \<or> ?T \<le> 0")
    case True
    then have "rows' = rows"
      by (auto simp: rows'_def redistributeUnfitMinerPayouts_def Let_def paid_outputs [OF out])
    moreover have "paid rows = reward" if "\<exists>r \<in> set rows. ?kept r"
      using True T le that by (auto simp: filter_empty_conv)
    ultimately show ?thesis using tab out le by blast
  next
    case False
    let ?al = "allocateIntegerSats lc (byDifficulty (filter ?kept rows)) ?rem ?T"
    have r': "rows' = map (\<lambda>r. if ?kept r then addPay (satsOf ?al (ca_address r)) r else r) rows"
      using False by (simp add: rows'_def redistributeUnfitMinerPayouts_def Let_def paid_outputs [OF out])
    have "0 \<le> paid rows" unfolding paid_def using tab
      by (intro sum_list_nonneg) (auto simp: table_ok_def list_all_iff row_ok_def)
    then have "splittable ?rem (length (filter ?kept rows))"
      using False by (intro splittable_filter [OF sp]) simp_all
    from addPay_phase [OF tab _ this, of lc] False T
    have "table_ok rows' \<and> paid rows' = reward \<and> map fixed rows' = map fixed rows
        \<and> map ca_includedInCoinbase rows' = map ca_includedInCoinbase rows"
      unfolding r' by auto
    moreover have "outputs_only rows'" using out by (auto simp: r' outputs_only_def list_all_iff addPay_def)
    ultimately show ?thesis by simp
  qed
qed

section \<open>The initial table\<close>

definition work_ok :: "(string \<times> rat \<times> int) list \<Rightarrow> bool" where
  "work_ok m \<longleftrightarrow> distinct (map fst m) \<and> (\<forall>e \<in> set m. 0 < fst (snd e))"

lemma set_update_subset: "set (AList.update k v al) \<subseteq> insert (k, v) (set al)"
  by (induction al) auto

lemma length_update_le: "length (AList.update k v al) \<le> Suc (length al)"
  by (induction al) auto

lemma collectWork_ok: "work_ok (collectWork ws)" "length (collectWork ws) \<le> length ws"
proof -
  let ?step = "\<lambda>w m. case paw_creditedDifficulty w of
        Num d \<Rightarrow>
          if paw_address w = [] \<or> d \<le> 0 then m
          else (let (d0, n0) = (case map_of m (paw_address w) of None \<Rightarrow> (0, 0) | Some e \<Rightarrow> e)
                in AList.update (paw_address w) (fl (d0 + d), n0 + paw_acceptedShareCount w) m)
      | _ \<Rightarrow> m"
  have ok: "work_ok (?step w m)" if "work_ok m" for w m
  proof (cases "\<exists>d. paw_creditedDifficulty w = Num d \<and> \<not> (paw_address w = [] \<or> d \<le> 0)")
    case False
    then show ?thesis using that by (auto split: jsnum.splits)
  next
    case True
    then obtain d where d: "paw_creditedDifficulty w = Num d" "0 < d" "paw_address w \<noteq> []" by auto
    obtain d0 n0 where e: "(case map_of m (paw_address w) of None \<Rightarrow> (0, 0) | Some e \<Rightarrow> e) = (d0, n0)"
      by (cases "case map_of m (paw_address w) of None \<Rightarrow> (0, 0) | Some e \<Rightarrow> e")
    have "0 \<le> d0"
      using e that map_of_SomeD [of m "paw_address w"]
      by (auto simp: work_ok_def less_imp_le split: option.splits)
    then have "0 < fl (d0 + d)" using d by simp
    then have "\<forall>x \<in> insert (paw_address w, fl (d0 + d), n0 + paw_acceptedShareCount w) (set m). 0 < fst (snd x)"
      using that by (simp add: work_ok_def)
    then have "work_ok (AList.update (paw_address w) (fl (d0 + d), n0 + paw_acceptedShareCount w) m)"
      using that set_update_subset unfolding work_ok_def by (meson distinct_update subsetD)
    then show ?thesis using d e by simp
  qed
  have len: "length (?step w m) \<le> Suc (length m)" for w m
    by (auto simp: length_update_le le_SucI split: jsnum.splits prod.splits)
  have "work_ok (fold ?step ws m) \<and> length (fold ?step ws m) \<le> length m + length ws" if "work_ok m" for m
    using that
  proof (induction ws arbitrary: m)
    case (Cons w ws)
    from Cons.IH [OF ok [OF Cons.prems, of w]] len [of w m] show ?case by auto
  qed simp
  from this [of "[]"] show "work_ok (collectWork ws)" "length (collectWork ws) \<le> length ws"
    unfolding collectWork_def by (auto simp: work_ok_def)
qed

lemma collectBalances_ok: "distinct (map fst (collectBalances bs))" "length (collectBalances bs) \<le> length bs"
proof -
  let ?step = "\<lambda>b m. case pbi_balanceSats b of
        Num v \<Rightarrow> if pbi_address b \<noteq> [] \<and> v \<noteq> 0 then AList.update (pbi_address b) (js_trunc v) m else m
      | _ \<Rightarrow> m"
  have "distinct (map fst (fold ?step bs m)) \<and> length (fold ?step bs m) \<le> length m + length bs"
    if "distinct (map fst m)" for m
    using that
  proof (induction bs arbitrary: m)
    case (Cons b bs)
    have "distinct (map fst (?step b m))" using Cons.prems
      by (auto simp: distinct_update split: jsnum.splits)
    moreover have "length (?step b m) \<le> Suc (length m)"
      by (auto simp: length_update_le le_SucI split: jsnum.splits)
    ultimately show ?case using Cons.IH [of "?step b m"] by auto
  qed simp
  from this [of "[]"] show "distinct (map fst (collectBalances bs))"
    "length (collectBalances bs) \<le> length bs" unfolding collectBalances_def by auto
qed

lemma computeRow_sel [simp]:
  "ca_address (computeRow w b f t a) = a"
  "ca_creditedDifficulty (computeRow w b f t a) = (case map_of w a of None \<Rightarrow> 0 | Some e \<Rightarrow> fst e)"
  "ca_rawFairSats (computeRow w b f t a) = satsOf f a"
  "ca_balanceBeforeSats (computeRow w b f t a) = satsOf b a"
  "ca_payoutSats (computeRow w b f t a) = 0"
  "ca_includedInCoinbase (computeRow w b f t a) = False"
  "ca_targetSats (computeRow w b f t a) = satsOf f a + satsOf b a"
  "ca_balanceAfterSats (computeRow w b f t a) = satsOf f a + satsOf b a"
  by (simp_all add: computeRow_def Let_def split: option.splits prod.splits)

definition consideredOf :: "(string \<times> rat \<times> int) list \<Rightarrow> (string \<times> int) list \<Rightarrow> string list" where
  "consideredOf w b = map fst w @ filter (\<lambda>a. a \<notin> set (map fst w)) (map fst b)"

lemma active_rows:
  assumes "work_ok w"
  shows "map ca_creditedDifficulty (filter (\<lambda>r. 0 < ca_creditedDifficulty r)
      (map (computeRow w b f t) (consideredOf w b))) = map (fst \<circ> snd) w"
proof -
  let ?cd = "\<lambda>a. case map_of w a of None \<Rightarrow> 0 | Some e \<Rightarrow> fst e"
  have key: "?cd (fst e) = fst (snd e)" if "e \<in> set w" for e
  proof -
    have "map_of w (fst e) = Some (snd e)"
      using that assms by (intro map_of_is_SomeI) (simp_all add: work_ok_def)
    then show ?thesis by simp
  qed
  have other: "?cd a = 0" if "a \<notin> set (map fst w)" for a
    using that by (auto simp: map_of_eq_None_iff [THEN iffD2])
  have "filter (\<lambda>a. 0 < ?cd a) (map fst w) = map fst w"
    using assms key by (auto simp: filter_id_conv work_ok_def)
  moreover have "filter (\<lambda>a. 0 < ?cd a) (filter (\<lambda>a. a \<notin> set (map fst w)) (map fst b)) = []"
    using other by (auto simp: filter_empty_conv)
  ultimately have "filter (\<lambda>a. 0 < ?cd a) (consideredOf w b) = map fst w"
    unfolding consideredOf_def filter_append by simp
  moreover have "map ca_creditedDifficulty (filter (\<lambda>r. 0 < ca_creditedDifficulty r) (map (computeRow w b f t) xs))
      = map ?cd (filter (\<lambda>a. 0 < ?cd a) xs)" for xs
    by (induction xs) auto
  ultimately show ?thesis using key by simp
qed

lemma initial_table_ok:
  assumes "work_ok w" "distinct (map fst b)"
  shows "table_ok (map (computeRow w b f t) (consideredOf w b))"
proof -
  have "distinct (consideredOf w b)" using assms by (auto simp: consideredOf_def work_ok_def)
  moreover have "row_ok (computeRow w b f t a)" for a
    using assms(1) map_of_SomeD [of w a]
    by (auto simp: row_ok_def work_ok_def less_imp_le split: option.splits)
  ultimately show ?thesis by (simp add: table_ok_def comp_def list_all_iff)
qed

lemma length_consideredOf: "length (consideredOf w b) \<le> length w + length b"
  by (simp add: consideredOf_def)

section \<open>The whole distribution\<close>

definition coinbaseSats :: "PayoutDistributionInput \<Rightarrow> int" where
  "coinbaseSats input = max 0 \<lfloor>in_coinbaseValueSats input\<rfloor>"

text \<open>Inputs of a pool: a fee of at most 100 percent, and few enough addresses for the amount.\<close>

definition sane_input :: "PayoutDistributionInput \<Rightarrow> bool" where
  "sane_input input \<longleftrightarrow> (case in_feePercent input of Num p \<Rightarrow> p \<le> 100 | _ \<Rightarrow> True)
     \<and> splittable (coinbaseSats input) (length (addressWork input) + length (balances input))"

lemma splittable_small: "splittable a n \<Longrightarrow> 0 \<le> a \<Longrightarrow> a < 2 ^ 53"
proof -
  assume a: "splittable a n" "0 \<le> a"
  have "a + 1 \<le> (a + 1) * (int n + 3)" using a(2) by (simp add: mult_le_cancel_left1)
  with a(1) show ?thesis by (simp add: splittable_def)
qed

lemma feeSats_range:
  assumes "sane_input input"
  shows "0 \<le> feeSatsFor input" "feeSatsFor input \<le> coinbaseSats input"
proof -
  define p where "p = (case in_feePercent input of Num p \<Rightarrow> if p > 0 then p else 0 | _ \<Rightarrow> 0)"
  let ?V = "coinbaseSats input" and ?q = "fl (p / 100)"
  have V: "0 \<le> ?V" "?V < 2 ^ 53"
    using assms splittable_small [of ?V] by (auto simp: sane_input_def coinbaseSats_def)
  have p: "0 \<le> p" "p \<le> 100" using assms by (auto simp: p_def sane_input_def split: jsnum.splits)
  then have q: "0 \<le> ?q" "?q \<le> 1" using fl_mono [of "p / 100" 1] fl_int [of 1] by (simp_all add: fl_nonneg)
  have "fl (?q * of_int ?V) \<le> fl (of_int ?V)"
    using q V by (intro fl_mono) (simp add: mult_left_le_one_le)
  also have "\<dots> = of_int ?V" using V by (intro fl_int) simp
  finally have le: "\<lfloor>fl (?q * of_int ?V)\<rfloor> \<le> ?V" by linarith
  have "feeSatsFor input = (let fa = (case in_feeAddress input of None \<Rightarrow> [] | Some a \<Rightarrow> js_trim a)
      in if length fa > 0 \<and> \<lfloor>fl (?q * of_int ?V)\<rfloor> \<ge> max DUST_LIMIT_SATS \<lfloor>in_minOutputSats input\<rfloor>
         then \<lfloor>fl (?q * of_int ?V)\<rfloor> else 0)"
    by (simp add: feeSatsFor_def Let_def p_def coinbaseSats_def)
  then show "0 \<le> feeSatsFor input" "feeSatsFor input \<le> ?V"
    using le V by (auto simp: Let_def DUST_LIMIT_SATS_def)
qed

definition rewardSats :: "PayoutDistributionInput \<Rightarrow> int" where
  "rewardSats input = coinbaseSats input - feeSatsFor input"

definition effectiveBudgetOf :: "PayoutDistributionInput \<Rightarrow> rat" where
  "effectiveBudgetOf input = fl ((if in_coinbaseWeightBudget input > 0 then in_coinbaseWeightBudget input
      else DEFAULT_COINBASE_WEIGHT_BUDGET) - BUDGET_SAFETY_MARGIN_WEIGHT)"

definition feeAddressOf :: "PayoutDistributionInput \<Rightarrow> string" where
  "feeAddressOf input = (case in_feeAddress input of None \<Rightarrow> [] | Some a \<Rightarrow> js_trim a)"

definition reservedWeight :: "(string \<Rightarrow> AddressType option) \<Rightarrow> PayoutDistributionInput \<Rightarrow> int" where
  "reservedWeight addressType input = COINBASE_BASE_WEIGHT + COINBASE_WITNESS_COMMITMENT_WEIGHT
     + (if feeSatsFor input > 0 then outputWeightForAddress addressType (feeAddressOf input) else 0)"

lemma sum_addresses:
  fixes ow :: "string \<Rightarrow> int"
  assumes "distinct (map ca_address rs)" "distinct xs" "set (map ca_address rs) = set xs"
  shows "sum_list (map (\<lambda>r. ow (ca_address r)) rs) = sum_list (map ow xs)"
proof -
  have "mset (map ca_address rs) = mset xs"
    by (rule set_eq_iff_mset_eq_distinct [THEN iffD1]) (rule assms)+
  then have "sum_mset (image_mset ow (mset (map ca_address rs))) = sum_mset (image_mset ow (mset xs))"
    by (rule arg_cong)
  then show ?thesis by (simp add: multiset.map_comp sum_mset_sum_list comp_def flip: mset_map)
qed

lemma included_addresses:
  "\<forall>r \<in> set rows. \<not> ca_includedInCoinbase r \<Longrightarrow>
   map ca_address (filter ca_includedInCoinbase (map (\<lambda>r.
      if ca_address r \<in> S
      then r\<lparr>ca_includedInCoinbase := True, ca_balanceAfterSats := ca_targetSats r - ca_payoutSats r\<rparr>
      else if ca_payoutSats r > 0 then r\<lparr>ca_payoutSats := 0, ca_balanceAfterSats := ca_targetSats r\<rparr>
      else r) rows)) = filter (\<lambda>a. a \<in> S) (map ca_address rows)"
  by (induction rows) auto

definition outputKey :: "ComputedAddress \<Rightarrow> bool \<times> string \<times> rat" where
  "outputKey r = (ca_includedInCoinbase r, ca_address r, ca_creditedDifficulty r)"

lemma same_outputs:
  "map fixed xs = map fixed ys \<Longrightarrow> map ca_includedInCoinbase xs = map ca_includedInCoinbase ys
     \<Longrightarrow> map outputKey xs = map outputKey ys"
proof (induction xs arbitrary: ys)
  case (Cons x xs)
  then obtain y ys' where ys: "ys = y # ys'" by (cases ys) auto
  have "map outputKey xs = map outputKey ys'"
    using Cons.prems unfolding ys by (intro Cons.IH) simp_all
  moreover have "outputKey x = outputKey y"
    using Cons.prems unfolding ys by (simp add: outputKey_def fixed_def)
  ultimately show ?case by (simp add: ys)
qed simp

lemma output_weights:
  fixes ow :: "string \<Rightarrow> int"
  shows "sum_list (map (\<lambda>r. ow (ca_address r)) (filter ca_includedInCoinbase rows))
     = sum_list (map (\<lambda>(_, a, _). ow a) (filter fst (map outputKey rows)))"
  by (induction rows) (auto simp: outputKey_def)

lemma some_output:
  "(\<exists>r \<in> set rows. ca_includedInCoinbase r \<and> 0 < ca_creditedDifficulty r)
     \<longleftrightarrow> (\<exists>(i, _, d) \<in> set (map outputKey rows). i \<and> 0 < d)"
  by (auto simp: outputKey_def)

lemma includeOutputs_weight:
  fixes lc :: "string \<Rightarrow> string \<Rightarrow> int" and addressType :: "string \<Rightarrow> AddressType option"
    and minOut used :: int and budget :: rat
  assumes tab: "table_ok rows" and no: "\<forall>r \<in> set rows. \<not> ca_includedInCoinbase r"
    and room: "of_int used \<le> budget"
  defines "rows' \<equiv> includeOutputs addressType lc minOut budget used rows"
  shows "of_int (used + sum_list (map (\<lambda>r. outputWeightForAddress addressType (ca_address r))
     (filter ca_includedInCoinbase rows'))) \<le> budget"
proof -
  let ?ow = "outputWeightForAddress addressType"
  let ?el = "js_sort (payoutBefore lc) (filter (\<lambda>r. ca_payoutSats r > 0
      \<and> (ca_creditedDifficulty r > 0 \<or> ca_payoutSats r \<ge> minOut)) rows)"
  let ?fit = "fitOutputs ?ow budget used ?el"
  have d: "distinct (map ca_address rows)" using tab by (simp add: table_ok_def)
  have "mset (map ca_address ?el) = mset (map ca_address (filter (\<lambda>r. ca_payoutSats r > 0
      \<and> (ca_creditedDifficulty r > 0 \<or> ca_payoutSats r \<ge> minOut)) rows))" by simp
  from mset_eq_imp_distinct_iff [OF this] have "distinct (map ca_address ?el)"
    using distinct_address_filter [OF d] by blast
  then have df: "distinct ?fit" by (rule fitOutputs_distinct)
  have sub: "set ?fit \<subseteq> ca_address ` set rows" using fitOutputs_subset [of ?ow budget used ?el] by auto
  have inc: "map ca_address (filter ca_includedInCoinbase rows') = filter (\<lambda>a. a \<in> set ?fit) (map ca_address rows)"
    unfolding rows'_def includeOutputs_def Let_def by (rule included_addresses [OF no])
  have "set (map ca_address (filter ca_includedInCoinbase rows')) = set ?fit"
    unfolding inc using sub by auto
  moreover have "distinct (map ca_address (filter ca_includedInCoinbase rows'))"
    unfolding inc using d by (rule distinct_filter)
  ultimately have "sum_list (map (\<lambda>r. ?ow (ca_address r)) (filter ca_includedInCoinbase rows'))
      = sum_list (map ?ow ?fit)"
    using df by (intro sum_addresses)
  then show ?thesis using fitOutputs_weight [OF room, of ?ow ?el] by simp
qed

lemma raw_sum:
  fixes lc :: "string \<Rightarrow> string \<Rightarrow> int"
  assumes w: "work_ok w" "w \<noteq> []" and a: "0 \<le> a" and sp: "splittable a (length w)"
  defines "fair \<equiv> allocateIntegerSats lc (map (\<lambda>(a, d, _). \<lparr>item = a, weight = d\<rparr>) w) a
      (fsum (map (fst \<circ> snd) w))"
  shows "sum_list (map (satsOf fair) (consideredOf w b)) = a"
proof -
  let ?ts = "map (\<lambda>(a, d, _). \<lparr>item = a, weight = d\<rparr>) w" and ?T = "fsum (map (fst \<circ> snd) w)"
  have ts: "map item ?ts = map fst w" "map weight ?ts = map (fst \<circ> snd) w"
    by (simp_all add: comp_def split_def)
  have pos: "list_all (\<lambda>w. 0 < w) (map (fst \<circ> snd) w)" using w by (simp add: work_ok_def list_all_iff)
  then have sm: "sumsTo ?T (map (fst \<circ> snd) w)"
    by (intro sumsTo_fsum) (auto simp: list_all_iff less_imp_le)
  with sumsTo_pos [OF pos] w have T: "0 < ?T" by simp
  show ?thesis
  proof (cases "a = 0")
    case True
    then have "fair = []" by (simp add: fair_def allocateIntegerSats_def)
    moreover have "satsOf [] = (\<lambda>_. 0)" by (simp add: satsOf_def fun_eq_iff)
    ultimately show ?thesis using True by (simp add: sum_zero)
  next
    case False
    have d: "distinct (map item ?ts)" unfolding ts using w by (simp add: work_ok_def)
    have p: "list_all (\<lambda>t. 0 < weight t) ?ts" using w by (auto simp: work_ok_def list_all_iff)
    have ne: "?ts \<noteq> []" using w by simp
    have s: "sumsTo ?T (map weight ?ts)" unfolding ts by (rule sm)
    have sp': "splittable a (length ?ts)" using sp by simp
    have a0: "0 < a" using False a by simp
    note al = allocateIntegerSats_spec [OF d p ne a0 s T sp', of lc, folded fair_def, unfolded ts]
    have "sum_list (map (satsOf fair) (map fst w)) = sum_list (map snd fair)"
    proof -
      have "map (satsOf fair) (map fst fair) = map (\<lambda>k. the (map_of fair k)) (map fst fair)"
        by (rule map_cong [OF refl])
          (metis (no_types, lifting) image_set map_of_eq_None_iff option.case_eq_if satsOf_def)
      also have "\<dots> = map snd fair"
        using al(1) w by (intro distinct_map_of_zip) (simp add: work_ok_def)
      finally show ?thesis using al(1) by (simp only: al(1))
    qed
    moreover have "satsOf fair k = 0" if "k \<notin> set (map fst w)" for k
      using that al(1) by (metis image_set map_of_eq_None_iff option.simps(4) satsOf_def)
    then have "sum_list (map (satsOf fair) (filter (\<lambda>a. a \<notin> set (map fst w)) (map fst b))) = 0"
      by (intro sum_zero) auto
    ultimately show ?thesis using al(2) by (simp add: consideredOf_def)
  qed
qed

lemma minerRows_ok:
  fixes lc :: "string \<Rightarrow> string \<Rightarrow> int" and addressType :: "string \<Rightarrow> AddressType option"
  assumes sane: "sane_input input" and some: "collectWork (addressWork input) \<noteq> []"
  defines "rows \<equiv> minerRows addressType lc input"
  shows "table_ok rows" "outputs_only rows" "paid rows \<le> rewardSats input"
    "(\<exists>r \<in> set rows. ca_includedInCoinbase r \<and> 0 < ca_creditedDifficulty r) \<Longrightarrow> paid rows = rewardSats input"
    "sum_list (map ca_rawFairSats rows) = rewardSats input"
    "of_int (reservedWeight addressType input) \<le> effectiveBudgetOf input \<Longrightarrow>
       of_int (reservedWeight addressType input
         + sum_list (map (\<lambda>r. outputWeightForAddress addressType (ca_address r)) (filter ca_includedInCoinbase rows)))
       \<le> effectiveBudgetOf input"
    "map (\<lambda>r. (ca_address r, ca_balanceBeforeSats r)) rows
       = map (\<lambda>a. (a, satsOf (collectBalances (balances input)) a))
           (consideredOf (collectWork (addressWork input)) (collectBalances (balances input)))"
proof -
  let ?w = "collectWork (addressWork input)" and ?b = "collectBalances (balances input)"
  let ?V = "coinbaseSats input" and ?a = "rewardSats input"
  let ?T = "fsum (map (fst \<circ> snd) ?w)" and ?minOut = "max DUST_LIMIT_SATS \<lfloor>in_minOutputSats input\<rfloor>"
  let ?fair = "allocateIntegerSats lc (map (\<lambda>(a, d, _). \<lparr>item = a, weight = d\<rparr>) ?w) ?a ?T"
  let ?t0 = "map (computeRow ?w ?b ?fair ?T) (consideredOf ?w ?b)"
  let ?t1 = "allocatePayoutTargets lc ?t0 ?a ?T"
  let ?t2 = "includeOutputs addressType lc ?minOut (effectiveBudgetOf input) (reservedWeight addressType input) ?t1"
  have rows: "rows = redistributeUnfitMinerPayouts lc ?t2 ?a"
    unfolding rows_def minerRows_def Let_def rewardSats_def coinbaseSats_def effectiveBudgetOf_def
      reservedWeight_def feeAddressOf_def consideredOf_def by (rule refl)
  note w = collectWork_ok [of "addressWork input"] and b = collectBalances_ok [of "balances input"]
  have a: "0 \<le> ?a" "?a \<le> ?V" using feeSats_range [OF sane] by (simp_all add: rewardSats_def)
  have sp: "splittable ?a n" if "n \<le> length (addressWork input) + length (balances input)" for n
    using sane a that unfolding sane_input_def by (auto intro: splittable_mono)
  have len: "length ?t0 \<le> length (addressWork input) + length (balances input)"
    using length_consideredOf [of ?w ?b] w(2) b(2) by simp
  have t0: "table_ok ?t0" by (rule initial_table_ok [OF w(1) b(1)])
  have pos: "list_all (\<lambda>w. 0 \<le> w) (map (fst \<circ> snd) ?w)"
    using w(1) by (auto simp: work_ok_def list_all_iff less_imp_le)
  have T: "sumsTo ?T (map ca_creditedDifficulty (filter (\<lambda>r. 0 < ca_creditedDifficulty r) ?t0))"
    unfolding active_rows [OF w(1)] by (rule sumsTo_fsum [OF pos])
  have z: "\<forall>r \<in> set ?t0. ca_payoutSats r = 0" by simp
  from allocatePayoutTargets_ok [OF t0 z a(1) sp [OF len] T, of lc]
  have t1: "table_ok ?t1" "paid ?t1 \<le> ?a" "map fixed ?t1 = map fixed ?t0"
    "map ca_includedInCoinbase ?t1 = map ca_includedInCoinbase ?t0" by blast+
  have "set (map ca_includedInCoinbase ?t1) \<subseteq> {False}" unfolding t1(4) by auto
  then have no: "\<forall>r \<in> set ?t1. \<not> ca_includedInCoinbase r" by auto
  note t2 = includeOutputs_ok [OF t1(1) no, of addressType lc ?minOut "effectiveBudgetOf input"
      "reservedWeight addressType input"]
  have le2: "paid ?t2 \<le> ?a" using t2(4) t1(2) by simp
  have "length ?t2 = length ?t0" using t2(2) t1(3) by (metis length_map)
  then have sp2: "splittable ?a (length ?t2)" using sp [OF len] by simp
  note t3 = redistribute_ok [OF t2(1,3) le2 sp2 a(1), of lc, folded rows]
  from t3 show "table_ok rows" "outputs_only rows" "paid rows \<le> ?a" by blast+
  have f3: "map fixed rows = map fixed ?t0" using t3 t2(2) t1(3) by simp
  have inc: "map ca_includedInCoinbase rows = map ca_includedInCoinbase ?t2" using t3 by blast
  have f32: "map fixed rows = map fixed ?t2" using t3 by blast
  note sel = same_outputs [OF f32 inc]
  show "paid rows = ?a" if "\<exists>r \<in> set rows. ca_includedInCoinbase r \<and> 0 < ca_creditedDifficulty r"
    using that t3 unfolding some_output sel by blast
  have "map (\<lambda>(_, _, _, _, raw, _, _). raw) (map fixed rows) = map (\<lambda>(_, _, _, _, raw, _, _). raw) (map fixed ?t0)"
    unfolding f3 by (rule refl)
  then have "map ca_rawFairSats rows = map ca_rawFairSats ?t0" by (simp add: fixed_def comp_def)
  then have "sum_list (map ca_rawFairSats rows) = sum_list (map (satsOf ?fair) (consideredOf ?w ?b))"
    by (simp add: comp_def)
  also have "\<dots> = ?a" using w(2) by (intro raw_sum [OF w(1) some a(1)] sp) simp
  finally show "sum_list (map ca_rawFairSats rows) = ?a" .
  have "map (\<lambda>(a, _, _, _, _, b, _). (a, b)) (map fixed rows) = map (\<lambda>(a, _, _, _, _, b, _). (a, b)) (map fixed ?t0)"
    unfolding f3 by (rule refl)
  then show "map (\<lambda>r. (ca_address r, ca_balanceBeforeSats r)) rows = map (\<lambda>a. (a, satsOf ?b a)) (consideredOf ?w ?b)"
    by (simp add: fixed_def comp_def)
  assume room: "of_int (reservedWeight addressType input) \<le> effectiveBudgetOf input"
  show "of_int (reservedWeight addressType input
         + sum_list (map (\<lambda>r. outputWeightForAddress addressType (ca_address r)) (filter ca_includedInCoinbase rows)))
       \<le> effectiveBudgetOf input"
    using includeOutputs_weight [OF t1(1) no room, where lc = lc and minOut = ?minOut] unfolding output_weights sel .
qed

section \<open>The entries\<close>

lemma enumerate_map:
  assumes "\<And>i e. f (e\<lparr>pde_rank := i\<rparr>) = f e"
  shows "map f (map (\<lambda>(i, e). e\<lparr>pde_rank := i + 1\<rparr>) (enumerate n es)) = map f es"
  by (induction es arbitrary: n) (simp_all add: assms)

lemma enumerate_ex:
  "e \<in> set (map (\<lambda>(i, e). e\<lparr>pde_rank := i + 1\<rparr>) (enumerate n es)) \<Longrightarrow> \<exists>e1 \<in> set es. \<exists>i. e = e1\<lparr>pde_rank := i\<rparr>"
proof (induction es arbitrary: n)
  case (Cons x es)
  from Cons.prems have "e = x\<lparr>pde_rank := n + 1\<rparr>
    \<or> e \<in> set (map (\<lambda>(i, e). e\<lparr>pde_rank := i + 1\<rparr>) (enumerate (Suc n) es))"
    by (simp only: enumerate_simps list.map list.set insert_iff prod.case)
  then show ?case
  proof
    assume "e \<in> set (map (\<lambda>(i, e). e\<lparr>pde_rank := i + 1\<rparr>) (enumerate (Suc n) es))"
    from Cons.IH [OF this] show ?thesis by auto
  qed auto
qed simp

lemma enumerate_sum:
  assumes "\<And>i e. f (e\<lparr>pde_rank := i\<rparr>) = (f e :: int)" "\<And>i e. P (e\<lparr>pde_rank := i\<rparr>) = P e"
  shows "sum_list (map f (filter P (map (\<lambda>(i, e). e\<lparr>pde_rank := i + 1\<rparr>) (enumerate n es))))
     = sum_list (map f (filter P es))"
  by (induction es arbitrary: n) (simp_all add: assms)

text \<open>The accounting identity of an entry: what is owed afterwards.\<close>

definition entry_ok :: "PayoutDistributionEntry \<Rightarrow> bool" where
  "entry_ok e \<longleftrightarrow> 0 \<le> pde_payoutSats e
     \<and> pde_balanceAfterSats e = pde_balanceBeforeSats e + pde_grossPayoutSats e - pde_payoutSats e"

definition ledger_change :: "PayoutDistributionEntry list \<Rightarrow> int" where
  "ledger_change es = sum_list (map (\<lambda>e. pde_balanceAfterSats e - pde_balanceBeforeSats e) es)"

lemma addToFirst_spec:
  assumes "\<exists>e \<in> set es. pde_address e = pde_address fee \<and> pde_includedInCoinbase e"
  shows "sum_list (map pde_payoutSats (filter pde_includedInCoinbase (addToFirst fee es)))
      = sum_list (map pde_payoutSats (filter pde_includedInCoinbase es)) + pde_payoutSats fee"
    "map (\<lambda>e. (pde_address e, pde_includedInCoinbase e, pde_balanceBeforeSats e, pde_balanceAfterSats e))
       (addToFirst fee es)
     = map (\<lambda>e. (pde_address e, pde_includedInCoinbase e, pde_balanceBeforeSats e, pde_balanceAfterSats e)) es"
  using assms by (induction es) auto

lemma addToFirst_ok:
  "list_all entry_ok es \<Longrightarrow> 0 \<le> pde_payoutSats fee \<Longrightarrow> pde_grossPayoutSats fee = pde_payoutSats fee
     \<Longrightarrow> list_all entry_ok (addToFirst fee es)"
  by (induction es) (auto simp: entry_ok_def)

lemma feeEntry_sel [simp]:
  "pde_payoutSats (feeEntryFor a n) = n" "pde_grossPayoutSats (feeEntryFor a n) = n"
  "pde_address (feeEntryFor a n) = a" "pde_includedInCoinbase (feeEntryFor a n) = True"
  "pde_balanceBeforeSats (feeEntryFor a n) = 0" "pde_balanceAfterSats (feeEntryFor a n) = 0"
  "pde_creditedDifficulty (feeEntryFor a n) = 0"
  by (simp_all add: feeEntryFor_def)

lemma mergeFee_spec:
  assumes "list_all entry_ok es" "0 \<le> n"
  shows "sum_list (map pde_payoutSats (filter pde_includedInCoinbase (mergeFeeEntry (feeEntryFor a n) es)))
      = sum_list (map pde_payoutSats (filter pde_includedInCoinbase es)) + n"
    "list_all entry_ok (mergeFeeEntry (feeEntryFor a n) es)"
    "ledger_change (mergeFeeEntry (feeEntryFor a n) es) = ledger_change es"
proof -
  let ?fee = "feeEntryFor a n"
  have ok: "entry_ok ?fee" using assms(2) by (simp add: entry_ok_def)
  show "list_all entry_ok (mergeFeeEntry ?fee es)"
    using assms ok addToFirst_ok [of es ?fee] by (simp add: mergeFeeEntry_def)
  show "sum_list (map pde_payoutSats (filter pde_includedInCoinbase (mergeFeeEntry ?fee es)))
      = sum_list (map pde_payoutSats (filter pde_includedInCoinbase es)) + n"
    using addToFirst_spec(1) [of es ?fee] by (simp add: mergeFeeEntry_def)
  have led: "ledger_change xs = sum_list (map (\<lambda>(_, _, b, c). c - b)
      (map (\<lambda>e. (pde_address e, pde_includedInCoinbase e, pde_balanceBeforeSats e, pde_balanceAfterSats e)) xs))"
    for xs by (simp add: ledger_change_def comp_def)
  show "ledger_change (mergeFeeEntry ?fee es) = ledger_change es"
  proof (cases "\<exists>e \<in> set es. pde_address e = pde_address ?fee \<and> pde_includedInCoinbase e")
    case True
    then have "mergeFeeEntry ?fee es = addToFirst ?fee es" by (simp only: mergeFeeEntry_def if_True)
    then show ?thesis by (simp only: led addToFirst_spec(2) [OF True])
  next
    case False
    then have "mergeFeeEntry ?fee es = ?fee # es" by (simp only: mergeFeeEntry_def if_False)
    then show ?thesis by (simp add: ledger_change_def)
  qed
qed

definition minerEntriesOf :: "(string \<Rightarrow> string \<Rightarrow> int) \<Rightarrow> ComputedAddress list \<Rightarrow> PayoutDistributionEntry list" where
  "minerEntriesOf lc rows = map entryOfRow (js_sort (entryBefore lc)
     (filter (\<lambda>r. ca_includedInCoinbase r \<or> ca_balanceBeforeSats r \<noteq> ca_balanceAfterSats r
        \<or> ca_balanceAfterSats r \<noteq> 0) rows))"

lemma sum_js_sort_filter:
  fixes f :: "'a \<Rightarrow> int"
  shows "sum_list (map f (filter P (js_sort b xs))) = sum_list (map f (filter P xs))"
  by (metis mset_filter mset_js_sort mset_map sum_mset_sum_list)

lemma filter_entryOfRow:
  "filter pde_includedInCoinbase (map entryOfRow rows) = map entryOfRow (filter ca_includedInCoinbase rows)"
  by (simp add: filter_map comp_def entryOfRow_def)

lemma minerEntries_spec:
  assumes "table_ok rows" "outputs_only rows"
  shows "list_all entry_ok (minerEntriesOf lc rows)"
    "sum_list (map pde_payoutSats (filter pde_includedInCoinbase (minerEntriesOf lc rows))) = paid rows"
    "ledger_change (minerEntriesOf lc rows) = sum_list (map ca_rawFairSats rows) - paid rows"
proof -
  let ?keep = "\<lambda>r. ca_includedInCoinbase r \<or> ca_balanceBeforeSats r \<noteq> ca_balanceAfterSats r
        \<or> ca_balanceAfterSats r \<noteq> 0"
  have ok: "row_ok r" if "r \<in> set rows" for r using assms(1) that by (simp add: table_ok_def list_all_iff)
  show "list_all entry_ok (minerEntriesOf lc rows)"
    using ok by (auto simp: minerEntriesOf_def list_all_iff entry_ok_def entryOfRow_def row_ok_def)
  have "sum_list (map pde_payoutSats (filter pde_includedInCoinbase (minerEntriesOf lc rows)))
      = sum_list (map ca_payoutSats (filter ca_includedInCoinbase (filter ?keep rows)))"
    unfolding minerEntriesOf_def filter_entryOfRow map_map
    by (simp add: comp_def entryOfRow_def sum_js_sort_filter)
  also have "filter ca_includedInCoinbase (filter ?keep rows) = filter ca_includedInCoinbase rows"
    by (induction rows) auto
  finally show "sum_list (map pde_payoutSats (filter pde_includedInCoinbase (minerEntriesOf lc rows))) = paid rows"
    by (simp add: paid_outputs [OF assms(2)])
  have "ledger_change (minerEntriesOf lc rows)
      = sum_list (map (\<lambda>r. ca_balanceAfterSats r - ca_balanceBeforeSats r) (filter ?keep rows))"
    unfolding minerEntriesOf_def ledger_change_def map_map comp_def
    using sum_list_js_sort [of "\<lambda>r. ca_balanceAfterSats r - ca_balanceBeforeSats r"]
    by (simp add: entryOfRow_def)
  also have "\<dots> = sum_list (map (\<lambda>r. ca_balanceAfterSats r - ca_balanceBeforeSats r) rows)"
    by (induction rows) auto
  also have "\<dots> = sum_list (map (\<lambda>r. ca_rawFairSats r - ca_payoutSats r) rows)"
    using ok by (intro arg_cong [of _ _ sum_list] map_cong [OF refl]) (simp add: row_ok_def)
  finally show "ledger_change (minerEntriesOf lc rows) = sum_list (map ca_rawFairSats rows) - paid rows"
    by (simp add: paid_def sum_list_subtractf)
qed

lemma collectWork_total: "0 < fsum (map (fst \<circ> snd) (collectWork ws)) \<longleftrightarrow> collectWork ws \<noteq> []"
proof -
  have pos: "list_all (\<lambda>w. 0 < w) (map (fst \<circ> snd) (collectWork ws))"
    using collectWork_ok(1) [of ws] by (simp add: work_ok_def list_all_iff)
  then have "sumsTo (fsum (map (fst \<circ> snd) (collectWork ws))) (map (fst \<circ> snd) (collectWork ws))"
    by (intro sumsTo_fsum) (auto simp: list_all_iff less_imp_le)
  from sumsTo_pos [OF pos this] show ?thesis by simp
qed

text \<open>The result, once there is something to distribute.\<close>

definition mergedEntriesOf ::
    "(string \<Rightarrow> AddressType option) \<Rightarrow> (string \<Rightarrow> string \<Rightarrow> int) \<Rightarrow> PayoutDistributionInput
     \<Rightarrow> PayoutDistributionEntry list" where
  "mergedEntriesOf addressType lc input =
     (let es = minerEntriesOf lc (minerRows addressType lc input)
      in if feeSatsFor input > 0 then mergeFeeEntry (feeEntryFor (feeAddressOf input) (feeSatsFor input)) es
         else es)"

definition has_payout :: "PayoutDistributionInput \<Rightarrow> bool" where
  "has_payout input \<longleftrightarrow> 0 < coinbaseSats input \<and> collectWork (addressWork input) \<noteq> []"

lemma build_eq:
  assumes "has_payout input"
  shows "entries (buildPayoutDistribution addressType lc input)
      = map (\<lambda>(i, e). e\<lparr>pde_rank := i + 1\<rparr>) (enumerate 0 (mergedEntriesOf addressType lc input))"
    "payoutOutputs (buildPayoutDistribution addressType lc input)
      = filter pde_includedInCoinbase (entries (buildPayoutDistribution addressType lc input))"
    "distributedSats (buildPayoutDistribution addressType lc input)
      = sum_list (map pde_payoutSats (payoutOutputs (buildPayoutDistribution addressType lc input)))"
    "unallocatedRemainderSats (buildPayoutDistribution addressType lc input)
      = coinbaseSats input - distributedSats (buildPayoutDistribution addressType lc input)"
  using assms collectWork_total [of "addressWork input"]
  unfolding has_payout_def buildPayoutDistribution_def Let_def coinbaseSats_def [symmetric]
    feeAddressOf_def [symmetric] minerEntriesOf_def [symmetric] mergedEntriesOf_def
  by simp_all

lemma build_empty:
  assumes "\<not> has_payout input"
  shows "buildPayoutDistribution addressType lc input =
     \<lparr>entries = [], payoutOutputs = [], consideredAddressCount = 0, distributedSats = 0,
      unallocatedRemainderSats = coinbaseSats input, pdr_feeSats = feeSatsFor input\<rparr>"
  using assms collectWork_total [of "addressWork input"]
  unfolding has_payout_def buildPayoutDistribution_def Let_def coinbaseSats_def [symmetric]
  by (auto simp: not_less)

lemma coinbaseSats_nonneg: "0 \<le> coinbaseSats input"
  by (simp add: coinbaseSats_def)

lemma merged_spec:
  fixes lc :: "string \<Rightarrow> string \<Rightarrow> int" and addressType :: "string \<Rightarrow> AddressType option"
  assumes "sane_input input" "has_payout input"
  defines "es \<equiv> mergedEntriesOf addressType lc input"
  shows "list_all entry_ok es"
    "sum_list (map pde_payoutSats (filter pde_includedInCoinbase es))
       = paid (minerRows addressType lc input) + feeSatsFor input"
    "ledger_change es = rewardSats input - paid (minerRows addressType lc input)"
proof -
  have some: "collectWork (addressWork input) \<noteq> []" using assms(2) by (simp add: has_payout_def)
  note r = minerRows_ok [OF assms(1) some, of addressType lc]
  note m = minerEntries_spec [OF r(1,2), of lc]
  have fee: "0 \<le> feeSatsFor input" by (rule feeSats_range [OF assms(1)])
  note f = mergeFee_spec [OF m(1) fee, of "feeAddressOf input"]
  show "list_all entry_ok es"
    "sum_list (map pde_payoutSats (filter pde_includedInCoinbase es))
       = paid (minerRows addressType lc input) + feeSatsFor input"
    "ledger_change es = rewardSats input - paid (minerRows addressType lc input)"
    using m f r(5) fee by (auto simp: es_def mergedEntriesOf_def Let_def)
qed

lemma ranked_spec:
  defines "rk \<equiv> \<lambda>es. map (\<lambda>(i, e). e\<lparr>pde_rank := i + 1\<rparr>) (enumerate 0 es)"
  shows "list_all entry_ok (rk es) = list_all entry_ok es"
    "ledger_change (rk es) = ledger_change es"
    "sum_list (map pde_payoutSats (filter pde_includedInCoinbase (rk es)))
       = sum_list (map pde_payoutSats (filter pde_includedInCoinbase es))"
proof -
  have "map entry_ok (rk es) = map entry_ok es"
    unfolding rk_def by (rule enumerate_map) (simp add: entry_ok_def)
  then show "list_all entry_ok (rk es) = list_all entry_ok es"
  proof -
    assume eq: "map entry_ok (rk es) = map entry_ok es"
    have "list_all entry_ok xs = list_all (\<lambda>b. b) (map entry_ok xs)" for xs by (simp add: list_all_iff)
    then show ?thesis using eq by metis
  qed
  show "ledger_change (rk es) = ledger_change es"
    unfolding rk_def ledger_change_def by (subst enumerate_map) simp_all
  show "sum_list (map pde_payoutSats (filter pde_includedInCoinbase (rk es)))
       = sum_list (map pde_payoutSats (filter pde_includedInCoinbase es))"
    unfolding rk_def by (rule enumerate_sum) simp_all
qed

section \<open>Properties\<close>

text \<open>
  C3. A coinbase is never overspent, and not one satoshi is lost: for every window of shares and
  balances, every fee of at most 100 percent and every address parser, what the outputs pay lies
  between zero and the value of the coinbase, no entry pays a negative amount, every entry's new
  balance is its old balance plus its share less its payout, and what is not paid out is exactly what
  the balances of all entries together grow by.
\<close>

theorem payout_conserves_satoshis:
  assumes "sane_input input"
  shows "let res = buildPayoutDistribution addressType lc input in
     0 \<le> distributedSats res \<and> distributedSats res \<le> coinbaseSats input
     \<and> unallocatedRemainderSats res = coinbaseSats input - distributedSats res
     \<and> distributedSats res = sum_list (map pde_payoutSats (payoutOutputs res))
     \<and> list_all entry_ok (entries res)
     \<and> (has_payout input \<longrightarrow> ledger_change (entries res) = unallocatedRemainderSats res)"
proof (cases "has_payout input")
  case True
  then have some: "collectWork (addressWork input) \<noteq> []" by (simp add: has_payout_def)
  note r = minerRows_ok [OF assms some, of addressType lc]
  note m = merged_spec [OF assms True, of addressType lc]
  note b = build_eq [OF True, of addressType lc]
  have d: "distributedSats (buildPayoutDistribution addressType lc input)
      = paid (minerRows addressType lc input) + feeSatsFor input"
    unfolding b(3) unfolding b(2) unfolding b(1) ranked_spec(3) m(2) ..
  have "0 \<le> paid (minerRows addressType lc input)"
    unfolding paid_def using r(1)
    by (intro sum_list_nonneg) (auto simp: table_ok_def list_all_iff row_ok_def)
  then show ?thesis
    using r(3) d b feeSats_range [OF assms] m ranked_spec [of "mergedEntriesOf addressType lc input"]
    by (simp add: Let_def rewardSats_def)
next
  case False
  then show ?thesis
    using coinbaseSats_nonneg by (simp add: build_empty Let_def)
qed

definition sample_input :: PayoutDistributionInput where
  "sample_input = \<lparr>addressWork =
       [\<lparr>paw_address = ''alice'', paw_creditedDifficulty = Num 1000, paw_acceptedShareCount = 10\<rparr>,
        \<lparr>paw_address = ''bob'', paw_creditedDifficulty = Num 2000, paw_acceptedShareCount = 4\<rparr>],
     balances = [\<lparr>pbi_address = ''carol'', pbi_balanceSats = Num 700\<rparr>],
     in_coinbaseValueSats = 312500000, in_feeAddress = Some ''fee'', in_feePercent = Num 2,
     in_minOutputSats = 1000, in_coinbaseWeightBudget = 50000\<rparr>"

lemma sample_input_ok: "sane_input sample_input" "coinbaseSats sample_input = 312500000"
  by (simp_all add: sane_input_def sample_input_def coinbaseSats_def splittable_def)

lemma sample_has_payout: "has_payout sample_input"
  by (simp add: has_payout_def sample_input_ok) (simp add: sample_input_def collectWork_def)

lemma payout_conserves_satoshis_witness:
  "let res = buildPayoutDistribution (\<lambda>_. Some p2wpkh) (\<lambda>_ _. 0) sample_input in
     0 \<le> distributedSats res \<and> distributedSats res \<le> 312500000 \<and> list_all entry_ok (entries res)
     \<and> ledger_change (entries res) = 312500000 - distributedSats res"
  using payout_conserves_satoshis [OF sample_input_ok(1), of "\<lambda>_. Some p2wpkh" "\<lambda>_ _. 0"]
    sample_has_payout
  by (simp add: Let_def sample_input_ok(2))

lemma mergeFee_keeps:
  "e \<in> set (addToFirst fee es) \<Longrightarrow> \<exists>e' \<in> set es. pde_creditedDifficulty e' = pde_creditedDifficulty e
     \<and> pde_includedInCoinbase e' = pde_includedInCoinbase e"
  by (induction es) (auto split: if_splits)

text \<open>
  C22. Nothing is left unpaid while someone who worked in the window is paid: if an output belongs to an
  address with credited difficulty, the outputs together pay the whole coinbase.
\<close>

theorem payout_complete:
  assumes "sane_input input"
    and "e \<in> set (payoutOutputs (buildPayoutDistribution addressType lc input))"
    and "0 < pde_creditedDifficulty e"
  shows "distributedSats (buildPayoutDistribution addressType lc input) = coinbaseSats input
     \<and> unallocatedRemainderSats (buildPayoutDistribution addressType lc input) = 0"
proof (cases "has_payout input")
  case True
  then have some: "collectWork (addressWork input) \<noteq> []" by (simp add: has_payout_def)
  let ?rows = "minerRows addressType lc input"
  note r = minerRows_ok [OF assms(1) some, of addressType lc]
  note m = merged_spec [OF assms(1) True, of addressType lc]
  note b = build_eq [OF True, of addressType lc]
  have e: "e \<in> set (entries (buildPayoutDistribution addressType lc input))" "pde_includedInCoinbase e"
    using assms(2) by (simp_all add: b(2))
  from enumerate_ex [OF e(1) [unfolded b(1)]] e(2) assms(3) obtain e1 where
    "e1 \<in> set (mergedEntriesOf addressType lc input)" "pde_includedInCoinbase e1" "0 < pde_creditedDifficulty e1"
    by auto
  then have "\<exists>e2 \<in> set (minerEntriesOf lc ?rows). pde_includedInCoinbase e2 \<and> 0 < pde_creditedDifficulty e2"
    using mergeFee_keeps [of e1 _ "minerEntriesOf lc ?rows"]
    by (auto simp: mergedEntriesOf_def Let_def mergeFeeEntry_def split: if_splits) metis+
  then have "\<exists>r \<in> set ?rows. ca_includedInCoinbase r \<and> 0 < ca_creditedDifficulty r"
    by (auto simp: minerEntriesOf_def entryOfRow_def)
  from r(4) [OF this] have "distributedSats (buildPayoutDistribution addressType lc input) = coinbaseSats input"
    unfolding b(3) unfolding b(2) unfolding b(1) ranked_spec(3) m(2) by (simp add: rewardSats_def)
  then show ?thesis by (simp add: b(4))
next
  case False
  with assms(2) show ?thesis by (simp add: build_empty)
qed

lemma fl_numeral: "numeral k \<le> (2 :: int) ^ 53 \<Longrightarrow> fl (numeral k) = numeral k"
  using fl_int [of "numeral k"] by simp

definition even_input :: PayoutDistributionInput where
  "even_input = \<lparr>addressWork =
       [\<lparr>paw_address = ''alice'', paw_creditedDifficulty = Num 1000, paw_acceptedShareCount = 10\<rparr>,
        \<lparr>paw_address = ''bob'', paw_creditedDifficulty = Num 1000, paw_acceptedShareCount = 4\<rparr>],
     balances = [], in_coinbaseValueSats = 300000000, in_feeAddress = None, in_feePercent = NaN,
     in_minOutputSats = 1000, in_coinbaseWeightBudget = 50000\<rparr>"

lemma even_fee: "feeSatsFor even_input = 0"
  by (simp add: feeSatsFor_def even_input_def DUST_LIMIT_SATS_def)

lemma even_work: "collectWork (addressWork even_input) = [(''alice'', 1000, 10), (''bob'', 1000, 4)]"
  by (simp add: collectWork_def even_input_def fl_numeral)

lemma even_total: "fsum [1000, 1000] = 2000"
  by (simp add: fsum_def fl_numeral)

lemma even_fair: "allocateIntegerSats (\<lambda>_ _. 0) [\<lparr>item = ''alice'', weight = 1000\<rparr>, \<lparr>item = ''bob'', weight = 1000\<rparr>]
     300000000 2000 = [(''alice'', 150000000), (''bob'', 150000000)]"
  by (simp add: allocateIntegerSats_def exactShare_def fl_numeral js_sort_def fractionBefore_def Let_def)

lemma even_sel: "in_coinbaseValueSats even_input = 300000000" "balances even_input = []"
  "in_minOutputSats even_input = 1000" "in_coinbaseWeightBudget even_input = 50000" "in_feeAddress even_input = None"
  by (simp_all add: even_input_def)

definition even_row :: "string \<Rightarrow> int \<Rightarrow> int \<Rightarrow> bool \<Rightarrow> ComputedAddress" where
  "even_row a n p inc = \<lparr>ca_address = a, ca_creditedDifficulty = 1000, ca_acceptedShareCount = n,
     ca_payoutWeight = fl (1 / 2), ca_rawFairSats = 150000000, ca_balanceBeforeSats = 0,
     ca_targetSats = 150000000, ca_payoutSats = p, ca_balanceAfterSats = 150000000 - p, ca_includedInCoinbase = inc\<rparr>"

lemma even_t1: "allocatePayoutTargets lc [even_row ''alice'' 10 0 False, even_row ''bob'' 4 0 False] 300000000 2000
   = [even_row ''alice'' 10 150000000 False, even_row ''bob'' 4 150000000 False]"
  by (simp add: allocatePayoutTargets_def even_row_def)

lemma even_t2: "includeOutputs (\<lambda>_. Some p2wpkh) (\<lambda>_ _. 0) 1000 49800 516
     [even_row ''alice'' 10 150000000 False, even_row ''bob'' 4 150000000 False]
   = [even_row ''alice'' 10 150000000 True, even_row ''bob'' 4 150000000 True]"
  by (simp add: includeOutputs_def even_row_def js_sort_def payoutBefore_def Let_def outputWeightForAddress_def)

lemma even_t3: "redistributeUnfitMinerPayouts lc
     [even_row ''alice'' 10 150000000 True, even_row ''bob'' 4 150000000 True] 300000000
   = [even_row ''alice'' 10 150000000 True, even_row ''bob'' 4 150000000 True]"
  by (simp add: redistributeUnfitMinerPayouts_def even_row_def)

lemma even_rows: "minerRows (\<lambda>_. Some p2wpkh) (\<lambda>_ _. 0) even_input
    = [even_row ''alice'' 10 150000000 True, even_row ''bob'' 4 150000000 True]"
proof -
  have r: "computeRow [(''alice'', 1000, 10), (''bob'', 1000, 4)] [] [(''alice'', 150000000), (''bob'', 150000000)] 2000 ''alice''
      = even_row ''alice'' 10 0 False"
    "computeRow [(''alice'', 1000, 10), (''bob'', 1000, 4)] [] [(''alice'', 150000000), (''bob'', 150000000)] 2000 ''bob''
      = even_row ''bob'' 4 0 False"
    by (simp_all add: computeRow_def even_row_def satsOf_def)
  have b: "fl (50000 - BUDGET_SAFETY_MARGIN_WEIGHT) = 49800"
    by (simp add: BUDGET_SAFETY_MARGIN_WEIGHT_def fl_numeral)
  show ?thesis
    unfolding minerRows_def even_fee even_work Let_def even_sel
    by (simp add: even_total even_fair collectBalances_def r b even_t1 even_t2 even_t3 DUST_LIMIT_SATS_def
      COINBASE_BASE_WEIGHT_def COINBASE_WITNESS_COMMITMENT_WEIGHT_def)
qed

lemma even_output:
  "\<exists>e \<in> set (payoutOutputs (buildPayoutDistribution (\<lambda>_. Some p2wpkh) (\<lambda>_ _. 0) even_input)).
     0 < pde_creditedDifficulty e"
proof -
  have hp: "has_payout even_input"
    by (simp add: has_payout_def coinbaseSats_def even_sel even_work)
  show ?thesis
    unfolding build_eq(2) [OF hp] unfolding build_eq(1) [OF hp]
    by (simp add: mergedEntriesOf_def minerEntriesOf_def even_fee even_rows)
      (simp add: even_row_def js_sort_def entryBefore_def payoutBefore_def entryOfRow_def)
qed

lemma payout_complete_witness:
  "distributedSats (buildPayoutDistribution (\<lambda>_. Some p2wpkh) (\<lambda>_ _. 0) even_input) = 300000000"
proof -
  have "sane_input even_input"
    by (simp add: sane_input_def splittable_def coinbaseSats_def even_sel) (simp add: even_input_def)
  with even_output obtain e where e: "e \<in> set (payoutOutputs (buildPayoutDistribution (\<lambda>_. Some p2wpkh) (\<lambda>_ _. 0) even_input))"
    "0 < pde_creditedDifficulty e" by blast
  from payout_complete [OF \<open>sane_input even_input\<close> e] show ?thesis
    by (simp add: coinbaseSats_def even_sel)
qed

lemma outputWeight_nonneg: "0 \<le> outputWeightForAddress addressType a"
  by (auto simp: outputWeightForAddress_def COINBASE_OUTPUT_WEIGHT_def split: option.splits
      elim!: OUTPUT_WEIGHT_BY_TYPE.elims)

definition outputsWeight :: "(string \<Rightarrow> AddressType option) \<Rightarrow> PayoutDistributionEntry list \<Rightarrow> int" where
  "outputsWeight addressType es = COINBASE_BASE_WEIGHT + COINBASE_WITNESS_COMMITMENT_WEIGHT
     + sum_list (map (\<lambda>e. outputWeightForAddress addressType (pde_address e)) es)"

lemma addToFirst_addresses:
  "map pde_address (filter pde_includedInCoinbase (addToFirst fee es)) = map pde_address (filter pde_includedInCoinbase es)"
  by (induction es) auto

lemma minerEntries_weight:
  fixes ow :: "string \<Rightarrow> int"
  shows "sum_list (map (\<lambda>e. ow (pde_address e)) (filter pde_includedInCoinbase (minerEntriesOf lc rows)))
     = sum_list (map (\<lambda>r. ow (ca_address r)) (filter ca_includedInCoinbase rows))"
proof -
  let ?keep = "\<lambda>r. ca_includedInCoinbase r \<or> ca_balanceBeforeSats r \<noteq> ca_balanceAfterSats r
        \<or> ca_balanceAfterSats r \<noteq> 0"
  have "sum_list (map (\<lambda>e. ow (pde_address e)) (filter pde_includedInCoinbase (minerEntriesOf lc rows)))
      = sum_list (map (\<lambda>r. ow (ca_address r)) (filter ca_includedInCoinbase (filter ?keep rows)))"
    unfolding minerEntriesOf_def filter_entryOfRow map_map
    using sum_js_sort_filter [of "\<lambda>r. ow (ca_address r)" ca_includedInCoinbase "entryBefore lc" "filter ?keep rows"]
    by (simp only: comp_def) (simp add: entryOfRow_def)
  also have "filter ca_includedInCoinbase (filter ?keep rows) = filter ca_includedInCoinbase rows"
    by (induction rows) auto
  finally show ?thesis .
qed

text \<open>
  C36. The outputs of a coinbase fit the weight a template grants it: when the fee output and the
  transaction around the outputs fit, so do all the outputs the distribution chooses, at the weight
  its table gives to each kind of address.
\<close>

theorem payout_weight_within_budget:
  assumes "sane_input input"
    and "of_int (reservedWeight addressType input) \<le> effectiveBudgetOf input"
  shows "of_int (outputsWeight addressType (payoutOutputs (buildPayoutDistribution addressType lc input)))
     \<le> effectiveBudgetOf input"
proof (cases "has_payout input")
  case True
  then have some: "collectWork (addressWork input) \<noteq> []" by (simp add: has_payout_def)
  let ?rows = "minerRows addressType lc input" and ?ow = "outputWeightForAddress addressType"
  let ?es = "minerEntriesOf lc ?rows"
  let ?fee = "feeEntryFor (feeAddressOf input) (feeSatsFor input)"
  let ?sum = "\<lambda>es. sum_list (map (\<lambda>e. ?ow (pde_address e)) (filter pde_includedInCoinbase es))"
  note r = minerRows_ok(6) [OF assms(1) some assms(2), of lc]
  note b = build_eq [OF True, of addressType lc]
  have add: "?sum (addToFirst ?fee es) = ?sum es" for es
    using arg_cong [OF addToFirst_addresses [of ?fee es], of "\<lambda>as. sum_list (map ?ow as)"]
    by (simp add: comp_def)
  have w: "sum_list (map (\<lambda>e. ?ow (pde_address e)) (payoutOutputs (buildPayoutDistribution addressType lc input)))
      = ?sum (mergedEntriesOf addressType lc input)"
    unfolding b(2) unfolding b(1) by (rule enumerate_sum) simp_all
  have "?sum (mergedEntriesOf addressType lc input)
      \<le> ?sum ?es + (if feeSatsFor input > 0 then ?ow (feeAddressOf input) else 0)"
    using outputWeight_nonneg [of addressType "feeAddressOf input"]
    by (simp add: mergedEntriesOf_def Let_def mergeFeeEntry_def add)
  then have "outputsWeight addressType (payoutOutputs (buildPayoutDistribution addressType lc input))
      \<le> reservedWeight addressType input + ?sum ?es"
    unfolding outputsWeight_def w reservedWeight_def by linarith
  then have "of_int (outputsWeight addressType (payoutOutputs (buildPayoutDistribution addressType lc input)))
      \<le> (of_int (reservedWeight addressType input + ?sum ?es) :: rat)" by (simp only: of_int_le_iff)
  also have "\<dots> \<le> effectiveBudgetOf input" using r unfolding minerEntries_weight .
  finally show ?thesis .
next
  case False
  have "COINBASE_BASE_WEIGHT + COINBASE_WITNESS_COMMITMENT_WEIGHT \<le> reservedWeight addressType input"
    using outputWeight_nonneg by (simp add: reservedWeight_def)
  then have "of_int (COINBASE_BASE_WEIGHT + COINBASE_WITNESS_COMMITMENT_WEIGHT)
      \<le> (of_int (reservedWeight addressType input) :: rat)" by (simp only: of_int_le_iff)
  with assms(2) False show ?thesis by (simp add: build_empty outputsWeight_def)
qed

lemma payout_weight_within_budget_witness:
  "of_int (outputsWeight (\<lambda>_. Some p2tr) (payoutOutputs (buildPayoutDistribution (\<lambda>_. Some p2tr) (\<lambda>_ _. 0) even_input)))
     \<le> (49800 :: rat)"
proof -
  have "sane_input even_input"
    by (simp add: sane_input_def splittable_def coinbaseSats_def even_sel) (simp add: even_input_def)
  moreover have "effectiveBudgetOf even_input = 49800"
    by (simp add: effectiveBudgetOf_def even_sel BUDGET_SAFETY_MARGIN_WEIGHT_def fl_numeral)
  moreover have "reservedWeight (\<lambda>_. Some p2tr) even_input = 516"
    by (simp add: reservedWeight_def even_fee COINBASE_BASE_WEIGHT_def COINBASE_WITNESS_COMMITMENT_WEIGHT_def)
  ultimately show ?thesis
    using payout_weight_within_budget [of even_input "\<lambda>_. Some p2tr" "\<lambda>_ _. 0"] by simp
qed

end
