(* ===== verification/DatumCodec.thy ===== *)
theory DatumCodec
  imports WireFields
begin

text \<open>
  \<open>src/models/datum/datum-codec.ts\<close>: the frames of the DATUM protocol with their masked headers, and the
  messages inside them. The mask of a header is a 32-bit key that is hashed forward after every frame of
  the encrypted channel.
\<close>

section \<open>Headers\<close>

definition DATUM_INITIAL_HEADER_KEY :: int where "DATUM_INITIAL_HEADER_KEY = 0xdc871829"
definition DATUM_MAX_PAYLOAD_SIZE :: int where "DATUM_MAX_PAYLOAD_SIZE = 4194304"
definition DATUM_EXTRANONCE_SIZE :: int where "DATUM_EXTRANONCE_SIZE = 12"

record DatumHeader =
  cmdLen :: int
  dh_reserved :: int
  isSigned :: bool
  isEncryptedPubkey :: bool
  isEncryptedChannel :: bool
  protoCmd :: int

record DatumFrame =
  df_header :: DatumHeader
  df_payload :: bytes

definition flag :: "bool \<Rightarrow> int" where
  "flag b = (if b then 1 else 0)"

definition headerBits :: "DatumHeader \<Rightarrow> int" where
  "headerBits header =
     (let raw = js_and (cmdLen header) 0x3fffff;
          raw = js_or raw (js_shl (js_and (dh_reserved header) 0x03) 22);
          raw = js_or raw (js_shl (flag (isSigned header)) 24);
          raw = js_or raw (js_shl (flag (isEncryptedPubkey header)) 25);
          raw = js_or raw (js_shl (flag (isEncryptedChannel header)) 26);
          raw = js_or raw (js_shl (js_and (protoCmd header) 0x1f) 27)
      in raw)"

definition encodeDatumHeader :: "DatumHeader \<Rightarrow> int \<Rightarrow> bytes result" where
  "encodeDatumHeader header xorKey =
     (if cmdLen header < 0 \<or> cmdLen header > DATUM_MAX_PAYLOAD_SIZE - 1 then Inl RangeError
      else Inr (le_bytes 4 (nat (js_ushr (js_xor (headerBits header) xorKey) 0))))"

definition decodeDatumHeader :: "bytes \<Rightarrow> int \<Rightarrow> DatumHeader result" where
  "decodeDatumHeader input xorKey =
     (if length input < 4 then Inl RangeError
      else (let raw = js_ushr (js_xor (int (le_nat (take 4 input))) xorKey) 0
            in Inr \<lparr>cmdLen = js_and raw 0x3fffff, dh_reserved = js_and (js_ushr raw 22) 0x03,
                 isSigned = (js_and (js_ushr raw 24) 0x01 \<noteq> 0),
                 isEncryptedPubkey = (js_and (js_ushr raw 25) 0x01 \<noteq> 0),
                 isEncryptedChannel = (js_and (js_ushr raw 26) 0x01 \<noteq> 0),
                 protoCmd = js_and (js_ushr raw 27) 0x1f\<rparr>))"

definition datumHeaderXorFeedback :: "int \<Rightarrow> int" where
  "datumHeaderXorFeedback input =
     (let h = js_ushr 0xb10cfeed 0;
          k = js_ushr input 0;
          k = js_ushr (js_imul k 0xcc9e2d51) 0;
          k = js_ushr (js_or (js_ushr (js_shl k 15) 0) (js_ushr k 17)) 0;
          k = js_ushr (js_imul k 0x1b873593) 0;
          h = js_ushr (js_xor h k) 0;
          h = js_ushr (js_or (js_ushr (js_shl h 13) 0) (js_ushr h 19)) 0;
          h = js_ushr (js_imul h 5 + 0xe6546b64) 0;
          h = js_ushr (js_xor h 4) 0;
          h = js_ushr (js_xor h (js_ushr h 16)) 0;
          h = js_ushr (js_imul h 0x85ebca6b) 0;
          h = js_ushr (js_xor h (js_ushr h 13)) 0;
          h = js_ushr (js_imul h 0xc2b2ae35) 0;
          h = js_ushr (js_xor h (js_ushr h 16)) 0
      in js_ushr h 0)"

section \<open>Frames\<close>

record DatumFrameReader =
  dr_buffer :: bytes
  headerXorKey :: int

definition newDatumFrameReader :: "int \<Rightarrow> DatumFrameReader" where
  "newDatumFrameReader key = \<lparr>dr_buffer = [], headerXorKey = key\<rparr>"

definition setHeaderXorKey :: "int \<Rightarrow> DatumFrameReader \<Rightarrow> DatumFrameReader" where
  "setHeaderXorKey key r = r\<lparr>headerXorKey := js_ushr key 0\<rparr>"

text \<open>One round of the loop of \<open>feed\<close>: \<open>None\<close> when it breaks.\<close>

definition feedFrame :: "DatumFrameReader \<Rightarrow> (DatumFrame \<times> DatumFrameReader) option result" where
  "feedFrame r =
     rbind (decodeDatumHeader (take 4 (dr_buffer r)) (headerXorKey r)) (\<lambda>header.
       if cmdLen header > DATUM_MAX_PAYLOAD_SIZE then Inl RangeError
       else if int (length (dr_buffer r)) < 4 + cmdLen header then Inr None
       else Inr (Some
         (\<lparr>df_header = header, df_payload = take (nat (cmdLen header)) (drop 4 (dr_buffer r))\<rparr>,
          r\<lparr>dr_buffer := drop (4 + nat (cmdLen header)) (dr_buffer r),
            headerXorKey := (if isEncryptedChannel header then datumHeaderXorFeedback (headerXorKey r)
              else headerXorKey r)\<rparr>)))"

text \<open>The frames that were complete are lost with an exception; the state of the reader is not.\<close>

function datumFeedLoop :: "DatumFrameReader \<Rightarrow> DatumFrame list \<Rightarrow> DatumFrame list result \<times> DatumFrameReader" where
  "datumFeedLoop r frames =
     (if length (dr_buffer r) < 4 then (Inr frames, r)
      else (case feedFrame r of
          Inl e \<Rightarrow> (Inl e, r)
        | Inr None \<Rightarrow> (Inr frames, r)
        | Inr (Some (f, r')) \<Rightarrow> datumFeedLoop r' (frames @ [f])))"
  by pat_completeness auto
termination
  by (relation "measure (\<lambda>(r, _). length (dr_buffer r))")
     (auto simp: feedFrame_def rbind_Inr_iff split: if_splits)

definition datumFeed :: "bytes \<Rightarrow> DatumFrameReader \<Rightarrow> DatumFrame list result \<times> DatumFrameReader" where
  "datumFeed data r = datumFeedLoop (r\<lparr>dr_buffer := dr_buffer r @ data\<rparr>) []"

definition encodeDatumFrame :: "DatumFrame \<Rightarrow> int \<Rightarrow> bytes result" where
  "encodeDatumFrame frame xorKey =
     rmap (\<lambda>h. h @ df_payload frame)
       (encodeDatumHeader ((df_header frame)\<lparr>cmdLen := int (length (df_payload frame))\<rparr>) xorKey)"


section \<open>The mask\<close>

text \<open>
  MurmurHash3 (\<open>x86_32\<close>) over whole 32-bit blocks, as its author publishes it: each block is mixed into
  the state, and the state is finalized with the length in bytes.
\<close>

definition murmur_block :: "32 word \<Rightarrow> 32 word \<Rightarrow> 32 word" where
  "murmur_block h k =
     (let k = word_rotl 15 (k * 0xcc9e2d51) * 0x1b873593
      in word_rotl 13 (h XOR k) * 5 + 0xe6546b64)"

definition murmur_fmix :: "32 word \<Rightarrow> 32 word" where
  "murmur_fmix h =
     (let h = (h XOR drop_bit 16 h) * 0x85ebca6b;
          h = (h XOR drop_bit 13 h) * 0xc2b2ae35
      in h XOR drop_bit 16 h)"

definition murmur3_x86_32 :: "32 word \<Rightarrow> 32 word list \<Rightarrow> 32 word" where
  "murmur3_x86_32 seed blocks =
     murmur_fmix (foldl murmur_block seed blocks XOR of_nat (4 * length blocks))"

lemma rotl_halves:
  "push_bit 15 w OR drop_bit 17 w = word_rotl 15 (w :: 32 word)"
  "push_bit 13 w OR drop_bit 19 w = word_rotl 13 (w :: 32 word)"
proof -
  show "push_bit 15 w OR drop_bit 17 w = word_rotl 15 w"
    by (rule bit_word_eqI)
      (auto simp: bit_simps mod_if not_less add.commute [of 17] dest: bit_imp_le_length)
  show "push_bit 13 w OR drop_bit 19 w = word_rotl 13 w"
    by (rule bit_word_eqI)
      (auto simp: bit_simps mod_if not_less add.commute [of 19] dest: bit_imp_le_length)
qed

lemma to_i32_add [simp]: "to_i32 (a + b) = to_i32 a + to_i32 b"
  by (simp add: to_i32_def)

lemma to_i32_numeral [simp]: "to_i32 (numeral n) = numeral n" "to_i32 1 = 1"
  by (simp_all add: to_i32_def)

lemma js_ushr_uint: "js_ushr a n = uint (drop_bit (nat (n mod 32)) (to_i32 a))"
  by (simp add: js_ushr_def)

text \<open>
  C32. The key of the next header is MurmurHash3 of the four bytes of the current key under a fixed seed:
  the chain of shifts, \<open>Math.imul\<close> and \<open>>>> 0\<close> on doubles of the code computes the published hash.
\<close>
theorem datumHeaderXorFeedback_is_murmur3:
  "datumHeaderXorFeedback input = uint (murmur3_x86_32 0xb10cfeed [word_of_int input])"
  unfolding to_i32_def [symmetric] datumHeaderXorFeedback_def
  by (simp add: murmur3_x86_32_def murmur_block_def murmur_fmix_def Let_def js_ushr_uint rotl_halves)


section \<open>Headers read back\<close>

definition header_fits :: "DatumHeader \<Rightarrow> bool" where
  "header_fits h \<longleftrightarrow> 0 \<le> cmdLen h \<and> cmdLen h < DATUM_MAX_PAYLOAD_SIZE \<and>
     0 \<le> dh_reserved h \<and> dh_reserved h < 4 \<and> 0 \<le> protoCmd h \<and> protoCmd h < 32"

lemma low_masks:
  "(0x3fffff :: 32 word) = mask 22" "(0x1f :: 32 word) = mask 5" "(3 :: 32 word) = mask 2"
  by (simp_all add: mask_numeral)

definition header_word :: "DatumHeader \<Rightarrow> 32 word" where
  "header_word h =
     take_bit 22 (to_i32 (cmdLen h)) OR push_bit 22 (take_bit 2 (to_i32 (dh_reserved h))) OR
     push_bit 24 (of_bool (isSigned h)) OR push_bit 25 (of_bool (isEncryptedPubkey h)) OR
     push_bit 26 (of_bool (isEncryptedChannel h)) OR push_bit 27 (take_bit 5 (to_i32 (protoCmd h)))"

lemma to_i32_flag: "to_i32 (flag b) = of_bool b"
  by (simp add: flag_def to_i32_def)

lemma headerBits_word: "to_i32 (headerBits h) = header_word h"
  by (simp add: headerBits_def header_word_def Let_def to_i32_flag low_masks take_bit_eq_mask or.assoc)

lemma packed_fields:
  fixes c r a b d q :: "32 word"
  defines "w \<equiv> take_bit 22 c OR push_bit 22 (take_bit 2 r) OR push_bit 24 (take_bit (Suc 0) a) OR
    push_bit 25 (take_bit (Suc 0) b) OR push_bit 26 (take_bit (Suc 0) d) OR push_bit 27 (take_bit 5 q)"
  shows "w AND mask 22 = take_bit 22 c" "drop_bit 22 w AND mask 2 = take_bit 2 r"
    "drop_bit 24 w AND 1 = take_bit (Suc 0) a" "drop_bit 25 w AND 1 = take_bit (Suc 0) b"
    "drop_bit 26 w AND 1 = take_bit (Suc 0) d" "drop_bit 27 w AND mask 5 = take_bit 5 q"
  unfolding w_def by (rule bit_word_eqI, auto simp: bit_simps)+

lemma header_word_parts:
  "header_word h AND 0x3fffff = take_bit 22 (to_i32 (cmdLen h))"
  "drop_bit 22 (header_word h) AND 3 = take_bit 2 (to_i32 (dh_reserved h))"
  "drop_bit 24 (header_word h) AND 1 = of_bool (isSigned h)"
  "drop_bit 25 (header_word h) AND 1 = of_bool (isEncryptedPubkey h)"
  "drop_bit 26 (header_word h) AND 1 = of_bool (isEncryptedChannel h)"
  "drop_bit 27 (header_word h) AND 0x1f = take_bit 5 (to_i32 (protoCmd h))"
proof -
  have bool: "take_bit (Suc 0) (of_bool P) = (of_bool P :: 32 word)" for P
    by simp
  note packed = packed_fields [of "to_i32 (cmdLen h)" "to_i32 (dh_reserved h)" "of_bool (isSigned h)"
      "of_bool (isEncryptedPubkey h)" "of_bool (isEncryptedChannel h)" "to_i32 (protoCmd h)"]
  show "header_word h AND 0x3fffff = take_bit 22 (to_i32 (cmdLen h))"
    "drop_bit 22 (header_word h) AND 3 = take_bit 2 (to_i32 (dh_reserved h))"
    "drop_bit 24 (header_word h) AND 1 = of_bool (isSigned h)"
    "drop_bit 25 (header_word h) AND 1 = of_bool (isEncryptedPubkey h)"
    "drop_bit 26 (header_word h) AND 1 = of_bool (isEncryptedChannel h)"
    "drop_bit 27 (header_word h) AND 0x1f = take_bit 5 (to_i32 (protoCmd h))"
    using packed by (simp_all only: header_word_def low_masks bool)
qed

lemma take_bit_to_i32:
  assumes "0 \<le> v" "v < 2 ^ k" "k < 32"
  shows "sint (take_bit k (to_i32 v)) = v"
proof -
  have "(2 :: int) ^ k \<le> 2 ^ 31" using assms by (intro power_increasing) auto
  with assms have v: "v < 2147483648" by simp
  have "take_bit k v = v" using assms by (simp add: take_bit_int_eq_self)
  then have "take_bit k (to_i32 v) = word_of_int v"
    unfolding to_i32_def take_bit_eq_mask and_mask_wi by simp
  with assms v show ?thesis
    by (simp add: sint_sbintrunc' signed_take_bit_int_eq_self)
qed

lemma decode_encode_header:
  assumes "header_fits h"
  shows "\<exists>bs. encodeDatumHeader h key = Inr bs \<and> length bs = 4 \<and>
    decodeDatumHeader (bs @ rest) key = Inr h"
proof -
  let ?bs = "le_bytes 4 (nat (uint (header_word h XOR to_i32 key)))"
  have e: "encodeDatumHeader h key = Inr ?bs"
    using assms by (simp add: encodeDatumHeader_def header_fits_def js_ushr_uint headerBits_word)
  have "nat (uint (header_word h XOR to_i32 key)) < 256 ^ 4"
    using unsigned_less [of "header_word h XOR to_i32 key", where 'a = nat] by simp
  then have raw: "js_xor (int (le_nat (take 4 (?bs @ rest)))) key = sint (header_word h)"
    by (simp add: le_nat_le_bytes_id js_xor_def xor.assoc to_i32_uint)
  have "decodeDatumHeader (?bs @ rest) key = Inr h"
    using assms unfolding decodeDatumHeader_def raw
    by (simp add: header_fits_def js_ushr_uint js_and_def header_word_parts take_bit_to_i32
        DATUM_MAX_PAYLOAD_SIZE_def)
  with e show ?thesis by auto
qed


section \<open>The reader over segments\<close>

text \<open>
  22 bits of length never exceed \<open>DATUM_MAX_PAYLOAD_SIZE\<close>, so the guard of \<open>feed\<close> cannot fire and the
  reader never throws.
\<close>

lemma sint_mask22: "sint (w AND 0x3fffff :: 32 word) < 4194304" "0 \<le> sint (w AND 0x3fffff :: 32 word)"
proof -
  have "uint (w AND 0x3fffff) = take_bit 22 (uint w)"
    by (simp add: low_masks flip: take_bit_eq_mask) (simp add: unsigned_take_bit_eq)
  moreover have "take_bit 22 (uint w) < 4194304" "0 \<le> take_bit 22 (uint w)"
    using take_bit_int_less_exp [of 22 "uint w"] by simp_all
  moreover have "signed_take_bit 31 (take_bit 22 (uint w)) = take_bit 22 (uint w)"
  proof (rule signed_take_bit_int_eq_self)
    show "- (2 ^ 31) \<le> take_bit 22 (uint w)" by (rule order_trans [of _ 0]) simp_all
    show "take_bit 22 (uint w) < 2 ^ 31" by (rule less_le_trans [OF take_bit_int_less_exp]) simp
  qed
  ultimately show "sint (w AND 0x3fffff) < 4194304" "0 \<le> sint (w AND 0x3fffff)"
    by (simp_all add: sint_uint)
qed

lemma decode_cmdLen:
  "decodeDatumHeader bs key = Inr h \<Longrightarrow> 0 \<le> cmdLen h \<and> cmdLen h < DATUM_MAX_PAYLOAD_SIZE"
  using sint_mask22
  by (auto simp: decodeDatumHeader_def Let_def js_and_def DATUM_MAX_PAYLOAD_SIZE_def split: if_splits)

text \<open>Where a header is complete, a round of the loop is the split of the buffer behind it.\<close>

definition header_of :: "DatumFrameReader \<Rightarrow> DatumHeader" where
  "header_of r = projr (decodeDatumHeader (take 4 (dr_buffer r)) (headerXorKey r))"

definition frame_length :: "DatumFrameReader \<Rightarrow> nat" where
  "frame_length r = 4 + nat (cmdLen (header_of r))"

definition advanceKey :: "DatumHeader \<Rightarrow> int \<Rightarrow> int" where
  "advanceKey h key = (if isEncryptedChannel h then datumHeaderXorFeedback key else key)"

definition taken_frame :: "DatumFrameReader \<Rightarrow> DatumFrame" where
  "taken_frame r = \<lparr>df_header = header_of r,
     df_payload = take (nat (cmdLen (header_of r))) (drop 4 (dr_buffer r))\<rparr>"

definition after_frame :: "DatumFrameReader \<Rightarrow> DatumFrameReader" where
  "after_frame r = \<lparr>dr_buffer = drop (frame_length r) (dr_buffer r),
     headerXorKey = advanceKey (header_of r) (headerXorKey r)\<rparr>"

lemma feedFrame_complete:
  assumes "4 \<le> length (dr_buffer r)"
  shows "feedFrame r = Inr (if length (dr_buffer r) < frame_length r then None
    else Some (taken_frame r, after_frame r))"
proof -
  obtain h where h: "decodeDatumHeader (take 4 (dr_buffer r)) (headerXorKey r) = Inr h"
    using assms by (simp add: decodeDatumHeader_def Let_def)
  then have "header_of r = h" by (simp add: header_of_def)
  with h decode_cmdLen [OF h] show ?thesis
    by (simp add: feedFrame_def frame_length_def taken_frame_def after_frame_def advanceKey_def
        DatumFrameReader.splits nat_less_iff) (auto simp: DATUM_MAX_PAYLOAD_SIZE_def)
qed

lemma header_of_more:
  "4 \<le> length (dr_buffer r) \<Longrightarrow> header_of (r\<lparr>dr_buffer := dr_buffer r @ d\<rparr>) = header_of r"
  by (simp add: header_of_def)

lemma feedFrame_more:
  assumes "4 \<le> length (dr_buffer r)" "frame_length r \<le> length (dr_buffer r)"
  shows "feedFrame (r\<lparr>dr_buffer := dr_buffer r @ d\<rparr>) =
    Inr (Some (taken_frame r, (after_frame r)\<lparr>dr_buffer := dr_buffer (after_frame r) @ d\<rparr>))"
  using assms feedFrame_complete [of "r\<lparr>dr_buffer := dr_buffer r @ d\<rparr>"] header_of_more [OF assms(1), of d]
  by (simp add: frame_length_def taken_frame_def after_frame_def)

declare datumFeedLoop.simps [simp del]

lemma datumFeedLoop_step:
  "datumFeedLoop r frames =
    (if length (dr_buffer r) < 4 \<or> length (dr_buffer r) < frame_length r then (Inr frames, r)
     else datumFeedLoop (after_frame r) (frames @ [taken_frame r]))"
  by (subst datumFeedLoop.simps) (simp add: feedFrame_complete)

lemma datumFeedLoop_induct:
  assumes "\<And>r frames. (\<not> length (dr_buffer r) < 4 \<Longrightarrow> \<not> length (dr_buffer r) < frame_length r \<Longrightarrow>
      P (after_frame r) (frames @ [taken_frame r])) \<Longrightarrow> P r frames"
  shows "P r frames"
proof (induction "length (dr_buffer r)" arbitrary: r frames rule: less_induct)
  case less
  show ?case
    by (rule assms, rule less) (simp add: after_frame_def frame_length_def)
qed

lemma datumFeedLoop_acc:
  "datumFeedLoop r (acc @ frames) =
     (rmap ((@) acc) (fst (datumFeedLoop r frames)), snd (datumFeedLoop r frames))"
proof (induction r frames rule: datumFeedLoop_induct)
  case (1 r frames)
  then show ?case
    using datumFeedLoop_step [of r "acc @ frames"] datumFeedLoop_step [of r frames] by auto
qed

lemmas datumFeedLoop_from = datumFeedLoop_acc [where frames = "[]", simplified]

lemma datumFeedLoop_total: "\<exists>fs. fst (datumFeedLoop r acc) = Inr fs"
proof (induction r acc rule: datumFeedLoop_induct)
  case (1 r frames)
  then show ?case
    using datumFeedLoop_step [of r frames] by auto
qed

lemma datumFeedLoop_more:
  "datumFeedLoop r acc = (Inr fs, r') \<Longrightarrow>
   datumFeedLoop (r\<lparr>dr_buffer := dr_buffer r @ d\<rparr>) acc =
   datumFeedLoop (r'\<lparr>dr_buffer := dr_buffer r' @ d\<rparr>) fs"
proof (induction r acc rule: datumFeedLoop_induct)
  case (1 r frames)
  show ?case
  proof (cases "length (dr_buffer r) < 4 \<or> length (dr_buffer r) < frame_length r")
    case True
    with 1 show ?thesis using datumFeedLoop_step [of r frames] by simp
  next
    case False
    then have "datumFeedLoop (r\<lparr>dr_buffer := dr_buffer r @ d\<rparr>) frames =
        datumFeedLoop ((after_frame r)\<lparr>dr_buffer := dr_buffer (after_frame r) @ d\<rparr>) (frames @ [taken_frame r])"
      using feedFrame_more [of r d] by (subst datumFeedLoop.simps) simp
    with 1 False show ?thesis using datumFeedLoop_step [of r frames] by simp
  qed
qed

text \<open>Any two segments may arrive joined.\<close>

lemma datumFeed_append:
  assumes "datumFeed a r = (Inr fs, r1)" "datumFeed b r1 = (Inr gs, r2)"
  shows "datumFeed (a @ b) r = (Inr (fs @ gs), r2)"
proof -
  from datumFeedLoop_more [OF assms(1) [unfolded datumFeed_def], of b]
  have "datumFeed (a @ b) r = datumFeedLoop (r1\<lparr>dr_buffer := dr_buffer r1 @ b\<rparr>) fs"
    by (simp add: datumFeed_def)
  with assms(2) show ?thesis
    by (simp add: datumFeedLoop_from [of _ fs] datumFeed_def)
qed


section \<open>A written frame is read\<close>

definition datum_frame_fits :: "DatumFrame \<Rightarrow> bool" where
  "datum_frame_fits f \<longleftrightarrow> header_fits (df_header f) \<and> cmdLen (df_header f) = int (length (df_payload f))"

lemma encodeDatumFrame_fits:
  assumes "datum_frame_fits f"
  shows "\<exists>h. encodeDatumFrame f key = Inr (h @ df_payload f) \<and> length h = 4 \<and>
    (\<forall>rest. decodeDatumHeader (h @ rest) key = Inr (df_header f))"
proof -
  have same: "(df_header f)\<lparr>cmdLen := int (length (df_payload f))\<rparr> = df_header f"
    using assms by (simp add: datum_frame_fits_def)
  obtain h where "encodeDatumHeader (df_header f) key = Inr h" "length h = 4"
    using decode_encode_header [of "df_header f" key] assms by (auto simp: datum_frame_fits_def)
  moreover from this have "decodeDatumHeader (h @ rest) key = Inr (df_header f)" for rest
    using decode_encode_header [of "df_header f" key rest] assms by (auto simp: datum_frame_fits_def)
  ultimately show ?thesis by (simp add: encodeDatumFrame_def same)
qed

lemma datumFeedLoop_frame:
  assumes "datum_frame_fits f" "encodeDatumFrame f (headerXorKey r) = Inr bs"
    and "dr_buffer r = bs @ rest"
  shows "datumFeedLoop r frames =
    datumFeedLoop \<lparr>dr_buffer = rest, headerXorKey = advanceKey (df_header f) (headerXorKey r)\<rparr> (frames @ [f])"
proof -
  from encodeDatumFrame_fits [OF assms(1), of "headerXorKey r"] assms(2) obtain h where
    h: "bs = h @ df_payload f" "length h = 4"
      "\<And>rest. decodeDatumHeader (h @ rest) (headerXorKey r) = Inr (df_header f)"
    by auto
  have hd: "header_of r = df_header f"
    using h(2) h(3) [of "[]"] by (simp add: header_of_def assms(3) h(1))
  have len: "frame_length r = length bs"
    using assms(1) by (simp add: frame_length_def hd h(1,2) datum_frame_fits_def)
  have "taken_frame r = f" "after_frame r =
      \<lparr>dr_buffer = rest, headerXorKey = advanceKey (df_header f) (headerXorKey r)\<rparr>"
    using assms(1) by (simp_all add: taken_frame_def after_frame_def hd len assms(3) datum_frame_fits_def)
      (simp add: h)
  then show ?thesis
    using datumFeedLoop_step [of r frames] by (simp add: len assms(3) h(1,2))
qed

lemma datumFeedLoop_idle: "length (dr_buffer r) < 4 \<Longrightarrow> datumFeedLoop r frames = (Inr frames, r)"
  using datumFeedLoop_step [of r frames] by simp

lemma datumFeed_frame:
  assumes "datum_frame_fits f" "encodeDatumFrame f (headerXorKey r) = Inr bs" "dr_buffer r = []"
  shows "datumFeed bs r = (Inr [f], r\<lparr>headerXorKey := advanceKey (df_header f) (headerXorKey r)\<rparr>)"
  using datumFeedLoop_frame [of f "r\<lparr>dr_buffer := bs\<rparr>" bs "[]" "[]"] assms
  by (simp add: datumFeed_def datumFeedLoop_idle)

end
