(* ===== verification/DatumMessages.thy ===== *)
theory DatumMessages
  imports DatumCodec JsList
begin

text \<open>
  \<open>src/models/datum/datum-codec.ts\<close>: the commands inside the frames of the DATUM protocol, as the pool
  reads them (proof-of-work submissions, coinbaser requests, answers to job validation) and writes them.
\<close>

section \<open>Mining commands\<close>

definition MINING_FETCH_COINBASER :: int where "MINING_FETCH_COINBASER = 0x10"
definition MINING_FETCH_COINBASER_RESPONSE :: int where "MINING_FETCH_COINBASER_RESPONSE = 0x11"
definition MINING_SUBMIT_POW :: int where "MINING_SUBMIT_POW = 0x27"
definition MINING_JOB_VALIDATION :: int where "MINING_JOB_VALIDATION = 0x50"
definition MINING_SHARE_RESPONSE :: int where "MINING_SHARE_RESPONSE = 0x8f"
definition MINING_CLIENT_CONFIGURE :: int where "MINING_CLIENT_CONFIGURE = 0x99"
definition MINING_TEMPLATE_REFRESH :: int where "MINING_TEMPLATE_REFRESH = 0xf9"

definition REQUEST_SHORT_TX_IDS :: int where "REQUEST_SHORT_TX_IDS = 0x10"
definition REQUEST_FULL_TRANSACTIONS :: int where "REQUEST_FULL_TRANSACTIONS = 0x11"
definition REQUEST_FULL_TRANSACTION_BLOB :: int where "REQUEST_FULL_TRANSACTION_BLOB = 0x12"
definition SHORT_TX_IDS_RESPONSE :: int where "SHORT_TX_IDS_RESPONSE = 0x90"
definition FULL_TRANSACTIONS_RESPONSE :: int where "FULL_TRANSACTIONS_RESPONSE = 0x91"
definition FULL_TRANSACTION_BLOB_RESPONSE :: int where "FULL_TRANSACTION_BLOB_RESPONSE = 0x92"
definition VALIDATION_SUCCESS :: int where "VALIDATION_SUCCESS = 0x01"

datatype DatumShareResponseStatus = ACCEPTED | ACCEPTED_TENTATIVE | REJECTED

fun shareStatusCode :: "DatumShareResponseStatus \<Rightarrow> int" where
  "shareStatusCode ACCEPTED = 0x50"
| "shareStatusCode ACCEPTED_TENTATIVE = 0x55"
| "shareStatusCode REJECTED = 0x66"

datatype DatumRejectReason = BAD_JOB_ID | BAD_COINBASE_ID | BAD_EXTRANONCE_SIZE | BAD_TARGET | BAD_USERNAME
  | BAD_COINBASER_ID | BAD_MERKLE_COUNT | BAD_COINBASE_TOO_LARGE | COINBASE_MISSING | TARGET_MISMATCH
  | HIGH_HASH | BAD_NTIME | BAD_VERSION | STALE_BLOCK | DUPLICATE_WORK | OTHER

fun rejectCode :: "DatumRejectReason \<Rightarrow> int" where
  "rejectCode BAD_JOB_ID = 10"
| "rejectCode BAD_COINBASE_ID = 11"
| "rejectCode BAD_EXTRANONCE_SIZE = 12"
| "rejectCode BAD_TARGET = 13"
| "rejectCode BAD_USERNAME = 14"
| "rejectCode BAD_COINBASER_ID = 15"
| "rejectCode BAD_MERKLE_COUNT = 16"
| "rejectCode BAD_COINBASE_TOO_LARGE = 17"
| "rejectCode COINBASE_MISSING = 18"
| "rejectCode TARGET_MISMATCH = 19"
| "rejectCode HIGH_HASH = 21"
| "rejectCode BAD_NTIME = 23"
| "rejectCode BAD_VERSION = 24"
| "rejectCode STALE_BLOCK = 25"
| "rejectCode DUPLICATE_WORK = 29"
| "rejectCode OTHER = 30"

definition deserializeDatumMiningCommand :: "bytes \<Rightarrow> (int \<times> bytes) result" where
  "deserializeDatumMiningCommand payload =
     (case payload of [] \<Rightarrow> Inl RangeError | b # body \<Rightarrow> Inr (uint b, body))"

definition serializeDatumMiningCommand :: "int \<Rightarrow> bytes \<Rightarrow> bytes" where
  "serializeDatumMiningCommand command body = [byte_of command] @ body"

section \<open>Job validation\<close>

definition serializeDatumJobValidationShortTxIdsRequest :: "int \<Rightarrow> bytes" where
  "serializeDatumJobValidationShortTxIdsRequest jobId =
     serializeDatumMiningCommand MINING_JOB_VALIDATION [byte_of REQUEST_SHORT_TX_IDS, byte_of (js_and jobId 0xff)]"

definition serializeDatumJobValidationFullTransactionBlobRequest :: "int \<Rightarrow> bytes" where
  "serializeDatumJobValidationFullTransactionBlobRequest jobId =
     serializeDatumMiningCommand MINING_JOB_VALIDATION
       [byte_of REQUEST_FULL_TRANSACTION_BLOB, byte_of (js_and jobId 0xff)]"

definition serializeDatumJobValidationFullTransactionsRequest :: "int \<Rightarrow> int list \<Rightarrow> bytes result" where
  "serializeDatumJobValidationFullTransactionsRequest jobId transactionIndexes =
     (if length transactionIndexes > 0xffff then Inl RangeError
      else rmap (serializeDatumMiningCommand MINING_JOB_VALIDATION)
        (w_build ([writeU8 REQUEST_FULL_TRANSACTIONS, writeU8 jobId,
           writeU16 (int (length transactionIndexes))] @
         map (\<lambda>index. if index < 0 \<or> index > 0xffff then w_throw RangeError else writeU16 index)
           transactionIndexes)))"

datatype DatumTransactionListKind = full_transactions | full_transaction_blob

record DatumShortTxIdsResponse =
  st_jobId :: int
  st_status :: int
  st_transactionCount :: int
  st_shortTxIds :: "bytes list"
  st_crosscheck :: "bytes option"

record DatumTransactionListResponse =
  tx_kind :: DatumTransactionListKind
  tx_jobId :: int
  tx_status :: int
  tx_transactionCount :: int
  tx_transactions :: "bytes list"

datatype DatumJobValidationResponse =
    ShortTxIds DatumShortTxIdsResponse
  | Transactions DatumTransactionListResponse

definition consumeDatumTerminatorAndPadding :: "unit reading" where
  "consumeDatumTerminatorAndPadding = (\<lambda>r.
     if rd_remaining r = 0 then Inr ((), r)
     else rd_bind readU8 (\<lambda>terminator. if terminator \<noteq> 0xfe then rd_fail RangeError else rd_ret ()) r)"

definition deserializeDatumTransactionListResponse ::
  "DatumTransactionListKind \<Rightarrow> int \<Rightarrow> int \<Rightarrow> DatumTransactionListResponse reading" where
  "deserializeDatumTransactionListResponse kind jobId status =
     (if status \<noteq> VALIDATION_SUCCESS then
        rd_ret \<lparr>tx_kind = kind, tx_jobId = jobId, tx_status = status, tx_transactionCount = 0, tx_transactions = []\<rparr>
      else rd_bind readU16 (\<lambda>transactionCount.
        rd_bind (readN (nat transactionCount) (rd_bind readU24 readBytes)) (\<lambda>transactions.
        rd_bind consumeDatumTerminatorAndPadding (\<lambda>_.
        rd_ret \<lparr>tx_kind = kind, tx_jobId = jobId, tx_status = status,
          tx_transactionCount = transactionCount, tx_transactions = transactions\<rparr>))))"

definition readCrosscheck :: "bytes option reading" where
  "readCrosscheck = (\<lambda>r. if rd_remaining r \<ge> 32 then rd_bind (readBytes 32) (\<lambda>b. rd_ret (Some b)) r
     else Inr (None, r))"

definition readShortTxIds :: "int \<Rightarrow> int \<Rightarrow> DatumShortTxIdsResponse reading" where
  "readShortTxIds jobId status =
     (if status \<noteq> VALIDATION_SUCCESS then
        rd_ret \<lparr>st_jobId = jobId, st_status = status, st_transactionCount = 0, st_shortTxIds = [], st_crosscheck = None\<rparr>
      else rd_bind readU16 (\<lambda>transactionCount.
        rd_bind (readN (nat transactionCount) (readBytes 6)) (\<lambda>shortTxIds.
        rd_bind readCrosscheck (\<lambda>crosscheck.
        rd_bind consumeDatumTerminatorAndPadding (\<lambda>_.
        rd_ret \<lparr>st_jobId = jobId, st_status = status, st_transactionCount = transactionCount,
          st_shortTxIds = shortTxIds, st_crosscheck = crosscheck\<rparr>)))))"

definition readJobValidationResponse :: "DatumJobValidationResponse reading" where
  "readJobValidationResponse =
     rd_bind readU8 (\<lambda>responseCommand.
     rd_bind readU8 (\<lambda>jobId.
     rd_bind readU8 (\<lambda>status.
     if responseCommand = SHORT_TX_IDS_RESPONSE then
       rd_bind (readShortTxIds jobId status) (\<lambda>x. rd_ret (ShortTxIds x))
     else if responseCommand = FULL_TRANSACTIONS_RESPONSE then
       rd_bind (deserializeDatumTransactionListResponse full_transactions jobId status) (\<lambda>x. rd_ret (Transactions x))
     else if responseCommand = FULL_TRANSACTION_BLOB_RESPONSE then
       rd_bind (deserializeDatumTransactionListResponse full_transaction_blob jobId status) (\<lambda>x. rd_ret (Transactions x))
     else rd_fail RangeError)))"

definition deserializeDatumJobValidationResponse :: "bytes \<Rightarrow> DatumJobValidationResponse result" where
  "deserializeDatumJobValidationResponse payload = rmap fst (readJobValidationResponse (newReader payload))"

section \<open>Coinbaser and share responses\<close>

record DatumPayoutOutput =
  po_value :: int
  po_scriptPubKey :: bytes

definition deserializeDatumCoinbaserFetch :: "bytes \<Rightarrow> int result" where
  "deserializeDatumCoinbaserFetch payload =
     (if length payload < 8 then Inl RangeError else Inr (int (le_nat (take 8 payload))))"

definition payoutOutputWrites :: "DatumPayoutOutput \<Rightarrow> writing list" where
  "payoutOutputWrites out =
     (if length (po_scriptPubKey out) > 255 then [w_throw RangeError]
      else [writeU64 (po_value out), writeU8 (int (length (po_scriptPubKey out))), writeBytes (po_scriptPubKey out)])"

definition serializeDatumPayoutOutputs :: "DatumPayoutOutput list \<Rightarrow> int \<Rightarrow> bytes result" where
  "serializeDatumPayoutOutputs outputs coinbaserId =
     (if coinbaserId < 0 \<or> coinbaserId > 255 then Inl RangeError
      else w_build (writeU8 coinbaserId # concat (map payoutOutputWrites outputs)))"

text \<open>The reward is written first; it throws before the outputs are looked at.\<close>

definition serializeDatumCoinbaserFetchResponse :: "int \<Rightarrow> DatumPayoutOutput list \<Rightarrow> int \<Rightarrow> bytes result" where
  "serializeDatumCoinbaserFetchResponse rewardValue outputs coinbaserId =
     rbind (writeU64 rewardValue newWriter) (\<lambda>w.
     rbind (serializeDatumPayoutOutputs outputs coinbaserId) (\<lambda>outputsBuffer.
     rbind (wseq [writeU32 (int (length outputsBuffer)), writeBytes outputsBuffer] w) (\<lambda>w.
     Inr (serializeDatumMiningCommand MINING_FETCH_COINBASER_RESPONSE (toBuffer w)))))"

definition serializeDatumShareResponse ::
  "DatumShareResponseStatus \<Rightarrow> int \<Rightarrow> int \<Rightarrow> int \<Rightarrow> int \<Rightarrow> bytes result" where
  "serializeDatumShareResponse status reasonCode nonce targetByte jobId =
     rmap (serializeDatumMiningCommand MINING_SHARE_RESPONSE)
       (w_build [writeU8 (shareStatusCode status), writeU16 reasonCode, writeU32 nonce,
          writeU8 targetByte, writeU8 jobId])"


section \<open>Proof-of-work submissions\<close>

record DatumCoinbase =
  coinb1 :: bytes
  coinb2 :: bytes

record DatumPowSubmit =
  pw_jobId :: int
  pw_coinbaseId :: int
  pw_isBlock :: bool
  pw_subsidyOnly :: bool
  pw_quickDiff :: bool
  pw_targetByte :: int
  pw_ntime :: int
  pw_nonce :: int
  pw_version :: int
  pw_extranonce :: bytes
  pw_username :: jsstr
  pw_reserved :: bytes
  pw_prevBlockHash :: "bytes option"
  pw_targetByteIndex :: "int option"
  pw_nBits :: "bytes option"
  pw_coinbaserId :: "int option"
  pw_height :: "int option"
  pw_coinbaseValue :: "int option"
  pw_transactionCount :: "int option"
  pw_totalWeight :: "int option"
  pw_totalSize :: "int option"
  pw_totalSigops :: "int option"
  pw_merkleBranches :: "bytes list option"
  pw_coinbasePairs :: "(int \<times> DatumCoinbase) list"
  pw_subsidyOnlyCoinbase :: "DatumCoinbase option"

text \<open>A loop of the deserializer: a round says whether the loop goes on.\<close>

fun readWhile :: "nat \<Rightarrow> ('a \<Rightarrow> (bool \<times> 'a) reading) \<Rightarrow> 'a \<Rightarrow> 'a reading" where
  "readWhile 0 body a r = (if rd_remaining r > 0 then Inl Diverges else Inr (a, r))"
| "readWhile (Suc fuel) body a r =
     (if rd_remaining r > 0 then
        rbind (body a r) (\<lambda>((more, a'), r'). if more then readWhile fuel body a' r' else Inr (a', r'))
      else Inr (a, r))"

text \<open>Every round reads a byte, so there are at most as many rounds as bytes left.\<close>

definition rd_while :: "('a \<Rightarrow> (bool \<times> 'a) reading) \<Rightarrow> 'a \<Rightarrow> 'a reading" where
  "rd_while body a = (\<lambda>r. readWhile (rd_remaining r) body a r)"

definition readNullTerminatedString :: "jsstr reading" where
  "readNullTerminatedString =
     rd_bind (rd_while (\<lambda>bs. rd_bind readU8 (\<lambda>b. rd_ret (if b = 0 then (False, bs) else (True, bs @ [byte_of b])))) [])
       (\<lambda>bs. rd_ret (utf8_decode bs))"

definition readJobSection :: "DatumPowSubmit \<Rightarrow> DatumPowSubmit reading" where
  "readJobSection result =
     rd_bind (readBytes 32) (\<lambda>prevBlockHash.
     rd_bind readU16 (\<lambda>targetByteIndex.
     rd_bind (readBytes 4) (\<lambda>nBits.
     rd_bind readU8 (\<lambda>coinbaserId.
     rd_bind readU32 (\<lambda>height.
     rd_bind readU64 (\<lambda>coinbaseValue.
     rd_bind readU32 (\<lambda>transactionCount.
     rd_bind readU32 (\<lambda>totalWeight.
     rd_bind readU32 (\<lambda>totalSize.
     rd_bind readU32 (\<lambda>totalSigops.
     rd_bind readU8 (\<lambda>merkleBranchCount.
     rd_bind (readN (nat merkleBranchCount) (readBytes 32)) (\<lambda>merkleBranches.
     rd_ret (result\<lparr>pw_prevBlockHash := Some prevBlockHash, pw_targetByteIndex := Some targetByteIndex,
       pw_nBits := Some nBits, pw_coinbaserId := Some coinbaserId, pw_height := Some height,
       pw_coinbaseValue := Some coinbaseValue, pw_transactionCount := Some transactionCount,
       pw_totalWeight := Some totalWeight, pw_totalSize := Some totalSize,
       pw_totalSigops := Some totalSigops, pw_merkleBranches := Some merkleBranches\<rparr>)))))))))))))"

definition readCoinbaseSection :: "DatumPowSubmit \<Rightarrow> DatumPowSubmit reading" where
  "readCoinbaseSection result =
     rd_bind readU8 (\<lambda>coinbaseType.
     rd_bind readU16 (\<lambda>coinb1Len.
     rd_bind readU16 (\<lambda>coinb2Len.
     rd_bind (readBytes coinb1Len) (\<lambda>c1.
     rd_bind (readBytes coinb2Len) (\<lambda>c2.
     rd_ret (if coinbaseType = 255 then result\<lparr>pw_subsidyOnlyCoinbase := Some \<lparr>coinb1 = c1, coinb2 = c2\<rparr>\<rparr>
       else result\<lparr>pw_coinbasePairs := AList.update coinbaseType \<lparr>coinb1 = c1, coinb2 = c2\<rparr> (pw_coinbasePairs result)\<rparr>))))))"

definition readPowSection :: "DatumPowSubmit \<Rightarrow> (bool \<times> DatumPowSubmit) reading" where
  "readPowSection result = rd_bind readU8 (\<lambda>section.
     if section = 0xfe then rd_ret (False, result)
     else if section = 0x01 then rd_bind (readJobSection result) (\<lambda>a. rd_ret (True, a))
     else if section = 0x02 then rd_bind (readCoinbaseSection result) (\<lambda>a. rd_ret (True, a))
     else rd_fail RangeError)"

definition readRest :: "nat \<Rightarrow> bytes reading" where
  "readRest limit = (\<lambda>r. readBytes (int (min limit (rd_remaining r))) r)"

definition readPowSubmit :: "DatumPowSubmit reading" where
  "readPowSubmit =
     rd_bind readU8 (\<lambda>jobId.
     rd_bind readU8 (\<lambda>coinbaseId.
     rd_bind readU8 (\<lambda>flags.
     rd_bind readU8 (\<lambda>targetByte.
     rd_bind readU32 (\<lambda>ntime.
     rd_bind readU32 (\<lambda>nonce.
     rd_bind readU32 (\<lambda>version.
     rd_bind readU8 (\<lambda>extranonceSize.
     if extranonceSize \<noteq> DATUM_EXTRANONCE_SIZE then rd_fail RangeError
     else rd_bind (readBytes extranonceSize) (\<lambda>extranonce.
     rd_bind readNullTerminatedString (\<lambda>username.
     rd_bind (readRest 4) (\<lambda>reserved.
     rd_while readPowSection
       \<lparr>pw_jobId = jobId, pw_coinbaseId = coinbaseId, pw_isBlock = (js_and flags 0x01 \<noteq> 0),
        pw_subsidyOnly = (js_and flags 0x02 \<noteq> 0), pw_quickDiff = (js_and flags 0x04 \<noteq> 0),
        pw_targetByte = targetByte, pw_ntime = ntime, pw_nonce = nonce, pw_version = version,
        pw_extranonce = extranonce, pw_username = username, pw_reserved = reserved,
        pw_prevBlockHash = None, pw_targetByteIndex = None, pw_nBits = None, pw_coinbaserId = None,
        pw_height = None, pw_coinbaseValue = None, pw_transactionCount = None, pw_totalWeight = None,
        pw_totalSize = None, pw_totalSigops = None, pw_merkleBranches = None, pw_coinbasePairs = [],
        pw_subsidyOnlyCoinbase = None\<rparr>)))))))))))"

definition deserializeDatumPowSubmit :: "bytes \<Rightarrow> DatumPowSubmit result" where
  "deserializeDatumPowSubmit payload = rmap fst (readPowSubmit (newReader payload))"

section \<open>Reads that only go forward\<close>

text \<open>
  \<open>forward n p\<close>: the read \<open>p\<close> consumes at least \<open>n\<close> bytes and stays in the buffer, and where it throws,
  it throws a \<open>RangeError\<close>. Every read of the codec is one, so that its loops end.
\<close>

definition went_on :: "nat \<Rightarrow> reader \<Rightarrow> ('a \<times> reader) result \<Rightarrow> bool" where
  "went_on n r x = (case x of Inl e \<Rightarrow> e = RangeError
     | Inr (_, r') \<Rightarrow> rbuf r' = rbuf r \<and> roff r + n \<le> roff r' \<and> roff r' \<le> length (rbuf r))"

definition forward :: "nat \<Rightarrow> 'a reading \<Rightarrow> bool" where
  "forward n p \<longleftrightarrow> (\<forall>r. roff r \<le> length (rbuf r) \<longrightarrow> went_on n r (p r))"

named_theorems forward_intros

lemma went_on_simps [simp]:
  "went_on n r (Inl e) \<longleftrightarrow> e = RangeError"
  "went_on n r (Inr (a, r')) \<longleftrightarrow> rbuf r' = rbuf r \<and> roff r + n \<le> roff r' \<and> roff r' \<le> length (rbuf r)"
  by (simp_all add: went_on_def)

lemma went_on_bind:
  assumes "went_on m r x" "\<And>a r'. x = Inr (a, r') \<Longrightarrow> roff r' \<le> length (rbuf r') \<Longrightarrow> went_on n r' (f a r')"
  shows "went_on (m + n) r (rbind x (\<lambda>(a, r'). f a r'))"
proof (cases x)
  case (Inl e)
  with assms(1) show ?thesis by simp
next
  case (Inr y)
  then obtain a r' where x: "x = Inr (a, r')" by (cases y) auto
  with assms have "went_on n r' (f a r')" "rbuf r' = rbuf r" "roff r + m \<le> roff r'" by simp_all
  then show ?thesis by (cases "f a r'") (auto simp: x)
qed

lemma went_on_weaken: "went_on m r x \<Longrightarrow> n \<le> m \<Longrightarrow> went_on n r x"
  by (cases x) auto

lemma forward_weaken: "forward m p \<Longrightarrow> n \<le> m \<Longrightarrow> forward n p"
  unfolding forward_def using went_on_weaken by blast

lemma forwardD: "forward n p \<Longrightarrow> roff r \<le> length (rbuf r) \<Longrightarrow> went_on n r (p r)"
  by (simp add: forward_def)

lemma forward_ret [forward_intros]: "forward 0 (rd_ret a)"
  by (simp add: forward_def rd_ret_def)

lemma forward_fail [forward_intros]: "forward n (rd_fail RangeError)"
  by (simp add: forward_def rd_fail_def)

lemma forward_bind:
  assumes "forward m p" "\<And>a. forward n (q a)"
  shows "forward (m + n) (rd_bind p q)"
  unfolding forward_def rd_bind_def
  by (intro allI impI went_on_bind forwardD [OF assms(1)] forwardD [OF assms(2)])

lemma forward_bind0 [forward_intros]: "forward 0 p \<Longrightarrow> (\<And>a. forward 0 (q a)) \<Longrightarrow> forward 0 (rd_bind p q)"
  using forward_bind [of 0 p 0 q] by simp

lemma forward_bind1: "forward 1 p \<Longrightarrow> (\<And>a. forward 0 (q a)) \<Longrightarrow> forward 1 (rd_bind p q)"
  using forward_bind [of 1 p 0 q] by simp

lemma forward_slice: "forward n (rd_bind (ensure n) (\<lambda>_. rd_bind (rd_slice n) (\<lambda>b. rd_ret (f b))))"
  by (simp add: forward_def rd_bind_def ensure_def rd_slice_def rd_ret_def)

lemma forward_readU8: "forward 1 readU8"
  unfolding readU8_def by (rule forward_slice)

lemma forward_readBytes [forward_intros]: "forward 0 (readBytes n)"
  by (simp add: forward_def readBytes_def rd_bind_def ensure_def rd_slice_def)

lemma forward_ints [forward_intros]:
  "forward 0 readU8" "forward 0 readU16" "forward 0 readU32" "forward 0 readU64" "forward 0 readU24"
  unfolding readU8_def readU16_def readU32_def readU64_def readU24_def
  by (rule forward_weaken, rule forward_slice, simp)+

lemma forward_if [forward_intros]: "forward n p \<Longrightarrow> forward n q \<Longrightarrow> forward n (if b then p else q)"
  by simp

lemma forward_readN [forward_intros]: "forward 0 p \<Longrightarrow> forward 0 (readN k p)"
  by (induction k) (auto intro: forward_intros)

lemma readWhile_forward:
  assumes "\<And>a. forward 1 (body a)" "roff r \<le> length (rbuf r)" "rd_remaining r \<le> fuel"
  shows "went_on 0 r (readWhile fuel body a r)"
  using assms(2,3)
proof (induction fuel arbitrary: a r)
  case 0
  then show ?case by simp
next
  case (Suc fuel)
  have b: "went_on 1 r (body a r)" by (rule forwardD) (use assms(1) Suc.prems in auto)
  have "went_on (1 + 0) r (rbind (body a r) (\<lambda>(y, r').
      (\<lambda>(more, a') r'. if more then readWhile fuel body a' r' else Inr (a', r')) y r'))"
  proof (rule went_on_bind [OF b])
    fix y r' assume r': "body a r = Inr (y, r')" "roff r' \<le> length (rbuf r')"
    with b Suc.prems have "rd_remaining r' \<le> fuel" by (auto simp: rd_remaining_def)
    from Suc.IH [OF r'(2) this] r'(2)
    show "went_on 0 r' ((\<lambda>(more, a') r'. if more then readWhile fuel body a' r' else Inr (a', r')) y r')"
      by (cases y) simp
  qed
  then have "went_on 0 r (rbind (body a r) (\<lambda>(y, r').
      (\<lambda>(more, a') r'. if more then readWhile fuel body a' r' else Inr (a', r')) y r'))"
    by (rule went_on_weaken) simp
  with Suc.prems show ?case by (simp add: case_prod_unfold)
qed

lemma forward_rd_while [forward_intros]: "(\<And>a. forward 1 (body a)) \<Longrightarrow> forward 0 (rd_while body a)"
  by (simp add: forward_def [of 0] rd_while_def readWhile_forward)

lemma forward_readRest [forward_intros]: "forward 0 (readRest n)"
  using forward_readBytes by (simp add: forward_def readRest_def)

lemma forward_readPowSection: "forward 1 (readPowSection a)"
  unfolding readPowSection_def readJobSection_def readCoinbaseSection_def
  by (intro forward_bind1 forward_readU8 forward_intros)

lemma forward_readPowSubmit: "forward 0 readPowSubmit"
  unfolding readPowSubmit_def readNullTerminatedString_def
  by (intro forward_intros forward_bind1 forward_readU8 forward_readPowSection)


section \<open>The layout of a submission\<close>

text \<open>
  What a gateway sends: the fixed fields, the name of the worker up to its zero byte, four reserved
  bytes, then sections up to the mark \<open>0xfe\<close>. The pool only reads this format; its layout is stated here
  as an encoder, and what the sections mean as an update each.
\<close>

record PowJob =
  pj_prevBlockHash :: bytes
  pj_targetByteIndex :: int
  pj_nBits :: bytes
  pj_coinbaserId :: int
  pj_height :: int
  pj_coinbaseValue :: int
  pj_transactionCount :: int
  pj_totalWeight :: int
  pj_totalSize :: int
  pj_totalSigops :: int
  pj_merkleBranches :: "bytes list"

datatype PowSection =
    JobSection PowJob
  | CoinbaseSection int bytes bytes

fun section_tag :: "PowSection \<Rightarrow> int" where
  "section_tag (JobSection j) = 1"
| "section_tag (CoinbaseSection ty c1 c2) = 2"

fun section_body :: "PowSection \<Rightarrow> bytes" where
  "section_body (JobSection j) =
     pj_prevBlockHash j @ (le_bytes 2 (nat (pj_targetByteIndex j)) @ (pj_nBits j @
     ([byte_of (pj_coinbaserId j)] @ (le_bytes 4 (nat (pj_height j)) @ (le_bytes 8 (nat (pj_coinbaseValue j)) @
     (le_bytes 4 (nat (pj_transactionCount j)) @ (le_bytes 4 (nat (pj_totalWeight j)) @
     (le_bytes 4 (nat (pj_totalSize j)) @ (le_bytes 4 (nat (pj_totalSigops j)) @
     ([byte_of (int (length (pj_merkleBranches j)))] @ (concat (pj_merkleBranches j) @ [])))))))))))"
| "section_body (CoinbaseSection ty c1 c2) =
     [byte_of ty] @ (le_bytes 2 (nat (int (length c1))) @ (le_bytes 2 (nat (int (length c2))) @ (c1 @ (c2 @ []))))"

definition section_bytes :: "PowSection \<Rightarrow> bytes" where
  "section_bytes x = [byte_of (section_tag x)] @ section_body x"

fun section_fits :: "PowSection \<Rightarrow> bool" where
  "section_fits (JobSection j) \<longleftrightarrow>
     length (pj_prevBlockHash j) = 32 \<and> u16_ok (pj_targetByteIndex j) \<and> length (pj_nBits j) = 4 \<and>
     u8_ok (pj_coinbaserId j) \<and> u32_ok (pj_height j) \<and> u64_ok (pj_coinbaseValue j) \<and>
     u32_ok (pj_transactionCount j) \<and> u32_ok (pj_totalWeight j) \<and> u32_ok (pj_totalSize j) \<and>
     u32_ok (pj_totalSigops j) \<and> length (pj_merkleBranches j) \<le> 255 \<and>
     list_all (\<lambda>b. length b = 32) (pj_merkleBranches j)"
| "section_fits (CoinbaseSection ty c1 c2) \<longleftrightarrow> u8_ok ty \<and> length c1 < 2 ^ 16 \<and> length c2 < 2 ^ 16"

fun apply_section :: "DatumPowSubmit \<Rightarrow> PowSection \<Rightarrow> DatumPowSubmit" where
  "apply_section p (JobSection j) = p\<lparr>pw_prevBlockHash := Some (pj_prevBlockHash j),
     pw_targetByteIndex := Some (pj_targetByteIndex j), pw_nBits := Some (pj_nBits j),
     pw_coinbaserId := Some (pj_coinbaserId j), pw_height := Some (pj_height j),
     pw_coinbaseValue := Some (pj_coinbaseValue j), pw_transactionCount := Some (pj_transactionCount j),
     pw_totalWeight := Some (pj_totalWeight j), pw_totalSize := Some (pj_totalSize j),
     pw_totalSigops := Some (pj_totalSigops j), pw_merkleBranches := Some (pj_merkleBranches j)\<rparr>"
| "apply_section p (CoinbaseSection ty c1 c2) =
     (if ty = 255 then p\<lparr>pw_subsidyOnlyCoinbase := Some \<lparr>coinb1 = c1, coinb2 = c2\<rparr>\<rparr>
      else p\<lparr>pw_coinbasePairs := AList.update ty \<lparr>coinb1 = c1, coinb2 = c2\<rparr> (pw_coinbasePairs p)\<rparr>)"

record PowFields =
  pf_jobId :: int
  pf_coinbaseId :: int
  pf_flags :: int
  pf_targetByte :: int
  pf_ntime :: int
  pf_nonce :: int
  pf_version :: int
  pf_extranonce :: bytes
  pf_username :: bytes
  pf_reserved :: bytes

definition pow_bytes :: "PowFields \<Rightarrow> PowSection list \<Rightarrow> bytes" where
  "pow_bytes f secs =
     [byte_of (pf_jobId f)] @ ([byte_of (pf_coinbaseId f)] @ ([byte_of (pf_flags f)] @
     ([byte_of (pf_targetByte f)] @ (le_bytes 4 (nat (pf_ntime f)) @ (le_bytes 4 (nat (pf_nonce f)) @
     (le_bytes 4 (nat (pf_version f)) @ ([byte_of 12] @ (pf_extranonce f @ ((pf_username f @ [0]) @
     (pf_reserved f @ (concat (map section_bytes secs) @ [0xfe])))))))))))"

definition pow_fits :: "PowFields \<Rightarrow> PowSection list \<Rightarrow> bool" where
  "pow_fits f secs \<longleftrightarrow> u8_ok (pf_jobId f) \<and> u8_ok (pf_coinbaseId f) \<and> u8_ok (pf_flags f) \<and>
     u8_ok (pf_targetByte f) \<and> u32_ok (pf_ntime f) \<and> u32_ok (pf_nonce f) \<and> u32_ok (pf_version f) \<and>
     length (pf_extranonce f) = 12 \<and> 0 \<notin> set (pf_username f) \<and> length (pf_reserved f) = 4 \<and>
     list_all section_fits secs"

definition pow_base :: "PowFields \<Rightarrow> DatumPowSubmit" where
  "pow_base f = \<lparr>pw_jobId = pf_jobId f, pw_coinbaseId = pf_coinbaseId f, pw_isBlock = odd (pf_flags f),
     pw_subsidyOnly = odd (pf_flags f div 2), pw_quickDiff = odd (pf_flags f div 4),
     pw_targetByte = pf_targetByte f, pw_ntime = pf_ntime f, pw_nonce = pf_nonce f,
     pw_version = pf_version f, pw_extranonce = pf_extranonce f, pw_username = utf8_decode (pf_username f),
     pw_reserved = pf_reserved f,
     pw_prevBlockHash = None, pw_targetByteIndex = None, pw_nBits = None, pw_coinbaserId = None,
     pw_height = None, pw_coinbaseValue = None, pw_transactionCount = None, pw_totalWeight = None,
     pw_totalSize = None, pw_totalSigops = None, pw_merkleBranches = None, pw_coinbasePairs = [],
     pw_subsidyOnlyCoinbase = None\<rparr>"

text \<open>\<open>reads p bs v\<close>: where \<open>bs\<close> stands in a buffer, \<open>p\<close> consumes it and gives \<open>v\<close>.\<close>

definition reads :: "'a reading \<Rightarrow> bytes \<Rightarrow> 'a \<Rightarrow> bool" where
  "reads p bs v \<longleftrightarrow> (\<forall>pre rest. p \<lparr>rbuf = pre @ bs @ rest, roff = length pre\<rparr>
     = Inr (v, \<lparr>rbuf = pre @ bs @ rest, roff = length pre + length bs\<rparr>))"

lemma parses_reads: "parses p bs v \<Longrightarrow> reads p bs v"
  by (simp add: reads_def parses_def)

lemma readsD: "reads p bs v \<Longrightarrow> p \<lparr>rbuf = pre @ bs @ rest, roff = length pre\<rparr>
     = Inr (v, \<lparr>rbuf = pre @ bs @ rest, roff = length pre + length bs\<rparr>)"
  by (simp add: reads_def)

lemma reads_bind:
  assumes p: "reads p a v" and q: "reads (q v) b w"
  shows "reads (rd_bind p q) (a @ b) w"
  unfolding reads_def
proof (intro allI)
  fix pre rest
  show "rd_bind p q \<lparr>rbuf = pre @ (a @ b) @ rest, roff = length pre\<rparr> =
    Inr (w, \<lparr>rbuf = pre @ (a @ b) @ rest, roff = length pre + length (a @ b)\<rparr>)"
    using readsD [OF p, of pre "b @ rest"] readsD [OF q, of "pre @ a" rest]
    by (simp add: rd_bind_def)
qed

lemma reads_readRest: "length bs = n \<Longrightarrow> reads (readRest n) bs bs"
  using parses_reads [OF parses_readBytes [of "int n" bs]]
  by (simp add: reads_def readRest_def rd_remaining_def)


lemma reads_ret: "v = w \<Longrightarrow> reads (rd_ret v) [] w"
  by (rule parses_reads, rule parses_ret)

lemma parses_job:
  assumes "section_fits (JobSection j)"
  shows "parses (readJobSection p) (section_body (JobSection j)) (apply_section p (JobSection j))"
proof -
  have "parses (readBytes 32) b b" if "b \<in> set (pj_merkleBranches j)" for b
    using that assms by (intro parses_readBytes) (simp add: list_all_iff)
  then have branches: "parses (readN (nat (int (length (pj_merkleBranches j)))) (readBytes 32))
      (concat (pj_merkleBranches j)) (pj_merkleBranches j)"
    using parses_readN [of "pj_merkleBranches j" "readBytes 32" "\<lambda>b. b"] by simp
  show ?thesis
    using assms unfolding readJobSection_def section_body.simps apply_section.simps section_fits.simps
    by (elim conjE)
      (rule field_parses branches parses_readBytes | assumption | simp add: u8_ok_def)+
qed

lemma parses_coinbase:
  assumes "section_fits (CoinbaseSection ty c1 c2)"
  shows "parses (readCoinbaseSection p) (section_body (CoinbaseSection ty c1 c2))
    (apply_section p (CoinbaseSection ty c1 c2))"
  using assms unfolding readCoinbaseSection_def section_body.simps apply_section.simps section_fits.simps
  by (elim conjE)
    (rule field_parses parses_readBytes | assumption | simp add: u16_ok_def)+

lemma parses_section:
  assumes "section_fits x"
  shows "parses (readPowSection p) (section_bytes x) (True, apply_section p x)"
proof -
  have "parses (readPowSection p) ([byte_of (section_tag x)] @ (section_body x @ [])) (True, apply_section p x)"
  proof (cases x)
    case (JobSection j)
    have "parses (rd_bind (readJobSection p) (\<lambda>a. rd_ret (True, a))) (section_body x @ []) (True, apply_section p x)"
      unfolding JobSection by (rule parses_bind [OF parses_job parses_ret [OF refl]]) (use assms JobSection in simp)
    then show ?thesis
      unfolding readPowSection_def
      by (intro parses_bind [OF parses_readU8]) (simp_all add: JobSection u8_ok_def)
  next
    case (CoinbaseSection ty c1 c2)
    have "parses (rd_bind (readCoinbaseSection p) (\<lambda>a. rd_ret (True, a))) (section_body x @ []) (True, apply_section p x)"
      unfolding CoinbaseSection
      by (rule parses_bind [OF parses_coinbase parses_ret [OF refl]]) (use assms CoinbaseSection in simp)
    then show ?thesis
      unfolding readPowSection_def
      by (intro parses_bind [OF parses_readU8]) (simp_all add: CoinbaseSection u8_ok_def)
  qed
  then show ?thesis by (simp add: section_bytes_def)
qed

lemma readWhile_fuel:
  assumes "\<And>a. forward 1 (body a)" "roff r \<le> length (rbuf r)" "rd_remaining r \<le> m" "rd_remaining r \<le> n"
  shows "readWhile m body a r = readWhile n body a r"
  using assms(2-4)
proof (induction m arbitrary: n a r)
  case 0
  then show ?case by (cases n) simp_all
next
  case (Suc m)
  show ?case
  proof (cases "rd_remaining r = 0")
    case True
    then show ?thesis by (cases n) simp_all
  next
    case False
    with Suc.prems obtain n' where n: "n = Suc n'" by (cases n) auto
    have b: "went_on 1 r (body a r)" by (rule forwardD) (use assms(1) Suc.prems in auto)
    show ?thesis
    proof (cases "body a r")
      case (Inl e)
      with False show ?thesis by (simp add: n)
    next
      case (Inr x)
      obtain more a' r' where x: "x = ((more, a'), r')" by (metis prod.collapse)
      from b Inr x Suc.prems have "roff r' \<le> length (rbuf r')" "rd_remaining r' \<le> m" "rd_remaining r' \<le> n'"
        by (auto simp: rd_remaining_def n)
      from Suc.IH [OF this] False show ?thesis by (simp add: n Inr x)
    qed
  qed
qed

text \<open>The loop is its first round and the loop after it.\<close>

lemma rd_while_step:
  assumes "\<And>a. forward 1 (body a)" "roff r \<le> length (rbuf r)"
  shows "rd_while body a r = (if rd_remaining r = 0 then Inr (a, r)
    else rbind (body a r) (\<lambda>((more, a'), r'). if more then rd_while body a' r' else Inr (a', r')))"
proof (cases "rd_remaining r")
  case 0
  then show ?thesis by (simp add: rd_while_def)
next
  case (Suc k)
  have b: "went_on 1 r (body a r)" by (rule forwardD) (use assms in auto)
  show ?thesis
  proof (cases "body a r")
    case (Inl e)
    with Suc show ?thesis by (simp add: rd_while_def)
  next
    case (Inr x)
    obtain more a' r' where x: "x = ((more, a'), r')" by (metis prod.collapse)
    from b Inr x have r': "roff r' \<le> length (rbuf r')" "rd_remaining r' \<le> k"
      using Suc by (auto simp: rd_remaining_def)
    have "readWhile k body a' r' = readWhile (rd_remaining r') body a' r'"
      by (rule readWhile_fuel) (use assms(1) r' in auto)
    with Suc show ?thesis by (simp add: rd_while_def Inr x)
  qed
qed

lemma reads_rd_while_more:
  assumes "\<And>a. forward 1 (body a)" "reads (body a) b (True, a')" "b \<noteq> []" "reads (rd_while body a') c v"
  shows "reads (rd_while body a) (b @ c) v"
  unfolding reads_def
proof (intro allI)
  fix pre rest
  show "rd_while body a \<lparr>rbuf = pre @ (b @ c) @ rest, roff = length pre\<rparr> =
    Inr (v, \<lparr>rbuf = pre @ (b @ c) @ rest, roff = length pre + length (b @ c)\<rparr>)"
    using readsD [OF assms(2), of pre "c @ rest"] readsD [OF assms(4), of "pre @ b" rest] assms(3)
    by (subst rd_while_step [OF assms(1)]) (simp_all add: rd_remaining_def)
qed

lemma reads_rd_while_stop:
  assumes "\<And>a. forward 1 (body a)" "reads (body a) b (False, v)" "b \<noteq> []"
  shows "reads (rd_while body a) b v"
  unfolding reads_def
proof (intro allI)
  fix pre rest
  show "rd_while body a \<lparr>rbuf = pre @ b @ rest, roff = length pre\<rparr> =
    Inr (v, \<lparr>rbuf = pre @ b @ rest, roff = length pre + length b\<rparr>)"
    using readsD [OF assms(2), of pre rest] assms(3)
    by (subst rd_while_step [OF assms(1)]) (simp_all add: rd_remaining_def)
qed

lemma reads_sections:
  assumes "list_all section_fits secs"
  shows "reads (rd_while readPowSection p) (concat (map section_bytes secs) @ [0xfe]) (foldl apply_section p secs)"
  using assms
proof (induction secs arbitrary: p)
  case Nil
  have "parses (readPowSection p) ([byte_of 0xfe] @ []) (False, p)"
    unfolding readPowSection_def
    by (rule parses_bind [OF parses_readU8]) (simp_all add: u8_ok_def parses_ret)
  then have "reads (readPowSection p) [0xfe] (False, p)"
    by (simp add: parses_reads byte_of_def)
  then show ?case
    using reads_rd_while_stop [OF forward_readPowSection] by simp
next
  case (Cons x secs)
  have "section_bytes x \<noteq> []" by (simp add: section_bytes_def)
  with Cons show ?case
    using reads_rd_while_more [of readPowSection p "section_bytes x" "apply_section p x", OF forward_readPowSection]
    by (simp add: parses_section parses_reads)
qed

definition stringByte :: "bytes \<Rightarrow> (bool \<times> bytes) reading" where
  "stringByte bs = rd_bind readU8 (\<lambda>b. rd_ret (if b = 0 then (False, bs) else (True, bs @ [byte_of b])))"

lemma forward_stringByte: "forward 1 (stringByte bs)"
  unfolding stringByte_def by (intro forward_bind1 forward_readU8 forward_intros)

lemma reads_stringByte:
  "reads (stringByte bs) [b] (if b = 0 then (False, bs) else (True, bs @ [b]))"
proof -
  have b: "byte_of (uint b) = b" by (simp add: byte_of_def)
  have "u8_ok (uint b)" using uint_lt2p [of b] by (simp add: u8_ok_def)
  then have "parses (stringByte bs) ([byte_of (uint b)] @ []) (if b = 0 then (False, bs) else (True, bs @ [b]))"
    unfolding stringByte_def by (rule parses_bind [OF parses_readU8]) (simp add: parses_ret b uint_0_iff)
  then show ?thesis by (simp add: parses_reads b)
qed

lemma reads_stringBytes:
  "0 \<notin> set s \<Longrightarrow> reads (rd_while stringByte bs) (s @ [0]) (bs @ s)"
proof (induction s arbitrary: bs)
  case Nil
  show ?case
    using reads_rd_while_stop [of stringByte bs "[0]" bs, OF forward_stringByte] reads_stringByte [of bs 0] by simp
next
  case (Cons b s)
  then show ?case
    using reads_rd_while_more [of stringByte bs "[b]" "bs @ [b]" "s @ [0]" "bs @ b # s", OF forward_stringByte]
      reads_stringByte [of bs b] Cons.IH [of "bs @ [b]"] by simp
qed

lemma reads_string: "0 \<notin> set s \<Longrightarrow> reads readNullTerminatedString (s @ [0]) (utf8_decode s)"
  using reads_bind [OF reads_stringBytes [of s "[]"] reads_ret [OF refl]]
  unfolding readNullTerminatedString_def stringByte_def [abs_def] by simp


lemma js_and_flags:
  "js_and v 1 \<noteq> 0 \<longleftrightarrow> odd v" "js_and v 2 \<noteq> 0 \<longleftrightarrow> odd (v div 2)" "js_and v 4 \<noteq> 0 \<longleftrightarrow> odd (v div 4)"
proof -
  have bit: "to_i32 v AND 2 ^ k = 0 \<longleftrightarrow> \<not> odd (v div 2 ^ k)" if "k < 32" for k
    using that by (simp add: and_exp_eq_0_iff_not_bit to_i32_def bit_word_of_int_iff flip: bit_iff_odd)
  show "js_and v 1 \<noteq> 0 \<longleftrightarrow> odd v" "js_and v 2 \<noteq> 0 \<longleftrightarrow> odd (v div 2)" "js_and v 4 \<noteq> 0 \<longleftrightarrow> odd (v div 4)"
    using bit [of 0] bit [of 1] bit [of 2] by (simp_all add: js_and_def signed_eq_0_iff)
qed

lemma readPowSubmit_reads:
  assumes "pow_fits f secs"
  shows "reads readPowSubmit (pow_bytes f secs) (foldl apply_section (pow_base f) secs)"
  using assms unfolding readPowSubmit_def pow_bytes_def pow_fits_def
  apply (elim conjE)
  apply (rule reads_bind, rule parses_reads, rule parses_readU8, assumption)+
  apply (rule reads_bind, rule parses_reads, rule fU32.rd_parses, assumption)+
  apply (rule reads_bind, rule parses_reads, rule parses_readU8, simp add: u8_ok_def)
  apply (simp add: DATUM_EXTRANONCE_SIZE_def del: append_assoc append_Cons append_Nil)
  apply (rule reads_bind, rule parses_reads, rule parses_readBytes, simp)
  apply (rule reads_bind, rule reads_string, assumption)
  apply (rule reads_bind, rule reads_readRest, assumption)
  apply (unfold pow_base_def js_and_flags)
  apply (rule reads_sections, assumption)
  done

text \<open>
  C30. A submission laid out as the protocol says is read as its fields with the sections applied in order
  (a later job section or coinbase of the same type replaces an earlier one), whatever follows the end
  mark; and on any bytes at all the deserializer returns a submission or throws a \<open>RangeError\<close>, that is,
  its three nested loops always end.
\<close>
theorem deserializeDatumPowSubmit_layout:
  "(pow_fits f secs \<longrightarrow>
     deserializeDatumPowSubmit (pow_bytes f secs @ padding) = Inr (foldl apply_section (pow_base f) secs)) \<and>
   (is_ok (deserializeDatumPowSubmit payload) \<or> deserializeDatumPowSubmit payload = Inl RangeError)"
proof (intro conjI impI)
  assume "pow_fits f secs"
  from readsD [OF readPowSubmit_reads [OF this], of "[]" padding]
  show "deserializeDatumPowSubmit (pow_bytes f secs @ padding) = Inr (foldl apply_section (pow_base f) secs)"
    by (simp add: deserializeDatumPowSubmit_def newReader_def)
next
  from forwardD [OF forward_readPowSubmit, of "newReader payload"]
  show "is_ok (deserializeDatumPowSubmit payload) \<or> deserializeDatumPowSubmit payload = Inl RangeError"
    by (cases "readPowSubmit (newReader payload)") (simp_all add: deserializeDatumPowSubmit_def newReader_def)
qed


definition sample_pow :: PowFields where
  "sample_pow = \<lparr>pf_jobId = 3, pf_coinbaseId = 0, pf_flags = 5, pf_targetByte = 16, pf_ntime = 0x66000000,
     pf_nonce = 0xffffffff, pf_version = 0x20000000, pf_extranonce = replicate 12 7,
     pf_username = [0x62, 0x2e, 0x77], pf_reserved = [0, 0, 0, 0]\<rparr>"

definition sample_sections :: "PowSection list" where
  "sample_sections = [CoinbaseSection 0 [1, 2] [3], JobSection \<lparr>pj_prevBlockHash = replicate 32 9,
     pj_targetByteIndex = 4, pj_nBits = [0xff, 0xff, 0, 0x1d], pj_coinbaserId = 1, pj_height = 800000,
     pj_coinbaseValue = 312500000, pj_transactionCount = 2, pj_totalWeight = 4000, pj_totalSize = 1000,
     pj_totalSigops = 8, pj_merkleBranches = [replicate 32 1]\<rparr>, CoinbaseSection 0 [5] []]"

theorem deserializeDatumPowSubmit_layout_witness:
  "rmap pw_coinbasePairs (deserializeDatumPowSubmit (pow_bytes sample_pow sample_sections @ [0, 0])) =
     Inr [(0, \<lparr>coinb1 = [5], coinb2 = []\<rparr>)]"
proof -
  have "pow_fits sample_pow sample_sections"
    by (simp add: pow_fits_def sample_pow_def sample_sections_def wire_ok_defs list_all_iff)
  with deserializeDatumPowSubmit_layout [of sample_pow sample_sections "[0, 0]" "[]"]
  show ?thesis by (simp add: sample_sections_def pow_base_def)
qed

end
