(* ===== verification/DatumCrypto.thy ===== *)
theory DatumCrypto
  imports DatumCodec StateError
begin

text \<open>
  \<open>src/models/datum/datum-crypto.ts\<close>: the handshake of a DATUM connection and its encrypted channel, with
  the nonces and header masks of both directions; and the loop of \<open>src/services/datum.service.ts\<close> that
  takes socket data apart. libsodium is the record \<open>sodium\<close> of the functions the code calls.
\<close>

section \<open>The library\<close>

text \<open>A function that throws on invalid input gives a result; randomness of a sealed box is in the function.\<close>

record sodium =
  crypto_box_seal_open :: "bytes \<Rightarrow> bytes \<Rightarrow> bytes \<Rightarrow> bytes result"
  crypto_box_seal :: "bytes \<Rightarrow> bytes \<Rightarrow> bytes result"
  crypto_sign_verify_detached :: "bytes \<Rightarrow> bytes \<Rightarrow> bytes \<Rightarrow> bool"
  crypto_sign_detached :: "bytes \<Rightarrow> bytes \<Rightarrow> bytes"
  crypto_box_beforenm :: "bytes \<Rightarrow> bytes \<Rightarrow> bytes result"
  crypto_box_easy_afternm :: "bytes \<Rightarrow> bytes \<Rightarrow> bytes \<Rightarrow> bytes"
  crypto_box_open_easy_afternm :: "bytes \<Rightarrow> bytes \<Rightarrow> bytes \<Rightarrow> bytes result"
  crypto_sign_seed_keypair :: "bytes \<Rightarrow> bytes \<times> bytes"
  crypto_sign_ed25519_pk_to_curve25519 :: "bytes \<Rightarrow> bytes"
  crypto_sign_ed25519_sk_to_curve25519 :: "bytes \<Rightarrow> bytes"

text \<open>The constants of the library, as it documents them.\<close>

definition crypto_sign_BYTES :: nat where "crypto_sign_BYTES = 64"
definition crypto_box_NONCEBYTES :: nat where "crypto_box_NONCEBYTES = 24"

section \<open>Sessions\<close>

definition HANDSHAKE_INIT :: int where "HANDSHAKE_INIT = 0x01"
definition PROTO_PING :: int where "PROTO_PING = 0x01"
definition HANDSHAKE_RESPONSE :: int where "HANDSHAKE_RESPONSE = 0x02"
definition PROTO_MINING :: int where "PROTO_MINING = 0x05"

record DatumKeyPair =
  edPublicKey :: bytes
  edSecretKey :: bytes
  xPublicKey :: bytes
  xSecretKey :: bytes

record DatumHello =
  identityEdPublicKey :: bytes
  identityXPublicKey :: bytes
  sessionEdPublicKey :: bytes
  sessionXPublicKey :: bytes
  dh_userAgent :: jsstr
  nextHeaderKey :: int

record DatumCryptoSession =
  identityKeys :: DatumKeyPair
  sessionKeys :: DatumKeyPair
  initialized :: bool
  sharedSecret :: "bytes option"
  receiveNonce :: "bytes option"
  sendNonce :: "bytes option"
  receiveHeaderKey :: int
  sendHeaderKey :: int
  clientIdentityXPublicKey :: "bytes option"

definition newDatumCryptoSession :: "DatumKeyPair \<Rightarrow> DatumKeyPair \<Rightarrow> DatumCryptoSession" where
  "newDatumCryptoSession ik sk = \<lparr>identityKeys = ik, sessionKeys = sk, initialized = False, sharedSecret = None,
     receiveNonce = None, sendNonce = None, receiveHeaderKey = DATUM_INITIAL_HEADER_KEY,
     sendHeaderKey = DATUM_INITIAL_HEADER_KEY, clientIdentityXPublicKey = None\<rparr>"

definition generateKeyPairFromSeed :: "sodium \<Rightarrow> bytes \<Rightarrow> DatumKeyPair result" where
  "generateKeyPairFromSeed na seed =
     (if length seed \<noteq> 32 then Inl RangeError
      else (let (pk, sk) = crypto_sign_seed_keypair na seed
            in Inr \<lparr>edPublicKey = pk, edSecretKey = sk,
                 xPublicKey = crypto_sign_ed25519_pk_to_curve25519 na pk,
                 xSecretKey = crypto_sign_ed25519_sk_to_curve25519 na sk\<rparr>))"

text \<open>The words of a nonce are written one after the other; each key comes from the word before.\<close>

fun nonceWords :: "nat \<Rightarrow> int \<Rightarrow> int list" where
  "nonceWords 0 key = []"
| "nonceWords (Suc n) key = (let w = datumHeaderXorFeedback (js_ushr (key - 42) 0)
     in w # nonceWords n (js_ushr (js_not w) 0))"

definition initializeNonces :: "int \<Rightarrow> bytes \<Rightarrow> DatumCryptoSession \<Rightarrow> DatumCryptoSession" where
  "initializeNonces nextKey clientSessionEdPublicKey s =
     (let key = js_ushr (js_xor (nextKey - 42) (int (le_nat (take 4 (drop 7 clientSessionEdPublicKey))))) 0;
          ws = nonceWords (crypto_box_NONCEBYTES div 4) key;
          receiver = concat (map (\<lambda>w. le_bytes 4 (nat w)) ws);
          sender = concat (map (\<lambda>w. le_bytes 4 (nat (js_ushr (js_xor w 0x57575757) 0))) ws)
      in s\<lparr>sendNonce := Some receiver, receiveNonce := Some sender\<rparr>)"

text \<open>The buffer of a nonce holds whole 32-bit words.\<close>

function incrementNonce :: "bytes \<Rightarrow> bytes" where
  "incrementNonce nonce =
     (if length nonce < 4 then nonce
      else (let next = js_ushr (int (le_nat (take 4 nonce)) + 1) 0
            in le_bytes 4 (nat next) @ (if next \<noteq> 0 then drop 4 nonce else incrementNonce (drop 4 nonce))))"
  by pat_completeness auto
termination
  by (relation "measure length") auto

section \<open>The handshake\<close>

definition readHello :: "bytes \<Rightarrow> DatumHello result" where
  "readHello signedPayload =
     (let userAgent = takeWhile (\<lambda>b. b \<noteq> 0) (drop 128 signedPayload);
          rest = drop (128 + length userAgent + 1) signedPayload
      in if rest = [] \<or> hd rest \<noteq> 0xfe then Inl (JsError ''DATUM handshake missing key delimiter'')
         else if length (drop 1 rest) < 4 then Inl RangeError
         else Inr \<lparr>identityEdPublicKey = take 32 signedPayload,
           identityXPublicKey = take 32 (drop 32 signedPayload),
           sessionEdPublicKey = take 32 (drop 64 signedPayload),
           sessionXPublicKey = take 32 (drop 96 signedPayload),
           dh_userAgent = utf8_decode userAgent,
           nextHeaderKey = int (le_nat (take 4 (drop 1 rest)))\<rparr>)"

definition openHandshake :: "sodium \<Rightarrow> bytes \<Rightarrow> (DatumCryptoSession, DatumHello) sm" where
  "openHandshake na framePayload =
     andThen (readState identityKeys) (\<lambda>ik.
     andThen (lift (crypto_box_seal_open na framePayload (xPublicKey ik) (xSecretKey ik))) (\<lambda>opened.
     if length opened < 32 * 4 + 1 + 4 + crypto_sign_BYTES then
       throw (JsError ''DATUM handshake payload is too short'')
     else (let signedLength = length opened - crypto_sign_BYTES;
               signature = drop signedLength opened;
               signedPayload = take signedLength opened
       in if \<not> crypto_sign_verify_detached na signature signedPayload (take 32 signedPayload) then
            throw (JsError ''DATUM handshake signature verification failed'')
          else andThen (lift (readHello signedPayload)) (\<lambda>hello.
            andThen (modify (\<lambda>s. s\<lparr>clientIdentityXPublicKey := Some (identityXPublicKey hello)\<rparr>)) (\<lambda>_.
            andThen (readState (xSecretKey \<circ> sessionKeys)) (\<lambda>sk.
            andThen (lift (crypto_box_beforenm na (sessionXPublicKey hello) sk)) (\<lambda>secret.
            andThen (modify (\<lambda>s. s\<lparr>sharedSecret := Some secret,
              receiveHeaderKey := datumHeaderXorFeedback (nextHeaderKey hello),
              sendHeaderKey := datumHeaderXorFeedback (js_ushr (js_not (nextHeaderKey hello)) 0)\<rparr>)) (\<lambda>_.
            andThen (modify (initializeNonces (nextHeaderKey hello) (sessionEdPublicKey hello))) (\<lambda>_.
            andThen (modify (\<lambda>s. s\<lparr>initialized := True\<rparr>)) (\<lambda>_.
            ret hello))))))))))"

definition buildHandshakeResponse :: "sodium \<Rightarrow> DatumHello \<Rightarrow> jsstr \<Rightarrow> (DatumCryptoSession, bytes) sm" where
  "buildHandshakeResponse na hello motd =
     andThen (readState id) (\<lambda>s.
     if clientIdentityXPublicKey s = None then
       throw (JsError ''Cannot build DATUM handshake response before opening client hello'')
     else (let body = identityEdPublicKey hello @ identityXPublicKey hello @ sessionEdPublicKey hello @
                 sessionXPublicKey hello @ edPublicKey (sessionKeys s) @ xPublicKey (sessionKeys s) @
                 utf8_encode (motd @ [0]);
               signature = crypto_sign_detached na body (edSecretKey (identityKeys s))
       in andThen (lift (crypto_box_seal na (body @ signature) (sessionXPublicKey hello))) (\<lambda>encrypted.
          andThen (lift (encodeDatumFrame \<lparr>df_header = \<lparr>cmdLen = int (length encrypted), dh_reserved = 0,
             isSigned = True, isEncryptedPubkey = True, isEncryptedChannel = False,
             protoCmd = HANDSHAKE_RESPONSE\<rparr>, df_payload = encrypted\<rparr> (sendHeaderKey s))) (\<lambda>response.
          andThen (modify (\<lambda>s. s\<lparr>sendHeaderKey := datumHeaderXorFeedback (sendHeaderKey s)\<rparr>)) (\<lambda>_.
          ret response)))))"

section \<open>The channel\<close>

definition decryptChannelPayload :: "sodium \<Rightarrow> bytes \<Rightarrow> (DatumCryptoSession, bytes) sm" where
  "decryptChannelPayload na payload =
     andThen (readState id) (\<lambda>s.
     case (initialized s, sharedSecret s, receiveNonce s) of
       (True, Some secret, Some nonce) \<Rightarrow>
         andThen (lift (crypto_box_open_easy_afternm na payload nonce secret)) (\<lambda>opened.
         andThen (modify (\<lambda>s. s\<lparr>receiveNonce := Some (incrementNonce nonce),
           receiveHeaderKey := datumHeaderXorFeedback (receiveHeaderKey s)\<rparr>)) (\<lambda>_.
         ret opened))
     | _ \<Rightarrow> throw (JsError ''DATUM channel is not initialized''))"

definition signedPayload :: "sodium \<Rightarrow> DatumCryptoSession \<Rightarrow> bool \<Rightarrow> bytes \<Rightarrow> bytes" where
  "signedPayload na s sign payload =
     (if sign then payload @ crypto_sign_detached na payload (edSecretKey (sessionKeys s)) else payload)"

definition channelFrame :: "int \<Rightarrow> bool \<Rightarrow> bytes \<Rightarrow> DatumFrame" where
  "channelFrame cmd sign encrypted = \<lparr>df_header = \<lparr>cmdLen = int (length encrypted), dh_reserved = 0,
     isSigned = sign, isEncryptedPubkey = False, isEncryptedChannel = True, protoCmd = cmd\<rparr>,
     df_payload = encrypted\<rparr>"

definition encryptChannelFrame :: "sodium \<Rightarrow> int \<Rightarrow> bytes \<Rightarrow> bool \<Rightarrow> (DatumCryptoSession, bytes) sm" where
  "encryptChannelFrame na cmd payload sign =
     andThen (readState id) (\<lambda>s.
     case (initialized s, sharedSecret s, sendNonce s) of
       (True, Some secret, Some nonce) \<Rightarrow>
         (let encrypted = crypto_box_easy_afternm na (signedPayload na s sign payload) nonce secret
          in andThen (lift (encodeDatumFrame (channelFrame cmd sign encrypted) (sendHeaderKey s))) (\<lambda>frame.
             andThen (modify (\<lambda>s. s\<lparr>sendNonce := Some (incrementNonce nonce),
               sendHeaderKey := datumHeaderXorFeedback (sendHeaderKey s)\<rparr>)) (\<lambda>_.
             ret frame)))
     | _ \<Rightarrow> throw (JsError ''DATUM channel is not initialized''))"

definition buildDatumPlainFrame :: "int \<Rightarrow> bytes \<Rightarrow> DatumFrame" where
  "buildDatumPlainFrame cmd payload = \<lparr>df_header = \<lparr>cmdLen = int (length payload), dh_reserved = 0,
     isSigned = False, isEncryptedPubkey = False, isEncryptedChannel = False, protoCmd = cmd\<rparr>,
     df_payload = payload\<rparr>"

section \<open>Socket data\<close>

text \<open>The session and the reader of a connection; the rest of its state extends the record.\<close>

record DatumLink =
  dl_session :: DatumCryptoSession
  dl_reader :: DatumFrameReader

definition onSession :: "(DatumCryptoSession, 'b) sm \<Rightarrow> ('a DatumLink_scheme, 'b) sm" where
  "onSession m l = (case m (dl_session l) of (r, s) \<Rightarrow> (r, l\<lparr>dl_session := s\<rparr>))"

definition syncKey :: "('a DatumLink_scheme, unit) sm" where
  "syncKey = modify (\<lambda>l. l\<lparr>dl_reader := setHeaderXorKey (receiveHeaderKey (dl_session l)) (dl_reader l)\<rparr>)"

definition receiveFrame ::
  "sodium \<Rightarrow> (int \<Rightarrow> bytes \<Rightarrow> ('a DatumLink_scheme, unit) sm) \<Rightarrow> DatumFrame \<Rightarrow> ('a DatumLink_scheme, unit) sm" where
  "receiveFrame na handleFrame frame =
     andThen (if isEncryptedChannel (df_header frame) then onSession (decryptChannelPayload na (df_payload frame))
       else ret (df_payload frame)) (\<lambda>payload.
     andThen (handleFrame (protoCmd (df_header frame)) payload) (\<lambda>_. syncKey))"

definition readFrames :: "bytes \<Rightarrow> ('a DatumLink_scheme, DatumFrame list) sm" where
  "readFrames data l = (case datumFeed data (dl_reader l) of (x, r) \<Rightarrow> (x, l\<lparr>dl_reader := r\<rparr>))"

definition receiveData ::
  "sodium \<Rightarrow> (int \<Rightarrow> bytes \<Rightarrow> ('a DatumLink_scheme, unit) sm) \<Rightarrow> bytes \<Rightarrow> ('a DatumLink_scheme, unit) sm" where
  "receiveData na handleFrame data =
     andThen syncKey (\<lambda>_. andThen (readFrames data) (\<lambda>frames. forEach frames (receiveFrame na handleFrame)))"


section \<open>Nonces count the frames\<close>

declare incrementNonce.simps [simp del]

lemma le_nat_take_drop: "le_nat bs = le_nat (take k bs) + 256 ^ min k (length bs) * le_nat (drop k bs)"
  using le_nat_append [of "take k bs" "drop k bs"] by (simp add: min.commute)

lemma length_incrementNonce [simp]: "length (incrementNonce n) = length n"
  by (induction n rule: incrementNonce.induct) (subst incrementNonce.simps, simp add: Let_def)

lemma incrementNonce_counts:
  "length n = 4 * k \<Longrightarrow> le_nat (incrementNonce n) = (le_nat n + 1) mod 256 ^ (4 * k)"
proof (induction k arbitrary: n)
  case 0
  then show ?case by (simp add: incrementNonce.simps)
next
  case (Suc k)
  define a b where "a = le_nat (take 4 n)" and "b = le_nat (drop 4 n)"
  have n: "le_nat n = a + 4294967296 * b"
    using le_nat_take_drop [of n 4] Suc.prems by (simp add: a_def b_def)
  have a: "a < 4294967296" using le_nat_less [of "take 4 n"] Suc.prems by (simp add: a_def)
  have b: "b < 256 ^ (4 * k)" using le_nat_less [of "drop 4 n"] Suc.prems by (simp add: b_def)
  have pow: "(256::nat) ^ (4 * Suc k) = 4294967296 * 256 ^ (4 * k)" by (simp add: power_add)
  have next': "js_ushr (int a + 1) 0 = int ((a + 1) mod 4294967296)"
    by (simp add: js_ushr_0 zmod_int add.commute)
  have len: "\<not> length n < 4" using Suc.prems by simp
  show ?case
  proof (cases "a + 1 = 4294967296")
    case True
    then have inc: "incrementNonce n = le_bytes 4 0 @ incrementNonce (drop 4 n)"
      using len next' by (subst incrementNonce.simps) (simp add: a_def)
    have "le_nat (incrementNonce n) = 4294967296 * ((b + 1) mod 256 ^ (4 * k))"
      using Suc by (simp add: inc le_nat_append le_nat_le_bytes b_def)
    also have "\<dots> = (4294967296 * (b + 1)) mod (4294967296 * 256 ^ (4 * k))"
      by (simp only: mult_mod_right)
    also have "4294967296 * (b + 1) = le_nat n + 1"
      using True by (simp add: n)
    also have "(le_nat n + 1) mod (4294967296 * 256 ^ (4 * k)) = (le_nat n + 1) mod 256 ^ (4 * Suc k)"
      by (simp only: pow)
    finally show ?thesis .
  next
    case False
    with a have lt: "a + 1 < 4294967296" by simp
    then have "incrementNonce n = le_bytes 4 (a + 1) @ drop 4 n"
      using len next' by (subst incrementNonce.simps) (simp add: a_def [symmetric] nat_add_distrib)
    then have "le_nat (incrementNonce n) = le_nat n + 1"
      using lt by (simp add: le_nat_append le_nat_le_bytes n b_def)
    moreover have "le_nat n + 1 < 256 ^ (4 * Suc k)"
    proof -
      have "Suc b \<le> 256 ^ (4 * k)" using b by simp
      then have "4294967296 * Suc b \<le> 4294967296 * 256 ^ (4 * k)" by (rule mult_le_mono2)
      with lt show ?thesis unfolding pow by (simp add: n)
    qed
    ultimately show ?thesis by simp
  qed
qed


section \<open>Two ends of a channel\<close>

text \<open>What the library documents of its boxes.\<close>

definition boxes_open :: "sodium \<Rightarrow> bool" where
  "boxes_open na \<longleftrightarrow> (\<forall>m nonce k. crypto_box_open_easy_afternm na (crypto_box_easy_afternm na m nonce k) nonce k = Inr m) \<and>
     (\<forall>m nonce k. length (crypto_box_easy_afternm na m nonce k) = length m + 16)"

definition same_channel :: "DatumCryptoSession \<Rightarrow> DatumCryptoSession \<Rightarrow> bool" where
  "same_channel a b \<longleftrightarrow> initialized a \<and> initialized b \<and> sharedSecret a \<noteq> None \<and> sharedSecret b = sharedSecret a \<and>
     sendNonce a \<noteq> None \<and> receiveNonce b = sendNonce a \<and> receiveHeaderKey b = sendHeaderKey a \<and>
     0 \<le> sendHeaderKey a \<and> sendHeaderKey a < 2 ^ 32"

text \<open>A message: its protocol command, its payload, whether it is signed.\<close>

type_synonym channel_message = "int \<times> bytes \<times> bool"

fun sendAll :: "sodium \<Rightarrow> channel_message list \<Rightarrow> (DatumCryptoSession, bytes) sm" where
  "sendAll na [] = ret []"
| "sendAll na ((cmd, payload, sign) # ms) =
     andThen (encryptChannelFrame na cmd payload sign) (\<lambda>frame.
     andThen (sendAll na ms) (\<lambda>wire. ret (frame @ wire)))"

definition message_fits :: "sodium \<Rightarrow> DatumCryptoSession \<Rightarrow> channel_message \<Rightarrow> bool" where
  "message_fits na s m = (case m of (cmd, payload, sign) \<Rightarrow> 0 \<le> cmd \<and> cmd < 32 \<and>
     int (length (signedPayload na s sign payload)) + 16 < DATUM_MAX_PAYLOAD_SIZE)"

definition delivered :: "sodium \<Rightarrow> DatumCryptoSession \<Rightarrow> channel_message \<Rightarrow> int \<times> bytes" where
  "delivered na s m = (case m of (cmd, payload, sign) \<Rightarrow> (cmd, signedPayload na s sign payload))"

text \<open>A connection that keeps what its frames hand over.\<close>

record DatumInbox = DatumLink + inbox :: "(int \<times> bytes) list"

definition keepFrame :: "int \<Rightarrow> bytes \<Rightarrow> (DatumInbox, unit) sm" where
  "keepFrame cmd payload = modify (\<lambda>l. l\<lparr>inbox := inbox l @ [(cmd, payload)]\<rparr>)"

lemma feedback_range: "0 \<le> datumHeaderXorFeedback k" "datumHeaderXorFeedback k < 2 ^ 32"
  using js_ushr_0_range by (simp_all add: datumHeaderXorFeedback_def Let_def)

lemma signedPayload_keys: "sessionKeys s' = sessionKeys s \<Longrightarrow> signedPayload na s' = signedPayload na s"
  by (simp add: signedPayload_def fun_eq_iff)

text \<open>One frame: what is written opens at the other end, and both ends move on alike.\<close>

lemma channel_step:
  assumes "boxes_open na" "same_channel a b" "message_fits na a (cmd, payload, sign)"
  shows "\<exists>encrypted frame a' b'. encryptChannelFrame na cmd payload sign a = (Inr frame, a') \<and>
    encodeDatumFrame (channelFrame cmd sign encrypted) (sendHeaderKey a) = Inr frame \<and>
    datum_frame_fits (channelFrame cmd sign encrypted) \<and>
    decryptChannelPayload na encrypted b = (Inr (signedPayload na a sign payload), b') \<and>
    same_channel a' b' \<and> sessionKeys a' = sessionKeys a \<and>
    sendHeaderKey a' = datumHeaderXorFeedback (sendHeaderKey a)"
proof -
  obtain secret nonce where k: "sharedSecret a = Some secret" "sendNonce a = Some nonce"
    using assms(2) by (auto simp: same_channel_def)
  let ?m = "signedPayload na a sign payload"
  let ?e = "crypto_box_easy_afternm na ?m nonce secret"
  have fits: "datum_frame_fits (channelFrame cmd sign ?e)"
    using assms(1,3) by (simp add: datum_frame_fits_def header_fits_def channelFrame_def message_fits_def boxes_open_def)
  from encodeDatumFrame_fits [OF this, of "sendHeaderKey a"] obtain frame where
    f: "encodeDatumFrame (channelFrame cmd sign ?e) (sendHeaderKey a) = Inr frame" by auto
  let ?a = "a\<lparr>sendNonce := Some (incrementNonce nonce), sendHeaderKey := datumHeaderXorFeedback (sendHeaderKey a)\<rparr>"
  let ?b = "b\<lparr>receiveNonce := Some (incrementNonce nonce), receiveHeaderKey := datumHeaderXorFeedback (receiveHeaderKey b)\<rparr>"
  have "encryptChannelFrame na cmd payload sign a = (Inr frame, ?a)"
    using assms(2) by (simp add: encryptChannelFrame_def same_channel_def k f Let_def)
  moreover have "decryptChannelPayload na ?e b = (Inr ?m, ?b)"
    using assms(1,2) by (simp add: decryptChannelPayload_def same_channel_def k boxes_open_def)
  moreover have "same_channel ?a ?b"
    using assms(2) feedback_range by (simp add: same_channel_def k)
  ultimately show ?thesis
    using f fits by (intro exI [of _ ?e] exI [of _ frame] exI [of _ ?a] exI [of _ ?b]) simp
qed

text \<open>
  A stream of frames, and the session that opens them: what the reader makes of the bytes and what the
  session makes of the frames.
\<close>

inductive opens :: "sodium \<Rightarrow> DatumCryptoSession \<Rightarrow> DatumFrame list \<Rightarrow> (int \<times> bytes) list \<Rightarrow> DatumCryptoSession \<Rightarrow> bool"
  for na where
  opens_Nil: "opens na s [] [] s"
| opens_Cons: "decryptChannelPayload na (df_payload f) s = (Inr p, s1) \<Longrightarrow> isEncryptedChannel (df_header f) \<Longrightarrow>
    receiveHeaderKey s1 = datumHeaderXorFeedback (receiveHeaderKey s) \<Longrightarrow>
    opens na s1 fs ps s2 \<Longrightarrow> opens na s (f # fs) ((protoCmd (df_header f), p) # ps) s2"

inductive_cases opens_NilE: "opens na s [] ps s'"
inductive_cases opens_ConsE: "opens na s (f # fs) ps s'"

lemma opens_split:
  assumes "opens na s (fs @ gs) ps s'"
  shows "\<exists>qs rs t. ps = qs @ rs \<and> opens na s fs qs t \<and> opens na t gs rs s'"
  using assms
proof (induction fs arbitrary: s ps)
  case Nil
  then show ?case by (intro exI [of _ "[]"] exI [of _ ps] exI [of _ s]) (auto intro: opens_Nil)
next
  case (Cons f fs)
  from Cons.prems obtain p s1 ps1 where f: "decryptChannelPayload na (df_payload f) s = (Inr p, s1)"
    "isEncryptedChannel (df_header f)" "receiveHeaderKey s1 = datumHeaderXorFeedback (receiveHeaderKey s)"
    "opens na s1 (fs @ gs) ps1 s'" "ps = (protoCmd (df_header f), p) # ps1"
    by (auto elim: opens_ConsE)
  from Cons.IH [OF f(4)] obtain qs rs t where "ps1 = qs @ rs" "opens na s1 fs qs t" "opens na t gs rs s'"
    by blast
  with f show ?case
    by (intro exI [of _ "(protoCmd (df_header f), p) # qs"] exI [of _ rs] exI [of _ t]) (auto intro: opens_Cons)
qed

lemma opens_key:
  "opens na s fs ps s' \<Longrightarrow> receiveHeaderKey s' = foldl (\<lambda>k f. advanceKey (df_header f) k) (receiveHeaderKey s) fs"
  by (induction rule: opens.induct) (simp_all add: advanceKey_def)

lemma opens_key_range:
  assumes "opens na s fs ps s'" "0 \<le> receiveHeaderKey s" "receiveHeaderKey s < 2 ^ 32"
  shows "0 \<le> receiveHeaderKey s' \<and> receiveHeaderKey s' < 2 ^ 32"
  using assms by (induction rule: opens.induct) (auto simp: feedback_range [simplified])

lemma datumFeedLoop_key:
  "datumFeedLoop r acc = (Inr fs, r') \<Longrightarrow>
   \<exists>gs. fs = acc @ gs \<and> headerXorKey r' = foldl (\<lambda>k f. advanceKey (df_header f) k) (headerXorKey r) gs"
proof (induction r acc rule: datumFeedLoop_induct)
  case (1 r frames)
  show ?case
  proof (cases "length (dr_buffer r) < 4 \<or> length (dr_buffer r) < frame_length r")
    case True
    with 1 show ?thesis using datumFeedLoop_step [of r frames] by simp
  next
    case False
    with 1 obtain gs where "fs = (frames @ [taken_frame r]) @ gs"
        "headerXorKey r' = foldl (\<lambda>k f. advanceKey (df_header f) k) (headerXorKey (after_frame r)) gs"
      using datumFeedLoop_step [of r frames] by auto
    then show ?thesis
      by (intro exI [of _ "taken_frame r # gs"]) (simp add: after_frame_def taken_frame_def)
  qed
qed

lemma sent_frames:
  assumes "boxes_open na" "same_channel a b" "list_all (message_fits na a) ms"
  shows "\<exists>wire a' fs b'. sendAll na ms a = (Inr wire, a') \<and> opens na b fs (map (delivered na a) ms) b' \<and>
    same_channel a' b' \<and>
    (\<forall>frames. datumFeedLoop \<lparr>dr_buffer = wire, headerXorKey = sendHeaderKey a\<rparr> frames =
       (Inr (frames @ fs), \<lparr>dr_buffer = [], headerXorKey = sendHeaderKey a'\<rparr>))"
  using assms(2,3)
proof (induction ms arbitrary: a b)
  case Nil
  then show ?case
    by (intro exI [of _ "[]"] exI [of _ a] exI [of _ b]) (auto intro: opens_Nil simp: datumFeedLoop_idle)
next
  case (Cons m ms)
  obtain cmd payload sign where m: "m = (cmd, payload, sign)" by (cases m) auto
  from Cons.prems have "message_fits na a (cmd, payload, sign)" by (simp add: m)
  from channel_step [OF assms(1) Cons.prems(1) this] obtain encrypted frame a1 b1 where
    s: "encryptChannelFrame na cmd payload sign a = (Inr frame, a1)"
      "encodeDatumFrame (channelFrame cmd sign encrypted) (sendHeaderKey a) = Inr frame"
      "datum_frame_fits (channelFrame cmd sign encrypted)"
      "decryptChannelPayload na encrypted b = (Inr (signedPayload na a sign payload), b1)"
      "same_channel a1 b1" "sessionKeys a1 = sessionKeys a"
      "sendHeaderKey a1 = datumHeaderXorFeedback (sendHeaderKey a)" by blast
  have same: "message_fits na a1 = message_fits na a" "delivered na a1 = delivered na a"
    using signedPayload_keys [OF s(6)] by (simp_all add: message_fits_def delivered_def fun_eq_iff)
  from Cons.IH [OF s(5)] Cons.prems obtain wire a' fs b' where
    t: "sendAll na ms a1 = (Inr wire, a')" "opens na b1 fs (map (delivered na a) ms) b'" "same_channel a' b'"
      "\<And>frames. datumFeedLoop \<lparr>dr_buffer = wire, headerXorKey = sendHeaderKey a1\<rparr> frames =
         (Inr (frames @ fs), \<lparr>dr_buffer = [], headerXorKey = sendHeaderKey a'\<rparr>)"
    by (auto simp: same)
  let ?f = "channelFrame cmd sign encrypted"
  have "receiveHeaderKey b1 = datumHeaderXorFeedback (receiveHeaderKey b)"
    using s(5,7) Cons.prems(1) by (simp add: same_channel_def)
  then have "opens na b (?f # fs) (map (delivered na a) (m # ms)) b'"
    using opens_Cons [of na ?f b "signedPayload na a sign payload" b1 fs] s(4) t(2)
    by (simp add: channelFrame_def m delivered_def)
  moreover have "datumFeedLoop \<lparr>dr_buffer = frame @ wire, headerXorKey = sendHeaderKey a\<rparr> frames =
      (Inr (frames @ ?f # fs), \<lparr>dr_buffer = [], headerXorKey = sendHeaderKey a'\<rparr>)" for frames
    using datumFeedLoop_frame [of ?f "\<lparr>dr_buffer = frame @ wire, headerXorKey = sendHeaderKey a\<rparr>" frame wire frames]
      s(2,3,7) t(4) by (simp add: channelFrame_def advanceKey_def)
  moreover have "sendAll na (m # ms) a = (Inr (frame @ wire), a')"
    using s(1) t(1) by (simp add: m)
  ultimately show ?case using t(3) by blast
qed


lemma forEach_opens:
  assumes "opens na (dl_session l) fs ps s'"
  shows "forEach fs (receiveFrame na keepFrame) l = (Inr (), l\<lparr>dl_session := s',
    dl_reader := (dl_reader l)\<lparr>headerXorKey := (if fs = [] then headerXorKey (dl_reader l) else receiveHeaderKey s')\<rparr>,
    inbox := inbox l @ ps\<rparr>)"
  using assms
proof (induction "dl_session l" fs ps s' arbitrary: l rule: opens.induct)
  case opens_Nil
  then show ?case by simp
next
  case (opens_Cons f p s1 fs ps s2)
  let ?l = "l\<lparr>dl_session := s1, dl_reader := (dl_reader l)\<lparr>headerXorKey := receiveHeaderKey s1\<rparr>,
    inbox := inbox l @ [(protoCmd (df_header f), p)]\<rparr>"
  have k1: "js_ushr (receiveHeaderKey s1) 0 = receiveHeaderKey s1"
    unfolding opens_Cons.hyps(3) by (rule js_ushr_0_id) (rule feedback_range)+
  have step: "receiveFrame na keepFrame f l = (Inr (), ?l)"
    using opens_Cons.hyps(1,2) k1
    by (simp add: receiveFrame_def onSession_def andThen_def keepFrame_def syncKey_def setHeaderXorKey_def)
  have "receiveHeaderKey s1 = receiveHeaderKey s2" if "fs = []"
    using opens_Cons.hyps(4) that by (auto elim: opens_NilE)
  with opens_Cons.hyps(5) [of ?l] step show ?case by simp
qed

text \<open>A segment: the frames that are complete are handed over, the rest waits in the reader.\<close>

definition in_step :: "DatumInbox \<Rightarrow> bool" where
  "in_step l \<longleftrightarrow> headerXorKey (dl_reader l) = receiveHeaderKey (dl_session l) \<and>
     0 \<le> receiveHeaderKey (dl_session l) \<and> receiveHeaderKey (dl_session l) < 2 ^ 32"

lemma syncKey_in_step: "in_step l \<Longrightarrow> syncKey l = (Inr (), l)"
  by (simp add: in_step_def syncKey_def setHeaderXorKey_def js_ushr_0_id)

lemma receiveData_segment:
  assumes "in_step l" "datumFeed seg (dl_reader l) = (Inr fs, r1)" "opens na (dl_session l) fs ps s1"
  shows "receiveData na keepFrame seg l = (Inr (), l\<lparr>dl_session := s1, dl_reader := r1, inbox := inbox l @ ps\<rparr>)"
    and "in_step (l\<lparr>dl_session := s1, dl_reader := r1, inbox := inbox l @ ps\<rparr>)"
proof -
  from datumFeedLoop_key [OF assms(2) [unfolded datumFeed_def]]
  have "headerXorKey r1 = foldl (\<lambda>k f. advanceKey (df_header f) k) (headerXorKey (dl_reader l)) fs" by auto
  with opens_key [OF assms(3)] assms(1) have key: "headerXorKey r1 = receiveHeaderKey s1"
    by (simp add: in_step_def)
  with opens_key_range [OF assms(3)] assms(1)
  show "in_step (l\<lparr>dl_session := s1, dl_reader := r1, inbox := inbox l @ ps\<rparr>)" by (simp add: in_step_def)
  show "receiveData na keepFrame seg l = (Inr (), l\<lparr>dl_session := s1, dl_reader := r1, inbox := inbox l @ ps\<rparr>)"
    using forEach_opens [of na "l\<lparr>dl_reader := r1\<rparr>" fs ps s1] assms(2,3) key
    by (simp add: receiveData_def andThen_def syncKey_in_step [OF assms(1)] readFrames_def)
qed

lemma datumFeedLoop_waits:
  "datumFeedLoop r acc = (x, r') \<Longrightarrow> datumFeedLoop r' frames = (Inr frames, r')"
proof (induction r acc rule: datumFeedLoop_induct)
  case (1 r acc)
  then show ?case
    using datumFeedLoop_step [of r acc] datumFeedLoop_step [of r' frames] by (auto split: if_splits)
qed

lemma segments_deliver:
  assumes "in_step l" "datumFeedLoop (dl_reader l) [] = (Inr [], dl_reader l)" "datumFeed (concat segs) (dl_reader l) = (Inr fs, r')" "opens na (dl_session l) fs ps s'"
  shows "forEach segs (receiveData na keepFrame) l = (Inr (), l\<lparr>dl_session := s', dl_reader := r', inbox := inbox l @ ps\<rparr>)"
  using assms
proof (induction segs arbitrary: l fs ps)
  case Nil
  then have "fs = []" "r' = dl_reader l" by (simp_all add: datumFeed_def)
  with Nil.prems(4) show ?case by (auto elim: opens_NilE)
next
  case (Cons seg segs)
  obtain gs r1 where seg: "datumFeed seg (dl_reader l) = (Inr gs, r1)"
    using datumFeedLoop_total by (metis datumFeed_def prod.collapse)
  obtain hs r2 where rest: "datumFeed (concat segs) r1 = (Inr hs, r2)"
    using datumFeedLoop_total by (metis datumFeed_def prod.collapse)
  from datumFeed_append [OF seg rest] Cons.prems(3) have fs: "fs = gs @ hs" "r2 = r'" by simp_all
  from opens_split [OF Cons.prems(4) [unfolded fs]] obtain qs rs t where
    ps: "ps = qs @ rs" "opens na (dl_session l) gs qs t" "opens na t hs rs s'" by blast
  have wait: "datumFeedLoop r1 [] = (Inr [], r1)"
    using datumFeedLoop_waits seg unfolding datumFeed_def by blast
  from receiveData_segment [OF Cons.prems(1) seg ps(2)] wait rest ps(3)
    Cons.IH [of "l\<lparr>dl_session := t, dl_reader := r1, inbox := inbox l @ qs\<rparr>" hs rs]
  show ?case by (simp add: ps(1) fs(2))
qed

lemma channel_in_step:
  "same_channel a (dl_session l) \<Longrightarrow>
   dl_reader l = \<lparr>dr_buffer = [], headerXorKey = sendHeaderKey a\<rparr> \<Longrightarrow> in_step l"
  by (simp add: in_step_def same_channel_def)



text \<open>A library that leaves payloads readable, for a concrete run.\<close>

definition clear_boxes :: sodium where
  "clear_boxes = \<lparr>crypto_box_seal_open = (\<lambda>m _ _. Inr m), crypto_box_seal = (\<lambda>m _. Inr m),
     crypto_sign_verify_detached = (\<lambda>_ _ _. True), crypto_sign_detached = (\<lambda>m _. [7]),
     crypto_box_beforenm = (\<lambda>_ _. Inr []), crypto_box_easy_afternm = (\<lambda>m _ _. m @ replicate 16 0),
     crypto_box_open_easy_afternm = (\<lambda>c _ _. Inr (take (length c - 16) c)),
     crypto_sign_seed_keypair = (\<lambda>s. (s, s)), crypto_sign_ed25519_pk_to_curve25519 = id,
     crypto_sign_ed25519_sk_to_curve25519 = id\<rparr>"

definition no_keys :: DatumKeyPair where
  "no_keys = \<lparr>edPublicKey = [], edSecretKey = [], xPublicKey = [], xSecretKey = []\<rparr>"

definition sample_sender :: DatumCryptoSession where
  "sample_sender = (newDatumCryptoSession no_keys no_keys)\<lparr>initialized := True, sharedSecret := Some [1],
     sendNonce := Some (replicate 24 255), receiveNonce := Some (replicate 24 0)\<rparr>"

definition sample_receiver :: DatumInbox where
  "sample_receiver = \<lparr>dl_session = sample_sender\<lparr>receiveNonce := Some (replicate 24 255)\<rparr>,
     dl_reader = newDatumFrameReader DATUM_INITIAL_HEADER_KEY, inbox = []\<rparr>"

definition sample_wire :: bytes where
  "sample_wire = projr (fst (sendAll clear_boxes [(5, [1, 2], False), (5, [], True)] sample_sender))"




end
