(* ===== verification/Sv2Service.thy ===== *)
theory Sv2Service
  imports Extranonce
begin

text \<open>
  \<open>src/services/stratum-v2.service.ts\<close>: what all Stratum V2 connections share, the counter of channel
  identifiers and the manager of extranonce prefixes. Listening sockets and keys are left out.
\<close>

record Sv2Service =
  channelIdCounter :: int
  extranonceManager :: Sv2ExtranonceManager

definition newSv2Service :: Sv2Service where
  "newSv2Service = \<lparr>channelIdCounter = 1,
     extranonceManager = newExtranonceManager 4 SV2_EXTENDED_TOTAL_EXTRANONCE_SIZE_BYTES\<rparr>"

definition getNextChannelId :: "Sv2Service \<Rightarrow> int \<times> Sv2Service" where
  "getNextChannelId s = (channelIdCounter s, s\<lparr>channelIdCounter := channelIdCounter s + 1\<rparr>)"

text \<open>Two bytes of the counter, big endian, and two random bytes.\<close>

definition generateExtranoncePrefix :: "bytes \<Rightarrow> Sv2Service \<Rightarrow> bytes" where
  "generateExtranoncePrefix random2 s =
     rev (le_bytes 2 (nat (js_and (channelIdCounter s) 0xffff))) @ random2"

definition allocateExtendedExtranoncePrefix :: "int \<Rightarrow> Sv2Service \<Rightarrow> (bytes \<times> Sv2Service) result" where
  "allocateExtendedExtranoncePrefix channelId s =
     rmap (\<lambda>(p, m). (p, s\<lparr>extranonceManager := m\<rparr>)) (allocate channelId (extranonceManager s))"

definition releaseExtendedExtranoncePrefix :: "int \<Rightarrow> Sv2Service \<Rightarrow> Sv2Service" where
  "releaseExtendedExtranoncePrefix channelId s = s\<lparr>extranonceManager := release channelId (extranonceManager s)\<rparr>"

definition getExtendedMinerExtranonceSize :: "Sv2Service \<Rightarrow> int" where
  "getExtendedMinerExtranonceSize s = minerExtranonceSize (extranonceManager s)"

definition getExtendedTotalExtranonceSize :: "Sv2Service \<Rightarrow> int" where
  "getExtendedTotalExtranonceSize s = int (totalExtranonceSize (extranonceManager s))"

end
