(* ===== verification/TemplateProvider.thy ===== *)
theory TemplateProvider
  imports StateError StratumJobs Sv2JdpMessages
begin

text \<open>
  \<open>src/services/template-provider.service.ts\<close>: the recent templates of the node, and what the pool checks
  of work that others declare against them: transactions by their hashes, coinbase height and payouts,
  merkle paths, limits; the block of a declared job.

  \<open>bitcoinjs-lib\<close> is the parameter \<open>tlib\<close>, SHA-256 the parameter \<open>sha256\<close>, the node's answer to
  \<open>testmempoolaccept\<close> the parameter \<open>mempool\<close>, the clock an argument. The \<open>Map\<close> of templates has
  the integer identifier as its key where the code has its decimal text.
\<close>

section \<open>Data\<close>

record provider_lib =
  pl_fromBuffer :: "bytes \<Rightarrow> string + Transaction"
  pl_getId :: "Transaction \<Rightarrow> jsstr"
  pl_getHash :: "bool \<Rightarrow> Transaction \<Rightarrow> bytes"
  pl_encodeNumber :: "int \<Rightarrow> bytes"
  pl_toOutputScript :: "jsstr \<Rightarrow> bytes result"
  pl_merkleRoot :: "Transaction list \<Rightarrow> bytes"
  pl_witnessRoot :: "Transaction list \<Rightarrow> bytes option"

record TemplateProviderTransaction =
  tt_position :: int
  tt_data :: bytes
  tt_txid :: jsstr
  tt_wtxid :: jsstr
  tt_fee :: int
  tt_sigops :: int
  tt_weight :: int

record TemplateProviderTemplate =
  tp_templateId :: int
  tp_jobTemplate :: IJobTemplate
  tp_version :: int
  tp_prevHash :: bytes
  tp_nBits :: jsnum
  tp_minNtime :: jsnum
  tp_coinbaseValue :: int
  tp_networkDifficulty :: jsnum
  tp_target :: bytes
  tp_height :: int
  tp_sigopLimit :: int
  tp_sizeLimit :: int
  tp_weightLimit :: int
  tp_transactions :: "TemplateProviderTransaction list"
  tp_transactionList :: "bytes list"
  tp_txidMap :: "(jsstr \<times> TemplateProviderTransaction) list"
  tp_wtxidMap :: "(jsstr \<times> TemplateProviderTransaction) list"
  tp_createdAt :: int

record DeclareMiningJobValidationResult =
  dv_valid :: bool
  dv_errorCode :: "jsstr option"
  dv_template :: "TemplateProviderTemplate option"
  dv_unknownTxPositionList :: "int list option"

record DatumTemplateValidationInput =
  dt_prevBlockHash :: "bytes option"
  dt_nBits :: "bytes option"
  dt_height :: "int option"
  dt_version :: "int option"
  dt_coinbaseValue :: "int option"
  dt_totalWeight :: "int option"
  dt_totalSize :: "int option"
  dt_totalSigops :: "int option"
  dt_merkleBranches :: "bytes list option"

record TemplateFastPathValidationResult =
  fv_valid :: bool
  fv_errorCode :: "jsstr option"
  fv_template :: "TemplateProviderTemplate option"

record TransactionDataValidationResult =
  tv_valid :: bool
  tv_errorCode :: "jsstr option"
  tv_transactions :: "TemplateProviderTransaction list option"
  tv_totalBytes :: "nat option"

record CoinbasePayoutOutput =
  co_value :: int
  co_scriptPubKey :: bytes

record CoinbasePayoutValidationResult =
  pv_valid :: bool
  pv_errorCode :: "jsstr option"
  pv_expectedOutputs :: "CoinbasePayoutOutput list"
  pv_submittedOutputs :: "CoinbasePayoutOutput list"

text \<open>\<open>{ valid: true }\<close> or \<open>{ valid: false, errorCode }\<close>.\<close>

datatype validity = Valid | Invalid jsstr

record MempoolResult =
  mr_allowed :: bool
  mr_rejectReason :: jsstr
  mr_rejectDetails :: jsstr

record TemplateProvider =
  pr_templates :: "(int \<times> TemplateProviderTemplate) list"
  pr_retentionMs :: int
  pr_latestTemplateId :: "int option"

definition newTemplateProvider :: "int \<Rightarrow> TemplateProvider" where
  "newTemplateProvider retentionMs = \<lparr>pr_templates = [], pr_retentionMs = retentionMs, pr_latestTemplateId = None\<rparr>"

definition VERSION_ROLLING_MASK :: int where "VERSION_ROLLING_MASK = 0x1fffe000"

section \<open>Hashes in both byte orders\<close>

definition hashAliases :: "jsstr \<Rightarrow> jsstr list" where
  "hashAliases hashHex =
     (let normalized = asciiLower hashHex;
          reversed = hexEncode (rev (hexDecode normalized))
      in if normalized = reversed then [normalized] else [normalized, reversed])"

definition matchesHash :: "bytes \<Rightarrow> jsstr \<Rightarrow> bool" where
  "matchesHash candidate expectedHex \<longleftrightarrow> asciiLower (hexEncode candidate) \<in> set (hashAliases expectedHex)"

text \<open>The first alias that the map knows.\<close>

fun lookupAliases :: "(jsstr \<times> 'a) list \<Rightarrow> jsstr list \<Rightarrow> 'a option" where
  "lookupAliases m [] = None"
| "lookupAliases m (alias # aliases) =
     (case map_of m alias of Some found \<Rightarrow> Some found | None \<Rightarrow> lookupAliases m aliases)"

definition setAliases :: "jsstr \<Rightarrow> 'a \<Rightarrow> (jsstr \<times> 'a) list \<Rightarrow> (jsstr \<times> 'a) list" where
  "setAliases hashHex x m = foldl (\<lambda>m key. AList.update key x m) m (hashAliases hashHex)"

definition buildMap ::
    "TemplateProviderTransaction list \<Rightarrow> (TemplateProviderTransaction \<Rightarrow> jsstr) \<Rightarrow>
     (jsstr \<times> TemplateProviderTransaction) list" where
  "buildMap transactions selector = foldl (\<lambda>m tx. setAliases (selector tx) tx m) [] transactions"

definition lookupWtxid :: "TemplateProviderTemplate \<Rightarrow> bytes \<Rightarrow> TemplateProviderTransaction option" where
  "lookupWtxid template hash = lookupAliases (tp_wtxidMap template) (hashAliases (hexEncode hash))"

section \<open>Transactions\<close>

definition fromBuffer :: "provider_lib \<Rightarrow> bytes \<Rightarrow> Transaction result" where
  "fromBuffer tlib data = (case pl_fromBuffer tlib data of Inl message \<Rightarrow> Inl (JsError message) | Inr tx \<Rightarrow> Inr tx)"

fun readAll :: "provider_lib \<Rightarrow> bytes list \<Rightarrow> Transaction list result" where
  "readAll tlib [] = Inr []"
| "readAll tlib (d # ds) = rbind (fromBuffer tlib d) (\<lambda>tx. rmap ((#) tx) (readAll tlib ds))"

definition parseTransaction :: "provider_lib \<Rightarrow> bytes \<Rightarrow> int \<Rightarrow> TemplateProviderTransaction result" where
  "parseTransaction tlib data position =
     rbind (fromBuffer tlib data) (\<lambda>tx.
     Inr \<lparr>tt_position = position, tt_data = data, tt_txid = pl_getId tlib tx,
          tt_wtxid = hexEncode (rev (pl_getHash tlib True tx)), tt_fee = 0, tt_sigops = 0, tt_weight = 0\<rparr>)"

text \<open>\<open>a || b\<close> on texts, \<open>a ?? 0\<close> on numbers.\<close>

definition orText :: "jsstr option \<Rightarrow> jsstr \<Rightarrow> jsstr" where
  "orText a b = (case a of Some (c # s) \<Rightarrow> c # s | _ \<Rightarrow> b)"

definition orZero :: "int option \<Rightarrow> int" where
  "orZero a = (case a of None \<Rightarrow> 0 | Some n \<Rightarrow> n)"

fun buildTransactionsFrom :: "provider_lib \<Rightarrow> int \<Rightarrow> IBlockTemplateTx list \<Rightarrow> TemplateProviderTransaction list result" where
  "buildTransactionsFrom tlib index [] = Inr []"
| "buildTransactionsFrom tlib index (tx # txs) =
     rbind (parseTransaction tlib (hexDecode (bt_data tx)) index) (\<lambda>parsed.
     rmap ((#) (parsed\<lparr>tt_txid := orText (bt_txid tx) (tt_txid parsed),
          tt_wtxid := orText (bt_hash tx) (tt_wtxid parsed), tt_fee := orZero (bt_fee tx),
          tt_sigops := orZero (bt_sigops tx), tt_weight := orZero (bt_weight tx)\<rparr>))
       (buildTransactionsFrom tlib (index + 1) txs))"

definition buildTransactions :: "provider_lib \<Rightarrow> IBlockTemplateTx list \<Rightarrow> TemplateProviderTransaction list result" where
  "buildTransactions tlib rawTransactions = buildTransactionsFrom tlib 0 rawTransactions"

section \<open>The store of templates\<close>

definition cleanupTemplates :: "int \<Rightarrow> TemplateProvider \<Rightarrow> TemplateProvider" where
  "cleanupTemplates now p =
     (let cutoff = now - pr_retentionMs p;
          kept = filter (\<lambda>(i, t). \<not> tp_createdAt t < cutoff) (pr_templates p)
      in p\<lparr>pr_templates := kept,
           pr_latestTemplateId := (case pr_latestTemplateId p of
               None \<Rightarrow> None
             | Some i \<Rightarrow> if i \<in> fst ` set (pr_templates p) \<and> i \<notin> fst ` set kept then None else Some i)\<rparr>)"

text \<open>\<open>BigInt\<close> of what is no integer throws.\<close>

definition bigIntOf :: "jsnum \<Rightarrow> int result" where
  "bigIntOf x = (case x of Num r \<Rightarrow> if r = of_int \<lfloor>r\<rfloor> then Inr \<lfloor>r\<rfloor> else Inl RangeError | _ \<Rightarrow> Inl RangeError)"

definition targetFromDifficulty :: "jsnum \<Rightarrow> bytes result" where
  "targetFromDifficulty difficulty =
     (let maxTarget = 0xffff * 2 ^ (8 * (0x1d - 3))
      in rbind (bigIntOf (js_max (Num 1) (js_floor difficulty))) (\<lambda>divisor.
           Inr (bigIntToLe256 (maxTarget div divisor))))"

definition upsert ::
    "provider_lib \<Rightarrow> int \<Rightarrow> IJobTemplate \<Rightarrow> (TemplateProvider, TemplateProviderTemplate) sm" where
  "upsert tlib now jobTemplate =
     andThen (modify (cleanupTemplates now)) (\<lambda>_.
     andThen (lift (bigIntOf (parseInt 16 (jt_id jobTemplate)))) (\<lambda>templateId.
     andThen (lift (buildTransactions tlib
        (case jt_transactions jobTemplate of None \<Rightarrow> [] | Some txs \<Rightarrow> txs))) (\<lambda>transactions.
     andThen (lift (targetFromDifficulty (jt_networkDifficulty jobTemplate))) (\<lambda>target.
     (let block = jt_block jobTemplate;
          template = \<lparr>tp_templateId = templateId, tp_jobTemplate = jobTemplate, tp_version = blk_version block,
            tp_prevHash = blk_prevHash block, tp_nBits = blk_bits block, tp_minNtime = blk_timestamp block,
            tp_coinbaseValue = jt_coinbasevalue jobTemplate,
            tp_networkDifficulty = jt_networkDifficulty jobTemplate, tp_target = target,
            tp_height = jt_height jobTemplate,
            tp_sigopLimit = (case jt_sigoplimit jobTemplate of None \<Rightarrow> 80000 | Some n \<Rightarrow> n),
            tp_sizeLimit = (case jt_sizelimit jobTemplate of None \<Rightarrow> 4000000 | Some n \<Rightarrow> n),
            tp_weightLimit = (case jt_weightlimit jobTemplate of None \<Rightarrow> 4000000 | Some n \<Rightarrow> n),
            tp_transactions = transactions, tp_transactionList = map tt_data transactions,
            tp_txidMap = buildMap transactions tt_txid, tp_wtxidMap = buildMap transactions tt_wtxid,
            tp_createdAt = now\<rparr>
      in andThen (modify (\<lambda>p. p\<lparr>pr_templates := AList.update templateId template (pr_templates p),
           pr_latestTemplateId := Some templateId\<rparr>)) (\<lambda>_. ret template))))))"

definition getTemplate :: "int \<Rightarrow> int \<Rightarrow> (TemplateProvider, TemplateProviderTemplate option) sm" where
  "getTemplate now templateId =
     andThen (modify (cleanupTemplates now)) (\<lambda>_. readState (\<lambda>p. map_of (pr_templates p) templateId))"

definition getLatestTemplate :: "int \<Rightarrow> (TemplateProvider, TemplateProviderTemplate option) sm" where
  "getLatestTemplate now =
     andThen (modify (cleanupTemplates now)) (\<lambda>_.
       readState (\<lambda>p. Option.bind (pr_latestTemplateId p) (map_of (pr_templates p))))"

section \<open>Coinbase transactions\<close>

definition readBitcoinVarInt :: "bytes \<Rightarrow> nat \<Rightarrow> (nat \<times> nat) option" where
  "readBitcoinVarInt buf off =
     (case drop off buf of
        [] \<Rightarrow> None
      | first # rest \<Rightarrow>
          if unat first < 0xfd then Some (unat first, off + 1)
          else (let size = (if first = 0xfd then 2 else if first = 0xfe then 4 else 8)
                in if length rest < size then None else Some (le_nat (take size rest), off + 1 + size)))"

definition getCoinbaseInputScriptStart :: "bytes \<Rightarrow> nat option" where
  "getCoinbaseInputScriptStart txPrefix =
     (if length txPrefix < 5 then None
      else (let cursor = (if length txPrefix \<ge> 6 \<and> txPrefix ! 4 = 0 \<and> txPrefix ! 5 \<noteq> 0 then 6 else 4)
            in case readBitcoinVarInt txPrefix cursor of
                 None \<Rightarrow> None
               | Some (inputCount, cursor) \<Rightarrow>
                   if inputCount \<noteq> 1 \<or> length txPrefix < cursor + 36 then None
                   else map_option snd (readBitcoinVarInt txPrefix (cursor + 36))))"

definition buildCoinbaseHeightPrefix :: "provider_lib \<Rightarrow> int \<Rightarrow> bytes" where
  "buildCoinbaseHeightPrefix tlib height =
     (let encodedHeight = pl_encodeNumber tlib height in of_nat (length encodedHeight) # encodedHeight)"

definition validateCoinbaseScriptHeight :: "provider_lib \<Rightarrow> bytes \<Rightarrow> int \<Rightarrow> validity" where
  "validateCoinbaseScriptHeight tlib script height =
     (let expected = buildCoinbaseHeightPrefix tlib height
      in if length script < length expected \<or> take (length expected) script \<noteq> expected
         then Invalid (jstr ''invalid-job-param-value-coinbase_tx_prefix'') else Valid)"

definition validateDeclaredCoinbasePrefixHeight :: "provider_lib \<Rightarrow> bytes \<Rightarrow> int \<Rightarrow> validity" where
  "validateDeclaredCoinbasePrefixHeight tlib coinbaseTxPrefix height =
     (case getCoinbaseInputScriptStart coinbaseTxPrefix of
        None \<Rightarrow> validateCoinbaseScriptHeight tlib coinbaseTxPrefix height
      | Some scriptStart \<Rightarrow>
          if length coinbaseTxPrefix < scriptStart + length (buildCoinbaseHeightPrefix tlib height)
          then Invalid (jstr ''invalid-job-param-value-coinbase_tx_prefix'')
          else validateCoinbaseScriptHeight tlib (drop scriptStart coinbaseTxPrefix) height)"

definition validateCoinbaseTransactionHeight :: "provider_lib \<Rightarrow> bytes \<Rightarrow> int \<Rightarrow> validity" where
  "validateCoinbaseTransactionHeight tlib coinbaseTx height =
     (case pl_fromBuffer tlib coinbaseTx of
        Inl message \<Rightarrow> Invalid (jstr ''invalid-coinbase-transaction:'' @ jstr message)
      | Inr tx \<Rightarrow> (case tx_ins tx of
            [input] \<Rightarrow> validateCoinbaseScriptHeight tlib (in_script input) height
          | _ \<Rightarrow> Invalid (jstr ''invalid-coinbase-input-count'')))"

definition isWitnessCommitmentOutput :: "bytes \<Rightarrow> bool" where
  "isWitnessCommitmentOutput script \<longleftrightarrow> length script = 38 \<and> script ! 0 = 0x6a \<and> script ! 1 = 0x24
     \<and> take 4 (drop 2 script) = hexDecode (jstr ''aa21a9ed'')"

text \<open>The amounts are exact below $2^{53}$, except that a percentage is taken in binary64 and floored.\<close>

fun payoutOutputsFrom ::
    "(jsstr \<Rightarrow> bytes result) \<Rightarrow> int \<Rightarrow> AddressObject list \<Rightarrow> int \<Rightarrow> (int \<times> CoinbasePayoutOutput list) result" where
  "payoutOutputsFrom toOutputScript rewardValue [] rewardBalance = Inr (rewardBalance, [])"
| "payoutOutputsFrom toOutputScript rewardValue (recipient # rest) rewardBalance =
     (let value = outputAmount rewardValue recipient
      in rbind (toOutputScript (ao_address recipient)) (\<lambda>script.
         rbind (payoutOutputsFrom toOutputScript rewardValue rest (rewardBalance - value)) (\<lambda>(balance, outs).
           Inr (balance, \<lparr>co_value = value, co_scriptPubKey = script\<rparr> # outs))))"

text \<open>What the first recipient gets is corrected by what the rounding left over.\<close>

datatype CoinbaseValue = NumberValue jsnum | BigIntValue int

definition rewardValueOf :: "CoinbaseValue \<Rightarrow> int result" where
  "rewardValueOf coinbaseValue = (case coinbaseValue of
      BigIntValue v \<Rightarrow> Inr v
    | NumberValue x \<Rightarrow> bigIntOf (js_max (Num 0) (js_floor x)))"

definition buildCoinbasePayoutOutputs ::
    "(jsstr \<Rightarrow> bytes result) \<Rightarrow> AddressObject list \<Rightarrow> CoinbaseValue \<Rightarrow> CoinbasePayoutOutput list result" where
  "buildCoinbasePayoutOutputs toOutputScript payoutInformation coinbaseValue =
     rbind (rewardValueOf coinbaseValue) (\<lambda>rewardValue.
     rbind (payoutOutputsFrom toOutputScript rewardValue payoutInformation rewardValue) (\<lambda>(rewardBalance, outputs).
       Inr (case outputs of
          [] \<Rightarrow> []
        | first # others \<Rightarrow>
            (if rewardBalance \<noteq> 0 then first\<lparr>co_value := co_value first + rewardBalance\<rparr> else first) # others)))"

definition submittedOutputs :: "Transaction \<Rightarrow> CoinbasePayoutOutput list" where
  "submittedOutputs tx =
     map (\<lambda>out. \<lparr>co_value = out_value out, co_scriptPubKey = out_script out\<rparr>)
       (filter (\<lambda>out. out_value out \<noteq> 0)
         (filter (\<lambda>out. \<not> isWitnessCommitmentOutput (out_script out)) (tx_outs tx)))"

fun firstMismatch :: "nat \<Rightarrow> 'a list \<Rightarrow> 'a list \<Rightarrow> nat option" where
  "firstMismatch i (x # xs) (y # ys) = (if x \<noteq> y then Some i else firstMismatch (i + 1) xs ys)"
| "firstMismatch i _ _ = None"

definition validateCoinbaseTransactionPayoutOutputs ::
    "provider_lib \<Rightarrow> bytes \<Rightarrow> AddressObject list \<Rightarrow> CoinbaseValue \<Rightarrow> CoinbasePayoutValidationResult result" where
  "validateCoinbaseTransactionPayoutOutputs tlib coinbaseTx payoutInformation coinbaseValue =
     rbind (buildCoinbasePayoutOutputs (pl_toOutputScript tlib) payoutInformation coinbaseValue) (\<lambda>expected.
       Inr (if expected = []
            then \<lparr>pv_valid = False, pv_errorCode = Some (jstr ''missing-expected-coinbase-payouts''),
                  pv_expectedOutputs = expected, pv_submittedOutputs = []\<rparr>
            else (case pl_fromBuffer tlib coinbaseTx of
                Inl message \<Rightarrow>
                  \<lparr>pv_valid = False,
                   pv_errorCode = Some (jstr ''invalid-coinbase-transaction:'' @ jstr message),
                   pv_expectedOutputs = expected, pv_submittedOutputs = []\<rparr>
              | Inr tx \<Rightarrow>
                  (let submitted = submittedOutputs tx;
                       code = (if length submitted \<noteq> length expected
                           then Some (jstr ''coinbase-payout-output-count-mismatch:'' @ toString10 (length expected)
                                  @ jstr '':'' @ toString10 (length submitted))
                           else map_option (\<lambda>i. jstr ''coinbase-payout-output-mismatch:'' @ toString10 i)
                                  (firstMismatch 0 expected submitted))
                   in \<lparr>pv_valid = (code = None), pv_errorCode = code, pv_expectedOutputs = expected,
                       pv_submittedOutputs = submitted\<rparr>))))"

section \<open>Declared transactions\<close>

text \<open>The loop over the declared hashes: what was seen, the unknown positions, whether one came twice.\<close>

fun scanWtxids ::
    "TemplateProviderTemplate \<Rightarrow> int \<Rightarrow> bytes list \<Rightarrow> jsstr set \<Rightarrow> int list \<times> bool" where
  "scanWtxids template index [] seen = ([], False)"
| "scanWtxids template index (wtxid # rest) seen =
     (let aliases = hashAliases (hexEncode wtxid)
      in if list_ex (\<lambda>alias. alias \<in> seen) aliases
         then (case scanWtxids template (index + 1) rest seen of (unknown, _) \<Rightarrow> (index # unknown, True))
         else (case scanWtxids template (index + 1) rest (set aliases \<union> seen) of
             (unknown, duplicate) \<Rightarrow>
               (if lookupWtxid template wtxid = None then index # unknown else unknown, duplicate)))"

definition invalidDeclaration :: "string \<Rightarrow> TemplateProviderTemplate option \<Rightarrow> DeclareMiningJobValidationResult" where
  "invalidDeclaration code template = \<lparr>dv_valid = False, dv_errorCode = Some (jstr code), dv_template = template,
     dv_unknownTxPositionList = None\<rparr>"

definition validateDeclaredWtxids ::
    "provider_lib \<Rightarrow> int \<Rightarrow> int \<Rightarrow> bytes list \<Rightarrow> bytes option \<Rightarrow>
     (TemplateProvider, DeclareMiningJobValidationResult) sm" where
  "validateDeclaredWtxids tlib now version wtxidList coinbaseTxPrefix =
     andThen (getLatestTemplate now) (\<lambda>latest. ret (case latest of
         None \<Rightarrow> invalidDeclaration ''template-not-found'' None
       | Some template \<Rightarrow>
          if version \<noteq> tp_version template then invalidDeclaration ''version-mismatch'' (Some template)
          else (case (case coinbaseTxPrefix of
                   None \<Rightarrow> Valid
                 | Some p \<Rightarrow> validateDeclaredCoinbasePrefixHeight tlib p (tp_height template)) of
              Invalid code \<Rightarrow> \<lparr>dv_valid = False, dv_errorCode = Some code, dv_template = Some template,
                dv_unknownTxPositionList = None\<rparr>
            | Valid \<Rightarrow>
                (case scanWtxids template 0 wtxidList {} of (unknown, duplicate) \<Rightarrow>
                   if duplicate
                   then \<lparr>dv_valid = False, dv_errorCode = Some (jstr ''duplicate-transactions''),
                         dv_template = Some template, dv_unknownTxPositionList = Some unknown\<rparr>
                   else \<lparr>dv_valid = (unknown = []),
                         dv_errorCode = (if unknown = [] then None else Some (jstr ''missing-transactions'')),
                         dv_template = Some template, dv_unknownTxPositionList = Some unknown\<rparr>))))"

text \<open>The merkle path of the first leaf, level by level. A level without a sibling repeats its node.\<close>

fun nextLevel :: "(bytes \<Rightarrow> bytes) \<Rightarrow> bytes list \<Rightarrow> bytes list" where
  "nextLevel sha256 (l # r # rest) = hash256 sha256 (l @ r) # nextLevel sha256 rest"
| "nextLevel sha256 [l] = [hash256 sha256 (l @ l)]"
| "nextLevel sha256 [] = []"

lemma length_nextLevel: "length (nextLevel sha256 level) = (length level + 1) div 2"
  by (induction sha256 level rule: nextLevel.induct) simp_all

function merklePathFrom :: "(bytes \<Rightarrow> bytes) \<Rightarrow> bytes list \<Rightarrow> nat \<Rightarrow> bytes list" where
  "merklePathFrom sha256 level index =
     (if length level \<le> 1 then []
      else (let siblingIndex = nat (js_xor (int index) 1)
            in (if siblingIndex < length level then level ! siblingIndex else level ! index)
               # merklePathFrom sha256 (nextLevel sha256 level) (index div 2)))"
  by pat_completeness auto
termination
  by (relation "measure (\<lambda>(_, level, _). length level)") (auto simp: length_nextLevel)

declare merklePathFrom.simps [simp del]

definition buildCoinbaseMerklePath :: "provider_lib \<Rightarrow> (bytes \<Rightarrow> bytes) \<Rightarrow> bytes list \<Rightarrow> bytes list result" where
  "buildCoinbaseMerklePath tlib sha256 transactionList =
     rbind (readAll tlib transactionList) (\<lambda>txs.
       Inr (merklePathFrom sha256 (replicate 32 0 # map (pl_getHash tlib False) txs) 0))"

text \<open>The loop over the transactions: size limit and decoding, with the bytes counted so far.\<close>

definition exceeded :: "nat option \<Rightarrow> nat \<Rightarrow> nat option" where
  "exceeded maxTotalBytes totalBytes =
     (case maxTotalBytes of None \<Rightarrow> None | Some limit \<Rightarrow> if totalBytes > limit then Some limit else None)"

definition messageOf :: "jserror \<Rightarrow> jsstr" where
  "messageOf e = (case e of JsError m \<Rightarrow> jstr m | _ \<Rightarrow> [])"

fun checkTransactions ::
    "provider_lib \<Rightarrow> nat option \<Rightarrow> int \<Rightarrow> nat \<Rightarrow> bytes list \<Rightarrow>
     (jsstr \<times> nat) + (TemplateProviderTransaction list \<times> nat)" where
  "checkTransactions tlib maxTotalBytes i totalBytes [] = Inr ([], totalBytes)"
| "checkTransactions tlib maxTotalBytes i totalBytes (raw # rest) =
     (let totalBytes = totalBytes + length raw
      in case exceeded maxTotalBytes totalBytes of
           Some limit \<Rightarrow>
             Inl (jstr ''transaction-bytes-exceed-limit:'' @ toString10 totalBytes @ jstr '':'' @ toString10 limit,
                  totalBytes)
         | None \<Rightarrow> (case parseTransaction tlib raw i of
               Inl e \<Rightarrow> Inl (jstr ''transaction-decode-failed:'' @ intToString10 i @ jstr '':'' @ messageOf e, totalBytes)
             | Inr tx \<Rightarrow> (case checkTransactions tlib maxTotalBytes (i + 1) totalBytes rest of
                   Inl failure \<Rightarrow> Inl failure
                 | Inr (txs, n) \<Rightarrow> Inr (tx # txs, n))))"

definition invalidData :: "jsstr \<Rightarrow> nat option \<Rightarrow> TransactionDataValidationResult" where
  "invalidData code totalBytes = \<lparr>tv_valid = False, tv_errorCode = Some code, tv_transactions = None,
     tv_totalBytes = totalBytes\<rparr>"

definition merklePathFailure :: "bytes list \<Rightarrow> bytes list \<Rightarrow> jsstr option" where
  "merklePathFailure expected merklePath =
     (if length merklePath \<noteq> length expected
      then Some (jstr ''merkle-path-length-mismatch:'' @ toString10 (length expected) @ jstr '':''
             @ toString10 (length merklePath))
      else map_option (\<lambda>i. jstr ''merkle-path-mismatch:'' @ toString10 i) (firstMismatch 0 merklePath expected))"

definition checkTransactionData ::
    "provider_lib \<Rightarrow> (bytes \<Rightarrow> bytes) \<Rightarrow> bytes list \<Rightarrow> nat option \<Rightarrow> bytes list option \<Rightarrow>
     TransactionDataValidationResult result" where
  "checkTransactionData tlib sha256 transactionList maxTotalBytes expectedCoinbaseMerklePath =
     (case checkTransactions tlib maxTotalBytes 0 0 transactionList of
        Inl (code, totalBytes) \<Rightarrow> Inr (invalidData code (Some totalBytes))
      | Inr (txs, totalBytes) \<Rightarrow>
          rbind (case expectedCoinbaseMerklePath of
              None \<Rightarrow> Inr None
            | Some expected \<Rightarrow> rmap (merklePathFailure expected)
                (buildCoinbaseMerklePath tlib sha256 transactionList)) (\<lambda>failure.
          Inr (case failure of
              Some code \<Rightarrow> invalidData code (Some totalBytes)
            | None \<Rightarrow> \<lparr>tv_valid = True, tv_errorCode = None, tv_transactions = Some txs,
                tv_totalBytes = Some totalBytes\<rparr>)))"

definition validateTransactionData ::
    "provider_lib \<Rightarrow> (bytes \<Rightarrow> bytes) \<Rightarrow> bytes list \<Rightarrow> nat option \<Rightarrow> nat option \<Rightarrow> bytes list option \<Rightarrow>
     TransactionDataValidationResult result" where
  "validateTransactionData tlib sha256 transactionList expectedCount maxTotalBytes expectedCoinbaseMerklePath =
     (case expectedCount of
        None \<Rightarrow> checkTransactionData tlib sha256 transactionList maxTotalBytes expectedCoinbaseMerklePath
      | Some n \<Rightarrow>
          if length transactionList \<noteq> n
          then Inr (invalidData (jstr ''transaction-count-mismatch:'' @ toString10 n @ jstr '':''
                 @ toString10 (length transactionList)) None)
          else checkTransactionData tlib sha256 transactionList maxTotalBytes expectedCoinbaseMerklePath)"

text \<open>
  The node's verdict. \<open>mempool\<close> is \<open>None\<close> without an RPC service; an answer that throws is \<open>Inl\<close> of the
  message.
\<close>

definition validateMempoolPolicy :: "(bytes list \<Rightarrow> jsstr + MempoolResult list) option \<Rightarrow> bytes list \<Rightarrow> validity" where
  "validateMempoolPolicy mempool transactionList =
     (if transactionList = [] then Valid
      else (case mempool of
          None \<Rightarrow> Valid
        | Some testAccept \<Rightarrow> (case testAccept transactionList of
              Inl message \<Rightarrow> Invalid (jstr ''mempool-validation-failed:'' @ message)
            | Inr results \<Rightarrow> (case find (\<lambda>r. \<not> mr_allowed r) results of
                  None \<Rightarrow> Valid
                | Some r \<Rightarrow> Invalid (if mr_rejectReason r \<noteq> [] then mr_rejectReason r
                    else if mr_rejectDetails r \<noteq> [] then mr_rejectDetails r
                    else jstr ''mempool-rejected-transaction'')))))"

text \<open>Every provided transaction has the declared hash at the position that was asked for.\<close>

definition providedMatches :: "bytes list \<Rightarrow> int \<Rightarrow> TemplateProviderTransaction \<Rightarrow> bool" where
  "providedMatches expectedWtxids position provided \<longleftrightarrow>
     0 \<le> position \<and> position < int (length expectedWtxids)
     \<and> matchesHash (expectedWtxids ! nat position) (tt_wtxid provided)"

definition validateProvidedTransactions ::
    "provider_lib \<Rightarrow> (bytes \<Rightarrow> bytes) \<Rightarrow> (bytes list \<Rightarrow> jsstr + MempoolResult list) option \<Rightarrow>
     bytes list \<Rightarrow> int list \<Rightarrow> bytes list \<Rightarrow> validity result" where
  "validateProvidedTransactions tlib sha256 mempool expectedWtxids unknownTxPositionList transactionList =
     (if length unknownTxPositionList \<noteq> length transactionList
      then Inr (Invalid (jstr ''missing-transaction-count-mismatch''))
      else rbind (validateTransactionData tlib sha256 transactionList (Some (length transactionList)) None None)
        (\<lambda>validation.
        Inr (if \<not> tv_valid validation
             then Invalid (case tv_errorCode validation of Some code \<Rightarrow> code | None \<Rightarrow> [])
             else if \<not> list_all2 (providedMatches expectedWtxids) unknownTxPositionList
                 (case tv_transactions validation of Some txs \<Rightarrow> txs | None \<Rightarrow> [])
             then Invalid (jstr ''transaction-wtxid-mismatch'')
             else validateMempoolPolicy mempool transactionList)))"

section \<open>Work of DATUM gateways\<close>

definition isCompatibleVersion :: "int \<Rightarrow> int \<Rightarrow> bool" where
  "isCompatibleVersion candidate templateVersion \<longleftrightarrow>
     js_and (js_xor (js_ushr candidate 0) (js_ushr templateVersion 0)) (js_not VERSION_ROLLING_MASK) = 0"

text \<open>An absent field is not checked.\<close>

definition present :: "('a \<Rightarrow> bool) \<Rightarrow> 'a option \<Rightarrow> bool" where
  "present P x = (case x of None \<Rightarrow> False | Some a \<Rightarrow> P a)"

definition fastPathFailure :: "DatumTemplateValidationInput \<Rightarrow> TemplateProviderTemplate \<Rightarrow> jsstr option" where
  "fastPathFailure input template =
     (if present (\<lambda>h. \<not> matchesHash h (hexEncode (tp_prevHash template))) (dt_prevBlockHash input)
      then Some (jstr ''prevhash-mismatch'')
      else if present (\<lambda>b. length b \<noteq> 4 \<or> Num (of_nat (le_nat b)) \<noteq> tp_nBits template) (dt_nBits input)
      then Some (jstr ''nbits-mismatch'')
      else if present (\<lambda>h. h \<noteq> tp_height template) (dt_height input) then Some (jstr ''height-mismatch'')
      else if present (\<lambda>v. \<not> isCompatibleVersion v (tp_version template)) (dt_version input)
      then Some (jstr ''version-mismatch'')
      else if present (\<lambda>v. v > tp_coinbaseValue template) (dt_coinbaseValue input)
      then Some (jstr ''coinbase-value-too-high'')
      else if present (\<lambda>w. w > tp_weightLimit template) (dt_totalWeight input)
      then Some (jstr ''weight-limit-exceeded'')
      else if present (\<lambda>n. n > tp_sizeLimit template) (dt_totalSize input) then Some (jstr ''size-limit-exceeded'')
      else if present (\<lambda>n. n > tp_sigopLimit template) (dt_totalSigops input)
      then Some (jstr ''sigop-limit-exceeded'')
      else if present (list_ex (\<lambda>b. length b \<noteq> 32)) (dt_merkleBranches input)
      then Some (jstr ''bad-merkle-branch'') else None)"

definition validateDatumTemplateFastPath ::
    "int \<Rightarrow> DatumTemplateValidationInput \<Rightarrow> (TemplateProvider, TemplateFastPathValidationResult) sm" where
  "validateDatumTemplateFastPath now input =
     andThen (getLatestTemplate now) (\<lambda>latest. ret (case latest of
         None \<Rightarrow> \<lparr>fv_valid = False, fv_errorCode = Some (jstr ''template-not-found''), fv_template = None\<rparr>
       | Some template \<Rightarrow>
           (let code = fastPathFailure input template
            in \<lparr>fv_valid = (code = None), fv_errorCode = code, fv_template = Some template\<rparr>)))"

section \<open>Blocks\<close>

text \<open>A witness commitment that cannot be computed is \<open>null\<close>, here the empty buffer; it is not serialized.\<close>

definition assembleBlock ::
    "provider_lib \<Rightarrow> int \<Rightarrow> bytes \<Rightarrow> int \<Rightarrow> jsnum \<Rightarrow> int \<Rightarrow> Transaction list \<Rightarrow> Block" where
  "assembleBlock tlib version prevHash timestamp bits nonce transactions =
     \<lparr>blk_version = version, blk_prevHash = prevHash, blk_merkleRoot = pl_merkleRoot tlib transactions,
      blk_timestamp = Num (of_int timestamp), blk_bits = bits, blk_nonce = Num (of_int nonce),
      blk_witnessCommit = (case pl_witnessRoot tlib transactions of None \<Rightarrow> [] | Some h \<Rightarrow> h),
      blk_transactions = transactions\<rparr>"

definition buildBlockFromSolution ::
    "provider_lib \<Rightarrow> TemplateProviderTemplate \<Rightarrow> bytes \<Rightarrow> int \<Rightarrow> int \<Rightarrow> int \<Rightarrow> Block result" where
  "buildBlockFromSolution tlib template coinbaseTx version headerTimestamp headerNonce =
     rmap (assembleBlock tlib version (tp_prevHash template) headerTimestamp (tp_nBits template) headerNonce)
       (readAll tlib (coinbaseTx # tp_transactionList template))"

fun addProvided :: "provider_lib \<Rightarrow> bytes list \<Rightarrow> (jsstr \<times> bytes) list \<Rightarrow> (jsstr \<times> bytes) list result" where
  "addProvided tlib [] m = Inr m"
| "addProvided tlib (provided # rest) m =
     rbind (parseTransaction tlib provided (- 1)) (\<lambda>parsed.
       addProvided tlib rest (setAliases (tt_wtxid parsed) provided m))"

definition buildDeclaredTransactionMap ::
    "provider_lib \<Rightarrow> TemplateProviderTemplate \<Rightarrow> bytes list \<Rightarrow> (jsstr \<times> bytes) list result" where
  "buildDeclaredTransactionMap tlib template providedTransactions =
     addProvided tlib providedTransactions
       (foldl (\<lambda>m tx. setAliases (tt_wtxid tx) (tt_data tx) m) [] (tp_transactions template))"

definition lookupDeclaredTransaction :: "(jsstr \<times> bytes) list \<Rightarrow> bytes \<Rightarrow> bytes option" where
  "lookupDeclaredTransaction m hash = lookupAliases m (hashAliases (hexEncode hash))"

fun declaredTransactions ::
    "provider_lib \<Rightarrow> (jsstr \<times> bytes) list \<Rightarrow> bytes list \<Rightarrow> Transaction list result" where
  "declaredTransactions tlib m [] = Inr []"
| "declaredTransactions tlib m (wtxid # rest) =
     (case lookupDeclaredTransaction m wtxid of
        None \<Rightarrow> Inl (JsError ''declared-transaction-not-found'')
      | Some raw \<Rightarrow> rbind (fromBuffer tlib raw) (\<lambda>tx. rmap ((#) tx) (declaredTransactions tlib m rest)))"

definition buildBlockFromDeclaredJobSolution ::
    "provider_lib \<Rightarrow> TemplateProviderTemplate \<Rightarrow> Sv2DeclareMiningJob \<Rightarrow> bytes list \<Rightarrow> Sv2PushSolution \<Rightarrow>
     Block result" where
  "buildBlockFromDeclaredJobSolution tlib template job providedTransactions solution =
     rbind (buildDeclaredTransactionMap tlib template providedTransactions) (\<lambda>transactionMap.
     rbind (fromBuffer tlib (declareMiningJob_coinbaseTxPrefix job @ pushSolution_extranonce solution
        @ declareMiningJob_coinbaseTxSuffix job)) (\<lambda>coinbase.
     rbind (declaredTransactions tlib transactionMap (declareMiningJob_wtxidList job)) (\<lambda>transactions.
       Inr (assembleBlock tlib (pushSolution_version solution) (tp_prevHash template)
         (pushSolution_ntime solution) (Num (of_int (pushSolution_nBits solution))) (pushSolution_nonce solution)
         (coinbase # transactions)))))"

end
