(* ===== verification/CustomWork.thy ===== *)
theory CustomWork
  imports MiningJob Sv2JdpMessages
begin

text \<open>
  \<open>src/services/custom-work.service.ts\<close>: work that a miner or a gateway has assembled itself. The pool cuts
  the coinbase of such a job around the extranonce, rebuilds merkle root and header of a share and judges it.
  SHA-256 is the parameter \<open>sha256\<close>.
\<close>

section \<open>Definitions\<close>

record CustomWorkCoinbaseSplit =
  split_coinbasePrefix :: bytes
  split_coinbaseSuffix :: bytes

record CustomWorkShareValidationInput =
  cw_coinbasePrefix :: bytes
  cw_coinbaseSuffix :: bytes
  cw_coinbaseTargetByteIndex :: "int option"
  cw_coinbaseTargetByte :: "int option"
  cw_merklePath :: "bytes list"
  cw_extranoncePrefix :: bytes
  cw_extranonce :: bytes
  cw_prevHash :: bytes
  cw_nBits :: int
  cw_version :: int
  cw_ntime :: int
  cw_nonce :: int
  cw_shareDifficulty :: jsnum
  cw_networkDifficulty :: jsnum

record CustomWorkShareValidationResult =
  cr_header :: bytes
  cr_merkleRoot :: bytes
  cr_hashBuffer :: bytes
  cr_submissionDifficulty :: jsnum
  cr_accepted :: bool
  cr_isBlockCandidate :: bool

definition encodeBitcoinVarInt :: "int \<Rightarrow> bytes result" where
  "encodeBitcoinVarInt value =
     (if value > 2 ^ 53 - 1 \<or> value < 0 then Inl RangeError
      else if value < 0xfd then Inr [byte_of value]
      else if value \<le> 0xffff then Inr (0xfd # le_bytes 2 (nat value))
      else if value \<le> 0xffffffff then Inr (0xfe # le_bytes 4 (nat value))
      else Inr (0xff # le_bytes 8 (nat value)))"

text \<open>\<open>writeUInt32LE(x >>> 0)\<close> never throws.\<close>

definition uint32LE :: "int \<Rightarrow> bytes" where
  "uint32LE x = le_bytes 4 (nat (js_ushr x 0))"

definition nullOutpoint :: bytes where
  "nullOutpoint = replicate 32 0 @ [0xff, 0xff, 0xff, 0xff]"

definition buildSv2CoinbaseSplit :: "Sv2SetCustomMiningJob \<Rightarrow> nat \<Rightarrow> CustomWorkCoinbaseSplit result" where
  "buildSv2CoinbaseSplit job totalExtranonceSize =
     rbind (encodeBitcoinVarInt (int (length (setCustomMiningJob_coinbasePrefix job) + totalExtranonceSize)))
       (\<lambda>scriptSigLenVarint.
     Inr \<lparr>split_coinbasePrefix = uint32LE (setCustomMiningJob_coinbaseTxVersion job) @ [0x01] @ nullOutpoint
            @ scriptSigLenVarint @ setCustomMiningJob_coinbasePrefix job,
          split_coinbaseSuffix = uint32LE (setCustomMiningJob_coinbaseTxInputNSequence job)
            @ setCustomMiningJob_coinbaseTxOutputs job @ uint32LE (setCustomMiningJob_coinbaseTxLocktime job)\<rparr>)"

text \<open>\<open>copy\<close> into the zeroed pair drops what does not fit, so that the loop never throws.\<close>

fun foldMerklePath :: "(bytes \<Rightarrow> bytes) \<Rightarrow> bytes \<Rightarrow> bytes list \<Rightarrow> bytes" where
  "foldMerklePath sha256 merkleRoot [] = merkleRoot"
| "foldMerklePath sha256 merkleRoot (sibling # siblings) =
     (let pair = put_at 32 sibling (put_at 0 merkleRoot (replicate 64 0))
      in foldMerklePath sha256 (hash256 sha256 pair) siblings)"

definition computeMerkleRoot :: "(bytes \<Rightarrow> bytes) \<Rightarrow> bytes \<Rightarrow> bytes list \<Rightarrow> bytes" where
  "computeMerkleRoot sha256 coinbaseTx merklePath = foldMerklePath sha256 (hash256 sha256 coinbaseTx) merklePath"

definition buildHeader :: "bytes \<Rightarrow> bytes \<Rightarrow> int \<Rightarrow> int \<Rightarrow> int \<Rightarrow> int \<Rightarrow> bytes result" where
  "buildHeader prevHash merkleRoot version timestamp nBits nonce =
     rbind (encodeInt32LE version) (\<lambda>v.
     (let buf = put_at 0 v (replicate 80 0);
          buf = put_at 4 prevHash buf;
          buf = put_at 36 merkleRoot buf;
          buf = put_at 68 (uint32LE timestamp) buf;
          buf = put_at 72 (uint32LE nBits) buf
      in Inr (put_at 76 (uint32LE nonce) buf)))"

definition patchTargetByte :: "int option \<Rightarrow> int option \<Rightarrow> bytes \<Rightarrow> bytes result" where
  "patchTargetByte targetIndex targetByte coinbaseTx = (case (targetIndex, targetByte) of
      (None, None) \<Rightarrow> Inr coinbaseTx
    | (Some i, Some b) \<Rightarrow>
        if i < 0 \<or> i \<ge> int (length coinbaseTx) then Inl RangeError
        else Inr (coinbaseTx[nat i := byte_of (js_and b 0xff)])
    | _ \<Rightarrow> Inl RangeError)"

definition validateShare ::
    "(bytes \<Rightarrow> bytes) \<Rightarrow> CustomWorkShareValidationInput \<Rightarrow> CustomWorkShareValidationResult result" where
  "validateShare sha256 input =
     rbind (patchTargetByte (cw_coinbaseTargetByteIndex input) (cw_coinbaseTargetByte input)
       (cw_coinbasePrefix input @ cw_extranoncePrefix input @ cw_extranonce input @ cw_coinbaseSuffix input))
       (\<lambda>coinbaseTx.
     (let merkleRoot = computeMerkleRoot sha256 coinbaseTx (cw_merklePath input)
      in rbind (buildHeader (cw_prevHash input) merkleRoot (cw_version input) (cw_ntime input) (cw_nBits input)
           (cw_nonce input)) (\<lambda>headerBuffer.
         (let judged = calculateDifficulty sha256 headerBuffer
          in rbind (difficultyToTarget (cw_shareDifficulty input)) (\<lambda>shareTarget.
             rbind (difficultyToTarget (cw_networkDifficulty input)) (\<lambda>networkTarget.
               Inr \<lparr>cr_header = headerBuffer, cr_merkleRoot = merkleRoot, cr_hashBuffer = hashBuffer judged,
                    cr_submissionDifficulty = submissionDifficulty judged,
                    cr_accepted = meetsTarget (hashBuffer judged) shareTarget,
                    cr_isBlockCandidate = meetsTarget (hashBuffer judged) networkTarget\<rparr>))))))"

end
