(* ===== verification/JobRegistry.thy ===== *)
theory JobRegistry
  imports TemplateProvider CustomWork
begin

text \<open>
  \<open>src/services/sv2-job-declaration-registry.service.ts\<close>: the tokens that the job declaration service hands
  out and the jobs declared under them, both with a time to live. The clock and the random tokens are
  arguments; the maps are keyed by the token where the code has its hexadecimal text.
\<close>

section \<open>Definitions\<close>

record Sv2AllocatedMiningJobToken =
  am_token :: bytes
  am_userIdentifier :: jsstr
  am_coinbaseOutputs :: bytes
  am_createdAt :: int

datatype ValidationMode = token_only | full_template

record Sv2DeclaredMiningJob =
  dj_originalToken :: bytes
  dj_token :: bytes
  dj_userIdentifier :: jsstr
  dj_job :: Sv2DeclareMiningJob
  dj_createdAt :: int
  dj_templateId :: "int option"
  dj_template :: "TemplateProviderTemplate option"
  dj_validationMode :: ValidationMode
  dj_providedTransactions :: "bytes list"

text \<open>The optional second argument of \<open>declareJob\<close>.\<close>

record DeclareMetadata =
  md_templateId :: "int option"
  md_template :: "TemplateProviderTemplate option"
  md_validationMode :: "ValidationMode option"
  md_providedTransactions :: "bytes list option"

record JobRegistry =
  allocatedTokens :: "(bytes \<times> Sv2AllocatedMiningJobToken) list"
  declaredJobs :: "(bytes \<times> Sv2DeclaredMiningJob) list"
  tokenTtlMs :: int

definition newJobRegistry :: "int \<Rightarrow> JobRegistry" where
  "newJobRegistry ttl = \<lparr>allocatedTokens = [], declaredJobs = [], tokenTtlMs = ttl\<rparr>"

definition cleanupRegistry :: "int \<Rightarrow> JobRegistry \<Rightarrow> JobRegistry" where
  "cleanupRegistry now r =
     (let cutoff = now - tokenTtlMs r
      in r\<lparr>allocatedTokens := filter (\<lambda>(_, e). \<not> am_createdAt e < cutoff) (allocatedTokens r),
           declaredJobs := filter (\<lambda>(_, e). \<not> dj_createdAt e < cutoff) (declaredJobs r)\<rparr>)"

definition allocateToken ::
    "int \<Rightarrow> bytes \<Rightarrow> jsstr \<Rightarrow> bytes \<Rightarrow> (JobRegistry, Sv2AllocatedMiningJobToken) sm" where
  "allocateToken now randomToken userIdentifier coinbaseOutputs =
     andThen (modify (cleanupRegistry now)) (\<lambda>_.
     (let entry = \<lparr>am_token = randomToken, am_userIdentifier = userIdentifier,
            am_coinbaseOutputs = coinbaseOutputs, am_createdAt = now\<rparr>
      in andThen (modify (\<lambda>r. r\<lparr>allocatedTokens := AList.update randomToken entry (allocatedTokens r)\<rparr>))
           (\<lambda>_. ret entry)))"

text \<open>A count of eight bytes is not supported.\<close>

definition readVarInt :: "bytes \<Rightarrow> nat \<Rightarrow> (nat \<times> nat) result" where
  "readVarInt buf off =
     (case drop off buf of
        [] \<Rightarrow> Inl (JsError ''invalid-coinbase-outputs'')
      | first # rest \<Rightarrow>
          if unat first < 0xfd then Inr (unat first, off + 1)
          else if first = 0xfd then
            (if length rest < 2 then Inl (JsError ''invalid-coinbase-outputs'')
             else Inr (le_nat (take 2 rest), off + 3))
          else if first = 0xfe then
            (if length rest < 4 then Inl (JsError ''invalid-coinbase-outputs'')
             else Inr (le_nat (take 4 rest), off + 5))
          else Inl (JsError ''unsupported-large-coinbase-output-count''))"

fun extractScripts :: "nat \<Rightarrow> bytes \<Rightarrow> nat \<Rightarrow> bytes list result" where
  "extractScripts 0 outputs cursor = Inr []"
| "extractScripts (Suc n) outputs cursor =
     (if cursor + 8 > length outputs then Inl (JsError ''invalid-coinbase-outputs'')
      else rbind (readVarInt outputs (cursor + 8)) (\<lambda>(scriptLength, cursor).
        if cursor + scriptLength > length outputs then Inl (JsError ''invalid-coinbase-outputs'')
        else rmap ((#) (take scriptLength (drop cursor outputs)))
          (extractScripts n outputs (cursor + scriptLength))))"

definition extractOutputScripts :: "bytes \<Rightarrow> bytes list result" where
  "extractOutputScripts outputs = rbind (readVarInt outputs 0) (\<lambda>(outputCount, cursor). extractScripts outputCount outputs cursor)"

text \<open>\<open>buffer.indexOf(script) \<ge> 0\<close>.\<close>

fun occursIn :: "bytes \<Rightarrow> bytes \<Rightarrow> bool" where
  "occursIn pat [] = (pat = [])"
| "occursIn pat (b # bs) = (take (length pat) (b # bs) = pat \<or> occursIn pat bs)"

definition coinbaseIncludesRequiredOutputs :: "Sv2DeclareMiningJob \<Rightarrow> bytes \<Rightarrow> bool result" where
  "coinbaseIncludesRequiredOutputs job coinbaseOutputs =
     (if coinbaseOutputs = [] then Inr True
      else (let declaredCoinbase = declareMiningJob_coinbaseTxPrefix job @ declareMiningJob_coinbaseTxSuffix job
            in rmap (list_all (\<lambda>script. script \<noteq> [] \<and> occursIn script declaredCoinbase))
                 (extractOutputScripts coinbaseOutputs)))"

definition declareJob ::
    "int \<Rightarrow> bytes \<Rightarrow> Sv2DeclareMiningJob \<Rightarrow> DeclareMetadata \<Rightarrow> (JobRegistry, Sv2DeclaredMiningJob) sm" where
  "declareJob now randomToken job metadata =
     andThen (modify (cleanupRegistry now)) (\<lambda>_.
     andThen (readState (\<lambda>r. map_of (allocatedTokens r) (declareMiningJob_miningJobToken job))) (\<lambda>found.
     case found of
       None \<Rightarrow> throw (JsError ''invalid-mining-job-token'')
     | Some allocated \<Rightarrow>
        andThen (lift (coinbaseIncludesRequiredOutputs job (am_coinbaseOutputs allocated))) (\<lambda>included.
        if \<not> included then throw (JsError ''coinbase-output-mismatch'')
        else
          (let declared = \<lparr>dj_originalToken = declareMiningJob_miningJobToken job, dj_token = randomToken,
                 dj_userIdentifier = am_userIdentifier allocated, dj_job = job, dj_createdAt = now,
                 dj_templateId = md_templateId metadata, dj_template = md_template metadata,
                 dj_validationMode = (case md_validationMode metadata of None \<Rightarrow> token_only | Some m \<Rightarrow> m),
                 dj_providedTransactions = (case md_providedTransactions metadata of None \<Rightarrow> [] | Some txs \<Rightarrow> txs)\<rparr>
           in andThen (modify (\<lambda>r. r\<lparr>declaredJobs := AList.update randomToken declared (declaredJobs r)\<rparr>))
                (\<lambda>_. ret declared)))))"

definition hasKnownToken :: "int \<Rightarrow> bytes \<Rightarrow> (JobRegistry, bool) sm" where
  "hasKnownToken now token =
     andThen (modify (cleanupRegistry now)) (\<lambda>_. readState (\<lambda>r.
       map_of (allocatedTokens r) token \<noteq> None \<or> map_of (declaredJobs r) token \<noteq> None))"

definition getDeclaredJob :: "int \<Rightarrow> bytes \<Rightarrow> (JobRegistry, Sv2DeclaredMiningJob option) sm" where
  "getDeclaredJob now token =
     andThen (modify (cleanupRegistry now)) (\<lambda>_. readState (\<lambda>r. map_of (declaredJobs r) token))"

end
