(* ===== verification/StratumV2Client.thy ===== *)
theory StratumV2Client
  imports StratumV1Client Sv2Wire Sv2Service JobRegistry
begin

text \<open>
  \<open>src/models/StratumV2Client.ts\<close>: one Stratum V2 mining connection, from the bytes of its socket to the
  shares and blocks it records. A handler is a computation on the state of the connection that can throw;
  what it tells the outside is appended to \<open>v2_outbox\<close>.

  The record \<open>v2_env\<close> holds the answers of the outside, which may differ from event to event: clock,
  configuration, packages and node (\<open>ve_pool\<close>, as for Stratum V1), the noise handshake and its two ciphers,
  random bytes, and which outside calls fail. The jobs service, the channel service and the registry of
  declared jobs are shared between connections and are fields of the state.

  A handler runs to its end before the next event, with one exception: the handshake, whose second half is
  the event \<open>HandshakeReady\<close>. A promise that does not settle is \<open>Diverges\<close>: what follows it does not run and
  no \<open>catch\<close> sees it (a wait for the first template, the endless rounding of a difficulty). Console output
  is left out.
\<close>

section \<open>Data\<close>

datatype ChannelType = standard_channel | extended_channel

datatype WorkProtocol = pool_work | jdp_work

datatype V2Protocol = sv2 | sv2_jdp

datatype WorkSource = pool_template | miner_template

record ExtendedJobData =
  xj_coinbasePrefix :: bytes
  xj_coinbaseSuffix :: bytes
  xj_merklePath :: "bytes list"
  xj_prevHash :: bytes
  xj_nBits :: jsnum
  xj_minNtime :: jsnum
  xj_jobTemplate :: IJobTemplate
  xj_miningJob :: MiningJob
  xj_retiredAt :: "int option"
  xj_creation :: int
  xj_workProtocol :: "WorkProtocol option"

record ChannelState =
  ch_channelId :: int
  ch_channelType :: ChannelType
  ch_extranoncePrefix :: bytes
  ch_extranonceSize :: int
  ch_sessionDifficulty :: jsnum
  ch_declaredMaxTarget :: bytes
  ch_jobIdToDifficulty :: "(int \<times> jsnum) list"
  ch_jobIdToMerkleRoot :: "(int \<times> bytes) list"
  ch_extendedJobs :: "(int \<times> ExtendedJobData) list"
  ch_latestExtendedPrevHash :: bytes
  ch_latestExtendedNBits :: jsnum
  ch_latestExtendedMinNtime :: jsnum
  ch_miningSubmissionHashes :: "jsstr set"
  ch_acceptedShareCount :: nat

record V2Share =
  vs_protocol :: V2Protocol
  vs_payoutMode :: PayoutMode
  vs_workSource :: WorkSource
  vs_workProtocol :: WorkProtocol
  vs_address :: jsstr
  vs_clientName :: jsstr
  vs_sessionId :: jsstr
  vs_clientId :: jsstr
  vs_jobId :: jsstr
  vs_jobTemplateId :: jsstr
  vs_blockHeight :: int
  vs_creditedDifficulty :: jsnum
  vs_submissionDifficulty :: jsnum
  vs_networkDifficulty :: jsnum
  vs_nonce :: int
  vs_ntime :: int
  vs_version :: int
  vs_extraNonce2 :: jsstr
  vs_isBlockCandidate :: bool
  vs_blockSubmissionResult :: "jsstr option"

text \<open>
  A frame that is sent is recorded with its extension type, message type and payload, and with the bytes
  that go to the socket.
\<close>

datatype v2_effect =
    V2_Frame int int bytes bytes
  | V2_WriteRaw bytes
  | V2_DestroySocket
  | V2_IdleTimeoutOff
  | V2_SubmitBlock Block
  | V2_SaveBlock FoundBlock
  | V2_FinalizeSnapshot "jsstr option" int "jsstr option"
  | V2_NotifyBlockFound jsstr int "jsstr option"
  | V2_ResetBestDifficulty
  | V2_RecordShare V2Share
  | V2_UpdateHashRate jsstr jsnum int
  | V2_UpdateBestDifficulty jsstr jsnum
  | V2_UpdateAddressBest jsstr jsnum jsstr
  | V2_InsertClient ClientEntity
  | V2_DeleteClient jsstr

record 'c v2_env =
  ve_pool :: v1_env
  ve_fails :: "v2_effect \<Rightarrow> bool"
  ve_processAct1 :: "bytes \<Rightarrow> (bytes \<times> 'c \<times> 'c) result"
  ve_decrypt :: "'c cipherFn"
  ve_encrypt :: "'c cipherFn"
  ve_random2 :: "int \<Rightarrow> bytes"
  ve_fromBuffer :: "bytes \<Rightarrow> Transaction option"
  ve_toOutputScript :: "jsstr \<Rightarrow> bytes result"

record 'c V2Client =
  v2_payoutMode :: PayoutMode
  v2_sessionId :: jsstr
  v2_targetSharesPerMinute :: jsnum
  v2_statistics :: ClientStatistics
  v2_frameReader :: "'c frameReader"
  v2_frameWriter :: "'c frameWriter"
  v2_handshakeBuffer :: bytes
  v2_handshakeComplete :: bool
  v2_processingHandshake :: bool
  v2_pendingHandshake :: "(bytes \<times> bytes) option"
  v2_destroyed :: bool
  v2_stratumSubscription :: bool
  v2_difficultyTimer :: bool
  v2_channels :: "(int \<times> ChannelState) list"
  v2_primaryChannelId :: "int option"
  v2_address :: "jsstr option"
  v2_workerName :: jsstr
  v2_userAgent :: jsstr
  v2_sessionDifficulty :: jsnum
  v2_clientEntity :: "ClientEntity option"
  v2_creatingFailed :: bool
  v2_workSelectionEnabled :: bool
  v2_lastHashRatePersistedAt :: int
  v2_socketDestroyed :: bool
  v2_socketEnded :: bool
  v2_service :: Sv2Service
  v2_jobsService :: JobsService
  v2_registry :: JobRegistry
  v2_outbox :: "v2_effect list"

type_synonym ('c, 'a) v2 = "('c V2Client, 'a) sm"

definition SV2_NOISE_ACT1_SIZE :: nat where "SV2_NOISE_ACT1_SIZE = 64"

definition FIXED_STANDARD_EXTRANONCE2 :: jsstr where
  "FIXED_STANDARD_EXTRANONCE2 = jstr ''0000000000000000''"

definition RETIRED_EXTENDED_JOB_RETENTION_MS :: int where
  "RETIRED_EXTENDED_JOB_RETENTION_MS = 5 * 60 * 1000"

section \<open>Configuration\<close>

definition v2_clampDifficulty :: "'c v2_env \<Rightarrow> jsnum option \<Rightarrow> jsnum option" where
  "v2_clampDifficulty env difficulty = clampDifficulty (ve_pool env) difficulty"

text \<open>Where the clamped difficulty is stored, \<open>null\<close> is NaN.\<close>

definition clamped :: "'c v2_env \<Rightarrow> jsnum \<Rightarrow> jsnum" where
  "clamped env difficulty = (case v2_clampDifficulty env (Some difficulty) of None \<Rightarrow> NaN | Some d \<Rightarrow> d)"

definition configText :: "'c v2_env \<Rightarrow> string \<Rightarrow> jsstr option" where
  "configText env name = env_config (ve_pool env) (jstr name)"

definition getInitialDifficulty :: "'c v2_env \<Rightarrow> jsnum" where
  "getInitialDifficulty env =
     (let text = (case configText env ''SV2_START_DIFFICULTY'' of
            Some s \<Rightarrow> s
          | None \<Rightarrow> (case configText env ''STRATUM_START_DIFFICULTY'' of Some s \<Rightarrow> s | None \<Rightarrow> []));
          configured = env_parseFloat (ve_pool env) text
      in clamped env (if isFinite configured \<and> js_lt (Num 0) configured then configured else Num 100000))"

definition getTargetSharesPerMinute :: "'c v2_env \<Rightarrow> jsnum" where
  "getTargetSharesPerMinute env =
     (let configured = env_parseFloat (ve_pool env)
            (case configText env ''SV2_TARGET_SHARES_PER_MINUTE'' of Some s \<Rightarrow> s | None \<Rightarrow> [])
      in if isFinite configured \<and> js_lt (Num 0) configured then configured else Num 2)"

text \<open>The value of a 32-bit float, from its bits.\<close>

definition f32Value :: "32 word \<Rightarrow> jsnum" where
  "f32Value w =
     (let negative = bit w 31; e = uint (drop_bit 23 w AND 0xff); m = of_int (uint (w AND 0x7fffff)) :: rat
      in if e = 255 then (if m \<noteq> 0 then NaN else inf_of (\<not> negative))
         else (let v = (if e = 0 then m * pow2 (- 149) else (8388608 + m) * pow2 (e - 150))
               in Num (if negative then - v else v)))"

text \<open>The constructor, before it handles the first chunk; an unknown network throws.\<close>

definition newV2Client ::
    "'c v2_env \<Rightarrow> PayoutMode \<Rightarrow> jsstr \<Rightarrow> 'c \<Rightarrow> Sv2Service \<Rightarrow> JobsService \<Rightarrow> JobRegistry \<Rightarrow> 'c V2Client result" where
  "newV2Client env mode sessionId noCipher service jobsSvc registry =
     (let perMinute = getTargetSharesPerMinute env
      in if \<not> knownNetwork (ve_pool env) then Inl (JsError ''Invalid network configuration'')
         else Inr \<lparr>v2_payoutMode = mode, v2_sessionId = sessionId, v2_targetSharesPerMinute = perMinute,
           v2_statistics = (newStatistics (env_now (ve_pool env)) (getMinimumDifficulty (ve_pool env)))
             \<lparr>targetSubmitShareEveryNSeconds := js_div (Num 60) perMinute\<rparr>,
           v2_frameReader = newFrameReader None noCipher,
           v2_frameWriter = \<lparr>encryptFn = None, fw_cipher = noCipher\<rparr>,
           v2_handshakeBuffer = [], v2_handshakeComplete = False, v2_processingHandshake = False,
           v2_pendingHandshake = None, v2_destroyed = False, v2_stratumSubscription = False,
           v2_difficultyTimer = False, v2_channels = [], v2_primaryChannelId = None, v2_address = None,
           v2_workerName = jstr ''default'', v2_userAgent = jstr ''unknown/sv2'',
           v2_sessionDifficulty = getInitialDifficulty env, v2_clientEntity = None, v2_creatingFailed = False,
           v2_workSelectionEnabled = False, v2_lastHashRatePersistedAt = 0, v2_socketDestroyed = False,
           v2_socketEnded = False, v2_service = service, v2_jobsService = jobsSvc, v2_registry = registry,
           v2_outbox = []\<rparr>)"

section \<open>The socket and the end of a connection\<close>

definition v2_emit :: "v2_effect \<Rightarrow> ('c, unit) v2" where
  "v2_emit e = modify (\<lambda>c. c\<lparr>v2_outbox := v2_outbox c @ [e]\<rparr>)"

definition v2_perform :: "'c v2_env \<Rightarrow> v2_effect \<Rightarrow> ('c, unit) v2" where
  "v2_perform env e = andThen (v2_emit e) (\<lambda>_. if ve_fails env e then throw (JsError ''outside'') else ret ())"

definition v2_need :: "'a option \<Rightarrow> ('c, 'a) v2" where
  "v2_need x = (case x of None \<Rightarrow> throw TypeError | Some a \<Rightarrow> ret a)"

definition isExtended :: "ChannelState \<Rightarrow> bool" where
  "isExtended ch \<longleftrightarrow> ch_channelType ch = extended_channel"

definition releasePrefixes :: "(int \<times> ChannelState) list \<Rightarrow> Sv2Service \<Rightarrow> Sv2Service" where
  "releasePrefixes chs s =
     foldl (\<lambda>s ch. releaseExtendedExtranoncePrefix (ch_channelId ch) s) s (filter isExtended (map snd chs))"

definition v2_destroy :: "('c, unit) v2" where
  "v2_destroy = andThen (readState v2_destroyed) (\<lambda>d.
     if d then ret ()
     else
       andThen (modify (\<lambda>c. c\<lparr>v2_destroyed := True, v2_stratumSubscription := False, v2_difficultyTimer := False,
          v2_service := releasePrefixes (v2_channels c) (v2_service c), v2_channels := []\<rparr>)) (\<lambda>_.
       andThen (readState v2_clientEntity) (\<lambda>entity. case entity of
           None \<Rightarrow> ret ()
         | Some e \<Rightarrow> v2_emit (V2_DeleteClient (ce_id e)))))"

definition v2_destroySocket :: "('c, unit) v2" where
  "v2_destroySocket = andThen (readState v2_socketDestroyed) (\<lambda>d.
     if d then ret ()
     else andThen (v2_emit V2_DestroySocket) (\<lambda>_. modify (\<lambda>c. c\<lparr>v2_socketDestroyed := True\<rparr>)))"

definition v2_closeSocket :: "('c, unit) v2" where
  "v2_closeSocket = andThen v2_destroySocket (\<lambda>_. v2_destroy)"

text \<open>\<open>writeRaw\<close>: nothing is written to a closed socket.\<close>

definition writeRaw :: "'c v2_env \<Rightarrow> v2_effect \<Rightarrow> ('c, unit) v2" where
  "writeRaw env e =
     andThen (readState (\<lambda>c. v2_socketDestroyed c \<or> v2_socketEnded c)) (\<lambda>closed.
       if closed then ret () else v2_perform env e)"

definition v2_sendFrame :: "'c v2_env \<Rightarrow> int \<Rightarrow> bytes \<Rightarrow> int \<Rightarrow> ('c, unit) v2" where
  "v2_sendFrame env ty data extType =
     andThen (readState v2_frameWriter) (\<lambda>w.
     andThen (lift (sendFrame ty data extType w)) (\<lambda>(wire, w').
     andThen (modify (\<lambda>c. c\<lparr>v2_frameWriter := w'\<rparr>)) (\<lambda>_.
       writeRaw env (V2_Frame extType ty data wire))))"

definition v2_sendMessage :: "'c v2_env \<Rightarrow> sv2_message \<Rightarrow> int \<Rightarrow> ('c, unit) v2" where
  "v2_sendMessage env m extType =
     andThen (lift (ser_msg m)) (\<lambda>data. v2_sendFrame env (msg_code m) data extType)"

definition sendOpenChannelError :: "'c v2_env \<Rightarrow> int \<Rightarrow> string \<Rightarrow> ('c, unit) v2" where
  "sendOpenChannelError env requestId errorCode =
     v2_sendMessage env (M_OpenMiningChannelError
       \<lparr>openMiningChannelError_requestId = requestId, openMiningChannelError_errorCode = jstr errorCode\<rparr>) 0"

definition sendShareError :: "'c v2_env \<Rightarrow> int \<Rightarrow> int \<Rightarrow> string \<Rightarrow> ('c, unit) v2" where
  "sendShareError env channelId sequenceNumber errorCode =
     v2_sendMessage env (M_SubmitSharesError
       \<lparr>submitSharesError_channelId = channelId, submitSharesError_sequenceNumber = sequenceNumber,
        submitSharesError_errorCode = jstr errorCode\<rparr>) SV2_CHANNEL_MSG_FLAG"

section \<open>Rows of the client table\<close>

definition v2_insertCount :: "v2_effect list \<Rightarrow> nat" where
  "v2_insertCount es = length (filter (\<lambda>e. case e of V2_InsertClient _ \<Rightarrow> True | _ \<Rightarrow> False) es)"

text \<open>The address of the connection. It is set before the first channel is opened.\<close>

definition addressOf :: "'c V2Client \<Rightarrow> jsstr" where
  "addressOf c = (case v2_address c of None \<Rightarrow> [] | Some a \<Rightarrow> a)"

definition v2_insertClient :: "'c v2_env \<Rightarrow> ClientEntity \<Rightarrow> ('c, ClientEntity) v2" where
  "v2_insertClient env e = andThen (readState (v2_insertCount \<circ> v2_outbox)) (\<lambda>n.
     andThen (v2_emit (V2_InsertClient e)) (\<lambda>_.
       case env_insertId (ve_pool env) n of
         None \<Rightarrow> throw (JsError ''insert'')
       | Some i \<Rightarrow> ret (e\<lparr>ce_id := i\<rparr>)))"

text \<open>A rejected insert stays in \<open>creatingEntity\<close>, so that every later call rejects too.\<close>

definition v2_ensureClientEntity :: "'c v2_env \<Rightarrow> ('c, unit) v2" where
  "v2_ensureClientEntity env =
     andThen (readState id) (\<lambda>c.
       if v2_clientEntity c \<noteq> None then ret ()
       else if v2_creatingFailed c then throw (JsError ''insert'')
       else
         tryCatch
           (andThen (v2_insertClient env (newEntity (ve_pool env) (v2_sessionId c) (addressOf c) (v2_workerName c)
               (v2_userAgent c) (v2_payoutMode c))) (\<lambda>row.
              modify (\<lambda>c. c\<lparr>v2_clientEntity := Some row\<rparr>)))
           (\<lambda>e. andThen (modify (\<lambda>c. c\<lparr>v2_creatingFailed := True\<rparr>)) (\<lambda>_. throw e)))"

section \<open>Sending work\<close>

text \<open>Handlers hold a reference to a channel; here they hold its identifier.\<close>

definition updChannel :: "int \<Rightarrow> (ChannelState \<Rightarrow> ChannelState) \<Rightarrow> ('c, unit) v2" where
  "updChannel i f = modify (\<lambda>c. c\<lparr>v2_channels := AList.map_entry i f (v2_channels c)\<rparr>)"

definition withChannel :: "int \<Rightarrow> (ChannelState \<Rightarrow> ('c, unit) v2) \<Rightarrow> ('c, unit) v2" where
  "withChannel i f = andThen (readState (\<lambda>c. map_of (v2_channels c) i)) (\<lambda>found.
     case found of None \<Rightarrow> ret () | Some ch \<Rightarrow> f ch)"

definition v2_getPayoutInformation :: "PayoutMode \<Rightarrow> IJobTemplate \<Rightarrow> jsstr \<Rightarrow> AddressObject list" where
  "v2_getPayoutInformation mode jobTemplate fallbackAddress =
     (case jt_payoutOutputs jobTemplate of
        Some (out # outs) \<Rightarrow>
          if mode = pplns then out # outs
          else [\<lparr>ao_address = fallbackAddress, ao_percent = Some 100, ao_amountSats = None\<rparr>]
      | _ \<Rightarrow> [\<lparr>ao_address = fallbackAddress, ao_percent = Some 100, ao_amountSats = None\<rparr>])"

text \<open>\<open>parseInt(jobIdHex, 16)\<close> of the identifier the jobs service gives next.\<close>

definition numericJobId :: "jsstr \<Rightarrow> int" where
  "numericJobId jobIdHex = js_int (parseInt 16 jobIdHex)"

text \<open>The job is built under the next identifier and added to the service.\<close>

definition issueJob :: "'c v2_env \<Rightarrow> IJobTemplate \<Rightarrow> ('c, MiningJob) v2" where
  "issueJob env jobTemplate =
     andThen (readState id) (\<lambda>c.
     andThen (lift (newMiningJob (env_lib (ve_pool env)) (env_now (ve_pool env)) (getNextId (v2_jobsService c))
        (v2_getPayoutInformation (v2_payoutMode c) jobTemplate (addressOf c)) jobTemplate None)) (\<lambda>job.
     andThen (modify (\<lambda>c. c\<lparr>v2_jobsService := addJob job (v2_jobsService c)\<rparr>)) (\<lambda>_. ret job)))"

definition sendPrevHashMessage :: "'c v2_env \<Rightarrow> int \<Rightarrow> int \<Rightarrow> bytes \<Rightarrow> jsnum \<Rightarrow> jsnum \<Rightarrow> ('c, unit) v2" where
  "sendPrevHashMessage env channelId jobId prevHash minNtime nBits =
     v2_sendMessage env (M_SetNewPrevHash
       \<lparr>setNewPrevHash_channelId = channelId, setNewPrevHash_jobId = jobId, setNewPrevHash_prevHash = prevHash,
        setNewPrevHash_minNtime = js_int minNtime, setNewPrevHash_nBits = js_int nBits\<rparr>) SV2_CHANNEL_MSG_FLAG"

definition v2_sendNewMiningJob :: "'c v2_env \<Rightarrow> int \<Rightarrow> IJobTemplate \<Rightarrow> bool \<Rightarrow> ('c, unit) v2" where
  "v2_sendNewMiningJob env channelId jobTemplate sendPrevHash =
     withChannel channelId (\<lambda>channel.
     andThen (readState v2_address) (\<lambda>address.
     if address = None then ret ()
     else
       andThen (issueJob env jobTemplate) (\<lambda>job.
       (let jobId = numericJobId (job_jobId job); block = jt_block jobTemplate
        in andThen (lift (copyAndUpdateBlock (env_lib (ve_pool env)) (env_sha256 (ve_pool env)) job jobTemplate
             (Num 0) (Num 0) (hexEncode (ch_extranoncePrefix channel)) FIXED_STANDARD_EXTRANONCE2
             (blk_timestamp block))) (\<lambda>jobSideBlock.
           andThen (updChannel channelId (\<lambda>ch. ch
              \<lparr>ch_jobIdToDifficulty := AList.update jobId (ch_sessionDifficulty ch) (ch_jobIdToDifficulty ch),
               ch_jobIdToMerkleRoot := AList.update jobId (blk_merkleRoot jobSideBlock) (ch_jobIdToMerkleRoot ch)\<rparr>)) (\<lambda>_.
           andThen (v2_sendMessage env (M_NewMiningJob
              \<lparr>newMiningJob_channelId = channelId, newMiningJob_jobId = jobId,
               newMiningJob_minNtime = (if sendPrevHash then None else Some (js_int (blk_timestamp block))),
               newMiningJob_version = blk_version block,
               newMiningJob_merkleRoot = blk_merkleRoot jobSideBlock\<rparr>) SV2_CHANNEL_MSG_FLAG) (\<lambda>_.
             if sendPrevHash
             then sendPrevHashMessage env channelId jobId (blk_prevHash block) (blk_timestamp block) (blk_bits block)
             else ret ())))))))"

definition sendNewExtendedMiningJob :: "'c v2_env \<Rightarrow> int \<Rightarrow> IJobTemplate \<Rightarrow> bool \<Rightarrow> ('c, unit) v2" where
  "sendNewExtendedMiningJob env channelId jobTemplate sendPrevHash =
     withChannel channelId (\<lambda>channel.
     andThen (readState v2_address) (\<lambda>address.
     if address = None then ret ()
     else
       andThen (issueJob env jobTemplate) (\<lambda>job.
       (let jobId = numericJobId (job_jobId job); block = jt_block jobTemplate;
            merklePath = map hexDecode (jt_merkle_branch jobTemplate);
            totalExtranonceSize = int (length (ch_extranoncePrefix channel)) + ch_extranonceSize channel;
            coinbasePrefix = patchCoinbasePrefixVarint (getCoinbasePrefixBuffer job) (nat totalExtranonceSize);
            coinbaseSuffix = getCoinbaseSuffixBuffer job;
            prevHash = (if sendPrevHash then blk_prevHash block else ch_latestExtendedPrevHash channel);
            nBits = (if sendPrevHash then blk_bits block else ch_latestExtendedNBits channel);
            minNtime = (if sendPrevHash then blk_timestamp block else ch_latestExtendedMinNtime channel)
        in andThen (v2_sendMessage env (M_NewExtendedMiningJob
              \<lparr>newExtendedMiningJob_channelId = channelId, newExtendedMiningJob_jobId = jobId,
               newExtendedMiningJob_minNtime = (if sendPrevHash then None else Some (js_int (blk_timestamp block))),
               newExtendedMiningJob_version = blk_version block,
               newExtendedMiningJob_versionRollingAllowed = True,
               newExtendedMiningJob_merklePath = merklePath,
               newExtendedMiningJob_coinbasePrefix = coinbasePrefix,
               newExtendedMiningJob_coinbaseSuffix = coinbaseSuffix\<rparr>) SV2_CHANNEL_MSG_FLAG) (\<lambda>_.
           andThen (updChannel channelId (\<lambda>ch. ch
              \<lparr>ch_jobIdToDifficulty := AList.update jobId (ch_sessionDifficulty ch) (ch_jobIdToDifficulty ch),
               ch_extendedJobs := AList.update jobId
                 \<lparr>xj_coinbasePrefix = coinbasePrefix, xj_coinbaseSuffix = coinbaseSuffix, xj_merklePath = merklePath,
                  xj_prevHash = prevHash, xj_nBits = nBits, xj_minNtime = minNtime, xj_jobTemplate = jobTemplate,
                  xj_miningJob = job, xj_retiredAt = None, xj_creation = env_now (ve_pool env),
                  xj_workProtocol = None\<rparr> (ch_extendedJobs ch)\<rparr>)) (\<lambda>_.
             if sendPrevHash
             then andThen (updChannel channelId (\<lambda>ch. ch\<lparr>ch_latestExtendedPrevHash := prevHash,
                    ch_latestExtendedNBits := nBits, ch_latestExtendedMinNtime := minNtime\<rparr>)) (\<lambda>_.
                  sendPrevHashMessage env channelId jobId prevHash minNtime nBits)
             else ret ()))))))"

text \<open>One round over the channels, each with the kind of job it takes.\<close>

definition sendJobTo :: "'c v2_env \<Rightarrow> IJobTemplate \<Rightarrow> bool \<Rightarrow> int \<Rightarrow> ('c, unit) v2" where
  "sendJobTo env jobTemplate sendPrevHash channelId =
     withChannel channelId (\<lambda>channel.
       if isExtended channel then sendNewExtendedMiningJob env channelId jobTemplate sendPrevHash
       else v2_sendNewMiningJob env channelId jobTemplate sendPrevHash)"

definition forChannels :: "(int \<Rightarrow> ('c, unit) v2) \<Rightarrow> ('c, unit) v2" where
  "forChannels f = andThen (readState (map fst \<circ> v2_channels)) (\<lambda>ids. forEach ids f)"

definition sendSetTarget :: "'c v2_env \<Rightarrow> int \<Rightarrow> ('c, unit) v2" where
  "sendSetTarget env channelId = withChannel channelId (\<lambda>channel.
     andThen (lift (difficultyToTarget (ch_sessionDifficulty channel))) (\<lambda>target.
       v2_sendMessage env (M_SetTarget \<lparr>setTarget_channelId = channelId, setTarget_maxTarget = target\<rparr>)
         SV2_CHANNEL_MSG_FLAG))"

text \<open>Extended jobs of an older block are retired and forgotten five minutes later.\<close>

definition cleanupRetiredExtendedJobs :: "int \<Rightarrow> ChannelState \<Rightarrow> ChannelState" where
  "cleanupRetiredExtendedJobs now ch =
     (let cutoff = now - RETIRED_EXTENDED_JOB_RETENTION_MS;
          old = (\<lambda>job. case xj_retiredAt job of None \<Rightarrow> False | Some t \<Rightarrow> t < cutoff);
          gone = map fst (filter (\<lambda>(_, job). old job) (ch_extendedJobs ch))
      in ch\<lparr>ch_extendedJobs := filter (\<lambda>(_, job). \<not> old job) (ch_extendedJobs ch),
            ch_jobIdToDifficulty := filter (\<lambda>(i, _). i \<notin> set gone) (ch_jobIdToDifficulty ch)\<rparr>)"

definition retireJobs :: "int \<Rightarrow> ChannelState \<Rightarrow> ChannelState" where
  "retireJobs now ch = ch\<lparr>ch_extendedJobs := map (\<lambda>(i, job).
     (i, case xj_retiredAt job of None \<Rightarrow> job\<lparr>xj_retiredAt := Some now\<rparr> | Some _ \<Rightarrow> job)) (ch_extendedJobs ch)\<rparr>"

definition clearOldWork :: "int \<Rightarrow> ChannelState \<Rightarrow> ChannelState" where
  "clearOldWork now ch =
     (if isExtended ch then cleanupRetiredExtendedJobs now (retireJobs now ch)
      else ch\<lparr>ch_jobIdToDifficulty := [], ch_jobIdToMerkleRoot := []\<rparr>)\<lparr>ch_miningSubmissionHashes := {}\<rparr>"

text \<open>The subscriber of \<open>newMiningJob$\<close>. A promise that does not settle reaches no \<open>catch\<close>.\<close>

definition orClose :: "('c, unit) v2 \<Rightarrow> ('c, unit) v2" where
  "orClose m = tryCatch m (\<lambda>e. if e = Diverges then throw Diverges else v2_closeSocket)"

definition v2_onNewMiningJob :: "'c v2_env \<Rightarrow> IJobTemplate \<Rightarrow> ('c, unit) v2" where
  "v2_onNewMiningJob env jobTemplate =
     orClose
       (andThen (if jt_clearJobs jobTemplate
            then modify (\<lambda>c. c\<lparr>v2_channels := map (\<lambda>(i, ch). (i, clearOldWork (env_now (ve_pool env)) ch)) (v2_channels c)\<rparr>)
            else ret ()) (\<lambda>_.
          forChannels (sendJobTo env jobTemplate (jt_clearJobs jobTemplate))))"

text \<open>\<open>firstValueFrom(newMiningJob$)\<close>.\<close>

definition awaitTemplate :: "'c v2_env \<Rightarrow> ('c, IJobTemplate) v2" where
  "awaitTemplate env = (case env_template (ve_pool env) of None \<Rightarrow> throw Diverges | Some t \<Rightarrow> ret t)"

text \<open>A new subscriber is handed the latest template at once; it does not wait for the subscriber.\<close>

definition subscribeToJobs :: "'c v2_env \<Rightarrow> ('c, unit) v2" where
  "subscribeToJobs env =
     andThen (readState v2_stratumSubscription) (\<lambda>subscribed.
       if subscribed then ret ()
       else andThen (modify (\<lambda>c. c\<lparr>v2_stratumSubscription := True\<rparr>)) (\<lambda>_.
         case env_template (ve_pool env) of None \<Rightarrow> ret ()
         | Some t \<Rightarrow> tryCatch (v2_onNewMiningJob env t) (\<lambda>_. ret ())))"

definition startDifficultyTimer :: "('c, unit) v2" where
  "startDifficultyTimer = modify (\<lambda>c. c\<lparr>v2_difficultyTimer := True\<rparr>)"

section \<open>Opening a connection and its channels\<close>

definition parsed :: "'a reading \<Rightarrow> bytes \<Rightarrow> ('c, 'a) v2" where
  "parsed rd body = lift (rmap fst (rd (newReader body)))"

definition sendSetupError :: "'c v2_env \<Rightarrow> int \<Rightarrow> string \<Rightarrow> ('c, unit) v2" where
  "sendSetupError env flags errorCode =
     andThen (v2_sendMessage env (M_SetupConnectionError
        \<lparr>setupConnectionError_flags = flags, setupConnectionError_errorCode = jstr errorCode\<rparr>) 0) (\<lambda>_. v2_closeSocket)"

text \<open>Flags: standard jobs 1, work selection 2, version rolling 4. The answer may demand a fixed version, 1.\<close>

definition handleSetupConnection :: "'c v2_env \<Rightarrow> bytes \<Rightarrow> ('c, unit) v2" where
  "handleSetupConnection env body =
     andThen (parsed deserializeSetupConnection body) (\<lambda>m.
     (let vendor = setupConnection_vendor m; flags = setupConnection_flags m;
          unsupportedFlags = js_and flags (js_not 7)
      in andThen (modify (\<lambda>c. c\<lparr>v2_userAgent := (if vendor = [] then jstr ''unknown'' else vendor) @ jstr ''/sv2''\<rparr>)) (\<lambda>_.
         if setupConnection_protocol m \<noteq> 0 then sendSetupError env 0 ''unsupported-protocol''
         else if setupConnection_minVersion m > 2 \<or> setupConnection_maxVersion m < 2
         then sendSetupError env 0 ''protocol-version-mismatch''
         else if unsupportedFlags \<noteq> 0 then sendSetupError env unsupportedFlags ''unsupported-feature-flags''
         else
           andThen (modify (\<lambda>c. c\<lparr>v2_workSelectionEnabled := (js_and flags 2 \<noteq> 0)\<rparr>)) (\<lambda>_.
             v2_sendMessage env (M_SetupConnectionSuccess \<lparr>setupConnectionSuccess_usedVersion = 2,
               setupConnectionSuccess_flags = (if js_and flags 4 \<noteq> 0 then 0 else 1)\<rparr>) 0))))"

definition startsWith :: "jsstr \<Rightarrow> string \<Rightarrow> bool" where
  "startsWith s start \<longleftrightarrow> take (length start) s = jstr start"

definition normalizeAddress :: "'c v2_env \<Rightarrow> jsstr \<Rightarrow> jsstr" where
  "normalizeAddress env address =
     (if list_ex (startsWith address) [''bc1'', ''BC1'', ''tb1'', ''TB1'', ''bcrt1'', ''BCRT1'']
      then env_toLowerCase (ve_pool env) address else address)"

definition parseUserIdentity :: "'c v2_env \<Rightarrow> jsstr \<Rightarrow> jsstr \<times> jsstr" where
  "parseUserIdentity env userIdentity =
     (let parts = splitOn 46 userIdentity
      in (normalizeAddress env (hd parts),
          if length parts > 1 then joinWith (jstr ''.'') (tl parts) else jstr ''default''))"

text \<open>
  The difficulty a channel starts with: what its hash rate suggests, if that is a number, else that of the
  connection; within the target the miner declares.
\<close>

definition suggestedByHashRate :: "'c v2_env \<Rightarrow> jsnum \<Rightarrow> jsnum \<Rightarrow> jsnum option result" where
  "suggestedByHashRate env perMinute nominalHashRate =
     (if isFinite nominalHashRate \<and> js_lt (Num 0) nominalHashRate
      then rmap (\<lambda>d. if isFinite d \<and> js_lt (Num 0) d then Some d else None)
             (hashRateToDifficulty nominalHashRate perMinute)
      else Inr None)"

definition channelDifficultyOf :: "'c v2_env \<Rightarrow> 'c V2Client \<Rightarrow> jsnum \<Rightarrow> bytes \<Rightarrow> jsnum result" where
  "channelDifficultyOf env c nominalHashRate maxTarget =
     rbind (suggestedByHashRate env (v2_targetSharesPerMinute c) nominalHashRate) (\<lambda>suggested.
     rmap (clamped env) (clampDifficultyToMaxTarget
       (case suggested of None \<Rightarrow> v2_sessionDifficulty c | Some d \<Rightarrow> clamped env d) maxTarget))"

definition newChannel :: "int \<Rightarrow> ChannelType \<Rightarrow> bytes \<Rightarrow> int \<Rightarrow> jsnum \<Rightarrow> bytes \<Rightarrow> ChannelState" where
  "newChannel channelId ctype noncePrefix minerSize difficulty maxTarget =
     \<lparr>ch_channelId = channelId, ch_channelType = ctype, ch_extranoncePrefix = noncePrefix, ch_extranonceSize = minerSize,
      ch_sessionDifficulty = difficulty, ch_declaredMaxTarget = maxTarget, ch_jobIdToDifficulty = [],
      ch_jobIdToMerkleRoot = [], ch_extendedJobs = [], ch_latestExtendedPrevHash = replicate 32 0,
      ch_latestExtendedNBits = Num 0, ch_latestExtendedMinNtime = Num 0, ch_miningSubmissionHashes = {},
      ch_acceptedShareCount = 0\<rparr>"

text \<open>
  What both kinds of channels check first; the continuation runs with whether this is the first channel,
  after the address of the connection is settled.
\<close>

definition admitChannel ::
    "'c v2_env \<Rightarrow> int \<Rightarrow> jsstr \<Rightarrow> bytes \<Rightarrow> (bool \<Rightarrow> ('c, unit) v2) \<Rightarrow> ('c, unit) v2" where
  "admitChannel env requestId userIdentity maxTarget proceed =
     (case parseUserIdentity env userIdentity of (address, workerName) \<Rightarrow>
       if \<not> env_isAddress (ve_pool env) address
       then andThen (sendOpenChannelError env requestId ''unknown-user'') (\<lambda>_. v2_closeSocket)
       else
         andThen (readState id) (\<lambda>c.
         if v2_address c \<noteq> None \<and> v2_address c \<noteq> Some address
         then sendOpenChannelError env requestId ''unknown-user''
         else if length maxTarget \<noteq> 32 \<or> list_all (\<lambda>b. b = 0) maxTarget
         then sendOpenChannelError env requestId ''max-target-out-of-range''
         else
           (let isFirstChannel = (v2_channels c = [])
            in andThen (if isFirstChannel
                 then modify (\<lambda>c. c\<lparr>v2_address := Some address, v2_workerName := workerName\<rparr>) else ret ()) (\<lambda>_.
               proceed isFirstChannel))))"

text \<open>What follows when the difficulty is known: the channel is registered and its miner gets work.\<close>

definition registerChannel :: "'c v2_env \<Rightarrow> ChannelState \<Rightarrow> ('c, unit) v2" where
  "registerChannel env channel =
     andThen (modify (\<lambda>c. c\<lparr>v2_sessionDifficulty := ch_sessionDifficulty channel,
        v2_channels := AList.update (ch_channelId channel) channel (v2_channels c),
        v2_primaryChannelId := (case v2_primaryChannelId c of None \<Rightarrow> Some (ch_channelId channel) | Some i \<Rightarrow> Some i)\<rparr>)) (\<lambda>_.
     andThen (v2_ensureClientEntity env) (\<lambda>_. v2_emit V2_IdleTimeoutOff))"

definition startWork :: "'c v2_env \<Rightarrow> bool \<Rightarrow> (IJobTemplate \<Rightarrow> ('c, unit) v2) \<Rightarrow> ('c, unit) v2" where
  "startWork env isFirstChannel sendJob =
     andThen (readState v2_workSelectionEnabled) (\<lambda>selection.
       if selection then ret ()
       else
         andThen (awaitTemplate env) (\<lambda>jobTemplate.
         andThen (sendJob jobTemplate) (\<lambda>_.
         if isFirstChannel then andThen (subscribeToJobs env) (\<lambda>_. startDifficultyTimer) else ret ())))"

definition takeChannelId :: "('c, int) v2" where
  "takeChannelId =
     andThen (readState (getNextChannelId \<circ> v2_service)) (\<lambda>(channelId, service).
     andThen (modify (\<lambda>c. c\<lparr>v2_service := service\<rparr>)) (\<lambda>_. ret channelId))"

definition handleOpenStandardMiningChannel :: "'c v2_env \<Rightarrow> bytes \<Rightarrow> ('c, unit) v2" where
  "handleOpenStandardMiningChannel env body =
     andThen (parsed deserializeOpenStandardMiningChannel body) (\<lambda>m.
     (let requestId = openStandardMiningChannel_requestId m; maxTarget = openStandardMiningChannel_maxTarget m
      in admitChannel env requestId (openStandardMiningChannel_user_identity m) maxTarget (\<lambda>isFirstChannel.
         andThen takeChannelId (\<lambda>channelId.
         andThen (readState id) (\<lambda>c.
         (let noncePrefix = generateExtranoncePrefix (ve_random2 env (channelIdCounter (v2_service c))) (v2_service c)
          in andThen (lift (channelDifficultyOf env c (f32Value (openStandardMiningChannel_nominalHashRate m)) maxTarget))
               (\<lambda>difficulty.
             andThen (registerChannel env (newChannel channelId standard_channel noncePrefix
                (int (length (hexDecode FIXED_STANDARD_EXTRANONCE2))) difficulty maxTarget)) (\<lambda>_.
             andThen (lift (difficultyToTarget difficulty)) (\<lambda>target.
             andThen (v2_sendMessage env (M_OpenStandardMiningChannelSuccess
                \<lparr>openStandardMiningChannelSuccess_requestId = requestId,
                 openStandardMiningChannelSuccess_channelId = channelId,
                 openStandardMiningChannelSuccess_target = target,
                 openStandardMiningChannelSuccess_extranonce_prefix = noncePrefix,
                 openStandardMiningChannelSuccess_groupChannelId = 0\<rparr>) 0) (\<lambda>_.
             startWork env isFirstChannel (\<lambda>t. v2_sendNewMiningJob env channelId t True)))))))))))"

definition handleOpenExtendedMiningChannel :: "'c v2_env \<Rightarrow> bytes \<Rightarrow> ('c, unit) v2" where
  "handleOpenExtendedMiningChannel env body =
     andThen (parsed deserializeOpenExtendedMiningChannel body) (\<lambda>m.
     (let requestId = openExtendedMiningChannel_requestId m; maxTarget = openExtendedMiningChannel_maxTarget m
      in admitChannel env requestId (openExtendedMiningChannel_userIdentity m) maxTarget (\<lambda>isFirstChannel.
         andThen takeChannelId (\<lambda>channelId.
         andThen (readState v2_service) (\<lambda>service.
         andThen (lift (allocateExtendedExtranoncePrefix channelId service)) (\<lambda>(noncePrefix, service).
         andThen (modify (\<lambda>c. c\<lparr>v2_service := service\<rparr>)) (\<lambda>_.
         (let maxSize = max 0 (getExtendedTotalExtranonceSize service - int (length noncePrefix));
              defaultSize = min (getExtendedMinerExtranonceSize service) maxSize;
              extranonceSize = max defaultSize (max 0 (openExtendedMiningChannel_minExtranonceSize m))
          in if extranonceSize > maxSize
             then andThen (modify (\<lambda>c. c\<lparr>v2_service := releaseExtendedExtranoncePrefix channelId (v2_service c)\<rparr>)) (\<lambda>_.
                  sendOpenChannelError env requestId ''min-extranonce-size-too-large'')
             else
               andThen (readState id) (\<lambda>c.
               andThen (lift (channelDifficultyOf env c (f32Value (openExtendedMiningChannel_nominalHashRate m)) maxTarget))
                 (\<lambda>difficulty.
               andThen (registerChannel env (newChannel channelId extended_channel noncePrefix extranonceSize difficulty
                  maxTarget)) (\<lambda>_.
               andThen (lift (difficultyToTarget difficulty)) (\<lambda>target.
               andThen (v2_sendMessage env (M_OpenExtendedMiningChannelSuccess
                  \<lparr>openExtendedMiningChannelSuccess_requestId = requestId,
                   openExtendedMiningChannelSuccess_channelId = channelId,
                   openExtendedMiningChannelSuccess_target = target,
                   openExtendedMiningChannelSuccess_extranonceSize = extranonceSize,
                   openExtendedMiningChannelSuccess_extranoncePrefix = noncePrefix,
                   openExtendedMiningChannelSuccess_groupChannelId = 0\<rparr>) 0) (\<lambda>_.
               startWork env isFirstChannel (\<lambda>t. sendNewExtendedMiningJob env channelId t True))))))))))))))"

section \<open>Shares\<close>

definition v2_buildHeader :: "Block \<Rightarrow> bytes \<Rightarrow> int \<Rightarrow> int \<Rightarrow> int \<Rightarrow> bytes result" where
  "v2_buildHeader block merkleRoot version timestamp nonce =
     buildHeader (blk_prevHash block) merkleRoot version timestamp (js_int (blk_bits block)) nonce"

text \<open>\<open>BigInt(Math.round(difficulty))\<close>.\<close>

definition sharesSum :: "jsnum \<Rightarrow> int result" where
  "sharesSum difficulty = (case difficulty of Num r \<Rightarrow> Inr (js_round r) | _ \<Rightarrow> Inl RangeError)"

definition sendShareSuccess :: "'c v2_env \<Rightarrow> int \<Rightarrow> int \<Rightarrow> jsnum \<Rightarrow> ('c, unit) v2" where
  "sendShareSuccess env channelId sequenceNumber jobDifficulty =
     andThen (lift (sharesSum jobDifficulty)) (\<lambda>total.
       v2_sendMessage env (M_SubmitSharesSuccess
         \<lparr>submitSharesSuccess_channelId = channelId, submitSharesSuccess_lastSequenceNumber = sequenceNumber,
          submitSharesSuccess_newSubmitsAcceptedCount = 1, submitSharesSuccess_newSharesSum = total\<rparr>)
         SV2_CHANNEL_MSG_FLAG)"

text \<open>The set of seen submissions is emptied when it has grown past 10000.\<close>

definition rememberSubmission :: "jsstr \<Rightarrow> ChannelState \<Rightarrow> ChannelState" where
  "rememberSubmission key ch =
     (let seen = insert key (ch_miningSubmissionHashes ch)
      in ch\<lparr>ch_miningSubmissionHashes := (if card seen > 10000 then {} else seen)\<rparr>)"

definition v2_persistClientHashRate :: "'c v2_env \<Rightarrow> ('c, unit) v2" where
  "v2_persistClientHashRate env =
     andThen (readState id) (\<lambda>c.
       case v2_clientEntity c of
         None \<Rightarrow> ret ()
       | Some entity \<Rightarrow>
          (let hashRate = st_hashRate (v2_statistics c); nowMs = env_now (ve_pool env)
           in if \<not> isFinite hashRate \<or> js_le hashRate (Num 0) then ret ()
              else if v2_lastHashRatePersistedAt c > 0
                 \<and> js_lt (Num (of_int (nowMs - v2_lastHashRatePersistedAt c)))
                     (getHashRatePersistIntervalMs (ve_pool env)) then ret ()
              else
                andThen (modify (\<lambda>c. c\<lparr>v2_lastHashRatePersistedAt := nowMs\<rparr>)) (\<lambda>_.
                  tryCatch (v2_perform env (V2_UpdateHashRate (ce_id entity) hashRate nowMs)) (\<lambda>_. ret ()))))"

text \<open>A block is handed to the node, recorded and announced; the result of the submission comes back.\<close>

definition submitFoundBlock :: "'c v2_env \<Rightarrow> IJobTemplate \<Rightarrow> Block \<Rightarrow> ('c, jsstr option) v2" where
  "submitFoundBlock env jobTemplate block =
     andThen (readState id) (\<lambda>c.
     andThen (v2_perform env (V2_SubmitBlock block)) (\<lambda>_.
     (let blockSubmissionResult = env_submitResult (ve_pool env) block
      in andThen (v2_perform env (V2_SaveBlock \<lparr>fb_height = jt_height jobTemplate, fb_minerAddress = addressOf c,
             fb_worker = v2_workerName c, fb_sessionId = v2_sessionId c, fb_block = block,
             fb_blockSubmissionResult = blockSubmissionResult,
             fb_payoutSnapshotId = (if v2_payoutMode c = pplns then jt_payoutSnapshotId jobTemplate else None),
             fb_payoutMode = v2_payoutMode c\<rparr>)) (\<lambda>_.
         andThen (if v2_payoutMode c = pplns
             then v2_perform env (V2_FinalizeSnapshot (jt_payoutSnapshotId jobTemplate) (jt_height jobTemplate)
               blockSubmissionResult)
             else ret ()) (\<lambda>_.
         andThen (v2_perform env (V2_NotifyBlockFound (addressOf c) (jt_height jobTemplate) blockSubmissionResult)) (\<lambda>_.
         andThen (if isSuccessfulBlockSubmission blockSubmissionResult
             then v2_perform env V2_ResetBestDifficulty else ret ()) (\<lambda>_.
           ret blockSubmissionResult)))))))"

definition ratchetBestDifficulty :: "'c v2_env \<Rightarrow> jsnum \<Rightarrow> ('c, unit) v2" where
  "ratchetBestDifficulty env shareDifficulty =
     andThen (readState id) (\<lambda>c.
     andThen (v2_need (v2_clientEntity c)) (\<lambda>entity.
       if js_lt (ce_bestDifficulty entity) shareDifficulty
       then
         andThen (v2_perform env (V2_UpdateBestDifficulty (ce_id entity) shareDifficulty)) (\<lambda>_.
         andThen (modify (\<lambda>c. c\<lparr>v2_clientEntity := Some (entity\<lparr>ce_bestDifficulty := shareDifficulty\<rparr>)\<rparr>)) (\<lambda>_.
           v2_perform env (V2_UpdateAddressBest (addressOf c) shareDifficulty (v2_userAgent c))))
       else ret ()))"

text \<open>The fields of a submission as they are recorded.\<close>

record ShareFields =
  sf_jobId :: jsstr
  sf_nonce :: int
  sf_ntime :: int
  sf_version :: int
  sf_extraNonce2 :: jsstr

definition recordAcceptedShare ::
    "'c v2_env \<Rightarrow> jsnum \<Rightarrow> jsnum \<Rightarrow> IJobTemplate \<Rightarrow> Block option \<Rightarrow> ShareFields \<Rightarrow> WorkProtocol \<Rightarrow>
     jsstr option \<Rightarrow> ('c, unit) v2" where
  "recordAcceptedShare env shareDifficulty jobDifficulty jobTemplate updatedJobBlock share workProtocol
     blockCandidateResult =
     andThen (v2_ensureClientEntity env) (\<lambda>_.
     andThen (case updatedJobBlock of
         None \<Rightarrow> ret blockCandidateResult
       | Some block \<Rightarrow> submitFoundBlock env jobTemplate block) (\<lambda>blockSubmissionResult.
     andThen (readState id) (\<lambda>c.
     andThen (v2_need (v2_clientEntity c)) (\<lambda>entity.
     andThen (v2_perform env (V2_RecordShare
        \<lparr>vs_protocol = (if workProtocol = jdp_work then sv2_jdp else sv2), vs_payoutMode = v2_payoutMode c,
         vs_workSource = (if workProtocol = jdp_work then miner_template else pool_template),
         vs_workProtocol = workProtocol, vs_address = addressOf c, vs_clientName = v2_workerName c,
         vs_sessionId = v2_sessionId c, vs_clientId = ce_id entity, vs_jobId = sf_jobId share,
         vs_jobTemplateId = jt_id jobTemplate, vs_blockHeight = jt_height jobTemplate,
         vs_creditedDifficulty = jobDifficulty, vs_submissionDifficulty = shareDifficulty,
         vs_networkDifficulty = jt_networkDifficulty jobTemplate, vs_nonce = sf_nonce share,
         vs_ntime = sf_ntime share, vs_version = sf_version share, vs_extraNonce2 = sf_extraNonce2 share,
         vs_isBlockCandidate = (updatedJobBlock \<noteq> None \<or> blockCandidateResult \<noteq> None),
         vs_blockSubmissionResult = blockSubmissionResult\<rparr>)) (\<lambda>_.
     (let now = env_now (ve_pool env); st = addShares now now jobDifficulty (v2_statistics c)
      in andThen (modify (\<lambda>c. c\<lparr>v2_statistics := st,
             v2_clientEntity := map_option (\<lambda>e. e\<lparr>ce_updatedAt := now, ce_hashRate := st_hashRate st\<rparr>)
               (v2_clientEntity c)\<rparr>)) (\<lambda>_.
         andThen (v2_persistClientHashRate env) (\<lambda>_.
           ratchetBestDifficulty env shareDifficulty))))))))"

definition meetsNetworkTarget :: "IJobTemplate \<Rightarrow> bytes \<Rightarrow> bool result" where
  "meetsNetworkTarget jobTemplate hash = rmap (meetsTarget hash) (difficultyToTarget (jt_networkDifficulty jobTemplate))"

definition handleAcceptedShare ::
    "'c v2_env \<Rightarrow> Sv2SubmitSharesStandard \<Rightarrow> bytes \<Rightarrow> MiningJob \<Rightarrow> IJobTemplate \<Rightarrow> ShareDifficulty \<Rightarrow> jsnum \<Rightarrow>
     ('c, unit) v2" where
  "handleAcceptedShare env m extranoncePrefix job jobTemplate judged jobDifficulty =
     andThen (lift (meetsNetworkTarget jobTemplate (hashBuffer judged))) (\<lambda>isBlock.
     andThen (if isBlock
         then lift (rmap Some (copyAndUpdateBlock (env_lib (ve_pool env)) (env_sha256 (ve_pool env)) job jobTemplate
           (Num (of_int (js_xor (submitSharesStandard_version m) (blk_version (jt_block jobTemplate)))))
           (Num (of_int (submitSharesStandard_nonce m))) (hexEncode extranoncePrefix) FIXED_STANDARD_EXTRANONCE2
           (Num (of_int (submitSharesStandard_ntime m)))))
         else ret None) (\<lambda>updatedJobBlock.
       recordAcceptedShare env (submissionDifficulty judged) jobDifficulty jobTemplate updatedJobBlock
         \<lparr>sf_jobId = job_jobId job, sf_nonce = submitSharesStandard_nonce m, sf_ntime = submitSharesStandard_ntime m,
          sf_version = submitSharesStandard_version m, sf_extraNonce2 = FIXED_STANDARD_EXTRANONCE2\<rparr>
         pool_work None))"

definition jobDifficultyOf :: "ChannelState \<Rightarrow> int \<Rightarrow> jsnum" where
  "jobDifficultyOf ch jobId =
     (case map_of (ch_jobIdToDifficulty ch) jobId of None \<Rightarrow> ch_sessionDifficulty ch | Some d \<Rightarrow> d)"

definition standardKey :: "Sv2SubmitSharesStandard \<Rightarrow> jsstr" where
  "standardKey m = joinWith (jstr '':'') (map intToString10
     [submitSharesStandard_jobId m, submitSharesStandard_nonce m, submitSharesStandard_ntime m,
      submitSharesStandard_version m])"

text \<open>
  The judgement of a standard submission: its job, the template of the job, the merkle root that was sent
  with it.
\<close>

definition judgeStandard ::
    "'c v2_env \<Rightarrow> Sv2SubmitSharesStandard \<Rightarrow> ChannelState \<Rightarrow> MiningJob \<Rightarrow> IJobTemplate \<Rightarrow> bytes \<Rightarrow> ('c, unit) v2" where
  "judgeStandard env m channel job jobTemplate sentMerkleRoot =
     andThen (lift (v2_buildHeader (jt_block jobTemplate) sentMerkleRoot (submitSharesStandard_version m)
        (submitSharesStandard_ntime m) (submitSharesStandard_nonce m))) (\<lambda>headerBuffer.
     (let judged = calculateDifficulty (env_sha256 (ve_pool env)) headerBuffer;
          jobDifficulty = jobDifficultyOf channel (submitSharesStandard_jobId m)
      in andThen (lift (difficultyToTarget jobDifficulty)) (\<lambda>target.
         if \<not> meetsTarget (hashBuffer judged) target
         then sendShareError env (submitSharesStandard_channelId m) (submitSharesStandard_sequenceNumber m)
           ''difficulty-too-low''
         else
           andThen (sendShareSuccess env (submitSharesStandard_channelId m) (submitSharesStandard_sequenceNumber m)
              jobDifficulty) (\<lambda>_.
           andThen (updChannel (submitSharesStandard_channelId m)
              (\<lambda>ch. ch\<lparr>ch_acceptedShareCount := ch_acceptedShareCount ch + 1\<rparr>)) (\<lambda>_.
             handleAcceptedShare env m (ch_extranoncePrefix channel) job jobTemplate judged jobDifficulty)))))"

definition handleSubmitSharesStandard :: "'c v2_env \<Rightarrow> bytes \<Rightarrow> ('c, unit) v2" where
  "handleSubmitSharesStandard env body =
     andThen (parsed deserializeSubmitSharesStandard body) (\<lambda>m.
     (let channelId = submitSharesStandard_channelId m; jobId = submitSharesStandard_jobId m;
          refuse = sendShareError env channelId (submitSharesStandard_sequenceNumber m)
      in andThen (readState id) (\<lambda>c. case map_of (v2_channels c) channelId of
           None \<Rightarrow> refuse ''invalid-channel-id''
         | Some channel \<Rightarrow>
             if standardKey m \<in> ch_miningSubmissionHashes channel then refuse ''stale-share''
             else
               andThen (updChannel channelId (rememberSubmission (standardKey m))) (\<lambda>_.
               case (getJobById (v2_jobsService c) (intToString16 jobId), map_of (ch_jobIdToMerkleRoot channel) jobId) of
                 (Some job, Some sentMerkleRoot) \<Rightarrow>
                   (case getJobTemplateById (v2_jobsService c) (job_jobTemplateId job) of
                      None \<Rightarrow> refuse ''invalid-job-id''
                    | Some jobTemplate \<Rightarrow> judgeStandard env m channel job jobTemplate sentMerkleRoot)
               | _ \<Rightarrow> refuse ''invalid-job-id''))))"

section \<open>Extended shares\<close>

text \<open>\<open>set\<close> into the pair of hashes throws when a hash does not fit, \<open>copy\<close> of the custom work does not.\<close>

fun extendedMerkleLoop :: "(bytes \<Rightarrow> bytes) \<Rightarrow> bytes \<Rightarrow> bytes \<Rightarrow> bytes list \<Rightarrow> bytes result" where
  "extendedMerkleLoop sha256 merklePair merkleRoot [] = Inr merkleRoot"
| "extendedMerkleLoop sha256 merklePair merkleRoot (sibling # siblings) =
     (if length merkleRoot > 64 \<or> length sibling > 32 then Inl RangeError
      else (let pair = put_at 32 sibling (put_at 0 merkleRoot merklePair)
            in extendedMerkleLoop sha256 pair (hash256 sha256 pair) siblings))"

definition extendedCoinbase :: "ExtendedJobData \<Rightarrow> bytes \<Rightarrow> bytes \<Rightarrow> bytes" where
  "extendedCoinbase job extranoncePrefix extranonce =
     xj_coinbasePrefix job @ extranoncePrefix @ extranonce @ xj_coinbaseSuffix job"

definition extendedMerkleRoot :: "(bytes \<Rightarrow> bytes) \<Rightarrow> ExtendedJobData \<Rightarrow> bytes \<Rightarrow> bytes \<Rightarrow> bytes result" where
  "extendedMerkleRoot sha256 job extranoncePrefix extranonce =
     extendedMerkleLoop sha256 (replicate 64 0)
       (hash256 sha256 (extendedCoinbase job extranoncePrefix extranonce)) (xj_merklePath job)"

text \<open>The header is built with the previous hash and the bits the job was sent with.\<close>

definition headerBlock :: "ExtendedJobData \<Rightarrow> Block" where
  "headerBlock job = (jt_block (xj_jobTemplate job))\<lparr>blk_prevHash := xj_prevHash job, blk_bits := xj_nBits job\<rparr>"

text \<open>The block has the header fields of the template, not those of the job. Writing \<open>transactions[0]\<close> of an empty list appends.\<close>

definition reconstructExtendedBlock ::
    "'c v2_env \<Rightarrow> ExtendedJobData \<Rightarrow> Sv2SubmitSharesExtended \<Rightarrow> bytes \<Rightarrow> bytes \<Rightarrow> Block result" where
  "reconstructExtendedBlock env job m merkleRoot extranoncePrefix =
     (case ve_fromBuffer env (extendedCoinbase job extranoncePrefix (submitSharesExtended_extranonce m)) of
        None \<Rightarrow> Inl (JsError ''transaction'')
      | Some coinbaseTx \<Rightarrow>
         (let testBlock = jt_block (xj_jobTemplate job)
          in Inr (testBlock\<lparr>blk_transactions := coinbaseTx # tl (blk_transactions testBlock),
               blk_version := submitSharesExtended_version m,
               blk_nonce := Num (of_int (submitSharesExtended_nonce m)),
               blk_timestamp := Num (of_int (submitSharesExtended_ntime m)),
               blk_merkleRoot := merkleRoot\<rparr>)))"

definition extendedKey :: "Sv2SubmitSharesExtended \<Rightarrow> jsstr" where
  "extendedKey m = joinWith (jstr '':'') (map intToString10
     [submitSharesExtended_jobId m, submitSharesExtended_nonce m, submitSharesExtended_ntime m,
      submitSharesExtended_version m] @ [hexEncode (submitSharesExtended_extranonce m)])"

text \<open>What follows an extended share that meets its target.\<close>

definition creditExtended ::
    "'c v2_env \<Rightarrow> Sv2SubmitSharesExtended \<Rightarrow> ChannelState \<Rightarrow> ExtendedJobData \<Rightarrow> bytes \<Rightarrow> ShareDifficulty \<Rightarrow> jsnum \<Rightarrow>
     ('c, unit) v2" where
  "creditExtended env m channel job merkleRoot judged jobDifficulty =
     andThen (lift (meetsNetworkTarget (xj_jobTemplate job) (hashBuffer judged))) (\<lambda>isBlock.
     andThen (if isBlock \<and> xj_workProtocol job \<noteq> Some jdp_work
         then lift (rmap Some (reconstructExtendedBlock env job m merkleRoot (ch_extranoncePrefix channel)))
         else ret None) (\<lambda>updatedJobBlock.
       recordAcceptedShare env (submissionDifficulty judged) jobDifficulty (xj_jobTemplate job) updatedJobBlock
         \<lparr>sf_jobId = intToString16 (submitSharesExtended_jobId m), sf_nonce = submitSharesExtended_nonce m,
          sf_ntime = submitSharesExtended_ntime m, sf_version = submitSharesExtended_version m,
          sf_extraNonce2 = hexEncode (submitSharesExtended_extranonce m)\<rparr>
         (case xj_workProtocol job of None \<Rightarrow> pool_work | Some w \<Rightarrow> w)
         (if isBlock \<and> xj_workProtocol job = Some jdp_work
          then Some (jstr ''sv2-jdp-client-submit-expected'') else None)))"

definition judgeExtended ::
    "'c v2_env \<Rightarrow> Sv2SubmitSharesExtended \<Rightarrow> ChannelState \<Rightarrow> ExtendedJobData \<Rightarrow> ('c, unit) v2" where
  "judgeExtended env m channel job =
     andThen (lift (extendedMerkleRoot (env_sha256 (ve_pool env)) job (ch_extranoncePrefix channel)
        (submitSharesExtended_extranonce m))) (\<lambda>merkleRoot.
     andThen (lift (v2_buildHeader (headerBlock job) merkleRoot (submitSharesExtended_version m)
        (submitSharesExtended_ntime m) (submitSharesExtended_nonce m))) (\<lambda>headerBuffer.
     (let judged = calculateDifficulty (env_sha256 (ve_pool env)) headerBuffer;
          jobDifficulty = jobDifficultyOf channel (submitSharesExtended_jobId m)
      in andThen (lift (difficultyToTarget jobDifficulty)) (\<lambda>target.
         if \<not> meetsTarget (hashBuffer judged) target
         then sendShareError env (submitSharesExtended_channelId m) (submitSharesExtended_sequenceNumber m)
           ''difficulty-too-low''
         else
           andThen (sendShareSuccess env (submitSharesExtended_channelId m) (submitSharesExtended_sequenceNumber m)
              jobDifficulty) (\<lambda>_.
           andThen (updChannel (submitSharesExtended_channelId m)
              (\<lambda>ch. ch\<lparr>ch_acceptedShareCount := ch_acceptedShareCount ch + 1\<rparr>)) (\<lambda>_.
             creditExtended env m channel job merkleRoot judged jobDifficulty))))))"

definition handleSubmitSharesExtended :: "'c v2_env \<Rightarrow> bytes \<Rightarrow> ('c, unit) v2" where
  "handleSubmitSharesExtended env body =
     andThen (parsed deserializeSubmitSharesExtended body) (\<lambda>m.
     (let channelId = submitSharesExtended_channelId m;
          refuse = sendShareError env channelId (submitSharesExtended_sequenceNumber m)
      in andThen (readState (\<lambda>c. map_of (v2_channels c) channelId)) (\<lambda>found. case found of
           None \<Rightarrow> refuse ''invalid-channel-id''
         | Some channel \<Rightarrow>
             if \<not> isExtended channel then refuse ''invalid-channel-id''
             else if extendedKey m \<in> ch_miningSubmissionHashes channel then refuse ''stale-share''
             else
               andThen (updChannel channelId (rememberSubmission (extendedKey m))) (\<lambda>_.
               case map_of (ch_extendedJobs channel) (submitSharesExtended_jobId m) of
                 None \<Rightarrow> refuse ''invalid-job-id''
               | Some job \<Rightarrow>
                   if xj_retiredAt job \<noteq> None then refuse ''stale-share''
                   else if int (length (submitSharesExtended_extranonce m)) \<noteq> ch_extranonceSize channel
                   then refuse ''invalid-extranonce-size''
                   else judgeExtended env m channel job))))"

section \<open>Custom jobs\<close>

definition customJobError :: "'c v2_env \<Rightarrow> Sv2SetCustomMiningJob \<Rightarrow> string \<Rightarrow> ('c, unit) v2" where
  "customJobError env m errorCode =
     v2_sendMessage env (M_SetCustomMiningJobError
       \<lparr>setCustomMiningJobError_channelId = setCustomMiningJob_channelId m,
        setCustomMiningJobError_requestId = setCustomMiningJob_requestId m,
        setCustomMiningJobError_errorCode = jstr errorCode\<rparr>) 0"

text \<open>
  The expected outputs are computed before they are compared; both functions are those of the template
  provider, except that an empty list of recipients is compared like any other.
\<close>

definition buildExpectedPayoutOutputs ::
    "'c v2_env \<Rightarrow> AddressObject list \<Rightarrow> int \<Rightarrow> CoinbasePayoutOutput list result" where
  "buildExpectedPayoutOutputs env payoutInformation coinbaseValue =
     buildCoinbasePayoutOutputs (ve_toOutputScript env) payoutInformation (BigIntValue (max 0 coinbaseValue))"

definition validateCoinbasePayoutOutputs ::
    "'c v2_env \<Rightarrow> bytes \<Rightarrow> IJobTemplate \<Rightarrow> AddressObject list \<Rightarrow> string option result" where
  "validateCoinbasePayoutOutputs env coinbaseTxBytes jobTemplate payoutInformation =
     (case ve_fromBuffer env coinbaseTxBytes of
        None \<Rightarrow> Inr (Some ''invalid-coinbase-transaction'')
      | Some transaction \<Rightarrow>
          rmap (\<lambda>expected. if submittedOutputs transaction = expected then None
              else Some ''invalid-coinbase-payout-outputs'')
            (buildExpectedPayoutOutputs env payoutInformation (jt_coinbasevalue jobTemplate)))"

definition customTemplate :: "Sv2SetCustomMiningJob \<Rightarrow> IJobTemplate \<Rightarrow> IJobTemplate" where
  "customTemplate m latestTemplate = latestTemplate\<lparr>jt_block := (jt_block latestTemplate)
     \<lparr>blk_prevHash := setCustomMiningJob_prevHash m, blk_bits := Num (of_int (setCustomMiningJob_nBits m)),
      blk_version := setCustomMiningJob_version m, blk_timestamp := Num (of_int (setCustomMiningJob_minNtime m))\<rparr>\<rparr>"

text \<open>After the token is accepted: the coinbase must pay what the pool would pay.\<close>

definition acceptCustomJob :: "'c v2_env \<Rightarrow> Sv2SetCustomMiningJob \<Rightarrow> ChannelState \<Rightarrow> ('c, unit) v2" where
  "acceptCustomJob env m channel =
     andThen (awaitTemplate env) (\<lambda>latestTemplate.
     andThen (readState id) (\<lambda>c.
     (let jobId = numericJobId (getNextId (v2_jobsService c));
          extranonceLength = nat (int (length (ch_extranoncePrefix channel)) + ch_extranonceSize channel)
      in andThen (lift (buildSv2CoinbaseSplit m extranonceLength)) (\<lambda>split.
         andThen (lift (validateCoinbasePayoutOutputs env
            (split_coinbasePrefix split @ replicate extranonceLength 0 @ split_coinbaseSuffix split) latestTemplate
            (v2_getPayoutInformation (v2_payoutMode c) latestTemplate (addressOf c)))) (\<lambda>failure. case failure of
           Some errorCode \<Rightarrow> customJobError env m errorCode
         | None \<Rightarrow>
             andThen (issueJob env latestTemplate) (\<lambda>placeholderJob.
             andThen (updChannel (setCustomMiningJob_channelId m) (\<lambda>ch. ch
                \<lparr>ch_jobIdToDifficulty := AList.update jobId (ch_sessionDifficulty ch) (ch_jobIdToDifficulty ch),
                 ch_extendedJobs := AList.update jobId
                   \<lparr>xj_coinbasePrefix = split_coinbasePrefix split, xj_coinbaseSuffix = split_coinbaseSuffix split,
                    xj_merklePath = setCustomMiningJob_merklePath m, xj_prevHash = setCustomMiningJob_prevHash m,
                    xj_nBits = Num (of_int (setCustomMiningJob_nBits m)),
                    xj_minNtime = Num (of_int (setCustomMiningJob_minNtime m)),
                    xj_jobTemplate = customTemplate m latestTemplate, xj_miningJob = placeholderJob,
                    xj_retiredAt = None, xj_creation = env_now (ve_pool env),
                    xj_workProtocol = Some jdp_work\<rparr> (ch_extendedJobs ch)\<rparr>)) (\<lambda>_.
             v2_sendMessage env (M_SetCustomMiningJobSuccess
               \<lparr>setCustomMiningJobSuccess_channelId = setCustomMiningJob_channelId m,
                setCustomMiningJobSuccess_requestId = setCustomMiningJob_requestId m,
                setCustomMiningJobSuccess_jobId = jobId\<rparr>) 0)))))))"

definition lookupDeclared :: "'c v2_env \<Rightarrow> bytes \<Rightarrow> ('c, Sv2DeclaredMiningJob option) v2" where
  "lookupDeclared env token =
     andThen (readState (\<lambda>c. getDeclaredJob (env_now (ve_pool env)) token (v2_registry c))) (\<lambda>(r, registry).
     andThen (modify (\<lambda>c. c\<lparr>v2_registry := registry\<rparr>)) (\<lambda>_. lift r))"

definition handleSetCustomMiningJob :: "'c v2_env \<Rightarrow> bytes \<Rightarrow> ('c, unit) v2" where
  "handleSetCustomMiningJob env body =
     andThen (parsed deserializeSetCustomMiningJob body) (\<lambda>m.
     andThen (readState id) (\<lambda>c.
     if \<not> v2_workSelectionEnabled c then customJobError env m ''work-selection-not-negotiated''
     else (case map_of (v2_channels c) (setCustomMiningJob_channelId m) of
         None \<Rightarrow> customJobError env m ''invalid-channel-id''
       | Some channel \<Rightarrow>
           if \<not> isExtended channel then customJobError env m ''invalid-channel-type''
           else
             andThen (lookupDeclared env (setCustomMiningJob_token m)) (\<lambda>found. case found of
                 None \<Rightarrow> customJobError env m ''invalid-mining-job-token''
               | Some declaredJob \<Rightarrow>
                   if dj_validationMode declaredJob \<noteq> full_template
                   then customJobError env m ''invalid-mining-job-token''
                   else if declareMiningJob_version (dj_job declaredJob) \<noteq> setCustomMiningJob_version m
                   then customJobError env m ''declared-job-mismatch''
                   else acceptCustomJob env m channel))))"

section \<open>Changes of channels\<close>

definition handleUpdateChannel :: "'c v2_env \<Rightarrow> bytes \<Rightarrow> ('c, unit) v2" where
  "handleUpdateChannel env body =
     andThen (parsed deserializeUpdateChannel body) (\<lambda>m.
     (let channelId = updateChannel_channelId m; maxTarget = updateChannel_maximumTarget m
      in withChannel channelId (\<lambda>_.
         andThen (updChannel channelId (\<lambda>ch. ch\<lparr>ch_declaredMaxTarget := maxTarget\<rparr>)) (\<lambda>_.
         andThen (readState v2_targetSharesPerMinute) (\<lambda>perMinute.
         andThen (lift (suggestedByHashRate env perMinute (f32Value (updateChannel_nominalHashRate m)))) (\<lambda>suggested.
         case suggested of
           None \<Rightarrow> ret ()
         | Some nextDifficulty \<Rightarrow>
             andThen (lift (clampDifficultyToMaxTarget nextDifficulty maxTarget)) (\<lambda>d.
             andThen (updChannel channelId (\<lambda>ch. ch\<lparr>ch_sessionDifficulty := clamped env d\<rparr>)) (\<lambda>_.
               sendSetTarget env channelId))))))))"

definition handleCloseChannel :: "'c v2_env \<Rightarrow> bytes \<Rightarrow> ('c, unit) v2" where
  "handleCloseChannel env body =
     andThen (parsed deserializeCloseChannel body) (\<lambda>m.
     (let channelId = closeChannel_channelId m
      in andThen (withChannel channelId (\<lambda>channel. if isExtended channel
           then modify (\<lambda>c. c\<lparr>v2_service := releaseExtendedExtranoncePrefix channelId (v2_service c)\<rparr>)
           else ret ())) (\<lambda>_.
         andThen (modify (\<lambda>c. c\<lparr>v2_channels := AList.delete channelId (v2_channels c)\<rparr>)) (\<lambda>_.
         andThen (modify (\<lambda>c. if v2_primaryChannelId c = Some channelId
            then c\<lparr>v2_primaryChannelId := (case v2_channels c of [] \<Rightarrow> None | (i, _) # _ \<Rightarrow> Some i)\<rparr> else c)) (\<lambda>_.
         andThen (readState v2_channels) (\<lambda>chs. if chs = [] then v2_closeSocket else ret ()))))))"

section \<open>Variable difficulty\<close>

definition v2_refreshedTemplate :: "'c v2_env \<Rightarrow> IJobTemplate \<Rightarrow> IJobTemplate" where
  "v2_refreshedTemplate env jobTemplate =
     jobTemplate\<lparr>jt_block := (jt_block jobTemplate)\<lparr>blk_timestamp :=
         js_max (blk_timestamp (jt_block jobTemplate)) (Num (of_int (env_now (ve_pool env) div 1000)))\<rparr>,
       jt_clearJobs := True\<rparr>"

definition retarget :: "'c v2_env \<Rightarrow> jsnum \<Rightarrow> int \<Rightarrow> ('c, unit) v2" where
  "retarget env targetDiff channelId = withChannel channelId (\<lambda>channel.
     andThen (lift (clampDifficultyToMaxTarget targetDiff (ch_declaredMaxTarget channel))) (\<lambda>d.
     andThen (updChannel channelId (\<lambda>ch. ch\<lparr>ch_sessionDifficulty := clamped env d\<rparr>)) (\<lambda>_.
       sendSetTarget env channelId)))"

definition v2_checkDifficulty :: "'c v2_env \<Rightarrow> ('c, unit) v2" where
  "v2_checkDifficulty env =
     andThen (readState id) (\<lambda>c.
       case getSuggestedDifficulty (env_now (ve_pool env)) (v2_sessionDifficulty c) (v2_statistics c) of
         None \<Rightarrow> throw Diverges
       | Some suggestion \<Rightarrow>
          (case v2_clampDifficulty env suggestion of
             None \<Rightarrow> ret ()
           | Some targetDiff \<Rightarrow>
              if targetDiff = v2_sessionDifficulty c \<or> \<not> isFinite targetDiff then ret ()
              else
                andThen (modify (\<lambda>c. c\<lparr>v2_sessionDifficulty := targetDiff\<rparr>)) (\<lambda>_.
                andThen (forChannels (retarget env targetDiff)) (\<lambda>_.
                andThen (awaitTemplate env) (\<lambda>jobTemplate.
                  forChannels (sendJobTo env (v2_refreshedTemplate env jobTemplate) True))))))"

section \<open>Frames and segments\<close>

definition handleRequestExtensions :: "'c v2_env \<Rightarrow> bytes \<Rightarrow> ('c, unit) v2" where
  "handleRequestExtensions env body =
     andThen (parsed deserializeRequestExtensions body) (\<lambda>m.
     andThen (lift (serializeRequestExtensionsSuccess
        \<lparr>requestExtensionsSuccess_requestId = requestExtensions_requestId m,
         requestExtensionsSuccess_supportedExtensions = []\<rparr>)) (\<lambda>data.
       v2_sendFrame env 0x01 data 0x0001))"

text \<open>The message types are those of \<open>Sv2MsgType\<close>; others are ignored.\<close>

definition handleFrame :: "'c v2_env \<Rightarrow> int \<Rightarrow> int \<Rightarrow> bytes \<Rightarrow> ('c, unit) v2" where
  "handleFrame env ty extType body =
     (if js_and extType (js_not SV2_CHANNEL_MSG_FLAG) = 0x0001 \<and> ty = 0x00 then handleRequestExtensions env body
      else if ty = 0x00 then handleSetupConnection env body
      else if ty = 0x10 then handleOpenStandardMiningChannel env body
      else if ty = 0x13 then handleOpenExtendedMiningChannel env body
      else if ty = 0x1a then handleSubmitSharesStandard env body
      else if ty = 0x1b then handleSubmitSharesExtended env body
      else if ty = 0x22 then handleSetCustomMiningJob env body
      else if ty = 0x16 then handleUpdateChannel env body
      else if ty = 0x18 then handleCloseChannel env body
      else ret ())"

text \<open>All frames of a segment are handled, also after one of them has closed the connection.\<close>

definition handleEncryptedData :: "'c v2_env \<Rightarrow> bytes \<Rightarrow> ('c, unit) v2" where
  "handleEncryptedData env data =
     andThen (readState v2_frameReader) (\<lambda>r.
     andThen (lift (feed data r)) (\<lambda>(r', frames).
     andThen (modify (\<lambda>c. c\<lparr>v2_frameReader := r'\<rparr>)) (\<lambda>_.
       forEach frames (\<lambda>frame. handleFrame env (msgType (header frame)) (extensionType (header frame)) (payload frame)))))"

text \<open>
  The handshake up to the call of \<open>processAct1\<close>, and what follows when its promise settles. Bytes that
  arrive in between stay in the buffer of the handshake.
\<close>

definition handleHandshakeData :: "bytes \<Rightarrow> ('c, unit) v2" where
  "handleHandshakeData data =
     andThen (modify (\<lambda>c. c\<lparr>v2_handshakeBuffer := v2_handshakeBuffer c @ data\<rparr>)) (\<lambda>_.
     andThen (readState id) (\<lambda>c.
       if v2_processingHandshake c \<or> length (v2_handshakeBuffer c) < SV2_NOISE_ACT1_SIZE then ret ()
       else modify (\<lambda>c. c\<lparr>v2_processingHandshake := True,
          v2_pendingHandshake := Some (take SV2_NOISE_ACT1_SIZE (v2_handshakeBuffer c),
            drop SV2_NOISE_ACT1_SIZE (v2_handshakeBuffer c)),
          v2_handshakeBuffer := []\<rparr>)))"

definition finishHandshake :: "'c v2_env \<Rightarrow> bytes \<Rightarrow> bytes \<Rightarrow> ('c, unit) v2" where
  "finishHandshake env act1 remainder =
     andThen (lift (ve_processAct1 env act1)) (\<lambda>(act2, sendKey, receiveKey).
     andThen (writeRaw env (V2_WriteRaw act2)) (\<lambda>_.
     andThen (modify (\<lambda>c. c\<lparr>v2_frameReader := setDecryptFn (ve_decrypt env) receiveKey (v2_frameReader c),
        v2_frameWriter := setEncryptFn (ve_encrypt env) sendKey (v2_frameWriter c),
        v2_handshakeComplete := True, v2_processingHandshake := False\<rparr>)) (\<lambda>_.
       if remainder = [] then ret () else handleEncryptedData env remainder)))"

definition v2_handleSocketData :: "'c v2_env \<Rightarrow> bytes \<Rightarrow> ('c, unit) v2" where
  "v2_handleSocketData env data =
     andThen (readState id) (\<lambda>c.
       if v2_destroyed c then ret ()
       else orClose (if v2_handshakeComplete c then handleEncryptedData env data else handleHandshakeData data))"

definition resumeHandshake :: "'c v2_env \<Rightarrow> ('c, unit) v2" where
  "resumeHandshake env =
     andThen (readState v2_pendingHandshake) (\<lambda>pending. case pending of
         None \<Rightarrow> ret ()
       | Some (act1, remainder) \<Rightarrow>
           andThen (modify (\<lambda>c. c\<lparr>v2_pendingHandshake := None\<rparr>)) (\<lambda>_.
             orClose (finishHandshake env act1 remainder)))"

section \<open>Events\<close>

text \<open>
  What can happen to a connection. The interval only runs while the timer is set, the subscriber only while
  it is subscribed; \<open>V2_Shared\<close> is anything that the rest of the pool does to the shared services. \<open>V2_Closed\<close> and \<open>V2_TimedOut\<close> are the listeners that
  \<open>StratumV2Service\<close> puts on the socket. An exception out of a handler leaves the state as it is.
\<close>

datatype v2_event =
    V2_SocketData bytes
  | V2_HandshakeReady
  | V2_NewTemplate IJobTemplate
  | V2_JobsFailed
  | V2_Interval
  | V2_Closed
  | V2_TimedOut
  | V2_Shared Sv2Service JobsService JobRegistry

definition v2_handleEvent :: "'c v2_env \<Rightarrow> v2_event \<Rightarrow> 'c V2Client \<Rightarrow> 'c V2Client" where
  "v2_handleEvent env ev c = (case ev of
      V2_SocketData data \<Rightarrow> snd (v2_handleSocketData env data c)
    | V2_HandshakeReady \<Rightarrow> snd (resumeHandshake env c)
    | V2_NewTemplate t \<Rightarrow> if v2_stratumSubscription c then snd (v2_onNewMiningJob env t c) else c
    | V2_JobsFailed \<Rightarrow> if v2_stratumSubscription c then snd (v2_closeSocket c) else c
    | V2_Interval \<Rightarrow> if v2_difficultyTimer c then snd (v2_checkDifficulty env c) else c
    | V2_Closed \<Rightarrow> snd (v2_destroy (c\<lparr>v2_socketDestroyed := True\<rparr>))
    | V2_TimedOut \<Rightarrow> snd (andThen v2_destroy (\<lambda>_. v2_destroySocket) c)
    | V2_Shared service jobsSvc registry \<Rightarrow>
        c\<lparr>v2_service := service, v2_jobsService := jobsSvc, v2_registry := registry\<rparr>)"

end
