(* ===== verification/PayoutPorts.thy ===== *)
theory PayoutPorts
  imports StratumV1Client
begin

text \<open>
  \<open>src/types/payout-mode.ts\<close>: which payout mode each listening port has. A setting that is absent
  is \<open>None\<close>.
\<close>

definition normalizePayoutMode :: "jsstr option \<Rightarrow> PayoutMode" where
  "normalizePayoutMode v = (if v = Some (jstr ''pplns'') then pplns else solo)"

text \<open>\<open>parseInt\<close> gives no number that is not an integer, except NaN and the infinities.\<close>

definition portOf :: "jsnum \<Rightarrow> int option" where
  "portOf x = (case x of Num r \<Rightarrow> if r = of_int \<lfloor>r\<rfloor> \<and> 0 < r \<and> r \<le> 65535 then Some \<lfloor>r\<rfloor> else None | _ \<Rightarrow> None)"

definition parsePortList :: "jsstr option \<Rightarrow> int list" where
  "parsePortList configured = (case configured of
      None \<Rightarrow> []
    | Some s \<Rightarrow> if trimmed s = [] then []
        else List.map_filter (\<lambda>port. portOf (parseInt 10 (trimmed port))) (splitOn 44 s))"

fun addPorts :: "PayoutMode \<Rightarrow> int list \<Rightarrow> (int \<times> PayoutMode) list \<Rightarrow> (int \<times> PayoutMode) list result" where
  "addPorts mode [] byPort = Inr byPort"
| "addPorts mode (port # ports) byPort =
     (case map_of byPort port of
        Some existing \<Rightarrow>
          if existing \<noteq> mode then Inl (JsError ''port'') else addPorts mode ports (AList.update port mode byPort)
      | None \<Rightarrow> addPorts mode ports (AList.update port mode byPort))"

definition parsePayoutModePorts :: "jsstr option \<Rightarrow> jsstr option \<Rightarrow> (int \<times> PayoutMode) list result" where
  "parsePayoutModePorts soloPorts pplnsPorts =
     rbind (addPorts solo (parsePortList soloPorts) []) (\<lambda>byPort. addPorts pplns (parsePortList pplnsPorts) byPort)"

text \<open>The ports of a configuration: every configured port once, with the mode of its list.\<close>

lemma addPorts_spec:
  "distinct (map fst byPort) \<Longrightarrow> addPorts mode ports byPort = Inr r \<Longrightarrow>
   distinct (map fst r) \<and> map_of r = (\<lambda>p. if p \<in> set ports then Some mode else map_of byPort p)
   \<and> (\<forall>p m. p \<in> set ports \<longrightarrow> map_of byPort p = Some m \<longrightarrow> m = mode)"
proof (induction ports arbitrary: byPort)
  case (Cons port ports)
  let ?next = "AList.update port mode byPort"
  have ok: "\<And>m. map_of byPort port = Some m \<Longrightarrow> m = mode" and go: "addPorts mode ports ?next = Inr r"
    using Cons.prems(2) by (auto split: option.splits if_splits)
  have "distinct (map fst ?next)" using Cons.prems(1) by (rule distinct_update)
  from Cons.IH [OF this go] show ?case using ok by (auto simp: update_conv' fun_eq_iff split: if_splits)
qed simp

lemma addPorts_fails:
  "addPorts mode ports byPort = Inl e \<Longrightarrow> \<exists>p m. p \<in> set ports \<and> map_of byPort p = Some m \<and> m \<noteq> mode"
proof (induction ports arbitrary: byPort)
  case (Cons port ports)
  show ?case
  proof (cases "\<exists>m. map_of byPort port = Some m \<and> m \<noteq> mode")
    case False
    then have "addPorts mode ports (AList.update port mode byPort) = Inl e"
      using Cons.prems by (auto split: option.splits if_splits)
    from Cons.IH [OF this] show ?thesis by (auto simp: update_conv' split: if_splits)
  qed auto
qed simp

text \<open>
  A configuration of ports is refused exactly when one port is in both lists; otherwise every configured
  port appears once, with the payout mode of its list.
\<close>

theorem parsePayoutModePorts_spec:
  "case parsePayoutModePorts s p of
     Inl _ \<Rightarrow> set (parsePortList s) \<inter> set (parsePortList p) \<noteq> {}
   | Inr ports \<Rightarrow> set (parsePortList s) \<inter> set (parsePortList p) = {} \<and> distinct (map fst ports)
       \<and> map_of ports = (\<lambda>port. if port \<in> set (parsePortList p) then Some pplns
           else if port \<in> set (parsePortList s) then Some solo else None)"
proof -
  obtain byPort where b: "addPorts solo (parsePortList s) [] = Inr byPort"
    using addPorts_fails [of solo "parsePortList s" "[]"] by (cases "addPorts solo (parsePortList s) []") auto
  have d: "distinct (map fst byPort)"
    "map_of byPort = (\<lambda>port. if port \<in> set (parsePortList s) then Some solo else None)"
    using addPorts_spec [OF _ b] by (simp_all add: fun_eq_iff)
  show ?thesis
  proof (cases "addPorts pplns (parsePortList p) byPort")
    case (Inl e)
    then show ?thesis using addPorts_fails [OF Inl] b d(2) by (auto simp: parsePayoutModePorts_def split: if_splits)
  next
    case (Inr ports)
    then show ?thesis using addPorts_spec [OF d(1) Inr] b d(2)
      by (auto simp: parsePayoutModePorts_def fun_eq_iff split: if_splits)
  qed
qed

end
