(* ===== verification/StratumListeners.thy ===== *)
theory StratumListeners
  imports StratumV2Client PayoutPorts
begin

text \<open>
  \<open>src/services/stratum-v1.service.ts\<close>: the listening sockets of the pool, which of them accept connections
  while the process is overloaded, which protocol a new connection speaks, and how the end of a connection
  is counted. Sockets, TLS and the measurements of the process are arguments.
\<close>

section \<open>Listeners\<close>

text \<open>Whether a listener has a server; \<open>process.env\<close>, and whether the key files of TLS can be read.\<close>

record StratumListenerState =
  li_port :: int
  li_secure :: bool
  li_payoutMode :: PayoutMode
  li_server :: bool
  li_paused :: bool

record StratumService =
  listeners :: "StratumListenerState list"
  healthyBackpressureChecks :: int
  backpressureMonitor :: bool

record process_env =
  pe_env :: "string \<Rightarrow> jsstr option"
  pe_tlsFiles :: bool

definition newStratumService :: StratumService where
  "newStratumService = \<lparr>listeners = [], healthyBackpressureChecks = 0, backpressureMonitor = False\<rparr>"

definition getPositiveIntegerEnv :: "process_env \<Rightarrow> string \<Rightarrow> int \<Rightarrow> jsnum" where
  "getPositiveIntegerEnv env key fallback =
     (let configured = (case pe_env env key of None \<Rightarrow> NaN | Some s \<Rightarrow> parseInt 10 s)
      in if isFinite configured \<and> js_lt (Num 0) configured then configured else Num (of_int fallback))"

definition getBackpressureEventLoopP95Ms :: "process_env \<Rightarrow> jsnum" where
  "getBackpressureEventLoopP95Ms env = getPositiveIntegerEnv env ''STRATUM_BACKPRESSURE_EVENT_LOOP_P95_MS'' 2000"

definition getBackpressureResumeEventLoopP95Ms :: "process_env \<Rightarrow> jsnum" where
  "getBackpressureResumeEventLoopP95Ms env =
     getPositiveIntegerEnv env ''STRATUM_BACKPRESSURE_EVENT_LOOP_RESUME_P95_MS'' 250"

definition getBackpressureRssMb :: "process_env \<Rightarrow> jsnum" where
  "getBackpressureRssMb env = getPositiveIntegerEnv env ''STRATUM_BACKPRESSURE_RSS_MB'' 2500"

definition getBackpressureResumeRssMb :: "process_env \<Rightarrow> jsnum" where
  "getBackpressureResumeRssMb env = getPositiveIntegerEnv env ''STRATUM_BACKPRESSURE_RESUME_RSS_MB'' 2000"

definition getBackpressureHealthyChecks :: "process_env \<Rightarrow> jsnum" where
  "getBackpressureHealthyChecks env = getPositiveIntegerEnv env ''STRATUM_BACKPRESSURE_HEALTHY_CHECKS'' 3"

definition envIs :: "process_env \<Rightarrow> string \<Rightarrow> string \<Rightarrow> bool" where
  "envIs env key v \<longleftrightarrow> map_option asciiLower (pe_env env key) = Some (jstr v)"

definition isBackpressureDisabled :: "process_env \<Rightarrow> bool" where
  "isBackpressureDisabled env \<longleftrightarrow> envIs env ''STRATUM_BACKPRESSURE_ENABLED'' ''false''"

text \<open>\<open>listen\<close> of the listener at an index: a TLS server reads its key files and throws without them.\<close>

definition listen :: "process_env \<Rightarrow> nat \<Rightarrow> (StratumService, unit) sm" where
  "listen env i =
     andThen (readState (\<lambda>s. listeners s ! i)) (\<lambda>l.
       if li_server l then ret ()
       else if li_secure l \<and> \<not> pe_tlsFiles env then throw (JsError ''file'')
       else modify (\<lambda>s. s\<lparr>listeners := (listeners s)[i := l\<lparr>li_server := True, li_paused := False\<rparr>]\<rparr>))"

definition startServer :: "process_env \<Rightarrow> bool \<Rightarrow> int \<times> PayoutMode \<Rightarrow> (StratumService, unit) sm" where
  "startServer env secure portMode =
     andThen (readState (length \<circ> listeners)) (\<lambda>i.
     andThen (modify (\<lambda>s. s\<lparr>listeners := listeners s @
        [\<lparr>li_port = fst portMode, li_secure = secure, li_payoutMode = snd portMode, li_server = False,
          li_paused = False\<rparr>]\<rparr>)) (\<lambda>_.
       listen env i))"

definition startSocketServer :: "process_env \<Rightarrow> int \<times> PayoutMode \<Rightarrow> (StratumService, unit) sm" where
  "startSocketServer env = startServer env False"

definition startSecureSocketServer :: "process_env \<Rightarrow> int \<times> PayoutMode \<Rightarrow> (StratumService, unit) sm" where
  "startSecureSocketServer env = startServer env True"

text \<open>What the timer of \<open>onModuleInit\<close> starts.\<close>

definition startServers :: "process_env \<Rightarrow> (StratumService, unit) sm" where
  "startServers env =
     andThen (lift (parsePayoutModePorts (pe_env env ''STRATUM_PORTS'') (pe_env env ''PPLNS_STRATUM_PORTS''))) (\<lambda>ports.
     andThen (forEach ports (startSocketServer env)) (\<lambda>_.
     if envIs env ''STRATUM_SECURE'' ''true''
     then
       andThen (lift (parsePayoutModePorts (pe_env env ''SECURE_STRATUM_PORTS'')
          (pe_env env ''PPLNS_SECURE_STRATUM_PORTS''))) (\<lambda>ports.
         forEach ports (startSecureSocketServer env))
     else ret ()))"

section \<open>Backpressure\<close>

definition pauseListener :: "StratumListenerState \<Rightarrow> StratumListenerState" where
  "pauseListener l = (if li_paused l \<or> \<not> li_server l then l else l\<lparr>li_server := False, li_paused := True\<rparr>)"

definition pauseAccepting :: "(StratumService, unit) sm" where
  "pauseAccepting = modify (\<lambda>s. s\<lparr>listeners := map pauseListener (listeners s)\<rparr>)"

definition resumeAccepting :: "process_env \<Rightarrow> (StratumService, unit) sm" where
  "resumeAccepting env =
     andThen (readState (\<lambda>s. [0..<length (listeners s)])) (\<lambda>indices. forEach indices (\<lambda>i.
     andThen (readState (\<lambda>s. listeners s ! i)) (\<lambda>l.
       if \<not> li_paused l \<or> li_server l then ret () else listen env i)))"

text \<open>\<open>Math.round\<close>; the percentile is in nanoseconds, the resident set in bytes.\<close>

definition roundNum :: "jsnum \<Rightarrow> jsnum" where
  "roundNum x = (case x of Num r \<Rightarrow> Num (of_int (js_round r)) | _ \<Rightarrow> x)"

definition eventLoopP95Ms :: "jsnum \<Rightarrow> jsnum" where
  "eventLoopP95Ms percentile = roundNum (js_div percentile (Num 1000000))"

definition rssMbOf :: "jsnum \<Rightarrow> jsnum" where
  "rssMbOf rss = roundNum (js_div (js_div rss (Num 1024)) (Num 1024))"

definition checkBackpressure :: "process_env \<Rightarrow> jsnum \<Rightarrow> jsnum \<Rightarrow> (StratumService, unit) sm" where
  "checkBackpressure env percentile rss =
     (let p95 = eventLoopP95Ms percentile; rssMb = rssMbOf rss;
          overloaded = (js_le (getBackpressureEventLoopP95Ms env) p95 \<or> js_le (getBackpressureRssMb env) rssMb)
      in andThen (readState (list_ex li_paused \<circ> listeners)) (\<lambda>paused.
         if overloaded
         then
           andThen (modify (\<lambda>s. s\<lparr>healthyBackpressureChecks := 0\<rparr>)) (\<lambda>_.
             if paused then ret () else pauseAccepting)
         else if \<not> paused then ret ()
         else if \<not> (js_le p95 (getBackpressureResumeEventLoopP95Ms env) \<and> js_le rssMb (getBackpressureResumeRssMb env))
         then modify (\<lambda>s. s\<lparr>healthyBackpressureChecks := 0\<rparr>)
         else
           andThen (modify (\<lambda>s. s\<lparr>healthyBackpressureChecks := healthyBackpressureChecks s + 1\<rparr>)) (\<lambda>_.
           andThen (readState healthyBackpressureChecks) (\<lambda>n.
             if js_le (getBackpressureHealthyChecks env) (Num (of_int n))
             then andThen (resumeAccepting env) (\<lambda>_. modify (\<lambda>s. s\<lparr>healthyBackpressureChecks := 0\<rparr>))
             else ret ()))))"

text \<open>The process of the API and the master accept no miners.\<close>

definition onModuleInit :: "process_env \<Rightarrow> (StratumService, unit) sm" where
  "onModuleInit env =
     (if pe_env env ''API_ONLY'' = Some (jstr ''true'') \<or> pe_env env ''MASTER'' = Some (jstr ''true'') then ret ()
      else modify (\<lambda>s. s\<lparr>backpressureMonitor := (backpressureMonitor s \<or> \<not> isBackpressureDisabled env)\<rparr>))"

section \<open>The protocol of a connection\<close>

datatype stratum_protocol = proto_v1 | proto_v2

definition isTextByte :: "8 word \<Rightarrow> bool" where
  "isTextByte b \<longleftrightarrow> b = 0x09 \<or> b = 0x0a \<or> b = 0x0d \<or> 0x20 \<le> b \<and> b \<le> 0x7e"

definition looksLikePlaintext :: "bytes \<Rightarrow> bool" where
  "looksLikePlaintext firstChunk = list_all isTextByte firstChunk"

definition looksLikeTlsClientHello :: "bytes \<Rightarrow> bool" where
  "looksLikeTlsClientHello firstChunk \<longleftrightarrow>
     length firstChunk \<ge> 3 \<and> firstChunk ! 0 = 0x16 \<and> firstChunk ! 1 = 0x03"

text \<open>\<open>toString('ascii')\<close> drops the top bit of every byte.\<close>

definition asciiUpper :: "jsstr \<Rightarrow> jsstr" where
  "asciiUpper s = map (\<lambda>c. if 97 \<le> c \<and> c \<le> 122 then c - 32 else c) s"

definition looksLikeHttpRequest :: "bytes \<Rightarrow> bool" where
  "looksLikeHttpRequest firstChunk =
     (let start = asciiUpper (map (\<lambda>b. unat b mod 128) (take 8 firstChunk))
      in list_ex (startsWith start) [''GET '', ''POST '', ''PUT '', ''PATCH '', ''HEAD '', ''OPTIONS ''])"

definition quoted :: "string \<Rightarrow> jsstr" where
  "quoted s = 34 # jstr s @ [34]"

fun includesText :: "jsstr \<Rightarrow> jsstr \<Rightarrow> bool" where
  "includesText [] pat = (pat = [])"
| "includesText (c # cs) pat = (take (length pat) (c # cs) = pat \<or> includesText cs pat)"

definition looksLikeJsonRpc :: "bytes \<Rightarrow> bool" where
  "looksLikeJsonRpc firstChunk =
     (let rest = dropWhile (\<lambda>b. b \<in> {0x20, 0x09, 0x0a, 0x0d}) firstChunk
      in if rest = [] \<or> hd rest \<noteq> 0x7b then False
         else
           (let jsonPrefix = utf8_decode (take 256 rest)
            in if includesText jsonPrefix (quoted ''method'') \<or> includesText jsonPrefix (quoted ''id'') then True
               else list_all isTextByte firstChunk))"

definition detectProtocol :: "bytes \<Rightarrow> stratum_protocol option" where
  "detectProtocol firstChunk =
     (if length firstChunk = 0 then None
      else if looksLikeJsonRpc firstChunk then Some proto_v1
      else if looksLikeTlsClientHello firstChunk then None
      else if looksLikeHttpRequest firstChunk then None
      else if looksLikePlaintext firstChunk then None
      else Some proto_v2)"

section \<open>The end of a connection\<close>

text \<open>
  One accepted socket. Its client is a Stratum V1 or V2 connection; \<open>initialized\<close> says whether the V1 client
  has its extranonce. The counters are those of the service.
\<close>

record SocketSession =
  ss_protocol :: "stratum_protocol option"
  ss_client :: bool
  ss_cleanedUp :: bool
  ss_destroyed :: bool
  ss_emptySocket :: int
  ss_socketTimeout :: int
  ss_normalClosure :: int
  ss_errorClosure :: int

text \<open>\<open>destroy\<close> of the client may reject; the socket is destroyed all the same.\<close>

definition cleanupSession :: "bool \<Rightarrow> bool \<Rightarrow> bool \<Rightarrow> SocketSession \<Rightarrow> SocketSession" where
  "cleanupSession isError initialized destroyFails s =
     (if ss_cleanedUp s then s
      else
        (let counted = ss_client s \<and> (ss_protocol s = Some proto_v2 \<or> initialized) \<and> \<not> destroyFails
         in s\<lparr>ss_cleanedUp := True, ss_client := False, ss_destroyed := True,
              ss_errorClosure := ss_errorClosure s + (if counted \<and> isError then 1 else 0),
              ss_normalClosure := ss_normalClosure s + (if counted \<and> \<not> isError then 1 else 0)\<rparr>))"

text \<open>The first bytes; \<open>v2Fails\<close> says whether the keys or the client of Stratum V2 throw.\<close>

definition firstData :: "bytes \<Rightarrow> bool \<Rightarrow> SocketSession \<Rightarrow> SocketSession" where
  "firstData firstChunk v2Fails s =
     (let p = detectProtocol firstChunk; s = s\<lparr>ss_protocol := p\<rparr>
      in case p of
           Some proto_v1 \<Rightarrow> s\<lparr>ss_client := True\<rparr>
         | Some proto_v2 \<Rightarrow> if v2Fails then cleanupSession True False False s else s\<lparr>ss_client := True\<rparr>
         | None \<Rightarrow> s\<lparr>ss_destroyed := True\<rparr>)"

definition socketTimedOut :: "int \<Rightarrow> int \<Rightarrow> bool \<Rightarrow> bool \<Rightarrow> SocketSession \<Rightarrow> SocketSession" where
  "socketTimedOut bytesRead bytesWritten initialized destroyFails s =
     cleanupSession False initialized destroyFails
       (if bytesRead = 0 \<or> bytesWritten = 0 then s\<lparr>ss_emptySocket := ss_emptySocket s + 1\<rparr>
        else s\<lparr>ss_socketTimeout := ss_socketTimeout s + 1\<rparr>)"

section \<open>Backpressure as a two-state machine\<close>

text \<open>
  What the monitor promises: the listeners are all open or all closed; an overload closes them, and a number
  of healthy checks in a row opens them again.
\<close>

datatype load = Overloaded | Strained | Relaxed

datatype acceptance = Accepting | Refusing int

fun monitorStep :: "jsnum \<Rightarrow> load \<Rightarrow> acceptance \<Rightarrow> acceptance" where
  "monitorStep n Overloaded a = Refusing 0"
| "monitorStep n l Accepting = Accepting"
| "monitorStep n Strained (Refusing k) = Refusing 0"
| "monitorStep n Relaxed (Refusing k) = (if js_le n (Num (of_int (k + 1))) then Accepting else Refusing (k + 1))"

definition loadOf :: "process_env \<Rightarrow> jsnum \<Rightarrow> jsnum \<Rightarrow> load" where
  "loadOf env percentile rss =
     (let p95 = eventLoopP95Ms percentile; rssMb = rssMbOf rss
      in if js_le (getBackpressureEventLoopP95Ms env) p95 \<or> js_le (getBackpressureRssMb env) rssMb then Overloaded
         else if js_le p95 (getBackpressureResumeEventLoopP95Ms env) \<and> js_le rssMb (getBackpressureResumeRssMb env)
         then Relaxed else Strained)"

definition is_open :: "StratumListenerState \<Rightarrow> bool" where
  "is_open l \<longleftrightarrow> li_server l \<and> \<not> li_paused l"

definition is_shut :: "StratumListenerState \<Rightarrow> bool" where
  "is_shut l \<longleftrightarrow> \<not> li_server l \<and> li_paused l"

definition monitors :: "StratumService \<Rightarrow> acceptance \<Rightarrow> bool" where
  "monitors s a \<longleftrightarrow> listeners s \<noteq> [] \<and>
     (case a of Accepting \<Rightarrow> list_all is_open (listeners s)
      | Refusing k \<Rightarrow> list_all is_shut (listeners s) \<and> healthyBackpressureChecks s = k)"

lemma pauseListener_open: "is_open l \<Longrightarrow> is_shut (pauseListener l)"
  by (simp add: is_open_def is_shut_def pauseListener_def)

definition opened :: "StratumListenerState \<Rightarrow> StratumListenerState" where
  "opened l = l\<lparr>li_server := True, li_paused := False\<rparr>"

lemma resumeLoop:
  assumes "pe_tlsFiles env" "list_all is_shut (drop i ls)" "i \<le> length ls" "listeners s = ls"
  shows "forEach [i..<length ls] (\<lambda>i. andThen (readState (\<lambda>s. listeners s ! i)) (\<lambda>l.
            if \<not> li_paused l \<or> li_server l then ret () else listen env i)) s
       = (Inr (), s\<lparr>listeners := take i ls @ map opened (drop i ls)\<rparr>)"
  using assms(2-)
proof (induction "length ls - i" arbitrary: i ls s)
  case 0
  then show ?case by simp
next
  case (Suc n)
  then have i: "i < length ls" by simp
  then have sh: "is_shut (ls ! i)" using Suc.prems(1) by (auto simp: list_all_length dest: spec [of _ 0])
  let ?ls = "ls[i := opened (ls ! i)]"
  let ?body = "\<lambda>i. andThen (readState (\<lambda>s. listeners s ! i)) (\<lambda>l.
            if \<not> li_paused l \<or> li_server l then ret () else listen env i)"
  have step: "?body i s = (Inr (), s\<lparr>listeners := ?ls\<rparr>)"
    using sh Suc.prems(3) assms(1) by (simp add: listen_def is_shut_def opened_def)
  have n: "n = length ?ls - Suc i" and le: "Suc i \<le> length ?ls" using Suc.hyps(2) i by simp_all
  have l: "list_all is_shut (drop (Suc i) ?ls)"
    using Suc.prems(1) i by (simp add: Cons_nth_drop_Suc [symmetric])
  have ls: "listeners (s\<lparr>listeners := ?ls\<rparr>) = ?ls" by simp
  have rest: "forEach [Suc i..<length ls] ?body (s\<lparr>listeners := ?ls\<rparr>)
     = (Inr (), s\<lparr>listeners := take (Suc i) ?ls @ map opened (drop (Suc i) ?ls)\<rparr>)"
    using Suc.hyps(1) [OF n l le ls] by simp
  have "take (Suc i) ?ls @ map opened (drop (Suc i) ?ls) = take i ls @ map opened (drop i ls)"
    using i by (simp add: take_Suc_conv_app_nth Cons_nth_drop_Suc [symmetric] drop_update_cancel)
  with i show ?case using step rest by (simp add: upt_rec [of i])
qed

lemma resumeAccepting_opens:
  assumes "pe_tlsFiles env" "list_all is_shut (listeners s)"
  shows "resumeAccepting env s = (Inr (), s\<lparr>listeners := map opened (listeners s)\<rparr>)"
  using resumeLoop [OF assms(1), of 0 "listeners s" s] assms(2) by (simp add: resumeAccepting_def)

text \<open>
  C28. The backpressure monitor refines a machine of two states, as long as the key files of TLS can be read:
  every check keeps the listeners all open or all closed, closes them on an overload, and opens them exactly
  after the configured number of relaxed checks in a row.
\<close>

theorem checkBackpressure_refines:
  assumes "monitors s a" "pe_tlsFiles env"
  shows "\<exists>s'. checkBackpressure env percentile rss s = (Inr (), s')
     \<and> monitors s' (monitorStep (getBackpressureHealthyChecks env) (loadOf env percentile rss) a)
     \<and> map li_port (listeners s') = map li_port (listeners s)"
proof -
  have ne: "listeners s \<noteq> []" using assms(1) by (simp add: monitors_def)
  show ?thesis
  proof (cases a)
    case Accepting
    then have o: "list_all is_open (listeners s)" using assms(1) by (simp add: monitors_def)
    then have "\<not> list_ex li_paused (listeners s)" by (auto simp: list_ex_iff list_all_iff is_open_def)
    moreover have "list_all is_shut (map pauseListener (listeners s))"
      using o by (auto simp: list_all_iff pauseListener_open)
    moreover have "map (li_port \<circ> pauseListener) (listeners s) = map li_port (listeners s)"
      by (simp add: pauseListener_def)
    ultimately show ?thesis using Accepting o ne
      by (auto simp: checkBackpressure_def loadOf_def Let_def pauseAccepting_def monitors_def)
  next
    case (Refusing k)
    then have sh: "list_all is_shut (listeners s)" and k: "healthyBackpressureChecks s = k"
      using assms(1) by (simp_all add: monitors_def)
    then have p: "list_ex li_paused (listeners s)"
      using ne by (cases "listeners s") (auto simp: is_shut_def)
    have "list_all is_open (map opened (listeners s))" by (simp add: list_all_iff is_open_def opened_def)
    moreover have "map (li_port \<circ> opened) (listeners s) = map li_port (listeners s)" by (simp add: opened_def)
    ultimately show ?thesis using Refusing sh k p ne
        resumeAccepting_opens [OF assms(2), of "s\<lparr>healthyBackpressureChecks := k + 1\<rparr>"]
      by (auto simp: checkBackpressure_def loadOf_def Let_def monitors_def andThen_def)
  qed
qed

text \<open>A closed listener, two relaxed checks behind it, under the default configuration.\<close>

definition defaultProcess :: process_env where
  "defaultProcess = \<lparr>pe_env = (\<lambda>_. None), pe_tlsFiles = True\<rparr>"

definition closedService :: StratumService where
  "closedService = \<lparr>listeners = [\<lparr>li_port = 3333, li_secure = False, li_payoutMode = solo, li_server = False,
     li_paused = True\<rparr>], healthyBackpressureChecks = 2, backpressureMonitor = True\<rparr>"

lemma default_limits:
  "getBackpressureEventLoopP95Ms defaultProcess = Num 2000" "getBackpressureRssMb defaultProcess = Num 2500"
  "getBackpressureResumeEventLoopP95Ms defaultProcess = Num 250" "getBackpressureResumeRssMb defaultProcess = Num 2000"
  "getBackpressureHealthyChecks defaultProcess = Num 3"
  by (simp_all add: getBackpressureEventLoopP95Ms_def getBackpressureRssMb_def
      getBackpressureResumeEventLoopP95Ms_def getBackpressureResumeRssMb_def getBackpressureHealthyChecks_def
      getPositiveIntegerEnv_def defaultProcess_def isFinite_def)

lemma relaxed_check: "loadOf defaultProcess (Num 0) (Num 0) = Relaxed"
proof -
  have "\<lfloor>1 / 2 :: rat\<rfloor> = 0" by (rule floor_unique) simp_all
  then show ?thesis
    by (simp add: loadOf_def default_limits eventLoopP95Ms_def rssMbOf_def roundNum_def rnd_def
        js_round_def js_le_def js_lt_def Let_def)
qed

theorem checkBackpressure_refines_witness:
  "\<exists>s'. checkBackpressure defaultProcess (Num 0) (Num 0) closedService = (Inr (), s')
     \<and> monitors s' Accepting \<and> map li_port (listeners s') = [3333]"
proof -
  have m: "monitors closedService (Refusing 2)" by (simp add: monitors_def closedService_def is_shut_def)
  have tls: "pe_tlsFiles defaultProcess" by (simp add: defaultProcess_def)
  have step: "monitorStep (Num 3) Relaxed (Refusing 2) = Accepting" by (simp add: js_le_def)
  have ports: "map li_port (listeners closedService) = [3333]" by (simp add: closedService_def)
  show ?thesis
    using checkBackpressure_refines [OF m tls, of "Num 0" "Num 0"]
    unfolding relaxed_check default_limits step ports .
qed

end
