(* ===== verification/MerklePaths.thy ===== *)
theory MerklePaths
  imports TemplateProvider CustomWork
begin

text \<open>
  Merkle paths: the pool hands out, and checks, the path from the coinbase to the merkle root of a block.
  Folding a path over the hash of any coinbase gives the root that the node computes from all hashes.
\<close>

section \<open>The merkle root of Bitcoin\<close>

text \<open>
  Each level hashes neighbours together; the last hash of an odd level is its own neighbour. The level above
  is stated by index, the root by repetition.
\<close>

definition level_above :: "(bytes \<Rightarrow> bytes) \<Rightarrow> bytes list \<Rightarrow> bytes list" where
  "level_above sha256 hs =
     map (\<lambda>i. hash256 sha256 (hs ! (2 * i) @ hs ! min (2 * i + 1) (length hs - 1))) [0..<(length hs + 1) div 2]"

lemma length_level_above: "length (level_above sha256 hs) = (length hs + 1) div 2"
  by (simp add: level_above_def)

function merkle_root :: "(bytes \<Rightarrow> bytes) \<Rightarrow> bytes list \<Rightarrow> bytes" where
  "merkle_root sha256 hs =
     (if length hs \<le> 1 then hd hs else merkle_root sha256 (level_above sha256 hs))"
  by pat_completeness auto
termination by (relation "measure (\<lambda>(_, hs). length hs)") (auto simp: length_level_above)

declare merkle_root.simps [simp del]

lemma nextLevel_level_above: "nextLevel sha256 hs = level_above sha256 hs"
proof (induction sha256 hs rule: nextLevel.induct)
  case (1 sha256 l r rest)
  have "[0..<(length (l # r # rest) + 1) div 2] = 0 # map Suc [0..<(length rest + 1) div 2]"
    by (simp add: upt_conv_Cons map_Suc_upt del: upt_Suc)
  moreover have "min (2 * Suc i + 1) (length (l # r # rest) - 1)
      = Suc (Suc (min (2 * i + 1) (length rest - 1)))" if "i < (length rest + 1) div 2" for i
    using that by (auto simp: min_def)
  ultimately show ?case using 1
    by (simp add: level_above_def comp_def del: upt_Suc)
qed (simp_all add: level_above_def)

section \<open>Folding a path\<close>

lemma pair_put:
  "length l = 32 \<Longrightarrow> length r = 32 \<Longrightarrow> put_at 32 r (put_at 0 l (replicate 64 0)) = l @ r"
  by (simp add: put_at_def)

lemma sibling_of_first: "js_xor 0 1 = 1"
  by code_simp

lemma merklePathFrom_zero:
  "merklePathFrom sha256 (h # g # gs) 0 = g # merklePathFrom sha256 (nextLevel sha256 (h # g # gs)) 0"
  by (subst merklePathFrom.simps) (simp add: sibling_of_first)

lemma merklePathFrom_short: "merklePathFrom sha256 [h] 0 = []"
  by (subst merklePathFrom.simps) simp

text \<open>The path does not depend on the hash of the coinbase.\<close>

lemma merklePathFrom_head: "merklePathFrom sha256 (h # hs) 0 = merklePathFrom sha256 (h' # hs) 0"
proof (induction "length hs" arbitrary: h h' hs rule: less_induct)
  case less
  show ?case
  proof (cases hs)
    case (Cons g gs)
    have "length (nextLevel sha256 gs) < length hs" using Cons by (simp add: length_nextLevel)
    from less [OF this] show ?thesis by (simp add: Cons merklePathFrom_zero)
  qed (simp add: merklePathFrom_short)
qed

lemma nextLevel_32:
  "\<forall>x. length (sha256 x) = 32 \<Longrightarrow> list_all (\<lambda>h. length h = 32) (nextLevel sha256 hs)"
  by (induction sha256 hs rule: nextLevel.induct) (simp_all add: hash256_def)

lemma hash256_32: "\<forall>x. length (sha256 x) = 32 \<Longrightarrow> length (hash256 sha256 d) = 32"
  by (simp add: hash256_def)

lemma foldMerklePath_32:
  "\<forall>x. length (sha256 x) = 32 \<Longrightarrow> length h = 32 \<Longrightarrow> length (foldMerklePath sha256 h path) = 32"
  by (induction path arbitrary: h) (simp_all add: Let_def hash256_32)

lemma foldMerklePath_root:
  assumes sha: "\<forall>x. length (sha256 x) = 32"
  shows "list_all (\<lambda>h. length h = 32) (h # hs) \<Longrightarrow>
    foldMerklePath sha256 h (merklePathFrom sha256 (h # hs) 0) = merkle_root sha256 (h # hs)"
proof (induction "length hs" arbitrary: h hs rule: less_induct)
  case less
  show ?case
  proof (cases hs)
    case (Cons g gs)
    let ?up = "nextLevel sha256 (h # hs)"
    have up: "?up = hash256 sha256 (h @ g) # nextLevel sha256 gs" by (simp add: Cons)
    have "length (nextLevel sha256 gs) < length hs" using Cons by (simp add: length_nextLevel)
    moreover have "list_all (\<lambda>h. length h = 32) (hash256 sha256 (h @ g) # nextLevel sha256 gs)"
      using nextLevel_32 [OF sha, of gs] sha by (simp add: hash256_def)
    ultimately have "foldMerklePath sha256 (hash256 sha256 (h @ g)) (merklePathFrom sha256 ?up 0) = merkle_root sha256 ?up"
      unfolding up by (rule less.hyps)
    moreover have "merkle_root sha256 (h # hs) = merkle_root sha256 ?up"
      by (subst merkle_root.simps) (simp add: Cons nextLevel_level_above del: nextLevel.simps)
    ultimately show ?thesis using less.prems
      by (simp add: Cons merklePathFrom_zero pair_put)
  qed (simp add: merklePathFrom_short, subst merkle_root.simps, simp)
qed

section \<open>Checked transactions commit the header of a share\<close>

lemma firstMismatch_none: "length xs = length ys \<Longrightarrow> firstMismatch i xs ys = None \<Longrightarrow> xs = ys"
  by (induction i xs ys rule: firstMismatch.induct) (auto split: if_splits)

lemma checked_data:
  assumes "validateTransactionData tlib sha256 transactionList n limit path = Inr res" "tv_valid res"
  shows "checkTransactionData tlib sha256 transactionList limit path = Inr res"
  using assms by (cases n) (auto simp: validateTransactionData_def invalidData_def
      split: if_splits)

lemma validated_path:
  assumes "validateTransactionData tlib sha256 transactionList n limit (Some path) = Inr res" "tv_valid res"
  shows "buildCoinbaseMerklePath tlib sha256 transactionList = Inr path"
proof -
  have c: "checkTransactionData tlib sha256 transactionList limit (Some path) = Inr res"
    using assms by (rule checked_data)
  obtain txs total where t: "checkTransactions tlib limit 0 0 transactionList = Inr (txs, total)"
    using c assms(2)
    by (cases "checkTransactions tlib limit 0 0 transactionList") (auto simp: checkTransactionData_def invalidData_def)
  from c assms(2) obtain built where b: "buildCoinbaseMerklePath tlib sha256 transactionList = Inr built"
      "merklePathFailure path built = None"
    by (cases "buildCoinbaseMerklePath tlib sha256 transactionList")
      (auto simp: checkTransactionData_def t invalidData_def split: option.splits)
  from b(2) have "built = path"
    by (auto simp: merklePathFailure_def dest: firstMismatch_none split: if_splits)
  with b(1) show ?thesis by simp
qed

lemma put_at_fits:
  "off + length src \<le> length buf \<Longrightarrow> put_at off src buf = take off buf @ src @ drop (off + length src) buf"
  by (simp add: put_at_def)

lemma put_at_length_within: "off + length src \<le> length buf \<Longrightarrow> length (put_at off src buf) = length buf"
  by (simp add: put_at_fits)

lemma slice_put_at: "off + length src \<le> length buf \<Longrightarrow> take (length src) (drop off (put_at off src buf)) = src"
  by (simp add: put_at_fits)

lemma slice_put_after:
  "off' + length src \<le> length buf \<Longrightarrow> off + n \<le> off' \<Longrightarrow>
   take n (drop off (put_at off' src buf)) = take n (drop off buf)"
  by (simp add: put_at_fits take_drop)

lemma header_root:
  assumes "buildHeader prevHash merkleRoot version timestamp nBits nonce = Inr hdr" "length prevHash = 32"
    "length merkleRoot = 32"
  shows "take 32 (drop 36 hdr) = merkleRoot"
proof -
  obtain v where v: "encodeInt32LE version = Inr v"
    and hdr: "hdr = put_at 76 (uint32LE nonce) (put_at 72 (uint32LE nBits) (put_at 68 (uint32LE timestamp)
       (put_at 36 merkleRoot (put_at 4 prevHash (put_at 0 v (replicate 80 0))))))"
    using assms(1) by (auto simp: buildHeader_def rbind_Inr_iff Let_def)
  have "length v = 4" using v by (auto simp: encodeInt32LE_def split: if_splits)
  moreover have "length (uint32LE n) = 4" for n by (simp add: uint32LE_def)
  ultimately have "take 32 (drop 36 hdr)
      = take (length merkleRoot) (drop 36 (put_at 36 merkleRoot (put_at 4 prevHash (put_at 0 v (replicate 80 0)))))"
    using assms(2,3) by (simp add: hdr slice_put_after put_at_length_within)
  also have "\<dots> = merkleRoot" by (rule slice_put_at) (simp add: put_at_length_within assms(2,3) \<open>length v = 4\<close>)
  finally show ?thesis .
qed

text \<open>
  C16. When the transactions of a block pass the check against a merkle path, a share that is judged with this
  path has, in its header, the merkle root of the whole block: of its coinbase and of those transactions.
\<close>

theorem validated_path_commits_block:
  assumes "validateTransactionData tlib sha256 transactionList n limit (Some (cw_merklePath share)) = Inr res"
    "tv_valid res"
    and "validateShare sha256 share = Inr judged" "length (cw_prevHash share) = 32"
    and "\<forall>x. length (sha256 x) = 32" "\<forall>tx. length (pl_getHash tlib False tx) = 32"
  shows "\<exists>coinbaseTx txs.
     patchTargetByte (cw_coinbaseTargetByteIndex share) (cw_coinbaseTargetByte share)
       (cw_coinbasePrefix share @ cw_extranoncePrefix share @ cw_extranonce share @ cw_coinbaseSuffix share)
       = Inr coinbaseTx
     \<and> readAll tlib transactionList = Inr txs
     \<and> take 32 (drop 36 (cr_header judged))
       = merkle_root sha256 (hash256 sha256 coinbaseTx # map (pl_getHash tlib False) txs)"
proof -
  obtain txs where txs: "readAll tlib transactionList = Inr txs"
    and path: "cw_merklePath share = merklePathFrom sha256 (replicate 32 0 # map (pl_getHash tlib False) txs) 0"
    using validated_path [OF assms(1,2)] by (auto simp: buildCoinbaseMerklePath_def rbind_Inr_iff)
  obtain coinbaseTx hdr where cb: "patchTargetByte (cw_coinbaseTargetByteIndex share) (cw_coinbaseTargetByte share)
       (cw_coinbasePrefix share @ cw_extranoncePrefix share @ cw_extranonce share @ cw_coinbaseSuffix share)
       = Inr coinbaseTx"
    and hdr: "buildHeader (cw_prevHash share) (computeMerkleRoot sha256 coinbaseTx (cw_merklePath share))
      (cw_version share) (cw_ntime share) (cw_nBits share) (cw_nonce share) = Inr hdr"
    and out: "cr_header judged = hdr"
    using assms(3) by (auto simp: validateShare_def rbind_Inr_iff Let_def)
  let ?root = "merkle_root sha256 (hash256 sha256 coinbaseTx # map (pl_getHash tlib False) txs)"
  have root: "computeMerkleRoot sha256 coinbaseTx (cw_merklePath share) = ?root"
    unfolding computeMerkleRoot_def path merklePathFrom_head [of _ "replicate 32 0" _ "hash256 sha256 coinbaseTx"]
    by (rule foldMerklePath_root [OF assms(5)]) (use assms(5,6) in \<open>simp add: list_all_iff hash256_def\<close>)
  have "length ?root = 32"
    using root assms(5) foldMerklePath_32 [OF assms(5)] by (metis computeMerkleRoot_def hash256_32)
  then have "take 32 (drop 36 hdr) = ?root" using header_root [OF hdr assms(4)] root by simp
  with txs cb out show ?thesis by blast
qed

text \<open>A share over two transactions, with a hash that mirrors its input.\<close>

definition demo_sha :: "bytes \<Rightarrow> bytes" where
  "demo_sha x = take 32 (rev x @ replicate 32 1)"

definition demo_lib :: provider_lib where
  "demo_lib = \<lparr>pl_fromBuffer = (\<lambda>d. Inr \<lparr>tx_version = length d, tx_ins = [], tx_outs = []\<rparr>),
     pl_getId = (\<lambda>_. []), pl_getHash = (\<lambda>_ tx. replicate 32 (of_nat (tx_version tx))),
     pl_encodeNumber = (\<lambda>_. []), pl_toOutputScript = (\<lambda>_. Inr []), pl_merkleRoot = (\<lambda>_. []),
     pl_witnessRoot = (\<lambda>_. None)\<rparr>"

definition demo_share :: CustomWorkShareValidationInput where
  "demo_share = \<lparr>cw_coinbasePrefix = [1, 2], cw_coinbaseSuffix = [5], cw_coinbaseTargetByteIndex = None,
     cw_coinbaseTargetByte = None, cw_merklePath = [replicate 32 7, replicate 32 9], cw_extranoncePrefix = [3],
     cw_extranonce = [4], cw_prevHash = replicate 32 6, cw_nBits = 0, cw_version = 2, cw_ntime = 0, cw_nonce = 0,
     cw_shareDifficulty = Num 1, cw_networkDifficulty = Num 2\<rparr>"

lemma demo_share_judged: "\<exists>judged. validateShare demo_sha demo_share = Inr judged"
proof -
  have "fl (1 * 1000000) = 1 * 1000000" "fl (2 * 1000000) = 2 * 1000000"
    by (rule fl_million_multiples [of _ 1] fl_million_multiples [of _ 2]; simp)+
  then have "difficultyToTarget (Num 1) = Inr (targetOf 1)" "difficultyToTarget (Num 2) = Inr (targetOf 2)"
    by (simp_all add: difficultyToTarget_pos)
  then show ?thesis
    by (simp add: validateShare_def demo_share_def patchTargetByte_def buildHeader_def encodeInt32LE_def Let_def)
qed

lemma demo_path_checked:
  "case validateTransactionData demo_lib demo_sha [replicate 7 0, replicate 9 0] (Some 2) None
     (Some (cw_merklePath demo_share)) of Inl _ \<Rightarrow> False | Inr res \<Rightarrow> tv_valid res"
  by code_simp

theorem validated_path_commits_block_witness:
  "\<exists>judged. validateShare demo_sha demo_share = Inr judged \<and>
     (\<exists>coinbaseTx txs. patchTargetByte None None [1, 2, 3, 4, 5] = Inr coinbaseTx
       \<and> readAll demo_lib [replicate 7 0, replicate 9 0] = Inr txs
       \<and> take 32 (drop 36 (cr_header judged))
         = merkle_root demo_sha (hash256 demo_sha coinbaseTx # map (pl_getHash demo_lib False) txs))"
proof -
  obtain judged where judged: "validateShare demo_sha demo_share = Inr judged" using demo_share_judged by blast
  obtain res where res: "validateTransactionData demo_lib demo_sha [replicate 7 0, replicate 9 0] (Some 2) None
     (Some (cw_merklePath demo_share)) = Inr res" "tv_valid res"
    using demo_path_checked by (auto split: sum.splits)
  have len: "length (demo_sha x) = 32" "length (pl_getHash demo_lib False tx) = 32" for x tx
    by (simp_all add: demo_sha_def demo_lib_def min_def)
  show ?thesis
    using validated_path_commits_block [OF res judged] judged len
    by (simp add: demo_share_def)
qed

end
