(* ===== verification/JobDeclaration.thy ===== *)
theory JobDeclaration
  imports StratumV2Client
begin

text \<open>
  \<open>src/services/sv2-job-declaration.service.ts\<close>: one connection of the SV2 job declaration protocol. A miner
  asks for a token, declares the transactions of its own template under it, sends those the pool does not
  know, and pushes the solution of the declared job, which the pool submits to its node.

  As for the mining connection, the outside answers from an environment and is told things by an effect; the
  template provider and the registry of declared jobs are shared and are fields of the state. The text of an
  error of the language itself is left empty.
\<close>

section \<open>Data\<close>

record PendingDeclaration =
  pd_job :: Sv2DeclareMiningJob
  pd_templateId :: int
  pd_template :: TemplateProviderTemplate
  pd_unknownTxPositionList :: "int list"

datatype jdp_effect =
    Jdp_Frame int bytes bytes
  | Jdp_WriteRaw bytes
  | Jdp_DestroySocket
  | Jdp_SubmitBlock Block
  | Jdp_SaveBlock FoundBlock
  | Jdp_FinalizeSnapshot "jsstr option" int "jsstr option"
  | Jdp_NotifyBlockFound jsstr int "jsstr option"

record 'c jdp_env =
  je_pool :: v1_env
  je_provider :: provider_lib
  je_toBuffer :: "Transaction \<Rightarrow> bytes"
  je_mempool :: "(bytes list \<Rightarrow> jsstr + MempoolResult list) option"
  je_randomToken :: bytes
  je_fails :: "jdp_effect \<Rightarrow> bool"
  je_processAct1 :: "bytes \<Rightarrow> (bytes \<times> 'c \<times> 'c) result"
  je_decrypt :: "'c cipherFn"
  je_encrypt :: "'c cipherFn"

record 'c JdpConnection =
  jd_payoutMode :: PayoutMode
  jd_poolPayoutAddress :: jsstr
  jd_frameReader :: "'c frameReader"
  jd_frameWriter :: "'c frameWriter"
  jd_handshakeBuffer :: bytes
  jd_handshakeComplete :: bool
  jd_pendingHandshakes :: "(bytes \<times> bytes) list"
  jd_destroyed :: bool
  jd_declareTxData :: bool
  jd_latestDeclaredJob :: "Sv2DeclaredMiningJob option"
  jd_submittedSolutions :: "jsstr set"
  jd_pendingDeclarations :: "(int \<times> PendingDeclaration) list"
  jd_socketDestroyed :: bool
  jd_socketEnded :: bool
  jd_provider :: TemplateProvider
  jd_registry :: JobRegistry
  jd_outbox :: "jdp_effect list"

type_synonym ('c, 'a) jdp = "('c JdpConnection, 'a) sm"

text \<open>The first address of the configuration that is not empty, and the ports of the service.\<close>

definition firstText :: "jsstr option list \<Rightarrow> jsstr" where
  "firstText texts = (case filter (\<lambda>t. t \<noteq> None \<and> t \<noteq> Some []) texts of Some s # _ \<Rightarrow> s | _ \<Rightarrow> [])"

definition getPoolPayoutAddress :: "v1_env \<Rightarrow> jsstr" where
  "getPoolPayoutAddress env = firstText (map (\<lambda>key. env_config env (jstr key))
     [''SV2_JDP_POOL_PAYOUT_ADDRESS'', ''DATUM_POOL_PAYOUT_ADDRESS'', ''PAYOUT_FEE_ADDRESS'', ''DEV_FEE_ADDRESS''])"

definition newJdpConnection ::
    "PayoutMode \<Rightarrow> jsstr \<Rightarrow> 'c \<Rightarrow> TemplateProvider \<Rightarrow> JobRegistry \<Rightarrow> 'c JdpConnection" where
  "newJdpConnection mode poolPayoutAddress noCipher provider registry =
     \<lparr>jd_payoutMode = mode, jd_poolPayoutAddress = poolPayoutAddress,
      jd_frameReader = newFrameReader None noCipher,
      jd_frameWriter = \<lparr>encryptFn = None, fw_cipher = noCipher\<rparr>,
      jd_handshakeBuffer = [], jd_handshakeComplete = False, jd_pendingHandshakes = [], jd_destroyed = False,
      jd_declareTxData = False, jd_latestDeclaredJob = None, jd_submittedSolutions = {},
      jd_pendingDeclarations = [], jd_socketDestroyed = False, jd_socketEnded = False, jd_provider = provider,
      jd_registry = registry, jd_outbox = []\<rparr>"

section \<open>Effects and the shared services\<close>

definition jdp_emit :: "jdp_effect \<Rightarrow> ('c, unit) jdp" where
  "jdp_emit e = modify (\<lambda>c. c\<lparr>jd_outbox := jd_outbox c @ [e]\<rparr>)"

definition jdp_perform :: "'c jdp_env \<Rightarrow> jdp_effect \<Rightarrow> ('c, unit) jdp" where
  "jdp_perform env e = andThen (jdp_emit e) (\<lambda>_. if je_fails env e then throw (JsError ''outside'') else ret ())"

definition jdp_now :: "'c jdp_env \<Rightarrow> int" where
  "jdp_now env = env_now (je_pool env)"

definition onProvider :: "(TemplateProvider, 'a) sm \<Rightarrow> ('c, 'a) jdp" where
  "onProvider m = andThen (readState (m \<circ> jd_provider)) (\<lambda>(r, provider).
     andThen (modify (\<lambda>c. c\<lparr>jd_provider := provider\<rparr>)) (\<lambda>_. lift r))"

definition onRegistry :: "(JobRegistry, 'a) sm \<Rightarrow> ('c, 'a) jdp" where
  "onRegistry m = andThen (readState (m \<circ> jd_registry)) (\<lambda>(r, registry).
     andThen (modify (\<lambda>c. c\<lparr>jd_registry := registry\<rparr>)) (\<lambda>_. lift r))"

definition jdp_close :: "('c, unit) jdp" where
  "jdp_close =
     andThen (modify (\<lambda>c. c\<lparr>jd_destroyed := True\<rparr>)) (\<lambda>_.
     andThen (readState jd_socketDestroyed) (\<lambda>d.
       if d then ret ()
       else andThen (jdp_emit Jdp_DestroySocket) (\<lambda>_. modify (\<lambda>c. c\<lparr>jd_socketDestroyed := True\<rparr>))))"

definition jdp_writeRaw :: "'c jdp_env \<Rightarrow> jdp_effect \<Rightarrow> ('c, unit) jdp" where
  "jdp_writeRaw env e =
     andThen (readState (\<lambda>c. jd_socketDestroyed c \<or> jd_socketEnded c)) (\<lambda>closed.
       if closed then ret () else jdp_perform env e)"

definition jdp_sendMessage :: "'c jdp_env \<Rightarrow> sv2_message \<Rightarrow> ('c, unit) jdp" where
  "jdp_sendMessage env m =
     andThen (lift (ser_msg m)) (\<lambda>data.
     andThen (readState jd_frameWriter) (\<lambda>w.
     andThen (lift (sendFrame (msg_code m) data 0 w)) (\<lambda>(wire, w').
     andThen (modify (\<lambda>c. c\<lparr>jd_frameWriter := w'\<rparr>)) (\<lambda>_.
       jdp_writeRaw env (Jdp_Frame (msg_code m) data wire)))))"

definition jdp_parsed :: "'a reading \<Rightarrow> bytes \<Rightarrow> ('c, 'a) jdp" where
  "jdp_parsed rd body = lift (rmap fst (rd (newReader body)))"

section \<open>Setup and tokens\<close>

definition jdp_handleSetupConnection :: "'c jdp_env \<Rightarrow> bytes \<Rightarrow> ('c, unit) jdp" where
  "jdp_handleSetupConnection env body =
     andThen (jdp_parsed deserializeSetupConnection body) (\<lambda>m.
       if setupConnection_protocol m \<noteq> 1
       then
         andThen (jdp_sendMessage env (M_SetupConnectionError
            \<lparr>setupConnectionError_flags = 0, setupConnectionError_errorCode = jstr ''unsupported-protocol''\<rparr>)) (\<lambda>_.
           jdp_close)
       else
         andThen (modify (\<lambda>c. c\<lparr>jd_declareTxData := (js_and (setupConnection_flags m) 1 \<noteq> 0)\<rparr>)) (\<lambda>_.
           jdp_sendMessage env (M_SetupConnectionSuccess
             \<lparr>setupConnectionSuccess_usedVersion = 2, setupConnectionSuccess_flags = 0\<rparr>)))"

fun outputBytes :: "(int \<times> bytes) list \<Rightarrow> bytes result" where
  "outputBytes [] = Inr []"
| "outputBytes ((v, script) # outputs) =
     (if v < 0 \<or> v \<ge> 2 ^ 64 then Inl RangeError
      else rbind (encodeBitcoinVarInt (int (length script))) (\<lambda>n.
        rmap ((@) (le_bytes 8 (nat v) @ n @ script)) (outputBytes outputs)))"

definition serializeCoinbaseOutputs :: "(int \<times> bytes) list \<Rightarrow> bytes result" where
  "serializeCoinbaseOutputs outputs =
     rbind (encodeBitcoinVarInt (int (length outputs))) (\<lambda>count. rmap ((@) count) (outputBytes outputs))"

fun allScripts :: "(jsstr \<Rightarrow> bytes result) \<Rightarrow> AddressObject list \<Rightarrow> bytes list result" where
  "allScripts toOutputScript [] = Inr []"
| "allScripts toOutputScript (out # outs) =
     rbind (toOutputScript (ao_address out)) (\<lambda>script. rmap ((#) script) (allScripts toOutputScript outs))"

text \<open>What the coinbase of a declared job must pay: the recipients of the snapshot, else one address.\<close>

definition buildPoolCoinbaseOutputs :: "'c jdp_env \<Rightarrow> jsstr \<Rightarrow> ('c, bytes) jdp" where
  "buildPoolCoinbaseOutputs env userIdentifier =
     andThen (readState id) (\<lambda>c.
     andThen (if jd_payoutMode c = pplns
         then andThen (onProvider (getLatestTemplate (jdp_now env))) (\<lambda>latest. ret (case latest of
             None \<Rightarrow> []
           | Some template \<Rightarrow> (case jt_payoutOutputs (tp_jobTemplate template) of None \<Rightarrow> [] | Some outs \<Rightarrow> outs)))
         else ret []) (\<lambda>snapshotOutputs.
     let toOutputScript = pl_toOutputScript (je_provider env)
     in if snapshotOutputs \<noteq> []
        then andThen (lift (allScripts toOutputScript snapshotOutputs)) (\<lambda>scripts.
               lift (serializeCoinbaseOutputs (map (Pair 0) scripts)))
        else
          (let address = (if jd_poolPayoutAddress c \<noteq> [] then jd_poolPayoutAddress c
                 else hd (splitOn 46 userIdentifier))
           in andThen (lift (toOutputScript address)) (\<lambda>script. lift (serializeCoinbaseOutputs [(0, script)])))))"

definition handleAllocateMiningJobToken :: "'c jdp_env \<Rightarrow> bytes \<Rightarrow> ('c, unit) jdp" where
  "handleAllocateMiningJobToken env body =
     andThen (jdp_parsed deserializeAllocateMiningJobToken body) (\<lambda>m.
     andThen (buildPoolCoinbaseOutputs env (allocateMiningJobToken_userIdentifier m)) (\<lambda>outputs.
     andThen (onRegistry (allocateToken (jdp_now env) (je_randomToken env) (allocateMiningJobToken_userIdentifier m)
        outputs)) (\<lambda>entry.
       jdp_sendMessage env (M_AllocateMiningJobTokenSuccess
         \<lparr>allocateMiningJobTokenSuccess_requestId = allocateMiningJobToken_requestId m,
          allocateMiningJobTokenSuccess_miningJobToken = am_token entry,
          allocateMiningJobTokenSuccess_coinbaseOutputs = am_coinbaseOutputs entry\<rparr>))))"

section \<open>Declared jobs\<close>

definition sendDeclareError :: "'c jdp_env \<Rightarrow> int \<Rightarrow> jsstr \<Rightarrow> ('c, unit) jdp" where
  "sendDeclareError env requestId errorCode =
     jdp_sendMessage env (M_DeclareMiningJobError \<lparr>declareMiningJobError_requestId = requestId,
       declareMiningJobError_errorCode = errorCode, declareMiningJobError_errorDetails = []\<rparr>)"

definition acceptDeclaration ::
    "'c jdp_env \<Rightarrow> Sv2DeclareMiningJob \<Rightarrow> int \<Rightarrow> TemplateProviderTemplate \<Rightarrow> bytes list option \<Rightarrow>
     ('c, Sv2DeclaredMiningJob) jdp" where
  "acceptDeclaration env job templateId template providedTransactions =
     andThen (onRegistry (declareJob (jdp_now env) (je_randomToken env) job
        \<lparr>md_templateId = Some templateId, md_template = Some template, md_validationMode = Some full_template,
         md_providedTransactions = providedTransactions\<rparr>)) (\<lambda>declared.
     andThen (modify (\<lambda>c. c\<lparr>jd_latestDeclaredJob := Some declared\<rparr>)) (\<lambda>_. ret declared))"

definition sendDeclareSuccess :: "'c jdp_env \<Rightarrow> int \<Rightarrow> Sv2DeclaredMiningJob \<Rightarrow> ('c, unit) jdp" where
  "sendDeclareSuccess env requestId declared =
     jdp_sendMessage env (M_DeclareMiningJobSuccess \<lparr>declareMiningJobSuccess_requestId = requestId,
       declareMiningJobSuccess_newMiningJobToken = dj_token declared\<rparr>)"

text \<open>The answer to a validated declaration. A promise that does not settle reaches no \<open>catch\<close>.\<close>

definition answerDeclaration ::
    "'c jdp_env \<Rightarrow> Sv2DeclareMiningJob \<Rightarrow> DeclareMiningJobValidationResult \<Rightarrow> ('c, unit) jdp" where
  "answerDeclaration env job validation =
     (let requestId = declareMiningJob_requestId job;
          refused = sendDeclareError env requestId (case dv_errorCode validation of
              Some code \<Rightarrow> code | None \<Rightarrow> jstr ''invalid-template'')
      in case dv_template validation of
           None \<Rightarrow> if dv_valid validation then throw TypeError else refused
         | Some template \<Rightarrow>
             if dv_errorCode validation = Some (jstr ''missing-transactions'')
             then
               (let unknown = (case dv_unknownTxPositionList validation of None \<Rightarrow> [] | Some u \<Rightarrow> u)
                in andThen (modify (\<lambda>c. c\<lparr>jd_pendingDeclarations := AList.update requestId
                        \<lparr>pd_job = job, pd_templateId = tp_templateId template, pd_template = template,
                         pd_unknownTxPositionList = unknown\<rparr> (jd_pendingDeclarations c)\<rparr>)) (\<lambda>_.
                   jdp_sendMessage env (M_ProvideMissingTransactions
                     \<lparr>provideMissingTransactions_requestId = requestId,
                      provideMissingTransactions_unknownTxPositionList = unknown\<rparr>)))
             else if \<not> dv_valid validation then refused
             else andThen (acceptDeclaration env job (tp_templateId template) template None) (\<lambda>declared.
               sendDeclareSuccess env requestId declared))"

definition orDeclareError :: "'c jdp_env \<Rightarrow> int \<Rightarrow> ('c, unit) jdp \<Rightarrow> ('c, unit) jdp" where
  "orDeclareError env requestId m = tryCatch m (\<lambda>e. sendDeclareError env requestId (messageOf e))"

definition handleDeclareMiningJob :: "'c jdp_env \<Rightarrow> bytes \<Rightarrow> ('c, unit) jdp" where
  "handleDeclareMiningJob env body =
     andThen (jdp_parsed deserializeDeclareMiningJob body) (\<lambda>job.
     andThen (readState jd_declareTxData) (\<lambda>negotiated.
       if \<not> negotiated
       then sendDeclareError env (declareMiningJob_requestId job) (jstr ''declare-tx-data-not-negotiated'')
       else orDeclareError env (declareMiningJob_requestId job)
         (andThen (onProvider (validateDeclaredWtxids (je_provider env) (jdp_now env) (declareMiningJob_version job)
             (declareMiningJob_wtxidList job) (Some (declareMiningJob_coinbaseTxPrefix job))))
           (answerDeclaration env job))))"

definition forgetPending :: "int \<Rightarrow> ('c, unit) jdp" where
  "forgetPending requestId =
     modify (\<lambda>c. c\<lparr>jd_pendingDeclarations := AList.delete requestId (jd_pendingDeclarations c)\<rparr>)"

definition handleProvideMissingTransactionsSuccess :: "'c jdp_env \<Rightarrow> bytes \<Rightarrow> ('c, unit) jdp" where
  "handleProvideMissingTransactionsSuccess env body =
     andThen (jdp_parsed deserializeProvideMissingTransactionsSuccess body) (\<lambda>m.
     (let requestId = provideMissingTransactionsSuccess_requestId m;
          transactionList = provideMissingTransactionsSuccess_transactionList m
      in andThen (readState (\<lambda>c. map_of (jd_pendingDeclarations c) requestId)) (\<lambda>found. case found of
           None \<Rightarrow> sendDeclareError env requestId (jstr ''unknown-missing-transaction-request'')
         | Some pending \<Rightarrow>
             andThen (lift (validateProvidedTransactions (je_provider env) (env_sha256 (je_pool env)) (je_mempool env)
                (declareMiningJob_wtxidList (pd_job pending)) (pd_unknownTxPositionList pending) transactionList))
               (\<lambda>validation. case validation of
                 Invalid code \<Rightarrow>
                   andThen (forgetPending requestId) (\<lambda>_. sendDeclareError env requestId code)
               | Valid \<Rightarrow>
                   tryCatch
                     (andThen (acceptDeclaration env (pd_job pending) (pd_templateId pending) (pd_template pending)
                         (Some transactionList)) (\<lambda>declared.
                      andThen (forgetPending requestId) (\<lambda>_.
                        sendDeclareSuccess env (declareMiningJob_requestId (pd_job pending)) declared)))
                     (\<lambda>e. andThen (forgetPending requestId) (\<lambda>_.
                        sendDeclareError env requestId (messageOf e)))))))"

section \<open>Solutions\<close>

definition solutionKey :: "Sv2PushSolution \<Rightarrow> jsstr" where
  "solutionKey m = joinWith (jstr '':'')
     [hexEncode (pushSolution_prevHash m), hexEncode (pushSolution_extranonce m),
      intToString16 (pushSolution_nonce m), intToString16 (pushSolution_ntime m),
      intToString16 (pushSolution_nBits m), intToString16 (pushSolution_version m)]"

definition parseUserIdentifier :: "jsstr \<Rightarrow> jsstr \<times> jsstr" where
  "parseUserIdentifier userIdentifier =
     (let parts = splitOn 46 userIdentifier; address = hd parts; worker = joinWith (jstr ''.'') (tl parts)
      in (if address = [] then userIdentifier else address, if worker = [] then jstr ''jdp'' else worker))"

text \<open>The template of the declared job, else by its identifier, else the latest one.\<close>

definition templateOf :: "'c jdp_env \<Rightarrow> Sv2DeclaredMiningJob \<Rightarrow> ('c, TemplateProviderTemplate option) jdp" where
  "templateOf env declared =
     (case dj_template declared of
        Some template \<Rightarrow> ret (Some template)
      | None \<Rightarrow> (case dj_templateId declared of
            None \<Rightarrow> onProvider (getLatestTemplate (jdp_now env))
          | Some templateId \<Rightarrow> onProvider (getTemplate (jdp_now env) templateId)))"

definition submitDeclaredBlock ::
    "'c jdp_env \<Rightarrow> jsstr \<Rightarrow> Sv2DeclaredMiningJob \<Rightarrow> TemplateProviderTemplate \<Rightarrow> Block \<Rightarrow> ('c, unit) jdp" where
  "submitDeclaredBlock env key declared template block =
     andThen (modify (\<lambda>c. c\<lparr>jd_submittedSolutions := insert key (jd_submittedSolutions c)\<rparr>)) (\<lambda>_.
     andThen (jdp_perform env (Jdp_SubmitBlock block)) (\<lambda>_.
     andThen (readState jd_payoutMode) (\<lambda>mode.
     (let submissionResult = env_submitResult (je_pool env) block;
          snapshotId = jt_payoutSnapshotId (tp_jobTemplate template)
      in case parseUserIdentifier (dj_userIdentifier declared) of (address, worker) \<Rightarrow>
         andThen (jdp_perform env (Jdp_SaveBlock \<lparr>fb_height = tp_height template, fb_minerAddress = address,
            fb_worker = worker, fb_sessionId = take 8 (hexEncode (dj_token declared)), fb_block = block,
            fb_blockSubmissionResult = submissionResult,
            fb_payoutSnapshotId = (if mode = pplns then snapshotId else None), fb_payoutMode = mode\<rparr>)) (\<lambda>_.
         andThen (if mode = pplns
             then jdp_perform env (Jdp_FinalizeSnapshot snapshotId (tp_height template) submissionResult)
             else ret ()) (\<lambda>_.
           jdp_perform env (Jdp_NotifyBlockFound address (tp_height template) submissionResult)))))))"

definition handlePushSolution :: "'c jdp_env \<Rightarrow> bytes \<Rightarrow> ('c, unit) jdp" where
  "handlePushSolution env body =
     andThen (jdp_parsed deserializePushSolution body) (\<lambda>solution.
     andThen (readState id) (\<lambda>c. case jd_latestDeclaredJob c of
         None \<Rightarrow> ret ()
       | Some declared \<Rightarrow>
           if solutionKey solution \<in> jd_submittedSolutions c then ret ()
           else
             andThen (templateOf env declared) (\<lambda>found. case found of
                 None \<Rightarrow> ret ()
               | Some template \<Rightarrow>
                   tryCatch
                     (andThen (lift (buildBlockFromDeclaredJobSolution (je_provider env) template (dj_job declared)
                         (dj_providedTransactions declared) solution)) (\<lambda>block.
                      case validateCoinbaseTransactionHeight (je_provider env)
                          (je_toBuffer env (hd (blk_transactions block))) (tp_height template) of
                        Invalid code \<Rightarrow> ret ()
                      | Valid \<Rightarrow> submitDeclaredBlock env (solutionKey solution) declared template block))
                     (\<lambda>_. ret ()))))"

section \<open>Frames and segments\<close>

definition jdp_handleFrame :: "'c jdp_env \<Rightarrow> int \<Rightarrow> bytes \<Rightarrow> ('c, unit) jdp" where
  "jdp_handleFrame env ty body =
     (if ty = 0x00 then jdp_handleSetupConnection env body
      else if ty = 0x50 then handleAllocateMiningJobToken env body
      else if ty = 0x57 then handleDeclareMiningJob env body
      else if ty = 0x56 then handleProvideMissingTransactionsSuccess env body
      else if ty = 0x60 then handlePushSolution env body
      else ret ())"

definition jdp_handleEncryptedData :: "'c jdp_env \<Rightarrow> bytes \<Rightarrow> ('c, unit) jdp" where
  "jdp_handleEncryptedData env data =
     andThen (readState jd_frameReader) (\<lambda>r.
     andThen (lift (feed data r)) (\<lambda>(r', frames).
     andThen (modify (\<lambda>c. c\<lparr>jd_frameReader := r'\<rparr>)) (\<lambda>_.
       forEach frames (\<lambda>frame. jdp_handleFrame env (msgType (header frame)) (payload frame)))))"

text \<open>
  A handshake that was started and waits for its keys is in \<open>jd_pendingHandshakes\<close>. Nothing stops a second one
  from starting meanwhile.
\<close>

definition jdp_handleHandshakeData :: "bytes \<Rightarrow> ('c, unit) jdp" where
  "jdp_handleHandshakeData data =
     andThen (modify (\<lambda>c. c\<lparr>jd_handshakeBuffer := jd_handshakeBuffer c @ data\<rparr>)) (\<lambda>_.
     andThen (readState jd_handshakeBuffer) (\<lambda>buf.
       if length buf < SV2_NOISE_ACT1_SIZE then ret ()
       else modify (\<lambda>c. c\<lparr>jd_pendingHandshakes := jd_pendingHandshakes c
            @ [(take SV2_NOISE_ACT1_SIZE buf, drop SV2_NOISE_ACT1_SIZE buf)], jd_handshakeBuffer := []\<rparr>)))"

definition jdp_finishHandshake :: "'c jdp_env \<Rightarrow> bytes \<Rightarrow> bytes \<Rightarrow> ('c, unit) jdp" where
  "jdp_finishHandshake env act1 remainder =
     andThen (lift (je_processAct1 env act1)) (\<lambda>(act2, sendKey, receiveKey).
     andThen (jdp_writeRaw env (Jdp_WriteRaw act2)) (\<lambda>_.
     andThen (modify (\<lambda>c. c\<lparr>jd_frameReader := setDecryptFn (je_decrypt env) receiveKey (jd_frameReader c),
        jd_frameWriter := setEncryptFn (je_encrypt env) sendKey (jd_frameWriter c),
        jd_handshakeComplete := True\<rparr>)) (\<lambda>_.
       if remainder = [] then ret () else jdp_handleEncryptedData env remainder)))"

definition jdp_orClose :: "('c, unit) jdp \<Rightarrow> ('c, unit) jdp" where
  "jdp_orClose m = tryCatch m (\<lambda>_. jdp_close)"

definition jdp_handleSocketData :: "'c jdp_env \<Rightarrow> bytes \<Rightarrow> ('c, unit) jdp" where
  "jdp_handleSocketData env data =
     andThen (readState id) (\<lambda>c.
       if jd_destroyed c then ret ()
       else jdp_orClose (if jd_handshakeComplete c then jdp_handleEncryptedData env data
                         else jdp_handleHandshakeData data))"

definition jdp_resumeHandshake :: "'c jdp_env \<Rightarrow> ('c, unit) jdp" where
  "jdp_resumeHandshake env =
     andThen (readState jd_pendingHandshakes) (\<lambda>pending. case pending of
         [] \<Rightarrow> ret ()
       | (act1, remainder) # later \<Rightarrow>
           andThen (modify (\<lambda>c. c\<lparr>jd_pendingHandshakes := later\<rparr>)) (\<lambda>_.
             jdp_orClose (jdp_finishHandshake env act1 remainder)))"

section \<open>Events\<close>

text \<open>\<open>Jdp_Shared\<close> is what the rest of the pool does to the template provider and the registry.\<close>

datatype jdp_event =
    Jdp_SocketData bytes
  | Jdp_HandshakeReady
  | Jdp_SocketError
  | Jdp_SocketClosed
  | Jdp_Shared TemplateProvider JobRegistry

definition jdp_handleEvent :: "'c jdp_env \<Rightarrow> jdp_event \<Rightarrow> 'c JdpConnection \<Rightarrow> 'c JdpConnection" where
  "jdp_handleEvent env ev c = (case ev of
      Jdp_SocketData data \<Rightarrow> snd (jdp_handleSocketData env data c)
    | Jdp_HandshakeReady \<Rightarrow> snd (jdp_resumeHandshake env c)
    | Jdp_SocketError \<Rightarrow> snd (jdp_close c)
    | Jdp_SocketClosed \<Rightarrow> c\<lparr>jd_destroyed := True, jd_socketDestroyed := True\<rparr>
    | Jdp_Shared provider registry \<Rightarrow> c\<lparr>jd_provider := provider, jd_registry := registry\<rparr>)"

end
