(* ===== verification/DatumService.thy ===== *)
theory DatumService
  imports JobDeclaration DatumMessages DatumCrypto
begin

text \<open>
  \<open>src/services/datum.service.ts\<close>: one connection of a DATUM gateway, above the channel of \<open>DatumCrypto\<close>. The
  gateway makes its own templates; it asks which outputs a coinbase must have, submits shares with the parts of
  the job that are new, and proves its transactions when it is asked to.

  The outside answers from the environment \<open>datum_env\<close> and is told things by a \<open>datum_effect\<close>. Rewards are
  numbers that come from 64-bit integers, so that they are rounded integers here. A handler runs to its end
  before the next event. \<open>Math.log2\<close> is a parameter.
\<close>

section \<open>Data\<close>

record DatumCoinbaserPayoutContext =
  pc_payoutOutputs :: "DatumPayoutOutput list"
  pc_payoutSnapshotId :: "jsstr option"
  pc_blockHeight :: int
  pc_payoutMode :: PayoutMode

datatype ValidationState = requested_short_txids | requested_full_transaction_blob | validated_state | failed_state

record DatumJobCache =
  dc_prevBlockHash :: "bytes option"
  dc_targetByteIndex :: "int option"
  dc_nBits :: "bytes option"
  dc_coinbaserId :: "int option"
  dc_height :: "int option"
  dc_coinbaseValue :: "int option"
  dc_transactionCount :: "int option"
  dc_totalWeight :: "int option"
  dc_totalSize :: "int option"
  dc_totalSigops :: "int option"
  dc_merkleBranches :: "bytes list option"
  dc_coinbasePairs :: "(int \<times> DatumCoinbase) list"
  dc_subsidyOnlyCoinbase :: "DatumCoinbase option"
  dc_validationState :: "ValidationState option"
  dc_validationShortTxIds :: "bytes list option"
  dc_validationShortTxCrosscheck :: "bytes option"
  dc_validationTransactions :: "bytes list option"
  dc_expectedPayoutOutputs :: "DatumPayoutOutput list option"
  dc_payoutSnapshotId :: "jsstr option"

record DatumFoundBlock =
  df_height :: int
  df_minerAddress :: jsstr
  df_worker :: jsstr
  df_sessionId :: jsstr
  df_blockData :: bytes
  df_blockSubmissionResult :: "jsstr option"
  df_payoutSnapshotId :: "jsstr option"
  df_payoutMode :: PayoutMode

record DatumShare =
  sh_payoutMode :: PayoutMode
  sh_address :: jsstr
  sh_clientName :: jsstr
  sh_sessionId :: jsstr
  sh_clientId :: jsstr
  sh_jobId :: jsstr
  sh_jobTemplateId :: jsstr
  sh_blockHeight :: int
  sh_creditedDifficulty :: jsnum
  sh_submissionDifficulty :: jsnum
  sh_networkDifficulty :: jsnum
  sh_nonce :: int
  sh_ntime :: int
  sh_version :: int
  sh_extraNonce2 :: jsstr
  sh_isBlockCandidate :: bool
  sh_blockSubmissionResult :: "jsstr option"

datatype datum_effect =
    Datum_Write bytes
  | Datum_DestroySocket
  | Datum_InsertClient ClientEntity
  | Datum_DeleteClient jsstr
  | Datum_SaveBlock DatumFoundBlock
  | Datum_FinalizeSnapshot "jsstr option" int "jsstr option"
  | Datum_RecordShare DatumShare
  | Datum_UpdateHashRate jsstr jsnum int
  | Datum_UpdateBestDifficulty jsstr jsnum

record datum_env =
  de_pool :: v1_env
  de_sodium :: sodium
  de_provider :: provider_lib
  de_log2 :: "jsnum \<Rightarrow> jsnum"
  de_fails :: "datum_effect \<Rightarrow> bool"

record DatumClientState = DatumLink +
  ds_sessionId :: jsstr
  ds_payoutMode :: PayoutMode
  ds_clientEntity :: "ClientEntity option"
  ds_address :: "jsstr option"
  ds_workerName :: jsstr
  ds_userAgent :: jsstr
  ds_pingTimer :: bool
  ds_datumJobs :: "(int \<times> DatumJobCache) list"
  ds_coinbaserPayoutContexts :: "(int \<times> DatumCoinbaserPayoutContext) list"
  ds_nextCoinbaserId :: int
  ds_statistics :: ClientStatistics
  ds_lastHashRatePersistedAt :: int
  ds_socketDestroyed :: bool
  ds_socketEnded :: bool
  ds_provider :: TemplateProvider
  ds_outbox :: "datum_effect list"

type_synonym 'a datum = "(DatumClientState, 'a) sm"

section \<open>Configuration\<close>

definition datum_config :: "datum_env \<Rightarrow> string \<Rightarrow> jsstr option" where
  "datum_config env key = env_config (de_pool env) (jstr key)"

definition getDatumPoolPayoutAddress :: "datum_env \<Rightarrow> jsstr" where
  "getDatumPoolPayoutAddress env =
     firstText (map (datum_config env) [''DATUM_POOL_PAYOUT_ADDRESS'', ''PAYOUT_FEE_ADDRESS'', ''DEV_FEE_ADDRESS''])"

definition getConfiguredDatumShareDifficulty :: "datum_env \<Rightarrow> jsnum" where
  "getConfiguredDatumShareDifficulty env =
     (let configured = env_parseFloat (de_pool env)
            (case datum_config env ''DATUM_SHARE_DIFFICULTY'' of Some s \<Rightarrow> s | None \<Rightarrow> [])
      in if isFinite configured \<and> js_lt (Num 0) configured then configured else Num 1)"

definition getDatumSubmittedShareDifficulty :: "datum_env \<Rightarrow> int \<Rightarrow> jsnum" where
  "getDatumSubmittedShareDifficulty env targetByte =
     (if targetByte < 0 \<or> targetByte > 63 then getConfiguredDatumShareDifficulty env
      else Num (of_int (2 ^ nat targetByte)))"

definition mapDatumTemplateRejectReason :: "jsstr option \<Rightarrow> DatumRejectReason" where
  "mapDatumTemplateRejectReason errorCode =
     (if errorCode \<in> {Some (jstr ''prevhash-mismatch''), Some (jstr ''height-mismatch'')} then STALE_BLOCK
      else if errorCode = Some (jstr ''version-mismatch'') then BAD_VERSION
      else if errorCode = Some (jstr ''bad-merkle-branch'') then BAD_MERKLE_COUNT
      else OTHER)"

definition newDatumClientState ::
    "datum_env \<Rightarrow> PayoutMode \<Rightarrow> jsstr \<Rightarrow> DatumCryptoSession \<Rightarrow> TemplateProvider \<Rightarrow> DatumClientState" where
  "newDatumClientState env mode sessionId session provider =
     \<lparr>dl_session = session, dl_reader = newDatumFrameReader DATUM_INITIAL_HEADER_KEY,
      ds_sessionId = sessionId, ds_payoutMode = mode, ds_clientEntity = None, ds_address = None,
      ds_workerName = jstr ''default'', ds_userAgent = jstr ''datum/unknown'', ds_pingTimer = False,
      ds_datumJobs = [], ds_coinbaserPayoutContexts = [], ds_nextCoinbaserId = 1,
      ds_statistics = newStatistics (env_now (de_pool env)) (getConfiguredDatumShareDifficulty env),
      ds_lastHashRatePersistedAt = 0, ds_socketDestroyed = False, ds_socketEnded = False,
      ds_provider = provider, ds_outbox = []\<rparr>"

section \<open>The socket\<close>

definition datum_emit :: "datum_effect \<Rightarrow> unit datum" where
  "datum_emit e = modify (\<lambda>c. c\<lparr>ds_outbox := ds_outbox c @ [e]\<rparr>)"

definition datum_perform :: "datum_env \<Rightarrow> datum_effect \<Rightarrow> unit datum" where
  "datum_perform env e = andThen (datum_emit e) (\<lambda>_. if de_fails env e then throw (JsError ''outside'') else ret ())"

definition datum_writeRaw :: "datum_env \<Rightarrow> bytes \<Rightarrow> unit datum" where
  "datum_writeRaw env data =
     andThen (readState (\<lambda>c. ds_socketDestroyed c \<or> ds_socketEnded c)) (\<lambda>closed.
       if closed then ret () else datum_perform env (Datum_Write data))"

definition sendMining :: "datum_env \<Rightarrow> bytes \<Rightarrow> bool \<Rightarrow> unit datum" where
  "sendMining env data sign =
     andThen (onSession (encryptChannelFrame (de_sodium env) PROTO_MINING data sign)) (datum_writeRaw env)"

definition sendShareResponse :: "datum_env \<Rightarrow> DatumShareResponseStatus \<Rightarrow> int \<Rightarrow> DatumPowSubmit \<Rightarrow> unit datum" where
  "sendShareResponse env status reasonCode pow =
     andThen (lift (serializeDatumShareResponse status reasonCode (pw_nonce pow) (pw_targetByte pow) (pw_jobId pow)))
       (\<lambda>data. sendMining env data False)"

definition rejectShare :: "datum_env \<Rightarrow> DatumRejectReason \<Rightarrow> DatumPowSubmit \<Rightarrow> unit datum" where
  "rejectShare env reason = sendShareResponse env REJECTED (rejectCode reason)"

definition destroyDatumClient :: "unit datum" where
  "destroyDatumClient =
     andThen (modify (\<lambda>c. c\<lparr>ds_pingTimer := False\<rparr>)) (\<lambda>_.
     andThen (readState ds_clientEntity) (\<lambda>entity. case entity of
         None \<Rightarrow> ret ()
       | Some e \<Rightarrow> andThen (datum_emit (Datum_DeleteClient (ce_id e)))
           (\<lambda>_. modify (\<lambda>c. c\<lparr>ds_clientEntity := None\<rparr>))))"

definition destroyDatumSocket :: "unit datum" where
  "destroyDatumSocket = andThen (readState ds_socketDestroyed) (\<lambda>d.
     if d then ret ()
     else andThen (datum_emit Datum_DestroySocket) (\<lambda>_. modify (\<lambda>c. c\<lparr>ds_socketDestroyed := True\<rparr>)))"

definition closeDatum :: "unit datum" where
  "closeDatum = andThen destroyDatumClient (\<lambda>_. destroyDatumSocket)"

section \<open>Handshake\<close>

text \<open>The smallest difficulty is rounded up to a power of two.\<close>

definition vardiffMin :: "datum_env \<Rightarrow> bytes result" where
  "vardiffMin env =
     (let minDifficulty = js_max (Num 1) (js_floor (getConfiguredDatumShareDifficulty env));
          exponent = (case de_log2 env minDifficulty of Num r \<Rightarrow> Num (of_int \<lceil>r\<rceil>) | x \<Rightarrow> x)
      in rbind (bigIntOf exponent) (\<lambda>k.
           if k \<ge> 64 then Inl RangeError else Inr (le_bytes 8 (if k < 0 then 0 else 2 ^ nat k))))"

definition sendDatumClientConfigure :: "datum_env \<Rightarrow> unit datum" where
  "sendDatumClientConfigure env =
     (let payoutAddress = getDatumPoolPayoutAddress env; coinbaseTag = utf8_encode (jstr ''public-pool'')
      in if payoutAddress = [] then throw (JsError ''payout address'')
         else if \<not> knownNetwork (de_pool env) then throw (JsError ''Invalid network configuration'')
         else
           andThen (lift (pl_toOutputScript (de_provider env) payoutAddress)) (\<lambda>payoutScript.
           if length payoutScript > 255 then throw (JsError ''DATUM payout script is too long'')
           else
             andThen (lift (vardiffMin env)) (\<lambda>vardiff.
               sendMining env ([byte_of MINING_CLIENT_CONFIGURE, 1, byte_of (int (length payoutScript))] @ payoutScript
                 @ le_bytes 4 0x50554250 @ [byte_of (int (length coinbaseTag))] @ coinbaseTag @ vardiff @ [0, 0xfe])
                 True)))"

definition handleHandshakeInit :: "datum_env \<Rightarrow> bytes \<Rightarrow> unit datum" where
  "handleHandshakeInit env body =
     andThen (onSession (openHandshake (de_sodium env) body)) (\<lambda>hello.
     andThen (modify (\<lambda>c. c\<lparr>ds_userAgent := (if dh_userAgent hello = [] then jstr ''datum/unknown''
        else dh_userAgent hello)\<rparr>)) (\<lambda>_.
     andThen (onSession (buildHandshakeResponse (de_sodium env) hello (jstr ''public-pool DATUM''))) (\<lambda>response.
     andThen (datum_writeRaw env response) (\<lambda>_.
     andThen (sendDatumClientConfigure env) (\<lambda>_.
       modify (\<lambda>c. c\<lparr>ds_pingTimer := True\<rparr>))))))"

section \<open>What a coinbase must pay\<close>

text \<open>\<open>Number(value)\<close> of an integer, and the difference of two such numbers.\<close>

definition numberOf :: "int \<Rightarrow> int" where
  "numberOf v = \<lfloor>fl (of_int v)\<rfloor>"

fun datumOutputsFrom ::
    "(jsstr \<Rightarrow> bytes result) \<Rightarrow> int \<Rightarrow> AddressObject list \<Rightarrow> int \<Rightarrow> (int \<times> DatumPayoutOutput list) result" where
  "datumOutputsFrom toOutputScript rewardValue [] rewardBalance = Inr (rewardBalance, [])"
| "datumOutputsFrom toOutputScript rewardValue (recipient # rest) rewardBalance =
     (let amount = outputAmount rewardValue recipient
      in rbind (toOutputScript (ao_address recipient)) (\<lambda>script.
         rbind (datumOutputsFrom toOutputScript rewardValue rest (numberOf (rewardBalance - amount)))
           (\<lambda>(balance, outs). Inr (balance, \<lparr>po_value = amount, po_scriptPubKey = script\<rparr> # outs))))"

definition getDatumFallbackPayoutOutputs :: "datum_env \<Rightarrow> int \<Rightarrow> AddressObject list" where
  "getDatumFallbackPayoutOutputs env rewardValue =
     (let payoutAddress = getDatumPoolPayoutAddress env
      in if payoutAddress = [] then []
         else [\<lparr>ao_address = payoutAddress, ao_percent = None, ao_amountSats = Some (max 0 rewardValue)\<rparr>])"

definition getDatumPayoutOutputs ::
    "datum_env \<Rightarrow> IJobTemplate \<Rightarrow> int \<Rightarrow> PayoutMode \<Rightarrow> DatumPayoutOutput list result" where
  "getDatumPayoutOutputs env latestTemplate rewardValue mode =
     (let payoutAddresses = (case jt_payoutOutputs latestTemplate of
            Some (out # outs) \<Rightarrow> if mode = pplns then out # outs else getDatumFallbackPayoutOutputs env rewardValue
          | _ \<Rightarrow> getDatumFallbackPayoutOutputs env rewardValue);
          toOutputScript = (\<lambda>address. if knownNetwork (de_pool env)
            then pl_toOutputScript (de_provider env) address else Inl (JsError ''Invalid network configuration''))
      in rbind (datumOutputsFrom toOutputScript rewardValue payoutAddresses (max 0 rewardValue))
           (\<lambda>(rewardBalance, outs). Inr (case outs of
              [] \<Rightarrow> []
            | first # others \<Rightarrow>
                (if rewardBalance \<noteq> 0 then first\<lparr>po_value := po_value first + rewardBalance\<rparr> else first) # others)))"

definition datum_awaitTemplate :: "datum_env \<Rightarrow> IJobTemplate datum" where
  "datum_awaitTemplate env = (case env_template (de_pool env) of None \<Rightarrow> throw Diverges | Some t \<Rightarrow> ret t)"

text \<open>Identifiers go round from 1 to 254, so that at most 254 contexts are kept.\<close>

definition nextDatumCoinbaserId :: "int datum" where
  "nextDatumCoinbaserId = andThen (readState ds_nextCoinbaserId) (\<lambda>i.
     andThen (modify (\<lambda>c. c\<lparr>ds_nextCoinbaserId := (if i \<ge> 254 then 1 else i + 1)\<rparr>)) (\<lambda>_. ret i))"

definition rememberContext :: "int \<Rightarrow> DatumCoinbaserPayoutContext \<Rightarrow> unit datum" where
  "rememberContext coinbaserId context = modify (\<lambda>c.
     (let contexts = AList.update coinbaserId context (ds_coinbaserPayoutContexts c)
      in c\<lparr>ds_coinbaserPayoutContexts := (if length contexts > 512 then tl contexts else contexts)\<rparr>))"

definition handleCoinbaserFetch :: "datum_env \<Rightarrow> bytes \<Rightarrow> unit datum" where
  "handleCoinbaserFetch env body =
     andThen (lift (deserializeDatumCoinbaserFetch body)) (\<lambda>rewardValue.
     andThen (datum_awaitTemplate env) (\<lambda>latestTemplate.
     andThen (readState ds_payoutMode) (\<lambda>mode.
     andThen (lift (getDatumPayoutOutputs env latestTemplate (numberOf rewardValue) mode)) (\<lambda>payoutOutputs.
     if payoutOutputs = [] then throw (JsError ''payout address'')
     else
       andThen nextDatumCoinbaserId (\<lambda>coinbaserId.
       andThen (rememberContext coinbaserId \<lparr>pc_payoutOutputs = payoutOutputs,
          pc_payoutSnapshotId = jt_payoutSnapshotId latestTemplate, pc_blockHeight = jt_height latestTemplate,
          pc_payoutMode = mode\<rparr>) (\<lambda>_.
       andThen (lift (serializeDatumCoinbaserFetchResponse rewardValue payoutOutputs coinbaserId)) (\<lambda>response.
         sendMining env response False)))))))"

section \<open>Jobs of the gateway\<close>

definition emptyDatumJob :: DatumJobCache where
  "emptyDatumJob = \<lparr>dc_prevBlockHash = None, dc_targetByteIndex = None, dc_nBits = None, dc_coinbaserId = None,
     dc_height = None, dc_coinbaseValue = None, dc_transactionCount = None, dc_totalWeight = None,
     dc_totalSize = None, dc_totalSigops = None, dc_merkleBranches = None, dc_coinbasePairs = [],
     dc_subsidyOnlyCoinbase = None, dc_validationState = None, dc_validationShortTxIds = None,
     dc_validationShortTxCrosscheck = None, dc_validationTransactions = None, dc_expectedPayoutOutputs = None,
     dc_payoutSnapshotId = None\<rparr>"

definition orElse :: "'a option \<Rightarrow> 'a option \<Rightarrow> 'a option" where
  "orElse x y = (case x of None \<Rightarrow> y | Some a \<Rightarrow> Some a)"

text \<open>What a submission carries replaces what is known of its job; a previous hash starts the job afresh.\<close>

definition mergePow ::
    "(int \<times> DatumCoinbaserPayoutContext) list \<Rightarrow> DatumPowSubmit \<Rightarrow> DatumJobCache \<Rightarrow> DatumJobCache" where
  "mergePow contexts pow cache =
     (let context = Option.bind (pw_coinbaserId pow) (map_of contexts)
      in cache\<lparr>dc_prevBlockHash := orElse (pw_prevBlockHash pow) (dc_prevBlockHash cache),
           dc_targetByteIndex := orElse (pw_targetByteIndex pow) (dc_targetByteIndex cache),
           dc_nBits := orElse (pw_nBits pow) (dc_nBits cache),
           dc_coinbaserId := orElse (pw_coinbaserId pow) (dc_coinbaserId cache),
           dc_expectedPayoutOutputs := orElse (map_option pc_payoutOutputs context) (dc_expectedPayoutOutputs cache),
           dc_payoutSnapshotId := (case context of None \<Rightarrow> dc_payoutSnapshotId cache
              | Some ctx \<Rightarrow> pc_payoutSnapshotId ctx),
           dc_height := orElse (pw_height pow) (dc_height cache),
           dc_coinbaseValue := orElse (pw_coinbaseValue pow) (dc_coinbaseValue cache),
           dc_transactionCount := orElse (pw_transactionCount pow) (dc_transactionCount cache),
           dc_totalWeight := orElse (pw_totalWeight pow) (dc_totalWeight cache),
           dc_totalSize := orElse (pw_totalSize pow) (dc_totalSize cache),
           dc_totalSigops := orElse (pw_totalSigops pow) (dc_totalSigops cache),
           dc_merkleBranches := orElse (pw_merkleBranches pow) (dc_merkleBranches cache),
           dc_coinbasePairs := foldl (\<lambda>m (i, cb). AList.update i cb m) (dc_coinbasePairs cache) (pw_coinbasePairs pow),
           dc_subsidyOnlyCoinbase := orElse (pw_subsidyOnlyCoinbase pow) (dc_subsidyOnlyCoinbase cache)\<rparr>)"

definition setDatumJob :: "int \<Rightarrow> DatumJobCache \<Rightarrow> unit datum" where
  "setDatumJob jobId cache = modify (\<lambda>c. c\<lparr>ds_datumJobs := AList.update jobId cache (ds_datumJobs c)\<rparr>)"

definition updateDatumJobCache :: "DatumPowSubmit \<Rightarrow> DatumJobCache datum" where
  "updateDatumJobCache pow =
     andThen (readState id) (\<lambda>c.
     (let known = (case map_of (ds_datumJobs c) (pw_jobId pow) of
            None \<Rightarrow> emptyDatumJob
          | Some cache \<Rightarrow> if pw_prevBlockHash pow \<noteq> None then emptyDatumJob else cache);
          cache = mergePow (ds_coinbaserPayoutContexts c) pow known
      in andThen (setDatumJob (pw_jobId pow) cache) (\<lambda>_. ret cache)))"

text \<open>The short identifiers of a job are asked for once; a job without transactions is valid.\<close>

definition maybeRequestDatumJobValidation :: "datum_env \<Rightarrow> int \<Rightarrow> DatumJobCache \<Rightarrow> DatumJobCache datum" where
  "maybeRequestDatumJobValidation env jobId cache =
     (case dc_transactionCount cache of
        None \<Rightarrow> ret cache
      | Some n \<Rightarrow>
          if dc_validationState cache \<noteq> None then ret cache
          else if n = 0
          then
            (let cache = cache\<lparr>dc_validationState := Some validated_state, dc_validationTransactions := Some []\<rparr>
             in andThen (setDatumJob jobId cache) (\<lambda>_. ret cache))
          else
            (let cache = cache\<lparr>dc_validationState := Some requested_short_txids\<rparr>
             in andThen (setDatumJob jobId cache) (\<lambda>_.
                andThen (sendMining env (serializeDatumJobValidationShortTxIdsRequest jobId) False) (\<lambda>_. ret cache))))"

definition failValidation :: "int \<Rightarrow> DatumJobCache \<Rightarrow> unit datum" where
  "failValidation jobId cache = setDatumJob jobId (cache\<lparr>dc_validationState := Some failed_state\<rparr>)"

definition countMismatch :: "DatumJobCache \<Rightarrow> int \<Rightarrow> bool" where
  "countMismatch cache received = (case dc_transactionCount cache of None \<Rightarrow> False | Some n \<Rightarrow> received \<noteq> n)"

text \<open>Whether the transactions of a job are what it advertised.\<close>

definition validateDatumTransactionResponse ::
    "datum_env \<Rightarrow> DatumJobCache \<Rightarrow> DatumTransactionListResponse \<Rightarrow> bool result" where
  "validateDatumTransactionResponse env cache response =
     (if countMismatch cache (tx_transactionCount response) then Inr False
      else rmap tv_valid (validateTransactionData (de_provider env) (env_sha256 (de_pool env)) (tx_transactions response)
             (map_option nat (dc_transactionCount cache)) (map_option nat (dc_totalSize cache))
             (dc_merkleBranches cache)))"

definition handleJobValidationResponse :: "datum_env \<Rightarrow> bytes \<Rightarrow> unit datum" where
  "handleJobValidationResponse env body =
     andThen (lift (deserializeDatumJobValidationResponse body)) (\<lambda>response.
     (let jobId = (case response of ShortTxIds r \<Rightarrow> st_jobId r | Transactions r \<Rightarrow> tx_jobId r)
      in andThen (readState (\<lambda>c. map_of (ds_datumJobs c) jobId)) (\<lambda>found. case found of
           None \<Rightarrow> ret ()
         | Some cache \<Rightarrow> (case response of
             ShortTxIds r \<Rightarrow>
               if st_status r \<noteq> VALIDATION_SUCCESS \<or> countMismatch cache (st_transactionCount r)
               then failValidation jobId cache
               else
                 andThen (setDatumJob jobId (cache\<lparr>dc_validationShortTxIds := Some (st_shortTxIds r),
                    dc_validationShortTxCrosscheck := st_crosscheck r,
                    dc_validationState := Some requested_full_transaction_blob\<rparr>)) (\<lambda>_.
                   sendMining env (serializeDatumJobValidationFullTransactionBlobRequest jobId) False)
           | Transactions r \<Rightarrow>
               if tx_status r \<noteq> VALIDATION_SUCCESS then failValidation jobId cache
               else
                 andThen (lift (validateDatumTransactionResponse env cache r)) (\<lambda>ok.
                   if \<not> ok then failValidation jobId cache
                   else setDatumJob jobId (cache\<lparr>dc_validationState := Some validated_state,
                     dc_validationTransactions := Some (tx_transactions r)\<rparr>))))))"

section \<open>Coinbases\<close>

definition getDatumCoinbase :: "DatumJobCache \<Rightarrow> DatumPowSubmit \<Rightarrow> DatumCoinbase option" where
  "getDatumCoinbase cache pow =
     (let pair = map_of (dc_coinbasePairs cache) (pw_coinbaseId pow)
      in if pw_subsidyOnly pow then orElse (dc_subsidyOnlyCoinbase cache) pair
         else orElse pair (dc_subsidyOnlyCoinbase cache))"

definition isIgnoredCoinbaseMetadataOutput :: "TxOutput \<Rightarrow> bool" where
  "isIgnoredCoinbaseMetadataOutput out \<longleftrightarrow> isWitnessCommitmentOutput (out_script out)
     \<or> (out_value out = 0 \<and> out_script out \<noteq> [] \<and> hd (out_script out) = 0x6a)"

definition submittedPayouts :: "Transaction \<Rightarrow> DatumPayoutOutput list" where
  "submittedPayouts tx = map (\<lambda>out. \<lparr>po_value = out_value out, po_scriptPubKey = out_script out\<rparr>)
     (filter (\<lambda>out. \<not> isIgnoredCoinbaseMetadataOutput out) (tx_outs tx))"

text \<open>Whether the coinbase of a submission pays the expected outputs, one for one.\<close>

definition validateDatumCoinbasePayouts ::
    "datum_env \<Rightarrow> DatumCoinbase \<Rightarrow> DatumPowSubmit \<Rightarrow> IJobTemplate \<Rightarrow> int option \<Rightarrow> DatumPayoutOutput list option \<Rightarrow>
     PayoutMode \<Rightarrow> bool result" where
  "validateDatumCoinbasePayouts env coinbase pow latestTemplate coinbaseValue expectedPayoutOutputs mode =
     (let rewardValue = (case coinbaseValue of None \<Rightarrow> jt_coinbasevalue latestTemplate | Some v \<Rightarrow> numberOf v)
      in rbind (case expectedPayoutOutputs of Some outs \<Rightarrow> Inr outs
            | None \<Rightarrow> getDatumPayoutOutputs env latestTemplate rewardValue mode) (\<lambda>expected.
         Inr (if expected = [] then False
           else (let coinbaseTx = coinb1 coinbase @ pw_extranonce pow @ coinb2 coinbase
             in (case (case pw_targetByteIndex pow of
                     None \<Rightarrow> Some coinbaseTx
                   | Some i \<Rightarrow> if i < 0 \<or> i \<ge> int (length coinbaseTx) then None
                       else Some (coinbaseTx[nat i := byte_of (js_and (pw_targetByte pow) 0xff)])) of
                   None \<Rightarrow> False
                 | Some bytes \<Rightarrow> (case pl_fromBuffer (de_provider env) bytes of
                       Inl _ \<Rightarrow> False
                     | Inr tx \<Rightarrow> submittedPayouts tx = expected))))))"

text \<open>
  The contexts that the coinbase may have been made for instead, tried in their order. Skipping the context of
  the job itself, whose outputs were tried first, changes nothing.
\<close>

fun firstContext ::
    "(DatumCoinbaserPayoutContext \<Rightarrow> bool result) \<Rightarrow> DatumCoinbaserPayoutContext list \<Rightarrow>
     DatumCoinbaserPayoutContext option result" where
  "firstContext check [] = Inr None"
| "firstContext check (context # contexts) =
     rbind (check context) (\<lambda>ok. if ok then Inr (Some context) else firstContext check contexts)"

definition validateDatumCoinbasePayoutContext ::
    "datum_env \<Rightarrow> DatumCoinbase \<Rightarrow> DatumPowSubmit \<Rightarrow> IJobTemplate \<Rightarrow> DatumJobCache \<Rightarrow> DatumClientState \<Rightarrow>
     (bool \<times> DatumCoinbaserPayoutContext option) result" where
  "validateDatumCoinbasePayoutContext env coinbase pow latestTemplate datumJob c =
     (let check = (\<lambda>expected. validateDatumCoinbasePayouts env coinbase pow latestTemplate (dc_coinbaseValue datumJob)
            expected (ds_payoutMode c))
      in rbind (check (dc_expectedPayoutOutputs datumJob)) (\<lambda>primary.
         if primary then Inr (True, None)
         else
           rmap (\<lambda>found. (found \<noteq> None, found))
             (firstContext (\<lambda>context. check (Some (pc_payoutOutputs context)))
               (filter (\<lambda>context. pc_payoutMode context = ds_payoutMode c
                    \<and> (dc_height datumJob = None \<or> dc_height datumJob = Some (pc_blockHeight context))
                    \<and> dc_expectedPayoutOutputs datumJob \<noteq> Some (pc_payoutOutputs context))
                  (map snd (ds_coinbaserPayoutContexts c))))))"

section \<open>Shares\<close>

definition datum_normalizeAddress :: "datum_env \<Rightarrow> jsstr \<Rightarrow> jsstr" where
  "datum_normalizeAddress env address =
     (if list_ex (startsWith (asciiLower address)) [''bc1'', ''tb1'', ''bcrt1'']
      then env_toLowerCase (de_pool env) address else address)"

definition datum_parseUserIdentity :: "datum_env \<Rightarrow> jsstr \<Rightarrow> jsstr \<times> jsstr" where
  "datum_parseUserIdentity env userIdentity =
     (let parts = splitOn 46 userIdentity
      in (datum_normalizeAddress env (hd parts),
          if length parts > 1 then joinWith (jstr ''.'') (tl parts) else jstr ''default''))"

definition datum_insertCount :: "datum_effect list \<Rightarrow> nat" where
  "datum_insertCount es = length (filter (\<lambda>e. case e of Datum_InsertClient _ \<Rightarrow> True | _ \<Rightarrow> False) es)"

definition datum_ensureClientEntity :: "datum_env \<Rightarrow> unit datum" where
  "datum_ensureClientEntity env =
     andThen (readState id) (\<lambda>c.
       if ds_clientEntity c \<noteq> None then ret ()
       else
         (let e = newEntity (de_pool env) (ds_sessionId c) (case ds_address c of None \<Rightarrow> [] | Some a \<Rightarrow> a)
                (ds_workerName c) (ds_userAgent c) (ds_payoutMode c)
          in andThen (datum_emit (Datum_InsertClient e)) (\<lambda>_.
             case env_insertId (de_pool env) (datum_insertCount (ds_outbox c)) of
               None \<Rightarrow> throw (JsError ''insert'')
             | Some i \<Rightarrow> modify (\<lambda>c. c\<lparr>ds_clientEntity := Some (e\<lparr>ce_id := i\<rparr>)\<rparr>))))"

definition datum_persistClientHashRate :: "datum_env \<Rightarrow> unit datum" where
  "datum_persistClientHashRate env =
     andThen (readState id) (\<lambda>c. case ds_clientEntity c of
         None \<Rightarrow> ret ()
       | Some entity \<Rightarrow>
          (let hashRate = st_hashRate (ds_statistics c); nowMs = env_now (de_pool env)
           in if \<not> isFinite hashRate \<or> js_le hashRate (Num 0) then ret ()
              else if ds_lastHashRatePersistedAt c > 0
                 \<and> js_lt (Num (of_int (nowMs - ds_lastHashRatePersistedAt c))) (getHashRatePersistIntervalMs (de_pool env))
              then ret ()
              else
                andThen (modify (\<lambda>c. c\<lparr>ds_lastHashRatePersistedAt := nowMs\<rparr>)) (\<lambda>_.
                  tryCatch (datum_perform env (Datum_UpdateHashRate (ce_id entity) hashRate nowMs)) (\<lambda>_. ret ()))))"

definition updateAcceptedSharePresence :: "datum_env \<Rightarrow> jsnum \<Rightarrow> jsnum \<Rightarrow> unit datum" where
  "updateAcceptedSharePresence env shareDifficulty creditedDifficulty =
     andThen (readState id) (\<lambda>c. case ds_clientEntity c of
         None \<Rightarrow> ret ()
       | Some _ \<Rightarrow>
          (let now = env_now (de_pool env); st = addShares now now creditedDifficulty (ds_statistics c)
           in andThen (modify (\<lambda>c. c\<lparr>ds_statistics := st, ds_clientEntity :=
                 map_option (\<lambda>e. e\<lparr>ce_hashRate := st_hashRate st\<rparr>) (ds_clientEntity c)\<rparr>)) (\<lambda>_.
              andThen (datum_persistClientHashRate env) (\<lambda>_.
              andThen (readState ds_clientEntity) (\<lambda>entity. case entity of
                  None \<Rightarrow> ret ()
                | Some e \<Rightarrow>
                    if js_lt (ce_bestDifficulty e) shareDifficulty
                    then
                      andThen (datum_perform env (Datum_UpdateBestDifficulty (ce_id e) shareDifficulty)) (\<lambda>_.
                        modify (\<lambda>c. c\<lparr>ds_clientEntity := Some (e\<lparr>ce_bestDifficulty := shareDifficulty\<rparr>)\<rparr>))
                    else ret ())))))"

text \<open>A share that is accepted: the answer, the block if it is one or claims to be, the record.\<close>

definition gatewayResult :: "CustomWorkShareValidationResult \<Rightarrow> jsstr option" where
  "gatewayResult judged = (if cr_isBlockCandidate judged then Some (jstr ''datum-gateway-submit-expected'') else None)"

definition powHeight :: "DatumJobCache \<Rightarrow> IJobTemplate \<Rightarrow> int" where
  "powHeight datumJob latestTemplate = (case dc_height datumJob of None \<Rightarrow> jt_height latestTemplate | Some h \<Rightarrow> h)"

definition powBlock ::
    "DatumClientState \<Rightarrow> jsstr \<Rightarrow> jsstr \<Rightarrow> DatumJobCache \<Rightarrow> IJobTemplate \<Rightarrow> CustomWorkShareValidationResult \<Rightarrow>
     DatumFoundBlock" where
  "powBlock c address workerName datumJob latestTemplate judged =
     \<lparr>df_height = powHeight datumJob latestTemplate, df_minerAddress = address,
      df_worker = workerName, df_sessionId = ds_sessionId c, df_blockData = cr_header judged,
      df_blockSubmissionResult = gatewayResult judged,
      df_payoutSnapshotId = (if ds_payoutMode c = pplns then dc_payoutSnapshotId datumJob else None),
      df_payoutMode = ds_payoutMode c\<rparr>"

definition powShare ::
    "DatumClientState \<Rightarrow> DatumPowSubmit \<Rightarrow> jsstr \<Rightarrow> jsstr \<Rightarrow> DatumJobCache \<Rightarrow> IJobTemplate \<Rightarrow> jsnum \<Rightarrow>
     CustomWorkShareValidationResult \<Rightarrow> ClientEntity \<Rightarrow> DatumShare" where
  "powShare c pow address workerName datumJob latestTemplate creditedDifficulty judged entity =
     \<lparr>sh_payoutMode = ds_payoutMode c, sh_address = address, sh_clientName = workerName,
      sh_sessionId = ds_sessionId c, sh_clientId = ce_id entity, sh_jobId = intToString16 (pw_jobId pow),
      sh_jobTemplateId = jt_id latestTemplate, sh_blockHeight = powHeight datumJob latestTemplate,
      sh_creditedDifficulty = creditedDifficulty, sh_submissionDifficulty = cr_submissionDifficulty judged,
      sh_networkDifficulty = jt_networkDifficulty latestTemplate, sh_nonce = pw_nonce pow,
      sh_ntime = pw_ntime pow, sh_version = pw_version pow, sh_extraNonce2 = hexEncode (pw_extranonce pow),
      sh_isBlockCandidate = (cr_isBlockCandidate judged \<or> pw_isBlock pow),
      sh_blockSubmissionResult = gatewayResult judged\<rparr>"

definition recordPowBlock ::
    "datum_env \<Rightarrow> DatumClientState \<Rightarrow> DatumPowSubmit \<Rightarrow> jsstr \<Rightarrow> jsstr \<Rightarrow> DatumJobCache \<Rightarrow> IJobTemplate \<Rightarrow>
     CustomWorkShareValidationResult \<Rightarrow> unit datum" where
  "recordPowBlock env c pow address workerName datumJob latestTemplate judged =
     (if cr_isBlockCandidate judged \<or> pw_isBlock pow
      then
        andThen (datum_perform env (Datum_SaveBlock (powBlock c address workerName datumJob latestTemplate judged))) (\<lambda>_.
          if ds_payoutMode c = pplns
          then datum_perform env (Datum_FinalizeSnapshot (dc_payoutSnapshotId datumJob)
            (powHeight datumJob latestTemplate) (gatewayResult judged))
          else ret ())
      else ret ())"

definition acceptPow ::
    "datum_env \<Rightarrow> DatumPowSubmit \<Rightarrow> jsstr \<Rightarrow> jsstr \<Rightarrow> DatumJobCache \<Rightarrow> IJobTemplate \<Rightarrow> jsnum \<Rightarrow>
     CustomWorkShareValidationResult \<Rightarrow> unit datum" where
  "acceptPow env pow address workerName datumJob latestTemplate creditedDifficulty judged =
     andThen (sendShareResponse env ACCEPTED 0 pow) (\<lambda>_.
     andThen (readState id) (\<lambda>c.
     andThen (recordPowBlock env c pow address workerName datumJob latestTemplate judged) (\<lambda>_.
     andThen (case ds_clientEntity c of None \<Rightarrow> throw TypeError | Some e \<Rightarrow> ret e) (\<lambda>entity.
     andThen (datum_perform env (Datum_RecordShare
        (powShare c pow address workerName datumJob latestTemplate creditedDifficulty judged entity))) (\<lambda>_.
       updateAcceptedSharePresence env (cr_submissionDifficulty judged) creditedDifficulty)))))"

definition fastPathInput :: "DatumPowSubmit \<Rightarrow> DatumJobCache \<Rightarrow> DatumTemplateValidationInput" where
  "fastPathInput pow datumJob = \<lparr>dt_prevBlockHash = dc_prevBlockHash datumJob, dt_nBits = dc_nBits datumJob,
     dt_height = dc_height datumJob, dt_version = Some (pw_version pow), dt_coinbaseValue = dc_coinbaseValue datumJob,
     dt_totalWeight = dc_totalWeight datumJob, dt_totalSize = dc_totalSize datumJob,
     dt_totalSigops = dc_totalSigops datumJob, dt_merkleBranches = dc_merkleBranches datumJob\<rparr>"

definition shareInput ::
    "DatumPowSubmit \<Rightarrow> DatumCoinbase \<Rightarrow> int \<Rightarrow> bytes list \<Rightarrow> bytes \<Rightarrow> bytes \<Rightarrow> jsnum \<Rightarrow> jsnum \<Rightarrow>
     CustomWorkShareValidationInput" where
  "shareInput pow coinbase targetByteIndex merkleBranches prevBlockHash nBits creditedDifficulty networkDifficulty =
     \<lparr>cw_coinbasePrefix = coinb1 coinbase, cw_coinbaseSuffix = coinb2 coinbase,
      cw_coinbaseTargetByteIndex = Some targetByteIndex, cw_coinbaseTargetByte = Some (pw_targetByte pow),
      cw_merklePath = merkleBranches, cw_extranoncePrefix = [], cw_extranonce = pw_extranonce pow,
      cw_prevHash = prevBlockHash, cw_nBits = int (le_nat (take 4 nBits)), cw_version = pw_version pow,
      cw_ntime = pw_ntime pow, cw_nonce = pw_nonce pow, cw_shareDifficulty = creditedDifficulty,
      cw_networkDifficulty = networkDifficulty\<rparr>"

text \<open>The judgement of a share whose job is known and whose template is current.\<close>

definition judgePow ::
    "datum_env \<Rightarrow> DatumPowSubmit \<Rightarrow> jsstr \<Rightarrow> jsstr \<Rightarrow> DatumJobCache \<Rightarrow> IJobTemplate \<Rightarrow> DatumCoinbase \<Rightarrow> int \<Rightarrow>
     bytes list \<Rightarrow> bytes \<Rightarrow> bytes \<Rightarrow> unit datum" where
  "judgePow env pow address workerName datumJob latestTemplate coinbase targetByteIndex merkleBranches prevBlockHash
       nBits =
     andThen (readState id) (\<lambda>c.
     andThen (lift (validateDatumCoinbasePayoutContext env coinbase pow latestTemplate datumJob c)) (\<lambda>(paid, context).
     if \<not> paid then rejectShare env BAD_COINBASER_ID pow
     else
       (let datumJob = (case context of None \<Rightarrow> datumJob
              | Some ctx \<Rightarrow> datumJob\<lparr>dc_expectedPayoutOutputs := Some (pc_payoutOutputs ctx),
                  dc_payoutSnapshotId := pc_payoutSnapshotId ctx\<rparr>);
            creditedDifficulty = getDatumSubmittedShareDifficulty env (pw_targetByte pow)
        in andThen (setDatumJob (pw_jobId pow) datumJob) (\<lambda>_.
           andThen (if length nBits < 4 then throw RangeError else ret ()) (\<lambda>_.
           andThen (lift (validateShare (env_sha256 (de_pool env)) (shareInput pow coinbase targetByteIndex merkleBranches
              prevBlockHash nBits creditedDifficulty (jt_networkDifficulty latestTemplate)))) (\<lambda>judged.
             if \<not> cr_accepted judged then rejectShare env HIGH_HASH pow
             else acceptPow env pow address workerName datumJob latestTemplate creditedDifficulty judged))))))"

definition datumProvider :: "(TemplateProvider, 'a) sm \<Rightarrow> 'a datum" where
  "datumProvider m = andThen (readState (m \<circ> ds_provider)) (\<lambda>(r, provider).
     andThen (modify (\<lambda>c. c\<lparr>ds_provider := provider\<rparr>)) (\<lambda>_. lift r))"

definition checkPow ::
    "datum_env \<Rightarrow> DatumPowSubmit \<Rightarrow> jsstr \<Rightarrow> jsstr \<Rightarrow> DatumJobCache \<Rightarrow> unit datum" where
  "checkPow env pow address workerName datumJob =
     (case (getDatumCoinbase datumJob pow, dc_prevBlockHash datumJob, dc_nBits datumJob, dc_merkleBranches datumJob) of
        (Some coinbase, Some prevBlockHash, Some nBits, Some merkleBranches) \<Rightarrow>
          (case dc_targetByteIndex datumJob of
             None \<Rightarrow> rejectShare env BAD_TARGET pow
           | Some targetByteIndex \<Rightarrow>
              andThen (datum_awaitTemplate env) (\<lambda>latestTemplate.
              andThen (datumProvider (validateDatumTemplateFastPath (env_now (de_pool env)) (fastPathInput pow datumJob)))
                (\<lambda>validation.
                if \<not> fv_valid validation
                then rejectShare env (mapDatumTemplateRejectReason (fv_errorCode validation)) pow
                else if dc_validationState datumJob = Some failed_state then rejectShare env OTHER pow
                else judgePow env pow address workerName datumJob latestTemplate coinbase targetByteIndex merkleBranches
                  prevBlockHash nBits)))
      | _ \<Rightarrow> rejectShare env COINBASE_MISSING pow)"

definition handlePowSubmit :: "datum_env \<Rightarrow> bytes \<Rightarrow> unit datum" where
  "handlePowSubmit env body =
     andThen (lift (deserializeDatumPowSubmit body)) (\<lambda>pow.
     (case datum_parseUserIdentity env (pw_username pow) of (address, workerName) \<Rightarrow>
       if \<not> env_isAddress (de_pool env) address then rejectShare env BAD_USERNAME pow
       else
         andThen (modify (\<lambda>c. c\<lparr>ds_address := Some address, ds_workerName := workerName\<rparr>)) (\<lambda>_.
         andThen (datum_ensureClientEntity env) (\<lambda>_.
         andThen (updateDatumJobCache pow) (\<lambda>datumJob.
         andThen (maybeRequestDatumJobValidation env (pw_jobId pow) datumJob) (\<lambda>datumJob.
           checkPow env pow address workerName datumJob))))))"

section \<open>Frames and events\<close>

definition datum_handleFrame :: "datum_env \<Rightarrow> int \<Rightarrow> bytes \<Rightarrow> unit datum" where
  "datum_handleFrame env cmd body =
     (if cmd = HANDSHAKE_INIT then handleHandshakeInit env body
      else if cmd \<noteq> PROTO_MINING then ret ()
      else
        andThen (lift (deserializeDatumMiningCommand body)) (\<lambda>(command, body).
          if command = MINING_FETCH_COINBASER then handleCoinbaserFetch env body
          else if command = MINING_SUBMIT_POW then handlePowSubmit env body
          else if command = MINING_JOB_VALIDATION then handleJobValidationResponse env body
          else ret ()))"

definition datum_handleSocketData :: "datum_env \<Rightarrow> bytes \<Rightarrow> unit datum" where
  "datum_handleSocketData env data =
     tryCatch (receiveData (de_sodium env) (datum_handleFrame env) data)
       (\<lambda>e. if e = Diverges then throw Diverges else closeDatum)"

text \<open>A ping that cannot be written destroys the socket.\<close>

definition datum_ping :: "datum_env \<Rightarrow> unit datum" where
  "datum_ping env =
     andThen (readState (\<lambda>c. ds_socketDestroyed c \<or> ds_socketEnded c)) (\<lambda>closed.
       if closed then modify (\<lambda>c. c\<lparr>ds_pingTimer := False\<rparr>)
       else
         andThen (onSession (encryptChannelFrame (de_sodium env) PROTO_PING [] False)) (\<lambda>frame.
           tryCatch (datum_writeRaw env frame) (\<lambda>_. destroyDatumSocket)))"

datatype datum_event =
    Datum_SocketData bytes
  | Datum_Ping
  | Datum_SocketError
  | Datum_SocketClosed
  | Datum_Shared TemplateProvider

definition datum_handleEvent :: "datum_env \<Rightarrow> datum_event \<Rightarrow> DatumClientState \<Rightarrow> DatumClientState" where
  "datum_handleEvent env ev c = (case ev of
      Datum_SocketData data \<Rightarrow> snd (datum_handleSocketData env data c)
    | Datum_Ping \<Rightarrow> if ds_pingTimer c then snd (datum_ping env c) else c
    | Datum_SocketError \<Rightarrow> snd (closeDatum c)
    | Datum_SocketClosed \<Rightarrow> snd (destroyDatumClient (c\<lparr>ds_socketDestroyed := True\<rparr>))
    | Datum_Shared provider \<Rightarrow> c\<lparr>ds_provider := provider\<rparr>)"

end
