(* ===== verification/StratumV2Shares.thy ===== *)
theory StratumV2Shares
  imports StratumV2Client
begin

text \<open>
  What the outside learns from a Stratum V2 connection: every share it records and every block it submits
  was earned by work of the frame that is handled; each frame records at most one share.
\<close>

section \<open>Statements that emit only what is allowed\<close>

definition v2_recorded :: "v2_effect \<Rightarrow> V2Share option" where
  "v2_recorded e = (case e of V2_RecordShare s \<Rightarrow> Some s | _ \<Rightarrow> None)"

definition v2_outcome :: "v2_effect \<Rightarrow> bool" where
  "v2_outcome e = (case e of V2_RecordShare _ \<Rightarrow> True | V2_SubmitBlock _ \<Rightarrow> True | _ \<Rightarrow> False)"

definition v2_emits :: "(v2_effect \<Rightarrow> bool) \<Rightarrow> 'c V2Client \<Rightarrow> 'c V2Client \<Rightarrow> bool" where
  "v2_emits P c c' \<longleftrightarrow> (\<exists>es. v2_outbox c' = v2_outbox c @ es \<and> list_all P es)"

interpretation em: step_relation "v2_emits P" for P
proof
  show "v2_emits P s s" for s :: "'a V2Client" by (simp add: v2_emits_def)
  show "v2_emits P s u" if "v2_emits P s t" "v2_emits P t u" for s t u :: "'a V2Client"
    using that unfolding v2_emits_def by (metis append_assoc list_all_append)
qed

definition idle :: "v2_effect \<Rightarrow> bool" where
  "idle e \<longleftrightarrow> \<not> v2_outcome e"

lemma em_modify: "(\<And>c. v2_outbox (f c) = v2_outbox c) \<Longrightarrow> em.keeps P (modify f)"
  by (intro em.keeps_modify) (simp add: v2_emits_def)

lemma em_emit: "P e \<Longrightarrow> em.keeps P (v2_emit e)"
  unfolding v2_emit_def by (intro em.keeps_modify) (simp add: v2_emits_def)

lemma em_need: "em.keeps P (v2_need x)"
  by (cases x) (simp_all add: v2_need_def em.keeps_prims)

lemmas em_intros = em.keeps_intros em_need em_modify

lemma em_perform: "P e \<Longrightarrow> em.keeps P (v2_perform env e)"
  unfolding v2_perform_def by (intro em_intros em_emit)

lemma idle_effects [simp]:
  "idle (V2_Frame x t data w)" "idle (V2_WriteRaw data)" "idle V2_DestroySocket" "idle V2_IdleTimeoutOff"
  "idle (V2_SaveBlock fb)" "idle (V2_FinalizeSnapshot snap h r)" "idle (V2_NotifyBlockFound a h r)"
  "idle V2_ResetBestDifficulty" "idle (V2_UpdateHashRate i d n)" "idle (V2_UpdateBestDifficulty i d)"
  "idle (V2_UpdateAddressBest a d u)" "idle (V2_InsertClient row)" "idle (V2_DeleteClient i)"
  by (simp_all add: idle_def v2_outcome_def)

text \<open>
  Inside the record of a share the connection also stays whose it is.
\<close>

definition v2_who :: "'c V2Client \<Rightarrow> PayoutMode \<times> jsstr option \<times> jsstr \<times> jsstr" where
  "v2_who c = (v2_payoutMode c, v2_address c, v2_workerName c, v2_sessionId c)"

definition v2_stays :: "(v2_effect \<Rightarrow> bool) \<Rightarrow> 'c V2Client \<Rightarrow> 'c V2Client \<Rightarrow> bool" where
  "v2_stays P c c' \<longleftrightarrow> v2_emits P c c' \<and> v2_who c' = v2_who c"

interpretation sy: step_relation "v2_stays P" for P
  by unfold_locales (auto simp: v2_stays_def em.R_refl intro: em.R_trans)

lemma v2_emits_weaken: "v2_emits P c c' \<Longrightarrow> (\<And>e. P e \<Longrightarrow> Q e) \<Longrightarrow> v2_emits Q c c'"
  unfolding v2_emits_def by (metis list.pred_mono_strong)

lemma v2_stays_weaken: "v2_stays P c c' \<Longrightarrow> (\<And>e. P e \<Longrightarrow> Q e) \<Longrightarrow> v2_stays Q c c'"
  unfolding v2_stays_def using v2_emits_weaken by blast

lemma em_stays: "sy.keeps P m \<Longrightarrow> em.keeps P m"
  by (simp add: sy.keeps_def em.keeps_def v2_stays_def)

lemma sy_modify: "(\<And>c. v2_outbox (f c) = v2_outbox c \<and> v2_who (f c) = v2_who c) \<Longrightarrow> sy.keeps P (modify f)"
  by (intro sy.keeps_modify) (simp add: v2_stays_def v2_emits_def)

lemma sy_emit: "P e \<Longrightarrow> sy.keeps P (v2_emit e)"
  unfolding v2_emit_def by (intro sy.keeps_modify) (simp add: v2_stays_def v2_emits_def v2_who_def)

lemma sy_need: "sy.keeps P (v2_need x)"
  by (cases x) (simp_all add: v2_need_def sy.keeps_prims)

lemmas sy_intros = sy.keeps_intros sy_need sy_modify sy_emit

lemma sy_perform: "P e \<Longrightarrow> sy.keeps P (v2_perform env e)"
  unfolding v2_perform_def by (intro sy_intros)

lemma sy_destroySocket: "sy.keeps idle v2_destroySocket"
  unfolding v2_destroySocket_def by (intro sy_intros) (simp_all add: v2_who_def)

lemma sy_destroy: "sy.keeps idle v2_destroy"
  unfolding v2_destroy_def by (intro sy_intros) (simp_all add: v2_who_def)

lemma sy_closeSocket: "sy.keeps idle v2_closeSocket"
  unfolding v2_closeSocket_def by (intro sy_intros sy_destroySocket sy_destroy)

lemma sy_writeRaw: "idle e \<Longrightarrow> sy.keeps idle (writeRaw env e)"
  unfolding writeRaw_def by (intro sy_intros sy_perform)

lemma sy_sendFrame: "sy.keeps idle (v2_sendFrame env ty data ext)"
  unfolding v2_sendFrame_def by (intro sy_intros sy_writeRaw) (simp_all add: v2_who_def)

lemma sy_sendMessage: "sy.keeps idle (v2_sendMessage env m ext)"
  unfolding v2_sendMessage_def by (intro sy_intros sy_sendFrame)

lemma sy_replies:
  "sy.keeps idle (sendOpenChannelError env i code)" "sy.keeps idle (sendShareError env ch i code)"
  "sy.keeps idle (sendPrevHashMessage env ch j ph t b)" "sy.keeps idle (sendShareSuccess env ch i d)"
  "sy.keeps idle (customJobError env cm code)"
  unfolding sendOpenChannelError_def sendShareError_def sendPrevHashMessage_def sendShareSuccess_def customJobError_def
  by (intro sy_intros sy_sendMessage)+

lemma sy_insertClient: "sy.keeps idle (v2_insertClient env e)"
  unfolding v2_insertClient_def by (intro sy_intros) simp_all

lemma sy_ensureClientEntity: "sy.keeps idle (v2_ensureClientEntity env)"
  unfolding v2_ensureClientEntity_def by (intro sy_intros sy_insertClient) (simp_all add: v2_who_def)

lemma sy_persistClientHashRate: "sy.keeps idle (v2_persistClientHashRate env)"
  unfolding v2_persistClientHashRate_def Let_def by (intro sy_intros sy_perform) (simp_all add: v2_who_def)

lemma sy_ratchetBestDifficulty: "sy.keeps idle (ratchetBestDifficulty env d)"
  unfolding ratchetBestDifficulty_def by (intro sy_intros sy_perform) (simp_all add: v2_who_def)

lemma sy_updChannel: "sy.keeps idle (updChannel i f)"
  unfolding updChannel_def by (intro sy_intros) (simp_all add: v2_who_def)

lemma sy_submitFoundBlock:
  assumes "\<And>e. idle e \<Longrightarrow> P e" "P (V2_SubmitBlock b)"
  shows "sy.keeps P (submitFoundBlock env jt b)"
  unfolding submitFoundBlock_def Let_def
  by (intro sy_intros sy_perform assms(2) assms(1) [OF idle_effects(5)] assms(1) [OF idle_effects(6)]
      assms(1) [OF idle_effects(7)] assms(1) [OF idle_effects(8)])

section \<open>The record of an accepted share\<close>

text \<open>What the record says, for a connection, a judgement, a template and the fields of the submission.\<close>

definition v2_credits ::
    "'c V2Client \<Rightarrow> ShareDifficulty \<Rightarrow> jsnum \<Rightarrow> IJobTemplate \<Rightarrow> ShareFields \<Rightarrow> WorkProtocol \<Rightarrow> bool \<Rightarrow> V2Share \<Rightarrow> bool" where
  "v2_credits c judged credited jt sf work candidate s \<longleftrightarrow>
     vs_address s = addressOf c \<and> vs_clientName s = v2_workerName c \<and> vs_sessionId s = v2_sessionId c
     \<and> vs_payoutMode s = v2_payoutMode c \<and> vs_workProtocol s = work
     \<and> vs_jobId s = sf_jobId sf \<and> vs_nonce s = sf_nonce sf \<and> vs_ntime s = sf_ntime sf
     \<and> vs_version s = sf_version sf \<and> vs_extraNonce2 s = sf_extraNonce2 sf
     \<and> vs_jobTemplateId s = jt_id jt \<and> vs_blockHeight s = jt_height jt
     \<and> vs_creditedDifficulty s = credited \<and> vs_submissionDifficulty s = submissionDifficulty judged
     \<and> vs_isBlockCandidate s = candidate"

definition v2_fits ::
    "'c V2Client \<Rightarrow> ShareDifficulty \<Rightarrow> jsnum \<Rightarrow> IJobTemplate \<Rightarrow> ShareFields \<Rightarrow> WorkProtocol \<Rightarrow> bool \<Rightarrow> Block option \<Rightarrow>
     v2_effect \<Rightarrow> bool" where
  "v2_fits c judged credited jt sf work candidate blk e = (case e of
      V2_RecordShare s \<Rightarrow> v2_credits c judged credited jt sf work candidate s
    | V2_SubmitBlock b \<Rightarrow> blk = Some b
    | _ \<Rightarrow> True)"

lemma idle_fits: "idle e \<Longrightarrow> v2_fits c judged credited jt sf work candidate blk e"
  by (simp add: v2_fits_def idle_def v2_outcome_def split: v2_effect.splits)

definition v2_records :: "v2_effect list \<Rightarrow> V2Share list" where
  "v2_records es = List.map_filter v2_recorded es"

lemma v2_records_simps [simp]:
  "v2_records [] = []" "v2_records (es @ es') = v2_records es @ v2_records es'"
  "v2_records (V2_RecordShare s # es) = s # v2_records es"
  by (simp_all add: v2_records_def map_filter_def v2_recorded_def)

lemma v2_records_none: "list_all (\<lambda>e. v2_recorded e = None) es \<Longrightarrow> v2_records es = []"
  by (induction es) (simp_all add: v2_records_def map_filter_def)

lemma idle_unrecorded: "idle e \<Longrightarrow> v2_recorded e = None"
  by (simp add: idle_def v2_outcome_def v2_recorded_def split: v2_effect.splits)

text \<open>At most one share is recorded, and everything emitted fits.\<close>

definition v2_once :: "(v2_effect \<Rightarrow> bool) \<Rightarrow> 'c V2Client \<Rightarrow> 'c V2Client \<Rightarrow> bool" where
  "v2_once P c c' \<longleftrightarrow> (\<exists>es. v2_outbox c' = v2_outbox c @ es \<and> list_all P es \<and> length (v2_records es) \<le> 1)"

lemma v2_once_quiet:
  assumes "v2_emits P c c'" "\<And>e. P e \<Longrightarrow> v2_recorded e = None \<and> Q e"
  shows "v2_once Q c c'"
proof -
  obtain es where es: "v2_outbox c' = v2_outbox c @ es" "list_all P es" using assms(1) by (auto simp: v2_emits_def)
  then have "v2_records es = []" "list_all Q es"
    using assms(2) by (auto intro!: v2_records_none simp: list_all_iff)
  with es(1) show ?thesis unfolding v2_once_def by (intro exI [of _ es]) simp
qed

lemma v2_once_idle: "v2_emits idle c c' \<Longrightarrow> (\<And>e. idle e \<Longrightarrow> Q e) \<Longrightarrow> v2_once Q c c'"
  by (erule v2_once_quiet) (simp add: idle_unrecorded)

lemma v2_once_before: "v2_emits idle c c1 \<Longrightarrow> v2_once Q c1 c' \<Longrightarrow> (\<And>e. idle e \<Longrightarrow> Q e) \<Longrightarrow> v2_once Q c c'"
proof -
  assume a: "v2_emits idle c c1" "v2_once Q c1 c'" and q: "\<And>e. idle e \<Longrightarrow> Q e"
  obtain es where es: "v2_outbox c1 = v2_outbox c @ es" "list_all idle es" using a(1) by (auto simp: v2_emits_def)
  then have n: "v2_records es = []" "list_all Q es"
    using q idle_unrecorded by (auto intro!: v2_records_none simp: list_all_iff)
  obtain fs where fs: "v2_outbox c' = v2_outbox c1 @ fs" "list_all Q fs" "length (v2_records fs) \<le> 1"
    using a(2) by (auto simp: v2_once_def)
  show ?thesis
    unfolding v2_once_def using es(1) fs n by (intro exI [of _ "es @ fs"]) simp
qed

lemma v2_once_andThen:
  assumes "sy.keeps idle m" "\<And>a c1. m c = (Inr a, c1) \<Longrightarrow> v2_who c1 = v2_who c \<Longrightarrow> v2_once Q c1 (snd (f a c1))"
    and "\<And>e. idle e \<Longrightarrow> Q e"
  shows "v2_once Q c (snd (andThen m f c))"
proof (cases "m c")
  case (Pair r c1)
  then have e: "v2_emits idle c c1" "v2_who c1 = v2_who c" using sy.keepsD [OF assms(1)] by (auto simp: v2_stays_def)
  show ?thesis
  proof (cases r)
    case (Inl x)
    then show ?thesis using v2_once_idle [OF e(1) assms(3)] Pair by simp
  next
    case (Inr a)
    then show ?thesis using v2_once_before [OF e(1) assms(2)] e(2) Pair assms(3) by simp
  qed
qed

definition v2_row ::
    "'c v2_env \<Rightarrow> 'c V2Client \<Rightarrow> jsnum \<Rightarrow> jsnum \<Rightarrow> IJobTemplate \<Rightarrow> Block option \<Rightarrow> ShareFields \<Rightarrow> WorkProtocol \<Rightarrow>
     jsstr option \<Rightarrow> ClientEntity \<Rightarrow> jsstr option \<Rightarrow> V2Share" where
  "v2_row env c shareDifficulty jobDifficulty jt blk sf work candidate entity res =
     \<lparr>vs_protocol = (if work = jdp_work then sv2_jdp else sv2), vs_payoutMode = v2_payoutMode c,
      vs_workSource = (if work = jdp_work then miner_template else pool_template),
      vs_workProtocol = work, vs_address = addressOf c, vs_clientName = v2_workerName c,
      vs_sessionId = v2_sessionId c, vs_clientId = ce_id entity, vs_jobId = sf_jobId sf,
      vs_jobTemplateId = jt_id jt, vs_blockHeight = jt_height jt,
      vs_creditedDifficulty = jobDifficulty, vs_submissionDifficulty = shareDifficulty,
      vs_networkDifficulty = jt_networkDifficulty jt, vs_nonce = sf_nonce sf,
      vs_ntime = sf_ntime sf, vs_version = sf_version sf, vs_extraNonce2 = sf_extraNonce2 sf,
      vs_isBlockCandidate = (blk \<noteq> None \<or> candidate \<noteq> None), vs_blockSubmissionResult = res\<rparr>"

definition v2_afterRecord :: "'c v2_env \<Rightarrow> 'c V2Client \<Rightarrow> jsnum \<Rightarrow> jsnum \<Rightarrow> ('c, unit) v2" where
  "v2_afterRecord env c shareDifficulty jobDifficulty =
     (let now = env_now (ve_pool env); st = addShares now now jobDifficulty (v2_statistics c)
      in andThen (modify (\<lambda>c. c\<lparr>v2_statistics := st,
             v2_clientEntity := map_option (\<lambda>e. e\<lparr>ce_updatedAt := now, ce_hashRate := st_hashRate st\<rparr>)
               (v2_clientEntity c)\<rparr>)) (\<lambda>_.
         andThen (v2_persistClientHashRate env) (\<lambda>_.
           ratchetBestDifficulty env shareDifficulty)))"

lemma sy_afterRecord: "sy.keeps idle (v2_afterRecord env c d j)"
  unfolding v2_afterRecord_def Let_def
  by (intro sy_intros sy_persistClientHashRate sy_ratchetBestDifficulty) (simp_all add: v2_who_def)

text \<open>The statements before the record, and the record itself with what follows it.\<close>

definition v2_beforeRecord :: "'c v2_env \<Rightarrow> IJobTemplate \<Rightarrow> Block option \<Rightarrow> jsstr option \<Rightarrow> ('c, jsstr option) v2" where
  "v2_beforeRecord env jt blk candidate =
     andThen (v2_ensureClientEntity env) (\<lambda>_.
       case blk of None \<Rightarrow> ret candidate | Some block \<Rightarrow> submitFoundBlock env jt block)"

lemma recordAcceptedShare_split:
  "recordAcceptedShare env d j jt blk sf work candidate =
     andThen (v2_beforeRecord env jt blk candidate) (\<lambda>res.
     andThen (readState id) (\<lambda>c.
     andThen (v2_need (v2_clientEntity c)) (\<lambda>entity.
     andThen (v2_perform env (V2_RecordShare (v2_row env c d j jt blk sf work candidate entity res))) (\<lambda>_.
       v2_afterRecord env c d j))))"
  by (simp add: recordAcceptedShare_def v2_beforeRecord_def v2_afterRecord_def v2_row_def andThen_assoc)

lemma v2_row_credits:
  "v2_who c1 = v2_who c \<Longrightarrow> v2_credits c judged j jt sf work (blk \<noteq> None \<or> candidate \<noteq> None)
     (v2_row env c1 (submissionDifficulty judged) j jt blk sf work candidate entity res)"
  by (auto simp: v2_credits_def v2_row_def v2_who_def addressOf_def)

lemma sy_beforeRecord:
  assumes "\<And>e. idle e \<Longrightarrow> P e" "\<And>b. blk = Some b \<Longrightarrow> P (V2_SubmitBlock b)"
  shows "sy.keeps P (v2_beforeRecord env jt blk candidate)"
proof -
  have "sy.keeps P (v2_ensureClientEntity env)"
    using sy_ensureClientEntity [of env] assms(1) v2_stays_weaken unfolding sy.keeps_def by blast
  then show ?thesis
    unfolding v2_beforeRecord_def by (intro sy_intros sy_submitFoundBlock assms) simp_all
qed

lemma v2_emits_row:
  assumes "v2_emits (\<lambda>e. v2_recorded e = None \<and> Q e) c c1" "Q (V2_RecordShare s)" "\<And>e. idle e \<Longrightarrow> Q e"
    and "\<And>c. v2_emits idle c (snd (k c))"
  shows "v2_once Q c (snd (andThen (v2_perform env (V2_RecordShare s)) (\<lambda>_. k) c1))"
proof -
  obtain es where es: "v2_outbox c1 = v2_outbox c @ es" "list_all (\<lambda>e. v2_recorded e = None \<and> Q e) es"
    using assms(1) by (auto simp: v2_emits_def)
  then have n: "v2_records es = []" "list_all Q es"
    by (auto intro!: v2_records_none simp: list_all_iff)
  let ?c = "c1\<lparr>v2_outbox := v2_outbox c1 @ [V2_RecordShare s]\<rparr>"
  obtain fs where fs: "v2_outbox (snd (k ?c)) = v2_outbox ?c @ fs" "list_all idle fs"
    using assms(4) [of ?c] by (auto simp: v2_emits_def)
  then have m: "v2_records fs = []" "list_all Q fs"
    using assms(3) idle_unrecorded by (auto intro!: v2_records_none simp: list_all_iff)
  show ?thesis
  proof (cases "ve_fails env (V2_RecordShare s)")
    case True
    then show ?thesis
      unfolding v2_once_def using es(1) n assms(2)
      by (intro exI [of _ "es @ [V2_RecordShare s]"]) (simp add: v2_perform_def v2_emit_def andThen_def)
  next
    case False
    then show ?thesis
      unfolding v2_once_def using es(1) n m fs assms(2)
      by (intro exI [of _ "es @ V2_RecordShare s # fs"]) (simp add: v2_perform_def v2_emit_def andThen_def)
  qed
qed

lemma recordAcceptedShare_once:
  "v2_once (v2_fits c judged j jt sf work (blk \<noteq> None \<or> candidate \<noteq> None) blk) c
     (snd (recordAcceptedShare env (submissionDifficulty judged) j jt blk sf work candidate c))"
proof -
  let ?Q = "v2_fits c judged j jt sf work (blk \<noteq> None \<or> candidate \<noteq> None) blk"
  let ?P = "\<lambda>e. v2_recorded e = None \<and> ?Q e"
  obtain r c1 where before: "v2_beforeRecord env jt blk candidate c = (r, c1)" by (meson surj_pair)
  have "sy.keeps ?P (v2_beforeRecord env jt blk candidate)"
    by (intro sy_beforeRecord) (simp_all add: idle_fits idle_unrecorded, simp_all add: v2_fits_def v2_recorded_def)
  from sy.keepsD [OF this before] have st: "v2_emits ?P c c1" "v2_who c1 = v2_who c"
    by (simp_all add: v2_stays_def)
  have stop: "v2_once ?Q c c1" by (rule v2_once_quiet [OF st(1)])
  show ?thesis
  proof (cases r)
    case (Inl e)
    then show ?thesis using before stop by (simp add: recordAcceptedShare_split)
  next
    case (Inr res)
    show ?thesis
    proof (cases "v2_clientEntity c1")
      case None
      then show ?thesis using before stop Inr by (simp add: recordAcceptedShare_split v2_need_def)
    next
      case (Some entity)
      have after: "v2_emits idle d (snd (v2_afterRecord env c1 (submissionDifficulty judged) j d))" for d
        by (rule em_stays [OF sy_afterRecord, unfolded em.keeps_def, rule_format])
      have fit: "?Q (V2_RecordShare (v2_row env c1 (submissionDifficulty judged) j jt blk sf work candidate entity res))"
        using v2_row_credits [OF st(2), of judged j jt sf work blk candidate env entity res] by (simp add: v2_fits_def)
      have "v2_once ?Q c (snd (andThen (v2_perform env (V2_RecordShare
          (v2_row env c1 (submissionDifficulty judged) j jt blk sf work candidate entity res)))
          (\<lambda>_. v2_afterRecord env c1 (submissionDifficulty judged) j) c1))"
        by (rule v2_emits_row [OF st(1) fit idle_fits after])
      then show ?thesis using before Inr Some by (simp add: recordAcceptedShare_split v2_need_def)
    qed
  qed
qed

section \<open>Work that is judged good\<close>

text \<open>
  A standard submission: its channel does not know it yet, the jobs service has its job and template, and
  the header with the merkle root that was sent to the channel meets the target of the difficulty that the
  job was sent with.
\<close>

definition standardFields :: "Sv2SubmitSharesStandard \<Rightarrow> MiningJob \<Rightarrow> ShareFields" where
  "standardFields m job = \<lparr>sf_jobId = job_jobId job, sf_nonce = submitSharesStandard_nonce m,
     sf_ntime = submitSharesStandard_ntime m, sf_version = submitSharesStandard_version m,
     sf_extraNonce2 = FIXED_STANDARD_EXTRANONCE2\<rparr>"

definition goodStandard ::
    "'c v2_env \<Rightarrow> 'c V2Client \<Rightarrow> Sv2SubmitSharesStandard \<Rightarrow> ChannelState \<Rightarrow> MiningJob \<Rightarrow> IJobTemplate \<Rightarrow> bytes \<Rightarrow> bool" where
  "goodStandard env c m channel job jt headerBuffer \<longleftrightarrow>
     map_of (v2_channels c) (submitSharesStandard_channelId m) = Some channel
     \<and> standardKey m \<notin> ch_miningSubmissionHashes channel
     \<and> getJobById (v2_jobsService c) (intToString16 (submitSharesStandard_jobId m)) = Some job
     \<and> getJobTemplateById (v2_jobsService c) (job_jobTemplateId job) = Some jt
     \<and> (\<exists>sentMerkleRoot. map_of (ch_jobIdToMerkleRoot channel) (submitSharesStandard_jobId m) = Some sentMerkleRoot
          \<and> v2_buildHeader (jt_block jt) sentMerkleRoot (submitSharesStandard_version m)
              (submitSharesStandard_ntime m) (submitSharesStandard_nonce m) = Inr headerBuffer)
     \<and> (\<exists>target. difficultyToTarget (jobDifficultyOf channel (submitSharesStandard_jobId m)) = Inr target
          \<and> meetsTarget (hash256 (env_sha256 (ve_pool env)) headerBuffer) target)"

definition earnedStandard :: "'c v2_env \<Rightarrow> 'c V2Client \<Rightarrow> Sv2SubmitSharesStandard \<Rightarrow> v2_effect \<Rightarrow> bool" where
  "earnedStandard env c m e \<longleftrightarrow> (\<exists>channel job jt headerBuffer solves.
     goodStandard env c m channel job jt headerBuffer
     \<and> meetsNetworkTarget jt (hash256 (env_sha256 (ve_pool env)) headerBuffer) = Inr solves
     \<and> (case e of
          V2_RecordShare s \<Rightarrow> v2_credits c (calculateDifficulty (env_sha256 (ve_pool env)) headerBuffer)
            (jobDifficultyOf channel (submitSharesStandard_jobId m)) jt (standardFields m job) pool_work solves s
        | V2_SubmitBlock b \<Rightarrow> solves
            \<and> copyAndUpdateBlock (env_lib (ve_pool env)) (env_sha256 (ve_pool env)) job jt
                (Num (of_int (js_xor (submitSharesStandard_version m) (blk_version (jt_block jt)))))
                (Num (of_int (submitSharesStandard_nonce m))) (hexEncode (ch_extranoncePrefix channel))
                FIXED_STANDARD_EXTRANONCE2 (Num (of_int (submitSharesStandard_ntime m))) = Inr b
        | _ \<Rightarrow> True))"

text \<open>
  An extended submission: its channel does not know it yet and holds the job, not retired; the extranonce
  has the size of the channel; the merkle root follows from the coinbase it completes.
\<close>

definition extendedFields :: "Sv2SubmitSharesExtended \<Rightarrow> ShareFields" where
  "extendedFields m = \<lparr>sf_jobId = intToString16 (submitSharesExtended_jobId m), sf_nonce = submitSharesExtended_nonce m,
     sf_ntime = submitSharesExtended_ntime m, sf_version = submitSharesExtended_version m,
     sf_extraNonce2 = hexEncode (submitSharesExtended_extranonce m)\<rparr>"

definition goodExtended ::
    "'c v2_env \<Rightarrow> 'c V2Client \<Rightarrow> Sv2SubmitSharesExtended \<Rightarrow> ChannelState \<Rightarrow> ExtendedJobData \<Rightarrow> bytes \<Rightarrow> bytes \<Rightarrow> bool" where
  "goodExtended env c m channel job merkleRoot headerBuffer \<longleftrightarrow>
     map_of (v2_channels c) (submitSharesExtended_channelId m) = Some channel \<and> isExtended channel
     \<and> extendedKey m \<notin> ch_miningSubmissionHashes channel
     \<and> map_of (ch_extendedJobs channel) (submitSharesExtended_jobId m) = Some job \<and> xj_retiredAt job = None
     \<and> int (length (submitSharesExtended_extranonce m)) = ch_extranonceSize channel
     \<and> extendedMerkleRoot (env_sha256 (ve_pool env)) job (ch_extranoncePrefix channel)
         (submitSharesExtended_extranonce m) = Inr merkleRoot
     \<and> v2_buildHeader (headerBlock job) merkleRoot (submitSharesExtended_version m)
         (submitSharesExtended_ntime m) (submitSharesExtended_nonce m) = Inr headerBuffer
     \<and> (\<exists>target. difficultyToTarget (jobDifficultyOf channel (submitSharesExtended_jobId m)) = Inr target
          \<and> meetsTarget (hash256 (env_sha256 (ve_pool env)) headerBuffer) target)"

definition earnedExtended :: "'c v2_env \<Rightarrow> 'c V2Client \<Rightarrow> Sv2SubmitSharesExtended \<Rightarrow> v2_effect \<Rightarrow> bool" where
  "earnedExtended env c m e \<longleftrightarrow> (\<exists>channel job merkleRoot headerBuffer solves.
     goodExtended env c m channel job merkleRoot headerBuffer
     \<and> meetsNetworkTarget (xj_jobTemplate job) (hash256 (env_sha256 (ve_pool env)) headerBuffer) = Inr solves
     \<and> (case e of
          V2_RecordShare s \<Rightarrow> v2_credits c (calculateDifficulty (env_sha256 (ve_pool env)) headerBuffer)
            (jobDifficultyOf channel (submitSharesExtended_jobId m)) (xj_jobTemplate job) (extendedFields m)
            (case xj_workProtocol job of None \<Rightarrow> pool_work | Some w \<Rightarrow> w) solves s
        | V2_SubmitBlock b \<Rightarrow> solves \<and> xj_workProtocol job \<noteq> Some jdp_work
            \<and> reconstructExtendedBlock env job m merkleRoot (ch_extranoncePrefix channel) = Inr b
        | _ \<Rightarrow> True))"

text \<open>What a frame earns: nothing unless it is a submission.\<close>

definition v2_earned :: "'c v2_env \<Rightarrow> 'c V2Client \<Rightarrow> int \<Rightarrow> bytes \<Rightarrow> v2_effect \<Rightarrow> bool" where
  "v2_earned env c ty body e \<longleftrightarrow> idle e
     \<or> ty = 0x1a \<and> (\<exists>m r. deserializeSubmitSharesStandard (newReader body) = Inr (m, r) \<and> earnedStandard env c m e)
     \<or> ty = 0x1b \<and> (\<exists>m r. deserializeSubmitSharesExtended (newReader body) = Inr (m, r) \<and> earnedExtended env c m e)"

lemma v2_once_weaken: "v2_once P c c' \<Longrightarrow> (\<And>e. P e \<Longrightarrow> Q e) \<Longrightarrow> v2_once Q c c'"
  unfolding v2_once_def by (metis list.pred_mono_strong)

lemma v2_once_keeps: "sy.keeps idle m \<Longrightarrow> (\<And>e. idle e \<Longrightarrow> Q e) \<Longrightarrow> v2_once Q c (snd (m c))"
  by (rule v2_once_idle) (auto simp: sy.keeps_def v2_stays_def)

definition v2_allows :: "(v2_effect \<Rightarrow> bool) \<Rightarrow> v2_effect \<Rightarrow> bool" where
  "v2_allows X e \<longleftrightarrow> idle e \<or> X e"

lemma idle_allowed: "idle e \<Longrightarrow> v2_allows X e"
  by (simp add: v2_allows_def)

lemma once_keeps: "sy.keeps idle m \<Longrightarrow> v2_once (v2_allows X) c (snd (m c))"
  by (rule v2_once_keeps [OF _ idle_allowed])

lemma once_andThen:
  "sy.keeps idle m \<Longrightarrow> (\<And>a c1. m c = (Inr a, c1) \<Longrightarrow> v2_who c1 = v2_who c \<Longrightarrow> v2_once (v2_allows X) c1 (snd (f a c1)))
     \<Longrightarrow> v2_once (v2_allows X) c (snd (andThen m f c))"
  by (rule v2_once_andThen [OF _ _ idle_allowed])

lemma v2_once_refl: "v2_once Q c c"
  by (auto simp: v2_once_def)

lemma v2_fits_who: "v2_who c1 = v2_who c \<Longrightarrow> v2_fits c1 = v2_fits c"
  by (intro ext) (simp add: v2_fits_def v2_credits_def v2_who_def addressOf_def split: v2_effect.split)

lemma handleAcceptedShare_once:
  assumes good: "goodStandard env c m channel job jt headerBuffer" and who: "v2_who c1 = v2_who c"
    and judged: "judged = calculateDifficulty (env_sha256 (ve_pool env)) headerBuffer"
  shows "v2_once (v2_allows (earnedStandard env c m)) c1
    (snd (handleAcceptedShare env m (ch_extranoncePrefix channel) job jt judged
       (jobDifficultyOf channel (submitSharesStandard_jobId m)) c1))"
proof -
  let ?h = "hash256 (env_sha256 (ve_pool env)) headerBuffer"
  let ?j = "jobDifficultyOf channel (submitSharesStandard_jobId m)"
  let ?copy = "copyAndUpdateBlock (env_lib (ve_pool env)) (env_sha256 (ve_pool env)) job jt
           (Num (of_int (js_xor (submitSharesStandard_version m) (blk_version (jt_block jt)))))
           (Num (of_int (submitSharesStandard_nonce m))) (hexEncode (ch_extranoncePrefix channel)) FIXED_STANDARD_EXTRANONCE2
           (Num (of_int (submitSharesStandard_ntime m)))"
  have h: "hashBuffer judged = ?h" by (simp add: judged calculateDifficulty_def Let_def)
  show ?thesis
  proof (cases "meetsNetworkTarget jt ?h")
    case (Inl e)
    then show ?thesis by (simp add: handleAcceptedShare_def h v2_once_refl)
  next
    case (Inr solves)
    have fit: "v2_allows (earnedStandard env c m) e"
      if "v2_fits c1 judged ?j jt (standardFields m job) pool_work solves blk e"
        "\<And>b. blk = Some b \<Longrightarrow> solves \<and> ?copy = Inr b" for e blk
    proof (cases "idle e")
      case False
      then show ?thesis
        using that good Inr unfolding v2_allows_def earnedStandard_def v2_fits_who [OF who] judged
        by (intro disjI2 exI [of _ channel] exI [of _ job] exI [of _ jt] exI [of _ headerBuffer] exI [of _ solves])
          (auto simp: v2_fits_def idle_def v2_outcome_def split: v2_effect.splits)
    qed (rule idle_allowed)
    have rec: "v2_once (v2_allows (earnedStandard env c m)) c1
        (snd (recordAcceptedShare env (submissionDifficulty judged) ?j jt blk (standardFields m job) pool_work None c1))"
      if "(blk \<noteq> None) = solves" "\<And>b. blk = Some b \<Longrightarrow> solves \<and> ?copy = Inr b" for blk
      using v2_once_weaken [OF recordAcceptedShare_once [of c1 judged ?j jt "standardFields m job" pool_work blk None env]]
        fit [OF _ that(2)] that(1) by simp
    show ?thesis
    proof (cases solves)
      case True
      show ?thesis
      proof (cases ?copy)
        case (Inr b)
        then show ?thesis
          using rec [of "Some b"] h True \<open>meetsNetworkTarget jt ?h = Inr solves\<close>
          by (simp add: handleAcceptedShare_def standardFields_def)
      qed (simp add: handleAcceptedShare_def v2_once_refl h True Inr)
    next
      case False
      then show ?thesis using rec [of None] h Inr by (simp add: handleAcceptedShare_def standardFields_def)
    qed
  qed
qed

lemma judgeStandard_once:
  assumes "v2_who c1 = v2_who c" "map_of (v2_channels c) (submitSharesStandard_channelId m) = Some channel"
    and "standardKey m \<notin> ch_miningSubmissionHashes channel"
    and "getJobById (v2_jobsService c) (intToString16 (submitSharesStandard_jobId m)) = Some job"
    and "getJobTemplateById (v2_jobsService c) (job_jobTemplateId job) = Some jt"
    and "map_of (ch_jobIdToMerkleRoot channel) (submitSharesStandard_jobId m) = Some sentMerkleRoot"
  shows "v2_once (v2_allows (earnedStandard env c m)) c1 (snd (judgeStandard env m channel job jt sentMerkleRoot c1))"
proof (cases "v2_buildHeader (jt_block jt) sentMerkleRoot (submitSharesStandard_version m)
        (submitSharesStandard_ntime m) (submitSharesStandard_nonce m)")
  case (Inl e)
  then show ?thesis by (simp add: judgeStandard_def v2_once_refl)
next
  case hdr: (Inr headerBuffer)
  let ?judged = "calculateDifficulty (env_sha256 (ve_pool env)) headerBuffer"
  let ?j = "jobDifficultyOf channel (submitSharesStandard_jobId m)"
  have h: "hashBuffer ?judged = hash256 (env_sha256 (ve_pool env)) headerBuffer"
    by (simp add: calculateDifficulty_def Let_def)
  show ?thesis
  proof (cases "difficultyToTarget ?j")
    case (Inl e)
    then show ?thesis by (simp add: judgeStandard_def hdr v2_once_refl Let_def)
  next
    case (Inr target)
    show ?thesis
    proof (cases "meetsTarget (hashBuffer ?judged) target")
      case False
      then show ?thesis
        using once_keeps [OF sy_replies(2)] by (simp add: judgeStandard_def hdr Inr Let_def)
    next
      case True
      have good: "goodStandard env c m channel job jt headerBuffer"
        using assms(2-6) hdr Inr True by (simp add: goodStandard_def h)
      have "v2_once (v2_allows (earnedStandard env c m)) c1
         (snd (andThen (sendShareSuccess env (submitSharesStandard_channelId m) (submitSharesStandard_sequenceNumber m) ?j) (\<lambda>_.
           andThen (updChannel (submitSharesStandard_channelId m)
              (\<lambda>ch. ch\<lparr>ch_acceptedShareCount := ch_acceptedShareCount ch + 1\<rparr>)) (\<lambda>_.
             handleAcceptedShare env m (ch_extranoncePrefix channel) job jt ?judged ?j)) c1))"
        by (intro once_andThen sy_replies sy_updChannel handleAcceptedShare_once [OF good _ refl])
          (simp_all add: assms(1))
      then show ?thesis using True by (simp add: judgeStandard_def hdr Inr Let_def)
    qed
  qed
qed

lemma handleSubmitSharesStandard_once:
  "v2_once (v2_allows (v2_earned env c 0x1a body)) c (snd (handleSubmitSharesStandard env body c))"
proof (cases "deserializeSubmitSharesStandard (newReader body)")
  case (Inl e)
  then show ?thesis by (simp add: handleSubmitSharesStandard_def parsed_def v2_once_refl Let_def)
next
  case (Inr p)
  obtain m r where p: "p = (m, r)" by (cases p)
  have own: "v2_allows (v2_earned env c 0x1a body) e" if "v2_allows (earnedStandard env c m) e" for e
    using that Inr p by (auto simp: v2_allows_def v2_earned_def)
  let ?i = "submitSharesStandard_channelId m"
  let ?refuse = "sendShareError env ?i (submitSharesStandard_sequenceNumber m)"
  show ?thesis
  proof (cases "map_of (v2_channels c) ?i")
    case None
    then show ?thesis
      using once_keeps [OF sy_replies(2)] Inr p by (simp add: handleSubmitSharesStandard_def parsed_def Let_def)
  next
    case ch: (Some channel)
    show ?thesis
    proof (cases "standardKey m \<in> ch_miningSubmissionHashes channel")
      case True
      then show ?thesis
        using once_keeps [OF sy_replies(2)] Inr p ch by (simp add: handleSubmitSharesStandard_def parsed_def Let_def)
    next
      case False
      have "v2_once (v2_allows (earnedStandard env c m)) c
        (snd (andThen (updChannel ?i (rememberSubmission (standardKey m))) (\<lambda>_.
               case (getJobById (v2_jobsService c) (intToString16 (submitSharesStandard_jobId m)),
                     map_of (ch_jobIdToMerkleRoot channel) (submitSharesStandard_jobId m)) of
                 (Some job, Some sentMerkleRoot) \<Rightarrow>
                   (case getJobTemplateById (v2_jobsService c) (job_jobTemplateId job) of
                      None \<Rightarrow> ?refuse ''invalid-job-id''
                    | Some jobTemplate \<Rightarrow> judgeStandard env m channel job jobTemplate sentMerkleRoot)
               | _ \<Rightarrow> ?refuse ''invalid-job-id'') c))"
        using once_keeps [OF sy_replies(2)] ch False
        by (intro once_andThen sy_updChannel) (auto intro: judgeStandard_once split: option.split)
      from v2_once_weaken [OF this own] show ?thesis
        using Inr p ch False by (simp add: handleSubmitSharesStandard_def parsed_def Let_def cong: option.case_cong)
    qed
  qed
qed

lemma creditExtended_once:
  assumes good: "goodExtended env c m channel job merkleRoot headerBuffer" and who: "v2_who c1 = v2_who c"
    and judged: "judged = calculateDifficulty (env_sha256 (ve_pool env)) headerBuffer"
  shows "v2_once (v2_allows (earnedExtended env c m)) c1
    (snd (creditExtended env m channel job merkleRoot judged (jobDifficultyOf channel (submitSharesExtended_jobId m)) c1))"
proof -
  let ?jt = "xj_jobTemplate job"
  let ?h = "hash256 (env_sha256 (ve_pool env)) headerBuffer"
  let ?j = "jobDifficultyOf channel (submitSharesExtended_jobId m)"
  let ?work = "case xj_workProtocol job of None \<Rightarrow> pool_work | Some w \<Rightarrow> w"
  let ?block = "reconstructExtendedBlock env job m merkleRoot (ch_extranoncePrefix channel)"
  have h: "hashBuffer judged = ?h" by (simp add: judged calculateDifficulty_def Let_def)
  show ?thesis
  proof (cases "meetsNetworkTarget ?jt ?h")
    case (Inl e)
    then show ?thesis by (simp add: creditExtended_def h v2_once_refl)
  next
    case net: (Inr solves)
    let ?builds = "solves \<and> xj_workProtocol job \<noteq> Some jdp_work"
    let ?cand = "if solves \<and> xj_workProtocol job = Some jdp_work
          then Some (jstr ''sv2-jdp-client-submit-expected'') else None"
    have fit: "v2_allows (earnedExtended env c m) e"
      if "v2_fits c1 judged ?j ?jt (extendedFields m) ?work solves blk e" "\<And>b. blk = Some b \<Longrightarrow> ?builds \<and> ?block = Inr b"
      for e blk
    proof (cases "idle e")
      case False
      then show ?thesis
        using that good net unfolding v2_allows_def earnedExtended_def v2_fits_who [OF who] judged
        by (intro disjI2 exI [of _ channel] exI [of _ job] exI [of _ merkleRoot] exI [of _ headerBuffer] exI [of _ solves])
          (auto simp: v2_fits_def idle_def v2_outcome_def split: v2_effect.splits)
    qed (rule idle_allowed)
    have rec: "v2_once (v2_allows (earnedExtended env c m)) c1
        (snd (recordAcceptedShare env (submissionDifficulty judged) ?j ?jt blk (extendedFields m) ?work ?cand c1))"
      if "(blk \<noteq> None) = ?builds" "\<And>b. blk = Some b \<Longrightarrow> ?block = Inr b" for blk
    proof -
      have "(blk \<noteq> None \<or> ?cand \<noteq> None) = solves" using that(1) by auto
      then show ?thesis
        using v2_once_weaken [OF recordAcceptedShare_once [of c1 judged ?j ?jt "extendedFields m" ?work blk ?cand env]]
          fit [of blk] that by auto
    qed
    show ?thesis
    proof (cases ?builds)
      case True
      show ?thesis
      proof (cases ?block)
        case (Inr b)
        then show ?thesis
          using rec [of "Some b"] h True net by (simp add: creditExtended_def extendedFields_def)
      qed (use True net in \<open>simp add: creditExtended_def v2_once_refl h\<close>)
    next
      case False
      then show ?thesis using rec [of None] h net by (auto simp: creditExtended_def extendedFields_def)
    qed
  qed
qed

lemma judgeExtended_once:
  assumes "v2_who c1 = v2_who c" "map_of (v2_channels c) (submitSharesExtended_channelId m) = Some channel"
    and "isExtended channel" "extendedKey m \<notin> ch_miningSubmissionHashes channel"
    and "map_of (ch_extendedJobs channel) (submitSharesExtended_jobId m) = Some job" "xj_retiredAt job = None"
    and "int (length (submitSharesExtended_extranonce m)) = ch_extranonceSize channel"
  shows "v2_once (v2_allows (earnedExtended env c m)) c1 (snd (judgeExtended env m channel job c1))"
proof (cases "extendedMerkleRoot (env_sha256 (ve_pool env)) job (ch_extranoncePrefix channel)
        (submitSharesExtended_extranonce m)")
  case (Inl e)
  then show ?thesis by (simp add: judgeExtended_def v2_once_refl)
next
  case root: (Inr merkleRoot)
  show ?thesis
  proof (cases "v2_buildHeader (headerBlock job) merkleRoot (submitSharesExtended_version m)
        (submitSharesExtended_ntime m) (submitSharesExtended_nonce m)")
    case (Inl e)
    then show ?thesis by (simp add: judgeExtended_def root v2_once_refl)
  next
    case hdr: (Inr headerBuffer)
    let ?judged = "calculateDifficulty (env_sha256 (ve_pool env)) headerBuffer"
    let ?j = "jobDifficultyOf channel (submitSharesExtended_jobId m)"
    have h: "hashBuffer ?judged = hash256 (env_sha256 (ve_pool env)) headerBuffer"
      by (simp add: calculateDifficulty_def Let_def)
    show ?thesis
    proof (cases "difficultyToTarget ?j")
      case (Inl e)
      then show ?thesis by (simp add: judgeExtended_def root hdr v2_once_refl Let_def)
    next
      case (Inr target)
      show ?thesis
      proof (cases "meetsTarget (hashBuffer ?judged) target")
        case False
        then show ?thesis
          using once_keeps [OF sy_replies(2)] by (simp add: judgeExtended_def root hdr Inr Let_def)
      next
        case True
        have good: "goodExtended env c m channel job merkleRoot headerBuffer"
          using assms(2-7) root hdr Inr True by (simp add: goodExtended_def h)
        have "v2_once (v2_allows (earnedExtended env c m)) c1
           (snd (andThen (sendShareSuccess env (submitSharesExtended_channelId m) (submitSharesExtended_sequenceNumber m) ?j) (\<lambda>_.
             andThen (updChannel (submitSharesExtended_channelId m)
                (\<lambda>ch. ch\<lparr>ch_acceptedShareCount := ch_acceptedShareCount ch + 1\<rparr>)) (\<lambda>_.
               creditExtended env m channel job merkleRoot ?judged ?j)) c1))"
          by (intro once_andThen sy_replies sy_updChannel creditExtended_once [OF good _ refl])
            (simp_all add: assms(1))
        then show ?thesis using True by (simp add: judgeExtended_def root hdr Inr Let_def)
      qed
    qed
  qed
qed

lemma handleSubmitSharesExtended_once:
  "v2_once (v2_allows (v2_earned env c 0x1b body)) c (snd (handleSubmitSharesExtended env body c))"
proof (cases "deserializeSubmitSharesExtended (newReader body)")
  case (Inl e)
  then show ?thesis by (simp add: handleSubmitSharesExtended_def parsed_def v2_once_refl)
next
  case (Inr p)
  obtain m r where p: "p = (m, r)" by (cases p)
  have own: "v2_allows (v2_earned env c 0x1b body) e" if "v2_allows (earnedExtended env c m) e" for e
    using that Inr p by (auto simp: v2_allows_def v2_earned_def)
  let ?i = "submitSharesExtended_channelId m"
  let ?refuse = "sendShareError env ?i (submitSharesExtended_sequenceNumber m)"
  note refused = once_keeps [OF sy_replies(2)]
  show ?thesis
  proof (cases "map_of (v2_channels c) ?i")
    case None
    then show ?thesis using refused Inr p by (simp add: handleSubmitSharesExtended_def parsed_def Let_def)
  next
    case ch: (Some channel)
    show ?thesis
    proof (cases "isExtended channel \<and> extendedKey m \<notin> ch_miningSubmissionHashes channel")
      case False
      then show ?thesis
        using refused Inr p ch by (auto simp: handleSubmitSharesExtended_def parsed_def Let_def)
    next
      case True
      have "v2_once (v2_allows (earnedExtended env c m)) c
        (snd (andThen (updChannel ?i (rememberSubmission (extendedKey m))) (\<lambda>_.
               case map_of (ch_extendedJobs channel) (submitSharesExtended_jobId m) of
                 None \<Rightarrow> ?refuse ''invalid-job-id''
               | Some job \<Rightarrow>
                   if xj_retiredAt job \<noteq> None then ?refuse ''stale-share''
                   else if int (length (submitSharesExtended_extranonce m)) \<noteq> ch_extranonceSize channel
                   then ?refuse ''invalid-extranonce-size''
                   else judgeExtended env m channel job) c))"
        using refused ch True
        by (intro once_andThen sy_updChannel) (auto intro: judgeExtended_once split: option.split)
      from v2_once_weaken [OF this own] show ?thesis
        using Inr p ch True by (simp add: handleSubmitSharesExtended_def parsed_def Let_def)
    qed
  qed
qed

section \<open>Frames that are no submissions\<close>

lemma em_parsed: "em.keeps P (parsed rd body)"
  unfolding parsed_def by (rule em.keeps_prims)

lemma em_withChannel: "(\<And>ch. em.keeps P (f ch)) \<Longrightarrow> em.keeps P (withChannel i f)"
  unfolding withChannel_def by (intro em_intros)

lemma em_forChannels: "(\<And>i. em.keeps P (f i)) \<Longrightarrow> em.keeps P (forChannels f)"
  unfolding forChannels_def by (intro em_intros)

lemmas em_stays_intros = em_stays [OF sy_sendMessage] em_stays [OF sy_sendFrame] em_stays [OF sy_closeSocket]
  em_stays [OF sy_updChannel] em_stays [OF sy_ensureClientEntity] em_stays [OF sy_replies(1)]
  em_stays [OF sy_replies(2)] em_stays [OF sy_replies(3)] em_stays [OF sy_replies(5)] em_stays [OF sy_writeRaw]

lemmas idle_intros = em_intros em_parsed em_withChannel em_forChannels em_stays_intros em_emit

lemma em_issueJob: "em.keeps P (issueJob env t)"
  unfolding issueJob_def by (intro em_intros) simp_all

lemma em_sendNewMiningJob: "em.keeps idle (v2_sendNewMiningJob env i t b)"
  unfolding v2_sendNewMiningJob_def by (intro idle_intros em_issueJob)

lemma em_sendNewExtendedMiningJob: "em.keeps idle (sendNewExtendedMiningJob env i t b)"
  unfolding sendNewExtendedMiningJob_def Let_def by (intro idle_intros em_issueJob)

lemma em_sendJobTo: "em.keeps idle (sendJobTo env t b i)"
  unfolding sendJobTo_def by (intro idle_intros em_sendNewMiningJob em_sendNewExtendedMiningJob)

lemma em_sendSetTarget: "em.keeps idle (sendSetTarget env i)"
  unfolding sendSetTarget_def by (intro idle_intros)

lemma em_orClose: "em.keeps idle m \<Longrightarrow> em.keeps idle (orClose m)"
  unfolding orClose_def by (intro idle_intros)

lemma em_onNewMiningJob: "em.keeps idle (v2_onNewMiningJob env t)"
  unfolding v2_onNewMiningJob_def by (intro idle_intros em_orClose em_sendJobTo) simp_all

lemma em_awaitTemplate: "em.keeps P (awaitTemplate env)"
  unfolding awaitTemplate_def by (intro em_intros)

lemma em_subscribeToJobs: "em.keeps idle (subscribeToJobs env)"
  unfolding subscribeToJobs_def by (intro idle_intros em_onNewMiningJob) simp_all

lemma em_startWork: "(\<And>t. em.keeps idle (f t)) \<Longrightarrow> em.keeps idle (startWork env b f)"
  unfolding startWork_def startDifficultyTimer_def
  by (intro idle_intros em_awaitTemplate em_subscribeToJobs) simp_all

lemma em_sendSetupError: "em.keeps idle (sendSetupError env flag code)"
  unfolding sendSetupError_def by (intro idle_intros)

lemma em_handleSetupConnection: "em.keeps idle (handleSetupConnection env body)"
  unfolding handleSetupConnection_def Let_def by (intro idle_intros em_sendSetupError) simp_all

lemma em_admitChannel: "(\<And>b. em.keeps idle (f b)) \<Longrightarrow> em.keeps idle (admitChannel env i u t f)"
  unfolding admitChannel_def by (intro idle_intros) simp_all

lemma em_registerChannel: "em.keeps idle (registerChannel env ch)"
  unfolding registerChannel_def by (intro idle_intros) simp_all

lemma em_takeChannelId: "em.keeps P takeChannelId"
  unfolding takeChannelId_def by (intro em_intros) simp_all

lemma em_handleOpenStandardMiningChannel: "em.keeps idle (handleOpenStandardMiningChannel env body)"
  unfolding handleOpenStandardMiningChannel_def Let_def
  by (intro idle_intros em_admitChannel em_registerChannel em_startWork em_sendNewMiningJob em_takeChannelId)

lemma em_handleOpenExtendedMiningChannel: "em.keeps idle (handleOpenExtendedMiningChannel env body)"
  unfolding handleOpenExtendedMiningChannel_def Let_def
  by (intro idle_intros em_admitChannel em_registerChannel em_startWork em_sendNewExtendedMiningJob em_takeChannelId)
    simp_all

lemma em_lookupDeclared: "em.keeps P (lookupDeclared env token)"
  unfolding lookupDeclared_def by (intro em_intros) simp_all

lemma em_acceptCustomJob: "em.keeps idle (acceptCustomJob env m ch)"
  unfolding acceptCustomJob_def Let_def by (intro idle_intros em_awaitTemplate em_issueJob)

lemma em_handleSetCustomMiningJob: "em.keeps idle (handleSetCustomMiningJob env body)"
  unfolding handleSetCustomMiningJob_def by (intro idle_intros em_lookupDeclared em_acceptCustomJob)

lemma em_handleUpdateChannel: "em.keeps idle (handleUpdateChannel env body)"
  unfolding handleUpdateChannel_def Let_def by (intro idle_intros em_sendSetTarget)

lemma em_handleCloseChannel: "em.keeps idle (handleCloseChannel env body)"
  unfolding handleCloseChannel_def Let_def by (intro idle_intros) simp_all

lemma em_handleRequestExtensions: "em.keeps idle (handleRequestExtensions env body)"
  unfolding handleRequestExtensions_def by (intro idle_intros)

lemma em_handleFrame:
  assumes "ty \<noteq> 0x1a" "ty \<noteq> 0x1b"
  shows "em.keeps idle (handleFrame env ty ext body)"
  unfolding handleFrame_def using assms
  by (intro em.keeps_if em_handleRequestExtensions em_handleSetupConnection
      em_handleOpenStandardMiningChannel em_handleOpenExtendedMiningChannel em_handleSetCustomMiningJob
      em_handleUpdateChannel em_handleCloseChannel em.keeps_prims) simp_all

lemma handleFrame_once: "v2_once (v2_allows (v2_earned env c ty body)) c (snd (handleFrame env ty ext body c))"
proof (cases "ty = 0x1a \<or> ty = 0x1b")
  case True
  then show ?thesis
    using handleSubmitSharesStandard_once [of env c body] handleSubmitSharesExtended_once [of env c body]
    by (auto simp: handleFrame_def)
next
  case False
  then have "v2_emits idle c (snd (handleFrame env ty ext body c))"
    using em_handleFrame [of ty env ext body] by (simp add: em.keeps_def)
  then show ?thesis by (rule v2_once_idle) (rule idle_allowed)
qed

section \<open>Work that is judged good is recorded\<close>

text \<open>The outside answers, the socket is open and the cipher of the writer does not fail.\<close>

definition neverFails :: "'c cipherFn \<Rightarrow> bool" where
  "neverFails enc \<longleftrightarrow> (\<forall>k bs. is_ok (enc k bs))"

definition v2_works :: "'c v2_env \<Rightarrow> 'c V2Client \<Rightarrow> bool" where
  "v2_works env c \<longleftrightarrow> (\<forall>e. \<not> ve_fails env e) \<and> (\<forall>n. env_insertId (ve_pool env) n \<noteq> None)
     \<and> (case encryptFn (v2_frameWriter c) of None \<Rightarrow> True | Some enc \<Rightarrow> neverFails enc)
     \<and> \<not> v2_socketDestroyed c \<and> \<not> v2_socketEnded c \<and> \<not> v2_creatingFailed c"

lemma v2_perform_works: "v2_works env c \<Longrightarrow> v2_perform env e d = (Inr (), d\<lparr>v2_outbox := v2_outbox d @ [e]\<rparr>)"
  by (simp add: v2_works_def v2_perform_def v2_emit_def)

lemma neverFailsD: "neverFails enc \<Longrightarrow> \<exists>p k'. enc k bs = Inr (p, k')"
  unfolding neverFails_def by (cases "enc k bs") (force simp: is_ok_def split: sum.splits)+

lemma encryptChunks_total: "neverFails enc \<Longrightarrow> \<exists>p k'. encryptChunks enc k plain = Inr (p, k')"
proof (induction enc k plain rule: encryptChunks.induct)
  case (1 enc k plain)
  show ?case
  proof (cases "plain = []")
    case False
    obtain part k1 where "enc k (take SV2_MAX_PLAINTEXT_CHUNK plain) = Inr (part, k1)"
      using neverFailsD [OF "1.prems"] by blast
    moreover from "1.IH" [OF False "1.prems", of k1] obtain parts k2
      where "encryptChunks enc k1 (drop SV2_MAX_PLAINTEXT_CHUNK plain) = Inr (parts, k2)" by blast
    ultimately show ?thesis using False by (simp add: encryptChunks.simps)
  qed (simp add: encryptChunks.simps)
qed

lemma writeFrame_total:
  assumes "u16_ok (extensionType h)" "pred_option neverFails (encryptFn w)"
  shows "\<exists>wire w'. writeFrame h p w = Inr (wire, w') \<and> encryptFn w' = encryptFn w"
proof -
  obtain hdr where hdr: "encodeFrameHeader h = Inr hdr"
    using assms(1) by (simp add: encodeFrameHeader_def u16_ok_def)
  show ?thesis
  proof (cases "encryptFn w")
    case (Some enc)
    then have ok: "neverFails enc" using assms(2) by simp
    obtain a k1 where a: "enc (fw_cipher w) hdr = Inr (a, k1)" using neverFailsD [OF ok] by blast
    obtain b k2 where "encryptChunks enc k1 p = Inr (b, k2)" using encryptChunks_total [OF ok] by blast
    then show ?thesis using hdr Some a by (simp add: writeFrame_def)
  qed (simp add: writeFrame_def hdr)
qed

lemma v2_sendMessage_works:
  assumes "v2_works env c" "ser_msg m = Inr data" "u16_ok ext"
  obtains wire w where "v2_sendMessage env m ext c = (Inr (), c\<lparr>v2_frameWriter := w,
      v2_outbox := v2_outbox c @ [V2_Frame ext (msg_code m) data wire]\<rparr>)" "encryptFn w = encryptFn (v2_frameWriter c)"
proof -
  have "pred_option neverFails (encryptFn (v2_frameWriter c))"
    using assms(1) by (simp add: v2_works_def split: option.splits)
  then obtain wire w where "sendFrame (msg_code m) data ext (v2_frameWriter c) = Inr (wire, w)"
    "encryptFn w = encryptFn (v2_frameWriter c)"
    using writeFrame_total [of "\<lparr>extensionType = ext, msgType = msg_code m, msgLength = int (length data)\<rparr>"
        "v2_frameWriter c" data] assms(3)
    by (auto simp: sendFrame_def)
  then show ?thesis
    using assms that
    by (simp add: v2_sendMessage_def v2_sendFrame_def writeRaw_def v2_works_def v2_perform_def v2_emit_def)
qed

lemma readU32_range: "readU32 r = Inr (v, r') \<Longrightarrow> u32_ok v"
proof -
  assume "readU32 r = Inr (v, r')"
  then obtain b where b: "v = int (le_nat b)" "length b = 4"
    by (auto simp: readU32_def rd_bind_def rd_slice_def ensure_def rd_ret_def split: sum.splits if_splits)
  then show ?thesis using le_nat_less [of b] by (simp add: u32_ok_def)
qed

lemma standard_ranges:
  assumes "deserializeSubmitSharesStandard r = Inr (m, r')"
  shows "u32_ok (submitSharesStandard_channelId m) \<and> u32_ok (submitSharesStandard_sequenceNumber m)"
  using assms readU32_range
  by (auto simp: deserializeSubmitSharesStandard_def rd_bind_def rd_ret_def rbind_Inr_iff)

lemma v2_ensureClientEntity_works:
  assumes "v2_works env c"
  obtains c' row where "v2_ensureClientEntity env c = (Inr (), c')" "v2_clientEntity c' = Some row" "v2_stays idle c c'"
proof (cases "v2_clientEntity c")
  case None
  let ?e = "newEntity (ve_pool env) (v2_sessionId c) (addressOf c) (v2_workerName c) (v2_userAgent c) (v2_payoutMode c)"
  obtain i where "env_insertId (ve_pool env) (v2_insertCount (v2_outbox c)) = Some i"
    using assms by (auto simp: v2_works_def)
  then have "v2_ensureClientEntity env c = (Inr (), c\<lparr>v2_outbox := v2_outbox c @ [V2_InsertClient ?e],
      v2_clientEntity := Some (?e\<lparr>ce_id := i\<rparr>)\<rparr>)"
    using None assms by (simp add: v2_ensureClientEntity_def v2_insertClient_def v2_emit_def v2_works_def)
  then show ?thesis by (rule that) (simp_all add: v2_stays_def v2_emits_def v2_who_def)
next
  case (Some row)
  then have "v2_ensureClientEntity env c = (Inr (), c)" by (simp add: v2_ensureClientEntity_def)
  then show ?thesis using Some by (rule that) (rule sy.R_refl)
qed

lemma submitFoundBlock_works:
  assumes "v2_works env c"
  shows "\<exists>res es. submitFoundBlock env jt b d = (Inr res, d\<lparr>v2_outbox := v2_outbox d @ es\<rparr>)"
  by (auto simp: submitFoundBlock_def v2_perform_works [OF assms] Let_def)

lemma recordAcceptedShare_works:
  assumes "v2_works env c"
  shows "\<exists>s es. v2_outbox (snd (recordAcceptedShare env d j jt blk sf work candidate c)) = v2_outbox c @ es
    \<and> V2_RecordShare s \<in> set es"
proof -
  obtain c1 row where c1: "v2_ensureClientEntity env c = (Inr (), c1)" "v2_clientEntity c1 = Some row" "v2_stays idle c c1"
    by (rule v2_ensureClientEntity_works [OF assms])
  obtain es1 where es1: "v2_outbox c1 = v2_outbox c @ es1" using c1(3) by (auto simp: v2_stays_def v2_emits_def)
  have "\<exists>res es. (case blk of None \<Rightarrow> ret candidate | Some block \<Rightarrow> submitFoundBlock env jt block) c1
      = (Inr res, c1\<lparr>v2_outbox := v2_outbox c1 @ es\<rparr>)"
    using submitFoundBlock_works [OF assms] by (cases blk) (auto intro: exI [of _ "[]"])
  then obtain res es2 where es2: "v2_beforeRecord env jt blk candidate c = (Inr res, c1\<lparr>v2_outbox := v2_outbox c1 @ es2\<rparr>)"
    using c1(1) by (auto simp: v2_beforeRecord_def)
  let ?c = "c1\<lparr>v2_outbox := v2_outbox c1 @ es2\<rparr>"
  let ?s = "v2_row env ?c d j jt blk sf work candidate row res"
  have "v2_emits idle (?c\<lparr>v2_outbox := v2_outbox ?c @ [V2_RecordShare ?s]\<rparr>)
      (snd (v2_afterRecord env ?c d j (?c\<lparr>v2_outbox := v2_outbox ?c @ [V2_RecordShare ?s]\<rparr>)))"
    by (rule em_stays [OF sy_afterRecord, unfolded em.keeps_def, rule_format])
  then obtain es3 where "v2_outbox (snd (v2_afterRecord env ?c d j (?c\<lparr>v2_outbox := v2_outbox ?c @ [V2_RecordShare ?s]\<rparr>)))
      = v2_outbox ?c @ [V2_RecordShare ?s] @ es3"
    by (auto simp: v2_emits_def)
  then show ?thesis
    using es1 c1(2) es2
    by (intro exI [of _ ?s] exI [of _ "es1 @ es2 @ V2_RecordShare ?s # es3"])
      (simp add: recordAcceptedShare_split v2_need_def v2_perform_works [OF assms])
qed

lemma sendShareSuccess_works:
  assumes "v2_works env c" "u32_ok i" "u32_ok n" "j = Num q" "u64_ok (js_round q)"
  obtains data wire w where "sendShareSuccess env i n j c = (Inr (), c\<lparr>v2_frameWriter := w,
      v2_outbox := v2_outbox c @ [V2_Frame SV2_CHANNEL_MSG_FLAG 0x1c data wire]\<rparr>)"
    "serializeSubmitSharesSuccess \<lparr>submitSharesSuccess_channelId = i, submitSharesSuccess_lastSequenceNumber = n,
       submitSharesSuccess_newSubmitsAcceptedCount = 1, submitSharesSuccess_newSharesSum = js_round q\<rparr> = Inr data"
    "encryptFn w = encryptFn (v2_frameWriter c)"
proof -
  let ?m = "\<lparr>submitSharesSuccess_channelId = i, submitSharesSuccess_lastSequenceNumber = n,
       submitSharesSuccess_newSubmitsAcceptedCount = 1, submitSharesSuccess_newSharesSum = js_round q\<rparr>"
  have "fits_SubmitSharesSuccess ?m" using assms by (simp add: fits_SubmitSharesSuccess_def u32_ok_def)
  from SubmitSharesSuccess.codec [OF this] obtain data where data: "serializeSubmitSharesSuccess ?m = Inr data" by blast
  have "u16_ok SV2_CHANNEL_MSG_FLAG" by (simp add: u16_ok_def SV2_CHANNEL_MSG_FLAG_def)
  from v2_sendMessage_works [OF assms(1) _ this, of "M_SubmitSharesSuccess ?m" data] data
  obtain wire w where "v2_sendMessage env (M_SubmitSharesSuccess ?m) SV2_CHANNEL_MSG_FLAG c = (Inr (), c\<lparr>v2_frameWriter := w,
      v2_outbox := v2_outbox c @ [V2_Frame SV2_CHANNEL_MSG_FLAG 0x1c data wire]\<rparr>)" "encryptFn w = encryptFn (v2_frameWriter c)"
    by auto
  then show ?thesis using that data assms(4) by (simp add: sendShareSuccess_def sharesSum_def)
qed

lemma good_recorded:
  assumes m: "deserializeSubmitSharesStandard (newReader body) = Inr (m, r)"
    and good: "goodStandard env c m channel job jt headerBuffer" and works: "v2_works env c"
    and d: "jobDifficultyOf channel (submitSharesStandard_jobId m) = Num q" "u64_ok (js_round q)"
    and net: "meetsNetworkTarget jt (hash256 (env_sha256 (ve_pool env)) headerBuffer) = Inr solves"
    and blk: "solves \<Longrightarrow> \<exists>b. copyAndUpdateBlock (env_lib (ve_pool env)) (env_sha256 (ve_pool env)) job jt
           (Num (of_int (js_xor (submitSharesStandard_version m) (blk_version (jt_block jt)))))
           (Num (of_int (submitSharesStandard_nonce m))) (hexEncode (ch_extranoncePrefix channel)) FIXED_STANDARD_EXTRANONCE2
           (Num (of_int (submitSharesStandard_ntime m))) = Inr b"
  shows "\<exists>data wire s es. v2_outbox (snd (handleFrame env 0x1a ext body c))
      = v2_outbox c @ V2_Frame SV2_CHANNEL_MSG_FLAG 0x1c data wire # es \<and> V2_RecordShare s \<in> set es
    \<and> serializeSubmitSharesSuccess \<lparr>submitSharesSuccess_channelId = submitSharesStandard_channelId m,
         submitSharesSuccess_lastSequenceNumber = submitSharesStandard_sequenceNumber m,
         submitSharesSuccess_newSubmitsAcceptedCount = 1, submitSharesSuccess_newSharesSum = js_round q\<rparr> = Inr data"
proof -
  let ?i = "submitSharesStandard_channelId m"
  let ?j = "jobDifficultyOf channel (submitSharesStandard_jobId m)"
  let ?judged = "calculateDifficulty (env_sha256 (ve_pool env)) headerBuffer"
  obtain sentMerkleRoot target where g: "map_of (v2_channels c) ?i = Some channel"
    "standardKey m \<notin> ch_miningSubmissionHashes channel"
    "getJobById (v2_jobsService c) (intToString16 (submitSharesStandard_jobId m)) = Some job"
    "getJobTemplateById (v2_jobsService c) (job_jobTemplateId job) = Some jt"
    "map_of (ch_jobIdToMerkleRoot channel) (submitSharesStandard_jobId m) = Some sentMerkleRoot"
    "v2_buildHeader (jt_block jt) sentMerkleRoot (submitSharesStandard_version m)
       (submitSharesStandard_ntime m) (submitSharesStandard_nonce m) = Inr headerBuffer"
    "difficultyToTarget ?j = Inr target" "meetsTarget (hash256 (env_sha256 (ve_pool env)) headerBuffer) target"
    using good by (auto simp: goodStandard_def)
  have h: "hashBuffer ?judged = hash256 (env_sha256 (ve_pool env)) headerBuffer"
    by (simp add: calculateDifficulty_def Let_def)
  let ?c1 = "c\<lparr>v2_channels := AList.map_entry ?i (rememberSubmission (standardKey m)) (v2_channels c)\<rparr>"
  have works1: "v2_works env ?c1" using works by (simp add: v2_works_def)
  note ranges = standard_ranges [OF m, THEN conjunct1] standard_ranges [OF m, THEN conjunct2]
  obtain data wire w where s: "sendShareSuccess env ?i (submitSharesStandard_sequenceNumber m) ?j ?c1
      = (Inr (), ?c1\<lparr>v2_frameWriter := w, v2_outbox := v2_outbox ?c1 @ [V2_Frame SV2_CHANNEL_MSG_FLAG 0x1c data wire]\<rparr>)"
    and data: "serializeSubmitSharesSuccess \<lparr>submitSharesSuccess_channelId = ?i,
         submitSharesSuccess_lastSequenceNumber = submitSharesStandard_sequenceNumber m,
         submitSharesSuccess_newSubmitsAcceptedCount = 1, submitSharesSuccess_newSharesSum = js_round q\<rparr> = Inr data"
    and w: "encryptFn w = encryptFn (v2_frameWriter ?c1)"
    by (rule sendShareSuccess_works [OF works1 ranges d])
  let ?acc = "\<lambda>ch. ch\<lparr>ch_acceptedShareCount := ch_acceptedShareCount ch + 1\<rparr>"
  let ?c3 = "?c1\<lparr>v2_frameWriter := w, v2_outbox := v2_outbox c @ [V2_Frame SV2_CHANNEL_MSG_FLAG 0x1c data wire],
      v2_channels := AList.map_entry ?i ?acc (v2_channels ?c1)\<rparr>"
  have works3: "v2_works env ?c3" using works w by (simp add: v2_works_def)
  have run: "handleFrame env 0x1a ext body c
      = handleAcceptedShare env m (ch_extranoncePrefix channel) job jt ?judged ?j ?c3"
    using g h s
    by (simp add: handleFrame_def handleSubmitSharesStandard_def parsed_def m updChannel_def judgeStandard_def Let_def)
  have "\<exists>blk. handleAcceptedShare env m (ch_extranoncePrefix channel) job jt ?judged ?j ?c3
      = recordAcceptedShare env (submissionDifficulty ?judged) ?j jt blk
         \<lparr>sf_jobId = job_jobId job, sf_nonce = submitSharesStandard_nonce m, sf_ntime = submitSharesStandard_ntime m,
          sf_version = submitSharesStandard_version m, sf_extraNonce2 = FIXED_STANDARD_EXTRANONCE2\<rparr> pool_work None ?c3"
  proof (cases solves)
    case True
    then show ?thesis using blk net by (auto simp: handleAcceptedShare_def h)
  next
    case False
    then show ?thesis using net by (auto simp: handleAcceptedShare_def h)
  qed
  then obtain blk where "handleAcceptedShare env m (ch_extranoncePrefix channel) job jt ?judged ?j ?c3
      = recordAcceptedShare env (submissionDifficulty ?judged) ?j jt blk
         \<lparr>sf_jobId = job_jobId job, sf_nonce = submitSharesStandard_nonce m, sf_ntime = submitSharesStandard_ntime m,
          sf_version = submitSharesStandard_version m, sf_extraNonce2 = FIXED_STANDARD_EXTRANONCE2\<rparr> pool_work None ?c3"
    by blast
  moreover obtain sh es where "v2_outbox (snd (recordAcceptedShare env (submissionDifficulty ?judged) ?j jt blk
         \<lparr>sf_jobId = job_jobId job, sf_nonce = submitSharesStandard_nonce m, sf_ntime = submitSharesStandard_ntime m,
          sf_version = submitSharesStandard_version m, sf_extraNonce2 = FIXED_STANDARD_EXTRANONCE2\<rparr> pool_work None ?c3))
      = v2_outbox ?c3 @ es" "V2_RecordShare sh \<in> set es"
    using recordAcceptedShare_works [OF works3] by blast
  ultimately show ?thesis
    using data by (intro exI [of _ data] exI [of _ wire] exI [of _ sh] exI [of _ es]) (simp add: run)
qed

section \<open>A connection with a channel\<close>

definition minerMessage :: Sv2SubmitSharesStandard where
  "minerMessage = \<lparr>submitSharesStandard_channelId = 1, submitSharesStandard_sequenceNumber = 0,
     submitSharesStandard_jobId = 1, submitSharesStandard_nonce = 7, submitSharesStandard_ntime = 1700000000,
     submitSharesStandard_version = 536870912\<rparr>"

definition minerChannel :: ChannelState where
  "minerChannel = (newChannel 1 standard_channel [0, 1, 9, 9] 8 (Num 16) (replicate 32 255))
     \<lparr>ch_jobIdToDifficulty := [(1, Num 16)], ch_jobIdToMerkleRoot := [(1, replicate 32 3)]\<rparr>"

definition minerJob :: MiningJob where
  "minerJob = \<lparr>coinbaseTransaction = emptyCoinbase, coinbasePart1 = [], coinbasePart2 = [],
     coinbasePart1Buffer = [], coinbasePart2Buffer = [], merkleBranchBuffers = [],
     job_jobTemplateId = jstr ''1'', job_creation = 0, payoutAddress = Some (jstr ''addr''),
     payoutWorker = None, job_jobId = jstr ''1''\<rparr>"

definition minerPool :: v1_env where
  "minerPool = \<lparr>env_now = 1700000000000, env_random = [], env_config = (\<lambda>_. None),
     env_processMinDifficulty = None, env_parseFloat = (\<lambda>_. NaN), env_number = (\<lambda>_. NaN),
     env_toNumber = (\<lambda>_. NaN), env_toLowerCase = (\<lambda>s. s), env_jsonParse = (\<lambda>_. None),
     env_isAddress = (\<lambda>a. a = jstr ''addr''), env_insertId = (\<lambda>_. Some (jstr ''row'')),
     env_fails = (\<lambda>_. False), env_template = Some sampleTemplate, env_submitResult = (\<lambda>_. None),
     env_lib = sampleLib emptyCoinbase, env_sha256 = (\<lambda>_. replicate 32 0)\<rparr>"

definition minerEnv :: "nat v2_env" where
  "minerEnv = \<lparr>ve_pool = minerPool, ve_fails = (\<lambda>_. False), ve_processAct1 = (\<lambda>_. Inl TypeError),
     ve_decrypt = (\<lambda>k bs. Inr (bs, k + 1)), ve_encrypt = (\<lambda>k bs. Inr (bs, k + 1)),
     ve_random2 = (\<lambda>_. [9, 9]), ve_fromBuffer = (\<lambda>_. None), ve_toOutputScript = (\<lambda>_. Inl TypeError)\<rparr>"

definition minerConnection :: "nat V2Client" where
  "minerConnection = \<lparr>v2_payoutMode = solo, v2_sessionId = jstr ''0a0b'', v2_targetSharesPerMinute = Num 2,
     v2_statistics = newStatistics 0 (Num 0), v2_frameReader = newFrameReader None 0,
     v2_frameWriter = \<lparr>encryptFn = Some (ve_encrypt minerEnv), fw_cipher = 0\<rparr>,
     v2_handshakeBuffer = [], v2_handshakeComplete = True, v2_processingHandshake = False,
     v2_pendingHandshake = None, v2_destroyed = False, v2_stratumSubscription = True,
     v2_difficultyTimer = True, v2_channels = [(1, minerChannel)], v2_primaryChannelId = Some 1,
     v2_address = Some (jstr ''addr''), v2_workerName = jstr ''rig'', v2_userAgent = jstr ''m/sv2'',
     v2_sessionDifficulty = Num 16, v2_clientEntity = None, v2_creatingFailed = False,
     v2_workSelectionEnabled = False, v2_lastHashRatePersistedAt = 0, v2_socketDestroyed = False,
     v2_socketEnded = False, v2_service = newSv2Service\<lparr>channelIdCounter := 2\<rparr>,
     v2_jobsService = newJobsService\<lparr>latestJobId := 2, jobs := [(jstr ''1'', minerJob)],
       blocks := [(jstr ''1'', sampleTemplate)]\<rparr>,
     v2_registry = newJobRegistry 60000, v2_outbox = []\<rparr>"

lemma minerMessage_sent:
  obtains body r where "serializeSubmitSharesStandard minerMessage = Inr body"
    "deserializeSubmitSharesStandard (newReader body) = Inr (minerMessage, r)"
proof -
  have "fits_SubmitSharesStandard minerMessage"
    by (simp add: fits_SubmitSharesStandard_def minerMessage_def u32_ok_def)
  from SubmitSharesStandard.codec [OF this] obtain bs where "serializeSubmitSharesStandard minerMessage = Inr bs"
    "parses deserializeSubmitSharesStandard bs minerMessage" by blast
  then show ?thesis using that parses_full [of deserializeSubmitSharesStandard bs minerMessage "[]" "[]"]
    by (simp add: newReader_def)
qed

lemma small_targets: "difficultyToTarget (Num 16) = Inr (targetOf 16)" "difficultyToTarget (Num 1) = Inr (targetOf 1)"
  using fl_million_multiples [of 16 16] fl_million_multiples [of 1 1] by (simp_all add: difficultyToTarget_pos)

lemma minerConnection_works: "v2_works minerEnv minerConnection"
  by (simp add: v2_works_def minerConnection_def minerEnv_def minerPool_def neverFails_def)

lemma minerShare_good:
  "\<exists>headerBuffer. goodStandard minerEnv minerConnection minerMessage minerChannel minerJob sampleTemplate headerBuffer"
proof -
  obtain headerBuffer where h: "v2_buildHeader (jt_block sampleTemplate) (replicate 32 3) 536870912 1700000000 7 = Inr headerBuffer"
    by (simp add: v2_buildHeader_def buildHeader_def sampleTemplate_def encodeInt32LE_def encodeUInt32LE_def js_int_def Let_def)
  have "meetsTarget (replicate 32 0) (targetOf 16)"
  proof -
    have "le_nat (replicate n 0) = 0" for n by (induction n) simp_all
    then show ?thesis by (simp add: meetsTarget_le_nat)
  qed
  then show ?thesis
    using h small_targets(1)
    by (intro exI [of _ headerBuffer])
      (simp add: goodStandard_def minerConnection_def minerMessage_def minerChannel_def newChannel_def getJobById_def
        getJobTemplateById_def newJobsService_def minerJob_def jobDifficultyOf_def minerEnv_def minerPool_def hash256_def intToString16_def toString16.simps hexdigit_def jstr_def)
qed

section \<open>Properties\<close>

text \<open>
  C2. What one frame can earn: whatever the state of a Stratum V2 connection and whatever the frame, it
  records at most one share, and every share and every block it hands on was earned. The frame is then a
  submission that its channel had not seen, for a job the pool still holds (an extended one not retired and
  with an extranonce of the agreed size); the header that follows from the submission and from what was sent
  to the channel meets the target of the very difficulty that is credited; the row names the address of the
  connection and the fields of the submission and is marked a block candidate exactly when the hash meets the
  target of the network, and only then a block is submitted.
\<close>

theorem v2_frame_effects_earned:
  "\<exists>es. v2_outbox (snd (handleFrame env ty ext body c)) = v2_outbox c @ es
     \<and> length (v2_records es) \<le> 1 \<and> list_all (v2_earned env c ty body) es"
proof -
  have "list_all (v2_earned env c ty body) es" if "list_all (v2_allows (v2_earned env c ty body)) es" for es
    using that by (auto simp: list_all_iff v2_allows_def v2_earned_def)
  then show ?thesis using handleFrame_once [of env c ty body ext] unfolding v2_once_def by blast
qed

text \<open>
  C19. A standard share that is judged good is not lost: when the socket is open, the cipher works and the
  outside answers, the miner is told of the success with the difficulty of its job, and then the share is
  recorded, whether or not it solves a block.
\<close>

theorem v2_good_share_is_recorded:
  assumes "deserializeSubmitSharesStandard (newReader body) = Inr (m, r)"
    and "goodStandard env c m channel job jt headerBuffer" "v2_works env c"
    and "jobDifficultyOf channel (submitSharesStandard_jobId m) = Num q" "u64_ok (js_round q)"
    and "meetsNetworkTarget jt (hash256 (env_sha256 (ve_pool env)) headerBuffer) = Inr solves"
    and "solves \<longrightarrow> (\<exists>b. copyAndUpdateBlock (env_lib (ve_pool env)) (env_sha256 (ve_pool env)) job jt
           (Num (of_int (js_xor (submitSharesStandard_version m) (blk_version (jt_block jt)))))
           (Num (of_int (submitSharesStandard_nonce m))) (hexEncode (ch_extranoncePrefix channel))
           FIXED_STANDARD_EXTRANONCE2 (Num (of_int (submitSharesStandard_ntime m))) = Inr b)"
  shows "\<exists>data wire s es. v2_outbox (snd (handleFrame env 0x1a ext body c))
      = v2_outbox c @ V2_Frame SV2_CHANNEL_MSG_FLAG 0x1c data wire # es \<and> V2_RecordShare s \<in> set es
    \<and> serializeSubmitSharesSuccess \<lparr>submitSharesSuccess_channelId = submitSharesStandard_channelId m,
         submitSharesSuccess_lastSequenceNumber = submitSharesStandard_sequenceNumber m,
         submitSharesSuccess_newSubmitsAcceptedCount = 1, submitSharesSuccess_newSharesSum = js_round q\<rparr> = Inr data"
  using good_recorded [OF assms(1-6)] assms(7) by blast

theorem v2_good_share_is_recorded_witness:
  "\<exists>body. serializeSubmitSharesStandard minerMessage = Inr body
     \<and> (\<exists>data wire s es. v2_outbox (snd (handleFrame minerEnv 0x1a 0x8000 body minerConnection))
          = V2_Frame 0x8000 0x1c data wire # es \<and> V2_RecordShare s \<in> set es)"
proof -
  obtain body r where body: "serializeSubmitSharesStandard minerMessage = Inr body"
    and m: "deserializeSubmitSharesStandard (newReader body) = Inr (minerMessage, r)"
    by (rule minerMessage_sent)
  obtain headerBuffer where g: "goodStandard minerEnv minerConnection minerMessage minerChannel minerJob sampleTemplate headerBuffer"
    using minerShare_good by blast
  have d: "jobDifficultyOf minerChannel (submitSharesStandard_jobId minerMessage) = Num 16"
    by (simp add: jobDifficultyOf_def minerChannel_def minerMessage_def)
  have u: "u64_ok (js_round 16)" by (simp add: u64_ok_def js_round_def)
  have "\<exists>b. copyAndUpdateBlock (env_lib (ve_pool minerEnv)) (env_sha256 (ve_pool minerEnv)) minerJob sampleTemplate
           (Num (of_int (js_xor (submitSharesStandard_version minerMessage) (blk_version (jt_block sampleTemplate)))))
           (Num (of_int (submitSharesStandard_nonce minerMessage))) (hexEncode (ch_extranoncePrefix minerChannel))
           FIXED_STANDARD_EXTRANONCE2 (Num (of_int (submitSharesStandard_ntime minerMessage))) = Inr b"
    by (simp add: copyAndUpdateBlock_def cloneCoinbaseTransaction_def sampleLib_def minerEnv_def minerPool_def
      emptyCoinbase_def Let_def calculateMerkleRootHash_def hash256_def minerJob_def)
  then have blk: "solves \<longrightarrow> (\<exists>b. copyAndUpdateBlock (env_lib (ve_pool minerEnv)) (env_sha256 (ve_pool minerEnv)) minerJob sampleTemplate
           (Num (of_int (js_xor (submitSharesStandard_version minerMessage) (blk_version (jt_block sampleTemplate)))))
           (Num (of_int (submitSharesStandard_nonce minerMessage))) (hexEncode (ch_extranoncePrefix minerChannel))
           FIXED_STANDARD_EXTRANONCE2 (Num (of_int (submitSharesStandard_ntime minerMessage))) = Inr b)" for solves ..
  obtain solves where net: "meetsNetworkTarget sampleTemplate (hash256 (env_sha256 (ve_pool minerEnv)) headerBuffer) = Inr solves"
    using small_targets(2) by (simp add: meetsNetworkTarget_def sampleTemplate_def)
  have empty: "v2_outbox minerConnection = []" by (simp add: minerConnection_def)
  from v2_good_share_is_recorded [OF m g minerConnection_works d u net blk, where ext = "0x8000"]
  have "\<exists>data wire s es. v2_outbox (snd (handleFrame minerEnv 0x1a 0x8000 body minerConnection))
      = V2_Frame 0x8000 0x1c data wire # es \<and> V2_RecordShare s \<in> set es"
    unfolding SV2_CHANNEL_MSG_FLAG_def empty append_Nil by blast
  then show ?thesis using body by blast
qed

end
