(* ===== verification/StratumV2Channels.thy ===== *)
theory StratumV2Channels
  imports StratumV2Shares
begin

text \<open>
  The channels of a Stratum V2 connection: they are well-formed after every event, what a connection does to
  the shared service leaves the channels of the others alone, and a submission that a channel knows is not
  credited again.

  Most statements of the handlers are calm: they leave the identity of every channel and the shared service
  as they are, or close the connection. What is not calm (opening and closing a channel, remembering a
  submission) is looked at on its own.
\<close>

section \<open>Calm statements\<close>

text \<open>With \<open>b\<close>, the submissions a channel knows stay as they are; without, they may be forgotten.\<close>

definition kept :: "bool \<Rightarrow> int \<times> ChannelState \<Rightarrow> int \<times> ChannelState \<Rightarrow> bool" where
  "kept b p q \<longleftrightarrow> fst q = fst p \<and> ch_channelId (snd q) = ch_channelId (snd p)
     \<and> ch_channelType (snd q) = ch_channelType (snd p) \<and> ch_extranoncePrefix (snd q) = ch_extranoncePrefix (snd p)
     \<and> ch_extranonceSize (snd q) = ch_extranonceSize (snd p)
     \<and> (ch_miningSubmissionHashes (snd q) = ch_miningSubmissionHashes (snd p)
        \<or> \<not> b \<and> ch_miningSubmissionHashes (snd q) = {})"

definition calm :: "bool \<Rightarrow> 'c V2Client \<Rightarrow> 'c V2Client \<Rightarrow> bool" where
  "calm b c c' \<longleftrightarrow> list_all2 (kept b) (v2_channels c) (v2_channels c') \<and> v2_service c' = v2_service c
     \<or> v2_channels c' = [] \<and> v2_service c' = releasePrefixes (v2_channels c) (v2_service c)"

lemma kept_refl [simp]: "kept b p p"
  by (simp add: kept_def)

lemma kept_list_refl [simp]: "list_all2 (kept b) ps ps"
  by (rule list_all2_refl) simp

lemma kept_trans: "kept b p q \<Longrightarrow> kept b q r \<Longrightarrow> kept b p r"
  by (auto simp: kept_def)

lemma releasePrefixes_kept: "list_all2 (kept b) ps qs \<Longrightarrow> releasePrefixes qs s = releasePrefixes ps s"
  unfolding releasePrefixes_def
proof (induction arbitrary: s rule: list_all2_induct)
  case (Cons p ps q qs)
  then show ?case by (cases p; cases q) (auto simp: kept_def isExtended_def)
qed simp

interpretation ca: step_relation "calm b" for b
proof
  show "calm b s s" for s :: "'a V2Client" by (simp add: calm_def)
  show "calm b s u" if st: "calm b s t" and tu: "calm b t u" for s t u :: "'a V2Client"
  proof -
    consider "list_all2 (kept b) (v2_channels s) (v2_channels t)" "v2_service t = v2_service s"
      | "v2_channels t = []" "v2_service t = releasePrefixes (v2_channels s) (v2_service s)"
      using st by (auto simp: calm_def)
    then show ?thesis
    proof cases
      case 1
      then show ?thesis
        using tu list_all2_trans [of "kept b" "kept b" "kept b" "v2_channels s" "v2_channels t" "v2_channels u"]
          kept_trans releasePrefixes_kept
        unfolding calm_def by metis
    next
      case 2
      then show ?thesis using tu by (auto simp: calm_def releasePrefixes_def)
    qed
  qed
qed

lemma ca_modify: "(\<And>c. v2_channels (f c) = v2_channels c \<and> v2_service (f c) = v2_service c) \<Longrightarrow> ca.keeps b (modify f)"
  by (intro ca.keeps_modify) (simp add: calm_def)

lemma ca_need: "ca.keeps b (v2_need x)"
  by (cases x) (simp_all add: v2_need_def ca.keeps_prims)

lemma kept_map_entry: "(\<And>ch. kept b (i, ch) (i, f ch)) \<Longrightarrow> list_all2 (kept b) ps (AList.map_entry i f ps)"
  by (induction ps) auto

lemma ca_updChannel: "(\<And>ch. kept b (i, ch) (i, f ch)) \<Longrightarrow> ca.keeps b (updChannel i f)"
  unfolding updChannel_def by (intro ca.keeps_modify) (simp add: calm_def kept_map_entry)

lemma ca_emit: "ca.keeps b (v2_emit e)"
  unfolding v2_emit_def by (intro ca_modify) simp

lemma ca_parsed: "ca.keeps b (parsed rd body)"
  unfolding parsed_def by (rule ca.keeps_prims)

lemma ca_withChannel: "(\<And>ch. ca.keeps b (f ch)) \<Longrightarrow> ca.keeps b (withChannel i f)"
  unfolding withChannel_def by (intro ca.keeps_intros)

lemma ca_forChannels: "(\<And>i. ca.keeps b (f i)) \<Longrightarrow> ca.keeps b (forChannels f)"
  unfolding forChannels_def by (intro ca.keeps_intros)

lemmas calm_base = ca.keeps_intros ca_need ca_emit ca_parsed ca_withChannel ca_forChannels

lemmas calm_intros = calm_base ca_modify

lemma ca_perform: "ca.keeps b (v2_perform env e)"
  unfolding v2_perform_def by (intro calm_intros)

lemma ca_destroySocket: "ca.keeps b v2_destroySocket"
  unfolding v2_destroySocket_def by (intro calm_intros) simp_all

lemma ca_destroy: "ca.keeps b v2_destroy"
proof -
  have "ca.keeps b (modify (\<lambda>c. c\<lparr>v2_destroyed := True, v2_stratumSubscription := False, v2_difficultyTimer := False,
          v2_service := releasePrefixes (v2_channels c) (v2_service c), v2_channels := []\<rparr>))"
    by (intro ca.keeps_modify) (simp add: calm_def)
  then show ?thesis unfolding v2_destroy_def by (intro calm_base)
qed

lemma ca_closeSocket: "ca.keeps b v2_closeSocket"
  unfolding v2_closeSocket_def by (intro calm_intros ca_destroySocket ca_destroy)

lemma ca_writeRaw: "ca.keeps b (writeRaw env e)"
  unfolding writeRaw_def by (intro calm_intros ca_perform)

lemma ca_sendFrame: "ca.keeps b (v2_sendFrame env ty data ext)"
  unfolding v2_sendFrame_def by (intro calm_intros ca_writeRaw) simp_all

lemma ca_sendMessage: "ca.keeps b (v2_sendMessage env m ext)"
  unfolding v2_sendMessage_def by (intro calm_intros ca_sendFrame)

lemma ca_replies:
  "ca.keeps b (sendOpenChannelError env i code)" "ca.keeps b (sendShareError env ch i code)"
  "ca.keeps b (sendPrevHashMessage env ch j ph t x)" "ca.keeps b (sendShareSuccess env ch i d)"
  "ca.keeps b (customJobError env cm code)"
  unfolding sendOpenChannelError_def sendShareError_def sendPrevHashMessage_def sendShareSuccess_def customJobError_def
  by (intro calm_intros ca_sendMessage)+

lemma ca_ensureClientEntity: "ca.keeps b (v2_ensureClientEntity env)"
  unfolding v2_ensureClientEntity_def v2_insertClient_def by (intro calm_intros) simp_all

lemma ca_issueJob: "ca.keeps b (issueJob env t)"
  unfolding issueJob_def by (intro calm_intros) simp_all

lemmas calm_statements = calm_intros ca_perform ca_closeSocket ca_sendFrame ca_sendMessage ca_replies
  ca_ensureClientEntity ca_issueJob ca_updChannel

lemma ca_sendNewMiningJob: "ca.keeps b (v2_sendNewMiningJob env i t p)"
  unfolding v2_sendNewMiningJob_def by (intro calm_statements) (simp_all add: kept_def)

lemma ca_sendNewExtendedMiningJob: "ca.keeps b (sendNewExtendedMiningJob env i t p)"
  unfolding sendNewExtendedMiningJob_def Let_def by (intro calm_statements) (simp_all add: kept_def)

lemma ca_sendJobTo: "ca.keeps b (sendJobTo env t p i)"
  unfolding sendJobTo_def by (intro calm_statements ca_sendNewMiningJob ca_sendNewExtendedMiningJob)

lemma ca_sendSetTarget: "ca.keeps b (sendSetTarget env i)"
  unfolding sendSetTarget_def by (intro calm_statements)

lemma ca_orClose: "ca.keeps b m \<Longrightarrow> ca.keeps b (orClose m)"
  unfolding orClose_def by (intro calm_statements)

lemma kept_clearOldWork: "kept False (i, ch) (i, clearOldWork now ch)"
  by (simp add: kept_def clearOldWork_def cleanupRetiredExtendedJobs_def retireJobs_def Let_def)

lemma ca_clear:
  "\<not> b \<Longrightarrow> ca.keeps b (modify (\<lambda>c. c\<lparr>v2_channels := map (\<lambda>(i, ch). (i, clearOldWork now ch)) (v2_channels c)\<rparr>))"
proof (rule ca.keeps_modify)
  fix c :: "'a V2Client" assume b: "\<not> b"
  have "list_all2 (kept False) ps (map (\<lambda>(i, ch). (i, clearOldWork now ch)) ps)" for ps
    by (induction ps) (auto simp: kept_clearOldWork)
  with b show "calm b c (c\<lparr>v2_channels := map (\<lambda>(i, ch). (i, clearOldWork now ch)) (v2_channels c)\<rparr>)"
    by (simp add: calm_def)
qed

lemma ca_onNewMiningJob: "jt_clearJobs t \<longrightarrow> \<not> b \<Longrightarrow> ca.keeps b (v2_onNewMiningJob env t)"
  unfolding v2_onNewMiningJob_def
  by (intro calm_base ca_orClose ca_sendJobTo ca_clear) simp

lemma ca_awaitTemplate: "ca.keeps b (awaitTemplate env)"
  unfolding awaitTemplate_def by (intro calm_intros)

lemma ca_subscribeToJobs: "ca.keeps False (subscribeToJobs env)"
  unfolding subscribeToJobs_def by (intro calm_intros ca_onNewMiningJob) simp_all

lemma ca_startWork:
  "first \<longrightarrow> \<not> b \<Longrightarrow> (\<And>t. ca.keeps b (f t)) \<Longrightarrow> ca.keeps b (startWork env first f)"
  unfolding startWork_def startDifficultyTimer_def
  using ca_subscribeToJobs by (intro calm_intros ca_awaitTemplate) auto

section \<open>Well-formed connections\<close>

text \<open>
  A channel is registered under its own identifier, which the counter has passed; it knows at most 10000
  submissions; the prefix of an extended channel is the one the manager holds for it and leaves room for
  the extranonce of the miner.
\<close>

definition channelOk :: "Sv2Service \<Rightarrow> int \<Rightarrow> ChannelState \<Rightarrow> bool" where
  "channelOk s i ch \<longleftrightarrow> ch_channelId ch = i \<and> i < channelIdCounter s
     \<and> finite (ch_miningSubmissionHashes ch) \<and> card (ch_miningSubmissionHashes ch) \<le> 10000
     \<and> (isExtended ch \<longrightarrow> heldPrefix (extranonceManager s) i = Some (ch_extranoncePrefix ch) \<and> 0 \<le> ch_extranonceSize ch
          \<and> int (length (ch_extranoncePrefix ch)) + ch_extranonceSize ch \<le> getExtendedTotalExtranonceSize s)"

definition serviceOk :: "Sv2Service \<Rightarrow> bool" where
  "serviceOk s \<longleftrightarrow> manager_inv (extranonceManager s)
     \<and> prefixSize (extranonceManager s) \<le> totalExtranonceSize (extranonceManager s)"

definition v2_wf :: "'c V2Client \<Rightarrow> bool" where
  "v2_wf c \<longleftrightarrow> serviceOk (v2_service c) \<and> distinct (map fst (v2_channels c))
     \<and> (\<forall>i ch. (i, ch) \<in> set (v2_channels c) \<longrightarrow> channelOk (v2_service c) i ch)"

text \<open>
  What a change of the shared service leaves alone: the counter does not fall back, the sizes stay, and a
  channel that is not one of \<open>own\<close> keeps its prefix.
\<close>

definition spares :: "int set \<Rightarrow> Sv2Service \<Rightarrow> Sv2Service \<Rightarrow> bool" where
  "spares own s s' \<longleftrightarrow> channelIdCounter s \<le> channelIdCounter s'
     \<and> getExtendedTotalExtranonceSize s' = getExtendedTotalExtranonceSize s
     \<and> (\<forall>i. i < channelIdCounter s \<and> i \<notin> own \<longrightarrow>
          heldPrefix (extranonceManager s') i = heldPrefix (extranonceManager s) i)"

lemma spares_mono: "spares A s s' \<Longrightarrow> A \<subseteq> B \<Longrightarrow> spares B s s'"
  unfolding spares_def by blast

definition channelIds :: "'c V2Client \<Rightarrow> int set" where
  "channelIds c = fst ` set (v2_channels c)"

text \<open>Well-formedness is kept, others are spared, and no channel comes back under an old identifier.\<close>

definition fair :: "'c V2Client \<Rightarrow> 'c V2Client \<Rightarrow> bool" where
  "fair c c' \<longleftrightarrow> (v2_wf c \<longrightarrow> v2_wf c' \<and> spares (channelIds c) (v2_service c) (v2_service c')
     \<and> (\<forall>i \<in> channelIds c'. i \<in> channelIds c \<or> channelIdCounter (v2_service c) \<le> i))"

interpretation fa: step_relation fair
proof
  show "fair s s" for s :: "'a V2Client" by (simp add: fair_def spares_def)
  show "fair s u" if "fair s t" "fair t u" for s t u :: "'a V2Client"
    using that unfolding fair_def spares_def by (smt (verit, best))
qed

lemma releasePrefixes_ok:
  assumes "serviceOk s" "\<And>i ch. (i, ch) \<in> set chs \<Longrightarrow> ch_channelId ch = i"
  shows "serviceOk (releasePrefixes chs s) \<and> spares (fst ` set chs) s (releasePrefixes chs s)
    \<and> channelIdCounter (releasePrefixes chs s) = channelIdCounter s"
proof -
  have "serviceOk (foldl (\<lambda>s ch. releaseExtendedExtranoncePrefix (ch_channelId ch) s) s cs)
      \<and> spares (ch_channelId ` set cs) s (foldl (\<lambda>s ch. releaseExtendedExtranoncePrefix (ch_channelId ch) s) s cs)
      \<and> channelIdCounter (foldl (\<lambda>s ch. releaseExtendedExtranoncePrefix (ch_channelId ch) s) s cs) = channelIdCounter s" for cs
    using assms(1)
  proof (induction cs arbitrary: s)
    case (Cons ch cs)
    let ?s = "releaseExtendedExtranoncePrefix (ch_channelId ch) s"
    have m: "manager_inv (release (ch_channelId ch) (extranonceManager s))"
      "heldPrefix (release (ch_channelId ch) (extranonceManager s)) = (heldPrefix (extranonceManager s))(ch_channelId ch := None)"
      using release_ok Cons.prems by (simp_all add: serviceOk_def)
    have "prefixSize (release i m) = prefixSize m" "totalExtranonceSize (release i m) = totalExtranonceSize m" for i m
      by (simp_all add: release_def split: option.split)
    then have ok: "serviceOk ?s" "spares {ch_channelId ch} s ?s" "channelIdCounter ?s = channelIdCounter s"
      using Cons.prems m
      by (simp_all add: serviceOk_def spares_def releaseExtendedExtranoncePrefix_def getExtendedTotalExtranonceSize_def)
    show ?case
      using Cons.IH [OF ok(1)] ok by (auto simp: spares_def)
  qed (simp add: spares_def)
  from this [of "filter isExtended (map snd chs)"] have "serviceOk (releasePrefixes chs s) \<and> spares (ch_channelId ` set (filter isExtended (map snd chs))) s (releasePrefixes chs s)
      \<and> channelIdCounter (releasePrefixes chs s) = channelIdCounter s"
    by (simp only: releasePrefixes_def)
  moreover have "ch_channelId ` set (filter isExtended (map snd chs)) \<subseteq> fst ` set chs"
    using assms(2) by force
  ultimately show ?thesis using spares_mono by blast
qed

lemma kept_ids: "list_all2 (kept b) ps qs \<Longrightarrow> map fst qs = map fst ps"
  by (induction rule: list_all2_induct) (auto simp: kept_def)

lemma kept_back: "list_all2 (kept b) ps qs \<Longrightarrow> q \<in> set qs \<Longrightarrow> \<exists>p \<in> set ps. kept b p q"
  by (induction rule: list_all2_induct) auto

lemma kept_channelOk: "kept b (i, ch) (j, ch') \<Longrightarrow> channelOk s i ch \<Longrightarrow> channelOk s j ch'"
  by (auto simp: kept_def channelOk_def isExtended_def)

lemma kept_ok:
  assumes "list_all2 (kept b) ps qs" "\<forall>i ch. (i, ch) \<in> set ps \<longrightarrow> channelOk s i ch"
  shows "\<forall>i ch. (i, ch) \<in> set qs \<longrightarrow> channelOk s i ch"
  using kept_back [OF assms(1)] kept_channelOk assms(2) by (metis prod.collapse)

lemma calm_fair: "calm b c c' \<Longrightarrow> fair c c'"
proof -
  assume cl: "calm b c c'"
  show "fair c c'"
    unfolding fair_def
  proof
    assume wf: "v2_wf c"
    consider (keep) "list_all2 (kept b) (v2_channels c) (v2_channels c')" "v2_service c' = v2_service c"
      | (drop) "v2_channels c' = []" "v2_service c' = releasePrefixes (v2_channels c) (v2_service c)"
      using cl by (auto simp: calm_def)
    then show "v2_wf c' \<and> spares (channelIds c) (v2_service c) (v2_service c')
     \<and> (\<forall>i \<in> channelIds c'. i \<in> channelIds c \<or> channelIdCounter (v2_service c) \<le> i)"
    proof cases
      case keep
      then have ids: "channelIds c' = channelIds c"
        unfolding channelIds_def using kept_ids by (metis list.set_map)
      have "v2_wf c'"
        using keep wf kept_ids [OF keep(1)] kept_ok [OF keep(1)] by (simp add: v2_wf_def)
      then show ?thesis using ids keep by (simp add: spares_def)
    next
      case drop
      have "\<And>i ch. (i, ch) \<in> set (v2_channels c) \<Longrightarrow> ch_channelId ch = i"
        using wf by (auto simp: v2_wf_def channelOk_def)
      with releasePrefixes_ok [of "v2_service c" "v2_channels c"] wf drop show ?thesis
        by (simp add: v2_wf_def channelIds_def)
    qed
  qed
qed

lemma fa_calm: "ca.keeps b m \<Longrightarrow> fa.keeps m"
  unfolding ca.keeps_def fa.keeps_def using calm_fair by blast

section \<open>Every event keeps connections well-formed\<close>

lemma remember_ok: "channelOk s i ch \<Longrightarrow> channelOk s i (rememberSubmission key ch)"
  by (auto simp: channelOk_def rememberSubmission_def Let_def isExtended_def)

lemma in_map_entry: "(j, x) \<in> set (AList.map_entry i f ps) \<Longrightarrow> (j, x) \<in> set ps \<or> j = i \<and> (\<exists>y. (i, y) \<in> set ps \<and> x = f y)"
  by (induction ps) (auto split: if_splits)

lemma map_fst_map_entry: "map fst (AList.map_entry i f ps) = map fst ps"
  by (induction ps) auto

lemma fst_map_entry: "fst ` set (AList.map_entry i f ps) = fst ` set ps"
  using map_fst_map_entry [of i f ps] by (metis list.set_map)

lemma fa_remember: "fa.keeps (updChannel i (rememberSubmission key))"
  unfolding updChannel_def
proof (rule fa.keeps_modify)
  fix c :: "'a V2Client"
  let ?chs = "AList.map_entry i (rememberSubmission key) (v2_channels c)"
  have "v2_wf c \<Longrightarrow> (j, ch) \<in> set ?chs \<Longrightarrow> channelOk (v2_service c) j ch" for j ch
    using in_map_entry [of j ch i "rememberSubmission key" "v2_channels c"] remember_ok by (auto simp: v2_wf_def)
  then show "fair c (c\<lparr>v2_channels := ?chs\<rparr>)"
    by (auto simp: fair_def v2_wf_def spares_def channelIds_def map_fst_map_entry fst_map_entry)
qed

lemma ca_submitFoundBlock: "ca.keeps b (submitFoundBlock env jt blk)"
  unfolding submitFoundBlock_def Let_def by (intro calm_base ca_perform)

lemma ca_recordAcceptedShare: "ca.keeps b (recordAcceptedShare env d j jt blk sf work cand)"
  unfolding recordAcceptedShare_def v2_persistClientHashRate_def ratchetBestDifficulty_def Let_def
  by (intro calm_statements ca_submitFoundBlock) simp_all

lemma ca_handleAcceptedShare: "ca.keeps b (handleAcceptedShare env m p job jt judged d)"
  unfolding handleAcceptedShare_def by (intro calm_base ca_recordAcceptedShare)

lemma ca_creditExtended: "ca.keeps b (creditExtended env m ch job mr judged d)"
  unfolding creditExtended_def by (intro calm_base ca_recordAcceptedShare)

lemma ca_judgeStandard: "ca.keeps b (judgeStandard env m ch job jt mr)"
  unfolding judgeStandard_def Let_def
  by (intro calm_base ca_replies ca_updChannel ca_handleAcceptedShare) (simp add: kept_def)

lemma ca_judgeExtended: "ca.keeps b (judgeExtended env m ch job)"
  unfolding judgeExtended_def Let_def
  by (intro calm_base ca_replies ca_updChannel ca_creditExtended) (simp add: kept_def)

lemma ca_sendSetupError: "ca.keeps b (sendSetupError env flag code)"
  unfolding sendSetupError_def by (intro calm_statements)

lemma ca_handleSetupConnection: "ca.keeps b (handleSetupConnection env body)"
  unfolding handleSetupConnection_def Let_def by (intro calm_statements ca_sendSetupError) simp_all

lemma ca_handleSetCustomMiningJob: "ca.keeps b (handleSetCustomMiningJob env body)"
  unfolding handleSetCustomMiningJob_def acceptCustomJob_def lookupDeclared_def Let_def
  by (intro calm_statements ca_awaitTemplate) (simp_all add: kept_def)

lemma ca_handleUpdateChannel: "ca.keeps b (handleUpdateChannel env body)"
  unfolding handleUpdateChannel_def Let_def
  by (intro calm_statements ca_sendSetTarget) (simp_all add: kept_def)

lemma ca_handleRequestExtensions: "ca.keeps b (handleRequestExtensions env body)"
  unfolding handleRequestExtensions_def by (intro calm_statements)

lemma ca_checkDifficulty: "ca.keeps b (v2_checkDifficulty env)"
  unfolding v2_checkDifficulty_def retarget_def
  by (intro calm_statements ca_sendSetTarget ca_awaitTemplate ca_sendJobTo) (simp_all add: kept_def)

lemmas fa_statements = fa.keeps_intros fa_remember fa_calm [OF ca_parsed] fa_calm [OF ca_replies(2)]
  fa_calm [OF ca_judgeStandard] fa_calm [OF ca_judgeExtended]

lemma fa_handleSubmitSharesStandard: "fa.keeps (handleSubmitSharesStandard env body)"
  unfolding handleSubmitSharesStandard_def Let_def by (intro fa_statements)

lemma fa_handleSubmitSharesExtended: "fa.keeps (handleSubmitSharesExtended env body)"
  unfolding handleSubmitSharesExtended_def Let_def by (intro fa_statements)

text \<open>A channel is closed in two steps; between them its prefix is free but it is still there.\<close>

lemma closed_channel:
  assumes wf: "v2_wf c"
    and chs: "v2_channels c' = AList.delete i (v2_channels c)"
    and svc: "v2_service c' = (case map_of (v2_channels c) i of None \<Rightarrow> v2_service c
      | Some ch \<Rightarrow> if isExtended ch then releaseExtendedExtranoncePrefix i (v2_service c) else v2_service c)"
  shows "fair c c'"
proof -
  let ?r = "releaseExtendedExtranoncePrefix i (v2_service c)"
  have own: "ch_channelId ch = j" if "(j, ch) \<in> set (v2_channels c)" for j ch
    using wf that by (auto simp: v2_wf_def channelOk_def)
  have m: "manager_inv (extranonceManager (v2_service c))" using wf by (simp add: v2_wf_def serviceOk_def)
  note rel = release_ok [OF m, of i]
  have size: "prefixSize (release i m) = prefixSize m" "totalExtranonceSize (release i m) = totalExtranonceSize m" for i m
    by (simp_all add: release_def split: option.split)
  have r: "serviceOk ?r" "spares {i} (v2_service c) ?r" "channelIdCounter ?r = channelIdCounter (v2_service c)"
    "\<And>j ch. j \<noteq> i \<Longrightarrow> channelOk (v2_service c) j ch \<Longrightarrow> channelOk ?r j ch"
    using wf rel size
    by (simp_all add: v2_wf_def serviceOk_def spares_def releaseExtendedExtranoncePrefix_def
        getExtendedTotalExtranonceSize_def channelOk_def)
  have del: "set (AList.delete i (v2_channels c)) \<subseteq> {p \<in> set (v2_channels c). fst p \<noteq> i}"
    by (auto simp: AList.delete_eq)
  have dist: "distinct (map fst (AList.delete i (v2_channels c)))"
    using wf by (simp add: v2_wf_def distinct_delete)
  have ids: "channelIds c' \<subseteq> channelIds c" using del chs by (auto simp: channelIds_def)
  show ?thesis
  proof (cases "v2_service c' = v2_service c")
    case True
    have "v2_wf c'" using wf chs del dist True by (auto simp: v2_wf_def)
    then show ?thesis using ids True by (auto simp: fair_def spares_def)
  next
    case False
    then obtain ch where "map_of (v2_channels c) i = Some ch" and s: "v2_service c' = ?r"
      using svc by (auto split: option.splits if_splits)
    then have "i \<in> channelIds c" by (force dest: map_of_SomeD simp: channelIds_def)
    moreover have "v2_wf c'" using wf chs del dist s r by (auto simp: v2_wf_def)
    ultimately show ?thesis using ids s r(2) spares_mono [OF r(2), of "channelIds c"] by (auto simp: fair_def)
  qed
qed

lemma fa_handleCloseChannel: "fa.keeps (handleCloseChannel env body)"
proof -
  have close: "fair c (snd (andThen (withChannel i (\<lambda>channel. if isExtended channel
           then modify (\<lambda>c. c\<lparr>v2_service := releaseExtendedExtranoncePrefix i (v2_service c)\<rparr>)
           else ret ())) (\<lambda>_.
         andThen (modify (\<lambda>c. c\<lparr>v2_channels := AList.delete i (v2_channels c)\<rparr>)) k) c))"
    if k: "\<And>u. fa.keeps (k u)" for i and k :: "unit \<Rightarrow> ('c, unit) v2" and c :: "'c V2Client"
  proof (cases "v2_wf c")
    case True
    let ?c = "c\<lparr>v2_service := (case map_of (v2_channels c) i of
         None \<Rightarrow> v2_service c
       | Some ch \<Rightarrow> if isExtended ch then releaseExtendedExtranoncePrefix i (v2_service c) else v2_service c),
       v2_channels := AList.delete i (v2_channels c)\<rparr>"
    have run: "andThen (withChannel i (\<lambda>channel. if isExtended channel
           then modify (\<lambda>c. c\<lparr>v2_service := releaseExtendedExtranoncePrefix i (v2_service c)\<rparr>)
           else ret ())) (\<lambda>_. andThen (modify (\<lambda>c. c\<lparr>v2_channels := AList.delete i (v2_channels c)\<rparr>)) k) c = k () ?c"
      by (cases "map_of (v2_channels c) i") (auto simp: withChannel_def andThen_def)
    have "fair c ?c" by (rule closed_channel [OF True]) simp_all
    moreover have "fair ?c (snd (k () ?c))" using k by (simp add: fa.keeps_def)
    ultimately show ?thesis unfolding run by (rule fa.R_trans)
  qed (simp add: fair_def)
  have closed: "fa.keeps (andThen (withChannel i (\<lambda>channel. if isExtended channel
           then modify (\<lambda>c. c\<lparr>v2_service := releaseExtendedExtranoncePrefix i (v2_service c)\<rparr>)
           else ret ())) (\<lambda>_.
         andThen (modify (\<lambda>c. c\<lparr>v2_channels := AList.delete i (v2_channels c)\<rparr>)) k))"
    if "\<And>u. fa.keeps (k u)" for i and k :: "unit \<Rightarrow> ('c, unit) v2"
    by (simp only: fa.keeps_def, rule allI, rule close [OF that])
  show ?thesis
    unfolding handleCloseChannel_def Let_def
    by (rule fa.keeps_andThen [OF fa_calm [OF ca_parsed]], rule closed, rule fa_calm)
      (intro calm_intros ca_closeSocket, auto)
qed

text \<open>A new channel is registered when it is well-formed with the service, under an identifier that is new.\<close>

lemma in_update: "(j, x) \<in> set (AList.update i y ps) \<Longrightarrow> (j, x) = (i, y) \<or> (j, x) \<in> set ps"
  by (induction ps) (auto split: if_splits)

lemma spared_ok: "spares {} s s' \<Longrightarrow> channelOk s i ch \<Longrightarrow> channelOk s' i ch"
  by (auto simp: spares_def channelOk_def)

lemma only_service:
  assumes "v2_wf c \<Longrightarrow> serviceOk (v2_service c') \<and> spares {} (v2_service c) (v2_service c')"
    and "v2_channels c' = v2_channels c"
  shows "fair c c'"
proof -
  have "v2_wf c \<Longrightarrow> v2_wf c'"
    using assms spared_ok unfolding v2_wf_def by auto
  then show ?thesis
    using assms spares_mono [of "{}"] by (auto simp: fair_def channelIds_def)
qed

lemma registered:
  assumes "v2_wf c \<Longrightarrow> serviceOk (v2_service c') \<and> spares {} (v2_service c) (v2_service c') \<and> channelOk (v2_service c') i ch"
    and "v2_channels c' = AList.update i ch (v2_channels c)" "channelIdCounter (v2_service c) \<le> i"
  shows "fair c c'"
proof -
  have ids: "j \<in> channelIds c' \<Longrightarrow> j \<in> channelIds c \<or> j = i" for j
    using assms(2) in_update [of j _ i ch "v2_channels c"] by (force simp: channelIds_def)
  have "v2_wf c'" if wf: "v2_wf c"
  proof -
    have "channelOk (v2_service c') j x" if "(j, x) \<in> set (v2_channels c')" for j x
      using in_update [of j x i ch "v2_channels c"] that assms(2) assms(1) [OF wf] wf spared_ok
      by (auto simp: v2_wf_def)
    then show ?thesis
      using assms(1) [OF wf] assms(2) wf by (auto simp: v2_wf_def distinct_update)
  qed
  then show ?thesis
    using assms(1,3) ids spares_mono [of "{}"] by (auto simp: fair_def)
qed

lemma opened:
  assumes "v2_wf c \<Longrightarrow> serviceOk (v2_service c') \<and> spares {} (v2_service c) (v2_service c') \<and> channelOk (v2_service c') i ch"
    and "v2_channels c' = v2_channels c" "channelIdCounter (v2_service c) \<le> i" "ch_channelId ch = i" "fa.keeps m"
  shows "fair c (snd (andThen (registerChannel env ch) (\<lambda>_. m) c'))"
proof -
  let ?c = "c'\<lparr>v2_sessionDifficulty := ch_sessionDifficulty ch, v2_channels := AList.update i ch (v2_channels c'),
        v2_primaryChannelId := (case v2_primaryChannelId c' of None \<Rightarrow> Some i | Some j \<Rightarrow> Some j)\<rparr>"
  have run: "andThen (registerChannel env ch) (\<lambda>_. m) c'
      = andThen (v2_ensureClientEntity env) (\<lambda>_. andThen (v2_emit V2_IdleTimeoutOff) (\<lambda>_. m)) ?c"
    unfolding assms(4) [symmetric] by (simp add: registerChannel_def andThen_assoc)
  have "fair c ?c" using assms(1-3) by (intro registered) simp_all
  have keep: "fa.keeps (andThen (v2_ensureClientEntity env) (\<lambda>_. andThen (v2_emit V2_IdleTimeoutOff) (\<lambda>_. m)))"
    by (intro fa.keeps_andThen fa_calm [OF ca_ensureClientEntity] fa_calm [OF ca_emit] assms(5))
  have "fair ?c (snd (andThen (v2_ensureClientEntity env) (\<lambda>_. andThen (v2_emit V2_IdleTimeoutOff) (\<lambda>_. m)) ?c))"
    by (rule keep [unfolded fa.keeps_def, rule_format])
  with \<open>fair c ?c\<close> show ?thesis unfolding run by (rule fa.R_trans)
qed

lemma takeChannelId_run:
  "andThen takeChannelId f c = f (channelIdCounter (v2_service c))
     (c\<lparr>v2_service := (v2_service c)\<lparr>channelIdCounter := channelIdCounter (v2_service c) + 1\<rparr>\<rparr>)"
  by (simp add: takeChannelId_def getNextChannelId_def andThen_assoc)

lemma counted_service: "serviceOk s \<Longrightarrow> serviceOk (s\<lparr>channelIdCounter := channelIdCounter s + 1\<rparr>)
    \<and> spares {} s (s\<lparr>channelIdCounter := channelIdCounter s + 1\<rparr>)"
  by (simp add: serviceOk_def spares_def getExtendedTotalExtranonceSize_def)

lemma fa_admitChannel: "(\<And>b. fa.keeps (f b)) \<Longrightarrow> fa.keeps (admitChannel env i u t f)"
  unfolding admitChannel_def
  by (intro fa.keeps_intros fa_calm [OF ca_closeSocket] fa_calm [OF ca_replies(1)] fa_calm [OF ca_modify] | simp)+

lemma fa_handleOpenStandardMiningChannel: "fa.keeps (handleOpenStandardMiningChannel env body)"
proof -
  have "fair c (snd (andThen takeChannelId (\<lambda>channelId.
         andThen (readState id) (\<lambda>c.
          andThen (lift (f c)) (\<lambda>difficulty.
             andThen (registerChannel env (newChannel channelId standard_channel (g c) size difficulty maxTarget)) (\<lambda>_.
             k channelId c difficulty)))) c))"
    if k: "\<And>i c d. fa.keeps (k i c d)" for f g size maxTarget k and c :: "'c V2Client" and env :: "'c v2_env"
  proof -
    let ?c = "c\<lparr>v2_service := (v2_service c)\<lparr>channelIdCounter := channelIdCounter (v2_service c) + 1\<rparr>\<rparr>"
    have ok: "v2_wf c \<Longrightarrow> serviceOk (v2_service ?c) \<and> spares {} (v2_service c) (v2_service ?c)"
      using counted_service by (simp add: v2_wf_def)
    show ?thesis
    proof (cases "f ?c")
      case (Inl e)
      have "fair c ?c" by (rule only_service [OF ok]) simp_all
      then show ?thesis using Inl by (simp add: takeChannelId_run)
    next
      case (Inr d)
      have "fair c (snd (andThen (registerChannel env
          (newChannel (channelIdCounter (v2_service c)) standard_channel (g ?c) size d maxTarget))
          (\<lambda>_. k (channelIdCounter (v2_service c)) ?c d) ?c))"
        using ok by (intro opened [OF _ _ _ _ k]) (simp_all add: newChannel_def channelOk_def isExtended_def)
      then show ?thesis using Inr by (simp add: takeChannelId_run)
    qed
  qed
  then have step: "fa.keeps (andThen takeChannelId (\<lambda>channelId.
         andThen (readState id) (\<lambda>c.
          andThen (lift (f c)) (\<lambda>difficulty.
             andThen (registerChannel env (newChannel channelId standard_channel (g c) size difficulty maxTarget)) (\<lambda>_.
             k channelId c difficulty)))))"
    if "\<And>i c d. fa.keeps (k i c d)" for f g size maxTarget k and env :: "'c v2_env"
    using that unfolding fa.keeps_def by blast
  show ?thesis
    unfolding handleOpenStandardMiningChannel_def Let_def
    by (rule fa.keeps_andThen [OF fa_calm [OF ca_parsed]], rule fa_admitChannel, rule step)
      (intro fa.keeps_intros fa_calm [OF ca_sendMessage] fa_calm [OF ca_startWork [of _ False]] ca_sendNewMiningJob, simp)
qed

text \<open>An allocated prefix is held for the new identifier; it is given back when the extranonce does not fit.\<close>

lemma allocated:
  assumes "serviceOk s" "allocateExtendedExtranoncePrefix i s = Inr (p, s')"
  shows "serviceOk s' \<and> channelIdCounter s' = channelIdCounter s
    \<and> getExtendedTotalExtranonceSize s' = getExtendedTotalExtranonceSize s
    \<and> heldPrefix (extranonceManager s') = (heldPrefix (extranonceManager s))(i \<mapsto> p)
    \<and> int (length p) \<le> getExtendedTotalExtranonceSize s'"
proof -
  obtain m where a: "allocate i (extranonceManager s) = Inr (p, m)" and s': "s' = s\<lparr>extranonceManager := m\<rparr>"
    using assms(2) by (auto simp: allocateExtendedExtranoncePrefix_def rmap_Inr_iff)
  have inv: "manager_inv (extranonceManager s)" using assms(1) by (simp add: serviceOk_def)
  have size: "prefixSize m = prefixSize (extranonceManager s)" "totalExtranonceSize m = totalExtranonceSize (extranonceManager s)"
    using a by (auto simp: allocate_def Let_def rmap_Inr_iff split: option.splits if_splits)
  note ok = allocate_ok [OF inv a]
  have "length p = prefixSize m" using heldPrefix_length [of m i p] ok by simp
  then show ?thesis
    using ok assms(1) size by (simp add: s' serviceOk_def getExtendedTotalExtranonceSize_def)
qed

lemma fa_handleOpenExtendedMiningChannel: "fa.keeps (handleOpenExtendedMiningChannel env body)"
proof -
  let ?size = "\<lambda>service noncePrefix least. max (min (getExtendedMinerExtranonceSize service)
      (max 0 (getExtendedTotalExtranonceSize service - int (length noncePrefix)))) (max 0 least)"
  have "fair c (snd (andThen takeChannelId (\<lambda>channelId.
         andThen (readState v2_service) (\<lambda>service.
         andThen (lift (allocateExtendedExtranoncePrefix channelId service)) (\<lambda>(noncePrefix, service).
         andThen (modify (\<lambda>c. c\<lparr>v2_service := service\<rparr>)) (\<lambda>_.
           if ?size service noncePrefix least > max 0 (getExtendedTotalExtranonceSize service - int (length noncePrefix))
           then andThen (modify (\<lambda>c. c\<lparr>v2_service := releaseExtendedExtranoncePrefix channelId (v2_service c)\<rparr>)) (\<lambda>_. e)
           else
             andThen (readState id) (\<lambda>c.
             andThen (lift (f c)) (\<lambda>difficulty.
             andThen (registerChannel env (newChannel channelId extended_channel noncePrefix
                (?size service noncePrefix least) difficulty maxTarget)) (\<lambda>_.
             k channelId noncePrefix service c difficulty))))))) c))"
    if k: "\<And>i p s c d. fa.keeps (k i p s c d)" and e: "fa.keeps e"
    for f least maxTarget k e and c :: "'c V2Client" and env :: "'c v2_env"
  proof -
    let ?i = "channelIdCounter (v2_service c)"
    let ?s = "(v2_service c)\<lparr>channelIdCounter := ?i + 1\<rparr>"
    have ok: "serviceOk ?s \<and> spares {} (v2_service c) ?s" if "v2_wf c"
      using counted_service that by (simp add: v2_wf_def)
    show ?thesis
    proof (cases "allocateExtendedExtranoncePrefix ?i ?s")
      case (Inl x)
      have "fair c (c\<lparr>v2_service := ?s\<rparr>)" using ok by (intro only_service) simp_all
      then show ?thesis using Inl by (simp add: takeChannelId_run)
    next
      case (Inr ps)
      obtain p s where ps: "ps = (p, s)" by (cases ps)
      let ?n = "?size s p least" and ?max = "max 0 (getExtendedTotalExtranonceSize s - int (length p))"
      have al: "serviceOk s" "channelIdCounter s = ?i + 1" "getExtendedTotalExtranonceSize s = getExtendedTotalExtranonceSize (v2_service c)"
        "heldPrefix (extranonceManager s) = (heldPrefix (extranonceManager (v2_service c)))(?i \<mapsto> p)"
        "int (length p) \<le> getExtendedTotalExtranonceSize s" if "v2_wf c"
        using allocated [of ?s ?i p s] ok [OF that] Inr ps
        by (simp_all add: getExtendedTotalExtranonceSize_def)
      then have sp: "spares {} (v2_service c) s" if "v2_wf c" using that by (auto simp: spares_def)
      show ?thesis
      proof (cases "?n > ?max")
        case True
        let ?r = "releaseExtendedExtranoncePrefix ?i s"
        have "serviceOk ?r \<and> spares {} (v2_service c) ?r" if wf: "v2_wf c"
        proof -
          have m: "manager_inv (extranonceManager s)" using al(1) [OF wf] by (simp add: serviceOk_def)
          have "prefixSize (release i m) = prefixSize m" "totalExtranonceSize (release i m) = totalExtranonceSize m" for i m
            by (simp_all add: release_def split: option.split)
          then show ?thesis
            using release_ok [OF m, of ?i] al [OF wf]
            by (simp add: serviceOk_def spares_def releaseExtendedExtranoncePrefix_def getExtendedTotalExtranonceSize_def)
        qed
        then have "fair c (c\<lparr>v2_service := ?r\<rparr>)" by (intro only_service) simp_all
        moreover have "fair (c\<lparr>v2_service := ?r\<rparr>) (snd (e (c\<lparr>v2_service := ?r\<rparr>)))" using e by (simp add: fa.keeps_def)
        ultimately have "fair c (snd (e (c\<lparr>v2_service := ?r\<rparr>)))" by (rule fa.R_trans)
        then show ?thesis using Inr ps True by (simp add: takeChannelId_run)
      next
        case False
        let ?c = "c\<lparr>v2_service := s\<rparr>"
        show ?thesis
        proof (cases "f ?c")
          case (Inl x)
          have "fair c ?c" using al(1) sp by (intro only_service) simp_all
          then show ?thesis
            using \<open>allocateExtendedExtranoncePrefix ?i ?s = Inr ps\<close> ps False Inl by (auto simp: takeChannelId_run)
        next
          case (Inr d)
          let ?ch = "newChannel ?i extended_channel p ?n d maxTarget"
          have "channelOk s ?i ?ch" if "v2_wf c"
            using al [OF that] False by (simp add: channelOk_def newChannel_def isExtended_def)
          then have "fair c (snd (andThen (registerChannel env ?ch) (\<lambda>_. k ?i p s ?c d) ?c))"
            using al(1) sp by (intro opened [OF _ _ _ _ k]) (simp_all add: newChannel_def)
          then show ?thesis
            using \<open>allocateExtendedExtranoncePrefix ?i ?s = Inr ps\<close> ps False Inr by (auto simp: takeChannelId_run)
        qed
      qed
    qed
  qed
  then have step: "fa.keeps (andThen takeChannelId (\<lambda>channelId.
         andThen (readState v2_service) (\<lambda>service.
         andThen (lift (allocateExtendedExtranoncePrefix channelId service)) (\<lambda>(noncePrefix, service).
         andThen (modify (\<lambda>c. c\<lparr>v2_service := service\<rparr>)) (\<lambda>_.
           if ?size service noncePrefix least > max 0 (getExtendedTotalExtranonceSize service - int (length noncePrefix))
           then andThen (modify (\<lambda>c. c\<lparr>v2_service := releaseExtendedExtranoncePrefix channelId (v2_service c)\<rparr>)) (\<lambda>_. e)
           else
             andThen (readState id) (\<lambda>c.
             andThen (lift (f c)) (\<lambda>difficulty.
             andThen (registerChannel env (newChannel channelId extended_channel noncePrefix
                (?size service noncePrefix least) difficulty maxTarget)) (\<lambda>_.
             k channelId noncePrefix service c difficulty))))))))"
    if "\<And>i p s c d. fa.keeps (k i p s c d)" "fa.keeps e" for f least maxTarget k e and env :: "'c v2_env"
    using that unfolding fa.keeps_def by blast
  show ?thesis
    unfolding handleOpenExtendedMiningChannel_def Let_def
    by (rule fa.keeps_andThen [OF fa_calm [OF ca_parsed]], rule fa_admitChannel, rule step)
      (intro fa.keeps_intros fa_calm [OF ca_sendMessage] fa_calm [OF ca_startWork [of _ False]]
        ca_sendNewExtendedMiningJob, simp, rule fa_calm [OF ca_replies(1)])
qed

lemma fa_handleFrame: "fa.keeps (handleFrame env ty ext body)"
  unfolding handleFrame_def
  by (intro fa.keeps_if fa_handleOpenStandardMiningChannel fa_handleOpenExtendedMiningChannel
      fa_handleSubmitSharesStandard fa_handleSubmitSharesExtended fa_handleCloseChannel
      fa_calm [OF ca_handleRequestExtensions] fa_calm [OF ca_handleSetupConnection]
      fa_calm [OF ca_handleSetCustomMiningJob] fa_calm [OF ca_handleUpdateChannel] fa.keeps_prims)

lemma fa_handleEncryptedData: "fa.keeps (handleEncryptedData env data)"
  unfolding handleEncryptedData_def
  by (intro fa.keeps_intros fa_handleFrame fa_calm [OF ca_modify]) simp

lemma fa_orClose: "fa.keeps m \<Longrightarrow> fa.keeps (orClose m)"
  unfolding orClose_def by (intro fa.keeps_intros fa_calm [OF ca_closeSocket])

lemma fa_handleSocketData: "fa.keeps (v2_handleSocketData env data)"
  unfolding v2_handleSocketData_def handleHandshakeData_def
  by (intro fa.keeps_intros fa_orClose fa_handleEncryptedData fa_calm [OF ca_modify]) simp_all

lemma fa_resumeHandshake: "fa.keeps (resumeHandshake env)"
  unfolding resumeHandshake_def finishHandshake_def
  by (intro fa.keeps_intros fa_orClose fa_handleEncryptedData fa_calm [OF ca_modify] fa_calm [OF ca_writeRaw]) simp_all

lemma fa_run: "fa.keeps m \<Longrightarrow> fair c (snd (m c))"
  by (simp add: fa.keeps_def)

definition ownEvent :: "v2_event \<Rightarrow> bool" where
  "ownEvent ev = (case ev of V2_Shared _ _ _ \<Rightarrow> False | _ \<Rightarrow> True)"

lemma fair_event: "ownEvent ev \<Longrightarrow> fair c (v2_handleEvent env ev c)"
proof (cases ev)
  case V2_Closed
  have "fair c (c\<lparr>v2_socketDestroyed := True\<rparr>)" by (rule calm_fair [of True]) (simp add: calm_def)
  moreover have "fair (c\<lparr>v2_socketDestroyed := True\<rparr>) (snd (v2_destroy (c\<lparr>v2_socketDestroyed := True\<rparr>)))"
    by (rule fa_run [OF fa_calm [OF ca_destroy]])
  ultimately show ?thesis using V2_Closed fa.R_trans by (simp add: v2_handleEvent_def)
next
  case V2_TimedOut
  have "fa.keeps (andThen v2_destroy (\<lambda>_. v2_destroySocket))"
    by (intro fa.keeps_andThen fa_calm [OF ca_destroy] fa_calm [OF ca_destroySocket])
  then show ?thesis using V2_TimedOut fa_run by (simp add: v2_handleEvent_def)
next
  case (V2_NewTemplate t)
  have "fa.keeps (v2_onNewMiningJob env t)" by (intro fa_calm [OF ca_onNewMiningJob [of _ False]]) simp
  from fa_run [OF this] show ?thesis using V2_NewTemplate by (simp add: v2_handleEvent_def fa.R_refl)
next
  case V2_JobsFailed
  then show ?thesis by (simp add: v2_handleEvent_def fa_run [OF fa_calm [OF ca_closeSocket]] fa.R_refl)
next
  case V2_Interval
  then show ?thesis by (simp add: v2_handleEvent_def fa_run [OF fa_calm [OF ca_checkDifficulty]] fa.R_refl)
next
  case (V2_SocketData data)
  then show ?thesis by (simp add: v2_handleEvent_def fa_run [OF fa_handleSocketData])
next
  case V2_HandshakeReady
  then show ?thesis by (simp add: v2_handleEvent_def fa_run [OF fa_resumeHandshake])
qed (simp_all add: ownEvent_def)

section \<open>All connections of the pool\<close>

text \<open>
  The connections share their services: what one of them does to a service is what the others find. The
  jobs service and the registry of declared jobs also change on their own.
\<close>

definition shareServices :: "Sv2Service \<Rightarrow> JobsService \<Rightarrow> JobRegistry \<Rightarrow> 'c V2Client list \<Rightarrow> 'c V2Client list" where
  "shareServices s js reg = map (\<lambda>c. c\<lparr>v2_service := s, v2_jobsService := js, v2_registry := reg\<rparr>)"

text \<open>Connection \<open>k\<close> handles an event of its own.\<close>

definition poolEvent :: "'c v2_env \<Rightarrow> nat \<Rightarrow> v2_event \<Rightarrow> 'c V2Client list \<Rightarrow> 'c V2Client list" where
  "poolEvent env k ev cs =
     (let c = v2_handleEvent env ev (cs ! k)
      in shareServices (v2_service c) (v2_jobsService c) (v2_registry c) (cs[k := c]))"

definition poolOk :: "Sv2Service \<Rightarrow> 'c V2Client list \<Rightarrow> bool" where
  "poolOk s cs \<longleftrightarrow> serviceOk s \<and> (\<forall>c \<in> set cs. v2_wf c \<and> v2_service c = s)
     \<and> (\<forall>k l. k < length cs \<longrightarrow> l < length cs \<longrightarrow> k \<noteq> l \<longrightarrow> channelIds (cs ! k) \<inter> channelIds (cs ! l) = {})"

inductive v2_pool :: "Sv2Service \<Rightarrow> 'c V2Client list \<Rightarrow> bool" where
  start: "v2_pool newSv2Service []"
| connect: "v2_pool s cs \<Longrightarrow> newV2Client env mode sessionId noCipher s js reg = Inr c \<Longrightarrow> v2_pool s (cs @ [c])"
| event: "v2_pool s cs \<Longrightarrow> k < length cs \<Longrightarrow> ownEvent ev \<Longrightarrow>
    v2_pool (v2_service (v2_handleEvent env ev (cs ! k))) (poolEvent env k ev cs)"
| work: "v2_pool s cs \<Longrightarrow> v2_pool s (shareServices s js reg cs)"

lemma shared_wf: "serviceOk s \<Longrightarrow> (\<And>i ch. (i, ch) \<in> set (v2_channels c) \<Longrightarrow> channelOk s i ch)
    \<Longrightarrow> v2_wf c \<Longrightarrow> v2_wf (c\<lparr>v2_service := s, v2_jobsService := js, v2_registry := reg\<rparr>)"
  by (simp add: v2_wf_def)

lemma poolOk_event:
  assumes ok: "poolOk s cs" and k: "k < length cs" "ownEvent ev"
  shows "poolOk (v2_service (v2_handleEvent env ev (cs ! k))) (poolEvent env k ev cs)"
proof -
  let ?c = "v2_handleEvent env ev (cs ! k)" and ?cs = "poolEvent env k ev cs"
  have wf: "v2_wf (cs ! l)" "v2_service (cs ! l) = s" if "l < length cs" for l
    using ok that by (auto simp: poolOk_def)
  have f: "v2_wf ?c" "spares (channelIds (cs ! k)) s (v2_service ?c)"
    "\<And>i. i \<in> channelIds ?c \<Longrightarrow> i \<in> channelIds (cs ! k) \<or> channelIdCounter s \<le> i"
    using fair_event [OF k(2), of "cs ! k" env] wf [OF k(1)] by (auto simp: fair_def)
  have len: "length ?cs = length cs" by (simp add: poolEvent_def shareServices_def Let_def)
  have at: "?cs ! l = (if l = k then ?c else cs ! l)\<lparr>v2_service := v2_service ?c, v2_jobsService := v2_jobsService ?c,
      v2_registry := v2_registry ?c\<rparr>" if "l < length cs" for l
    using that k(1) by (simp add: poolEvent_def shareServices_def Let_def nth_list_update)
  have ids: "channelIds (?cs ! l) = (if l = k then channelIds ?c else channelIds (cs ! l))" if "l < length cs" for l
    using at [OF that] by (simp add: channelIds_def)
  have old: "i < channelIdCounter s" if "l < length cs" "i \<in> channelIds (cs ! l)" for l i
    using wf [OF that(1)] that(2) by (auto simp: v2_wf_def channelOk_def channelIds_def)
  have apart: "channelIds (cs ! k) \<inter> channelIds (cs ! l) = {}" if "l < length cs" "l \<noteq> k" for l
    using ok that k(1) by (auto simp: poolOk_def)
  have sv: "serviceOk (v2_service ?c)" using f(1) by (simp add: v2_wf_def)
  have one: "v2_wf (?cs ! l)" if l: "l < length cs" for l
  proof (cases "l = k")
    case True
    have "v2_wf (?c\<lparr>v2_service := v2_service ?c, v2_jobsService := v2_jobsService ?c, v2_registry := v2_registry ?c\<rparr>)"
      using f(1) by (simp add: v2_wf_def)
    then show ?thesis using at [OF l] True by simp
  next
    case False
    have "channelOk (v2_service ?c) i ch" if "(i, ch) \<in> set (v2_channels (cs ! l))" for i ch
    proof -
      have o: "channelOk s i ch" using wf [OF l] that by (auto simp: v2_wf_def)
      have i: "i \<in> channelIds (cs ! l)" using that by (force simp: channelIds_def)
      then have "i \<notin> channelIds (cs ! k)" using apart [OF l False] by auto
      then show ?thesis using o f(2) old [OF l i] by (auto simp: channelOk_def spares_def)
    qed
    then show ?thesis using at [OF l] False shared_wf [OF sv _ wf(1) [OF l]] by simp
  qed
  have cut: "channelIds (?cs ! m) \<inter> channelIds (?cs ! l) = {}" if "m < length cs" "l < length cs" "m \<noteq> l" for m l
  proof -
    have no: "i \<notin> channelIds ?c" if "l < length cs" "l \<noteq> k" "i \<in> channelIds (cs ! l)" for i l
      using f(3) [of i] old [OF that(1,3)] apart [OF that(1,2)] that(3) by auto
    show ?thesis
      using ids that no ok by (auto simp: poolOk_def)
  qed
  show ?thesis
    unfolding poolOk_def
  proof (intro conjI ballI allI impI)
    fix c assume "c \<in> set ?cs"
    then obtain l where l: "l < length cs" "c = ?cs ! l" by (metis in_set_conv_nth len)
    show "v2_wf c" using one l by simp
    show "v2_service c = v2_service ?c" using l at by simp
  qed (use sv cut len in simp_all)
qed

lemma poolOk_work: "poolOk s cs \<Longrightarrow> poolOk s (shareServices s js reg cs)"
proof -
  assume ok: "poolOk s cs"
  have "v2_wf (c\<lparr>v2_service := s, v2_jobsService := js, v2_registry := reg\<rparr>)" if "c \<in> set cs" for c
    using ok that by (auto simp: poolOk_def v2_wf_def)
  moreover have "channelIds (c\<lparr>v2_service := s, v2_jobsService := js, v2_registry := reg\<rparr>) = channelIds c" for c :: "'a V2Client"
    by (simp add: channelIds_def)
  ultimately show ?thesis using ok by (auto simp: poolOk_def shareServices_def)
qed

lemma poolOk_connect: "poolOk s cs \<Longrightarrow> newV2Client env mode sessionId noCipher s js reg = Inr c \<Longrightarrow> poolOk s (cs @ [c])"
  by (auto simp: poolOk_def newV2Client_def Let_def v2_wf_def channelIds_def nth_append less_Suc_eq split: if_splits)

lemma newSv2Service_ok: "serviceOk newSv2Service"
  using newExtranonceManager_inv [of 4 14]
  by (simp add: serviceOk_def newSv2Service_def SV2_EXTENDED_TOTAL_EXTRANONCE_SIZE_BYTES_def newExtranonceManager_def Let_def)

lemma v2_pool_ok: "v2_pool s cs \<Longrightarrow> poolOk s cs"
proof (induction rule: v2_pool.induct)
  case start
  show ?case by (simp add: poolOk_def newSv2Service_ok)
qed (simp_all add: poolOk_event poolOk_work poolOk_connect)

text \<open>What the prefixes of two channels of well-formed connections have to do with each other.\<close>

lemma prefixes_apart:
  assumes ok: "poolOk s cs" and k: "k < length cs" "l < length cs" "k \<noteq> l \<or> i \<noteq> j"
    and ch: "map_of (v2_channels (cs ! k)) i = Some ch" "isExtended ch"
    and ch': "map_of (v2_channels (cs ! l)) j = Some ch'" "isExtended ch'"
  shows "ch_extranoncePrefix ch \<noteq> ch_extranoncePrefix ch'"
proof
  assume same: "ch_extranoncePrefix ch = ch_extranoncePrefix ch'"
  have wf: "v2_wf (cs ! m)" "v2_service (cs ! m) = s" if "m < length cs" for m
    using ok that by (auto simp: poolOk_def)
  have "heldPrefix (extranonceManager s) i = Some (ch_extranoncePrefix ch)"
    using wf [OF k(1)] ch map_of_SomeD [OF ch(1)] by (auto simp: v2_wf_def channelOk_def)
  moreover have "heldPrefix (extranonceManager s) j = Some (ch_extranoncePrefix ch)"
    using wf [OF k(2)] ch' same map_of_SomeD [OF ch'(1)] by (auto simp: v2_wf_def channelOk_def)
  moreover have "manager_inv (extranonceManager s)" using ok by (simp add: poolOk_def serviceOk_def)
  ultimately have ij: "i = j" by (metis held_exclusive)
  then have "k \<noteq> l" using k(3) by simp
  then have "channelIds (cs ! k) \<inter> channelIds (cs ! l) = {}" using ok k by (auto simp: poolOk_def)
  moreover have "i \<in> channelIds (cs ! k)" "j \<in> channelIds (cs ! l)"
    using map_of_SomeD [OF ch(1)] map_of_SomeD [OF ch'(1)] by (force simp: channelIds_def)+
  ultimately show False using ij by blast
qed

section \<open>Two connections\<close>

definition minerNet :: "nat v2_env" where
  "minerNet = minerEnv\<lparr>ve_pool := minerPool\<lparr>env_config := (\<lambda>_. Some (jstr ''mainnet''))\<rparr>\<rparr>"

definition twoService :: Sv2Service where
  "twoService = newSv2Service\<lparr>channelIdCounter := 3, extranonceManager := (newExtranonceManager 4 14)
     \<lparr>nextPrefix := 3, allocatedPrefixes := [(1, 1), (2, 2)], usedPrefixes := {1, 2}\<rparr>\<rparr>"

definition twoConnections :: "nat V2Client list" where
  "twoConnections = map (\<lambda>i. minerConnection\<lparr>v2_difficultyTimer := False, v2_service := twoService,
     v2_channels := [(i, newChannel i extended_channel [0, 0, 0, word_of_int i] 10 (Num 16) (replicate 32 255))]\<rparr>) [1, 2]"

lemma twoService_ok: "serviceOk twoService"
proof -
  have m: "extranonceManager twoService = (newExtranonceManager 4 14)
     \<lparr>nextPrefix := 3, allocatedPrefixes := [(1, 1), (2, 2)], usedPrefixes := {1, 2}\<rparr>"
    by (simp add: twoService_def)
  have n: "newExtranonceManager 4 14 = \<lparr>nextPrefix = 1, workerOffset = 0, maxPrefix = 2 ^ ((4 - 1) * 8) - 1,
      allocatedPrefixes = [], usedPrefixes = {}, prefixSize = 4, totalExtranonceSize = 14\<rparr>"
    by (simp add: newExtranonceManager_def Let_def)
  obtain mx :: nat where mx: "mx = 2 ^ ((4 - 1) * 8) - 1" "3 \<le> mx" by simp
  show ?thesis
    unfolding serviceOk_def manager_inv_def m n mx(1) [symmetric] using mx by simp
qed

lemma twoService_held:
  "heldPrefix (extranonceManager twoService) 1 = Some [0, 0, 0, 1]"
  "heldPrefix (extranonceManager twoService) 2 = Some [0, 0, 0, 2]"
  by (simp_all add: heldPrefix_def getPrefix_def twoService_def newExtranonceManager_def prefixToBuffer_def Let_def
      le_bytes_eval)

lemma twoConnections_ok: "poolOk twoService twoConnections"
proof -
  have "v2_wf c \<and> v2_service c = twoService" if "c \<in> set twoConnections" for c
    using that twoService_ok twoService_held
    by (auto simp: twoConnections_def v2_wf_def channelOk_def newChannel_def getExtendedTotalExtranonceSize_def)
      (simp_all add: twoService_def newExtranonceManager_def Let_def)
  moreover have "channelIds (twoConnections ! k) = {int k + 1}" if "k < length twoConnections" for k
    using that by (auto simp: twoConnections_def channelIds_def less_Suc_eq)
  ultimately show ?thesis using twoService_ok by (auto simp: poolOk_def)
qed

section \<open>Properties\<close>

text \<open>
  C11. Whatever the miners send and whatever else happens, the Stratum V2 connections of the pool stay
  well-formed: in every state of the pool that connections and their events lead to, each channel is
  registered under its own identifier, which the counter has passed and no other connection uses; it
  remembers at most 10000 submissions; and an extended channel has the extranonce prefix that the shared
  manager holds for it, with room for the extranonce of its miner.
\<close>

theorem v2_connections_well_formed:
  assumes "v2_pool s cs"
  shows "poolOk s cs"
  using v2_pool_ok [OF assms] .

theorem v2_connections_well_formed_witness:
  "\<exists>s (cs :: nat V2Client list). v2_pool s cs \<and> length cs = 2 \<and> poolOk s cs"
proof -
  obtain c :: "nat V2Client" where c: "newV2Client minerNet solo (jstr ''s'') 0 newSv2Service newJobsService
      (newJobRegistry 60000) = Inr c"
    by (simp add: newV2Client_def minerNet_def knownNetwork_def Let_def)
  have "v2_pool newSv2Service ([] @ [c])" by (rule v2_pool.connect [OF v2_pool.start c])
  then have "v2_pool newSv2Service (([] @ [c]) @ [c])" by (rule v2_pool.connect [OF _ c])
  then have pool: "v2_pool (v2_service (v2_handleEvent minerNet V2_Closed ((([] @ [c]) @ [c]) ! 0)))
      (poolEvent minerNet 0 V2_Closed (([] @ [c]) @ [c]))"
    by (rule v2_pool.event) (simp_all add: ownEvent_def)
  have "length (poolEvent minerNet 0 V2_Closed (([] @ [c]) @ [c])) = 2"
    by (simp add: poolEvent_def shareServices_def Let_def)
  with pool v2_connections_well_formed [OF pool] show ?thesis by blast
qed

text \<open>
  C6. No work is done twice: after any event of any connection, two extended channels, of one connection or
  of two, have different extranonce prefixes, so that no coinbase of the one is a coinbase of the other.
\<close>

theorem v2_channels_search_apart:
  assumes "poolOk s cs" "n < length cs" "ownEvent ev" "cs' = poolEvent env n ev cs"
    and "k < length cs" "l < length cs" "k \<noteq> l \<or> i \<noteq> j"
    and "map_of (v2_channels (cs' ! k)) i = Some ch" "isExtended ch"
    and "map_of (v2_channels (cs' ! l)) j = Some ch'" "isExtended ch'"
  shows "ch_extranoncePrefix ch \<noteq> ch_extranoncePrefix ch'"
proof -
  have "length cs' = length cs" by (simp add: assms(4) poolEvent_def shareServices_def Let_def)
  with prefixes_apart [OF poolOk_event [OF assms(1-3), of env]] assms(4-11) show ?thesis by metis
qed

theorem v2_channels_search_apart_witness:
  "\<exists>ch ch'. map_of (v2_channels (poolEvent minerEnv 0 V2_Interval twoConnections ! 0)) 1 = Some ch
     \<and> map_of (v2_channels (poolEvent minerEnv 0 V2_Interval twoConnections ! 1)) 2 = Some ch'
     \<and> ch_extranoncePrefix ch \<noteq> ch_extranoncePrefix ch'"
proof -
  let ?ch = "\<lambda>i. newChannel i extended_channel [0, 0, 0, word_of_int i] 10 (Num 16) (replicate 32 255)"
  have ch: "map_of (v2_channels (poolEvent minerEnv 0 V2_Interval twoConnections ! 0)) 1 = Some (?ch 1)"
    "map_of (v2_channels (poolEvent minerEnv 0 V2_Interval twoConnections ! 1)) 2 = Some (?ch 2)"
    by (simp_all add: poolEvent_def shareServices_def twoConnections_def v2_handleEvent_def Let_def)
  have "0 < length twoConnections" "1 < length twoConnections" by (simp_all add: twoConnections_def)
  then have "ch_extranoncePrefix (?ch 1) \<noteq> ch_extranoncePrefix (?ch 2)"
    using v2_channels_search_apart [OF twoConnections_ok _ _ refl _ _ _ ch(1) _ ch(2)]
    by (simp add: ownEvent_def isExtended_def newChannel_def)
  then show ?thesis using ch by blast
qed

end
