(* ===== verification/TemplateDistribution.thy ===== *)
theory TemplateDistribution
  imports JobDeclaration PayoutPorts
begin

text \<open>
  \<open>src/services/sv2-template-distribution.service.ts\<close>: one connection of the SV2 template distribution
  protocol. A client gets every template of the pool with what its coinbase must pay, may ask for the
  transactions, and hands in a solved coinbase, which the pool checks and submits to its node.

  The shape is that of the job declaration: the outside answers from an environment and is told things by an
  effect. A new subscriber of \<open>newMiningJob$\<close> gets the template of \<open>env_template\<close> at once.
\<close>

section \<open>The service\<close>

definition tdp_getPorts :: "v1_env \<Rightarrow> (int \<times> PayoutMode) list result" where
  "tdp_getPorts env = parsePayoutModePorts (env_config env (jstr ''SV2_TDP_PORTS''))
     (env_config env (jstr ''PPLNS_SV2_TDP_PORTS''))"

definition tdp_getPoolPayoutAddress :: "v1_env \<Rightarrow> jsstr" where
  "tdp_getPoolPayoutAddress env = firstText (map (\<lambda>key. env_config env (jstr key))
     [''SV2_TDP_POOL_PAYOUT_ADDRESS'', ''SV2_JDP_POOL_PAYOUT_ADDRESS'', ''DATUM_POOL_PAYOUT_ADDRESS'',
      ''PAYOUT_FEE_ADDRESS'', ''DEV_FEE_ADDRESS''])"

datatype BitcoinNetwork = mainnet | testnet | regtest

definition tdp_getNetwork :: "v1_env \<Rightarrow> BitcoinNetwork result" where
  "tdp_getNetwork env =
     (let networkConfig = env_config env (jstr ''NETWORK'')
      in if networkConfig = Some (jstr ''mainnet'') then Inr mainnet
         else if networkConfig = Some (jstr ''testnet'') then Inr testnet
         else if networkConfig = Some (jstr ''regtest'') then Inr regtest
         else Inl (JsError ''Invalid network configuration''))"

text \<open>
  Which listeners the service opens when it starts: none in a process that only serves the API or is the
  master.
\<close>

definition tdp_onModuleInit :: "jsstr option \<Rightarrow> jsstr option \<Rightarrow> v1_env \<Rightarrow> (int \<times> PayoutMode) list result" where
  "tdp_onModuleInit apiOnly isMaster env =
     (if apiOnly = Some (jstr ''true'') \<or> isMaster = Some (jstr ''true'') then Inr [] else tdp_getPorts env)"

section \<open>The connection\<close>

datatype tdp_effect =
    Tdp_Frame int bytes bytes
  | Tdp_WriteRaw bytes
  | Tdp_DestroySocket
  | Tdp_SubmitBlock Block
  | Tdp_SaveBlock FoundBlock
  | Tdp_FinalizeSnapshot "jsstr option" int "jsstr option"
  | Tdp_NotifyBlockFound jsstr int "jsstr option"

text \<open>\<open>te_provider\<close> gives the library with the address parser of one network.\<close>

record 'c tdp_env =
  te_pool :: v1_env
  te_provider :: "BitcoinNetwork \<Rightarrow> provider_lib"
  te_fails :: "tdp_effect \<Rightarrow> bool"
  te_processAct1 :: "bytes \<Rightarrow> (bytes \<times> 'c \<times> 'c) result"
  te_decrypt :: "'c cipherFn"
  te_encrypt :: "'c cipherFn"

record 'c TdpConnection =
  td_poolPayoutAddress :: jsstr
  td_network :: BitcoinNetwork
  td_payoutMode :: PayoutMode
  td_frameReader :: "'c frameReader"
  td_frameWriter :: "'c frameWriter"
  td_handshakeBuffer :: bytes
  td_handshakeComplete :: bool
  td_pendingHandshakes :: "(bytes \<times> bytes) list"
  td_destroyed :: bool
  td_subscription :: bool
  td_submittedSolutions :: "jsstr set"
  td_servedTemplates :: "(int \<times> TemplateProviderTemplate) list"
  td_socketDestroyed :: bool
  td_socketEnded :: bool
  td_templateProvider :: TemplateProvider
  td_outbox :: "tdp_effect list"

type_synonym ('c, 'a) tdp = "('c TdpConnection, 'a) sm"

definition newTdpConnection ::
    "v1_env \<Rightarrow> PayoutMode \<Rightarrow> 'c \<Rightarrow> TemplateProvider \<Rightarrow> 'c TdpConnection result" where
  "newTdpConnection env mode noCipher provider =
     rbind (tdp_getNetwork env) (\<lambda>network. Inr
     \<lparr>td_poolPayoutAddress = tdp_getPoolPayoutAddress env, td_network = network, td_payoutMode = mode,
      td_frameReader = newFrameReader None noCipher,
      td_frameWriter = \<lparr>encryptFn = None, fw_cipher = noCipher\<rparr>,
      td_handshakeBuffer = [], td_handshakeComplete = False, td_pendingHandshakes = [], td_destroyed = False,
      td_subscription = False, td_submittedSolutions = {}, td_servedTemplates = [], td_socketDestroyed = False,
      td_socketEnded = False, td_templateProvider = provider, td_outbox = []\<rparr>)"

definition tdp_emit :: "tdp_effect \<Rightarrow> ('c, unit) tdp" where
  "tdp_emit e = modify (\<lambda>c. c\<lparr>td_outbox := td_outbox c @ [e]\<rparr>)"

definition tdp_perform :: "'c tdp_env \<Rightarrow> tdp_effect \<Rightarrow> ('c, unit) tdp" where
  "tdp_perform env e = andThen (tdp_emit e) (\<lambda>_. if te_fails env e then throw (JsError ''outside'') else ret ())"

definition tdp_now :: "'c tdp_env \<Rightarrow> int" where
  "tdp_now env = env_now (te_pool env)"

definition tdp_lib :: "'c tdp_env \<Rightarrow> 'c TdpConnection \<Rightarrow> provider_lib" where
  "tdp_lib env c = te_provider env (td_network c)"

definition onTemplates :: "(TemplateProvider, 'a) sm \<Rightarrow> ('c, 'a) tdp" where
  "onTemplates m = andThen (readState (m \<circ> td_templateProvider)) (\<lambda>(r, provider).
     andThen (modify (\<lambda>c. c\<lparr>td_templateProvider := provider\<rparr>)) (\<lambda>_. lift r))"

definition tdp_close :: "('c, unit) tdp" where
  "tdp_close =
     andThen (readState td_destroyed) (\<lambda>gone.
       if gone then ret ()
       else andThen (modify (\<lambda>c. c\<lparr>td_destroyed := True, td_subscription := False\<rparr>)) (\<lambda>_.
            andThen (readState td_socketDestroyed) (\<lambda>d.
              if d then ret ()
              else andThen (tdp_emit Tdp_DestroySocket) (\<lambda>_. modify (\<lambda>c. c\<lparr>td_socketDestroyed := True\<rparr>)))))"

definition tdp_writeRaw :: "'c tdp_env \<Rightarrow> tdp_effect \<Rightarrow> ('c, unit) tdp" where
  "tdp_writeRaw env e =
     andThen (readState (\<lambda>c. td_socketDestroyed c \<or> td_socketEnded c)) (\<lambda>closed.
       if closed then ret () else tdp_perform env e)"

definition tdp_sendMessage :: "'c tdp_env \<Rightarrow> sv2_message \<Rightarrow> ('c, unit) tdp" where
  "tdp_sendMessage env m =
     andThen (lift (ser_msg m)) (\<lambda>data.
     andThen (readState td_frameWriter) (\<lambda>w.
     andThen (lift (sendFrame (msg_code m) data 0 w)) (\<lambda>(wire, w').
     andThen (modify (\<lambda>c. c\<lparr>td_frameWriter := w'\<rparr>)) (\<lambda>_.
       tdp_writeRaw env (Tdp_Frame (msg_code m) data wire)))))"

definition tdp_parsed :: "'a reading \<Rightarrow> bytes \<Rightarrow> ('c, 'a) tdp" where
  "tdp_parsed rd body = lift (rmap fst (rd (newReader body)))"

definition tdp_handleSetupConnection :: "'c tdp_env \<Rightarrow> bytes \<Rightarrow> ('c, unit) tdp" where
  "tdp_handleSetupConnection env body =
     andThen (tdp_parsed deserializeSetupConnection body) (\<lambda>m.
       if setupConnection_protocol m \<noteq> 2
       then
         andThen (tdp_sendMessage env (M_SetupConnectionError
            \<lparr>setupConnectionError_flags = 0, setupConnectionError_errorCode = jstr ''unsupported-protocol''\<rparr>)) (\<lambda>_.
           tdp_close)
       else
         tdp_sendMessage env (M_SetupConnectionSuccess
           \<lparr>setupConnectionSuccess_usedVersion = 2, setupConnectionSuccess_flags = 0\<rparr>))"

section \<open>Templates\<close>

record TdpCoinbaseTemplateFields =
  cf_coinbaseTxVersion :: int
  cf_coinbasePrefix :: bytes
  cf_coinbaseTxInputSequence :: int
  cf_coinbaseTxValueRemaining :: int
  cf_coinbaseTxOutputsCount :: int
  cf_coinbaseTxOutputs :: bytes
  cf_coinbaseTxLocktime :: int

definition tdp_encodeBitcoinVarInt :: "int \<Rightarrow> bytes result" where
  "tdp_encodeBitcoinVarInt n =
     (if n > 2 ^ 53 - 1 \<or> n < 0 then Inl RangeError
      else if n < 0xfd then Inr [byte_of n]
      else if n \<le> 0xffff then Inr (0xfd # le_bytes 2 (nat n))
      else if n \<le> 0xffffffff then Inr (0xfe # le_bytes 4 (nat n))
      else Inr (0xff # le_bytes 8 (nat n)))"

definition serializeCoinbaseOutput :: "int \<Rightarrow> bytes \<Rightarrow> bytes result" where
  "serializeCoinbaseOutput valueSats script =
     (if valueSats < 0 \<or> valueSats \<ge> 2 ^ 64 then Inl RangeError
      else rbind (tdp_encodeBitcoinVarInt (int (length script))) (\<lambda>n.
        Inr (le_bytes 8 (nat valueSats) @ n @ script)))"

fun concatOutputs :: "(int \<times> bytes) list \<Rightarrow> bytes result" where
  "concatOutputs [] = Inr []"
| "concatOutputs ((v, script) # outputs) =
     rbind (serializeCoinbaseOutput v script) (\<lambda>first. rmap ((@) first) (concatOutputs outputs))"

definition tdp_getPayoutInformation :: "PayoutMode \<Rightarrow> jsstr \<Rightarrow> IJobTemplate \<Rightarrow> AddressObject list" where
  "tdp_getPayoutInformation mode poolPayoutAddress template =
     (case (mode, jt_payoutOutputs template) of
        (pplns, Some (out # outs)) \<Rightarrow> out # outs
      | _ \<Rightarrow> [\<lparr>ao_address = poolPayoutAddress, ao_percent = Some 100, ao_amountSats = None\<rparr>])"

record FixedOutputs =
  fo_count :: int
  fo_serialized :: bytes
  fo_spendableValue :: int

text \<open>What is owed, then the witness commitment when the template has one.\<close>

definition serializeFixedCoinbaseOutputs ::
    "'c tdp_env \<Rightarrow> 'c TdpConnection \<Rightarrow> IJobTemplate \<Rightarrow> FixedOutputs result" where
  "serializeFixedCoinbaseOutputs env c template =
     rbind (buildCoinbasePayoutOutputs (pl_toOutputScript (tdp_lib env c))
        (tdp_getPayoutInformation (td_payoutMode c) (td_poolPayoutAddress c) template)
        (NumberValue (Num (of_int (jt_coinbasevalue template))))) (\<lambda>payoutOuts.
     (let commit = blk_witnessCommit (jt_block template);
          outputs = map (\<lambda>out. (co_value out, co_scriptPubKey out)) payoutOuts
            @ (if commit = [] then []
               else [(0, lib_compileReturn (env_lib (te_pool env)) (segwitMagicBits @ commit))])
      in rmap (\<lambda>serialized. \<lparr>fo_count = int (length outputs), fo_serialized = serialized,
             fo_spendableValue = sum_list (map co_value payoutOuts)\<rparr>) (concatOutputs outputs)))"

definition buildCoinbaseTemplateFields ::
    "'c tdp_env \<Rightarrow> 'c TdpConnection \<Rightarrow> IJobTemplate \<Rightarrow> TdpCoinbaseTemplateFields result" where
  "buildCoinbaseTemplateFields env c template =
     rmap (\<lambda>outs. \<lparr>cf_coinbaseTxVersion = 2,
          cf_coinbasePrefix = buildCoinbaseHeightPrefix (tdp_lib env c) (jt_height template),
          cf_coinbaseTxInputSequence = 0xffffffff,
          cf_coinbaseTxValueRemaining = jt_coinbasevalue template - fo_spendableValue outs,
          cf_coinbaseTxOutputsCount = fo_count outs, cf_coinbaseTxOutputs = fo_serialized outs,
          cf_coinbaseTxLocktime = 0\<rparr>)
       (serializeFixedCoinbaseOutputs env c template)"

definition serveTemplate :: "int \<Rightarrow> TemplateProviderTemplate \<Rightarrow> ('c, unit) tdp" where
  "serveTemplate templateId template =
     modify (\<lambda>c. c\<lparr>td_servedTemplates := AList.update templateId template (td_servedTemplates c)\<rparr>)"

definition sendTemplate :: "'c tdp_env \<Rightarrow> IJobTemplate \<Rightarrow> ('c, unit) tdp" where
  "sendTemplate env template =
     andThen (readState id) (\<lambda>c0.
     andThen (onTemplates (upsert (tdp_lib env c0) (tdp_now env) template)) (\<lambda>cachedTemplate.
     andThen (lift (bigIntOf (parseInt 16 (jt_id template)))) (\<lambda>templateId.
     andThen (serveTemplate templateId cachedTemplate) (\<lambda>_.
     andThen (readState id) (\<lambda>c.
     andThen (lift (buildCoinbaseTemplateFields env c template)) (\<lambda>coinbase.
     andThen (tdp_sendMessage env (M_TdpNewTemplate
        \<lparr>tdpNewTemplate_templateId = templateId, tdpNewTemplate_futureTemplate = True,
         tdpNewTemplate_version = blk_version (jt_block template),
         tdpNewTemplate_coinbaseTxVersion = cf_coinbaseTxVersion coinbase,
         tdpNewTemplate_coinbasePrefix = cf_coinbasePrefix coinbase,
         tdpNewTemplate_coinbaseTxInputSequence = cf_coinbaseTxInputSequence coinbase,
         tdpNewTemplate_coinbaseTxValueRemaining = cf_coinbaseTxValueRemaining coinbase,
         tdpNewTemplate_coinbaseTxOutputsCount = cf_coinbaseTxOutputsCount coinbase,
         tdpNewTemplate_coinbaseTxOutputs = cf_coinbaseTxOutputs coinbase,
         tdpNewTemplate_coinbaseTxLocktime = cf_coinbaseTxLocktime coinbase,
         tdpNewTemplate_merklePath = map hexDecode (jt_merkle_branch template)\<rparr>)) (\<lambda>_.
       tdp_sendMessage env (M_TdpSetNewPrevHash
        \<lparr>tdpSetNewPrevHash_templateId = templateId,
         tdpSetNewPrevHash_prevHash = blk_prevHash (jt_block template),
         tdpSetNewPrevHash_headerTimestamp = js_int (blk_timestamp (jt_block template)),
         tdpSetNewPrevHash_nBits = js_int (blk_bits (jt_block template)),
         tdpSetNewPrevHash_target = tp_target cachedTemplate\<rparr>))))))))"

text \<open>
  The promise of \<open>sendTemplate\<close> is dropped, so an exception in it reaches no handler of the connection.
\<close>

definition unawaited :: "('c, unit) tdp \<Rightarrow> ('c, unit) tdp" where
  "unawaited m = tryCatch m (\<lambda>_. ret ())"

definition subscribeTemplates :: "'c tdp_env \<Rightarrow> ('c, unit) tdp" where
  "subscribeTemplates env =
     andThen (readState td_subscription) (\<lambda>subscribed.
       if subscribed then ret ()
       else
         andThen (case env_template (te_pool env) of
             None \<Rightarrow> ret ()
           | Some template \<Rightarrow> unawaited (sendTemplate env template)) (\<lambda>_.
           modify (\<lambda>c. c\<lparr>td_subscription := True\<rparr>)))"

definition getServedOrProviderTemplate :: "'c tdp_env \<Rightarrow> int \<Rightarrow> ('c, TemplateProviderTemplate option) tdp" where
  "getServedOrProviderTemplate env templateId =
     andThen (readState (\<lambda>c. map_of (td_servedTemplates c) templateId)) (\<lambda>served. case served of
         Some template \<Rightarrow> ret (Some template)
       | None \<Rightarrow> onTemplates (getTemplate (tdp_now env) templateId))"

definition sendTemplateNotFound :: "'c tdp_env \<Rightarrow> int \<Rightarrow> ('c, unit) tdp" where
  "sendTemplateNotFound env templateId =
     tdp_sendMessage env (M_TdpRequestTransactionDataError
       \<lparr>tdpRequestTransactionDataError_templateId = templateId,
        tdpRequestTransactionDataError_errorCode = jstr ''template-not-found''\<rparr>)"

definition handleRequestTransactionData :: "'c tdp_env \<Rightarrow> int \<Rightarrow> ('c, unit) tdp" where
  "handleRequestTransactionData env templateId =
     andThen (getServedOrProviderTemplate env templateId) (\<lambda>found. case found of
         None \<Rightarrow> sendTemplateNotFound env templateId
       | Some template \<Rightarrow>
           andThen (serveTemplate templateId template) (\<lambda>_.
             tdp_sendMessage env (M_TdpRequestTransactionDataSuccess
               \<lparr>tdpRequestTransactionDataSuccess_templateId = templateId,
                tdpRequestTransactionDataSuccess_excessData = [],
                tdpRequestTransactionDataSuccess_transactionList = tp_transactionList template\<rparr>)))"

section \<open>Solutions\<close>

text \<open>\<open>toHex\<close> writes the header, so it throws what the header throws; the identifier is its reversed hash.\<close>

definition blockIdOf :: "(bytes \<Rightarrow> bytes) \<Rightarrow> Block \<Rightarrow> jsstr result" where
  "blockIdOf sha256 block = rmap (\<lambda>head. hexEncode (rev (hash256 sha256 head))) (blockHeader block)"

definition tdp_sessionId :: "int \<Rightarrow> jsstr" where
  "tdp_sessionId templateId =
     (let hex = intToString16 templateId; last8 = drop (length hex - 8) hex
      in replicate (8 - length last8) 48 @ last8)"

definition recordTemplateBlock :: "'c tdp_env \<Rightarrow> int \<Rightarrow> TemplateProviderTemplate \<Rightarrow> Block \<Rightarrow> ('c, unit) tdp" where
  "recordTemplateBlock env templateId template block =
     andThen (readState id) (\<lambda>c.
     (let submissionResult = env_submitResult (te_pool env) block;
          snapshotId = jt_payoutSnapshotId (tp_jobTemplate template);
          mode = td_payoutMode c;
          minerAddress = (if td_poolPayoutAddress c = [] then jstr ''sv2-tdp'' else td_poolPayoutAddress c)
      in andThen (tdp_perform env (Tdp_SaveBlock \<lparr>fb_height = tp_height template, fb_minerAddress = minerAddress,
            fb_worker = jstr ''tdp'', fb_sessionId = tdp_sessionId templateId, fb_block = block,
            fb_blockSubmissionResult = submissionResult,
            fb_payoutSnapshotId = (if mode = pplns then snapshotId else None), fb_payoutMode = mode\<rparr>)) (\<lambda>_.
         andThen (if mode = pplns
             then tdp_perform env (Tdp_FinalizeSnapshot snapshotId (tp_height template) submissionResult)
             else ret ()) (\<lambda>_.
           tdp_perform env (Tdp_NotifyBlockFound minerAddress (tp_height template) submissionResult)))))"

definition submitTemplateBlock ::
    "'c tdp_env \<Rightarrow> int \<Rightarrow> TemplateProviderTemplate \<Rightarrow> jsstr \<Rightarrow> Block \<Rightarrow> ('c, unit) tdp" where
  "submitTemplateBlock env templateId template key block =
     andThen (modify (\<lambda>c. c\<lparr>td_submittedSolutions := insert key (td_submittedSolutions c)\<rparr>)) (\<lambda>_.
     andThen (tdp_perform env (Tdp_SubmitBlock block)) (\<lambda>_.
       recordTemplateBlock env templateId template block))"

definition checkSolution ::
    "'c tdp_env \<Rightarrow> 'c TdpConnection \<Rightarrow> Sv2TdpSubmitSolution \<Rightarrow> TemplateProviderTemplate \<Rightarrow> Block option result" where
  "checkSolution env c solution template =
     (case validateCoinbaseTransactionHeight (tdp_lib env c) (tdpSubmitSolution_coinbaseTx solution)
         (tp_height template) of
        Invalid code \<Rightarrow> Inr None
      | Valid \<Rightarrow>
          rbind (validateCoinbaseTransactionPayoutOutputs (tdp_lib env c) (tdpSubmitSolution_coinbaseTx solution)
             (tdp_getPayoutInformation (td_payoutMode c) (td_poolPayoutAddress c) (tp_jobTemplate template))
             (BigIntValue (tp_coinbaseValue template))) (\<lambda>payoutValidation.
            if \<not> pv_valid payoutValidation then Inr None
            else rmap Some (buildBlockFromSolution (tdp_lib env c) template (tdpSubmitSolution_coinbaseTx solution)
              (tdpSubmitSolution_version solution) (tdpSubmitSolution_headerTimestamp solution)
              (tdpSubmitSolution_headerNonce solution))))"

definition templateSolutionKey :: "int \<Rightarrow> jsstr \<Rightarrow> jsstr" where
  "templateSolutionKey templateId blockId = intToString10 templateId @ jstr '':'' @ blockId"

definition handleSubmitSolution :: "'c tdp_env \<Rightarrow> Sv2TdpSubmitSolution \<Rightarrow> ('c, unit) tdp" where
  "handleSubmitSolution env solution =
     (let templateId = tdpSubmitSolution_templateId solution
      in andThen (getServedOrProviderTemplate env templateId) (\<lambda>found. case found of
           None \<Rightarrow> sendTemplateNotFound env templateId
         | Some template \<Rightarrow>
             andThen (readState id) (\<lambda>c.
             andThen (lift (checkSolution env c solution template)) (\<lambda>checked. case checked of
                 None \<Rightarrow> ret ()
               | Some block \<Rightarrow>
                   andThen (lift (blockIdOf (env_sha256 (te_pool env)) block)) (\<lambda>blockId.
                     if templateSolutionKey templateId blockId \<in> td_submittedSolutions c then ret ()
                     else submitTemplateBlock env templateId template (templateSolutionKey templateId blockId)
                       block)))))"

section \<open>Frames, segments and events\<close>

definition tdp_handleFrame :: "'c tdp_env \<Rightarrow> int \<Rightarrow> bytes \<Rightarrow> ('c, unit) tdp" where
  "tdp_handleFrame env ty body =
     (if ty = 0x00 then tdp_handleSetupConnection env body
      else if ty = 0x70 then
        andThen (tdp_parsed deserializeTdpCoinbaseOutputConstraints body) (\<lambda>_. subscribeTemplates env)
      else if ty = 0x73 then
        andThen (tdp_parsed deserializeTdpRequestTransactionData body) (\<lambda>request.
          handleRequestTransactionData env (tdpRequestTransactionData_templateId request))
      else if ty = 0x76 then
        andThen (tdp_parsed deserializeTdpSubmitSolution body) (\<lambda>solution. handleSubmitSolution env solution)
      else ret ())"

definition tdp_handleEncryptedData :: "'c tdp_env \<Rightarrow> bytes \<Rightarrow> ('c, unit) tdp" where
  "tdp_handleEncryptedData env data =
     andThen (readState td_frameReader) (\<lambda>r.
     andThen (lift (feed data r)) (\<lambda>(r', frames).
     andThen (modify (\<lambda>c. c\<lparr>td_frameReader := r'\<rparr>)) (\<lambda>_.
       forEach frames (\<lambda>frame. tdp_handleFrame env (msgType (header frame)) (payload frame)))))"

definition tdp_handleHandshakeData :: "bytes \<Rightarrow> ('c, unit) tdp" where
  "tdp_handleHandshakeData data =
     andThen (modify (\<lambda>c. c\<lparr>td_handshakeBuffer := td_handshakeBuffer c @ data\<rparr>)) (\<lambda>_.
     andThen (readState td_handshakeBuffer) (\<lambda>buf.
       if length buf < SV2_NOISE_ACT1_SIZE then ret ()
       else modify (\<lambda>c. c\<lparr>td_pendingHandshakes := td_pendingHandshakes c
            @ [(take SV2_NOISE_ACT1_SIZE buf, drop SV2_NOISE_ACT1_SIZE buf)], td_handshakeBuffer := []\<rparr>)))"

definition tdp_finishHandshake :: "'c tdp_env \<Rightarrow> bytes \<Rightarrow> bytes \<Rightarrow> ('c, unit) tdp" where
  "tdp_finishHandshake env act1 remainder =
     andThen (lift (te_processAct1 env act1)) (\<lambda>(act2, sendKey, receiveKey).
     andThen (tdp_writeRaw env (Tdp_WriteRaw act2)) (\<lambda>_.
     andThen (modify (\<lambda>c. c\<lparr>td_frameReader := setDecryptFn (te_decrypt env) receiveKey (td_frameReader c),
        td_frameWriter := setEncryptFn (te_encrypt env) sendKey (td_frameWriter c),
        td_handshakeComplete := True\<rparr>)) (\<lambda>_.
       if remainder = [] then ret () else tdp_handleEncryptedData env remainder)))"

definition tdp_orClose :: "('c, unit) tdp \<Rightarrow> ('c, unit) tdp" where
  "tdp_orClose m = tryCatch m (\<lambda>_. tdp_close)"

definition tdp_handleSocketData :: "'c tdp_env \<Rightarrow> bytes \<Rightarrow> ('c, unit) tdp" where
  "tdp_handleSocketData env data =
     andThen (readState id) (\<lambda>c.
       if td_destroyed c then ret ()
       else tdp_orClose (if td_handshakeComplete c then tdp_handleEncryptedData env data
                         else tdp_handleHandshakeData data))"

definition tdp_resumeHandshake :: "'c tdp_env \<Rightarrow> ('c, unit) tdp" where
  "tdp_resumeHandshake env =
     andThen (readState td_pendingHandshakes) (\<lambda>pending. case pending of
         [] \<Rightarrow> ret ()
       | (act1, remainder) # later \<Rightarrow>
           andThen (modify (\<lambda>c. c\<lparr>td_pendingHandshakes := later\<rparr>)) (\<lambda>_.
             tdp_orClose (tdp_finishHandshake env act1 remainder)))"

datatype tdp_event =
    Tdp_SocketData bytes
  | Tdp_HandshakeReady
  | Tdp_NewTemplate IJobTemplate
  | Tdp_JobsFailed
  | Tdp_SocketError
  | Tdp_SocketClosed
  | Tdp_Shared TemplateProvider

definition tdp_handleEvent :: "'c tdp_env \<Rightarrow> tdp_event \<Rightarrow> 'c TdpConnection \<Rightarrow> 'c TdpConnection" where
  "tdp_handleEvent env ev c = (case ev of
      Tdp_SocketData data \<Rightarrow> snd (tdp_handleSocketData env data c)
    | Tdp_HandshakeReady \<Rightarrow> snd (tdp_resumeHandshake env c)
    | Tdp_NewTemplate template \<Rightarrow> if td_subscription c then snd (unawaited (sendTemplate env template) c) else c
    | Tdp_JobsFailed \<Rightarrow> if td_subscription c then snd (tdp_close c) else c
    | Tdp_SocketError \<Rightarrow> snd (tdp_close c)
    | Tdp_SocketClosed \<Rightarrow> snd (tdp_close (c\<lparr>td_socketDestroyed := True\<rparr>))
    | Tdp_Shared provider \<Rightarrow> c\<lparr>td_templateProvider := provider\<rparr>)"

end
