(* ===== verification/TemplateSolutions.thy ===== *)
theory TemplateSolutions
  imports TemplateDistribution
begin

text \<open>
  What a template distribution connection hands to the node: only blocks of a template it can name, whose
  coinbase pays exactly what the template owes, and no block twice for one template.
\<close>

section \<open>Quiet statements\<close>

definition submittedBlocks :: "tdp_effect list \<Rightarrow> Block list" where
  "submittedBlocks es = List.map_filter (\<lambda>e. case e of Tdp_SubmitBlock b \<Rightarrow> Some b | _ \<Rightarrow> None) es"

lemma submittedBlocks_simps [simp]:
  "submittedBlocks [] = []"
  "submittedBlocks (es @ es') = submittedBlocks es @ submittedBlocks es'"
  "submittedBlocks (Tdp_SubmitBlock b # es) = b # submittedBlocks es"
  "submittedBlocks (Tdp_Frame i x y # es) = submittedBlocks es"
  "submittedBlocks (Tdp_WriteRaw x # es) = submittedBlocks es"
  "submittedBlocks (Tdp_DestroySocket # es) = submittedBlocks es"
  "submittedBlocks (Tdp_SaveBlock f # es) = submittedBlocks es"
  "submittedBlocks (Tdp_FinalizeSnapshot s h r # es) = submittedBlocks es"
  "submittedBlocks (Tdp_NotifyBlockFound a h r # es) = submittedBlocks es"
  by (simp_all add: submittedBlocks_def map_filter_simps List.map_filter_def)

definition unsubmitting :: "'c TdpConnection \<Rightarrow> 'c TdpConnection \<Rightarrow> bool" where
  "unsubmitting c c' \<longleftrightarrow> td_submittedSolutions c' = td_submittedSolutions c
     \<and> (\<exists>es. td_outbox c' = td_outbox c @ es \<and> submittedBlocks es = [])"

interpretation un: step_relation unsubmitting
proof
  show "unsubmitting s s" for s :: "'a TdpConnection" by (simp add: unsubmitting_def)
  show "unsubmitting s u" if "unsubmitting s t" "unsubmitting t u" for s t u :: "'a TdpConnection"
    using that by (force simp: unsubmitting_def)
qed

lemma un_modify:
  "(\<And>c. td_submittedSolutions (f c) = td_submittedSolutions c \<and> td_outbox (f c) = td_outbox c) \<Longrightarrow> un.keeps (modify f)"
  by (intro un.keeps_modify) (simp add: unsubmitting_def)

lemma un_emit: "submittedBlocks [e] = [] \<Longrightarrow> un.keeps (tdp_emit e)"
  unfolding tdp_emit_def by (intro un.keeps_modify) (simp add: unsubmitting_def)

lemma un_perform: "submittedBlocks [e] = [] \<Longrightarrow> un.keeps (tdp_perform env e)"
  unfolding tdp_perform_def by (intro un.keeps_intros un_emit)

lemma un_parsed: "un.keeps (tdp_parsed rd body)"
  unfolding tdp_parsed_def by (rule un.keeps_prims)

lemmas un_base = un.keeps_intros un_parsed un_modify un_emit un_perform

lemma un_onTemplates: "un.keeps (onTemplates m)"
  unfolding onTemplates_def by (intro un_base) simp_all

lemma un_close: "un.keeps tdp_close"
  unfolding tdp_close_def by (intro un_base) simp_all

lemma un_sendMessage: "un.keeps (tdp_sendMessage env m)"
  unfolding tdp_sendMessage_def tdp_writeRaw_def by (intro un_base) simp_all

lemma un_serve: "un.keeps (serveTemplate i t)"
  unfolding serveTemplate_def by (intro un_base) simp

lemmas un_statements = un_base un_onTemplates un_close un_sendMessage un_serve

lemma un_handlers:
  "un.keeps (tdp_handleSetupConnection env body)" "un.keeps (sendTemplate env t)"
  "un.keeps (getServedOrProviderTemplate env i)" "un.keeps (sendTemplateNotFound env i)"
  unfolding tdp_handleSetupConnection_def sendTemplate_def getServedOrProviderTemplate_def sendTemplateNotFound_def
  by (intro un_statements)+

lemma un_requests: "un.keeps (subscribeTemplates env)" "un.keeps (handleRequestTransactionData env i)"
  unfolding subscribeTemplates_def unawaited_def handleRequestTransactionData_def
  by (intro un_statements un_handlers; simp)+

section \<open>What a solution must pay\<close>

definition owedOutputs ::
    "provider_lib \<Rightarrow> PayoutMode \<Rightarrow> jsstr \<Rightarrow> TemplateProviderTemplate \<Rightarrow> CoinbasePayoutOutput list result" where
  "owedOutputs tlib mode poolPayoutAddress template =
     buildCoinbasePayoutOutputs (pl_toOutputScript tlib)
       (tdp_getPayoutInformation mode poolPayoutAddress (tp_jobTemplate template))
       (BigIntValue (tp_coinbaseValue template))"

text \<open>
  The block extends the template's chain with the template's transactions; its coinbase starts with the
  height, and what it pays, apart from the witness commitment, are the owed outputs, which use up the
  coinbase value.
\<close>

definition paysTemplate ::
    "provider_lib \<Rightarrow> PayoutMode \<Rightarrow> jsstr \<Rightarrow> TemplateProviderTemplate \<Rightarrow> Block \<Rightarrow> bool" where
  "paysTemplate tlib mode poolPayoutAddress template block \<longleftrightarrow>
     blk_prevHash block = tp_prevHash template \<and> blk_bits block = tp_nBits template
     \<and> (case blk_transactions block of
          [] \<Rightarrow> False
        | coinbase # others \<Rightarrow>
            readAll tlib (tp_transactionList template) = Inr others
            \<and> (case tx_ins coinbase of
                 [input] \<Rightarrow> (let p = buildCoinbaseHeightPrefix tlib (tp_height template)
                     in take (length p) (in_script input) = p)
               | _ \<Rightarrow> False)
            \<and> owedOutputs tlib mode poolPayoutAddress template = Inr (submittedOutputs coinbase)
            \<and> sum_list (map co_value (submittedOutputs coinbase)) = tp_coinbaseValue template)"

lemma payoutOutputsFrom_sum:
  "payoutOutputsFrom f v recipients b = Inr (b', outs) \<Longrightarrow> sum_list (map co_value outs) + b' = b"
  by (induction recipients arbitrary: b b' outs) (force simp: Let_def rbind_Inr_iff)+

lemma owedOutputs_sum:
  assumes "owedOutputs tlib mode addr template = Inr outs" and "outs \<noteq> []"
  shows "sum_list (map co_value outs) = tp_coinbaseValue template"
proof -
  let ?v = "tp_coinbaseValue template"
  from assms obtain balance made where made: "payoutOutputsFrom (pl_toOutputScript tlib) ?v
      (tdp_getPayoutInformation mode addr (tp_jobTemplate template)) ?v = Inr (balance, made)"
    and outs: "outs = (case made of [] \<Rightarrow> [] | first # others \<Rightarrow>
       (if balance \<noteq> 0 then first\<lparr>co_value := co_value first + balance\<rparr> else first) # others)"
    by (auto simp: owedOutputs_def buildCoinbasePayoutOutputs_def rewardValueOf_def rbind_Inr_iff)
  from outs assms(2) obtain first others where "made = first # others" by (cases made) auto
  with outs payoutOutputsFrom_sum [OF made] show ?thesis by simp
qed

lemma firstMismatch_None: "length xs = length ys \<Longrightarrow> firstMismatch i xs ys = None \<Longrightarrow> xs = ys"
  by (induction xs ys arbitrary: i rule: list_induct2) (auto split: if_splits)

lemma validPayouts:
  assumes "validateCoinbaseTransactionPayoutOutputs tlib tx info v = Inr res" and "pv_valid res"
  shows "\<exists>coinbase. pl_fromBuffer tlib tx = Inr coinbase \<and> submittedOutputs coinbase \<noteq> []
    \<and> buildCoinbasePayoutOutputs (pl_toOutputScript tlib) info v = Inr (submittedOutputs coinbase)"
proof -
  from assms obtain expected coinbase where expected: "buildCoinbasePayoutOutputs (pl_toOutputScript tlib) info v = Inr expected"
    and "expected \<noteq> []" "pl_fromBuffer tlib tx = Inr coinbase" "length (submittedOutputs coinbase) = length expected"
    "firstMismatch 0 expected (submittedOutputs coinbase) = None"
    by (auto simp: validateCoinbaseTransactionPayoutOutputs_def rbind_Inr_iff Let_def split: if_splits sum.splits)
  with firstMismatch_None [of expected "submittedOutputs coinbase" 0] show ?thesis by auto
qed

lemma validHeight:
  assumes "validateCoinbaseTransactionHeight tlib tx height = Valid" and "pl_fromBuffer tlib tx = Inr coinbase"
  shows "\<exists>input. tx_ins coinbase = [input]
    \<and> (let p = buildCoinbaseHeightPrefix tlib height in take (length p) (in_script input) = p)"
  using assms by (auto simp: validateCoinbaseTransactionHeight_def validateCoinbaseScriptHeight_def Let_def
      split: list.splits if_splits)

lemma checkSolution_pays:
  assumes "checkSolution env c solution template = Inr (Some block)"
  shows "paysTemplate (tdp_lib env c) (td_payoutMode c) (td_poolPayoutAddress c) template block"
proof -
  let ?lib = "tdp_lib env c" and ?tx = "tdpSubmitSolution_coinbaseTx solution"
  from assms obtain res where height: "validateCoinbaseTransactionHeight ?lib ?tx (tp_height template) = Valid"
    and payouts: "validateCoinbaseTransactionPayoutOutputs ?lib ?tx
       (tdp_getPayoutInformation (td_payoutMode c) (td_poolPayoutAddress c) (tp_jobTemplate template))
       (BigIntValue (tp_coinbaseValue template)) = Inr res" "pv_valid res"
    and block: "buildBlockFromSolution ?lib template ?tx (tdpSubmitSolution_version solution)
       (tdpSubmitSolution_headerTimestamp solution) (tdpSubmitSolution_headerNonce solution) = Inr block"
    by (auto simp: checkSolution_def rbind_Inr_iff rmap_Inr_iff split: validity.splits if_splits)
  from validPayouts [OF payouts] obtain coinbase where
    coinbase: "pl_fromBuffer ?lib ?tx = Inr coinbase" "submittedOutputs coinbase \<noteq> []"
    and owed: "owedOutputs ?lib (td_payoutMode c) (td_poolPayoutAddress c) template = Inr (submittedOutputs coinbase)"
    by (auto simp: owedOutputs_def)
  from block coinbase(1) obtain others where
    "readAll ?lib (tp_transactionList template) = Inr others" "blk_transactions block = coinbase # others"
    "blk_prevHash block = tp_prevHash template" "blk_bits block = tp_nBits template"
    by (auto simp: buildBlockFromSolution_def rbind_Inr_iff rmap_Inr_iff fromBuffer_def assembleBlock_def)
  with validHeight [OF height coinbase(1)] owed owedOutputs_sum [OF owed coinbase(2)]
  show ?thesis by (auto simp: paysTemplate_def)
qed

section \<open>What a frame submits\<close>

text \<open>The template of an identifier: the one served on this connection, else what the provider still has.\<close>

definition namedTemplate :: "'c tdp_env \<Rightarrow> 'c TdpConnection \<Rightarrow> int \<Rightarrow> TemplateProviderTemplate option" where
  "namedTemplate env c templateId =
     (case map_of (td_servedTemplates c) templateId of
        Some template \<Rightarrow> Some template
      | None \<Rightarrow> map_of (pr_templates (cleanupTemplates (tdp_now env) (td_templateProvider c))) templateId)"

definition submitsOwedBlock :: "'c tdp_env \<Rightarrow> 'c TdpConnection \<Rightarrow> 'c TdpConnection \<Rightarrow> Block \<Rightarrow> bool" where
  "submitsOwedBlock env c c' block \<longleftrightarrow>
     (\<exists>templateId template blockId.
        namedTemplate env c templateId = Some template
        \<and> paysTemplate (tdp_lib env c) (td_payoutMode c) (td_poolPayoutAddress c) template block
        \<and> blockIdOf (env_sha256 (te_pool env)) block = Inr blockId
        \<and> templateSolutionKey templateId blockId \<notin> td_submittedSolutions c
        \<and> td_submittedSolutions c' = insert (templateSolutionKey templateId blockId) (td_submittedSolutions c))"

definition submitsAtMostOwed :: "'c tdp_env \<Rightarrow> 'c TdpConnection \<Rightarrow> 'c TdpConnection \<Rightarrow> bool" where
  "submitsAtMostOwed env c c' \<longleftrightarrow> (\<exists>es. td_outbox c' = td_outbox c @ es
     \<and> (submittedBlocks es = [] \<and> td_submittedSolutions c' = td_submittedSolutions c
        \<or> (\<exists>block. submittedBlocks es = [block] \<and> submitsOwedBlock env c c' block)))"

lemma unsubmitting_owed: "unsubmitting c c' \<Longrightarrow> submitsAtMostOwed env c c'"
  by (auto simp: unsubmitting_def submitsAtMostOwed_def)

lemma submitTemplateBlock_submits:
  "\<exists>es. td_outbox (snd (submitTemplateBlock env i template key block c)) = td_outbox c @ es
     \<and> submittedBlocks es = [block]
     \<and> td_submittedSolutions (snd (submitTemplateBlock env i template key block c))
         = insert key (td_submittedSolutions c)"
proof -
  let ?c = "c\<lparr>td_submittedSolutions := insert key (td_submittedSolutions c),
      td_outbox := td_outbox c @ [Tdp_SubmitBlock block]\<rparr>"
  have "un.keeps (recordTemplateBlock env i template block)"
    unfolding recordTemplateBlock_def by (intro un_statements) simp_all
  then have "unsubmitting ?c (snd (submitTemplateBlock env i template key block c))"
    by (simp add: submitTemplateBlock_def tdp_perform_def tdp_emit_def andThen_assoc un.R_refl un.keeps_def)
  then show ?thesis by (force simp: unsubmitting_def)
qed

lemma getServed_named:
  "getServedOrProviderTemplate env i c = (Inr (namedTemplate env c i), c\<lparr>td_templateProvider :=
     td_templateProvider (snd (getServedOrProviderTemplate env i c))\<rparr>)"
  by (simp add: getServedOrProviderTemplate_def namedTemplate_def onTemplates_def getTemplate_def split: option.splits)

lemma handleSubmitSolution_owed: "submitsAtMostOwed env c (snd (handleSubmitSolution env solution c))"
proof -
  let ?i = "tdpSubmitSolution_templateId solution"
  define c1 where "c1 = c\<lparr>td_templateProvider := td_templateProvider (snd (getServedOrProviderTemplate env ?i c))\<rparr>"
  have got: "getServedOrProviderTemplate env ?i c = (Inr (namedTemplate env c ?i), c1)"
    unfolding c1_def by (rule getServed_named)
  have same: "unsubmitting c c1" "tdp_lib env c1 = tdp_lib env c"
    "td_submittedSolutions c1 = td_submittedSolutions c" "td_outbox c1 = td_outbox c"
    "td_payoutMode c1 = td_payoutMode c" "td_poolPayoutAddress c1 = td_poolPayoutAddress c"
    by (simp_all add: c1_def unsubmitting_def tdp_lib_def)
  show ?thesis
  proof (cases "namedTemplate env c ?i")
    case None
    have "unsubmitting c1 (snd (sendTemplateNotFound env ?i c1))"
      by (rule un.keeps_def [THEN iffD1, OF un_handlers(4), rule_format])
    with same(1) have "unsubmitting c (snd (sendTemplateNotFound env ?i c1))" by (rule un.R_trans)
    then show ?thesis using got None by (simp add: handleSubmitSolution_def Let_def unsubmitting_owed)
  next
    case (Some template)
    let ?submits = "\<lambda>block blockId. checkSolution env c1 solution template = Inr (Some block)
      \<and> blockIdOf (env_sha256 (te_pool env)) block = Inr blockId
      \<and> templateSolutionKey ?i blockId \<notin> td_submittedSolutions c1"
    show ?thesis
    proof (cases "\<exists>block blockId. ?submits block blockId")
      case False
      have "snd (handleSubmitSolution env solution c) = c1"
      proof (cases "checkSolution env c1 solution template")
        case (Inr checked)
        show ?thesis
        proof (cases checked)
          case (Some block)
          then show ?thesis using False Inr got \<open>namedTemplate env c ?i = Some template\<close>
            by (cases "blockIdOf (env_sha256 (te_pool env)) block") (auto simp: handleSubmitSolution_def Let_def)
        qed (use Inr got Some in \<open>simp add: handleSubmitSolution_def Let_def\<close>)
      qed (use got Some in \<open>simp add: handleSubmitSolution_def Let_def\<close>)
      then show ?thesis using same(1) by (simp add: unsubmitting_owed)
    next
      case True
      then obtain block blockId where sub: "?submits block blockId" by blast
      let ?key = "templateSolutionKey ?i blockId"
      have eq: "handleSubmitSolution env solution c = submitTemplateBlock env ?i template ?key block c1"
        using got Some sub by (simp add: handleSubmitSolution_def Let_def)
      have "paysTemplate (tdp_lib env c) (td_payoutMode c) (td_poolPayoutAddress c) template block"
        using checkSolution_pays sub same by metis
      then show ?thesis
        using submitTemplateBlock_submits [of env ?i template ?key block c1] sub same Some eq
        unfolding submitsAtMostOwed_def submitsOwedBlock_def by metis
    qed
  qed
qed

text \<open>
  C12. Whatever a client of the template distribution sends in one frame, in whatever state its connection is:
  at most one block goes to the node; it belongs to the template that the client names and the connection
  served or the provider still has, its coinbase starts with the height and pays exactly what that template
  owes, which adds up to the coinbase value; and its pair of template and block identifier was not submitted
  before on this connection and is remembered.
\<close>

theorem tdp_frame_submits_owed: "submitsAtMostOwed env c (snd (tdp_handleFrame env ty body c))"
proof (cases "ty = 0x76")
  case True
  have "submitsAtMostOwed env c (snd (andThen (lift r) (handleSubmitSolution env) c))" for r
    by (cases r) (simp_all add: handleSubmitSolution_owed unsubmitting_owed un.R_refl)
  then show ?thesis using True by (simp add: tdp_handleFrame_def tdp_parsed_def)
next
  case False
  then have "un.keeps (tdp_handleFrame env ty body)"
    unfolding tdp_handleFrame_def by (simp, intro impI conjI un_statements un_handlers un_requests)
  then show ?thesis by (simp add: un.keeps_def unsubmitting_owed)
qed

end
