(* ===== verification/ShareAccounting.thy ===== *)
theory ShareAccounting
  imports PayoutPorts
begin

text \<open>
  \<open>src/ORM/share-accounting/share-accounting.service.ts\<close>: accepted shares wait in a queue and are written in
  batches; a job of the master process rolls the stored shares of the PPLNS mode up into batches, which the
  payout windows are made of; summaries are cached.

  A table is the list of its rows, a \<open>SELECT\<close> with its aggregates a computation on the list. The order in
  which the database gives the groups of a \<open>GROUP BY\<close> is not determined; the model takes the order in which
  they first appear, and nothing depends on it. The database's numerics are exact rationals. A time is in
  milliseconds.
\<close>

section \<open>Configuration\<close>

text \<open>\<open>number\<close> is \<open>Number\<close> of a text; of \<open>undefined\<close> it is NaN.\<close>

definition configNumber :: "(jsstr \<Rightarrow> jsnum) \<Rightarrow> jsstr option \<Rightarrow> jsnum" where
  "configNumber number setting = (case setting of None \<Rightarrow> NaN | Some s \<Rightarrow> number s)"

definition integerOf :: "jsnum \<Rightarrow> int option" where
  "integerOf x = (case x of Num r \<Rightarrow> if r = of_int \<lfloor>r\<rfloor> then Some \<lfloor>r\<rfloor> else None | _ \<Rightarrow> None)"

definition readPositiveInt :: "(jsstr \<Rightarrow> jsnum) \<Rightarrow> jsstr option \<Rightarrow> int \<Rightarrow> int" where
  "readPositiveInt number setting fallback =
     (case integerOf (configNumber number setting) of Some n \<Rightarrow> if n > 0 then n else fallback | None \<Rightarrow> fallback)"

definition readNonNegativeInt :: "(jsstr \<Rightarrow> jsnum) \<Rightarrow> jsstr option \<Rightarrow> int \<Rightarrow> int" where
  "readNonNegativeInt number setting fallback =
     (case integerOf (configNumber number setting) of Some n \<Rightarrow> if n \<ge> 0 then n else fallback | None \<Rightarrow> fallback)"

definition readBoolean :: "jsstr option \<Rightarrow> bool \<Rightarrow> bool" where
  "readBoolean setting fallback = (case setting of
      None \<Rightarrow> fallback
    | Some s \<Rightarrow> if s = [] then fallback else asciiLower s \<in> {jstr ''true'', jstr ''1'', jstr ''yes''})"

record AccountingConfig =
  batchSize :: nat
  flushIntervalMs :: int
  maxQueueSize :: nat
  summaryCacheMs :: int
  summaryCacheMax :: nat
  shareRollupEnabled :: bool
  shareRollupSafetyLagSeconds :: int
  shareRollupMaxSharesPerBatch :: nat

definition accountingConfig :: "(jsstr \<Rightarrow> jsnum) \<Rightarrow> (jsstr \<Rightarrow> jsstr option) \<Rightarrow> AccountingConfig" where
  "accountingConfig number env =
     \<lparr>batchSize = nat (readPositiveInt number (env (jstr ''SHARE_ACCOUNTING_BATCH_SIZE'')) 500),
      flushIntervalMs = readPositiveInt number (env (jstr ''SHARE_ACCOUNTING_FLUSH_INTERVAL_MS'')) 25,
      maxQueueSize = nat (readPositiveInt number (env (jstr ''SHARE_ACCOUNTING_MAX_QUEUE_SIZE'')) 50000),
      summaryCacheMs = readNonNegativeInt number (env (jstr ''SHARE_ACCOUNTING_SUMMARY_CACHE_MS'')) 2500,
      summaryCacheMax = nat (readPositiveInt number (env (jstr ''SHARE_ACCOUNTING_SUMMARY_CACHE_MAX'')) 10000),
      shareRollupEnabled = readBoolean (env (jstr ''SHARE_ROLLUP_ENABLED'')) True,
      shareRollupSafetyLagSeconds = readNonNegativeInt number (env (jstr ''SHARE_ROLLUP_SAFETY_LAG_SECONDS'')) 10,
      shareRollupMaxSharesPerBatch =
        nat (readPositiveInt number (env (jstr ''SHARE_ROLLUP_MAX_SHARES_PER_BATCH'')) 5000000)\<rparr>"

section \<open>Shares\<close>

datatype ShareWorkSource = pool_template | miner_template
datatype ShareWorkProtocol = poolWork | sv2_jdpWork | datumWork
datatype TextOrNumber = Text jsstr | Number int

definition textOf :: "TextOrNumber \<Rightarrow> jsstr" where
  "textOf x = (case x of Text s \<Rightarrow> s | Number n \<Rightarrow> intToString10 n)"

record AcceptedShareRecord =
  ar_protocol :: string
  ar_payoutMode :: "jsstr option"
  ar_workSource :: "ShareWorkSource option"
  ar_workProtocol :: "ShareWorkProtocol option"
  ar_acceptedAt :: "int option"
  ar_address :: string
  ar_clientName :: jsstr
  ar_sessionId :: jsstr
  ar_clientId :: jsstr
  ar_jobId :: jsstr
  ar_jobTemplateId :: jsstr
  ar_blockHeight :: int
  ar_creditedDifficulty :: rat
  ar_submissionDifficulty :: rat
  ar_networkDifficulty :: rat
  ar_nonce :: TextOrNumber
  ar_ntime :: TextOrNumber
  ar_version :: TextOrNumber
  ar_extraNonce2 :: jsstr
  ar_isBlockCandidate :: bool
  ar_blockSubmissionResult :: "jsstr option"

record AcceptedShareEntity =
  se_protocol :: string
  se_payoutMode :: PayoutMode
  se_workSource :: ShareWorkSource
  se_workProtocol :: ShareWorkProtocol
  se_acceptedAt :: int
  se_address :: string
  se_clientName :: jsstr
  se_sessionId :: jsstr
  se_clientId :: jsstr
  se_jobId :: jsstr
  se_jobTemplateId :: jsstr
  se_blockHeight :: int
  se_creditedDifficulty :: rat
  se_submissionDifficulty :: rat
  se_networkDifficulty :: rat
  se_nonce :: jsstr
  se_ntime :: jsstr
  se_version :: jsstr
  se_extraNonce2 :: jsstr
  se_isBlockCandidate :: bool
  se_blockSubmissionResult :: "jsstr option"

definition coalesce :: "'a option \<Rightarrow> 'a \<Rightarrow> 'a" where
  "coalesce x y = (case x of None \<Rightarrow> y | Some a \<Rightarrow> a)"

definition acceptedShareOf :: "int \<Rightarrow> AcceptedShareRecord \<Rightarrow> AcceptedShareEntity" where
  "acceptedShareOf now r =
     \<lparr>se_protocol = ar_protocol r, se_payoutMode = normalizePayoutMode (ar_payoutMode r),
      se_workSource = coalesce (ar_workSource r) pool_template,
      se_workProtocol = coalesce (ar_workProtocol r) poolWork, se_acceptedAt = coalesce (ar_acceptedAt r) now,
      se_address = ar_address r, se_clientName = ar_clientName r, se_sessionId = ar_sessionId r,
      se_clientId = ar_clientId r, se_jobId = ar_jobId r, se_jobTemplateId = ar_jobTemplateId r,
      se_blockHeight = ar_blockHeight r, se_creditedDifficulty = ar_creditedDifficulty r,
      se_submissionDifficulty = ar_submissionDifficulty r, se_networkDifficulty = ar_networkDifficulty r,
      se_nonce = textOf (ar_nonce r), se_ntime = textOf (ar_ntime r), se_version = textOf (ar_version r),
      se_extraNonce2 = ar_extraNonce2 r, se_isBlockCandidate = ar_isBlockCandidate r,
      se_blockSubmissionResult = ar_blockSubmissionResult r\<rparr>"

section \<open>The queue\<close>

text \<open>
  A promise is its ticket; the settled promises are listed in the order in which they settle, with what the
  database said. A flush that runs has its batch in the database, or has settled its promises and not yet
  come to its \<open>finally\<close>.
\<close>

record PendingShare =
  ps_entity :: AcceptedShareEntity
  ps_ticket :: nat

datatype ActiveFlush = Inserting "PendingShare list" | Finishing

record ShareQueue =
  pendingShares :: "PendingShare list"
  flushTimer :: bool
  activeFlush :: "ActiveFlush option"
  nextTicket :: nat
  settledShares :: "(PendingShare \<times> bool) list"

definition newShareQueue :: ShareQueue where
  "newShareQueue = \<lparr>pendingShares = [], flushTimer = False, activeFlush = None, nextTicket = 0, settledShares = []\<rparr>"

definition scheduleFlush :: "ShareQueue \<Rightarrow> ShareQueue" where
  "scheduleFlush q = (if flushTimer q \<or> activeFlush q \<noteq> None then q else q\<lparr>flushTimer := True\<rparr>)"

definition startFlush :: "AccountingConfig \<Rightarrow> ShareQueue \<Rightarrow> ShareQueue" where
  "startFlush cfg q =
     (if activeFlush q \<noteq> None then q
      else
        (let batch = take (batchSize cfg) (pendingShares q);
             q' = q\<lparr>flushTimer := False, pendingShares := drop (batchSize cfg) (pendingShares q)\<rparr>
         in if batch = [] then q' else q'\<lparr>activeFlush := Some (Inserting batch)\<rparr>))"

definition sa_recordAcceptedShare ::
    "AccountingConfig \<Rightarrow> int \<Rightarrow> AcceptedShareRecord \<Rightarrow> ShareQueue \<Rightarrow> nat result \<times> ShareQueue" where
  "sa_recordAcceptedShare cfg now r q =
     (if length (pendingShares q) \<ge> maxQueueSize cfg then (Inl (JsError ''Share accounting queue is full''), q)
      else
        (let q' = q\<lparr>pendingShares := pendingShares q
                 @ [\<lparr>ps_entity = acceptedShareOf now r, ps_ticket = nextTicket q\<rparr>],
               nextTicket := nextTicket q + 1\<rparr>
         in (Inr (nextTicket q),
             if length (pendingShares q') \<ge> batchSize cfg then startFlush cfg q' else scheduleFlush q')))"

text \<open>The timer that fires, the answer of the database, the \<open>finally\<close> of a flush.\<close>

definition fireFlushTimer :: "AccountingConfig \<Rightarrow> ShareQueue \<Rightarrow> ShareQueue" where
  "fireFlushTimer cfg q = startFlush cfg (q\<lparr>flushTimer := False\<rparr>)"

definition flushBatch :: "bool \<Rightarrow> PendingShare list \<Rightarrow> ShareQueue \<Rightarrow> ShareQueue" where
  "flushBatch ok batch q =
     q\<lparr>settledShares := settledShares q @ map (\<lambda>item. (item, ok)) batch, activeFlush := Some Finishing\<rparr>"

definition finishFlush :: "AccountingConfig \<Rightarrow> ShareQueue \<Rightarrow> ShareQueue" where
  "finishFlush cfg q =
     (let q' = q\<lparr>activeFlush := None\<rparr>
      in if length (pendingShares q') \<ge> batchSize cfg then startFlush cfg q'
         else if pendingShares q' \<noteq> [] then scheduleFlush q' else q')"

datatype queue_event = Record int AcceptedShareRecord | TimerFires | Inserted bool | FlushReturns

definition queueStep :: "AccountingConfig \<Rightarrow> queue_event \<Rightarrow> ShareQueue \<Rightarrow> ShareQueue" where
  "queueStep cfg ev q = (case ev of
      Record now r \<Rightarrow> snd (sa_recordAcceptedShare cfg now r q)
    | TimerFires \<Rightarrow> if flushTimer q then fireFlushTimer cfg q else q
    | Inserted ok \<Rightarrow> (case activeFlush q of Some (Inserting batch) \<Rightarrow> flushBatch ok batch q | _ \<Rightarrow> q)
    | FlushReturns \<Rightarrow> if activeFlush q = Some Finishing then finishFlush cfg q else q)"

text \<open>
  The loop that empties the queue when the process ends. Waiting for the active flush lets its insert and
  its \<open>finally\<close> happen; \<open>accepts\<close> is the answer of the database to a batch.
\<close>

partial_function (option) flushPendingShares ::
    "AccountingConfig \<Rightarrow> (PendingShare list \<Rightarrow> bool) \<Rightarrow> ShareQueue \<Rightarrow> ShareQueue option" where
  "flushPendingShares cfg accepts q =
     (case activeFlush q of
        Some (Inserting batch) \<Rightarrow>
          flushPendingShares cfg accepts (finishFlush cfg (flushBatch (accepts batch) batch q))
      | Some Finishing \<Rightarrow> flushPendingShares cfg accepts (finishFlush cfg q)
      | None \<Rightarrow> if pendingShares q = [] then Some q else flushPendingShares cfg accepts (startFlush cfg q))"

section \<open>The rollup\<close>

record ShareRow =
  sr_shareIndex :: int
  sr_share :: AcceptedShareEntity

record RollupBatch =
  rb_id :: int
  rb_startShareIndex :: int
  rb_endShareIndex :: int
  rb_payoutMode :: PayoutMode
  rb_startAcceptedAt :: int
  rb_endAcceptedAt :: int
  rb_acceptedShareCount :: int
  rb_creditedDifficulty :: rat
  rb_finalized :: bool

record RollupSummary =
  rs_batchId :: int
  rs_payoutMode :: PayoutMode
  rs_address :: string
  rs_clientName :: jsstr
  rs_protocol :: string
  rs_blockHeight :: int
  rs_creditedDifficulty :: rat
  rs_acceptedShareCount :: int
  rs_bestSubmissionDifficulty :: rat
  rs_firstShareAt :: int
  rs_lastShareAt :: int

record RollupTables =
  accepted_share_entity :: "ShareRow list"
  share_rollup_batch :: "RollupBatch list"
  share_rollup_batch_summary :: "RollupSummary list"
  nextBatchId :: int

datatype RollupResult =
    NotProcessed string
  | Processed int int int int rat

text \<open>\<open>MIN\<close>, \<open>MAX\<close> of no rows are \<open>NULL\<close>.\<close>

definition sqlMin :: "'a :: linorder list \<Rightarrow> 'a option" where
  "sqlMin xs = (if xs = [] then None else Some (foldr min xs (hd xs)))"

definition sqlMax :: "'a :: linorder list \<Rightarrow> 'a option" where
  "sqlMax xs = (if xs = [] then None else Some (foldr max xs (hd xs)))"

definition lastProcessedShareIndex :: "RollupBatch list \<Rightarrow> int" where
  "lastProcessedShareIndex batches =
     coalesce (sqlMax (map rb_endShareIndex (filter (\<lambda>b. rb_finalized b \<and> rb_payoutMode b = pplns) batches))) 0"

definition pendingRows :: "int \<Rightarrow> ShareRow list \<Rightarrow> ShareRow list" where
  "pendingRows lastIndex rows = filter (\<lambda>r. sr_shareIndex r > lastIndex \<and> se_payoutMode (sr_share r) = pplns) rows"

definition maxStableShareIndex :: "int \<Rightarrow> int \<Rightarrow> int \<Rightarrow> ShareRow list \<Rightarrow> int option" where
  "maxStableShareIndex lagSeconds now lastIndex rows =
     (case sqlMin (map sr_shareIndex
         (filter (\<lambda>r. se_acceptedAt (sr_share r) > now - lagSeconds * 1000) (pendingRows lastIndex rows))) of
        Some firstUnstable \<Rightarrow> Some (firstUnstable - 1)
      | None \<Rightarrow> sqlMax (map sr_shareIndex (pendingRows lastIndex rows)))"

definition boundedRows :: "AccountingConfig \<Rightarrow> int \<Rightarrow> int \<Rightarrow> ShareRow list \<Rightarrow> int list" where
  "boundedRows cfg now lastIndex rows =
     (case maxStableShareIndex (shareRollupSafetyLagSeconds cfg) now lastIndex rows of
        None \<Rightarrow> []
      | Some bound \<Rightarrow> take (shareRollupMaxSharesPerBatch cfg)
          (sort (map sr_shareIndex (filter (\<lambda>r. sr_shareIndex r \<le> bound) (pendingRows lastIndex rows)))))"

definition rowsBetween :: "int \<Rightarrow> int \<Rightarrow> ShareRow list \<Rightarrow> AcceptedShareEntity list" where
  "rowsBetween first final rows = map sr_share (filter (\<lambda>r. sr_shareIndex r \<ge> first \<and> sr_shareIndex r \<le> final
     \<and> se_payoutMode (sr_share r) = pplns) rows)"

definition groupKey :: "AcceptedShareEntity \<Rightarrow> string \<times> jsstr \<times> string \<times> int" where
  "groupKey s = (se_address s, se_clientName s, se_protocol s, se_blockHeight s)"

definition summaryOf :: "int \<Rightarrow> AcceptedShareEntity list \<Rightarrow> string \<times> jsstr \<times> string \<times> int \<Rightarrow> RollupSummary" where
  "summaryOf batchId shares key =
     (let members = filter (\<lambda>s. groupKey s = key) shares
      in case key of (address, clientName, protocol, blockHeight) \<Rightarrow>
        \<lparr>rs_batchId = batchId, rs_payoutMode = pplns, rs_address = address, rs_clientName = clientName,
         rs_protocol = protocol, rs_blockHeight = blockHeight,
         rs_creditedDifficulty = sum_list (map se_creditedDifficulty members),
         rs_acceptedShareCount = int (length members),
         rs_bestSubmissionDifficulty = coalesce (sqlMax (map se_submissionDifficulty members)) 0,
         rs_firstShareAt = coalesce (sqlMin (map se_acceptedAt members)) 0,
         rs_lastShareAt = coalesce (sqlMax (map se_acceptedAt members)) 0\<rparr>)"

definition batchOf :: "int \<Rightarrow> int \<Rightarrow> int \<Rightarrow> AcceptedShareEntity list \<Rightarrow> RollupBatch" where
  "batchOf batchId first final shares =
     \<lparr>rb_id = batchId, rb_startShareIndex = first, rb_endShareIndex = final, rb_payoutMode = pplns,
      rb_startAcceptedAt = coalesce (sqlMin (map se_acceptedAt shares)) 0,
      rb_endAcceptedAt = coalesce (sqlMax (map se_acceptedAt shares)) 0,
      rb_acceptedShareCount = int (length shares),
      rb_creditedDifficulty = sum_list (map se_creditedDifficulty shares), rb_finalized = True\<rparr>"

definition processPendingShareRollupBatch ::
    "AccountingConfig \<Rightarrow> int \<Rightarrow> bool \<Rightarrow> RollupTables \<Rightarrow> RollupResult \<times> RollupTables" where
  "processPendingShareRollupBatch cfg now locked db =
     (if \<not> shareRollupEnabled cfg then (NotProcessed ''disabled'', db)
      else if \<not> locked then (NotProcessed ''locked'', db)
      else
        (let rows = accepted_share_entity db;
             bounded = boundedRows cfg now (lastProcessedShareIndex (share_rollup_batch db)) rows
         in case (sqlMin bounded, sqlMax bounded) of
              (Some first, Some final) \<Rightarrow>
                (let shares = rowsBetween first final rows; batchId = nextBatchId db;
                     batch = batchOf batchId first final shares
                 in if shares = [] then (NotProcessed ''no-shares'', db)
                    else (Processed batchId first final (rb_acceptedShareCount batch) (rb_creditedDifficulty batch),
                      db\<lparr>share_rollup_batch := share_rollup_batch db @ [batch],
                         share_rollup_batch_summary := share_rollup_batch_summary db
                           @ map (summaryOf batchId shares) (remdups (map groupKey shares)),
                         nextBatchId := batchId + 1\<rparr>))
            | _ \<Rightarrow> (NotProcessed ''no-shares'', db)))"

section \<open>Summaries\<close>

record AccountingFilter =
  af_address :: "string option"
  af_clientName :: "jsstr option"
  af_clientId :: "jsstr option"
  af_payoutMode :: "PayoutMode option"

text \<open>
  The cache is a \<open>Map\<close> in insertion order; the text of the key of a filter determines the filter, which
  stands for it. \<open>load\<close> is the promise of the summary.
\<close>

type_synonym 'v summaryCache = "(AccountingFilter \<times> int \<times> 'v) list"

definition trimSummaryCache :: "nat \<Rightarrow> 'v summaryCache \<Rightarrow> 'v summaryCache" where
  "trimSummaryCache limit cache = drop (length cache - limit) cache"

definition getSummary ::
    "AccountingConfig \<Rightarrow> int \<Rightarrow> (AccountingFilter \<Rightarrow> 'v) \<Rightarrow> AccountingFilter \<Rightarrow> 'v summaryCache \<Rightarrow> 'v \<times> 'v summaryCache" where
  "getSummary cfg now load flt cache =
     (let fresh = (load flt,
          if summaryCacheMs cfg > 0
          then trimSummaryCache (summaryCacheMax cfg) (AList.update flt (now + summaryCacheMs cfg, load flt) cache)
          else cache)
      in case map_of cache flt of
           Some (expiresAt, v) \<Rightarrow> if expiresAt > now then (v, cache) else fresh
         | None \<Rightarrow> fresh)"

text \<open>A load that fails takes its entry out of the cache again.\<close>

definition summaryFailed :: "AccountingFilter \<Rightarrow> 'v summaryCache \<Rightarrow> 'v summaryCache" where
  "summaryFailed flt cache = AList.delete flt cache"

text \<open>The conditions of a filter, each with the parameter it compares with.\<close>

definition buildWhereClause :: "AccountingFilter \<Rightarrow> AcceptedShareEntity \<Rightarrow> bool" where
  "buildWhereClause flt s \<longleftrightarrow>
     (case af_address flt of None \<Rightarrow> True | Some a \<Rightarrow> se_address s = a)
     \<and> (case af_clientName flt of None \<Rightarrow> True | Some n \<Rightarrow> se_clientName s = n)
     \<and> (case af_clientId flt of None \<Rightarrow> True | Some i \<Rightarrow> se_clientId s = i)
     \<and> (case af_payoutMode flt of None \<Rightarrow> True | Some m \<Rightarrow> se_payoutMode s = m)"

end
