(* ===== verification/PayoutSnapshots.thy ===== *)
theory PayoutSnapshots
  imports ShareAccounting PayoutDistribution
begin

text \<open>
  \<open>src/ORM/payout-snapshot/payout-snapshot.service.ts\<close>: a template of the PPLNS mode gets a snapshot of who is
  paid what, from the newest batches of shares; a found block turns its snapshot into balances and history.

  Tables are lists of rows as in \<open>ShareAccounting\<close>, a transaction that throws leaves them as they were. What
  the driver sends for a number is the decimal \<open>decimalOf\<close> of it; a \<open>::float\<close> of a numeric is rounded by
  \<open>fl\<close>. Amounts are integers below $2^{53}$. The clock of the database is an argument.
\<close>

section \<open>Configuration\<close>

definition readPositiveNumber :: "(jsstr \<Rightarrow> jsnum) \<Rightarrow> jsstr option \<Rightarrow> rat \<Rightarrow> rat" where
  "readPositiveNumber number setting fallback =
     (case configNumber number setting of Num r \<Rightarrow> if r > 0 then r else fallback | _ \<Rightarrow> fallback)"

definition readNonNegativeNumber :: "(jsstr \<Rightarrow> jsnum) \<Rightarrow> jsstr option \<Rightarrow> rat \<Rightarrow> rat" where
  "readNonNegativeNumber number setting fallback =
     (case configNumber number setting of Num r \<Rightarrow> if r \<ge> 0 then r else fallback | _ \<Rightarrow> fallback)"

record SnapshotConfig =
  snapshotsEnabled :: bool
  payoutMethod :: jsstr
  windowFactor :: rat
  bootstrapWindow :: bool
  maxCoinbaseOutputs :: nat
  minOutputSats :: int
  snapshotFeeAddress :: string
  snapshotFeePercent :: rat
  coinbaseWeightBudget :: int

text \<open>\<open>feeAddress\<close> is the trimmed \<open>PAYOUT_FEE_ADDRESS\<close>, or the empty text.\<close>

definition snapshotConfig :: "(jsstr \<Rightarrow> jsnum) \<Rightarrow> (jsstr \<Rightarrow> jsstr option) \<Rightarrow> string \<Rightarrow> SnapshotConfig" where
  "snapshotConfig number env feeAddress =
     \<lparr>snapshotsEnabled = readBoolean (env (jstr ''PAYOUT_SNAPSHOT_ENABLED'')) True,
      payoutMethod = coalesce (env (jstr ''PAYOUT_METHOD'')) (jstr ''pplns''),
      windowFactor = readPositiveNumber number (env (jstr ''PAYOUT_WINDOW_FACTOR'')) 4,
      bootstrapWindow = readBoolean (env (jstr ''PAYOUT_BOOTSTRAP_WINDOW'')) True,
      maxCoinbaseOutputs = nat (readPositiveInt number (env (jstr ''PAYOUT_MAX_COINBASE_OUTPUTS'')) 200),
      minOutputSats = readNonNegativeInt number (env (jstr ''PAYOUT_MIN_OUTPUT_SATS'')) 546,
      snapshotFeeAddress = feeAddress,
      snapshotFeePercent = readNonNegativeNumber number (env (jstr ''PAYOUT_FEE_PERCENT'')) 0,
      coinbaseWeightBudget = readPositiveInt number (env (jstr ''PAYOUT_COINBASE_WEIGHT_BUDGET'')) 26000\<rparr>"

section \<open>Tables\<close>

record SnapshotRow =
  ss_id :: int
  ss_method :: jsstr
  ss_payoutMode :: PayoutMode
  ss_blockHeight :: int
  ss_coinbaseValueSats :: int
  ss_networkDifficulty :: rat
  ss_windowTargetDifficulty :: rat
  ss_windowFactor :: rat
  ss_feeAddress :: "string option"
  ss_feeSats :: int
  ss_minPayoutSats :: int
  ss_coinbaseWeightBudget :: int
  ss_startBatchId :: int
  ss_endBatchId :: int
  ss_windowStartShareIndex :: int
  ss_windowEndShareIndex :: int
  ss_totalCreditedDifficulty :: rat
  ss_totalAcceptedShareCount :: int
  ss_eligibleAddressCount :: int
  ss_includedOutputCount :: int
  ss_distributedSats :: int
  ss_unallocatedRemainderSats :: int

record SnapshotEntryRow =
  sn_snapshotId :: int
  sn_payoutMode :: PayoutMode
  sn_address :: string
  sn_creditedDifficulty :: rat
  sn_acceptedShareCount :: int
  sn_payoutWeight :: rat
  sn_grossPayoutSats :: int
  sn_payoutSats :: int
  sn_balanceBeforeSats :: int
  sn_balanceAfterSats :: int
  sn_includedInCoinbase :: bool
  sn_rank :: nat

record BalanceRow =
  pb_balanceSats :: int
  pb_totalPaidSats :: int
  pb_lastAcceptedShareAt :: "int option"
  pb_updatedAt :: int

datatype RowType = coinbaseRow | pendingRow

record HistoryRow =
  ph_blockHeight :: int
  ph_payoutSnapshotId :: int
  ph_payoutMode :: PayoutMode
  ph_address :: string
  ph_paidSats :: int
  ph_percent :: rat
  ph_balanceBeforeSats :: int
  ph_balanceAfterSats :: int
  ph_rowType :: RowType

text \<open>\<open>payout_balance\<close> is keyed by its address.\<close>

record PayoutTables = RollupTables +
  payout_snapshot :: "SnapshotRow list"
  payout_snapshot_entry :: "SnapshotEntryRow list"
  payout_balance :: "(string \<times> BalanceRow) list"
  payout_history :: "HistoryRow list"
  nextSnapshotId :: int

section \<open>The payout window\<close>

record PplnsWindow =
  pw_startBatchId :: int
  pw_endBatchId :: int
  pw_windowStartShareIndex :: int
  pw_windowEndShareIndex :: int
  pw_totalCreditedDifficulty :: rat
  pw_totalAcceptedShareCount :: int

text \<open>Every batch with the difficulty of the batches after it, the newest first.\<close>

fun withDifficultyAfter :: "rat \<Rightarrow> RollupBatch list \<Rightarrow> (RollupBatch \<times> rat) list" where
  "withDifficultyAfter after [] = []"
| "withDifficultyAfter after (b # bs) = (b, after) # withDifficultyAfter (after + rb_creditedDifficulty b) bs"

definition newestFirst :: "RollupBatch list \<Rightarrow> RollupBatch list" where
  "newestFirst batches = js_sort (\<lambda>a b. rb_endShareIndex b < rb_endShareIndex a)
     (filter (\<lambda>b. rb_finalized b \<and> rb_payoutMode b = pplns) batches)"

definition selectedBatches :: "rat \<Rightarrow> RollupBatch list \<Rightarrow> RollupBatch list" where
  "selectedBatches windowTargetDifficulty batches =
     map fst (filter (\<lambda>(b, after). after < windowTargetDifficulty) (withDifficultyAfter 0 (newestFirst batches)))"

definition getPplnsWindow :: "rat \<Rightarrow> RollupBatch list \<Rightarrow> PplnsWindow option" where
  "getPplnsWindow windowTargetDifficulty batches =
     (let selected = selectedBatches windowTargetDifficulty batches
      in case (sqlMin (map rb_id selected), sqlMax (map rb_id selected),
               sqlMin (map rb_startShareIndex selected), sqlMax (map rb_endShareIndex selected)) of
           (Some firstId, Some lastId, Some first, Some final) \<Rightarrow>
             Some \<lparr>pw_startBatchId = firstId, pw_endBatchId = lastId, pw_windowStartShareIndex = first,
               pw_windowEndShareIndex = final,
               pw_totalCreditedDifficulty = sum_list (map rb_creditedDifficulty selected),
               pw_totalAcceptedShareCount = sum_list (map rb_acceptedShareCount selected)\<rparr>
         | _ \<Rightarrow> None)"

definition getFinalizedPayoutBlockCount :: "HistoryRow list \<Rightarrow> nat" where
  "getFinalizedPayoutBlockCount history =
     length (remdups (map ph_blockHeight (filter (\<lambda>h. ph_payoutMode h = pplns) history)))"

definition getEffectiveWindowFactor :: "SnapshotConfig \<Rightarrow> HistoryRow list \<Rightarrow> rat" where
  "getEffectiveWindowFactor cfg history =
     (if \<not> bootstrapWindow cfg then windowFactor cfg
      else min (windowFactor cfg) (max 1 (of_nat (getFinalizedPayoutBlockCount history) + 1)))"

text \<open>The rows of \<open>share_rollup_batch_summary\<close> that join a batch of the window.\<close>

definition windowSummaries :: "int \<Rightarrow> int \<Rightarrow> RollupBatch list \<Rightarrow> RollupSummary list \<Rightarrow> RollupSummary list" where
  "windowSummaries first final batches summaries =
     concat (map (\<lambda>s. map (\<lambda>b. s) (filter (\<lambda>b. rb_id b = rs_batchId s \<and> rb_finalized b \<and> rb_payoutMode b = pplns
        \<and> rs_payoutMode s = pplns \<and> rb_endShareIndex b \<ge> first \<and> rb_endShareIndex b \<le> final) batches)) summaries)"

definition addressDifficulty :: "RollupSummary list \<Rightarrow> string \<Rightarrow> rat" where
  "addressDifficulty rows address =
     sum_list (map rs_creditedDifficulty (filter (\<lambda>s. rs_address s = address) rows))"

definition getAddressWork :: "int \<Rightarrow> int \<Rightarrow> RollupBatch list \<Rightarrow> RollupSummary list \<Rightarrow> PayoutAddressWork list" where
  "getAddressWork first final batches summaries =
     (let rows = windowSummaries first final batches summaries
      in map (\<lambda>address. \<lparr>paw_address = address, paw_creditedDifficulty = Num (fl (addressDifficulty rows address)),
             paw_acceptedShareCount = sum_list (map rs_acceptedShareCount (filter (\<lambda>s. rs_address s = address) rows))\<rparr>)
           (filter (\<lambda>address. addressDifficulty rows address > 0) (remdups (map rs_address rows))))"

definition getOpenBalances :: "(string \<times> BalanceRow) list \<Rightarrow> PayoutBalanceInput list" where
  "getOpenBalances rows = map (\<lambda>(address, b). \<lparr>pbi_address = address, pbi_balanceSats = Num (of_int (pb_balanceSats b))\<rparr>)
     (filter (\<lambda>(address, b). pb_balanceSats b \<noteq> 0) rows)"

section \<open>The limit of the outputs\<close>

text \<open>The first pass: entries beyond the limit keep their payout as balance.\<close>

definition postponed :: "PayoutDistributionEntry \<Rightarrow> PayoutDistributionEntry" where
  "postponed e = e\<lparr>pde_payoutSats := 0, pde_balanceAfterSats := pde_balanceAfterSats e + pde_payoutSats e,
     pde_includedInCoinbase := False\<rparr>"

fun limitEntries :: "nat \<Rightarrow> PayoutDistributionEntry list \<Rightarrow> PayoutDistributionEntry list \<times> int" where
  "limitEntries room [] = ([], 0)"
| "limitEntries room (e # es) =
     (if \<not> pde_includedInCoinbase e then (case limitEntries room es of (es', removed) \<Rightarrow> (e # es', removed))
      else case room of
          Suc room' \<Rightarrow> (case limitEntries room' es of (es', removed) \<Rightarrow> (e # es', removed))
        | 0 \<Rightarrow> (case limitEntries 0 es of (es', removed) \<Rightarrow> (postponed e # es', pde_payoutSats e + removed)))"

text \<open>The second pass: what was removed goes to the kept entries by their work. An entry is its place.\<close>

record CoinbaseAllocation =
  cl_place :: nat
  cl_entry :: PayoutDistributionEntry
  cl_whole :: int
  cl_fraction :: rat

definition allocationFor :: "int \<Rightarrow> rat \<Rightarrow> nat \<times> PayoutDistributionEntry \<Rightarrow> CoinbaseAllocation" where
  "allocationFor removedPayoutSats keptDifficulty = (\<lambda>(place, e).
     let exact = exactShare (pde_creditedDifficulty e) removedPayoutSats keptDifficulty
     in \<lparr>cl_place = place, cl_entry = e, cl_whole = \<lfloor>exact\<rfloor>, cl_fraction = fl (exact - of_int \<lfloor>exact\<rfloor>)\<rparr>)"

definition allocationBefore :: "(string \<Rightarrow> string \<Rightarrow> int) \<Rightarrow> CoinbaseAllocation \<Rightarrow> CoinbaseAllocation \<Rightarrow> bool" where
  "allocationBefore lc a b \<longleftrightarrow>
     (if cl_fraction a \<noteq> cl_fraction b then cl_fraction b < cl_fraction a
      else if pde_creditedDifficulty (cl_entry a) \<noteq> pde_creditedDifficulty (cl_entry b)
      then pde_creditedDifficulty (cl_entry b) < pde_creditedDifficulty (cl_entry a)
      else lc (pde_address (cl_entry a)) (pde_address (cl_entry b)) < 0)"

definition addSats :: "int \<Rightarrow> PayoutDistributionEntry \<Rightarrow> PayoutDistributionEntry" where
  "addSats extra e = e\<lparr>pde_payoutSats := pde_payoutSats e + extra, pde_balanceAfterSats := pde_balanceAfterSats e - extra\<rparr>"

fun handOut :: "int \<Rightarrow> CoinbaseAllocation list \<Rightarrow> PayoutDistributionEntry list \<Rightarrow> PayoutDistributionEntry list" where
  "handOut residual [] es = es"
| "handOut residual (a # rest) es =
     handOut (if residual > 0 then residual - 1 else residual) rest
       (es[cl_place a := addSats (cl_whole a + (if residual > 0 then 1 else 0)) (es ! cl_place a)])"

definition limitCoinbaseOutputs ::
    "(string \<Rightarrow> string \<Rightarrow> int) \<Rightarrow> nat \<Rightarrow> PayoutDistributionEntry list \<Rightarrow> PayoutDistributionEntry list" where
  "limitCoinbaseOutputs lc limit es =
     (case limitEntries limit es of (limited, removedPayoutSats) \<Rightarrow>
       (let keptActive = filter (\<lambda>(i, e). pde_includedInCoinbase e \<and> pde_creditedDifficulty e > 0) (enumerate 0 limited);
            keptDifficulty = fsum (map (pde_creditedDifficulty \<circ> snd) keptActive);
            allocations = map (allocationFor removedPayoutSats keptDifficulty) keptActive;
            residual = removedPayoutSats - sum_list (map cl_whole allocations)
        in if removedPayoutSats \<le> 0 \<or> keptDifficulty \<le> 0 then limited
           else handOut residual (js_sort (allocationBefore lc) allocations) limited))"

section \<open>Snapshots\<close>

record SnapshotOutput =
  so_address :: string
  so_amountSats :: int
  so_percent :: rat

record PayoutSnapshotForTemplate =
  st_row :: SnapshotRow
  st_payoutOutputs :: "SnapshotOutput list"

definition percentOf :: "int \<Rightarrow> int \<Rightarrow> rat" where
  "percentOf sats coinbaseValue = (if coinbaseValue > 0 then fl (fl (of_int sats / of_int coinbaseValue) * 100) else 0)"

definition getSnapshotById :: "'z PayoutTables_scheme \<Rightarrow> int \<Rightarrow> PayoutSnapshotForTemplate option" where
  "getSnapshotById db i =
     map_option (\<lambda>row. \<lparr>st_row = row, st_payoutOutputs =
         map (\<lambda>e. \<lparr>so_address = sn_address e, so_amountSats = sn_payoutSats e,
              so_percent = percentOf (sn_payoutSats e) (ss_coinbaseValueSats row)\<rparr>)
           (js_sort (\<lambda>a b. sn_rank a < sn_rank b)
             (filter (\<lambda>e. sn_snapshotId e = i \<and> sn_payoutMode e = pplns \<and> sn_includedInCoinbase e)
               (payout_snapshot_entry db)))\<rparr>)
       (find (\<lambda>s. ss_id s = i \<and> ss_payoutMode s = pplns) (payout_snapshot db))"

definition getExistingSnapshot ::
    "SnapshotConfig \<Rightarrow> 'z PayoutTables_scheme \<Rightarrow> int \<Rightarrow> int \<Rightarrow> int \<Rightarrow> PayoutSnapshotForTemplate option" where
  "getExistingSnapshot cfg db blockHeight coinbaseValueSats windowEndShareIndex =
     Option.bind (sqlMax (map ss_id (filter (\<lambda>s. ss_method s = payoutMethod cfg \<and> ss_payoutMode s = pplns
         \<and> ss_blockHeight s = blockHeight \<and> ss_coinbaseValueSats s = coinbaseValueSats
         \<and> ss_windowEndShareIndex s = windowEndShareIndex) (payout_snapshot db))))
       (getSnapshotById db)"

definition entryRow :: "(rat \<Rightarrow> rat) \<Rightarrow> int \<Rightarrow> PayoutDistributionEntry \<Rightarrow> SnapshotEntryRow" where
  "entryRow decimalOf snapshotId e = \<lparr>sn_snapshotId = snapshotId, sn_payoutMode = pplns, sn_address = pde_address e,
     sn_creditedDifficulty = decimalOf (pde_creditedDifficulty e), sn_acceptedShareCount = pde_acceptedShareCount e,
     sn_payoutWeight = decimalOf (pde_payoutWeight e), sn_grossPayoutSats = pde_grossPayoutSats e,
     sn_payoutSats = pde_payoutSats e, sn_balanceBeforeSats = pde_balanceBeforeSats e,
     sn_balanceAfterSats = pde_balanceAfterSats e, sn_includedInCoinbase = pde_includedInCoinbase e,
     sn_rank = pde_rank e\<rparr>"

text \<open>The unique index on \<open>(snapshotId, address)\<close> refuses the second entry of an address.\<close>

fun insertSnapshotEntries ::
    "(rat \<Rightarrow> rat) \<Rightarrow> int \<Rightarrow> PayoutDistributionEntry list \<Rightarrow> SnapshotEntryRow list \<Rightarrow> SnapshotEntryRow list result" where
  "insertSnapshotEntries decimalOf snapshotId [] rows = Inr rows"
| "insertSnapshotEntries decimalOf snapshotId (e # es) rows =
     (if list_ex (\<lambda>r. sn_snapshotId r = snapshotId \<and> sn_address r = pde_address e) rows
      then Inl (JsError ''23505'') else insertSnapshotEntries decimalOf snapshotId es (rows @ [entryRow decimalOf snapshotId e]))"

record SnapshotInput =
  si_blockHeight :: int
  si_coinbaseValueSats :: int
  si_networkDifficulty :: rat

text \<open>What the package for addresses and the collation answer, and the decimal of a number.\<close>

record SnapshotEnv =
  sv_addressType :: "string \<Rightarrow> AddressType option"
  sv_localeCompare :: "string \<Rightarrow> string \<Rightarrow> int"
  sv_decimalOf :: "rat \<Rightarrow> rat"

definition distributionInput ::
    "SnapshotConfig \<Rightarrow> SnapshotInput \<Rightarrow> PayoutAddressWork list \<Rightarrow> PayoutBalanceInput list \<Rightarrow> PayoutDistributionInput" where
  "distributionInput cfg input work openBalances = \<lparr>addressWork = work, balances = openBalances,
     in_coinbaseValueSats = of_int (si_coinbaseValueSats input), in_feeAddress = Some (snapshotFeeAddress cfg),
     in_feePercent = Num (snapshotFeePercent cfg), in_minOutputSats = of_int (minOutputSats cfg),
     in_coinbaseWeightBudget = of_int (coinbaseWeightBudget cfg)\<rparr>"

definition includedOf :: "PayoutDistributionEntry list \<Rightarrow> PayoutDistributionEntry list" where
  "includedOf es = filter pde_includedInCoinbase es"

definition snapshotRow ::
    "SnapshotConfig \<Rightarrow> SnapshotEnv \<Rightarrow> SnapshotInput \<Rightarrow> rat \<Rightarrow> PplnsWindow \<Rightarrow> PayoutDistributionResult \<Rightarrow>
     PayoutDistributionEntry list \<Rightarrow> int \<Rightarrow> SnapshotRow" where
  "snapshotRow cfg env input factor window distribution es i =
     (let distributed = sum_list (map pde_payoutSats (includedOf es))
      in \<lparr>ss_id = i, ss_method = payoutMethod cfg, ss_payoutMode = pplns, ss_blockHeight = si_blockHeight input,
          ss_coinbaseValueSats = si_coinbaseValueSats input,
          ss_networkDifficulty = sv_decimalOf env (si_networkDifficulty input),
          ss_windowTargetDifficulty = sv_decimalOf env (fl (si_networkDifficulty input * factor)),
          ss_windowFactor = sv_decimalOf env factor,
          ss_feeAddress = (if snapshotFeeAddress cfg = [] then None else Some (snapshotFeeAddress cfg)),
          ss_feeSats = pdr_feeSats distribution, ss_minPayoutSats = minOutputSats cfg,
          ss_coinbaseWeightBudget = coinbaseWeightBudget cfg,
          ss_startBatchId = pw_startBatchId window, ss_endBatchId = pw_endBatchId window,
          ss_windowStartShareIndex = pw_windowStartShareIndex window,
          ss_windowEndShareIndex = pw_windowEndShareIndex window,
          ss_totalCreditedDifficulty = pw_totalCreditedDifficulty window,
          ss_totalAcceptedShareCount = pw_totalAcceptedShareCount window,
          ss_eligibleAddressCount = int (consideredAddressCount distribution),
          ss_includedOutputCount = int (length (includedOf es)), ss_distributedSats = distributed,
          ss_unallocatedRemainderSats = si_coinbaseValueSats input - distributed\<rparr>)"

text \<open>The body of the transaction, once there is a window.\<close>

definition snapshotForWindow ::
    "SnapshotConfig \<Rightarrow> SnapshotEnv \<Rightarrow> SnapshotInput \<Rightarrow> rat \<Rightarrow> PplnsWindow \<Rightarrow> PayoutTables \<Rightarrow>
     (PayoutSnapshotForTemplate option \<times> PayoutTables) result" where
  "snapshotForWindow cfg env input factor window db =
     (let work = getAddressWork (pw_windowStartShareIndex window) (pw_windowEndShareIndex window)
            (share_rollup_batch db) (share_rollup_batch_summary db);
          distribution = buildPayoutDistribution (sv_addressType env) (sv_localeCompare env)
            (distributionInput cfg input work (getOpenBalances (payout_balance db)));
          es = limitCoinbaseOutputs (sv_localeCompare env) (maxCoinbaseOutputs cfg) (entries distribution);
          i = nextSnapshotId db
      in if work = [] \<or> includedOf es = [] then Inr (None, db)
         else rbind (insertSnapshotEntries (sv_decimalOf env) i es (payout_snapshot_entry db)) (\<lambda>rows.
           let db' = db\<lparr>payout_snapshot := payout_snapshot db @ [snapshotRow cfg env input factor window distribution es i],
                 payout_snapshot_entry := rows, nextSnapshotId := i + 1\<rparr>
           in Inr (getSnapshotById db' i, db')))"

definition createSnapshotForTemplate ::
    "SnapshotConfig \<Rightarrow> SnapshotEnv \<Rightarrow> SnapshotInput \<Rightarrow> PayoutTables \<Rightarrow>
     PayoutSnapshotForTemplate option result \<times> PayoutTables" where
  "createSnapshotForTemplate cfg env input db =
     (if \<not> snapshotsEnabled cfg \<or> si_coinbaseValueSats input \<le> 0 \<or> si_networkDifficulty input \<le> 0
      then (Inr None, db)
      else
        (let factor = getEffectiveWindowFactor cfg (payout_history db)
         in case getPplnsWindow (sv_decimalOf env (fl (si_networkDifficulty input * factor))) (share_rollup_batch db) of
              None \<Rightarrow> (Inr None, db)
            | Some window \<Rightarrow>
                if fl (pw_totalCreditedDifficulty window) \<le> 0 then (Inr None, db)
                else (case getExistingSnapshot cfg db (si_blockHeight input) (si_coinbaseValueSats input)
                       (pw_windowEndShareIndex window) of
                    Some existing \<Rightarrow> (Inr (Some existing), db)
                  | None \<Rightarrow> (case snapshotForWindow cfg env input factor window db of
                        Inl e \<Rightarrow> (Inl e, db)
                      | Inr (snapshot, db') \<Rightarrow> (Inr snapshot, db')))))"

section \<open>Finalization\<close>

record FinalizeInput =
  fi_payoutSnapshotId :: "int option"
  fi_blockHeight :: int
  fi_blockSubmissionResult :: "jsstr option"
  fi_payoutMode :: "PayoutMode option"

datatype FinalizationReason = disabled | missing_snapshot | already_finalized | duplicate

datatype PayoutFinalizationResult = NotFinalized FinalizationReason | Finalized int nat nat

definition ps_isSuccessfulBlockSubmission :: "jsstr option \<Rightarrow> bool" where
  "ps_isSuccessfulBlockSubmission r \<longleftrightarrow> r = None \<or> r = Some (jstr ''SUCCESS!'')"

text \<open>The upsert of a balance and the insert of a history row, for one entry.\<close>

definition upsertBalance :: "int \<Rightarrow> SnapshotEntryRow \<Rightarrow> (string \<times> BalanceRow) list \<Rightarrow> (string \<times> BalanceRow) list" where
  "upsertBalance now e rows =
     (let paid = (if sn_includedInCoinbase e then sn_payoutSats e else 0);
          wasActive = (fl (sn_creditedDifficulty e) > 0);
          existing = map_of rows (sn_address e)
      in AList.update (sn_address e)
           \<lparr>pb_balanceSats = sn_balanceAfterSats e,
            pb_totalPaidSats = (case existing of None \<Rightarrow> paid | Some b \<Rightarrow> pb_totalPaidSats b + paid),
            pb_lastAcceptedShareAt = (if wasActive then Some now
               else case existing of None \<Rightarrow> None | Some b \<Rightarrow> pb_lastAcceptedShareAt b),
            pb_updatedAt = now\<rparr> rows)"

definition historyRow :: "FinalizeInput \<Rightarrow> int \<Rightarrow> int \<Rightarrow> SnapshotEntryRow \<Rightarrow> HistoryRow" where
  "historyRow input snapshotId coinbaseValue e =
     \<lparr>ph_blockHeight = fi_blockHeight input, ph_payoutSnapshotId = snapshotId, ph_payoutMode = pplns,
      ph_address = sn_address e, ph_paidSats = sn_payoutSats e,
      ph_percent = (if sn_includedInCoinbase e then percentOf (sn_payoutSats e) coinbaseValue else 0),
      ph_balanceBeforeSats = sn_balanceBeforeSats e, ph_balanceAfterSats = sn_balanceAfterSats e,
      ph_rowType = (if sn_includedInCoinbase e then coinbaseRow else pendingRow)\<rparr>"

definition insertHistory :: "HistoryRow \<Rightarrow> HistoryRow list \<Rightarrow> HistoryRow list" where
  "insertHistory row rows =
     (if list_ex (\<lambda>h. ph_payoutMode h = ph_payoutMode row \<and> ph_blockHeight h = ph_blockHeight row
        \<and> ph_address h = ph_address row) rows then rows else rows @ [row])"

definition finalizeEntry :: "int \<Rightarrow> FinalizeInput \<Rightarrow> int \<Rightarrow> int \<Rightarrow> SnapshotEntryRow \<Rightarrow> PayoutTables \<Rightarrow> PayoutTables" where
  "finalizeEntry now input snapshotId coinbaseValue e db =
     db\<lparr>payout_balance := upsertBalance now e (payout_balance db),
        payout_history := insertHistory (historyRow input snapshotId coinbaseValue e) (payout_history db)\<rparr>"

definition snapshotEntries :: "PayoutTables \<Rightarrow> int \<Rightarrow> SnapshotEntryRow list" where
  "snapshotEntries db snapshotId = js_sort (\<lambda>a b. sn_rank a < sn_rank b)
     (filter (\<lambda>e. sn_snapshotId e = snapshotId \<and> sn_payoutMode e = pplns) (payout_snapshot_entry db))"

definition finalizeEntries :: "int \<Rightarrow> FinalizeInput \<Rightarrow> int \<Rightarrow> int \<Rightarrow> SnapshotEntryRow list \<Rightarrow> PayoutTables \<Rightarrow> PayoutTables" where
  "finalizeEntries now input snapshotId coinbaseValue es db =
     fold (finalizeEntry now input snapshotId coinbaseValue) es db"

text \<open>
  \<open>conflict\<close>: another transaction has committed rows with the same keys meanwhile, and this one is undone.
\<close>

definition finalizeSnapshotForBlock ::
    "SnapshotConfig \<Rightarrow> int \<Rightarrow> bool \<Rightarrow> FinalizeInput \<Rightarrow> PayoutTables \<Rightarrow> PayoutFinalizationResult \<times> PayoutTables" where
  "finalizeSnapshotForBlock cfg now conflict input db =
     (if \<not> snapshotsEnabled cfg then (NotFinalized disabled, db)
      else if coalesce (fi_payoutMode input) pplns \<noteq> pplns then (NotFinalized missing_snapshot, db)
      else if \<not> ps_isSuccessfulBlockSubmission (fi_blockSubmissionResult input) then (NotFinalized missing_snapshot, db)
      else (case fi_payoutSnapshotId input of
          None \<Rightarrow> (NotFinalized missing_snapshot, db)
        | Some snapshotId \<Rightarrow>
            (case find (\<lambda>s. ss_id s = snapshotId \<and> ss_payoutMode s = pplns) (payout_snapshot db) of
               None \<Rightarrow> (NotFinalized missing_snapshot, db)
             | Some snapshot \<Rightarrow>
                 if list_ex (\<lambda>h. ph_blockHeight h = fi_blockHeight input \<and> ph_payoutMode h = pplns) (payout_history db)
                 then (NotFinalized already_finalized, db)
                 else
                   (let es = snapshotEntries db snapshotId
                    in if es = [] then (NotFinalized missing_snapshot, db)
                       else if conflict then (NotFinalized duplicate, db)
                       else (Finalized snapshotId (length es) (length es),
                         finalizeEntries now input snapshotId (ss_coinbaseValueSats snapshot) es db)))))"

section \<open>Queries\<close>

text \<open>Snapshots are listed in the order of their creation.\<close>

definition getLatestSnapshot :: "PayoutTables \<Rightarrow> PayoutSnapshotForTemplate option" where
  "getLatestSnapshot db =
     (case rev (filter (\<lambda>s. ss_payoutMode s = pplns) (payout_snapshot db)) of
        [] \<Rightarrow> None
      | s # _ \<Rightarrow> getSnapshotById db (ss_id s))"

record ExpectedPayout =
  ep_snapshot :: SnapshotRow
  ep_payoutSats :: int
  ep_grossPayoutSats :: int
  ep_creditedDifficulty :: rat
  ep_payoutWeight :: rat
  ep_percent :: rat

definition getLatestExpectedPayoutForAddress :: "string \<Rightarrow> PayoutTables \<Rightarrow> ExpectedPayout option" where
  "getLatestExpectedPayoutForAddress address db =
     (case rev (filter (\<lambda>s. ss_payoutMode s = pplns) (payout_snapshot db)) of
        [] \<Rightarrow> None
      | s # _ \<Rightarrow>
          map_option (\<lambda>e. \<lparr>ep_snapshot = s, ep_payoutSats = sn_payoutSats e, ep_grossPayoutSats = sn_grossPayoutSats e,
               ep_creditedDifficulty = fl (sn_creditedDifficulty e), ep_payoutWeight = fl (sn_payoutWeight e),
               ep_percent = percentOf (sn_payoutSats e) (ss_coinbaseValueSats s)\<rparr>)
            (find (\<lambda>e. sn_snapshotId e = ss_id s \<and> sn_address e = address \<and> sn_payoutMode e = pplns
               \<and> sn_includedInCoinbase e \<and> sn_payoutSats e > 0) (payout_snapshot_entry db)))"

end
