(* ===== verification/DatumShares.thy ===== *)
theory DatumShares
  imports DatumService PayoutSnapshots "HOL-Library.Sublist"
begin

text \<open>
  What a DATUM gateway can make the pool credit: at most one share for a frame, whose header is rebuilt from the
  coinbase that was checked to pay the owed outputs and meets the target of the credited difficulty. What the
  frame says of a block meets the ledger of \<open>PayoutSnapshots\<close>.
\<close>

section \<open>Quiet statements\<close>

fun crediting :: "datum_effect \<Rightarrow> bool" where
  "crediting (Datum_RecordShare _) = True"
| "crediting (Datum_SaveBlock _) = True"
| "crediting (Datum_FinalizeSnapshot _ _ _) = True"
| "crediting _ = False"

definition uncrediting :: "DatumClientState \<Rightarrow> DatumClientState \<Rightarrow> bool" where
  "uncrediting c c' \<longleftrightarrow> ds_payoutMode c' = ds_payoutMode c
     \<and> (\<exists>es. ds_outbox c' = ds_outbox c @ es \<and> filter crediting es = [])"

interpretation dq: step_relation uncrediting
proof
  show "uncrediting s s" for s by (simp add: uncrediting_def)
  show "uncrediting s u" if "uncrediting s t" "uncrediting t u" for s t u
    using that by (force simp: uncrediting_def)
qed

lemma dq_modify:
  "(\<And>c. ds_payoutMode (f c) = ds_payoutMode c \<and> ds_outbox (f c) = ds_outbox c) \<Longrightarrow> dq.keeps (modify f)"
  by (intro dq.keeps_modify) (simp add: uncrediting_def)

lemma dq_emit: "\<not> crediting e \<Longrightarrow> dq.keeps (datum_emit e)"
  unfolding datum_emit_def by (intro dq.keeps_modify) (simp add: uncrediting_def)

lemma dq_perform: "\<not> crediting e \<Longrightarrow> dq.keeps (datum_perform env e)"
  unfolding datum_perform_def by (intro dq.keeps_intros dq_emit)

lemma dq_onSession: "dq.keeps (onSession m)"
  by (simp add: dq.keeps_def onSession_def uncrediting_def split: prod.split)

lemmas dq_base = dq.keeps_intros dq_modify dq_emit dq_perform dq_onSession

lemma dq_writeRaw: "dq.keeps (datum_writeRaw env data)"
  unfolding datum_writeRaw_def by (intro dq_base) simp

lemma dq_sendMining: "dq.keeps (sendMining env data sign)"
  unfolding sendMining_def by (intro dq_base dq_writeRaw)

lemma dq_shareResponse: "dq.keeps (sendShareResponse env s r pow)" "dq.keeps (rejectShare env reason pow)"
  unfolding rejectShare_def sendShareResponse_def by (intro dq_base dq_sendMining)+

lemma dq_setJob: "dq.keeps (setDatumJob i cache)" "dq.keeps (failValidation i cache)"
  unfolding failValidation_def setDatumJob_def by (intro dq_base; simp)+

lemma dq_awaitTemplate: "dq.keeps (datum_awaitTemplate env)"
  unfolding datum_awaitTemplate_def by (intro dq_base)

lemma dq_provider: "dq.keeps (datumProvider m)"
  unfolding datumProvider_def by (intro dq_base) simp

lemmas dq_statements = dq_base dq_writeRaw dq_sendMining dq_shareResponse dq_setJob dq_awaitTemplate dq_provider

lemma dq_presence: "dq.keeps (updateAcceptedSharePresence env d credited)"
  unfolding updateAcceptedSharePresence_def datum_persistClientHashRate_def by (intro dq_statements; simp)

lemma dq_before: "dq.keeps (datum_ensureClientEntity env)" "dq.keeps (updateDatumJobCache pow)"
  "dq.keeps (maybeRequestDatumJobValidation env i cache)"
  unfolding datum_ensureClientEntity_def updateDatumJobCache_def maybeRequestDatumJobValidation_def
  by (intro dq_statements; simp)+

lemma dq_handshake: "dq.keeps (handleHandshakeInit env body)"
  unfolding handleHandshakeInit_def sendDatumClientConfigure_def by (intro dq_statements; simp)

lemma dq_coinbaser: "dq.keeps (handleCoinbaserFetch env body)"
  unfolding handleCoinbaserFetch_def nextDatumCoinbaserId_def rememberContext_def
  by (intro dq_statements; simp add: Let_def)

lemma dq_response:
  "(\<And>r. dq.keeps (f r)) \<Longrightarrow> (\<And>r. dq.keeps (g r)) \<Longrightarrow> dq.keeps (case r of ShortTxIds r \<Rightarrow> f r | Transactions r \<Rightarrow> g r)"
  by (cases r) simp_all

lemma dq_validation: "dq.keeps (handleJobValidationResponse env body)"
  unfolding handleJobValidationResponse_def by (intro dq_statements dq_response)

section \<open>What a frame is credited\<close>

text \<open>Statements that may credit the effects \<open>xs\<close>, and do unless they throw before.\<close>

definition credits :: "'a datum \<Rightarrow> DatumClientState \<Rightarrow> datum_effect list \<Rightarrow> bool" where
  "credits m c xs \<longleftrightarrow> (\<exists>es. ds_outbox (snd (m c)) = ds_outbox c @ es \<and> ds_payoutMode (snd (m c)) = ds_payoutMode c
     \<and> prefix (filter crediting es) xs \<and> ((\<exists>a. fst (m c) = Inr a) \<longrightarrow> filter crediting es = xs))"

lemma credits_quiet: "dq.keeps m \<Longrightarrow> credits m c []"
  by (auto simp: dq.keeps_def uncrediting_def credits_def)

lemma credits_perform: "crediting e \<Longrightarrow> credits (datum_perform env e) c [e]"
  by (simp add: credits_def datum_perform_def datum_emit_def)

lemma credits_andThen:
  assumes m: "credits m c xs" and f: "\<And>a c'. m c = (Inr a, c') \<Longrightarrow> credits (f a) c' ys"
  shows "credits (andThen m f) c (xs @ ys)"
proof (cases "m c")
  case (Pair r c')
  show ?thesis
  proof (cases r)
    case (Inl e)
    with m Pair show ?thesis by (auto simp: credits_def andThen_def intro: prefix_prefix)
  next
    case (Inr a)
    with f Pair have "credits (f a) c' ys" by simp
    with m Pair Inr show ?thesis by (force simp: credits_def andThen_def)
  qed
qed

lemma credits_throw: "credits (throw e) c xs"
  by (simp add: credits_def)

lemma credits_claim:
  assumes "crediting e" "crediting e'"
  shows "credits (if P then andThen (datum_perform env e) (\<lambda>_. if Q then datum_perform env e' else ret ()) else ret ()) c
     (if P then e # (if Q then [e'] else []) else [])"
proof -
  have "credits (if Q then datum_perform env e' else ret ()) c' (if Q then [e'] else [])" for c'
    using assms(2) by (simp add: credits_perform credits_quiet dq.keeps_prims)
  from credits_andThen [OF credits_perform [OF assms(1)] this]
  show ?thesis by (simp add: credits_quiet dq.keeps_prims)
qed

lemma credits_recorded:
  assumes "case entity of None \<Rightarrow> True | Some e \<Rightarrow> crediting (g e)" and "dq.keeps m"
  shows "credits (andThen (case entity of None \<Rightarrow> throw TypeError | Some e \<Rightarrow> ret e)
      (\<lambda>e. andThen (datum_perform env (g e)) (\<lambda>_. m))) c (case entity of None \<Rightarrow> xs | Some e \<Rightarrow> [g e])"
proof (cases entity)
  case None
  then show ?thesis by (simp add: credits_def)
next
  case (Some e)
  then show ?thesis using credits_andThen [OF credits_perform [of "g e"] credits_quiet [OF assms(2)]] assms(1) by simp
qed

text \<open>What an accepted share is credited: its block, when it is one or claims to be, then the share.\<close>

definition claimedBlock ::
    "PayoutMode \<Rightarrow> DatumPowSubmit \<Rightarrow> CustomWorkShareValidationResult \<Rightarrow> DatumFoundBlock \<Rightarrow> jsstr option \<Rightarrow> datum_effect list" where
  "claimedBlock mode pow judged block snapshotId =
     (if cr_isBlockCandidate judged \<or> pw_isBlock pow
      then Datum_SaveBlock block
        # (if mode = pplns then [Datum_FinalizeSnapshot snapshotId (df_height block) (gatewayResult judged)] else [])
      else [])"

definition recordsJudged ::
    "datum_env \<Rightarrow> DatumPowSubmit \<Rightarrow> CustomWorkShareValidationResult \<Rightarrow> DatumShare \<Rightarrow> DatumFoundBlock \<Rightarrow> bool" where
  "recordsJudged env pow judged share block \<longleftrightarrow>
     sh_creditedDifficulty share = getDatumSubmittedShareDifficulty env (pw_targetByte pow)
     \<and> sh_submissionDifficulty share = cr_submissionDifficulty judged
     \<and> (sh_isBlockCandidate share \<longleftrightarrow> cr_isBlockCandidate judged \<or> pw_isBlock pow)
     \<and> df_blockData block = cr_header judged \<and> df_blockSubmissionResult block = gatewayResult judged"

lemma recordPowBlock_credits:
  "credits (recordPowBlock env c pow address worker job latest judged) c'
     (claimedBlock (ds_payoutMode c) pow judged (powBlock c address worker job latest judged) (dc_payoutSnapshotId job))"
  using credits_claim [of "Datum_SaveBlock (powBlock c address worker job latest judged)"
      "Datum_FinalizeSnapshot (dc_payoutSnapshotId job) (powHeight job latest) (gatewayResult judged)"]
  by (simp only: recordPowBlock_def claimedBlock_def crediting.simps) (simp only: powBlock_def DatumFoundBlock.simps)

lemma acceptPow_credits:
  assumes "creditedDifficulty = getDatumSubmittedShareDifficulty env (pw_targetByte pow)"
  shows "\<exists>share block snapshotId. recordsJudged env pow judged share block
     \<and> credits (acceptPow env pow address worker job latest creditedDifficulty judged) c
         (claimedBlock (ds_payoutMode c) pow judged block snapshotId @ [Datum_RecordShare share])"
proof -
  define c1 where "c1 = snd (sendShareResponse env ACCEPTED 0 pow c)"
  have "uncrediting c c1" using dq_shareResponse(1) [of env ACCEPTED 0 pow] by (simp add: c1_def dq.keeps_def)
  then have mode: "ds_payoutMode c = ds_payoutMode c1" by (simp add: uncrediting_def)
  let ?block = "powBlock c1 address worker job latest judged"
  let ?share = "powShare c1 pow address worker job latest creditedDifficulty judged"
  define share where "share = (case ds_clientEntity c1 of None \<Rightarrow> ?share undefined | Some e \<Rightarrow> ?share e)"
  let ?claims = "claimedBlock (ds_payoutMode c1) pow judged ?block (dc_payoutSnapshotId job)"
  have stored: "credits (andThen (case ds_clientEntity c1 of None \<Rightarrow> throw TypeError | Some e \<Rightarrow> ret e) (\<lambda>entity.
      andThen (datum_perform env (Datum_RecordShare (?share entity))) (\<lambda>_.
        updateAcceptedSharePresence env (cr_submissionDifficulty judged) creditedDifficulty))) c2 [Datum_RecordShare share]" for c2
    using credits_recorded [where entity = "ds_clientEntity c1" and g = "\<lambda>e. Datum_RecordShare (?share e)" and
        xs = "[Datum_RecordShare share]", OF _ dq_presence]
    by (cases "ds_clientEntity c1") (simp_all add: share_def)
  have "credits (acceptPow env pow address worker job latest creditedDifficulty judged) c
      ([] @ [] @ ?claims @ [Datum_RecordShare share])"
    unfolding acceptPow_def
  proof (rule credits_andThen [OF credits_quiet [OF dq_shareResponse(1)]],
      rule credits_andThen [OF credits_quiet [OF dq.keeps_prims(3)]])
    fix u c2 c' c2' assume "sendShareResponse env ACCEPTED 0 pow c = (Inr u, c2)" "readState id c2 = (Inr c', c2')"
    then have "c' = c1" "c2' = c1" by (auto simp: c1_def)
    then show "credits (andThen (recordPowBlock env c' pow address worker job latest judged) (\<lambda>_.
        andThen (case ds_clientEntity c' of None \<Rightarrow> throw TypeError | Some e \<Rightarrow> ret e) (\<lambda>entity.
        andThen (datum_perform env (Datum_RecordShare
          (powShare c' pow address worker job latest creditedDifficulty judged entity))) (\<lambda>_.
          updateAcceptedSharePresence env (cr_submissionDifficulty judged) creditedDifficulty)))) c2'
        (?claims @ [Datum_RecordShare share])"
      using credits_andThen [OF recordPowBlock_credits stored] by simp
  qed
  moreover have "recordsJudged env pow judged share ?block"
    using assms by (simp add: recordsJudged_def share_def powShare_def powBlock_def split: option.split)
  ultimately show ?thesis unfolding mode append_Nil by blast
qed

section \<open>What a frame must have done\<close>

text \<open>The coinbase of a submission, with the target byte where the submission says, pays exactly \<open>owed\<close>.\<close>

definition paysOwed :: "datum_env \<Rightarrow> DatumCoinbase \<Rightarrow> DatumPowSubmit \<Rightarrow> DatumPayoutOutput list \<Rightarrow> bool" where
  "paysOwed env coinbase pow owed \<longleftrightarrow> owed \<noteq> []
     \<and> (let coinbaseTx = coinb1 coinbase @ pw_extranonce pow @ coinb2 coinbase;
            patched = (case pw_targetByteIndex pow of None \<Rightarrow> coinbaseTx
              | Some i \<Rightarrow> coinbaseTx[nat i := byte_of (js_and (pw_targetByte pow) 0xff)])
        in case pl_fromBuffer (de_provider env) patched of Inl _ \<Rightarrow> False | Inr tx \<Rightarrow> submittedPayouts tx = owed)"

definition earnsShare :: "datum_env \<Rightarrow> DatumClientState \<Rightarrow> bytes \<Rightarrow> datum_effect list \<Rightarrow> bool" where
  "earnsShare env c body es \<longleftrightarrow> (\<exists>rest pow latest job coinbase owed index branches prevHash nBits judged target share block snapshotId.
     deserializeDatumMiningCommand body = Inr (MINING_SUBMIT_POW, rest) \<and> deserializeDatumPowSubmit rest = Inr pow
     \<and> env_template (de_pool env) = Some latest
     \<and> getDatumCoinbase job pow = Some coinbase \<and> paysOwed env coinbase pow owed
     \<and> validateShare (env_sha256 (de_pool env)) (shareInput pow coinbase index branches prevHash nBits
          (sh_creditedDifficulty share) (jt_networkDifficulty latest)) = Inr judged
     \<and> difficultyToTarget (sh_creditedDifficulty share) = Inr target
     \<and> meetsTarget (hashBuffer (calculateDifficulty (env_sha256 (de_pool env)) (cr_header judged))) target
     \<and> recordsJudged env pow judged share block
     \<and> prefix (filter crediting es) (claimedBlock (ds_payoutMode c) pow judged block snapshotId @ [Datum_RecordShare share]))"

definition earnsAt :: "datum_env \<Rightarrow> bytes \<Rightarrow> 'a datum \<Rightarrow> DatumClientState \<Rightarrow> bool" where
  "earnsAt env body m c \<longleftrightarrow> (\<exists>es. ds_outbox (snd (m c)) = ds_outbox c @ es
     \<and> (filter crediting es = [] \<or> earnsShare env c body es))"

lemma earns_quiet: "dq.keeps m \<Longrightarrow> earnsAt env body m c"
  by (auto simp: earnsAt_def dq.keeps_def uncrediting_def)

lemma earnsShare_cong:
  "ds_payoutMode c' = ds_payoutMode c \<Longrightarrow> filter crediting es' = filter crediting es \<Longrightarrow>
     earnsShare env c' body es' \<longleftrightarrow> earnsShare env c body es"
  by (simp add: earnsShare_def)

lemma earns_andThen:
  assumes "dq.keeps m" and f: "\<And>a c'. m c = (Inr a, c') \<Longrightarrow> earnsAt env body (f a) c'"
  shows "earnsAt env body (andThen m f) c"
proof (cases "m c")
  case (Pair r c')
  with dq.keepsD [OF assms(1)] have c': "uncrediting c c'" by simp
  then obtain es where es: "ds_outbox c' = ds_outbox c @ es" "filter crediting es = []" "ds_payoutMode c' = ds_payoutMode c"
    by (auto simp: uncrediting_def)
  show ?thesis
  proof (cases r)
    case (Inl e)
    with Pair es show ?thesis by (auto simp: earnsAt_def andThen_def)
  next
    case (Inr a)
    with f Pair obtain es' where es': "ds_outbox (snd (f a c')) = ds_outbox c' @ es'"
      "filter crediting es' = [] \<or> earnsShare env c' body es'" by (auto simp: earnsAt_def)
    have "earnsShare env c' body es' \<longleftrightarrow> earnsShare env c body (es @ es')" using es by (intro earnsShare_cong) simp_all
    then show ?thesis using es es' Pair Inr by (auto simp: earnsAt_def andThen_def intro!: exI [of _ "es @ es'"])
  qed
qed

lemma earns_if: "(b \<Longrightarrow> earnsAt env body m c) \<Longrightarrow> (\<not> b \<Longrightarrow> earnsAt env body n c) \<Longrightarrow> earnsAt env body (if b then m else n) c"
  by simp

lemma validateDatumCoinbasePayouts_pays:
  "validateDatumCoinbasePayouts env coinbase pow latest v expected mode = Inr True \<Longrightarrow> \<exists>owed. paysOwed env coinbase pow owed"
  by (auto simp: validateDatumCoinbasePayouts_def paysOwed_def rbind_Inr_iff Let_def
      split: if_splits option.splits sum.splits)

lemma payoutContext_pays:
  assumes "validateDatumCoinbasePayoutContext env coinbase pow latest job c = Inr (True, context)"
  shows "\<exists>owed. paysOwed env coinbase pow owed"
proof -
  have "\<exists>context. check context = Inr True" if "firstContext check contexts = Inr (Some found)" for check contexts found
    using that by (induction check contexts rule: firstContext.induct) (auto simp: rbind_Inr_iff split: if_splits)
  with assms validateDatumCoinbasePayouts_pays show ?thesis
    by (fastforce simp: validateDatumCoinbasePayoutContext_def rbind_Inr_iff rmap_Inr_iff Let_def split: if_splits)
qed

lemma validateShare_meets:
  assumes "validateShare sha256 (shareInput pow coinbase index branches prevHash nBits d network) = Inr judged"
    and "cr_accepted judged"
  shows "\<exists>target. difficultyToTarget d = Inr target
    \<and> meetsTarget (hashBuffer (calculateDifficulty sha256 (cr_header judged))) target"
  using assms by (auto simp: validateShare_def shareInput_def rbind_Inr_iff Let_def)

lemma judgePow_earns:
  assumes body: "deserializeDatumMiningCommand body = Inr (MINING_SUBMIT_POW, rest)" "deserializeDatumPowSubmit rest = Inr pow"
    and latest: "env_template (de_pool env) = Some latest" and coinbase: "getDatumCoinbase job pow = Some coinbase"
  shows "earnsAt env body (judgePow env pow address worker job latest coinbase index branches prevHash nBits) c"
  unfolding judgePow_def
proof (rule earns_andThen [OF dq.keeps_prims(3)], rule earns_andThen [OF dq.keeps_prims(4)])
  fix c1 c' and checked and c2
  assume read: "readState id c = (Inr c1, c')"
    and ok: "lift (validateDatumCoinbasePayoutContext env coinbase pow latest job c1) c' = (Inr checked, c2)"
  obtain paid found where checked: "checked = (paid, found)" by (cases checked)
  let ?d = "getDatumSubmittedShareDifficulty env (pw_targetByte pow)"
  show "earnsAt env body ((\<lambda>(paid, context). if \<not> paid then rejectShare env BAD_COINBASER_ID pow
     else (let datumJob = (case context of None \<Rightarrow> job
              | Some ctx \<Rightarrow> job\<lparr>dc_expectedPayoutOutputs := Some (pc_payoutOutputs ctx),
                  dc_payoutSnapshotId := pc_payoutSnapshotId ctx\<rparr>);
            creditedDifficulty = ?d
        in andThen (setDatumJob (pw_jobId pow) datumJob) (\<lambda>_.
           andThen (if length nBits < 4 then throw RangeError else ret ()) (\<lambda>_.
           andThen (lift (validateShare (env_sha256 (de_pool env)) (shareInput pow coinbase index
              branches prevHash nBits creditedDifficulty (jt_networkDifficulty latest)))) (\<lambda>judged.
             if \<not> cr_accepted judged then rejectShare env HIGH_HASH pow
             else acceptPow env pow address worker datumJob latest creditedDifficulty judged))))) checked) c2"
    unfolding checked prod.case Let_def
  proof (rule earns_if [OF earns_quiet [OF dq_shareResponse(2)]], rule earns_andThen [OF dq_setJob(1)],
      rule earns_andThen [OF dq.keeps_if [OF dq.keeps_prims(2) dq.keeps_prims(1)]], rule earns_andThen [OF dq.keeps_prims(4)],
      rule earns_if [OF earns_quiet [OF dq_shareResponse(2)]])
    fix u v judged and c3 c4 c5 :: DatumClientState
    assume "\<not> \<not> paid" and judged: "lift (validateShare (env_sha256 (de_pool env)) (shareInput pow coinbase index
         branches prevHash nBits ?d (jt_networkDifficulty latest))) c4 = (Inr judged, c5)"
      and "\<not> \<not> cr_accepted judged"
    then have valid: "validateShare (env_sha256 (de_pool env)) (shareInput pow coinbase index
         branches prevHash nBits ?d (jt_networkDifficulty latest)) = Inr judged" and accepted: "cr_accepted judged"
      by (auto simp: lift_def split: sum.splits)
    obtain owed where owed: "paysOwed env coinbase pow owed"
      using payoutContext_pays [of env coinbase pow latest job c1 found] ok \<open>\<not> \<not> paid\<close>
      by (auto simp: checked lift_def split: sum.splits)
    let ?job = "case found of None \<Rightarrow> job | Some ctx \<Rightarrow> job\<lparr>dc_expectedPayoutOutputs := Some (pc_payoutOutputs ctx),
        dc_payoutSnapshotId := pc_payoutSnapshotId ctx\<rparr>"
    from acceptPow_credits [OF refl, of env pow judged address worker ?job latest c5] obtain share block snapshotId es where
      rec: "recordsJudged env pow judged share block" and
      es: "ds_outbox (snd (acceptPow env pow address worker ?job latest ?d judged c5)) = ds_outbox c5 @ es"
      "prefix (filter crediting es) (claimedBlock (ds_payoutMode c5) pow judged block snapshotId @ [Datum_RecordShare share])"
      by (auto simp: credits_def)
    have d: "?d = sh_creditedDifficulty share" using rec by (simp add: recordsJudged_def)
    from validateShare_meets [OF valid accepted] obtain target where "difficultyToTarget ?d = Inr target"
      "meetsTarget (hashBuffer (calculateDifficulty (env_sha256 (de_pool env)) (cr_header judged))) target" by blast
    with body latest coinbase owed valid rec es(2) have "earnsShare env c5 body es"
      unfolding earnsShare_def d by blast
    with es(1) show "earnsAt env body (acceptPow env pow address worker ?job latest ?d judged) c5"
      by (auto simp: earnsAt_def)
  qed
qed

lemma checkPow_earns:
  assumes "deserializeDatumMiningCommand body = Inr (MINING_SUBMIT_POW, rest)" "deserializeDatumPowSubmit rest = Inr pow"
  shows "earnsAt env body (checkPow env pow address worker job) c"
proof (cases "getDatumCoinbase job pow \<noteq> None \<and> dc_prevBlockHash job \<noteq> None \<and> dc_nBits job \<noteq> None
    \<and> dc_merkleBranches job \<noteq> None \<and> dc_targetByteIndex job \<noteq> None")
  case True
  then obtain cb ph nb br index where f: "getDatumCoinbase job pow = Some cb" "dc_prevBlockHash job = Some ph"
    "dc_nBits job = Some nb" "dc_merkleBranches job = Some br" "dc_targetByteIndex job = Some index" by auto
  show ?thesis unfolding checkPow_def f prod.case option.case
  proof (rule earns_andThen [OF dq_awaitTemplate], rule earns_andThen [OF dq_provider],
      rule earns_if [OF earns_quiet [OF dq_shareResponse(2)]], rule earns_if [OF earns_quiet [OF dq_shareResponse(2)]])
    fix latest c' assume "datum_awaitTemplate env c = (Inr latest, c')"
    then have "env_template (de_pool env) = Some latest" by (simp add: datum_awaitTemplate_def split: option.splits)
    from judgePow_earns [OF assms this f(1)]
    show "earnsAt env body (judgePow env pow address worker job latest cb index br ph nb) c''" for c'' .
  qed
next
  case False
  then have "checkPow env pow address worker job \<in> {rejectShare env BAD_TARGET pow, rejectShare env COINBASE_MISSING pow}"
    by (auto simp: checkPow_def split: option.split)
  then show ?thesis by (auto intro: earns_quiet [OF dq_shareResponse(2)])
qed

lemma frame_earns:
  "\<exists>es. ds_outbox (snd (datum_handleFrame env cmd body c)) = ds_outbox c @ es
     \<and> (filter crediting es = [] \<or> cmd = PROTO_MINING \<and> earnsShare env c body es)"
proof (cases "cmd = PROTO_MINING \<and> cmd \<noteq> HANDSHAKE_INIT")
  case True
  have "earnsAt env body (handlePowSubmit env rest) c'" if "deserializeDatumMiningCommand body = Inr (MINING_SUBMIT_POW, rest)"
    for rest c'
    unfolding handlePowSubmit_def
  proof (rule earns_andThen [OF dq.keeps_prims(4)])
    fix pow c2 assume "lift (deserializeDatumPowSubmit rest) c' = (Inr pow, c2)"
    then have pow: "deserializeDatumPowSubmit rest = Inr pow" by (auto simp: lift_def split: sum.splits)
    obtain address worker where user: "datum_parseUserIdentity env (pw_username pow) = (address, worker)" by fastforce
    show "earnsAt env body (case datum_parseUserIdentity env (pw_username pow) of (address, workerName) \<Rightarrow>
       if \<not> env_isAddress (de_pool env) address then rejectShare env BAD_USERNAME pow
       else
         andThen (modify (\<lambda>c. c\<lparr>ds_address := Some address, ds_workerName := workerName\<rparr>)) (\<lambda>_.
         andThen (datum_ensureClientEntity env) (\<lambda>_.
         andThen (updateDatumJobCache pow) (\<lambda>datumJob.
         andThen (maybeRequestDatumJobValidation env (pw_jobId pow) datumJob) (\<lambda>datumJob.
           checkPow env pow address workerName datumJob))))) c2"
      unfolding user prod.case
      by (intro earns_if earns_quiet dq_shareResponse earns_andThen [OF dq_modify] earns_andThen [OF dq_before(1)]
          earns_andThen [OF dq_before(2)] earns_andThen [OF dq_before(3)] checkPow_earns [OF that pow]) simp
  qed
  then have "earnsAt env body (andThen (lift (deserializeDatumMiningCommand body)) (\<lambda>(command, body).
          if command = MINING_FETCH_COINBASER then handleCoinbaserFetch env body
          else if command = MINING_SUBMIT_POW then handlePowSubmit env body
          else if command = MINING_JOB_VALIDATION then handleJobValidationResponse env body
          else ret ())) c"
    by (intro earns_andThen [OF dq.keeps_prims(4)])
      (auto intro: earns_quiet [OF dq_coinbaser] earns_quiet [OF dq_validation] earns_quiet [OF dq.keeps_prims(1)]
        simp: lift_def split: sum.splits)
  then have "earnsAt env body (datum_handleFrame env cmd body) c" using True by (simp add: datum_handleFrame_def)
  then show ?thesis using True by (auto simp: earnsAt_def)
next
  case False
  then have "dq.keeps (datum_handleFrame env cmd body)"
    unfolding datum_handleFrame_def by (auto intro: dq_handshake dq.keeps_prims)
  then show ?thesis by (auto simp: dq.keeps_def uncrediting_def)
qed


section \<open>The ledger of the pool\<close>

text \<open>What the tables of the pool are after a request to finalize; \<open>idOf\<close> reads the identifier of a snapshot.\<close>

definition settlement ::
    "SnapshotConfig \<Rightarrow> int \<Rightarrow> bool \<Rightarrow> (jsstr \<Rightarrow> int) \<Rightarrow> PayoutTables \<Rightarrow> datum_effect \<Rightarrow> PayoutTables" where
  "settlement cfg now conflict idOf db e = (case e of
      Datum_FinalizeSnapshot snapshotId height submissionResult \<Rightarrow>
        snd (finalizeSnapshotForBlock cfg now conflict \<lparr>fi_payoutSnapshotId = map_option idOf snapshotId,
          fi_blockHeight = height, fi_blockSubmissionResult = submissionResult, fi_payoutMode = Some pplns\<rparr> db)
    | _ \<Rightarrow> db)"

definition claimsUnsolvedBlock :: "datum_env \<Rightarrow> bytes \<Rightarrow> bool" where
  "claimsUnsolvedBlock env body \<longleftrightarrow> (\<exists>rest pow latest prevHash merkleRoot nBits header target.
     deserializeDatumMiningCommand body = Inr (MINING_SUBMIT_POW, rest) \<and> deserializeDatumPowSubmit rest = Inr pow
     \<and> pw_isBlock pow \<and> env_template (de_pool env) = Some latest
     \<and> buildHeader prevHash merkleRoot (pw_version pow) (pw_ntime pow) nBits (pw_nonce pow) = Inr header
     \<and> difficultyToTarget (jt_networkDifficulty latest) = Inr target
     \<and> \<not> meetsTarget (hashBuffer (calculateDifficulty (env_sha256 (de_pool env)) header)) target)"

lemma validateShare_unsolved:
  assumes "validateShare sha256 (shareInput pow coinbase index branches prevHash nBits d network) = Inr judged"
    and "\<not> cr_isBlockCandidate judged"
  shows "\<exists>root bits target. buildHeader prevHash root (pw_version pow) (pw_ntime pow) bits (pw_nonce pow) = Inr (cr_header judged)
    \<and> difficultyToTarget network = Inr target
    \<and> \<not> meetsTarget (hashBuffer (calculateDifficulty sha256 (cr_header judged))) target"
  using assms by (force simp: validateShare_def shareInput_def rbind_Inr_iff Let_def)

lemma settlement_success:
  assumes "settlement cfg now conflict idOf db e \<noteq> db"
  shows "\<exists>i h r. e = Datum_FinalizeSnapshot i h r \<and> ps_isSuccessfulBlockSubmission r"
  using assms by (cases e) (auto simp: settlement_def finalizeSnapshotForBlock_def split: if_splits)

lemma earnsShare_claims:
  assumes "earnsShare env c body es" and "Datum_FinalizeSnapshot i h r \<in> set es" and "ps_isSuccessfulBlockSubmission r"
  shows "claimsUnsolvedBlock env body"
proof -
  from assms(1) obtain rest pow latest coinbase index branches prevHash nBits judged d share block snapshotId where
    frame: "deserializeDatumMiningCommand body = Inr (MINING_SUBMIT_POW, rest)" "deserializeDatumPowSubmit rest = Inr pow"
      "env_template (de_pool env) = Some latest"
    and judged: "validateShare (env_sha256 (de_pool env)) (shareInput pow coinbase index branches prevHash nBits
          d (jt_networkDifficulty latest)) = Inr judged"
    and made: "prefix (filter crediting es) (claimedBlock (ds_payoutMode c) pow judged block snapshotId @ [Datum_RecordShare share])"
    unfolding earnsShare_def by blast
  have "Datum_FinalizeSnapshot i h r \<in> set (filter crediting es)" using assms(2) by simp
  then have "Datum_FinalizeSnapshot i h r \<in> set (claimedBlock (ds_payoutMode c) pow judged block snapshotId)"
    using set_mono_prefix [OF made] by auto
  then have claim: "cr_isBlockCandidate judged \<or> pw_isBlock pow" "r = gatewayResult judged"
    by (auto simp: claimedBlock_def split: if_splits)
  then have "\<not> cr_isBlockCandidate judged"
    using assms(3) by (auto simp: gatewayResult_def ps_isSuccessfulBlockSubmission_def jstr_def)
  with claim(1) validateShare_unsolved [OF judged this] frame show ?thesis
    unfolding claimsUnsolvedBlock_def by blast
qed


end
