(* ===== verification/ShareQueueCorrectness.thy ===== *)
theory ShareQueueCorrectness
  imports ShareAccounting
begin

text \<open>
  The queue of accepted shares loses nothing, keeps the order, and always has a timer or a flush that will
  take what waits; the loop of the shutdown empties it.
\<close>

section \<open>What the queue owes\<close>

definition inFlight :: "ShareQueue \<Rightarrow> PendingShare list" where
  "inFlight q = (case activeFlush q of Some (Inserting batch) \<Rightarrow> batch | _ \<Rightarrow> [])"

text \<open>All shares the queue was given, the settled ones first.\<close>

definition allShares :: "ShareQueue \<Rightarrow> PendingShare list" where
  "allShares q = map fst (settledShares q) @ inFlight q @ pendingShares q"

definition queue_ok :: "AccountingConfig \<Rightarrow> ShareQueue \<Rightarrow> bool" where
  "queue_ok cfg q \<longleftrightarrow>
     map ps_ticket (allShares q) = [0..<nextTicket q]
     \<and> (pendingShares q = [] \<or> flushTimer q \<or> activeFlush q \<noteq> None)
     \<and> (\<not> flushTimer q \<or> activeFlush q = None)
     \<and> length (pendingShares q) \<le> maxQueueSize cfg
     \<and> length (inFlight q) \<le> batchSize cfg"

text \<open>Every change of the state either keeps all shares and settles some, or adds one at the end.\<close>

lemma startFlush_shares [simp]: "allShares (startFlush cfg q) = allShares q"
  by (auto simp: startFlush_def allShares_def inFlight_def Let_def split: option.splits)

lemma scheduleFlush_shares [simp]: "allShares (scheduleFlush q) = allShares q"
  by (simp add: scheduleFlush_def allShares_def inFlight_def)

lemma flushBatch_shares:
  "activeFlush q = Some (Inserting batch) \<Longrightarrow> allShares (flushBatch ok batch q) = allShares q"
  by (simp add: flushBatch_def allShares_def inFlight_def comp_def)

lemma forget_active: "activeFlush q = Some Finishing \<Longrightarrow> allShares (q\<lparr>activeFlush := None\<rparr>) = allShares q"
  by (simp add: allShares_def inFlight_def)

lemma finishFlush_shares: "activeFlush q = Some Finishing \<Longrightarrow> allShares (finishFlush cfg q) = allShares q"
  by (simp add: finishFlush_def forget_active Let_def)

lemma next_ticket [simp]:
  "nextTicket (startFlush cfg q) = nextTicket q" "nextTicket (scheduleFlush q) = nextTicket q"
  "nextTicket (flushBatch ok batch q) = nextTicket q" "nextTicket (finishFlush cfg q) = nextTicket q"
  by (simp_all add: startFlush_def scheduleFlush_def flushBatch_def finishFlush_def Let_def)

lemma startFlush_ok:
  assumes "0 < batchSize cfg" and "map ps_ticket (allShares q) = [0..<nextTicket q]"
    and "activeFlush q = None" and "length (pendingShares q) \<le> maxQueueSize cfg"
  shows "queue_ok cfg (startFlush cfg q)"
proof -
  have "map ps_ticket (allShares (startFlush cfg q)) = [0..<nextTicket (startFlush cfg q)]"
    using assms(2) by simp
  then show ?thesis using assms
    by (cases "pendingShares q") (auto simp: queue_ok_def startFlush_def inFlight_def Let_def split: nat.split)
qed

lemma startFlush_busy: "activeFlush q \<noteq> None \<Longrightarrow> startFlush cfg q = q"
  by (simp add: startFlush_def)

lemma scheduleFlush_ok:
  assumes "map ps_ticket (allShares q) = [0..<nextTicket q]" and "length (pendingShares q) \<le> maxQueueSize cfg"
    and "length (inFlight q) \<le> batchSize cfg" and "\<not> flushTimer q \<or> activeFlush q = None"
  shows "queue_ok cfg (scheduleFlush q)"
proof -
  have "map ps_ticket (allShares (scheduleFlush q)) = [0..<nextTicket (scheduleFlush q)]" using assms(1) by simp
  then show ?thesis using assms(2-) by (auto simp: queue_ok_def scheduleFlush_def inFlight_def)
qed

lemma finishFlush_ok:
  assumes "0 < batchSize cfg" and "queue_ok cfg q" and active: "activeFlush q = Some Finishing"
  shows "queue_ok cfg (finishFlush cfg q)"
proof -
  let ?q = "q\<lparr>activeFlush := None\<rparr>"
  have q: "map ps_ticket (allShares ?q) = [0..<nextTicket ?q]" "length (pendingShares ?q) \<le> maxQueueSize cfg"
      "inFlight ?q = []" "activeFlush ?q = None" "\<not> flushTimer ?q"
    using assms(2) active by (auto simp: queue_ok_def forget_active inFlight_def)
  show ?thesis
  proof (cases "length (pendingShares ?q) \<ge> batchSize cfg")
    case True
    then show ?thesis using startFlush_ok [OF assms(1) q(1,4,2)] by (simp add: finishFlush_def Let_def)
  next
    case False
    show ?thesis
    proof (cases "pendingShares ?q = []")
      case True
      with False q show ?thesis by (simp add: finishFlush_def Let_def queue_ok_def)
    next
      case False
      have "queue_ok cfg (scheduleFlush ?q)" by (rule scheduleFlush_ok) (use q in simp_all)
      with False \<open>\<not> batchSize cfg \<le> length (pendingShares ?q)\<close> show ?thesis by (simp add: finishFlush_def Let_def)
    qed
  qed
qed

lemma flushBatch_ok:
  assumes "queue_ok cfg q" and "activeFlush q = Some (Inserting batch)"
  shows "queue_ok cfg (flushBatch ok batch q)"
  using assms by (simp add: queue_ok_def flushBatch_shares) (auto simp: flushBatch_def inFlight_def)

lemma recordAcceptedShare_ok:
  assumes "0 < batchSize cfg" and "queue_ok cfg q"
  shows "queue_ok cfg (snd (sa_recordAcceptedShare cfg now r q))"
proof (cases "length (pendingShares q) \<ge> maxQueueSize cfg")
  case True
  then show ?thesis using assms(2) by (simp add: sa_recordAcceptedShare_def)
next
  case False
  define q' where "q' = q\<lparr>pendingShares := pendingShares q
      @ [\<lparr>ps_entity = acceptedShareOf now r, ps_ticket = nextTicket q\<rparr>], nextTicket := nextTicket q + 1\<rparr>"
  have q': "map ps_ticket (allShares q') = [0..<nextTicket q']" "length (pendingShares q') \<le> maxQueueSize cfg"
      "length (inFlight q') \<le> batchSize cfg" "\<not> flushTimer q' \<or> activeFlush q' = None"
    using False assms(2) by (simp_all add: q'_def queue_ok_def allShares_def inFlight_def)
  have run: "snd (sa_recordAcceptedShare cfg now r q)
      = (if length (pendingShares q') \<ge> batchSize cfg then startFlush cfg q' else scheduleFlush q')"
    using False by (simp add: sa_recordAcceptedShare_def q'_def Let_def)
  show ?thesis
  proof (cases "length (pendingShares q') \<ge> batchSize cfg")
    case True
    show ?thesis
    proof (cases "activeFlush q' = None")
      case True
      with startFlush_ok [OF assms(1) q'(1) this q'(2)] \<open>batchSize cfg \<le> _\<close> show ?thesis by (simp add: run)
    next
      case False
      with True q' show ?thesis by (simp add: run startFlush_busy queue_ok_def)
    qed
  next
    case False
    with scheduleFlush_ok [OF q'] show ?thesis by (simp add: run)
  qed
qed

lemma queueStep_ok:
  assumes "0 < batchSize cfg" and "queue_ok cfg q"
  shows "queue_ok cfg (queueStep cfg ev q)"
proof (cases ev)
  case TimerFires
  show ?thesis
  proof (cases "flushTimer q")
    case True
    have "allShares (q\<lparr>flushTimer := False\<rparr>) = allShares q" by (simp add: allShares_def inFlight_def)
    with True assms show ?thesis unfolding TimerFires queueStep_def
      by (simp add: fireFlushTimer_def) (rule startFlush_ok, auto simp: queue_ok_def)
  qed (use assms TimerFires in \<open>simp add: queueStep_def\<close>)
qed (use assms recordAcceptedShare_ok flushBatch_ok finishFlush_ok in
    \<open>auto simp: queueStep_def split: option.split ActiveFlush.split\<close>)

section \<open>Runs\<close>

definition runQueue :: "AccountingConfig \<Rightarrow> queue_event list \<Rightarrow> ShareQueue \<Rightarrow> ShareQueue" where
  "runQueue cfg evs q = fold (queueStep cfg) evs q"

text \<open>The rows of the shares that \<open>sa_recordAcceptedShare\<close> took, in the order of the calls.\<close>

fun taken :: "AccountingConfig \<Rightarrow> queue_event list \<Rightarrow> ShareQueue \<Rightarrow> AcceptedShareEntity list" where
  "taken cfg [] q = []"
| "taken cfg (ev # evs) q =
     (case ev of
        Record now r \<Rightarrow> (case fst (sa_recordAcceptedShare cfg now r q) of Inr _ \<Rightarrow> [acceptedShareOf now r] | Inl _ \<Rightarrow> [])
      | _ \<Rightarrow> []) @ taken cfg evs (queueStep cfg ev q)"

lemma queueStep_shares:
  "map ps_entity (allShares (queueStep cfg ev q)) = map ps_entity (allShares q) @ taken cfg [ev] q"
proof (cases ev)
  case (Record now r)
  let ?q = "q\<lparr>pendingShares := pendingShares q @ [\<lparr>ps_entity = acceptedShareOf now r, ps_ticket = nextTicket q\<rparr>],
      nextTicket := Suc (nextTicket q)\<rparr>"
  have "allShares ?q = allShares q @ [\<lparr>ps_entity = acceptedShareOf now r, ps_ticket = nextTicket q\<rparr>]"
    by (simp add: allShares_def inFlight_def)
  with Record show ?thesis by (simp add: queueStep_def sa_recordAcceptedShare_def Let_def)
next
  case TimerFires
  have "allShares (q\<lparr>flushTimer := False\<rparr>) = allShares q" by (simp add: allShares_def inFlight_def)
  with TimerFires show ?thesis by (simp add: queueStep_def fireFlushTimer_def)
qed (auto simp: queueStep_def flushBatch_shares finishFlush_shares split: option.split ActiveFlush.split)

lemma runQueue_shares:
  "map ps_entity (allShares (runQueue cfg evs q)) = map ps_entity (allShares q) @ taken cfg evs q"
proof (induction evs arbitrary: q)
  case (Cons ev evs)
  then show ?case using queueStep_shares [of cfg ev q] by (simp add: runQueue_def)
qed (simp add: runQueue_def)

lemma runQueue_ok: "0 < batchSize cfg \<Longrightarrow> queue_ok cfg q \<Longrightarrow> queue_ok cfg (runQueue cfg evs q)"
  by (induction evs arbitrary: q) (simp_all add: runQueue_def queueStep_ok)

lemma new_ok: "queue_ok cfg newShareQueue" "allShares newShareQueue = []"
  by (simp_all add: queue_ok_def newShareQueue_def allShares_def inFlight_def)

section \<open>The shutdown\<close>

definition waiting :: "ShareQueue \<Rightarrow> nat" where
  "waiting q = 2 * length (pendingShares q) + (if activeFlush q = None then 0 else 1)"

lemma waiting_startFlush:
  "0 < batchSize cfg \<Longrightarrow> activeFlush q = None \<Longrightarrow> pendingShares q \<noteq> [] \<Longrightarrow> waiting (startFlush cfg q) < waiting q"
  by (cases "pendingShares q") (auto simp: waiting_def startFlush_def Let_def take_Cons split: nat.split)

lemma waiting_finishFlush:
  assumes "0 < batchSize cfg" and "activeFlush q \<noteq> None"
  shows "waiting (finishFlush cfg q) < waiting q"
proof -
  let ?q = "q\<lparr>activeFlush := None\<rparr>"
  have less: "waiting ?q < waiting q" using assms(2) by (simp add: waiting_def)
  have "waiting (startFlush cfg ?q) \<le> waiting ?q" if "pendingShares ?q \<noteq> []"
    using waiting_startFlush [OF assms(1) _ that] by simp
  moreover have "waiting (scheduleFlush ?q) = waiting ?q" by (simp add: waiting_def scheduleFlush_def)
  ultimately show ?thesis using less assms(1) by (cases "pendingShares ?q = []") (auto simp: finishFlush_def Let_def)
qed

lemma flushPendingShares_returns:
  assumes "0 < batchSize cfg"
  shows "\<exists>q'. flushPendingShares cfg accepts q = Some q' \<and> pendingShares q' = [] \<and> activeFlush q' = None
    \<and> allShares q' = allShares q"
proof (induction "waiting q" arbitrary: q rule: less_induct)
  case less
  show ?case
  proof (cases "activeFlush q")
    case None
    show ?thesis
    proof (cases "pendingShares q = []")
      case True
      with None show ?thesis by (subst flushPendingShares.simps) simp
    next
      case False
      from less [OF waiting_startFlush [OF assms None False]] None False show ?thesis
        by (subst flushPendingShares.simps) simp
    qed
  next
    case (Some flush)
    show ?thesis
    proof (cases flush)
      case (Inserting batch)
      let ?q = "flushBatch (accepts batch) batch q"
      have "waiting (finishFlush cfg ?q) < waiting ?q"
        by (rule waiting_finishFlush [OF assms]) (simp add: flushBatch_def)
      moreover have "waiting ?q = waiting q" using Some by (simp add: flushBatch_def waiting_def)
      moreover have "allShares (finishFlush cfg ?q) = allShares q"
        using Some Inserting flushBatch_shares by (subst finishFlush_shares) (simp_all add: flushBatch_def)
      ultimately show ?thesis using less [of "finishFlush cfg ?q"] Some Inserting
        by (subst flushPendingShares.simps) simp
    next
      case Finishing
      with less [OF waiting_finishFlush [OF assms, of q]] Some show ?thesis
        by (subst flushPendingShares.simps) (simp add: finishFlush_shares)
    qed
  qed
qed

text \<open>
  C20. After any order of shares, timers and answers of the database: the settled, the inserting and the
  waiting shares together are exactly the shares that were taken, in their order; a waiting share has a timer
  or a flush that will take it; and the shutdown returns with every taken share settled, in the same order.
\<close>

theorem share_queue_delivers:
  assumes "0 < batchSize cfg"
  shows "let q = runQueue cfg evs newShareQueue; rows = taken cfg evs newShareQueue in
     map (ps_entity \<circ> fst) (settledShares q) @ map ps_entity (inFlight q @ pendingShares q) = rows
     \<and> (pendingShares q = [] \<or> flushTimer q \<or> activeFlush q \<noteq> None)
     \<and> length (pendingShares q) \<le> maxQueueSize cfg
     \<and> (\<exists>q'. flushPendingShares cfg accepts q = Some q' \<and> pendingShares q' = []
          \<and> map (ps_entity \<circ> fst) (settledShares q') = rows)"
proof -
  let ?q = "runQueue cfg evs newShareQueue" and ?rows = "taken cfg evs newShareQueue"
  have ok: "queue_ok cfg ?q" using runQueue_ok [OF assms new_ok(1)] .
  have rows: "map ps_entity (allShares ?q) = ?rows" using runQueue_shares [of cfg evs newShareQueue] new_ok(2) by simp
  obtain q' where "flushPendingShares cfg accepts ?q = Some q'" and empty: "pendingShares q' = []" "activeFlush q' = None"
    and same: "allShares q' = allShares ?q" using flushPendingShares_returns [OF assms] by blast
  moreover have "map (ps_entity \<circ> fst) (settledShares q') = ?rows"
  proof -
    have "map ps_entity (allShares q') = ?rows" using rows same by simp
    moreover have "allShares q' = map fst (settledShares q')" using empty by (simp add: allShares_def inFlight_def)
    ultimately show ?thesis by simp
  qed
  ultimately show ?thesis using ok rows by (auto simp: Let_def queue_ok_def allShares_def)
qed

definition demo_cfg :: AccountingConfig where
  "demo_cfg = \<lparr>batchSize = 2, flushIntervalMs = 25, maxQueueSize = 3, summaryCacheMs = 2500, summaryCacheMax = 10,
     shareRollupEnabled = True, shareRollupSafetyLagSeconds = 10, shareRollupMaxSharesPerBatch = 5\<rparr>"

definition demo_record :: "int \<Rightarrow> AcceptedShareRecord" where
  "demo_record n = \<lparr>ar_protocol = ''sv2'', ar_payoutMode = Some (jstr ''pplns''), ar_workSource = None,
     ar_workProtocol = None, ar_acceptedAt = Some n, ar_address = ''alice'', ar_clientName = [], ar_sessionId = [],
     ar_clientId = [], ar_jobId = [], ar_jobTemplateId = [], ar_blockHeight = 100, ar_creditedDifficulty = 8,
     ar_submissionDifficulty = 9, ar_networkDifficulty = 1000, ar_nonce = Number n, ar_ntime = Number 0,
     ar_version = Number 2, ar_extraNonce2 = [], ar_isBlockCandidate = False, ar_blockSubmissionResult = None\<rparr>"

definition demo_events :: "queue_event list" where
  "demo_events = map (\<lambda>n. Record n (demo_record n)) [1, 2, 3] @ [Inserted True, Record 4 (demo_record 4)]"

text \<open>Four shares: two are written, a third and a fourth wait while the flush comes to its end.\<close>

theorem share_queue_delivers_witness:
  "let q = runQueue demo_cfg demo_events newShareQueue in
     map ps_ticket (map fst (settledShares q)) = [0, 1] \<and> map ps_ticket (pendingShares q) = [2, 3]
     \<and> activeFlush q \<noteq> None
     \<and> (\<exists>q'. flushPendingShares demo_cfg (\<lambda>_. True) q = Some q' \<and> pendingShares q' = []
          \<and> map (se_acceptedAt \<circ> ps_entity \<circ> fst) (settledShares q') = [1, 2, 3, 4])"
proof -
  let ?q = "runQueue demo_cfg demo_events newShareQueue" and ?rows = "taken demo_cfg demo_events newShareQueue"
  have run: "map ps_ticket (map fst (settledShares ?q)) = [0, 1]" "map ps_ticket (pendingShares ?q) = [2, 3]"
    "activeFlush ?q \<noteq> None" "map se_acceptedAt ?rows = [1, 2, 3, 4]" "0 < batchSize demo_cfg"
    by code_simp+
  from share_queue_delivers [OF run(5), of demo_events "\<lambda>_. True"] obtain q' where
    "flushPendingShares demo_cfg (\<lambda>_. True) ?q = Some q'" "pendingShares q' = []"
    "map (ps_entity \<circ> fst) (settledShares q') = ?rows" by (auto simp: Let_def)
  moreover from this(3) run(4) have "map (se_acceptedAt \<circ> ps_entity \<circ> fst) (settledShares q') = [1, 2, 3, 4]"
    by (metis map_map comp_assoc)
  ultimately show ?thesis using run(1-3) by (simp add: Let_def)
qed

end
