(* ===== verification/ShareRollupCorrectness.thy ===== *)
theory ShareRollupCorrectness
  imports ShareQueueCorrectness
begin

text \<open>
  The rollup counts every share of the PPLNS mode once: in any history in which a share is stored with an
  index above what is rolled up already, the batches cover disjoint ranges of indexes without a gap, and what
  the summaries credit an address is what its shares are worth.
\<close>

section \<open>Aggregates\<close>

lemma sqlMin_Min: "sqlMin xs = (if xs = [] then None else Some (Min (set xs)))"
proof -
  have "foldr min xs a = Min (insert a (set xs))" for a :: 'a
  proof (induction xs)
    case (Cons x xs)
    have "Min (insert a (set (x # xs))) = min x (Min (insert a (set xs)))"
      by (simp add: insert_commute [of a x])
    then show ?case by (simp add: Cons)
  qed simp
  then show ?thesis by (cases xs) (simp_all add: sqlMin_def insert_absorb)
qed

lemma sqlMax_Max: "sqlMax xs = (if xs = [] then None else Some (Max (set xs)))"
proof -
  have "foldr max xs a = Max (insert a (set xs))" for a :: 'a
  proof (induction xs)
    case (Cons x xs)
    have "Max (insert a (set (x # xs))) = max x (Max (insert a (set xs)))"
      by (simp add: insert_commute [of a x])
    then show ?case by (simp add: Cons)
  qed simp
  then show ?thesis by (cases xs) (simp_all add: sqlMax_def insert_absorb)
qed

text \<open>A sum over groups is the sum over the members.\<close>

lemma sum_groups:
  fixes f :: "'a \<Rightarrow> rat"
  assumes "distinct ks"
  shows "sum_list (map (\<lambda>k. sum_list (map f (filter (\<lambda>x. g x = k) xs))) ks)
     = sum_list (map f (filter (\<lambda>x. g x \<in> set ks) xs))"
  using assms
proof (induction ks)
  case (Cons k ks)
  have "sum_list (map f (filter (\<lambda>x. g x \<in> set (k # ks)) xs))
      = sum_list (map f (filter (\<lambda>x. g x = k) xs)) + sum_list (map f (filter (\<lambda>x. g x \<in> set ks) xs))"
    using Cons.prems by (induction xs) auto
  with Cons show ?case by simp
qed simp

lemma sum_group_by:
  fixes f :: "'a \<Rightarrow> rat"
  shows "sum_list (map (\<lambda>k. sum_list (map f (filter (\<lambda>x. g x = k) xs))) (filter P (remdups (map g xs))))
     = sum_list (map f (filter (\<lambda>x. P (g x)) xs))"
proof -
  have "filter (\<lambda>x. g x \<in> set (filter P (remdups (map g xs)))) xs = filter (\<lambda>x. P (g x)) xs"
    by (rule filter_cong) auto
  then show ?thesis by (subst sum_groups) simp_all
qed

section \<open>What a batch covers\<close>

text \<open>What the stored shares of an address up to an index, or between two, are worth.\<close>

definition workUpTo :: "string \<Rightarrow> int \<Rightarrow> ShareRow list \<Rightarrow> rat" where
  "workUpTo address final rows = sum_list (map (se_creditedDifficulty \<circ> sr_share)
     (filter (\<lambda>r. sr_shareIndex r \<le> final \<and> se_payoutMode (sr_share r) = pplns \<and> se_address (sr_share r) = address) rows))"

definition workBetween :: "string \<Rightarrow> int \<Rightarrow> int \<Rightarrow> ShareRow list \<Rightarrow> rat" where
  "workBetween address first final rows =
     sum_list (map se_creditedDifficulty (filter (\<lambda>s. se_address s = address) (rowsBetween first final rows)))"

definition summarizedWork :: "(RollupSummary \<Rightarrow> bool) \<Rightarrow> string \<Rightarrow> RollupSummary list \<Rightarrow> rat" where
  "summarizedWork P address summaries =
     sum_list (map rs_creditedDifficulty (filter (\<lambda>s. P s \<and> rs_address s = address) summaries))"

lemma summarizedWork_append:
  "summarizedWork P a (xs @ ys) = summarizedWork P a xs + summarizedWork P a ys"
  by (simp add: summarizedWork_def)

lemma summaries_of_batch:
  "summarizedWork (\<lambda>s. P (rs_batchId s)) address (map (summaryOf batchId shares) (remdups (map groupKey shares)))
     = (if P batchId then sum_list (map se_creditedDifficulty (filter (\<lambda>s. se_address s = address) shares)) else 0)"
proof -
  have sel: "rs_batchId (summaryOf batchId shares k) = batchId" "rs_address (summaryOf batchId shares k) = fst k"
    "rs_creditedDifficulty (summaryOf batchId shares k)
       = sum_list (map se_creditedDifficulty (filter (\<lambda>s. groupKey s = k) shares))" for k
    by (cases k; simp add: summaryOf_def Let_def)+
  have "sum_list (map se_creditedDifficulty (filter (\<lambda>s. fst (groupKey s) = address) shares))
      = sum_list (map se_creditedDifficulty (filter (\<lambda>s. se_address s = address) shares))"
    by (simp add: groupKey_def)
  then show ?thesis
    using sum_group_by [of se_creditedDifficulty groupKey shares "\<lambda>k. fst k = address"]
    by (simp add: summarizedWork_def filter_map comp_def sel)
qed

lemmas summaries_of_one = summaries_of_batch [where P = "\<lambda>i. i = j" for j]

lemma workUpTo_split:
  assumes "l < first" "first \<le> final" and "\<And>r. r \<in> set rows \<Longrightarrow> se_payoutMode (sr_share r) = pplns \<Longrightarrow>
      l < sr_shareIndex r \<Longrightarrow> first \<le> sr_shareIndex r"
  shows "workUpTo address final rows = workUpTo address l rows + workBetween address first final rows"
  using assms(3)
proof (induction rows)
  case (Cons r rows)
  then have "workUpTo address final rows = workUpTo address l rows + workBetween address first final rows" by simp
  moreover have "se_payoutMode (sr_share r) = pplns \<Longrightarrow> l < sr_shareIndex r \<Longrightarrow> first \<le> sr_shareIndex r"
    using Cons.prems by simp
  ultimately show ?case using assms(1,2)
    by (cases "sr_shareIndex r \<le> l"; cases "sr_shareIndex r \<le> final")
       (auto simp: workUpTo_def workBetween_def rowsBetween_def)
qed (simp add: workUpTo_def workBetween_def rowsBetween_def)

lemma rowsBetween_insert:
  "final < sr_shareIndex r \<Longrightarrow> rowsBetween first final (rows @ [r]) = rowsBetween first final rows"
  by (simp add: rowsBetween_def)

section \<open>The invariant of the tables\<close>

definition batch_ok :: "RollupTables \<Rightarrow> RollupBatch \<Rightarrow> bool" where
  "batch_ok db b \<longleftrightarrow> rb_finalized b \<and> rb_payoutMode b = pplns \<and> 0 < rb_startShareIndex b
     \<and> rb_startShareIndex b \<le> rb_endShareIndex b
     \<and> rb_id b < nextBatchId db
     \<and> rb_creditedDifficulty b = sum_list (map se_creditedDifficulty
          (rowsBetween (rb_startShareIndex b) (rb_endShareIndex b) (accepted_share_entity db)))
     \<and> rb_acceptedShareCount b = int (length
          (rowsBetween (rb_startShareIndex b) (rb_endShareIndex b) (accepted_share_entity db)))
     \<and> (\<forall>a. summarizedWork (\<lambda>s. rs_batchId s = rb_id b) a (share_rollup_batch_summary db)
          = workBetween a (rb_startShareIndex b) (rb_endShareIndex b) (accepted_share_entity db))"

definition covers :: "ShareRow \<Rightarrow> RollupBatch \<Rightarrow> bool" where
  "covers r b \<longleftrightarrow> rb_startShareIndex b \<le> sr_shareIndex r \<and> sr_shareIndex r \<le> rb_endShareIndex b"

definition rollup_ok :: "RollupTables \<Rightarrow> bool" where
  "rollup_ok db \<longleftrightarrow>
     (let lastIndex = lastProcessedShareIndex (share_rollup_batch db)
      in list_all (batch_ok db) (share_rollup_batch db)
         \<and> sorted_wrt (\<lambda>a b. rb_endShareIndex a < rb_startShareIndex b \<and> rb_id a < rb_id b) (share_rollup_batch db)
         \<and> list_all (\<lambda>s. rs_batchId s < nextBatchId db \<and> rs_payoutMode s = pplns) (share_rollup_batch_summary db)
         \<and> (\<forall>a. summarizedWork (\<lambda>_. True) a (share_rollup_batch_summary db)
              = workUpTo a lastIndex (accepted_share_entity db))
         \<and> list_all (\<lambda>r. se_payoutMode (sr_share r) = pplns \<longrightarrow> sr_shareIndex r \<le> lastIndex \<longrightarrow>
              list_ex (covers r) (share_rollup_batch db)) (accepted_share_entity db))"

lemma rollup_okD:
  assumes "rollup_ok db"
  shows "\<And>b. b \<in> set (share_rollup_batch db) \<Longrightarrow> batch_ok db b"
    and "sorted_wrt (\<lambda>a b. rb_endShareIndex a < rb_startShareIndex b \<and> rb_id a < rb_id b) (share_rollup_batch db)"
    and "\<And>s. s \<in> set (share_rollup_batch_summary db) \<Longrightarrow> rs_batchId s < nextBatchId db \<and> rs_payoutMode s = pplns"
    and "\<And>a. summarizedWork (\<lambda>_. True) a (share_rollup_batch_summary db)
       = workUpTo a (lastProcessedShareIndex (share_rollup_batch db)) (accepted_share_entity db)"
    and "\<And>r. r \<in> set (accepted_share_entity db) \<Longrightarrow> se_payoutMode (sr_share r) = pplns \<Longrightarrow>
       sr_shareIndex r \<le> lastProcessedShareIndex (share_rollup_batch db) \<Longrightarrow>
       \<exists>b \<in> set (share_rollup_batch db). covers r b"
  using assms by (auto simp: rollup_ok_def list_all_iff list_ex_iff Let_def)

lemma lastProcessed_ge:
  "b \<in> set batches \<Longrightarrow> rb_finalized b \<Longrightarrow> rb_payoutMode b = pplns \<Longrightarrow> rb_endShareIndex b \<le> lastProcessedShareIndex batches"
  by (force simp: lastProcessedShareIndex_def sqlMax_Max coalesce_def filter_empty_conv intro: Max_ge)

lemma lastProcessed_attained:
  "lastProcessedShareIndex batches = 0 \<or>
   (\<exists>b \<in> set batches. rb_finalized b \<and> rb_payoutMode b = pplns \<and> rb_endShareIndex b = lastProcessedShareIndex batches)"
proof (cases "filter (\<lambda>b. rb_finalized b \<and> rb_payoutMode b = pplns) batches = []")
  case False
  let ?ends = "set (map rb_endShareIndex (filter (\<lambda>b. rb_finalized b \<and> rb_payoutMode b = pplns) batches))"
  from False have "Max ?ends \<in> ?ends" by (intro Max_in) (simp_all del: filter_empty_conv set_filter)
  then obtain b where "b \<in> set batches" "rb_finalized b" "rb_payoutMode b = pplns" "rb_endShareIndex b = Max ?ends"
    by auto
  moreover have "lastProcessedShareIndex batches = Max ?ends"
    using False by (simp add: lastProcessedShareIndex_def sqlMax_Max coalesce_def)
  ultimately show ?thesis by auto
qed (simp add: lastProcessedShareIndex_def sqlMax_Max coalesce_def)

lemma boundedRows_least:
  assumes "boundedRows cfg now l rows \<noteq> []"
  shows "\<And>i. i \<in> set (boundedRows cfg now l rows) \<Longrightarrow> l < i"
    and "\<And>r. r \<in> set rows \<Longrightarrow> se_payoutMode (sr_share r) = pplns \<Longrightarrow> l < sr_shareIndex r \<Longrightarrow>
       Min (set (boundedRows cfg now l rows)) \<le> sr_shareIndex r"
proof -
  let ?b = "boundedRows cfg now l rows"
  from assms obtain bound where b: "?b = take (shareRollupMaxSharesPerBatch cfg)
      (sort (map sr_shareIndex (filter (\<lambda>r. sr_shareIndex r \<le> bound) (pendingRows l rows))))"
    by (auto simp: boundedRows_def split: option.splits)
  have sub: "i \<in> set ?b \<Longrightarrow> \<exists>r \<in> set rows. i = sr_shareIndex r \<and> l < i \<and> i \<le> bound" for i
    unfolding b by (drule in_set_takeD) (auto simp: pendingRows_def)
  then show "\<And>i. i \<in> set ?b \<Longrightarrow> l < i" by blast
  show "Min (set ?b) \<le> sr_shareIndex r"
    if r: "r \<in> set rows" "se_payoutMode (sr_share r) = pplns" "l < sr_shareIndex r" for r
  proof (cases "sr_shareIndex r \<le> bound")
    case True
    let ?all = "sort (map sr_shareIndex (filter (\<lambda>r. sr_shareIndex r \<le> bound) (pendingRows l rows)))"
    have "sr_shareIndex r \<in> set ?all" using r True by (auto simp: pendingRows_def)
    moreover obtain i later where all: "?all = i # later" using calculation by (cases ?all) auto
    moreover have "\<forall>j \<in> set ?all. i \<le> j" using sorted_sort [of "map sr_shareIndex
        (filter (\<lambda>r. sr_shareIndex r \<le> bound) (pendingRows l rows))"] all by simp
    moreover have "i \<in> set ?b" using assms all unfolding b by (cases "shareRollupMaxSharesPerBatch cfg") auto
    ultimately show ?thesis by (meson List.finite_set Min_le order_trans)
  next
    case False
    have "Min (set ?b) \<in> set ?b" using assms by (intro Min_in) auto
    with sub False show ?thesis by fastforce
  qed
qed

text \<open>What a rollup that does something appends.\<close>

lemma process_cases:
  obtains (same) "snd (processPendingShareRollupBatch cfg now locked db) = db"
  | (batch) first final shares where
      "snd (processPendingShareRollupBatch cfg now locked db) =
         db\<lparr>share_rollup_batch := share_rollup_batch db @ [batchOf (nextBatchId db) first final shares],
            share_rollup_batch_summary := share_rollup_batch_summary db
              @ map (summaryOf (nextBatchId db) shares) (remdups (map groupKey shares)),
            nextBatchId := nextBatchId db + 1\<rparr>"
      "shares = rowsBetween first final (accepted_share_entity db)"
      "lastProcessedShareIndex (share_rollup_batch db) < first" "first \<le> final"
      "\<And>r. r \<in> set (accepted_share_entity db) \<Longrightarrow> se_payoutMode (sr_share r) = pplns \<Longrightarrow>
         lastProcessedShareIndex (share_rollup_batch db) < sr_shareIndex r \<Longrightarrow> first \<le> sr_shareIndex r"
proof -
  let ?bounded = "boundedRows cfg now (lastProcessedShareIndex (share_rollup_batch db)) (accepted_share_entity db)"
  let ?shares = "rowsBetween (Min (set ?bounded)) (Max (set ?bounded)) (accepted_share_entity db)"
  show ?thesis
  proof (cases "\<not> shareRollupEnabled cfg \<or> \<not> locked \<or> ?bounded = [] \<or> ?shares = []")
    case True
    then show ?thesis
      by (intro same) (auto simp: processPendingShareRollupBatch_def sqlMin_Min sqlMax_Max Let_def)
  next
    case False
    then have some: "?bounded \<noteq> []" by simp
    have "Min (set ?bounded) \<in> set ?bounded" "Min (set ?bounded) \<le> Max (set ?bounded)"
      using some by (simp_all add: Min_in)
    with boundedRows_least [OF some] show ?thesis using False
      by (intro batch [where first = "Min (set ?bounded)" and final = "Max (set ?bounded)" and shares = ?shares])
         (auto simp: processPendingShareRollupBatch_def sqlMin_Min sqlMax_Max Let_def)
  qed
qed

section \<open>The invariant is kept\<close>

lemma rollup_last_nonneg: "rollup_ok db \<Longrightarrow> 0 \<le> lastProcessedShareIndex (share_rollup_batch db)"
  using lastProcessed_attained [of "share_rollup_batch db"] rollup_okD(1) [of db] by (force simp: batch_ok_def)

lemma batch_end_le: "rollup_ok db \<Longrightarrow> b \<in> set (share_rollup_batch db) \<Longrightarrow>
    rb_endShareIndex b \<le> lastProcessedShareIndex (share_rollup_batch db)"
  using rollup_okD(1) [of db b] by (intro lastProcessed_ge) (auto simp: batch_ok_def)

lemma insert_ok:
  assumes "rollup_ok db" and "lastProcessedShareIndex (share_rollup_batch db) < sr_shareIndex r"
  shows "rollup_ok (db\<lparr>accepted_share_entity := accepted_share_entity db @ [r]\<rparr>)"
proof -
  note d = rollup_okD [OF assms(1)]
  have same: "rowsBetween (rb_startShareIndex b) (rb_endShareIndex b) (accepted_share_entity db @ [r])
      = rowsBetween (rb_startShareIndex b) (rb_endShareIndex b) (accepted_share_entity db)"
    if "b \<in> set (share_rollup_batch db)" for b
    using batch_end_le [OF assms(1) that] assms(2) by (intro rowsBetween_insert) simp
  have "batch_ok (db\<lparr>accepted_share_entity := accepted_share_entity db @ [r]\<rparr>) b"
    if "b \<in> set (share_rollup_batch db)" for b
    using d(1) [OF that] same [OF that] by (simp add: batch_ok_def workBetween_def)
  moreover have "workUpTo a (lastProcessedShareIndex (share_rollup_batch db)) (accepted_share_entity db @ [r])
      = workUpTo a (lastProcessedShareIndex (share_rollup_batch db)) (accepted_share_entity db)" for a
    using assms(2) by (simp add: workUpTo_def)
  ultimately show ?thesis using d(2-5) assms(2) by (auto simp: rollup_ok_def list_all_iff list_ex_iff Let_def)
qed

lemma batch_ok_append:
  assumes "rollup_ok db" and "b \<in> set (share_rollup_batch db)"
  shows "batch_ok (db\<lparr>share_rollup_batch := share_rollup_batch db @ [b'],
     share_rollup_batch_summary := share_rollup_batch_summary db
       @ map (summaryOf (nextBatchId db) shares) (remdups (map groupKey shares)),
     nextBatchId := nextBatchId db + 1\<rparr>) b"
  using rollup_okD(1) [OF assms] by (auto simp: batch_ok_def summarizedWork_append summaries_of_one)

lemma no_summary: "rollup_ok db \<Longrightarrow> summarizedWork (\<lambda>s. rs_batchId s = nextBatchId db) a (share_rollup_batch_summary db) = 0"
proof -
  assume "rollup_ok db"
  then have "filter (\<lambda>s. rs_batchId s = nextBatchId db \<and> rs_address s = a) (share_rollup_batch_summary db) = []"
    using rollup_okD(3) [of db] by (force simp: filter_empty_conv)
  then show ?thesis by (simp add: summarizedWork_def)
qed

lemma rollup_batch_ok:
  assumes ok: "rollup_ok db" and shares: "shares = rowsBetween first final (accepted_share_entity db)"
    and first: "lastProcessedShareIndex (share_rollup_batch db) < first" "first \<le> final"
    and least: "\<And>r. r \<in> set (accepted_share_entity db) \<Longrightarrow> se_payoutMode (sr_share r) = pplns \<Longrightarrow>
         lastProcessedShareIndex (share_rollup_batch db) < sr_shareIndex r \<Longrightarrow> first \<le> sr_shareIndex r"
  shows "rollup_ok (db\<lparr>share_rollup_batch := share_rollup_batch db @ [batchOf (nextBatchId db) first final shares],
            share_rollup_batch_summary := share_rollup_batch_summary db
              @ map (summaryOf (nextBatchId db) shares) (remdups (map groupKey shares)),
            nextBatchId := nextBatchId db + 1\<rparr>)" (is "rollup_ok ?db")
proof -
  note d = rollup_okD [OF ok]
  let ?b = "batchOf (nextBatchId db) first final shares" and ?l = "lastProcessedShareIndex (share_rollup_batch db)"
  have sel: "rb_startShareIndex ?b = first" "rb_endShareIndex ?b = final" "rb_finalized ?b" "rb_payoutMode ?b = pplns"
    "rb_id ?b = nextBatchId db" by (simp_all add: batchOf_def)
  have new: "batch_ok ?db ?b"
    using rollup_last_nonneg [OF ok] first no_summary [OF ok]
    by (simp add: batch_ok_def summarizedWork_append summaries_of_one workBetween_def shares batchOf_def)
  have last: "lastProcessedShareIndex (share_rollup_batch ?db) = final"
  proof (rule antisym)
    show "final \<le> lastProcessedShareIndex (share_rollup_batch ?db)"
      using lastProcessed_ge [of ?b "share_rollup_batch ?db"] sel by simp
    show "lastProcessedShareIndex (share_rollup_batch ?db) \<le> final"
      using lastProcessed_attained [of "share_rollup_batch ?db"] batch_end_le [OF ok] first sel rollup_last_nonneg [OF ok]
      by fastforce
  qed
  have "list_all (batch_ok ?db) (share_rollup_batch ?db)"
    using new batch_ok_append [OF ok] by (simp add: list_all_iff)
  moreover have "sorted_wrt (\<lambda>a b. rb_endShareIndex a < rb_startShareIndex b \<and> rb_id a < rb_id b) (share_rollup_batch ?db)"
    using d(1,2) batch_end_le [OF ok] first sel by (fastforce simp: sorted_wrt_append batch_ok_def)
  moreover have "list_all (\<lambda>s. rs_batchId s < nextBatchId ?db \<and> rs_payoutMode s = pplns) (share_rollup_batch_summary ?db)"
    using d(3) by (fastforce simp: list_all_iff summaryOf_def Let_def split: prod.splits)
  moreover have "summarizedWork (\<lambda>_. True) a (share_rollup_batch_summary ?db) = workUpTo a final (accepted_share_entity ?db)" for a
    using summaries_of_batch [of "\<lambda>_. True" a "nextBatchId db" shares] d(4) [of a] workUpTo_split [OF first least, where address = a]
    by (simp add: summarizedWork_append workBetween_def shares)
  moreover have "list_ex (covers r) (share_rollup_batch ?db)"
    if r: "r \<in> set (accepted_share_entity ?db)" "se_payoutMode (sr_share r) = pplns" "sr_shareIndex r \<le> final" for r
    using d(5) [of r] least [of r] r sel by (cases "sr_shareIndex r \<le> ?l") (auto simp: list_ex_iff covers_def)
  ultimately show ?thesis unfolding rollup_ok_def Let_def last by (auto simp: list_all_iff)
qed

text \<open>
  The histories: a share is stored with an index above what is rolled up (the lag of the rollup is there for
  this), or the rollup runs, with any settings, clock and answer of the lock.
\<close>

inductive rollup_history :: "RollupTables \<Rightarrow> bool" where
  created: "rollup_history \<lparr>accepted_share_entity = [], share_rollup_batch = [], share_rollup_batch_summary = [],
     nextBatchId = 1\<rparr>"
| stored: "rollup_history db \<Longrightarrow> lastProcessedShareIndex (share_rollup_batch db) < sr_shareIndex r \<Longrightarrow>
     rollup_history (db\<lparr>accepted_share_entity := accepted_share_entity db @ [r]\<rparr>)"
| rolled: "rollup_history db \<Longrightarrow> rollup_history (snd (processPendingShareRollupBatch cfg now locked db))"

lemma rollup_history_ok: "rollup_history db \<Longrightarrow> rollup_ok db"
proof (induction rule: rollup_history.induct)
  case created
  show ?case by (simp add: rollup_ok_def summarizedWork_def workUpTo_def)
next
  case (stored db r)
  then show ?case by (intro insert_ok)
next
  case (rolled db cfg now locked)
  show ?case
  proof (cases rule: process_cases [of cfg now locked db])
    case (batch first final shares)
    show ?thesis unfolding batch(1) by (rule rollup_batch_ok [OF rolled.IH batch(2-5)])
  qed (use rolled in simp)
qed

lemma one_batch_covers:
  assumes "sorted_wrt (\<lambda>a b. rb_endShareIndex a < rb_startShareIndex b \<and> rb_id a < rb_id b) batches"
    and "\<And>b. b \<in> set batches \<Longrightarrow> rb_startShareIndex b \<le> rb_endShareIndex b"
  shows "length (filter (covers r) batches) \<le> 1"
  using assms
proof (induction batches)
  case (Cons b batches)
  then have "length (filter (covers r) batches) \<le> 1" by simp
  moreover have "filter (covers r) batches = []" if "covers r b"
    using Cons.prems(1) that by (force simp: filter_empty_conv covers_def)
  ultimately show ?case by auto
qed simp


text \<open>Two shares are rolled up, a third is stored later.\<close>

definition demo_row :: "int \<Rightarrow> ShareRow" where
  "demo_row i = \<lparr>sr_shareIndex = i, sr_share = acceptedShareOf 0 (demo_record i)\<rparr>"

definition no_rollups :: RollupTables where
  "no_rollups = \<lparr>accepted_share_entity = [], share_rollup_batch = [], share_rollup_batch_summary = [], nextBatchId = 1\<rparr>"

definition store :: "ShareRow \<Rightarrow> RollupTables \<Rightarrow> RollupTables" where
  "store r db = db\<lparr>accepted_share_entity := accepted_share_entity db @ [r]\<rparr>"

definition demo_rolled :: RollupTables where
  "demo_rolled = snd (processPendingShareRollupBatch demo_cfg 20000 True
     (store (demo_row 2) (store (demo_row 1) no_rollups)))"

definition demo_tables :: RollupTables where
  "demo_tables = store (demo_row 3) demo_rolled"

lemma stored': "rollup_history db \<Longrightarrow> lastProcessedShareIndex (share_rollup_batch db) < sr_shareIndex r \<Longrightarrow>
    rollup_history (store r db)"
  unfolding store_def by (rule rollup_history.stored)

lemma demo_tables_history: "rollup_history demo_tables"
  unfolding demo_tables_def demo_rolled_def
proof (intro stored' rollup_history.rolled)
  show "rollup_history no_rollups" unfolding no_rollups_def by (rule rollup_history.created)
qed code_simp+

lemma demo_tables_rows:
  "demo_row 1 \<in> set (accepted_share_entity demo_tables)" "demo_row 3 \<in> set (accepted_share_entity demo_tables)"
  "lastProcessedShareIndex (share_rollup_batch demo_tables) = 2"
  "se_payoutMode (sr_share (demo_row i)) = pplns" "workUpTo ''alice'' 2 (accepted_share_entity demo_tables) = 16"
proof -
  show "se_payoutMode (sr_share (demo_row i)) = pplns"
    by (simp add: demo_row_def acceptedShareOf_def demo_record_def normalizePayoutMode_def)
qed code_simp+


end
