(* ===== verification/PayoutLedger.thy ===== *)
theory PayoutLedger
  imports PayoutSnapshots PayoutCorrectness
begin

text \<open>
  The way of the satoshis of a block: from the distribution over the limit of the outputs and the snapshot
  into the outputs of the coinbase and the balances. Nothing is lost and nothing is paid twice.
\<close>

section \<open>The limit of the outputs\<close>

text \<open>What the limit never changes of an entry, and what the outputs of entries pay.\<close>

definition settled :: "PayoutDistributionEntry \<Rightarrow> string \<times> rat \<times> int \<times> int" where
  "settled e = (pde_address e, pde_creditedDifficulty e, pde_balanceBeforeSats e,
     pde_payoutSats e + pde_balanceAfterSats e)"

definition paidOut :: "PayoutDistributionEntry list \<Rightarrow> int" where
  "paidOut es = sum_list (map pde_payoutSats (includedOf es))"

definition sound_entry :: "PayoutDistributionEntry \<Rightarrow> bool" where
  "sound_entry e \<longleftrightarrow> 0 \<le> pde_payoutSats e \<and> 0 \<le> pde_creditedDifficulty e
     \<and> (pde_includedInCoinbase e \<or> pde_payoutSats e = 0)"

lemma limitEntries_spec:
  assumes "limitEntries room es = (es', removed)" and "list_all sound_entry es"
  shows "map settled es' = map settled es" "length (includedOf es') \<le> room" "list_all sound_entry es'"
    "paidOut es' + removed = paidOut es" "0 \<le> removed"
  using assms
proof (induction room es arbitrary: es' removed rule: limitEntries.induct)
  case (2 room e es)
  { case 1 then show ?case using 2
      by (auto simp: settled_def postponed_def includedOf_def sound_entry_def split: if_splits nat.splits prod.splits)
  next case 2 then show ?case using "2.IH"
      by (auto simp: settled_def postponed_def includedOf_def sound_entry_def split: if_splits nat.splits prod.splits)
  next case 3 then show ?case using "2.IH"
      by (auto simp: settled_def postponed_def includedOf_def sound_entry_def split: if_splits nat.splits prod.splits)
  next case 4 then show ?case using "2.IH"
      by (auto simp: paidOut_def settled_def postponed_def includedOf_def sound_entry_def split: if_splits nat.splits prod.splits)
  next case 5 then show ?case using "2.IH"
      by (auto simp: settled_def postponed_def includedOf_def sound_entry_def split: if_splits nat.splits prod.splits) }
qed (simp_all add: includedOf_def paidOut_def)

lemma settled_addSats [simp]:
  "settled (addSats x e) = settled e" "pde_includedInCoinbase (addSats x e) = pde_includedInCoinbase e"
  "pde_payoutSats (addSats x e) = pde_payoutSats e + x" "pde_creditedDifficulty (addSats x e) = pde_creditedDifficulty e"
  by (simp_all add: settled_def addSats_def)

lemma paidOut_update:
  "p < length es \<Longrightarrow> pde_includedInCoinbase (es ! p) \<Longrightarrow> paidOut (es[p := addSats x (es ! p)]) = paidOut es + x"
proof (induction es arbitrary: p)
  case (Cons e es)
  then show ?case by (cases p) (auto simp: paidOut_def includedOf_def)
qed simp

lemma map_update_same: "p < length es \<Longrightarrow> f y = f (es ! p) \<Longrightarrow> map f (es[p := y]) = map f es"
  by (metis list_update_id map_update)

lemma handOut_spec:
  assumes "distinct (map cl_place as)" and "0 \<le> r"
    and "\<And>a. a \<in> set as \<Longrightarrow> cl_place a < length es \<and> pde_includedInCoinbase (es ! cl_place a) \<and> 0 \<le> cl_whole a"
    and "list_all sound_entry es"
  shows "map settled (handOut r as es) = map settled es
    \<and> map pde_includedInCoinbase (handOut r as es) = map pde_includedInCoinbase es
    \<and> list_all sound_entry (handOut r as es)
    \<and> paidOut (handOut r as es) = paidOut es + sum_list (map cl_whole as) + min r (int (length as))"
  using assms
proof (induction r as es rule: handOut.induct)
  case (2 r a as es)
  let ?x = "cl_whole a + (if r > 0 then 1 else 0)" and ?r = "if r > 0 then r - 1 else r"
  let ?es = "es[cl_place a := addSats ?x (es ! cl_place a)]"
  have a: "cl_place a < length es" "pde_includedInCoinbase (es ! cl_place a)" "0 \<le> cl_whole a"
    using 2(4) [of a] by simp_all
  have es: "map settled ?es = map settled es" "map pde_includedInCoinbase ?es = map pde_includedInCoinbase es"
    using a(1) by (simp_all add: map_update_same)
  have sound: "list_all sound_entry ?es"
  proof -
    have "sound_entry (addSats ?x (es ! cl_place a))"
      using 2(5) a by (auto simp: sound_entry_def list_all_iff nth_mem)
    then show ?thesis using 2(5) by (auto simp: list_all_iff dest: set_update_subset_insert [THEN subsetD])
  qed
  have "cl_place b < length ?es \<and> pde_includedInCoinbase (?es ! cl_place b) \<and> 0 \<le> cl_whole b" if "b \<in> set as" for b
  proof -
    have "cl_place b \<noteq> cl_place a" using 2(2) imageI [OF that, of cl_place] by auto
    then show ?thesis using 2(4) [of b] that by (simp add: nth_list_update)
  qed
  with 2(1) [OF _ _ _ sound] 2(2,3) have ih: "map settled (handOut ?r as ?es) = map settled ?es
    \<and> map pde_includedInCoinbase (handOut ?r as ?es) = map pde_includedInCoinbase ?es
    \<and> list_all sound_entry (handOut ?r as ?es)
    \<and> paidOut (handOut ?r as ?es) = paidOut ?es + sum_list (map cl_whole as) + min ?r (int (length as))"
    by auto
  have eq: "handOut r (a # as) es = handOut ?r as ?es" by simp
  show ?case unfolding eq using ih es paidOut_update [OF a(1,2), of ?x] 2(3) by auto
qed simp

lemma enumerate_filter_facts:
  "distinct (map fst (filter P (enumerate 0 es)))" "(i, e) \<in> set (filter P (enumerate 0 es)) \<Longrightarrow> i < length es \<and> e = es ! i \<and> P (i, e)"
  by (simp_all add: distinct_map_filter distinct_enumerate) (auto simp: in_set_enumerate_eq)

lemma length_filter_enumerate: "length (filter (\<lambda>(i, e). P e) (enumerate n es)) = length (filter P es)"
  by (induction es arbitrary: n) simp_all

lemma same_workers:
  assumes "map settled xs = map settled ys"
  shows "length (filter (\<lambda>e. 0 < pde_creditedDifficulty e) xs) = length (filter (\<lambda>e. 0 < pde_creditedDifficulty e) ys)"
proof -
  have "length (filter (\<lambda>e. 0 < pde_creditedDifficulty e) zs)
      = length (filter (\<lambda>(_, d, _). 0 < d) (map settled zs))" for zs
    by (simp add: filter_map comp_def settled_def)
  with assms show ?thesis by metis
qed

lemma length_includedOf: "length (includedOf es) = length (filter id (map pde_includedInCoinbase es))"
  by (simp add: includedOf_def filter_map comp_def)

lemma limitCoinbaseOutputs_spec:
  fixes lc :: "string \<Rightarrow> string \<Rightarrow> int" and limit :: nat
  assumes sound: "list_all sound_entry es"
    and split: "splittable (paidOut es) (length (filter (\<lambda>e. 0 < pde_creditedDifficulty e) es))"
  defines "es' \<equiv> limitCoinbaseOutputs lc limit es"
  shows "map settled es' = map settled es" "length (includedOf es') \<le> limit" "list_all sound_entry es'"
    "paidOut es' \<le> paidOut es"
    "\<exists>e \<in> set (includedOf es'). 0 < pde_creditedDifficulty e \<Longrightarrow> paidOut es' = paidOut es"
proof -
  obtain limited removed where lim: "limitEntries limit es = (limited, removed)" by fastforce
  note l = limitEntries_spec [OF lim sound]
  let ?kept = "filter (\<lambda>(i, e). pde_includedInCoinbase e \<and> pde_creditedDifficulty e > 0) (enumerate 0 limited)"
  let ?ws = "map (pde_creditedDifficulty \<circ> snd) ?kept"
  let ?T = "fsum ?ws"
  let ?as = "map (allocationFor removed ?T) ?kept"
  let ?r = "removed - sum_list (map cl_whole ?as)"
  have es': "es' = (if removed \<le> 0 \<or> ?T \<le> 0 then limited else handOut ?r (js_sort (allocationBefore lc) ?as) limited)"
    by (simp add: es'_def limitCoinbaseOutputs_def lim Let_def)
  have kept: "i < length limited \<and> pde_includedInCoinbase (limited ! i) \<and> 0 < pde_creditedDifficulty (limited ! i) \<and> e = limited ! i"
    if "(i, e) \<in> set ?kept" for i e using enumerate_filter_facts(2) [OF that] by auto
  have pos: "list_all (\<lambda>w. 0 < w) ?ws" using kept by (auto simp: list_all_iff)
  then have T: "sumsTo ?T ?ws" by (intro sumsTo_fsum) (auto simp: list_all_iff less_imp_le)
  have paid: "0 \<le> paidOut limited" unfolding paidOut_def
    using l(3) by (intro sum_list_nonneg) (auto simp: includedOf_def list_all_iff sound_entry_def)
  have work: "0 < ?T \<longleftrightarrow> ?kept \<noteq> []" using sumsTo_pos [OF pos T] by simp
  have spread: "map settled es' = map settled limited \<and> length (includedOf es') = length (includedOf limited)
      \<and> list_all sound_entry es' \<and> paidOut es' = paidOut limited + removed"
    if busy: "0 < removed" "0 < ?T"
  proof -
    have "length ?kept \<le> length (filter (\<lambda>e. 0 < pde_creditedDifficulty e) limited)"
      unfolding length_filter_enumerate by (induction limited) auto
    also have "\<dots> = length (filter (\<lambda>e. 0 < pde_creditedDifficulty e) es)" by (rule same_workers [OF l(1)])
    finally have "splittable removed (length ?ws)"
      using l(4,5) paid by (intro splittable_mono [OF split]) simp_all
    from sum_exactShare [OF pos _ busy(1) T busy(2) this]
    have ex: "sum_list (map (\<lambda>k. exactShare (pde_creditedDifficulty (snd k)) removed ?T) ?kept) < of_int removed + 1"
      "of_int removed - 1 < sum_list (map (\<lambda>k. exactShare (pde_creditedDifficulty (snd k)) removed ?T) ?kept)"
      using work busy by (simp_all add: comp_def)
    have whole: "map cl_whole ?as = map (\<lambda>k. \<lfloor>exactShare (pde_creditedDifficulty (snd k)) removed ?T\<rfloor>) ?kept"
      by (simp add: allocationFor_def Let_def split_def comp_def)
    let ?A = "sum_list (map cl_whole ?as)"
    have "of_int ?A < (of_int (removed + 1) :: rat)" "(of_int (removed - 1 - int (length ?kept)) :: rat) < of_int ?A"
      using floor_sum_bounds [of ?kept "\<lambda>k. exactShare (pde_creditedDifficulty (snd k)) removed ?T"] ex work busy
      unfolding whole by auto
    then have r: "0 \<le> ?r" "?r \<le> int (length ?as)" unfolding of_int_less_iff by simp_all
    have places: "map cl_place ?as = map fst ?kept" by (simp add: allocationFor_def Let_def split_def comp_def)
    have "mset (map cl_place (js_sort (allocationBefore lc) ?as)) = mset (map fst ?kept)"
      unfolding mset_map mset_js_sort places [symmetric] ..
    then have d: "distinct (map cl_place (js_sort (allocationBefore lc) ?as))"
      using enumerate_filter_facts(1) mset_eq_imp_distinct_iff by blast
    have ok: "cl_place a < length limited \<and> pde_includedInCoinbase (limited ! cl_place a) \<and> 0 \<le> cl_whole a"
      if "a \<in> set (js_sort (allocationBefore lc) ?as)" for a
    proof -
      from that obtain i e where k: "(i, e) \<in> set ?kept" "a = allocationFor removed ?T (i, e)" by auto
      from kept [OF k(1)] floor_nonneg_share [OF _ busy, of "pde_creditedDifficulty e"] k(2) show ?thesis
        by (simp add: allocationFor_def Let_def)
    qed
    have eq: "es' = handOut ?r (js_sort (allocationBefore lc) ?as) limited" using busy es' by simp
    note h = handOut_spec [OF d r(1) ok l(3), folded eq]
    have "length (includedOf es') = length (includedOf limited)"
      unfolding length_includedOf using h by simp
    moreover have "paidOut es' = paidOut limited + removed"
      using h r(2) by (simp only: sum_list_js_sort length_js_sort)
    ultimately show ?thesis using h by simp
  qed
  show "map settled es' = map settled es" "length (includedOf es') \<le> limit" "list_all sound_entry es'"
    using spread l(1-3) es' by (cases "0 < removed \<and> 0 < ?T"; force)+
  show "paidOut es' \<le> paidOut es" using spread l es' by (cases "0 < removed \<and> 0 < ?T") auto
  show "paidOut es' = paidOut es" if worker: "\<exists>e \<in> set (includedOf es'). 0 < pde_creditedDifficulty e"
  proof (cases "0 < removed \<and> 0 < ?T")
    case True
    with spread l(4) show ?thesis by simp
  next
    case False
    then have "es' = limited" using es' by auto
    with worker have "filter (\<lambda>e. pde_includedInCoinbase e \<and> 0 < pde_creditedDifficulty e) limited \<noteq> []"
      by (auto simp: includedOf_def filter_empty_conv)
    then have "?kept \<noteq> []" by (metis length_0_conv length_filter_enumerate)
    with False work l(4,5) \<open>es' = limited\<close> show ?thesis by auto
  qed
qed

section \<open>What the distribution knows of the balances\<close>

definition balanceOf :: "(string \<times> BalanceRow) list \<Rightarrow> string \<Rightarrow> int" where
  "balanceOf rows address = (case map_of rows address of None \<Rightarrow> 0 | Some b \<Rightarrow> pb_balanceSats b)"

definition owedTotal :: "(string \<times> BalanceRow) list \<Rightarrow> int" where
  "owedTotal rows = sum_list (map (pb_balanceSats \<circ> snd) rows)"

definition paidTotal :: "(string \<times> BalanceRow) list \<Rightarrow> int" where
  "paidTotal rows = sum_list (map (pb_totalPaidSats \<circ> snd) rows)"

lemma js_trunc_int [simp]: "js_trunc (of_int v) = v"
  by (simp add: js_trunc_def)

lemma collect_open:
  assumes "distinct (map fst rows)" and "a \<noteq> []"
  shows "satsOf (collectBalances (getOpenBalances rows)) a = balanceOf rows a"
proof -
  let ?f = "\<lambda>b m. case pbi_balanceSats b of
      Num v \<Rightarrow> if pbi_address b \<noteq> [] \<and> v \<noteq> 0 then AList.update (pbi_address b) (js_trunc v) m else m | _ \<Rightarrow> m"
  have "map_of (fold ?f (getOpenBalances rows) m) a
      = (if balanceOf rows a \<noteq> 0 then Some (balanceOf rows a) else map_of m a)" for m
    using assms(1)
  proof (induction rows arbitrary: m)
    case (Cons r rows)
    obtain b row where r: "r = (b, row)" by fastforce
    have "map_of rows b = None" using Cons.prems r by (simp add: map_of_eq_None_iff)
    then have "balanceOf rows b = 0" by (simp add: balanceOf_def)
    then show ?case using Cons.IH Cons.prems assms(2) r
      by (cases "b = a") (auto simp: getOpenBalances_def balanceOf_def update_conv')
  qed (simp add: getOpenBalances_def balanceOf_def)
  then show ?thesis by (simp add: collectBalances_def satsOf_def)
qed

lemma keys_update: "fst ` set (AList.update k v al) = insert k (fst ` set al)"
  by (induction al) auto

lemma fold_keeps: "P m \<Longrightarrow> (\<And>x m. P m \<Longrightarrow> P (f x m)) \<Longrightarrow> P (fold f xs m)"
  by (induction xs arbitrary: m) simp_all

lemma collect_keys:
  "[] \<notin> fst ` set (collectWork ws)" "[] \<notin> fst ` set (collectBalances bs)"
  unfolding collectWork_def collectBalances_def
  by (rule fold_keeps [where P = "\<lambda>m. [] \<notin> fst ` set m"];
      auto simp: keys_update Let_def image_iff split: jsnum.split prod.split dest!: set_update_subset [THEN subsetD])+

lemma minerRow_facts:
  assumes "sane_input input" and "has_payout input" and "r \<in> set (minerRows addressType lc input)"
  shows "ca_balanceBeforeSats r = satsOf (collectBalances (balances input)) (ca_address r)" "ca_address r \<noteq> []"
    "row_ok r" "ca_includedInCoinbase r \<or> ca_payoutSats r = 0"
proof -
  have some: "collectWork (addressWork input) \<noteq> []" using assms(2) by (simp add: has_payout_def)
  note m = minerRows_ok [OF assms(1) some, of addressType lc]
  have "(ca_address r, ca_balanceBeforeSats r) \<in> set (map (\<lambda>r. (ca_address r, ca_balanceBeforeSats r))
      (minerRows addressType lc input))" using assms(3) by simp
  then show "ca_balanceBeforeSats r = satsOf (collectBalances (balances input)) (ca_address r)" "ca_address r \<noteq> []"
    unfolding m(7) using collect_keys(1) [of "addressWork input"] collect_keys(2) [of "balances input"]
    by (auto simp: consideredOf_def image_iff)
  show "row_ok r" "ca_includedInCoinbase r \<or> ca_payoutSats r = 0"
    using m(1,2) assms(3) by (auto simp: table_ok_def outputs_only_def list_all_iff)
qed

lemma balance_row:
  assumes "sane_input input" and "has_payout input" and "satsOf (collectBalances (balances input)) a \<noteq> 0"
  shows "\<exists>r \<in> set (minerRows addressType lc input). ca_address r = a"
proof -
  have some: "collectWork (addressWork input) \<noteq> []" using assms(2) by (simp add: has_payout_def)
  have "a \<in> fst ` set (collectBalances (balances input))"
    using assms(3) by (auto simp: satsOf_def image_iff split: option.splits dest!: map_of_SomeD) force
  then have "a \<in> set (consideredOf (collectWork (addressWork input)) (collectBalances (balances input)))"
    by (auto simp: consideredOf_def)
  then have "(a, satsOf (collectBalances (balances input)) a)
      \<in> set (map (\<lambda>r. (ca_address r, ca_balanceBeforeSats r)) (minerRows addressType lc input))"
    unfolding minerRows_ok(7) [OF assms(1) some] by simp
  then show ?thesis by auto
qed

text \<open>What an entry of the distribution says of its address: it works, it is owed, it is paid.\<close>

definition known_balance :: "PayoutDistributionInput \<Rightarrow> PayoutDistributionEntry \<Rightarrow> bool" where
  "known_balance input e \<longleftrightarrow> sound_entry e \<and> pde_address e \<noteq> []
     \<and> pde_balanceBeforeSats e = satsOf (collectBalances (balances input)) (pde_address e)"

lemma minerEntries_known:
  assumes "sane_input input" and "has_payout input"
  shows "list_all (known_balance input) (minerEntriesOf lc (minerRows addressType lc input))"
proof -
  have "known_balance input (entryOfRow r)" if "r \<in> set (minerRows addressType lc input)" for r
    using minerRow_facts [OF assms that] by (auto simp: known_balance_def sound_entry_def entryOfRow_def row_ok_def)
  then show ?thesis by (auto simp: minerEntriesOf_def list_all_iff)
qed

lemma addToFirst_known:
  assumes "list_all (known_balance input) es" and "0 \<le> pde_payoutSats fee"
  shows "list_all (known_balance input) (addToFirst fee es)"
  using assms by (induction es) (auto simp: known_balance_def sound_entry_def)

lemma fee_known:
  assumes ok: "sane_input input" "has_payout input" and fee: "0 < feeSatsFor input"
    and alone: "feeAddressOf input \<notin> pde_address ` set (minerEntriesOf lc (minerRows addressType lc input))"
  shows "known_balance input (feeEntryFor (feeAddressOf input) (feeSatsFor input))"
proof -
  have some: "feeAddressOf input \<noteq> []"
    using fee by (auto simp: feeSatsFor_def feeAddressOf_def Let_def split: if_splits)
  moreover have "satsOf (collectBalances (balances input)) (feeAddressOf input) = 0"
  proof (rule ccontr)
    assume owed: "satsOf (collectBalances (balances input)) (feeAddressOf input) \<noteq> 0"
    from balance_row [OF ok owed, of addressType lc] obtain r where
      r: "r \<in> set (minerRows addressType lc input)" "ca_address r = feeAddressOf input" by blast
    from minerRow_facts(1) [OF ok r(1)] owed r(2) have "ca_balanceBeforeSats r \<noteq> 0" by simp
    then have "entryOfRow r \<in> set (minerEntriesOf lc (minerRows addressType lc input))"
      using r(1) by (auto simp: minerEntriesOf_def)
    moreover have "pde_address (entryOfRow r) = feeAddressOf input" using r(2) by (simp add: entryOfRow_def)
    ultimately show False using alone by force
  qed
  ultimately show ?thesis using fee by (simp add: known_balance_def sound_entry_def)
qed

lemma merged_known:
  assumes ok: "sane_input input" "has_payout input"
    and once: "distinct (map pde_address (mergedEntriesOf addressType lc input))"
  shows "list_all (known_balance input) (mergedEntriesOf addressType lc input)"
proof -
  let ?es = "minerEntriesOf lc (minerRows addressType lc input)"
  let ?fee = "feeEntryFor (feeAddressOf input) (feeSatsFor input)"
  note known = minerEntries_known [OF ok, of lc addressType]
  show ?thesis
  proof (cases "feeSatsFor input > 0")
    case True
    show ?thesis
    proof (cases "\<exists>e \<in> set ?es. pde_address e = pde_address ?fee \<and> pde_includedInCoinbase e")
      case merged: True
      then have "mergedEntriesOf addressType lc input = addToFirst ?fee ?es"
        using True by (simp only: mergedEntriesOf_def mergeFeeEntry_def Let_def if_True)
      then show ?thesis using addToFirst_known [OF known, of ?fee] True by simp
    next
      case False
      then have eq: "mergedEntriesOf addressType lc input = ?fee # ?es"
        using True by (simp only: mergedEntriesOf_def mergeFeeEntry_def Let_def if_True if_False)
      have "known_balance input ?fee" by (rule fee_known [OF ok True, of lc addressType]) (use once in \<open>simp add: eq\<close>)
      then show ?thesis using known by (simp add: eq)
    qed
  qed (use known in \<open>simp add: mergedEntriesOf_def\<close>)
qed

lemma workers_merge:
  "length (filter (\<lambda>e. 0 < pde_creditedDifficulty e) (mergedEntriesOf addressType lc input))
     \<le> length (minerEntriesOf lc (minerRows addressType lc input))"
proof -
  have "map pde_creditedDifficulty (addToFirst fee es) = map pde_creditedDifficulty es" for fee es
    by (induction es) auto
  then have "length (filter P (addToFirst fee es)) \<le> length es" for P fee es by (metis length_map length_filter_le)
  then show ?thesis by (simp add: mergedEntriesOf_def mergeFeeEntry_def Let_def length_filter_le)
qed

lemma length_minerEntries:
  assumes "sane_input input" and "has_payout input"
  shows "length (minerEntriesOf lc (minerRows addressType lc input)) \<le> length (addressWork input) + length (balances input)"
proof -
  have some: "collectWork (addressWork input) \<noteq> []" using assms(2) by (simp add: has_payout_def)
  have "length (minerRows addressType lc input)
      = length (consideredOf (collectWork (addressWork input)) (collectBalances (balances input)))"
    using minerRows_ok(7) [OF assms(1) some, of addressType lc] by (metis length_map)
  also have "\<dots> \<le> length (addressWork input) + length (balances input)"
    using length_consideredOf [of "collectWork (addressWork input)" "collectBalances (balances input)"]
      collectWork_ok(2) [of "addressWork input"] collectBalances_ok(2) [of "balances input"] by simp
  finally have rows: "length (minerRows addressType lc input) \<le> length (addressWork input) + length (balances input)" .
  show ?thesis unfolding minerEntriesOf_def length_map length_js_sort by (rule order_trans [OF length_filter_le rows])
qed

end
