(* ===== verification/BlockLedger.thy ===== *)
theory BlockLedger
  imports PayoutLedger
begin

text \<open>
  A template's snapshot and the block found with it: what the coinbase pays and what the balances grow by is
  the value of the coinbase.
\<close>

section \<open>Updates of the balances\<close>

lemma sum_update:
  fixes f :: "'b \<Rightarrow> int"
  assumes "distinct (map fst al)"
  shows "sum_list (map (f \<circ> snd) (AList.update k v al))
     = sum_list (map (f \<circ> snd) al) - (case map_of al k of None \<Rightarrow> 0 | Some w \<Rightarrow> f w) + f v"
  using assms
proof (induction al)
  case (Cons p al)
  obtain a w where p: "p = (a, w)" by fastforce
  show ?case
  proof (cases "a = k")
    case True
    then show ?thesis using p by simp
  next
    case False
    then show ?thesis using p Cons by simp
  qed
qed simp

definition paidOf :: "(string \<times> BalanceRow) list \<Rightarrow> string \<Rightarrow> int" where
  "paidOf rows address = (case map_of rows address of None \<Rightarrow> 0 | Some b \<Rightarrow> pb_totalPaidSats b)"

definition outputSats :: "SnapshotEntryRow \<Rightarrow> int" where
  "outputSats e = (if sn_includedInCoinbase e then sn_payoutSats e else 0)"

lemma upsertBalance_spec:
  assumes "distinct (map fst rows)"
  shows "owedTotal (upsertBalance now e rows)
       = owedTotal rows - balanceOf rows (sn_address e) + sn_balanceAfterSats e"
    "paidTotal (upsertBalance now e rows) = paidTotal rows + outputSats e"
    "distinct (map fst (upsertBalance now e rows))"
    "a \<noteq> sn_address e \<Longrightarrow> balanceOf (upsertBalance now e rows) a = balanceOf rows a"
    "paidOf (upsertBalance now e rows) a = paidOf rows a + (if a = sn_address e then outputSats e else 0)"
  using sum_update [OF assms, of pb_balanceSats "sn_address e"] sum_update [OF assms, of pb_totalPaidSats "sn_address e"]
    distinct_update [OF assms]
  by (auto simp: upsertBalance_def owedTotal_def paidTotal_def balanceOf_def paidOf_def outputSats_def Let_def
      update_conv' split: option.split)

definition sameBut :: "PayoutTables \<Rightarrow> PayoutTables \<Rightarrow> bool" where
  "sameBut db db' \<longleftrightarrow> db'\<lparr>payout_balance := [], payout_history := []\<rparr> = db\<lparr>payout_balance := [], payout_history := []\<rparr>"

lemma finalizeEntries_spec:
  assumes "distinct (map fst (payout_balance db))" and "distinct (map sn_address es)"
  shows "let db' = finalizeEntries now input i cv es db in
      owedTotal (payout_balance db') = owedTotal (payout_balance db)
        + sum_list (map (\<lambda>e. sn_balanceAfterSats e - balanceOf (payout_balance db) (sn_address e)) es)
      \<and> paidTotal (payout_balance db') = paidTotal (payout_balance db) + sum_list (map outputSats es)
      \<and> distinct (map fst (payout_balance db'))
      \<and> (\<forall>a. paidOf (payout_balance db') a = paidOf (payout_balance db) a
            + sum_list (map outputSats (filter (\<lambda>e. sn_address e = a) es)))
      \<and> sameBut db db'"
  using assms unfolding Let_def
proof (induction es arbitrary: db)
  case (Cons e es)
  let ?db = "finalizeEntry now input i cv e db"
  have b: "payout_balance ?db = upsertBalance now e (payout_balance db)" by (simp add: finalizeEntry_def)
  note u = upsertBalance_spec [OF Cons.prems(1), where e = e and now = now]
  have "distinct (map fst (payout_balance ?db))" unfolding b by (rule u(3))
  note ih = Cons.IH [OF this] 
  have es: "map (\<lambda>x. sn_balanceAfterSats x - balanceOf (payout_balance ?db) (sn_address x)) es
      = map (\<lambda>x. sn_balanceAfterSats x - balanceOf (payout_balance db) (sn_address x)) es"
    using Cons.prems(2) unfolding b by (intro map_cong [OF refl]) (auto simp: u(4) image_iff)
  have same: "sameBut db ?db" by (simp add: sameBut_def finalizeEntry_def)
  have run: "finalizeEntries now input i cv (e # es) db = finalizeEntries now input i cv es ?db"
    by (simp add: finalizeEntries_def)
  show ?case unfolding run using ih Cons.prems(2) same
    by (auto simp: b u es [unfolded b] sameBut_def)
qed (simp_all add: finalizeEntries_def sameBut_def)

section \<open>The rows of a snapshot\<close>

lemma insertSnapshotEntries_spec:
  assumes "insertSnapshotEntries dec i es rows = Inr rows'"
  shows "rows' = rows @ map (entryRow dec i) es" "distinct (map pde_address es)"
    "\<And>r. r \<in> set rows \<Longrightarrow> sn_snapshotId r = i \<Longrightarrow> sn_address r \<notin> pde_address ` set es"
proof -
  have "rows' = rows @ map (entryRow dec i) es \<and> distinct (map pde_address es)
    \<and> (\<forall>r \<in> set rows. sn_snapshotId r = i \<longrightarrow> sn_address r \<notin> pde_address ` set es)"
    using assms
  proof (induction es arbitrary: rows)
    case (Cons e es)
    then have go: "insertSnapshotEntries dec i es (rows @ [entryRow dec i e]) = Inr rows'"
      and new: "\<not> list_ex (\<lambda>r. sn_snapshotId r = i \<and> sn_address r = pde_address e) rows"
      by (simp_all split: if_splits)
    have "sn_snapshotId (entryRow dec i e) = i" "sn_address (entryRow dec i e) = pde_address e"
      by (simp_all add: entryRow_def)
    then show ?case using Cons.IH [OF go] new by (auto simp: list_ex_iff)
  qed simp
  then show "rows' = rows @ map (entryRow dec i) es" "distinct (map pde_address es)"
    "\<And>r. r \<in> set rows \<Longrightarrow> sn_snapshotId r = i \<Longrightarrow> sn_address r \<notin> pde_address ` set es" by blast+
qed

text \<open>The tables know no row of a snapshot that is still to come, and every address has one balance.\<close>

definition tables_ok :: "PayoutTables \<Rightarrow> bool" where
  "tables_ok db \<longleftrightarrow> list_all (\<lambda>s. ss_id s < nextSnapshotId db) (payout_snapshot db)
     \<and> list_all (\<lambda>e. sn_snapshotId e < nextSnapshotId db) (payout_snapshot_entry db)
     \<and> distinct (map fst (payout_balance db))"

definition limitedEntries :: "SnapshotConfig \<Rightarrow> SnapshotEnv \<Rightarrow> PayoutDistributionInput \<Rightarrow> PayoutDistributionEntry list" where
  "limitedEntries cfg env given = limitCoinbaseOutputs (sv_localeCompare env) (maxCoinbaseOutputs cfg)
     (entries (buildPayoutDistribution (sv_addressType env) (sv_localeCompare env) given))"

definition snapshotInput :: "SnapshotConfig \<Rightarrow> SnapshotInput \<Rightarrow> PplnsWindow \<Rightarrow> PayoutTables \<Rightarrow> PayoutDistributionInput" where
  "snapshotInput cfg input window db = distributionInput cfg input
     (getAddressWork (pw_windowStartShareIndex window) (pw_windowEndShareIndex window)
        (share_rollup_batch db) (share_rollup_batch_summary db)) (getOpenBalances (payout_balance db))"

text \<open>What a new snapshot leaves in the tables.\<close>

lemma new_snapshot:
  assumes made: "createSnapshotForTemplate cfg env input db = (Inr (Some snapshot), db')"
    and fresh: "ss_id (st_row snapshot) = nextSnapshotId db" and ok: "tables_ok db"
  obtains window where
    "getSnapshotById db' (nextSnapshotId db) = Some snapshot"
    "payout_snapshot_entry db' = payout_snapshot_entry db
       @ map (entryRow (sv_decimalOf env) (nextSnapshotId db)) (limitedEntries cfg env (snapshotInput cfg input window db))"
    "distinct (map pde_address (limitedEntries cfg env (snapshotInput cfg input window db)))"
    "includedOf (limitedEntries cfg env (snapshotInput cfg input window db)) \<noteq> []"
    "payout_balance db' = payout_balance db" "payout_history db' = payout_history db"
    "find (\<lambda>s. ss_id s = nextSnapshotId db \<and> ss_payoutMode s = pplns) (payout_snapshot db') = Some (st_row snapshot)"
    "ss_coinbaseValueSats (st_row snapshot) = si_coinbaseValueSats input" "0 < si_coinbaseValueSats input"
proof -
  let ?i = "nextSnapshotId db"
  have old: "ss_id (st_row found) < ?i" if "getSnapshotById db j = Some found" for j found
  proof -
    from that have "find (\<lambda>s. ss_id s = j \<and> ss_payoutMode s = pplns) (payout_snapshot db) = Some (st_row found)"
      by (auto simp: getSnapshotById_def)
    then have "st_row found \<in> set (payout_snapshot db)" by (auto simp: find_Some_iff)
    then show ?thesis using ok by (simp add: tables_ok_def list_all_iff)
  qed
  from made fresh obtain factor window where positive: "0 < si_coinbaseValueSats input"
    and run: "snapshotForWindow cfg env input factor window db = Inr (Some snapshot, db')"
    using old by (fastforce simp: createSnapshotForTemplate_def getExistingSnapshot_def Let_def
        split: if_splits option.splits sum.splits Option.bind_splits)
  let ?dist = "snapshotInput cfg input window db"
  let ?es = "limitedEntries cfg env ?dist"
  let ?row = "snapshotRow cfg env input factor window
      (buildPayoutDistribution (sv_addressType env) (sv_localeCompare env) ?dist) ?es ?i"
  from run obtain rows where some: "includedOf ?es \<noteq> []"
    and rows: "insertSnapshotEntries (sv_decimalOf env) ?i ?es (payout_snapshot_entry db) = Inr rows"
    and db': "db' = db\<lparr>payout_snapshot := payout_snapshot db @ [?row], payout_snapshot_entry := rows, nextSnapshotId := ?i + 1\<rparr>"
    and got: "getSnapshotById db' ?i = Some snapshot"
    by (auto simp: snapshotForWindow_def limitedEntries_def snapshotInput_def rbind_Inr_iff Let_def split: if_splits)
  have "find (\<lambda>s. ss_id s = ?i \<and> ss_payoutMode s = pplns) (payout_snapshot db) = None"
    using ok by (auto simp: find_None_iff tables_ok_def list_all_iff)
  moreover have "find P (xs @ [x]) = (if P x then Some x else None)" if "find P xs = None" for P xs and x :: SnapshotRow
    using that by (induction xs) (auto split: if_splits)
  moreover have "ss_id ?row = ?i" "ss_payoutMode ?row = pplns" "ss_coinbaseValueSats ?row = si_coinbaseValueSats input"
    by (simp_all add: snapshotRow_def Let_def)
  ultimately have found: "find (\<lambda>s. ss_id s = ?i \<and> ss_payoutMode s = pplns) (payout_snapshot db') = Some ?row"
    by (simp add: db')
  with got have "st_row snapshot = ?row" by (auto simp: getSnapshotById_def)
  with insertSnapshotEntries_spec [OF rows] some db' got found positive \<open>ss_coinbaseValueSats ?row = _\<close>
  show thesis by (intro that [of window]) simp_all
qed

section \<open>The entries of a snapshot\<close>

lemma length_getAddressWork: "length (getAddressWork first final batches summaries) \<le> length summaries"
proof -
  let ?rows = "windowSummaries first final batches summaries"
  have "set (map rs_address ?rows) \<subseteq> rs_address ` set summaries" by (auto simp: windowSummaries_def)
  then have "card (set (map rs_address ?rows)) \<le> card (rs_address ` set summaries)" by (rule card_mono [rotated]) simp
  also have "\<dots> \<le> length summaries" using card_image_le [of "set summaries" rs_address] card_length [of summaries] by simp
  finally have "length (remdups (map rs_address ?rows)) \<le> length summaries" by (simp add: length_remdups_card_conv)
  then show ?thesis unfolding getAddressWork_def Let_def length_map by (rule order_trans [OF length_filter_le])
qed

definition sane_snapshot :: "SnapshotConfig \<Rightarrow> SnapshotInput \<Rightarrow> PayoutTables \<Rightarrow> bool" where
  "sane_snapshot cfg input db \<longleftrightarrow> snapshotFeePercent cfg \<le> 100
     \<and> splittable (si_coinbaseValueSats input)
          (length (share_rollup_batch_summary db) + length (payout_balance db))"

lemma sane_snapshot_input:
  assumes "sane_snapshot cfg input db" and "0 < si_coinbaseValueSats input"
  shows "sane_input (snapshotInput cfg input window db)" "coinbaseSats (snapshotInput cfg input window db) = si_coinbaseValueSats input"
proof -
  show c: "coinbaseSats (snapshotInput cfg input window db) = si_coinbaseValueSats input"
    using assms(2) by (simp add: coinbaseSats_def snapshotInput_def distributionInput_def)
  have "length (addressWork (snapshotInput cfg input window db)) \<le> length (share_rollup_batch_summary db)"
    by (simp add: snapshotInput_def distributionInput_def length_getAddressWork)
  moreover have "length (balances (snapshotInput cfg input window db)) \<le> length (payout_balance db)"
    by (simp add: snapshotInput_def distributionInput_def getOpenBalances_def length_filter_le)
  ultimately have few: "length (addressWork (snapshotInput cfg input window db)) + length (balances (snapshotInput cfg input window db))
      \<le> length (share_rollup_batch_summary db) + length (payout_balance db)" by (rule add_mono)
  have "splittable (si_coinbaseValueSats input) (length (share_rollup_batch_summary db) + length (payout_balance db))"
    using assms(1) by (simp add: sane_snapshot_def)
  from splittable_mono [OF this _ order_refl few] assms(2)
  have "splittable (si_coinbaseValueSats input) (length (addressWork (snapshotInput cfg input window db))
      + length (balances (snapshotInput cfg input window db)))" by simp
  then show "sane_input (snapshotInput cfg input window db)"
    using assms(1) c by (simp add: sane_input_def sane_snapshot_def snapshotInput_def distributionInput_def)
qed

text \<open>An entry without its rank.\<close>

lemma known_rank [simp]: "known_balance input (e\<lparr>pde_rank := n\<rparr>) = known_balance input e"
  by (simp add: known_balance_def sound_entry_def)

lemma settled_balance:
  assumes "list_all sound_entry es"
  shows "ledger_change es + paidOut es = sum_list (map (\<lambda>(_, _, before, after). after - before) (map settled es))"
proof -
  have "paidOut es = sum_list (map pde_payoutSats es)"
    using assms by (induction es) (auto simp: paidOut_def includedOf_def sound_entry_def)
  moreover have "ledger_change es + sum_list (map pde_payoutSats es)
      = sum_list (map (\<lambda>(_, _, before, after). after - before) (map settled es))"
    by (induction es) (simp_all add: ledger_change_def settled_def)
  ultimately show ?thesis by simp
qed

lemma entries_facts:
  assumes ok: "sane_input given" "has_payout given"
    and once: "distinct (map pde_address (entries (buildPayoutDistribution adrType lc given)))"
  defines "es \<equiv> entries (buildPayoutDistribution adrType lc given)"
  shows "list_all (known_balance given) es" "ledger_change es + paidOut es = coinbaseSats given"
    "paidOut es \<le> coinbaseSats given"
    "length (filter (\<lambda>e. 0 < pde_creditedDifficulty e) es) \<le> length (addressWork given) + length (balances given)"
proof -
  let ?m = "mergedEntriesOf adrType lc given"
  have es: "es = map (\<lambda>(i, e). e\<lparr>pde_rank := i + 1\<rparr>) (enumerate 0 ?m)"
    unfolding es_def by (rule build_eq(1) [OF ok(2)])
  have some: "collectWork (addressWork given) \<noteq> []" using ok(2) by (simp add: has_payout_def)
  have "map pde_address es = map pde_address ?m" unfolding es by (rule enumerate_map) simp
  with once have "distinct (map pde_address ?m)" unfolding es_def by simp
  from merged_known [OF ok this] show "list_all (known_balance given) es"
    unfolding es list_all_iff by (metis enumerate_ex known_rank)
  note m = merged_spec [OF ok, of adrType lc] and r = minerRows_ok [OF ok(1) some, of adrType lc] and k = ranked_spec [of ?m]
  have paid: "paidOut es = paid (minerRows adrType lc given) + feeSatsFor given"
    unfolding paidOut_def includedOf_def es k(3) by (rule m(2))
  show "ledger_change es + paidOut es = coinbaseSats given"
    unfolding paid unfolding es k(2) m(3) by (simp add: rewardSats_def)
  show "paidOut es \<le> coinbaseSats given" unfolding paid using r(3) by (simp add: rewardSats_def)
  have "map pde_creditedDifficulty es = map pde_creditedDifficulty ?m" unfolding es by (rule enumerate_map) simp
  then have "length (filter (\<lambda>e. 0 < pde_creditedDifficulty e) es) = length (filter (\<lambda>e. 0 < pde_creditedDifficulty e) ?m)"
    by (metis (no_types, lifting) filter_map length_map comp_apply filter_cong)
  also have "\<dots> \<le> length (minerEntriesOf lc (minerRows adrType lc given))" by (rule workers_merge)
  also have "\<dots> \<le> length (addressWork given) + length (balances given)" by (rule length_minerEntries [OF ok])
  finally show "length (filter (\<lambda>e. 0 < pde_creditedDifficulty e) es) \<le> length (addressWork given) + length (balances given)" .
qed

text \<open>The limit keeps the addresses, whatever the entries are.\<close>

lemma limit_addresses: "map pde_address (limitCoinbaseOutputs lc n es) = map pde_address es"
proof -
  have one: "map pde_address (es[p := addSats x (es ! p)]) = map pde_address es" for es p x
    by (cases "p < length es") (simp_all add: map_update_same addSats_def list_update_beyond)
  have "map pde_address (handOut r as es) = map pde_address es" for r as es
    by (induction r as es rule: handOut.induct) (simp_all add: one)
  moreover have "map pde_address (fst (limitEntries n es)) = map pde_address es" for n es
    by (induction n es rule: limitEntries.induct) (auto simp: postponed_def split: nat.split prod.split)
  ultimately show ?thesis by (auto simp: limitCoinbaseOutputs_def Let_def split: prod.split) (metis fst_conv)+
qed

lemma limited_facts:
  assumes sane: "sane_snapshot cfg input db" and pos: "0 < si_coinbaseValueSats input"
    and dist: "distinct (map fst (payout_balance db))"
    and some: "includedOf (limitedEntries cfg env (snapshotInput cfg input window db)) \<noteq> []"
    and once: "distinct (map pde_address (limitedEntries cfg env (snapshotInput cfg input window db)))"
  defines "es \<equiv> limitedEntries cfg env (snapshotInput cfg input window db)"
  shows "\<And>e. e \<in> set es \<Longrightarrow> pde_balanceBeforeSats e = balanceOf (payout_balance db) (pde_address e)"
    "list_all sound_entry es" "length (includedOf es) \<le> maxCoinbaseOutputs cfg"
    "ledger_change es + paidOut es = si_coinbaseValueSats input" "paidOut es \<le> si_coinbaseValueSats input"
proof -
  let ?given = "snapshotInput cfg input window db" and ?lc = "sv_localeCompare env"
  let ?all = "entries (buildPayoutDistribution (sv_addressType env) ?lc ?given)"
  have es: "es = limitCoinbaseOutputs ?lc (maxCoinbaseOutputs cfg) ?all" by (simp add: es_def limitedEntries_def)
  have "?all \<noteq> []"
  proof
    assume "?all = []"
    then have "es = []" by (simp add: es limitCoinbaseOutputs_def)
    with some show False by (simp add: es_def includedOf_def)
  qed
  have pay: "has_payout ?given"
  proof (rule ccontr)
    assume "\<not> has_payout ?given"
    from build_empty [OF this, of "sv_addressType env" ?lc] \<open>?all \<noteq> []\<close> show False by simp
  qed
  note s = sane_snapshot_input [OF sane pos, of window]
  have "distinct (map pde_address ?all)" using once by (simp add: limitedEntries_def limit_addresses)
  note e = entries_facts [OF s(1) pay this]
  have sound: "list_all sound_entry ?all" using e(1) by (simp add: list_all_iff known_balance_def)
  have paid: "0 \<le> paidOut ?all" unfolding paidOut_def
    using sound by (intro sum_list_nonneg) (auto simp: includedOf_def list_all_iff sound_entry_def)
  have "splittable (coinbaseSats ?given) (length (addressWork ?given) + length (balances ?given))"
    using s(1) by (simp add: sane_input_def)
  then have "splittable (paidOut ?all) (length (filter (\<lambda>e. 0 < pde_creditedDifficulty e) ?all))"
    using paid e(3,4) by (rule splittable_mono)
  note l = limitCoinbaseOutputs_spec [OF sound this, of ?lc "maxCoinbaseOutputs cfg", folded es]
  show "list_all sound_entry es" "length (includedOf es) \<le> maxCoinbaseOutputs cfg" by (rule l(3), rule l(2))
  show "ledger_change es + paidOut es = si_coinbaseValueSats input"
    using settled_balance [OF l(3)] settled_balance [OF sound] l(1) e(2) s(2) by simp
  show "paidOut es \<le> si_coinbaseValueSats input" using l(4) e(3) s(2) by simp
  show "pde_balanceBeforeSats x = balanceOf (payout_balance db) (pde_address x)" if "x \<in> set es" for x
  proof -
    have "settled x \<in> set (map settled ?all)" using that l(1) by (metis image_eqI list.set_map)
    then obtain y where "known_balance ?given y" "pde_address x = pde_address y"
      "pde_balanceBeforeSats x = pde_balanceBeforeSats y" using e(1) by (auto simp: settled_def list_all_iff)
    then show ?thesis using collect_open [OF dist, of "pde_address y"]
      by (simp add: known_balance_def snapshotInput_def distributionInput_def)
  qed
qed

section \<open>One block\<close>

lemma sum_of_mset:
  fixes f :: "'a \<Rightarrow> int"
  shows "mset xs = mset ys \<Longrightarrow> sum_list (map f xs) = sum_list (map f ys)"
  by (metis mset_map sum_mset_sum_list)

lemma entryRow_sel [simp]:
  "sn_snapshotId (entryRow dec i e) = i" "sn_payoutMode (entryRow dec i e) = pplns"
  "sn_address (entryRow dec i e) = pde_address e" "sn_payoutSats (entryRow dec i e) = pde_payoutSats e"
  "sn_balanceAfterSats (entryRow dec i e) = pde_balanceAfterSats e"
  "sn_includedInCoinbase (entryRow dec i e) = pde_includedInCoinbase e"
  by (simp_all add: entryRow_def)

lemma snapshot_rows:
  assumes "payout_snapshot_entry db' = payout_snapshot_entry db @ map (entryRow dec i) es"
    and "list_all (\<lambda>e. sn_snapshotId e < i) (payout_snapshot_entry db)"
  shows "filter (\<lambda>e. sn_snapshotId e = i \<and> sn_payoutMode e = pplns) (payout_snapshot_entry db') = map (entryRow dec i) es"
    "filter (\<lambda>e. sn_snapshotId e = i \<and> sn_payoutMode e = pplns \<and> sn_includedInCoinbase e) (payout_snapshot_entry db')
       = map (entryRow dec i) (includedOf es)"
proof -
  have old: "filter (\<lambda>e. sn_snapshotId e = i \<and> P e) (payout_snapshot_entry db) = []" for P
    using assms(2) by (auto simp: filter_empty_conv list_all_iff)
  show "filter (\<lambda>e. sn_snapshotId e = i \<and> sn_payoutMode e = pplns) (payout_snapshot_entry db') = map (entryRow dec i) es"
    using old by (simp add: assms(1) filter_map comp_def)
  show "filter (\<lambda>e. sn_snapshotId e = i \<and> sn_payoutMode e = pplns \<and> sn_includedInCoinbase e) (payout_snapshot_entry db')
       = map (entryRow dec i) (includedOf es)"
    using old by (simp add: assms(1) filter_map comp_def includedOf_def)
qed

lemma finalized_run:
  assumes "finalizeSnapshotForBlock cfg now conflict fin db = (Finalized i n m, db')" and "fi_payoutSnapshotId fin = Some i"
  shows "\<exists>cv. db' = finalizeEntries now fin i cv (snapshotEntries db i) db"
    "\<not> list_ex (\<lambda>h. ph_blockHeight h = fi_blockHeight fin \<and> ph_payoutMode h = pplns) (payout_history db)"
  using assms by (auto simp: finalizeSnapshotForBlock_def Let_def split: if_splits option.splits)


section \<open>A template and a block, concretely\<close>

definition fair_config :: SnapshotConfig where
  "fair_config = \<lparr>snapshotsEnabled = True, payoutMethod = jstr ''pplns'', windowFactor = 4, bootstrapWindow = True,
     maxCoinbaseOutputs = 2, minOutputSats = 1000, snapshotFeeAddress = [], snapshotFeePercent = 0,
     coinbaseWeightBudget = 50000\<rparr>"

definition fair_env :: SnapshotEnv where
  "fair_env = \<lparr>sv_addressType = (\<lambda>_. Some p2wpkh), sv_localeCompare = (\<lambda>_ _. 0), sv_decimalOf = (\<lambda>x. x)\<rparr>"

definition fair_summary :: "string \<Rightarrow> int \<Rightarrow> RollupSummary" where
  "fair_summary address n = \<lparr>rs_batchId = 1, rs_payoutMode = pplns, rs_address = address, rs_clientName = [],
     rs_protocol = ''sv2'', rs_blockHeight = 99, rs_creditedDifficulty = 1000, rs_acceptedShareCount = n,
     rs_bestSubmissionDifficulty = 1000, rs_firstShareAt = 0, rs_lastShareAt = 0\<rparr>"

definition fair_tables :: PayoutTables where
  "fair_tables = \<lparr>accepted_share_entity = [], share_rollup_batch =
       [\<lparr>rb_id = 1, rb_startShareIndex = 1, rb_endShareIndex = 14, rb_payoutMode = pplns, rb_startAcceptedAt = 0,
         rb_endAcceptedAt = 0, rb_acceptedShareCount = 14, rb_creditedDifficulty = 2000, rb_finalized = True\<rparr>],
     share_rollup_batch_summary = [fair_summary ''alice'' 10, fair_summary ''bob'' 4], nextBatchId = 2,
     payout_snapshot = [], payout_snapshot_entry = [], payout_balance = [], payout_history = [], nextSnapshotId = 1\<rparr>"

definition fair_template :: SnapshotInput where
  "fair_template = \<lparr>si_blockHeight = 100, si_coinbaseValueSats = 300000000, si_networkDifficulty = 1000\<rparr>"

definition fair_block :: FinalizeInput where
  "fair_block = \<lparr>fi_payoutSnapshotId = Some 1, fi_blockHeight = 100, fi_blockSubmissionResult = None,
     fi_payoutMode = Some pplns\<rparr>"

definition fair_window :: PplnsWindow where
  "fair_window = \<lparr>pw_startBatchId = 1, pw_endBatchId = 1, pw_windowStartShareIndex = 1, pw_windowEndShareIndex = 14,
     pw_totalCreditedDifficulty = 2000, pw_totalAcceptedShareCount = 14\<rparr>"

lemma fair_windowed: "getPplnsWindow 1000 (share_rollup_batch fair_tables) = Some fair_window"
  by (simp add: getPplnsWindow_def selectedBatches_def newestFirst_def js_sort_def fair_tables_def sqlMin_def sqlMax_def
      fair_window_def Let_def)

lemma fair_work: "getAddressWork 1 14 (share_rollup_batch fair_tables) (share_rollup_batch_summary fair_tables)
    = addressWork even_input"
  by (simp add: getAddressWork_def windowSummaries_def addressDifficulty_def fair_tables_def fair_summary_def
      even_input_def Let_def fl_numeral)

lemma fair_rows: "minerRows (\<lambda>_. Some p2wpkh) (\<lambda>_ _. 0) (distributionInput fair_config fair_template (addressWork even_input) [])
    = minerRows (\<lambda>_. Some p2wpkh) (\<lambda>_ _. 0) even_input"
  "feeSatsFor (distributionInput fair_config fair_template (addressWork even_input) []) = 0"
proof -
  let ?given = "distributionInput fair_config fair_template (addressWork even_input) []"
  show fee: "feeSatsFor ?given = 0"
    by (simp add: feeSatsFor_def distributionInput_def fair_config_def js_trim_def Let_def)
  have sel: "addressWork ?given = addressWork even_input" "balances ?given = balances even_input"
    "in_coinbaseValueSats ?given = in_coinbaseValueSats even_input"
    "in_minOutputSats ?given = in_minOutputSats even_input"
    "in_coinbaseWeightBudget ?given = in_coinbaseWeightBudget even_input"
    by (simp_all add: distributionInput_def fair_config_def fair_template_def even_sel)
  show "minerRows (\<lambda>_. Some p2wpkh) (\<lambda>_ _. 0) ?given = minerRows (\<lambda>_. Some p2wpkh) (\<lambda>_ _. 0) even_input"
    unfolding minerRows_def sel fee even_fee Let_def by simp
qed

lemma fair_entries:
  "\<exists>a b. entries (buildPayoutDistribution (\<lambda>_. Some p2wpkh) (\<lambda>_ _. 0)
       (distributionInput fair_config fair_template (addressWork even_input) [])) = [a, b]
     \<and> pde_address a = ''alice'' \<and> pde_address b = ''bob'' \<and> pde_includedInCoinbase a \<and> pde_includedInCoinbase b"
proof -
  let ?given = "distributionInput fair_config fair_template (addressWork even_input) []"
  have hp: "has_payout ?given"
    unfolding has_payout_def coinbaseSats_def
    by (simp add: distributionInput_def fair_template_def even_work)
  show ?thesis unfolding build_eq(1) [OF hp]
    by (simp add: mergedEntriesOf_def minerEntriesOf_def fair_rows even_rows)
      (simp add: even_row_def js_sort_def entryBefore_def payoutBefore_def entryOfRow_def)
qed

lemma fair_run:
  "\<exists>snapshot db' db'' n m. createSnapshotForTemplate fair_config fair_env fair_template fair_tables = (Inr (Some snapshot), db')
     \<and> ss_id (st_row snapshot) = 1 \<and> finalizeSnapshotForBlock fair_config 0 False fair_block db' = (Finalized 1 n m, db'')"
proof -
  let ?given = "distributionInput fair_config fair_template (addressWork even_input) []"
  let ?dist = "buildPayoutDistribution (\<lambda>_. Some p2wpkh) (\<lambda>_ _. 0) ?given"
  obtain a b where es: "entries ?dist = [a, b]" and ab: "pde_address a = ''alice''" "pde_address b = ''bob''"
    "pde_includedInCoinbase a" "pde_includedInCoinbase b" using fair_entries by blast
  have limited: "limitCoinbaseOutputs (\<lambda>_ _. 0) 2 [a, b] = [a, b]"
    using ab by (simp add: limitCoinbaseOutputs_def numeral_2_eq_2)
  let ?row = "snapshotRow fair_config fair_env fair_template 1 fair_window ?dist [a, b] 1"
  let ?db = "fair_tables\<lparr>payout_snapshot := [?row],
      payout_snapshot_entry := [entryRow (\<lambda>x. x) 1 a, entryRow (\<lambda>x. x) 1 b], nextSnapshotId := 2\<rparr>"
  have sel: "payout_balance fair_tables = []" "payout_snapshot_entry fair_tables = []" "payout_snapshot fair_tables = []"
    "nextSnapshotId fair_tables = 1" "payout_history fair_tables = []" by (simp_all add: fair_tables_def)
  have fair_cfg: "maxCoinbaseOutputs fair_config = 2" by (simp add: fair_config_def)
  have row: "ss_id ?row = 1" "ss_payoutMode ?row = pplns" by (simp_all add: snapshotRow_def Let_def)
  have work: "addressWork even_input \<noteq> []" by (simp add: even_input_def)
  obtain snapshot where got: "getSnapshotById ?db 1 = Some snapshot" "ss_id (st_row snapshot) = 1"
    using row by (simp add: getSnapshotById_def)
  have "snapshotForWindow fair_config fair_env fair_template 1 fair_window fair_tables = Inr (Some snapshot, ?db)"
    using es limited work ab got
    by (simp add: snapshotForWindow_def fair_window_def fair_work sel getOpenBalances_def fair_env_def includedOf_def
        fair_cfg Let_def)
  then have "createSnapshotForTemplate fair_config fair_env fair_template fair_tables = (Inr (Some snapshot), ?db)"
    using fair_windowed
    by (simp add: createSnapshotForTemplate_def fair_config_def fair_template_def fair_env_def sel
        getEffectiveWindowFactor_def getFinalizedPayoutBlockCount_def fair_window_def fl_numeral
        getExistingSnapshot_def sqlMax_def Let_def)
  moreover have "snapshotEntries ?db 1 \<noteq> []" by (simp add: snapshotEntries_def js_sort_def)
  then have "\<exists>n m db''. finalizeSnapshotForBlock fair_config 0 False fair_block ?db = (Finalized 1 n m, db'')"
    using row by (simp add: finalizeSnapshotForBlock_def fair_config_def fair_block_def coalesce_def sel
        ps_isSuccessfulBlockSubmission_def Let_def)
  ultimately show ?thesis using got(2) by blast
qed


end
