(* ===== verification/PayoutWindow.thy ===== *)
theory PayoutWindow
  imports ShareRollupCorrectness BlockLedger
begin

text \<open>
  What the payout window of a template holds: the newest batches, as few as reach the target, and for every
  address exactly what its stored shares between the two ends of the window are worth.
\<close>

section \<open>The newest batches\<close>

lemma js_sort_descending:
  "sorted_wrt (\<lambda>a b. before b a) xs \<Longrightarrow> js_sort before xs = rev xs"
proof (induction xs)
  case (Cons x xs)
  have "js_insort before x ys = ys @ [x]" if "\<forall>y \<in> set ys. before y x" for ys
    using that by (induction ys) auto
  then show ?case using Cons by (simp add: js_sort_def)
qed (simp add: js_sort_def)

lemma newestFirst_rev:
  assumes "rollup_ok db"
  shows "newestFirst (share_rollup_batch db) = rev (share_rollup_batch db)"
proof -
  note d = rollup_okD [OF assms]
  have "filter (\<lambda>b. rb_finalized b \<and> rb_payoutMode b = pplns) (share_rollup_batch db) = share_rollup_batch db"
    using d(1) by (simp add: filter_id_conv batch_ok_def)
  moreover have "sorted_wrt (\<lambda>a b. rb_endShareIndex a < rb_endShareIndex b) (share_rollup_batch db)"
    using d(2) by (rule sorted_wrt_mono_rel [rotated]) (use d(1) in \<open>fastforce simp: batch_ok_def\<close>)
  ultimately show ?thesis by (simp add: newestFirst_def js_sort_descending)
qed

definition batchWork :: "RollupBatch list \<Rightarrow> rat" where
  "batchWork bs = sum_list (map rb_creditedDifficulty bs)"

text \<open>The difficulty after a batch only grows, so that the selected batches are a beginning of the list.\<close>

lemma selected_prefix:
  assumes "list_all (\<lambda>b. 0 \<le> rb_creditedDifficulty b) bs"
  shows "\<exists>k. map fst (filter (\<lambda>(b, after). after < target) (withDifficultyAfter a bs)) = take k bs \<and> k \<le> length bs
     \<and> (k < length bs \<longrightarrow> target \<le> a + batchWork (take k bs))
     \<and> (0 < k \<longrightarrow> a + batchWork (take (k - 1) bs) < target)"
  using assms
proof (induction bs arbitrary: a)
  case (Cons b bs)
  show ?case
  proof (cases "a < target")
    case True
    from Cons obtain k where k: "map fst (filter (\<lambda>(b, after). after < target)
          (withDifficultyAfter (a + rb_creditedDifficulty b) bs)) = take k bs" "k \<le> length bs"
      "k < length bs \<longrightarrow> target \<le> a + rb_creditedDifficulty b + batchWork (take k bs)"
      "0 < k \<longrightarrow> a + rb_creditedDifficulty b + batchWork (take (k - 1) bs) < target" by auto
    then show ?thesis using True
      by (intro exI [of _ "Suc k"]) (cases k; auto simp: batchWork_def add.assoc)
  next
    case False
    have "after \<ge> a" if "(b', after) \<in> set (withDifficultyAfter a bs')" "list_all (\<lambda>b. 0 \<le> rb_creditedDifficulty b) bs'"
      for a b' after bs'
      using that by (induction bs' arbitrary: a) fastforce+
    then have "filter (\<lambda>(b, after). after < target) (withDifficultyAfter a (b # bs)) = []"
      using False Cons.prems by (fastforce simp: filter_empty_conv)
    then show ?thesis using False by (intro exI [of _ 0]) (simp add: batchWork_def)
  qed
qed (simp add: batchWork_def)

section \<open>The shares of consecutive batches\<close>

text \<open>A sum over the shares between two indexes is the sum over the batches that cover them.\<close>

definition tiles :: "RollupBatch list \<Rightarrow> int \<Rightarrow> int \<Rightarrow> ShareRow list \<Rightarrow> bool" where
  "tiles bs first final rows \<longleftrightarrow> (\<forall>r \<in> set rows. se_payoutMode (sr_share r) = pplns \<longrightarrow>
     length (filter (covers r) bs) = (if first \<le> sr_shareIndex r \<and> sr_shareIndex r \<le> final then 1 else 0))"

lemma sum_over_tiles:
  fixes g :: "AcceptedShareEntity \<Rightarrow> rat"
  assumes "tiles bs first final rows"
  shows "sum_list (map (\<lambda>b. sum_list (map g (rowsBetween (rb_startShareIndex b) (rb_endShareIndex b) rows))) bs)
     = sum_list (map g (rowsBetween first final rows))"
  using assms
proof (induction rows)
  case Nil
  show ?case by (simp add: rowsBetween_def)
next
  case (Cons r rows)
  have one: "sum_list (map g (rowsBetween s e (r # rows)))
      = (if s \<le> sr_shareIndex r \<and> sr_shareIndex r \<le> e \<and> se_payoutMode (sr_share r) = pplns then g (sr_share r) else 0)
        + sum_list (map g (rowsBetween s e rows))" for s e
    by (simp add: rowsBetween_def)
  have here: "sum_list (map (\<lambda>b. if rb_startShareIndex b \<le> sr_shareIndex r \<and> sr_shareIndex r \<le> rb_endShareIndex b
         \<and> se_payoutMode (sr_share r) = pplns then g (sr_share r) else 0) bs)
      = (if first \<le> sr_shareIndex r \<and> sr_shareIndex r \<le> final \<and> se_payoutMode (sr_share r) = pplns
         then g (sr_share r) else 0)" (is "?sum = _")
  proof (cases "se_payoutMode (sr_share r) = pplns")
    case True
    then have "?sum = of_nat (length (filter (covers r) bs)) * g (sr_share r)"
      by (induction bs) (simp_all add: covers_def algebra_simps)
    with Cons.prems True show ?thesis by (simp add: tiles_def)
  qed (simp add: sum_list_0)
  have "tiles bs first final rows" using Cons.prems by (simp add: tiles_def)
  from Cons.IH [OF this] show ?case unfolding one sum_list_addf here by simp
qed

lemma tiles_suffix:
  assumes ok: "rollup_ok db" and split: "share_rollup_batch db = old @ b # new"
  shows "tiles (b # new) (rb_startShareIndex b) (lastProcessedShareIndex (share_rollup_batch db)) (accepted_share_entity db)"
    and "tiles new (rb_endShareIndex b + 1) (lastProcessedShareIndex (share_rollup_batch db)) (accepted_share_entity db)"
proof -
  let ?l = "lastProcessedShareIndex (share_rollup_batch db)"
  note d = rollup_okD [OF ok]
  have le: "rb_startShareIndex c \<le> rb_endShareIndex c" "rb_endShareIndex c \<le> ?l" if "c \<in> set (share_rollup_batch db)" for c
    using d(1) [OF that] batch_end_le [OF ok that] by (simp_all add: batch_ok_def)
  have sw: "sorted_wrt (\<lambda>a b. rb_endShareIndex a < rb_startShareIndex b \<and> rb_id a < rb_id b) (old @ b # new)"
    using d(2) split by simp
  have once: "length (filter (covers r) (old @ b # new)) = (if sr_shareIndex r \<le> ?l then 1 else 0)"
    if r: "r \<in> set (accepted_share_entity db)" "se_payoutMode (sr_share r) = pplns" for r
  proof (cases "sr_shareIndex r \<le> ?l")
    case True
    from d(5) [OF r True] have "filter (covers r) (old @ b # new) \<noteq> []" unfolding split by (metis filter_empty_conv)
    moreover have "length (filter (covers r) (old @ b # new)) \<le> 1"
      using one_batch_covers [OF sw] le split by auto
    ultimately have "length (filter (covers r) (old @ b # new)) = 1"
      by (metis One_nat_def Suc_leI le_antisym length_greater_0_conv)
    with True show ?thesis by simp
  next
    case False
    then have "filter (covers r) (old @ b # new) = []" using le split by (force simp: filter_empty_conv covers_def)
    then show ?thesis using False by (metis list.size(3))
  qed
  have before: "rb_endShareIndex c < rb_startShareIndex b" if "c \<in> set old" for c
    using sw that by (auto simp: sorted_wrt_append)
  have after: "rb_endShareIndex b < rb_startShareIndex c" if "c \<in> set new" for c
    using sw that by (auto simp: sorted_wrt_append)
  have b: "rb_startShareIndex b \<le> rb_endShareIndex b" "rb_endShareIndex b \<le> ?l" using le [of b] split by auto
  show "tiles (b # new) (rb_startShareIndex b) ?l (accepted_share_entity db)"
    unfolding tiles_def
  proof (intro ballI impI)
    fix r assume r: "r \<in> set (accepted_share_entity db)" "se_payoutMode (sr_share r) = pplns"
    show "length (filter (covers r) (b # new))
      = (if rb_startShareIndex b \<le> sr_shareIndex r \<and> sr_shareIndex r \<le> ?l then 1 else 0)"
    proof (cases "rb_startShareIndex b \<le> sr_shareIndex r")
      case True
      then have "filter (covers r) old = []" using before by (force simp: filter_empty_conv covers_def)
      with once [OF r] True show ?thesis by simp
    next
      case False
      then have "filter (covers r) (b # new) = []" using after b le split by (force simp: filter_empty_conv covers_def)
      with False show ?thesis by (metis list.size(3))
    qed
  qed
  show "tiles new (rb_endShareIndex b + 1) ?l (accepted_share_entity db)"
    unfolding tiles_def
  proof (intro ballI impI)
    fix r assume r: "r \<in> set (accepted_share_entity db)" "se_payoutMode (sr_share r) = pplns"
    show "length (filter (covers r) new)
      = (if rb_endShareIndex b + 1 \<le> sr_shareIndex r \<and> sr_shareIndex r \<le> ?l then 1 else 0)"
    proof (cases "rb_endShareIndex b + 1 \<le> sr_shareIndex r")
      case True
      then have "filter (covers r) old = []" "\<not> covers r b"
        using before b by (force simp: filter_empty_conv covers_def)+
      with once [OF r] True show ?thesis by simp
    next
      case False
      then have "filter (covers r) new = []" using after by (force simp: filter_empty_conv covers_def)
      with False show ?thesis by simp
    qed
  qed
qed

section \<open>The work of an address\<close>

lemma sum_join:
  fixes h :: "'a \<Rightarrow> rat"
  shows "sum_list (map h (concat (map (\<lambda>s. map (\<lambda>_. s) (filter (\<lambda>c. k c = i s) cs)) ss)))
     = sum_list (map (\<lambda>c. sum_list (map h (filter (\<lambda>s. i s = k c) ss))) cs)"
proof (induction ss)
  case (Cons s ss)
  have "sum_list (map (h \<circ> (\<lambda>_. s)) (filter (\<lambda>c. k c = i s) cs)) = sum_list (map (\<lambda>c. if i s = k c then h s else 0) cs)"
    by (induction cs) auto
  moreover have "(if i s = k c then h s + x else x) = (if i s = k c then h s else 0) + x" for c x by simp
  ultimately show ?case using Cons
    by (simp add: if_distrib [of "map h"] if_distrib [of sum_list] sum_list_addf cong: if_cong)
qed simp

lemma addressDifficulty_window:
  assumes ok: "rollup_ok db" and split: "share_rollup_batch db = old @ b # new"
  defines "final \<equiv> lastProcessedShareIndex (share_rollup_batch db)"
  shows "addressDifficulty (windowSummaries (rb_startShareIndex b) final (share_rollup_batch db)
       (share_rollup_batch_summary db)) a
     = workBetween a (rb_startShareIndex b) final (accepted_share_entity db)"
proof -
  note d = rollup_okD [OF ok]
  let ?summaries = "share_rollup_batch_summary db" and ?rows = "accepted_share_entity db"
  let ?in = "\<lambda>c. rb_finalized c \<and> rb_payoutMode c = pplns \<and> rb_endShareIndex c \<ge> rb_startShareIndex b \<and> rb_endShareIndex c \<le> final"
  have "filter ?in old = []" using d(2) unfolding split by (force simp: filter_empty_conv sorted_wrt_append)
  moreover have "?in c" if "c \<in> set (b # new)" for c
  proof -
    have "c \<in> set (share_rollup_batch db)" using that split by auto
    from d(1) [OF this] batch_end_le [OF ok this] have c: "batch_ok db c" "rb_endShareIndex c \<le> final" by (simp_all add: final_def)
    have "rb_startShareIndex b \<le> rb_endShareIndex b" using d(1) [of b] split by (simp add: batch_ok_def)
    moreover have "c = b \<or> rb_endShareIndex b < rb_startShareIndex c" using d(2) that unfolding split by (auto simp: sorted_wrt_append)
    ultimately show ?thesis using c by (auto simp: batch_ok_def)
  qed
  ultimately have window: "filter ?in (share_rollup_batch db) = b # new" unfolding split by (simp add: filter_id_conv)
  have "filter (\<lambda>c. rb_id c = rs_batchId s \<and> rb_finalized c \<and> rb_payoutMode c = pplns \<and> rs_payoutMode s = pplns
      \<and> rb_endShareIndex c \<ge> rb_startShareIndex b \<and> rb_endShareIndex c \<le> final) (share_rollup_batch db)
      = filter (\<lambda>c. rb_id c = rs_batchId s) (b # new)" if "s \<in> set ?summaries" for s
    unfolding window [symmetric] filter_filter using d(3) [OF that] by (intro filter_cong) auto
  then have joined: "windowSummaries (rb_startShareIndex b) final (share_rollup_batch db) ?summaries
      = concat (map (\<lambda>s. map (\<lambda>_. s) (filter (\<lambda>c. rb_id c = rs_batchId s) (b # new))) ?summaries)"
    unfolding windowSummaries_def by (intro arg_cong [of _ _ concat] map_cong refl) presburger
  let ?h = "\<lambda>s. if rs_address s = a then rs_creditedDifficulty s else 0"
  let ?g = "\<lambda>s. if se_address s = a then se_creditedDifficulty s else 0"
  have per: "sum_list (map ?h (filter (\<lambda>s. rs_batchId s = rb_id c) ?summaries))
      = sum_list (map ?g (rowsBetween (rb_startShareIndex c) (rb_endShareIndex c) ?rows))" if "c \<in> set (b # new)" for c
  proof -
    have "sum_list (map ?h (filter (\<lambda>s. rs_batchId s = rb_id c) ?summaries)) = summarizedWork (\<lambda>s. rs_batchId s = rb_id c) a ?summaries"
      unfolding summarizedWork_def filter_filter [symmetric] sum_list_map_filter' [of _ "\<lambda>s. rs_address s = a"]
      by (simp only: filter_filter conj_commute)
    also have "\<dots> = workBetween a (rb_startShareIndex c) (rb_endShareIndex c) ?rows"
      using d(1) [of c] that split by (auto simp: batch_ok_def)
    finally show ?thesis by (simp add: workBetween_def sum_list_map_filter')
  qed
  have "addressDifficulty (windowSummaries (rb_startShareIndex b) final (share_rollup_batch db) ?summaries) a
      = sum_list (map (\<lambda>c. sum_list (map ?h (filter (\<lambda>s. rs_batchId s = rb_id c) ?summaries))) (b # new))"
    unfolding addressDifficulty_def joined sum_list_map_filter' [where P = "\<lambda>s. rs_address s = a"] by (rule sum_join)
  also have "\<dots> = sum_list (map (\<lambda>c. sum_list (map ?g (rowsBetween (rb_startShareIndex c) (rb_endShareIndex c) ?rows))) (b # new))"
    by (rule arg_cong [of _ _ sum_list, OF map_cong [OF refl per]])
  also have "\<dots> = sum_list (map ?g (rowsBetween (rb_startShareIndex b) final ?rows))"
    unfolding final_def by (rule sum_over_tiles [OF tiles_suffix(1) [OF ok split]])
  finally show ?thesis by (simp add: workBetween_def sum_list_map_filter')
qed

text \<open>The members of a window, and the work it is divided by.\<close>

lemma getPplnsWindow_split:
  assumes ok: "rollup_ok db" and pos: "list_all (\<lambda>r. 0 \<le> se_creditedDifficulty (sr_share r)) (accepted_share_entity db)"
    and win: "getPplnsWindow target (share_rollup_batch db) = Some w"
  obtains old b new where "share_rollup_batch db = old @ b # new"
    "pw_windowStartShareIndex w = rb_startShareIndex b"
    "pw_windowEndShareIndex w = lastProcessedShareIndex (share_rollup_batch db)"
    "pw_totalCreditedDifficulty w = batchWork (b # new)"
    "pw_totalAcceptedShareCount w = sum_list (map rb_acceptedShareCount (b # new))"
    "batchWork new < target" "old = [] \<or> target \<le> batchWork (b # new)"
proof -
  note d = rollup_okD [OF ok]
  let ?bs = "share_rollup_batch db"
  have "0 \<le> rb_creditedDifficulty b" if "b \<in> set ?bs" for b
    using d(1) [OF that] pos by (auto simp: batch_ok_def rowsBetween_def list_all_iff intro!: sum_list_nonneg)
  then have "list_all (\<lambda>b. 0 \<le> rb_creditedDifficulty b) (rev ?bs)" by (simp add: list_all_iff)
  from selected_prefix [OF this, of target 0] obtain k where
    sel: "selectedBatches target ?bs = take k (rev ?bs)" and k: "k \<le> length ?bs"
      "k < length ?bs \<longrightarrow> target \<le> batchWork (take k (rev ?bs))" "0 < k \<longrightarrow> batchWork (take (k - 1) (rev ?bs)) < target"
    by (auto simp: selectedBatches_def newestFirst_rev [OF ok])
  have "k \<noteq> 0"
  proof
    assume "k = 0"
    then have "selectedBatches target ?bs = []" using sel by simp
    then show False using win by (simp add: getPplnsWindow_def sqlMin_def)
  qed
  define n where "n = length ?bs - k"
  have n: "n < length ?bs" using \<open>k \<noteq> 0\<close> k(1) by (simp add: n_def)
  define old b new where "old = take n ?bs" and "b = ?bs ! n" and "new = drop (Suc n) ?bs"
  have split: "?bs = old @ b # new" unfolding old_def b_def new_def by (rule id_take_nth_drop [OF n])
  have taken: "take k (rev ?bs) = rev (b # new)"
    using n k(1) by (simp add: take_rev n_def [symmetric] b_def new_def Cons_nth_drop_Suc)
  have fewer: "take (k - 1) (rev ?bs) = rev new"
    using n k(1) \<open>k \<noteq> 0\<close> by (simp add: take_rev n_def new_def Suc_diff_le)
  have work: "batchWork (rev xs) = batchWork xs" for xs by (simp add: batchWork_def rev_map [symmetric])
  have starts: "rb_startShareIndex b \<le> rb_startShareIndex c" if "c \<in> set (b # new)" for c
    using that d(2) d(1) [of b] unfolding split by (fastforce simp: sorted_wrt_append batch_ok_def)
  have "Min (set (map rb_startShareIndex (rev (b # new)))) = rb_startShareIndex b"
    using starts by (intro Min_eqI) auto
  moreover have "Max (set (map rb_endShareIndex (rev (b # new)))) = lastProcessedShareIndex ?bs"
  proof (intro Max_eqI)
    show "e \<le> lastProcessedShareIndex ?bs" if "e \<in> set (map rb_endShareIndex (rev (b # new)))" for e
      using that batch_end_le [OF ok] split by auto
    have pos: "0 < lastProcessedShareIndex ?bs"
      using batch_end_le [OF ok, of b] d(1) [of b] split by (simp add: batch_ok_def)
    from lastProcessed_attained [of ?bs] pos obtain c where c: "c \<in> set ?bs" "rb_endShareIndex c = lastProcessedShareIndex ?bs" by auto
    have "c \<notin> set old"
    proof
      assume "c \<in> set old"
      then have "rb_endShareIndex c < rb_startShareIndex b" using d(2) unfolding split by (auto simp: sorted_wrt_append)
      with c(2) batch_end_le [OF ok, of b] d(1) [of b] split show False by (simp add: batch_ok_def)
    qed
    with c show "lastProcessedShareIndex ?bs \<in> set (map rb_endShareIndex (rev (b # new)))" unfolding split by force
  qed simp
  ultimately have "pw_windowStartShareIndex w = rb_startShareIndex b" "pw_windowEndShareIndex w = lastProcessedShareIndex ?bs"
    "pw_totalCreditedDifficulty w = batchWork (b # new)"
    "pw_totalAcceptedShareCount w = sum_list (map rb_acceptedShareCount (b # new))"
    using win work [of "b # new"]
    by (auto simp: getPplnsWindow_def sel taken sqlMin_Min sqlMax_Max batchWork_def rev_map [symmetric] Let_def
        simp del: set_map rev.simps)
  moreover have "batchWork new < target" using k(3) \<open>k \<noteq> 0\<close> work fewer by simp
  moreover have "old = [] \<or> target \<le> batchWork (b # new)"
    using k(2) work [of "b # new"] taken by (cases "k < length ?bs") (simp_all add: old_def n_def)
  ultimately show ?thesis by (intro that [OF split])
qed

lemma addressDifficulty_pos: "0 < addressDifficulty ss a \<Longrightarrow> a \<in> rs_address ` set ss"
proof (rule ccontr)
  assume "0 < addressDifficulty ss a" and "a \<notin> rs_address ` set ss"
  moreover from this(2) have "filter (\<lambda>s. rs_address s = a) ss = []" by (auto simp: filter_empty_conv)
  ultimately show False by (simp add: addressDifficulty_def)
qed

lemma getAddressWork_addresses:
  "set (map paw_address (getAddressWork first final batches summaries))
     = {a. 0 < addressDifficulty (windowSummaries first final batches summaries) a}"
  using addressDifficulty_pos by (force simp: getAddressWork_def Let_def)

definition sharesWork :: "AcceptedShareEntity list \<Rightarrow> rat" where
  "sharesWork shares = sum_list (map se_creditedDifficulty shares)"

lemma suffix_work:
  assumes ok: "rollup_ok db" and bs: "set bs \<subseteq> set (share_rollup_batch db)"
    and tiles: "tiles bs first final (accepted_share_entity db)"
  shows "batchWork bs = sharesWork (rowsBetween first final (accepted_share_entity db))"
    and "sum_list (map rb_acceptedShareCount bs) = int (length (rowsBetween first final (accepted_share_entity db)))"
proof -
  have b: "batch_ok db b" if "b \<in> set bs" for b using rollup_okD(1) [OF ok] bs that by blast
  have "map rb_creditedDifficulty bs = map (\<lambda>b. sum_list (map se_creditedDifficulty
      (rowsBetween (rb_startShareIndex b) (rb_endShareIndex b) (accepted_share_entity db)))) bs"
    using b by (simp add: batch_ok_def)
  then show "batchWork bs = sharesWork (rowsBetween first final (accepted_share_entity db))"
    unfolding batchWork_def sharesWork_def by (simp only: sum_over_tiles [OF tiles])
  have "map (\<lambda>b. of_int (rb_acceptedShareCount b)) bs = map (\<lambda>b. sum_list (map (\<lambda>_. 1 :: rat)
      (rowsBetween (rb_startShareIndex b) (rb_endShareIndex b) (accepted_share_entity db)))) bs"
    using b by (simp add: batch_ok_def sum_list_triv)
  then have "sum_list (map (\<lambda>b. of_int (rb_acceptedShareCount b) :: rat) bs)
      = of_nat (length (rowsBetween first final (accepted_share_entity db)))"
    by (simp only: sum_over_tiles [OF tiles]) (simp add: sum_list_triv)
  moreover have "sum_list (map (\<lambda>b. of_int (rb_acceptedShareCount b) :: rat) bs) = of_int (sum_list (map rb_acceptedShareCount bs))"
    by (induction bs) simp_all
  ultimately show "sum_list (map rb_acceptedShareCount bs) = int (length (rowsBetween first final (accepted_share_entity db)))"
    by (metis of_int_eq_iff of_int_of_nat_eq)
qed


section \<open>A window, concretely\<close>

text \<open>Four shares in two batches: the newest batch reaches the target on its own.\<close>

definition windowed_tables :: RollupTables where
  "windowed_tables = snd (processPendingShareRollupBatch demo_cfg 20000 True (store (demo_row 4) demo_tables))"

lemma windowed_tables_history: "rollup_history windowed_tables"
  unfolding windowed_tables_def
  by (intro rollup_history.rolled stored' demo_tables_history) code_simp


end
