(* ===== verification/LedgerHistory.thy ===== *)
theory LedgerHistory
  imports BlockLedger
begin

text \<open>
  The ledger over any history of templates, blocks and shares: a height is paid once, from one snapshot, with the
  amounts of that snapshot, and what an address was paid in all is the sum of its rows in the history.
\<close>

section \<open>One step\<close>

lemma create_cases:
  obtains (same) "snd (createSnapshotForTemplate cfg env input db) = db"
  | (made) row es where
      "snd (createSnapshotForTemplate cfg env input db) = db\<lparr>payout_snapshot := payout_snapshot db @ [row],
         payout_snapshot_entry := payout_snapshot_entry db @ map (entryRow (sv_decimalOf env) (nextSnapshotId db)) es,
         nextSnapshotId := nextSnapshotId db + 1\<rparr>"
      "ss_id row = nextSnapshotId db" "distinct (map pde_address es)"
proof (cases "snd (createSnapshotForTemplate cfg env input db) = db")
  case False
  then obtain factor window snapshot db' where
    "snapshotForWindow cfg env input factor window db = Inr (snapshot, db')" "db' \<noteq> db"
    and snd: "snd (createSnapshotForTemplate cfg env input db) = db'"
    by (auto simp: createSnapshotForTemplate_def Let_def split: if_splits option.splits sum.splits)
  define es where "es = limitedEntries cfg env (snapshotInput cfg input window db)"
  define row where "row = snapshotRow cfg env input factor window
    (buildPayoutDistribution (sv_addressType env) (sv_localeCompare env) (snapshotInput cfg input window db)) es (nextSnapshotId db)"
  from \<open>snapshotForWindow cfg env input factor window db = _\<close> \<open>db' \<noteq> db\<close> obtain rows where
    rows: "insertSnapshotEntries (sv_decimalOf env) (nextSnapshotId db) es (payout_snapshot_entry db) = Inr rows"
    and db': "db' = db\<lparr>payout_snapshot := payout_snapshot db @ [row],
        payout_snapshot_entry := rows, nextSnapshotId := nextSnapshotId db + 1\<rparr>"
    by (auto simp: snapshotForWindow_def limitedEntries_def snapshotInput_def es_def row_def rbind_Inr_iff Let_def split: if_splits)
  have "ss_id row = nextSnapshotId db" by (simp add: row_def snapshotRow_def Let_def)
  with insertSnapshotEntries_spec [OF rows] db' snd show thesis by (intro made [where row = row and es = es]) simp_all
qed (rule same)

lemma finalize_cases:
  obtains (same) "snd (finalizeSnapshotForBlock cfg now conflict fi db) = db"
  | (paid) i cv where
      "snd (finalizeSnapshotForBlock cfg now conflict fi db) = finalizeEntries now fi i cv (snapshotEntries db i) db"
      "\<not> list_ex (\<lambda>h. ph_blockHeight h = fi_blockHeight fi \<and> ph_payoutMode h = pplns) (payout_history db)"
proof (cases "snd (finalizeSnapshotForBlock cfg now conflict fi db) = db")
  case False
  then have "\<not> list_ex (\<lambda>h. ph_blockHeight h = fi_blockHeight fi \<and> ph_payoutMode h = pplns) (payout_history db)
    \<and> (\<exists>i cv. snd (finalizeSnapshotForBlock cfg now conflict fi db) = finalizeEntries now fi i cv (snapshotEntries db i) db)"
    by (auto simp: finalizeSnapshotForBlock_def Let_def split: if_splits option.splits)
  then show thesis using paid by blast
qed (rule same)

lemma finalizeEntries_history:
  assumes "distinct (map sn_address es)"
    and "\<And>h. h \<in> set (payout_history db) \<Longrightarrow> ph_blockHeight h = fi_blockHeight fi \<Longrightarrow> ph_payoutMode h = pplns \<Longrightarrow>
      ph_address h \<notin> sn_address ` set es"
  shows "payout_history (finalizeEntries now fi i cv es db) = payout_history db @ map (historyRow fi i cv) es"
  using assms
proof (induction es arbitrary: db)
  case (Cons e es)
  let ?db = "finalizeEntry now fi i cv e db"
  have row: "ph_payoutMode (historyRow fi i cv e) = pplns" "ph_blockHeight (historyRow fi i cv e) = fi_blockHeight fi"
    "ph_address (historyRow fi i cv e) = sn_address e" by (simp_all add: historyRow_def)
  have "payout_history ?db = payout_history db @ [historyRow fi i cv e]"
    using Cons.prems(2) row by (force simp: finalizeEntry_def insertHistory_def list_ex_iff)
  moreover have "payout_history (finalizeEntries now fi i cv es ?db) = payout_history ?db @ map (historyRow fi i cv) es"
    using Cons.prems calculation row by (intro Cons.IH) (auto simp: image_iff)
  ultimately show ?case by (simp add: finalizeEntries_def)
qed (simp add: finalizeEntries_def)

section \<open>The invariant\<close>

definition paidRows :: "HistoryRow list \<Rightarrow> string \<Rightarrow> int" where
  "paidRows history address =
     sum_list (map ph_paidSats (filter (\<lambda>h. ph_address h = address \<and> ph_rowType h = coinbaseRow) history))"

text \<open>The rows of a height are the entries of the snapshot that the row names.\<close>

definition paidFromSnapshot :: "PayoutTables \<Rightarrow> HistoryRow \<Rightarrow> bool" where
  "paidFromSnapshot db h \<longleftrightarrow>
     mset (map (\<lambda>h. (ph_payoutSnapshotId h, ph_address h, ph_paidSats h, ph_rowType h = coinbaseRow))
        (filter (\<lambda>h'. ph_blockHeight h' = ph_blockHeight h) (payout_history db)))
     = mset (map (\<lambda>e. (ph_payoutSnapshotId h, sn_address e, sn_payoutSats e, sn_includedInCoinbase e))
        (filter (\<lambda>e. sn_snapshotId e = ph_payoutSnapshotId h) (payout_snapshot_entry db)))"

definition ledger_ok :: "PayoutTables \<Rightarrow> bool" where
  "ledger_ok db \<longleftrightarrow> tables_ok db
     \<and> distinct (map (\<lambda>e. (sn_snapshotId e, sn_address e)) (payout_snapshot_entry db))
     \<and> list_all (\<lambda>e. sn_payoutMode e = pplns) (payout_snapshot_entry db)
     \<and> list_all (\<lambda>h. ph_payoutMode h = pplns \<and> ph_payoutSnapshotId h < nextSnapshotId db) (payout_history db)
     \<and> distinct (map (\<lambda>h. (ph_blockHeight h, ph_address h)) (payout_history db))
     \<and> (\<forall>a. paidOf (payout_balance db) a = paidRows (payout_history db) a)
     \<and> list_all (paidFromSnapshot db) (payout_history db)"

lemma created_ok:
  assumes "ledger_ok db"
  shows "ledger_ok (snd (createSnapshotForTemplate cfg env input db))"
proof (cases rule: create_cases [of cfg env input db])
  case (made row es)
  let ?i = "nextSnapshotId db" and ?db = "snd (createSnapshotForTemplate cfg env input db)"
  let ?new = "map (entryRow (sv_decimalOf env) ?i) es"
  have old: "\<And>e. e \<in> set (payout_snapshot_entry db) \<Longrightarrow> sn_snapshotId e < ?i"
    "\<And>h. h \<in> set (payout_history db) \<Longrightarrow> ph_payoutSnapshotId h < ?i"
    using assms by (auto simp: ledger_ok_def tables_ok_def list_all_iff)
  have "paidFromSnapshot ?db h" if "h \<in> set (payout_history db)" for h
  proof -
    have "filter (\<lambda>e. sn_snapshotId e = ph_payoutSnapshotId h) ?new = []"
      using old(2) [OF that] by (auto simp: filter_empty_conv)
    moreover have "paidFromSnapshot db h" using assms that by (simp add: ledger_ok_def list_all_iff)
    ultimately show ?thesis by (simp add: paidFromSnapshot_def made(1))
  qed
  moreover have "distinct (map (\<lambda>e. (sn_snapshotId e, sn_address e)) ?new)"
    using made(3) by (simp add: comp_def distinct_map inj_on_def)
  moreover have "(\<lambda>e. (sn_snapshotId e, sn_address e)) ` set (payout_snapshot_entry db)
      \<inter> (\<lambda>e. (sn_snapshotId e, sn_address e)) ` set ?new = {}" using old(1) by force
  ultimately show ?thesis using assms made(2)
    by (auto simp: ledger_ok_def tables_ok_def made(1) list_all_iff less_Suc_eq)
qed (use assms in simp)

lemma historyRow_sel [simp]:
  "ph_blockHeight (historyRow fi i cv e) = fi_blockHeight fi" "ph_payoutSnapshotId (historyRow fi i cv e) = i"
  "ph_payoutMode (historyRow fi i cv e) = pplns" "ph_address (historyRow fi i cv e) = sn_address e"
  "ph_paidSats (historyRow fi i cv e) = sn_payoutSats e"
  "ph_rowType (historyRow fi i cv e) = coinbaseRow \<longleftrightarrow> sn_includedInCoinbase e"
  by (simp_all add: historyRow_def)

lemma paidRows_new: "paidRows (history @ map (historyRow fi i cv) es) a
    = paidRows history a + sum_list (map outputSats (filter (\<lambda>e. sn_address e = a) es))"
proof -
  have "sum_list (map ph_paidSats (filter (\<lambda>h. ph_address h = a \<and> ph_rowType h = coinbaseRow) (map (historyRow fi i cv) es)))
      = sum_list (map outputSats (filter (\<lambda>e. sn_address e = a) es))"
    by (induction es) (auto simp: outputSats_def)
  then show ?thesis by (simp add: paidRows_def)
qed

text \<open>The entries of a snapshot as a block reads them.\<close>

lemma snapshotEntries_ok:
  assumes "ledger_ok db"
  shows "mset (snapshotEntries db i) = mset (filter (\<lambda>e. sn_snapshotId e = i) (payout_snapshot_entry db))"
    "distinct (map sn_address (snapshotEntries db i))"
proof -
  have "filter (\<lambda>e. sn_snapshotId e = i \<and> sn_payoutMode e = pplns) (payout_snapshot_entry db)
      = filter (\<lambda>e. sn_snapshotId e = i) (payout_snapshot_entry db)"
    using assms by (intro filter_cong) (auto simp: ledger_ok_def list_all_iff)
  then show ms: "mset (snapshotEntries db i) = mset (filter (\<lambda>e. sn_snapshotId e = i) (payout_snapshot_entry db))"
    by (simp only: snapshotEntries_def mset_js_sort)
  have "distinct (map (\<lambda>e. (sn_snapshotId e, sn_address e)) (filter (\<lambda>e. sn_snapshotId e = i) (payout_snapshot_entry db)))"
    using assms by (simp only: ledger_ok_def distinct_map_filter)
  then have "distinct (map sn_address (filter (\<lambda>e. sn_snapshotId e = i) (payout_snapshot_entry db)))"
    by (auto simp: distinct_map inj_on_def)
  then show "distinct (map sn_address (snapshotEntries db i))"
    using ms by (metis mset_map mset_eq_imp_distinct_iff)
qed

lemma finalized_ok:
  assumes ok: "ledger_ok db"
  shows "ledger_ok (snd (finalizeSnapshotForBlock cfg now conflict fi db))"
proof (cases rule: finalize_cases [of cfg now conflict fi db])
  case (paid i cv)
  let ?es = "snapshotEntries db i" and ?db = "snd (finalizeSnapshotForBlock cfg now conflict fi db)"
  note e = snapshotEntries_ok [OF ok, of i]
  have fresh: "ph_blockHeight h \<noteq> fi_blockHeight fi" if "h \<in> set (payout_history db)" for h
    using paid(2) that ok by (auto simp: list_ex_iff ledger_ok_def list_all_iff)
  have history: "payout_history ?db = payout_history db @ map (historyRow fi i cv) ?es"
    unfolding paid(1) using fresh by (intro finalizeEntries_history e(2)) auto
  have "distinct (map fst (payout_balance db))" using ok by (simp add: ledger_ok_def tables_ok_def)
  from finalizeEntries_spec [OF this e(2), of now fi i cv, folded paid(1)] ok
  have run: "distinct (map fst (payout_balance ?db))"
    "\<And>a. paidOf (payout_balance ?db) a = paidRows (payout_history db) a
        + sum_list (map outputSats (filter (\<lambda>e. sn_address e = a) ?es))"
    and same: "payout_snapshot ?db = payout_snapshot db" "payout_snapshot_entry ?db = payout_snapshot_entry db"
      "nextSnapshotId ?db = nextSnapshotId db"
    by (auto simp: Let_def ledger_ok_def sameBut_def dest: arg_cong [where f = payout_snapshot]
        arg_cong [where f = payout_snapshot_entry] arg_cong [where f = nextSnapshotId])
  have "i < nextSnapshotId db" if "x \<in> set ?es" for x
    using that ok mset_eq_setD [OF e(1)] by (auto simp: ledger_ok_def tables_ok_def list_all_iff)
  then have ids: "ph_payoutSnapshotId h < nextSnapshotId db" if "h \<in> set (payout_history ?db)" for h
    using that ok unfolding history by (auto simp: ledger_ok_def list_all_iff)
  have "distinct (map (\<lambda>h. (ph_blockHeight h, ph_address h)) (payout_history ?db))"
    using ok e(2) fresh unfolding history
    by (auto simp: ledger_ok_def comp_def distinct_map inj_on_def)
  moreover have "paidFromSnapshot ?db h" if h: "h \<in> set (payout_history ?db)" for h
  proof (cases "h \<in> set (payout_history db)")
    case True
    then have "filter (\<lambda>h'. ph_blockHeight h' = ph_blockHeight h) (map (historyRow fi i cv) ?es) = []"
      using fresh [OF True] by (auto simp: filter_empty_conv)
    moreover have "paidFromSnapshot db h" using True ok by (simp add: ledger_ok_def list_all_iff)
    ultimately show ?thesis unfolding paidFromSnapshot_def history same by simp
  next
    case False
    then have sel: "ph_blockHeight h = fi_blockHeight fi" "ph_payoutSnapshotId h = i" using h unfolding history by auto
    have "filter (\<lambda>h'. ph_blockHeight h' = fi_blockHeight fi) (payout_history ?db) = map (historyRow fi i cv) ?es"
      unfolding history using fresh by (simp add: filter_id_conv filter_empty_conv)
    then show ?thesis unfolding paidFromSnapshot_def sel same
      by (simp only: map_map comp_def historyRow_sel mset_map [of _ ?es] e(1)) (simp only: mset_map)
  qed
  ultimately show ?thesis
    using ok run ids same(1,2) by (auto simp: ledger_ok_def tables_ok_def list_all_iff history paidRows_new same(3))
qed (use ok in simp)

text \<open>
  A block sets a balance to what its snapshot foresaw, whatever the balance has become since: when another block
  was settled after the snapshot was made, what that block added is lost.
\<close>

lemma finalizeEntries_other:
  "distinct (map fst (payout_balance db)) \<Longrightarrow> a \<notin> sn_address ` set es \<Longrightarrow>
     balanceOf (payout_balance (finalizeEntries now fi i cv es db)) a = balanceOf (payout_balance db) a"
proof (induction es arbitrary: db)
  case (Cons e es)
  let ?db = "finalizeEntry now fi i cv e db"
  have "payout_balance ?db = upsertBalance now e (payout_balance db)" by (simp add: finalizeEntry_def)
  with Cons upsertBalance_spec(3,4) [OF Cons.prems(1), where now = now and e = e] show ?case
    by (auto simp: finalizeEntries_def)
qed (simp add: finalizeEntries_def)

lemma finalizeEntries_balance:
  assumes "distinct (map fst (payout_balance db))" "distinct (map sn_address es)" "e \<in> set es"
  shows "balanceOf (payout_balance (finalizeEntries now fi i cv es db)) (sn_address e) = sn_balanceAfterSats e"
  using assms
proof (induction es arbitrary: db)
  case (Cons x es)
  let ?db = "finalizeEntry now fi i cv x db"
  have b: "payout_balance ?db = upsertBalance now x (payout_balance db)" by (simp add: finalizeEntry_def)
  have d: "distinct (map fst (payout_balance ?db))" unfolding b by (rule upsertBalance_spec(3) [OF Cons.prems(1)])
  have run: "finalizeEntries now fi i cv (x # es) db = finalizeEntries now fi i cv es ?db" by (simp add: finalizeEntries_def)
  show ?case
  proof (cases "e \<in> set es")
    case True
    then show ?thesis unfolding run using Cons.prems(2) by (intro Cons.IH d) auto
  next
    case False
    then have "e = x" using Cons.prems(3) by simp
    moreover have "balanceOf (upsertBalance now x (payout_balance db)) (sn_address x) = sn_balanceAfterSats x"
      by (simp add: upsertBalance_def balanceOf_def Let_def update_conv')
    ultimately show ?thesis unfolding run using finalizeEntries_other [OF d, of "sn_address x" es] Cons.prems(2) b by simp
  qed
qed simp

lemma block_overwrites_balance:
  assumes "ledger_ok db" and fin: "finalizeSnapshotForBlock cfg now conflict fi db = (Finalized i n m, db')"
    and id: "fi_payoutSnapshotId fi = Some i" and "e \<in> set (snapshotEntries db i)"
  shows "balanceOf (payout_balance db') (sn_address e) = sn_balanceAfterSats e"
proof -
  obtain cv where "db' = finalizeEntries now fi i cv (snapshotEntries db i) db" using finalized_run [OF fin id] by blast
  then show ?thesis using finalizeEntries_balance [OF _ snapshotEntries_ok(2) [OF assms(1)] assms(4)] assms(1)
    by (simp add: ledger_ok_def tables_ok_def)
qed

section \<open>Histories\<close>

text \<open>Templates, blocks, and whatever happens to the tables of shares and rollups in between.\<close>

inductive ledger_history :: "PayoutTables \<Rightarrow> bool" where
  created: "ledger_history \<lparr>accepted_share_entity = [], share_rollup_batch = [], share_rollup_batch_summary = [],
     nextBatchId = 1, payout_snapshot = [], payout_snapshot_entry = [], payout_balance = [], payout_history = [],
     nextSnapshotId = 1\<rparr>"
| shares: "ledger_history db \<Longrightarrow> ledger_history (db\<lparr>accepted_share_entity := rows, share_rollup_batch := batches,
     share_rollup_batch_summary := summaries, nextBatchId := n\<rparr>)"
| template: "ledger_history db \<Longrightarrow> ledger_history (snd (createSnapshotForTemplate cfg env input db))"
| block: "ledger_history db \<Longrightarrow> ledger_history (snd (finalizeSnapshotForBlock cfg now conflict fi db))"

lemma ledger_history_ok: "ledger_history db \<Longrightarrow> ledger_ok db"
proof (induction rule: ledger_history.induct)
  case created
  show ?case by (simp add: ledger_ok_def tables_ok_def paidOf_def paidRows_def)
next
  case (shares db rows batches summaries n)
  then show ?case by (simp add: ledger_ok_def tables_ok_def list_all_iff paidFromSnapshot_def)
next
  case (template db cfg env input)
  from template.IH show ?case by (rule created_ok)
next
  case (block db cfg now conflict fi)
  from block.IH show ?case by (rule finalized_ok)
qed

text \<open>
  C5. In any history of templates, blocks and shares, with any configuration: the rows of a height are the entries
  of one snapshot, with its amounts, an address has at most one row for a height, and what an address was paid in
  all is the sum of its coinbase rows.
\<close>

theorem ledger_sound:
  assumes "ledger_history db"
  shows "list_all (paidFromSnapshot db) (payout_history db)
     \<and> distinct (map (\<lambda>h. (ph_blockHeight h, ph_address h)) (payout_history db))
     \<and> (\<forall>a. paidOf (payout_balance db) a = paidRows (payout_history db) a)"
  using ledger_history_ok [OF assms] by (simp add: ledger_ok_def)

text \<open>The concrete template and block of \<open>BlockLedger\<close> are such a history, with two rows.\<close>

lemma fair_tables_history: "ledger_history fair_tables"
  using ledger_history.shares [OF ledger_history.created, where rows = "[]" and
      batches = "share_rollup_batch fair_tables" and summaries = "share_rollup_batch_summary fair_tables" and n = 2]
  by (simp add: fair_tables_def)

lemma finalized_rows:
  assumes "finalizeSnapshotForBlock cfg now conflict fi db = (Finalized i n m, db')"
  shows "n = length (snapshotEntries db i) \<and> n \<noteq> 0"
  using assms by (auto simp: finalizeSnapshotForBlock_def Let_def split: if_splits option.splits)

theorem ledger_sound_witness:
  "\<exists>db h. h \<in> set (payout_history db) \<and> paidFromSnapshot db h
     \<and> paidOf (payout_balance db) ''alice'' = paidRows (payout_history db) ''alice''"
proof -
  from fair_run obtain snapshot db' db'' n m where
    run: "createSnapshotForTemplate fair_config fair_env fair_template fair_tables = (Inr (Some snapshot), db')"
      "finalizeSnapshotForBlock fair_config 0 False fair_block db' = (Finalized 1 n m, db'')" by blast
  have history': "ledger_history db'"
    using ledger_history.template [OF fair_tables_history, of fair_config fair_env fair_template] by (simp add: run(1))
  then have history: "ledger_history db''"
    using ledger_history.block [of db' fair_config 0 False fair_block] by (simp add: run(2))
  have "fi_payoutSnapshotId fair_block = Some 1" by (simp add: fair_block_def)
  from finalized_run [OF run(2) this] obtain cv where
    db'': "db'' = finalizeEntries 0 fair_block 1 cv (snapshotEntries db' 1) db'" "\<not> list_ex (\<lambda>h. ph_blockHeight h = fi_blockHeight fair_block
      \<and> ph_payoutMode h = pplns) (payout_history db')" by blast
  have ok: "ledger_ok db'" by (rule ledger_history_ok [OF history'])
  have "payout_history db'' = payout_history db' @ map (historyRow fair_block 1 cv) (snapshotEntries db' 1)"
    unfolding db''(1) using db''(2) by (intro finalizeEntries_history snapshotEntries_ok(2) [OF ok]) (auto simp: list_ex_iff)
  moreover have "snapshotEntries db' 1 \<noteq> []" using finalized_rows [OF run(2)] by auto
  ultimately obtain h where "h \<in> set (payout_history db'')" by (cases "snapshotEntries db' 1") auto
  with ledger_sound [OF history] show ?thesis by (auto simp: list_all_iff)
qed

end
