(* ===== verification/Spec2Isabelle.thy ===== *)
theory Spec2Isabelle
  imports StratumV1Credit Sv2Wire Extranonce SipHash PayoutCorrectness DatumMessages DatumCrypto
    StratumListeners MerklePaths DatumService StratumV2Channels TemplateSolutions DatumShares
    PayoutWindow LedgerHistory
begin

text \<open>
  A model of the Bitcoin mining pool \<open>public-pool\<close> (TypeScript, under \<open>src/src/\<close>), with the theorems
  that make its protocol and accounting core correct.

  The pool hands work to miners and judges what they return. Miners speak Stratum V1
  (\<open>models/StratumV1Client.ts\<close>), Stratum V2 (\<open>models/StratumV2Client.ts\<close> with \<open>models/sv2/\<close>) or come
  through a DATUM gateway (\<open>models/datum/\<close>). Templates of the node become jobs
  (\<open>services/stratum-v1-jobs.service.ts\<close>, \<open>models/MiningJob.ts\<close>); shares are judged against a target
  (\<open>utils/difficulty.utils.ts\<close>) that follows the rate of the miner (\<open>models/StratumV1ClientStatistics.ts\<close>);
  the coinbase of a job is divided among the workers (\<open>ORM/payout-snapshot/payout-distribution.ts\<close>).
\<close>

text \<open>
  The language.
  \<^item> \<open>Prelude\<close>: bytes are \<open>8 word\<close>, a \<open>Buffer\<close> is a list of them; every \<open>throw\<close> is an \<open>Inl\<close> of \<open>jserror\<close>.
    An integer number is an \<open>int\<close>, and the 32-bit operators (\<open>js_and\<close>, \<open>js_shl\<close>, \<open>js_ushr\<close>) convert as the
    language does. \<open>Diverges\<close> is the value of a call that never returns.
  \<^item> \<open>JsNumber\<close>, \<open>JsArith\<close>: a fractional number is a rational that binary64 can hold; \<open>fl\<close> rounds to nearest,
    ties to even, and \<open>js_num\<close> adds the infinities and NaN. Subnormal numbers and the sign of zero are
    left out.
  \<^item> \<open>JsList\<close>, \<open>Utf8\<close>: insertion-ordered \<open>Map\<close>s, stable sort, and \<open>Buffer.from\<close>/\<open>toString\<close> in UTF-8.
  \<^item> \<open>StateError\<close>: a handler is a function from a state to a result and a state. An exception keeps the
    changes made before it. The locale \<open>step_relation\<close> lifts a relation between states through the
    constructs, the locale \<open>guarded\<close> does it for an invariant that a closed connection may break.

  Stratum V2 on the wire.
  \<^item> \<open>BinaryCodec\<close> (\<open>models/sv2/sv2-binary-codec.ts\<close>): the reader with its offset, the growing writer.
    \<open>WireContract\<close> states what writer and reader owe each other as the locales \<open>wire_field\<close> and
    \<open>message_codec\<close>; \<open>WireFields\<close> shows it of every primitive.
  \<^item> \<open>Sv2Messages\<close>, \<open>Sv2ExtendedMessages\<close>, \<open>Sv2JdpMessages\<close>, \<open>Sv2TdpMessages\<close>: each message of the four
    protocols as a record with its serializer and deserializer, and an interpretation of \<open>message_codec\<close>.
  \<^item> \<open>Sv2Frame\<close> (\<open>models/sv2/sv2-frame.ts\<close>): headers, chunked encryption, the frame reader over TCP segments
    and the frame writer. The cipher is a parameter, with the law that two linked ends agree. \<open>Sv2Wire\<close>
    composes messages and frames: what one end sends is what the other end decodes.
  \<^item> \<open>Extranonce\<close> (\<open>models/sv2/sv2-extranonce-manager.ts\<close>), \<open>SipHash\<close> (\<open>models/sv2/sv2-siphash.ts\<close>): prefixes
    of channels are never shared; the implementation on 32-bit halves is SipHash-2-4.
\<close>

text \<open>
  DATUM (\<open>models/datum/\<close>), the protocol of gateways that make their own templates.
  \<^item> \<open>DatumCodec\<close>: 4-byte headers under a mask that changes with every encrypted frame (the feedback is
    MurmurHash3), the frame reader. \<open>DatumMessages\<close>: job validation, coinbase outputs, share submissions.
  \<^item> \<open>DatumCrypto\<close>: the handshake, nonces and channel frames, and the data event of a socket
    (\<open>services/datum.service.ts\<close>). libsodium is the parameter \<open>sodium\<close>; its law is that a box opens under the
    nonce and key it was made with. The two ends of a channel stay in step.
\<close>

text \<open>
  Work, shares and Stratum V1.
  \<^item> \<open>Difficulty\<close> (\<open>utils/\<close>): difficulty to target and back, the comparison of a hash with a target.
  \<^item> \<open>ClientStatistics\<close>: the cache of shares, the hash rate and the suggested difficulty. The recursion of
    \<open>nearestPowerOfTwo\<close> is a \<open>partial_function\<close>; it returns for every difficulty below $2^{31}$.
  \<^item> \<open>MiningJob\<close>: the coinbase of a job, its halves around the extranonce, the header of a submission, and
    the block that is sent to the node. bitcoinjs-lib's serialization is modelled for the blocks it builds
    here; SHA-256 and the address parser are parameters.
  \<^item> \<open>StratumJobs\<close>: the pipeline from templates to jobs, identifiers, expiry.
  \<^item> \<open>StratumMessages\<close> (\<open>models/stratum-messages/\<close>): requests as JSON values, the validation of each class.
  \<^item> \<open>StratumV1Client\<close>: one connection as a record, one definition per handler. The database, the node and
    the clock answer from the environment \<open>env\<close>; what the connection tells them is an \<open>effect\<close>.
    \<open>StratumV1Correctness\<close> holds the frame and account lemmas of the handlers, \<open>StratumV1Session\<close> the
    reachable states \<open>v1_reach\<close> and their invariant, \<open>StratumV1Shares\<close> what a share must have done to be
    recorded, \<open>StratumV1Credit\<close> the properties and a concrete run.
  \<^item> \<open>PayoutDistribution\<close>, \<open>PayoutCorrectness\<close>: the division of a coinbase in binary64 and the proof that
    no satoshi is created or lost although every share is rounded.
\<close>

text \<open>
  Stratum V2 and work that miners declare.
  \<^item> \<open>Sv2Service\<close> (\<open>services/stratum-v2.service.ts\<close>): the counter of channels and the prefixes that all
    connections share.
  \<^item> \<open>CustomWork\<close>, \<open>TemplateProvider\<close>, \<open>JobRegistry\<close> (\<open>services/custom-work.service.ts\<close>,
    \<open>services/template-provider.service.ts\<close>, \<open>services/sv2-job-declaration-registry.service.ts\<close>): the halves of
    a custom coinbase, the recent templates and every check of declared work against them, the tokens.
  \<^item> \<open>StratumV2Client\<close>: one connection as a record, from the Noise handshake (a parameter) over frames to one
    definition per handler; as for Stratum V1 the outside answers from the environment \<open>v2_env\<close> and is told
    things by a \<open>v2_effect\<close>. \<open>StratumV2Shares\<close> shows what a frame must have done for a share or a block to be
    handed on, and that good work is; \<open>StratumV2Channels\<close> puts connections on their shared service and shows
    that channels stay well-formed and never search the same coinbases.
  \<^item> \<open>JobDeclaration\<close> (\<open>services/sv2-job-declaration.service.ts\<close>): tokens, declarations, missing transactions
    and solutions of one job declaration connection. \<open>DatumService\<close> (\<open>services/datum.service.ts\<close>): one gateway
    above the channel of \<open>DatumCrypto\<close>. Both have the shape of \<open>StratumV2Client\<close>. \<open>DatumShares\<close> shows what a
    gateway can make the pool credit, and what its blocks do to the ledger of payouts.
  \<^item> \<open>TemplateDistribution\<close> (\<open>services/sv2-template-distribution.service.ts\<close>): templates, transactions and solved
    coinbases of one template distribution connection. \<open>TemplateSolutions\<close> shows that a client can only make the
    pool submit a block that pays what its template owes.
  \<^item> \<open>MerklePaths\<close>: a path that the pool has checked gives the merkle root of the whole block.
  \<^item> \<open>PayoutPorts\<close> (\<open>types/payout-mode.ts\<close>): which listening port pays how. \<open>StratumListeners\<close>
    (\<open>services/stratum-v1.service.ts\<close>): the listeners, the protocol of a new connection, backpressure as a
    refinement of a two-state machine, the end of a connection.
\<close>

text \<open>
  Accounting in the database. Tables are lists of rows, a statement is a computation on them, a transaction is
  one step and changes nothing when it throws.
  \<^item> \<open>ShareAccounting\<close> (\<open>ORM/share-accounting/share-accounting.service.ts\<close>): the queue in front of the table of
    shares, the job that rolls shares up into batches, the cache of summaries. \<open>ShareQueueCorrectness\<close>: no share
    that was taken is lost or reordered, and the shutdown returns. \<open>ShareRollupCorrectness\<close>: in every history a
    share is in exactly one batch.
  \<^item> \<open>PayoutSnapshots\<close> (\<open>ORM/payout-snapshot/payout-snapshot.service.ts\<close>): the window of batches, the snapshot of
    a template with the limit on its outputs, and the finalization of a block into balances and history.
    \<open>PayoutLedger\<close> shows what the limit keeps, \<open>BlockLedger\<close> follows a template to its block: no satoshi is
    created or lost. \<open>PayoutWindow\<close> shows what a window holds, \<open>LedgerHistory\<close> what every history of templates and
    blocks leaves in the ledger.
\<close>

text \<open>
  Bounds. The writer grows by doubling; the growth loop is a \<open>partial_function\<close>, and doubling
  always reaches the capacity asked for from the initial 256 bytes. The collision loop of the
  extranonce manager runs at most once per prefix. The loop that hands out residual satoshis is bounded by
  the residual. The other recursions are structural or end by a measure on the bytes left.

  Concurrency. A connection handles one message at a time from its start to its end; between two messages
  anything may happen to the shared state (templates, jobs, timers, other connections). Interleavings
  inside one handler at its \<open>await\<close>s are not modelled.

  Transactions of the database are taken one after another; interleavings under its isolation level are left out,
  except that a finalization may meet a conflict.

  Not modelled. The Noise handshake (native elliptic curves and ciphers), the figures of the accounting summaries
  and the high scores (SQL over materialized views), HTTP controllers, chat notifications, Redis and the node's
  RPC (libraries behind thin wrappers), listening sockets with their time-outs, and the migrations. Console
  output is left out everywhere.
\<close>

end
